(* ===== verification/Prelude.thy ===== *)
theory Prelude
  imports Main "HOL-Library.Word"
begin

text \<open>
  The shared vocabulary of the development: machine integers and byte strings at
  their Go widths, the string functions of the Go package \<open>strings\<close> that the
  runtime calls (on byte sequences, which is what a Go \<open>string\<close> is), big-endian
  integer encoding, and the generic lemmas every component uses.

  The fact collections: \<open>go_string\<close> holds the rewrite rules of the string
  functions, \<open>wire\<close> the definitions of the canonical encoders.
\<close>

named_theorems go_string "rewrite rules of the modelled string functions"
named_theorems wire "definitions of the canonical byte encoders"

unbundle bit_operations_syntax

section \<open>Machine types\<close>

type_synonym u8 = "8 word"
type_synonym u32 = "32 word"
type_synonym u64 = "64 word"
type_synonym i64 = "64 word"
type_synonym bytes = "8 word list"
type_synonym hash32 = "256 word"
type_synonym nonce16 = "128 word"

text \<open>The low half of a list of distinct positions determines a word: bytes of a
  word, most significant first.\<close>

definition be_bytes :: "nat \<Rightarrow> 'a::len word \<Rightarrow> bytes" where
  "be_bytes n w = map (\<lambda>i. ucast (drop_bit (8 * (n - 1 - i)) w)) [0..<n]"

lemma length_be_bytes [simp]: "length (be_bytes n w) = n"
  by (simp add: be_bytes_def)

lemma be_bytes_nth:
  "i < n \<Longrightarrow> be_bytes n w ! i = ucast (drop_bit (8 * (n - 1 - i)) w)"
  by (simp add: be_bytes_def)

lemma bit_be_bytes:
  assumes "k < 8 * n"
  shows "bit (be_bytes n w ! (n - 1 - k div 8)) (k mod 8) = bit w k"
proof -
  have d: "k div 8 < n" using assms by (simp add: less_mult_imp_div_less mult.commute)
  then have "n - 1 - (n - 1 - k div 8) = k div 8" by simp
  with d have "be_bytes n w ! (n - 1 - k div 8) = ucast (drop_bit (8 * (k div 8)) w)"
    by (simp add: be_bytes_nth)
  moreover have "8 * (k div 8) + k mod 8 = k" by simp
  ultimately show ?thesis
    by (simp add: bit_ucast_iff bit_drop_bit_eq)
qed

lemma be_bytes_inj:
  fixes w v :: "'a::len word"
  assumes eq: "be_bytes n w = be_bytes n v" and "LENGTH('a) \<le> 8 * n"
  shows "w = v"
proof (rule bit_word_eqI)
  fix k assume "k < LENGTH('a)"
  with assms(2) have "k < 8 * n" by simp
  with bit_be_bytes [of k n w] bit_be_bytes [of k n v] eq show "bit w k = bit v k" by simp
qed

lemma be_bytes_eq_iff:
  "LENGTH('a) \<le> 8 * n \<Longrightarrow> (be_bytes n (w :: 'a::len word) = be_bytes n v) = (w = v)"
  using be_bytes_inj by blast

text \<open>A 32-bit length of a Go slice: \<open>uint32(len(b))\<close> truncates.\<close>

definition len32 :: "'a list \<Rightarrow> u32" where
  "len32 xs = word_of_nat (length xs)"

lemma len32_eq:
  assumes "len32 xs = len32 ys" and "length xs < 2 ^ 32" and "length ys < 2 ^ 32"
  shows "length xs = length ys"
  using assms unfolding len32_def
  by (simp add: word_of_nat_eq_iff take_bit_nat_eq_self)

section \<open>Byte strings\<close>

text \<open>\<open>[]byte(s)\<close>: a Go string is its bytes.\<close>

definition str_bytes :: "string \<Rightarrow> bytes" where
  "str_bytes s = map of_char s"

lemma of_char_u8_eq: "(of_char c = (of_char d :: u8)) = (c = d)"
proof
  assume eq: "of_char c = (of_char d :: u8)"
  have b: "take_bit 8 (of_char e :: nat) = of_char e" for e
    by (rule take_bit_nat_eq_self) simp
  from eq have "word_of_nat (of_char c) = (word_of_nat (of_char d) :: u8)"
    by (simp only: of_nat_of_char)
  then have "(of_char c :: nat) = of_char d"
    by (simp only: word_of_nat_eq_iff len_num1 b len_of_numeral_defs) (simp add: b)
  then show "c = d" by simp
qed simp

lemma length_str_bytes [simp]: "length (str_bytes s) = length s"
  by (simp add: str_bytes_def)

lemma str_bytes_eq [simp]: "(str_bytes s = str_bytes t) = (s = t)"
  by (simp add: str_bytes_def inj_map_eq_map inj_def of_char_u8_eq)

section \<open>The string functions of the Go library that the runtime calls\<close>

text \<open>\<open>strings.HasPrefix\<close>, \<open>strings.TrimPrefix\<close>, \<open>strings.HasSuffix\<close>,
  \<open>strings.TrimSuffix\<close>.\<close>

definition has_prefix :: "string \<Rightarrow> string \<Rightarrow> bool" where
  "has_prefix s p = (take (length p) s = p)"

definition trim_prefix :: "string \<Rightarrow> string \<Rightarrow> string" where
  "trim_prefix s p = (if has_prefix s p then drop (length p) s else s)"

definition has_suffix :: "string \<Rightarrow> string \<Rightarrow> bool" where
  "has_suffix s p = has_prefix (rev s) (rev p)"

definition trim_suffix :: "string \<Rightarrow> string \<Rightarrow> string" where
  "trim_suffix s p = (if has_suffix s p then take (length s - length p) s else s)"

text \<open>\<open>strings.Cut\<close> with a one-byte separator: the parts before and after the first
  occurrence, \<open>None\<close> when there is none.\<close>

fun cut :: "char \<Rightarrow> string \<Rightarrow> (string \<times> string) option" where
  "cut c [] = None"
| "cut c (x # xs) =
     (if x = c then Some ([], xs)
      else map_option (\<lambda>(a, b). (x # a, b)) (cut c xs))"

text \<open>\<open>strings.Split\<close> with a one-byte separator: never empty.\<close>

fun split_on :: "char \<Rightarrow> string \<Rightarrow> string list" where
  "split_on c [] = [[]]"
| "split_on c (x # xs) =
     (if x = c then [] # split_on c xs
      else (case split_on c xs of [] \<Rightarrow> [[x]] | p # ps \<Rightarrow> (x # p) # ps))"

text \<open>\<open>strings.ToLower\<close> and \<open>strings.ToUpper\<close> on ASCII; the runtime only applies them
  to strings it knows to be ASCII (hexadecimal digits, state names).\<close>

definition ascii_lower :: "char \<Rightarrow> char" where
  "ascii_lower c =
     (if 65 \<le> (of_char c :: nat) \<and> (of_char c :: nat) \<le> 90 then char_of (of_char c + 32 :: nat) else c)"

definition ascii_upper :: "char \<Rightarrow> char" where
  "ascii_upper c =
     (if 97 \<le> (of_char c :: nat) \<and> (of_char c :: nat) \<le> 122 then char_of (of_char c - 32 :: nat) else c)"

text \<open>\<open>strings.TrimSpace\<close> strips the Unicode \<open>White_Space\<close> code points at both ends.
  On bytes these are six ASCII characters and the UTF-8 sequences of U+0085, U+00A0,
  U+1680, U+2000 to U+200A, U+2028, U+2029, U+202F, U+205F and U+3000.  A byte
  sequence decodes (from its front or from its back) to one of these code points
  exactly when it starts, or ends, with the sequence.\<close>

definition ws_ascii :: "string list" where
  "ws_ascii = [[CHR 0x20], [CHR 0x09], [CHR 0x0A], [CHR 0x0B], [CHR 0x0C], [CHR 0x0D]]"

definition ws_unicode :: "string list" where
  "ws_unicode =
    [[CHR 0xC2, CHR 0x85], [CHR 0xC2, CHR 0xA0], [CHR 0xE1, CHR 0x9A, CHR 0x80],
     [CHR 0xE2, CHR 0x80, CHR 0x80], [CHR 0xE2, CHR 0x80, CHR 0x81],
     [CHR 0xE2, CHR 0x80, CHR 0x82], [CHR 0xE2, CHR 0x80, CHR 0x83],
     [CHR 0xE2, CHR 0x80, CHR 0x84], [CHR 0xE2, CHR 0x80, CHR 0x85],
     [CHR 0xE2, CHR 0x80, CHR 0x86], [CHR 0xE2, CHR 0x80, CHR 0x87],
     [CHR 0xE2, CHR 0x80, CHR 0x88], [CHR 0xE2, CHR 0x80, CHR 0x89],
     [CHR 0xE2, CHR 0x80, CHR 0x8A], [CHR 0xE2, CHR 0x80, CHR 0xA8],
     [CHR 0xE2, CHR 0x80, CHR 0xA9], [CHR 0xE2, CHR 0x80, CHR 0xAF],
     [CHR 0xE2, CHR 0x81, CHR 0x9F], [CHR 0xE3, CHR 0x80, CHR 0x80]]"

definition ws_seqs :: "string list" where
  "ws_seqs = ws_ascii @ ws_unicode"

definition lead_ws :: "string list \<Rightarrow> string \<Rightarrow> nat" where
  "lead_ws ws s = (case List.find (has_prefix s) ws of None \<Rightarrow> 0 | Some w \<Rightarrow> length w)"

function strip_lead :: "string list \<Rightarrow> string \<Rightarrow> string" where
  "strip_lead ws s = (if s = [] \<or> lead_ws ws s = 0 then s else strip_lead ws (drop (lead_ws ws s) s))"
  by pat_completeness auto
termination
  by (relation "measure (\<lambda>(ws, s). length s)") auto

declare strip_lead.simps [simp del]

definition trim_space :: "string \<Rightarrow> string" where
  "trim_space s = rev (strip_lead (map rev ws_seqs) (rev (strip_lead ws_seqs s)))"

text \<open>\<open>strings.TrimSpace(s) == ""\<close>, the runtime's test for a blank field.\<close>

definition blank :: "string \<Rightarrow> bool" where
  "blank s = (trim_space s = [])"

subsection \<open>Lemmas: prefixes, cutting and splitting\<close>

lemma has_prefix_append [go_string, simp]: "has_prefix (p @ s) p"
  by (simp add: has_prefix_def)

lemma has_prefix_iff: "has_prefix s p \<longleftrightarrow> (\<exists>r. s = p @ r)"
  by (metis append_take_drop_id has_prefix_append has_prefix_def)

lemma trim_prefix_append [go_string, simp]: "trim_prefix (p @ s) p = s"
  by (simp add: trim_prefix_def)

lemma cut_none: "cut c s = None \<longleftrightarrow> c \<notin> set s"
  by (induction s) auto

lemma cut_append [go_string]: "c \<notin> set a \<Longrightarrow> cut c (a @ c # b) = Some (a, b)"
  by (induction a) auto

lemma cut_some: "cut c s = Some (a, b) \<Longrightarrow> s = a @ c # b \<and> c \<notin> set a"
proof (induction s arbitrary: a)
  case (Cons x xs)
  show ?case
  proof (cases "x = c")
    case True
    with Cons.prems show ?thesis by simp
  next
    case False
    with Cons.prems obtain a' where "cut c xs = Some (a', b)" and "a = x # a'"
      by (auto simp: map_option_case split: option.splits)
    with Cons.IH False show ?thesis by simp
  qed
qed simp

lemma split_on_nonempty [simp]: "split_on c s \<noteq> []"
  by (induction s) (auto split: list.splits)

lemma split_on_no_sep [go_string]: "c \<notin> set s \<Longrightarrow> split_on c s = [s]"
  by (induction s) auto

lemma split_on_append [go_string]: "c \<notin> set a \<Longrightarrow> split_on c (a @ c # b) = a # split_on c b"
  by (induction a) auto

lemma split_on_parts_no_sep: "p \<in> set (split_on c s) \<Longrightarrow> c \<notin> set p"
  by (induction s arbitrary: p) (auto split: if_splits list.splits)

lemma count_list_one_cut:
  assumes "count_list s c = 1"
  obtains a b where "cut c s = Some (a, b)" and "c \<notin> set a" and "c \<notin> set b"
    and "s = a @ c # b"
proof -
  from assms have "c \<in> set s" by (metis count_list_0_iff zero_neq_one)
  then obtain a b where s: "s = a @ c # b" and a: "c \<notin> set a"
    by (metis split_list_first)
  with assms have "count_list b c = 0" by simp
  then have "c \<notin> set b" by (simp add: count_list_0_iff)
  with s a that show thesis by (simp add: cut_append)
qed

subsection \<open>Lemmas: trimming\<close>

text \<open>A string that no white-space sequence starts is left alone by \<open>strip_lead\<close>, and
  what \<open>strip_lead\<close> returns is such a string.\<close>

definition no_lead :: "string list \<Rightarrow> string \<Rightarrow> bool" where
  "no_lead ws s = (\<forall>w \<in> set ws. \<not> has_prefix s w)"

lemma lead_ws_no_lead: "no_lead ws s \<Longrightarrow> lead_ws ws s = 0"
  by (auto simp: lead_ws_def no_lead_def find_None_iff split: option.splits)
     (metis find_Some_iff nth_mem)

lemma lead_ws_zero: "[] \<notin> set ws \<Longrightarrow> lead_ws ws s = 0 \<Longrightarrow> no_lead ws s"
  by (auto simp: lead_ws_def no_lead_def find_None_iff split: option.splits)
     (metis find_Some_iff nth_mem)

lemma no_lead_strip: "no_lead ws s \<Longrightarrow> strip_lead ws s = s"
  by (simp add: strip_lead.simps [of ws s] lead_ws_no_lead)

lemma no_lead_Nil: "[] \<notin> set ws \<Longrightarrow> no_lead ws []"
  by (auto simp: no_lead_def has_prefix_def)

lemma strip_no_lead: "[] \<notin> set ws \<Longrightarrow> no_lead ws (strip_lead ws s)"
proof (induction ws s rule: strip_lead.induct)
  case (1 ws s)
  show ?case
  proof (cases "s = [] \<or> lead_ws ws s = 0")
    case True
    then have "strip_lead ws s = s" by (subst strip_lead.simps) auto
    with True 1 show ?thesis by (auto intro: lead_ws_zero no_lead_Nil)
  next
    case False
    with 1 show ?thesis by (subst strip_lead.simps) auto
  qed
qed

lemma strip_lead_suffix: "\<exists>u. s = u @ strip_lead ws s"
proof (induction ws s rule: strip_lead.induct)
  case (1 ws s)
  show ?case
  proof (cases "s = [] \<or> lead_ws ws s = 0")
    case True
    then show ?thesis by (subst strip_lead.simps) auto
  next
    case False
    with 1 obtain u where u: "drop (lead_ws ws s) s = u @ strip_lead ws (drop (lead_ws ws s) s)"
      by blast
    have "s = take (lead_ws ws s) s @ drop (lead_ws ws s) s" by simp
    also have "\<dots> = (take (lead_ws ws s) s @ u) @ strip_lead ws s"
      using False by (subst u, subst strip_lead.simps [of ws s]) simp
    finally show ?thesis by blast
  qed
qed

lemma no_lead_prefix: "no_lead ws (a @ b) \<Longrightarrow> no_lead ws a"
  by (auto simp: no_lead_def has_prefix_iff)

lemma no_lead_sep:
  assumes "no_lead ws a" and "\<forall>w \<in> set ws. c \<notin> set w" and "[] \<notin> set ws"
  shows "no_lead ws (a @ c # r)"
proof -
  have False if w: "w \<in> set ws" and "a @ c # r = w @ u" for w u
  proof -
    from that(2) consider k where "a @ k = w" "c # r = k @ u" | k where "a = w @ k" "k @ c # r = u"
      by (auto simp: append_eq_append_conv2)
    then show False
    proof cases
      case 1
      then show False
        using assms w by (cases k) (auto simp: no_lead_def has_prefix_def)
    next
      case 2
      then show False using assms(1) w by (auto simp: no_lead_def has_prefix_def)
    qed
  qed
  then show ?thesis by (auto simp: no_lead_def has_prefix_iff)
qed

definition trimmed :: "string \<Rightarrow> bool" where
  "trimmed s = (no_lead ws_seqs s \<and> no_lead (map rev ws_seqs) (rev s))"

lemma ws_seqs_nonempty [simp]: "[] \<notin> set ws_seqs" "[] \<notin> rev ` set ws_seqs"
  by (simp_all add: ws_seqs_def ws_ascii_def ws_unicode_def)

lemma trim_space_trimmed [go_string]: "trimmed s \<Longrightarrow> trim_space s = s"
  by (simp add: trimmed_def trim_space_def no_lead_strip)

lemma trimmed_trim_space [go_string]: "trimmed (trim_space s)"
proof -
  let ?l = "strip_lead ws_seqs s" and ?r = "map rev ws_seqs"
  obtain u where "rev ?l = u @ strip_lead ?r (rev ?l)"
    using strip_lead_suffix by blast
  then have "?l = trim_space s @ rev u"
    by (metis rev_append rev_rev_ident trim_space_def)
  moreover have "no_lead ws_seqs ?l" by (simp add: strip_no_lead)
  ultimately have "no_lead ws_seqs (trim_space s)" by (metis no_lead_prefix)
  moreover have "no_lead ?r (rev (trim_space s))"
    by (simp add: trim_space_def strip_no_lead)
  ultimately show ?thesis by (simp add: trimmed_def)
qed

lemma trim_space_idem [simp, go_string]: "trim_space (trim_space s) = trim_space s"
  by (simp add: trimmed_trim_space trim_space_trimmed)

lemma trimmed_Nil [simp]: "trimmed []"
  by (simp add: trimmed_def no_lead_Nil)

lemma blank_iff [simp]: "blank [] = True" "trimmed s \<Longrightarrow> blank s = (s = [])"
  by (simp_all add: blank_def trim_space_trimmed)

lemma set_trim_space: "set (trim_space s) \<subseteq> set s"
proof -
  obtain u v where "s = u @ strip_lead ws_seqs s"
    and "rev (strip_lead ws_seqs s) = v @ strip_lead (map rev ws_seqs) (rev (strip_lead ws_seqs s))"
    using strip_lead_suffix by meson
  then have "set (strip_lead ws_seqs s) \<subseteq> set s"
    and "set (trim_space s) \<subseteq> set (rev (strip_lead ws_seqs s))"
    by (metis set_append Un_upper2, metis set_append Un_upper2 set_rev trim_space_def)
  then show ?thesis by simp
qed

text \<open>Characters that occur in no white-space sequence.\<close>

definition solid :: "char \<Rightarrow> bool" where
  "solid c = (\<forall>w \<in> set ws_seqs. c \<notin> set w)"

lemma trimmed_join:
  assumes "trimmed a" and "trimmed b" and "a \<noteq> []" and "b \<noteq> []" and "solid c"
  shows "trimmed (a @ c # b)"
proof -
  have "\<forall>w \<in> set ws_seqs. c \<notin> set w" and "\<forall>w \<in> set (map rev ws_seqs). c \<notin> set w"
    using assms(5) by (auto simp: solid_def)
  with assms show ?thesis
    unfolding trimmed_def
    using no_lead_sep [of ws_seqs a c b] no_lead_sep [of "map rev ws_seqs" "rev b" c "rev a"]
    by simp
qed

section \<open>Transition systems\<close>

text \<open>The contract of every interleaved component: an invariant that holds initially and
  that each step keeps.\<close>

locale transition_system =
  fixes initial :: "'s \<Rightarrow> bool" and step :: "'s \<Rightarrow> 's \<Rightarrow> bool" and inv :: "'s \<Rightarrow> bool"
  assumes initially: "initial s \<Longrightarrow> inv s"
    and kept: "step s t \<Longrightarrow> inv s \<Longrightarrow> inv t"
begin

lemma steps_inv: "step\<^sup>*\<^sup>* s t \<Longrightarrow> inv s \<Longrightarrow> inv t"
  by (induction rule: rtranclp_induct) (auto intro: kept)

lemma reachable_inv: "initial s \<Longrightarrow> step\<^sup>*\<^sup>* s t \<Longrightarrow> inv t"
  using initially steps_inv by blast

text \<open>A relation between a state and each of its successors, reflexive and transitive on
  states that satisfy the invariant, relates a state to everything it reaches.\<close>

lemma steps_mono:
  assumes "step\<^sup>*\<^sup>* s t" and "inv s" and "\<And>x. R x x"
    and "\<And>x y z. R x y \<Longrightarrow> R y z \<Longrightarrow> R x z" and "\<And>x y. inv x \<Longrightarrow> step x y \<Longrightarrow> R x y"
  shows "R s t"
  using assms(1)
proof (induction rule: rtranclp_induct)
  case (step y z)
  with steps_inv assms(2) have "inv y" by blast
  with step assms(4,5) show ?case by blast
qed (rule assms(3))

end

end
