(* ===== verification/ErrorModel.thy ===== *)
theory ErrorModel
  imports Prelude
begin

text \<open>
  \<open>axon/invocation/error.go\<close>: the seven error kinds, the error record, its
  constructors and decorators, the rendering \<open>Error()\<close> and the gRPC code table.

  A Go call that can fail is a value of \<open>'a result\<close>: \<open>Ok\<close> for a nil error,
  \<open>Fail\<close> for a returned error (either an \<open>*AxonError\<close> or an error made by
  \<open>fmt.Errorf\<close>), \<open>Panic\<close> for a Go panic that leaves the function.
\<close>

section \<open>Kinds and the error record\<close>

datatype axon_error_kind =
    KindCancelled
  | KindDeadlineExceeded
  | KindUnavailable
  | KindInvalidArgument
  | KindResourceExhausted
  | KindPermissionDenied
  | KindInternal

fun kind_string :: "axon_error_kind \<Rightarrow> string" where
  "kind_string KindCancelled = ''cancelled''"
| "kind_string KindDeadlineExceeded = ''deadline_exceeded''"
| "kind_string KindUnavailable = ''unavailable''"
| "kind_string KindInvalidArgument = ''invalid_argument''"
| "kind_string KindResourceExhausted = ''resource_exhausted''"
| "kind_string KindPermissionDenied = ''permission_denied''"
| "kind_string KindInternal = ''internal''"

record axon_error =
  ae_kind :: axon_error_kind
  ae_reason :: string
  ae_message :: string
  ae_invocation_id :: string
  ae_retry_after_ms :: i64
  ae_cause_chain :: "string list"

datatype go_error = AxonErr axon_error | PlainErr string

datatype 'a result = Ok 'a | Fail go_error | Panic go_error

fun bindR :: "'a result \<Rightarrow> ('a \<Rightarrow> 'b result) \<Rightarrow> 'b result" where
  "bindR (Ok x) f = f x"
| "bindR (Fail e) f = Fail e"
| "bindR (Panic e) f = Panic e"

lemma bindR_Ok_iff: "bindR r f = Ok y \<longleftrightarrow> (\<exists>x. r = Ok x \<and> f x = Ok y)"
  by (cases r) auto

lemma bindR_Fail_iff: "bindR r f = Fail e \<longleftrightarrow> r = Fail e \<or> (\<exists>x. r = Ok x \<and> f x = Fail e)"
  by (cases r) auto

lemma bindR_Panic_iff: "bindR r f = Panic e \<longleftrightarrow> r = Panic e \<or> (\<exists>x. r = Ok x \<and> f x = Panic e)"
  by (cases r) auto

lemma bindR_assoc: "bindR (bindR r f) g = bindR r (\<lambda>x. bindR (f x) g)"
  by (cases r) auto

fun is_ok :: "'a result \<Rightarrow> bool" where
  "is_ok (Ok x) = True"
| "is_ok (Fail e) = False"
| "is_ok (Panic e) = False"

fun is_panic :: "'a result \<Rightarrow> bool" where
  "is_panic (Ok x) = False"
| "is_panic (Fail e) = False"
| "is_panic (Panic e) = True"

lemma is_ok_iff: "is_ok r \<longleftrightarrow> (\<exists>x. r = Ok x)"
  by (cases r) auto

text \<open>\<open>NewX\<close>-style wrappers turn an error into a panic (\<open>if err != nil \{ panic(err) \}\<close>).\<close>

fun must :: "'a result \<Rightarrow> 'a result" where
  "must (Ok x) = Ok x"
| "must (Fail e) = Panic e"
| "must (Panic e) = Panic e"

section \<open>Constructors and decorators\<close>

definition new_err :: "axon_error_kind \<Rightarrow> string \<Rightarrow> axon_error" where
  "new_err k reason =
     \<lparr>ae_kind = k, ae_reason = reason, ae_message = [], ae_invocation_id = [],
      ae_retry_after_ms = 0, ae_cause_chain = []\<rparr>"

definition ErrCancelled :: "string \<Rightarrow> axon_error" where
  "ErrCancelled reason = new_err KindCancelled reason"

definition ErrDeadlineExceeded :: "string \<Rightarrow> axon_error" where
  "ErrDeadlineExceeded reason = new_err KindDeadlineExceeded reason"

definition ErrUnavailable :: "string \<Rightarrow> axon_error" where
  "ErrUnavailable reason = new_err KindUnavailable reason"

definition ErrInvalidArgument :: "string \<Rightarrow> axon_error" where
  "ErrInvalidArgument reason = new_err KindInvalidArgument reason"

definition ErrResourceExhausted :: "string \<Rightarrow> axon_error" where
  "ErrResourceExhausted reason = new_err KindResourceExhausted reason"

definition ErrPermissionDenied :: "string \<Rightarrow> axon_error" where
  "ErrPermissionDenied reason = new_err KindPermissionDenied reason"

definition ErrInternal :: "string \<Rightarrow> axon_error" where
  "ErrInternal reason = new_err KindInternal reason"

definition WithInvocationID :: "axon_error \<Rightarrow> string \<Rightarrow> axon_error" where
  "WithInvocationID e i = e\<lparr>ae_invocation_id := i\<rparr>"

definition WithRetryAfterMs :: "axon_error \<Rightarrow> i64 \<Rightarrow> axon_error" where
  "WithRetryAfterMs e ms = e\<lparr>ae_retry_after_ms := ms\<rparr>"

definition Retriable :: "axon_error \<Rightarrow> bool" where
  "Retriable e = (ae_kind e = KindUnavailable \<or> ae_kind e = KindResourceExhausted)"

abbreviation invalid_arg :: "string \<Rightarrow> 'a result" where
  "invalid_arg reason \<equiv> Fail (AxonErr (ErrInvalidArgument reason))"

lemmas err_defs = ErrCancelled_def ErrDeadlineExceeded_def ErrUnavailable_def
  ErrInvalidArgument_def ErrResourceExhausted_def ErrPermissionDenied_def ErrInternal_def
  WithInvocationID_def WithRetryAfterMs_def new_err_def

lemma ErrInvalidArgument_eq [simp]: "(ErrInvalidArgument a = ErrInvalidArgument b) = (a = b)"
  by (simp add: err_defs)

section \<open>Rendering\<close>

text \<open>\<open>fmt.Sprintf("%d", n)\<close>.\<close>

fun dec_nat :: "nat \<Rightarrow> string" where
  "dec_nat n = (if n < 10 then [char_of (48 + n)] else dec_nat (n div 10) @ [char_of (48 + n mod 10)])"

declare dec_nat.simps [simp del]

definition dec_int :: "int \<Rightarrow> string" where
  "dec_int i = (if i < 0 then CHR ''-'' # dec_nat (nat (- i)) else dec_nat (nat i))"

text \<open>\<open>(*AxonError).Error\<close>.  The argument \<open>quote\<close> is the verb \<open>%q\<close> of \<open>fmt\<close>, which
  consults the Unicode tables of the Go release.\<close>

definition error_string :: "(string \<Rightarrow> string) \<Rightarrow> axon_error \<Rightarrow> string" where
  "error_string quote e =
     kind_string (ae_kind e)
     @ (if ae_reason e \<noteq> [] then '' reason='' @ ae_reason e else [])
     @ (if ae_invocation_id e \<noteq> [] then '' invocation_id='' @ ae_invocation_id e else [])
     @ (if ae_retry_after_ms e \<noteq> 0
        then '' retry_after_ms='' @ dec_int (sint (ae_retry_after_ms e)) else [])
     @ (if ae_message e \<noteq> [] then '' message='' @ quote (ae_message e) else [])"

definition go_error_string :: "(string \<Rightarrow> string) \<Rightarrow> go_error \<Rightarrow> string" where
  "go_error_string quote e = (case e of AxonErr a \<Rightarrow> error_string quote a | PlainErr s \<Rightarrow> s)"

section \<open>The gRPC code table\<close>

definition MapProtoCode :: "int \<Rightarrow> axon_error_kind \<times> string" where
  "MapProtoCode code =
     (if code = 1 then (KindCancelled, [])
      else if code = 3 then (KindInvalidArgument, [])
      else if code = 4 then (KindDeadlineExceeded, [])
      else if code = 7 then (KindPermissionDenied, [])
      else if code = 8 then (KindResourceExhausted, [])
      else if code = 13 then (KindInternal, [])
      else if code = 14 then (KindUnavailable, [])
      else (KindInternal, ''unknown_error_code''))"

text \<open>The abstract table: a bijection between the kinds and the seven known codes.\<close>

fun proto_code :: "axon_error_kind \<Rightarrow> int" where
  "proto_code KindCancelled = 1"
| "proto_code KindInvalidArgument = 3"
| "proto_code KindDeadlineExceeded = 4"
| "proto_code KindPermissionDenied = 7"
| "proto_code KindResourceExhausted = 8"
| "proto_code KindInternal = 13"
| "proto_code KindUnavailable = 14"

lemma MapProtoCode_proto_code: "MapProtoCode (proto_code k) = (k, [])"
  by (cases k) (simp_all add: MapProtoCode_def)

lemma MapProtoCode_known: "MapProtoCode c = (k, []) \<Longrightarrow> c = proto_code k"
  by (auto simp: MapProtoCode_def split: if_splits)

section \<open>The platform the runtime is linked against\<close>

text \<open>
  What the modelled code takes from outside \<open>src/\<close>: the hash \<open>crypto/sha256\<close>, the
  verification and signing functions of \<open>crypto/ed25519\<close> (key, message, signature) and
  the verb \<open>%q\<close>.  Every definition that uses one of them takes the platform as its
  argument, so every theorem holds for all of them; where a theorem needs a law of
  Ed25519 it states it.
\<close>

record platform =
  pf_sha256 :: "bytes \<Rightarrow> hash32"
  pf_verify :: "bytes \<Rightarrow> bytes \<Rightarrow> bytes \<Rightarrow> bool"
  pf_sign :: "bytes \<Rightarrow> bytes \<Rightarrow> bytes"
  pf_public :: "bytes \<Rightarrow> bytes"
  pf_quote :: "string \<Rightarrow> string"

end
