(* ===== verification/Identity.thy ===== *)
theory Identity
  imports ErrorModel
begin

text \<open>
  The identity part of \<open>axon/invocation/axiom.go\<close>: URA profiles, agent and subject
  identities, entity references and their kinds, and the grammar of ability
  descriptor references \<open><ability-ura>@<version>#<digest>!<action>\<close> with its
  canonical spelling.
\<close>

section \<open>Profiles and identities\<close>

text \<open>\<open>UraProfile\<close> is a string type; its two constants are named here.\<close>

type_synonym ura_profile = string

definition ProfileStrictV2 :: ura_profile where
  "ProfileStrictV2 = ''axon-strict-v2''"

definition ProfileWebSafeV2 :: ura_profile where
  "ProfileWebSafeV2 = ''web-safe-v2''"

definition ParseUraProfile :: "string \<Rightarrow> ura_profile result" where
  "ParseUraProfile s =
     (if s = ProfileStrictV2 \<or> s = ProfileWebSafeV2 then Ok s
      else invalid_arg (''unknown_ura_profile:'' @ s))"

record agent_identity =
  ai_ura :: string
  ai_profile :: ura_profile

record subject_identity =
  si_ura :: string
  si_profile :: ura_profile

definition NewAgentIdentity :: "string \<Rightarrow> ura_profile \<Rightarrow> agent_identity" where
  "NewAgentIdentity ura profile = \<lparr>ai_ura = ura, ai_profile = profile\<rparr>"

definition NewSubjectIdentity :: "string \<Rightarrow> ura_profile \<Rightarrow> subject_identity" where
  "NewSubjectIdentity ura profile = \<lparr>si_ura = ura, si_profile = profile\<rparr>"

definition SubjectFromCallee :: "agent_identity \<Rightarrow> subject_identity" where
  "SubjectFromCallee callee = \<lparr>si_ura = ai_ura callee, si_profile = ai_profile callee\<rparr>"

section \<open>Entity references\<close>

text \<open>\<open>EntityRefKind\<close> is a \<open>uint8\<close> whose values are wire bytes.\<close>

type_synonym entity_ref_kind = u8

abbreviation EntityRefResource :: entity_ref_kind where "EntityRefResource \<equiv> 1"
abbreviation EntityRefAgent :: entity_ref_kind where "EntityRefAgent \<equiv> 2"
abbreviation EntityRefAbility :: entity_ref_kind where "EntityRefAbility \<equiv> 3"
abbreviation EntityRefSession :: entity_ref_kind where "EntityRefSession \<equiv> 4"
abbreviation EntityRefContinuation :: entity_ref_kind where "EntityRefContinuation \<equiv> 5"
abbreviation EntityRefStateObject :: entity_ref_kind where "EntityRefStateObject \<equiv> 6"
abbreviation EntityRefDevice :: entity_ref_kind where "EntityRefDevice \<equiv> 7"

definition entity_ref_kind_string :: "entity_ref_kind \<Rightarrow> string" where
  "entity_ref_kind_string k =
     (if k = EntityRefResource then ''resource''
      else if k = EntityRefAgent then ''agent''
      else if k = EntityRefAbility then ''ability''
      else if k = EntityRefSession then ''session''
      else if k = EntityRefContinuation then ''continuation''
      else if k = EntityRefStateObject then ''state_object''
      else if k = EntityRefDevice then ''device''
      else ''unspecified'')"

definition ParseEntityRefKind :: "string \<Rightarrow> entity_ref_kind result" where
  "ParseEntityRefKind s =
     (if s = ''resource'' then Ok EntityRefResource
      else if s = ''agent'' then Ok EntityRefAgent
      else if s = ''ability'' then Ok EntityRefAbility
      else if s = ''session'' then Ok EntityRefSession
      else if s = ''continuation'' then Ok EntityRefContinuation
      else if s = ''state_object'' then Ok EntityRefStateObject
      else if s = ''device'' then Ok EntityRefDevice
      else invalid_arg (''unknown_entity_ref_kind:'' @ s))"

record entity_ref =
  er_kind :: entity_ref_kind
  er_ura :: string
  er_profile :: ura_profile

definition ura_scheme :: string where
  "ura_scheme = ''easynet:///r/''"

definition role_kind :: "string \<Rightarrow> entity_ref_kind result" where
  "role_kind role =
     (if role \<in> {''agent'', ''agents'', ''service'', ''services''} then Ok EntityRefAgent
      else if role \<in> {''ability'', ''abilities''} then Ok EntityRefAbility
      else if role \<in> {''device'', ''devices''} then Ok EntityRefDevice
      else if role \<in> {''resource'', ''resources''} then Ok EntityRefResource
      else if role \<in> {''session'', ''sessions''} then Ok EntityRefSession
      else if role \<in> {''continuation'', ''continuations''} then Ok EntityRefContinuation
      else if role \<in> {''state_object'', ''state-object'', ''state_objects'',
                        ''state-objects'', ''state'', ''states''} then Ok EntityRefStateObject
      else invalid_arg (''subject_ref_kind_unsupported:'' @ role))"

definition entityRefKindForSubjectURA :: "string \<Rightarrow> entity_ref_kind result" where
  "entityRefKindForSubjectURA ura =
     (let raw = trim_space ura in
      if \<not> has_prefix raw ura_scheme then invalid_arg ''subject_ref_ura_parse_failed:bad_scheme''
      else (case split_on CHR ''/'' (trim_prefix raw ura_scheme) of
              realm # role # _ \<Rightarrow>
                if realm = [] \<or> role = []
                then invalid_arg ''subject_ref_ura_parse_failed:missing_role''
                else role_kind role
            | _ \<Rightarrow> invalid_arg ''subject_ref_ura_parse_failed:missing_role''))"

definition EntityRefForSubject :: "subject_identity \<Rightarrow> entity_ref result" where
  "EntityRefForSubject subject =
     bindR (entityRefKindForSubjectURA (si_ura subject)) (\<lambda>kind.
       Ok \<lparr>er_kind = kind, er_ura = si_ura subject, er_profile = si_profile subject\<rparr>)"

section \<open>Ability descriptor references\<close>

record ability_descriptor_ref =
  ad_raw :: string
  ad_ability_ura :: string
  ad_version :: string
  ad_descriptor_hash :: hash32
  ad_admission_action :: string

text \<open>The value of a hexadecimal digit, \<open>None\<close> for any other byte.\<close>

definition hex_val :: "char \<Rightarrow> nat option" where
  "hex_val c =
     (let b = (of_char c :: nat) in
      if 48 \<le> b \<and> b \<le> 57 then Some (b - 48)
      else if 97 \<le> b \<and> b \<le> 102 then Some (b - 87)
      else if 65 \<le> b \<and> b \<le> 70 then Some (b - 55)
      else None)"

definition isASCIIHex :: "string \<Rightarrow> bool" where
  "isASCIIHex raw = list_all (\<lambda>c. hex_val c \<noteq> None) raw"

text \<open>\<open>hex.DecodeString\<close>: pairs of digits, an error on an odd length or a bad digit.\<close>

fun hex_decode :: "string \<Rightarrow> bytes option" where
  "hex_decode [] = Some []"
| "hex_decode [c] = None"
| "hex_decode (c # d # s) =
     (case (hex_val c, hex_val d, hex_decode s) of
        (Some h, Some l, Some bs) \<Rightarrow> Some (word_of_nat (16 * h + l) # bs)
      | _ \<Rightarrow> None)"

text \<open>\<open>copy(descriptorHash[:], decoded)\<close> for 32 bytes, most significant first.\<close>

definition hash_of_bytes :: "bytes \<Rightarrow> hash32" where
  "hash_of_bytes bs = foldl (\<lambda>h b. push_bit 8 h OR ucast b) 0 bs"

definition isAdmissionAction :: "string \<Rightarrow> bool" where
  "isAdmissionAction action = (action \<in> {''invoke'', ''read'', ''manage'', ''grant'', ''stream''})"

definition cut_nonempty :: "string \<Rightarrow> bool" where
  "cut_nonempty s = (case cut CHR ''.'' s of Some (a, b) \<Rightarrow> a \<noteq> [] \<and> b \<noteq> [] | None \<Rightarrow> False)"

definition isAbilityTail :: "string \<Rightarrow> bool" where
  "isAbilityTail tail =
     (if tail = [] \<or> CHR ''/'' \<in> set tail then False
      else if has_prefix tail ''authority.'' then cut_nonempty (trim_prefix tail ''authority.'')
      else if has_prefix tail ''device.'' then cut_nonempty (trim_prefix tail ''device.'')
      else (case cut CHR ''.'' tail of
              None \<Rightarrow> False
            | Some (userID, afterUser) \<Rightarrow>
                if userID = [] \<or> userID = ''authority'' \<or> userID = ''device'' then False
                else cut_nonempty afterUser))"

definition requireAbilityURA :: "string \<Rightarrow> unit result" where
  "requireAbilityURA abilityURA =
     (let raw = trim_space abilityURA in
      if \<not> has_prefix raw ura_scheme
      then invalid_arg ''ability_descriptor_ref_ura_parse_failed:bad_scheme''
      else (case split_on CHR ''/'' (trim_prefix raw ura_scheme) of
              [p0, p1, p2] \<Rightarrow>
                if p0 = [] \<or> p1 \<noteq> ''ability'' \<or> p2 = []
                then invalid_arg ''ability_descriptor_ref_not_ability_ura''
                else if \<not> isAbilityTail p2
                then invalid_arg ''ability_descriptor_ref_ura_parse_failed:ability_tail''
                else Ok ()
            | _ \<Rightarrow> invalid_arg ''ability_descriptor_ref_not_ability_ura''))"

text \<open>\<open>strings.SplitN(s, sep, 2)\<close> after \<open>strings.Count(s, sep) == 1\<close>: the two parts,
  each trimmed; \<open>None\<close> when the count is not one.\<close>

definition split_once :: "char \<Rightarrow> string \<Rightarrow> (string \<times> string) option" where
  "split_once c s =
     (if count_list s c \<noteq> 1 then None
      else map_option (\<lambda>(a, b). (trim_space a, trim_space b)) (cut c s))"

definition parse_digest_action :: "string \<Rightarrow> string \<Rightarrow> string \<Rightarrow> ability_descriptor_ref result" where
  "parse_digest_action abilityURA version digestAndAction =
     (case split_once CHR ''!'' digestAndAction of
        None \<Rightarrow> invalid_arg ''ability_descriptor_ref_action_missing_or_malformed''
      | Some (digestHex, action) \<Rightarrow>
          if length digestHex \<noteq> 64 \<or> \<not> isASCIIHex digestHex
          then invalid_arg ''ability_descriptor_ref_digest_invalid''
          else (case hex_decode digestHex of
                  None \<Rightarrow> invalid_arg ''ability_descriptor_ref_digest_not_hex''
                | Some decoded \<Rightarrow>
                    if \<not> isAdmissionAction action
                    then invalid_arg ''ability_descriptor_ref_action_invalid''
                    else Ok \<lparr>ad_raw = abilityURA @ CHR ''@'' # version @ CHR ''#''
                                       # map ascii_lower digestHex @ CHR ''!'' # action,
                             ad_ability_ura = abilityURA,
                             ad_version = version,
                             ad_descriptor_hash = hash_of_bytes decoded,
                             ad_admission_action = action\<rparr>))"

definition parse_version :: "string \<Rightarrow> string \<Rightarrow> ability_descriptor_ref result" where
  "parse_version abilityURA versionAndDigest =
     (case split_once CHR ''#'' versionAndDigest of
        None \<Rightarrow> invalid_arg ''ability_descriptor_ref_digest_missing_or_malformed''
      | Some (version, digestAndAction) \<Rightarrow>
          if version = [] then invalid_arg ''ability_descriptor_ref_missing_version''
          else parse_digest_action abilityURA version digestAndAction)"

definition ParseAbilityDescriptorRef :: "string \<Rightarrow> ability_descriptor_ref result" where
  "ParseAbilityDescriptorRef abilityRaw =
     (let raw = trim_space abilityRaw in
      if raw = [] then invalid_arg ''ability_empty''
      else (case split_once CHR ''@'' raw of
              None \<Rightarrow> invalid_arg ''ability_descriptor_ref_malformed''
            | Some (abilityURA, versionAndDigest) \<Rightarrow>
                if abilityURA = [] then invalid_arg ''ability_descriptor_ref_missing_ability''
                else bindR (requireAbilityURA abilityURA) (\<lambda>_.
                       parse_version abilityURA versionAndDigest)))"

definition CanonicalAbilityDescriptorRef :: "string \<Rightarrow> string result" where
  "CanonicalAbilityDescriptorRef abilityRaw =
     bindR (ParseAbilityDescriptorRef abilityRaw) (\<lambda>ref. Ok (ad_raw ref))"

definition AbilityURAFromDescriptorRef :: "string \<Rightarrow> string result" where
  "AbilityURAFromDescriptorRef abilityRaw =
     bindR (ParseAbilityDescriptorRef abilityRaw) (\<lambda>ref. Ok (ad_ability_ura ref))"

section \<open>Hosted receipt URAs\<close>

record hosted_receipt_ura =
  hr_realm :: string
  hr_kind :: string

definition parseHostedReceiptURA :: "string \<Rightarrow> string \<Rightarrow> hosted_receipt_ura result" where
  "parseHostedReceiptURA raw label =
     (let trimmed = trim_space raw in
      if \<not> has_prefix trimmed ura_scheme then invalid_arg (label @ ''_ura_invalid:bad_scheme'')
      else (case cut CHR ''/'' (trim_prefix trimmed ura_scheme) of
              None \<Rightarrow> invalid_arg (label @ ''_ura_invalid:missing_realm'')
            | Some (realm, afterRealm) \<Rightarrow>
                if realm = [] then invalid_arg (label @ ''_ura_invalid:missing_realm'')
                else let role = (case cut CHR ''/'' afterRealm of
                                   None \<Rightarrow> afterRealm | Some (r, _) \<Rightarrow> r) in
                     if role = [] then invalid_arg (label @ ''_ura_invalid:missing_role'')
                     else Ok \<lparr>hr_realm = realm, hr_kind = role\<rparr>))"

definition ValidateHostedAttestationAuthority :: "string \<Rightarrow> string \<Rightarrow> unit result" where
  "ValidateHostedAttestationAuthority calleeURA signerURA =
     bindR (parseHostedReceiptURA calleeURA ''hosted_callee'') (\<lambda>callee.
     bindR (parseHostedReceiptURA signerURA ''hosted_signer'') (\<lambda>signer.
       if hr_kind callee \<noteq> ''agent'' \<and> hr_kind callee \<noteq> ''service''
       then invalid_arg ''hosted_callee_must_be_agent_or_service''
       else if hr_kind signer \<noteq> ''device''
       then invalid_arg ''hosted_signer_must_be_device''
       else if hr_realm callee \<noteq> hr_realm signer
       then invalid_arg ''hosted_signer_callee_realm_mismatch''
       else Ok ()))"

section \<open>Lemmas\<close>

definition hex_chars :: string where
  "hex_chars = ''0123456789abcdefABCDEF''"

lemma hex_val_chars: "hex_val c \<noteq> None \<Longrightarrow> c \<in> set hex_chars"
proof -
  assume "hex_val c \<noteq> None"
  then have "(of_char c :: nat) \<in> set ([48..<58] @ [97..<103] @ [65..<71])"
    unfolding hex_val_def Let_def set_append set_upt by (auto split: if_splits)
  then have "char_of (of_char c :: nat) \<in> set (map char_of ([48..<58] @ [97..<103] @ [65..<71]) :: string)"
    by (simp only: set_map) (rule imageI)
  moreover have "map char_of ([48..<58] @ [97..<103] @ [65..<71 :: nat]) = hex_chars"
    by code_simp
  ultimately have "char_of (of_char c :: nat) \<in> set hex_chars" by (simp only:)
  then show ?thesis by (simp only: char_of_char)
qed

lemma hex_chars_facts:
  "list_all (\<lambda>c. c \<notin> {CHR ''@'', CHR ''#'', CHR ''!''} \<and> hex_val (ascii_lower c) = hex_val c
      \<and> ascii_lower (ascii_lower c) = ascii_lower c) hex_chars"
  by (simp add: hex_chars_def hex_val_def ascii_lower_def)

lemma hex_chars_solid: "list_all solid hex_chars"
  by (simp add: hex_chars_def solid_def ws_seqs_def ws_ascii_def ws_unicode_def)

lemma hex_digit_facts:
  assumes "hex_val c \<noteq> None"
  shows "solid c" and "c \<noteq> CHR ''@''" and "c \<noteq> CHR ''#''" and "c \<noteq> CHR ''!''"
    and "hex_val (ascii_lower c) = hex_val c" and "ascii_lower (ascii_lower c) = ascii_lower c"
  using hex_val_chars [OF assms] hex_chars_facts hex_chars_solid
  unfolding list_all_iff by blast+

lemma solid_no_lead:
  assumes "list_all solid s"
  shows "trimmed s"
proof -
  have "\<not> has_prefix s w" and "\<not> has_prefix (rev s) (rev w)" if w: "w \<in> set ws_seqs" for w
  proof -
    from w obtain c where c: "c \<in> set w" by (metis list.set_intros(1) neq_Nil_conv ws_seqs_nonempty(1))
    with assms w have "c \<notin> set s" by (auto simp: list_all_iff solid_def)
    with c show "\<not> has_prefix s w" and "\<not> has_prefix (rev s) (rev w)"
      by (auto simp: has_prefix_iff) (metis UnI1 set_append set_rev)
  qed
  then show ?thesis by (auto simp: trimmed_def no_lead_def)
qed

lemma isASCIIHex_lower: "isASCIIHex d \<Longrightarrow> isASCIIHex (map ascii_lower d)"
  by (simp add: isASCIIHex_def list_all_iff hex_digit_facts(5) del: not_None_eq)

lemma isASCIIHex_trimmed: "isASCIIHex d \<Longrightarrow> trimmed d"
  by (rule solid_no_lead) (simp add: isASCIIHex_def list_all_iff hex_digit_facts(1) del: not_None_eq)

lemma isASCIIHex_no_sep:
  "isASCIIHex d \<Longrightarrow> c \<in> {CHR ''@'', CHR ''#'', CHR ''!''} \<Longrightarrow> c \<notin> set d"
proof
  assume d: "isASCIIHex d" and c: "c \<in> {CHR ''@'', CHR ''#'', CHR ''!''}" and "c \<in> set d"
  then have "hex_val c \<noteq> None" unfolding isASCIIHex_def list_all_iff by blast
  from hex_digit_facts(2-4) [OF this] c show False by blast
qed

lemma lower_idem_hex: "isASCIIHex d \<Longrightarrow> map ascii_lower (map ascii_lower d) = map ascii_lower d"
  by (simp add: isASCIIHex_def list_all_iff hex_digit_facts(6) del: not_None_eq)

lemma hex_decode_lower: "isASCIIHex d \<Longrightarrow> hex_decode (map ascii_lower d) = hex_decode d"
  by (induction d rule: hex_decode.induct)
     (simp_all add: isASCIIHex_def hex_digit_facts(5) del: not_None_eq)

lemma hex_decode_length: "hex_decode d = Some bs \<Longrightarrow> length d = 2 * length bs"
  by (induction d arbitrary: bs rule: hex_decode.induct) (auto split: option.splits)

lemma split_once_Some:
  assumes "split_once c s = Some (x, y)"
  shows "trimmed x" and "trimmed y" and "c \<notin> set x" and "c \<notin> set y"
    and "set x \<subseteq> set s" and "set y \<subseteq> set s"
proof -
  from assms have "count_list s c = 1" by (auto simp: split_once_def split: if_splits)
  then obtain a b where cut: "cut c s = Some (a, b)" and ab: "c \<notin> set a" "c \<notin> set b"
    and s: "s = a @ c # b" by (rule count_list_one_cut)
  with assms have xy: "x = trim_space a" "y = trim_space b"
    by (auto simp: split_once_def split: if_splits)
  then show "trimmed x" and "trimmed y" by (simp_all add: trimmed_trim_space)
  from xy s have sub: "set x \<subseteq> set a" "set y \<subseteq> set b" by (simp_all add: set_trim_space)
  with ab s show "c \<notin> set x" and "c \<notin> set y" and "set x \<subseteq> set s" and "set y \<subseteq> set s" by auto
qed

lemma split_once_join:
  assumes "trimmed x" and "trimmed y" and "c \<notin> set x" and "c \<notin> set y"
  shows "split_once c (x @ c # y) = Some (x, y)"
  using assms by (simp add: split_once_def cut_append trim_space_trimmed)

lemma isAdmissionAction_facts:
  assumes "isAdmissionAction a"
  shows "trimmed a" and "a \<noteq> []" and "c \<in> {CHR ''@'', CHR ''#'', CHR ''!''} \<Longrightarrow> c \<notin> set a"
proof -
  from assms consider "a = ''invoke''" | "a = ''read''" | "a = ''manage''" | "a = ''grant''"
    | "a = ''stream''" by (auto simp: isAdmissionAction_def)
  then have "list_all solid a \<and> a \<noteq> [] \<and> (\<forall>c \<in> {CHR ''@'', CHR ''#'', CHR ''!''}. c \<notin> set a)"
    by cases (simp_all add: solid_def ws_seqs_def ws_ascii_def ws_unicode_def)
  then show "trimmed a" and "a \<noteq> []" and "c \<in> {CHR ''@'', CHR ''#'', CHR ''!''} \<Longrightarrow> c \<notin> set a"
    by (auto intro: solid_no_lead)
qed

text \<open>What a successful parse says about its input and its result.\<close>

lemma ParseAbilityDescriptorRef_Ok:
  assumes "ParseAbilityDescriptorRef s = Ok ref"
  obtains u v d a bs where
    "trimmed u" "u \<noteq> []" "CHR ''@'' \<notin> set u" "requireAbilityURA u = Ok ()"
    "trimmed v" "v \<noteq> []" "CHR ''@'' \<notin> set v" "CHR ''#'' \<notin> set v"
    "length d = 64" "isASCIIHex d" "hex_decode d = Some bs" "isAdmissionAction a"
    "ref = \<lparr>ad_raw = u @ CHR ''@'' # v @ CHR ''#'' # map ascii_lower d @ CHR ''!'' # a,
            ad_ability_ura = u, ad_version = v, ad_descriptor_hash = hash_of_bytes bs,
            ad_admission_action = a\<rparr>"
proof -
  from assms obtain u w where s1: "split_once CHR ''@'' (trim_space s) = Some (u, w)"
    and u: "u \<noteq> []" "requireAbilityURA u = Ok ()" and pv: "parse_version u w = Ok ref"
    by (auto simp: ParseAbilityDescriptorRef_def Let_def bindR_Ok_iff split: if_splits option.splits)
  from pv obtain v x where s2: "split_once CHR ''#'' w = Some (v, x)" and v: "v \<noteq> []"
    and pd: "parse_digest_action u v x = Ok ref"
    by (auto simp: parse_version_def split: if_splits option.splits)
  from pd obtain d a bs where s3: "split_once CHR ''!'' x = Some (d, a)"
    and d: "length d = 64" "isASCIIHex d" "hex_decode d = Some bs" and a: "isAdmissionAction a"
    and ref: "ref = \<lparr>ad_raw = u @ CHR ''@'' # v @ CHR ''#'' # map ascii_lower d @ CHR ''!'' # a,
            ad_ability_ura = u, ad_version = v, ad_descriptor_hash = hash_of_bytes bs,
            ad_admission_action = a\<rparr>"
    by (auto simp: parse_digest_action_def split: if_splits option.splits)
  show thesis
    using that [of u v d bs a] split_once_Some [OF s1] split_once_Some [OF s2] u v d a ref by auto
qed

text \<open>The text of a reference falls into its parts again.\<close>

lemma ref_text_splits:
  assumes u: "trimmed u" "u \<noteq> []" "CHR ''@'' \<notin> set u"
    and v: "trimmed v" "v \<noteq> []" "CHR ''@'' \<notin> set v" "CHR ''#'' \<notin> set v"
    and d: "length d = 64" "isASCIIHex d" and a: "isAdmissionAction a"
  defines "l \<equiv> map ascii_lower d"
  shows "trimmed (u @ CHR ''@'' # v @ CHR ''#'' # l @ CHR ''!'' # a)"
    and "split_once CHR ''@'' (u @ CHR ''@'' # v @ CHR ''#'' # l @ CHR ''!'' # a)
      = Some (u, v @ CHR ''#'' # l @ CHR ''!'' # a)"
    and "split_once CHR ''#'' (v @ CHR ''#'' # l @ CHR ''!'' # a) = Some (v, l @ CHR ''!'' # a)"
    and "split_once CHR ''!'' (l @ CHR ''!'' # a) = Some (l, a)"
proof -
  have l: "isASCIIHex l" "trimmed l" "l \<noteq> []"
    using d isASCIIHex_lower isASCIIHex_trimmed unfolding l_def by auto
  note af = isAdmissionAction_facts [OF a]
  have solid: "solid CHR ''@''" "solid CHR ''#''" "solid CHR ''!''"
    by (simp_all add: solid_def ws_seqs_def ws_ascii_def ws_unicode_def)
  have t1: "trimmed (l @ CHR ''!'' # a)" by (intro trimmed_join l af solid)
  have t2: "trimmed (v @ CHR ''#'' # l @ CHR ''!'' # a)" by (intro trimmed_join v t1 solid) simp
  show "trimmed (u @ CHR ''@'' # v @ CHR ''#'' # l @ CHR ''!'' # a)"
    by (intro trimmed_join u t2 solid) simp
  show "split_once CHR ''!'' (l @ CHR ''!'' # a) = Some (l, a)"
    using l af isASCIIHex_no_sep by (intro split_once_join) auto
  show "split_once CHR ''#'' (v @ CHR ''#'' # l @ CHR ''!'' # a) = Some (v, l @ CHR ''!'' # a)"
    using v t1 l af(3) [of "CHR ''#''"] isASCIIHex_no_sep [of l] by (intro split_once_join) auto
  show "split_once CHR ''@'' (u @ CHR ''@'' # v @ CHR ''#'' # l @ CHR ''!'' # a)
      = Some (u, v @ CHR ''#'' # l @ CHR ''!'' # a)"
    using u v t2 l af(3) [of "CHR ''@''"] isASCIIHex_no_sep [of l] by (intro split_once_join) auto
qed

text \<open>The canonical spelling parses back to the reference it was built from.\<close>

lemma ParseAbilityDescriptorRef_raw:
  assumes "ParseAbilityDescriptorRef s = Ok ref"
  shows "ParseAbilityDescriptorRef (ad_raw ref) = Ok ref"
proof -
  obtain u v d a bs where
    u: "trimmed u" "u \<noteq> []" "CHR ''@'' \<notin> set u" "requireAbilityURA u = Ok ()"
    and v: "trimmed v" "v \<noteq> []" "CHR ''@'' \<notin> set v" "CHR ''#'' \<notin> set v"
    and d: "length d = 64" "isASCIIHex d" "hex_decode d = Some bs" and a: "isAdmissionAction a"
    and ref: "ref = \<lparr>ad_raw = u @ CHR ''@'' # v @ CHR ''#'' # map ascii_lower d @ CHR ''!'' # a,
            ad_ability_ura = u, ad_version = v, ad_descriptor_hash = hash_of_bytes bs,
            ad_admission_action = a\<rparr>"
    by (rule ParseAbilityDescriptorRef_Ok [OF assms])
  note split = ref_text_splits [OF u(1-3) v d(1,2) a]
  show ?thesis
    using u v d a ref split(2-4) trim_space_trimmed [OF split(1)] isASCIIHex_lower lower_idem_hex hex_decode_lower
    by (simp add: ParseAbilityDescriptorRef_def parse_version_def parse_digest_action_def Let_def)
qed

end
