(* ===== verification/Envelope.thy ===== *)
theory Envelope
  imports Identity
begin

text \<open>
  The data model of \<open>axon/invocation/axiom.go\<close>: causal contexts, the authority binding
  (a relation paired with its evidence), signatures, the seven-part invocation
  envelope, receipt bodies and receipt proof facts.  Go has no sum types: the
  discriminator-and-pointer structs are kept as records with a tag byte and optional
  fields, so that the ill-formed values the Go type allows are values here too.
\<close>

section \<open>Causal context\<close>

record receipt_ref =
  rr_hash :: hash32
  rr_ura :: string

type_synonym causal_form = u8

abbreviation CausalNone :: causal_form where "CausalNone \<equiv> 0"
abbreviation CausalScalar :: causal_form where "CausalScalar \<equiv> 1"
abbreviation CausalList :: causal_form where "CausalList \<equiv> 2"
abbreviation CausalMerkle :: causal_form where "CausalMerkle \<equiv> 3"

record causal_context =
  cc_form :: causal_form
  cc_scalar :: "receipt_ref option"
  cc_list :: "receipt_ref list"
  cc_merkle_root :: hash32
  cc_merkle_proof_ura :: string

definition CausalNoneCtx :: causal_context where
  "CausalNoneCtx = \<lparr>cc_form = CausalNone, cc_scalar = None, cc_list = [],
     cc_merkle_root = 0, cc_merkle_proof_ura = []\<rparr>"

definition CausalScalarCtx :: "receipt_ref \<Rightarrow> causal_context" where
  "CausalScalarCtx r = CausalNoneCtx\<lparr>cc_form := CausalScalar, cc_scalar := Some r\<rparr>"

definition CausalListCtx :: "receipt_ref list \<Rightarrow> causal_context" where
  "CausalListCtx refs = CausalNoneCtx\<lparr>cc_form := CausalList, cc_list := refs\<rparr>"

definition CausalMerkleCtx :: "hash32 \<Rightarrow> string \<Rightarrow> causal_context" where
  "CausalMerkleCtx root proofURA =
     CausalNoneCtx\<lparr>cc_form := CausalMerkle, cc_merkle_root := root, cc_merkle_proof_ura := proofURA\<rparr>"

text \<open>\<open>enumerableParentReceipts\<close> (and its twin \<open>parentReceiptsFromCausal\<close>): the
  receipts a causal context names one by one.\<close>

definition enumerableParentReceipts :: "causal_context \<Rightarrow> receipt_ref list" where
  "enumerableParentReceipts c =
     (if cc_form c = CausalScalar
      then (case cc_scalar c of None \<Rightarrow> [] | Some r \<Rightarrow> [r])
      else if cc_form c = CausalList then cc_list c
      else [])"

definition parentReceiptsFromCausal :: "causal_context \<Rightarrow> receipt_ref list" where
  "parentReceiptsFromCausal c =
     (if cc_form c = CausalScalar
      then (case cc_scalar c of None \<Rightarrow> [] | Some r \<Rightarrow> [r])
      else if cc_form c = CausalList then cc_list c
      else [])"

section \<open>Authority binding\<close>

type_synonym authority_relation = u8

abbreviation AuthorityRelationSelf :: authority_relation where "AuthorityRelationSelf \<equiv> 1"
abbreviation AuthorityRelationDelegatedBy :: authority_relation where "AuthorityRelationDelegatedBy \<equiv> 2"
abbreviation AuthorityRelationSessionOf :: authority_relation where "AuthorityRelationSessionOf \<equiv> 3"
abbreviation AuthorityRelationCredentialOf :: authority_relation where "AuthorityRelationCredentialOf \<equiv> 4"

definition authority_relation_string :: "authority_relation \<Rightarrow> string" where
  "authority_relation_string r =
     (if r = AuthorityRelationSelf then ''self''
      else if r = AuthorityRelationDelegatedBy then ''delegated_by''
      else if r = AuthorityRelationSessionOf then ''session_of''
      else if r = AuthorityRelationCredentialOf then ''credential_of''
      else ''unspecified'')"

type_synonym authority_evidence_kind = u8

abbreviation AuthorityEvidenceIdentity :: authority_evidence_kind where "AuthorityEvidenceIdentity \<equiv> 1"
abbreviation AuthorityEvidenceDelegation :: authority_evidence_kind where "AuthorityEvidenceDelegation \<equiv> 2"
abbreviation AuthorityEvidenceSession :: authority_evidence_kind where "AuthorityEvidenceSession \<equiv> 3"
abbreviation AuthorityEvidenceAttestation :: authority_evidence_kind where "AuthorityEvidenceAttestation \<equiv> 4"

definition authority_evidence_string :: "authority_evidence_kind \<Rightarrow> string" where
  "authority_evidence_string e =
     (if e = AuthorityEvidenceIdentity then ''identity''
      else if e = AuthorityEvidenceDelegation then ''delegation''
      else if e = AuthorityEvidenceSession then ''session''
      else if e = AuthorityEvidenceAttestation then ''attestation''
      else ''unspecified'')"

record delegation_evidence =
  dg_issuer :: agent_identity
  dg_scopes :: "string list"
  dg_audience :: string
  dg_issued_at_ms :: i64
  dg_expires_at_ms :: i64
  dg_signature :: bytes

record session_evidence =
  sn_issuer :: agent_identity
  sn_session_id :: string
  sn_scopes :: "string list"
  sn_audiences :: "string list"
  sn_issued_at_ms :: i64
  sn_expires_at_ms :: i64
  sn_signature :: bytes

record authority_binding =
  ab_authority :: agent_identity
  ab_relation :: authority_relation
  ab_evidence_kind :: authority_evidence_kind
  ab_delegation :: "delegation_evidence option"
  ab_session :: "session_evidence option"

record bootstrap_binding =
  bb_principal_ura :: string
  bb_realm :: string
  bb_ability :: string

record authority_or_bootstrap =
  ob_is_bootstrap :: bool
  ob_binding :: "authority_binding option"
  ob_bootstrap :: "bootstrap_binding option"

definition empty_identity :: agent_identity where
  "empty_identity = \<lparr>ai_ura = [], ai_profile = []\<rparr>"

definition empty_delegation :: delegation_evidence where
  "empty_delegation = \<lparr>dg_issuer = empty_identity, dg_scopes = [], dg_audience = [],
     dg_issued_at_ms = 0, dg_expires_at_ms = 0, dg_signature = []\<rparr>"

definition empty_session :: session_evidence where
  "empty_session = \<lparr>sn_issuer = empty_identity, sn_session_id = [], sn_scopes = [],
     sn_audiences = [], sn_issued_at_ms = 0, sn_expires_at_ms = 0, sn_signature = []\<rparr>"

definition empty_binding :: authority_binding where
  "empty_binding = \<lparr>ab_authority = empty_identity, ab_relation = 0, ab_evidence_kind = 0,
     ab_delegation = None, ab_session = None\<rparr>"

definition empty_bootstrap :: bootstrap_binding where
  "empty_bootstrap = \<lparr>bb_principal_ura = [], bb_realm = [], bb_ability = []\<rparr>"

definition binding_form :: "authority_binding \<Rightarrow> string" where
  "binding_form a =
     authority_relation_string (ab_relation a) @ ''+'' @ authority_evidence_string (ab_evidence_kind a)"

definition AuthorityOrBootstrapFromBinding :: "authority_binding \<Rightarrow> authority_or_bootstrap" where
  "AuthorityOrBootstrapFromBinding b = \<lparr>ob_is_bootstrap = False, ob_binding = Some b, ob_bootstrap = None\<rparr>"

definition AuthorityOrBootstrapFromBootstrap :: "bootstrap_binding \<Rightarrow> authority_or_bootstrap" where
  "AuthorityOrBootstrapFromBootstrap b = \<lparr>ob_is_bootstrap = True, ob_binding = None, ob_bootstrap = Some b\<rparr>"

definition authority_form :: "authority_or_bootstrap \<Rightarrow> string" where
  "authority_form a =
     (if ob_is_bootstrap a then ''bootstrap''
      else (case ob_binding a of None \<Rightarrow> ''unspecified'' | Some b \<Rightarrow> binding_form b))"

definition SelfAuthority :: "string \<Rightarrow> authority_binding" where
  "SelfAuthority principalURA =
     \<lparr>ab_authority = \<lparr>ai_ura = principalURA, ai_profile = ProfileStrictV2\<rparr>,
      ab_relation = AuthorityRelationSelf, ab_evidence_kind = AuthorityEvidenceIdentity,
      ab_delegation = None, ab_session = None\<rparr>"

definition DelegatedAuthority :: "agent_identity \<Rightarrow> delegation_evidence \<Rightarrow> authority_binding" where
  "DelegatedAuthority authority evidence =
     \<lparr>ab_authority = authority, ab_relation = AuthorityRelationDelegatedBy,
      ab_evidence_kind = AuthorityEvidenceDelegation,
      ab_delegation = Some evidence, ab_session = None\<rparr>"

definition SessionAuthority :: "agent_identity \<Rightarrow> session_evidence \<Rightarrow> authority_binding" where
  "SessionAuthority authority evidence =
     \<lparr>ab_authority = authority, ab_relation = AuthorityRelationSessionOf,
      ab_evidence_kind = AuthorityEvidenceSession,
      ab_delegation = None, ab_session = Some evidence\<rparr>"

definition BootstrapAuthority :: "string \<Rightarrow> string \<Rightarrow> string \<Rightarrow> bootstrap_binding" where
  "BootstrapAuthority principalURA realm ability =
     \<lparr>bb_principal_ura = principalURA, bb_realm = realm, bb_ability = ability\<rparr>"

section \<open>Signatures, envelopes, receipts\<close>

record caller_signature =
  cs_algorithm :: string
  cs_signature :: bytes
  cs_key_id_hint :: string

record callee_signature =
  ce_algorithm :: string
  ce_signature :: bytes
  ce_key_id_hint :: string

record invocation_envelope =
  en_caller :: agent_identity
  en_callee :: agent_identity
  en_subject :: subject_identity
  en_ability :: string
  en_args_digest :: hash32
  en_nonce :: nonce16
  en_causal :: causal_context

datatype descriptor_bound_envelope = DBEnvelope (dbe_envelope: invocation_envelope)

definition NewDescriptorBoundEnvelope :: "invocation_envelope \<Rightarrow> descriptor_bound_envelope result" where
  "NewDescriptorBoundEnvelope env =
     bindR (CanonicalAbilityDescriptorRef (en_ability env)) (\<lambda>_.
     bindR (EntityRefForSubject (en_subject env)) (\<lambda>_.
       Ok (DBEnvelope env)))"

record invocation_usage =
  us_tokens_in :: u64
  us_tokens_out :: u64
  us_duration_ms :: u64
  us_external_calls :: u32

definition empty_usage :: invocation_usage where
  "empty_usage = \<lparr>us_tokens_in = 0, us_tokens_out = 0, us_duration_ms = 0, us_external_calls = 0\<rparr>"

record authority_proof =
  ap_proof_type :: string
  ap_binding :: "authority_or_bootstrap option"
  ap_proof_payload :: bytes
  ap_proof_hash :: hash32
  ap_issuer :: "agent_identity option"
  ap_signature :: "callee_signature option"
  ap_admission_hook :: string

definition empty_proof :: authority_proof where
  "empty_proof = \<lparr>ap_proof_type = [], ap_binding = None, ap_proof_payload = [], ap_proof_hash = 0,
     ap_issuer = None, ap_signature = None, ap_admission_hook = []\<rparr>"

record receipt_proof_facts =
  pf_subject_ref :: "entity_ref option"
  pf_descriptor_version :: string
  pf_schema_hash :: hash32
  pf_impl_hash :: hash32
  pf_runtime_env :: string
  pf_authority_proof :: authority_proof
  pf_input_hash :: hash32
  pf_output_hash :: hash32
  pf_parent_receipts :: "receipt_ref list"
  pf_complete :: bool

definition empty_facts :: receipt_proof_facts where
  "empty_facts = \<lparr>pf_subject_ref = None, pf_descriptor_version = [], pf_schema_hash = 0,
     pf_impl_hash = 0, pf_runtime_env = [], pf_authority_proof = empty_proof,
     pf_input_hash = 0, pf_output_hash = 0, pf_parent_receipts = [], pf_complete = False\<rparr>"

record hosted_attestation =
  ha_signer_binding :: agent_identity
  ha_host_attestation :: bytes

record receipt_body =
  rb_index :: u64
  rb_invocation_id :: string
  rb_receipt_type :: string
  rb_state :: string
  rb_timestamp :: i64
  rb_prev_hash :: hash32
  rb_payload_digest :: hash32
  rb_reason :: string
  rb_cleanup_complete :: bool
  rb_caller :: agent_identity
  rb_callee :: agent_identity
  rb_subject :: subject_identity
  rb_nonce :: nonce16
  rb_causal :: causal_context
  rb_ability :: string
  rb_authority :: authority_or_bootstrap
  rb_usage :: invocation_usage
  rb_proof_facts :: receipt_proof_facts

end
