(* ===== verification/WireFormat.thy ===== *)
theory WireFormat
  imports Envelope
begin

text \<open>
  The canonical encoders of \<open>axon/invocation/axiom.go\<close> for strings, identities, entity
  references and causal contexts, and the interface every canonical encoder satisfies:
  the locale \<open>wire_format\<close>.  An encoder is a wire format when what it writes can be
  told apart from whatever follows, so a sequence of encoders is read back in one way
  only.  Each Go encoder appends to a buffer; here it is the list of bytes appended.

  Every length is written as \<open>uint32(len(b))\<close>, which truncates: \<open>fits\<close> is the bound
  under which a length is exact.
\<close>

section \<open>The interface\<close>

locale wire_format =
  fixes enc :: "'a \<Rightarrow> bytes" and ok :: "'a \<Rightarrow> bool"
  assumes unique: "ok x \<Longrightarrow> ok y \<Longrightarrow> enc x @ r = enc y @ s \<Longrightarrow> x = y \<and> r = s"
begin

lemma split_iff: "ok x \<Longrightarrow> ok y \<Longrightarrow> (enc x @ r = enc y @ s) = (x = y \<and> r = s)"
  using unique by blast

lemma injective: "ok x \<Longrightarrow> ok y \<Longrightarrow> (enc x = enc y) = (x = y)"
  using unique [of x y "[]" "[]"] by auto

lemma no_proper_prefix: "ok x \<Longrightarrow> ok y \<Longrightarrow> enc x @ r = enc y \<Longrightarrow> x = y \<and> r = []"
  using unique [of x y r "[]"] by auto

lemma concat_unique:
  assumes "list_all ok xs" and "list_all ok ys" and "length xs = length ys"
    and "concat (map enc xs) @ r = concat (map enc ys) @ s"
  shows "xs = ys \<and> r = s"
  using assms(3) assms(1,2,4)
proof (induction xs ys arbitrary: r s rule: list_induct2)
  case (Cons x xs y ys)
  from Cons.prems have "ok x" and "ok y" and oks: "list_all ok xs" "list_all ok ys"
    and "enc x @ (concat (map enc xs) @ r) = enc y @ (concat (map enc ys) @ s)" by simp_all
  then have "x = y" and "concat (map enc xs) @ r = concat (map enc ys) @ s"
    using unique by blast+
  with Cons.IH [OF oks] show ?case by simp
qed simp

end

definition fits :: "'a list \<Rightarrow> bool" where
  "fits xs = (length xs < 2 ^ 32)"

section \<open>Fixed-width blocks\<close>

lemma be_bytes_append_eq:
  assumes "LENGTH('a) \<le> 8 * n"
  shows "(be_bytes n (w :: 'a::len word) @ r = be_bytes n v @ s) = (w = v \<and> r = s)"
  using be_bytes_eq_iff [OF assms] by (simp add: append_eq_append_conv)

lemma fixed_blocks [simp]:
  "(be_bytes 4 (a :: u32) @ r = be_bytes 4 b @ s) = (a = b \<and> r = s)"
  "(be_bytes 8 (c :: u64) @ r = be_bytes 8 d @ s) = (c = d \<and> r = s)"
  "(be_bytes 16 (e :: nonce16) @ r = be_bytes 16 f @ s) = (e = f \<and> r = s)"
  "(be_bytes 32 (g :: hash32) @ r = be_bytes 32 h @ s) = (g = h \<and> r = s)"
  by (rule be_bytes_append_eq, simp)+

definition putU32 :: "u32 \<Rightarrow> bytes" where
  [wire]: "putU32 v = be_bytes 4 v"

definition putU64 :: "u64 \<Rightarrow> bytes" where
  [wire]: "putU64 v = be_bytes 8 v"

definition putHash :: "hash32 \<Rightarrow> bytes" where
  [wire]: "putHash h = be_bytes 32 h"

definition putNonce :: "nonce16 \<Rightarrow> bytes" where
  [wire]: "putNonce n = be_bytes 16 n"

interpretation u32_format: wire_format putU32 "\<lambda>_. True"
  by unfold_locales (simp add: putU32_def)

interpretation u64_format: wire_format putU64 "\<lambda>_. True"
  by unfold_locales (simp add: putU64_def)

interpretation hash_format: wire_format putHash "\<lambda>_. True"
  by unfold_locales (simp add: putHash_def)

interpretation nonce_format: wire_format putNonce "\<lambda>_. True"
  by unfold_locales (simp add: putNonce_def)

section \<open>Length-prefixed blocks\<close>

definition putBytes :: "bytes \<Rightarrow> bytes" where
  "putBytes b = putU32 (len32 b) @ b"

definition putStr :: "string \<Rightarrow> bytes" where
  "putStr s = putBytes (str_bytes s)"

lemma putBytes_unique:
  assumes "fits a" and "fits b" and "putBytes a @ r = putBytes b @ s"
  shows "a = b \<and> r = s"
proof -
  from assms(3) have "len32 a = len32 b" and eq: "a @ r = b @ s"
    by (simp_all add: putBytes_def putU32_def)
  with assms(1,2) have "length a = length b" by (auto simp: fits_def intro: len32_eq)
  with eq show ?thesis by simp
qed

interpretation bytes_format: wire_format putBytes fits
  using putBytes_unique by unfold_locales

interpretation str_format: wire_format putStr fits
proof
  fix x y r s
  assume "fits x" "fits y" "putStr x @ r = putStr y @ s"
  then show "x = y \<and> r = s"
    using putBytes_unique [of "str_bytes x" "str_bytes y" r s] by (simp add: putStr_def fits_def)
qed

text \<open>A counted block: \<open>putU32(len(xs))\<close> and then every element.\<close>

definition put_list :: "('a \<Rightarrow> bytes) \<Rightarrow> 'a list \<Rightarrow> bytes" where
  "put_list enc xs = putU32 (len32 xs) @ concat (map enc xs)"

context wire_format begin

lemma put_list_unique:
  assumes "fits xs \<and> list_all ok xs" and "fits ys \<and> list_all ok ys"
    and "put_list enc xs @ r = put_list enc ys @ s"
  shows "xs = ys \<and> r = s"
proof -
  from assms(3) have "len32 xs = len32 ys"
    and eq: "concat (map enc xs) @ r = concat (map enc ys) @ s"
    by (simp_all add: put_list_def putU32_def)
  with assms(1,2) have "length xs = length ys" by (auto simp: fits_def intro: len32_eq)
  with concat_unique [OF _ _ _ eq] assms(1,2) show ?thesis by blast
qed

end

text \<open>An optional block: a presence byte, then the block.  A boxed block is the encoded
  value behind its own length.\<close>

definition put_opt :: "('a \<Rightarrow> bytes) \<Rightarrow> 'a option \<Rightarrow> bytes" where
  "put_opt enc x = (case x of None \<Rightarrow> [0] | Some v \<Rightarrow> 1 # enc v)"

definition put_bool :: "bool \<Rightarrow> bytes" where
  "put_bool b = (if b then [1] else [0])"

lemma put_bool_split: "(put_bool a @ r = put_bool b @ s) = (a = b \<and> r = s)"
  by (simp add: put_bool_def)

context wire_format begin

lemma put_opt_split:
  "pred_option ok x \<Longrightarrow> pred_option ok y \<Longrightarrow>
    (put_opt enc x @ r = put_opt enc y @ s) = (x = y \<and> r = s)"
  by (cases x; cases y) (auto simp: put_opt_def split_iff)

lemma boxed_split:
  "ok x \<Longrightarrow> ok y \<Longrightarrow> fits (enc x) \<Longrightarrow> fits (enc y) \<Longrightarrow>
    (putBytes (enc x) @ r = putBytes (enc y) @ s) = (x = y \<and> r = s)"
  by (simp add: bytes_format.split_iff injective)

end

definition ok_strings :: "string list \<Rightarrow> bool" where
  "ok_strings xs = (fits xs \<and> list_all fits xs)"

interpretation strings_format: wire_format "put_list putStr" ok_strings
  by unfold_locales (unfold ok_strings_def, rule str_format.put_list_unique)

section \<open>Identities and entity references\<close>

definition putIdentity :: "string \<Rightarrow> ura_profile \<Rightarrow> bytes" where
  "putIdentity ura profile = putStr ura @ putStr profile"

definition put_agent :: "agent_identity \<Rightarrow> bytes" where
  "put_agent a = putIdentity (ai_ura a) (ai_profile a)"

definition put_subject :: "subject_identity \<Rightarrow> bytes" where
  "put_subject a = putIdentity (si_ura a) (si_profile a)"

definition ok_agent :: "agent_identity \<Rightarrow> bool" where
  "ok_agent a = (fits (ai_ura a) \<and> fits (ai_profile a))"

definition ok_subject :: "subject_identity \<Rightarrow> bool" where
  "ok_subject a = (fits (si_ura a) \<and> fits (si_profile a))"

interpretation agent_format: wire_format put_agent ok_agent
proof
  fix x y r s
  assume ok: "ok_agent x" "ok_agent y" and eq: "put_agent x @ r = put_agent y @ s"
  then show "x = y \<and> r = s"
    by (cases x; cases y) (simp add: put_agent_def putIdentity_def ok_agent_def str_format.split_iff)
qed

interpretation subject_format: wire_format put_subject ok_subject
proof
  fix x y r s
  assume ok: "ok_subject x" "ok_subject y" and eq: "put_subject x @ r = put_subject y @ s"
  then show "x = y \<and> r = s"
    by (cases x; cases y) (simp add: put_subject_def putIdentity_def ok_subject_def str_format.split_iff)
qed

definition CanonicalEntityRef :: "entity_ref \<Rightarrow> bytes" where
  "CanonicalEntityRef e = [er_kind e] @ putStr (er_ura e) @ putStr (er_profile e)"

definition ok_entity :: "entity_ref \<Rightarrow> bool" where
  "ok_entity e = (fits (er_ura e) \<and> fits (er_profile e))"

interpretation entity_format: wire_format CanonicalEntityRef ok_entity
proof
  fix x y r s
  assume ok: "ok_entity x" "ok_entity y" and eq: "CanonicalEntityRef x @ r = CanonicalEntityRef y @ s"
  then show "x = y \<and> r = s"
    by (cases x; cases y) (simp add: CanonicalEntityRef_def ok_entity_def str_format.split_iff)
qed

section \<open>Causal contexts\<close>

definition put_receipt_ref :: "receipt_ref \<Rightarrow> bytes" where
  "put_receipt_ref r = putHash (rr_hash r) @ putStr (rr_ura r)"

definition ok_receipt_ref :: "receipt_ref \<Rightarrow> bool" where
  "ok_receipt_ref r = fits (rr_ura r)"

interpretation receipt_ref_format: wire_format put_receipt_ref ok_receipt_ref
proof
  fix x y r s
  assume ok: "ok_receipt_ref x" "ok_receipt_ref y" and eq: "put_receipt_ref x @ r = put_receipt_ref y @ s"
  then show "x = y \<and> r = s"
    by (cases x; cases y) (simp add: put_receipt_ref_def ok_receipt_ref_def putHash_def str_format.split_iff)
qed

definition ok_receipt_refs :: "receipt_ref list \<Rightarrow> bool" where
  "ok_receipt_refs rs = (fits rs \<and> list_all ok_receipt_ref rs)"

interpretation receipt_refs_format: wire_format "put_list put_receipt_ref" ok_receipt_refs
  by unfold_locales (unfold ok_receipt_refs_def, rule receipt_ref_format.put_list_unique)

text \<open>\<open>CanonicalCausalContext\<close>: a discriminator byte and the fields of that form.  A
  scalar context without its reference, and an unknown form, are written as nothing.\<close>

definition CanonicalCausalContext :: "causal_context \<Rightarrow> bytes" where
  "CanonicalCausalContext c =
     (if cc_form c = CausalNone then [0]
      else if cc_form c = CausalScalar
      then (case cc_scalar c of None \<Rightarrow> [] | Some r \<Rightarrow> 1 # put_receipt_ref r)
      else if cc_form c = CausalList then 2 # put_list put_receipt_ref (cc_list c)
      else if cc_form c = CausalMerkle
      then 3 # putHash (cc_merkle_root c) @ putStr (cc_merkle_proof_ura c)
      else [])"

text \<open>A well-formed context carries the fields of its form and no other.\<close>

definition ok_causal :: "causal_context \<Rightarrow> bool" where
  "ok_causal c =
     (if cc_form c = CausalNone then c = CausalNoneCtx
      else if cc_form c = CausalScalar
      then (case cc_scalar c of None \<Rightarrow> False
            | Some r \<Rightarrow> c = CausalScalarCtx r \<and> ok_receipt_ref r)
      else if cc_form c = CausalList then c = CausalListCtx (cc_list c) \<and> ok_receipt_refs (cc_list c)
      else if cc_form c = CausalMerkle
      then c = CausalMerkleCtx (cc_merkle_root c) (cc_merkle_proof_ura c) \<and> fits (cc_merkle_proof_ura c)
      else False)"

lemmas causal_ctx_defs = CausalNoneCtx_def CausalScalarCtx_def CausalListCtx_def CausalMerkleCtx_def

text \<open>The four constructors build well-formed contexts.\<close>

lemma ok_causal_constructors:
  "ok_causal CausalNoneCtx"
  "ok_receipt_ref r \<Longrightarrow> ok_causal (CausalScalarCtx r)"
  "ok_receipt_refs rs \<Longrightarrow> ok_causal (CausalListCtx rs)"
  "fits u \<Longrightarrow> ok_causal (CausalMerkleCtx h u)"
  by (simp_all add: ok_causal_def causal_ctx_defs)

lemma ok_causal_cases:
  assumes "ok_causal c"
  obtains (none) "c = CausalNoneCtx"
  | (scalar) r where "c = CausalScalarCtx r" and "ok_receipt_ref r"
  | (list) rs where "c = CausalListCtx rs" and "ok_receipt_refs rs"
  | (merkle) h u where "c = CausalMerkleCtx h u" and "fits u"
  using assms by (auto simp: ok_causal_def split: if_splits option.splits)

lemma CanonicalCausalContext_simps [simp]:
  "CanonicalCausalContext CausalNoneCtx = [0]"
  "CanonicalCausalContext (CausalScalarCtx r) = 1 # put_receipt_ref r"
  "CanonicalCausalContext (CausalListCtx rs) = 2 # put_list put_receipt_ref rs"
  "CanonicalCausalContext (CausalMerkleCtx h u) = 3 # putHash h @ putStr u"
  by (simp_all add: CanonicalCausalContext_def causal_ctx_defs)

interpretation causal_format: wire_format CanonicalCausalContext ok_causal
proof
  fix x y r s
  assume x: "ok_causal x" and y: "ok_causal y"
    and eq: "CanonicalCausalContext x @ r = CanonicalCausalContext y @ s"
  from x show "x = y \<and> r = s"
  proof (cases rule: ok_causal_cases)
    case none
    from y eq show ?thesis by (cases rule: ok_causal_cases) (auto simp: none)
  next
    case (scalar a)
    from y eq scalar(2) show ?thesis
      by (cases rule: ok_causal_cases) (auto simp: scalar(1) receipt_ref_format.split_iff)
  next
    case (list as)
    from y eq list(2) show ?thesis
      by (cases rule: ok_causal_cases) (auto simp: list(1) receipt_refs_format.split_iff)
  next
    case (merkle h u)
    from y eq merkle(2) show ?thesis
      by (cases rule: ok_causal_cases) (auto simp: merkle(1) putHash_def str_format.split_iff)
  qed
qed

subsection \<open>Contexts as they are written\<close>

text \<open>
  The encoder does not check that a context is well-formed: it reads the fields of the
  form and ignores the others, and writes nothing for a scalar context without its
  reference and for an unknown form.  \<open>norm_causal\<close> keeps what is written and nothing
  else; every context written as nothing has the one normal form \<open>CausalUnwritten\<close>.  A
  context is always boxed behind its length, so that the empty encoding is told apart too.
\<close>

definition CausalUnwritten :: causal_context where
  "CausalUnwritten = CausalNoneCtx\<lparr>cc_form := CausalScalar\<rparr>"

definition norm_causal :: "causal_context \<Rightarrow> causal_context" where
  "norm_causal c =
     (if cc_form c = CausalNone then CausalNoneCtx
      else if cc_form c = CausalScalar
      then (case cc_scalar c of None \<Rightarrow> CausalUnwritten | Some r \<Rightarrow> CausalScalarCtx r)
      else if cc_form c = CausalList then CausalListCtx (cc_list c)
      else if cc_form c = CausalMerkle then CausalMerkleCtx (cc_merkle_root c) (cc_merkle_proof_ura c)
      else CausalUnwritten)"

text \<open>The lengths of the written fields, and of the encoding, fit their 32-bit prefixes.\<close>

definition sized_causal :: "causal_context \<Rightarrow> bool" where
  "sized_causal c =
     ((if cc_form c = CausalScalar then pred_option ok_receipt_ref (cc_scalar c)
       else if cc_form c = CausalList then ok_receipt_refs (cc_list c)
       else if cc_form c = CausalMerkle then fits (cc_merkle_proof_ura c)
       else True)
      \<and> fits (CanonicalCausalContext c))"

definition boxed_causal :: "causal_context \<Rightarrow> bool" where
  "boxed_causal c = (ok_causal c \<or> c = CausalUnwritten)"

lemma unwritten_bytes [simp]: "CanonicalCausalContext CausalUnwritten = []"
  by (simp add: CanonicalCausalContext_def CausalUnwritten_def CausalNoneCtx_def)

lemma ok_causal_written: "ok_causal c \<Longrightarrow> CanonicalCausalContext c \<noteq> []"
  by (erule ok_causal_cases) simp_all

lemma boxed_causal_injective:
  assumes "boxed_causal x" and "boxed_causal y"
    and "CanonicalCausalContext x = CanonicalCausalContext y"
  shows "x = y"
  using assms ok_causal_written unfolding boxed_causal_def
  by (metis causal_format.injective unwritten_bytes)

interpretation boxed_causal_format: wire_format "\<lambda>c. putBytes (CanonicalCausalContext c)"
    "\<lambda>c. boxed_causal c \<and> fits (CanonicalCausalContext c)"
  by unfold_locales (auto dest: bytes_format.unique boxed_causal_injective)

lemma norm_causal_bytes [simp]: "CanonicalCausalContext (norm_causal c) = CanonicalCausalContext c"
  unfolding norm_causal_def by (auto simp: CanonicalCausalContext_def [of c] split: option.splits)

lemma norm_causal_boxed: "sized_causal c \<Longrightarrow> boxed_causal (norm_causal c)"
  by (auto simp: norm_causal_def sized_causal_def boxed_causal_def ok_causal_constructors
      split: if_splits option.splits)

text \<open>Nothing is lost on a well-formed context.\<close>

lemma norm_causal_ok: "ok_causal c \<Longrightarrow> norm_causal c = c"
  by (erule ok_causal_cases) (simp_all add: norm_causal_def causal_ctx_defs)

lemma norm_causal_constructors [simp]:
  "norm_causal CausalNoneCtx = CausalNoneCtx"
  "norm_causal (CausalScalarCtx r) = CausalScalarCtx r"
  "norm_causal (CausalListCtx rs) = CausalListCtx rs"
  "norm_causal (CausalMerkleCtx h u) = CausalMerkleCtx h u"
  by (simp_all add: norm_causal_def causal_ctx_defs)

end
