(* ===== verification/Authority.thy ===== *)
theory Authority
  imports WireFormat
begin

text \<open>
  Authority bindings (\<open>axon/invocation/axiom.go\<close> and the validators of
  \<open>axon/invocation/receipt_provider.go\<close>): the canonical bytes of a binding and of the
  claims an issuer signs, the proof hash, the structural completeness gate
  (\<open>validateComplete...\<close>) and the gate that compares a binding with the envelope it
  travels with (\<open>validateAuthorityBinding\<close>).

  The encoder panics on the reserved and on unknown evidence kinds; that is the
  \<open>Panic\<close> result here.
\<close>

section \<open>Canonical bytes\<close>

definition delegation_payload :: "delegation_evidence \<Rightarrow> bool \<Rightarrow> bytes" where
  "delegation_payload d includeSignature =
     put_agent (dg_issuer d) @ put_list putStr (dg_scopes d) @ putStr (dg_audience d)
     @ putU64 (dg_issued_at_ms d) @ putU64 (dg_expires_at_ms d)
     @ (if includeSignature then putBytes (dg_signature d) else [])"

definition session_payload :: "session_evidence \<Rightarrow> bool \<Rightarrow> bytes" where
  "session_payload s includeSignature =
     put_agent (sn_issuer s) @ putStr (sn_session_id s) @ put_list putStr (sn_scopes s)
     @ put_list putStr (sn_audiences s)
     @ putU64 (sn_issued_at_ms s) @ putU64 (sn_expires_at_ms s)
     @ (if includeSignature then putBytes (sn_signature s) else [])"

definition putEvidencePayload :: "authority_binding \<Rightarrow> bool \<Rightarrow> bytes result" where
  "putEvidencePayload a includeSignature =
     (if ab_evidence_kind a = AuthorityEvidenceIdentity then Ok []
      else if ab_evidence_kind a = AuthorityEvidenceDelegation
      then Ok (delegation_payload
                 (case ab_delegation a of None \<Rightarrow> empty_delegation | Some d \<Rightarrow> d) includeSignature)
      else if ab_evidence_kind a = AuthorityEvidenceSession
      then Ok (session_payload
                 (case ab_session a of None \<Rightarrow> empty_session | Some s \<Rightarrow> s) includeSignature)
      else if ab_evidence_kind a = AuthorityEvidenceAttestation
      then Panic (PlainErr ''authority_evidence_attestation_reserved_and_not_encodable_in_v1'')
      else Panic (PlainErr ''receipt_authority_binding_required''))"

definition CanonicalAuthorityBytes :: "authority_binding \<Rightarrow> bytes result" where
  "CanonicalAuthorityBytes a =
     bindR (putEvidencePayload a True) (\<lambda>payload.
       Ok (put_agent (ab_authority a) @ [ab_relation a] @ [ab_evidence_kind a] @ payload))"

definition CanonicalBootstrapBytes :: "bootstrap_binding \<Rightarrow> bytes" where
  "CanonicalBootstrapBytes b =
     [6] @ putStr (bb_principal_ura b) @ putStr (bb_realm b) @ putStr (bb_ability b)"

definition CanonicalDelegationClaimBytes ::
  "agent_identity \<Rightarrow> agent_identity \<Rightarrow> delegation_evidence \<Rightarrow> bytes" where
  "CanonicalDelegationClaimBytes authority delegatee evidence =
     put_agent authority @ put_agent delegatee @ delegation_payload evidence False"

definition CanonicalSessionClaimBytes :: "agent_identity \<Rightarrow> session_evidence \<Rightarrow> bytes" where
  "CanonicalSessionClaimBytes authority evidence =
     put_agent authority @ session_payload evidence False"

definition CanonicalAuthorityOrBootstrapBytes :: "authority_or_bootstrap \<Rightarrow> bytes result" where
  "CanonicalAuthorityOrBootstrapBytes b =
     (if ob_is_bootstrap b
      then Ok (CanonicalBootstrapBytes
                 (case ob_bootstrap b of None \<Rightarrow> empty_bootstrap | Some x \<Rightarrow> x))
      else CanonicalAuthorityBytes (case ob_binding b of None \<Rightarrow> empty_binding | Some a \<Rightarrow> a))"

definition AuthorityBindingProofHash :: "platform \<Rightarrow> authority_binding \<Rightarrow> hash32 result" where
  "AuthorityBindingProofHash P b =
     bindR (CanonicalAuthorityBytes b) (\<lambda>bs. Ok (pf_sha256 P bs))"

definition BootstrapBindingProofHash :: "platform \<Rightarrow> bootstrap_binding \<Rightarrow> hash32" where
  "BootstrapBindingProofHash P b = pf_sha256 P (CanonicalBootstrapBytes b)"

definition AuthorityOrBootstrapProofHash :: "platform \<Rightarrow> authority_or_bootstrap \<Rightarrow> hash32 result" where
  "AuthorityOrBootstrapProofHash P b =
     bindR (CanonicalAuthorityOrBootstrapBytes b) (\<lambda>bs. Ok (pf_sha256 P bs))"

definition AuthorityProofExpectedHash :: "platform \<Rightarrow> authority_proof \<Rightarrow> hash32 result" where
  "AuthorityProofExpectedHash P proof =
     (if ap_proof_payload proof \<noteq> [] then Ok (pf_sha256 P (ap_proof_payload proof))
      else (case ap_binding proof of
              Some b \<Rightarrow> AuthorityOrBootstrapProofHash P b
            | None \<Rightarrow> Ok 0))"

definition ValidateAuthorityProofHash :: "platform \<Rightarrow> authority_proof \<Rightarrow> unit result" where
  "ValidateAuthorityProofHash P proof =
     bindR (AuthorityProofExpectedHash P proof) (\<lambda>expected.
       if expected \<noteq> 0 \<and> ap_proof_hash proof \<noteq> 0 \<and> ap_proof_hash proof = expected then Ok ()
       else invalid_arg ''authority_proof_hash_invalid'')"

section \<open>Structural completeness\<close>

definition nonemptyTrimmedStrings :: "string list \<Rightarrow> bool" where
  "nonemptyTrimmedStrings values = (values \<noteq> [] \<and> list_all (\<lambda>v. \<not> blank v) values)"

definition validateCompleteBootstrapBinding :: "bootstrap_binding \<Rightarrow> unit result" where
  "validateCompleteBootstrapBinding b =
     (if blank (bb_principal_ura b) \<or> blank (bb_realm b) \<or> blank (bb_ability b)
      then invalid_arg ''authority_bootstrap_incomplete'' else Ok ())"

definition delegation_complete :: "delegation_evidence option \<Rightarrow> bool" where
  "delegation_complete e =
     (case e of None \<Rightarrow> False
      | Some d \<Rightarrow> \<not> blank (ai_ura (dg_issuer d)) \<and> \<not> blank (dg_audience d)
          \<and> nonemptyTrimmedStrings (dg_scopes d) \<and> dg_signature d \<noteq> [])"

definition session_complete :: "session_evidence option \<Rightarrow> bool" where
  "session_complete e =
     (case e of None \<Rightarrow> False
      | Some s \<Rightarrow> \<not> blank (ai_ura (sn_issuer s)) \<and> \<not> blank (sn_session_id s)
          \<and> nonemptyTrimmedStrings (sn_scopes s) \<and> nonemptyTrimmedStrings (sn_audiences s)
          \<and> sn_signature s \<noteq> [])"

definition validateCompleteAuthorityBinding :: "authority_binding \<Rightarrow> unit result" where
  "validateCompleteAuthorityBinding b =
     (if blank (ai_ura (ab_authority b)) then invalid_arg ''authority_principal_required''
      else if ab_relation b = AuthorityRelationSelf \<and> ab_evidence_kind b = AuthorityEvidenceIdentity
      then Ok ()
      else if ab_relation b = AuthorityRelationDelegatedBy
              \<and> ab_evidence_kind b = AuthorityEvidenceDelegation
      then (if delegation_complete (ab_delegation b) then Ok ()
            else invalid_arg ''authority_delegation_incomplete'')
      else if ab_relation b = AuthorityRelationSessionOf
              \<and> ab_evidence_kind b = AuthorityEvidenceSession
      then (if session_complete (ab_session b) then Ok ()
            else invalid_arg ''authority_session_incomplete'')
      else if ab_relation b = AuthorityRelationCredentialOf
              \<and> ab_evidence_kind b = AuthorityEvidenceAttestation
      then invalid_arg ''authority_credential_of_reserved''
      else invalid_arg ''authority_relation_evidence_mismatch'')"

definition validateCompleteAuthorityOrBootstrap :: "authority_or_bootstrap \<Rightarrow> unit result" where
  "validateCompleteAuthorityOrBootstrap b =
     (if ob_is_bootstrap b
      then (case ob_bootstrap b of
              None \<Rightarrow> invalid_arg ''authority_bootstrap_incomplete''
            | Some x \<Rightarrow> validateCompleteBootstrapBinding x)
      else (case ob_binding b of
              None \<Rightarrow> invalid_arg ''authority_proof_binding_required''
            | Some a \<Rightarrow> validateCompleteAuthorityBinding a))"

definition validateCompleteAuthorityProof :: "platform \<Rightarrow> authority_proof \<Rightarrow> unit result" where
  "validateCompleteAuthorityProof P proof =
     (if blank (ap_proof_type proof) then invalid_arg ''authority_proof_type_required''
      else case ap_binding proof of
        None \<Rightarrow> invalid_arg ''authority_proof_binding_required''
      | Some b \<Rightarrow>
          bindR (validateCompleteAuthorityOrBootstrap b) (\<lambda>_.
          case ap_issuer proof of
            None \<Rightarrow> invalid_arg ''authority_proof_issuer_required''
          | Some issuer \<Rightarrow>
              if blank (ai_ura issuer) then invalid_arg ''authority_proof_issuer_required''
              else if blank (ap_admission_hook proof)
              then invalid_arg ''authority_proof_admission_hook_required''
              else if ap_proof_hash proof = 0
              then invalid_arg ''authority_proof_hash_semantic_zero''
              else bindR (AuthorityProofExpectedHash P proof) (\<lambda>expected.
                     if ap_proof_hash proof \<noteq> expected
                     then invalid_arg ''authority_proof_hash_mismatch'' else Ok ())))"

section \<open>The gate against the envelope\<close>

definition validateBootstrapBindingFields ::
  "agent_identity \<Rightarrow> string \<Rightarrow> bootstrap_binding \<Rightarrow> unit result" where
  "validateBootstrapBindingFields caller admittedAbility b =
     (if bb_principal_ura b \<noteq> ai_ura caller \<or> bb_ability b \<noteq> admittedAbility \<or> blank (bb_realm b)
      then invalid_arg ''authority_bootstrap_binding_mismatch'' else Ok ())"

definition validateAuthorityBindingFields ::
  "agent_identity \<Rightarrow> subject_identity \<Rightarrow> authority_binding \<Rightarrow> unit result" where
  "validateAuthorityBindingFields caller subject b =
     (if ab_relation b = AuthorityRelationSelf \<and> ab_evidence_kind b = AuthorityEvidenceIdentity
      then (if blank (ai_ura (ab_authority b)) \<or> ai_ura (ab_authority b) \<noteq> ai_ura caller
            then invalid_arg ''authority_self_principal_mismatch'' else Ok ())
      else if ab_relation b = AuthorityRelationDelegatedBy
              \<and> ab_evidence_kind b = AuthorityEvidenceDelegation
      then (case ab_delegation b of
              None \<Rightarrow> invalid_arg ''authority_delegation_binding_mismatch''
            | Some d \<Rightarrow>
                if blank (ai_ura (ab_authority b)) \<or> blank (ai_ura (dg_issuer d))
                   \<or> blank (dg_audience d) \<or> dg_scopes d = [] \<or> dg_signature d = []
                then invalid_arg ''authority_delegation_binding_mismatch'' else Ok ())
      else if ab_relation b = AuthorityRelationSessionOf
              \<and> ab_evidence_kind b = AuthorityEvidenceSession
      then (case ab_session b of
              None \<Rightarrow> invalid_arg ''authority_session_incomplete''
            | Some s \<Rightarrow>
                if blank (ai_ura (ab_authority b)) \<or> ai_ura (ab_authority b) \<noteq> si_ura subject
                   \<or> blank (ai_ura (sn_issuer s)) \<or> blank (sn_session_id s)
                   \<or> sn_scopes s = [] \<or> sn_audiences s = [] \<or> sn_signature s = []
                then invalid_arg ''authority_session_incomplete'' else Ok ())
      else if ab_relation b = AuthorityRelationCredentialOf
              \<and> ab_evidence_kind b = AuthorityEvidenceAttestation
      then invalid_arg ''authority_credential_of_reserved''
      else invalid_arg ''authority_relation_evidence_mismatch'')"

definition validateAuthorityBinding ::
  "agent_identity \<Rightarrow> subject_identity \<Rightarrow> string \<Rightarrow> authority_or_bootstrap \<Rightarrow> unit result" where
  "validateAuthorityBinding caller subject ability b =
     (if ob_is_bootstrap b
      then (case ob_bootstrap b of
              None \<Rightarrow> invalid_arg ''authority_binding_missing''
            | Some x \<Rightarrow> validateBootstrapBindingFields caller ability x)
      else (case ob_binding b of
              None \<Rightarrow> invalid_arg ''authority_binding_missing''
            | Some a \<Rightarrow> validateAuthorityBindingFields caller subject a))"

definition validateAuthorityProof ::
  "platform \<Rightarrow> authority_proof \<Rightarrow> authority_or_bootstrap \<Rightarrow> agent_identity \<Rightarrow> unit result" where
  "validateAuthorityProof P proof b callee =
     (if blank (ap_proof_type proof) then invalid_arg ''receipt_authority_proof_type_missing''
      else if ap_binding proof \<noteq> Some b
      then invalid_arg ''receipt_authority_proof_binding_mismatch''
      else case ap_issuer proof of
        None \<Rightarrow> invalid_arg ''receipt_authority_proof_issuer_missing''
      | Some issuer \<Rightarrow>
          if issuer \<noteq> callee \<or> blank (ai_ura issuer)
          then invalid_arg ''receipt_authority_proof_issuer_mismatch''
          else if blank (ap_admission_hook proof)
          then invalid_arg ''receipt_authority_proof_admission_hook_missing''
          else bindR (AuthorityProofExpectedHash P proof) (\<lambda>expected.
                 if expected = 0 \<or> ap_proof_hash proof = 0 \<or> ap_proof_hash proof \<noteq> expected
                 then invalid_arg ''receipt_authority_proof_hash_invalid'' else Ok ()))"

section \<open>Lemmas: the encoders are wire formats\<close>

text \<open>The bytes of a partial encoder, empty where it panics.\<close>

fun wire_of :: "bytes result \<Rightarrow> bytes" where
  "wire_of (Ok b) = b"
| "wire_of (Fail e) = []"
| "wire_of (Panic e) = []"

definition ok_delegation :: "delegation_evidence \<Rightarrow> bool" where
  "ok_delegation d = (ok_agent (dg_issuer d) \<and> ok_strings (dg_scopes d) \<and> fits (dg_audience d)
     \<and> fits (dg_signature d))"

definition ok_session :: "session_evidence \<Rightarrow> bool" where
  "ok_session s = (ok_agent (sn_issuer s) \<and> fits (sn_session_id s) \<and> ok_strings (sn_scopes s)
     \<and> ok_strings (sn_audiences s) \<and> fits (sn_signature s))"

lemmas block_split = agent_format.split_iff subject_format.split_iff str_format.split_iff
  bytes_format.split_iff strings_format.split_iff u64_format.split_iff u32_format.split_iff
  hash_format.split_iff nonce_format.split_iff entity_format.split_iff
  receipt_refs_format.split_iff causal_format.split_iff

lemma delegation_split:
  "ok_delegation x \<Longrightarrow> ok_delegation y \<Longrightarrow>
    (delegation_payload x True @ r = delegation_payload y True @ s) = (x = y \<and> r = s)"
  by (cases x; cases y) (simp add: delegation_payload_def ok_delegation_def block_split)

lemma session_split:
  "ok_session x \<Longrightarrow> ok_session y \<Longrightarrow>
    (session_payload x True @ r = session_payload y True @ s) = (x = y \<and> r = s)"
  by (cases x; cases y) (simp add: session_payload_def ok_session_def block_split)

text \<open>The claim an issuer signs determines everything in it but the signature.\<close>

lemma delegation_claim_split:
  "ok_agent a \<Longrightarrow> ok_agent b \<Longrightarrow> ok_agent c \<Longrightarrow> ok_agent d \<Longrightarrow> ok_delegation x \<Longrightarrow> ok_delegation y \<Longrightarrow>
   (CanonicalDelegationClaimBytes a c x = CanonicalDelegationClaimBytes b d y)
     = (a = b \<and> c = d \<and> x\<lparr>dg_signature := []\<rparr> = y\<lparr>dg_signature := []\<rparr>)"
  using u64_format.injective
  by (cases x; cases y)
    (simp add: CanonicalDelegationClaimBytes_def delegation_payload_def ok_delegation_def block_split)

lemma session_claim_split:
  "ok_agent a \<Longrightarrow> ok_agent b \<Longrightarrow> ok_session x \<Longrightarrow> ok_session y \<Longrightarrow>
   (CanonicalSessionClaimBytes a x = CanonicalSessionClaimBytes b y)
     = (a = b \<and> x\<lparr>sn_signature := []\<rparr> = y\<lparr>sn_signature := []\<rparr>)"
  using u64_format.injective
  by (cases x; cases y)
    (simp add: CanonicalSessionClaimBytes_def session_payload_def ok_session_def block_split)

text \<open>A well-formed binding carries the evidence of its kind and no other.\<close>

definition ok_binding :: "authority_binding \<Rightarrow> bool" where
  "ok_binding a =
     (ok_agent (ab_authority a) \<and>
      (if ab_evidence_kind a = AuthorityEvidenceIdentity
       then ab_delegation a = None \<and> ab_session a = None
       else if ab_evidence_kind a = AuthorityEvidenceDelegation
       then (case ab_delegation a of None \<Rightarrow> False | Some d \<Rightarrow> ok_delegation d) \<and> ab_session a = None
       else if ab_evidence_kind a = AuthorityEvidenceSession
       then (case ab_session a of None \<Rightarrow> False | Some s \<Rightarrow> ok_session s) \<and> ab_delegation a = None
       else False))"

lemma ok_binding_encodes: "ok_binding a \<Longrightarrow> is_ok (CanonicalAuthorityBytes a)"
  by (simp add: ok_binding_def CanonicalAuthorityBytes_def putEvidencePayload_def split: if_splits)

lemma binding_split:
  assumes "ok_binding x" and "ok_binding y"
    and "wire_of (CanonicalAuthorityBytes x) @ r = wire_of (CanonicalAuthorityBytes y) @ s"
  shows "x = y \<and> r = s"
  using assms
  by (cases x; cases y)
    (auto simp: ok_binding_def CanonicalAuthorityBytes_def putEvidencePayload_def block_split
      delegation_split session_split split: if_splits option.splits)

interpretation binding_format: wire_format "\<lambda>a. wire_of (CanonicalAuthorityBytes a)" ok_binding
  using binding_split by unfold_locales

definition ok_bootstrap :: "bootstrap_binding \<Rightarrow> bool" where
  "ok_bootstrap b = (fits (bb_principal_ura b) \<and> fits (bb_realm b) \<and> fits (bb_ability b))"

interpretation bootstrap_format: wire_format CanonicalBootstrapBytes ok_bootstrap
proof
  fix x y r s
  assume "ok_bootstrap x" "ok_bootstrap y"
    "CanonicalBootstrapBytes x @ r = CanonicalBootstrapBytes y @ s"
  then show "x = y \<and> r = s"
    by (cases x; cases y) (simp add: CanonicalBootstrapBytes_def ok_bootstrap_def block_split)
qed

text \<open>
  The bytes of the two planes are told apart by the first byte, which is the tag 6 for a
  bootstrap fact and the high byte of the length of the authority URA for a binding:
  they differ as long as that URA is shorter than \<open>6 * 2^24\<close> bytes.
\<close>

definition ok_authority :: "authority_or_bootstrap \<Rightarrow> bool" where
  "ok_authority b =
     (if ob_is_bootstrap b
      then ob_binding b = None \<and> (case ob_bootstrap b of None \<Rightarrow> False | Some x \<Rightarrow> ok_bootstrap x)
      else ob_bootstrap b = None \<and>
           (case ob_binding b of None \<Rightarrow> False
            | Some a \<Rightarrow> ok_binding a \<and> length (ai_ura (ab_authority a)) < 6 * 2 ^ 24))"

lemma high_byte_len32:
  assumes "length xs < 6 * 2 ^ 24"
  shows "be_bytes 4 (len32 xs) ! 0 \<noteq> 6"
proof
  assume "be_bytes 4 (len32 xs) ! 0 = 6"
  then have "ucast (drop_bit 24 (len32 xs)) = (6 :: u8)" by (simp add: be_bytes_nth)
  then have "unat (ucast (drop_bit 24 (len32 xs)) :: u8) = 6" by simp
  moreover have "unat (len32 xs) = length xs"
    using assms by (simp add: len32_def unsigned_of_nat take_bit_nat_eq_self)
  then have "unat (drop_bit 24 (len32 xs)) = length xs div 2 ^ 24"
    by (simp add: unat_drop_bit_eq del: drop_bit_eq_div) (simp add: drop_bit_eq_div)
  moreover have "length xs div 2 ^ 24 < 6" using assms by (simp add: less_mult_imp_div_less)
  ultimately show False by (simp add: unsigned_ucast_eq take_bit_nat_eq_self del: drop_bit_eq_div)
qed

lemma planes_disjoint:
  assumes "length (ai_ura (ab_authority a)) < 6 * 2 ^ 24"
    and "is_ok (CanonicalAuthorityBytes a)"
  shows "wire_of (CanonicalAuthorityBytes a) @ r \<noteq> CanonicalBootstrapBytes b @ s"
proof
  assume eq: "wire_of (CanonicalAuthorityBytes a) @ r = CanonicalBootstrapBytes b @ s"
  from assms(2) obtain rest where
    "wire_of (CanonicalAuthorityBytes a) = be_bytes 4 (len32 (str_bytes (ai_ura (ab_authority a)))) @ rest"
    by (auto simp: is_ok_iff CanonicalAuthorityBytes_def bindR_Ok_iff put_agent_def putIdentity_def
        putStr_def putBytes_def putU32_def)
  then have "(wire_of (CanonicalAuthorityBytes a) @ r) ! 0
      = be_bytes 4 (len32 (str_bytes (ai_ura (ab_authority a)))) ! 0"
    by (simp add: nth_append)
  moreover have "(CanonicalBootstrapBytes b @ s) ! 0 = 6" by (simp add: CanonicalBootstrapBytes_def)
  ultimately show False using eq high_byte_len32 [of "str_bytes (ai_ura (ab_authority a))"] assms(1)
    by simp
qed

lemma ok_authority_encodes: "ok_authority b \<Longrightarrow> is_ok (CanonicalAuthorityOrBootstrapBytes b)"
  by (auto simp: ok_authority_def CanonicalAuthorityOrBootstrapBytes_def ok_binding_encodes
      split: if_splits option.splits)

lemma authority_split:
  assumes x: "ok_authority x" and y: "ok_authority y"
    and eq: "wire_of (CanonicalAuthorityOrBootstrapBytes x) @ r
      = wire_of (CanonicalAuthorityOrBootstrapBytes y) @ s"
  shows "x = y \<and> r = s"
proof (cases "ob_is_bootstrap x"; cases "ob_is_bootstrap y")
  assume "ob_is_bootstrap x" "ob_is_bootstrap y"
  with x y eq show ?thesis
    by (cases x; cases y)
      (auto simp: ok_authority_def CanonicalAuthorityOrBootstrapBytes_def
        bootstrap_format.split_iff split: option.splits)
next
  assume "ob_is_bootstrap x" "\<not> ob_is_bootstrap y"
  with x y eq show ?thesis
    by (auto simp: ok_authority_def CanonicalAuthorityOrBootstrapBytes_def ok_binding_encodes
        planes_disjoint planes_disjoint [symmetric] split: option.splits)
next
  assume "\<not> ob_is_bootstrap x" "ob_is_bootstrap y"
  with x y eq show ?thesis
    by (auto simp: ok_authority_def CanonicalAuthorityOrBootstrapBytes_def ok_binding_encodes
        planes_disjoint planes_disjoint [symmetric] split: option.splits)
next
  assume "\<not> ob_is_bootstrap x" "\<not> ob_is_bootstrap y"
  with x y eq show ?thesis
    by (cases x; cases y)
      (auto simp: ok_authority_def CanonicalAuthorityOrBootstrapBytes_def
        binding_format.split_iff split: option.splits)
qed

interpretation authority_format:
  wire_format "\<lambda>b. wire_of (CanonicalAuthorityOrBootstrapBytes b)" ok_authority
  using authority_split by unfold_locales

section \<open>Bindings as they are written\<close>

text \<open>
  The encoder reads the plane that \<open>ob_is_bootstrap\<close> selects, and of a binding the
  evidence of its kind; what stands in the other fields is not written.  \<open>norm_authority\<close>
  clears those fields (and puts in the zero value that is written for a missing one).
\<close>

definition norm_binding :: "authority_binding \<Rightarrow> authority_binding" where
  "norm_binding a =
     a\<lparr>ab_delegation := (if ab_evidence_kind a = AuthorityEvidenceDelegation
          then Some (case ab_delegation a of None \<Rightarrow> empty_delegation | Some d \<Rightarrow> d) else None),
       ab_session := (if ab_evidence_kind a = AuthorityEvidenceSession
          then Some (case ab_session a of None \<Rightarrow> empty_session | Some s \<Rightarrow> s) else None)\<rparr>"

definition norm_authority :: "authority_or_bootstrap \<Rightarrow> authority_or_bootstrap" where
  "norm_authority b =
     (if ob_is_bootstrap b
      then b\<lparr>ob_binding := None,
             ob_bootstrap := Some (case ob_bootstrap b of None \<Rightarrow> empty_bootstrap | Some x \<Rightarrow> x)\<rparr>
      else b\<lparr>ob_bootstrap := None,
             ob_binding := Some (norm_binding (case ob_binding b of None \<Rightarrow> empty_binding | Some a \<Rightarrow> a))\<rparr>)"

text \<open>The written lengths fit their prefixes; the length of an authority URA leaves the
  tag of the bootstrap plane free.\<close>

definition sized_binding :: "authority_binding \<Rightarrow> bool" where
  "sized_binding a =
     (ok_agent (ab_authority a) \<and> length (ai_ura (ab_authority a)) < 6 * 2 ^ 24
      \<and> (ab_evidence_kind a = AuthorityEvidenceDelegation \<longrightarrow> pred_option ok_delegation (ab_delegation a))
      \<and> (ab_evidence_kind a = AuthorityEvidenceSession \<longrightarrow> pred_option ok_session (ab_session a)))"

definition sized_authority :: "authority_or_bootstrap \<Rightarrow> bool" where
  "sized_authority b =
     (if ob_is_bootstrap b then pred_option ok_bootstrap (ob_bootstrap b)
      else pred_option sized_binding (ob_binding b))"

lemma empty_evidence_sized:
  "ok_delegation empty_delegation" "ok_session empty_session" "ok_bootstrap empty_bootstrap"
  "sized_binding empty_binding"
  by (simp_all add: ok_delegation_def ok_session_def ok_bootstrap_def sized_binding_def ok_agent_def
      ok_strings_def fits_def empty_delegation_def empty_session_def empty_bootstrap_def
      empty_binding_def empty_identity_def)

lemma norm_binding_bytes: "CanonicalAuthorityBytes (norm_binding a) = CanonicalAuthorityBytes a"
  by (simp add: CanonicalAuthorityBytes_def putEvidencePayload_def norm_binding_def)

lemma norm_authority_bytes [simp]:
  "CanonicalAuthorityOrBootstrapBytes (norm_authority b) = CanonicalAuthorityOrBootstrapBytes b"
  by (simp add: CanonicalAuthorityOrBootstrapBytes_def norm_authority_def norm_binding_bytes)

lemma norm_binding_ok:
  assumes "sized_binding a" and "is_ok (CanonicalAuthorityBytes a)"
  shows "ok_binding (norm_binding a) \<and> length (ai_ura (ab_authority (norm_binding a))) < 6 * 2 ^ 24"
  using assms empty_evidence_sized
  by (auto simp: sized_binding_def ok_binding_def norm_binding_def CanonicalAuthorityBytes_def
      putEvidencePayload_def split: if_splits option.splits)

lemma norm_authority_ok:
  assumes "sized_authority b" and "is_ok (CanonicalAuthorityOrBootstrapBytes b)"
  shows "ok_authority (norm_authority b)"
  using assms empty_evidence_sized norm_binding_ok
  by (auto simp: sized_authority_def ok_authority_def norm_authority_def
      CanonicalAuthorityOrBootstrapBytes_def split: if_splits option.splits)

text \<open>Nothing is lost on a well-formed binding.\<close>

lemma norm_authority_id: "ok_authority b \<Longrightarrow> norm_authority b = b"
  by (cases b) (auto simp: ok_authority_def norm_authority_def ok_binding_def norm_binding_def
      split: if_splits option.splits)

end
