(* ===== verification/ReceiptBytes.thy ===== *)
theory ReceiptBytes
  imports Authority
begin

text \<open>
  The canonical bytes a caller signs (\<open>canonicalDescriptorBoundInvocationBytes\<close>) and the
  canonical bytes a callee signs (\<open>CanonicalReceiptBytesWithHosted\<close>), the validation of
  receipt proof facts on the way, host attestation, key resolution and the signature
  checks of \<open>axon/invocation/axiom.go\<close>.  The lemmas show that both byte sequences
  determine every field they cover.
\<close>

section \<open>Proof facts\<close>

definition check_parents :: "receipt_ref list \<Rightarrow> unit result" where
  "check_parents parents =
     (if list_ex (\<lambda>p. rr_hash p = 0 \<or> blank (rr_ura p)) parents
      then invalid_arg ''parent_receipt_semantically_invalid'' else Ok ())"

definition validateReceiptProofFactsSemantics :: "platform \<Rightarrow> receipt_proof_facts \<Rightarrow> unit result" where
  "validateReceiptProofFactsSemantics P facts =
     (case pf_subject_ref facts of
        None \<Rightarrow> invalid_arg ''subject_ref_required''
      | Some subjectRef \<Rightarrow>
          if blank (er_ura subjectRef) then invalid_arg ''subject_ref_required''
          else if blank (pf_descriptor_version facts) then invalid_arg ''descriptor_version_required''
          else if blank (pf_runtime_env facts) then invalid_arg ''runtime_env_required''
          else if pf_schema_hash facts = 0 then invalid_arg ''schema_hash_semantic_zero''
          else if pf_impl_hash facts = 0 then invalid_arg ''impl_hash_semantic_zero''
          else if pf_input_hash facts = 0 then invalid_arg ''input_hash_semantic_zero''
          else if pf_output_hash facts = 0 then invalid_arg ''output_hash_semantic_zero''
          else bindR (validateCompleteAuthorityProof P (pf_authority_proof facts)) (\<lambda>_.
                 check_parents (pf_parent_receipts facts)))"

definition TryNewReceiptProofFacts ::
  "platform \<Rightarrow> entity_ref option \<Rightarrow> string \<Rightarrow> hash32 \<Rightarrow> hash32 \<Rightarrow> string \<Rightarrow> authority_proof \<Rightarrow>
   hash32 \<Rightarrow> hash32 \<Rightarrow> receipt_ref list \<Rightarrow> receipt_proof_facts result" where
  "TryNewReceiptProofFacts P subjectRef descriptorVersion schemaHash implHash runtimeEnv
      authorityProof inputHash outputHash parentReceipts =
     (let facts = \<lparr>pf_subject_ref = subjectRef, pf_descriptor_version = descriptorVersion,
            pf_schema_hash = schemaHash, pf_impl_hash = implHash, pf_runtime_env = runtimeEnv,
            pf_authority_proof = authorityProof, pf_input_hash = inputHash,
            pf_output_hash = outputHash, pf_parent_receipts = parentReceipts, pf_complete = False\<rparr>
      in bindR (validateReceiptProofFactsSemantics P facts) (\<lambda>_. Ok (facts\<lparr>pf_complete := True\<rparr>)))"

definition NewReceiptProofFacts ::
  "platform \<Rightarrow> entity_ref option \<Rightarrow> string \<Rightarrow> hash32 \<Rightarrow> hash32 \<Rightarrow> string \<Rightarrow> authority_proof \<Rightarrow>
   hash32 \<Rightarrow> hash32 \<Rightarrow> receipt_ref list \<Rightarrow> receipt_proof_facts result" where
  "NewReceiptProofFacts P subjectRef descriptorVersion schemaHash implHash runtimeEnv
      authorityProof inputHash outputHash parentReceipts =
     must (TryNewReceiptProofFacts P subjectRef descriptorVersion schemaHash implHash runtimeEnv
      authorityProof inputHash outputHash parentReceipts)"

definition put_callee_signature :: "callee_signature \<Rightarrow> bytes" where
  "put_callee_signature s = putStr (ce_algorithm s) @ putBytes (ce_signature s) @ putStr (ce_key_id_hint s)"

definition CanonicalAuthorityProofBytes :: "authority_proof \<Rightarrow> bytes result" where
  "CanonicalAuthorityProofBytes proof =
     bindR (case ap_binding proof of
              None \<Rightarrow> Ok [0]
            | Some b \<Rightarrow> bindR (CanonicalAuthorityOrBootstrapBytes b) (\<lambda>bs. Ok (1 # putBytes bs)))
       (\<lambda>bindingBlock.
         Ok (putStr (ap_proof_type proof) @ bindingBlock @ putBytes (ap_proof_payload proof)
             @ putHash (ap_proof_hash proof) @ put_opt put_agent (ap_issuer proof)
             @ put_opt put_callee_signature (ap_signature proof) @ putStr (ap_admission_hook proof)))"

definition TryCanonicalReceiptProofFacts :: "platform \<Rightarrow> receipt_proof_facts \<Rightarrow> bytes result" where
  "TryCanonicalReceiptProofFacts P facts =
     (if \<not> pf_complete facts then invalid_arg ''receipt_proof_facts_required''
      else bindR (validateReceiptProofFactsSemantics P facts) (\<lambda>_.
           bindR (CanonicalAuthorityProofBytes (pf_authority_proof facts)) (\<lambda>proofBytes.
             Ok (put_opt (\<lambda>e. putBytes (CanonicalEntityRef e)) (pf_subject_ref facts)
                 @ putStr (pf_descriptor_version facts) @ putHash (pf_schema_hash facts)
                 @ putHash (pf_impl_hash facts) @ putStr (pf_runtime_env facts)
                 @ putBytes proofBytes @ putHash (pf_input_hash facts) @ putHash (pf_output_hash facts)
                 @ put_list put_receipt_ref (pf_parent_receipts facts)))))"

definition CanonicalReceiptProofFacts :: "platform \<Rightarrow> receipt_proof_facts \<Rightarrow> bytes result" where
  "CanonicalReceiptProofFacts P facts = must (TryCanonicalReceiptProofFacts P facts)"

section \<open>Invocation bytes\<close>

definition canonicalDescriptorBoundInvocationBytes :: "descriptor_bound_envelope \<Rightarrow> bytes result" where
  "canonicalDescriptorBoundInvocationBytes env =
     (let raw = dbe_envelope env in
      bindR (EntityRefForSubject (en_subject raw)) (\<lambda>subjectRef.
      bindR (CanonicalAbilityDescriptorRef (en_ability raw)) (\<lambda>abilityRef.
        Ok (put_agent (en_caller raw) @ put_agent (en_callee raw)
            @ putBytes (CanonicalEntityRef subjectRef) @ putStr abilityRef
            @ putHash (en_args_digest raw) @ putNonce (en_nonce raw)
            @ putBytes (CanonicalCausalContext (en_causal raw))))))"

section \<open>Host attestation\<close>

definition CanonicalHostAttestationBytes :: "string \<Rightarrow> string \<Rightarrow> bytes" where
  "CanonicalHostAttestationBytes calleeURA signerURA =
     str_bytes (''host-attest:v1'' @ [CHR 0x0A]) @ putStr calleeURA @ putStr signerURA"

text \<open>\<open>ed25519.SignatureSize\<close>, \<open>PublicKeySize\<close>, \<open>PrivateKeySize\<close>.\<close>

definition SignatureSize :: nat where "SignatureSize = 64"
definition PublicKeySize :: nat where "PublicKeySize = 32"
definition PrivateKeySize :: nat where "PrivateKeySize = 64"

text \<open>\<open>ed25519.Verify\<close> and \<open>ed25519.Sign\<close> panic on a key of the wrong length.\<close>

definition edVerify :: "platform \<Rightarrow> bytes \<Rightarrow> bytes \<Rightarrow> bytes \<Rightarrow> bool result" where
  "edVerify P key message sig =
     (if length key \<noteq> PublicKeySize
      then Panic (PlainErr (''ed25519: bad public key length: '' @ dec_nat (length key)))
      else Ok (pf_verify P key message sig))"

definition edSign :: "platform \<Rightarrow> bytes \<Rightarrow> bytes \<Rightarrow> bytes result" where
  "edSign P key message =
     (if length key \<noteq> PrivateKeySize
      then Panic (PlainErr (''ed25519: bad private key length: '' @ dec_nat (length key)))
      else Ok (pf_sign P key message))"

definition wrong_length :: "string \<Rightarrow> nat \<Rightarrow> 'a list \<Rightarrow> 'b result" where
  "wrong_length what expected got =
     invalid_arg (what @ '':expected_'' @ dec_nat expected @ ''_got_'' @ dec_nat (length got))"

definition VerifyHostAttestation ::
  "platform \<Rightarrow> string \<Rightarrow> string \<Rightarrow> bytes \<Rightarrow> bytes \<Rightarrow> unit result" where
  "VerifyHostAttestation P calleeURA signerURA hostAttestation signerKey =
     bindR (ValidateHostedAttestationAuthority calleeURA signerURA) (\<lambda>_.
       if length hostAttestation \<noteq> SignatureSize
       then wrong_length ''host_attestation_wrong_length'' SignatureSize hostAttestation
       else bindR (edVerify P signerKey (CanonicalHostAttestationBytes calleeURA signerURA)
                     hostAttestation) (\<lambda>valid.
              if \<not> valid then invalid_arg ''host_attestation_invalid'' else Ok ()))"

section \<open>Receipt bytes\<close>

definition put_usage :: "invocation_usage \<Rightarrow> bytes" where
  "put_usage u = putU64 (us_tokens_in u) @ putU64 (us_tokens_out u) @ putU64 (us_duration_ms u)
     @ putU32 (us_external_calls u)"

definition put_hosted :: "hosted_attestation \<Rightarrow> bytes" where
  "put_hosted h = put_agent (ha_signer_binding h) @ putBytes (ha_host_attestation h)"

definition receipt_prefix :: "receipt_body \<Rightarrow> hosted_attestation option \<Rightarrow> bytes" where
  "receipt_prefix r hosted =
     putU64 (rb_index r) @ putStr (rb_invocation_id r) @ putStr (rb_receipt_type r)
     @ putStr (rb_state r) @ putU64 (rb_timestamp r) @ putHash (rb_prev_hash r)
     @ put_agent (rb_caller r) @ put_agent (rb_callee r) @ put_subject (rb_subject r)
     @ putNonce (rb_nonce r) @ putBytes (CanonicalCausalContext (rb_causal r))
     @ putHash (rb_payload_digest r) @ putStr (rb_reason r) @ put_bool (rb_cleanup_complete r)
     @ put_opt put_hosted hosted @ putStr (rb_ability r)"

definition CanonicalReceiptBytesWithHosted ::
  "platform \<Rightarrow> receipt_body \<Rightarrow> hosted_attestation option \<Rightarrow> bytes result" where
  "CanonicalReceiptBytesWithHosted P r hosted =
     (if \<not> is_ok (validateAuthorityBinding (rb_caller r) (rb_subject r) (rb_ability r) (rb_authority r))
      then Panic (PlainErr ''receipt_authority_binding_required'')
      else bindR (must (TryCanonicalReceiptProofFacts P (rb_proof_facts r))) (\<lambda>proofFacts.
           bindR (CanonicalAuthorityOrBootstrapBytes (rb_authority r)) (\<lambda>authority.
             Ok (receipt_prefix r hosted @ authority @ put_usage (rb_usage r) @ putBytes proofFacts))))"

definition CanonicalReceiptBytes :: "platform \<Rightarrow> receipt_body \<Rightarrow> bytes result" where
  "CanonicalReceiptBytes P r = CanonicalReceiptBytesWithHosted P r None"

section \<open>Keys and signatures\<close>

text \<open>A \<open>KeyResolver\<close> maps an agent URA to a public key.  \<open>FileKeyResolver\<close> reads it
  from a file; \<open>os.ReadFile\<close> is the argument \<open>readFile\<close>, \<open>Inl\<close> its error text.\<close>

type_synonym key_resolver = "string \<Rightarrow> bytes result"

type_synonym file_key_resolver = "string \<rightharpoonup> string"

definition NewFileKeyResolver :: file_key_resolver where
  "NewFileKeyResolver = Map.empty"

definition FileKeyResolver_Insert :: "file_key_resolver \<Rightarrow> string \<Rightarrow> string \<Rightarrow> file_key_resolver" where
  "FileKeyResolver_Insert r agentURA path = r(agentURA \<mapsto> path)"

definition FileKeyResolver_Resolve ::
  "(string \<Rightarrow> string + bytes) \<Rightarrow> file_key_resolver \<Rightarrow> key_resolver" where
  "FileKeyResolver_Resolve readFile r agentURA =
     (case r agentURA of
        None \<Rightarrow> invalid_arg (''unknown_agent_key:'' @ agentURA)
      | Some path \<Rightarrow>
          (case readFile path of
             Inl err \<Rightarrow> Fail (AxonErr (ErrInternal (''key_file_read_failed:'' @ path @ '':'' @ err)))
           | Inr b \<Rightarrow> if length b \<noteq> 32 then wrong_length ''key_file_wrong_length'' 32 b else Ok b))"

definition signDescriptorBoundInvocation ::
  "platform \<Rightarrow> bytes \<Rightarrow> descriptor_bound_envelope \<Rightarrow> string \<Rightarrow> caller_signature result" where
  "signDescriptorBoundInvocation P sk env keyIDHint =
     bindR (canonicalDescriptorBoundInvocationBytes env) (\<lambda>b.
     bindR (edSign P sk b) (\<lambda>sig.
       Ok \<lparr>cs_algorithm = ''ed25519'', cs_signature = sig, cs_key_id_hint = keyIDHint\<rparr>))"

definition caller_signature_invalid :: axon_error where
  "caller_signature_invalid =
     (ErrInvalidArgument ''CALLER_SIGNATURE_INVALID'')\<lparr>ae_message := ''caller_signature_invalid''\<rparr>"

definition verifyDescriptorBoundInvocationSignature ::
  "platform \<Rightarrow> descriptor_bound_envelope \<Rightarrow> caller_signature \<Rightarrow> key_resolver \<Rightarrow> unit result" where
  "verifyDescriptorBoundInvocationSignature P env sig resolver =
     (if cs_algorithm sig \<noteq> ''ed25519''
      then invalid_arg (''unsupported_algorithm:'' @ cs_algorithm sig)
      else bindR (resolver (ai_ura (en_caller (dbe_envelope env)))) (\<lambda>key.
           if length (cs_signature sig) \<noteq> SignatureSize
           then wrong_length ''signature_wrong_length'' SignatureSize (cs_signature sig)
           else bindR (canonicalDescriptorBoundInvocationBytes env) (\<lambda>b.
                bindR (edVerify P key b (cs_signature sig)) (\<lambda>valid.
                  if \<not> valid then Fail (AxonErr caller_signature_invalid) else Ok ()))))"

definition VerifyReceiptSignatureWithHosted ::
  "platform \<Rightarrow> receipt_body \<Rightarrow> hosted_attestation option \<Rightarrow> callee_signature \<Rightarrow> key_resolver \<Rightarrow>
   unit result" where
  "VerifyReceiptSignatureWithHosted P r hosted sig resolver =
     (if ce_algorithm sig \<noteq> ''ed25519''
      then invalid_arg (''unsupported_algorithm:'' @ ce_algorithm sig)
      else bindR (resolver (case hosted of None \<Rightarrow> ai_ura (rb_callee r)
                                         | Some h \<Rightarrow> ai_ura (ha_signer_binding h))) (\<lambda>key.
           bindR (case hosted of None \<Rightarrow> Ok ()
                  | Some h \<Rightarrow> VerifyHostAttestation P (ai_ura (rb_callee r))
                                (ai_ura (ha_signer_binding h)) (ha_host_attestation h) key) (\<lambda>_.
           if length (ce_signature sig) \<noteq> SignatureSize
           then wrong_length ''signature_wrong_length'' SignatureSize (ce_signature sig)
           else bindR (CanonicalReceiptBytesWithHosted P r hosted) (\<lambda>b.
                bindR (edVerify P key b (ce_signature sig)) (\<lambda>valid.
                  if \<not> valid then invalid_arg ''callee_signature_invalid'' else Ok ())))))"

definition VerifyReceiptSignature ::
  "platform \<Rightarrow> receipt_body \<Rightarrow> callee_signature \<Rightarrow> key_resolver \<Rightarrow> unit result" where
  "VerifyReceiptSignature P r sig resolver = VerifyReceiptSignatureWithHosted P r None sig resolver"

text \<open>\<open>SigningKeyFromBytes\<close>: a 32-byte seed; the expansion to the private key is the
  argument \<open>fromSeed\<close> (\<open>ed25519.NewKeyFromSeed\<close>).\<close>

definition SigningKeyFromBytes :: "(bytes \<Rightarrow> bytes) \<Rightarrow> bytes \<Rightarrow> bytes result" where
  "SigningKeyFromBytes fromSeed secret =
     (if length secret \<noteq> 32 then wrong_length ''secret_wrong_length'' 32 secret
      else Ok (fromSeed secret))"

section \<open>Lemmas: the signed bytes determine what they cover\<close>

subsection \<open>Invocations\<close>

text \<open>The bound under which the lengths of an envelope are written exactly.\<close>

definition ok_envelope :: "invocation_envelope \<Rightarrow> bool" where
  "ok_envelope e = (ok_agent (en_caller e) \<and> ok_agent (en_callee e) \<and> ok_subject (en_subject e)
     \<and> length (si_ura (en_subject e)) + length (si_profile (en_subject e)) < 2 ^ 31
     \<and> length (en_ability e) < 2 ^ 32
     \<and> boxed_causal (en_causal e) \<and> fits (CanonicalCausalContext (en_causal e)))"

lemma trim_space_length: "length (trim_space s) \<le> length s"
proof -
  obtain u v where u: "s = u @ strip_lead ws_seqs s"
    and v: "rev (strip_lead ws_seqs s) = v @ strip_lead (map rev ws_seqs) (rev (strip_lead ws_seqs s))"
    using strip_lead_suffix by meson
  have "length s = length u + length (strip_lead ws_seqs s)"
    by (subst u) simp
  moreover have "length (strip_lead ws_seqs s) = length v + length (trim_space s)"
    unfolding trim_space_def by (metis length_append length_rev v)
  ultimately show ?thesis by simp
qed

lemma cut_length: "cut c s = Some (a, b) \<Longrightarrow> length s = length a + length b + 1"
  using cut_some by fastforce

lemma split_once_length:
  assumes "split_once c s = Some (a, b)"
  shows "length a + length b + 1 \<le> length s"
proof -
  from assms obtain u v where "cut c s = Some (u, v)" and "a = trim_space u" and "b = trim_space v"
    by (auto simp: split_once_def split: if_splits)
  then show ?thesis
    using cut_length [of c s u v] trim_space_length [of u] trim_space_length [of v] by simp
qed

lemma parse_raw_length:
  assumes "ParseAbilityDescriptorRef s = Ok ref"
  shows "length (ad_raw ref) \<le> length s"
proof -
  from assms obtain u w where s1: "split_once CHR ''@'' (trim_space s) = Some (u, w)"
    and pv: "parse_version u w = Ok ref"
    by (auto simp: ParseAbilityDescriptorRef_def Let_def bindR_Ok_iff split: if_splits option.splits)
  from pv obtain v x where s2: "split_once CHR ''#'' w = Some (v, x)"
    and pd: "parse_digest_action u v x = Ok ref"
    by (auto simp: parse_version_def split: if_splits option.splits)
  from pd obtain d a where s3: "split_once CHR ''!'' x = Some (d, a)"
    and "length (ad_raw ref) = length u + length v + length d + length a + 3"
    by (auto simp: parse_digest_action_def split: if_splits option.splits)
  with split_once_length [OF s1] split_once_length [OF s2] split_once_length [OF s3]
    trim_space_length [of s]
  show ?thesis by linarith
qed

lemma length_put [simp]:
  "length (putU32 v) = 4" "length (putStr s) = 4 + length s" "length (putBytes b) = 4 + length b"
  by (simp_all add: putU32_def putStr_def putBytes_def)

lemma EntityRefForSubject_Ok:
  "EntityRefForSubject s = Ok e \<Longrightarrow> er_ura e = si_ura s \<and> er_profile e = si_profile s"
  by (auto simp: EntityRefForSubject_def bindR_Ok_iff)

lemma entity_ref_subject:
  assumes "EntityRefForSubject x = Ok e" and "EntityRefForSubject y = Ok e"
  shows "x = y"
  using EntityRefForSubject_Ok [OF assms(1)] EntityRefForSubject_Ok [OF assms(2)]
  by (cases x; cases y) simp

lemma invocation_bytes_split:
  assumes "canonicalDescriptorBoundInvocationBytes (DBEnvelope x) = Ok b"
    and "canonicalDescriptorBoundInvocationBytes (DBEnvelope y) = Ok b"
    and "ok_envelope x" and "ok_envelope y"
  shows "en_caller x = en_caller y \<and> en_callee x = en_callee y \<and> en_subject x = en_subject y
    \<and> CanonicalAbilityDescriptorRef (en_ability x) = CanonicalAbilityDescriptorRef (en_ability y)
    \<and> en_args_digest x = en_args_digest y \<and> en_nonce x = en_nonce y
    \<and> en_causal x = en_causal y"
proof -
  from assms(1) obtain ex ax where x: "EntityRefForSubject (en_subject x) = Ok ex"
      "CanonicalAbilityDescriptorRef (en_ability x) = Ok ax"
    and bx: "b = put_agent (en_caller x) @ put_agent (en_callee x)
            @ putBytes (CanonicalEntityRef ex) @ putStr ax
            @ putHash (en_args_digest x) @ putNonce (en_nonce x)
            @ putBytes (CanonicalCausalContext (en_causal x))"
    by (auto simp: canonicalDescriptorBoundInvocationBytes_def Let_def bindR_Ok_iff)
  from assms(2) obtain ey ay where y: "EntityRefForSubject (en_subject y) = Ok ey"
      "CanonicalAbilityDescriptorRef (en_ability y) = Ok ay"
    and by': "b = put_agent (en_caller y) @ put_agent (en_callee y)
            @ putBytes (CanonicalEntityRef ey) @ putStr ay
            @ putHash (en_args_digest y) @ putNonce (en_nonce y)
            @ putBytes (CanonicalCausalContext (en_causal y))"
    by (auto simp: canonicalDescriptorBoundInvocationBytes_def Let_def bindR_Ok_iff)
  have e: "ok_entity ex" "ok_entity ey" "fits (CanonicalEntityRef ex)" "fits (CanonicalEntityRef ey)"
    using EntityRefForSubject_Ok [OF x(1)] EntityRefForSubject_Ok [OF y(1)] assms(3,4)
    by (simp_all add: ok_envelope_def ok_entity_def ok_subject_def fits_def CanonicalEntityRef_def)
  have a: "fits ax" "fits ay"
    using x(2) y(2) assms(3,4) parse_raw_length
    by (fastforce simp: CanonicalAbilityDescriptorRef_def bindR_Ok_iff ok_envelope_def fits_def)+
  from bx by' have "en_caller x = en_caller y \<and> en_callee x = en_callee y \<and> ex = ey \<and> ax = ay
    \<and> en_args_digest x = en_args_digest y \<and> en_nonce x = en_nonce y
    \<and> en_causal x = en_causal y"
    using assms(3,4) e a boxed_causal_format.injective
    by (simp add: ok_envelope_def block_split entity_format.injective)
  with x y entity_ref_subject show ?thesis by metis
qed

subsection \<open>Receipts\<close>

definition ok_callee_signature :: "callee_signature \<Rightarrow> bool" where
  "ok_callee_signature s = (fits (ce_algorithm s) \<and> fits (ce_signature s) \<and> fits (ce_key_id_hint s))"

interpretation callee_signature_format: wire_format put_callee_signature ok_callee_signature
proof
  fix x y r s
  assume "ok_callee_signature x" "ok_callee_signature y"
    "put_callee_signature x @ r = put_callee_signature y @ s"
  then show "x = y \<and> r = s"
    by (cases x; cases y) (simp add: put_callee_signature_def ok_callee_signature_def block_split)
qed

definition ok_proof :: "authority_proof \<Rightarrow> bool" where
  "ok_proof p = (fits (ap_proof_type p)
     \<and> pred_option (\<lambda>b. ok_authority b \<and> fits (wire_of (CanonicalAuthorityOrBootstrapBytes b))) (ap_binding p)
     \<and> fits (ap_proof_payload p) \<and> pred_option ok_agent (ap_issuer p)
     \<and> pred_option ok_callee_signature (ap_signature p) \<and> fits (ap_admission_hook p))"

lemma ok_authority_Ok:
  "ok_authority b \<Longrightarrow> CanonicalAuthorityOrBootstrapBytes b
      = Ok (wire_of (CanonicalAuthorityOrBootstrapBytes b))"
  using ok_authority_encodes by (fastforce simp: is_ok_iff)

lemma CanonicalAuthorityProofBytes_ok:
  assumes "ok_proof p"
  shows "CanonicalAuthorityProofBytes p =
    Ok (putStr (ap_proof_type p)
        @ put_opt (\<lambda>b. putBytes (wire_of (CanonicalAuthorityOrBootstrapBytes b))) (ap_binding p)
        @ putBytes (ap_proof_payload p) @ putHash (ap_proof_hash p)
        @ put_opt put_agent (ap_issuer p) @ put_opt put_callee_signature (ap_signature p)
        @ putStr (ap_admission_hook p))"
proof (cases "ap_binding p")
  case None
  then show ?thesis by (simp add: CanonicalAuthorityProofBytes_def put_opt_def)
next
  case (Some b)
  with assms have "ok_authority b" by (simp add: ok_proof_def)
  from ok_authority_Ok [OF this] obtain w where "CanonicalAuthorityOrBootstrapBytes b = Ok w" by blast
  with Some show ?thesis by (simp add: CanonicalAuthorityProofBytes_def put_opt_def)
qed

interpretation boxed_authority_format:
  wire_format "\<lambda>b. putBytes (wire_of (CanonicalAuthorityOrBootstrapBytes b))"
    "\<lambda>b. ok_authority b \<and> fits (wire_of (CanonicalAuthorityOrBootstrapBytes b))"
  by unfold_locales (simp add: authority_format.boxed_split)

lemma proof_split:
  assumes "ok_proof x" and "ok_proof y"
    and "wire_of (CanonicalAuthorityProofBytes x) @ r = wire_of (CanonicalAuthorityProofBytes y) @ s"
  shows "x = y \<and> r = s"
  using assms
  by (cases x; cases y)
    (simp add: CanonicalAuthorityProofBytes_ok ok_proof_def block_split
      boxed_authority_format.put_opt_split agent_format.put_opt_split
      callee_signature_format.put_opt_split)

interpretation proof_format: wire_format "\<lambda>p. wire_of (CanonicalAuthorityProofBytes p)" ok_proof
  using proof_split by unfold_locales

definition ok_facts :: "receipt_proof_facts \<Rightarrow> bool" where
  "ok_facts f = (pred_option (\<lambda>e. ok_entity e \<and> fits (CanonicalEntityRef e)) (pf_subject_ref f)
     \<and> fits (pf_descriptor_version f) \<and> fits (pf_runtime_env f)
     \<and> ok_proof (pf_authority_proof f) \<and> fits (wire_of (CanonicalAuthorityProofBytes (pf_authority_proof f)))
     \<and> ok_receipt_refs (pf_parent_receipts f))"

interpretation boxed_entity_format:
  wire_format "\<lambda>e. putBytes (CanonicalEntityRef e)" "\<lambda>e. ok_entity e \<and> fits (CanonicalEntityRef e)"
  by unfold_locales (simp add: entity_format.boxed_split)

text \<open>The bytes of complete, valid proof facts.\<close>

definition facts_wire :: "receipt_proof_facts \<Rightarrow> bytes" where
  "facts_wire f =
     put_opt (\<lambda>e. putBytes (CanonicalEntityRef e)) (pf_subject_ref f)
     @ putStr (pf_descriptor_version f) @ putHash (pf_schema_hash f)
     @ putHash (pf_impl_hash f) @ putStr (pf_runtime_env f)
     @ putBytes (wire_of (CanonicalAuthorityProofBytes (pf_authority_proof f)))
     @ putHash (pf_input_hash f) @ putHash (pf_output_hash f)
     @ put_list put_receipt_ref (pf_parent_receipts f)"

lemma TryCanonicalReceiptProofFacts_Ok:
  "TryCanonicalReceiptProofFacts P f = Ok b \<longleftrightarrow>
     pf_complete f \<and> is_ok (validateReceiptProofFactsSemantics P f)
     \<and> is_ok (CanonicalAuthorityProofBytes (pf_authority_proof f)) \<and> b = facts_wire f"
  by (auto simp: TryCanonicalReceiptProofFacts_def bindR_Ok_iff is_ok_iff facts_wire_def)

lemma facts_wire_split:
  assumes "ok_facts x" and "ok_facts y" and "pf_complete x = pf_complete y"
  shows "(facts_wire x @ r = facts_wire y @ s) = (x = y \<and> r = s)"
  using assms
  by (cases x; cases y)
    (simp add: facts_wire_def ok_facts_def block_split boxed_entity_format.put_opt_split
      proof_format.injective)

lemma usage_split: "(put_usage x @ r = put_usage y @ s) = (x = y \<and> r = s)"
  by (cases x; cases y) (simp add: put_usage_def putU64_def putU32_def)

definition ok_hosted :: "hosted_attestation \<Rightarrow> bool" where
  "ok_hosted h = (ok_agent (ha_signer_binding h) \<and> fits (ha_host_attestation h))"

interpretation hosted_format: wire_format put_hosted ok_hosted
proof
  fix x y r s
  assume "ok_hosted x" "ok_hosted y" "put_hosted x @ r = put_hosted y @ s"
  then show "x = y \<and> r = s"
    by (cases x; cases y) (simp add: put_hosted_def ok_hosted_def block_split)
qed

text \<open>The bound under which a receipt body is written exactly.\<close>

definition ok_receipt :: "receipt_body \<Rightarrow> bool" where
  "ok_receipt r = (fits (rb_invocation_id r) \<and> fits (rb_receipt_type r) \<and> fits (rb_state r)
     \<and> ok_agent (rb_caller r) \<and> ok_agent (rb_callee r) \<and> ok_subject (rb_subject r)
     \<and> boxed_causal (rb_causal r) \<and> fits (CanonicalCausalContext (rb_causal r))
     \<and> fits (rb_reason r) \<and> fits (rb_ability r) \<and> ok_authority (rb_authority r)
     \<and> ok_facts (rb_proof_facts r) \<and> fits (facts_wire (rb_proof_facts r)))"

lemma must_Ok_iff: "must r = Ok x \<longleftrightarrow> r = Ok x"
  by (cases r) auto

lemma CanonicalReceiptBytesWithHosted_Ok:
  "CanonicalReceiptBytesWithHosted P r h = Ok b \<longleftrightarrow>
     is_ok (validateAuthorityBinding (rb_caller r) (rb_subject r) (rb_ability r) (rb_authority r))
     \<and> is_ok (TryCanonicalReceiptProofFacts P (rb_proof_facts r))
     \<and> is_ok (CanonicalAuthorityOrBootstrapBytes (rb_authority r))
     \<and> b = receipt_prefix r h @ wire_of (CanonicalAuthorityOrBootstrapBytes (rb_authority r))
           @ put_usage (rb_usage r) @ putBytes (facts_wire (rb_proof_facts r))"
  by (auto simp: CanonicalReceiptBytesWithHosted_def bindR_Ok_iff is_ok_iff must_Ok_iff
      TryCanonicalReceiptProofFacts_Ok)

lemma receipt_prefix_split:
  assumes "ok_receipt x" and "ok_receipt y" and "pred_option ok_hosted h" and "pred_option ok_hosted k"
  shows "(receipt_prefix x h @ r = receipt_prefix y k @ s) =
    (rb_index x = rb_index y \<and> rb_invocation_id x = rb_invocation_id y
     \<and> rb_receipt_type x = rb_receipt_type y \<and> rb_state x = rb_state y
     \<and> rb_timestamp x = rb_timestamp y \<and> rb_prev_hash x = rb_prev_hash y
     \<and> rb_caller x = rb_caller y \<and> rb_callee x = rb_callee y \<and> rb_subject x = rb_subject y
     \<and> rb_nonce x = rb_nonce y \<and> rb_causal x = rb_causal y
     \<and> rb_payload_digest x = rb_payload_digest y \<and> rb_reason x = rb_reason y
     \<and> rb_cleanup_complete x = rb_cleanup_complete y \<and> h = k \<and> rb_ability x = rb_ability y \<and> r = s)"
  using assms
  by (simp add: receipt_prefix_def ok_receipt_def block_split(1-3,5-11) boxed_causal_format.split_iff
      put_bool_split hosted_format.put_opt_split)

subsection \<open>Values as they are written\<close>

text \<open>
  The encoders take their arguments as they come: a causal context or a binding may carry
  fields that its tag makes meaningless, and those are not written.  The normal form of
  an envelope and of a receipt clears them; the bounds below are on lengths alone, those
  that the 32-bit prefixes can hold (Go truncates a longer length silently).
\<close>

definition sized_envelope :: "invocation_envelope \<Rightarrow> bool" where
  "sized_envelope e = (ok_agent (en_caller e) \<and> ok_agent (en_callee e) \<and> ok_subject (en_subject e)
     \<and> length (si_ura (en_subject e)) + length (si_profile (en_subject e)) < 2 ^ 31
     \<and> length (en_ability e) < 2 ^ 32 \<and> sized_causal (en_causal e))"

definition norm_envelope :: "invocation_envelope \<Rightarrow> invocation_envelope" where
  "norm_envelope e = e\<lparr>en_causal := norm_causal (en_causal e)\<rparr>"

lemma norm_envelope_bytes:
  "canonicalDescriptorBoundInvocationBytes (DBEnvelope (norm_envelope e))
   = canonicalDescriptorBoundInvocationBytes (DBEnvelope e)"
  by (simp add: canonicalDescriptorBoundInvocationBytes_def norm_envelope_def Let_def)

lemma norm_envelope_ok: "sized_envelope e \<Longrightarrow> ok_envelope (norm_envelope e)"
  using norm_causal_boxed
  by (simp add: sized_envelope_def ok_envelope_def norm_envelope_def) (simp add: sized_causal_def)

definition norm_proof :: "authority_proof \<Rightarrow> authority_proof" where
  "norm_proof p = p\<lparr>ap_binding := map_option norm_authority (ap_binding p)\<rparr>"

definition norm_facts :: "receipt_proof_facts \<Rightarrow> receipt_proof_facts" where
  "norm_facts f = f\<lparr>pf_authority_proof := norm_proof (pf_authority_proof f)\<rparr>"

definition norm_receipt :: "receipt_body \<Rightarrow> receipt_body" where
  "norm_receipt r = r\<lparr>rb_causal := norm_causal (rb_causal r), rb_authority := norm_authority (rb_authority r),
     rb_proof_facts := norm_facts (rb_proof_facts r)\<rparr>"

definition sized_proof :: "authority_proof \<Rightarrow> bool" where
  "sized_proof p = (fits (ap_proof_type p)
     \<and> pred_option (\<lambda>b. sized_authority b \<and> fits (wire_of (CanonicalAuthorityOrBootstrapBytes b))) (ap_binding p)
     \<and> fits (ap_proof_payload p) \<and> pred_option ok_agent (ap_issuer p)
     \<and> pred_option ok_callee_signature (ap_signature p) \<and> fits (ap_admission_hook p))"

definition sized_facts :: "receipt_proof_facts \<Rightarrow> bool" where
  "sized_facts f = (pred_option (\<lambda>e. ok_entity e \<and> fits (CanonicalEntityRef e)) (pf_subject_ref f)
     \<and> fits (pf_descriptor_version f) \<and> fits (pf_runtime_env f)
     \<and> sized_proof (pf_authority_proof f) \<and> fits (wire_of (CanonicalAuthorityProofBytes (pf_authority_proof f)))
     \<and> ok_receipt_refs (pf_parent_receipts f))"

definition sized_receipt :: "receipt_body \<Rightarrow> bool" where
  "sized_receipt r = (fits (rb_invocation_id r) \<and> fits (rb_receipt_type r) \<and> fits (rb_state r)
     \<and> ok_agent (rb_caller r) \<and> ok_agent (rb_callee r) \<and> ok_subject (rb_subject r)
     \<and> sized_causal (rb_causal r) \<and> fits (rb_reason r) \<and> fits (rb_ability r)
     \<and> sized_authority (rb_authority r) \<and> sized_facts (rb_proof_facts r)
     \<and> fits (facts_wire (rb_proof_facts r)))"

lemma norm_proof_bytes [simp]: "CanonicalAuthorityProofBytes (norm_proof p) = CanonicalAuthorityProofBytes p"
  by (cases "ap_binding p") (simp_all add: CanonicalAuthorityProofBytes_def norm_proof_def)

lemma norm_facts_wire [simp]: "facts_wire (norm_facts f) = facts_wire f"
  by (simp add: facts_wire_def norm_facts_def)

lemma norm_facts_complete [simp]: "pf_complete (norm_facts f) = pf_complete f"
  by (simp add: norm_facts_def)

lemma norm_proof_ok:
  assumes "sized_proof p" and "is_ok (CanonicalAuthorityProofBytes p)"
  shows "ok_proof (norm_proof p)"
  using assms
  by (cases "ap_binding p")
    (auto simp: sized_proof_def ok_proof_def norm_proof_def CanonicalAuthorityProofBytes_def
      is_ok_iff bindR_Ok_iff intro: norm_authority_ok)

lemma norm_facts_ok:
  "sized_facts f \<Longrightarrow> is_ok (CanonicalAuthorityProofBytes (pf_authority_proof f)) \<Longrightarrow> ok_facts (norm_facts f)"
  by (simp add: sized_facts_def ok_facts_def norm_facts_def norm_proof_ok)

text \<open>The bytes of a receipt, whose checks aside.\<close>

definition receipt_wire :: "receipt_body \<Rightarrow> hosted_attestation option \<Rightarrow> bytes" where
  "receipt_wire r h = receipt_prefix r h @ wire_of (CanonicalAuthorityOrBootstrapBytes (rb_authority r))
     @ put_usage (rb_usage r) @ putBytes (facts_wire (rb_proof_facts r))"

lemma norm_receipt_wire: "receipt_wire (norm_receipt r) h = receipt_wire r h"
  by (simp add: receipt_wire_def norm_receipt_def receipt_prefix_def)

lemma encoded_receipt:
  assumes "CanonicalReceiptBytesWithHosted P r h = Ok b"
  shows "b = receipt_wire r h" and "pf_complete (rb_proof_facts r)"
    and "is_ok (CanonicalAuthorityOrBootstrapBytes (rb_authority r))"
    and "is_ok (CanonicalAuthorityProofBytes (pf_authority_proof (rb_proof_facts r)))"
  using assms
  by (auto simp: CanonicalReceiptBytesWithHosted_Ok receipt_wire_def is_ok_iff [of "TryCanonicalReceiptProofFacts _ _"]
      TryCanonicalReceiptProofFacts_Ok)

lemma norm_receipt_ok:
  assumes "sized_receipt r" and "CanonicalReceiptBytesWithHosted P r h = Ok b"
  shows "ok_receipt (norm_receipt r)"
  using assms(1) encoded_receipt [OF assms(2)] norm_causal_boxed
  by (simp add: sized_receipt_def ok_receipt_def norm_receipt_def norm_authority_ok norm_facts_ok)
    (simp add: sized_causal_def)

lemma receipt_wire_split:
  assumes "receipt_wire x h = receipt_wire y k"
    and "pf_complete (rb_proof_facts x)" "pf_complete (rb_proof_facts y)"
    and ok: "ok_receipt x" "ok_receipt y" "pred_option ok_hosted h" "pred_option ok_hosted k"
  shows "x = y \<and> h = k"
proof -
  have auth: "ok_authority (rb_authority x)" "ok_authority (rb_authority y)"
    and facts: "ok_facts (rb_proof_facts x)" "ok_facts (rb_proof_facts y)"
      "fits (facts_wire (rb_proof_facts x))" "fits (facts_wire (rb_proof_facts y))"
    using ok by (simp_all add: ok_receipt_def)
  note tail = assms(1) [unfolded receipt_wire_def receipt_prefix_split [OF ok]
      authority_format.split_iff [OF auth] usage_split]
  then have "putBytes (facts_wire (rb_proof_facts x)) = putBytes (facts_wire (rb_proof_facts y))"
    by blast
  then have "facts_wire (rb_proof_facts x) = facts_wire (rb_proof_facts y)"
    using facts(3,4) by (simp add: bytes_format.injective)
  then have "rb_proof_facts x = rb_proof_facts y"
    using facts_wire_split [OF facts(1,2), of "[]" "[]"] assms(2,3) by simp
  with tail show ?thesis by (cases x; cases y) simp
qed

lemma receipt_bytes_split:
  assumes "CanonicalReceiptBytesWithHosted P x h = Ok b"
    and "CanonicalReceiptBytesWithHosted P y k = Ok b"
    and "ok_receipt x" "ok_receipt y" "pred_option ok_hosted h" "pred_option ok_hosted k"
  shows "x = y \<and> h = k"
  using encoded_receipt [OF assms(1)] encoded_receipt [OF assms(2)] assms(3-6) receipt_wire_split by blast

text \<open>The signed bytes of two receipts agree exactly when their normal forms do.\<close>

lemma receipt_bytes_norm:
  assumes "CanonicalReceiptBytesWithHosted P x h = Ok b"
    and "CanonicalReceiptBytesWithHosted P y k = Ok c"
    and "sized_receipt x" "sized_receipt y" "pred_option ok_hosted h" "pred_option ok_hosted k"
  shows "b = c \<longleftrightarrow> norm_receipt x = norm_receipt y \<and> h = k"
proof
  assume "b = c"
  then have "receipt_wire (norm_receipt x) h = receipt_wire (norm_receipt y) k"
    using encoded_receipt(1) [OF assms(1)] encoded_receipt(1) [OF assms(2)] by (simp add: norm_receipt_wire)
  moreover have "pf_complete (rb_proof_facts (norm_receipt x))" "pf_complete (rb_proof_facts (norm_receipt y))"
    using encoded_receipt(2) [OF assms(1)] encoded_receipt(2) [OF assms(2)]
    by (simp_all add: norm_receipt_def)
  ultimately show "norm_receipt x = norm_receipt y \<and> h = k"
    using receipt_wire_split norm_receipt_ok [OF assms(3,1)] norm_receipt_ok [OF assms(4,2)] assms(5,6)
    by blast
next
  assume "norm_receipt x = norm_receipt y \<and> h = k"
  then show "b = c"
    using encoded_receipt(1) [OF assms(1)] encoded_receipt(1) [OF assms(2)] norm_receipt_wire by metis
qed

text \<open>A receipt whose tagged fields are in constructor form is its own normal form.\<close>

lemma norm_receipt_id:
  assumes "ok_causal (rb_causal r)" and "ok_authority (rb_authority r)"
    and "pred_option ok_authority (ap_binding (pf_authority_proof (rb_proof_facts r)))"
  shows "norm_receipt r = r"
proof -
  have "norm_proof (pf_authority_proof (rb_proof_facts r)) = pf_authority_proof (rb_proof_facts r)"
    using assms(3) norm_authority_id
    by (cases "ap_binding (pf_authority_proof (rb_proof_facts r))") (simp_all add: norm_proof_def)
  then have "norm_facts (rb_proof_facts r) = rb_proof_facts r" by (simp add: norm_facts_def)
  with assms(1,2) show ?thesis by (simp add: norm_receipt_def norm_causal_ok norm_authority_id)
qed

end
