(* ===== verification/Samples.thy ===== *)
theory Samples
  imports ReceiptBytes
begin

text \<open>
  Concrete values for the worked instances of the development: a platform whose hash
  counts bytes and whose signature is the public key followed by a checksum, one caller,
  callee and subject, one descriptor reference in two spellings, an envelope and a
  receipt body.  They only show that the hypotheses of the theorems can hold.
\<close>

definition demo_sum :: "bytes \<Rightarrow> u8" where
  "demo_sum m = foldl (+) 0 m"

definition demo_platform :: platform where
  "demo_platform =
     \<lparr>pf_sha256 = (\<lambda>b. word_of_nat (length b + 1)),
      pf_verify = (\<lambda>pk m s. s = pk @ replicate 32 (demo_sum m)),
      pf_sign = (\<lambda>sk m. take 32 sk @ replicate 32 (demo_sum m)),
      pf_public = (\<lambda>sk. take 32 sk),
      pf_quote = (\<lambda>s. s)\<rparr>"

definition demo_ability :: string where
  "demo_ability = ''easynet:///r/x/ability/u.b.c@1#'' @ replicate 64 CHR ''a'' @ ''!invoke''"

text \<open>The same reference with an upper-case digest.\<close>

definition demo_ability_upper :: string where
  "demo_ability_upper = ''easynet:///r/x/ability/u.b.c@1#'' @ replicate 64 CHR ''A'' @ ''!invoke''"

definition demo_caller :: agent_identity where
  "demo_caller = \<lparr>ai_ura = ''easynet:///r/x/agent/c'', ai_profile = ''axon-strict-v2''\<rparr>"

definition demo_callee :: agent_identity where
  "demo_callee = \<lparr>ai_ura = ''easynet:///r/x/agent/s'', ai_profile = ''axon-strict-v2''\<rparr>"

definition demo_subject :: subject_identity where
  "demo_subject = \<lparr>si_ura = ''easynet:///r/x/resource/r'', si_profile = ''axon-strict-v2''\<rparr>"

definition demo_entity :: entity_ref where
  "demo_entity = \<lparr>er_kind = EntityRefResource, er_ura = ''easynet:///r/x/resource/r'',
     er_profile = ''axon-strict-v2''\<rparr>"

definition demo_envelope :: invocation_envelope where
  "demo_envelope = \<lparr>en_caller = demo_caller, en_callee = demo_callee, en_subject = demo_subject,
     en_ability = demo_ability, en_args_digest = 1, en_nonce = 7, en_causal = CausalNoneCtx\<rparr>"

definition demo_key :: bytes where
  "demo_key = replicate 32 1 @ replicate 32 2"

definition demo_resolver :: "string \<Rightarrow> bytes result" where
  "demo_resolver ura = Ok (replicate 32 1)"

definition demo_authority :: authority_or_bootstrap where
  "demo_authority = AuthorityOrBootstrapFromBinding (SelfAuthority (ai_ura demo_caller))"

definition demo_proof :: authority_proof where
  "demo_proof = \<lparr>ap_proof_type = ''self'', ap_binding = Some demo_authority,
     ap_proof_payload = [1], ap_proof_hash = 2, ap_issuer = Some demo_callee,
     ap_signature = None, ap_admission_hook = ''gate''\<rparr>"

definition demo_facts :: receipt_proof_facts where
  "demo_facts = \<lparr>pf_subject_ref = Some demo_entity, pf_descriptor_version = ''1'',
     pf_schema_hash = 1, pf_impl_hash = 1, pf_runtime_env = ''go'',
     pf_authority_proof = demo_proof, pf_input_hash = 1, pf_output_hash = 1,
     pf_parent_receipts = [], pf_complete = True\<rparr>"

definition demo_receipt :: receipt_body where
  "demo_receipt = \<lparr>rb_index = 0, rb_invocation_id = ''i'', rb_receipt_type = ''request_accepted'',
     rb_state = ''Admitted'', rb_timestamp = 5, rb_prev_hash = 0, rb_payload_digest = 1,
     rb_reason = [], rb_cleanup_complete = False,
     rb_caller = demo_caller, rb_callee = demo_callee, rb_subject = demo_subject,
     rb_nonce = 7, rb_causal = CausalNoneCtx, rb_ability = demo_ability,
     rb_authority = demo_authority, rb_usage = empty_usage, rb_proof_facts = demo_facts\<rparr>"

lemmas demo_identities = demo_caller_def demo_callee_def demo_subject_def demo_entity_def

lemma demo_ability_canonical: "CanonicalAbilityDescriptorRef demo_ability = Ok demo_ability"
  by code_simp

lemma demo_ability_upper_canonical: "CanonicalAbilityDescriptorRef demo_ability_upper = Ok demo_ability"
  by code_simp

lemma demo_abilities_differ: "demo_ability_upper \<noteq> demo_ability"
  by code_simp

lemma demo_subject_entity: "EntityRefForSubject demo_subject = Ok demo_entity"
  by code_simp

lemma demo_bytes_ok: "is_ok (canonicalDescriptorBoundInvocationBytes (DBEnvelope demo_envelope))"
  by (simp add: canonicalDescriptorBoundInvocationBytes_def demo_envelope_def demo_ability_canonical
      demo_subject_entity)

lemma demo_envelope_sized: "ok_envelope demo_envelope"
  by (simp add: ok_envelope_def demo_envelope_def demo_identities ok_agent_def ok_subject_def
      boxed_causal_def ok_causal_def CausalNoneCtx_def demo_ability_def fits_def CanonicalCausalContext_def)

lemma demo_receipt_gate:
  "is_ok (validateAuthorityBinding (rb_caller demo_receipt) (rb_subject demo_receipt)
      (rb_ability demo_receipt) (rb_authority demo_receipt))"
  by code_simp

lemma demo_facts_ok: "is_ok (TryCanonicalReceiptProofFacts demo_platform demo_facts)"
  by code_simp

lemma demo_authority_ok: "is_ok (CanonicalAuthorityOrBootstrapBytes demo_authority)"
  by code_simp

lemma demo_receipt_encodes:
  "is_ok (CanonicalReceiptBytesWithHosted demo_platform (demo_receipt\<lparr>rb_index := n\<rparr>) h)"
proof -
  have "is_ok (validateAuthorityBinding (rb_caller demo_receipt) (rb_subject demo_receipt)
      (rb_ability demo_receipt) (rb_authority demo_receipt))" by (rule demo_receipt_gate)
  moreover have "rb_proof_facts demo_receipt = demo_facts" "rb_authority demo_receipt = demo_authority"
    by (simp_all add: demo_receipt_def)
  ultimately show ?thesis
    using demo_facts_ok demo_authority_ok CanonicalReceiptBytesWithHosted_Ok
      [of demo_platform "demo_receipt\<lparr>rb_index := n\<rparr>" h]
    by (simp add: is_ok_iff [of "CanonicalReceiptBytesWithHosted _ _ _"])
qed

lemma demo_signature:
  "pf_verify demo_platform (replicate 32 1) m (pf_sign demo_platform demo_key m)"
  "length (pf_sign demo_platform demo_key m) = SignatureSize"
  by (simp_all add: demo_platform_def demo_key_def SignatureSize_def)

lemma demo_resolver_key: "demo_resolver u = Ok (replicate 32 1)" "length (replicate 32 (1::u8)) = PublicKeySize"
  by (simp_all add: demo_resolver_def PublicKeySize_def)

lemma demo_sized:
  "fits (''easynet:///r/x/agent/c'')" "fits ''easynet:///r/x/agent/s''"
  "fits ''easynet:///r/x/resource/r''" "fits demo_ability" "fits ''axon-strict-v2''"
  by (simp_all add: fits_def demo_ability_def)

lemma demo_authority_sized: "ok_authority demo_authority"
  by (simp add: demo_authority_def AuthorityOrBootstrapFromBinding_def SelfAuthority_def demo_identities
      ok_authority_def ok_binding_def ok_agent_def fits_def ProfileStrictV2_def)

lemma demo_wire_lengths:
  "length (wire_of (CanonicalAuthorityOrBootstrapBytes demo_authority)) \<le> 100"
  "length (wire_of (CanonicalAuthorityProofBytes demo_proof)) \<le> 300"
  "length (facts_wire demo_facts) \<le> 1000" "length (CanonicalEntityRef demo_entity) \<le> 100"
  by code_simp+

lemma small_fits: "length xs \<le> 1000 \<Longrightarrow> fits xs"
  by (simp add: fits_def)

lemma demo_wires_sized:
  "fits (wire_of (CanonicalAuthorityOrBootstrapBytes demo_authority))"
  "fits (wire_of (CanonicalAuthorityProofBytes demo_proof))"
  "fits (facts_wire demo_facts)" "fits (CanonicalEntityRef demo_entity)"
  using demo_wire_lengths by (simp_all add: small_fits)

lemma demo_identities_sized:
  "ok_agent demo_caller" "ok_agent demo_callee" "ok_subject demo_subject" "ok_entity demo_entity"
  by (simp_all add: demo_identities ok_agent_def ok_subject_def ok_entity_def small_fits)

lemma demo_facts_sized: "ok_facts demo_facts"
  using demo_authority_sized demo_wires_sized demo_identities_sized
  by (simp add: demo_facts_def ok_facts_def ok_proof_def demo_proof_def small_fits ok_receipt_refs_def)

lemma demo_receipt_sized: "ok_receipt (demo_receipt\<lparr>rb_index := n\<rparr>)"
  using demo_authority_sized demo_facts_sized demo_wires_sized demo_identities_sized
  by (simp add: demo_receipt_def ok_receipt_def small_fits boxed_causal_def ok_causal_def demo_ability_def
      CanonicalCausalContext_def CausalNoneCtx_def)

end
