(* ===== verification/SignedBytes.thy ===== *)
theory SignedBytes
  imports Samples
begin

text \<open>
  What a signature of the protocol commits its signer to: the properties of the canonical
  bytes of \<open>axon/invocation/axiom.go\<close>, each an equality test on the data that the
  signature covers.  The size bounds are those of the 32-bit length prefixes.
\<close>

lemma VerifyHostAttestation_Ok:
  "VerifyHostAttestation P callee signer att key = Ok u \<longleftrightarrow>
     is_ok (ValidateHostedAttestationAuthority callee signer) \<and> length att = SignatureSize
     \<and> length key = PublicKeySize \<and> pf_verify P key (CanonicalHostAttestationBytes callee signer) att"
  by (auto simp: VerifyHostAttestation_def bindR_Ok_iff is_ok_iff wrong_length_def edVerify_def
      split: if_splits)

lemma VerifyReceiptSignatureWithHosted_Some:
  "VerifyReceiptSignatureWithHosted P r (Some h) sig resolver = Ok u \<longleftrightarrow>
     ce_algorithm sig = ''ed25519'' \<and> length (ce_signature sig) = SignatureSize
     \<and> (\<exists>key b. resolver (ai_ura (ha_signer_binding h)) = Ok key
          \<and> is_ok (VerifyHostAttestation P (ai_ura (rb_callee r)) (ai_ura (ha_signer_binding h))
                (ha_host_attestation h) key)
          \<and> CanonicalReceiptBytesWithHosted P r (Some h) = Ok b
          \<and> length key = PublicKeySize \<and> pf_verify P key b (ce_signature sig))"
  by (auto simp: VerifyReceiptSignatureWithHosted_def bindR_Ok_iff is_ok_iff wrong_length_def edVerify_def
      split: if_splits)

lemma VerifyReceiptSignatureWithHosted_None:
  "VerifyReceiptSignatureWithHosted P r None sig resolver = Ok u \<longleftrightarrow>
     ce_algorithm sig = ''ed25519'' \<and> length (ce_signature sig) = SignatureSize
     \<and> (\<exists>key b. resolver (ai_ura (rb_callee r)) = Ok key
          \<and> CanonicalReceiptBytesWithHosted P r None = Ok b
          \<and> length key = PublicKeySize \<and> pf_verify P key b (ce_signature sig))"
  by (auto simp: VerifyReceiptSignatureWithHosted_def bindR_Ok_iff wrong_length_def edVerify_def
      split: if_splits)

lemma ValidateHostedAttestationAuthority_Ok:
  "ValidateHostedAttestationAuthority callee signer = Ok u \<longleftrightarrow>
     (\<exists>c s. parseHostedReceiptURA callee ''hosted_callee'' = Ok c
        \<and> parseHostedReceiptURA signer ''hosted_signer'' = Ok s
        \<and> hr_kind c \<in> {''agent'', ''service''} \<and> hr_kind s = ''device'' \<and> hr_realm c = hr_realm s)"
  by (auto simp: ValidateHostedAttestationAuthority_def bindR_Ok_iff split: if_splits)

section \<open>Properties\<close>

text \<open>A context without predecessors that carries a stray list, as the code admits.\<close>

definition demo_stray :: causal_context where
  "demo_stray = CausalNoneCtx\<lparr>cc_list := [\<lparr>rr_hash = 1, rr_ura = ''x''\<rparr>]\<rparr>"

lemma demo_sized_authority: "sized_authority demo_authority"
  by (simp add: demo_authority_def AuthorityOrBootstrapFromBinding_def SelfAuthority_def demo_identities
      sized_authority_def sized_binding_def ok_agent_def fits_def ProfileStrictV2_def)

text \<open>C2: two receipts (each with its hosted attestation, if any) that the encoder
  accepts have the same bytes to sign exactly when their attestations are equal and their
  normal forms are equal, that is, when they agree in every field of the body except what
  the encoder never reads: the fields of a causal context that its form makes meaningless
  (and all of a scalar context without its reference, or of one of an unknown form), and
  the evidence and the plane that the kind of a binding excludes.  The premises bound
  lengths and nothing else, since the code truncates a longer one silently: what is
  written with a length is below $2^{32}$ bytes, and the URA of an authority below
  $6 \cdot 2^{24}$, above which its first length byte could be the tag of a bootstrap fact.\<close>

theorem receipt_bytes_commit:
  assumes "CanonicalReceiptBytesWithHosted P x h = Ok b"
    and "CanonicalReceiptBytesWithHosted P y k = Ok c"
    and "sized_receipt x" and "sized_receipt y" and "pred_option ok_hosted h" and "pred_option ok_hosted k"
  shows "b = c \<longleftrightarrow> norm_receipt x = norm_receipt y \<and> h = k"
  using assms by (rule receipt_bytes_norm)

lemma demo_receipt_lengths: "sized_receipt (demo_receipt\<lparr>rb_index := n\<rparr>)"
  using demo_sized_authority demo_wires_sized demo_identities_sized
  by (simp add: demo_receipt_def sized_receipt_def small_fits sized_causal_def demo_ability_def
      CanonicalCausalContext_def CausalNoneCtx_def sized_facts_def demo_facts_def sized_proof_def
      demo_proof_def ok_receipt_refs_def)

theorem receipt_bytes_commit_witness:
  "(\<exists>b c. CanonicalReceiptBytesWithHosted demo_platform (demo_receipt\<lparr>rb_index := 0\<rparr>) None = Ok b
     \<and> CanonicalReceiptBytesWithHosted demo_platform (demo_receipt\<lparr>rb_index := 1\<rparr>) None = Ok c
     \<and> b \<noteq> c)"
proof -
  obtain b c where
    "CanonicalReceiptBytesWithHosted demo_platform (demo_receipt\<lparr>rb_index := 0\<rparr>) None = Ok b"
    "CanonicalReceiptBytesWithHosted demo_platform (demo_receipt\<lparr>rb_index := 1\<rparr>) None = Ok c"
    using demo_receipt_encodes by (fastforce simp: is_ok_iff)
  moreover from this have "b \<noteq> c"
    using receipt_bytes_commit [OF _ _ demo_receipt_lengths demo_receipt_lengths]
    by (fastforce simp: demo_receipt_def norm_receipt_def)
  ultimately show ?thesis by blast
qed

text \<open>The normal form is needed: a stray list in a context without predecessors leaves
  the bytes as they are.\<close>

lemma stray_list_unwritten:
  "demo_receipt\<lparr>rb_causal := demo_stray\<rparr> \<noteq> demo_receipt
   \<and> CanonicalReceiptBytesWithHosted P (demo_receipt\<lparr>rb_causal := demo_stray\<rparr>) h
     = CanonicalReceiptBytesWithHosted P demo_receipt h"
  by (simp add: demo_receipt_def demo_stray_def CausalNoneCtx_def CanonicalReceiptBytesWithHosted_def
      receipt_prefix_def CanonicalCausalContext_def)

text \<open>C3: two envelopes that the encoder accepts have the same bytes for the caller to
  sign exactly when they agree in the two agents, the subject, the argument digest, the
  nonce, the canonical spelling of the ability and the normal form of the causal context,
  that is, in its form and the fields of that form; a scalar context without its
  reference and a context of an unknown form are both written as nothing and not told
  apart.  Admission does not refuse such contexts, so the claim does not exclude them.
  The premises bound lengths and nothing else: what is written with a length is below
  $2^{32}$ bytes (the subject, boxed whole, below $2^{31}$), since the code truncates a
  longer one silently.\<close>

theorem invocation_bytes_commit:
  assumes "canonicalDescriptorBoundInvocationBytes (DBEnvelope x) = Ok b"
    and "canonicalDescriptorBoundInvocationBytes (DBEnvelope y) = Ok c"
    and "sized_envelope x" and "sized_envelope y"
  shows "b = c \<longleftrightarrow> en_caller x = en_caller y \<and> en_callee x = en_callee y
    \<and> en_subject x = en_subject y
    \<and> CanonicalAbilityDescriptorRef (en_ability x) = CanonicalAbilityDescriptorRef (en_ability y)
    \<and> en_args_digest x = en_args_digest y \<and> en_nonce x = en_nonce y
    \<and> norm_causal (en_causal x) = norm_causal (en_causal y)"
proof
  assume "b = c"
  with assms(1,2) have "canonicalDescriptorBoundInvocationBytes (DBEnvelope (norm_envelope x)) = Ok c"
    "canonicalDescriptorBoundInvocationBytes (DBEnvelope (norm_envelope y)) = Ok c"
    by (simp_all add: norm_envelope_bytes)
  from invocation_bytes_split [OF this norm_envelope_ok [OF assms(3)] norm_envelope_ok [OF assms(4)]]
  show "en_caller x = en_caller y \<and> en_callee x = en_callee y \<and> en_subject x = en_subject y
    \<and> CanonicalAbilityDescriptorRef (en_ability x) = CanonicalAbilityDescriptorRef (en_ability y)
    \<and> en_args_digest x = en_args_digest y \<and> en_nonce x = en_nonce y
    \<and> norm_causal (en_causal x) = norm_causal (en_causal y)"
    by (simp add: norm_envelope_def)
next
  assume eq: "en_caller x = en_caller y \<and> en_callee x = en_callee y \<and> en_subject x = en_subject y
    \<and> CanonicalAbilityDescriptorRef (en_ability x) = CanonicalAbilityDescriptorRef (en_ability y)
    \<and> en_args_digest x = en_args_digest y \<and> en_nonce x = en_nonce y
    \<and> norm_causal (en_causal x) = norm_causal (en_causal y)"
  then have "CanonicalCausalContext (en_causal x) = CanonicalCausalContext (en_causal y)"
    using norm_causal_bytes by metis
  with eq assms(1,2) show "b = c"
    by (simp add: canonicalDescriptorBoundInvocationBytes_def Let_def)
qed

lemma demo_respelled_bytes:
  "canonicalDescriptorBoundInvocationBytes (DBEnvelope (demo_envelope\<lparr>en_ability := demo_ability_upper\<rparr>))
   = canonicalDescriptorBoundInvocationBytes (DBEnvelope demo_envelope)"
  by (simp add: canonicalDescriptorBoundInvocationBytes_def demo_envelope_def demo_ability_canonical
      demo_ability_upper_canonical)

lemma demo_nonce_bytes:
  "is_ok (canonicalDescriptorBoundInvocationBytes (DBEnvelope (demo_envelope\<lparr>en_nonce := n\<rparr>)))"
  by (simp add: canonicalDescriptorBoundInvocationBytes_def demo_envelope_def demo_ability_canonical
      demo_subject_entity)

lemma demo_nonce_sized: "sized_envelope (demo_envelope\<lparr>en_nonce := n\<rparr>)"
  by (simp add: sized_envelope_def demo_envelope_def demo_identities ok_agent_def ok_subject_def
      sized_causal_def CausalNoneCtx_def demo_ability_def fits_def CanonicalCausalContext_def)

theorem invocation_bytes_commit_witness:
  "\<exists>b c. canonicalDescriptorBoundInvocationBytes (DBEnvelope (demo_envelope\<lparr>en_nonce := 1\<rparr>)) = Ok b
     \<and> canonicalDescriptorBoundInvocationBytes (DBEnvelope (demo_envelope\<lparr>en_nonce := 2\<rparr>)) = Ok c
     \<and> b \<noteq> c"
proof -
  obtain b c where
    "canonicalDescriptorBoundInvocationBytes (DBEnvelope (demo_envelope\<lparr>en_nonce := 1\<rparr>)) = Ok b"
    "canonicalDescriptorBoundInvocationBytes (DBEnvelope (demo_envelope\<lparr>en_nonce := 2\<rparr>)) = Ok c"
    using demo_nonce_bytes by (fastforce simp: is_ok_iff)
  moreover from this have "b \<noteq> c"
    using invocation_bytes_commit [OF _ _ demo_nonce_sized demo_nonce_sized] by fastforce
  ultimately show ?thesis by blast
qed

text \<open>The claim a delegation issuer signs determines the authority, the delegatee and
  all of the evidence but the signature itself: a delegation signed for one agent, scope
  or audience is not one for another.\<close>

theorem delegation_claim_commits:
  assumes "ok_agent a" "ok_agent b" "ok_agent c" "ok_agent d" "ok_delegation x" "ok_delegation y"
  shows "CanonicalDelegationClaimBytes a c x = CanonicalDelegationClaimBytes b d y \<longleftrightarrow>
    a = b \<and> c = d \<and> x\<lparr>dg_signature := []\<rparr> = y\<lparr>dg_signature := []\<rparr>"
  using assms by (rule delegation_claim_split)

theorem delegation_claim_commits_witness:
  "CanonicalDelegationClaimBytes demo_caller demo_caller empty_delegation
     \<noteq> CanonicalDelegationClaimBytes demo_caller demo_callee empty_delegation"
proof -
  have "ok_delegation empty_delegation"
    by (simp add: ok_delegation_def empty_delegation_def empty_identity_def ok_agent_def small_fits
        ok_strings_def)
  with delegation_claim_commits [OF demo_identities_sized(1,1,1,2)] show ?thesis
    by (simp add: demo_identities)
qed

text \<open>Parsing a descriptor reference is idempotent: the canonical spelling that is
  signed parses back to the very same reference, so it is its own canonical spelling.\<close>

theorem descriptor_ref_roundtrip:
  assumes "ParseAbilityDescriptorRef s = Ok ref"
  shows "ParseAbilityDescriptorRef (ad_raw ref) = Ok ref
    \<and> CanonicalAbilityDescriptorRef (ad_raw ref) = CanonicalAbilityDescriptorRef s"
  using assms ParseAbilityDescriptorRef_raw by (simp add: CanonicalAbilityDescriptorRef_def)

theorem descriptor_ref_roundtrip_witness:
  "\<exists>ref. ParseAbilityDescriptorRef demo_ability_upper = Ok ref \<and> ad_raw ref = demo_ability
     \<and> ParseAbilityDescriptorRef demo_ability = Ok ref"
  using demo_ability_upper_canonical descriptor_ref_roundtrip [of demo_ability_upper]
  by (auto simp: CanonicalAbilityDescriptorRef_def bindR_Ok_iff)

text \<open>A receipt verified through a hosted attestation is signed by a device of the
  callee's own realm whose one resolved key both attests the hosting pair and signs the
  receipt bytes, and the callee is an agent or a service.\<close>

theorem hosted_receipt_sound:
  assumes "VerifyReceiptSignatureWithHosted P r (Some h) sig resolver = Ok ()"
  shows "\<exists>key b callee signer.
    resolver (ai_ura (ha_signer_binding h)) = Ok key
    \<and> CanonicalReceiptBytesWithHosted P r (Some h) = Ok b \<and> pf_verify P key b (ce_signature sig)
    \<and> pf_verify P key (CanonicalHostAttestationBytes (ai_ura (rb_callee r)) (ai_ura (ha_signer_binding h)))
        (ha_host_attestation h)
    \<and> parseHostedReceiptURA (ai_ura (rb_callee r)) ''hosted_callee'' = Ok callee
    \<and> parseHostedReceiptURA (ai_ura (ha_signer_binding h)) ''hosted_signer'' = Ok signer
    \<and> hr_kind callee \<in> {''agent'', ''service''} \<and> hr_kind signer = ''device''
    \<and> hr_realm callee = hr_realm signer"
  using assms
  unfolding VerifyReceiptSignatureWithHosted_Some is_ok_iff VerifyHostAttestation_Ok
    ValidateHostedAttestationAuthority_Ok
  by blast

definition demo_device :: agent_identity where
  "demo_device = \<lparr>ai_ura = ''easynet:///r/x/device/d'', ai_profile = ''axon-strict-v2''\<rparr>"

definition demo_hosted :: hosted_attestation where
  "demo_hosted = \<lparr>ha_signer_binding = demo_device,
     ha_host_attestation = pf_sign demo_platform demo_key
        (CanonicalHostAttestationBytes (ai_ura demo_callee) (ai_ura demo_device))\<rparr>"

definition demo_hosted_signature :: callee_signature where
  "demo_hosted_signature = \<lparr>ce_algorithm = ''ed25519'',
     ce_signature = pf_sign demo_platform demo_key
        (wire_of (CanonicalReceiptBytesWithHosted demo_platform demo_receipt (Some demo_hosted))),
     ce_key_id_hint = []\<rparr>"

lemma demo_hosting_pair:
  "is_ok (ValidateHostedAttestationAuthority (ai_ura demo_callee) (ai_ura demo_device))"
  by code_simp

lemma demo_hosted_verifies:
  "VerifyReceiptSignatureWithHosted demo_platform demo_receipt (Some demo_hosted) demo_hosted_signature
     demo_resolver = Ok ()"
proof -
  obtain b where "CanonicalReceiptBytesWithHosted demo_platform demo_receipt (Some demo_hosted) = Ok b"
    using demo_receipt_encodes [of 0 "Some demo_hosted"] by (auto simp: is_ok_iff demo_receipt_def)
  moreover have "rb_callee demo_receipt = demo_callee"
    by (simp add: demo_receipt_def)
  ultimately show ?thesis
    using demo_hosting_pair demo_signature demo_resolver_key
    by (simp add: VerifyReceiptSignatureWithHosted_Some is_ok_iff [of "VerifyHostAttestation _ _ _ _ _"]
        VerifyHostAttestation_Ok demo_hosted_def demo_hosted_signature_def)
qed

theorem hosted_receipt_sound_witness:
  "VerifyReceiptSignatureWithHosted demo_platform demo_receipt (Some demo_hosted) demo_hosted_signature
     demo_resolver = Ok ()
   \<and> (\<exists>signer. parseHostedReceiptURA (ai_ura demo_device) ''hosted_signer'' = Ok signer
        \<and> hr_kind signer = ''device'')"
  using demo_hosted_verifies hosted_receipt_sound [OF demo_hosted_verifies]
  by (auto simp: demo_hosted_def)

end
