(* ===== verification/Admission.thy ===== *)
theory Admission
  imports SignedBytes
begin

text \<open>
  The admission pipeline of \<open>axon/invocation/admission.go\<close>: envelope completeness,
  signature structure, caller-signature verification, provider policy, and the nonce
  replay store; with the request draft and builder of \<open>descriptor_bound_builder.go\<close> and
  \<open>descriptor_bound_request.go\<close> and the policy values of \<open>receipt_provider.go\<close> that the
  pipeline produces.

  The replay store is used through the interface \<open>nonce_guard\<close>.  Clock readings are
  arguments.  Defensive copies are identities on HOL values and are left out.
\<close>

section \<open>Envelope and signature structure\<close>

definition ReasonEnvelopeIncomplete :: string where
  "ReasonEnvelopeIncomplete = ''AXON_AXIOM_ENVELOPE_INCOMPLETE''"
definition ReasonCallerSignatureInvalid :: string where
  "ReasonCallerSignatureInvalid = ''AXON_CALLER_SIGNATURE_INVALID''"
definition ReasonNonceReplay :: string where
  "ReasonNonceReplay = ''AXON_NONCE_REPLAY''"

definition DefaultDedupWindowMs :: i64 where
  "DefaultDedupWindowMs = 7 * 86400000"

definition rejectEnvelope :: "string \<Rightarrow> axon_error" where
  "rejectEnvelope detail = (ErrInvalidArgument ReasonEnvelopeIncomplete)\<lparr>ae_message := detail\<rparr>"

definition validateEnvelope :: "invocation_envelope \<Rightarrow> unit result" where
  "validateEnvelope env =
     (if en_ability env = [] then Fail (AxonErr (rejectEnvelope ''ability_empty''))
      else if ai_ura (en_caller env) = [] then Fail (AxonErr (rejectEnvelope ''caller_ura_empty''))
      else if ai_ura (en_callee env) = [] then Fail (AxonErr (rejectEnvelope ''callee_ura_empty''))
      else if si_ura (en_subject env) = [] then Fail (AxonErr (rejectEnvelope ''subject_ura_empty''))
      else if en_nonce env = 0 then Fail (AxonErr (rejectEnvelope ''invocation_nonce_all_zero''))
      else Ok ())"

definition rejectSig :: "string \<Rightarrow> axon_error" where
  "rejectSig detail = (ErrInvalidArgument ReasonCallerSignatureInvalid)\<lparr>ae_message := detail\<rparr>"

definition validateSignatureStructure :: "caller_signature \<Rightarrow> unit result" where
  "validateSignatureStructure sig =
     (if cs_algorithm sig = [] then Fail (AxonErr (rejectSig ''signature_algorithm_empty''))
      else if cs_algorithm sig = ''ed25519''
      then (if length (cs_signature sig) \<noteq> SignatureSize
            then Fail (AxonErr (rejectSig ''ed25519_signature_wrong_length''))
            else Ok ())
      else Fail (AxonErr (rejectSig (''unsupported_algorithm:'' @ cs_algorithm sig))))"

section \<open>Drafts and the builder\<close>

record draft =
  dr_envelope :: descriptor_bound_envelope
  dr_payload :: bytes
  dr_payload_bound :: bool

definition draft_CanonicalBytes :: "draft \<Rightarrow> bytes result" where
  "draft_CanonicalBytes d = canonicalDescriptorBoundInvocationBytes (dr_envelope d)"

definition NewDescriptorBoundInvocationDraft :: "descriptor_bound_envelope \<Rightarrow> draft result" where
  "NewDescriptorBoundInvocationDraft envelope =
     bindR (validateEnvelope (dbe_envelope envelope)) (\<lambda>_.
       (let d = \<lparr>dr_envelope = envelope, dr_payload = [], dr_payload_bound = False\<rparr>
        in bindR (draft_CanonicalBytes d) (\<lambda>_. Ok d)))"

definition draft_SignCallerSignature ::
  "platform \<Rightarrow> draft \<Rightarrow> bytes \<Rightarrow> string \<Rightarrow> caller_signature result" where
  "draft_SignCallerSignature P d signingKey keyIDHint =
     signDescriptorBoundInvocation P signingKey (dr_envelope d) keyIDHint"

definition draft_VerifyCallerSignature ::
  "platform \<Rightarrow> draft \<Rightarrow> caller_signature \<Rightarrow> key_resolver \<Rightarrow> unit result" where
  "draft_VerifyCallerSignature P d sig resolver =
     verifyDescriptorBoundInvocationSignature P (dr_envelope d) sig resolver"

record builder =
  bu_caller :: agent_identity
  bu_callee :: agent_identity
  bu_subject :: subject_identity
  bu_descriptor_ref :: string
  bu_nonce :: nonce16
  bu_causal :: causal_context
  bu_payload :: bytes

definition NewDescriptorBoundInvocationBuilder :: builder where
  "NewDescriptorBoundInvocationBuilder =
     \<lparr>bu_caller = empty_identity, bu_callee = empty_identity,
      bu_subject = \<lparr>si_ura = [], si_profile = []\<rparr>, bu_descriptor_ref = [], bu_nonce = 0,
      bu_causal = CausalNoneCtx, bu_payload = []\<rparr>"

definition WithCaller :: "builder \<Rightarrow> agent_identity \<Rightarrow> builder" where
  "WithCaller b caller = b\<lparr>bu_caller := caller\<rparr>"
definition WithCallee :: "builder \<Rightarrow> agent_identity \<Rightarrow> builder" where
  "WithCallee b callee = b\<lparr>bu_callee := callee\<rparr>"
definition WithSubject :: "builder \<Rightarrow> subject_identity \<Rightarrow> builder" where
  "WithSubject b subject = b\<lparr>bu_subject := subject\<rparr>"
definition WithDescriptorRef :: "builder \<Rightarrow> string \<Rightarrow> builder" where
  "WithDescriptorRef b ref = b\<lparr>bu_descriptor_ref := ref\<rparr>"
definition WithNonce :: "builder \<Rightarrow> nonce16 \<Rightarrow> builder" where
  "WithNonce b nonce = b\<lparr>bu_nonce := nonce\<rparr>"
definition WithCausalContext :: "builder \<Rightarrow> causal_context \<Rightarrow> builder" where
  "WithCausalContext b causal = b\<lparr>bu_causal := causal\<rparr>"
definition WithPayload :: "builder \<Rightarrow> bytes \<Rightarrow> builder" where
  "WithPayload b payload = b\<lparr>bu_payload := payload\<rparr>"

definition Build :: "platform \<Rightarrow> builder option \<Rightarrow> draft result" where
  "Build P bopt =
     (case bopt of
        None \<Rightarrow> invalid_arg ''descriptor_bound_builder_required''
      | Some b \<Rightarrow>
          bindR (NewDescriptorBoundEnvelope
                   \<lparr>en_caller = bu_caller b, en_callee = bu_callee b, en_subject = bu_subject b,
                    en_ability = bu_descriptor_ref b, en_args_digest = pf_sha256 P (bu_payload b),
                    en_nonce = bu_nonce b, en_causal = bu_causal b\<rparr>) (\<lambda>envelope.
          bindR (validateEnvelope (dbe_envelope envelope)) (\<lambda>_.
          bindR (NewDescriptorBoundInvocationDraft envelope) (\<lambda>d.
            Ok (d\<lparr>dr_payload := bu_payload b, dr_payload_bound := True\<rparr>)))))"

section \<open>Requests\<close>

text \<open>\<open>CallMode\<close> is a string type with three valid values.\<close>

type_synonym call_mode = string

definition CallModeRPC :: call_mode where "CallModeRPC = ''rpc''"
definition CallModeStream :: call_mode where "CallModeStream = ''stream''"
definition CallModeBidi :: call_mode where "CallModeBidi = ''bidi''"

text \<open>\<open>SupervisorSpec\<close>: the fields the runtime reads.  \<open>CPUSeconds\<close>, \<open>MemoryBytes\<close>,
  \<open>OpenFDs\<close> and \<open>Tags\<close> are never read by the modelled code.  Durations in (fractional)
  seconds are kept as integer nanoseconds, the unit \<open>time.Duration\<close> converts them to.\<close>

record supervisor_spec =
  sp_subprocess_count :: u32
  sp_wall_ns :: int
  sp_cancel_grace_ns :: int
  sp_persist_for_recovery :: bool

definition empty_spec :: supervisor_spec where
  "empty_spec = \<lparr>sp_subprocess_count = 0, sp_wall_ns = 0, sp_cancel_grace_ns = 0,
     sp_persist_for_recovery = False\<rparr>"

record bound_request =
  rq_call_mode :: call_mode
  rq_envelope :: descriptor_bound_envelope
  rq_signature :: caller_signature
  rq_payload :: bytes
  rq_parent :: string
  rq_supervisor :: "supervisor_spec option"

definition NewDescriptorBoundInvocationRequest ::
  "call_mode \<Rightarrow> descriptor_bound_envelope \<Rightarrow> caller_signature \<Rightarrow> bytes \<Rightarrow> bound_request" where
  "NewDescriptorBoundInvocationRequest mode envelope sig payload =
     \<lparr>rq_call_mode = mode, rq_envelope = envelope, rq_signature = sig, rq_payload = payload,
      rq_parent = [], rq_supervisor = None\<rparr>"

definition SignDescriptorBoundInvocationRequest ::
  "platform \<Rightarrow> call_mode \<Rightarrow> descriptor_bound_envelope \<Rightarrow> bytes \<Rightarrow> bytes \<Rightarrow> string \<Rightarrow>
   bound_request result" where
  "SignDescriptorBoundInvocationRequest P mode envelope signingKey payload keyIDHint =
     bindR (signDescriptorBoundInvocation P signingKey envelope keyIDHint) (\<lambda>sig.
       Ok (NewDescriptorBoundInvocationRequest mode envelope sig payload))"

definition WithParentInvocationID :: "bound_request \<Rightarrow> string \<Rightarrow> bound_request" where
  "WithParentInvocationID r parent = r\<lparr>rq_parent := parent\<rparr>"

definition WithSupervisor :: "bound_request \<Rightarrow> supervisor_spec option \<Rightarrow> bound_request" where
  "WithSupervisor r spec = r\<lparr>rq_supervisor := spec\<rparr>"

definition request_CanonicalBytes :: "bound_request \<Rightarrow> bytes result" where
  "request_CanonicalBytes r =
     bindR (NewDescriptorBoundInvocationDraft (rq_envelope r)) draft_CanonicalBytes"

definition validateCallMode :: "call_mode \<Rightarrow> unit result" where
  "validateCallMode mode =
     (if mode = CallModeRPC \<or> mode = CallModeStream \<or> mode = CallModeBidi then Ok ()
      else invalid_arg ''invocation_call_mode_invalid'')"

definition BindCallerSignature :: "draft \<Rightarrow> call_mode \<Rightarrow> caller_signature \<Rightarrow> bound_request result" where
  "BindCallerSignature d mode sig =
     (if \<not> dr_payload_bound d then invalid_arg ''descriptor_bound_payload_required''
      else bindR (validateCallMode mode) (\<lambda>_.
           bindR (validateSignatureStructure sig) (\<lambda>_.
             Ok (NewDescriptorBoundInvocationRequest mode (dr_envelope d) sig (dr_payload d)))))"

section \<open>Caller-signature verification\<close>

text \<open>\<open>if axErr, ok := err.(*AxonError); ok \{ return axErr \}\<close>, else a wrapped error.\<close>

fun axon_or :: "(go_error \<Rightarrow> axon_error) \<Rightarrow> 'a result \<Rightarrow> 'a result" where
  "axon_or wrap (Ok x) = Ok x"
| "axon_or wrap (Panic e) = Panic e"
| "axon_or wrap (Fail (AxonErr a)) = Fail (AxonErr a)"
| "axon_or wrap (Fail (PlainErr s)) = Fail (AxonErr (wrap (PlainErr s)))"

definition incomplete_wrap :: "platform \<Rightarrow> go_error \<Rightarrow> axon_error" where
  "incomplete_wrap P e =
     (ErrInvalidArgument ReasonEnvelopeIncomplete)\<lparr>ae_message := go_error_string (pf_quote P) e\<rparr>"

fun wrap_signature_error :: "platform \<Rightarrow> unit result \<Rightarrow> unit result" where
  "wrap_signature_error P (Ok u) = Ok u"
| "wrap_signature_error P (Panic e) = Panic e"
| "wrap_signature_error P (Fail e) =
     Fail (AxonErr ((ErrInvalidArgument ReasonCallerSignatureInvalid)
                      \<lparr>ae_message := go_error_string (pf_quote P) e\<rparr>))"

definition verifyDescriptorBoundSignature ::
  "platform \<Rightarrow> descriptor_bound_envelope \<Rightarrow> caller_signature \<Rightarrow> key_resolver \<Rightarrow> unit result" where
  "verifyDescriptorBoundSignature P env sig resolver =
     bindR (axon_or (incomplete_wrap P) (NewDescriptorBoundInvocationDraft env)) (\<lambda>d.
     bindR (axon_or (incomplete_wrap P) (draft_CanonicalBytes d)) (\<lambda>b.
       if b = [] then Fail (AxonErr (ErrInternal ''canonical_descriptor_bound_invocation_bytes_empty''))
       else wrap_signature_error P (draft_VerifyCallerSignature P d sig resolver)))"

section \<open>The replay store\<close>

record replay_key =
  rk_caller :: string
  rk_ability :: string
  rk_nonce :: nonce16

record replay_store =
  rs_seen :: "replay_key \<rightharpoonup> i64"
  rs_window_ms :: i64

definition newNonceReplayStore :: replay_store where
  "newNonceReplayStore = \<lparr>rs_seen = Map.empty, rs_window_ms = DefaultDedupWindowMs\<rparr>"

text \<open>\<open>withWindowMs\<close> builds a store with a new window and no observations.\<close>

definition withWindowMs :: "replay_store \<Rightarrow> i64 \<Rightarrow> replay_store" where
  "withWindowMs s windowMs = \<lparr>rs_seen = Map.empty, rs_window_ms = windowMs\<rparr>"

definition prune :: "i64 \<Rightarrow> (replay_key \<rightharpoonup> i64) \<Rightarrow> (replay_key \<rightharpoonup> i64)" where
  "prune cutoff seen = (\<lambda>k. case seen k of
       None \<Rightarrow> None
     | Some ts \<Rightarrow> if sint ts < sint cutoff then None else Some ts)"

definition replay_error :: "i64 \<Rightarrow> i64 \<Rightarrow> axon_error" where
  "replay_error prev windowMs =
     (ErrInvalidArgument ReasonNonceReplay)
       \<lparr>ae_message := ''dedup_window_hit:prev_ts='' @ dec_int (sint prev)
                     @ '':window_ms='' @ dec_int (sint windowMs)\<rparr>"

definition checkAndRecord :: "replay_store \<Rightarrow> replay_key \<Rightarrow> i64 \<Rightarrow> replay_store \<times> unit result" where
  "checkAndRecord s key nowMs =
     (let cutoff = nowMs - rs_window_ms s;
          seen = prune cutoff (rs_seen s)
      in case seen key of
           Some prev \<Rightarrow>
             if sint cutoff \<le> sint prev
             then (s\<lparr>rs_seen := seen\<rparr>, Fail (AxonErr (replay_error prev (rs_window_ms s))))
             else (s\<lparr>rs_seen := seen(key \<mapsto> nowMs)\<rparr>, Ok ())
         | None \<Rightarrow> (s\<lparr>rs_seen := seen(key \<mapsto> nowMs)\<rparr>, Ok ()))"

definition replay_len :: "replay_store \<Rightarrow> nat" where
  "replay_len s = card (dom (rs_seen s))"

definition replay_clear :: "replay_store \<Rightarrow> replay_store" where
  "replay_clear s = s\<lparr>rs_seen := Map.empty\<rparr>"

section \<open>Policy values\<close>

record axiom_binding =
  xb_caller :: agent_identity
  xb_callee :: agent_identity
  xb_subject :: subject_identity
  xb_nonce :: nonce16
  xb_causal :: causal_context
  xb_payload_digest :: hash32
  xb_ability :: string
  xb_authority :: authority_or_bootstrap
  xb_hosted :: "hosted_attestation option"
  xb_proof_facts :: receipt_proof_facts

record verified_policy =
  vp_authority_binding :: authority_or_bootstrap
  vp_authority_proof :: authority_proof

definition NewVerifiedAdmissionPolicy ::
  "platform \<Rightarrow> descriptor_bound_envelope \<Rightarrow> authority_or_bootstrap \<Rightarrow> authority_proof \<Rightarrow>
   verified_policy result" where
  "NewVerifiedAdmissionPolicy P envelope binding proof =
     (let plain = dbe_envelope envelope in
      bindR (validateAuthorityBinding (en_caller plain) (en_subject plain) (en_ability plain) binding) (\<lambda>_.
      bindR (validateAuthorityProof P proof binding (en_callee plain)) (\<lambda>_.
        Ok \<lparr>vp_authority_binding = binding, vp_authority_proof = proof\<rparr>)))"

record verified_admission =
  va_binding :: axiom_binding
  va_subject_ref :: entity_ref
  va_input_hash :: hash32
  va_parent_receipts :: "receipt_ref list"
  va_authority_proof :: authority_proof

definition newVerifiedDescriptorBoundAdmission ::
  "descriptor_bound_envelope \<Rightarrow> verified_policy \<Rightarrow> verified_admission result" where
  "newVerifiedDescriptorBoundAdmission envelope policy =
     (let plain = dbe_envelope envelope in
      bindR (EntityRefForSubject (en_subject plain)) (\<lambda>subjectRef.
        Ok \<lparr>va_binding =
              \<lparr>xb_caller = en_caller plain, xb_callee = en_callee plain, xb_subject = en_subject plain,
               xb_nonce = en_nonce plain, xb_causal = en_causal plain,
               xb_payload_digest = en_args_digest plain, xb_ability = en_ability plain,
               xb_authority = vp_authority_binding policy, xb_hosted = None,
               xb_proof_facts = empty_facts\<rparr>,
            va_subject_ref = subjectRef,
            va_input_hash = en_args_digest plain,
            va_parent_receipts = enumerableParentReceipts (en_causal plain),
            va_authority_proof = vp_authority_proof policy\<rparr>))"

section \<open>The pipeline\<close>

text \<open>The provider's \<open>VerifyAdmissionPolicy\<close>; an absent resolver, store or provider is the
  nil interface the code tests for.\<close>

type_synonym policy_provider = "descriptor_bound_envelope \<Rightarrow> verified_policy result"

definition policy_wrap :: "platform \<Rightarrow> go_error \<Rightarrow> axon_error" where
  "policy_wrap P e = ErrPermissionDenied (''receipt_admission_policy_failed:'' @ go_error_string (pf_quote P) e)"

definition admission_wrap :: "platform \<Rightarrow> go_error \<Rightarrow> axon_error" where
  "admission_wrap P e = ErrInvalidArgument (go_error_string (pf_quote P) e)"

text \<open>Everything up to the replay store, in the code's order; the result is the policy.\<close>

definition admission_checks ::
  "platform \<Rightarrow> descriptor_bound_envelope \<Rightarrow> caller_signature \<Rightarrow> key_resolver option \<Rightarrow>
   replay_store option \<Rightarrow> policy_provider option \<Rightarrow> verified_policy result" where
  "admission_checks P env sig resolver replay provider =
     bindR (validateEnvelope (dbe_envelope env)) (\<lambda>_.
     bindR (axon_or (incomplete_wrap P) (NewDescriptorBoundInvocationDraft env)) (\<lambda>_.
     bindR (validateSignatureStructure sig) (\<lambda>_.
     case resolver of
       None \<Rightarrow> Fail (AxonErr (rejectSig ''key_resolver_required''))
     | Some res \<Rightarrow>
         bindR (verifyDescriptorBoundSignature P env sig res) (\<lambda>_.
         if replay = None then Fail (AxonErr (ErrInternal ''nonce_replay_store_required''))
         else case provider of
           None \<Rightarrow> Fail (AxonErr (ErrPermissionDenied ''canonical_receipt_provider_not_configured''))
         | Some prov \<Rightarrow> axon_or (policy_wrap P) (prov env)))))"

definition replay_key_of :: "invocation_envelope \<Rightarrow> replay_key" where
  "replay_key_of plain = \<lparr>rk_caller = ai_ura (en_caller plain), rk_ability = en_ability plain,
     rk_nonce = en_nonce plain\<rparr>"

definition verifyDescriptorBoundAdmission ::
  "platform \<Rightarrow> descriptor_bound_envelope \<Rightarrow> caller_signature \<Rightarrow> key_resolver option \<Rightarrow>
   replay_store option \<Rightarrow> policy_provider option \<Rightarrow> i64 \<Rightarrow>
   replay_store option \<times> verified_admission result" where
  "verifyDescriptorBoundAdmission P env sig resolver replay provider nowMs =
     (case admission_checks P env sig resolver replay provider of
        Fail e \<Rightarrow> (replay, Fail e)
      | Panic e \<Rightarrow> (replay, Panic e)
      | Ok policy \<Rightarrow>
          (case replay of
             None \<Rightarrow> (None, Fail (AxonErr (ErrInternal ''nonce_replay_store_required'')))
           | Some store \<Rightarrow>
               (case checkAndRecord store (replay_key_of (dbe_envelope env)) nowMs of
                  (store', Ok _) \<Rightarrow>
                    (Some store', axon_or (admission_wrap P)
                                    (newVerifiedDescriptorBoundAdmission env policy))
                | (store', Fail e) \<Rightarrow> (Some store', Fail e)
                | (store', Panic e) \<Rightarrow> (Some store', Panic e))))"

section \<open>The replay interface\<close>

text \<open>
  What admission relies on: an operation that checks and records a key at a time, and a
  reading of the last recorded observation.  Times are milliseconds; the laws speak of the
  times the guard is used at, those accepted by \<open>sane\<close>.
\<close>

locale nonce_guard =
  fixes check :: "'s \<Rightarrow> 'k \<Rightarrow> i64 \<Rightarrow> 's \<times> unit result"
    and observed :: "'s \<Rightarrow> 'k \<Rightarrow> i64 option"
    and window :: "'s \<Rightarrow> int"
  assumes records: "check s k t = (s', Ok ()) \<Longrightarrow> observed s' k = Some t"
    and refuses: "\<lbrakk>observed s k = Some t0; sint t - window s \<le> sint t0; 0 \<le> sint t; 0 \<le> window s\<rbrakk>
      \<Longrightarrow> \<not> is_ok (snd (check s k t))"
    and remembers: "\<lbrakk>check s k t = (s', r); observed s k' = Some t0; sint t - window s \<le> sint t0;
        0 \<le> sint t; 0 \<le> window s; k' \<noteq> k \<or> \<not> is_ok r\<rbrakk> \<Longrightarrow> observed s' k' = Some t0"
    and keeps_window: "window (fst (check s k t)) = window s"
begin

fun run :: "'s \<Rightarrow> ('k \<times> i64) list \<Rightarrow> 's" where
  "run s [] = s"
| "run s ((k, t) # evs) = run (fst (check s k t)) evs"

text \<open>The observations that were admitted, in order.\<close>

fun admitted :: "'s \<Rightarrow> ('k \<times> i64) list \<Rightarrow> ('k \<times> i64) list" where
  "admitted s [] = []"
| "admitted s ((k, t) # evs) =
     (if is_ok (snd (check s k t)) then [(k, t)] else []) @ admitted (fst (check s k t)) evs"

definition clock :: "('k \<times> i64) list \<Rightarrow> bool" where
  "clock evs = (sorted (map (sint \<circ> snd) evs) \<and> (\<forall>e\<in>set evs. 0 \<le> sint (snd e)))"

lemma clock_Cons [simp]:
  "clock ((k, t) # evs) \<longleftrightarrow> clock evs \<and> 0 \<le> sint t \<and> (\<forall>e\<in>set evs. sint t \<le> sint (snd e))"
  by (auto simp: clock_def)

lemma admitted_subset: "set (admitted s evs) \<subseteq> set evs"
  by (induction s evs rule: admitted.induct) auto

lemma run_window: "window (run s evs) = window s"
  by (induction s evs rule: run.induct) (simp_all add: keeps_window)

lemma blocked:
  assumes "observed s k = Some t0" and "0 \<le> window s" and "clock evs"
    and "(k, t) \<in> set (admitted s evs)"
  shows "window s < sint t - sint t0"
  using assms
proof (induction s evs rule: admitted.induct)
  case (2 s k1 t1 evs)
  obtain s' r where c: "check s k1 t1 = (s', r)" by fastforce
  have w: "window s' = window s"
    using keeps_window [of s k1 t1] c by simp
  have now: "0 \<le> sint t1" using 2(4) by simp
  show ?case
  proof (cases "sint t1 - window s \<le> sint t0")
    case True
    have refused: "k1 = k \<Longrightarrow> \<not> is_ok r"
      using refuses [OF 2(2) True now 2(3)] c by auto
    then have "observed s' k = Some t0"
      using remembers [OF c 2(2) True now 2(3)] by blast
    moreover have "(k, t) \<in> set (admitted s' evs)"
      using 2(5) c refused by (auto split: if_splits)
    ultimately show ?thesis
      using 2(1) 2(3,4) c w by simp
  next
    case False
    have "(k, t) \<in> set ((k1, t1) # evs)"
      using 2(5) admitted_subset by blast
    with 2(4) have "sint t1 \<le> sint t" by auto
    with False show ?thesis by linarith
  qed
qed simp

theorem admitted_once_per_window:
  assumes "0 \<le> window s" and "clock evs"
  shows "sorted_wrt (\<lambda>a b. fst a = fst b \<longrightarrow> window s < sint (snd b) - sint (snd a)) (admitted s evs)"
  using assms
proof (induction s evs rule: admitted.induct)
  case (2 s k t evs)
  obtain s' r where c: "check s k t = (s', r)" by fastforce
  have w: "window s' = window s"
    using keeps_window [of s k t] c by simp
  have rest: "sorted_wrt (\<lambda>a b. fst a = fst b \<longrightarrow> window s < sint (snd b) - sint (snd a)) (admitted s' evs)"
    using 2(1) 2(2,3) c w by simp
  have "is_ok r \<Longrightarrow> (k, u) \<in> set (admitted s' evs) \<Longrightarrow> window s < sint u - sint t" for u
    using blocked [of s' k t evs u] records [of s k t s'] c 2(2,3) w by (cases r) auto
  with rest c show ?case by auto
qed simp

end

section \<open>The replay store implements it\<close>

lemma sint_diff:
  fixes a b :: i64
  assumes "0 \<le> sint a" and "0 \<le> sint b"
  shows "sint (a - b) = sint a - sint b"
proof -
  have "sint (a - b) = signed_take_bit 63 (sint a - sint b)"
    by (simp add: sint_word_ariths)
  moreover have "sint a < 2 ^ 63" "sint b < 2 ^ 63"
    using sint_lt [of a] sint_lt [of b] by simp_all
  ultimately show ?thesis
    using assms by (simp add: signed_take_bit_int_eq_self)
qed

definition observed :: "replay_store \<Rightarrow> replay_key \<Rightarrow> i64 option" where
  "observed s k = rs_seen s k"

definition window :: "replay_store \<Rightarrow> int" where
  "window s = sint (rs_window_ms s)"

lemma prune_Some:
  "prune c seen k = Some t \<longleftrightarrow> seen k = Some t \<and> sint c \<le> sint t"
  by (auto simp: prune_def split: option.splits if_splits)

lemma checkAndRecord_Ok:
  "checkAndRecord s k t = (s', Ok u) \<longleftrightarrow>
     (\<forall>t0. rs_seen s k = Some t0 \<longrightarrow> sint t0 < sint (t - rs_window_ms s))
     \<and> s' = s\<lparr>rs_seen := (prune (t - rs_window_ms s) (rs_seen s))(k \<mapsto> t)\<rparr>"
  by (auto simp: checkAndRecord_def Let_def prune_def split: option.splits if_splits)

lemma checkAndRecord_not_panic: "checkAndRecord s k t \<noteq> (s', Panic e)"
  by (auto simp: checkAndRecord_def Let_def split: option.splits)

lemma checkAndRecord_state:
  "fst (checkAndRecord s k t) = s\<lparr>rs_seen := (if is_ok (snd (checkAndRecord s k t))
      then (prune (t - rs_window_ms s) (rs_seen s))(k \<mapsto> t)
      else prune (t - rs_window_ms s) (rs_seen s))\<rparr>"
  by (auto simp: checkAndRecord_def Let_def split: option.splits)

interpretation replay: nonce_guard checkAndRecord observed window
proof
  fix s s' :: replay_store and k k' t t0 r
  show "checkAndRecord s k t = (s', Ok ()) \<Longrightarrow> observed s' k = Some t"
    by (auto simp: checkAndRecord_Ok observed_def)
  show "window (fst (checkAndRecord s k t)) = window s"
    by (simp add: checkAndRecord_state window_def)
  show "\<lbrakk>observed s k = Some t0; sint t - window s \<le> sint t0; 0 \<le> sint t; 0 \<le> window s\<rbrakk>
      \<Longrightarrow> \<not> is_ok (snd (checkAndRecord s k t))"
    by (auto simp: is_ok_iff prod_eq_iff checkAndRecord_def Let_def prune_def observed_def window_def
        sint_diff split: option.splits)
  show "\<lbrakk>checkAndRecord s k t = (s', r); observed s k' = Some t0; sint t - window s \<le> sint t0;
        0 \<le> sint t; 0 \<le> window s; k' \<noteq> k \<or> \<not> is_ok r\<rbrakk> \<Longrightarrow> observed s' k' = Some t0"
    using checkAndRecord_state [of s k t]
    by (auto simp: observed_def window_def sint_diff prune_Some)
qed

section \<open>What an admitted request has passed\<close>

lemma axon_or_Ok [simp]: "axon_or w r = Ok x \<longleftrightarrow> r = Ok x"
  by (cases "(w, r)" rule: axon_or.cases) auto

lemma wrap_signature_error_Ok [simp]: "wrap_signature_error P r = Ok x \<longleftrightarrow> r = Ok x"
  by (cases "(P, r)" rule: wrap_signature_error.cases) auto

lemma validateSignatureStructure_Ok:
  "validateSignatureStructure sig = Ok x \<longleftrightarrow>
     cs_algorithm sig = ''ed25519'' \<and> length (cs_signature sig) = SignatureSize"
  by (auto simp: validateSignatureStructure_def)

lemma validateEnvelope_Ok:
  "validateEnvelope env = Ok x \<longleftrightarrow> en_ability env \<noteq> [] \<and> ai_ura (en_caller env) \<noteq> []
     \<and> ai_ura (en_callee env) \<noteq> [] \<and> si_ura (en_subject env) \<noteq> [] \<and> en_nonce env \<noteq> 0"
  by (auto simp: validateEnvelope_def)

lemma NewDescriptorBoundInvocationDraft_Ok:
  "NewDescriptorBoundInvocationDraft env = Ok d \<longleftrightarrow>
     is_ok (validateEnvelope (dbe_envelope env)) \<and> is_ok (canonicalDescriptorBoundInvocationBytes env)
     \<and> d = \<lparr>dr_envelope = env, dr_payload = [], dr_payload_bound = False\<rparr>"
  by (auto simp: NewDescriptorBoundInvocationDraft_def bindR_Ok_iff is_ok_iff draft_CanonicalBytes_def)

lemma verifyDescriptorBoundInvocationSignature_Ok:
  "verifyDescriptorBoundInvocationSignature P env sig resolver = Ok u \<longleftrightarrow>
     cs_algorithm sig = ''ed25519'' \<and> length (cs_signature sig) = SignatureSize
     \<and> (\<exists>key b. resolver (ai_ura (en_caller (dbe_envelope env))) = Ok key
          \<and> canonicalDescriptorBoundInvocationBytes env = Ok b
          \<and> length key = PublicKeySize \<and> pf_verify P key b (cs_signature sig))"
  by (auto simp: verifyDescriptorBoundInvocationSignature_def bindR_Ok_iff wrong_length_def edVerify_def
      split: if_splits)

lemma canonical_bytes_nonempty:
  "canonicalDescriptorBoundInvocationBytes env = Ok b \<Longrightarrow> b \<noteq> []"
proof
  assume "canonicalDescriptorBoundInvocationBytes env = Ok b" and "b = []"
  then have "length (put_agent (en_caller (dbe_envelope env))) = 0"
    by (auto simp: canonicalDescriptorBoundInvocationBytes_def Let_def bindR_Ok_iff)
  then show False by (simp add: put_agent_def putIdentity_def)
qed

lemma verifyDescriptorBoundSignature_Ok:
  "verifyDescriptorBoundSignature P env sig resolver = Ok u \<longleftrightarrow>
     is_ok (validateEnvelope (dbe_envelope env))
     \<and> is_ok (verifyDescriptorBoundInvocationSignature P env sig resolver)"
  using canonical_bytes_nonempty
  by (fastforce simp: verifyDescriptorBoundSignature_def bindR_Ok_iff NewDescriptorBoundInvocationDraft_Ok
      draft_CanonicalBytes_def draft_VerifyCallerSignature_def is_ok_iff
      verifyDescriptorBoundInvocationSignature_Ok split: if_splits)

lemma admission_checks_Ok:
  "admission_checks P env sig resolver replay provider = Ok policy \<longleftrightarrow>
     is_ok (validateEnvelope (dbe_envelope env)) \<and> is_ok (canonicalDescriptorBoundInvocationBytes env)
     \<and> replay \<noteq> None
     \<and> (\<exists>res prov. resolver = Some res \<and> provider = Some prov
          \<and> is_ok (verifyDescriptorBoundInvocationSignature P env sig res) \<and> prov env = Ok policy)"
  by (auto simp: admission_checks_def bindR_Ok_iff NewDescriptorBoundInvocationDraft_Ok is_ok_iff
      validateSignatureStructure_Ok verifyDescriptorBoundSignature_Ok
      verifyDescriptorBoundInvocationSignature_Ok validateEnvelope_Ok
      split: option.splits if_splits)

text \<open>A verified envelope always yields its admission record.\<close>

definition admission_record :: "descriptor_bound_envelope \<Rightarrow> verified_policy \<Rightarrow> entity_ref \<Rightarrow> verified_admission"
  where "admission_record envelope policy subjectRef =
    (let plain = dbe_envelope envelope in
     \<lparr>va_binding =
        \<lparr>xb_caller = en_caller plain, xb_callee = en_callee plain, xb_subject = en_subject plain,
         xb_nonce = en_nonce plain, xb_causal = en_causal plain,
         xb_payload_digest = en_args_digest plain, xb_ability = en_ability plain,
         xb_authority = vp_authority_binding policy, xb_hosted = None, xb_proof_facts = empty_facts\<rparr>,
      va_subject_ref = subjectRef, va_input_hash = en_args_digest plain,
      va_parent_receipts = enumerableParentReceipts (en_causal plain),
      va_authority_proof = vp_authority_proof policy\<rparr>)"

lemma newVerifiedDescriptorBoundAdmission_Ok:
  "newVerifiedDescriptorBoundAdmission env policy = Ok adm \<longleftrightarrow>
     (\<exists>e. EntityRefForSubject (en_subject (dbe_envelope env)) = Ok e \<and> adm = admission_record env policy e)"
  by (auto simp: newVerifiedDescriptorBoundAdmission_def admission_record_def Let_def bindR_Ok_iff)

lemma canonical_bytes_subject:
  "is_ok (canonicalDescriptorBoundInvocationBytes env) \<Longrightarrow>
     \<exists>e. EntityRefForSubject (en_subject (dbe_envelope env)) = Ok e"
  by (auto simp: is_ok_iff canonicalDescriptorBoundInvocationBytes_def Let_def bindR_Ok_iff)

lemma admission_Ok:
  "verifyDescriptorBoundAdmission P env sig resolver replay provider now = (replay', Ok adm) \<longleftrightarrow>
     (\<exists>policy store store' e. admission_checks P env sig resolver replay provider = Ok policy
        \<and> replay = Some store \<and> replay' = Some store'
        \<and> checkAndRecord store (replay_key_of (dbe_envelope env)) now = (store', Ok ())
        \<and> EntityRefForSubject (en_subject (dbe_envelope env)) = Ok e
        \<and> adm = admission_record env policy e)"
proof (cases "admission_checks P env sig resolver replay provider")
  case (Ok policy)
  obtain store' r where c: "checkAndRecord (the replay) (replay_key_of (dbe_envelope env)) now = (store', r)"
    by fastforce
  from Ok c show ?thesis
    by (cases r)
      (auto simp: verifyDescriptorBoundAdmission_def newVerifiedDescriptorBoundAdmission_Ok
        split: option.splits)
qed (auto simp: verifyDescriptorBoundAdmission_def)

lemma admission_state:
  "verifyDescriptorBoundAdmission P env sig resolver replay provider now = (replay', r) \<Longrightarrow>
     replay' = (case replay of
        Some store \<Rightarrow> Some (if is_ok (admission_checks P env sig resolver replay provider)
                            then fst (checkAndRecord store (replay_key_of (dbe_envelope env)) now) else store)
      | None \<Rightarrow> None)"
  by (auto simp: verifyDescriptorBoundAdmission_def split: result.splits option.splits prod.splits)

lemma checkAndRecord_unit: "is_ok r \<Longrightarrow> (r :: unit result) = Ok ()"
  by (cases r) auto

lemma admission_is_ok:
  "is_ok (snd (verifyDescriptorBoundAdmission P env sig resolver (Some store) provider now)) \<longleftrightarrow>
     is_ok (admission_checks P env sig resolver (Some store) provider)
     \<and> is_ok (snd (checkAndRecord store (replay_key_of (dbe_envelope env)) now))"
proof (cases "admission_checks P env sig resolver (Some store) provider")
  case (Ok policy)
  then obtain e where "EntityRefForSubject (en_subject (dbe_envelope env)) = Ok e"
    using canonical_bytes_subject by (auto simp: admission_checks_Ok)
  then have "newVerifiedDescriptorBoundAdmission env policy = Ok (admission_record env policy e)"
    by (simp add: newVerifiedDescriptorBoundAdmission_Ok)
  with Ok show ?thesis
    by (auto simp: verifyDescriptorBoundAdmission_def split: prod.splits result.splits)
qed (auto simp: verifyDescriptorBoundAdmission_def)

section \<open>A history of admissions\<close>

text \<open>The requests one runtime admits, in the order its lock serialises them: a list of
  (envelope, signature, clock reading).\<close>

type_synonym submission = "descriptor_bound_envelope \<times> caller_signature \<times> i64"

fun admissions ::
  "platform \<Rightarrow> key_resolver option \<Rightarrow> policy_provider option \<Rightarrow> replay_store \<Rightarrow> submission list \<Rightarrow>
   submission list" where
  "admissions P resolver provider store [] = []"
| "admissions P resolver provider store ((env, sig, now) # rest) =
     (case verifyDescriptorBoundAdmission P env sig resolver (Some store) provider now of
        (Some store', r) \<Rightarrow>
          (if is_ok r then [(env, sig, now)] else []) @ admissions P resolver provider store' rest
      | (None, r) \<Rightarrow> [])"

definition submission_key :: "submission \<Rightarrow> replay_key \<times> i64" where
  "submission_key s = (case s of (env, sig, now) \<Rightarrow> (replay_key_of (dbe_envelope env), now))"

text \<open>Only requests that pass every other check reach the guard.\<close>

definition reaches_guard ::
  "platform \<Rightarrow> key_resolver option \<Rightarrow> policy_provider option \<Rightarrow> submission \<Rightarrow> bool" where
  "reaches_guard P resolver provider s =
     (case s of (env, sig, now) \<Rightarrow>
        is_ok (admission_checks P env sig resolver (Some newNonceReplayStore) provider))"

lemma admission_checks_any_store:
  "admission_checks P env sig resolver (Some s) provider = admission_checks P env sig resolver (Some t) provider"
  by (simp add: admission_checks_def)

lemma admissions_are_admitted:
  "map submission_key (admissions P resolver provider store subs)
     = replay.admitted store (map submission_key (List.filter (reaches_guard P resolver provider) subs))"
proof (induction P resolver provider store subs rule: admissions.induct)
  case (2 P resolver provider store env sig now rest)
  obtain replay' r where v:
    "verifyDescriptorBoundAdmission P env sig resolver (Some store) provider now = (replay', r)"
    by fastforce
  have reach: "reaches_guard P resolver provider (env, sig, now)
      = is_ok (admission_checks P env sig resolver (Some store) provider)"
    unfolding reaches_guard_def using admission_checks_any_store by (simp, metis)
  show ?case
    using 2 [OF v [symmetric]] admission_state [OF v] v reach
      admission_is_ok [of P env sig resolver store provider now]
    by (auto simp: submission_key_def)
qed simp

text \<open>The clock of a history: it never runs backwards and never reads before the epoch.\<close>

definition clock_order :: "submission list \<Rightarrow> bool" where
  "clock_order subs =
     (sorted (map (\<lambda>(env, sig, now). sint now) subs) \<and> list_all (\<lambda>(env, sig, now). 0 \<le> sint now) subs)"

lemma clock_order_clock: "clock_order subs \<Longrightarrow> replay.clock (map submission_key subs)"
  by (auto simp: clock_order_def replay.clock_def submission_key_def comp_def case_prod_unfold list_all_iff)

lemma clock_filter:
  "replay.clock (map submission_key subs) \<Longrightarrow> replay.clock (map submission_key (List.filter p subs))"
  by (auto simp: replay.clock_def comp_def sorted_filter)

lemma admissions_spaced:
  assumes "0 \<le> window store" and "replay.clock (map submission_key subs)"
  shows "sorted_wrt (\<lambda>a b. fst a = fst b \<longrightarrow> window store < sint (snd b) - sint (snd a))
    (map submission_key (admissions P resolver provider store subs))"
  unfolding admissions_are_admitted
  using replay.admitted_once_per_window [OF assms(1) clock_filter [OF assms(2)]] .

lemma empty_ability_refused: "CanonicalAbilityDescriptorRef [] = invalid_arg ''ability_empty''"
  by code_simp

section \<open>Sample runs\<close>

definition demo_caller_signature :: caller_signature where
  "demo_caller_signature = \<lparr>cs_algorithm = ''ed25519'',
     cs_signature = pf_sign demo_platform demo_key
        (wire_of (canonicalDescriptorBoundInvocationBytes (DBEnvelope demo_envelope))),
     cs_key_id_hint = []\<rparr>"

definition demo_policy :: policy_provider where
  "demo_policy env = Ok \<lparr>vp_authority_binding = demo_authority, vp_authority_proof = demo_proof\<rparr>"

definition demo_respelled :: invocation_envelope where
  "demo_respelled = demo_envelope\<lparr>en_ability := demo_ability_upper\<rparr>"

lemma demo_signature_verifies:
  "is_ok (verifyDescriptorBoundInvocationSignature demo_platform (DBEnvelope demo_envelope)
     demo_caller_signature demo_resolver)"
proof -
  obtain b where "canonicalDescriptorBoundInvocationBytes (DBEnvelope demo_envelope) = Ok b"
    using demo_bytes_ok by (auto simp: is_ok_iff)
  then show ?thesis
    using demo_signature demo_resolver_key
    by (auto simp: is_ok_iff verifyDescriptorBoundInvocationSignature_Ok demo_caller_signature_def)
qed

lemma demo_checks:
  "admission_checks demo_platform (DBEnvelope demo_envelope) demo_caller_signature (Some demo_resolver)
     (Some s) (Some demo_policy)
   = Ok \<lparr>vp_authority_binding = demo_authority, vp_authority_proof = demo_proof\<rparr>"
  using demo_signature_verifies demo_bytes_ok
  by (simp add: admission_checks_Ok demo_policy_def is_ok_iff [of "validateEnvelope _"] validateEnvelope_Ok
      demo_envelope_def demo_ability_def demo_identities)

definition demo_key_seen :: replay_key where
  "demo_key_seen = replay_key_of demo_envelope"

lemma demo_admitted:
  assumes "\<forall>t0. rs_seen s demo_key_seen = Some t0 \<longrightarrow> sint t0 < sint (now - rs_window_ms s)"
  shows "\<exists>s' adm. verifyDescriptorBoundAdmission demo_platform (DBEnvelope demo_envelope)
      demo_caller_signature (Some demo_resolver) (Some s) (Some demo_policy) now = (Some s', Ok adm)
    \<and> s' = s\<lparr>rs_seen := (prune (now - rs_window_ms s) (rs_seen s))(demo_key_seen \<mapsto> now)\<rparr>"
  using assms demo_subject_entity
  by (simp add: admission_Ok demo_checks checkAndRecord_Ok demo_key_seen_def) (simp add: demo_envelope_def)

section \<open>Properties\<close>

text \<open>C1: admission is sound.  An admitted envelope is complete, its canonical bytes carry an
  ed25519 signature that verifies under the 32-byte key resolved for its caller, the
  provider's policy accepted it, its nonce was not observed inside the window and is
  recorded now, and the admission record restates the envelope and that policy.\<close>

theorem admission_sound:
  assumes "verifyDescriptorBoundAdmission P env sig resolver replay provider now = (replay', Ok adm)"
  shows "\<exists>res prov key b policy store store' e.
    resolver = Some res \<and> provider = Some prov \<and> replay = Some store \<and> replay' = Some store'
    \<and> is_ok (validateEnvelope (dbe_envelope env))
    \<and> canonicalDescriptorBoundInvocationBytes env = Ok b
    \<and> res (ai_ura (en_caller (dbe_envelope env))) = Ok key \<and> length key = PublicKeySize
    \<and> cs_algorithm sig = ''ed25519'' \<and> pf_verify P key b (cs_signature sig)
    \<and> prov env = Ok policy
    \<and> (\<forall>t0. rs_seen store (replay_key_of (dbe_envelope env)) = Some t0
          \<longrightarrow> sint t0 < sint (now - rs_window_ms store))
    \<and> rs_seen store' (replay_key_of (dbe_envelope env)) = Some now
    \<and> adm = admission_record env policy e"
  using assms
  by (fastforce simp: admission_Ok admission_checks_Ok is_ok_iff verifyDescriptorBoundInvocationSignature_Ok
      checkAndRecord_Ok)

theorem admission_sound_witness:
  "\<exists>s' adm. verifyDescriptorBoundAdmission demo_platform (DBEnvelope demo_envelope) demo_caller_signature
      (Some demo_resolver) (Some newNonceReplayStore) (Some demo_policy) 1000 = (Some s', Ok adm)
    \<and> rs_seen s' demo_key_seen = Some 1000"
  using demo_admitted [of newNonceReplayStore 1000] admission_sound [of demo_platform "DBEnvelope demo_envelope"
      demo_caller_signature "Some demo_resolver" "Some newNonceReplayStore" "Some demo_policy" 1000]
  by (fastforce simp: newNonceReplayStore_def demo_key_seen_def)

text \<open>A request that is refused records nothing: whatever the reason of the refusal, every
  nonce the store holds afterwards was in it before, at the same time.\<close>

theorem refused_records_nothing:
  assumes "verifyDescriptorBoundAdmission P env sig resolver (Some store) provider now = (Some store', r)"
    and "\<not> is_ok r"
  shows "rs_seen store' \<subseteq>\<^sub>m rs_seen store \<and> rs_window_ms store' = rs_window_ms store"
proof -
  let ?c = "checkAndRecord store (replay_key_of (dbe_envelope env)) now"
  have "\<not> (is_ok (admission_checks P env sig resolver (Some store) provider) \<and> is_ok (snd ?c))"
    using admission_is_ok [of P env sig resolver store provider now] assms by simp
  then show ?thesis
    using admission_state [OF assms(1)] checkAndRecord_state [of store _ now]
    by (auto simp: map_le_def dom_def prune_Some)
qed

theorem refused_records_nothing_witness:
  "\<exists>s'. verifyDescriptorBoundAdmission demo_platform (DBEnvelope demo_envelope) demo_caller_signature
      None (Some newNonceReplayStore) (Some demo_policy) 1000 = (Some s', Fail (AxonErr (rejectSig ''key_resolver_required'')))
    \<and> rs_seen s' = Map.empty"
proof -
  have "validateEnvelope demo_envelope = Ok ()" "validateSignatureStructure demo_caller_signature = Ok ()"
    using demo_checks [of newNonceReplayStore] demo_signature_verifies
    by (auto simp: admission_checks_Ok is_ok_iff verifyDescriptorBoundInvocationSignature_Ok
        validateSignatureStructure_Ok)
  moreover have "\<exists>d. NewDescriptorBoundInvocationDraft (DBEnvelope demo_envelope) = Ok d"
    using calculation(1) demo_bytes_ok by (simp add: NewDescriptorBoundInvocationDraft_Ok)
  ultimately have run: "verifyDescriptorBoundAdmission demo_platform (DBEnvelope demo_envelope) demo_caller_signature
      None (Some newNonceReplayStore) (Some demo_policy) 1000
      = (Some newNonceReplayStore, Fail (AxonErr (rejectSig ''key_resolver_required'')))"
    by (auto simp: verifyDescriptorBoundAdmission_def admission_checks_def)
  with refused_records_nothing [OF run] show ?thesis
    by (auto simp: newNonceReplayStore_def)
qed

text \<open>C8: replay protection.  In any sequence of submissions to one runtime, with a clock that
  does not run backwards, two admitted requests with the same caller, ability text and
  nonce are more than the dedup window apart.\<close>

theorem admitted_once_within_window:
  assumes "0 \<le> sint (rs_window_ms store)" and "clock_order subs"
  shows "sorted_wrt (\<lambda>(k, t) (k', t'). k = k' \<longrightarrow> sint (rs_window_ms store) < sint t' - sint t)
    (map submission_key (admissions P resolver provider store subs))"
  using admissions_spaced [of store subs P resolver provider] clock_order_clock [OF assms(2)] assms(1)
  by (simp add: window_def case_prod_unfold)

theorem admitted_once_within_window_witness:
  "map submission_key (admissions demo_platform (Some demo_resolver) (Some demo_policy) newNonceReplayStore
      [(DBEnvelope demo_envelope, demo_caller_signature, 1000),
       (DBEnvelope demo_envelope, demo_caller_signature, 2000)]) \<noteq>
   map submission_key [(DBEnvelope demo_envelope, demo_caller_signature, 1000),
       (DBEnvelope demo_envelope, demo_caller_signature, 2000)]"
proof -
  have "0 \<le> sint (rs_window_ms newNonceReplayStore)"
    by (simp add: newNonceReplayStore_def DefaultDedupWindowMs_def)
  from admitted_once_within_window [OF this, of "[(DBEnvelope demo_envelope, demo_caller_signature, 1000),
       (DBEnvelope demo_envelope, demo_caller_signature, 2000)]" demo_platform "Some demo_resolver" "Some demo_policy"]
  show ?thesis
    by (auto simp: submission_key_def clock_order_def newNonceReplayStore_def DefaultDedupWindowMs_def)
qed

text \<open>The replay key is the spelling the request carries, the signature covers its
  canonical form.  An admitted request sent again with another spelling of the same
  descriptor reference, at the same instant and under the same signature, has the same
  signed bytes and is admitted once more.\<close>

theorem respelled_replay_admitted:
  assumes "verifyDescriptorBoundAdmission P (DBEnvelope x) sig resolver (Some s) (Some prov) now = (Some s', Ok adm)"
    and "CanonicalAbilityDescriptorRef a = CanonicalAbilityDescriptorRef (en_ability x)"
    and "a \<noteq> en_ability x" and "rs_seen s (replay_key_of (x\<lparr>en_ability := a\<rparr>)) = None"
    and "is_ok (prov (DBEnvelope (x\<lparr>en_ability := a\<rparr>)))"
  shows "canonicalDescriptorBoundInvocationBytes (DBEnvelope (x\<lparr>en_ability := a\<rparr>))
      = canonicalDescriptorBoundInvocationBytes (DBEnvelope x)
    \<and> is_ok (snd (verifyDescriptorBoundAdmission P (DBEnvelope (x\<lparr>en_ability := a\<rparr>)) sig resolver
        (Some s') (Some prov) now))"
proof -
  let ?y = "x\<lparr>en_ability := a\<rparr>"
  have bytes: "canonicalDescriptorBoundInvocationBytes (DBEnvelope ?y)
      = canonicalDescriptorBoundInvocationBytes (DBEnvelope x)"
    using assms(2) by (simp add: canonicalDescriptorBoundInvocationBytes_def)
  from assms(1) have checks: "is_ok (admission_checks P (DBEnvelope x) sig resolver (Some s) (Some prov))"
    and seen: "s' = s\<lparr>rs_seen := (prune (now - rs_window_ms s) (rs_seen s))(replay_key_of x \<mapsto> now)\<rparr>"
    by (auto simp: admission_Ok is_ok_iff checkAndRecord_Ok)
  have "replay_key_of ?y \<noteq> replay_key_of x"
    using assms(3) by (simp add: replay_key_of_def)
  then have "checkAndRecord s' (replay_key_of ?y) now = (s'\<lparr>rs_seen := (prune (now - rs_window_ms s')
      (rs_seen s'))(replay_key_of ?y \<mapsto> now)\<rparr>, Ok ())"
    using assms(4) seen by (auto simp: checkAndRecord_Ok prune_def)
  moreover have "a \<noteq> []"
    using checks assms(2) empty_ability_refused
    by (auto simp: is_ok_iff admission_checks_Ok canonicalDescriptorBoundInvocationBytes_def Let_def
        bindR_Ok_iff)
  then have "is_ok (admission_checks P (DBEnvelope ?y) sig resolver (Some s') (Some prov))"
    using checks bytes assms(5)
    by (auto simp: is_ok_iff admission_checks_Ok validateEnvelope_Ok verifyDescriptorBoundInvocationSignature_Ok)
  ultimately show ?thesis
    using bytes by (simp add: admission_is_ok)
qed

theorem respelled_replay_admitted_witness:
  "\<exists>s' adm. verifyDescriptorBoundAdmission demo_platform (DBEnvelope demo_envelope) demo_caller_signature
      (Some demo_resolver) (Some newNonceReplayStore) (Some demo_policy) 1000 = (Some s', Ok adm)
    \<and> is_ok (snd (verifyDescriptorBoundAdmission demo_platform
        (DBEnvelope (demo_envelope\<lparr>en_ability := demo_ability_upper\<rparr>)) demo_caller_signature
        (Some demo_resolver) (Some s') (Some demo_policy) 1000))"
proof -
  obtain s' adm where run: "verifyDescriptorBoundAdmission demo_platform (DBEnvelope demo_envelope)
      demo_caller_signature (Some demo_resolver) (Some newNonceReplayStore) (Some demo_policy) 1000
      = (Some s', Ok adm)"
    using demo_admitted [of newNonceReplayStore 1000] by (auto simp: newNonceReplayStore_def)
  from respelled_replay_admitted [OF run, of demo_ability_upper] show ?thesis
    using run demo_ability_canonical demo_ability_upper_canonical demo_abilities_differ
    by (simp add: demo_envelope_def newNonceReplayStore_def demo_policy_def)
qed

text \<open>Replacing the window forgets the nonces: after \<open>withWindowMs\<close>, whatever the new
  window, every request that passes the other checks is admitted, one that was admitted
  a moment before included.\<close>

theorem window_change_forgets:
  assumes "is_ok (admission_checks P env sig resolver (Some s) provider)"
  shows "is_ok (snd (verifyDescriptorBoundAdmission P env sig resolver (Some (withWindowMs s w)) provider now))"
proof -
  have "checkAndRecord (withWindowMs s w) k now
      = ((withWindowMs s w)\<lparr>rs_seen := (prune (now - w) Map.empty)(k \<mapsto> now)\<rparr>, Ok ())" for k
    by (simp add: checkAndRecord_Ok withWindowMs_def)
  then show ?thesis
    using assms admission_checks_any_store by (simp add: admission_is_ok, metis)
qed

theorem window_change_forgets_witness:
  "is_ok (snd (verifyDescriptorBoundAdmission demo_platform (DBEnvelope demo_envelope) demo_caller_signature
     (Some demo_resolver) (Some (withWindowMs (newNonceReplayStore\<lparr>rs_seen := [demo_key_seen \<mapsto> 1000]\<rparr>) 86400000))
     (Some demo_policy) 1001))"
  by (rule window_change_forgets) (simp add: demo_checks)

end
