(* ===== verification/Inbox.thy ===== *)
theory Inbox
  imports ErrorModel
begin

text \<open>
  The inbound message queue of an invocation: \<open>axon/invocation/messaging.go\<close> and
  \<open>inbox_input.go\<close>.

  \<open>Deliver\<close> holds the inbox mutex from its first line to the return, except for the
  deferred \<open>finish\<close> of the input gate; receivers and \<open>CloseInput\<close> run beside it.  The
  operation is therefore split into the three pieces between which others can act: the
  decision and booking (\<open>deliver_begin\<close>), the send on the channel (\<open>deliver_publish\<close>)
  and the release of the gate (\<open>deliver_finish\<close>).  \<open>Deliver\<close> composes them and
  \<open>inbox_step\<close> interleaves them.

  Time is the integer number of nanoseconds since the epoch; the 64-bit sequence counter
  wraps as in the code.  The observers are run by the caller of the model: the message to
  hand to them is the one \<open>deliver_begin\<close> books.
\<close>

section \<open>State\<close>

record inbound_message =
  im_id :: string
  im_sequence :: u64
  im_payload :: bytes
  im_content_type :: string
  im_accepted_at_ms :: i64

record message_ack =
  ma_id :: string
  ma_sequence :: u64
  ma_deduplicated :: bool
  ma_depth :: nat

datatype input_phase = inboxInputOpen | inboxInputClosing | inboxInputClosed

record inbox_input =
  ii_phase :: input_phase
  ii_publishing :: int
  ii_drained :: bool

record seen_entry =
  se_sequence :: u64
  se_accepted_at :: int

record inbox =
  ib_input :: inbox_input
  ib_capacity :: int
  ib_overflow_reason :: string
  ib_dedup_window :: int
  ib_seen :: "string \<rightharpoonup> seen_entry"
  ib_next :: u64
  ib_queue :: "inbound_message list"

definition canonicalBidiCapacity :: int where "canonicalBidiCapacity = 64"

definition DefaultInboxCapacity :: int where "DefaultInboxCapacity = canonicalBidiCapacity"

definition DefaultDedupWindow :: int where
  "DefaultDedupWindow = 7 * 24 * 3600 * 1000000000"

definition newInboxInput :: inbox_input where
  "newInboxInput = \<lparr>ii_phase = inboxInputOpen, ii_publishing = 0, ii_drained = False\<rparr>"

definition newMessageInbox :: "int \<Rightarrow> string \<Rightarrow> inbox" where
  "newMessageInbox capacity overflowReason =
     \<lparr>ib_input = newInboxInput,
      ib_capacity = (if capacity \<le> 0 then DefaultInboxCapacity else capacity),
      ib_overflow_reason = overflowReason, ib_dedup_window = DefaultDedupWindow,
      ib_seen = Map.empty, ib_next = 0, ib_queue = []\<rparr>"

definition NewMessageInbox :: "int \<Rightarrow> inbox" where
  "NewMessageInbox capacity = newMessageInbox capacity ''inbox_full''"

section \<open>The input gate\<close>

definition finishClose :: "inbox_input \<Rightarrow> inbox_input" where
  "finishClose i =
     (if ii_phase i = inboxInputClosing \<and> ii_publishing i = 0
      then i\<lparr>ii_phase := inboxInputClosed, ii_drained := True\<rparr> else i)"

definition input_begin :: "inbox_input \<Rightarrow> inbox_input \<times> bool" where
  "input_begin i =
     (if ii_phase i \<noteq> inboxInputOpen then (i, False)
      else (i\<lparr>ii_publishing := ii_publishing i + 1\<rparr>, True))"

definition input_finish :: "inbox_input \<Rightarrow> inbox_input" where
  "input_finish i = finishClose (i\<lparr>ii_publishing := ii_publishing i - 1\<rparr>)"

definition input_close :: "inbox_input \<Rightarrow> inbox_input" where
  "input_close i =
     (if ii_phase i \<noteq> inboxInputOpen then i else finishClose (i\<lparr>ii_phase := inboxInputClosing\<rparr>))"

definition input_closed :: "inbox_input \<Rightarrow> bool" where
  "input_closed i = (ii_phase i \<noteq> inboxInputOpen)"

section \<open>Operations\<close>

definition Depth :: "inbox \<Rightarrow> nat" where
  "Depth s = length (ib_queue s)"

definition sweep :: "int \<Rightarrow> int \<Rightarrow> (string \<rightharpoonup> seen_entry) \<Rightarrow> (string \<rightharpoonup> seen_entry)" where
  "sweep now dedupWindow seen = (\<lambda>mid. case seen mid of
       None \<Rightarrow> None
     | Some e \<Rightarrow> if now - se_accepted_at e > dedupWindow then None else Some e)"

definition hex_digit :: "nat \<Rightarrow> char" where
  "hex_digit n = ''0123456789abcdef'' ! n"

definition hex_encode :: "bytes \<Rightarrow> string" where
  "hex_encode bs = concat (map (\<lambda>b. [hex_digit (unat b div 16), hex_digit (unat b mod 16)]) bs)"

text \<open>What \<open>Deliver\<close> has decided when it reaches the observers: to answer at once, to
  refuse, or to publish the booked message.\<close>

datatype delivery =
    Duplicate message_ack
  | Refused axon_error
  | Overflow axon_error
  | Booked inbound_message

definition inbox_full_error :: "inbox \<Rightarrow> axon_error" where
  "inbox_full_error s = WithRetryAfterMs (ErrResourceExhausted (ib_overflow_reason s)) 100"

definition deliver_begin ::
  "inbox \<Rightarrow> int \<Rightarrow> bytes \<Rightarrow> bytes \<Rightarrow> string \<Rightarrow> string \<Rightarrow> inbox \<times> delivery" where
  "deliver_begin s now rnd payload messageID contentType =
     (let seen = sweep now (ib_dedup_window s) (ib_seen s);
          s1 = s\<lparr>ib_seen := seen\<rparr>
      in case (if messageID \<noteq> [] then seen messageID else None) of
           Some prior \<Rightarrow>
             (s1, Duplicate \<lparr>ma_id = messageID, ma_sequence = se_sequence prior,
                             ma_deduplicated = True, ma_depth = Depth s1\<rparr>)
         | None \<Rightarrow>
             (case input_begin (ib_input s1) of
                (i, False) \<Rightarrow> (s1, Refused (ErrUnavailable ''inbox_closed''))
              | (i, True) \<Rightarrow>
                  let s2 = s1\<lparr>ib_input := i\<rparr>;
                      assigned = (if messageID = [] then ''msg_'' @ hex_encode rnd else messageID)
                  in if int (length (ib_queue s2)) \<ge> ib_capacity s2
                     then (s2, Overflow (inbox_full_error s2))
                     else let sequ = ib_next s2;
                              msg = \<lparr>im_id = assigned, im_sequence = sequ, im_payload = payload,
                                im_content_type = contentType,
                                im_accepted_at_ms = word_of_int (now div 1000000)\<rparr>
                          in (s2\<lparr>ib_next := sequ + 1,
                                 ib_seen := seen(assigned \<mapsto> \<lparr>se_sequence = sequ, se_accepted_at = now\<rparr>)\<rparr>,
                              Booked msg)))"

definition deliver_publish :: "inbox \<Rightarrow> inbound_message \<Rightarrow> inbox \<times> message_ack" where
  "deliver_publish s msg =
     (let s1 = s\<lparr>ib_queue := ib_queue s @ [msg]\<rparr>
      in (s1, \<lparr>ma_id = im_id msg, ma_sequence = im_sequence msg, ma_deduplicated = False,
               ma_depth = Depth s1\<rparr>))"

definition deliver_finish :: "inbox \<Rightarrow> inbox" where
  "deliver_finish s = s\<lparr>ib_input := input_finish (ib_input s)\<rparr>"

definition Deliver ::
  "inbox \<Rightarrow> int \<Rightarrow> bytes \<Rightarrow> bytes \<Rightarrow> string \<Rightarrow> string \<Rightarrow> inbox \<times> message_ack result" where
  "Deliver s now rnd payload messageID contentType =
     (case deliver_begin s now rnd payload messageID contentType of
        (s1, Duplicate ack) \<Rightarrow> (s1, Ok ack)
      | (s1, Refused e) \<Rightarrow> (s1, Fail (AxonErr e))
      | (s1, Overflow e) \<Rightarrow> (deliver_finish s1, Fail (AxonErr e))
      | (s1, Booked msg) \<Rightarrow>
          (case deliver_publish s1 msg of (s2, ack) \<Rightarrow> (deliver_finish s2, Ok ack)))"

definition CloseInput :: "inbox \<Rightarrow> inbox" where
  "CloseInput s = s\<lparr>ib_input := input_close (ib_input s)\<rparr>"

definition InputClosed :: "inbox \<Rightarrow> bool" where
  "InputClosed s = input_closed (ib_input s)"

text \<open>\<open>Recv\<close> selects among the ready cases.  \<open>interrupted\<close> says that the context is done or
  the timer has fired.  The list holds every outcome the select allows; it is empty when
  the call blocks.\<close>

definition Recv :: "inbox \<Rightarrow> bool \<Rightarrow> (inbox \<times> inbound_message option) list" where
  "Recv s interrupted =
     (case ib_queue s of
        m # rest \<Rightarrow> [(s\<lparr>ib_queue := rest\<rparr>, Some m)]
      | [] \<Rightarrow> if ii_drained (ib_input s) then [(s, None)] else [])
     @ (if interrupted then [(s, None)] else [])"

section \<open>Interleaving\<close>

text \<open>The inbox with the deliveries in progress: \<open>ix_held\<close> is the booked message of the
  producer that holds the mutex, \<open>ix_finishing\<close> counts the producers that have released
  the mutex and not yet the gate; \<open>ix_received\<close> records what receivers got.\<close>

record inbox_system =
  ix_inbox :: inbox
  ix_held :: "inbound_message option"
  ix_finishing :: nat
  ix_received :: "inbound_message list"

definition inbox_initial :: "inbox_system \<Rightarrow> bool" where
  "inbox_initial x = (\<exists>cap reason. x = \<lparr>ix_inbox = newMessageInbox cap reason, ix_held = None,
     ix_finishing = 0, ix_received = []\<rparr>)"

inductive inbox_step :: "inbox_system \<Rightarrow> inbox_system \<Rightarrow> bool" where
  answer: "\<lbrakk>ix_held x = None; deliver_begin (ix_inbox x) now rnd payload mid ct = (s', d);
     case d of Duplicate a \<Rightarrow> True | Refused e \<Rightarrow> True | Overflow e \<Rightarrow> False | Booked m \<Rightarrow> False\<rbrakk>
     \<Longrightarrow> inbox_step x (x\<lparr>ix_inbox := s'\<rparr>)"
| overflow: "\<lbrakk>ix_held x = None; deliver_begin (ix_inbox x) now rnd payload mid ct = (s', Overflow e)\<rbrakk>
     \<Longrightarrow> inbox_step x (x\<lparr>ix_inbox := s', ix_finishing := ix_finishing x + 1\<rparr>)"
| book: "\<lbrakk>ix_held x = None; deliver_begin (ix_inbox x) now rnd payload mid ct = (s', Booked m)\<rbrakk>
     \<Longrightarrow> inbox_step x (x\<lparr>ix_inbox := s', ix_held := Some m\<rparr>)"
| publish: "\<lbrakk>ix_held x = Some m; deliver_publish (ix_inbox x) m = (s', ack)\<rbrakk>
     \<Longrightarrow> inbox_step x (x\<lparr>ix_inbox := s', ix_held := None, ix_finishing := ix_finishing x + 1\<rparr>)"
| finish: "\<lbrakk>ix_finishing x = Suc n\<rbrakk>
     \<Longrightarrow> inbox_step x (x\<lparr>ix_inbox := deliver_finish (ix_inbox x), ix_finishing := n\<rparr>)"
| close: "inbox_step x (x\<lparr>ix_inbox := CloseInput (ix_inbox x)\<rparr>)"
| receive: "\<lbrakk>(s', r) \<in> set (Recv (ix_inbox x) interrupted)\<rbrakk>
     \<Longrightarrow> inbox_step x (x\<lparr>ix_inbox := s',
           ix_received := ix_received x @ (case r of None \<Rightarrow> [] | Some m \<Rightarrow> [m])\<rparr>)"

inductive_cases inbox_stepE: "inbox_step x y"

section \<open>The invariant\<close>

text \<open>Everything booked so far, in order: received, queued, and in a producer's hands.\<close>

definition booked :: "inbox_system \<Rightarrow> inbound_message list" where
  "booked x = ix_received x @ ib_queue (ix_inbox x)
     @ (case ix_held x of None \<Rightarrow> [] | Some m \<Rightarrow> [m])"

definition gate_inv :: "inbox_system \<Rightarrow> bool" where
  "gate_inv x =
     (let i = ib_input (ix_inbox x) in
      ii_publishing i = int (ix_finishing x) + (if ix_held x = None then 0 else 1)
      \<and> ii_drained i = (ii_phase i = inboxInputClosed)
      \<and> (ii_phase i = inboxInputClosed \<longrightarrow> ii_publishing i = 0)
      \<and> (ii_phase i = inboxInputClosing \<longrightarrow> ii_publishing i \<noteq> 0))"

definition queue_inv :: "inbox_system \<Rightarrow> bool" where
  "queue_inv x =
     (let s = ix_inbox x in
      0 < ib_capacity s
      \<and> int (length (ib_queue s)) + (if ix_held x = None then 0 else 1) \<le> ib_capacity s
      \<and> map im_sequence (booked x) = map word_of_nat [0..<length (booked x)]
      \<and> ib_next s = word_of_nat (length (booked x)))"

definition inbox_inv :: "inbox_system \<Rightarrow> bool" where
  "inbox_inv x = (gate_inv x \<and> queue_inv x)"

lemmas gate_defs = input_begin_def input_finish_def input_close_def finishClose_def
  deliver_finish_def CloseInput_def

lemmas inbox_inv_defs = inbox_inv_def gate_inv_def queue_inv_def booked_def Let_def

lemma deliver_begin_cases:
  assumes "deliver_begin s now rnd payload mid ct = (s', d)"
  obtains (duplicate) ack seen where "d = Duplicate ack" "s' = s\<lparr>ib_seen := seen\<rparr>"
  | (refused) e seen where "d = Refused e" "s' = s\<lparr>ib_seen := seen\<rparr>"
      "ii_phase (ib_input s) \<noteq> inboxInputOpen"
  | (overflow) seen where "d = Overflow (inbox_full_error s)" "ii_phase (ib_input s) = inboxInputOpen"
      "ib_capacity s \<le> int (length (ib_queue s))"
      "s' = s\<lparr>ib_seen := seen, ib_input := (ib_input s)\<lparr>ii_publishing := ii_publishing (ib_input s) + 1\<rparr>\<rparr>"
  | (booked) msg seen where "d = Booked msg" "ii_phase (ib_input s) = inboxInputOpen"
      "int (length (ib_queue s)) < ib_capacity s" "im_sequence msg = ib_next s"
      "s' = s\<lparr>ib_input := (ib_input s)\<lparr>ii_publishing := ii_publishing (ib_input s) + 1\<rparr>,
         ib_next := ib_next s + 1, ib_seen := seen\<rparr>"
proof (cases "if mid \<noteq> [] then sweep now (ib_dedup_window s) (ib_seen s) mid else None")
  case (Some prior)
  with assms that(1) show ?thesis by (auto simp: deliver_begin_def Let_def)
next
  case None
  with assms that(2-4) show ?thesis
    by (cases "ii_phase (ib_input s) = inboxInputOpen")
      (auto simp: deliver_begin_def Let_def input_begin_def inbox_full_error_def split: if_splits)
qed

lemma Recv_cases:
  assumes "(s', r) \<in> set (Recv s interrupted)"
  obtains (message) m rest where "r = Some m" "ib_queue s = m # rest" "s' = s\<lparr>ib_queue := rest\<rparr>"
  | (eof) "r = None" "s' = s" "ii_drained (ib_input s)" "ib_queue s = []"
  | (interrupted) "r = None" "s' = s" "interrupted"
  using assms by (auto simp: Recv_def split: list.splits if_splits)

lemma inbox_inv_initially: "inbox_initial x \<Longrightarrow> inbox_inv x"
  by (auto simp: inbox_initial_def newMessageInbox_def newInboxInput_def inbox_inv_defs
      DefaultInboxCapacity_def canonicalBidiCapacity_def)

lemma inbox_inv_kept:
  assumes "inbox_step x y" and "inbox_inv x"
  shows "inbox_inv y"
  using assms(1)
proof cases
  case (answer now rnd payload mid ct s' d)
  from answer(3,4) assms(2) answer(1,2) show ?thesis
    by (cases rule: deliver_begin_cases) (auto simp: inbox_inv_defs)
next
  case (overflow now rnd payload mid ct s' e)
  from overflow(3) assms(2) overflow(1,2) show ?thesis
    by (cases rule: deliver_begin_cases) (auto simp: inbox_inv_defs)
next
  case (book now rnd payload mid ct s' m)
  from book(3) assms(2) book(1,2) show ?thesis
    by (cases rule: deliver_begin_cases) (auto simp: inbox_inv_defs)
next
  case (publish m s' ack)
  with assms(2) show ?thesis
    by (auto simp: inbox_inv_defs deliver_publish_def)
next
  case (finish n)
  with assms(2) show ?thesis
    by (auto simp: inbox_inv_defs gate_defs)
next
  case close
  with assms(2) show ?thesis
    by (auto simp: inbox_inv_defs gate_defs)
next
  case (receive s' r interrupted)
  from receive(2) assms(2) receive(1) show ?thesis
    by (cases rule: Recv_cases) (auto simp: inbox_inv_defs split: if_splits)
qed

interpretation inbox_sys: transition_system inbox_initial inbox_step inbox_inv
  by unfold_locales (auto intro: inbox_inv_initially inbox_inv_kept)

text \<open>What has been booked only grows, and stops growing when the input is closed.\<close>

definition inbox_grows :: "inbox_system \<Rightarrow> inbox_system \<Rightarrow> bool" where
  "inbox_grows x y =
     ((\<exists>more. booked y = booked x @ more) \<and> (\<exists>more. ix_received y = ix_received x @ more)
      \<and> (ii_phase (ib_input (ix_inbox x)) \<noteq> inboxInputOpen \<longrightarrow>
           booked y = booked x \<and> ii_phase (ib_input (ix_inbox y)) \<noteq> inboxInputOpen))"

lemma inbox_grows_refl: "inbox_grows x x"
  by (simp add: inbox_grows_def)

lemma inbox_grows_trans: "inbox_grows x y \<Longrightarrow> inbox_grows y z \<Longrightarrow> inbox_grows x z"
  by (auto simp: inbox_grows_def)

lemma inbox_step_grows:
  assumes "inbox_step x y"
  shows "inbox_grows x y"
  using assms
proof cases
  case (answer now rnd payload mid ct s' d)
  from answer(3,4) answer(1,2) show ?thesis
    by (cases rule: deliver_begin_cases) (auto simp: inbox_grows_def booked_def)
next
  case (overflow now rnd payload mid ct s' e)
  from overflow(3) overflow(1,2) show ?thesis
    by (cases rule: deliver_begin_cases) (auto simp: inbox_grows_def booked_def)
next
  case (book now rnd payload mid ct s' m)
  from book(3) book(1,2) show ?thesis
    by (cases rule: deliver_begin_cases) (auto simp: inbox_grows_def booked_def)
next
  case (publish m s' ack)
  then show ?thesis
    by (auto simp: inbox_grows_def booked_def deliver_publish_def Let_def)
next
  case (finish n)
  then show ?thesis
    by (auto simp: inbox_grows_def booked_def gate_defs)
next
  case close
  then show ?thesis
    by (auto simp: inbox_grows_def booked_def gate_defs)
next
  case (receive s' r interrupted)
  from receive(2) receive(1) show ?thesis
    by (cases rule: Recv_cases) (auto simp: inbox_grows_def booked_def)
qed

lemma inbox_steps_grow:
  assumes "inbox_step\<^sup>*\<^sup>* x y"
  shows "inbox_grows x y"
  using assms by (induction rule: rtranclp_induct)
    (auto intro: inbox_grows_refl inbox_grows_trans inbox_step_grows)

section \<open>Redelivery\<close>

lemma deliver_begin_seen:
  assumes "ib_seen s mid = Some e" and "mid \<noteq> []" and "now - se_accepted_at e \<le> ib_dedup_window s"
  shows "deliver_begin s now rnd payload mid ct =
    (s\<lparr>ib_seen := sweep now (ib_dedup_window s) (ib_seen s)\<rparr>,
     Duplicate \<lparr>ma_id = mid, ma_sequence = se_sequence e, ma_deduplicated = True, ma_depth = Depth s\<rparr>)"
  using assms by (simp add: deliver_begin_def Let_def sweep_def Depth_def)

lemma Deliver_seen:
  assumes "Deliver s now rnd payload mid ct = (s', Ok ack)" and "mid \<noteq> []" and "\<not> ma_deduplicated ack"
  shows "ib_seen s' mid = Some \<lparr>se_sequence = ma_sequence ack, se_accepted_at = now\<rparr>
    \<and> ib_dedup_window s' = ib_dedup_window s"
proof (cases "sweep now (ib_dedup_window s) (ib_seen s) mid")
  case None
  with assms show ?thesis
    by (auto simp: Deliver_def deliver_begin_def Let_def input_begin_def deliver_publish_def
        deliver_finish_def split: if_splits)
next
  case (Some e)
  with assms show ?thesis by (auto simp: Deliver_def deliver_begin_def Let_def)
qed

section \<open>A sample run\<close>

definition demo_inbox :: inbox_system where
  "demo_inbox = \<lparr>ix_inbox = newMessageInbox 2 ''inbox_full'', ix_held = None, ix_finishing = 0,
     ix_received = []\<rparr>"

definition demo_message :: inbound_message where
  "demo_message = \<lparr>im_id = ''m'', im_sequence = 0, im_payload = [1], im_content_type = [],
     im_accepted_at_ms = 1\<rparr>"

definition demo_booked :: inbox where
  "demo_booked = \<lparr>ib_input = \<lparr>ii_phase = inboxInputOpen, ii_publishing = 1, ii_drained = False\<rparr>,
     ib_capacity = 2, ib_overflow_reason = ''inbox_full'', ib_dedup_window = DefaultDedupWindow,
     ib_seen = [''m'' \<mapsto> \<lparr>se_sequence = 0, se_accepted_at = 1000000\<rparr>], ib_next = 1, ib_queue = []\<rparr>"

text \<open>Booked, closed while in the producer's hands, published, released, received.\<close>

definition demo_end :: inbox_system where
  "demo_end = \<lparr>ix_inbox = demo_booked\<lparr>ib_input := \<lparr>ii_phase = inboxInputClosed, ii_publishing = 0, ii_drained = True\<rparr>\<rparr>,
     ix_held = None, ix_finishing = 0, ix_received = [demo_message]\<rparr>"

lemma demo_begin:
  "deliver_begin (newMessageInbox 2 ''inbox_full'') 1000000 [] [1] ''m'' [] = (demo_booked, Booked demo_message)"
  by (simp add: deliver_begin_def newMessageInbox_def newInboxInput_def sweep_def input_begin_def
      demo_booked_def demo_message_def Let_def)

lemma demo_inbox_run: "inbox_step\<^sup>*\<^sup>* demo_inbox demo_end"
proof -
  let ?x1 = "demo_inbox\<lparr>ix_inbox := demo_booked, ix_held := Some demo_message\<rparr>"
  let ?x2 = "?x1\<lparr>ix_inbox := CloseInput (ix_inbox ?x1)\<rparr>"
  let ?x3 = "?x2\<lparr>ix_inbox := fst (deliver_publish (ix_inbox ?x2) demo_message), ix_held := None, ix_finishing := 1\<rparr>"
  let ?x4 = "?x3\<lparr>ix_inbox := deliver_finish (ix_inbox ?x3), ix_finishing := 0\<rparr>"
  have "inbox_step demo_inbox ?x1"
    using inbox_step.book [of demo_inbox 1000000 "[]" "[1]" "''m''" "[]" demo_booked demo_message] demo_begin
    by (simp add: demo_inbox_def)
  moreover have "inbox_step ?x1 ?x2" by (rule inbox_step.close)
  moreover have "inbox_step ?x2 ?x3"
    using inbox_step.publish [of ?x2 demo_message] by (simp add: deliver_publish_def demo_inbox_def Let_def)
  moreover have "inbox_step ?x3 ?x4"
    using inbox_step.finish [of ?x3 0] by simp
  moreover have "inbox_step ?x4 demo_end"
    using inbox_step.receive [of "ix_inbox demo_end" "Some demo_message" ?x4 False]
    by (simp add: Recv_def deliver_publish_def Let_def gate_defs demo_inbox_def demo_end_def demo_booked_def)
  ultimately show ?thesis
    by (meson converse_rtranclp_into_rtranclp rtranclp.rtrancl_refl)
qed

lemma demo_inbox_initial: "inbox_initial demo_inbox"
  by (auto simp: inbox_initial_def demo_inbox_def)

section \<open>Properties\<close>

text \<open>C11: under every interleaving of producers, receivers and closing, the inbox is first in,
  first out and loses nothing: the messages received, then those queued, then the one in
  a producer's hands carry the sequence numbers 0, 1, 2 and so on, and the queue never
  exceeds its capacity, so the send on the channel never blocks.\<close>

theorem inbox_fifo_bounded:
  assumes "inbox_initial x" and "inbox_step\<^sup>*\<^sup>* x y"
  shows "map im_sequence (booked y) = map word_of_nat [0..<length (booked y)]
    \<and> int (length (ib_queue (ix_inbox y))) \<le> ib_capacity (ix_inbox y)
    \<and> (ix_held y \<noteq> None \<longrightarrow> int (length (ib_queue (ix_inbox y))) < ib_capacity (ix_inbox y))"
  using inbox_sys.reachable_inv [OF assms] by (auto simp: inbox_inv_def queue_inv_def Let_def split: if_splits)

theorem inbox_fifo_bounded_witness:
  "inbox_initial demo_inbox \<and> inbox_step\<^sup>*\<^sup>* demo_inbox demo_end
   \<and> map im_sequence (booked demo_end) = [0]"
  using inbox_fifo_bounded [OF demo_inbox_initial demo_inbox_run] demo_inbox_initial demo_inbox_run
  by (simp add: booked_def demo_end_def demo_booked_def)

text \<open>End of input is published only when every accepted message is visible, and is
  final: when a receiver may be told that the input is drained, no producer is inside
  \<open>Deliver\<close>, and once the queue is empty everything booked has been received and
  nothing will ever be booked or received again.\<close>

theorem inbox_eof_final:
  assumes "inbox_initial x" and "inbox_step\<^sup>*\<^sup>* x y" and "ii_drained (ib_input (ix_inbox y))"
    and "inbox_step\<^sup>*\<^sup>* y z"
  shows "ix_held y = None \<and> ix_finishing y = 0 \<and> booked z = booked y
    \<and> (ib_queue (ix_inbox y) = [] \<longrightarrow> ix_received z = booked y)"
proof -
  have y: "inbox_inv y" and z: "inbox_inv z"
    using assms inbox_sys.reachable_inv inbox_sys.steps_inv by blast+
  have held: "ix_held y = None \<and> ix_finishing y = 0"
    using y assms(3) by (auto simp: inbox_inv_def gate_inv_def Let_def split: if_splits)
  have "booked z = booked y" and "\<exists>more. ix_received z = ix_received y @ more"
    using inbox_steps_grow [OF assms(4)] y assms(3)
    by (auto simp: inbox_grows_def inbox_inv_def gate_inv_def Let_def)
  with held show ?thesis by (auto simp: booked_def)
qed

theorem inbox_eof_final_witness:
  "ii_drained (ib_input (ix_inbox demo_end)) \<and> ix_received demo_end = booked demo_end
   \<and> booked demo_end = [demo_message]"
  using inbox_eof_final [OF demo_inbox_initial demo_inbox_run _ rtranclp.rtrancl_refl]
  by (simp add: booked_def demo_end_def demo_booked_def)

text \<open>Delivery is idempotent: after a message with a caller-chosen identifier has been
  accepted, delivering the identifier again inside the dedup window answers with the
  same sequence number, books nothing and leaves the queue and the gate alone, whatever
  receivers and closing have done in between.\<close>

theorem redelivery_idempotent:
  assumes "Deliver s now rnd payload mid ct = (s1, Ok ack)" and "mid \<noteq> []"
    and "\<not> ma_deduplicated ack"
    and "ib_seen s2 = ib_seen s1" and "ib_dedup_window s2 = ib_dedup_window s1"
    and "later - now \<le> ib_dedup_window s"
  shows "Deliver s2 later rnd' payload' mid ct' =
    (s2\<lparr>ib_seen := sweep later (ib_dedup_window s2) (ib_seen s2)\<rparr>,
     Ok \<lparr>ma_id = mid, ma_sequence = ma_sequence ack, ma_deduplicated = True, ma_depth = Depth s2\<rparr>)"
  using deliver_begin_seen [of s2 mid _ later] Deliver_seen [OF assms(1-3)] assms
  by (simp add: Deliver_def)

theorem redelivery_idempotent_witness:
  "\<exists>s1 ack. Deliver (newMessageInbox 2 ''inbox_full'') 1000000 [] [1] ''m'' [] = (s1, Ok ack)
    \<and> snd (Deliver (CloseInput s1) 2000000 [] [9] ''m'' [])
        = Ok \<lparr>ma_id = ''m'', ma_sequence = ma_sequence ack, ma_deduplicated = True, ma_depth = 1\<rparr>"
proof -
  obtain s1 ack where run: "Deliver (newMessageInbox 2 ''inbox_full'') 1000000 [] [1] ''m'' [] = (s1, Ok ack)"
      and fresh: "\<not> ma_deduplicated ack" and depth: "Depth s1 = 1"
    by (simp add: Deliver_def demo_begin deliver_publish_def Let_def deliver_finish_def demo_booked_def Depth_def)
  from redelivery_idempotent [OF run _ fresh, of "CloseInput s1" 2000000] run depth show ?thesis
    by (simp add: newMessageInbox_def DefaultDedupWindow_def CloseInput_def Depth_def)
qed

end
