(* ===== verification/ReceiptChain.thy ===== *)
theory ReceiptChain
  imports Admission
begin

text \<open>
  Receipt records, their verification, and the hash chain of one invocation:
  \<open>axon/invocation/audit.go\<close> and the chain state of \<open>axon/invocation/receipt_provider.go\<close>
  (\<open>receiptChainState\<close> with its append reservation).  Hashing a record encodes it, and the
  encoder panics on a record without a valid authority binding or proof facts; those
  panics are the \<open>Panic\<close> results here.
\<close>

section \<open>Records\<close>

record receipt_record =
  rc_index :: u64
  rc_invocation_id :: string
  rc_receipt_type :: string
  rc_state :: string
  rc_timestamp :: i64
  rc_prev_hash :: hash32
  rc_self_hash :: hash32
  rc_payload :: bytes
  rc_content_type :: string
  rc_cleanup_complete :: bool
  rc_reason :: string
  rc_child :: string
  rc_binding :: axiom_binding
  rc_usage :: invocation_usage
  rc_signature :: callee_signature

definition receiptBody :: "receipt_record \<Rightarrow> receipt_body" where
  "receiptBody r =
     (let b = rc_binding r in
      \<lparr>rb_index = rc_index r, rb_invocation_id = rc_invocation_id r,
       rb_receipt_type = rc_receipt_type r, rb_state = rc_state r, rb_timestamp = rc_timestamp r,
       rb_prev_hash = rc_prev_hash r, rb_payload_digest = xb_payload_digest b,
       rb_reason = rc_reason r, rb_cleanup_complete = rc_cleanup_complete r,
       rb_caller = xb_caller b, rb_callee = xb_callee b, rb_subject = xb_subject b,
       rb_nonce = xb_nonce b, rb_causal = xb_causal b, rb_ability = xb_ability b,
       rb_authority = xb_authority b, rb_usage = rc_usage r, rb_proof_facts = xb_proof_facts b\<rparr>)"

definition canonicalSerialise :: "platform \<Rightarrow> receipt_record \<Rightarrow> bytes result" where
  "canonicalSerialise P r = CanonicalReceiptBytesWithHosted P (receiptBody r) (xb_hosted (rc_binding r))"

definition computeReceiptHash :: "platform \<Rightarrow> receipt_record \<Rightarrow> hash32 result" where
  "computeReceiptHash P r = bindR (canonicalSerialise P r) (\<lambda>b. Ok (pf_sha256 P b))"

definition empty_signature :: callee_signature where
  "empty_signature = \<lparr>ce_algorithm = [], ce_signature = [], ce_key_id_hint = []\<rparr>"

text \<open>\<open>newReceiptRecord\<close>: the argument is the record without hash and signature.\<close>

definition newReceiptRecord :: "platform \<Rightarrow> receipt_record \<Rightarrow> receipt_record result" where
  "newReceiptRecord P input =
     (let r = input\<lparr>rc_self_hash := 0, rc_signature := empty_signature\<rparr>
      in bindR (computeReceiptHash P r) (\<lambda>h. Ok (r\<lparr>rc_self_hash := h\<rparr>)))"

datatype signed_receipt = SignedReceipt (sr_record: receipt_record)

datatype unverified_receipt = UnverifiedReceipt (ur_record: receipt_record)

abbreviation receipt_SelfHash :: "signed_receipt \<Rightarrow> hash32" where
  "receipt_SelfHash r \<equiv> rc_self_hash (sr_record r)"

section \<open>Verification of one record\<close>

definition validateCalleeSignatureStructure :: "callee_signature \<Rightarrow> unit result" where
  "validateCalleeSignatureStructure s =
     (if ce_algorithm s \<noteq> ''ed25519'' then invalid_arg ''receipt_signature_algorithm_invalid''
      else if length (ce_signature s) \<noteq> SignatureSize
      then invalid_arg ''receipt_signature_length_invalid''
      else Ok ())"

text \<open>\<open>receiptRefsEqual\<close> compares length and elements.\<close>

definition receiptRefsEqual :: "receipt_ref list \<Rightarrow> receipt_ref list \<Rightarrow> bool" where
  "receiptRefsEqual xs ys = (length xs = length ys \<and> list_all2 (=) xs ys)"

definition validateReceiptRecordSemantics :: "platform \<Rightarrow> receipt_record \<Rightarrow> unit result" where
  "validateReceiptRecordSemantics P r =
     (let b = rc_binding r; facts = xb_proof_facts b in
      bindR (validateAuthorityBinding (xb_caller b) (xb_subject b) (xb_ability b) (xb_authority b)) (\<lambda>_.
      bindR (validateAuthorityProof P (pf_authority_proof facts) (xb_authority b) (xb_callee b)) (\<lambda>_.
      case pf_subject_ref facts of
        None \<Rightarrow> invalid_arg ''receipt_subject_ref_missing''
      | Some subjectRef \<Rightarrow>
          bindR (EntityRefForSubject (xb_subject b)) (\<lambda>expected.
          if subjectRef \<noteq> expected then invalid_arg ''receipt_subject_ref_semantically_invalid''
          else bindR (ParseAbilityDescriptorRef (xb_ability b)) (\<lambda>descriptor.
               if pf_descriptor_version facts \<noteq> ad_version descriptor
               then invalid_arg ''receipt_descriptor_version_semantically_invalid''
               else if pf_schema_hash facts = 0 \<or> pf_impl_hash facts = 0 \<or> pf_input_hash facts = 0
                       \<or> pf_output_hash facts = 0
               then invalid_arg ''receipt_proof_fact_semantically_zero''
               else if blank (pf_runtime_env facts) then invalid_arg ''receipt_runtime_env_missing''
               else if \<not> receiptRefsEqual (pf_parent_receipts facts) (enumerableParentReceipts (xb_causal b))
               then invalid_arg ''receipt_parent_receipts_semantically_invalid''
               else Ok ())))))"

definition verifyReceiptRecord :: "platform \<Rightarrow> receipt_record \<Rightarrow> key_resolver \<Rightarrow> unit result" where
  "verifyReceiptRecord P r resolver =
     bindR (validateReceiptRecordSemantics P r) (\<lambda>_.
     bindR (validateCalleeSignatureStructure (rc_signature r)) (\<lambda>_.
     bindR (VerifyReceiptSignatureWithHosted P (receiptBody r) (xb_hosted (rc_binding r))
              (rc_signature r) resolver) (\<lambda>_.
     bindR (computeReceiptHash P r) (\<lambda>h.
       if rc_self_hash r \<noteq> h then invalid_arg ''self_hash_mismatch'' else Ok ()))))"

definition UnverifiedReceipt_Verify ::
  "platform \<Rightarrow> unverified_receipt \<Rightarrow> key_resolver \<Rightarrow> signed_receipt result" where
  "UnverifiedReceipt_Verify P u resolver =
     bindR (verifyReceiptRecord P (ur_record u) resolver) (\<lambda>_. Ok (SignedReceipt (ur_record u)))"

section \<open>The chain walk\<close>

record chain_check =
  ck_ok :: bool
  ck_broken_index :: int
  ck_detail :: string

definition broken :: "int \<Rightarrow> string \<Rightarrow> chain_check" where
  "broken i detail = \<lparr>ck_ok = False, ck_broken_index = i, ck_detail = detail\<rparr>"

text \<open>The loop over \<open>receipts[1:]\<close>, at position \<open>index\<close>.\<close>

fun verify_rest :: "platform \<Rightarrow> int \<Rightarrow> hash32 \<Rightarrow> signed_receipt list \<Rightarrow> chain_check result" where
  "verify_rest P index prev [] = Ok \<lparr>ck_ok = True, ck_broken_index = -1, ck_detail = []\<rparr>"
| "verify_rest P index prev (r # rest) =
     (if rc_index (sr_record r) \<noteq> word_of_int index
      then Ok (broken index (''non-monotonic index at position '' @ dec_int index))
      else if rc_prev_hash (sr_record r) \<noteq> prev
      then Ok (broken index (''prev_receipt_hash mismatch at index '' @ dec_int index))
      else bindR (computeReceiptHash P (sr_record r)) (\<lambda>current.
             if receipt_SelfHash r \<noteq> current
             then Ok (broken index (''self_hash mismatch at index '' @ dec_int index))
             else verify_rest P (index + 1) current rest))"

definition VerifyReceiptChain :: "platform \<Rightarrow> signed_receipt list \<Rightarrow> chain_check result" where
  "VerifyReceiptChain P receipts =
     (case receipts of
        [] \<Rightarrow> Ok \<lparr>ck_ok = True, ck_broken_index = -1, ck_detail = ''empty''\<rparr>
      | first # rest \<Rightarrow>
          if rc_index (sr_record first) \<noteq> 0
          then Ok (broken 0 (''first receipt has non-zero index '' @ dec_nat (unat (rc_index (sr_record first)))))
          else if rc_prev_hash (sr_record first) \<noteq> 0
          then Ok (broken 0 ''first receipt's prev_receipt_hash must be zero'')
          else bindR (computeReceiptHash P (sr_record first)) (\<lambda>prev.
                 if receipt_SelfHash first \<noteq> prev then Ok (broken 0 ''self_hash mismatch at index 0'')
                 else verify_rest P 1 prev rest))"

section \<open>The append reservation\<close>

record chain_state =
  ch_appending :: bool
  ch_terminal :: bool
  ch_receipts :: "signed_receipt list"

definition newReceiptChainState :: chain_state where
  "newReceiptChainState = \<lparr>ch_appending = False, ch_terminal = False, ch_receipts = []\<rparr>"

record reservation =
  rv_index :: u64
  rv_prev_hash :: hash32

text \<open>\<open>lastHash\<close>: the hash the next receipt has to name.\<close>

definition lastHash :: "signed_receipt list \<Rightarrow> hash32" where
  "lastHash rs = (if rs = [] then 0 else receipt_SelfHash (last rs))"

text \<open>\<open>reserveAppend\<close> waits while another append is in progress: it is defined on states in
  which it has returned from that wait, and \<open>chain_step\<close> below lets it run only there.\<close>

definition reserveAppend :: "chain_state \<Rightarrow> chain_state \<times> reservation result" where
  "reserveAppend c =
     (if ch_terminal c then (c, invalid_arg ''receipt_chain_terminal'')
      else (c\<lparr>ch_appending := True\<rparr>,
            Ok \<lparr>rv_index = word_of_nat (length (ch_receipts c)), rv_prev_hash = lastHash (ch_receipts c)\<rparr>))"

definition abortAppend :: "chain_state \<Rightarrow> chain_state" where
  "abortAppend c = (if \<not> ch_appending c then c else c\<lparr>ch_appending := False\<rparr>)"

definition commitAppend ::
  "chain_state \<Rightarrow> reservation \<Rightarrow> signed_receipt \<Rightarrow> bool \<Rightarrow> chain_state \<times> signed_receipt result" where
  "commitAppend c rv receipt terminal =
     (if \<not> ch_appending c \<or> word_of_nat (length (ch_receipts c)) \<noteq> rv_index rv
         \<or> (ch_receipts c = [] \<and> rv_prev_hash rv \<noteq> 0)
         \<or> (ch_receipts c \<noteq> [] \<and> receipt_SelfHash (last (ch_receipts c)) \<noteq> rv_prev_hash rv)
      then (c, Fail (AxonErr (ErrInternal ''receipt_sequence_reservation_lost'')))
      else (c\<lparr>ch_receipts := ch_receipts c @ [receipt], ch_terminal := terminal, ch_appending := False\<rparr>,
            Ok receipt))"

definition chain_snapshot :: "chain_state \<Rightarrow> signed_receipt list" where
  "chain_snapshot c = ch_receipts c"

section \<open>The abstract chain\<close>

text \<open>The specification of a hash chain: position \<open>n\<close> on, each receipt carries its index, the
  hash of its predecessor and its own hash.\<close>

fun chain_links :: "platform \<Rightarrow> nat \<Rightarrow> hash32 \<Rightarrow> signed_receipt list \<Rightarrow> bool" where
  "chain_links P n prev [] = True"
| "chain_links P n prev (r # rs) =
     (rc_index (sr_record r) = word_of_nat n \<and> rc_prev_hash (sr_record r) = prev
      \<and> computeReceiptHash P (sr_record r) = Ok (receipt_SelfHash r)
      \<and> chain_links P (Suc n) (receipt_SelfHash r) rs)"

definition chain_ok :: "platform \<Rightarrow> signed_receipt list \<Rightarrow> bool" where
  "chain_ok P rs = chain_links P 0 0 rs"

definition sealed :: "platform \<Rightarrow> reservation \<Rightarrow> signed_receipt \<Rightarrow> bool" where
  "sealed P rv r = (rc_index (sr_record r) = rv_index rv \<and> rc_prev_hash (sr_record r) = rv_prev_hash rv
     \<and> computeReceiptHash P (sr_record r) = Ok (receipt_SelfHash r))"

lemma chain_links_append:
  "chain_links P n prev (xs @ [x]) \<longleftrightarrow> chain_links P n prev xs
     \<and> sealed P \<lparr>rv_index = word_of_nat (n + length xs),
                 rv_prev_hash = (if xs = [] then prev else receipt_SelfHash (last xs))\<rparr> x"
  by (induction xs arbitrary: n prev) (auto simp: sealed_def)

lemma chain_ok_Nil [simp]: "chain_ok P []"
  by (simp add: chain_ok_def)

lemma chain_ok_snoc:
  "chain_ok P (xs @ [x]) \<longleftrightarrow> chain_ok P xs
     \<and> sealed P \<lparr>rv_index = word_of_nat (length xs), rv_prev_hash = lastHash xs\<rparr> x"
  by (simp add: chain_ok_def chain_links_append lastHash_def)

lemma chain_ok_take: "chain_ok P rs \<Longrightarrow> chain_ok P (take n rs)"
proof (induction rs arbitrary: n rule: rev_induct)
  case (snoc x xs)
  then show ?case
    by (cases "n \<le> length xs") (auto simp: chain_ok_snoc)
qed simp

text \<open>The walk of the code decides the specification.\<close>

lemma verify_rest_ok:
  "(\<exists>c. verify_rest P (int n) prev rs = Ok c \<and> ck_ok c) \<longleftrightarrow> chain_links P n prev rs"
proof (induction rs arbitrary: n prev)
  case (Cons r rs)
  have "(\<exists>c. verify_rest P (int n + 1) (receipt_SelfHash r) rs = Ok c \<and> ck_ok c)
      \<longleftrightarrow> chain_links P (Suc n) (receipt_SelfHash r) rs"
    using Cons [of "Suc n" "receipt_SelfHash r"] by (simp add: ac_simps)
  then show ?case
    by (auto simp: broken_def bindR_Ok_iff split: if_splits)
qed simp

lemma VerifyReceiptChain_ok:
  "(\<exists>c. VerifyReceiptChain P rs = Ok c \<and> ck_ok c) \<longleftrightarrow> chain_ok P rs"
proof (cases rs)
  case (Cons r rest)
  with verify_rest_ok [of P 1 "receipt_SelfHash r" rest] show ?thesis
    by (auto simp: VerifyReceiptChain_def chain_ok_def broken_def bindR_Ok_iff split: if_splits)
qed (simp add: VerifyReceiptChain_def)

text \<open>A broken chain is broken at the reported position and nowhere before.\<close>

lemma verify_rest_broken:
  assumes "verify_rest P (int n) prev rs = Ok c" and "\<not> ck_ok c"
  shows "\<exists>k<length rs. ck_broken_index c = int (n + k) \<and> chain_links P n prev (take k rs)
    \<and> \<not> chain_links P n prev (take (Suc k) rs)"
  using assms
proof (induction rs arbitrary: n prev)
  case (Cons r rs)
  show ?case
  proof (cases "chain_links P n prev [r]")
    case True
    then have "verify_rest P (int (Suc n)) (receipt_SelfHash r) rs = Ok c"
      using Cons.prems(1) by (simp add: ac_simps)
    from Cons.IH [OF this Cons.prems(2)] obtain k where "k < length rs"
      "ck_broken_index c = int (Suc n + k)" "chain_links P (Suc n) (receipt_SelfHash r) (take k rs)"
      "\<not> chain_links P (Suc n) (receipt_SelfHash r) (take (Suc k) rs)" by blast
    with True show ?thesis by (intro exI [of _ "Suc k"]) simp
  next
    case False
    with Cons.prems have "ck_broken_index c = int n"
      by (auto simp: broken_def bindR_Ok_iff split: if_splits)
    with False show ?thesis by (intro exI [of _ 0]) simp
  qed
qed auto

lemma VerifyReceiptChain_broken:
  assumes "VerifyReceiptChain P rs = Ok c" and "\<not> ck_ok c"
  shows "\<exists>k<length rs. ck_broken_index c = int k \<and> chain_ok P (take k rs) \<and> \<not> chain_ok P (take (Suc k) rs)"
proof (cases rs)
  case Nil
  with assms show ?thesis by (auto simp: VerifyReceiptChain_def)
next
  case (Cons r rest)
  show ?thesis
  proof (cases "chain_ok P [r]")
    case True
    then have "verify_rest P (int 1) (receipt_SelfHash r) rest = Ok c"
      using assms(1) Cons by (simp add: VerifyReceiptChain_def chain_ok_def)
    from verify_rest_broken [OF this assms(2)] obtain k where "k < length rest"
      "ck_broken_index c = int (1 + k)" "chain_links P 1 (receipt_SelfHash r) (take k rest)"
      "\<not> chain_links P 1 (receipt_SelfHash r) (take (Suc k) rest)" by blast
    with True Cons show ?thesis by (intro exI [of _ "Suc k"]) (simp add: chain_ok_def)
  next
    case False
    with assms Cons have "ck_broken_index c = 0"
      by (auto simp: VerifyReceiptChain_def chain_ok_def broken_def bindR_Ok_iff split: if_splits)
    with False Cons show ?thesis by (intro exI [of _ 0]) simp
  qed
qed

section \<open>What the last hash commits to\<close>

text \<open>What a record puts into its signed bytes, and the size bound of the encoder.\<close>

definition receipt_content :: "signed_receipt \<Rightarrow> receipt_body \<times> hosted_attestation option" where
  "receipt_content r = (receiptBody (sr_record r), xb_hosted (rc_binding (sr_record r)))"

definition ok_signed :: "signed_receipt \<Rightarrow> bool" where
  "ok_signed r = (ok_receipt (receiptBody (sr_record r))
     \<and> pred_option ok_hosted (xb_hosted (rc_binding (sr_record r))))"

definition chain_bytes :: "platform \<Rightarrow> signed_receipt list \<Rightarrow> bytes set" where
  "chain_bytes P rs = {b. \<exists>r\<in>set rs. canonicalSerialise P (sr_record r) = Ok b}"

lemma sealed_content:
  assumes "sealed P u x" and "sealed P v y" and "receipt_SelfHash x = receipt_SelfHash y"
    and "ok_signed x" and "ok_signed y"
    and "inj_on (pf_sha256 P) (chain_bytes P [x] \<union> chain_bytes P [y])"
  shows "receipt_content x = receipt_content y \<and> rv_index u = rv_index v \<and> rv_prev_hash u = rv_prev_hash v"
proof -
  from assms(1,2) obtain b c where b: "canonicalSerialise P (sr_record x) = Ok b"
      "pf_sha256 P b = receipt_SelfHash x" and c: "canonicalSerialise P (sr_record y) = Ok c"
      "pf_sha256 P c = receipt_SelfHash y"
    by (auto simp: sealed_def computeReceiptHash_def bindR_Ok_iff)
  with assms(3,6) have "b = c"
    by (auto simp: chain_bytes_def dest: inj_onD)
  with b c assms(4,5) have same: "receipt_content x = receipt_content y"
    using receipt_bytes_split [of P "receiptBody (sr_record x)" "xb_hosted (rc_binding (sr_record x))" c]
    by (simp add: canonicalSerialise_def ok_signed_def receipt_content_def)
  then have "rc_index (sr_record x) = rc_index (sr_record y)"
    "rc_prev_hash (sr_record x) = rc_prev_hash (sr_record y)"
    by (auto simp: receipt_content_def receiptBody_def Let_def)
  with same assms(1,2) show ?thesis by (auto simp: sealed_def)
qed

lemma chain_content:
  assumes "chain_ok P xs" and "chain_ok P ys" and "lastHash xs = lastHash ys"
    and "length xs < 2 ^ 64" and "length ys < 2 ^ 64" and "xs \<noteq> []" and "ys \<noteq> []"
    and "list_all ok_signed xs" and "list_all ok_signed ys"
    and "inj_on (pf_sha256 P) (chain_bytes P xs \<union> chain_bytes P ys)"
  shows "map receipt_content xs = map receipt_content ys"
  using assms
proof (induction xs arbitrary: ys rule: rev_induct)
  case (snoc x xs)
  obtain y zs where ys: "ys = zs @ [y]"
    using snoc.prems(7) by (cases ys rule: rev_cases) auto
  let ?u = "\<lparr>rv_index = word_of_nat (length xs), rv_prev_hash = lastHash xs\<rparr>"
  let ?v = "\<lparr>rv_index = word_of_nat (length zs), rv_prev_hash = lastHash zs\<rparr>"
  have x: "chain_ok P xs" "sealed P ?u x" and y: "chain_ok P zs" "sealed P ?v y"
    using snoc.prems(1,2) ys by (simp_all add: chain_ok_snoc)
  have inj: "inj_on (pf_sha256 P) (chain_bytes P [x] \<union> chain_bytes P [y])"
    "inj_on (pf_sha256 P) (chain_bytes P xs \<union> chain_bytes P zs)"
    using snoc.prems(10) ys by (auto simp: chain_bytes_def elim!: inj_on_subset)
  have step: "receipt_content x = receipt_content y \<and> rv_index ?u = rv_index ?v
      \<and> rv_prev_hash ?u = rv_prev_hash ?v"
    using sealed_content [OF x(2) y(2) _ _ _ inj(1)] snoc.prems(3,8,9) ys by (simp add: lastHash_def)
  have len: "length xs = length zs"
    using step snoc.prems(4,5) ys by (simp add: word_of_nat_eq_iff take_bit_nat_eq_self)
  show ?case
  proof (cases "xs = []")
    case True
    with len step ys show ?thesis by simp
  next
    case False
    with len have "zs \<noteq> []" by auto
    with False have "map receipt_content xs = map receipt_content zs"
      using snoc.IH [of zs] x(1) y(1) step snoc.prems(4,5,8,9) ys inj(2) by simp
    with step ys show ?thesis by simp
  qed
qed simp

end
