(* ===== verification/ReceiptProvider.thy ===== *)
theory ReceiptProvider
  imports ReceiptChain
begin

text \<open>
  The in-memory receipt provider, \<open>axon/invocation/receipt_provider.go\<close>, and the provider
  bindings of \<open>axon/invocation/ability.go\<close>: descriptor and implementation evidence, the
  bound receipt context, the ed25519 signing authority, and \<open>AppendSignedReceipt\<close>, which
  turns an execution event into a signed link of the invocation's chain.

  A \<open>BoundReceiptContext\<close> is passed by pointer and compared with the provider's own entry;
  only \<open>Bind\<close> makes one, at most one for an invocation, so comparing values is the same.
  The signing authority behind the \<open>ReceiptSigningAuthority\<close> interface is a record of what
  its five methods return, and is a parameter where the code takes any implementation.
\<close>

section \<open>Invocation states\<close>

text \<open>\<open>InvocationState\<close> is a string type; the constants of \<open>handle.go\<close>.\<close>

type_synonym invocation_state = string

definition StateUnspecified :: invocation_state where "StateUnspecified = ''UNSPECIFIED''"
definition StateAccepted :: invocation_state where "StateAccepted = ''ACCEPTED''"
definition StateAdmitted :: invocation_state where "StateAdmitted = ''ADMITTED''"
definition StateDispatched :: invocation_state where "StateDispatched = ''DISPATCHED''"
definition StateRunning :: invocation_state where "StateRunning = ''RUNNING''"
definition StateCompleted :: invocation_state where "StateCompleted = ''COMPLETED''"
definition StateFailed :: invocation_state where "StateFailed = ''FAILED''"
definition StateTimedOut :: invocation_state where "StateTimedOut = ''TIMED_OUT''"
definition StateCancelled :: invocation_state where "StateCancelled = ''CANCELLED''"

lemmas state_defs = StateUnspecified_def StateAccepted_def StateAdmitted_def StateDispatched_def
  StateRunning_def StateCompleted_def StateFailed_def StateTimedOut_def StateCancelled_def

definition state_IsTerminal :: "invocation_state \<Rightarrow> bool" where
  "state_IsTerminal s = (s = StateCompleted \<or> s = StateFailed \<or> s = StateTimedOut \<or> s = StateCancelled)"

section \<open>Provider bindings\<close>

record ability_descriptor =
  de_ref :: ability_descriptor_ref
  de_schema_hash :: hash32

definition NewAbilityDescriptor :: "string \<Rightarrow> hash32 \<Rightarrow> ability_descriptor result" where
  "NewAbilityDescriptor descriptorRef schemaHash =
     bindR (ParseAbilityDescriptorRef descriptorRef) (\<lambda>parsed.
       if ad_descriptor_hash parsed = 0 then invalid_arg ''descriptor_hash_missing''
       else if schemaHash = 0 then invalid_arg ''schema_hash_missing''
       else Ok \<lparr>de_ref = parsed, de_schema_hash = schemaHash\<rparr>)"

record ability_impl =
  im_ref :: ability_descriptor_ref
  im_impl_hash :: hash32
  im_runtime_env :: string

definition NewAbilityImpl :: "string \<Rightarrow> hash32 \<Rightarrow> string \<Rightarrow> ability_impl result" where
  "NewAbilityImpl descriptorRef implHash runtimeEnv =
     bindR (ParseAbilityDescriptorRef descriptorRef) (\<lambda>parsed.
       if implHash = 0 then invalid_arg ''impl_hash_missing''
       else if trim_space runtimeEnv = [] then invalid_arg ''runtime_env_missing''
       else Ok \<lparr>im_ref = parsed, im_impl_hash = implHash, im_runtime_env = trim_space runtimeEnv\<rparr>)"

text \<open>Handlers are application code: the type parameter stands for \<open>AbilityFn\<close> and
  \<open>RecoveryFn\<close> values, \<open>None\<close> for nil.\<close>

record 'h recovery_continuation =
  rn_resume :: "'h option"
  rn_initial_checkpoint :: bytes

record 'h provider_binding =
  pb_descriptor :: ability_descriptor
  pb_implementation :: ability_impl
  pb_handler :: "'h option"
  pb_recovery :: "'h recovery_continuation option"

definition NewProviderBinding ::
  "ability_descriptor \<Rightarrow> ability_impl \<Rightarrow> 'h option \<Rightarrow> 'h provider_binding result" where
  "NewProviderBinding descriptor implementation handler =
     (if ad_raw (de_ref descriptor) = [] then invalid_arg ''ability_descriptor_required''
      else if ad_raw (im_ref implementation) = [] then invalid_arg ''ability_impl_required''
      else if ad_raw (de_ref descriptor) \<noteq> ad_raw (im_ref implementation)
      then invalid_arg ''provider_binding_descriptor_ref_mismatch''
      else if handler = None then invalid_arg ''provider_binding_handler_required''
      else Ok \<lparr>pb_descriptor = descriptor, pb_implementation = implementation,
               pb_handler = handler, pb_recovery = None\<rparr>)"

definition NewRecoveryContinuation :: "'h option \<Rightarrow> bytes \<Rightarrow> 'h recovery_continuation result" where
  "NewRecoveryContinuation resume initialCheckpoint =
     (if resume = None then invalid_arg ''recovery_resume_required''
      else Ok \<lparr>rn_resume = resume, rn_initial_checkpoint = initialCheckpoint\<rparr>)"

definition WithRecovery ::
  "'h provider_binding \<Rightarrow> 'h recovery_continuation \<Rightarrow> 'h provider_binding result" where
  "WithRecovery b continuation =
     (if rn_resume continuation = None then invalid_arg ''recovery_resume_required''
      else Ok (b\<lparr>pb_recovery := Some continuation\<rparr>))"

section \<open>Evidence and the bound context\<close>

record descriptor_evidence =
  ev_descriptor_version :: string
  ev_schema_hash :: hash32

definition resolvedDescriptorEvidence ::
  "verified_admission \<Rightarrow> 'h provider_binding \<Rightarrow> descriptor_evidence result" where
  "resolvedDescriptorEvidence admission b =
     bindR (ParseAbilityDescriptorRef (xb_ability (va_binding admission))) (\<lambda>admitted.
       let descriptor = pb_descriptor b; ref = de_ref descriptor in
       if ad_raw admitted \<noteq> ad_raw ref then invalid_arg ''resolved_descriptor_ref_mismatch''
       else if ad_version admitted \<noteq> ad_version ref
       then invalid_arg ''resolved_descriptor_version_mismatch''
       else if ad_descriptor_hash admitted \<noteq> ad_descriptor_hash ref
       then invalid_arg ''resolved_descriptor_hash_mismatch''
       else if ad_admission_action admitted \<noteq> ad_admission_action ref
       then invalid_arg ''resolved_descriptor_action_mismatch''
       else if de_schema_hash descriptor = 0
       then invalid_arg ''resolved_descriptor_schema_hash_missing''
       else Ok \<lparr>ev_descriptor_version = ad_version ref, ev_schema_hash = de_schema_hash descriptor\<rparr>)"

record implementation_evidence =
  ev_impl_hash :: hash32
  ev_runtime_env :: string

definition registeredImplementationEvidence ::
  "'h provider_binding \<Rightarrow> implementation_evidence result" where
  "registeredImplementationEvidence b =
     (let implementation = pb_implementation b in
      if im_impl_hash implementation = 0 then invalid_arg ''registered_implementation_hash_missing''
      else if blank (im_runtime_env implementation) then invalid_arg ''registered_runtime_env_missing''
      else Ok \<lparr>ev_impl_hash = im_impl_hash implementation, ev_runtime_env = im_runtime_env implementation\<rparr>)"

record bound_context =
  bc_invocation_id :: string
  bc_binding :: axiom_binding
  bc_subject_ref :: entity_ref
  bc_descriptor_version :: string
  bc_schema_hash :: hash32
  bc_impl_hash :: hash32
  bc_runtime_env :: string
  bc_authority_proof :: authority_proof
  bc_input_hash :: hash32
  bc_parent_receipts :: "receipt_ref list"

definition proofFactsForOutput :: "platform \<Rightarrow> bound_context \<Rightarrow> bytes \<Rightarrow> receipt_proof_facts result" where
  "proofFactsForOutput P c output =
     NewReceiptProofFacts P (Some (bc_subject_ref c)) (bc_descriptor_version c) (bc_schema_hash c)
       (bc_impl_hash c) (bc_runtime_env c) (bc_authority_proof c) (bc_input_hash c)
       (pf_sha256 P output) (bc_parent_receipts c)"

definition ValidateReceiptFactSemantics ::
  "platform \<Rightarrow> bound_context option \<Rightarrow> receipt_proof_facts \<Rightarrow> bytes \<Rightarrow> unit result" where
  "ValidateReceiptFactSemantics P context facts output =
     (case context of None \<Rightarrow> invalid_arg ''receipt_context_required'' | Some c \<Rightarrow>
      (case pf_subject_ref facts of None \<Rightarrow> invalid_arg ''receipt_subject_ref_missing'' | Some subjectRef \<Rightarrow>
       if subjectRef \<noteq> bc_subject_ref c \<or> blank (er_ura subjectRef)
       then invalid_arg ''receipt_subject_ref_semantically_invalid''
       else if blank (pf_descriptor_version facts) \<or> pf_descriptor_version facts \<noteq> bc_descriptor_version c
       then invalid_arg ''receipt_descriptor_version_semantically_invalid''
       else if pf_schema_hash facts = 0 then invalid_arg ''receipt_schema_hash_unbound''
       else if pf_schema_hash facts \<noteq> bc_schema_hash c
       then invalid_arg ''receipt_schema_hash_semantically_invalid''
       else if pf_impl_hash facts = 0 then invalid_arg ''receipt_impl_hash_unbound''
       else if pf_impl_hash facts \<noteq> bc_impl_hash c
       then invalid_arg ''receipt_impl_hash_semantically_invalid''
       else if blank (pf_runtime_env facts) \<or> pf_runtime_env facts \<noteq> bc_runtime_env c
       then invalid_arg ''receipt_runtime_env_missing''
       else if pf_input_hash facts = 0 then invalid_arg ''receipt_input_hash_unbound''
       else if pf_input_hash facts \<noteq> bc_input_hash c
       then invalid_arg ''receipt_input_hash_semantically_invalid''
       else if pf_output_hash facts = 0 \<or> pf_output_hash facts \<noteq> pf_sha256 P output
       then invalid_arg ''receipt_output_hash_semantically_invalid''
       else bindR (validateAuthorityBinding (xb_caller (bc_binding c)) (xb_subject (bc_binding c))
                     (xb_ability (bc_binding c)) (xb_authority (bc_binding c))) (\<lambda>_.
            bindR (validateAuthorityProof P (pf_authority_proof facts) (xb_authority (bc_binding c))
                     (xb_callee (bc_binding c))) (\<lambda>_.
            if pf_authority_proof facts \<noteq> bc_authority_proof c
            then invalid_arg ''receipt_authority_proof_semantically_invalid''
            else if list_ex (\<lambda>p. rr_hash p = 0 \<or> blank (rr_ura p)) (pf_parent_receipts facts)
            then invalid_arg ''receipt_parent_reference_semantically_invalid''
            else if \<not> receiptRefsEqual (pf_parent_receipts facts) (bc_parent_receipts c)
            then invalid_arg ''receipt_parent_receipts_semantically_invalid''
            else Ok ()))))"

definition bindReceiptContext ::
  "platform \<Rightarrow> string \<Rightarrow> verified_admission \<Rightarrow> descriptor_evidence \<Rightarrow> implementation_evidence \<Rightarrow>
   bound_context result" where
  "bindReceiptContext P invocationID admission descriptor implementation =
     (if blank invocationID then invalid_arg ''invocation_id_required''
      else let c = \<lparr>bc_invocation_id = invocationID, bc_binding = va_binding admission,
                    bc_subject_ref = va_subject_ref admission,
                    bc_descriptor_version = ev_descriptor_version descriptor,
                    bc_schema_hash = ev_schema_hash descriptor,
                    bc_impl_hash = ev_impl_hash implementation,
                    bc_runtime_env = ev_runtime_env implementation,
                    bc_authority_proof = va_authority_proof admission,
                    bc_input_hash = va_input_hash admission,
                    bc_parent_receipts = va_parent_receipts admission\<rparr>;
               probe = str_bytes ''bound-receipt-context''
           in bindR (proofFactsForOutput P c probe) (\<lambda>facts.
              bindR (ValidateReceiptFactSemantics P (Some c) facts probe) (\<lambda>_. Ok c)))"

section \<open>Signing authorities\<close>

record signing_authority =
  sa_callee :: agent_identity
  sa_signer :: agent_identity
  sa_attestation :: bytes
  sa_key :: bytes
  sa_sign :: "bytes \<Rightarrow> callee_signature result"

type_synonym authority_resolver = "agent_identity \<Rightarrow> signing_authority option result"

record ed25519_authority =
  ea_callee :: agent_identity
  ea_signer :: agent_identity
  ea_signing_key :: bytes
  ea_attestation :: bytes
  ea_key_id_hint :: string

definition NewEd25519ReceiptSigningAuthority ::
  "agent_identity \<Rightarrow> bytes \<Rightarrow> string \<Rightarrow> ed25519_authority result" where
  "NewEd25519ReceiptSigningAuthority callee signingKey keyIDHint =
     (if blank (ai_ura callee) then invalid_arg ''receipt_authority_callee_required''
      else if length signingKey \<noteq> PrivateKeySize then invalid_arg ''receipt_authority_private_key_invalid''
      else Ok \<lparr>ea_callee = callee, ea_signer = callee, ea_signing_key = signingKey,
               ea_attestation = [], ea_key_id_hint = keyIDHint\<rparr>)"

definition NewHostedEd25519ReceiptSigningAuthority ::
  "agent_identity \<Rightarrow> agent_identity \<Rightarrow> bytes \<Rightarrow> bytes \<Rightarrow> string \<Rightarrow> ed25519_authority result" where
  "NewHostedEd25519ReceiptSigningAuthority callee signer hostAttestation signingKey keyIDHint =
     bindR (ValidateHostedAttestationAuthority (ai_ura callee) (ai_ura signer)) (\<lambda>_.
       if length signingKey \<noteq> PrivateKeySize then invalid_arg ''receipt_authority_private_key_invalid''
       else if length hostAttestation \<noteq> SignatureSize then invalid_arg ''host_attestation_wrong_length''
       else Ok \<lparr>ea_callee = callee, ea_signer = signer, ea_signing_key = signingKey,
                ea_attestation = hostAttestation, ea_key_id_hint = keyIDHint\<rparr>)"

definition ed_VerifyingKey :: "platform \<Rightarrow> ed25519_authority \<Rightarrow> bytes" where
  "ed_VerifyingKey P a = pf_public P (ea_signing_key a)"

definition ed_SignAndVerify ::
  "platform \<Rightarrow> ed25519_authority \<Rightarrow> bytes \<Rightarrow> callee_signature result" where
  "ed_SignAndVerify P a canonicalReceipt =
     bindR (edSign P (ea_signing_key a) canonicalReceipt) (\<lambda>sig.
     bindR (edVerify P (ed_VerifyingKey P a) canonicalReceipt sig) (\<lambda>valid.
       if \<not> valid
       then Fail (AxonErr (ErrInternal ''receipt_signature_self_verification_failed''))
       else Ok \<lparr>ce_algorithm = ''ed25519'', ce_signature = sig, ce_key_id_hint = ea_key_id_hint a\<rparr>))"

text \<open>The interface value of an \<open>Ed25519ReceiptSigningAuthority\<close>.\<close>

definition ed_authority :: "platform \<Rightarrow> ed25519_authority \<Rightarrow> signing_authority" where
  "ed_authority P a = \<lparr>sa_callee = ea_callee a, sa_signer = ea_signer a, sa_attestation = ea_attestation a,
     sa_key = ed_VerifyingKey P a, sa_sign = ed_SignAndVerify P a\<rparr>"

definition validateSigningAuthority ::
  "platform \<Rightarrow> agent_identity \<Rightarrow> signing_authority option \<Rightarrow> hosted_attestation option result" where
  "validateSigningAuthority P callee authority =
     (case authority of None \<Rightarrow> invalid_arg ''receipt_signing_authority_required'' | Some a \<Rightarrow>
       if sa_callee a \<noteq> callee then invalid_arg ''receipt_signing_authority_callee_mismatch''
       else if length (sa_key a) \<noteq> PublicKeySize then invalid_arg ''receipt_signing_authority_key_invalid''
       else if sa_signer a = callee
       then (if sa_attestation a \<noteq> [] then invalid_arg ''self_signing_authority_has_host_attestation''
             else Ok None)
       else bindR (VerifyHostAttestation P (ai_ura callee) (ai_ura (sa_signer a)) (sa_attestation a) (sa_key a))
              (\<lambda>_. Ok (Some \<lparr>ha_signer_binding = sa_signer a, ha_host_attestation = sa_attestation a\<rparr>)))"

section \<open>The provider\<close>

record append_input =
  in_receipt_type :: string
  in_state :: invocation_state
  in_timestamp :: i64
  in_payload :: bytes
  in_content_type :: string
  in_cleanup_complete :: bool
  in_reason :: string
  in_child :: string
  in_usage :: invocation_usage

record provider =
  pv_contexts :: "string \<rightharpoonup> bound_context"
  pv_chains :: "string \<rightharpoonup> chain_state"

text \<open>The two dependencies a provider is built with; \<open>None\<close> is a nil interface.\<close>

definition NewDefaultCanonicalReceiptProvider ::
  "policy_provider option \<Rightarrow> authority_resolver option \<Rightarrow> provider result" where
  "NewDefaultCanonicalReceiptProvider policyVerifier authorityResolver =
     (if policyVerifier = None then invalid_arg ''admission_policy_verifier_required''
      else if authorityResolver = None then invalid_arg ''receipt_signing_authority_resolver_required''
      else Ok \<lparr>pv_contexts = Map.empty, pv_chains = Map.empty\<rparr>)"

definition VerifyAdmissionPolicy :: "platform \<Rightarrow> policy_provider \<Rightarrow> policy_provider" where
  "VerifyAdmissionPolicy P policyVerifier envelope =
     bindR (policyVerifier envelope) (\<lambda>policy.
       NewVerifiedAdmissionPolicy P envelope (vp_authority_binding policy) (vp_authority_proof policy))"

definition Bind ::
  "platform \<Rightarrow> provider \<Rightarrow> string \<Rightarrow> verified_admission \<Rightarrow> descriptor_evidence \<Rightarrow> implementation_evidence \<Rightarrow>
   provider \<times> bound_context result" where
  "Bind P p invocationID admission descriptor implementation =
     (case bindReceiptContext P invocationID admission descriptor implementation of
        Fail e \<Rightarrow> (p, Fail e)
      | Panic e \<Rightarrow> (p, Panic e)
      | Ok context \<Rightarrow>
          if pv_contexts p invocationID \<noteq> None then (p, invalid_arg ''receipt_context_already_bound'')
          else (p\<lparr>pv_contexts := (pv_contexts p)(invocationID \<mapsto> context),
                  pv_chains := (pv_chains p)(invocationID \<mapsto> newReceiptChainState)\<rparr>, Ok context))"

text \<open>\<open>AppendSignedReceipt\<close> up to the reservation: the facts of the receipt.\<close>

definition append_checks :: "platform \<Rightarrow> provider \<Rightarrow> bound_context option \<Rightarrow> append_input \<Rightarrow>
   (bound_context \<times> chain_state \<times> receipt_proof_facts) result" where
  "append_checks P p context input =
     (case context of None \<Rightarrow> invalid_arg ''receipt_context_not_bound'' | Some c \<Rightarrow>
      if pv_contexts p (bc_invocation_id c) \<noteq> Some c then invalid_arg ''receipt_context_not_bound''
      else case pv_chains p (bc_invocation_id c) of
        None \<Rightarrow> invalid_arg ''receipt_context_not_bound''
      | Some chain \<Rightarrow>
          if blank (in_receipt_type input) then invalid_arg ''receipt_type_required''
          else if in_state input = StateUnspecified \<or> in_state input \<noteq> map ascii_upper (in_state input)
          then invalid_arg ''receipt_state_invalid''
          else if state_IsTerminal (in_state input) \<and> \<not> in_cleanup_complete input
          then Fail (AxonErr (ErrInternal ''terminal_receipt_requires_cleanup_complete''))
          else bindR (proofFactsForOutput P c (in_payload input)) (\<lambda>facts.
               bindR (ValidateReceiptFactSemantics P (Some c) facts (in_payload input)) (\<lambda>_.
                 Ok (c, chain, facts))))"

definition receipt_draft :: "platform \<Rightarrow> bound_context \<Rightarrow> append_input \<Rightarrow> receipt_proof_facts \<Rightarrow>
   hosted_attestation option \<Rightarrow> reservation \<Rightarrow> receipt_record" where
  "receipt_draft P c input facts hosted rv =
     \<lparr>rc_index = rv_index rv, rc_invocation_id = bc_invocation_id c,
      rc_receipt_type = in_receipt_type input, rc_state = in_state input,
      rc_timestamp = in_timestamp input, rc_prev_hash = rv_prev_hash rv, rc_self_hash = 0,
      rc_payload = in_payload input, rc_content_type = in_content_type input,
      rc_cleanup_complete = in_cleanup_complete input, rc_reason = in_reason input,
      rc_child = in_child input,
      rc_binding = (bc_binding c)\<lparr>xb_payload_digest := pf_sha256 P (in_payload input),
                                 xb_proof_facts := facts, xb_hosted := hosted\<rparr>,
      rc_usage = in_usage input, rc_signature = empty_signature\<rparr>"

definition selfVerify ::
  "platform \<Rightarrow> signing_authority \<Rightarrow> receipt_record \<Rightarrow> callee_signature \<Rightarrow> signed_receipt result" where
  "selfVerify P authority draft signature =
     bindR (validateCalleeSignatureStructure signature) (\<lambda>_.
     bindR (canonicalSerialise P draft) (\<lambda>canonical.
     bindR (edVerify P (sa_key authority) canonical (ce_signature signature)) (\<lambda>valid.
       if \<not> valid then Fail (AxonErr (ErrInternal ''receipt_signature_self_verification_failed''))
       else let signed = draft\<lparr>rc_signature := signature\<rparr>
            in bindR (computeReceiptHash P signed) (\<lambda>h. Ok (SignedReceipt (signed\<lparr>rc_self_hash := h\<rparr>))))))"

text \<open>Between the reservation and the commit, with no lock held.\<close>

definition sign_receipt :: "platform \<Rightarrow> authority_resolver \<Rightarrow> bound_context \<Rightarrow> append_input \<Rightarrow>
   receipt_proof_facts \<Rightarrow> reservation \<Rightarrow> signed_receipt result" where
  "sign_receipt P resolve c input facts rv =
     bindR (resolve (xb_callee (bc_binding c))) (\<lambda>authority.
     bindR (validateSigningAuthority P (xb_callee (bc_binding c)) authority) (\<lambda>hosted.
     bindR (newReceiptRecord P (receipt_draft P c input facts hosted rv)) (\<lambda>draft.
     bindR (canonicalSerialise P draft) (\<lambda>canonical.
     bindR (sa_sign (the authority) canonical) (\<lambda>signature.
       selfVerify P (the authority) draft signature)))))"

definition set_chain :: "provider \<Rightarrow> string \<Rightarrow> chain_state \<Rightarrow> provider" where
  "set_chain p invocationID chain = p\<lparr>pv_chains := (pv_chains p)(invocationID \<mapsto> chain)\<rparr>"

definition AppendSignedReceipt ::
  "platform \<Rightarrow> authority_resolver \<Rightarrow> provider \<Rightarrow> bound_context option \<Rightarrow> append_input \<Rightarrow>
   provider \<times> signed_receipt result" where
  "AppendSignedReceipt P resolve p context input =
     (case append_checks P p context input of
        Fail e \<Rightarrow> (p, Fail e)
      | Panic e \<Rightarrow> (p, Panic e)
      | Ok (c, chain, facts) \<Rightarrow>
          (case reserveAppend chain of
             (chain1, Fail e) \<Rightarrow> (set_chain p (bc_invocation_id c) chain1, Fail e)
           | (chain1, Panic e) \<Rightarrow> (set_chain p (bc_invocation_id c) chain1, Panic e)
           | (chain1, Ok rv) \<Rightarrow>
               (case sign_receipt P resolve c input facts rv of
                  Fail e \<Rightarrow> (set_chain p (bc_invocation_id c) (abortAppend chain1), Fail e)
                | Panic e \<Rightarrow> (set_chain p (bc_invocation_id c) (abortAppend chain1), Panic e)
                | Ok receipt \<Rightarrow>
                    (case commitAppend chain1 rv receipt (state_IsTerminal (in_state input)) of
                       (chain2, Ok appended) \<Rightarrow> (set_chain p (bc_invocation_id c) chain2, Ok appended)
                     | (chain2, Fail e) \<Rightarrow>
                         (set_chain p (bc_invocation_id c) (abortAppend chain2), Fail e)
                     | (chain2, Panic e) \<Rightarrow>
                         (set_chain p (bc_invocation_id c) (abortAppend chain2), Panic e)))))"

definition SnapshotSignedReceipts :: "provider \<Rightarrow> string \<Rightarrow> signed_receipt list" where
  "SnapshotSignedReceipts p invocationID =
     (case pv_chains p invocationID of None \<Rightarrow> [] | Some chain \<Rightarrow> chain_snapshot chain)"

section \<open>Lemmas\<close>

lemma selfVerify_Ok:
  "selfVerify P a draft s = Ok r \<longleftrightarrow>
     (\<exists>b. canonicalSerialise P draft = Ok b \<and> ce_algorithm s = ''ed25519''
        \<and> length (ce_signature s) = SignatureSize \<and> length (sa_key a) = PublicKeySize
        \<and> pf_verify P (sa_key a) b (ce_signature s)
        \<and> r = SignedReceipt (draft\<lparr>rc_signature := s, rc_self_hash := pf_sha256 P b\<rparr>))"
proof -
  have "canonicalSerialise P (draft\<lparr>rc_signature := s\<rparr>) = canonicalSerialise P draft"
    by (simp add: canonicalSerialise_def receiptBody_def)
  then show ?thesis
    by (auto simp: selfVerify_def bindR_Ok_iff validateCalleeSignatureStructure_def edVerify_def
        computeReceiptHash_def Let_def split: if_splits)
qed

lemma canonicalSerialise_hash:
  "canonicalSerialise P (d\<lparr>rc_self_hash := h\<rparr>) = canonicalSerialise P d"
  "canonicalSerialise P (d\<lparr>rc_signature := s\<rparr>) = canonicalSerialise P d"
  by (simp_all add: canonicalSerialise_def receiptBody_def)

lemma newReceiptRecord_Ok:
  "newReceiptRecord P d = Ok r \<longleftrightarrow>
     (\<exists>b. canonicalSerialise P d = Ok b
        \<and> r = d\<lparr>rc_signature := empty_signature, rc_self_hash := pf_sha256 P b\<rparr>)"
  by (auto simp: newReceiptRecord_def Let_def bindR_Ok_iff computeReceiptHash_def canonicalSerialise_hash)

text \<open>What a signed receipt is: the draft of the event, hashed and signed by the authority.\<close>

lemma sign_receipt_Ok:
  assumes "sign_receipt P resolve c input facts rv = Ok r"
  obtains a hosted b s where "resolve (xb_callee (bc_binding c)) = Ok (Some a)"
    "validateSigningAuthority P (xb_callee (bc_binding c)) (Some a) = Ok hosted"
    "canonicalSerialise P (receipt_draft P c input facts hosted rv) = Ok b"
    "ce_algorithm s = ''ed25519''" "length (ce_signature s) = SignatureSize"
    "length (sa_key a) = PublicKeySize" "pf_verify P (sa_key a) b (ce_signature s)"
    "r = SignedReceipt ((receipt_draft P c input facts hosted rv)
           \<lparr>rc_signature := s, rc_self_hash := pf_sha256 P b\<rparr>)"
proof -
  from assms obtain authority hosted draft canonical s where
    r: "resolve (xb_callee (bc_binding c)) = Ok authority"
    "validateSigningAuthority P (xb_callee (bc_binding c)) authority = Ok hosted"
    "newReceiptRecord P (receipt_draft P c input facts hosted rv) = Ok draft"
    "selfVerify P (the authority) draft s = Ok r"
    by (auto simp: sign_receipt_def bindR_Ok_iff)
  from r(2) obtain a where a: "authority = Some a"
    by (auto simp: validateSigningAuthority_def split: option.splits)
  from r that [of a hosted] show thesis
    by (auto simp: a newReceiptRecord_Ok selfVerify_Ok canonicalSerialise_hash)
qed

lemma receipt_draft_sel [simp]:
  "rc_index (receipt_draft P c i f h rv) = rv_index rv"
  "rc_prev_hash (receipt_draft P c i f h rv) = rv_prev_hash rv"
  "rc_invocation_id (receipt_draft P c i f h rv) = bc_invocation_id c"
  "rc_receipt_type (receipt_draft P c i f h rv) = in_receipt_type i"
  "rc_state (receipt_draft P c i f h rv) = in_state i"
  "rc_timestamp (receipt_draft P c i f h rv) = in_timestamp i"
  "rc_payload (receipt_draft P c i f h rv) = in_payload i"
  "rc_reason (receipt_draft P c i f h rv) = in_reason i"
  "rc_cleanup_complete (receipt_draft P c i f h rv) = in_cleanup_complete i"
  "rc_child (receipt_draft P c i f h rv) = in_child i"
  "rc_binding (receipt_draft P c i f h rv) = (bc_binding c)\<lparr>xb_payload_digest := pf_sha256 P (in_payload i),
     xb_proof_facts := f, xb_hosted := h\<rparr>"
  by (simp_all add: receipt_draft_def)

lemma sign_receipt_sealed:
  assumes "sign_receipt P resolve c input facts rv = Ok r"
  shows "sealed P rv r"
  using assms
  by (elim sign_receipt_Ok) (simp add: sealed_def computeReceiptHash_def canonicalSerialise_hash)

text \<open>The event a receipt records.\<close>

definition records :: "append_input \<Rightarrow> signed_receipt \<Rightarrow> bool" where
  "records i r =
     (rc_receipt_type (sr_record r) = in_receipt_type i \<and> rc_state (sr_record r) = in_state i
      \<and> rc_timestamp (sr_record r) = in_timestamp i \<and> rc_payload (sr_record r) = in_payload i
      \<and> rc_reason (sr_record r) = in_reason i \<and> rc_cleanup_complete (sr_record r) = in_cleanup_complete i
      \<and> rc_child (sr_record r) = in_child i)"

lemma sign_receipt_records:
  assumes "sign_receipt P resolve c input facts rv = Ok r"
  shows "records input r \<and> rc_invocation_id (sr_record r) = bc_invocation_id c"
  using assms by (elim sign_receipt_Ok) (simp add: records_def)

lemma reserve_Ok:
  "reserveAppend c = (c1, Ok rv) \<longleftrightarrow>
    rv = \<lparr>rv_index = word_of_nat (length (ch_receipts c)), rv_prev_hash = lastHash (ch_receipts c)\<rparr>
    \<and> \<not> ch_terminal c \<and> c1 = c\<lparr>ch_appending := True\<rparr>"
  by (auto simp: reserveAppend_def)

lemma commit_reserved [simp]:
  "commitAppend (c\<lparr>ch_appending := True\<rparr>)
     \<lparr>rv_index = word_of_nat (length (ch_receipts c)), rv_prev_hash = lastHash (ch_receipts c)\<rparr> r t
   = (c\<lparr>ch_receipts := ch_receipts c @ [r], ch_terminal := t, ch_appending := False\<rparr>, Ok r)"
  by (simp add: commitAppend_def lastHash_def)

lemma append_checks_Ok:
  "append_checks P p context input = Ok (c, chain, facts) \<longleftrightarrow>
     context = Some c \<and> pv_contexts p (bc_invocation_id c) = Some c
     \<and> pv_chains p (bc_invocation_id c) = Some chain \<and> \<not> blank (in_receipt_type input)
     \<and> in_state input \<noteq> StateUnspecified \<and> in_state input = map ascii_upper (in_state input)
     \<and> (state_IsTerminal (in_state input) \<longrightarrow> in_cleanup_complete input)
     \<and> proofFactsForOutput P c (in_payload input) = Ok facts
     \<and> is_ok (ValidateReceiptFactSemantics P (Some c) facts (in_payload input))"
  by (cases "context") (auto simp: append_checks_def bindR_Ok_iff is_ok_iff split: option.splits)

lemma append_Ok:
  assumes "AppendSignedReceipt P resolve p context input = (p', Ok r)"
  obtains c chain facts rv where "append_checks P p context input = Ok (c, chain, facts)"
    "\<not> ch_terminal chain" "sign_receipt P resolve c input facts rv = Ok r"
    "rv = \<lparr>rv_index = word_of_nat (length (ch_receipts chain)), rv_prev_hash = lastHash (ch_receipts chain)\<rparr>"
    "p' = set_chain p (bc_invocation_id c) (chain\<lparr>ch_receipts := ch_receipts chain @ [r],
            ch_terminal := state_IsTerminal (in_state input), ch_appending := False\<rparr>)"
proof (cases "append_checks P p context input")
  case (Ok x)
  obtain c chain facts where x: "x = (c, chain, facts)" by (cases x)
  obtain chain1 rr where res: "reserveAppend chain = (chain1, rr)" by fastforce
  from assms Ok x res show thesis
  proof (cases rr)
    case rv: (Ok rv)
    note rc = res [unfolded rv reserve_Ok]
    from assms Ok x res rv obtain r' where s: "sign_receipt P resolve c input facts rv = Ok r'"
      by (cases "sign_receipt P resolve c input facts rv") (auto simp: AppendSignedReceipt_def)
    with assms Ok x res rv rc that [of c chain facts rv] show thesis
      by (auto simp: AppendSignedReceipt_def)
  qed (simp_all add: AppendSignedReceipt_def)
qed (use assms in \<open>simp_all add: AppendSignedReceipt_def\<close>)

text \<open>An append that does not return a receipt leaves every chain's receipts as they were.\<close>

lemma append_not_Ok:
  assumes "AppendSignedReceipt P resolve p context input = (p', r)" and "\<not> is_ok r"
    and "\<And>i c. pv_chains p i = Some c \<Longrightarrow> \<not> ch_appending c"
  shows "p' = p"
proof (cases "append_checks P p context input")
  case (Ok x)
  obtain c chain facts where x: "x = (c, chain, facts)" by (cases x)
  with Ok have chain: "pv_chains p (bc_invocation_id c) = Some chain"
    by (simp add: append_checks_Ok)
  with assms(3) have idle: "\<not> ch_appending chain" by blast
  have same: "set_chain p (bc_invocation_id c) chain = p"
    using chain by (simp add: set_chain_def map_upd_triv)
  have abort: "abortAppend (chain\<lparr>ch_appending := True\<rparr>) = chain"
    using idle by (cases chain) (simp add: abortAppend_def)
  obtain chain1 rr where res: "reserveAppend chain = (chain1, rr)" by fastforce
  show ?thesis
  proof (cases rr)
    case rv: (Ok rv)
    note rc = res [unfolded rv reserve_Ok]
    show ?thesis
    proof (cases "sign_receipt P resolve c input facts rv")
      case s: (Ok r')
      with assms(1) Ok x res rv rc have "r = Ok r'" by (auto simp: AppendSignedReceipt_def)
      with assms(2) show ?thesis by simp
    next
      case (Fail e)
      with assms(1) Ok x res rv rc abort same show ?thesis by (simp add: AppendSignedReceipt_def)
    next
      case (Panic e)
      with assms(1) Ok x res rv rc abort same show ?thesis by (simp add: AppendSignedReceipt_def)
    qed
  qed (use assms(1) Ok x res same in
      \<open>auto simp: AppendSignedReceipt_def reserveAppend_def split: if_splits\<close>)
qed (use assms in \<open>simp_all add: AppendSignedReceipt_def\<close>)

section \<open>The provider invariant\<close>

definition terminal_receipt :: "signed_receipt \<Rightarrow> bool" where
  "terminal_receipt r = state_IsTerminal (rc_state (sr_record r))"

definition chain_inv :: "platform \<Rightarrow> string \<Rightarrow> chain_state \<Rightarrow> bool" where
  "chain_inv P i ch =
     (chain_ok P (ch_receipts ch) \<and> \<not> ch_appending ch
      \<and> ch_terminal ch = (ch_receipts ch \<noteq> [] \<and> terminal_receipt (last (ch_receipts ch)))
      \<and> list_all (\<lambda>r. \<not> terminal_receipt r) (butlast (ch_receipts ch))
      \<and> list_all (\<lambda>r. rc_invocation_id (sr_record r) = i
           \<and> (terminal_receipt r \<longrightarrow> rc_cleanup_complete (sr_record r))) (ch_receipts ch))"

definition provider_inv :: "platform \<Rightarrow> provider \<Rightarrow> bool" where
  "provider_inv P p =
     ((\<forall>i. (pv_contexts p i = None) = (pv_chains p i = None))
      \<and> (\<forall>i ch. pv_chains p i = Some ch \<longrightarrow> chain_inv P i ch)
      \<and> (\<forall>i c. pv_contexts p i = Some c \<longrightarrow> bc_invocation_id c = i))"

lemma chain_inv_new: "chain_inv P i newReceiptChainState"
  by (simp add: chain_inv_def newReceiptChainState_def)

lemma bindReceiptContext_id: "bindReceiptContext P i a d m = Ok c \<Longrightarrow> bc_invocation_id c = i"
  by (auto simp: bindReceiptContext_def Let_def bindR_Ok_iff split: if_splits)

lemma provider_inv_init:
  "NewDefaultCanonicalReceiptProvider v r = Ok p \<Longrightarrow> provider_inv P p"
  by (auto simp: NewDefaultCanonicalReceiptProvider_def provider_inv_def split: if_splits)

lemma provider_inv_Bind:
  assumes "provider_inv P p" and "Bind P p i a d m = (p', r)"
  shows "provider_inv P p'"
proof (cases "bindReceiptContext P i a d m")
  case (Ok c)
  with assms show ?thesis
    by (auto simp: Bind_def provider_inv_def chain_inv_new bindReceiptContext_id split: if_splits)
qed (use assms in \<open>simp_all add: Bind_def\<close>)

lemma provider_inv_idle:
  "provider_inv P p \<Longrightarrow> pv_chains p i = Some c \<Longrightarrow> \<not> ch_appending c"
  by (auto simp: provider_inv_def chain_inv_def)

lemma chain_inv_append:
  assumes "chain_inv P i chain" and "\<not> ch_terminal chain" and "sealed P
      \<lparr>rv_index = word_of_nat (length (ch_receipts chain)), rv_prev_hash = lastHash (ch_receipts chain)\<rparr> r"
    and "rc_invocation_id (sr_record r) = i" and "t = terminal_receipt r"
    and "t \<Longrightarrow> rc_cleanup_complete (sr_record r)"
  shows "chain_inv P i (chain\<lparr>ch_receipts := ch_receipts chain @ [r], ch_terminal := t, ch_appending := False\<rparr>)"
proof -
  have "list_all (\<lambda>r. \<not> terminal_receipt r) (ch_receipts chain)"
  proof (cases "ch_receipts chain" rule: rev_cases)
    case (snoc xs x)
    with assms(1,2) show ?thesis by (auto simp: chain_inv_def)
  qed simp
  with assms show ?thesis by (auto simp: chain_inv_def chain_ok_snoc)
qed

lemma provider_inv_append:
  assumes "provider_inv P p" and "AppendSignedReceipt P resolve p context input = (p', r)"
  shows "provider_inv P p'"
proof (cases "is_ok r")
  case True
  then obtain x where r: "r = Ok x" by (auto simp: is_ok_iff)
  from assms(2) [unfolded r] show ?thesis
  proof (elim append_Ok)
    fix c chain facts rv
    assume ch: "append_checks P p context input = Ok (c, chain, facts)" "\<not> ch_terminal chain"
      and s: "sign_receipt P resolve c input facts rv = Ok x"
      and rv: "rv = \<lparr>rv_index = word_of_nat (length (ch_receipts chain)), rv_prev_hash = lastHash (ch_receipts chain)\<rparr>"
      and p': "p' = set_chain p (bc_invocation_id c) (chain\<lparr>ch_receipts := ch_receipts chain @ [x],
            ch_terminal := state_IsTerminal (in_state input), ch_appending := False\<rparr>)"
    have "chain_inv P (bc_invocation_id c) chain"
      using assms(1) ch(1) by (simp add: provider_inv_def append_checks_Ok)
    then have "chain_inv P (bc_invocation_id c) (chain\<lparr>ch_receipts := ch_receipts chain @ [x],
            ch_terminal := state_IsTerminal (in_state input), ch_appending := False\<rparr>)"
      using ch sign_receipt_sealed [OF s] sign_receipt_records [OF s] rv
      by (intro chain_inv_append) (auto simp: append_checks_Ok records_def terminal_receipt_def)
    then show ?thesis
      using assms(1) ch(1) p' by (auto simp: provider_inv_def set_chain_def append_checks_Ok)
  qed
next
  case False
  with append_not_Ok [OF assms(2)] assms(1) provider_inv_idle show ?thesis by blast
qed

section \<open>The receipt log interface\<close>

text \<open>What an invocation core relies on of its receipt provider: a successful append adds
  exactly the receipt it returns, which records the event, to the log of the bound
  context, and nothing else changes any log.\<close>

locale receipt_log =
  fixes append :: "'p \<Rightarrow> 'c \<Rightarrow> append_input \<Rightarrow> 'p \<times> signed_receipt result"
    and log :: "'p \<Rightarrow> 'c \<Rightarrow> signed_receipt list"
    and good :: "'p \<Rightarrow> bool"
  assumes good_kept: "good p \<Longrightarrow> append p c i = (p', res) \<Longrightarrow> good p'"
    and appended: "good p \<Longrightarrow> append p c i = (p', Ok r) \<Longrightarrow> log p' c = log p c @ [r] \<and> records i r"
    and refused: "good p \<Longrightarrow> append p c i = (p', res) \<Longrightarrow> \<not> is_ok res \<Longrightarrow> p' = p"

definition context_log :: "provider \<Rightarrow> bound_context option \<Rightarrow> signed_receipt list" where
  "context_log p context =
     (case context of None \<Rightarrow> [] | Some c \<Rightarrow> SnapshotSignedReceipts p (bc_invocation_id c))"

interpretation default_log: receipt_log "AppendSignedReceipt P resolve" context_log "provider_inv P"
proof
  fix p p' c i r res
  show "provider_inv P p \<Longrightarrow> AppendSignedReceipt P resolve p c i = (p', res) \<Longrightarrow> provider_inv P p'"
    by (rule provider_inv_append)
  show "provider_inv P p \<Longrightarrow> AppendSignedReceipt P resolve p c i = (p', Ok r) \<Longrightarrow>
      context_log p' c = context_log p c @ [r] \<and> records i r"
    by (elim append_Ok) (auto simp: append_checks_Ok context_log_def SnapshotSignedReceipts_def
        chain_snapshot_def set_chain_def dest: sign_receipt_records)
  show "provider_inv P p \<Longrightarrow> AppendSignedReceipt P resolve p c i = (p', res) \<Longrightarrow> \<not> is_ok res \<Longrightarrow> p' = p"
    using append_not_Ok provider_inv_idle by blast
qed

section \<open>Interleaved appends\<close>

text \<open>Several goroutines may append to one chain: each waits until no append is in progress,
  reserves, signs without the lock, and commits or aborts.  \<open>cs_holder\<close> is the
  reservation of the goroutine between the two.\<close>

record chain_system =
  cy_chain :: chain_state
  cy_holder :: "reservation option"

definition chain_initial :: "chain_system \<Rightarrow> bool" where
  "chain_initial x = (x = \<lparr>cy_chain = newReceiptChainState, cy_holder = None\<rparr>)"

inductive chain_step :: "platform \<Rightarrow> chain_system \<Rightarrow> chain_system \<Rightarrow> bool" for P where
  reserve: "\<lbrakk>\<not> ch_appending (cy_chain x); reserveAppend (cy_chain x) = (c, Ok rv)\<rbrakk>
     \<Longrightarrow> chain_step P x (x\<lparr>cy_chain := c, cy_holder := Some rv\<rparr>)"
| commit: "\<lbrakk>cy_holder x = Some rv; sealed P rv r; t = terminal_receipt r;
      commitAppend (cy_chain x) rv r t = (c, res)\<rbrakk>
     \<Longrightarrow> chain_step P x (x\<lparr>cy_chain := c, cy_holder := None\<rparr>)"
| abort: "\<lbrakk>cy_holder x = Some rv\<rbrakk>
     \<Longrightarrow> chain_step P x (x\<lparr>cy_chain := abortAppend (cy_chain x), cy_holder := None\<rparr>)"

inductive_cases chain_stepE: "chain_step P x y"

definition chain_system_inv :: "platform \<Rightarrow> chain_system \<Rightarrow> bool" where
  "chain_system_inv P x =
     (let c = cy_chain x in
      chain_ok P (ch_receipts c) \<and> ch_appending c = (cy_holder x \<noteq> None)
      \<and> (\<forall>rv. cy_holder x = Some rv \<longrightarrow> \<not> ch_terminal c \<and>
           rv = \<lparr>rv_index = word_of_nat (length (ch_receipts c)), rv_prev_hash = lastHash (ch_receipts c)\<rparr>)
      \<and> ch_terminal c = (ch_receipts c \<noteq> [] \<and> terminal_receipt (last (ch_receipts c)))
      \<and> list_all (\<lambda>r. \<not> terminal_receipt r) (butlast (ch_receipts c)))"

lemma commit_held:
  assumes "chain_system_inv P x" and "cy_holder x = Some rv"
  shows "commitAppend (cy_chain x) rv r t
    = ((cy_chain x)\<lparr>ch_receipts := ch_receipts (cy_chain x) @ [r], ch_terminal := t, ch_appending := False\<rparr>, Ok r)"
  using assms by (auto simp: chain_system_inv_def Let_def commitAppend_def lastHash_def)

lemma nonterminal_receipts:
  "\<lbrakk>\<not> (rs \<noteq> [] \<and> terminal_receipt (last rs)); list_all (\<lambda>r. \<not> terminal_receipt r) (butlast rs)\<rbrakk>
   \<Longrightarrow> list_all (\<lambda>r. \<not> terminal_receipt r) rs"
  by (cases rs rule: rev_cases) auto

lemma chain_system_inv_kept:
  assumes "chain_step P x y" and "chain_system_inv P x"
  shows "chain_system_inv P y"
  using assms(1)
proof cases
  case (reserve c rv)
  have "rv = \<lparr>rv_index = word_of_nat (length (ch_receipts (cy_chain x))),
      rv_prev_hash = lastHash (ch_receipts (cy_chain x))\<rparr>" "\<not> ch_terminal (cy_chain x)"
    "c = (cy_chain x)\<lparr>ch_appending := True\<rparr>"
    using reserve(3) by (simp_all add: reserve_Ok)
  with assms(2) reserve(1) show ?thesis by (simp add: chain_system_inv_def Let_def)
next
  case (commit rv r t c res)
  have c: "c = (cy_chain x)\<lparr>ch_receipts := ch_receipts (cy_chain x) @ [r], ch_terminal := t, ch_appending := False\<rparr>"
    using commit(5) commit_held [OF assms(2) commit(2)] by simp
  have rv: "rv = \<lparr>rv_index = word_of_nat (length (ch_receipts (cy_chain x))),
      rv_prev_hash = lastHash (ch_receipts (cy_chain x))\<rparr>" "\<not> ch_terminal (cy_chain x)"
    using assms(2) [unfolded chain_system_inv_def Let_def] commit(2) by blast+
  have "list_all (\<lambda>r. \<not> terminal_receipt r) (ch_receipts (cy_chain x))"
    by (rule nonterminal_receipts) (use assms(2) rv(2) in \<open>simp_all add: chain_system_inv_def Let_def\<close>)
  moreover have "chain_ok P (ch_receipts (cy_chain x))"
    using assms(2) by (simp add: chain_system_inv_def Let_def)
  moreover have "sealed P \<lparr>rv_index = word_of_nat (length (ch_receipts (cy_chain x))),
      rv_prev_hash = lastHash (ch_receipts (cy_chain x))\<rparr> r"
    using commit(3) rv(1) by simp
  ultimately show ?thesis
    unfolding commit(1,4) c by (simp add: chain_system_inv_def Let_def chain_ok_snoc)
next
  case (abort rv)
  with assms(2) show ?thesis by (auto simp: chain_system_inv_def Let_def abortAppend_def)
qed

lemma chain_system_inv_initially: "chain_initial x \<Longrightarrow> chain_system_inv P x"
  by (simp add: chain_initial_def chain_system_inv_def newReceiptChainState_def)

interpretation chain_sys: transition_system chain_initial "chain_step P" "chain_system_inv P"
  by unfold_locales (erule chain_system_inv_initially, erule (1) chain_system_inv_kept)

section \<open>A sample invocation\<close>

definition demo_admission :: verified_admission where
  "demo_admission = admission_record (DBEnvelope demo_envelope)
     \<lparr>vp_authority_binding = demo_authority, vp_authority_proof = demo_proof\<rparr> demo_entity"

definition demo_descriptor :: descriptor_evidence where
  "demo_descriptor = \<lparr>ev_descriptor_version = ''1'', ev_schema_hash = 1\<rparr>"

definition demo_implementation :: implementation_evidence where
  "demo_implementation = \<lparr>ev_impl_hash = 1, ev_runtime_env = ''go''\<rparr>"

definition demo_context :: bound_context where
  "demo_context = \<lparr>bc_invocation_id = ''i'', bc_binding = va_binding demo_admission,
     bc_subject_ref = demo_entity, bc_descriptor_version = ''1'', bc_schema_hash = 1, bc_impl_hash = 1,
     bc_runtime_env = ''go'', bc_authority_proof = demo_proof, bc_input_hash = 1, bc_parent_receipts = []\<rparr>"

definition demo_provider :: provider where
  "demo_provider = \<lparr>pv_contexts = [''i'' \<mapsto> demo_context], pv_chains = [''i'' \<mapsto> newReceiptChainState]\<rparr>"

definition demo_signing_authority :: signing_authority where
  "demo_signing_authority = ed_authority demo_platform
     \<lparr>ea_callee = demo_callee, ea_signer = demo_callee, ea_signing_key = demo_key, ea_attestation = [],
      ea_key_id_hint = []\<rparr>"

definition demo_resolve :: authority_resolver where
  "demo_resolve callee = Ok (Some demo_signing_authority)"

definition demo_input :: "invocation_state \<Rightarrow> append_input" where
  "demo_input s = \<lparr>in_receipt_type = ''accepted'', in_state = s, in_timestamp = 1, in_payload = [],
     in_content_type = [], in_cleanup_complete = True, in_reason = [], in_child = [], in_usage = empty_usage\<rparr>"

lemma demo_binds: "bindReceiptContext demo_platform ''i'' demo_admission demo_descriptor demo_implementation
    = Ok demo_context"
  by code_simp

definition demo_output_facts :: receipt_proof_facts where
  "demo_output_facts = demo_facts\<lparr>pf_output_hash := 1\<rparr>"

lemma demo_output: "proofFactsForOutput demo_platform demo_context [] = Ok demo_output_facts"
  "is_ok (ValidateReceiptFactSemantics demo_platform (Some demo_context) demo_output_facts [])"
  by code_simp+

lemma demo_input_sel [simp]: "in_payload (demo_input s) = []" "in_state (demo_input s) = s"
  "in_receipt_type (demo_input s) = ''accepted''" "in_cleanup_complete (demo_input s)"
  by (simp_all add: demo_input_def)

lemma demo_draft_bytes:
  "is_ok (canonicalSerialise demo_platform
     (receipt_draft demo_platform demo_context i demo_output_facts None rv))"
proof -
  have facts: "is_ok (TryCanonicalReceiptProofFacts demo_platform demo_output_facts)"
    by code_simp
  have gate: "is_ok (validateAuthorityBinding (xb_caller (bc_binding demo_context))
      (xb_subject (bc_binding demo_context)) (xb_ability (bc_binding demo_context))
      (xb_authority (bc_binding demo_context)))"
    by code_simp
  have authority: "is_ok (CanonicalAuthorityOrBootstrapBytes (xb_authority (bc_binding demo_context)))"
    by code_simp
  show ?thesis
    using facts gate authority
    by (simp add: canonicalSerialise_def receiptBody_def Let_def CanonicalReceiptBytesWithHosted_Ok
        is_ok_iff [of "CanonicalReceiptBytesWithHosted _ _ _"])
qed

lemma demo_authority_valid:
  "validateSigningAuthority demo_platform (xb_callee (bc_binding demo_context)) (Some demo_signing_authority)
    = Ok None"
  by code_simp

lemma demo_ed_sign:
  "sa_sign demo_signing_authority b
    = Ok \<lparr>ce_algorithm = ''ed25519'', ce_signature = pf_sign demo_platform demo_key b, ce_key_id_hint = []\<rparr>"
  "sa_key demo_signing_authority = replicate 32 1"
  using demo_signature(1) [of b]
  by (simp_all add: demo_signing_authority_def ed_authority_def ed_SignAndVerify_def edSign_def edVerify_def
      ed_VerifyingKey_def demo_key_def PrivateKeySize_def PublicKeySize_def demo_platform_def)

lemma demo_signs:
  "\<exists>r. sign_receipt demo_platform demo_resolve demo_context i demo_output_facts rv = Ok r"
proof -
  let ?d = "receipt_draft demo_platform demo_context i demo_output_facts None rv"
  obtain b where b: "canonicalSerialise demo_platform ?d = Ok b"
    using demo_draft_bytes by (auto simp: is_ok_iff)
  then have "newReceiptRecord demo_platform ?d
      = Ok (?d\<lparr>rc_signature := empty_signature, rc_self_hash := pf_sha256 demo_platform b\<rparr>)"
    by (simp add: newReceiptRecord_Ok)
  then show ?thesis
    using b demo_authority_valid demo_ed_sign demo_signature
    by (simp add: sign_receipt_def demo_resolve_def canonicalSerialise_hash selfVerify_Ok
        PublicKeySize_def)
qed

lemma demo_append_any:
  assumes "in_payload i = []" and "\<not> blank (in_receipt_type i)" and "in_state i \<noteq> StateUnspecified"
    and "in_state i = map ascii_upper (in_state i)"
    and "state_IsTerminal (in_state i) \<longrightarrow> in_cleanup_complete i"
    and "pv_contexts p = pv_contexts demo_provider"
    and "pv_chains p ''i'' = Some ch" and "\<not> ch_terminal ch"
  shows "\<exists>p' r. AppendSignedReceipt demo_platform demo_resolve p (Some demo_context) i = (p', Ok r)
    \<and> pv_contexts p' = pv_contexts p \<and> pv_chains p' ''i'' = Some (ch\<lparr>ch_receipts := ch_receipts ch @ [r],
        ch_terminal := state_IsTerminal (in_state i), ch_appending := False\<rparr>) \<and> rc_state (sr_record r) = in_state i"
proof -
  have checks: "append_checks demo_platform p (Some demo_context) i
      = Ok (demo_context, ch, demo_output_facts)"
    using assms demo_output
    by (auto simp: append_checks_Ok demo_context_def demo_provider_def)
  let ?rv = "\<lparr>rv_index = word_of_nat (length (ch_receipts ch)), rv_prev_hash = lastHash (ch_receipts ch)\<rparr>"
  obtain r where r: "sign_receipt demo_platform demo_resolve demo_context i demo_output_facts ?rv = Ok r"
    using demo_signs by blast
  have "reserveAppend ch = (ch\<lparr>ch_appending := True\<rparr>, Ok ?rv)"
    using assms(8) by (simp add: reserve_Ok)
  with checks r sign_receipt_records [OF r] show ?thesis
    by (simp add: AppendSignedReceipt_def set_chain_def records_def demo_context_def)
qed

lemma demo_append:
  assumes "s = ''RUNNING'' \<or> s = ''COMPLETED''" and "pv_contexts p = pv_contexts demo_provider"
    and "pv_chains p ''i'' = Some ch" and "\<not> ch_terminal ch"
  shows "\<exists>p' r. AppendSignedReceipt demo_platform demo_resolve p (Some demo_context) (demo_input s) = (p', Ok r)
    \<and> pv_contexts p' = pv_contexts p \<and> pv_chains p' ''i'' = Some (ch\<lparr>ch_receipts := ch_receipts ch @ [r],
        ch_terminal := state_IsTerminal s, ch_appending := False\<rparr>) \<and> rc_state (sr_record r) = s"
proof -
  have "\<not> blank ''accepted''" "''RUNNING'' = map ascii_upper ''RUNNING''" "''COMPLETED'' = map ascii_upper ''COMPLETED''"
    by code_simp+
  with assms demo_append_any [of "demo_input s" p ch] show ?thesis
    by (auto simp: StateUnspecified_def)
qed

lemma demo_provider_inv: "provider_inv P demo_provider"
  by (simp add: provider_inv_def demo_provider_def chain_inv_new demo_context_def)

end
