(* ===== verification/ChainProperties.thy ===== *)
theory ChainProperties
  imports ReceiptProvider
begin

text \<open>
  The properties of receipts and their chains: what a provider's history guarantees, what
  the last hash of a chain commits to, that a third party accepts what the provider
  appends, and where binding a context panics.
\<close>

section \<open>Histories of a provider\<close>

inductive provider_step :: "platform \<Rightarrow> authority_resolver \<Rightarrow> provider \<Rightarrow> provider \<Rightarrow> bool"
  for P resolve where
  bind: "Bind P p i admission descriptor implementation = (p', res) \<Longrightarrow> provider_step P resolve p p'"
| append: "AppendSignedReceipt P resolve p ctx input = (p', res) \<Longrightarrow> provider_step P resolve p p'"

definition provider_initial :: "provider \<Rightarrow> bool" where
  "provider_initial p = (p = \<lparr>pv_contexts = Map.empty, pv_chains = Map.empty\<rparr>)"

interpretation provider_sys: transition_system provider_initial "provider_step P resolve" "provider_inv P"
proof
  show "provider_initial p \<Longrightarrow> provider_inv P p" for p
    by (simp add: provider_initial_def provider_inv_def)
  show "provider_step P resolve p q \<Longrightarrow> provider_inv P p \<Longrightarrow> provider_inv P q" for p q
    by (erule provider_step.cases) (auto intro: provider_inv_Bind provider_inv_append)
qed

section \<open>What appended receipts satisfy\<close>

lemma receiptRefsEqual_iff [simp]: "receiptRefsEqual xs ys \<longleftrightarrow> xs = ys"
  by (auto simp: receiptRefsEqual_def list.rel_eq)

text \<open>What \<open>bindReceiptContext\<close> takes over from a verified admission and the resolved
  descriptor.\<close>

definition context_wf :: "bound_context \<Rightarrow> bool" where
  "context_wf c = (EntityRefForSubject (xb_subject (bc_binding c)) = Ok (bc_subject_ref c)
     \<and> (\<exists>d. ParseAbilityDescriptorRef (xb_ability (bc_binding c)) = Ok d \<and> ad_version d = bc_descriptor_version c)
     \<and> bc_parent_receipts c = enumerableParentReceipts (xb_causal (bc_binding c)))"

lemma resolvedDescriptorEvidence_Ok:
  "resolvedDescriptorEvidence admission b = Ok d \<Longrightarrow>
    \<exists>r. ParseAbilityDescriptorRef (xb_ability (va_binding admission)) = Ok r
      \<and> ad_version r = ev_descriptor_version d"
  by (auto simp: resolvedDescriptorEvidence_def bindR_Ok_iff Let_def split: if_splits)

lemma bindReceiptContext_wf:
  assumes "newVerifiedDescriptorBoundAdmission env policy = Ok admission"
    and "resolvedDescriptorEvidence admission b = Ok d"
    and "bindReceiptContext P i admission d m = Ok c"
  shows "context_wf c"
  using assms(1,3) resolvedDescriptorEvidence_Ok [OF assms(2)]
  by (auto simp: context_wf_def newVerifiedDescriptorBoundAdmission_Ok admission_record_def
      bindReceiptContext_def Let_def bindR_Ok_iff split: if_splits)

lemma NewReceiptProofFacts_Ok:
  "NewReceiptProofFacts P s v sh ih re ap inh outh par = Ok f \<Longrightarrow>
    f = \<lparr>pf_subject_ref = s, pf_descriptor_version = v, pf_schema_hash = sh, pf_impl_hash = ih,
         pf_runtime_env = re, pf_authority_proof = ap, pf_input_hash = inh, pf_output_hash = outh,
         pf_parent_receipts = par, pf_complete = True\<rparr>"
  by (auto simp: NewReceiptProofFacts_def TryNewReceiptProofFacts_def must_Ok_iff Let_def bindR_Ok_iff)

lemma ValidateReceiptFactSemantics_Ok:
  assumes "is_ok (ValidateReceiptFactSemantics P (Some c) facts output)"
  shows "is_ok (validateAuthorityBinding (xb_caller (bc_binding c)) (xb_subject (bc_binding c))
           (xb_ability (bc_binding c)) (xb_authority (bc_binding c)))
    \<and> is_ok (validateAuthorityProof P (pf_authority_proof facts) (xb_authority (bc_binding c))
           (xb_callee (bc_binding c)))
    \<and> pf_subject_ref facts = Some (bc_subject_ref c) \<and> pf_schema_hash facts \<noteq> 0 \<and> pf_impl_hash facts \<noteq> 0
    \<and> pf_input_hash facts \<noteq> 0 \<and> pf_output_hash facts \<noteq> 0 \<and> \<not> blank (pf_runtime_env facts)
    \<and> pf_descriptor_version facts = bc_descriptor_version c
    \<and> pf_parent_receipts facts = bc_parent_receipts c"
  using assms
  by (auto simp: ValidateReceiptFactSemantics_def is_ok_iff bindR_Ok_iff split: option.splits if_splits)

lemma appended_semantics:
  assumes "context_wf c" and "is_ok (ValidateReceiptFactSemantics P (Some c) facts output)"
    and "rc_binding r = (bc_binding c)\<lparr>xb_payload_digest := d, xb_proof_facts := facts, xb_hosted := h\<rparr>"
  shows "validateReceiptRecordSemantics P r = Ok ()"
proof -
  from assms(1) obtain d where "ParseAbilityDescriptorRef (xb_ability (bc_binding c)) = Ok d"
    "ad_version d = bc_descriptor_version c" by (auto simp: context_wf_def)
  then show ?thesis
    using assms(1,3) ValidateReceiptFactSemantics_Ok [OF assms(2)]
    by (auto simp: context_wf_def validateReceiptRecordSemantics_def is_ok_iff)
qed

lemma validateSigningAuthority_Ok:
  "validateSigningAuthority P callee (Some a) = Ok h \<longleftrightarrow>
     sa_callee a = callee \<and> length (sa_key a) = PublicKeySize
     \<and> (if sa_signer a = callee then sa_attestation a = [] \<and> h = None
        else is_ok (VerifyHostAttestation P (ai_ura callee) (ai_ura (sa_signer a)) (sa_attestation a) (sa_key a))
             \<and> h = Some \<lparr>ha_signer_binding = sa_signer a, ha_host_attestation = sa_attestation a\<rparr>)"
  by (auto simp: validateSigningAuthority_def bindR_Ok_iff is_ok_iff)

lemma appended_verifies:
  assumes "context_wf c" and "AppendSignedReceipt P resolve p (Some c) input = (p', Ok r)"
    and "resolve (xb_callee (bc_binding c)) = Ok (Some a)"
    and "keys (ai_ura (sa_signer a)) = Ok (sa_key a)"
  shows "verifyReceiptRecord P (sr_record r) keys = Ok ()"
  using assms(2)
proof (elim append_Ok)
  fix c' chain facts rv
  assume checks: "append_checks P p (Some c) input = Ok (c', chain, facts)"
    and s: "sign_receipt P resolve c' input facts rv = Ok r"
  have c': "c' = c" using checks by (simp add: append_checks_Ok)
  from s [unfolded c'] show ?thesis
  proof (elim sign_receipt_Ok)
    fix a' h b sig
    assume a': "resolve (xb_callee (bc_binding c)) = Ok (Some a')"
      and h: "validateSigningAuthority P (xb_callee (bc_binding c)) (Some a') = Ok h"
      and b: "canonicalSerialise P (receipt_draft P c input facts h rv) = Ok b"
      and sig: "ce_algorithm sig = ''ed25519''" "length (ce_signature sig) = SignatureSize"
        "length (sa_key a') = PublicKeySize" "pf_verify P (sa_key a') b (ce_signature sig)"
      and r: "r = SignedReceipt ((receipt_draft P c input facts h rv)
           \<lparr>rc_signature := sig, rc_self_hash := pf_sha256 P b\<rparr>)"
    have a: "a' = a" using a' assms(3) by simp
    let ?r = "sr_record r"
    have bytes: "CanonicalReceiptBytesWithHosted P (receiptBody ?r) h = Ok b"
      using b r canonicalSerialise_hash by (simp add: canonicalSerialise_def receiptBody_def)
    have callee: "rb_callee (receiptBody ?r) = xb_callee (bc_binding c)"
      by (simp add: r receiptBody_def)
    have sem: "validateReceiptRecordSemantics P ?r = Ok ()"
      using checks c' r by (intro appended_semantics [OF assms(1)]) (auto simp: append_checks_Ok)
    have "VerifyReceiptSignatureWithHosted P (receiptBody ?r) h sig keys = Ok ()"
    proof (cases h)
      case None
      with h a assms(4) bytes sig callee show ?thesis
        by (auto simp: validateSigningAuthority_Ok VerifyReceiptSignatureWithHosted_None split: if_splits)
    next
      case (Some x)
      with h a assms(4) bytes sig callee show ?thesis
        by (auto simp: validateSigningAuthority_Ok VerifyReceiptSignatureWithHosted_Some split: if_splits)
    qed
    with sem sig b r canonicalSerialise_hash show ?thesis
      by (simp add: verifyReceiptRecord_def validateCalleeSignatureStructure_def computeReceiptHash_def)
  qed
qed

lemma is_panic_bindR: "is_panic r \<Longrightarrow> is_panic (bindR r f)"
  by (cases r) auto

section \<open>Properties\<close>

text \<open>C5: whatever is bound and appended, by anyone and in any order, the chain of every
  invocation verifies with the code's own walk, every receipt in it belongs to that
  invocation, and a terminal receipt is the last one and attests complete cleanup.\<close>

theorem provider_chains_verify:
  assumes "provider_initial p" and "(provider_step P resolve)\<^sup>*\<^sup>* p q"
  shows "(\<exists>c. VerifyReceiptChain P (SnapshotSignedReceipts q i) = Ok c \<and> ck_ok c)
    \<and> list_all (\<lambda>r. rc_invocation_id (sr_record r) = i
         \<and> (terminal_receipt r \<longrightarrow> rc_cleanup_complete (sr_record r))) (SnapshotSignedReceipts q i)
    \<and> list_all (\<lambda>r. \<not> terminal_receipt r) (butlast (SnapshotSignedReceipts q i))"
proof -
  have "provider_inv P q" using provider_sys.reachable_inv [OF assms] .
  then show ?thesis
    unfolding VerifyReceiptChain_ok
    by (auto simp: provider_inv_def chain_inv_def SnapshotSignedReceipts_def chain_snapshot_def
        split: option.splits)
qed

lemma demo_history:
  "\<exists>q. (provider_step demo_platform demo_resolve)\<^sup>*\<^sup>* \<lparr>pv_contexts = Map.empty, pv_chains = Map.empty\<rparr> q
     \<and> length (SnapshotSignedReceipts q ''i'') = 2"
proof -
  have "Bind demo_platform \<lparr>pv_contexts = Map.empty, pv_chains = Map.empty\<rparr> ''i'' demo_admission demo_descriptor
      demo_implementation = (demo_provider, Ok demo_context)"
    by (simp add: Bind_def demo_binds demo_provider_def)
  then have s1: "provider_step demo_platform demo_resolve \<lparr>pv_contexts = Map.empty, pv_chains = Map.empty\<rparr> demo_provider"
    by (rule provider_step.bind)
  obtain p2 r2 where a2: "AppendSignedReceipt demo_platform demo_resolve demo_provider (Some demo_context)
      (demo_input ''RUNNING'') = (p2, Ok r2)" and p2: "pv_contexts p2 = pv_contexts demo_provider"
      "pv_chains p2 ''i'' = Some (newReceiptChainState\<lparr>ch_receipts := ch_receipts newReceiptChainState @ [r2],
        ch_terminal := state_IsTerminal ''RUNNING'', ch_appending := False\<rparr>)"
    using demo_append [of "''RUNNING''" demo_provider newReceiptChainState]
    by (auto simp: demo_provider_def newReceiptChainState_def)
  obtain p3 r3 where a3: "AppendSignedReceipt demo_platform demo_resolve p2 (Some demo_context)
      (demo_input ''COMPLETED'') = (p3, Ok r3)" and p3: "\<exists>ch. pv_chains p3 ''i'' = Some ch \<and> ch_receipts ch = [r2, r3]"
    using demo_append [OF _ p2(1,2), of "''COMPLETED''"]
    by (auto simp: state_IsTerminal_def state_defs newReceiptChainState_def)
  from s1 provider_step.append [OF a2] provider_step.append [OF a3]
  have "(provider_step demo_platform demo_resolve)\<^sup>*\<^sup>* \<lparr>pv_contexts = Map.empty, pv_chains = Map.empty\<rparr> p3"
    by (meson converse_rtranclp_into_rtranclp rtranclp.rtrancl_refl)
  with p3 show ?thesis by (auto simp: SnapshotSignedReceipts_def chain_snapshot_def)
qed

theorem provider_chains_verify_witness:
  "\<exists>q c. length (SnapshotSignedReceipts q ''i'') = 2
     \<and> VerifyReceiptChain demo_platform (SnapshotSignedReceipts q ''i'') = Ok c \<and> ck_ok c"
  using demo_history provider_chains_verify [of "\<lparr>pv_contexts = Map.empty, pv_chains = Map.empty\<rparr>"
      demo_platform demo_resolve _ "''i''"]
  by (auto simp: provider_initial_def)

text \<open>A chain is tamper-evident.  Two chains that both pass the walk and end in the same
  hash have the same content, receipt by receipt, in everything the signed bytes cover,
  unless SHA-256 collides on two of their own encodings.\<close>

theorem last_hash_commits:
  assumes "VerifyReceiptChain P xs = Ok c" and "ck_ok c" and "VerifyReceiptChain P ys = Ok d" and "ck_ok d"
    and "xs \<noteq> []" and "ys \<noteq> []" and "receipt_SelfHash (last xs) = receipt_SelfHash (last ys)"
    and "length xs < 2 ^ 64" and "length ys < 2 ^ 64" and "list_all ok_signed xs" and "list_all ok_signed ys"
  shows "map receipt_content xs = map receipt_content ys
    \<or> (\<exists>b\<in>chain_bytes P xs \<union> chain_bytes P ys. \<exists>b'\<in>chain_bytes P xs \<union> chain_bytes P ys.
         b \<noteq> b' \<and> pf_sha256 P b = pf_sha256 P b')"
proof (cases "inj_on (pf_sha256 P) (chain_bytes P xs \<union> chain_bytes P ys)")
  case True
  have "chain_ok P xs" "chain_ok P ys"
    using assms(1-4) VerifyReceiptChain_ok by blast+
  with True chain_content [of P xs ys] assms show ?thesis by (simp add: lastHash_def)
qed (auto simp: inj_on_def)

lemma demo_first_link:
  "\<exists>r. sealed demo_platform \<lparr>rv_index = 0, rv_prev_hash = 0\<rparr> r \<and> ok_signed r"
proof -
  let ?rv = "\<lparr>rv_index = 0, rv_prev_hash = 0\<rparr>"
  obtain r where s: "sign_receipt demo_platform demo_resolve demo_context (demo_input ''RUNNING'')
      demo_output_facts ?rv = Ok r"
    using demo_signs by blast
  from s have "ok_signed r"
  proof (elim sign_receipt_Ok)
    fix a h b sig
    assume "demo_resolve (xb_callee (bc_binding demo_context)) = Ok (Some a)"
      and h: "validateSigningAuthority demo_platform (xb_callee (bc_binding demo_context)) (Some a) = Ok h"
      and r: "r = SignedReceipt ((receipt_draft demo_platform demo_context (demo_input ''RUNNING'')
        demo_output_facts h ?rv)\<lparr>rc_signature := sig, rc_self_hash := pf_sha256 demo_platform b\<rparr>)"
    then have h': "h = None" using demo_authority_valid by (simp add: demo_resolve_def)
    have facts: "demo_output_facts = demo_facts"
      by (simp add: demo_output_facts_def demo_facts_def)
    have "receiptBody (sr_record r) = demo_receipt\<lparr>rb_index := 0, rb_receipt_type := ''accepted'',
        rb_state := ''RUNNING'', rb_timestamp := 1, rb_cleanup_complete := True,
        rb_payload_digest := pf_sha256 demo_platform [], rb_invocation_id := ''i''\<rparr>"
      using r facts by (simp add: receiptBody_def receipt_draft_def demo_input_def demo_context_def
          demo_admission_def admission_record_def demo_envelope_def demo_receipt_def)
    moreover have "xb_hosted (rc_binding (sr_record r)) = None"
      using r h' by simp
    ultimately show ?thesis
      using demo_receipt_sized [of 0] by (simp add: ok_signed_def ok_receipt_def small_fits)
  qed
  with sign_receipt_sealed [OF s] show ?thesis by blast
qed

theorem last_hash_commits_witness:
  "\<exists>r c. VerifyReceiptChain demo_platform [r] = Ok c \<and> ck_ok c \<and> map receipt_content [r] = map receipt_content [r]"
proof -
  obtain r where r: "sealed demo_platform \<lparr>rv_index = 0, rv_prev_hash = 0\<rparr> r" "ok_signed r"
    using demo_first_link by blast
  then have "chain_ok demo_platform [r]"
    by (simp add: chain_ok_def sealed_def)
  then obtain c where c: "VerifyReceiptChain demo_platform [r] = Ok c" "ck_ok c"
    using VerifyReceiptChain_ok by blast
  from last_hash_commits [OF c c] r(2) c show ?thesis by auto
qed

text \<open>When the walk reports a break, the reported index is that of the first broken
  link: everything before it is a valid chain, and the chain with it is not.\<close>

theorem broken_index_exact:
  assumes "VerifyReceiptChain P rs = Ok c" and "\<not> ck_ok c"
  shows "\<exists>k<length rs. ck_broken_index c = int k
    \<and> (\<exists>d. VerifyReceiptChain P (take k rs) = Ok d \<and> ck_ok d)
    \<and> \<not> (\<exists>d. VerifyReceiptChain P (take (Suc k) rs) = Ok d \<and> ck_ok d)"
  unfolding VerifyReceiptChain_ok using assms by (rule VerifyReceiptChain_broken)

theorem broken_index_exact_witness:
  "\<exists>r c. VerifyReceiptChain demo_platform [r, r] = Ok c \<and> ck_broken_index c = 1"
proof -
  obtain r where r: "sealed demo_platform \<lparr>rv_index = 0, rv_prev_hash = 0\<rparr> r"
    using demo_first_link by blast
  then have run: "VerifyReceiptChain demo_platform [r, r] = Ok (broken 1 (''non-monotonic index at position '' @ dec_int 1))"
    by (simp add: VerifyReceiptChain_def sealed_def)
  have ok: "\<exists>d. VerifyReceiptChain demo_platform [r] = Ok d \<and> ck_ok d"
    using r unfolding VerifyReceiptChain_ok by (simp add: chain_ok_def sealed_def)
  from broken_index_exact [OF run] obtain k where "k < 2"
      "ck_broken_index (broken 1 (''non-monotonic index at position '' @ dec_int 1)) = int k"
      "\<not> (\<exists>d. VerifyReceiptChain demo_platform (take (Suc k) [r, r]) = Ok d \<and> ck_ok d)"
    by (auto simp: broken_def)
  moreover have "k \<noteq> 0"
  proof
    assume "k = 0"
    with calculation(3) ok show False by simp
  qed
  ultimately have "k = 1" by simp
  with \<open>ck_broken_index _ = int k\<close> run show ?thesis by (metis of_nat_1)
qed

text \<open>C10: what the provider appends, a third party accepts.  A receipt appended to a context
  that was bound from a verified admission passes the complete verification of a wire
  receipt, semantics, signature, hosting and hash, for any key resolver that knows the
  signing authority's key under the signer's URA.\<close>

theorem appended_receipt_accepted:
  assumes "newVerifiedDescriptorBoundAdmission env policy = Ok admission"
    and "resolvedDescriptorEvidence admission b = Ok d"
    and "Bind P p0 i admission d m = (p1, Ok c)"
    and "AppendSignedReceipt P resolve p (Some c) input = (p', Ok r)"
    and "resolve (en_callee (dbe_envelope env)) = Ok (Some a)"
    and "keys (ai_ura (sa_signer a)) = Ok (sa_key a)"
  shows "UnverifiedReceipt_Verify P (UnverifiedReceipt (sr_record r)) keys = Ok r"
proof -
  have c: "bindReceiptContext P i admission d m = Ok c"
    using assms(3) by (auto simp: Bind_def split: result.splits if_splits)
  have "xb_callee (bc_binding c) = en_callee (dbe_envelope env)"
    using c assms(1)
    by (auto simp: bindReceiptContext_def Let_def bindR_Ok_iff newVerifiedDescriptorBoundAdmission_Ok
        admission_record_def split: if_splits)
  with assms have "verifyReceiptRecord P (sr_record r) keys = Ok ()"
    by (intro appended_verifies [OF bindReceiptContext_wf [OF assms(1,2) c] assms(4)]) simp_all
  then show ?thesis by (cases r) (simp add: UnverifiedReceipt_Verify_def)
qed

definition demo_binding :: "nat provider_binding" where
  "demo_binding = \<lparr>pb_descriptor = \<lparr>de_ref = (case ParseAbilityDescriptorRef demo_ability of Ok r \<Rightarrow> r), de_schema_hash = 1\<rparr>,
     pb_implementation = \<lparr>im_ref = (case ParseAbilityDescriptorRef demo_ability of Ok r \<Rightarrow> r),
       im_impl_hash = 1, im_runtime_env = ''go''\<rparr>,
     pb_handler = Some 0, pb_recovery = None\<rparr>"

lemma demo_resolved: "resolvedDescriptorEvidence demo_admission demo_binding = Ok demo_descriptor"
  by code_simp

lemma demo_admission_new: "newVerifiedDescriptorBoundAdmission (DBEnvelope demo_envelope)
    \<lparr>vp_authority_binding = demo_authority, vp_authority_proof = demo_proof\<rparr> = Ok demo_admission"
  using demo_subject_entity
  by (simp add: newVerifiedDescriptorBoundAdmission_Ok demo_admission_def) (simp add: demo_envelope_def)

theorem appended_receipt_accepted_witness:
  "\<exists>p' r. AppendSignedReceipt demo_platform demo_resolve demo_provider (Some demo_context)
      (demo_input ''COMPLETED'') = (p', Ok r)
    \<and> UnverifiedReceipt_Verify demo_platform (UnverifiedReceipt (sr_record r)) demo_resolver = Ok r"
proof -
  have bind: "Bind demo_platform \<lparr>pv_contexts = Map.empty, pv_chains = Map.empty\<rparr> ''i'' demo_admission demo_descriptor
      demo_implementation = (demo_provider, Ok demo_context)"
    by (simp add: Bind_def demo_binds demo_provider_def)
  obtain p' r where app: "AppendSignedReceipt demo_platform demo_resolve demo_provider (Some demo_context)
      (demo_input ''COMPLETED'') = (p', Ok r)"
    using demo_append [of "''COMPLETED''" demo_provider newReceiptChainState]
    by (auto simp: demo_provider_def newReceiptChainState_def)
  from appended_receipt_accepted [OF demo_admission_new demo_resolved bind app, of demo_signing_authority demo_resolver]
  show ?thesis
    using app demo_ed_sign(2) by (auto simp: demo_resolve_def demo_resolver_def)
qed

text \<open>Binding panics on a request that admission has accepted: when the causal context
  names a parent receipt with a zero hash or a blank URA, \<open>bindReceiptContext\<close> builds the
  probe facts with the panicking constructor before it validates anything, and never
  returns an error.\<close>

theorem bind_panics_on_bad_parent:
  assumes "verifyDescriptorBoundAdmission P env sig keys replay policies now = (replay', Ok admission)"
    and "list_ex (\<lambda>p. rr_hash p = 0 \<or> blank (rr_ura p)) (enumerableParentReceipts (en_causal (dbe_envelope env)))"
    and "\<not> blank i"
  shows "is_panic (bindReceiptContext P i admission d m)"
proof -
  have parents: "va_parent_receipts admission = enumerableParentReceipts (en_causal (dbe_envelope env))"
    using assms(1) by (auto simp: admission_Ok admission_record_def Let_def)
  have "\<not> is_ok (validateReceiptProofFactsSemantics P f)"
    if "pf_parent_receipts f = va_parent_receipts admission" for f
    using that assms(2) parents
    by (auto simp: validateReceiptProofFactsSemantics_def check_parents_def is_ok_iff bindR_Ok_iff
        split: option.splits if_splits)
  then have "\<not> is_ok (TryNewReceiptProofFacts P s v sh ih re ap inh outh (va_parent_receipts admission))"
      for s v sh ih re ap inh outh
    by (force simp: TryNewReceiptProofFacts_def Let_def is_ok_iff bindR_Ok_iff)
  then have "is_panic (must (TryNewReceiptProofFacts P s v sh ih re ap inh outh (va_parent_receipts admission)))"
      for s v sh ih re ap inh outh
    by (metis is_ok.simps(1) is_panic.simps(3) must.elims)
  with assms(3) show ?thesis
    by (auto simp: bindReceiptContext_def Let_def proofFactsForOutput_def NewReceiptProofFacts_def
        intro: is_panic_bindR)
qed

definition demo_sign_envelope :: "invocation_envelope \<Rightarrow> caller_signature" where
  "demo_sign_envelope x = \<lparr>cs_algorithm = ''ed25519'',
     cs_signature = pf_sign demo_platform demo_key
       (wire_of (canonicalDescriptorBoundInvocationBytes (DBEnvelope x))), cs_key_id_hint = []\<rparr>"

lemma demo_admits:
  assumes "is_ok (canonicalDescriptorBoundInvocationBytes (DBEnvelope x))" and "validateEnvelope x = Ok ()"
  shows "\<exists>s' adm. verifyDescriptorBoundAdmission demo_platform (DBEnvelope x) (demo_sign_envelope x)
    (Some demo_resolver) (Some newNonceReplayStore) (Some demo_policy) 1000 = (Some s', Ok adm)"
proof -
  obtain b where b: "canonicalDescriptorBoundInvocationBytes (DBEnvelope x) = Ok b"
    using assms(1) by (auto simp: is_ok_iff)
  then have "verifyDescriptorBoundInvocationSignature demo_platform (DBEnvelope x) (demo_sign_envelope x)
      demo_resolver = Ok ()"
    using demo_signature demo_resolver_key
    by (auto simp: verifyDescriptorBoundInvocationSignature_Ok demo_sign_envelope_def)
  with assms canonical_bytes_subject [OF assms(1)] b show ?thesis
    by (auto simp: admission_Ok admission_checks_Ok demo_policy_def checkAndRecord_Ok newNonceReplayStore_def)
qed

definition demo_bad_parent :: invocation_envelope where
  "demo_bad_parent = demo_envelope\<lparr>en_causal := CausalScalarCtx \<lparr>rr_hash = 0, rr_ura = []\<rparr>\<rparr>"

theorem bind_panics_on_bad_parent_witness:
  "\<exists>s' adm. verifyDescriptorBoundAdmission demo_platform (DBEnvelope demo_bad_parent)
      (demo_sign_envelope demo_bad_parent) (Some demo_resolver) (Some newNonceReplayStore)
      (Some demo_policy) 1000 = (Some s', Ok adm)
    \<and> is_panic (bindReceiptContext demo_platform ''i'' adm demo_descriptor demo_implementation)"
proof -
  have "is_ok (canonicalDescriptorBoundInvocationBytes (DBEnvelope demo_bad_parent))"
    by (simp add: canonicalDescriptorBoundInvocationBytes_def demo_bad_parent_def demo_envelope_def
        demo_ability_canonical demo_subject_entity)
  moreover have "validateEnvelope demo_bad_parent = Ok ()"
    by (simp add: validateEnvelope_Ok demo_bad_parent_def demo_envelope_def demo_ability_def demo_identities)
  ultimately obtain s' adm where run: "verifyDescriptorBoundAdmission demo_platform (DBEnvelope demo_bad_parent)
      (demo_sign_envelope demo_bad_parent) (Some demo_resolver) (Some newNonceReplayStore)
      (Some demo_policy) 1000 = (Some s', Ok adm)"
    using demo_admits by blast
  have "\<not> blank ''i''" by code_simp
  from bind_panics_on_bad_parent [OF run _ this] run show ?thesis
    by (simp add: demo_bad_parent_def CausalScalarCtx_def CausalNoneCtx_def enumerableParentReceipts_def)
qed

text \<open>However appends to one chain interleave, a reservation is never lost: the goroutine
  that holds one always commits its sealed receipt, and the chain verifies at every
  moment.\<close>

theorem reservation_never_lost:
  assumes "chain_initial x" and "(chain_step P)\<^sup>*\<^sup>* x y"
  shows "(\<exists>c. VerifyReceiptChain P (ch_receipts (cy_chain y)) = Ok c \<and> ck_ok c)
    \<and> (\<forall>rv r t. cy_holder y = Some rv \<longrightarrow> snd (commitAppend (cy_chain y) rv r t) = Ok r)"
proof -
  have inv: "chain_system_inv P y" using chain_sys.reachable_inv [OF assms] .
  then have "chain_ok P (ch_receipts (cy_chain y))"
    by (simp add: chain_system_inv_def Let_def)
  with commit_held [OF inv] show ?thesis
    unfolding VerifyReceiptChain_ok by simp
qed

theorem reservation_never_lost_witness:
  "\<exists>y rv r. (chain_step demo_platform)\<^sup>*\<^sup>* \<lparr>cy_chain = newReceiptChainState, cy_holder = None\<rparr> y
     \<and> cy_holder y = Some rv \<and> snd (commitAppend (cy_chain y) rv r False) = Ok r"
proof -
  let ?x = "\<lparr>cy_chain = newReceiptChainState, cy_holder = None\<rparr>"
  let ?y = "?x\<lparr>cy_chain := newReceiptChainState\<lparr>ch_appending := True\<rparr>, cy_holder := Some \<lparr>rv_index = 0, rv_prev_hash = 0\<rparr>\<rparr>"
  have "chain_step demo_platform ?x ?y"
    by (rule chain_step.reserve) (simp_all add: reserve_Ok newReceiptChainState_def lastHash_def)
  then have steps: "(chain_step demo_platform)\<^sup>*\<^sup>* ?x ?y" by blast
  have "chain_initial ?x" by (simp add: chain_initial_def)
  from reservation_never_lost [OF this steps] steps show ?thesis by auto
qed

end
