(* ===== verification/Lifecycle.thy ===== *)
theory Lifecycle
  imports ReceiptProvider Inbox "HOL-Library.Sublist"
begin

text \<open>
  The lifecycle state machine of one invocation: \<open>InvocationCore\<close> and \<open>EventStream\<close> of
  \<open>axon/invocation/handle.go\<close>.

  Every operation runs under the core's mutex, so each is one step.  The core calls two
  interfaces under that mutex, the receipt provider's \<open>AppendSignedReceipt\<close> and the
  persistence sink; they are the arguments \<open>app\<close> and \<open>sink\<close> with their own states, and
  the lemmas are proved in the interface \<open>receipt_log\<close>.  A call that has to wait returns
  \<open>Blocked\<close>; the code runs it again when the core has changed.  The channel \<open>terminal\<close> is
  the number of times it has been closed, because closing it twice panics.
\<close>

section \<open>State\<close>

text \<open>\<open>UnixMilli\<close> of an instant, the integer number of nanoseconds since the epoch.\<close>

definition unix_ms :: "int \<Rightarrow> i64" where
  "unix_ms now = word_of_int (now div 1000000)"

record invocation_event =
  ie_invocation_id :: string
  ie_sequence :: u64
  ie_type :: string
  ie_state :: invocation_state
  ie_timestamp :: i64
  ie_payload :: bytes
  ie_content_type :: string
  ie_parent :: string
  ie_reason :: string
  ie_child :: string

datatype terminal_owner = terminalOwnerNone | terminalOwnerCompletion | terminalOwnerFailure
  | terminalOwnerCallerCancel | terminalOwnerParentCancel | terminalOwnerDeadline | terminalOwnerRecovery

record 'c core =
  ic_invocation_id :: string
  ic_parent :: string
  ic_state :: invocation_state
  ic_events :: "invocation_event list"
  ic_terminal_closes :: nat
  ic_finalization_err :: "axon_error option"
  ic_terminal_claim :: terminal_owner
  ic_output_buffered :: int
  ic_acknowledged :: "u64 set"
  ic_deadline :: "int option"
  ic_context :: 'c

definition canonicalPendingCapacity :: nat where "canonicalPendingCapacity = 256"
definition canonicalStreamCapacity :: int where "canonicalStreamCapacity = 64"
definition canonicalTerminalPropagationMs :: int where "canonicalTerminalPropagationMs = 500"

definition newInvocationCore :: "string \<Rightarrow> string \<Rightarrow> 'c \<Rightarrow> int option \<Rightarrow> 'c core" where
  "newInvocationCore invocationID parent receiptContext deadline =
     \<lparr>ic_invocation_id = invocationID, ic_parent = parent, ic_state = StateUnspecified, ic_events = [],
      ic_terminal_closes = 0, ic_finalization_err = None, ic_terminal_claim = terminalOwnerNone,
      ic_output_buffered = 0, ic_acknowledged = {}, ic_deadline = deadline, ic_context = receiptContext\<rparr>"

definition core_IsTerminal :: "'c core \<Rightarrow> bool" where
  "core_IsTerminal c = state_IsTerminal (ic_state c)"

definition claimTerminal :: "'c core \<Rightarrow> terminal_owner \<Rightarrow> 'c core \<times> bool" where
  "claimTerminal c owner =
     (if core_IsTerminal c \<or> ic_terminal_claim c \<noteq> terminalOwnerNone then (c, False)
      else (c\<lparr>ic_terminal_claim := owner\<rparr>, True))"

definition terminalClaimed :: "'c core \<Rightarrow> bool" where
  "terminalClaimed c = (ic_terminal_claim c \<noteq> terminalOwnerNone)"

record lifecycle_snapshot =
  ls_state :: invocation_state
  ls_deadline_ms :: i64
  ls_output_capacity :: int
  ls_output_buffered :: int
  ls_output_overflow :: string
  ls_input_capacity :: int
  ls_input_buffered :: int
  ls_input_overflow :: string
  ls_propagation_ms :: int

text \<open>\<open>inputDepth\<close> is the installed callback, \<open>None\<close> for nil; the deadline is an instant,
  \<open>None\<close> for the zero time.\<close>

definition LifecycleSnapshot :: "'c core \<Rightarrow> nat option \<Rightarrow> lifecycle_snapshot" where
  "LifecycleSnapshot c inputDepth =
     \<lparr>ls_state = ic_state c, ls_deadline_ms = (case ic_deadline c of None \<Rightarrow> 0 | Some d \<Rightarrow> unix_ms d),
      ls_output_capacity = canonicalStreamCapacity, ls_output_buffered = ic_output_buffered c,
      ls_output_overflow = ''stream_backpressure_exhausted'',
      ls_input_capacity = canonicalBidiCapacity,
      ls_input_buffered = (case inputDepth of None \<Rightarrow> 0 | Some n \<Rightarrow> int n),
      ls_input_overflow = ''bidi_backpressure_exhausted'',
      ls_propagation_ms = canonicalTerminalPropagationMs\<rparr>"

definition failFinalization :: "'c core \<Rightarrow> axon_error \<Rightarrow> 'c core" where
  "failFinalization c err =
     (if core_IsTerminal c \<or> ic_finalization_err c \<noteq> None then c
      else c\<lparr>ic_finalization_err := Some (WithInvocationID err (ic_invocation_id c)),
             ic_terminal_closes := ic_terminal_closes c + 1\<rparr>)"

text \<open>What a waiter may observe: \<open>WaitTerminal\<close> returns when the channel is closed.\<close>

definition WaitTerminal :: "'c core \<Rightarrow> bool \<Rightarrow> invocation_state option" where
  "WaitTerminal c ctxDone = (if ic_terminal_closes c > 0 \<or> ctxDone then Some (ic_state c) else None)"

section \<open>Transitions\<close>

definition body_types :: "string list" where
  "body_types = [''progress'', ''message_received'', ''message_consumed'', ''child_spawned'', ''child_terminal'']"

definition expectedTransition :: "invocation_state \<Rightarrow> string \<Rightarrow> invocation_state \<Rightarrow> bool" where
  "expectedTransition current eventType target =
     (if eventType = ''accepted'' then current = StateUnspecified \<and> target = StateAccepted
      else if eventType = ''admitted'' then current = StateAccepted \<and> target = StateAdmitted
      else if eventType = ''dispatched'' then current = StateAdmitted \<and> target = StateDispatched
      else if eventType = ''running'' then current = StateDispatched \<and> target = StateRunning
      else if eventType \<in> set body_types then current = StateRunning \<and> target = StateRunning
      else if eventType = ''completed''
      then \<not> state_IsTerminal current \<and> current \<noteq> StateUnspecified \<and> target = StateCompleted
      else if eventType = ''failed''
      then \<not> state_IsTerminal current \<and> current \<noteq> StateUnspecified \<and> target = StateFailed
      else if eventType = ''timed_out''
      then \<not> state_IsTerminal current \<and> current \<noteq> StateUnspecified \<and> target = StateTimedOut
      else if eventType = ''cancelled''
      then \<not> state_IsTerminal current \<and> current \<noteq> StateUnspecified \<and> target = StateCancelled
      else False)"

section \<open>Emitting\<close>

record emission =
  em_type :: string
  em_state :: invocation_state
  em_payload :: bytes
  em_content_type :: string
  em_reason :: string
  em_cleanup_complete :: bool
  em_child :: string
  em_timestamp :: i64
  em_restoring :: bool

datatype emit_result =
    Emitted invocation_event "axon_error option"
  | EmitFailed axon_error
  | EmitPanicked go_error
  | EmitBlocked

definition in_core :: "'c core \<Rightarrow> axon_error \<Rightarrow> axon_error" where
  "in_core c e = WithInvocationID e (ic_invocation_id c)"

definition transition_error :: "'c core \<Rightarrow> emission \<Rightarrow> axon_error" where
  "transition_error c em = in_core c ((ErrInternal ''invalid_lifecycle_transition'')
     \<lparr>ae_message := ic_state c @ '':'' @ em_type em @ '':'' @ em_state em\<rparr>)"

text \<open>The guards of \<open>emitContext\<close>, in the code's order: \<open>None\<close> lets the event through.\<close>

definition emit_guard :: "'c core \<Rightarrow> emission \<Rightarrow> bool \<Rightarrow> emit_result option" where
  "emit_guard c em ctxDone =
     (if core_IsTerminal c
      then Some (EmitFailed (in_core c (ErrInvalidArgument ''invocation_terminal'')))
      else case ic_finalization_err c of Some e \<Rightarrow> Some (EmitFailed e) | None \<Rightarrow>
      if \<not> expectedTransition (ic_state c) (em_type em) (em_state em)
      then Some (EmitFailed (transition_error c em))
      else if \<not> em_restoring em \<and> terminalClaimed c \<and> em_type em \<noteq> ''child_terminal''
              \<and> \<not> state_IsTerminal (em_state em)
      then Some (EmitFailed (in_core c (ErrInvalidArgument ''invocation_terminal_pending'')))
      else if state_IsTerminal (em_state em) \<and> \<not> em_restoring em \<and> \<not> terminalClaimed c
      then Some (EmitFailed (in_core c (ErrInternal ''terminal_transition_without_owner'')))
      else if \<not> em_restoring em \<and> em_type em = ''progress''
              \<and> canonicalStreamCapacity \<le> ic_output_buffered c
      then Some (if ctxDone
                 then EmitFailed (in_core c (ErrCancelled ''stream_backpressure_wait_cancelled''))
                 else EmitBlocked)
      else None)"

definition emit_event :: "'c core \<Rightarrow> emission \<Rightarrow> i64 \<Rightarrow> invocation_event" where
  "emit_event c em now =
     \<lparr>ie_invocation_id = ic_invocation_id c, ie_sequence = word_of_nat (length (ic_events c)),
      ie_type = em_type em, ie_state = em_state em,
      ie_timestamp = (if em_timestamp em = 0 then now else em_timestamp em),
      ie_payload = em_payload em, ie_content_type = em_content_type em, ie_parent = ic_parent c,
      ie_reason = em_reason em, ie_child = em_child em\<rparr>"

definition emit_input :: "emission \<Rightarrow> i64 \<Rightarrow> append_input" where
  "emit_input em now =
     \<lparr>in_receipt_type = em_type em, in_state = em_state em,
      in_timestamp = (if em_timestamp em = 0 then now else em_timestamp em),
      in_payload = em_payload em, in_content_type = em_content_type em,
      in_cleanup_complete = em_cleanup_complete em, in_reason = em_reason em, in_child = em_child em,
      in_usage = empty_usage\<rparr>"

text \<open>The commit of an event whose receipt was appended.\<close>

definition emit_commit :: "'c core \<Rightarrow> emission \<Rightarrow> invocation_event \<Rightarrow> 'c core" where
  "emit_commit c em event =
     c\<lparr>ic_events := ic_events c @ [event], ic_state := em_state em,
       ic_output_buffered := ic_output_buffered c
          + (if em_type em = ''progress'' \<and> \<not> em_restoring em then 1 else 0),
       ic_terminal_closes := ic_terminal_closes c + (if state_IsTerminal (em_state em) then 1 else 0)\<rparr>"

definition append_failure :: "platform \<Rightarrow> 'c core \<Rightarrow> go_error \<Rightarrow> axon_error" where
  "append_failure P c e = (case e of
       AxonErr a \<Rightarrow> in_core c a
     | PlainErr s \<Rightarrow> in_core c (ErrInternal (''receipt_append_failed:'' @ s)))"

type_synonym ('s) persistence_sink = "'s \<Rightarrow> invocation_event \<Rightarrow> signed_receipt \<Rightarrow> 's \<times> go_error option"

definition emitContext ::
  "platform \<Rightarrow> ('p \<Rightarrow> 'c \<Rightarrow> append_input \<Rightarrow> 'p \<times> signed_receipt result) \<Rightarrow> 's persistence_sink option \<Rightarrow>
   'c core \<Rightarrow> 'p \<Rightarrow> 's \<Rightarrow> emission \<Rightarrow> i64 \<Rightarrow> bool \<Rightarrow> 'c core \<times> 'p \<times> 's \<times> emit_result" where
  "emitContext P app sink c p s em now ctxDone =
     (case emit_guard c em ctxDone of
        Some r \<Rightarrow> (c, p, s, r)
      | None \<Rightarrow>
          (case app p (ic_context c) (emit_input em now) of
             (p', Fail e) \<Rightarrow> (c, p', s, EmitFailed (append_failure P c e))
           | (p', Panic e) \<Rightarrow> (c, p', s, EmitPanicked e)
           | (p', Ok receipt) \<Rightarrow>
               (let event = emit_event c em now;
                    (s', persistenceErr) =
                      (case sink of
                         Some f \<Rightarrow> if em_restoring em then (s, None) else f s event receipt
                       | None \<Rightarrow> (s, None))
                in (emit_commit c em event, p', s',
                    Emitted event (map_option (\<lambda>e. in_core c (ErrInternal
                      (''lifecycle_persistence_failed:'' @ go_error_string (pf_quote P) e))) persistenceErr)))))"

section \<open>Persisted events and restoring\<close>

record persisted_event =
  pe_sequence :: u64
  pe_type :: string
  pe_state :: invocation_state
  pe_timestamp :: i64
  pe_payload :: bytes
  pe_content_type :: string
  pe_reason :: string
  pe_cleanup_complete :: bool
  pe_child :: string
  pe_receipt_hash :: hash32

definition restore_emission :: "persisted_event \<Rightarrow> emission" where
  "restore_emission e = \<lparr>em_type = pe_type e, em_state = pe_state e, em_payload = pe_payload e,
     em_content_type = pe_content_type e, em_reason = pe_reason e,
     em_cleanup_complete = pe_cleanup_complete e, em_child = pe_child e, em_timestamp = pe_timestamp e,
     em_restoring = True\<rparr>"

definition restoreEvent ::
  "platform \<Rightarrow> ('p \<Rightarrow> 'c \<Rightarrow> append_input \<Rightarrow> 'p \<times> signed_receipt result) \<Rightarrow> 's persistence_sink option \<Rightarrow>
   'c core \<Rightarrow> 'p \<Rightarrow> 's \<Rightarrow> persisted_event \<Rightarrow> i64 \<Rightarrow> 'c core \<times> 'p \<times> 's \<times> emit_result" where
  "restoreEvent P app sink c p s e now = emitContext P app sink c p s (restore_emission e) now False"

section \<open>Reading\<close>

definition acknowledge :: "'c core \<Rightarrow> invocation_event option \<Rightarrow> 'c core" where
  "acknowledge c event =
     (case event of None \<Rightarrow> c | Some e \<Rightarrow>
        if ie_type e \<noteq> ''progress'' \<or> ie_sequence e \<in> ic_acknowledged c then c
        else c\<lparr>ic_acknowledged := insert (ie_sequence e) (ic_acknowledged c),
               ic_output_buffered := ic_output_buffered c - (if 0 < ic_output_buffered c then 1 else 0)\<rparr>)"

text \<open>\<open>fetchEvents\<close>: \<open>None\<close> while it waits; \<open>stopped\<close> is the reader's own closed channel.\<close>

definition fetchEvents :: "'c core \<Rightarrow> u64 \<Rightarrow> bool \<Rightarrow> bool \<Rightarrow> invocation_event list option" where
  "fetchEvents c fromOffset stopped ctxDone =
     (if stopped then Some []
      else if fromOffset < word_of_nat (length (ic_events c)) then Some (drop (unat fromOffset) (ic_events c))
      else if core_IsTerminal c \<or> ic_finalization_err c \<noteq> None then Some []
      else if ctxDone then Some [] else None)"

record event_stream =
  es_offset :: u64
  es_buffer :: "invocation_event list"
  es_closed :: bool

definition Events :: "u64 \<Rightarrow> event_stream" where
  "Events fromOffset = \<lparr>es_offset = fromOffset, es_buffer = [], es_closed = False\<rparr>"

definition stream_Close :: "event_stream \<Rightarrow> event_stream" where
  "stream_Close s = s\<lparr>es_closed := True\<rparr>"

definition stream_Err :: "'c core \<Rightarrow> axon_error option" where
  "stream_Err c = ic_finalization_err c"

text \<open>\<open>Next\<close>: the new core and stream and the event, \<open>None\<close> while it waits.\<close>

definition stream_Next :: "'c core \<Rightarrow> event_stream \<Rightarrow> bool \<Rightarrow>
   ('c core \<times> event_stream \<times> invocation_event option) option" where
  "stream_Next c s ctxDone =
     (if es_closed s then Some (c, s, None)
      else case (if es_buffer s = []
                 then map_option (List.filter (\<lambda>e. es_offset s \<le> ie_sequence e))
                        (fetchEvents c (es_offset s) (es_closed s) ctxDone)
                 else Some (es_buffer s)) of
        None \<Rightarrow> None
      | Some [] \<Rightarrow> Some (c, s\<lparr>es_buffer := []\<rparr>, None)
      | Some (e # rest) \<Rightarrow>
          Some (acknowledge c (Some e), s\<lparr>es_buffer := rest, es_offset := ie_sequence e + 1\<rparr>, Some e))"

section \<open>Steps\<close>

text \<open>The core with the states of its two interfaces.\<close>

record ('c, 'p, 's) core_system =
  cz_core :: "'c core"
  cz_provider :: 'p
  cz_store :: 's

inductive core_step ::
  "platform \<Rightarrow> ('p \<Rightarrow> 'c \<Rightarrow> append_input \<Rightarrow> 'p \<times> signed_receipt result) \<Rightarrow> 's persistence_sink option \<Rightarrow>
   ('c, 'p, 's) core_system \<Rightarrow> ('c, 'p, 's) core_system \<Rightarrow> bool"
  for P app sink where
  emit: "emitContext P app sink (cz_core x) (cz_provider x) (cz_store x) em now ctxDone = (c, p, s, r)
     \<Longrightarrow> core_step P app sink x \<lparr>cz_core = c, cz_provider = p, cz_store = s\<rparr>"
| claim: "claimTerminal (cz_core x) owner = (c, ok)
     \<Longrightarrow> core_step P app sink x (x\<lparr>cz_core := c\<rparr>)"
| fail: "core_step P app sink x (x\<lparr>cz_core := failFinalization (cz_core x) err\<rparr>)"
| acknowledge: "e \<in> set (ic_events (cz_core x))
     \<Longrightarrow> core_step P app sink x (x\<lparr>cz_core := acknowledge (cz_core x) (Some e)\<rparr>)"

definition core_initial :: "'c \<Rightarrow> ('p \<Rightarrow> 'c \<Rightarrow> signed_receipt list) \<Rightarrow> ('p \<Rightarrow> bool) \<Rightarrow> ('c, 'p, 's) core_system \<Rightarrow> bool" where
  "core_initial ctx log good x =
     ((\<exists>i parent deadline. cz_core x = newInvocationCore i parent ctx deadline)
      \<and> good (cz_provider x) \<and> log (cz_provider x) ctx = [])"

section \<open>The abstract lifecycle\<close>

fun transitions :: "invocation_state \<Rightarrow> invocation_event list \<Rightarrow> bool" where
  "transitions s [] = True"
| "transitions s (e # es) = (expectedTransition s (ie_type e) (ie_state e) \<and> transitions (ie_state e) es)"

definition final_state :: "invocation_state \<Rightarrow> invocation_event list \<Rightarrow> invocation_state" where
  "final_state s es = (if es = [] then s else ie_state (last es))"

lemma transitions_snoc:
  "transitions s (es @ [e]) \<longleftrightarrow> transitions s es \<and> expectedTransition (final_state s es) (ie_type e) (ie_state e)"
  by (induction es arbitrary: s) (auto simp: final_state_def)

lemma final_state_snoc [simp]: "final_state s (es @ [e]) = ie_state e"
  by (simp add: final_state_def)

text \<open>The words of the lifecycle: a prefix of the handshake; behind the complete handshake any
  number of body events; behind at least one event possibly one terminal event.\<close>

definition handshake :: "string list" where
  "handshake = [''accepted'', ''admitted'', ''dispatched'', ''running'']"

definition terminal_types :: "string list" where
  "terminal_types = [''completed'', ''failed'', ''timed_out'', ''cancelled'']"

definition lifecycle_word :: "string list \<Rightarrow> bool" where
  "lifecycle_word ts = (\<exists>n body fin. ts = take n handshake @ body @ fin
     \<and> (body \<noteq> [] \<longrightarrow> 4 \<le> n) \<and> set body \<subseteq> set body_types
     \<and> (fin = [] \<or> (0 < n \<and> (\<exists>t\<in>set terminal_types. fin = [t]))))"

definition handshake_states :: "invocation_state list" where
  "handshake_states = [StateUnspecified, StateAccepted, StateAdmitted, StateDispatched, StateRunning]"

text \<open>Where a word leads: what the machine is in after it.\<close>

definition word_state :: "string list \<Rightarrow> invocation_state \<Rightarrow> bool" where
  "word_state ts s = (\<exists>n body fin. ts = take n handshake @ body @ fin
     \<and> n \<le> 4 \<and> (body \<noteq> [] \<longrightarrow> n = 4) \<and> set body \<subseteq> set body_types
     \<and> ((fin = [] \<and> s = handshake_states ! n)
        \<or> (0 < n \<and> (\<exists>t\<in>set terminal_types. fin = [t]) \<and> state_IsTerminal s)))"

lemma word_state_word:
  assumes "word_state ts s"
  shows "lifecycle_word ts"
proof -
  from assms obtain n body fin where "ts = take n handshake @ body @ fin" "body \<noteq> [] \<longrightarrow> n = 4"
      "set body \<subseteq> set body_types" "fin = [] \<or> (0 < n \<and> (\<exists>t\<in>set terminal_types. fin = [t]))"
    unfolding word_state_def by blast
  then show ?thesis unfolding lifecycle_word_def by (intro exI [of _ n] exI [of _ body] exI [of _ fin]) simp
qed

lemmas transition_defs = expectedTransition_def state_IsTerminal_def state_defs body_types_def

lemma expectedTransition_cases:
  assumes "expectedTransition s t s'"
  obtains (handshake) n where "n < 4" "t = handshake ! n"
      "s = handshake_states ! n"
      "s' = handshake_states ! Suc n"
  | (body) "t \<in> set body_types" "s = StateRunning" "s' = StateRunning"
  | (terminal) "t \<in> set terminal_types" "\<not> state_IsTerminal s" "s \<noteq> StateUnspecified" "state_IsTerminal s'"
proof (cases "t \<in> set handshake")
  case True
  then show ?thesis
    using assms that(1) [of 0] that(1) [of 1] that(1) [of 2] that(1) [of 3]
    by (auto simp: handshake_def expectedTransition_def handshake_states_def)
next
  case False
  then show ?thesis
    using assms that(2,3)
    by (auto simp: handshake_def expectedTransition_def terminal_types_def state_IsTerminal_def
        split: if_splits)
qed

lemma handshake_states_facts:
  "distinct handshake_states" "length handshake_states = 5" "handshake_states ! 0 = StateUnspecified"
  "handshake_states ! 4 = StateRunning" "list_all (\<lambda>s. \<not> state_IsTerminal s) handshake_states"
  "\<not> state_IsTerminal StateRunning"
  by code_simp+

lemma live_states:
  assumes "k \<le> 4"
  shows "(handshake_states ! k = StateUnspecified \<longrightarrow> k = 0) \<and> (handshake_states ! k = StateRunning \<longrightarrow> k = 4)
    \<and> (\<forall>n<4. handshake_states ! k = handshake_states ! n \<longrightarrow> k = n)"
proof -
  have "handshake_states ! k = handshake_states ! n \<Longrightarrow> n \<le> 4 \<Longrightarrow> k = n" for n
    using nth_eq_iff_index_eq [OF handshake_states_facts(1), of k n] assms handshake_states_facts(2) by simp
  from this [of 0] this [of 4] this show ?thesis
    using handshake_states_facts(3,4) by fastforce
qed

lemma live_transition: "expectedTransition s t s' \<Longrightarrow> \<not> state_IsTerminal s"
proof (elim expectedTransition_cases)
  fix n :: nat
  assume "n < 4" and "s = handshake_states ! n"
  then show ?thesis using handshake_states_facts(2,5) by (simp add: list_all_length)
qed (use handshake_states_facts in \<open>auto simp: list_all_length\<close>)

lemma word_state_step:
  assumes "word_state ts s" and "expectedTransition s t s'"
  shows "word_state (ts @ [t]) s'"
proof -
  from assms(1) obtain n body fin where ts: "ts = take n handshake @ body @ fin" "n \<le> 4"
      "body \<noteq> [] \<longrightarrow> n = 4" "set body \<subseteq> set body_types"
    and fin: "(fin = [] \<and> s = handshake_states ! n)
        \<or> (0 < n \<and> (\<exists>t\<in>set terminal_types. fin = [t]) \<and> state_IsTerminal s)"
    unfolding word_state_def by blast
  have s: "fin = []" "s = handshake_states ! n"
    using live_transition [OF assms(2)] fin by blast+
  from assms(2) show ?thesis
  proof (cases rule: expectedTransition_cases)
    case (handshake m)
    have "handshake_states ! n = handshake_states ! m" using s(2) handshake(3) by simp
    with handshake(1) live_states [OF ts(2)] have nm: "n = m" by blast
    then have "body = []" using ts(3) handshake(1) by auto
    moreover have "take (Suc m) handshake = take m handshake @ [handshake ! m]"
      using handshake(1) by (intro take_Suc_conv_app_nth) (simp add: handshake_def)
    ultimately have "ts @ [t] = take (Suc m) handshake @ [] @ []"
      using ts(1) s(1) nm handshake(2) by simp
    with handshake(1,4) show ?thesis unfolding word_state_def
      by (intro exI [of _ "Suc m"] exI [of _ "[]"]) simp
  next
    case body
    then have "n = 4" using live_states [OF ts(2)] s(2) by metis
    with body ts s have "ts @ [t] = take 4 handshake @ (body @ [t]) @ []" "set (body @ [t]) \<subseteq> set body_types"
      by auto
    with body handshake_states_facts(4) show ?thesis unfolding word_state_def
      by (intro exI [of _ 4] exI [of _ "body @ [t]"] exI [of _ "[]"]) simp
  next
    case terminal
    then have "0 < n" using s(2) handshake_states_facts(3) by (cases n) simp_all
    moreover have "ts @ [t] = take n handshake @ body @ [t]" using ts(1) s(1) by simp
    ultimately show ?thesis unfolding word_state_def using ts(2-4) terminal(1,4)
      by (intro exI [of _ n] exI [of _ body] exI [of _ "[t]"]) simp
  qed
qed

lemma transitions_word:
  "transitions StateUnspecified es \<Longrightarrow> word_state (map ie_type es) (final_state StateUnspecified es)"
proof (induction es rule: rev_induct)
  case Nil
  show ?case unfolding word_state_def final_state_def
    using handshake_states_facts(3) by (intro exI [of _ 0] exI [of _ "[]"]) simp
next
  case (snoc e es)
  then show ?case using word_state_step by (auto simp: transitions_snoc)
qed

section \<open>The core's invariant\<close>

text \<open>The receipt of an event.\<close>

definition event_matches :: "invocation_event \<Rightarrow> signed_receipt \<Rightarrow> bool" where
  "event_matches e r =
     (rc_receipt_type (sr_record r) = ie_type e \<and> rc_state (sr_record r) = ie_state e
      \<and> rc_timestamp (sr_record r) = ie_timestamp e \<and> rc_payload (sr_record r) = ie_payload e
      \<and> rc_reason (sr_record r) = ie_reason e \<and> rc_child (sr_record r) = ie_child e)"

definition machine_inv :: "'c core \<Rightarrow> bool" where
  "machine_inv c =
     (map ie_sequence (ic_events c) = map word_of_nat [0..<length (ic_events c)]
      \<and> transitions StateUnspecified (ic_events c)
      \<and> ic_state c = final_state StateUnspecified (ic_events c)
      \<and> ic_terminal_closes c = (if core_IsTerminal c \<or> ic_finalization_err c \<noteq> None then 1 else 0)
      \<and> \<not> (core_IsTerminal c \<and> ic_finalization_err c \<noteq> None)
      \<and> 0 \<le> ic_output_buffered c \<and> ic_output_buffered c \<le> canonicalStreamCapacity)"

lemma machine_inv_new: "machine_inv (newInvocationCore i parent ctx deadline)"
  by (simp add: machine_inv_def newInvocationCore_def final_state_def core_IsTerminal_def
      canonicalStreamCapacity_def state_IsTerminal_def state_defs)

text \<open>What a passed guard has established.\<close>

lemma emit_guard_None:
  assumes "emit_guard c em ctxDone = None"
  shows "\<not> core_IsTerminal c \<and> ic_finalization_err c = None
    \<and> expectedTransition (ic_state c) (em_type em) (em_state em)
    \<and> (state_IsTerminal (em_state em) \<longrightarrow> em_restoring em \<or> terminalClaimed c)
    \<and> (em_type em = ''progress'' \<longrightarrow> em_restoring em \<or> ic_output_buffered c < canonicalStreamCapacity)"
  using assms by (auto simp: emit_guard_def split: if_splits option.splits)

lemma machine_inv_commit:
  assumes "machine_inv c" and "emit_guard c em ctxDone = None"
  shows "machine_inv (emit_commit c em (emit_event c em now))"
  using assms(1) emit_guard_None [OF assms(2)]
  by (auto simp: machine_inv_def emit_commit_def emit_event_def transitions_snoc core_IsTerminal_def)

lemma machine_inv_claim: "machine_inv c \<Longrightarrow> machine_inv (fst (claimTerminal c owner))"
  by (simp add: claimTerminal_def machine_inv_def core_IsTerminal_def)

lemma machine_inv_fail: "machine_inv c \<Longrightarrow> machine_inv (failFinalization c err)"
  by (auto simp: failFinalization_def machine_inv_def core_IsTerminal_def)

lemma machine_inv_acknowledge: "machine_inv c \<Longrightarrow> machine_inv (acknowledge c e)"
  by (auto simp: acknowledge_def machine_inv_def core_IsTerminal_def split: option.splits)

section \<open>The core on any receipt log\<close>

context receipt_log
begin

definition system_inv :: "'c \<Rightarrow> ('c, 'p, 's) core_system \<Rightarrow> bool" where
  "system_inv ctx x =
     (machine_inv (cz_core x) \<and> ic_context (cz_core x) = ctx \<and> good (cz_provider x)
      \<and> list_all2 event_matches (ic_events (cz_core x)) (log (cz_provider x) ctx))"

lemma emit_cases:
  assumes "emitContext P append sink c p s em now ctxDone = (c', p', s', r)" and "good p"
  obtains (rejected) "c' = c" "p' = p" "s' = s" "\<And>e x. r \<noteq> Emitted e x"
  | (committed) receipt x where "emit_guard c em ctxDone = None"
      "append p (ic_context c) (emit_input em now) = (p', Ok receipt)"
      "c' = emit_commit c em (emit_event c em now)" "r = Emitted (emit_event c em now) x"
proof (cases "emit_guard c em ctxDone")
  case None
  obtain q res where a: "append p (ic_context c) (emit_input em now) = (q, res)" by fastforce
  show ?thesis
  proof (cases res)
    case (Ok receipt)
    with None a assms(1) that(2) show ?thesis
      by (auto simp: emitContext_def Let_def split: option.splits if_splits prod.splits)
  next
    case (Fail e)
    with refused [OF assms(2) a] None a assms(1) that(1) show ?thesis
      by (auto simp: emitContext_def)
  next
    case (Panic e)
    with refused [OF assms(2) a] None a assms(1) that(1) show ?thesis
      by (auto simp: emitContext_def)
  qed
next
  case (Some r0)
  then have "\<And>e x. r0 \<noteq> Emitted e x"
    by (auto simp: emit_guard_def split: if_splits option.splits)
  with Some assms(1) that(1) show ?thesis by (auto simp: emitContext_def)
qed

lemma emitted_matches:
  "records (emit_input em now) r \<Longrightarrow> event_matches (emit_event c em now) r"
  by (simp add: records_def emit_input_def event_matches_def emit_event_def)

lemma emit_commit_sel [simp]:
  "ic_events (emit_commit c em e) = ic_events c @ [e]" "ic_context (emit_commit c em e) = ic_context c"
  by (simp_all add: emit_commit_def)

lemma system_inv_kept:
  assumes "core_step P append sink x y" and "system_inv ctx x"
  shows "system_inv ctx y"
  using assms(1)
proof cases
  case (emit em now ctxDone c p s r)
  have g: "good (cz_provider x)" using assms(2) by (simp add: system_inv_def)
  from emit(2) g show ?thesis
  proof (cases rule: emit_cases)
    case rejected
    with emit(1) assms(2) show ?thesis by (cases x) simp
  next
    case (committed receipt pe)
    from assms(2) committed(2) have "append (cz_provider x) ctx (emit_input em now) = (p, Ok receipt)"
      by (simp add: system_inv_def)
    note a = appended [OF g this] good_kept [OF g this]
    then have "list_all2 event_matches (ic_events (cz_core x) @ [emit_event (cz_core x) em now])
        (log p ctx)"
      using assms(2) emitted_matches [of em now receipt "cz_core x"]
      by (auto simp: system_inv_def intro: list_all2_appendI)
    with a(2) machine_inv_commit [OF _ committed(1)] assms(2) committed(3) emit(1)
    show ?thesis by (simp add: system_inv_def)
  qed
next
  case (claim owner c ok)
  then have c: "c = fst (claimTerminal (cz_core x) owner)" by simp
  have "ic_events c = ic_events (cz_core x) \<and> ic_context c = ic_context (cz_core x)"
    by (simp add: c claimTerminal_def)
  with claim(1) assms(2) c show ?thesis by (simp add: system_inv_def machine_inv_claim)
next
  case (fail err)
  have "ic_events (failFinalization (cz_core x) err) = ic_events (cz_core x)
      \<and> ic_context (failFinalization (cz_core x) err) = ic_context (cz_core x)"
    by (simp add: failFinalization_def)
  with fail assms(2) show ?thesis by (simp add: system_inv_def machine_inv_fail)
next
  case (acknowledge e)
  have "ic_events (Lifecycle.acknowledge (cz_core x) (Some e)) = ic_events (cz_core x)
      \<and> ic_context (Lifecycle.acknowledge (cz_core x) (Some e)) = ic_context (cz_core x)"
    by (simp add: acknowledge_def)
  with acknowledge assms(2) show ?thesis by (simp add: system_inv_def machine_inv_acknowledge)
qed

lemma system_inv_initially: "core_initial ctx log good x \<Longrightarrow> system_inv ctx x"
  using machine_inv_new by (auto simp: core_initial_def system_inv_def newInvocationCore_def)

lemma system_inv_reachable:
  assumes "core_initial ctx log good x" and "(core_step P append sink)\<^sup>*\<^sup>* x y"
  shows "system_inv ctx y"
  using assms(2) system_inv_initially [OF assms(1)]
  by (induction rule: rtranclp_induct) (auto intro: system_inv_kept)

text \<open>Nothing that a step adds is taken back, and nothing is added behind the end.\<close>

definition core_grows :: "('c, 'p, 's) core_system \<Rightarrow> ('c, 'p, 's) core_system \<Rightarrow> bool" where
  "core_grows x y =
     ((\<exists>more. ic_events (cz_core y) = ic_events (cz_core x) @ more)
      \<and> (terminalClaimed (cz_core x) \<longrightarrow> ic_terminal_claim (cz_core y) = ic_terminal_claim (cz_core x))
      \<and> (core_IsTerminal (cz_core x) \<or> ic_finalization_err (cz_core x) \<noteq> None \<longrightarrow>
           ic_events (cz_core y) = ic_events (cz_core x) \<and> ic_state (cz_core y) = ic_state (cz_core x)
           \<and> ic_finalization_err (cz_core y) = ic_finalization_err (cz_core x)))"

lemma core_grows_refl: "core_grows x x"
  by (simp add: core_grows_def)

lemma core_grows_trans: "core_grows x y \<Longrightarrow> core_grows y z \<Longrightarrow> core_grows x z"
  by (auto simp: core_grows_def core_IsTerminal_def terminalClaimed_def)

lemma core_step_grows:
  assumes "core_step P append sink x y" and "good (cz_provider x)"
  shows "core_grows x y"
  using assms(1)
proof cases
  case (emit em now ctxDone c p s r)
  from emit(2) assms(2) show ?thesis
  proof (cases rule: emit_cases)
    case rejected
    with emit(1) show ?thesis by (simp add: core_grows_def)
  next
    case (committed receipt pe)
    with emit(1) emit_guard_None [OF committed(1)] show ?thesis
      by (auto simp: core_grows_def emit_commit_def)
  qed
qed (auto simp: core_grows_def claimTerminal_def terminalClaimed_def failFinalization_def acknowledge_def
    split: if_splits)

lemma core_steps_grow:
  assumes "(core_step P append sink)\<^sup>*\<^sup>* x y" and "system_inv ctx x"
  shows "core_grows x y"
  using assms(1)
proof (induction rule: rtranclp_induct)
  case (step y z)
  have "system_inv ctx y"
    using step(1) assms(2) by (induction rule: rtranclp_induct) (auto intro: system_inv_kept)
  then have "core_grows y z"
    using core_step_grows [OF step(2)] by (simp add: system_inv_def)
  with step(3) show ?case by (rule core_grows_trans)
qed (rule core_grows_refl)

end

section \<open>Readers\<close>

text \<open>What a reader opened at an offset has seen, while the core grows under it.\<close>

inductive read_history :: "u64 \<Rightarrow> 'c core \<Rightarrow> event_stream \<Rightarrow> invocation_event list \<Rightarrow> bool" for off where
  opened: "machine_inv c \<Longrightarrow> read_history off c (Events off) []"
| grown: "\<lbrakk>read_history off c s out; machine_inv c'; ic_events c' = ic_events c @ new\<rbrakk>
     \<Longrightarrow> read_history off c' s out"
| read: "\<lbrakk>read_history off c s out; stream_Next c s ctxDone = Some (c', s', Some e)\<rbrakk>
     \<Longrightarrow> read_history off c' s' (out @ [e])"

definition reader_inv :: "u64 \<Rightarrow> 'c core \<Rightarrow> event_stream \<Rightarrow> invocation_event list \<Rightarrow> bool" where
  "reader_inv off c s out =
     (machine_inv c \<and> prefix out (drop (unat off) (ic_events c))
      \<and> es_offset s = off + word_of_nat (length out)
      \<and> prefix (es_buffer s) (drop (unat off + length out) (ic_events c)))"

lemma acknowledge_events [simp]: "ic_events (acknowledge c e) = ic_events c"
  by (auto simp: acknowledge_def split: option.splits)

lemma prefix_drop_append: "prefix out (drop n xs) \<Longrightarrow> prefix out (drop n (xs @ ys))"
  by (auto simp: prefix_def)

lemma prefix_drop_Cons:
  assumes "prefix (e # rest) (drop n xs)"
  shows "n < length xs \<and> e = xs ! n \<and> prefix rest (drop (Suc n) xs)"
proof -
  have "n < length xs"
    using prefix_length_le [OF assms] by simp
  with assms Cons_nth_drop_Suc [OF this, symmetric] show ?thesis by simp
qed

lemma sequence_nth:
  assumes "machine_inv c" and "i < length (ic_events c)"
  shows "ie_sequence (ic_events c ! i) = word_of_nat i"
proof -
  have "map ie_sequence (ic_events c) ! i = map word_of_nat [0..<length (ic_events c)] ! i"
    using assms(1) by (simp add: machine_inv_def)
  with assms(2) show ?thesis by simp
qed

lemma drop_filter:
  assumes "machine_inv c" and "length (ic_events c) < 2 ^ 64"
  shows "List.filter (\<lambda>e. word_of_nat n \<le> ie_sequence e) (drop n (ic_events c)) = drop n (ic_events c)"
proof -
  have "\<forall>e\<in>set (drop n (ic_events c)). word_of_nat n \<le> ie_sequence e"
  proof
    fix e
    assume "e \<in> set (drop n (ic_events c))"
    then obtain i where i: "i < length (ic_events c) - n" "e = ic_events c ! (n + i)"
      by (auto simp: in_set_conv_nth)
    then have e: "ie_sequence e = word_of_nat (n + i)"
      using sequence_nth [OF assms(1), of "n + i"] by simp
    have "n + i < 2 ^ 64" using i assms(2) by simp
    then have "unat (word_of_nat n :: u64) = n" "unat (word_of_nat (n + i) :: u64) = n + i"
      by (simp_all add: unat_of_nat take_bit_nat_eq_self del: of_nat_add)
    with e show "word_of_nat n \<le> ie_sequence e"
      by (simp add: word_le_nat_alt del: of_nat_add)
  qed
  then show ?thesis by (simp add: filter_id_conv)
qed

lemma reader_position:
  assumes "prefix out (drop (unat (off::u64)) xs)" and "length xs < 2 ^ 64"
  shows "unat (off + word_of_nat (length out)) = unat off + length out"
proof -
  have "length out = 0 \<or> unat off + length out \<le> length xs"
    using prefix_length_le [OF assms(1)] by (cases "unat off \<le> length xs") auto
  then have "unat off + length out < 2 ^ 64"
    using assms(2) unsigned_less [of off] by auto
  then show ?thesis
    by (simp add: unat_word_ariths unat_of_nat take_bit_nat_eq_self)
qed

lemma reader_batch:
  assumes "machine_inv c" and "length (ic_events c) < 2 ^ 64" and "unat (es_offset s) = n"
    and "prefix (es_buffer s) (drop n (ic_events c))"
    and "stream_Next c s ctxDone = Some (c', s', Some e)"
  obtains rest where "prefix (e # rest) (drop n (ic_events c))"
    "s' = s\<lparr>es_buffer := rest, es_offset := ie_sequence e + 1\<rparr>" "c' = acknowledge c (Some e)"
proof (cases "es_buffer s")
  case (Cons x xs)
  with assms(5) have "e = x" "s' = s\<lparr>es_buffer := xs, es_offset := ie_sequence e + 1\<rparr>" "c' = acknowledge c (Some e)"
    by (auto simp: stream_Next_def split: if_splits)
  with Cons assms(4) that [of xs] show thesis by simp
next
  case Nil
  have offset: "word_of_nat n = es_offset s" using assms(3) by auto
  have "List.filter (\<lambda>e. es_offset s \<le> ie_sequence e) (drop n (ic_events c)) = drop n (ic_events c)"
    using drop_filter [OF assms(1,2), of n] offset by simp
  with assms(3,5) Nil obtain rest where "drop n (ic_events c) = e # rest"
      "s' = s\<lparr>es_buffer := rest, es_offset := ie_sequence e + 1\<rparr>" "c' = acknowledge c (Some e)"
    by (auto simp: stream_Next_def fetchEvents_def split: if_splits list.splits)
  with that [of rest] show thesis by simp
qed

lemma reader_next:
  assumes "reader_inv off c s out" and "length (ic_events c) < 2 ^ 64"
    and "stream_Next c s ctxDone = Some (c', s', Some e)"
  shows "reader_inv off c' s' (out @ [e])"
proof -
  let ?n = "unat off + length out"
  have inv: "machine_inv c" "prefix out (drop (unat off) (ic_events c))"
    "es_offset s = off + word_of_nat (length out)"
    "prefix (es_buffer s) (drop ?n (ic_events c))"
    using assms(1) by (simp_all add: reader_inv_def)
  have pos: "unat (es_offset s) = ?n"
    using reader_position [OF inv(2) assms(2)] inv(3) by simp
  obtain rest where batch: "prefix (e # rest) (drop ?n (ic_events c))"
    and s': "s' = s\<lparr>es_buffer := rest, es_offset := ie_sequence e + 1\<rparr>" and c': "c' = acknowledge c (Some e)"
    using reader_batch [OF inv(1) assms(2) pos inv(4) assms(3)] by blast
  note e = prefix_drop_Cons [OF batch]
  have "prefix (out @ [drop (unat off) (ic_events c) ! length out]) (drop (unat off) (ic_events c))"
    using inv(2) e by (intro append_one_prefix) auto
  moreover have "ie_sequence e = off + word_of_nat (length out)"
    using sequence_nth [OF inv(1), of ?n] e by simp
  ultimately show ?thesis
    using inv(1) s' c' e by (simp add: reader_inv_def machine_inv_acknowledge)
qed

lemma reader_grows:
  assumes "reader_inv off c s out" and "machine_inv c'" and "ic_events c' = ic_events c @ new"
  shows "reader_inv off c' s out"
  using assms prefix_drop_append by (auto simp: reader_inv_def simp del: drop_append)

lemma stream_Next_events: "stream_Next c s ctxDone = Some (c', s', r) \<Longrightarrow> ic_events c' = ic_events c"
  by (auto simp: stream_Next_def split: if_splits option.splits list.splits)

lemma read_history_inv:
  "read_history off c s out \<Longrightarrow> length (ic_events c) < 2 ^ 64 \<Longrightarrow> reader_inv off c s out"
proof (induction rule: read_history.induct)
  case (read c s out ctxDone c' s' e)
  have "length (ic_events c) < 2 ^ 64"
    using read(4) stream_Next_events [OF read(2)] by simp
  with reader_next [OF read(3) _ read(2)] show ?case by blast
next
  case (grown c s out c' new)
  then have "length (ic_events c) < 2 ^ 64" by simp
  with grown reader_grows show ?case by blast
qed (simp add: reader_inv_def Events_def)

section \<open>A sample run\<close>

definition demo_emission :: "string \<Rightarrow> invocation_state \<Rightarrow> emission" where
  "demo_emission ty st = \<lparr>em_type = ty, em_state = st, em_payload = [], em_content_type = [], em_reason = [],
     em_cleanup_complete = True, em_child = [], em_timestamp = 1, em_restoring = False\<rparr>"

type_synonym demo_system = "(bound_context option, provider, unit) core_system"

definition demo_start :: demo_system where
  "demo_start = \<lparr>cz_core = newInvocationCore ''i'' [] (Some demo_context) None, cz_provider = demo_provider, cz_store = ()\<rparr>"

abbreviation demo_step :: "demo_system \<Rightarrow> demo_system \<Rightarrow> bool" where
  "demo_step \<equiv> core_step demo_platform (AppendSignedReceipt demo_platform demo_resolve) None"

lemma demo_start_initial:
  "core_initial (Some demo_context) context_log (provider_inv demo_platform) demo_start"
  using demo_provider_inv
  by (auto simp: core_initial_def demo_start_def context_log_def SnapshotSignedReceipts_def demo_provider_def
      chain_snapshot_def newReceiptChainState_def demo_context_def)

lemma demo_emit:
  assumes "emit_guard (cz_core x) (demo_emission ty st) False = None"
    and "ic_context (cz_core x) = Some demo_context"
    and "\<not> blank ty" and "st \<noteq> StateUnspecified" and "st = map ascii_upper st"
    and "pv_contexts (cz_provider x) = pv_contexts demo_provider"
    and "pv_chains (cz_provider x) ''i'' = Some ch" and "\<not> ch_terminal ch"
  shows "\<exists>y ch'. demo_step x y \<and> pv_contexts (cz_provider y) = pv_contexts demo_provider
    \<and> pv_chains (cz_provider y) ''i'' = Some ch' \<and> ch_terminal ch' = state_IsTerminal st
    \<and> cz_core y = emit_commit (cz_core x) (demo_emission ty st) (emit_event (cz_core x) (demo_emission ty st) 0)"
proof -
  let ?em = "demo_emission ty st"
  obtain p' r where a: "AppendSignedReceipt demo_platform demo_resolve (cz_provider x) (Some demo_context) (emit_input ?em 0)
        = (p', Ok r)" "pv_contexts p' = pv_contexts (cz_provider x)"
      "pv_chains p' ''i'' = Some (ch\<lparr>ch_receipts := ch_receipts ch @ [r],
        ch_terminal := state_IsTerminal st, ch_appending := False\<rparr>)"
    using demo_append_any [of "emit_input ?em 0" "cz_provider x" ch] assms
    by (auto simp: emit_input_def demo_emission_def)
  then have "emitContext demo_platform (AppendSignedReceipt demo_platform demo_resolve) None (cz_core x)
      (cz_provider x) (cz_store x) ?em 0 False
      = (emit_commit (cz_core x) ?em (emit_event (cz_core x) ?em 0), p', (), Emitted (emit_event (cz_core x) ?em 0) None)"
    using assms(1,2) by (simp add: emitContext_def Let_def)
  from core_step.emit [OF this] a assms(6) show ?thesis by fastforce
qed

text \<open>Accepted, claimed by a failure, and failed.\<close>

lemma demo_words:
  "\<not> blank ''accepted''" "\<not> blank ''failed''" "StateAccepted = map ascii_upper StateAccepted"
  "StateFailed = map ascii_upper StateFailed" "StateAccepted \<noteq> StateUnspecified" "StateFailed \<noteq> StateUnspecified"
  "\<not> state_IsTerminal StateAccepted" "\<not> state_IsTerminal StateUnspecified" "state_IsTerminal StateFailed"
  "expectedTransition StateUnspecified ''accepted'' StateAccepted"
  "expectedTransition StateAccepted ''failed'' StateFailed"
  by code_simp+

lemma demo_start_sel [simp]:
  "cz_core demo_start = newInvocationCore ''i'' [] (Some demo_context) None"
  "pv_contexts (cz_provider demo_start) = pv_contexts demo_provider"
  "pv_chains (cz_provider demo_start) ''i'' = Some newReceiptChainState"
  "\<not> ch_terminal newReceiptChainState"
  by (simp_all add: demo_start_def demo_provider_def newReceiptChainState_def)

lemma demo_accept:
  "\<exists>y ch. demo_step demo_start y \<and> pv_contexts (cz_provider y) = pv_contexts demo_provider
    \<and> pv_chains (cz_provider y) ''i'' = Some ch \<and> \<not> ch_terminal ch
    \<and> map ie_type (ic_events (cz_core y)) = [''accepted''] \<and> ic_state (cz_core y) = StateAccepted
    \<and> ic_terminal_claim (cz_core y) = terminalOwnerNone \<and> ic_finalization_err (cz_core y) = None
    \<and> ic_context (cz_core y) = Some demo_context"
proof -
  let ?c = "newInvocationCore ''i'' [] (Some demo_context) None" and ?em = "demo_emission ''accepted'' StateAccepted"
  have guard: "emit_guard (cz_core demo_start) ?em False = None"
    using demo_words by (simp add: emit_guard_def newInvocationCore_def core_IsTerminal_def
        demo_emission_def terminalClaimed_def)
  have ctx: "ic_context (cz_core demo_start) = Some demo_context"
    by (simp add: newInvocationCore_def)
  obtain y ch where y: "demo_step demo_start y" "pv_contexts (cz_provider y) = pv_contexts demo_provider"
      "pv_chains (cz_provider y) ''i'' = Some ch" "ch_terminal ch = state_IsTerminal StateAccepted"
      and core: "cz_core y = emit_commit (cz_core demo_start) ?em (emit_event (cz_core demo_start) ?em 0)"
    using demo_emit [OF guard ctx demo_words(1,5,3) demo_start_sel(2,3,4)] by blast
  have "map ie_type (ic_events (cz_core y)) = [''accepted''] \<and> ic_state (cz_core y) = StateAccepted
    \<and> ic_terminal_claim (cz_core y) = terminalOwnerNone \<and> ic_finalization_err (cz_core y) = None
    \<and> ic_context (cz_core y) = Some demo_context"
    unfolding core by (simp add: emit_commit_def emit_event_def demo_emission_def newInvocationCore_def)
  with y demo_words(7) show ?thesis by (intro exI [of _ y] exI [of _ ch]) simp
qed

lemma demo_lifecycle:
  "\<exists>y. demo_step\<^sup>*\<^sup>* demo_start y \<and> map ie_type (ic_events (cz_core y)) = [''accepted'', ''failed'']
     \<and> ic_state (cz_core y) = StateFailed"
proof -
  let ?em = "demo_emission ''failed'' StateFailed"
  obtain y ch where y: "demo_step demo_start y" "pv_contexts (cz_provider y) = pv_contexts demo_provider"
      "pv_chains (cz_provider y) ''i'' = Some ch" "\<not> ch_terminal ch"
      "map ie_type (ic_events (cz_core y)) = [''accepted'']" "ic_state (cz_core y) = StateAccepted"
      "ic_terminal_claim (cz_core y) = terminalOwnerNone" "ic_finalization_err (cz_core y) = None"
      "ic_context (cz_core y) = Some demo_context"
    using demo_accept by (elim exE conjE) (rule that)
  let ?z = "y\<lparr>cz_core := (cz_core y)\<lparr>ic_terminal_claim := terminalOwnerFailure\<rparr>\<rparr>"
  have "claimTerminal (cz_core y) terminalOwnerFailure
      = ((cz_core y)\<lparr>ic_terminal_claim := terminalOwnerFailure\<rparr>, True)"
    using y(6,7) demo_words(7) by (simp add: claimTerminal_def core_IsTerminal_def)
  from core_step.claim [OF this] have z: "demo_step y ?z" .
  have guard: "emit_guard (cz_core ?z) ?em False = None"
    using demo_words y(6,8) by (simp add: emit_guard_def core_IsTerminal_def
        demo_emission_def terminalClaimed_def)
  have zsel: "ic_context (cz_core ?z) = Some demo_context"
    "pv_contexts (cz_provider ?z) = pv_contexts demo_provider" "pv_chains (cz_provider ?z) ''i'' = Some ch"
    using y by simp_all
  obtain w where w: "demo_step ?z w"
      "cz_core w = emit_commit (cz_core ?z) ?em (emit_event (cz_core ?z) ?em 0)"
    using demo_emit [OF guard zsel(1) demo_words(2,6,4) zsel(2,3) y(4)] by blast
  have "map ie_type (ic_events (cz_core w)) = [''accepted'', ''failed''] \<and> ic_state (cz_core w) = StateFailed"
    unfolding w(2) using y(5) by (simp add: emit_commit_def emit_event_def demo_emission_def)
  moreover have "demo_step\<^sup>*\<^sup>* demo_start w"
    by (rule rtranclp.rtrancl_into_rtrancl [OF rtranclp.rtrancl_into_rtrancl
          [OF rtranclp.rtrancl_into_rtrancl [OF rtranclp.rtrancl_refl [of demo_step demo_start] y(1)] z] w(1)])
  ultimately show ?thesis by (intro exI [of _ w]) simp
qed

end
