(* ===== verification/LifecycleProperties.thy ===== *)
theory LifecycleProperties
  imports Lifecycle
begin

text \<open>
  The properties of the lifecycle state machine of \<open>axon/invocation/handle.go\<close> running on
  the default receipt provider: for every interleaving of emissions, terminal claims,
  finalization failures and acknowledgements.
\<close>

abbreviation default_step ::
  "platform \<Rightarrow> authority_resolver \<Rightarrow> 's persistence_sink option \<Rightarrow>
   (bound_context option, provider, 's) core_system \<Rightarrow> (bound_context option, provider, 's) core_system \<Rightarrow> bool"
  where "default_step P resolve sink \<equiv> core_step P (AppendSignedReceipt P resolve) sink"

text \<open>C6: the lifecycle.  Whatever is emitted, the event types an invocation ever shows are a
  prefix of the handshake accepted, admitted, dispatched, running, then body events only
  behind the complete handshake, then at most one terminal event; the state is that of the
  last event, sequence numbers are the positions, and the terminal channel is closed at
  most once.\<close>

theorem lifecycle_conforms:
  assumes "core_initial ctx context_log (provider_inv P) x" and "(default_step P resolve sink)\<^sup>*\<^sup>* x y"
  shows "lifecycle_word (map ie_type (ic_events (cz_core y)))
    \<and> ic_state (cz_core y) = final_state StateUnspecified (ic_events (cz_core y))
    \<and> map ie_sequence (ic_events (cz_core y)) = map word_of_nat [0..<length (ic_events (cz_core y))]
    \<and> ic_terminal_closes (cz_core y) \<le> 1"
proof -
  have "machine_inv (cz_core y)"
    using default_log.system_inv_reachable [OF assms] by (simp add: default_log.system_inv_def)
  then show ?thesis
    using word_state_word [OF transitions_word] by (auto simp: machine_inv_def)
qed

theorem lifecycle_conforms_witness:
  "\<exists>y. demo_step\<^sup>*\<^sup>* demo_start y \<and> lifecycle_word (map ie_type (ic_events (cz_core y)))
     \<and> map ie_type (ic_events (cz_core y)) = [''accepted'', ''failed'']"
proof -
  obtain y where y: "demo_step\<^sup>*\<^sup>* demo_start y"
      "map ie_type (ic_events (cz_core y)) = [''accepted'', ''failed'']"
    using demo_lifecycle by (elim exE conjE) (rule that)
  from lifecycle_conforms [OF demo_start_initial y(1)] y show ?thesis by (intro exI [of _ y]) simp
qed

text \<open>C7: the end is final.  Once an invocation is terminal, or its finalization has failed,
  no step changes its events, its state or that failure any more, and every wait returns
  that same state.\<close>

theorem terminal_absorbing:
  assumes "core_initial ctx context_log (provider_inv P) x" and "(default_step P resolve sink)\<^sup>*\<^sup>* x y"
    and "core_IsTerminal (cz_core y) \<or> ic_finalization_err (cz_core y) \<noteq> None"
    and "(default_step P resolve sink)\<^sup>*\<^sup>* y z"
  shows "ic_events (cz_core z) = ic_events (cz_core y) \<and> ic_state (cz_core z) = ic_state (cz_core y)
    \<and> ic_finalization_err (cz_core z) = ic_finalization_err (cz_core y)
    \<and> WaitTerminal (cz_core z) False = Some (ic_state (cz_core y))"
proof -
  have y: "default_log.system_inv P ctx y"
    using default_log.system_inv_reachable [OF assms(1,2)] .
  have "machine_inv (cz_core z)"
    using default_log.system_inv_reachable [OF assms(1) rtranclp_trans [OF assms(2,4)]]
    by (simp add: default_log.system_inv_def)
  then show ?thesis
    using default_log.core_steps_grow [OF assms(4) y] assms(3)
    by (auto simp: default_log.core_grows_def machine_inv_def WaitTerminal_def core_IsTerminal_def)
qed

theorem terminal_absorbing_witness:
  "\<exists>y. demo_step\<^sup>*\<^sup>* demo_start y \<and> core_IsTerminal (cz_core y)
     \<and> WaitTerminal (cz_core y) False = Some StateFailed"
proof -
  obtain y where y: "demo_step\<^sup>*\<^sup>* demo_start y" "ic_state (cz_core y) = StateFailed"
    using demo_lifecycle by (elim exE conjE) (rule that)
  then have "core_IsTerminal (cz_core y)"
    using demo_words(9) by (simp add: core_IsTerminal_def)
  with terminal_absorbing [OF demo_start_initial y(1) _ rtranclp.rtrancl_refl] y show ?thesis
    by (intro exI [of _ y]) simp
qed

text \<open>C9: events and signed receipts are the same history: at every moment the provider's chain
  of the invocation has one receipt for each event, in order, with its type, state,
  timestamp, payload, reason and child.\<close>

theorem events_are_receipts:
  assumes "core_initial ctx context_log (provider_inv P) x" and "(default_step P resolve sink)\<^sup>*\<^sup>* x y"
  shows "list_all2 event_matches (ic_events (cz_core y)) (context_log (cz_provider y) ctx)"
  using default_log.system_inv_reachable [OF assms] by (simp add: default_log.system_inv_def)

theorem events_are_receipts_witness:
  "\<exists>y. demo_step\<^sup>*\<^sup>* demo_start y \<and> length (context_log (cz_provider y) (Some demo_context)) = 2"
proof -
  obtain y where y: "demo_step\<^sup>*\<^sup>* demo_start y"
      "map ie_type (ic_events (cz_core y)) = [''accepted'', ''failed'']"
    using demo_lifecycle by (elim exE conjE) (rule that)
  have "length (ic_events (cz_core y)) = 2"
    using arg_cong [OF y(2), of length] by simp
  with list_all2_lengthD [OF events_are_receipts [OF demo_start_initial y(1)]] y show ?thesis
    by (intro exI [of _ y]) simp
qed

text \<open>Back-pressure is bounded: the number of progress events counted as undelivered stays
  between zero and the stream capacity of 64.\<close>

theorem output_bounded:
  assumes "core_initial ctx context_log (provider_inv P) x" and "(default_step P resolve sink)\<^sup>*\<^sup>* x y"
  shows "0 \<le> ic_output_buffered (cz_core y) \<and> ic_output_buffered (cz_core y) \<le> 64"
  using default_log.system_inv_reachable [OF assms]
  by (simp add: default_log.system_inv_def machine_inv_def canonicalStreamCapacity_def)

theorem output_bounded_witness:
  "ic_output_buffered (cz_core demo_start) \<le> 64"
  using output_bounded [OF demo_start_initial rtranclp.rtrancl_refl] by blast

text \<open>A terminal event needs an owner, and there is one.  Outside recovery a terminal event
  is emitted only when the terminal has been claimed; a claim is granted only once, and
  from then on it stays with its owner.\<close>

theorem terminal_has_one_owner:
  assumes "core_initial ctx context_log (provider_inv P) x" and "(default_step P resolve sink)\<^sup>*\<^sup>* x y"
  shows "(emitContext P (AppendSignedReceipt P resolve) sink (cz_core y) (cz_provider y) (cz_store y) em now d
            = (c, p, s, Emitted e pe) \<and> state_IsTerminal (em_state em) \<and> \<not> em_restoring em
          \<longrightarrow> terminalClaimed (cz_core y))
    \<and> (terminalClaimed (cz_core y) \<longrightarrow> \<not> snd (claimTerminal (cz_core y) owner)
          \<and> ((default_step P resolve sink)\<^sup>*\<^sup>* y z \<longrightarrow>
               ic_terminal_claim (cz_core z) = ic_terminal_claim (cz_core y)))"
proof -
  have y: "default_log.system_inv P ctx y"
    using default_log.system_inv_reachable [OF assms] .
  have "terminalClaimed (cz_core y)"
    if e: "emitContext P (AppendSignedReceipt P resolve) sink (cz_core y) (cz_provider y) (cz_store y) em now d
      = (c, p, s, Emitted e pe)" "state_IsTerminal (em_state em)" "\<not> em_restoring em"
  proof -
    have good: "provider_inv P (cz_provider y)" using y by (simp add: default_log.system_inv_def)
    from e(1) good show ?thesis
    proof (cases rule: default_log.emit_cases)
      case rejected
      then show ?thesis by blast
    next
      case (committed receipt pe')
      from emit_guard_None [OF committed(1)] e(2,3) show ?thesis by blast
    qed
  qed
  moreover have "default_log.core_grows y z" if "(default_step P resolve sink)\<^sup>*\<^sup>* y z"
    using default_log.core_steps_grow [OF that y] .
  ultimately show ?thesis
    by (auto simp: default_log.core_grows_def claimTerminal_def terminalClaimed_def)
qed

theorem terminal_has_one_owner_witness:
  "\<exists>y. demo_step demo_start y \<and> terminalClaimed (cz_core y)
     \<and> \<not> snd (claimTerminal (cz_core y) terminalOwnerDeadline)"
proof -
  let ?c = "newInvocationCore ''i'' [] (Some demo_context) None"
  have "claimTerminal (cz_core demo_start) terminalOwnerFailure
      = (?c\<lparr>ic_terminal_claim := terminalOwnerFailure\<rparr>, True)"
    using demo_words(8) by (simp add: claimTerminal_def newInvocationCore_def core_IsTerminal_def)
  from core_step.claim [OF this]
  have step: "demo_step demo_start (demo_start\<lparr>cz_core := ?c\<lparr>ic_terminal_claim := terminalOwnerFailure\<rparr>\<rparr>)"
    (is "demo_step _ ?y") .
  have claimed: "terminalClaimed (cz_core ?y)"
    by (simp add: terminalClaimed_def)
  have steps: "demo_step\<^sup>*\<^sup>* demo_start ?y"
    using step by (rule r_into_rtranclp)
  have "\<not> snd (claimTerminal (cz_core ?y) terminalOwnerDeadline)"
    using terminal_has_one_owner [OF demo_start_initial steps, THEN conjunct2, THEN mp, OF claimed] by (rule conjunct1)
  with claimed step show ?thesis by (intro exI [of _ ?y]) simp
qed

text \<open>A resumable reader misses nothing and repeats nothing: the events a stream opened at
  an offset has delivered, however the invocation grew between the calls and however the
  batches fell, are the events from that offset on, in order.\<close>

theorem reader_gapless:
  assumes "read_history off c s out" and "length (ic_events c) < 2 ^ 64"
  shows "out = take (length out) (drop (unat off) (ic_events c)) \<and> es_offset s = off + word_of_nat (length out)"
  using read_history_inv [OF assms] by (auto simp: reader_inv_def prefix_def)

lemma demo_one_event:
  "\<exists>c e. machine_inv (c :: bound_context option core) \<and> ic_events c = [e] \<and> ie_sequence e = 0 \<and> ie_type e = ''accepted''"
proof -
  let ?c = "newInvocationCore ''i'' [] (Some demo_context) None" and ?em = "demo_emission ''accepted'' StateAccepted"
  let ?e = "emit_event ?c ?em 0"
  have "emit_guard ?c ?em False = None"
    using demo_words by (simp add: emit_guard_def newInvocationCore_def core_IsTerminal_def
        demo_emission_def terminalClaimed_def)
  from machine_inv_commit [OF machine_inv_new this] have "machine_inv (emit_commit ?c ?em ?e)" .
  moreover have "ic_events (emit_commit ?c ?em ?e) = [?e]" "ie_sequence ?e = 0" "ie_type ?e = ''accepted''"
    by (simp_all add: emit_commit_def newInvocationCore_def emit_event_def demo_emission_def)
  ultimately show ?thesis by (intro exI [of _ "emit_commit ?c ?em ?e"] exI [of _ ?e]) simp
qed

theorem reader_gapless_witness:
  "\<exists>c s e. read_history 0 (c :: bound_context option core) s [e] \<and> [e] = ic_events c
     \<and> ie_type e = ''accepted'' \<and> es_offset s = 1"
proof -
  obtain d e where inv: "machine_inv (d :: bound_context option core)" and events: "ic_events d = [e]"
    and seq: "ie_sequence e = 0" and ty: "ie_type e = ''accepted''"
    using demo_one_event by (elim exE conjE) (rule that)
  have "stream_Next d (Events 0) False
      = Some (acknowledge d (Some e), (Events 0)\<lparr>es_buffer := [], es_offset := ie_sequence e + 1\<rparr>, Some e)"
    by (simp add: stream_Next_def Events_def fetchEvents_def events seq)
  from read_history.read [OF read_history.opened [OF inv] this]
  have h: "read_history 0 (acknowledge d (Some e)) ((Events 0)\<lparr>es_buffer := [], es_offset := ie_sequence e + 1\<rparr>) [e]"
    by simp
  from reader_gapless [OF h] h events ty show ?thesis
    by (intro exI [of _ "acknowledge d (Some e)"]
        exI [of _ "(Events 0)\<lparr>es_buffer := [], es_offset := ie_sequence e + 1\<rparr>"] exI [of _ e]) simp
qed

end
