(* ===== verification/Persistence.thy ===== *)
theory Persistence
  imports Lifecycle "HOL-Library.AList" "HOL-Library.Char_ord" "HOL-Library.List_Lexorder"
begin

text \<open>
  The durable log of invocations: \<open>axon/invocation/persistence.go\<close>.

  A directory holds, for each invocation, a file of event lines, an index and a recovery
  record.  The files are association lists from the invocation identifier to the decoded
  contents; a file that does not decode carries the decoder's error.  Every operation takes
  the I/O errors it meets as an argument, one for each kind of access, so that each of the
  code's error returns is a branch here.  A write replaces a file by renaming a complete
  temporary file over it: it happens or it does not.  The operations hold the lock of their
  invocation throughout, except for \<open>ClaimRecovery\<close>, which takes the locks one by one.

  Time is the integer number of nanoseconds since the epoch.
\<close>

section \<open>Files\<close>

record recovery_snapshot =
  sn_invocation_id :: string
  sn_envelope :: invocation_envelope
  sn_signature :: caller_signature
  sn_payload :: bytes
  sn_parent :: string
  sn_spec :: supervisor_spec
  sn_ability_ura :: string
  sn_deadline_ms :: i64
  sn_checkpoint :: bytes
  sn_events :: "persisted_event list"
  sn_phase :: string
  sn_lease_owner :: string
  sn_lease_until :: i64

record invocation_index =
  nx_invocation_id :: string
  nx_last_sequence :: i64
  nx_terminal_state :: "string option"
  nx_evicted :: bool
  nx_created_at :: i64

text \<open>The dynamic types \<open>integerValue\<close> distinguishes; a float is given by what its
  conversion to \<open>int64\<close> yields.\<close>

datatype any_value = AnyInt i64 | AnyInt64 i64 | AnyUint64 u64 | AnyFloat64 i64 | AnyOther

text \<open>A line of the event file: the two entries of the event map that the index reads, and
  the lifecycle event it was made from, if any.\<close>

record event_line =
  el_sequence :: "any_value option"
  el_timestamp :: "any_value option"
  el_event :: "persisted_event option"

datatype 'a file_content = Decoded 'a | Undecodable string

record log_dir =
  ld_events :: "(string \<times> event_line list) list"
  ld_index :: "(string \<times> invocation_index file_content) list"
  ld_recovery :: "(string \<times> recovery_snapshot file_content) list"

definition empty_log :: log_dir where
  "empty_log = \<lparr>ld_events = [], ld_index = [], ld_recovery = []\<rparr>"

record io =
  io_stat :: "string option"
  io_list :: "string option"
  io_read :: "string option"
  io_append :: "string option"
  io_index :: "string option"
  io_write :: "string option"

definition no_faults :: io where
  "no_faults = \<lparr>io_stat = None, io_list = None, io_read = None, io_append = None,
     io_index = None, io_write = None\<rparr>"

abbreviation plain_err :: "string \<Rightarrow> 'a result" where
  "plain_err s \<equiv> Fail (PlainErr s)"

section \<open>Event file and index\<close>

fun integerValue :: "any_value \<Rightarrow> i64 option" where
  "integerValue (AnyInt n) = Some n"
| "integerValue (AnyInt64 n) = Some n"
| "integerValue (AnyUint64 n) = (if unat n > 2 ^ 63 - 1 then None else Some n)"
| "integerValue (AnyFloat64 n) = Some n"
| "integerValue AnyOther = None"

definition readIndexUnlocked :: "log_dir \<Rightarrow> string \<Rightarrow> invocation_index option" where
  "readIndexUnlocked d i =
     (case map_of (ld_index d) i of Some (Decoded idx) \<Rightarrow> Some idx | _ \<Rightarrow> None)"

definition ReadIndex :: "log_dir \<Rightarrow> string \<Rightarrow> invocation_index option" where
  "ReadIndex d i = readIndexUnlocked d i"

definition writeIndexUnlocked :: "io \<Rightarrow> log_dir \<Rightarrow> invocation_index \<Rightarrow> log_dir \<times> unit result" where
  "writeIndexUnlocked f d idx =
     (case io_index f of Some e \<Rightarrow> (d, plain_err e)
      | None \<Rightarrow> (d\<lparr>ld_index := AList.update (nx_invocation_id idx) (Decoded idx) (ld_index d)\<rparr>, Ok ()))"

definition index_after :: "invocation_index option \<Rightarrow> string \<Rightarrow> event_line \<Rightarrow> string \<Rightarrow> invocation_index" where
  "index_after old i line terminalState =
     (let idx = (case old of Some x \<Rightarrow> x | None \<Rightarrow>
            \<lparr>nx_invocation_id = i, nx_last_sequence = - 1, nx_terminal_state = None,
             nx_evicted = False, nx_created_at = 0\<rparr>);
          idx1 = (case Option.bind (el_sequence line) integerValue of
            Some n \<Rightarrow> if sint n > sint (nx_last_sequence idx) then idx\<lparr>nx_last_sequence := n\<rparr> else idx
          | None \<Rightarrow> idx);
          idx2 = (if terminalState \<noteq> [] then idx1\<lparr>nx_terminal_state := Some terminalState\<rparr> else idx1)
      in if nx_created_at idx2 = 0
         then (case Option.bind (el_timestamp line) integerValue of
                 Some ts \<Rightarrow> idx2\<lparr>nx_created_at := ts\<rparr> | None \<Rightarrow> idx2)
         else idx2)"

definition event_lines :: "log_dir \<Rightarrow> string \<Rightarrow> event_line list" where
  "event_lines d i = (case map_of (ld_events d) i of Some ls \<Rightarrow> ls | None \<Rightarrow> [])"

definition appendEventUnlocked ::
  "io \<Rightarrow> log_dir \<Rightarrow> string \<Rightarrow> event_line \<Rightarrow> string \<Rightarrow> log_dir \<times> unit result" where
  "appendEventUnlocked f d i line terminalState =
     (case io_append f of Some e \<Rightarrow> (d, plain_err e)
      | None \<Rightarrow>
          let d1 = d\<lparr>ld_events := AList.update i (event_lines d i @ [line]) (ld_events d)\<rparr>
          in writeIndexUnlocked f d1 (index_after (readIndexUnlocked d1 i) i line terminalState))"

definition AppendEvent ::
  "io \<Rightarrow> log_dir \<Rightarrow> string \<Rightarrow> event_line \<Rightarrow> string \<Rightarrow> log_dir \<times> unit result" where
  "AppendEvent f d i line terminalState = appendEventUnlocked f d i line terminalState"

definition ListInvocations :: "io \<Rightarrow> log_dir \<Rightarrow> string list" where
  "ListInvocations f d = (case io_list f of Some e \<Rightarrow> [] | None \<Rightarrow> sort (map fst (ld_events d)))"

definition EvictTerminal :: "io \<Rightarrow> log_dir \<Rightarrow> string \<Rightarrow> log_dir \<times> bool" where
  "EvictTerminal f d i =
     (case readIndexUnlocked d i of
        None \<Rightarrow> (d, False)
      | Some idx \<Rightarrow>
          if nx_terminal_state idx = None then (d, False)
          else let d1 = fst (writeIndexUnlocked f d (idx\<lparr>nx_evicted := True\<rparr>))
               in (d1\<lparr>ld_events := AList.delete i (ld_events d1)\<rparr>, True))"

record log_stats =
  st_invocation_id :: string
  st_state :: string
  st_last_sequence :: i64
  st_bytes_emitted :: i64
  st_evicted :: bool
  st_created_at :: i64

text \<open>\<open>Stats\<close>: \<open>bytes\<close> is what \<open>os.Stat\<close> says of the event file.\<close>

definition Stats :: "log_dir \<Rightarrow> i64 option \<Rightarrow> string \<Rightarrow> log_stats" where
  "Stats d bytes i =
     (let idx = ReadIndex d i in
      \<lparr>st_invocation_id = i,
       st_state = (case Option.bind idx nx_terminal_state of Some s \<Rightarrow> s | None \<Rightarrow> ''RUNNING''),
       st_last_sequence = (case idx of Some x \<Rightarrow> nx_last_sequence x | None \<Rightarrow> - 1),
       st_bytes_emitted = (case bytes of Some n \<Rightarrow> n | None \<Rightarrow> 0),
       st_evicted = (case idx of Some x \<Rightarrow> nx_evicted x | None \<Rightarrow> False),
       st_created_at = (case idx of Some x \<Rightarrow> nx_created_at x | None \<Rightarrow> 0)\<rparr>)"

section \<open>Recovery records\<close>

definition readRecoveryUnlocked :: "io \<Rightarrow> log_dir \<Rightarrow> string \<Rightarrow> recovery_snapshot option result" where
  "readRecoveryUnlocked f d i =
     (case io_read f of Some e \<Rightarrow> plain_err e
      | None \<Rightarrow>
          (case map_of (ld_recovery d) i of
             None \<Rightarrow> Ok None
           | Some (Undecodable e) \<Rightarrow> plain_err e
           | Some (Decoded s) \<Rightarrow> Ok (Some s)))"

definition writeRecoveryUnlocked :: "io \<Rightarrow> log_dir \<Rightarrow> recovery_snapshot \<Rightarrow> log_dir \<times> unit result" where
  "writeRecoveryUnlocked f d s =
     (case io_write f of Some e \<Rightarrow> (d, plain_err e)
      | None \<Rightarrow> (d\<lparr>ld_recovery := AList.update (sn_invocation_id s) (Decoded s) (ld_recovery d)\<rparr>, Ok ()))"

definition ReadRecovery :: "io \<Rightarrow> log_dir \<Rightarrow> string \<Rightarrow> recovery_snapshot option result" where
  "ReadRecovery f d i = readRecoveryUnlocked f d i"

definition InitializeRecovery :: "io \<Rightarrow> log_dir \<Rightarrow> recovery_snapshot \<Rightarrow> log_dir \<times> unit result" where
  "InitializeRecovery f d s =
     (if blank (sn_invocation_id s) then (d, plain_err ''invocation_id_required'')
      else case io_stat f of Some e \<Rightarrow> (d, plain_err e)
      | None \<Rightarrow>
          if map_of (ld_recovery d) (sn_invocation_id s) \<noteq> None
          then (d, plain_err ''recovery_snapshot_already_exists'')
          else writeRecoveryUnlocked f d s)"

text \<open>The frame of the operations on one record: read it, fail when it is missing, decide,
  write the changed record.\<close>

definition load_record :: "io \<Rightarrow> log_dir \<Rightarrow> string \<Rightarrow> recovery_snapshot result" where
  "load_record f d i = bindR (readRecoveryUnlocked f d i) (\<lambda>found. case found of
       None \<Rightarrow> plain_err ''recovery_snapshot_missing'' | Some s \<Rightarrow> Ok s)"

definition update_record ::
  "io \<Rightarrow> log_dir \<Rightarrow> string \<Rightarrow> (recovery_snapshot \<Rightarrow> recovery_snapshot result) \<Rightarrow> log_dir \<times> unit result" where
  "update_record f d i change =
     (case bindR (load_record f d i) change of
        Ok s \<Rightarrow> writeRecoveryUnlocked f d s
      | Fail e \<Rightarrow> (d, Fail e)
      | Panic e \<Rightarrow> (d, Panic e))"

subsection \<open>Appending\<close>

definition append_guard :: "int \<Rightarrow> string \<Rightarrow> persisted_event \<Rightarrow> recovery_snapshot \<Rightarrow> recovery_snapshot result" where
  "append_guard now leaseOwner event s =
     (if leaseOwner = [] \<and> (sn_phase s \<notin> {''running'', ''finalizing''} \<or> sn_lease_owner s \<noteq> [])
      then plain_err ''recovery_runtime_ownership_lost''
      else if leaseOwner \<noteq> [] \<and> (sn_phase s \<notin> {''recovering'', ''finalizing''}
              \<or> sn_lease_owner s \<noteq> leaseOwner \<or> sint (sn_lease_until s) < sint (unix_ms now))
      then plain_err ''recovery_lease_lost''
      else if word_of_nat (length (sn_events s)) \<noteq> pe_sequence event
      then plain_err (''recovery_event_sequence_mismatch:got='' @ dec_nat (unat (pe_sequence event))
                      @ '',want='' @ dec_nat (length (sn_events s)))
      else Ok s)"

definition lifecycle_line :: "persisted_event \<Rightarrow> event_line" where
  "lifecycle_line event = \<lparr>el_sequence = Some (AnyUint64 (pe_sequence event)),
     el_timestamp = Some (AnyInt64 (pe_timestamp event)), el_event = Some event\<rparr>"

definition record_event :: "persisted_event \<Rightarrow> recovery_snapshot \<Rightarrow> recovery_snapshot" where
  "record_event event s =
     (let s1 = s\<lparr>sn_events := sn_events s @ [event]\<rparr>
      in if state_IsTerminal (pe_state event)
         then s1\<lparr>sn_phase := ''closed'', sn_lease_owner := [], sn_lease_until := 0\<rparr> else s1)"

definition appendLifecycleEvent ::
  "io \<Rightarrow> log_dir \<Rightarrow> int \<Rightarrow> string \<Rightarrow> string \<Rightarrow> persisted_event \<Rightarrow> log_dir \<times> unit result" where
  "appendLifecycleEvent f d now i leaseOwner event =
     (case bindR (load_record f d i) (append_guard now leaseOwner event) of
        Ok s \<Rightarrow>
          (case appendEventUnlocked f d i (lifecycle_line event)
                  (if state_IsTerminal (pe_state event) then pe_state event else []) of
             (d1, Ok _) \<Rightarrow> writeRecoveryUnlocked f d1 (record_event event s)
           | (d1, Fail e) \<Rightarrow> (d1, Fail e)
           | (d1, Panic e) \<Rightarrow> (d1, Panic e))
      | Fail e \<Rightarrow> (d, Fail e)
      | Panic e \<Rightarrow> (d, Panic e))"

definition AppendLifecycleEvent ::
  "io \<Rightarrow> log_dir \<Rightarrow> int \<Rightarrow> string \<Rightarrow> persisted_event \<Rightarrow> log_dir \<times> unit result" where
  "AppendLifecycleEvent f d now i event = appendLifecycleEvent f d now i [] event"

definition AppendRecoveredLifecycleEvent ::
  "io \<Rightarrow> log_dir \<Rightarrow> int \<Rightarrow> string \<Rightarrow> string \<Rightarrow> persisted_event \<Rightarrow> log_dir \<times> unit result" where
  "AppendRecoveredLifecycleEvent f d now i leaseOwner event =
     (if blank leaseOwner then (d, plain_err ''recovery_lease_owner_required'')
      else appendLifecycleEvent f d now i leaseOwner event)"

subsection \<open>Checkpoints and phases\<close>

definition checkpoint_guard :: "int \<Rightarrow> string \<Rightarrow> recovery_snapshot \<Rightarrow> recovery_snapshot result" where
  "checkpoint_guard now leaseOwner s =
     (if sn_phase s = ''closed'' then plain_err ''recovery_snapshot_closed''
      else if leaseOwner = [] \<and> (sn_phase s \<noteq> ''running'' \<or> sn_lease_owner s \<noteq> [])
      then plain_err ''recovery_runtime_ownership_lost''
      else if leaseOwner \<noteq> [] \<and> (sn_phase s \<noteq> ''recovering'' \<or> sn_lease_owner s \<noteq> leaseOwner
              \<or> sint (sn_lease_until s) < sint (unix_ms now))
      then plain_err ''recovery_lease_lost'' else Ok s)"

definition checkpointRecovery ::
  "io \<Rightarrow> log_dir \<Rightarrow> int \<Rightarrow> string \<Rightarrow> string \<Rightarrow> bytes \<Rightarrow> log_dir \<times> unit result" where
  "checkpointRecovery f d now i leaseOwner checkpoint =
     update_record f d i (\<lambda>s. bindR (checkpoint_guard now leaseOwner s) (\<lambda>s. Ok (s\<lparr>sn_checkpoint := checkpoint\<rparr>)))"

definition CheckpointRecovery :: "io \<Rightarrow> log_dir \<Rightarrow> int \<Rightarrow> string \<Rightarrow> bytes \<Rightarrow> log_dir \<times> unit result" where
  "CheckpointRecovery f d now i checkpoint = checkpointRecovery f d now i [] checkpoint"

definition CheckpointRecoveredInvocation ::
  "io \<Rightarrow> log_dir \<Rightarrow> int \<Rightarrow> string \<Rightarrow> string \<Rightarrow> bytes \<Rightarrow> log_dir \<times> unit result" where
  "CheckpointRecoveredInvocation f d now i leaseOwner checkpoint =
     (if blank leaseOwner then (d, plain_err ''recovery_lease_owner_required'')
      else checkpointRecovery f d now i leaseOwner checkpoint)"

definition finalization_guard :: "int \<Rightarrow> string \<Rightarrow> recovery_snapshot \<Rightarrow> recovery_snapshot result" where
  "finalization_guard now owner s =
     (if sn_phase s = ''running''
      then if sn_lease_owner s \<noteq> [] then plain_err ''recovery_runtime_ownership_lost'' else Ok s
      else if sn_phase s = ''recovering'' \<or> sn_phase s = ''finalizing''
      then if sn_lease_owner s \<noteq> [] \<and> (sn_lease_owner s \<noteq> owner \<or> sint (sn_lease_until s) < sint (unix_ms now))
           then plain_err ''recovery_lease_lost'' else Ok s
      else plain_err (''recovery_finalization_invalid_phase:'' @ sn_phase s))"

definition BeginFinalization :: "io \<Rightarrow> log_dir \<Rightarrow> int \<Rightarrow> string \<Rightarrow> string \<Rightarrow> log_dir \<times> unit result" where
  "BeginFinalization f d now i owner =
     update_record f d i (\<lambda>s. bindR (finalization_guard now owner s) (\<lambda>s. Ok (s\<lparr>sn_phase := ''finalizing''\<rparr>)))"

definition mark_phase :: "string \<Rightarrow> recovery_snapshot \<Rightarrow> recovery_snapshot result" where
  "mark_phase phase s =
     (if sn_phase s = ''finalizing'' \<and> phase \<noteq> ''closed'' then plain_err ''recovery_finalization_required''
      else Ok (if phase \<noteq> ''recovering''
               then s\<lparr>sn_phase := phase, sn_lease_owner := [], sn_lease_until := 0\<rparr>
               else s\<lparr>sn_phase := phase\<rparr>))"

definition MarkRecoveryPhase :: "io \<Rightarrow> log_dir \<Rightarrow> string \<Rightarrow> string \<Rightarrow> log_dir \<times> unit result" where
  "MarkRecoveryPhase f d i phase =
     (if phase \<notin> {''running'', ''recovering'', ''suspended'', ''closed''}
      then (d, plain_err (''invalid_recovery_phase:'' @ phase))
      else update_record f d i (mark_phase phase))"

subsection \<open>Leases\<close>

definition validateRecoveryCandidate :: "string \<Rightarrow> recovery_snapshot option \<Rightarrow> unit result" where
  "validateRecoveryCandidate i found =
     (case found of
        None \<Rightarrow> Fail (AxonErr (WithInvocationID (ErrUnavailable ''recovery_snapshot_missing'') i))
      | Some s \<Rightarrow>
          if sn_phase s = ''finalizing''
          then Fail (AxonErr (WithInvocationID (ErrUnavailable ''recovery_finalization_required'') i))
          else Ok ())"

definition listRecoveryInvocations :: "io \<Rightarrow> log_dir \<Rightarrow> string list result" where
  "listRecoveryInvocations f d =
     (case io_list f of Some e \<Rightarrow> Fail (AxonErr (ErrUnavailable ''recovery_directory_unavailable''))
      | None \<Rightarrow> Ok (sort (map fst (ld_recovery d))))"

fun preflight :: "io \<Rightarrow> log_dir \<Rightarrow> string list \<Rightarrow> unit result" where
  "preflight f d [] = Ok ()"
| "preflight f d (i # ids) =
     bindR (ReadRecovery f d i) (\<lambda>found. bindR (validateRecoveryCandidate i found) (\<lambda>_. preflight f d ids))"

definition claimable :: "i64 \<Rightarrow> recovery_snapshot \<Rightarrow> bool" where
  "claimable now s = (sn_phase s = ''suspended''
     \<or> (sn_phase s = ''recovering'' \<and> sint (sn_lease_until s) \<le> sint now))"

text \<open>One round of the claim loop, under the lock of its invocation: \<open>None\<close> when the record
  is not claimable.\<close>

definition claim_one :: "io \<Rightarrow> log_dir \<Rightarrow> i64 \<Rightarrow> i64 \<Rightarrow> string \<Rightarrow> string \<Rightarrow>
   log_dir \<times> recovery_snapshot option result" where
  "claim_one f d now until owner i =
     (case bindR (readRecoveryUnlocked f d i)
             (\<lambda>found. bindR (validateRecoveryCandidate i found) (\<lambda>_. Ok (the found))) of
        Fail e \<Rightarrow> (d, Fail e)
      | Panic e \<Rightarrow> (d, Panic e)
      | Ok s \<Rightarrow>
          if \<not> claimable now s then (d, Ok None)
          else let s' = s\<lparr>sn_phase := ''recovering'', sn_lease_owner := owner, sn_lease_until := until\<rparr>
               in (case writeRecoveryUnlocked f d s' of
                     (d', Ok _) \<Rightarrow> (d', Ok (Some s'))
                   | (d', Fail e) \<Rightarrow> (d', Fail e)
                   | (d', Panic e) \<Rightarrow> (d', Panic e)))"

fun claim_loop :: "io \<Rightarrow> log_dir \<Rightarrow> i64 \<Rightarrow> i64 \<Rightarrow> string \<Rightarrow> nat \<Rightarrow> string list \<Rightarrow> recovery_snapshot list \<Rightarrow>
   log_dir \<times> recovery_snapshot list result" where
  "claim_loop f d now until owner limit [] claimed = (d, Ok claimed)"
| "claim_loop f d now until owner limit (i # ids) claimed =
     (if length claimed \<ge> limit then (d, Ok claimed)
      else case claim_one f d now until owner i of
             (d', Fail e) \<Rightarrow> (d', Fail e)
           | (d', Panic e) \<Rightarrow> (d', Panic e)
           | (d', Ok None) \<Rightarrow> claim_loop f d' now until owner limit ids claimed
           | (d', Ok (Some s)) \<Rightarrow> claim_loop f d' now until owner limit ids (claimed @ [s]))"

text \<open>\<open>limit\<close> and the durations are Go integers, the durations in nanoseconds.\<close>

definition lease_until :: "int \<Rightarrow> int \<Rightarrow> i64" where
  "lease_until now lease = unix_ms now + word_of_int (lease div 1000000)"

definition ClaimRecovery ::
  "io \<Rightarrow> log_dir \<Rightarrow> int \<Rightarrow> string \<Rightarrow> int \<Rightarrow> int \<Rightarrow> log_dir \<times> recovery_snapshot list result" where
  "ClaimRecovery f d now owner lease limit =
     (if blank owner then (d, plain_err ''recovery_lease_owner_required'')
      else if lease \<le> 0 then (d, plain_err ''recovery_lease_duration_required'')
      else case listRecoveryInvocations f d of
        Fail e \<Rightarrow> (d, Fail e)
      | Panic e \<Rightarrow> (d, Panic e)
      | Ok ids \<Rightarrow>
          (case preflight f d ids of
             Fail e \<Rightarrow> (d, Fail e)
           | Panic e \<Rightarrow> (d, Panic e)
           | Ok _ \<Rightarrow>
               claim_loop f d (unix_ms now) (lease_until now lease) owner
                 (if limit \<le> 0 \<or> limit > int (length ids) then length ids else nat limit) ids []))"

definition renew_guard :: "string \<Rightarrow> recovery_snapshot \<Rightarrow> recovery_snapshot result" where
  "renew_guard owner s =
     (if (sn_phase s \<noteq> ''recovering'' \<and> sn_phase s \<noteq> ''finalizing'') \<or> sn_lease_owner s \<noteq> owner
      then plain_err ''recovery_lease_lost'' else Ok s)"

definition RenewRecoveryLease ::
  "io \<Rightarrow> log_dir \<Rightarrow> int \<Rightarrow> string \<Rightarrow> string \<Rightarrow> int \<Rightarrow> log_dir \<times> unit result" where
  "RenewRecoveryLease f d now i owner lease =
     (if blank owner then (d, plain_err ''recovery_lease_owner_required'')
      else if lease \<le> 0 then (d, plain_err ''recovery_lease_duration_required'')
      else update_record f d i (\<lambda>s. bindR (renew_guard owner s) (\<lambda>s.
             Ok (s\<lparr>sn_lease_until := unix_ms (now + lease)\<rparr>))))"

end
