(* ===== verification/LeaseProperties.thy ===== *)
theory LeaseProperties
  imports Persistence
begin

text \<open>
  The recovery records under the operations of any number of runtimes.  Each locked
  operation is one step (\<open>log_op\<close>, \<open>perform\<close>); what it does to the record it names is the
  function \<open>change\<close>, and \<open>perform_record\<close> is the refinement of the directory by the map
  of records: an operation leaves the records alone, or replaces the named one by what
  \<open>change\<close> says, or creates it.
\<close>

section \<open>Operations as steps\<close>

datatype log_op =
    OpInitialize recovery_snapshot
  | OpAppend string string persisted_event
  | OpCheckpoint string string bytes
  | OpFinalize string string
  | OpMark string string
  | OpClaim string string int
  | OpRenew string string int

fun target :: "log_op \<Rightarrow> string" where
  "target (OpInitialize s) = sn_invocation_id s"
| "target (OpAppend i owner e) = i"
| "target (OpCheckpoint i owner c) = i"
| "target (OpFinalize i owner) = i"
| "target (OpMark i phase) = i"
| "target (OpClaim i owner lease) = i"
| "target (OpRenew i owner lease) = i"

text \<open>The runtime an operation acts for; an empty name is the runtime that started the
  invocation, and \<open>MarkRecoveryPhase\<close> names nobody.\<close>

fun actor :: "log_op \<Rightarrow> string" where
  "actor (OpAppend i owner e) = owner"
| "actor (OpCheckpoint i owner c) = owner"
| "actor (OpFinalize i owner) = owner"
| "actor (OpClaim i owner lease) = owner"
| "actor (OpRenew i owner lease) = owner"
| "actor _ = []"

fun is_mark :: "log_op \<Rightarrow> bool" where
  "is_mark (OpMark i phase) = True"
| "is_mark _ = False"

fun perform :: "log_op \<Rightarrow> io \<Rightarrow> int \<Rightarrow> log_dir \<Rightarrow> log_dir \<times> unit result" where
  "perform (OpInitialize s) f now d = InitializeRecovery f d s"
| "perform (OpAppend i owner e) f now d =
     (if owner = [] then AppendLifecycleEvent f d now i e
      else AppendRecoveredLifecycleEvent f d now i owner e)"
| "perform (OpCheckpoint i owner c) f now d =
     (if owner = [] then CheckpointRecovery f d now i c
      else CheckpointRecoveredInvocation f d now i owner c)"
| "perform (OpFinalize i owner) f now d = BeginFinalization f d now i owner"
| "perform (OpMark i phase) f now d = MarkRecoveryPhase f d i phase"
| "perform (OpClaim i owner lease) f now d =
     (if blank owner then (d, plain_err ''recovery_lease_owner_required'')
      else if lease \<le> 0 then (d, plain_err ''recovery_lease_duration_required'')
      else case claim_one f d (unix_ms now) (lease_until now lease) owner i of
             (d', Ok _) \<Rightarrow> (d', Ok ())
           | (d', Fail e) \<Rightarrow> (d', Fail e)
           | (d', Panic e) \<Rightarrow> (d', Panic e))"
| "perform (OpRenew i owner lease) f now d = RenewRecoveryLease f d now i owner lease"

type_synonym log_run = "(log_op \<times> io \<times> int) list"

fun run_log :: "log_run \<Rightarrow> log_dir \<Rightarrow> log_dir" where
  "run_log [] d = d"
| "run_log ((op, f, now) # rest) d = run_log rest (fst (perform op f now d))"

lemma run_log_append: "run_log (xs @ ys) d = run_log ys (run_log xs d)"
  by (induction xs d rule: run_log.induct) simp_all

lemma no_faults_sel [simp]:
  "io_stat no_faults = None" "io_list no_faults = None" "io_read no_faults = None"
  "io_append no_faults = None" "io_index no_faults = None" "io_write no_faults = None"
  by (simp_all add: no_faults_def)

section \<open>The map of records\<close>

definition recovery_of :: "log_dir \<Rightarrow> string \<Rightarrow> recovery_snapshot option" where
  "recovery_of d i = (case map_of (ld_recovery d) i of Some (Decoded s) \<Rightarrow> Some s | _ \<Rightarrow> None)"

definition filed :: "log_dir \<Rightarrow> bool" where
  "filed d = (\<forall>i s. recovery_of d i = Some s \<longrightarrow> sn_invocation_id s = i)"

lemma filedD: "filed d \<Longrightarrow> recovery_of d i = Some s \<Longrightarrow> sn_invocation_id s = i"
  by (simp add: filed_def)

lemma recovery_of_update [simp]:
  "recovery_of (d\<lparr>ld_recovery := AList.update j (Decoded s) (ld_recovery d)\<rparr>) i
   = (if i = j then Some s else recovery_of d i)"
  by (simp add: recovery_of_def update_conv)

fun change :: "log_op \<Rightarrow> int \<Rightarrow> recovery_snapshot \<Rightarrow> recovery_snapshot result" where
  "change (OpInitialize s0) now s = plain_err ''recovery_snapshot_already_exists''"
| "change (OpAppend i owner e) now s = bindR (append_guard now owner e s) (\<lambda>s. Ok (record_event e s))"
| "change (OpCheckpoint i owner c) now s =
     bindR (checkpoint_guard now owner s) (\<lambda>s. Ok (s\<lparr>sn_checkpoint := c\<rparr>))"
| "change (OpFinalize i owner) now s =
     bindR (finalization_guard now owner s) (\<lambda>s. Ok (s\<lparr>sn_phase := ''finalizing''\<rparr>))"
| "change (OpMark i phase) now s =
     (if phase \<notin> {''running'', ''recovering'', ''suspended'', ''closed''} then plain_err [] else mark_phase phase s)"
| "change (OpClaim i owner lease) now s =
     (if claimable (unix_ms now) s \<and> \<not> blank owner
      then Ok (s\<lparr>sn_phase := ''recovering'', sn_lease_owner := owner, sn_lease_until := lease_until now lease\<rparr>)
      else plain_err [])"
| "change (OpRenew i owner lease) now s =
     (if blank owner then plain_err []
      else bindR (renew_guard owner s) (\<lambda>s. Ok (s\<lparr>sn_lease_until := unix_ms (now + lease)\<rparr>)))"

lemmas guard_defs = append_guard_def checkpoint_guard_def finalization_guard_def mark_phase_def renew_guard_def

lemma change_id: "change op now s = Ok s' \<Longrightarrow> sn_invocation_id s' = sn_invocation_id s"
  by (cases op) (auto simp: guard_defs record_event_def Let_def bindR_Ok_iff split: if_splits)

definition replaces :: "log_dir \<Rightarrow> string \<Rightarrow> recovery_snapshot \<Rightarrow> log_dir \<Rightarrow> bool" where
  "replaces d i s d' = (\<forall>j. recovery_of d' j = (if j = i then Some s else recovery_of d j))"

definition keeps :: "log_dir \<Rightarrow> log_dir \<Rightarrow> bool" where
  "keeps d d' = (ld_recovery d' = ld_recovery d)"

lemma keeps_refl [simp]: "keeps d d"
  by (simp add: keeps_def)

lemma keepsD: "keeps d d' \<Longrightarrow> recovery_of d' i = recovery_of d i"
  by (simp add: keeps_def recovery_of_def)

lemma keeps_trans: "keeps d d1 \<Longrightarrow> keeps d1 d' \<Longrightarrow> keeps d d'"
  by (simp add: keeps_def)

lemma keeps_replaces: "keeps d d1 \<Longrightarrow> replaces d1 i s d' \<Longrightarrow> replaces d i s d'"
  by (simp add: replaces_def keepsD)

lemma load_record_Ok: "load_record f d i = Ok s \<longleftrightarrow> io_read f = None \<and> recovery_of d i = Some s"
  by (auto simp: load_record_def readRecoveryUnlocked_def recovery_of_def bindR_Ok_iff
      split: option.splits file_content.splits)

lemma write_record:
  "writeRecoveryUnlocked f d s = (d', r) \<Longrightarrow>
   (is_ok r \<and> replaces d (sn_invocation_id s) s d') \<or> (\<not> is_ok r \<and> keeps d d')"
  by (auto simp: writeRecoveryUnlocked_def replaces_def split: option.splits)

lemma update_record_cases:
  assumes "update_record f d i ch = (d', r)"
  obtains (kept) "\<not> is_ok r" "keeps d d'"
  | (replaced) s s' where "recovery_of d i = Some s" "ch s = Ok s'"
      "replaces d (sn_invocation_id s') s' d'" "is_ok r"
  using assms write_record unfolding update_record_def
  by (auto simp: bindR_Ok_iff load_record_Ok split: result.splits) blast+

lemma appendEventUnlocked_keeps: "appendEventUnlocked f d i l t = (d', r) \<Longrightarrow> keeps d d'"
  by (auto simp: appendEventUnlocked_def writeIndexUnlocked_def keeps_def Let_def split: option.splits)


lemma append_cases:
  assumes "appendLifecycleEvent f d now i owner e = (d', r)"
  obtains (kept) "\<not> is_ok r" "keeps d d'"
  | (appended) s where "recovery_of d i = Some s" "append_guard now owner e s = Ok s"
      "replaces d (sn_invocation_id s) (record_event e s) d'" "is_ok r"
proof -
  have guard: "append_guard now owner e s = Ok s' \<Longrightarrow> s' = s" for s s'
    by (auto simp: append_guard_def split: if_splits)
  show ?thesis
  proof (cases "bindR (load_record f d i) (append_guard now owner e)")
    case (Ok s)
    then have s: "recovery_of d i = Some s" "append_guard now owner e s = Ok s"
      by (auto simp: bindR_Ok_iff load_record_Ok dest: guard)
    obtain d1 r1 where a: "appendEventUnlocked f d i (lifecycle_line e)
        (if state_IsTerminal (pe_state e) then pe_state e else []) = (d1, r1)" by fastforce
    note k = appendEventUnlocked_keeps [OF a]
    have event_id: "sn_invocation_id (record_event e s) = sn_invocation_id s"
      by (simp add: record_event_def Let_def)
    show ?thesis
    proof (cases "is_ok r1")
      case True
      then have w: "writeRecoveryUnlocked f d1 (record_event e s) = (d', r)"
        using assms Ok a by (simp add: appendLifecycleEvent_def is_ok_iff split: result.splits)
      from write_record [OF w] show ?thesis
      proof
        assume "is_ok r \<and> replaces d1 (sn_invocation_id (record_event e s)) (record_event e s) d'"
        then show ?thesis using k by (intro appended [OF s]) (auto simp: event_id keeps_replaces)
      next
        assume "\<not> is_ok r \<and> keeps d1 d'"
        then show ?thesis using k by (intro kept) (auto intro: keeps_trans)
      qed
    next
      case False
      then show ?thesis using assms Ok a k
        by (cases r1) (auto simp: appendLifecycleEvent_def intro!: kept)
    qed
  qed (use assms in \<open>auto simp: appendLifecycleEvent_def intro!: kept\<close>)
qed

lemma claim_one_cases:
  assumes "claim_one f d now until owner i = (d', r)"
  obtains (kept) "keeps d d'" "\<forall>s. r \<noteq> Ok (Some s)"
      "r = Ok None \<Longrightarrow> \<exists>s. recovery_of d i = Some s \<and> \<not> claimable now s"
  | (claimed) s s' where "recovery_of d i = Some s" "claimable now s"
      "s' = s\<lparr>sn_phase := ''recovering'', sn_lease_owner := owner, sn_lease_until := until\<rparr>"
      "replaces d (sn_invocation_id s') s' d'" "r = Ok (Some s')"
proof (cases "bindR (readRecoveryUnlocked f d i)
    (\<lambda>found. bindR (validateRecoveryCandidate i found) (\<lambda>_. Ok (the found)))")
  case (Ok s)
  then have s: "recovery_of d i = Some s"
    by (auto simp: bindR_Ok_iff readRecoveryUnlocked_def validateRecoveryCandidate_def recovery_of_def
        split: option.splits file_content.splits)
  show ?thesis
  proof (cases "claimable now s")
    case True
    let ?s = "s\<lparr>sn_phase := ''recovering'', sn_lease_owner := owner, sn_lease_until := until\<rparr>"
    obtain d1 r1 where w: "writeRecoveryUnlocked f d ?s = (d1, r1)" by fastforce
    from write_record [OF w] show ?thesis
    proof
      assume "is_ok r1 \<and> replaces d (sn_invocation_id ?s) ?s d1"
      then show ?thesis
        using assms Ok True w by (intro claimed [OF s True refl]) (auto simp: claim_one_def is_ok_iff)
    next
      assume "\<not> is_ok r1 \<and> keeps d d1"
      then show ?thesis
        using assms Ok True w by (intro kept) (cases r1; auto simp: claim_one_def)+
    qed
  next
    case False
    then show ?thesis using assms Ok s by (intro kept) (auto simp: claim_one_def)
  qed
next
  case (Fail e)
  then show ?thesis using assms by (intro kept) (auto simp: claim_one_def)
next
  case (Panic e)
  then show ?thesis using assms by (intro kept) (auto simp: claim_one_def)
qed

text \<open>The refinement: what one operation does to the map of records.\<close>

lemma perform_record:
  assumes "perform op f now d = (d', r)"
  obtains (kept) "keeps d d'"
  | (changed) s s' where "recovery_of d (target op) = Some s" "change op now s = Ok s'"
      "replaces d (sn_invocation_id s') s' d'" "is_ok r"
  | (created) s where "op = OpInitialize s" "recovery_of d (target op) = None"
      "replaces d (sn_invocation_id s) s d'" "is_ok r" "\<not> blank (sn_invocation_id s)"
proof (cases op)
  case (OpInitialize s)
  show ?thesis
  proof (cases "blank (sn_invocation_id s) \<or> io_stat f \<noteq> None \<or> map_of (ld_recovery d) (sn_invocation_id s) \<noteq> None")
    case True
    then show ?thesis using assms OpInitialize
      by (intro kept) (auto simp: InitializeRecovery_def split: option.splits if_splits)
  next
    case False
    then have "writeRecoveryUnlocked f d s = (d', r)"
      using assms OpInitialize by (simp add: InitializeRecovery_def)
    moreover have "recovery_of d (target op) = None"
      using False OpInitialize by (simp add: recovery_of_def)
    ultimately show ?thesis using write_record False OpInitialize
      by (metis created kept)
  qed
next
  case (OpAppend i owner e)
  show ?thesis
  proof (cases "owner \<noteq> [] \<and> blank owner")
    case True
    then show ?thesis using assms OpAppend
      by (intro kept) (auto simp: AppendRecoveredLifecycleEvent_def)
  next
    case False
    then have "appendLifecycleEvent f d now i owner e = (d', r)"
      using assms OpAppend
      by (auto simp: AppendRecoveredLifecycleEvent_def AppendLifecycleEvent_def split: if_splits)
    then show ?thesis
    proof (cases rule: append_cases)
      case (appended s)
      then show ?thesis using OpAppend
        by (intro changed [of s "record_event e s"]) (auto simp: record_event_def Let_def)
    qed (rule kept)
  qed
next
  case (OpCheckpoint i owner c)
  show ?thesis
  proof (cases "owner \<noteq> [] \<and> blank owner")
    case True
    then show ?thesis using assms OpCheckpoint
      by (intro kept) (auto simp: CheckpointRecoveredInvocation_def)
  next
    case False
    then have "checkpointRecovery f d now i owner c = (d', r)"
      using assms OpCheckpoint
      by (auto simp: CheckpointRecoveredInvocation_def CheckpointRecovery_def split: if_splits)
    then show ?thesis unfolding checkpointRecovery_def using OpCheckpoint
      by (cases rule: update_record_cases) (auto intro: kept changed)
  qed
next
  case (OpFinalize i owner)
  then have "BeginFinalization f d now i owner = (d', r)" using assms by simp
  then show ?thesis unfolding BeginFinalization_def using OpFinalize
    by (cases rule: update_record_cases) (auto intro: kept changed)
next
  case (OpMark i phase)
  show ?thesis
  proof (cases "phase \<in> {''running'', ''recovering'', ''suspended'', ''closed''}")
    case True
    then have "update_record f d i (mark_phase phase) = (d', r)"
      using assms OpMark by (auto simp: MarkRecoveryPhase_def)
    then show ?thesis using OpMark True
      by (cases rule: update_record_cases) (auto intro: kept changed)
  next
    case False
    then show ?thesis using assms OpMark by (intro kept) (auto simp: MarkRecoveryPhase_def)
  qed
next
  case (OpClaim i owner lease)
  show ?thesis
  proof (cases "blank owner \<or> lease \<le> 0")
    case True
    then show ?thesis using assms OpClaim by (intro kept) (auto split: if_splits)
  next
    case False
    obtain r1 where c: "claim_one f d (unix_ms now) (lease_until now lease) owner i = (d', r1)"
      and r: "\<And>x. r1 = Ok x \<Longrightarrow> r = Ok ()"
      using assms OpClaim False by (auto split: prod.splits result.splits)
    from c show ?thesis
    proof (cases rule: claim_one_cases)
      case (claimed s s')
      then show ?thesis using OpClaim False r by (intro changed [of s s']) auto
    qed (rule kept)
  qed
next
  case (OpRenew i owner lease)
  show ?thesis
  proof (cases "blank owner \<or> lease \<le> 0")
    case True
    then show ?thesis using assms OpRenew
      by (intro kept) (auto simp: RenewRecoveryLease_def split: if_splits)
  next
    case False
    then have "update_record f d i (\<lambda>s. bindR (renew_guard owner s) (\<lambda>s.
        Ok (s\<lparr>sn_lease_until := unix_ms (now + lease)\<rparr>))) = (d', r)"
      using assms OpRenew by (simp add: RenewRecoveryLease_def)
    then show ?thesis using OpRenew False
      by (cases rule: update_record_cases) (auto intro: kept changed)
  qed
qed


section \<open>Invariants\<close>

lemma perform_filed:
  assumes "perform op f now d = (d', r)" and "filed d"
  shows "filed d'"
  using assms(1)
proof (cases rule: perform_record)
  case kept
  with assms(2) show ?thesis by (simp add: filed_def keepsD)
next
  case (changed s s')
  with assms(2) show ?thesis by (auto simp: filed_def replaces_def)
next
  case (created s)
  with assms(2) show ?thesis by (auto simp: filed_def replaces_def)
qed

lemma perform_at:
  assumes "perform op f now d = (d', r)" and "filed d" and "recovery_of d i = Some s"
  obtains (same) "recovery_of d' i = Some s"
  | (moved) s' where "target op = i" "change op now s = Ok s'" "recovery_of d' i = Some s'"
  using assms(1)
proof (cases rule: perform_record)
  case kept
  then show ?thesis using same assms(3) by (simp add: keepsD)
next
  case (changed t t')
  have "sn_invocation_id t' = target op"
    using changed change_id filedD [OF assms(2)] by metis
  with changed assms(3) show ?thesis using same moved
    by (cases "target op = i") (auto simp: replaces_def)
next
  case (created t)
  with assms(3) show ?thesis using same by (cases "target op = i") (auto simp: replaces_def)
qed

text \<open>A record is well-formed when its events are numbered by their positions, its phase is one
  of the five, a lease belongs to a named owner in a leased phase, and an unleased record
  has no expiry.\<close>

definition record_ok :: "recovery_snapshot \<Rightarrow> bool" where
  "record_ok s \<longleftrightarrow>
     map pe_sequence (sn_events s) = map word_of_nat [0..<length (sn_events s)]
     \<and> sn_phase s \<in> {''running'', ''recovering'', ''suspended'', ''finalizing'', ''closed''}
     \<and> (sn_lease_owner s \<noteq> [] \<longrightarrow> sn_phase s \<in> {''recovering'', ''finalizing''} \<and> \<not> blank (sn_lease_owner s))
     \<and> (sn_lease_owner s = [] \<longrightarrow> sn_lease_until s = 0)"

lemma change_record_ok:
  assumes ch: "change op now s = Ok s'" and ok: "record_ok s"
  shows "record_ok s'"
proof (cases op)
  case (OpInitialize s0)
  then show ?thesis using ch by simp
next
  case (OpAppend i owner e)
  then have "append_guard now owner e s = Ok s" and s': "s' = record_event e s"
    using ch by (auto simp: bindR_Ok_iff append_guard_def split: if_splits)
  then have "word_of_nat (length (sn_events s)) = pe_sequence e"
    by (simp add: append_guard_def split: if_splits)
  then show ?thesis using ok unfolding s' record_event_def Let_def
    by (cases "state_IsTerminal (pe_state e)") (simp_all add: record_ok_def)
next
  case (OpCheckpoint i owner c)
  then have "s' = s\<lparr>sn_checkpoint := c\<rparr>"
    using ch by (auto simp: bindR_Ok_iff checkpoint_guard_def split: if_splits)
  then show ?thesis using ok by (simp add: record_ok_def)
next
  case (OpFinalize i owner)
  then have "s' = s\<lparr>sn_phase := ''finalizing''\<rparr>"
    using ch by (auto simp: bindR_Ok_iff finalization_guard_def split: if_splits)
  then show ?thesis using ok by (simp add: record_ok_def)
next
  case (OpMark i phase)
  then have phase: "phase \<in> {''running'', ''recovering'', ''suspended'', ''closed''}"
    and s': "s' = (if phase \<noteq> ''recovering'' then s\<lparr>sn_phase := phase, sn_lease_owner := [], sn_lease_until := 0\<rparr>
               else s\<lparr>sn_phase := phase\<rparr>)"
    using ch by (auto simp: mark_phase_def split: if_splits)
  show ?thesis
  proof (cases "phase = ''recovering''")
    case True
    then show ?thesis using s' ok by (simp add: record_ok_def)
  next
    case False
    have events: "map pe_sequence (sn_events s) = map word_of_nat [0..<length (sn_events s)]"
      using ok by (simp add: record_ok_def)
    have "phase \<in> {''running'', ''recovering'', ''suspended'', ''finalizing'', ''closed''}"
      using phase by (simp only: insert_iff empty_iff) (elim disjE; simp only: simp_thms)
    moreover have "s' = s\<lparr>sn_phase := phase, sn_lease_owner := [], sn_lease_until := 0\<rparr>"
      using s' by (simp only: False not_False_eq_True if_True)
    ultimately show ?thesis unfolding record_ok_def by (simp add: events)
  qed
next
  case (OpClaim i owner lease)
  then have "\<not> blank owner"
    and "s' = s\<lparr>sn_phase := ''recovering'', sn_lease_owner := owner, sn_lease_until := lease_until now lease\<rparr>"
    using ch by (auto split: if_splits)
  then show ?thesis using ok by (auto simp: record_ok_def)
next
  case (OpRenew i owner lease)
  then have "\<not> blank owner" "sn_lease_owner s = owner" "s' = s\<lparr>sn_lease_until := unix_ms (now + lease)\<rparr>"
    using ch by (auto simp: bindR_Ok_iff renew_guard_def split: if_splits)
  then show ?thesis using ok by (auto simp: record_ok_def)
qed

lemma change_events:
  assumes "change op now s = Ok s'"
  shows "prefix (sn_events s) (sn_events s')"
  using assms
  by (cases op) (auto simp: guard_defs record_event_def Let_def bindR_Ok_iff split: if_splits)

definition all_ok :: "log_dir \<Rightarrow> bool" where
  "all_ok d = (filed d \<and> (\<forall>i s. recovery_of d i = Some s \<longrightarrow> record_ok s))"

fun starts_ok :: "log_op \<Rightarrow> bool" where
  "starts_ok (OpInitialize s) = record_ok s"
| "starts_ok _ = True"

lemma perform_all_ok:
  assumes "perform op f now d = (d', r)" and "all_ok d" and "starts_ok op"
  shows "all_ok d'"
proof -
  have "filed d'" using perform_filed [OF assms(1)] assms(2) by (simp add: all_ok_def)
  moreover have "record_ok s" if s: "recovery_of d' i = Some s" for i s
    using assms(1)
  proof (cases rule: perform_record)
    case kept
    with s assms(2) show ?thesis by (simp add: all_ok_def keepsD)
  next
    case (changed t t')
    with s assms(2) show ?thesis
      by (auto simp: all_ok_def replaces_def split: if_splits dest: change_record_ok)
  next
    case (created t)
    with s assms(2,3) show ?thesis by (auto simp: all_ok_def replaces_def split: if_splits)
  qed
  ultimately show ?thesis by (simp add: all_ok_def)
qed

lemma run_all_ok: "all_ok d \<Longrightarrow> \<forall>(op, f, now) \<in> set ops. starts_ok op \<Longrightarrow> all_ok (run_log ops d)"
proof (induction ops d rule: run_log.induct)
  case (2 op f now rest d)
  then show ?case using perform_all_ok [of op f now d "fst (perform op f now d)" "snd (perform op f now d)"]
    by auto
qed simp

lemma run_events:
  assumes "filed d" and "recovery_of d i = Some s"
  shows "\<exists>s'. recovery_of (run_log ops d) i = Some s' \<and> prefix (sn_events s) (sn_events s')"
  using assms
proof (induction ops d arbitrary: s rule: run_log.induct)
  case (2 op f now rest d)
  obtain d' r where p: "perform op f now d = (d', r)" by fastforce
  have filed: "filed d'" using perform_filed [OF p 2(2)] .
  from p 2(2,3) have "\<exists>t. recovery_of d' i = Some t \<and> prefix (sn_events s) (sn_events t)"
    by (cases rule: perform_at) (auto dest: change_events)
  then obtain t where t: "recovery_of d' i = Some t" "prefix (sn_events s) (sn_events t)" by blast
  from 2(1) [of t] filed t p show ?case by (auto intro: prefix_order.trans)
qed auto

text \<open>A record that no allowed operation can change stays.\<close>

lemma run_stays:
  assumes "filed d" and "recovery_of d i = Some s"
    and "\<And>op f now s'. (op, f, now) \<in> set ops \<Longrightarrow> target op = i \<Longrightarrow> change op now s \<noteq> Ok s'"
  shows "recovery_of (run_log ops d) i = Some s"
  using assms
proof (induction ops d rule: run_log.induct)
  case (2 op f now rest d)
  obtain d' r where p: "perform op f now d = (d', r)" by fastforce
  have filed: "filed d'" using perform_filed [OF p 2(2)] .
  from p 2(2,3) have "recovery_of d' i = Some s"
    by (cases rule: perform_at) (use 2(4) in auto)
  with 2(1,4) filed p show ?case by auto
qed simp

section \<open>Batches\<close>

definition granted :: "string \<Rightarrow> i64 \<Rightarrow> recovery_snapshot \<Rightarrow> recovery_snapshot" where
  "granted owner until s = s\<lparr>sn_phase := ''recovering'', sn_lease_owner := owner, sn_lease_until := until\<rparr>"

definition overlay :: "recovery_snapshot list \<Rightarrow> log_dir \<Rightarrow> string \<Rightarrow> recovery_snapshot option" where
  "overlay ss d i = (case find (\<lambda>s. sn_invocation_id s = i) ss of Some s \<Rightarrow> Some s | None \<Rightarrow> recovery_of d i)"

lemma claim_loop_spec:
  assumes "claim_loop f d now until owner limit ids acc = (d', Ok out)" and "filed d" and "distinct ids"
  shows "\<exists>new. out = acc @ new
    \<and> new = take (limit - length acc) (map (granted owner until)
              (filter (claimable now) (map (\<lambda>i. the (recovery_of d i)) ids)))
    \<and> (\<forall>j. recovery_of d' j = overlay new d j) \<and> (\<forall>t\<in>set new. sn_invocation_id t \<in> set ids)"
  using assms
proof (induction ids arbitrary: d acc)
  case Nil
  then show ?case by (simp add: overlay_def)
next
  case (Cons i ids)
  show ?case
  proof (cases "limit \<le> length acc")
    case True
    with Cons show ?thesis by (simp add: overlay_def)
  next
    case False
    obtain d1 r where one: "claim_one f d now until owner i = (d1, r)" by fastforce
    from one show ?thesis
    proof (cases rule: claim_one_cases)
      case kept
      then have r: "r = Ok None"
        using Cons.prems(1) False one by (auto split: result.splits option.splits)
      with kept obtain s where s: "recovery_of d i = Some s" "\<not> claimable now s" by blast
      have same: "recovery_of d1 = recovery_of d" using kept(1) by (simp add: keepsD fun_eq_iff)
      have "claim_loop f d1 now until owner limit ids acc = (d', Ok out)" "filed d1" "distinct ids"
        using Cons.prems False one r same by (auto simp: filed_def)
      from Cons.IH [OF this] show ?thesis using s unfolding overlay_def same by auto
    next
      case (claimed s s')
      have s': "s' = granted owner until s" using claimed(3) by (simp add: granted_def)
      have id: "sn_invocation_id s' = i"
        using filedD [OF Cons.prems(2) claimed(1)] by (simp add: s' granted_def)
      have d1: "recovery_of d1 j = (if j = i then Some s' else recovery_of d j)" for j
        using claimed(4) id by (simp add: replaces_def)
      have rest: "map (\<lambda>j. the (recovery_of d1 j)) ids = map (\<lambda>j. the (recovery_of d j)) ids"
        using Cons.prems(3) by (auto simp: d1)
      have "claim_loop f d1 now until owner limit ids (acc @ [s']) = (d', Ok out)" "distinct ids"
        using Cons.prems False one claimed(5) by auto
      moreover have "filed d1" using Cons.prems(2) id by (auto simp: filed_def d1)
      ultimately obtain new where new: "out = (acc @ [s']) @ new"
        "new = take (limit - length (acc @ [s'])) (map (granted owner until)
              (filter (claimable now) (map (\<lambda>i. the (recovery_of d1 i)) ids)))"
        "\<forall>j. recovery_of d' j = overlay new d1 j" "\<forall>t\<in>set new. sn_invocation_id t \<in> set ids"
        using Cons.IH by blast
      have len: "limit - length acc = Suc (limit - length (acc @ [s']))" using False by simp
      have "overlay new d1 j = overlay (s' # new) d j" for j
      proof (cases "j = i")
        case True
        then have "find (\<lambda>s. sn_invocation_id s = j) new = None"
          using new(4) Cons.prems(3) by (auto simp: find_None_iff)
        then show ?thesis using True id by (simp add: overlay_def d1)
      next
        case False
        then have same: "recovery_of d1 j = recovery_of d j" by (simp add: d1)
        show ?thesis using id False unfolding overlay_def same by simp
      qed
      then show ?thesis
        using new claimed(1,2) id unfolding rest len
        by (intro exI [of _ "s' # new"]) (simp add: s')
    qed
  qed
qed

section \<open>Samples\<close>

definition demo_snapshot :: "string \<Rightarrow> string \<Rightarrow> i64 \<Rightarrow> recovery_snapshot" where
  "demo_snapshot phase owner until =
     \<lparr>sn_invocation_id = ''i'', sn_envelope = demo_envelope,
      sn_signature = \<lparr>cs_algorithm = ''ed25519'', cs_signature = [], cs_key_id_hint = []\<rparr>,
      sn_payload = [], sn_parent = [], sn_spec = empty_spec, sn_ability_ura = [], sn_deadline_ms = 0,
      sn_checkpoint = [], sn_events = [], sn_phase = phase, sn_lease_owner = owner, sn_lease_until = until\<rparr>"

definition demo_log :: "recovery_snapshot \<Rightarrow> log_dir" where
  "demo_log s = empty_log\<lparr>ld_recovery := [(sn_invocation_id s, Decoded s)]\<rparr>"

lemma demo_log_recovery [simp]:
  "recovery_of (demo_log s) i = (if i = sn_invocation_id s then Some s else None)"
  by (simp add: demo_log_def recovery_of_def)

lemma demo_log_filed [simp]: "filed (demo_log s)"
  by (simp add: filed_def)

section \<open>Properties\<close>

text \<open>C22: a lease is exclusive.  While a runtime holds the lease of a recovery record and the
  lease has not run out, no operation of anyone else (appending, checkpointing, finalizing,
  claiming, renewing, starting over) changes the record in any way, whatever I/O errors
  occur; only \<open>MarkRecoveryPhase\<close> is exempt.\<close>

theorem lease_exclusive:
  assumes "filed d" and "recovery_of d i = Some s"
    and "sn_phase s = ''recovering'' \<or> sn_phase s = ''finalizing''"
    and "sn_lease_owner s = A" and "A \<noteq> []"
    and "\<forall>(op, f, now) \<in> set ops. target op = i \<longrightarrow>
           actor op \<noteq> A \<and> \<not> is_mark op \<and> sint (unix_ms now) < sint (sn_lease_until s)"
  shows "recovery_of (run_log ops d) i = Some s"
proof (rule run_stays [OF assms(1,2)])
  fix op f now s'
  assume "(op, f, now) \<in> set ops" "target op = i"
  with assms(6) have "actor op \<noteq> A" "\<not> is_mark op" "sint (unix_ms now) < sint (sn_lease_until s)" by auto
  with assms(3-5) show "change op now s \<noteq> Ok s'"
    by (cases op) (auto simp: guard_defs claimable_def bindR_Ok_iff split: if_splits)
qed

theorem lease_exclusive_witness:
  "recovery_of (run_log [(OpClaim ''i'' ''b'' 1000000, no_faults, 0), (OpCheckpoint ''i'' [] [1], no_faults, 0)]
     (demo_log (demo_snapshot ''recovering'' ''a'' 7))) ''i'' = Some (demo_snapshot ''recovering'' ''a'' 7)"
  by (rule lease_exclusive [where A = "''a''", OF demo_log_filed]) (simp_all add: demo_snapshot_def unix_ms_def)

text \<open>Recovery records stay well-formed and only grow.  Whatever operations are performed by
  whomever, with whatever I/O errors, the events of every record are numbered by their
  positions, its phase is one of the five, a lease has a named owner and a leased phase,
  and the events a record once had remain its first events.\<close>

theorem records_sound:
  assumes "all_ok d" and "\<forall>(op, f, now) \<in> set ops. starts_ok op"
  shows "(\<forall>i s. recovery_of (run_log ops d) i = Some s \<longrightarrow> record_ok s)
    \<and> (\<forall>i s. recovery_of d i = Some s \<longrightarrow>
          (\<exists>s'. recovery_of (run_log ops d) i = Some s' \<and> prefix (sn_events s) (sn_events s')))"
  using run_all_ok [OF assms] run_events assms(1) by (auto simp: all_ok_def)

theorem records_sound_witness:
  "record_ok (the (recovery_of (run_log [(OpClaim ''i'' ''b'' 1000000, no_faults, 0)]
     (demo_log (demo_snapshot ''suspended'' [] 0))) ''i''))"
proof -
  let ?d = "demo_log (demo_snapshot ''suspended'' [] 0)"
  let ?ops = "[(OpClaim ''i'' ''b'' 1000000, no_faults, 0 :: int)]"
  have "record_ok (demo_snapshot ''suspended'' [] 0)"
    by (simp add: record_ok_def demo_snapshot_def)
  then have ok: "all_ok ?d"
    by (simp add: all_ok_def)
  have "recovery_of ?d ''i'' \<noteq> None" by (simp add: demo_snapshot_def)
  then obtain s' where "recovery_of (run_log ?ops ?d) ''i'' = Some s'"
    using run_events [of ?d "''i''" _ ?ops] by (auto simp del: run_log.simps)
  with records_sound [OF ok, of ?ops] show ?thesis by (simp del: run_log.simps)
qed

text \<open>A failed operation costs nothing: when an operation on a recovery record reports an
  error, of the guards or of the I/O, every recovery record is exactly what it was.\<close>

theorem failed_operation_keeps_records:
  assumes "perform op f now d = (d', r)" and "\<not> is_ok r"
  shows "ld_recovery d' = ld_recovery d"
  using assms(1) by (cases rule: perform_record) (use assms(2) in \<open>auto simp: keeps_def\<close>)

theorem failed_operation_keeps_records_witness:
  "\<exists>d' e. perform (OpCheckpoint ''i'' ''b'' [1]) no_faults 0 (demo_log (demo_snapshot ''recovering'' ''a'' 7)) = (d', Fail e)
     \<and> ld_recovery d' = ld_recovery (demo_log (demo_snapshot ''recovering'' ''a'' 7))"
proof -
  let ?d = "demo_log (demo_snapshot ''recovering'' ''a'' 7)" and ?op = "OpCheckpoint ''i'' ''b'' [1]"
  have guard: "checkpoint_guard 0 ''b'' (demo_snapshot ''recovering'' ''a'' 7) = plain_err ''recovery_lease_lost''"
    by (simp add: checkpoint_guard_def demo_snapshot_def)
  have load: "load_record no_faults ?d ''i'' = Ok (demo_snapshot ''recovering'' ''a'' 7)"
    by (simp add: load_record_Ok) (simp add: demo_snapshot_def)
  have blank: "\<not> blank ''b''" by code_simp
  have p: "perform ?op no_faults 0 ?d = (?d, plain_err ''recovery_lease_lost'')"
    using blank by (simp add: CheckpointRecoveredInvocation_def checkpointRecovery_def update_record_def load guard)
  show ?thesis
    using p failed_operation_keeps_records [OF p] by (intro exI [of _ ?d]) simp
qed

text \<open>\<open>MarkRecoveryPhase\<close> asks for no owner.  Marking a record suspended succeeds in every
  phase but finalizing, even while another runtime holds a live lease and even when the
  record is closed; afterwards any runtime claims the invocation, and the former owner has
  lost it.\<close>

theorem mark_breaks_lease:
  assumes "filed d" and "recovery_of d i = Some s" and "sn_phase s \<noteq> ''finalizing''" and "\<not> blank B"
  shows "\<exists>d1 d2 s'. MarkRecoveryPhase no_faults d i ''suspended'' = (d1, Ok ())
    \<and> claim_one no_faults d1 now until B i = (d2, Ok (Some s'))
    \<and> sn_phase s' = ''recovering'' \<and> sn_lease_owner s' = B \<and> sn_events s' = sn_events s
    \<and> (\<forall>A t c. A \<noteq> B \<longrightarrow> \<not> is_ok (snd (checkpointRecovery no_faults d2 t i A c)))"
proof -
  let ?s1 = "s\<lparr>sn_phase := ''suspended'', sn_lease_owner := [], sn_lease_until := 0\<rparr>"
  let ?s2 = "?s1\<lparr>sn_phase := ''recovering'', sn_lease_owner := B, sn_lease_until := until\<rparr>"
  have id: "sn_invocation_id s = i" using filedD [OF assms(1,2)] .
  let ?d1 = "d\<lparr>ld_recovery := AList.update i (Decoded ?s1) (ld_recovery d)\<rparr>"
  let ?d2 = "?d1\<lparr>ld_recovery := AList.update i (Decoded ?s2) (ld_recovery ?d1)\<rparr>"
  have load: "load_record no_faults d i = Ok s"
    using assms(2) by (simp add: load_record_Ok)
  have mark: "MarkRecoveryPhase no_faults d i ''suspended'' = (?d1, Ok ())"
    using assms(3) id
    by (simp add: MarkRecoveryPhase_def update_record_def load mark_phase_def writeRecoveryUnlocked_def)
  have "claim_one no_faults ?d1 now until B i = (?d2, Ok (Some ?s2))"
    using id by (simp add: claim_one_def readRecoveryUnlocked_def validateRecoveryCandidate_def
        claimable_def writeRecoveryUnlocked_def update_conv Let_def)
  moreover have "\<not> is_ok (snd (checkpointRecovery no_faults ?d2 t i A c))" if "A \<noteq> B" for A t c
  proof -
    have "load_record no_faults ?d2 i = Ok ?s2"
      by (simp add: load_record_Ok recovery_of_def update_conv)
    moreover have "\<not> is_ok (checkpoint_guard t A ?s2)"
      using that assms(4) by (cases "B = []") (simp_all add: checkpoint_guard_def)
    ultimately show ?thesis
      by (cases "checkpoint_guard t A ?s2") (simp_all add: checkpointRecovery_def update_record_def)
  qed
  ultimately show ?thesis using mark
    by (intro exI [of _ ?d1] exI [of _ ?d2] exI [of _ ?s2]) simp
qed

theorem mark_breaks_lease_witness:
  "\<exists>d1 d2 s'. MarkRecoveryPhase no_faults (demo_log (demo_snapshot ''closed'' [] 0)) ''i'' ''suspended'' = (d1, Ok ())
    \<and> claim_one no_faults d1 0 5 ''b'' ''i'' = (d2, Ok (Some s')) \<and> sn_lease_owner s' = ''b''"
proof -
  have b: "\<not> blank ''b''" by code_simp
  have "recovery_of (demo_log (demo_snapshot ''closed'' [] 0)) ''i'' = Some (demo_snapshot ''closed'' [] 0)"
    "sn_phase (demo_snapshot ''closed'' [] 0) \<noteq> ''finalizing''"
    by (simp_all add: demo_snapshot_def)
  from mark_breaks_lease [OF demo_log_filed this b, of 0 5] show ?thesis by blast
qed


text \<open>What a claim batch grants.  A successful \<open>ClaimRecovery\<close> returns exactly the
  claimable records, in the order of their identifiers and up to the limit, each leased to
  the claimant; the directory afterwards holds those records and is otherwise the same.\<close>

theorem claim_batch:
  assumes "ClaimRecovery f d now owner lease limit = (d', Ok claimed)"
    and "filed d" and "distinct (map fst (ld_recovery d))"
  shows "claimed =
      take (if limit \<le> 0 \<or> limit > int (length (ld_recovery d)) then length (ld_recovery d) else nat limit)
        (map (granted owner (lease_until now lease)) (filter (claimable (unix_ms now))
           (map (\<lambda>i. the (recovery_of d i)) (sort (map fst (ld_recovery d))))))
    \<and> (\<forall>i. recovery_of d' i = overlay claimed d i)"
proof -
  have "claim_loop f d (unix_ms now) (lease_until now lease) owner
      (if limit \<le> 0 \<or> limit > int (length (ld_recovery d)) then length (ld_recovery d) else nat limit)
      (sort (map fst (ld_recovery d))) [] = (d', Ok claimed)"
    using assms(1) by (auto simp: ClaimRecovery_def listRecoveryInvocations_def
        split: if_splits option.splits result.splits)
  from claim_loop_spec [OF this assms(2)] assms(3) show ?thesis by auto
qed

theorem claim_batch_witness:
  "\<exists>d'. ClaimRecovery no_faults (demo_log (demo_snapshot ''suspended'' [] 0)) 0 ''b'' 5000000 1
      = (d', Ok [demo_snapshot ''recovering'' ''b'' 5])
    \<and> recovery_of d' ''i'' = Some (demo_snapshot ''recovering'' ''b'' 5)"
proof -
  let ?s = "demo_snapshot ''suspended'' [] 0" let ?d = "demo_log ?s"
  have b: "\<not> blank ''b''" by code_simp
  have rec: "ld_recovery ?d = [(''i'', Decoded ?s)]" by (simp add: demo_log_def) (simp add: demo_snapshot_def)
  have g: "granted ''b'' (lease_until 0 5000000) ?s = demo_snapshot ''recovering'' ''b'' 5"
    by (simp add: granted_def demo_snapshot_def lease_until_def unix_ms_def)
  have c: "claimable (unix_ms 0) ?s" by (simp add: claimable_def demo_snapshot_def)
  have id: "sn_invocation_id ?s = ''i''" "sn_phase ?s = ''suspended''" by (simp_all add: demo_snapshot_def)
  obtain d' out where run: "ClaimRecovery no_faults ?d 0 ''b'' 5000000 1 = (d', Ok out)"
    using b c id by (simp add: ClaimRecovery_def listRecoveryInvocations_def rec ReadRecovery_def
        readRecoveryUnlocked_def validateRecoveryCandidate_def claim_one_def writeRecoveryUnlocked_def Let_def)
  from claim_batch [OF run] show ?thesis
    using run by (auto simp: rec c id g overlay_def) (simp_all add: demo_snapshot_def)
qed

definition blocks_claims :: "log_dir \<Rightarrow> string \<Rightarrow> bool" where
  "blocks_claims d i = ((\<exists>s. recovery_of d i = Some s \<and> sn_phase s = ''finalizing'')
     \<or> (\<exists>e. map_of (ld_recovery d) i = Some (Undecodable e)))"

lemma preflight_blocked:
  "i \<in> set ids \<Longrightarrow> blocks_claims d i \<Longrightarrow> \<not> is_ok (preflight f d ids)"
proof (induction ids)
  case (Cons j ids)
  have "\<not> is_ok (bindR (ReadRecovery f d i) (\<lambda>found. bindR (validateRecoveryCandidate i found) (\<lambda>_. Ok ())))"
    using Cons.prems(2) by (auto simp: blocks_claims_def ReadRecovery_def readRecoveryUnlocked_def recovery_of_def
        validateRecoveryCandidate_def split: option.splits file_content.splits)
  with Cons show ?case
    by (cases "j = i") (auto simp: is_ok_iff bindR_Ok_iff)
qed simp

text \<open>One unfinished record stops every claim.  While any record is finalizing, or cannot
  be decoded, \<open>ClaimRecovery\<close> fails and leases nothing, whatever else is claimable.\<close>

theorem finalizing_blocks_claims:
  assumes "blocks_claims d i"
  shows "fst (ClaimRecovery f d now owner lease limit) = d \<and> \<not> is_ok (snd (ClaimRecovery f d now owner lease limit))"
proof -
  have "i \<in> set (sort (map fst (ld_recovery d)))"
    using assms by (force simp: blocks_claims_def recovery_of_def split: option.splits dest: map_of_SomeD)
  from preflight_blocked [OF this assms, of f] show ?thesis
    by (cases "preflight f d (sort (map fst (ld_recovery d)))")
      (auto simp: ClaimRecovery_def listRecoveryInvocations_def split: option.splits)
qed

theorem finalizing_blocks_claims_witness:
  "\<not> is_ok (snd (ClaimRecovery no_faults (demo_log (demo_snapshot ''finalizing'' [] 0)) 0 ''b'' 1 1))"
proof -
  have "blocks_claims (demo_log (demo_snapshot ''finalizing'' [] 0)) ''i''"
    by (simp add: blocks_claims_def) (simp add: demo_snapshot_def)
  from finalizing_blocks_claims [OF this] show ?thesis by blast
qed

end
