(* ===== verification/Durability.thy ===== *)
theory Durability
  imports LeaseProperties LifecycleProperties
begin

text \<open>
  The invocation core writing to the durable log, and recovery reading it back: the
  persistence sinks of \<open>axon/invocation/local_runtime.go\<close> (\<open>invokeRegistered\<close> and
  \<open>recoverSnapshot\<close>) and the loop of \<open>recoverSnapshot\<close> that restores the events.

  The locale \<open>event_store\<close> is what the core's history needs of a sink: an accepted event
  is appended and carried the position it got, a refused one changes nothing.  The sink of
  the code satisfies it whatever I/O errors occur; they come from the environment of
  \<open>log_world\<close>, one for each write.
\<close>

section \<open>The sink\<close>

definition persisted_of :: "invocation_event \<Rightarrow> signed_receipt \<Rightarrow> persisted_event" where
  "persisted_of event receipt =
     \<lparr>pe_sequence = ie_sequence event, pe_type = ie_type event, pe_state = ie_state event,
      pe_timestamp = ie_timestamp event, pe_payload = ie_payload event,
      pe_content_type = ie_content_type event, pe_reason = ie_reason event,
      pe_cleanup_complete = rc_cleanup_complete (sr_record receipt), pe_child = ie_child event,
      pe_receipt_hash = receipt_SelfHash receipt\<rparr>"

record log_world =
  lw_dir :: log_dir
  lw_env :: "nat \<Rightarrow> io \<times> int"
  lw_tick :: nat

text \<open>The sink of an invocation: \<open>owner\<close> is empty for the runtime that started it and the
  runtime's identifier for a recovered one.\<close>

definition durable_sink :: "string \<Rightarrow> string \<Rightarrow> log_world persistence_sink" where
  "durable_sink i owner w event receipt =
     (case lw_env w (lw_tick w) of (f, now) \<Rightarrow>
        (case perform (OpAppend i owner (persisted_of event receipt)) f now (lw_dir w) of
           (d, r) \<Rightarrow> (w\<lparr>lw_dir := d, lw_tick := lw_tick w + 1\<rparr>,
                      case r of Ok _ \<Rightarrow> None | Fail e \<Rightarrow> Some e | Panic e \<Rightarrow> Some e)))"

text \<open>The loop of \<open>recoverSnapshot\<close> that replays the record.\<close>

fun restore_events ::
  "platform \<Rightarrow> ('p \<Rightarrow> 'c \<Rightarrow> append_input \<Rightarrow> 'p \<times> signed_receipt result) \<Rightarrow> 's persistence_sink option \<Rightarrow>
   'c core \<Rightarrow> 'p \<Rightarrow> 's \<Rightarrow> persisted_event list \<Rightarrow> i64 \<Rightarrow> 'c core \<times> 'p \<times> 's \<times> unit result" where
  "restore_events P app sink c p s [] now = (c, p, s, Ok ())"
| "restore_events P app sink c p s (e # es) now =
     (case restoreEvent P app sink c p s e now of
        (c', p', s', Emitted ev None) \<Rightarrow> restore_events P app sink c' p' s' es now
      | (c', p', s', Emitted ev (Some err)) \<Rightarrow> (c', p', s', Fail (AxonErr err))
      | (c', p', s', EmitFailed err) \<Rightarrow> (c', p', s', Fail (AxonErr err))
      | (c', p', s', EmitPanicked err) \<Rightarrow> (c', p', s', Panic err)
      | (c', p', s', EmitBlocked) \<Rightarrow> (c', p', s', Ok ()))"

section \<open>The interface of an event store\<close>

definition persisted_matches :: "persisted_event \<Rightarrow> invocation_event \<Rightarrow> bool" where
  "persisted_matches pe e \<longleftrightarrow>
     pe_sequence pe = ie_sequence e \<and> pe_type pe = ie_type e \<and> pe_state pe = ie_state e
     \<and> pe_timestamp pe = ie_timestamp e \<and> pe_payload pe = ie_payload e
     \<and> pe_content_type pe = ie_content_type e \<and> pe_reason pe = ie_reason e \<and> pe_child pe = ie_child e"

lemma persisted_of_matches [simp]: "persisted_matches (persisted_of e r) e"
  by (simp add: persisted_matches_def persisted_of_def)

text \<open>What an emission does to the store.\<close>

lemma emit_sink_cases:
  assumes "emitContext P app (Some store) c p s em now ctxDone = (c', p', s', r)"
  obtains (rejected) "c' = c" "s' = s" "\<And>e x. r \<noteq> Emitted e x"
  | (restored) receipt where "em_restoring em" "s' = s" "c' = emit_commit c em (emit_event c em now)"
      "app p (ic_context c) (emit_input em now) = (p', Ok receipt)" "r = Emitted (emit_event c em now) None"
  | (stored) receipt x x' where "\<not> em_restoring em" "c' = emit_commit c em (emit_event c em now)"
      "store s (emit_event c em now) receipt = (s', x)" "r = Emitted (emit_event c em now) x'" "x = None \<longleftrightarrow> x' = None"
proof (cases "emit_guard c em ctxDone")
  case None
  obtain q res where a: "app p (ic_context c) (emit_input em now) = (q, res)" by fastforce
  show ?thesis
  proof (cases res)
    case (Ok receipt)
    obtain t x where t: "store s (emit_event c em now) receipt = (t, x)" by fastforce
    show ?thesis
    proof (cases "em_restoring em")
      case True
      then show ?thesis using None a Ok assms by (intro restored) (auto simp: emitContext_def Let_def)
    next
      case False
      then show ?thesis using None a Ok assms t
        by (intro stored [of receipt x]) (auto simp: emitContext_def Let_def)
    qed
  qed (use None a assms in \<open>auto simp: emitContext_def intro!: rejected\<close>)
next
  case (Some r0)
  then have "\<And>e x. r0 \<noteq> Emitted e x"
    by (auto simp: emit_guard_def split: if_splits option.splits)
  with Some assms show ?thesis by (intro rejected) (auto simp: emitContext_def)
qed

lemma sequence_inj: "(word_of_nat m :: u64) = word_of_nat n \<Longrightarrow> m < 2 ^ 64 \<Longrightarrow> n < 2 ^ 64 \<Longrightarrow> m = n"
  by (simp add: word_of_nat_eq_iff take_bit_nat_eq_self)

locale event_store =
  fixes store :: "'s persistence_sink" and stored :: "'s \<Rightarrow> persisted_event list" and sound :: "'s \<Rightarrow> bool"
  assumes accepted: "\<lbrakk>sound s; store s e r = (s', None)\<rbrakk> \<Longrightarrow>
      sound s' \<and> stored s' = stored s @ [persisted_of e r] \<and> ie_sequence e = word_of_nat (length (stored s))"
    and rejected: "\<lbrakk>sound s; store s e r = (s', Some x)\<rbrakk> \<Longrightarrow> sound s' \<and> stored s' = stored s"
begin

text \<open>The store holds a prefix of the core's history.\<close>

definition durable :: "'c core \<Rightarrow> 's \<Rightarrow> bool" where
  "durable c s = (sound s \<and> length (stored s) \<le> length (ic_events c)
     \<and> list_all2 persisted_matches (stored s) (take (length (stored s)) (ic_events c)))"

lemma durable_grow:
  "durable c s \<Longrightarrow> prefix (ic_events c) (ic_events c') \<Longrightarrow> durable c' s"
  by (auto simp: durable_def prefix_def)

lemma durable_stored:
  assumes "durable c s" and "store s (emit_event c em now) receipt = (s', x)"
    and "length (ic_events c) < 2 ^ 64"
  shows "durable (emit_commit c em (emit_event c em now)) s'
    \<and> (x = None \<longrightarrow> length (stored s') = length (ic_events (emit_commit c em (emit_event c em now))))"
proof (cases x)
  case None
  with assms(2) have st: "store s (emit_event c em now) receipt = (s', None)" by simp
  have s: "sound s" "length (stored s) \<le> length (ic_events c)" using assms(1) by (simp_all add: durable_def)
  note a = accepted [OF s(1) st]
  have "(word_of_nat (length (ic_events c)) :: u64) = word_of_nat (length (stored s))"
    using a by (simp add: emit_event_def)
  then have "length (ic_events c) = length (stored s)"
    using assms(3) s(2) by (intro sequence_inj) simp_all
  with a assms(1) show ?thesis
    by (simp add: durable_def emit_commit_def list_all2_append)
next
  case (Some y)
  with assms(1,2) rejected [of s _ _ s' y] show ?thesis
    by (auto simp: durable_def emit_commit_def)
qed

end


section \<open>The durable log as an event store\<close>

definition stored_events :: "string \<Rightarrow> log_world \<Rightarrow> persisted_event list" where
  "stored_events i w = (case recovery_of (lw_dir w) i of Some s \<Rightarrow> sn_events s | None \<Rightarrow> [])"

definition sound_world :: "string \<Rightarrow> log_world \<Rightarrow> bool" where
  "sound_world i w = (filed (lw_dir w) \<and> recovery_of (lw_dir w) i \<noteq> None)"

lemma perform_append_cases:
  assumes "perform (OpAppend i owner e) f now d = (d', r)"
  obtains (kept) "\<not> is_ok r" "keeps d d'"
  | (appended) s where "recovery_of d i = Some s" "append_guard now owner e s = Ok s"
      "replaces d (sn_invocation_id s) (record_event e s) d'" "is_ok r"
proof (cases "owner \<noteq> [] \<and> blank owner")
  case True
  then show ?thesis using assms
    by (intro kept) (auto simp: AppendRecoveredLifecycleEvent_def)
next
  case False
  then have "appendLifecycleEvent f d now i owner e = (d', r)"
    using assms by (auto simp: AppendRecoveredLifecycleEvent_def AppendLifecycleEvent_def split: if_splits)
  then show ?thesis by (cases rule: append_cases) (auto intro: kept appended)
qed

lemma append_guard_sequence:
  "append_guard now owner e s = Ok s' \<Longrightarrow> pe_sequence e = word_of_nat (length (sn_events s))"
  by (simp add: append_guard_def split: if_splits)

lemma record_event_events [simp]: "sn_events (record_event e s) = sn_events s @ [e]"
  by (simp add: record_event_def Let_def)

interpretation log_store: event_store "durable_sink i owner" "stored_events i" "sound_world i"
proof unfold_locales
  fix s e r s'
  assume sound: "sound_world i s" and sink: "durable_sink i owner s e r = (s', None)"
  obtain f now where env: "lw_env s (lw_tick s) = (f, now)" by fastforce
  obtain d q where p: "perform (OpAppend i owner (persisted_of e r)) f now (lw_dir s) = (d, q)" by fastforce
  with sink env have s': "s' = s\<lparr>lw_dir := d, lw_tick := lw_tick s + 1\<rparr>" and ok: "is_ok q"
    by (auto simp: durable_sink_def is_ok_iff simp del: perform.simps split: result.splits)
  from p show "sound_world i s' \<and> stored_events i s' = stored_events i s @ [persisted_of e r]
      \<and> ie_sequence e = word_of_nat (length (stored_events i s))"
  proof (cases rule: perform_append_cases)
    case (appended t)
    have id: "sn_invocation_id t = i" using filedD appended(1) sound by (auto simp: sound_world_def)
    have "recovery_of d i = Some (record_event (persisted_of e r) t)"
      using appended(3) id by (simp add: replaces_def)
    moreover have "filed d" using perform_filed [OF p] sound by (simp add: sound_world_def)
    moreover have "pe_sequence (persisted_of e r) = word_of_nat (length (sn_events t))"
      using append_guard_sequence [OF appended(2)] .
    ultimately show ?thesis using appended(1) by (simp add: s' sound_world_def stored_events_def persisted_of_def)
  qed (use ok in simp)
next
  fix s e r s' x
  assume sound: "sound_world i s" and sink: "durable_sink i owner s e r = (s', Some x)"
  obtain f now where env: "lw_env s (lw_tick s) = (f, now)" by fastforce
  obtain d q where p: "perform (OpAppend i owner (persisted_of e r)) f now (lw_dir s) = (d, q)" by fastforce
  with sink env have s': "s' = s\<lparr>lw_dir := d, lw_tick := lw_tick s + 1\<rparr>" and ok: "\<not> is_ok q"
    by (auto simp: durable_sink_def is_ok_iff simp del: perform.simps split: result.splits)
  from p show "sound_world i s' \<and> stored_events i s' = stored_events i s"
    by (cases rule: perform_append_cases)
      (use ok sound in \<open>auto simp: s' sound_world_def stored_events_def keepsD filed_def\<close>)
qed

text \<open>The core beside everything else that uses the log.  Anybody may perform any operation at
  any time: claim the record, renew a lease, mark a phase, checkpoint, finalize, and also try
  to append to this record as another owner.  The one restriction is on the last: it is made
  while the record still names this runtime (\<open>names\<close>), and then the code refuses it
  (\<open>other_append_refused\<close>); a runtime that has taken the record over appends events of its
  own, which this core does not have.\<close>

definition names :: "string \<Rightarrow> string \<Rightarrow> log_dir \<Rightarrow> bool" where
  "names i owner d = (\<forall>s. recovery_of d i = Some s \<longrightarrow> sn_lease_owner s = owner)"

inductive durable_step ::
  "platform \<Rightarrow> authority_resolver \<Rightarrow> string \<Rightarrow> string \<Rightarrow>
   (bound_context option, provider, log_world) core_system \<Rightarrow>
   (bound_context option, provider, log_world) core_system \<Rightarrow> bool"
  for P resolve i owner where
  core: "default_step P resolve (Some (durable_sink i owner)) x y \<Longrightarrow> durable_step P resolve i owner x y"
| log: "\<lbrakk>perform op f now (lw_dir (cz_store x)) = (d, r);
      \<And>other e. op = OpAppend i other e \<Longrightarrow> other \<noteq> owner \<and> names i owner (lw_dir (cz_store x))\<rbrakk>
     \<Longrightarrow> durable_step P resolve i owner x (x\<lparr>cz_store := (cz_store x)\<lparr>lw_dir := d\<rparr>\<rparr>)"

definition durable_initial :: "platform \<Rightarrow> bound_context option \<Rightarrow> string \<Rightarrow>
   (bound_context option, provider, log_world) core_system \<Rightarrow> bool" where
  "durable_initial P ctx i x =
     (core_initial ctx context_log (provider_inv P) x \<and> sound_world i (cz_store x)
      \<and> stored_events i (cz_store x) = [])"

lemma other_append_refused:
  "sn_lease_owner s = owner \<Longrightarrow> other \<noteq> owner \<Longrightarrow> \<not> is_ok (append_guard now other e s)"
  by (auto simp: append_guard_def)

lemma other_keeps_events:
  assumes "perform op f now d = (d', r)"
    and "\<And>other e. op = OpAppend i other e \<Longrightarrow> other \<noteq> owner \<and> names i owner d"
    and "filed d" and "recovery_of d i = Some s"
  shows "\<exists>s'. recovery_of d' i = Some s' \<and> sn_events s' = sn_events s"
  using assms(1,3,4)
proof (cases rule: perform_at)
  case same
  then show ?thesis by blast
next
  case (moved s')
  have "sn_events s' = sn_events s"
  proof (cases op)
    case (OpAppend j other e)
    with moved assms(2,4) have "other \<noteq> owner" "sn_lease_owner s = owner" by (auto simp: names_def)
    from other_append_refused [OF this(2,1)] moved OpAppend show ?thesis
      by (auto simp: bindR_Ok_iff is_ok_iff)
  qed (use moved in \<open>auto simp: guard_defs bindR_Ok_iff split: if_splits\<close>)
  with moved(3) show ?thesis by blast
qed

definition durable_inv :: "platform \<Rightarrow> bound_context option \<Rightarrow> string \<Rightarrow>
   (bound_context option, provider, log_world) core_system \<Rightarrow> bool" where
  "durable_inv P ctx i x =
     (default_log.system_inv P ctx x
      \<and> (length (ic_events (cz_core x)) < 2 ^ 64 \<longrightarrow> log_store.durable i (cz_core x) (cz_store x)))"

lemma core_step_durable:
  assumes "default_step P resolve (Some (durable_sink i owner)) x y"
    and "log_store.durable i (cz_core x) (cz_store x)" and "length (ic_events (cz_core x)) < 2 ^ 64"
  shows "log_store.durable i (cz_core y) (cz_store y)"
  using assms(1)
proof cases
  case (emit em now ctxDone c p s r)
  from emit(2) show ?thesis
  proof (cases rule: emit_sink_cases)
    case rejected
    with emit(1) assms(2) show ?thesis by simp
  next
    case (restored receipt)
    with emit(1) assms(2) log_store.durable_grow [of i "cz_core x" "cz_store x" c] show ?thesis
      by (simp add: emit_commit_def prefix_def)
  next
    case (stored receipt z z')
    with emit(1) log_store.durable_stored [OF assms(2) stored(3) assms(3)] show ?thesis by simp
  qed
next
  case (claim tried c ok)
  then have "ic_events c = ic_events (cz_core x)" by (auto simp: claimTerminal_def split: if_splits)
  then have "log_store.durable i c (cz_store x)"
    by (intro log_store.durable_grow [OF assms(2)]) simp
  with claim(1) show ?thesis by simp
next
  case (fail err)
  have "log_store.durable i (failFinalization (cz_core x) err) (cz_store x)"
    by (intro log_store.durable_grow [OF assms(2)]) (simp add: failFinalization_def)
  with fail show ?thesis by simp
next
  case (acknowledge e)
  have "log_store.durable i (Lifecycle.acknowledge (cz_core x) (Some e)) (cz_store x)"
    by (intro log_store.durable_grow [OF assms(2)]) (simp add: acknowledge_def)
  with acknowledge show ?thesis by simp
qed

lemma durable_inv_kept:
  assumes "durable_step P resolve i owner x y" and "durable_inv P ctx i x"
  shows "durable_inv P ctx i y"
  using assms(1)
proof cases
  case core
  have inv: "default_log.system_inv P ctx x" using assms(2) by (simp add: durable_inv_def)
  have "default_log.core_grows x y"
    using default_log.core_step_grows [OF core] inv by (simp add: default_log.system_inv_def)
  then have "length (ic_events (cz_core x)) \<le> length (ic_events (cz_core y))"
    by (auto simp: default_log.core_grows_def)
  with core_step_durable [OF core] assms(2) default_log.system_inv_kept [OF core inv] show ?thesis
    by (auto simp: durable_inv_def)
next
  case (log op f now d r)
  have "log_store.durable i (cz_core x) ((cz_store x)\<lparr>lw_dir := d\<rparr>)"
    if dur: "log_store.durable i (cz_core x) (cz_store x)"
  proof -
    from dur obtain s where s: "filed (lw_dir (cz_store x))" "recovery_of (lw_dir (cz_store x)) i = Some s"
      by (auto simp: log_store.durable_def sound_world_def)
    have "\<exists>t. recovery_of d i = Some t \<and> sn_events t = sn_events s"
      by (rule other_keeps_events [OF log(2) _ s]) (rule log(3))
    with perform_filed [OF log(2) s(1)] s dur show ?thesis
      by (auto simp: log_store.durable_def sound_world_def stored_events_def)
  qed
  with log(1) assms(2) show ?thesis by (simp add: durable_inv_def default_log.system_inv_def)
qed

lemma durable_inv_initially: "durable_initial P ctx i x \<Longrightarrow> durable_inv P ctx i x"
  using default_log.system_inv_initially
  by (auto simp: durable_initial_def durable_inv_def log_store.durable_def)

interpretation durable_sys: transition_system "durable_initial P ctx i" "durable_step P resolve i owner" "durable_inv P ctx i"
  by unfold_locales (auto intro: durable_inv_initially durable_inv_kept)


section \<open>Replaying a record\<close>

definition event_content where
  "event_content e = (ie_sequence e, ie_type e, ie_state e, ie_timestamp e, ie_payload e,
     ie_content_type e, ie_reason e, ie_child e)"

lemma persisted_content:
  "persisted_matches pe x \<Longrightarrow> persisted_matches pe y \<Longrightarrow> event_content x = event_content y"
  by (simp add: event_content_def persisted_matches_def)

lemma persisted_same_content:
  "list_all2 persisted_matches pes xs \<Longrightarrow> list_all2 persisted_matches pes ys \<Longrightarrow>
   map event_content xs = map event_content ys"
proof (induction pes arbitrary: xs ys)
  case (Cons pe pes)
  obtain a s where x: "xs = a # s" "persisted_matches pe a" "list_all2 persisted_matches pes s"
    using Cons.prems(1) unfolding list_all2_Cons1 by blast
  obtain b t where y: "ys = b # t" "persisted_matches pe b" "list_all2 persisted_matches pes t"
    using Cons.prems(2) unfolding list_all2_Cons1 by blast
  show ?case
    using Cons.IH [OF x(3) y(3)] persisted_content [OF x(2) y(2)] by (simp only: x(1) y(1) list.map)
qed simp

text \<open>The lifecycle guards never refuse a replayed history.\<close>

lemma restore_guard:
  assumes "expectedTransition (ic_state c) (pe_type pe) (pe_state pe)" and "ic_finalization_err c = None"
  shows "emit_guard c (restore_emission pe) False = None"
  using assms live_transition [OF assms(1)] by (simp add: emit_guard_def restore_emission_def core_IsTerminal_def)

lemma restore_events_spec:
  assumes "restore_events P app sink c p s pes now = (c', p', s', r)"
    and "list_all2 persisted_matches pes evs" and "transitions (ic_state c) evs"
    and "ic_finalization_err c = None"
    and "map ie_sequence evs = map word_of_nat [length (ic_events c)..<length (ic_events c) + length evs]"
    and "\<forall>e\<in>set evs. ie_timestamp e \<noteq> 0"
  shows "s' = s
    \<and> (r = Ok () \<longrightarrow> (\<exists>new. ic_events c' = ic_events c @ new \<and> list_all2 persisted_matches pes new)
         \<and> ic_state c' = final_state (ic_state c) evs)
    \<and> (\<forall>e. r = Fail e \<longrightarrow> (\<exists>q input x. snd (app q (ic_context c) input) = Fail x))"
  using assms
proof (induction pes arbitrary: c p s evs)
  case Nil
  then show ?case by (auto simp: final_state_def)
next
  case (Cons pe pes)
  from Cons.prems(2) obtain e es where evs: "evs = e # es" "persisted_matches pe e" "list_all2 persisted_matches pes es"
    by (auto simp: list_all2_Cons1)
  let ?em = "restore_emission pe"
  let ?ev = "emit_event c ?em now"
  have guard: "emit_guard c ?em False = None"
    using Cons.prems(3,4) evs by (intro restore_guard) (simp_all add: persisted_matches_def)
  let ?n = "length (ic_events c)"
  have "[?n..<?n + length (e # es)] = ?n # [Suc ?n..<Suc ?n + length es]"
    by (simp add: upt_conv_Cons del: upt_Suc)
  with Cons.prems(5) evs(1) have seq: "ie_sequence e = word_of_nat ?n"
    and seqs: "map ie_sequence es = map word_of_nat [Suc ?n..<Suc ?n + length es]"
    by (simp_all del: upt_Suc)
  have matches: "persisted_matches pe ?ev"
    using evs(2) seq Cons.prems(6) evs(1)
    by (auto simp: persisted_matches_def emit_event_def restore_emission_def)
  obtain q res where a: "app p (ic_context c) (emit_input ?em now) = (q, res)" by fastforce
  have restoring: "em_restoring ?em" by (simp add: restore_emission_def)
  show ?case
  proof (cases res)
    case (Ok receipt)
    have step: "restoreEvent P app sink c p s pe now = (emit_commit c ?em ?ev, q, s, Emitted ?ev None)"
      using guard a Ok restoring by (cases sink) (simp_all add: restoreEvent_def emitContext_def Let_def)
    let ?c = "emit_commit c ?em ?ev"
    have c: "ic_events ?c = ic_events c @ [?ev]" "ic_state ?c = ie_state e" "ic_finalization_err ?c = None"
      "ic_context ?c = ic_context c"
      using Cons.prems(4) evs(2) by (simp_all add: emit_commit_def restore_emission_def persisted_matches_def)
    have "restore_events P app sink ?c q s pes now = (c', p', s', r)"
      using Cons.prems(1) step by simp
    moreover have "map ie_sequence es = map word_of_nat [length (ic_events ?c)..<length (ic_events ?c) + length es]"
      using seqs c(1) by (simp del: upt_Suc)
    ultimately have ih: "s' = s
      \<and> (r = Ok () \<longrightarrow> (\<exists>new. ic_events c' = ic_events ?c @ new \<and> list_all2 persisted_matches pes new)
           \<and> ic_state c' = final_state (ic_state ?c) es)
      \<and> (\<forall>e. r = Fail e \<longrightarrow> (\<exists>q input x. snd (app q (ic_context ?c) input) = Fail x))"
      using Cons.IH [of ?c q s es] Cons.prems(3,6) evs c by simp
    show ?thesis
    proof (intro conjI impI)
      assume "r = Ok ()"
      with ih obtain new where "ic_events c' = ic_events ?c @ new" "list_all2 persisted_matches pes new" by blast
      with matches c show "\<exists>new. ic_events c' = ic_events c @ new \<and> list_all2 persisted_matches (pe # pes) new"
        by (intro exI [of _ "?ev # new"]) simp
    next
      assume "r = Ok ()"
      with ih c evs(1) show "ic_state c' = final_state (ic_state c) evs" by (auto simp: final_state_def)
    qed (use ih c(4) in auto)
  next
    case (Fail x)
    then have "restore_events P app sink c p s (pe # pes) now = (c, q, s, Fail (AxonErr (append_failure P c x)))"
      using guard a by (simp add: restoreEvent_def emitContext_def)
    moreover have "snd (app p (ic_context c) (emit_input ?em now)) = Fail x" using a Fail by simp
    ultimately show ?thesis using Cons.prems(1) by auto
  next
    case (Panic x)
    then have "restore_events P app sink c p s (pe # pes) now = (c, q, s, Panic x)"
      using guard a by (simp add: restoreEvent_def emitContext_def)
    with Cons.prems(1) show ?thesis by simp
  qed
qed

lemma transitions_take: "transitions s es \<Longrightarrow> transitions s (take n es)"
proof (induction es arbitrary: s n)
  case (Cons e es)
  then show ?case by (cases n) auto
qed simp

section \<open>A sample run\<close>

definition demo_world :: log_world where
  "demo_world = \<lparr>lw_dir = demo_log (demo_snapshot ''running'' [] 0), lw_env = (\<lambda>_. (no_faults, 0)), lw_tick = 0\<rparr>"

definition demo_durable :: "(bound_context option, provider, log_world) core_system" where
  "demo_durable = \<lparr>cz_core = newInvocationCore ''i'' [] (Some demo_context) None, cz_provider = demo_provider,
     cz_store = demo_world\<rparr>"

lemma demo_durable_initial: "durable_initial demo_platform (Some demo_context) ''i'' demo_durable"
proof -
  have "sound_world ''i'' demo_world" "stored_events ''i'' demo_world = []"
    by (simp_all add: sound_world_def stored_events_def demo_world_def) (simp_all add: demo_snapshot_def)
  then show ?thesis
    using demo_provider_inv
    by (auto simp: durable_initial_def core_initial_def demo_durable_def context_log_def SnapshotSignedReceipts_def
        demo_provider_def chain_snapshot_def newReceiptChainState_def demo_context_def)
qed

lemma demo_durable_emit:
  "\<exists>c p s e. emitContext demo_platform (AppendSignedReceipt demo_platform demo_resolve) (Some (durable_sink ''i'' []))
      (cz_core demo_durable) (cz_provider demo_durable) (cz_store demo_durable)
      (demo_emission ''accepted'' StateAccepted) 0 False = (c, p, s, Emitted e None)
    \<and> (\<exists>pe a. ic_events c = [a] \<and> stored_events ''i'' s = [pe] \<and> persisted_matches pe a
         \<and> ie_type a = ''accepted'' \<and> ie_state a = StateAccepted \<and> ie_timestamp a = 1 \<and> ie_payload a = [])"
proof -
  let ?em = "demo_emission ''accepted'' StateAccepted"
  let ?c = "newInvocationCore ''i'' [] (Some demo_context) None :: bound_context option core"
  let ?e = "emit_event ?c ?em 0"
  have guard: "emit_guard ?c ?em False = None"
    using demo_words by (simp add: emit_guard_def newInvocationCore_def core_IsTerminal_def
        demo_emission_def terminalClaimed_def)
  obtain p' r where a: "AppendSignedReceipt demo_platform demo_resolve demo_provider (Some demo_context) (emit_input ?em 0)
        = (p', Ok r)"
    using demo_append_any [of "emit_input ?em 0" demo_provider newReceiptChainState] demo_words
    by (auto simp: emit_input_def demo_emission_def demo_provider_def newReceiptChainState_def)
  let ?s = "demo_snapshot ''running'' [] 0" let ?pe = "persisted_of ?e r"
  have load: "load_record no_faults (demo_log ?s) ''i'' = Ok ?s"
    by (simp add: load_record_Ok) (simp add: demo_snapshot_def)
  have "append_guard 0 [] ?pe ?s = Ok ?s"
    by (simp add: append_guard_def demo_snapshot_def persisted_of_def emit_event_def newInvocationCore_def)
  then have "\<exists>d. perform (OpAppend ''i'' [] ?pe) no_faults 0 (demo_log ?s) = (d, Ok ())"
    by (simp add: AppendLifecycleEvent_def appendLifecycleEvent_def load appendEventUnlocked_def
        writeIndexUnlocked_def writeRecoveryUnlocked_def Let_def)
  then obtain w where sink: "durable_sink ''i'' [] demo_world ?e r = (w, None)"
    by (auto simp: durable_sink_def demo_world_def simp del: perform.simps)
  have sound: "sound_world ''i'' demo_world" "stored_events ''i'' demo_world = []"
    using demo_durable_initial by (simp_all add: durable_initial_def demo_durable_def)
  have stored: "stored_events ''i'' w = [?pe]"
    using log_store.accepted [OF sound(1) sink] sound(2) by simp
  from sink have "emitContext demo_platform (AppendSignedReceipt demo_platform demo_resolve) (Some (durable_sink ''i'' []))
      ?c demo_provider demo_world ?em 0 False = (emit_commit ?c ?em ?e, p', w, Emitted ?e None)"
    using guard a by (simp add: emitContext_def Let_def newInvocationCore_def demo_emission_def)
  then show ?thesis
    by (intro exI [of _ "emit_commit ?c ?em ?e"] exI [of _ p'] exI [of _ w] exI [of _ ?e])
      (simp add: stored demo_durable_def emit_commit_def, simp add: emit_event_def demo_emission_def newInvocationCore_def)
qed

lemma demo_durable_step:
  "\<exists>y pe a. durable_step demo_platform demo_resolve ''i'' [] demo_durable y
    \<and> ic_events (cz_core y) = [a] \<and> stored_events ''i'' (cz_store y) = [pe] \<and> persisted_matches pe a
    \<and> ie_type a = ''accepted'' \<and> ie_state a = StateAccepted \<and> ie_timestamp a = 1 \<and> ie_payload a = []"
proof -
  obtain c p s e pe a where e: "emitContext demo_platform (AppendSignedReceipt demo_platform demo_resolve) (Some (durable_sink ''i'' []))
      (cz_core demo_durable) (cz_provider demo_durable) (cz_store demo_durable)
      (demo_emission ''accepted'' StateAccepted) 0 False = (c, p, s, Emitted e None)"
    and a: "ic_events c = [a]" "stored_events ''i'' s = [pe]" "persisted_matches pe a"
      "ie_type a = ''accepted''" "ie_state a = StateAccepted" "ie_timestamp a = 1" "ie_payload a = []"
    using demo_durable_emit by (elim exE conjE) (rule that)
  from durable_step.core [OF core_step.emit [OF e]] a show ?thesis
    by (intro exI [of _ "\<lparr>cz_core = c, cz_provider = p, cz_store = s\<rparr>"] exI [of _ pe] exI [of _ a]) simp
qed

section \<open>Properties\<close>

text \<open>C28: the durable history is always a prefix of the history.  An invocation starts with a
  recovery record that has no events yet, as \<open>InitializeRecovery\<close> leaves it.  Whatever I/O
  errors its writes then meet, and whatever operations on the log, of this runtime or of
  others, come in between (claims, renewals, phase marks, checkpoints, finalizations, and
  appends to this record that another owner attempts while the record names this runtime,
  which are refused), the events in the record are the first events of its core, in order
  and unaltered: a write that was lost is never skipped over.  A run ends, for this claim,
  when another runtime has taken the record over and appends to it: from then on the record
  is that runtime's history.\<close>

theorem durable_prefix:
  assumes "durable_initial P ctx i x" and "(durable_step P resolve i owner)\<^sup>*\<^sup>* x y"
    and "length (ic_events (cz_core y)) < 2 ^ 64"
  shows "list_all2 persisted_matches (stored_events i (cz_store y))
           (take (length (stored_events i (cz_store y))) (ic_events (cz_core y)))"
  using durable_sys.reachable_inv [OF assms(1,2)] assms(3)
  by (simp add: durable_inv_def log_store.durable_def)

theorem durable_prefix_witness:
  "\<exists>y. (durable_step demo_platform demo_resolve ''i'' [])\<^sup>*\<^sup>* demo_durable y
     \<and> map pe_type (stored_events ''i'' (cz_store y)) = [''accepted'']
     \<and> list_all2 persisted_matches (stored_events ''i'' (cz_store y)) (ic_events (cz_core y))"
proof -
  obtain y pe a where y: "durable_step demo_platform demo_resolve ''i'' [] demo_durable y"
    "ic_events (cz_core y) = [a]" "stored_events ''i'' (cz_store y) = [pe]" "persisted_matches pe a" "ie_type a = ''accepted''"
    using demo_durable_step by (elim exE conjE) (rule that)
  have steps: "(durable_step demo_platform demo_resolve ''i'' [])\<^sup>*\<^sup>* demo_durable y"
    using y(1) by (rule r_into_rtranclp)
  have "length (ic_events (cz_core y)) < 2 ^ 64" using y(2) by simp
  from durable_prefix [OF demo_durable_initial steps this] y steps show ?thesis
    by (intro exI [of _ y]) (simp add: persisted_matches_def)
qed

text \<open>An event that was emitted without an error is durable, and so is everything before
  it: when \<open>emitContext\<close> reports success on an invocation with a log, the recovery record
  holds the complete history.\<close>

theorem emitted_is_durable:
  assumes "durable_initial P ctx i x" and "(durable_step P resolve i owner)\<^sup>*\<^sup>* x y"
    and "emitContext P (AppendSignedReceipt P resolve) (Some (durable_sink i owner))
           (cz_core y) (cz_provider y) (cz_store y) em now d = (c, p, s, Emitted e None)"
    and "\<not> em_restoring em" and "length (ic_events c) < 2 ^ 64"
  shows "list_all2 persisted_matches (stored_events i s) (ic_events c)"
  using assms(3)
proof (cases rule: emit_sink_cases)
  case (stored receipt z z')
  have len: "length (ic_events (cz_core y)) < 2 ^ 64" using assms(5) stored(2) by (simp add: emit_commit_def)
  have dur: "log_store.durable i (cz_core y) (cz_store y)"
    using durable_sys.reachable_inv [OF assms(1,2)] len by (simp add: durable_inv_def)
  have "z = None" using stored(4,5) by simp
  with log_store.durable_stored [OF dur stored(3) len] stored(2)
  have "log_store.durable i c s" "length (stored_events i s) = length (ic_events c)" by simp_all
  then show ?thesis by (simp add: log_store.durable_def)
qed (use assms(4) in auto)

theorem emitted_is_durable_witness:
  "\<exists>c p s e. emitContext demo_platform (AppendSignedReceipt demo_platform demo_resolve) (Some (durable_sink ''i'' []))
      (cz_core demo_durable) (cz_provider demo_durable) (cz_store demo_durable)
      (demo_emission ''accepted'' StateAccepted) 0 False = (c, p, s, Emitted e None)
    \<and> length (stored_events ''i'' s) = 1 \<and> list_all2 persisted_matches (stored_events ''i'' s) (ic_events c)"
proof -
  obtain c p s e pe a where e: "emitContext demo_platform (AppendSignedReceipt demo_platform demo_resolve) (Some (durable_sink ''i'' []))
      (cz_core demo_durable) (cz_provider demo_durable) (cz_store demo_durable)
      (demo_emission ''accepted'' StateAccepted) 0 False = (c, p, s, Emitted e None)"
    and a: "ic_events c = [a]" "stored_events ''i'' s = [pe]"
    using demo_durable_emit by (elim exE conjE) (rule that)
  have "\<not> em_restoring (demo_emission ''accepted'' StateAccepted)" "length (ic_events c) < 2 ^ 64"
    using a by (simp_all add: demo_emission_def)
  from emitted_is_durable [OF demo_durable_initial rtranclp.rtrancl_refl e this] e a show ?thesis
    by (intro exI [of _ c] exI [of _ p] exI [of _ s] exI [of _ e]) simp
qed

text \<open>C29: recovery resumes the history that was durable.  Replaying the recovery record of an
  invocation (of its first generation, written by the runtime that started it, as in the
  previous claim, with no event at the zero timestamp) on a fresh core, whenever the former runtime stopped, ends in the state its
  first events led to, with those events and no others; the lifecycle guards refuse none of
  them, so that a replay fails only where the receipt provider fails.\<close>

theorem recovery_replays:
  assumes "durable_initial P ctx i x" and "(durable_step P resolve i owner)\<^sup>*\<^sup>* x y"
    and "length (ic_events (cz_core y)) < 2 ^ 64" and "\<forall>e\<in>set (ic_events (cz_core y)). ie_timestamp e \<noteq> 0"
    and "restore_events P app sink (newInvocationCore j parent ctx' deadline) p s (stored_events i (cz_store y)) now
           = (c', p', s', r)"
  shows "(r = Ok () \<longrightarrow>
       map event_content (ic_events c')
         = map event_content (take (length (stored_events i (cz_store y))) (ic_events (cz_core y)))
       \<and> ic_state c' = final_state StateUnspecified (ic_events c'))
    \<and> (\<forall>e. r = Fail e \<longrightarrow> (\<exists>q input f. snd (app q ctx' input) = Fail f))"
proof -
  let ?pes = "stored_events i (cz_store y)"
  let ?evs = "take (length ?pes) (ic_events (cz_core y))"
  let ?c = "newInvocationCore j parent ctx' deadline"
  have inv: "machine_inv (cz_core y)" and dur: "log_store.durable i (cz_core y) (cz_store y)"
    using durable_sys.reachable_inv [OF assms(1,2)] assms(3)
    by (simp_all add: durable_inv_def default_log.system_inv_def)
  have matches: "list_all2 persisted_matches ?pes ?evs" and le: "length ?pes \<le> length (ic_events (cz_core y))"
    using dur by (simp_all add: log_store.durable_def)
  have "map ie_sequence ?evs = take (length ?pes) (map ie_sequence (ic_events (cz_core y)))"
    by (simp add: take_map)
  also have "\<dots> = map word_of_nat [0..<length ?pes]"
    using inv le by (simp add: machine_inv_def take_map take_upt)
  finally have seqs: "map ie_sequence ?evs = map word_of_nat [0..<length ?evs]" using le by simp
  have new: "ic_events ?c = []" "ic_finalization_err ?c = None" "ic_state ?c = StateUnspecified"
    by (simp_all add: newInvocationCore_def)
  have trans: "transitions (ic_state ?c) ?evs" using transitions_take inv new(3) by (simp add: machine_inv_def)
  have times: "\<forall>e\<in>set ?evs. ie_timestamp e \<noteq> 0" using assms(4) by (blast dest: in_set_takeD)
  have from_new: "map ie_sequence ?evs = map word_of_nat [length (ic_events ?c)..<length (ic_events ?c) + length ?evs]"
    using seqs new(1) by simp
  note spec = restore_events_spec [OF assms(5) matches trans new(2) from_new times]
  then have fails: "\<forall>e. r = Fail e \<longrightarrow> (\<exists>q input f. snd (app q (ic_context ?c) input) = Fail f)" by blast
  from spec have ok: "list_all2 persisted_matches ?pes (ic_events c') \<and> ic_state c' = final_state StateUnspecified ?evs"
    if "r = Ok ()" using that new by auto
  have "final_state StateUnspecified ?evs = final_state StateUnspecified (ic_events c')"
    if "map event_content (ic_events c') = map event_content ?evs"
  proof -
    have "map ie_state (ic_events c') = map ie_state ?evs"
      using arg_cong [OF that, of "map (\<lambda>(a, b, c, d). c)"] by (simp add: event_content_def comp_def)
    then have states: "last (map ie_state (ic_events c')) = last (map ie_state ?evs)" by (rule arg_cong)
    show ?thesis
    proof (cases "?evs = []")
      case True
      with that show ?thesis by (simp add: final_state_def)
    next
      case False
      with that have "ic_events c' \<noteq> []" by (metis list.map_disc_iff)
      with False states show ?thesis by (simp add: final_state_def last_map del: take_eq_Nil take_eq_Nil2)
    qed
  qed
  with ok persisted_same_content [OF _ matches] fails show ?thesis
    by (auto simp: newInvocationCore_def)
qed


theorem recovery_replays_witness:
  "\<exists>y c' p'. (durable_step demo_platform demo_resolve ''i'' [])\<^sup>*\<^sup>* demo_durable y
     \<and> restore_events demo_platform (AppendSignedReceipt demo_platform demo_resolve) None
         (newInvocationCore ''i'' [] (Some demo_context) None) demo_provider () (stored_events ''i'' (cz_store y)) 0
         = (c', p', (), Ok ())
     \<and> map event_content (ic_events c') = map event_content (ic_events (cz_core y))
     \<and> length (ic_events c') = 1"
proof -
  let ?c = "newInvocationCore ''i'' [] (Some demo_context) None :: bound_context option core"
  obtain y pe a where y: "durable_step demo_platform demo_resolve ''i'' [] demo_durable y"
    "ic_events (cz_core y) = [a]" "stored_events ''i'' (cz_store y) = [pe]" "persisted_matches pe a"
    and a: "ie_type a = ''accepted''" "ie_state a = StateAccepted" "ie_timestamp a = 1" "ie_payload a = []"
    using demo_durable_step by (elim exE conjE) (rule that)
  have steps: "(durable_step demo_platform demo_resolve ''i'' [])\<^sup>*\<^sup>* demo_durable y"
    using y(1) by (rule r_into_rtranclp)
  let ?em = "restore_emission pe"
  have em: "em_type ?em = ''accepted''" "em_state ?em = StateAccepted" "em_payload ?em = []" "em_restoring ?em"
    using y(4) a by (simp_all add: restore_emission_def persisted_matches_def)
  have guard: "emit_guard ?c ?em False = None"
    using demo_words em by (simp add: emit_guard_def newInvocationCore_def core_IsTerminal_def)
  obtain p' r where "AppendSignedReceipt demo_platform demo_resolve demo_provider (Some demo_context) (emit_input ?em 0)
      = (p', Ok r)"
    using demo_append_any [of "emit_input ?em 0" demo_provider newReceiptChainState] demo_words em
    by (auto simp: emit_input_def demo_provider_def newReceiptChainState_def)
  then have "restoreEvent demo_platform (AppendSignedReceipt demo_platform demo_resolve) None ?c demo_provider () pe 0
      = (emit_commit ?c ?em (emit_event ?c ?em 0), p', (), Emitted (emit_event ?c ?em 0) None)"
    using guard by (simp add: restoreEvent_def emitContext_def Let_def newInvocationCore_def)
  then have run: "restore_events demo_platform (AppendSignedReceipt demo_platform demo_resolve) None ?c demo_provider ()
      (stored_events ''i'' (cz_store y)) 0 = (emit_commit ?c ?em (emit_event ?c ?em 0), p', (), Ok ())"
    by (simp add: y(3))
  have "length (ic_events (cz_core y)) < 2 ^ 64" "\<forall>e\<in>set (ic_events (cz_core y)). ie_timestamp e \<noteq> 0"
    using y(2) a by simp_all
  from recovery_replays [OF demo_durable_initial steps this run] y(2,3) steps run show ?thesis
    by (intro exI [of _ y] exI [of _ "emit_commit ?c ?em (emit_event ?c ?em 0)"] exI [of _ p'])
      (auto dest: arg_cong [where f = length])
qed

end
