(* ===== verification/Supervisor.thy ===== *)
theory Supervisor
  imports Admission
begin

text \<open>
  The process guard of an invocation: \<open>supervisor.go\<close>, \<open>supervisor_cleanup.go\<close>,
  \<open>supervisor_recovery.go\<close> and the signal function of \<open>supervisor_unix.go\<close> under
  \<open>axon/invocation\<close>.

  What the operating system answers is an argument: whether a signal was delivered, whether
  a process group is gone, what \<open>Wait\<close> has returned by the time of a poll, and which polls
  come after the deadline.  A polling loop runs over the list of its polls and is still
  running (\<open>None\<close>) when the list ends.  A callback is the tree of what it does: whether it
  returns or panics, and the cleanup callbacks it registers.
\<close>

section \<open>State\<close>

datatype supervisor_phase = supervisorActive | supervisorClosing | supervisorClosed | supervisorFailed

datatype callback = Callback (cb_ok: bool) (cb_registers: "callback list")

record supervisor =
  sv_invocation_id :: string
  sv_spec :: supervisor_spec
  sv_processes :: "int list"
  sv_cleanup :: "callback list"
  sv_cancel :: "callback list"
  sv_subprocs :: u32
  sv_phase :: supervisor_phase
  sv_started :: bool
  sv_cleanup_err :: "axon_error option"

definition NewSupervisor :: "string \<Rightarrow> supervisor_spec \<Rightarrow> supervisor" where
  "NewSupervisor invocationID spec =
     \<lparr>sv_invocation_id = invocationID,
      sv_spec = (if sp_cancel_grace_ns spec = 0 then spec\<lparr>sp_cancel_grace_ns := 250000000\<rparr> else spec),
      sv_processes = [], sv_cleanup = [], sv_cancel = [], sv_subprocs = 0, sv_phase = supervisorActive,
      sv_started = False, sv_cleanup_err = None\<rparr>"

section \<open>Registration\<close>

text \<open>\<open>RegisterCleanup\<close> returns the callbacks it ran at once.\<close>

definition RegisterCleanup :: "supervisor \<Rightarrow> callback option \<Rightarrow> supervisor \<times> callback list" where
  "RegisterCleanup s cb =
     (case cb of None \<Rightarrow> (s, [])
      | Some c \<Rightarrow> if sv_phase s = supervisorClosed then (s, [c])
                 else (s\<lparr>sv_cleanup := sv_cleanup s @ [c]\<rparr>, []))"

definition OnCancel :: "supervisor \<Rightarrow> callback option \<Rightarrow> supervisor" where
  "OnCancel s cb =
     (case cb of None \<Rightarrow> s
      | Some c \<Rightarrow> if sv_phase s \<noteq> supervisorActive then s else s\<lparr>sv_cancel := sv_cancel s @ [c]\<rparr>)"

text \<open>\<open>SpawnProcessGroup\<close>: \<open>start\<close> is what starting the command gives, an error text or a
  process identifier; the result carries the process groups written to the state file.\<close>

definition SpawnProcessGroup ::
  "supervisor \<Rightarrow> string list \<Rightarrow> string + int \<Rightarrow> supervisor \<times> (int \<times> int list option) result" where
  "SpawnProcessGroup s args start =
     (if args = [] then (s, invalid_arg ''empty_command'')
      else if sv_phase s \<noteq> supervisorActive then (s, invalid_arg ''supervisor_cleanup_started'')
      else if 0 < sp_subprocess_count (sv_spec s) \<and> sp_subprocess_count (sv_spec s) \<le> sv_subprocs s
      then (s, Fail (AxonErr (ErrResourceExhausted ''subprocess_limit'')))
      else case start of
        Inl e \<Rightarrow> (s, Fail (AxonErr (ErrInternal (''spawn_failed:'' @ e))))
      | Inr pid \<Rightarrow>
          let s1 = s\<lparr>sv_processes := sv_processes s @ [pid], sv_subprocs := sv_subprocs s + 1\<rparr>
          in (s1, Ok (pid, if sp_persist_for_recovery (sv_spec s) then Some (sv_processes s1) else None)))"

definition SpawnedPGIDs :: "supervisor \<Rightarrow> int list" where
  "SpawnedPGIDs s = sv_processes s"

definition CleanupComplete :: "supervisor \<Rightarrow> bool" where
  "CleanupComplete s = (sv_phase s = supervisorClosed)"

definition CleanupError :: "supervisor \<Rightarrow> axon_error option" where
  "CleanupError s = sv_cleanup_err s"

section \<open>The cleanup attempt\<close>

text \<open>What \<open>Wait\<close> has delivered for a child: nothing yet, an exit (with any status), or an
  error of the wait itself.\<close>

datatype child_exit = Running | Exited | WaitFailed

record poll =
  po_children :: "nat \<Rightarrow> child_exit"
  po_gone :: "nat \<Rightarrow> bool"
  po_error :: "nat \<Rightarrow> bool"
  po_late :: bool

record cleanup_env =
  ce_term_error :: "nat \<Rightarrow> bool"
  ce_grace :: "(nat \<Rightarrow> child_exit) list"
  ce_probe_gone :: "nat \<Rightarrow> bool"
  ce_probe_error :: "nat \<Rightarrow> bool"
  ce_kill_error :: "nat \<Rightarrow> bool"
  ce_polls :: "poll list"
  ce_forget_error :: bool

record attempt =
  at_children :: "child_exit list"
  at_failure :: "string option"

definition fail_stage :: "string \<Rightarrow> attempt \<Rightarrow> attempt" where
  "fail_stage stage a = (if at_failure a = None then a\<lparr>at_failure := Some stage\<rparr> else a)"

definition fail_if :: "bool \<Rightarrow> string \<Rightarrow> attempt \<Rightarrow> attempt" where
  "fail_if b stage a = (if b then fail_stage stage a else a)"

definition observe :: "child_exit list \<Rightarrow> (nat \<Rightarrow> child_exit) \<Rightarrow> child_exit list" where
  "observe old now = map (\<lambda>k. if old ! k = Running then now k else old ! k) [0..<length old]"

definition childrenExited :: "attempt \<Rightarrow> (nat \<Rightarrow> child_exit) \<Rightarrow> attempt \<times> bool" where
  "childrenExited a now =
     (let cs = observe (at_children a) now
      in (fail_if (WaitFailed \<in> set cs) ''child_wait_failed'' (a\<lparr>at_children := cs\<rparr>),
          list_all (\<lambda>c. c = Exited) cs))"

fun grace_loop :: "attempt \<Rightarrow> (nat \<Rightarrow> child_exit) list \<Rightarrow> attempt" where
  "grace_loop a [] = a"
| "grace_loop a (now # later) =
     (case childrenExited a now of (a', exited) \<Rightarrow> if exited then a' else grace_loop a' later)"

text \<open>The loop that confirms the exit of \<open>n\<close> process groups: the flag says that the absence
  was observed.\<close>

fun exit_loop :: "nat \<Rightarrow> attempt \<Rightarrow> poll list \<Rightarrow> (attempt \<times> bool) option" where
  "exit_loop n a [] = None"
| "exit_loop n a (p # later) =
     (case childrenExited a (po_children p) of (a1, exited) \<Rightarrow>
        let a2 = fail_if (\<exists>k\<in>set [0..<n]. po_error p k) ''group_observation_failed'' a1;
            absent = (exited \<and> (\<forall>k\<in>set [0..<n]. \<not> po_error p k \<and> po_gone p k))
        in if absent then Some (a2, True)
           else if po_late p then Some (fail_stage ''exit_observation_timeout'' a2, False)
           else exit_loop n a2 later)"

lemma registers_smaller:
  "sum_list (map size (concat (map cb_registers cbs))) + length cbs \<le> sum_list (map size cbs)"
proof (induction cbs)
  case (Cons c cbs)
  have "sum_list (map size (cb_registers c)) < size c"
    by (cases c) (simp add: size_list_conv_sum_list less_Suc_eq_le)
  with Cons show ?case by simp
qed simp

text \<open>The rounds of cleanup callbacks: those registered by a round are run by the next.  The
  result is the attempt and the callbacks in the order they ran.\<close>

function cleanup_rounds :: "attempt \<Rightarrow> callback list \<Rightarrow> attempt \<times> callback list" where
  "cleanup_rounds a [] = (a, [])"
| "cleanup_rounds a (c # cs) =
     (case cleanup_rounds (fail_if (\<not> list_all cb_ok (c # cs)) ''cleanup_callback_failed'' a)
             (concat (map cb_registers (c # cs))) of
        (a', executed) \<Rightarrow> (a', (c # cs) @ executed))"
  by pat_completeness auto
termination
proof (relation "measure (\<lambda>(a, cs). sum_list (map size cs))")
  fix a :: attempt and c cs
  have "sum_list (map size (concat (map cb_registers (c # cs)))) < sum_list (map size (c # cs))"
    using registers_smaller [of "c # cs"] unfolding length_Cons by linarith
  then show "((fail_if (\<not> list_all cb_ok (c # cs)) ''cleanup_callback_failed'' a,
      concat (map cb_registers (c # cs))), a, c # cs) \<in> measure (\<lambda>(a, cs). sum_list (map size cs))"
    by (simp only: in_measure case_prod_conv)
qed simp

definition publish :: "attempt \<Rightarrow> supervisor \<Rightarrow> supervisor" where
  "publish a s =
     s\<lparr>sv_cleanup_err := map_option (\<lambda>stage.
          (WithInvocationID (ErrInternal ''supervisor_cleanup_failed'') (sv_invocation_id s))
            \<lparr>ae_cause_chain := [stage]\<rparr>) (at_failure a),
       sv_phase := (if at_failure a \<noteq> None then supervisorFailed else supervisorClosed)\<rparr>"

text \<open>The attempt up to the confirmation of the exit.\<close>

definition stop_processes :: "supervisor \<Rightarrow> cleanup_env \<Rightarrow> bool \<Rightarrow> attempt" where
  "stop_processes s e cancelled =
     (let n = length (sv_processes s);
          a0 = \<lparr>at_children = replicate n Running, at_failure = None\<rparr>;
          a1 = fail_if (cancelled \<and> \<not> list_all cb_ok (sv_cancel s)) ''cancel_callback_failed'' a0;
          a2 = fail_if (\<exists>k\<in>set [0..<n]. ce_term_error e k) ''term_delivery_failed'' a1;
          a3 = grace_loop a2 (ce_grace e)
      in fail_if (\<exists>k\<in>set [0..<n]. \<not> (\<not> ce_probe_error e k \<and> ce_probe_gone e k) \<and> ce_kill_error e k)
           ''kill_delivery_failed'' a3)"

text \<open>The cleanup callbacks once the cancel callbacks have run.\<close>

definition pending_cleanup :: "supervisor \<Rightarrow> bool \<Rightarrow> callback list" where
  "pending_cleanup s cancelled =
     sv_cleanup s @ (if cancelled then concat (map cb_registers (sv_cancel s)) else [])"

text \<open>\<open>run\<close>: the supervisor afterwards, the cleanup callbacks that ran, and whether the state
  file was removed.\<close>

definition run_cleanup :: "supervisor \<Rightarrow> cleanup_env \<Rightarrow> bool \<Rightarrow> (supervisor \<times> callback list \<times> bool) option" where
  "run_cleanup s e cancelled =
     (let s1 = s\<lparr>sv_cancel := [], sv_cleanup := pending_cleanup s cancelled\<rparr>
      in case exit_loop (length (sv_processes s)) (stop_processes s e cancelled) (ce_polls e) of
           None \<Rightarrow> None
         | Some (a, False) \<Rightarrow> Some (publish a s1, [], False)
         | Some (a, True) \<Rightarrow>
             (case cleanup_rounds a (sv_cleanup s1) of (a1, executed) \<Rightarrow>
                let removing = (at_failure a1 = None \<and> sp_persist_for_recovery (sv_spec s));
                    a2 = fail_if (removing \<and> ce_forget_error e) ''recovery_removal_failed'' a1
                in Some (publish a2 (s1\<lparr>sv_cleanup := []\<rparr>), executed, removing \<and> \<not> ce_forget_error e)))"

text \<open>\<open>terminalOnce\<close> lets one attempt run; everybody waits for its end.\<close>

definition runTerminalFlow :: "supervisor \<Rightarrow> cleanup_env \<Rightarrow> bool \<Rightarrow> (supervisor \<times> callback list \<times> bool) option" where
  "runTerminalFlow s e cancelled =
     (if sv_started s then (if sv_phase s = supervisorClosing then None else Some (s, [], False))
      else run_cleanup (s\<lparr>sv_started := True, sv_phase := supervisorClosing\<rparr>) e cancelled)"

definition RunCancelFlow :: "supervisor \<Rightarrow> cleanup_env \<Rightarrow> (supervisor \<times> callback list \<times> bool) option" where
  "RunCancelFlow s e = runTerminalFlow s e True"

definition RunCompletionFlow :: "supervisor \<Rightarrow> cleanup_env \<Rightarrow> (supervisor \<times> callback list \<times> bool) option" where
  "RunCompletionFlow s e = runTerminalFlow s e False"

section \<open>Process groups and orphans\<close>

definition maxProcessGroup :: int where "maxProcessGroup = 2 ^ 31 - 1"

definition validProcessGroup :: "int \<Rightarrow> bool" where
  "validProcessGroup pgid = (1 < pgid \<and> pgid \<le> maxProcessGroup)"

text \<open>\<open>kill(-pgid, sig)\<close> succeeds, finds no such group, or fails.\<close>

datatype kill_result = KillOk | KillNoGroup | KillError

text \<open>The answer is (group absent, error) and the calls made to the kernel.\<close>

definition nativeGroupSignal :: "(int \<Rightarrow> int \<Rightarrow> kill_result) \<Rightarrow> int \<Rightarrow> int \<Rightarrow> (bool \<times> bool) \<times> (int \<times> int) list" where
  "nativeGroupSignal kill pgid sig =
     (if \<not> validProcessGroup pgid then ((False, True), [])
      else (case kill pgid sig of
              KillNoGroup \<Rightarrow> (True, False) | KillOk \<Rightarrow> (False, False) | KillError \<Rightarrow> (False, True), [(pgid, sig)]))"

text \<open>A decoded JSON value of the state file: a number with or without a fraction, or
  something else.\<close>

datatype json_value = JInteger int | JFraction | JOther

fun recovery_numbers :: "json_value list \<Rightarrow> int list option" where
  "recovery_numbers [] = Some []"
| "recovery_numbers (JInteger f # vs) =
     (if f \<le> 1 \<or> f > maxProcessGroup then None else map_option ((#) f) (recovery_numbers vs))"
| "recovery_numbers (v # vs) = None"

text \<open>\<open>None\<close> when the record has no array \<open>pgids\<close>.\<close>

definition recoveryPgids :: "json_value list option \<Rightarrow> int list option" where
  "recoveryPgids arr = Option.bind arr recovery_numbers"

definition signalAll :: "(int \<Rightarrow> bool) \<Rightarrow> int list \<Rightarrow> bool" where
  "signalAll delivered pgids = list_all delivered pgids"

text \<open>A poll of \<open>confirmAbsence\<close>: absent, observation error, and whether no time remains.\<close>

record absence_poll =
  ap_absent :: "int \<Rightarrow> bool"
  ap_error :: "int \<Rightarrow> bool"
  ap_expired :: bool

fun confirmAbsence :: "int list \<Rightarrow> absence_poll list \<Rightarrow> bool option" where
  "confirmAbsence pgids [] = None"
| "confirmAbsence pgids (p # later) =
     (if list_ex (ap_error p) pgids then Some False
      else if list_all (ap_absent p) pgids then Some True
      else if ap_expired p then Some False
      else confirmAbsence pgids later)"

record orphan_env =
  oe_term :: "int \<Rightarrow> bool"
  oe_kill :: "int \<Rightarrow> bool"
  oe_polls :: "absence_poll list"
  oe_remove_error :: bool

text \<open>One record of \<open>reap\<close>: whether it is removed and reported; \<open>None\<close> while it is polling.
  \<open>data\<close> is the decoded record, \<open>None\<close> if it cannot be read.\<close>

definition reap_record :: "json_value list option option \<Rightarrow> orphan_env \<Rightarrow> bool option" where
  "reap_record data e =
     (case Option.bind data recoveryPgids of
        None \<Rightarrow> Some False
      | Some pgids \<Rightarrow>
          let terminated = signalAll (oe_term e) pgids; killed = signalAll (oe_kill e) pgids
          in if \<not> (terminated \<and> killed) then Some False
             else map_option (\<lambda>absent. absent \<and> \<not> oe_remove_error e) (confirmAbsence pgids (oe_polls e)))"

end
