(* ===== verification/Runtime.thy ===== *)
theory Runtime
  imports Durability Supervisor
begin

text \<open>
  The in-process runtime, its registry: \<open>LocalRuntime\<close> of \<open>axon/invocation/local_runtime.go\<close>
  up to the control plane.

  The record \<open>runtime\<close> has the fields of the Go struct that carry behaviour; goroutines and
  channels are the operations of \<open>RuntimeControl\<close>.  Maps with a zero default are total
  functions.  The cores live in the registry; each comes with the owner name its persistence
  sink writes under (\<open>rt_sinks\<close>, absent for an invocation that is not persisted).  Every
  section the code executes under the registry lock is one function here.
\<close>

section \<open>State\<close>

record signed_envelope =
  se_envelope :: invocation_envelope
  se_signature :: caller_signature

record invocation_token =
  tk_invocation_id :: string
  tk_generation :: u64

record execution =
  ex_suspended :: bool
  ex_persisted :: bool
  ex_recovered :: bool
  ex_cancelled :: bool
  ex_done :: bool

record cancel_intent =
  ci_completed :: bool
  ci_reason :: string
  ci_owner :: terminal_owner
  ci_err :: "axon_error option"

type_synonym runtime_core = "bound_context option core"

record 'h runtime =
  rt_abilities :: "string \<rightharpoonup> 'h provider_binding"
  rt_cores :: "string \<rightharpoonup> runtime_core"
  rt_sinks :: "string \<rightharpoonup> string"
  rt_supervisors :: "string \<rightharpoonup> supervisor"
  rt_inboxes :: "string \<rightharpoonup> inbox"
  rt_children :: "string \<Rightarrow> string list"
  rt_active_children :: "string \<Rightarrow> int"
  rt_cancel_signalled :: "string set"
  rt_executions :: "string \<rightharpoonup> execution"
  rt_generations :: "string \<rightharpoonup> u64"
  rt_next_generation :: u64
  rt_cancel_intents :: "invocation_token \<rightharpoonup> cancel_intent"
  rt_active :: "string set"
  rt_active_count :: int
  rt_envelopes :: "string \<rightharpoonup> signed_envelope"
  rt_log :: "log_world option"
  rt_runtime_id :: string
  rt_replay :: replay_store
  rt_resolver :: key_resolver
  rt_policy :: policy_provider
  rt_provider :: provider

definition NewLocalRuntimeWithOptions ::
  "key_resolver option \<Rightarrow> (policy_provider \<times> provider) option \<Rightarrow> log_world option \<Rightarrow> string \<Rightarrow> 'h runtime result" where
  "NewLocalRuntimeWithOptions resolver receiptProvider persistence runtimeID =
     (case resolver of None \<Rightarrow> Fail (AxonErr (rejectSig ''key_resolver_required''))
      | Some res \<Rightarrow>
          (case receiptProvider of
             None \<Rightarrow> Fail (AxonErr (ErrPermissionDenied ''canonical_receipt_provider_not_configured''))
           | Some (policy, provider) \<Rightarrow>
               Ok \<lparr>rt_abilities = Map.empty, rt_cores = Map.empty, rt_sinks = Map.empty,
                   rt_supervisors = Map.empty, rt_inboxes = Map.empty, rt_children = (\<lambda>_. []),
                   rt_active_children = (\<lambda>_. 0), rt_cancel_signalled = {}, rt_executions = Map.empty,
                   rt_generations = Map.empty, rt_next_generation = 1, rt_cancel_intents = Map.empty,
                   rt_active = {}, rt_active_count = 0, rt_envelopes = Map.empty, rt_log = persistence,
                   rt_runtime_id = runtimeID, rt_replay = newNonceReplayStore, rt_resolver = res,
                   rt_policy = policy, rt_provider = provider\<rparr>))"

definition NewLocalRuntime ::
  "key_resolver option \<Rightarrow> (policy_provider \<times> provider) option \<Rightarrow> string \<Rightarrow> 'h runtime result" where
  "NewLocalRuntime resolver receiptProvider runtimeID =
     NewLocalRuntimeWithOptions resolver receiptProvider None runtimeID"

record lifecycle_limits =
  ll_pending_invocations :: nat
  ll_pending_children :: nat
  ll_output_frames :: int
  ll_input_frames :: int
  ll_recovery_invocations :: nat
  ll_propagation_ms :: int
  ll_pending_reason :: string
  ll_child_reason :: string
  ll_output_reason :: string
  ll_input_reason :: string
  ll_recovery_reason :: string

definition LifecycleLimits :: lifecycle_limits where
  "LifecycleLimits =
     \<lparr>ll_pending_invocations = canonicalPendingCapacity, ll_pending_children = canonicalPendingCapacity,
      ll_output_frames = canonicalStreamCapacity, ll_input_frames = canonicalBidiCapacity,
      ll_recovery_invocations = canonicalPendingCapacity,
      ll_propagation_ms = canonicalTerminalPropagationMs,
      ll_pending_reason = ''pending_invocation_limit'', ll_child_reason = ''pending_child_dispatch_limit'',
      ll_output_reason = ''stream_backpressure_exhausted'', ll_input_reason = ''bidi_backpressure_exhausted'',
      ll_recovery_reason = ''recovery_concurrency_limit''\<rparr>"

definition SetAdmissionDedupWindowMs :: "'h runtime \<Rightarrow> i64 \<Rightarrow> 'h runtime" where
  "SetAdmissionDedupWindowMs r windowMs = r\<lparr>rt_replay := withWindowMs (rt_replay r) windowMs\<rparr>"

definition AxiomEnvelopeOf :: "'h runtime \<Rightarrow> string \<Rightarrow> signed_envelope option" where
  "AxiomEnvelopeOf r i = rt_envelopes r i"

definition BindProvider :: "'h runtime \<Rightarrow> 'h provider_binding \<Rightarrow> 'h runtime \<times> unit result" where
  "BindProvider r b =
     (if pb_handler b = None \<or> ad_raw (de_ref (pb_descriptor b)) = [] \<or> ad_raw (im_ref (pb_implementation b)) = []
      then (r, invalid_arg ''provider_binding_invalid'')
      else (r\<lparr>rt_abilities := (rt_abilities r)(ad_ability_ura (de_ref (pb_descriptor b)) \<mapsto> b)\<rparr>, Ok ()))"

definition CoreOf :: "'h runtime \<Rightarrow> string \<Rightarrow> runtime_core option" where
  "CoreOf r i = rt_cores r i"

definition ChildrenOf :: "'h runtime \<Rightarrow> string \<Rightarrow> string list" where
  "ChildrenOf r i = sort (rt_children r i)"

section \<open>Capacity\<close>

text \<open>\<open>reserveInvocation\<close>: instants are nanoseconds, \<open>None\<close> is the zero time.\<close>

definition requested_deadline :: "supervisor_spec option \<Rightarrow> int \<Rightarrow> int option" where
  "requested_deadline spec now =
     (case spec of Some s \<Rightarrow> if 0 < sp_wall_ns s then Some (now + sp_wall_ns s) else None | None \<Rightarrow> None)"

definition earlier_deadline :: "int option \<Rightarrow> int option \<Rightarrow> int option" where
  "earlier_deadline parentDeadline effectiveDeadline =
     (case parentDeadline of None \<Rightarrow> effectiveDeadline
      | Some p \<Rightarrow> (case effectiveDeadline of None \<Rightarrow> Some p | Some d \<Rightarrow> if p < d then Some p else Some d))"

definition reserveInvocation ::
  "'h runtime \<Rightarrow> string \<Rightarrow> supervisor_spec option \<Rightarrow> string \<Rightarrow> int \<Rightarrow> 'h runtime \<times> int option result" where
  "reserveInvocation r parentID spec rootOverflowReason now =
     (if int canonicalPendingCapacity \<le> rt_active_count r
      then (r, Fail (AxonErr (WithRetryAfterMs (ErrResourceExhausted
             (if parentID \<noteq> [] then ''pending_child_dispatch_limit'' else rootOverflowReason)) 100)))
      else if parentID = []
      then (r\<lparr>rt_active_count := rt_active_count r + 1\<rparr>, Ok (requested_deadline spec now))
      else case rt_cores r parentID of
        None \<Rightarrow> (r, Fail (AxonErr (WithInvocationID (ErrInvalidArgument ''unknown_parent_invocation'') parentID)))
      | Some parent \<Rightarrow>
          if ic_state parent \<noteq> StateRunning \<or> terminalClaimed parent
          then (r, Fail (AxonErr (WithInvocationID (ErrInvalidArgument ''parent_invocation_not_running'') parentID)))
          else if int canonicalPendingCapacity \<le> rt_active_children r parentID
          then (r, Fail (AxonErr (WithRetryAfterMs (ErrResourceExhausted ''pending_child_dispatch_limit'') 100)))
          else (r\<lparr>rt_active_children := (rt_active_children r)(parentID := rt_active_children r parentID + 1),
                  rt_active_count := rt_active_count r + 1\<rparr>,
                Ok (earlier_deadline (ic_deadline parent) (requested_deadline spec now))))"

text \<open>The decrements the code writes with their guards.\<close>

definition release_slot :: "string \<Rightarrow> 'h runtime \<Rightarrow> 'h runtime" where
  "release_slot parentID r =
     r\<lparr>rt_active_count := rt_active_count r - (if 0 < rt_active_count r then 1 else 0),
       rt_active_children :=
         (if parentID \<noteq> [] \<and> 0 < rt_active_children r parentID
          then (rt_active_children r)(parentID := rt_active_children r parentID - 1)
          else rt_active_children r)\<rparr>"

definition releaseUnboundReservation :: "'h runtime \<Rightarrow> string \<Rightarrow> 'h runtime" where
  "releaseUnboundReservation r parentID = release_slot parentID r"

text \<open>The slot of a registered invocation, given up at its end or at a suspension.\<close>

definition deactivate :: "string \<Rightarrow> string \<Rightarrow> 'h runtime \<Rightarrow> 'h runtime" where
  "deactivate i parentID r =
     (if i \<in> rt_active r then release_slot parentID (r\<lparr>rt_active := rt_active r - {i}\<rparr>) else r)"

section \<open>Registration\<close>

definition new_execution :: "bool \<Rightarrow> bool \<Rightarrow> execution" where
  "new_execution persisted recovered = \<lparr>ex_suspended = False, ex_persisted = persisted,
     ex_recovered = recovered, ex_cancelled = False, ex_done = False\<rparr>"

text \<open>The registry entries both ways of starting an invocation write.\<close>

definition register_entries ::
  "string \<Rightarrow> runtime_core \<Rightarrow> string option \<Rightarrow> supervisor \<Rightarrow> inbox \<Rightarrow> execution \<Rightarrow> 'h runtime \<Rightarrow> 'h runtime" where
  "register_entries i core sink supervisor inbox execution r =
     r\<lparr>rt_generations := (rt_generations r)(i \<mapsto> rt_next_generation r),
       rt_next_generation := rt_next_generation r + 1,
       rt_cores := (rt_cores r)(i \<mapsto> core),
       rt_sinks := (rt_sinks r)(i := sink),
       rt_supervisors := (rt_supervisors r)(i \<mapsto> supervisor),
       rt_inboxes := (rt_inboxes r)(i \<mapsto> inbox),
       rt_executions := (rt_executions r)(i \<mapsto> execution),
       rt_active := insert i (rt_active r)\<rparr>"

definition register_invocation ::
  "string \<Rightarrow> string \<Rightarrow> runtime_core \<Rightarrow> string option \<Rightarrow> supervisor \<Rightarrow> inbox \<Rightarrow> execution \<Rightarrow> 'h runtime \<Rightarrow> 'h runtime" where
  "register_invocation i parentID core sink supervisor inbox execution r =
     (let r1 = register_entries i core sink supervisor inbox execution r
      in if parentID \<noteq> []
         then r1\<lparr>rt_children := (rt_children r1)(parentID := List.insert i (rt_children r1 parentID))\<rparr>
         else r1)"

section \<open>Tokens\<close>

definition currentToken :: "'h runtime \<Rightarrow> string \<Rightarrow> invocation_token result" where
  "currentToken r i =
     (case rt_generations r i of
        None \<Rightarrow> Fail (AxonErr (WithInvocationID (ErrInvalidArgument ''unknown_invocation'') i))
      | Some g \<Rightarrow> Ok \<lparr>tk_invocation_id = i, tk_generation = g\<rparr>)"

definition validateControlLocked :: "'h runtime \<Rightarrow> invocation_token \<Rightarrow> unit result" where
  "validateControlLocked r t =
     (if rt_generations r (tk_invocation_id t) \<noteq> Some (tk_generation t)
      then Fail (AxonErr (WithInvocationID (ErrInvalidArgument ''stale_invocation_control'') (tk_invocation_id t)))
      else Ok ())"

definition childTokensLocked :: "'h runtime \<Rightarrow> string \<Rightarrow> invocation_token list" where
  "childTokensLocked r parentID =
     map (\<lambda>i. \<lparr>tk_invocation_id = i,
               tk_generation = (case rt_generations r i of Some g \<Rightarrow> g | None \<Rightarrow> 0)\<rparr>)
       (sort (rt_children r parentID))"

section \<open>Emitting\<close>

text \<open>\<open>InvocationCore.emit\<close>: an emission without timestamp, outside recovery.\<close>

definition plain_emission ::
  "string \<Rightarrow> invocation_state \<Rightarrow> bytes \<Rightarrow> string \<Rightarrow> string \<Rightarrow> bool \<Rightarrow> string \<Rightarrow> emission" where
  "plain_emission eventType st payload contentType reason cleanupComplete child =
     \<lparr>em_type = eventType, em_state = st, em_payload = payload, em_content_type = contentType,
      em_reason = reason, em_cleanup_complete = cleanupComplete, em_child = child, em_timestamp = 0,
      em_restoring = False\<rparr>"

definition runtime_sink :: "string \<Rightarrow> string option \<Rightarrow> log_world option persistence_sink option" where
  "runtime_sink i owner = map_option (\<lambda>owner' w event receipt. case w of
       None \<Rightarrow> (None, None)
     | Some w \<Rightarrow> (case durable_sink i owner' w event receipt of (w', e) \<Rightarrow> (Some w', e))) owner"

text \<open>One emission of a core that uses the runtime's provider and log.\<close>

definition core_emit ::
  "platform \<Rightarrow> authority_resolver \<Rightarrow> string option \<Rightarrow> runtime_core \<Rightarrow> 'h runtime \<Rightarrow> emission \<Rightarrow> i64 \<Rightarrow> bool \<Rightarrow>
   runtime_core \<times> 'h runtime \<times> emit_result" where
  "core_emit P resolve sink c r em now ctxDone =
     (case emitContext P (AppendSignedReceipt P resolve) (runtime_sink (ic_invocation_id c) sink) c
             (rt_provider r) (rt_log r) em now ctxDone of
        (c', p', l', res) \<Rightarrow> (c', r\<lparr>rt_provider := p', rt_log := l'\<rparr>, res))"

definition emit_registered ::
  "platform \<Rightarrow> authority_resolver \<Rightarrow> string \<Rightarrow> 'h runtime \<Rightarrow> emission \<Rightarrow> i64 \<Rightarrow> bool \<Rightarrow>
   'h runtime \<times> emit_result option" where
  "emit_registered P resolve i r em now ctxDone =
     (case rt_cores r i of
        None \<Rightarrow> (r, None)
      | Some c \<Rightarrow>
          (case core_emit P resolve (rt_sinks r i) c r em now ctxDone of
             (c', r', res) \<Rightarrow> (r'\<lparr>rt_cores := (rt_cores r')(i \<mapsto> c')\<rparr>, Some res)))"

text \<open>The terminal callback of an invocation.  The child's event is emitted by the parent, and
  it is not terminal, so the callbacks do not nest.\<close>

definition onInvocationTerminal ::
  "platform \<Rightarrow> authority_resolver \<Rightarrow> string \<Rightarrow> string \<Rightarrow> invocation_state \<Rightarrow> i64 \<Rightarrow> 'h runtime \<Rightarrow> 'h runtime" where
  "onInvocationTerminal P resolve i parentID st now r =
     (let r1 = deactivate i parentID r
      in if parentID \<noteq> []
         then fst (emit_registered P resolve parentID r1
                (plain_emission ''child_terminal'' StateRunning [] [] st False i) now False)
         else r1)"

definition emit ::
  "platform \<Rightarrow> authority_resolver \<Rightarrow> string \<Rightarrow> 'h runtime \<Rightarrow> emission \<Rightarrow> i64 \<Rightarrow> bool \<Rightarrow>
   'h runtime \<times> emit_result option" where
  "emit P resolve i r em now ctxDone =
     (case emit_registered P resolve i r em now ctxDone of
        (r', res) \<Rightarrow>
          (case res of
             Some (Emitted e x) \<Rightarrow>
               (if state_IsTerminal (em_state em)
                then onInvocationTerminal P resolve i (ic_parent (the (rt_cores r' i))) (em_state em) now r'
                else r', res)
           | _ \<Rightarrow> (r', res)))"

text \<open>The error a caller of \<open>emit\<close> sees; \<open>Panic\<close> leaves the call.\<close>

fun emit_outcome :: "emit_result option \<Rightarrow> unit result" where
  "emit_outcome (Some (Emitted e None)) = Ok ()"
| "emit_outcome (Some (Emitted e (Some x))) = Fail (AxonErr x)"
| "emit_outcome (Some (EmitFailed x)) = Fail (AxonErr x)"
| "emit_outcome (Some (EmitPanicked x)) = Panic x"
| "emit_outcome _ = Ok ()"

definition EmitProgress ::
  "platform \<Rightarrow> authority_resolver \<Rightarrow> string \<Rightarrow> 'h runtime \<Rightarrow> bytes \<Rightarrow> string \<Rightarrow> i64 \<Rightarrow> bool \<Rightarrow>
   'h runtime \<times> emit_result option" where
  "EmitProgress P resolve i r payload contentType now ctxDone =
     emit P resolve i r (plain_emission ''progress'' StateRunning payload contentType [] False []) now ctxDone"

text \<open>\<open>RecvMessage\<close> on one outcome of \<open>Recv\<close>.\<close>

definition RecvMessage ::
  "platform \<Rightarrow> authority_resolver \<Rightarrow> string \<Rightarrow> 'h runtime \<Rightarrow> inbox \<times> inbound_message option \<Rightarrow> i64 \<Rightarrow>
   'h runtime \<times> inbound_message option" where
  "RecvMessage P resolve i r received now =
     (case received of (inbox', message) \<Rightarrow>
        let r1 = r\<lparr>rt_inboxes := (rt_inboxes r)(i \<mapsto> inbox')\<rparr>
        in case message of
             None \<Rightarrow> (r1, None)
           | Some m \<Rightarrow>
               (fst (emit P resolve i r1 (plain_emission ''message_consumed'' StateRunning (im_payload m)
                  (im_content_type m) [] False []) now False), Some m))"

end
