(* ===== verification/RuntimeControl.thy ===== *)
theory RuntimeControl
  imports Runtime
begin

text \<open>
  Starting, ending and cancelling invocations: the rest of \<open>LocalRuntime\<close> of
  \<open>axon/invocation/local_runtime.go\<close> but for recovery.

  An operation is the composition of the locked sections of \<open>Runtime\<close> in the order of the
  code.  \<open>None\<close> is an operation that is still waiting: for the polls of a supervisor, or for
  a terminal channel or a cancel intent that nobody has completed.  The goroutine of an
  ability is the operation \<open>runAbility\<close>, which happens when the handler returns; its outcome
  is an argument.  The environment gives the instants the operation reads and what the
  operating system answers to the cleanup of each invocation.
\<close>

section \<open>Helpers of the registry\<close>

definition update_core :: "string \<Rightarrow> (runtime_core \<Rightarrow> runtime_core) \<Rightarrow> 'h runtime \<Rightarrow> 'h runtime" where
  "update_core i f r = r\<lparr>rt_cores := (rt_cores r)(i := map_option f (rt_cores r i))\<rparr>"

definition update_execution :: "string \<Rightarrow> (execution \<Rightarrow> execution) \<Rightarrow> 'h runtime \<Rightarrow> 'h runtime" where
  "update_execution i f r = r\<lparr>rt_executions := (rt_executions r)(i := map_option f (rt_executions r i))\<rparr>"

definition suspended :: "string \<Rightarrow> 'h runtime \<Rightarrow> bool" where
  "suspended i r = (case rt_executions r i of Some x \<Rightarrow> ex_suspended x | None \<Rightarrow> False)"

definition claim_registered :: "string \<Rightarrow> terminal_owner \<Rightarrow> 'h runtime \<Rightarrow> 'h runtime \<times> bool" where
  "claim_registered i owner r =
     (case rt_cores r i of
        None \<Rightarrow> (r, False)
      | Some c \<Rightarrow> (case claimTerminal c owner of
           (c', won) \<Rightarrow> (r\<lparr>rt_cores := (rt_cores r)(i \<mapsto> c')\<rparr>, won)))"

text \<open>A call of the log: it meets the next I/O outcome and instant of the log's world.\<close>

definition log_call ::
  "(io \<Rightarrow> log_dir \<Rightarrow> int \<Rightarrow> log_dir \<times> 'a result) \<Rightarrow> log_world \<Rightarrow> log_world \<times> 'a result" where
  "log_call f w =
     (case lw_env w (lw_tick w) of (io, now) \<Rightarrow>
        (case f io (lw_dir w) now of (d, res) \<Rightarrow> (w\<lparr>lw_dir := d, lw_tick := lw_tick w + 1\<rparr>, res)))"

definition runtime_log ::
  "(io \<Rightarrow> log_dir \<Rightarrow> int \<Rightarrow> log_dir \<times> 'a result) \<Rightarrow> 'a result \<Rightarrow> 'h runtime \<Rightarrow> 'h runtime \<times> 'a result" where
  "runtime_log f missing r =
     (case rt_log r of
        None \<Rightarrow> (r, missing)
      | Some w \<Rightarrow> (case log_call f w of (w', res) \<Rightarrow> (r\<lparr>rt_log := Some w'\<rparr>, res)))"

definition envelopeIncomplete :: "go_error \<Rightarrow> axon_error" where
  "envelopeIncomplete e =
     (ErrInvalidArgument ReasonEnvelopeIncomplete)\<lparr>ae_message :=
        (case e of AxonErr a \<Rightarrow> if ae_message a \<noteq> [] then ae_message a else ae_reason a | PlainErr s \<Rightarrow> s)\<rparr>"

fun incompleteR :: "'a result \<Rightarrow> 'a result" where
  "incompleteR (Fail e) = Fail (AxonErr (envelopeIncomplete e))"
| "incompleteR x = x"

section \<open>Ending an invocation\<close>

text \<open>\<open>finishCleanup\<close> on a registered invocation.\<close>

definition begin_finalization :: "platform \<Rightarrow> string \<Rightarrow> 'h runtime \<Rightarrow> 'h runtime \<times> unit result" where
  "begin_finalization P i r =
     (case runtime_log (\<lambda>io d now. BeginFinalization io d now i (rt_runtime_id r))
             (Fail (AxonErr (ErrInternal ''recovery_persistence_missing''))) r of
        (r', Fail e) \<Rightarrow> (r', Fail (AxonErr (WithInvocationID (ErrUnavailable
           (''recovery_finalization_persist_failed:'' @ go_error_string (pf_quote P) e)) i)))
      | (r', x) \<Rightarrow> (r', x))"

fun fail_with :: "string \<Rightarrow> go_error \<Rightarrow> 'h runtime \<Rightarrow> 'h runtime" where
  "fail_with i (AxonErr e) r = update_core i (\<lambda>c. failFinalization c e) r"
| "fail_with i (PlainErr s) r = r"

definition finishCleanup ::
  "platform \<Rightarrow> string \<Rightarrow> cleanup_env \<Rightarrow> bool \<Rightarrow> 'h runtime \<Rightarrow> ('h runtime \<times> unit result) option" where
  "finishCleanup P i e cancelled r =
     (case rt_supervisors r i of
        None \<Rightarrow> None
      | Some s \<Rightarrow>
          (case (if sp_persist_for_recovery (sv_spec s) then begin_finalization P i r else (r, Ok ())) of
             (r1, Ok _) \<Rightarrow>
               (case (if cancelled then RunCancelFlow s e else RunCompletionFlow s e) of
                  None \<Rightarrow> None
                | Some (s', _, _) \<Rightarrow>
                    let r2 = r1\<lparr>rt_supervisors := (rt_supervisors r1)(i \<mapsto> s')\<rparr>
                    in (case CleanupError s' of
                          Some err \<Rightarrow> Some (fail_with i (AxonErr err) r2, Fail (AxonErr err))
                        | None \<Rightarrow> Some (r2, Ok ())))
           | (r1, Fail err) \<Rightarrow> Some (fail_with i err r1, Fail err)
           | (r1, Panic err) \<Rightarrow> Some (r1, Panic err)))"

text \<open>Cleanup and then the terminal event, as every ending of an invocation does it.\<close>

definition terminal_emission :: "string \<Rightarrow> invocation_state \<Rightarrow> bytes \<Rightarrow> string \<Rightarrow> emission" where
  "terminal_emission eventType st payload reason = plain_emission eventType st payload [] reason True []"

definition finish_invocation ::
  "platform \<Rightarrow> authority_resolver \<Rightarrow> string \<Rightarrow> cleanup_env \<Rightarrow> bool \<Rightarrow> emission \<Rightarrow> i64 \<Rightarrow> 'h runtime \<Rightarrow>
   ('h runtime \<times> unit result) option" where
  "finish_invocation P resolve i e cancelled em now r =
     (case finishCleanup P i e cancelled r of
        None \<Rightarrow> None
      | Some (r1, Ok _) \<Rightarrow> (case emit P resolve i r1 em now False of (r2, res) \<Rightarrow> Some (r2, emit_outcome res))
      | Some (r1, x) \<Rightarrow> Some (r1, x))"

definition wait_terminal :: "string \<Rightarrow> 'h runtime \<Rightarrow> axon_error option option" where
  "wait_terminal i r = (case rt_cores r i of None \<Rightarrow> None
     | Some c \<Rightarrow> (case WaitTerminal c False of None \<Rightarrow> None | Some _ \<Rightarrow> Some (ic_finalization_err c)))"

fun error_result :: "axon_error option \<Rightarrow> unit result" where
  "error_result None = Ok ()"
| "error_result (Some e) = Fail (AxonErr e)"

definition closeUnstartedInvocation ::
  "platform \<Rightarrow> authority_resolver \<Rightarrow> string \<Rightarrow> string \<Rightarrow> cleanup_env \<Rightarrow> i64 \<Rightarrow> 'h runtime \<Rightarrow> 'h runtime option" where
  "closeUnstartedInvocation P resolve i reason e now r =
     (let r0 = update_execution i (\<lambda>x. x\<lparr>ex_cancelled := True\<rparr>) r;
          close = update_execution i (\<lambda>x. x\<lparr>ex_done := True\<rparr>)
      in if suspended i r0 then Some (close r0)
         else case claim_registered i terminalOwnerFailure r0 of
           (r1, True) \<Rightarrow> map_option (\<lambda>(r2, _). close r2)
              (finish_invocation P resolve i e False (terminal_emission ''failed'' StateFailed [] reason) now r1)
         | (r1, False) \<Rightarrow> map_option (\<lambda>_. close r1) (wait_terminal i r1))"

text \<open>The outcome of a handler; \<open>executeAbility\<close> turns a panic into an error.\<close>

datatype handler_outcome = HandlerReturned bytes | HandlerFailed axon_error | HandlerPanicked

fun executeAbility :: "string \<Rightarrow> handler_outcome \<Rightarrow> bytes \<times> axon_error option" where
  "executeAbility i (HandlerReturned b) = (b, None)"
| "executeAbility i (HandlerFailed e) = ([], Some e)"
| "executeAbility i HandlerPanicked = ([], Some (WithInvocationID (ErrInternal ''ability_handler_panicked'') i))"

definition runAbility ::
  "platform \<Rightarrow> authority_resolver \<Rightarrow> string \<Rightarrow> terminal_owner \<Rightarrow> handler_outcome \<Rightarrow> cleanup_env \<Rightarrow> i64 \<Rightarrow>
   'h runtime \<Rightarrow> 'h runtime option" where
  "runAbility P resolve i completionOwner outcome e now r =
     (case executeAbility i outcome of (result, err) \<Rightarrow>
        let close = update_execution i (\<lambda>x. x\<lparr>ex_done := True\<rparr>);
            owner = (if err = None then completionOwner else terminalOwnerFailure)
        in if suspended i r then Some (close r)
           else case claim_registered i owner r of
             (r1, False) \<Rightarrow> Some (close r1)
           | (r1, True) \<Rightarrow> map_option (\<lambda>(r2, _). close r2)
               (finish_invocation P resolve i e False
                  (case err of
                     Some x \<Rightarrow> terminal_emission ''failed'' StateFailed [] (ae_reason x)
                   | None \<Rightarrow> terminal_emission ''completed'' StateCompleted result []) now r1))"

section \<open>Invoking\<close>

record 'h started =
  st_token :: invocation_token
  st_handler :: "'h option"
  st_payload :: bytes
  st_checkpoint :: "bytes option"
  st_owner :: terminal_owner
  st_deadline :: "int option"

record invoke_env =
  iv_id :: string
  iv_admission_ms :: i64
  iv_now :: int
  iv_clock :: "nat \<Rightarrow> i64"
  iv_cleanup :: cleanup_env

fun emit_all ::
  "platform \<Rightarrow> authority_resolver \<Rightarrow> string option \<Rightarrow> runtime_core \<Rightarrow> 'h runtime \<Rightarrow> (emission \<times> i64) list \<Rightarrow>
   runtime_core \<times> 'h runtime \<times> unit result" where
  "emit_all P resolve sink c r [] = (c, r, Ok ())"
| "emit_all P resolve sink c r ((em, now) # rest) =
     (case core_emit P resolve sink c r em now False of
        (c', r', res) \<Rightarrow>
          (case emit_outcome (Some res) of
             Ok _ \<Rightarrow> emit_all P resolve sink c' r' rest
           | x \<Rightarrow> (c', r', x)))"

definition handshake_emissions :: "(nat \<Rightarrow> i64) \<Rightarrow> (emission \<times> i64) list" where
  "handshake_emissions clock =
     [(plain_emission ''accepted'' StateAccepted [] [] [] False [], clock 0),
      (plain_emission ''admitted'' StateAdmitted [] [] [] False [], clock 1),
      (plain_emission ''dispatched'' StateDispatched [] [] [] False [], clock 2),
      (plain_emission ''running'' StateRunning [] [] [] False [], clock 3)]"

text \<open>The deferred function of \<open>invokeRegistered\<close>.\<close>

definition undo_unregistered :: "string \<Rightarrow> string \<Rightarrow> bool \<Rightarrow> 'h runtime \<Rightarrow> 'h runtime" where
  "undo_unregistered i parentID persisted r =
     (let r1 = releaseUnboundReservation r parentID
      in if persisted
         then fst (runtime_log (\<lambda>io d now. MarkRecoveryPhase io d i ''closed'') (Ok ()) r1) else r1)"

definition spec_or_empty :: "supervisor_spec option \<Rightarrow> supervisor_spec" where
  "spec_or_empty spec = (case spec of None \<Rightarrow> empty_spec | Some s \<Rightarrow> s)"

definition new_inbox :: inbox where
  "new_inbox = newMessageInbox canonicalBidiCapacity ''bidi_backpressure_exhausted''"

text \<open>A child is announced by its parent's event.\<close>

definition announce_child ::
  "platform \<Rightarrow> authority_resolver \<Rightarrow> string \<Rightarrow> string \<Rightarrow> invoke_env \<Rightarrow> 'h runtime \<Rightarrow>
   ('h runtime \<times> unit result) option" where
  "announce_child P resolve i parentID v r =
     (if parentID = [] then Some (r, Ok ())
      else case rt_cores r parentID of
        None \<Rightarrow>
          map_option (\<lambda>r'. (r', Fail (AxonErr (WithInvocationID (ErrInternal ''parent_registry_lost'') parentID))))
            (closeUnstartedInvocation P resolve i ''parent_registry_lost'' (iv_cleanup v) (iv_clock v 5) r)
      | Some _ \<Rightarrow>
          (case emit P resolve parentID r (plain_emission ''child_spawned'' StateRunning [] [] [] False i)
                  (iv_clock v 4) False of
             (r1, res) \<Rightarrow>
               (case emit_outcome res of
                  Fail e \<Rightarrow> map_option (\<lambda>r'. (r', Fail e))
                    (closeUnstartedInvocation P resolve i ''child_dispatch_not_committed'' (iv_cleanup v)
                       (iv_clock v 5) r1)
                | x \<Rightarrow> Some (r1, x))))"

definition start_of :: "string \<Rightarrow> 'h runtime \<Rightarrow> 'h option \<Rightarrow> bytes \<Rightarrow> bytes option \<Rightarrow> terminal_owner \<Rightarrow>
    int option \<Rightarrow> 'h started" where
  "start_of i r handler payload checkpoint owner deadline =
     \<lparr>st_token = \<lparr>tk_invocation_id = i,
                  tk_generation = (case rt_generations r i of Some g \<Rightarrow> g | None \<Rightarrow> 0)\<rparr>,
      st_handler = handler, st_payload = payload, st_checkpoint = checkpoint, st_owner = owner,
      st_deadline = deadline\<rparr>"

definition invokeRegistered ::
  "platform \<Rightarrow> authority_resolver \<Rightarrow> 'h option \<Rightarrow> bytes \<Rightarrow> string \<Rightarrow> supervisor_spec option \<Rightarrow> bound_context option \<Rightarrow>
   int option \<Rightarrow> bool \<Rightarrow> terminal_owner \<Rightarrow> invoke_env \<Rightarrow> 'h runtime \<Rightarrow>
   ('h runtime \<times> 'h started result) option" where
  "invokeRegistered P resolve handler payload parentID spec ctx deadline persisted owner v r =
     (let i = iv_id v;
          sink = (if persisted then Some [] else None)
      in case emit_all P resolve sink (newInvocationCore i parentID ctx deadline) r (handshake_emissions (iv_clock v)) of
           (c, r1, Fail e) \<Rightarrow> Some (undo_unregistered i parentID persisted r1, Fail e)
         | (c, r1, Panic e) \<Rightarrow> Some (r1, Panic e)
         | (c, r1, Ok _) \<Rightarrow>
             let r2 = register_invocation i parentID c sink (NewSupervisor i (spec_or_empty spec)) new_inbox
                        (new_execution persisted False) r1
             in map_option (\<lambda>(r3, res). (r3, case res of
                    Ok _ \<Rightarrow> Ok (start_of i r2 handler payload None owner deadline)
                  | Fail e \<Rightarrow> Fail e | Panic e \<Rightarrow> Panic e))
                  (announce_child P resolve i parentID v r2))"

text \<open>The checks of a request before the runtime's state is used.\<close>

definition request_checks :: "platform \<Rightarrow> bound_request \<Rightarrow> ability_descriptor_ref result" where
  "request_checks P q =
     (if rq_call_mode q \<noteq> CallModeRPC
      then Fail (AxonErr ((ErrInvalidArgument ''descriptor_bound_request_mode_unsupported'')
             \<lparr>ae_message := rq_call_mode q\<rparr>))
      else let envelope = dbe_envelope (rq_envelope q) in
      bindR (incompleteR (ParseAbilityDescriptorRef (en_ability envelope))) (\<lambda>ref.
      if en_args_digest envelope \<noteq> pf_sha256 P (rq_payload q)
      then Fail (AxonErr ((ErrInvalidArgument ReasonEnvelopeIncomplete)
             \<lparr>ae_message := ''args_digest_payload_mismatch''\<rparr>))
      else bindR (incompleteR (request_CanonicalBytes q)) (\<lambda>canonical.
      if canonical = []
      then Fail (AxonErr (ErrInternal ''canonical_descriptor_bound_invocation_bytes_empty''))
      else Ok ref)))"

definition find_provider :: "'h runtime \<Rightarrow> ability_descriptor_ref \<Rightarrow> 'h provider_binding result" where
  "find_provider r ref =
     (case rt_abilities r (ad_ability_ura ref) of
        None \<Rightarrow> Fail (AxonErr (ErrInvalidArgument (''unknown_ability:'' @ ad_ability_ura ref)))
      | Some b \<Rightarrow> if ad_raw (de_ref (pb_descriptor b)) \<noteq> ad_raw ref
                 then Fail (AxonErr (ErrInvalidArgument ''registered_descriptor_ref_mismatch''))
                 else Ok b)"

definition admit ::
  "platform \<Rightarrow> descriptor_bound_envelope \<Rightarrow> caller_signature \<Rightarrow> i64 \<Rightarrow> 'h runtime \<Rightarrow>
   'h runtime \<times> verified_admission result" where
  "admit P envelope sig nowMs r =
     (case verifyDescriptorBoundAdmission P envelope sig (Some (rt_resolver r)) (Some (rt_replay r))
             (Some (rt_policy r)) nowMs of
        (store, res) \<Rightarrow> (r\<lparr>rt_replay := (case store of Some s \<Rightarrow> s | None \<Rightarrow> rt_replay r)\<rparr>, res))"

definition bind_context ::
  "platform \<Rightarrow> string \<Rightarrow> string \<Rightarrow> verified_admission \<Rightarrow> descriptor_evidence \<Rightarrow> implementation_evidence \<Rightarrow>
   'h runtime \<Rightarrow> 'h runtime \<times> bound_context result" where
  "bind_context P failure i admission descriptor implementation r =
     (case Bind P (rt_provider r) i admission descriptor implementation of
        (p, res) \<Rightarrow> (r\<lparr>rt_provider := p\<rparr>,
           axon_or (\<lambda>e. ErrInternal (failure @ go_error_string (pf_quote P) e)) res))"

definition recovery_snapshot_of ::
  "string \<Rightarrow> bound_request \<Rightarrow> ability_descriptor_ref \<Rightarrow> 'h recovery_continuation \<Rightarrow> supervisor_spec \<Rightarrow>
   int option \<Rightarrow> recovery_snapshot" where
  "recovery_snapshot_of i q ref continuation spec deadline =
     \<lparr>sn_invocation_id = i, sn_envelope = dbe_envelope (rq_envelope q), sn_signature = rq_signature q,
      sn_payload = rq_payload q, sn_parent = rq_parent q, sn_spec = spec,
      sn_ability_ura = ad_ability_ura ref,
      sn_deadline_ms = (case deadline of None \<Rightarrow> 0 | Some d \<Rightarrow> unix_ms d),
      sn_checkpoint = rn_initial_checkpoint continuation, sn_events = [], sn_phase = ''running'',
      sn_lease_owner = [], sn_lease_until = 0\<rparr>"

definition persisting :: "bound_request \<Rightarrow> bool" where
  "persisting q = (case rq_supervisor q of Some s \<Rightarrow> sp_persist_for_recovery s | None \<Rightarrow> False)"

definition initialize_record ::
  "platform \<Rightarrow> string \<Rightarrow> bound_request \<Rightarrow> ability_descriptor_ref \<Rightarrow> 'h provider_binding \<Rightarrow> int option \<Rightarrow>
   'h runtime \<Rightarrow> 'h runtime \<times> unit result" where
  "initialize_record P i q ref b deadline r =
     (if \<not> persisting q then (r, Ok ())
      else if rt_log r = None
      then (r, Fail (AxonErr (ErrInvalidArgument ''persistence_provider_required'')))
      else case pb_recovery b of
        None \<Rightarrow> (r, Fail (AxonErr (ErrInvalidArgument ''recovery_continuation_required'')))
      | Some continuation \<Rightarrow>
          (case runtime_log (\<lambda>io d now. InitializeRecovery io d
                  (recovery_snapshot_of i q ref continuation (spec_or_empty (rq_supervisor q)) deadline))
                (Ok ()) r of
             (r1, Fail e) \<Rightarrow> (r1, Fail (AxonErr (ErrInternal
                (''recovery_initialization_failed:'' @ go_error_string (pf_quote P) e))))
           | (r1, x) \<Rightarrow> (r1, x)))"

text \<open>What happens under a reserved slot.  Each way out but a started invocation gives the slot
  back, except for those on which \<open>invokeRegistered\<close> has done so, or keeps it.\<close>

definition invoke_reserved ::
  "platform \<Rightarrow> authority_resolver \<Rightarrow> bound_request \<Rightarrow> ability_descriptor_ref \<Rightarrow> 'h provider_binding \<Rightarrow>
   verified_admission \<Rightarrow> descriptor_evidence \<Rightarrow> implementation_evidence \<Rightarrow> int option \<Rightarrow> invoke_env \<Rightarrow>
   'h runtime \<Rightarrow> ('h runtime \<times> ('h started \<times> signed_envelope) result) option" where
  "invoke_reserved P resolve q ref b admission descriptor implementation deadline v r =
     (let release = (\<lambda>r. releaseUnboundReservation r (rq_parent q));
          signed = \<lparr>se_envelope = dbe_envelope (rq_envelope q), se_signature = rq_signature q\<rparr>
      in case bind_context P ''receipt_context_bind_failed:'' (iv_id v) admission descriptor implementation r of
           (r1, Fail e) \<Rightarrow> Some (release r1, Fail e)
         | (r1, Panic e) \<Rightarrow> Some (release r1, Panic e)
         | (r1, Ok ctx) \<Rightarrow>
             (case initialize_record P (iv_id v) q ref b deadline r1 of
                (r2, Fail e) \<Rightarrow> Some (release r2, Fail e)
              | (r2, Panic e) \<Rightarrow> Some (release r2, Panic e)
              | (r2, Ok _) \<Rightarrow>
                  (case invokeRegistered P resolve (pb_handler b) (rq_payload q) (rq_parent q) (rq_supervisor q)
                          (Some ctx) deadline (persisting q) terminalOwnerCompletion v r2 of
                     None \<Rightarrow> None
                   | Some (r3, Fail e) \<Rightarrow> Some (r3, Fail e)
                   | Some (r3, Panic e) \<Rightarrow> Some (release r3, Panic e)
                   | Some (r3, Ok st) \<Rightarrow>
                       Some (r3\<lparr>rt_envelopes := (rt_envelopes r3)(iv_id v \<mapsto> signed)\<rparr>, Ok (st, signed)))))"

definition admitted_evidence ::
  "verified_admission \<Rightarrow> 'h provider_binding \<Rightarrow> (descriptor_evidence \<times> implementation_evidence) result" where
  "admitted_evidence admission b =
     bindR (incompleteR (resolvedDescriptorEvidence admission b)) (\<lambda>descriptor.
     bindR (incompleteR (registeredImplementationEvidence b)) (\<lambda>implementation.
       Ok (descriptor, implementation)))"

text \<open>A refusal before the reservation.\<close>

fun refuse :: "'h runtime \<Rightarrow> 'a result \<Rightarrow> ('h runtime \<times> 'b result) option" where
  "refuse r (Fail e) = Some (r, Fail e)"
| "refuse r (Panic e) = Some (r, Panic e)"
| "refuse r (Ok _) = None"

definition InvokeDescriptorBoundRequest ::
  "platform \<Rightarrow> authority_resolver \<Rightarrow> bound_request \<Rightarrow> invoke_env \<Rightarrow> 'h runtime \<Rightarrow>
   ('h runtime \<times> ('h started \<times> signed_envelope) result) option" where
  "InvokeDescriptorBoundRequest P resolve q v r =
     (case bindR (request_checks P q) (\<lambda>ref. bindR (find_provider r ref) (\<lambda>b. Ok (ref, b))) of
        Ok (ref, b) \<Rightarrow>
          (case admit P (rq_envelope q) (rq_signature q) (iv_admission_ms v) r of
             (r1, Ok admission) \<Rightarrow>
               (case admitted_evidence admission b of
                  Ok (descriptor, implementation) \<Rightarrow>
                    (case reserveInvocation r1 (rq_parent q) (rq_supervisor q) ''pending_invocation_limit'' (iv_now v) of
                       (r2, Ok deadline) \<Rightarrow>
                         invoke_reserved P resolve q ref b admission descriptor implementation deadline v r2
                     | (r2, x) \<Rightarrow> refuse r2 x)
                | x \<Rightarrow> refuse r1 x)
           | (r1, x) \<Rightarrow> refuse r1 x)
      | x \<Rightarrow> refuse r x)"

section \<open>Messages and checkpoints\<close>

text \<open>\<open>sendWithControl\<close>: \<open>now\<close> and \<open>rnd\<close> are the delivery's clock and random bytes.  The
  observer emits under the inbox's mutex; its error is ignored.\<close>

definition sendWithControl ::
  "platform \<Rightarrow> authority_resolver \<Rightarrow> invocation_token \<Rightarrow> bytes \<Rightarrow> string \<Rightarrow> int \<Rightarrow> bytes \<Rightarrow> i64 \<Rightarrow> 'h runtime \<Rightarrow>
   'h runtime \<times> message_ack result" where
  "sendWithControl P resolve t payload messageID now rnd ms r =
     (let i = tk_invocation_id t in
      case validateControlLocked r t of
        Fail e \<Rightarrow> (r, Fail e)
      | Panic e \<Rightarrow> (r, Panic e)
      | Ok _ \<Rightarrow>
          (case (rt_inboxes r i, rt_cores r i) of
             (Some inbox, Some core) \<Rightarrow>
               if InputClosed inbox
               then (r, Fail (AxonErr (WithInvocationID (ErrInvalidArgument ''invocation_input_closed'') i)))
               else if core_IsTerminal core \<or> terminalClaimed core
               then (r, Fail (AxonErr (WithInvocationID (ErrInvalidArgument ''invocation_terminal'') i)))
               else (case deliver_begin inbox now rnd payload messageID [] of
                  (b1, Duplicate ack) \<Rightarrow> (r\<lparr>rt_inboxes := (rt_inboxes r)(i \<mapsto> b1)\<rparr>, Ok ack)
                | (b1, Refused e) \<Rightarrow> (r\<lparr>rt_inboxes := (rt_inboxes r)(i \<mapsto> b1)\<rparr>, Fail (AxonErr e))
                | (b1, Overflow e) \<Rightarrow>
                    (r\<lparr>rt_inboxes := (rt_inboxes r)(i \<mapsto> deliver_finish b1)\<rparr>, Fail (AxonErr e))
                | (b1, Booked msg) \<Rightarrow>
                    (case emit P resolve i r (plain_emission ''message_received'' StateRunning (im_payload msg)
                            (im_content_type msg) [] False []) ms False of
                       (r1, _) \<Rightarrow>
                         (case deliver_publish b1 msg of
                            (b2, ack) \<Rightarrow> (r1\<lparr>rt_inboxes := (rt_inboxes r1)(i \<mapsto> deliver_finish b2)\<rparr>, Ok ack))))
           | _ \<Rightarrow> (r, Panic (PlainErr ''nil_pointer''))))"

definition SendMessage ::
  "platform \<Rightarrow> authority_resolver \<Rightarrow> string \<Rightarrow> bytes \<Rightarrow> string \<Rightarrow> int \<Rightarrow> bytes \<Rightarrow> i64 \<Rightarrow> 'h runtime \<Rightarrow>
   'h runtime \<times> message_ack result" where
  "SendMessage P resolve i payload messageID now rnd ms r =
     (case currentToken r i of
        Ok t \<Rightarrow> sendWithControl P resolve t payload messageID now rnd ms r
      | Fail e \<Rightarrow> (r, Fail e) | Panic e \<Rightarrow> (r, Panic e))"

definition control_closeInput :: "invocation_token \<Rightarrow> 'h runtime \<Rightarrow> 'h runtime \<times> unit result" where
  "control_closeInput t r =
     (case validateControlLocked r t of
        Ok _ \<Rightarrow> (r\<lparr>rt_inboxes := (rt_inboxes r)(tk_invocation_id t :=
                   map_option CloseInput (rt_inboxes r (tk_invocation_id t)))\<rparr>, Ok ())
      | x \<Rightarrow> (r, x))"

definition runtime_checkpoint :: "platform \<Rightarrow> string \<Rightarrow> bytes \<Rightarrow> 'h runtime \<Rightarrow> 'h runtime \<times> unit result" where
  "runtime_checkpoint P i checkpoint r =
     (let refused = Fail (AxonErr (WithInvocationID (ErrInvalidArgument ''invocation_not_recoverable'') i)) in
      case rt_executions r i of
        None \<Rightarrow> (r, refused)
      | Some x \<Rightarrow>
          if \<not> ex_persisted x \<or> rt_log r = None then (r, refused)
          else case runtime_log (\<lambda>io d now. if ex_recovered x
                 then CheckpointRecoveredInvocation io d now i (rt_runtime_id r) checkpoint
                 else CheckpointRecovery io d now i checkpoint) refused r of
             (r', Fail e) \<Rightarrow> (r', Fail (AxonErr (WithInvocationID (ErrInternal
                (''recovery_checkpoint_failed:'' @ go_error_string (pf_quote P) e)) i)))
           | (r', y) \<Rightarrow> (r', y))"

section \<open>Cancelling and timing out\<close>

text \<open>What an ending of a tree of invocations meets, for each invocation: the answers of the
  operating system to its cleanup and the time of its terminal event.\<close>

record ending_env =
  ee_cleanup :: "string \<Rightarrow> cleanup_env"
  ee_now :: "string \<Rightarrow> i64"

definition signalTerminalStop :: "string \<Rightarrow> 'h runtime \<Rightarrow> 'h runtime" where
  "signalTerminalStop i r =
     update_execution i (\<lambda>x. x\<lparr>ex_cancelled := True\<rparr>)
       (r\<lparr>rt_cancel_signalled := insert i (rt_cancel_signalled r)\<rparr>)"

fun result_error :: "unit result \<Rightarrow> axon_error option" where
  "result_error (Fail (AxonErr e)) = Some e"
| "result_error (Fail (PlainErr s)) = Some (ErrInternal s)"
| "result_error _ = None"

definition completeCancelIntent :: "invocation_token \<Rightarrow> axon_error option \<Rightarrow> 'h runtime \<Rightarrow> 'h runtime" where
  "completeCancelIntent t err r =
     r\<lparr>rt_cancel_intents := (rt_cancel_intents r)(t :=
        map_option (\<lambda>n. if ci_completed n then n else n\<lparr>ci_completed := True, ci_err := err\<rparr>)
          (rt_cancel_intents r t))\<rparr>"

text \<open>The winner's last step: the intent gets the error that the winner returns.\<close>

definition complete_with :: "invocation_token \<Rightarrow> 'h runtime \<times> unit result \<Rightarrow> 'h runtime \<times> unit result" where
  "complete_with t x = (completeCancelIntent t (result_error (snd x)) (fst x), snd x)"

text \<open>The guard of \<open>runCancelWinner\<close> against a panic.\<close>

definition closePanickedCancelWinner ::
  "platform \<Rightarrow> authority_resolver \<Rightarrow> ending_env \<Rightarrow> invocation_token \<Rightarrow> string \<Rightarrow> 'h runtime \<Rightarrow> 'h runtime option" where
  "closePanickedCancelWinner P resolve e t reason r =
     (let i = tk_invocation_id t in
      if \<not> is_ok (validateControlLocked r t) then Some r
      else case rt_cores r i of
        None \<Rightarrow> Some r
      | Some core \<Rightarrow>
          (case (if ic_terminal_claim core = terminalOwnerNone
                 then (case claim_registered i terminalOwnerFailure r of
                         (r1, won) \<Rightarrow> (r1, if won then Some terminalOwnerFailure else None))
                 else (r, Some (ic_terminal_claim core))) of
             (r1, None) \<Rightarrow> map_option (\<lambda>_. r1) (wait_terminal i r1)
           | (r1, Some owner) \<Rightarrow>
               let r2 = signalTerminalStop i r1 in
               if owner = terminalOwnerCallerCancel \<or> owner = terminalOwnerParentCancel
               then map_option fst (finish_invocation P resolve i (ee_cleanup e i) True
                      (terminal_emission ''cancelled'' StateCancelled [] reason) (ee_now e i) r2)
               else if owner = terminalOwnerFailure
               then map_option fst (finish_invocation P resolve i (ee_cleanup e i) False
                      (terminal_emission ''failed'' StateFailed [] ''cancel_winner_panicked'') (ee_now e i) r2)
               else Some r2))"

text \<open>Ending the children in order, up to the first error.\<close>

fun each_child ::
  "(invocation_token \<Rightarrow> 'h runtime \<Rightarrow> ('h runtime \<times> unit result) option) \<Rightarrow> invocation_token list \<Rightarrow>
   'h runtime \<Rightarrow> ('h runtime \<times> unit result) option" where
  "each_child ending [] r = Some (r, Ok ())"
| "each_child ending (t # ts) r =
     (case ending t r of
        None \<Rightarrow> None
      | Some (r', Ok _) \<Rightarrow> each_child ending ts r'
      | Some (r', x) \<Rightarrow> Some (r', x))"

text \<open>The ending of an invocation whose terminal claim is won: signal, children, cleanup and
  terminal event.\<close>

definition end_claimed ::
  "platform \<Rightarrow> authority_resolver \<Rightarrow> ending_env \<Rightarrow>
   (invocation_token \<Rightarrow> 'h runtime \<Rightarrow> ('h runtime \<times> unit result) option) \<Rightarrow> string \<Rightarrow> emission \<Rightarrow> 'h runtime \<Rightarrow>
   ('h runtime \<times> unit result) option" where
  "end_claimed P resolve e ending i em r =
     (case each_child ending (childTokensLocked r i) (signalTerminalStop i r) of
        None \<Rightarrow> None
      | Some (r1, Fail err) \<Rightarrow> Some (fail_with i err r1, Fail err)
      | Some (r1, Panic err) \<Rightarrow> Some (r1, Panic err)
      | Some (r1, Ok _) \<Rightarrow> finish_invocation P resolve i (ee_cleanup e i) True em (ee_now e i) r1)"

text \<open>\<open>fuel\<close> bounds the depth of the tree of children.\<close>

fun cancelWithControlOwner ::
  "nat \<Rightarrow> platform \<Rightarrow> authority_resolver \<Rightarrow> ending_env \<Rightarrow> string \<Rightarrow> terminal_owner \<Rightarrow> invocation_token \<Rightarrow>
   'h runtime \<Rightarrow> ('h runtime \<times> unit result) option" where
  "cancelWithControlOwner 0 P resolve e reason owner t r = None"
| "cancelWithControlOwner (Suc fuel) P resolve e reason owner t r =
     (let i = tk_invocation_id t in
      case validateControlLocked r t of
        Fail err \<Rightarrow> Some (r, Fail err)
      | Panic err \<Rightarrow> Some (r, Panic err)
      | Ok _ \<Rightarrow>
      (case rt_cancel_intents r t of
         Some n \<Rightarrow> if ci_completed n then Some (r, error_result (ci_err n)) else None
       | None \<Rightarrow>
      (case rt_cores r i of
         None \<Rightarrow> Some (r, Panic (PlainErr ''nil_pointer''))
       | Some core \<Rightarrow>
           if core_IsTerminal core then Some (r, Ok ())
           else let r1 = r\<lparr>rt_cancel_intents := (rt_cancel_intents r)(t \<mapsto>
                      \<lparr>ci_completed = False, ci_reason = reason, ci_owner = owner, ci_err = None\<rparr>)\<rparr>
           in (case claim_registered i owner r1 of
                 (r2, False) \<Rightarrow>
                   map_option (\<lambda>err. complete_with t (r2, error_result err)) (wait_terminal i r2)
               | (r2, True) \<Rightarrow>
                   (case end_claimed P resolve e
                           (cancelWithControlOwner fuel P resolve e ''parent_terminal:CANCELLED'' terminalOwnerParentCancel)
                           i (terminal_emission ''cancelled'' StateCancelled [] reason) r2 of
                      None \<Rightarrow> None
                    | Some (r3, Panic err) \<Rightarrow>
                        map_option (\<lambda>r4. complete_with t (r4, Fail (AxonErr
                            (WithInvocationID (ErrInternal ''cancel_winner_panicked'') i))))
                          (closePanickedCancelWinner P resolve e t reason r3)
                    | Some x \<Rightarrow> Some (complete_with t x))))))"

definition Cancel ::
  "nat \<Rightarrow> platform \<Rightarrow> authority_resolver \<Rightarrow> ending_env \<Rightarrow> string \<Rightarrow> string \<Rightarrow> 'h runtime \<Rightarrow>
   ('h runtime \<times> unit result) option" where
  "Cancel fuel P resolve e i reason r =
     (case currentToken r i of
        Ok t \<Rightarrow> cancelWithControlOwner fuel P resolve e reason terminalOwnerCallerCancel t r
      | Fail err \<Rightarrow> Some (r, Fail err) | Panic err \<Rightarrow> Some (r, Panic err))"

fun timeoutWithControl ::
  "nat \<Rightarrow> platform \<Rightarrow> authority_resolver \<Rightarrow> ending_env \<Rightarrow> string \<Rightarrow> invocation_token \<Rightarrow>
   'h runtime \<Rightarrow> ('h runtime \<times> unit result) option" where
  "timeoutWithControl 0 P resolve e reason t r = None"
| "timeoutWithControl (Suc fuel) P resolve e reason t r =
     (let i = tk_invocation_id t in
      case validateControlLocked r t of
        Fail err \<Rightarrow> Some (r, Fail err)
      | Panic err \<Rightarrow> Some (r, Panic err)
      | Ok _ \<Rightarrow>
      (case claim_registered i terminalOwnerDeadline r of
         (r1, False) \<Rightarrow> map_option (\<lambda>err. (r1, error_result err)) (wait_terminal i r1)
       | (r1, True) \<Rightarrow>
           end_claimed P resolve e
             (timeoutWithControl fuel P resolve e ''parent_terminal:TIMED_OUT'')
             i (terminal_emission ''timed_out'' StateTimedOut [] reason) r1))"

text \<open>\<open>watchDeadline\<close> at the deadline, unless the execution is done.\<close>

definition watchDeadline ::
  "nat \<Rightarrow> platform \<Rightarrow> authority_resolver \<Rightarrow> ending_env \<Rightarrow> invocation_token \<Rightarrow> 'h runtime \<Rightarrow> 'h runtime option" where
  "watchDeadline fuel P resolve e t r =
     (if case rt_executions r (tk_invocation_id t) of Some x \<Rightarrow> ex_done x | None \<Rightarrow> False then Some r
      else map_option fst (timeoutWithControl fuel P resolve e ''runtime_deadline'' t r))"

end
