(* ===== verification/RuntimeRecovery.thy ===== *)
theory RuntimeRecovery
  imports RuntimeControl
begin

text \<open>
  Restart and recovery: \<open>SuspendForRestart\<close>, \<open>RecoverPersistedInvocations\<close>,
  \<open>recoverSnapshot\<close>, \<open>renewRecoveryLease\<close> and \<open>abandonRecoveredExecution\<close> of
  \<open>axon/invocation/local_runtime.go\<close>.

  The identity of an execution is the generation it was registered under.  A tick of the
  renewal goroutine is one operation.
\<close>

section \<open>Suspending\<close>

text \<open>Whether the context is done when the turn of an invocation comes and while it is waited
  for, and what its handler returns once its execution context is cancelled.\<close>

record suspend_env =
  su_done :: "string \<Rightarrow> bool"
  su_done_waiting :: "string \<Rightarrow> bool"
  su_outcome :: "string \<Rightarrow> handler_outcome option"

definition suspend_targets :: "'h runtime \<Rightarrow> invocation_token list" where
  "suspend_targets r =
     map (\<lambda>i. \<lparr>tk_invocation_id = i, tk_generation = (case rt_generations r i of Some g \<Rightarrow> g | None \<Rightarrow> 0)\<rparr>)
       (List.filter (\<lambda>i. case rt_executions r i of Some x \<Rightarrow> ex_persisted x \<and> \<not> ex_suspended x | None \<Rightarrow> False)
         (sorted_list_of_set (rt_active r)))"

definition suspend_cancelled :: "string \<Rightarrow> 'a result" where
  "suspend_cancelled i = Fail (AxonErr (WithInvocationID (ErrCancelled ''recovery_suspend_context_cancelled'') i))"

datatype suspension = Skipped | AlreadyEnding | SuspendFailed axon_error | Suspended

text \<open>The section under the registry lock.\<close>

definition suspend_locked :: "platform \<Rightarrow> invocation_token \<Rightarrow> 'h runtime \<Rightarrow> 'h runtime \<times> suspension" where
  "suspend_locked P t r =
     (let i = tk_invocation_id t in
      if rt_generations r i \<noteq> Some (tk_generation t) \<or> i \<notin> rt_active r \<or> suspended i r then (r, Skipped)
      else case rt_cores r i of
        None \<Rightarrow> (r, Skipped)
      | Some core \<Rightarrow>
          if terminalClaimed core \<or> core_IsTerminal core then (r, AlreadyEnding)
          else (case runtime_log (\<lambda>io d now. MarkRecoveryPhase io d i ''suspended'')
                       (Fail (PlainErr ''nil_pointer'')) r of
             (r1, Ok _) \<Rightarrow>
               (update_execution i (\<lambda>x. x\<lparr>ex_suspended := True\<rparr>) (deactivate i (ic_parent core) r1), Suspended)
           | (r1, Fail e) \<Rightarrow> (r1, SuspendFailed (WithInvocationID (ErrInternal
                (''recovery_suspend_persist_failed:'' @ go_error_string (pf_quote P) e)) i))
           | (r1, Panic e) \<Rightarrow> (r1, SuspendFailed (ErrInternal (go_error_string (pf_quote P) e)))))"

text \<open>The handler of a suspended execution returns and its goroutine ends.\<close>

definition drain_suspended :: "string \<Rightarrow> suspend_env \<Rightarrow> 'h runtime \<Rightarrow> 'h runtime option" where
  "drain_suspended i v r =
     (case rt_executions r i of
        None \<Rightarrow> Some r
      | Some x \<Rightarrow> if ex_done x then Some r
                 else case su_outcome v i of
                   None \<Rightarrow> None
                 | Some _ \<Rightarrow> Some (update_execution i (\<lambda>x. x\<lparr>ex_done := True\<rparr>) r))"

fun suspend_loop :: "platform \<Rightarrow> suspend_env \<Rightarrow> invocation_token list \<Rightarrow> string list \<Rightarrow> 'h runtime \<Rightarrow>
   ('h runtime \<times> string list result) option" where
  "suspend_loop P v [] acc r = Some (r, Ok acc)"
| "suspend_loop P v (t # ts) acc r =
     (let i = tk_invocation_id t in
      if su_done v i then Some (r, suspend_cancelled i)
      else case suspend_locked P t r of
        (r1, Skipped) \<Rightarrow> suspend_loop P v ts acc r1
      | (r1, SuspendFailed e) \<Rightarrow> Some (r1, Fail (AxonErr e))
      | (r1, AlreadyEnding) \<Rightarrow>
          (case wait_terminal i r1 of
             Some (Some e) \<Rightarrow> Some (r1, Fail (AxonErr e))
           | Some None \<Rightarrow> suspend_loop P v ts acc r1
           | None \<Rightarrow> if su_done_waiting v i then Some (r1, suspend_cancelled i) else None)
      | (r1, Suspended) \<Rightarrow>
          (let r2 = update_execution i (\<lambda>x. x\<lparr>ex_cancelled := True\<rparr>) r1 in
           case drain_suspended i v r2 of
             Some r3 \<Rightarrow> suspend_loop P v ts (acc @ [i]) r3
           | None \<Rightarrow> if su_done_waiting v i then Some (r2, suspend_cancelled i) else None))"

definition SuspendForRestart ::
  "platform \<Rightarrow> suspend_env \<Rightarrow> 'h runtime \<Rightarrow> ('h runtime \<times> string list result) option" where
  "SuspendForRestart P v r = suspend_loop P v (suspend_targets r) [] r"

section \<open>Recovering\<close>

definition find_continuation ::
  "'h runtime \<Rightarrow> ability_descriptor_ref \<Rightarrow> ('h provider_binding \<times> 'h recovery_continuation) result" where
  "find_continuation r ref =
     (case rt_abilities r (ad_ability_ura ref) of
        None \<Rightarrow> Fail (AxonErr (ErrInvalidArgument ''recovery_provider_not_bound''))
      | Some b \<Rightarrow> (case pb_recovery b of
            None \<Rightarrow> Fail (AxonErr (ErrInvalidArgument ''recovery_provider_not_bound''))
          | Some continuation \<Rightarrow> Ok (b, continuation)))"

definition reserve_recovered :: "'h runtime \<Rightarrow> string \<Rightarrow> 'h runtime \<times> unit result" where
  "reserve_recovered r parentID =
     (if int canonicalPendingCapacity \<le> rt_active_count r
      then (r, Fail (AxonErr (WithRetryAfterMs (ErrResourceExhausted ''recovery_concurrency_limit'') 100)))
      else (r\<lparr>rt_active_count := rt_active_count r + 1,
              rt_active_children := (if parentID \<noteq> []
                then (rt_active_children r)(parentID := rt_active_children r parentID + 1)
                else rt_active_children r)\<rparr>, Ok ()))"

text \<open>\<open>time.UnixMilli\<close>.\<close>

definition deadline_of :: "recovery_snapshot \<Rightarrow> int option" where
  "deadline_of s = (if sn_deadline_ms s = 0 then None else Some (sint (sn_deadline_ms s) * 1000000))"

definition restore_core ::
  "platform \<Rightarrow> authority_resolver \<Rightarrow> recovery_snapshot \<Rightarrow> bound_context \<Rightarrow> i64 \<Rightarrow> 'h runtime \<Rightarrow>
   runtime_core \<times> 'h runtime \<times> unit result" where
  "restore_core P resolve s ctx now r =
     (let c = newInvocationCore (sn_invocation_id s) (sn_parent s) (Some ctx) (deadline_of s);
          sink = runtime_sink (sn_invocation_id s) (Some (rt_runtime_id r))
      in case restore_events P (AppendSignedReceipt P resolve) sink c (rt_provider r) (rt_log r) (sn_events s) now of
           (c', p', l', res) \<Rightarrow>
             (c', r\<lparr>rt_provider := p', rt_log := l'\<rparr>,
              bindR res (\<lambda>_. if ic_state c' \<noteq> StateRunning
                then Fail (AxonErr (WithInvocationID (ErrInvalidArgument ''recovery_snapshot_not_running'')
                       (sn_invocation_id s)))
                else Ok ())))"

definition register_recovered ::
  "recovery_snapshot \<Rightarrow> runtime_core \<Rightarrow> 'h runtime \<Rightarrow> 'h runtime" where
  "register_recovered s c r =
     (let i = sn_invocation_id s;
          r1 = register_entries i c (Some (rt_runtime_id r)) (NewSupervisor i (sn_spec s)) new_inbox
                 (new_execution True True) r
      in r1\<lparr>rt_envelopes := (rt_envelopes r1)(i \<mapsto>
              \<lparr>se_envelope = sn_envelope s, se_signature = sn_signature s\<rparr>)\<rparr>)"

definition recover_reserved ::
  "platform \<Rightarrow> authority_resolver \<Rightarrow> recovery_snapshot \<Rightarrow> descriptor_bound_envelope \<Rightarrow>
   'h provider_binding \<Rightarrow> 'h recovery_continuation \<Rightarrow> i64 \<Rightarrow> 'h runtime \<Rightarrow> 'h runtime \<times> 'h started result" where
  "recover_reserved P resolve s envelope b continuation now r =
     (case admit P envelope (sn_signature s) now r of
        (r1, Fail e) \<Rightarrow> (r1, Fail e)
      | (r1, Panic e) \<Rightarrow> (r1, Panic e)
      | (r1, Ok admission) \<Rightarrow>
      (case admitted_evidence admission b of
         Fail e \<Rightarrow> (r1, Fail e)
       | Panic e \<Rightarrow> (r1, Panic e)
       | Ok (descriptor, implementation) \<Rightarrow>
      (case bind_context P ''recovery_receipt_bind_failed:'' (sn_invocation_id s) admission descriptor implementation r1 of
         (r2, Fail e) \<Rightarrow> (r2, Fail e)
       | (r2, Panic e) \<Rightarrow> (r2, Panic e)
       | (r2, Ok ctx) \<Rightarrow>
      (case restore_core P resolve s ctx now r2 of
         (c, r3, Fail e) \<Rightarrow> (r3, Fail e)
       | (c, r3, Panic e) \<Rightarrow> (r3, Panic e)
       | (c, r3, Ok _) \<Rightarrow>
           (let r4 = register_recovered s c r3
            in (r4, Ok (start_of (sn_invocation_id s) r4 (rn_resume continuation) (sn_payload s)
                      (Some (sn_checkpoint s)) terminalOwnerRecovery (deadline_of s))))))))"

definition recoverSnapshot ::
  "platform \<Rightarrow> authority_resolver \<Rightarrow> i64 \<Rightarrow> recovery_snapshot \<Rightarrow> 'h runtime \<Rightarrow> 'h runtime \<times> 'h started result" where
  "recoverSnapshot P resolve now s r =
     (case bindR (incompleteR (NewDescriptorBoundEnvelope (sn_envelope s))) (\<lambda>envelope.
           bindR (incompleteR (ParseAbilityDescriptorRef (en_ability (sn_envelope s)))) (\<lambda>ref.
           bindR (find_continuation r ref) (\<lambda>(b, continuation). Ok (envelope, b, continuation)))) of
        Fail e \<Rightarrow> (r, Fail e)
      | Panic e \<Rightarrow> (r, Panic e)
      | Ok (envelope, b, continuation) \<Rightarrow>
      (case reserve_recovered r (sn_parent s) of
         (r1, Fail e) \<Rightarrow> (r1, Fail e)
       | (r1, Panic e) \<Rightarrow> (r1, Panic e)
       | (r1, Ok _) \<Rightarrow>
           (case recover_reserved P resolve s envelope b continuation now r1 of
              (r2, Ok st) \<Rightarrow> (r2, Ok st)
            | (r2, x) \<Rightarrow> (releaseUnboundReservation r2 (sn_parent s), x))))"

fun recover_loop ::
  "platform \<Rightarrow> authority_resolver \<Rightarrow> (string \<Rightarrow> i64) \<Rightarrow> recovery_snapshot list \<Rightarrow> 'h started list \<Rightarrow> 'h runtime \<Rightarrow>
   'h runtime \<times> 'h started list result" where
  "recover_loop P resolve now [] acc r = (r, Ok acc)"
| "recover_loop P resolve now (s # ss) acc r =
     (case recoverSnapshot P resolve (now (sn_invocation_id s)) s r of
        (r1, Ok st) \<Rightarrow> recover_loop P resolve now ss (acc @ [st]) r1
      | (r1, Fail e) \<Rightarrow>
          (fst (runtime_log (\<lambda>io d now. MarkRecoveryPhase io d (sn_invocation_id s) ''suspended'') (Ok ()) r1), Fail e)
      | (r1, Panic e) \<Rightarrow> (r1, Panic e))"

definition RecoverPersistedInvocations ::
  "platform \<Rightarrow> authority_resolver \<Rightarrow> (string \<Rightarrow> i64) \<Rightarrow> int \<Rightarrow> 'h runtime \<Rightarrow> 'h runtime \<times> 'h started list result" where
  "RecoverPersistedInvocations P resolve now lease r =
     (if rt_log r = None
      then (r, Fail (AxonErr (ErrInvalidArgument ''persistence_provider_required'')))
      else let available = int canonicalPendingCapacity - rt_active_count r in
      if available \<le> 0
      then (r, Fail (AxonErr (WithRetryAfterMs (ErrResourceExhausted ''recovery_concurrency_limit'') 100)))
      else case runtime_log (\<lambda>io d t. ClaimRecovery io d t (rt_runtime_id r) lease available) (Ok []) r of
        (r1, Ok snapshots) \<Rightarrow> recover_loop P resolve now snapshots [] r1
      | (r1, x) \<Rightarrow>
          (r1, axon_or (\<lambda>e. ErrInternal (''recovery_lease_failed:'' @ go_error_string (pf_quote P) e))
                 (bindR x (\<lambda>_. Ok []))))"

section \<open>Keeping the lease\<close>

definition abandonRecoveredExecution :: "invocation_token \<Rightarrow> 'h runtime \<Rightarrow> 'h runtime" where
  "abandonRecoveredExecution t r =
     (let i = tk_invocation_id t in
      case rt_cores r i of
        None \<Rightarrow> r
      | Some core \<Rightarrow>
          if rt_generations r i \<noteq> Some (tk_generation t) \<or> suspended i r \<or> core_IsTerminal core then r
          else update_execution i (\<lambda>x. x\<lparr>ex_suspended := True, ex_cancelled := True\<rparr>)
                 (deactivate i (ic_parent core) r))"

text \<open>A tick of the renewal; the flag says that the goroutine goes on.\<close>

definition renewRecoveryLease :: "invocation_token \<Rightarrow> int \<Rightarrow> 'h runtime \<Rightarrow> 'h runtime \<times> bool" where
  "renewRecoveryLease t lease r =
     (if case rt_executions r (tk_invocation_id t) of Some x \<Rightarrow> ex_done x | None \<Rightarrow> True then (r, False)
      else case runtime_log (\<lambda>io d now. RenewRecoveryLease io d now (tk_invocation_id t) (rt_runtime_id r) lease)
                  (Fail (PlainErr ''nil_pointer'')) r of
        (r1, Ok _) \<Rightarrow> (r1, True)
      | (r1, _) \<Rightarrow> (abandonRecoveredExecution t r1, False))"

definition renewal_interval :: "int \<Rightarrow> int" where
  "renewal_interval lease = max (lease div 3) 10000000"

end
