(* ===== verification/RuntimeSteps.thy ===== *)
theory RuntimeSteps
  imports RuntimeRecovery "HOL-Library.Multiset"
begin

text \<open>
  The atomic steps of the runtime.  The sections that are atomic in the code, each a critical
  section of the registry lock, of a core's lock, of a supervisor or of the provider, may
  interleave in any order: \<open>runtime_step\<close>.  The second component of its state is a ghost: the
  reservations that are in flight, with their parents and the identifiers already bound for
  them.  The guards of the relation are a discipline the operations have to respect: a core is
  registered running, a terminal event is emitted only once the supervisor's cleanup has
  settled without an error, and a cancel intent is completed without an error only when the
  invocation has ended.

  The second half shows that every operation of the code, run as one, is a sequence of these
  steps that leaves no reservation behind.
\<close>

section \<open>Steps\<close>

type_synonym flight = "string \<times> string option"

text \<open>The calls an ability and the runtime make on a supervisor.\<close>

inductive supervisor_op :: "supervisor \<Rightarrow> supervisor \<Rightarrow> bool" where
  flow: "runTerminalFlow s e cancelled = Some (s', executed, removed) \<Longrightarrow> supervisor_op s s'"
| cleanup: "RegisterCleanup s cb = (s', at_once) \<Longrightarrow> supervisor_op s s'"
| on_cancel: "supervisor_op s (OnCancel s cb)"
| spawn: "SpawnProcessGroup s args start = (s', res) \<Longrightarrow> supervisor_op s s'"

definition settled :: "supervisor \<Rightarrow> bool" where
  "settled s = (sv_started s \<and> sv_phase s \<noteq> supervisorClosing \<and> CleanupError s = None)"

text \<open>An invocation has ended: it is terminal, or its terminal channel is closed without an
  error.\<close>

definition ended :: "'h runtime \<Rightarrow> string \<Rightarrow> bool" where
  "ended r i = (case rt_cores r i of None \<Rightarrow> False
     | Some c \<Rightarrow> core_IsTerminal c \<or> (0 < ic_terminal_closes c \<and> ic_finalization_err c = None))"

text \<open>A cancel intent as it may be stored.\<close>

definition intent_sound :: "'h runtime \<Rightarrow> string \<Rightarrow> cancel_intent option \<Rightarrow> bool" where
  "intent_sound r i v = (case v of None \<Rightarrow> True
     | Some n \<Rightarrow> rt_cores r i \<noteq> None \<and> (ci_completed n \<and> ci_err n = None \<longrightarrow> ended r i))"

text \<open>The fields that no discipline depends on.\<close>

definition update_rest ::
  "(string \<rightharpoonup> inbox) \<Rightarrow> (string \<rightharpoonup> execution) \<Rightarrow> string set \<Rightarrow> (string \<rightharpoonup> signed_envelope) \<Rightarrow> log_world option \<Rightarrow>
   replay_store \<Rightarrow> (string \<rightharpoonup> 'h provider_binding) \<Rightarrow> 'h runtime \<Rightarrow> 'h runtime" where
  "update_rest inboxes executions signalled envelopes log replay abilities r =
     r\<lparr>rt_inboxes := inboxes, rt_executions := executions, rt_cancel_signalled := signalled,
       rt_envelopes := envelopes, rt_log := log, rt_replay := replay, rt_abilities := abilities\<rparr>"

inductive runtime_step ::
  "platform \<Rightarrow> authority_resolver \<Rightarrow> 'h runtime \<times> flight multiset \<Rightarrow> 'h runtime \<times> flight multiset \<Rightarrow> bool"
  for P resolve where
  reserve: "reserveInvocation r parentID spec reason now = (r', Ok deadline)
     \<Longrightarrow> runtime_step P resolve (r, F) (r', add_mset (parentID, None) F)"
| reserve_again: "reserve_recovered r parentID = (r', Ok u)
     \<Longrightarrow> runtime_step P resolve (r, F) (r', add_mset (parentID, None) F)"
| bind: "bind_context P failure i admission descriptor implementation r = (r', Ok ctx)
     \<Longrightarrow> runtime_step P resolve (r, add_mset (parentID, None) F) (r', add_mset (parentID, Some i) F)"
| release: "runtime_step P resolve (r, add_mset (parentID, x) F) (releaseUnboundReservation r parentID, F)"
| prepare: "core_emit P resolve sink c r em now ctxDone = (c', r', res)
     \<Longrightarrow> runtime_step P resolve (r, F) (r', F)"
| register: "\<lbrakk>ic_parent c = parentID; machine_inv c; ic_state c = StateRunning\<rbrakk>
     \<Longrightarrow> runtime_step P resolve (r, add_mset (parentID, Some i) F)
           (register_invocation i parentID c sink (NewSupervisor i spec) inbox execution r, F)"
| register_again: "\<lbrakk>ic_parent c = sn_parent s; machine_inv c; ic_state c = StateRunning\<rbrakk>
     \<Longrightarrow> runtime_step P resolve (r, add_mset (sn_parent s, Some (sn_invocation_id s)) F) (register_recovered s c r, F)"
| emission: "\<lbrakk>emit_registered P resolve i r em now ctxDone = (r', res); \<not> state_IsTerminal (em_state em)\<rbrakk>
     \<Longrightarrow> runtime_step P resolve (r, F) (r', F)"
| ending: "\<lbrakk>emit_registered P resolve i r em now ctxDone = (r', res); rt_supervisors r i = Some s; settled s\<rbrakk>
     \<Longrightarrow> runtime_step P resolve (r, F) (r', F)"
| terminal: "rt_cores r i = Some c \<Longrightarrow> runtime_step P resolve (r, F) (deactivate i (ic_parent c) r, F)"
| claim: "claim_registered i owner r = (r', won) \<Longrightarrow> runtime_step P resolve (r, F) (r', F)"
| fail: "runtime_step P resolve (r, F) (fail_with i e r, F)"
| read: "\<lbrakk>rt_cores r i = Some c; stream_Next c st ctxDone = Some (c', st', event)\<rbrakk>
     \<Longrightarrow> runtime_step P resolve (r, F) (r\<lparr>rt_cores := (rt_cores r)(i \<mapsto> c')\<rparr>, F)"
| suspend: "suspend_locked P t r = (r', x) \<Longrightarrow> runtime_step P resolve (r, F) (r', F)"
| abandon: "runtime_step P resolve (r, F) (abandonRecoveredExecution t r, F)"
| supervise: "\<lbrakk>rt_supervisors r i = Some s; supervisor_op s s'\<rbrakk>
     \<Longrightarrow> runtime_step P resolve (r, F) (r\<lparr>rt_supervisors := (rt_supervisors r)(i \<mapsto> s')\<rparr>, F)"
| intend: "intent_sound r (tk_invocation_id t) v
     \<Longrightarrow> runtime_step P resolve (r, F) (r\<lparr>rt_cancel_intents := (rt_cancel_intents r)(t := v)\<rparr>, F)"
| rest: "runtime_step P resolve (r, F)
     (update_rest inboxes executions signalled envelopes log replay abilities r, F)"

abbreviation runtime_steps ::
  "platform \<Rightarrow> authority_resolver \<Rightarrow> 'h runtime \<times> flight multiset \<Rightarrow> 'h runtime \<times> flight multiset \<Rightarrow> bool" where
  "runtime_steps P resolve \<equiv> (runtime_step P resolve)\<^sup>*\<^sup>*"

section \<open>Emissions\<close>

lemma append_contexts: "AppendSignedReceipt P resolve p ctx input = (p', res) \<Longrightarrow> pv_contexts p' = pv_contexts p"
  by (auto simp: AppendSignedReceipt_def set_chain_def split: prod.splits result.splits)

lemma guard_blocked: "emit_guard c em d = Some EmitBlocked \<Longrightarrow> em_type em = ''progress''"
  by (auto simp: emit_guard_def split: if_splits option.splits)

lemma guard_not_emitted: "emit_guard c em d = Some r \<Longrightarrow> r \<noteq> Emitted e x"
  by (auto simp: emit_guard_def split: if_splits option.splits)

text \<open>An emission changes the provider and the log, and it either leaves the core as it is or
  commits the event.\<close>

lemma core_emit_cases:
  assumes "core_emit P resolve sink c r em now d = (c', r', res)"
  obtains (refused) p l where "r' = r\<lparr>rt_provider := p, rt_log := l\<rparr>" "pv_contexts p = pv_contexts (rt_provider r)"
      "c' = c" "\<And>e x. res \<noteq> Emitted e x" "res = EmitBlocked \<Longrightarrow> em_type em = ''progress''"
  | (emitted) p l x where "r' = r\<lparr>rt_provider := p, rt_log := l\<rparr>" "pv_contexts p = pv_contexts (rt_provider r)"
      "emit_guard c em d = None" "c' = emit_commit c em (emit_event c em now)" "res = Emitted (emit_event c em now) x"
proof -
  obtain p l where e: "emitContext P (AppendSignedReceipt P resolve) (runtime_sink (ic_invocation_id c) sink) c
      (rt_provider r) (rt_log r) em now d = (c', p, l, res)" and r': "r' = r\<lparr>rt_provider := p, rt_log := l\<rparr>"
    using assms by (auto simp: core_emit_def split: prod.splits)
  show thesis
  proof (cases "emit_guard c em d")
    case None
    obtain q y where a: "AppendSignedReceipt P resolve (rt_provider r) (ic_context c) (emit_input em now) = (q, y)"
      by fastforce
    note q = append_contexts [OF a]
    show thesis
    proof (cases y)
      case (Ok receipt)
      with e None a have "p = q" "c' = emit_commit c em (emit_event c em now)"
        "\<exists>x. res = Emitted (emit_event c em now) x"
        by (auto simp: emitContext_def Let_def split: option.splits prod.splits if_splits)
      with q r' None emitted show thesis by blast
    next
      case (Fail x)
      with e None a have "p = q" "c' = c" "res = EmitFailed (append_failure P c x)" by (auto simp: emitContext_def)
      with q show thesis by (intro refused [OF r']) simp_all
    next
      case (Panic x)
      with e None a have "p = q" "c' = c" "res = EmitPanicked x" by (auto simp: emitContext_def)
      with q show thesis by (intro refused [OF r']) simp_all
    qed
  next
    case (Some x)
    with e have "p = rt_provider r" "c' = c" "res = x" by (auto simp: emitContext_def)
    with guard_not_emitted [OF Some] guard_blocked [of c em d] Some show thesis
      by (intro refused [OF r']) simp_all
  qed
qed

lemma emit_commit_core [simp]:
  "ic_parent (emit_commit c em e) = ic_parent c" "ic_invocation_id (emit_commit c em e) = ic_invocation_id c"
  "ic_state (emit_commit c em e) = em_state em" "ic_finalization_err (emit_commit c em e) = ic_finalization_err c"
  by (simp_all add: emit_commit_def)

lemma core_emit_frame:
  assumes "core_emit P resolve sink c r em now d = (c', r', res)"
  shows "rt_cores r' = rt_cores r" "ic_parent c' = ic_parent c" "ic_invocation_id c' = ic_invocation_id c"
    "machine_inv c \<Longrightarrow> machine_inv c'"
  using assms by (cases rule: core_emit_cases; simp add: machine_inv_commit)+

lemma emit_registered_core:
  "emit_registered P resolve i r em now d = (r', Some x) \<Longrightarrow> \<exists>c. rt_cores r' i = Some c"
  by (auto simp: emit_registered_def split: option.splits prod.splits)

text \<open>What an emission does to the registry.\<close>

lemma emit_registered_cases:
  assumes "emit_registered P resolve i r em now d = (r', res)"
  obtains (absent) "rt_cores r i = None" "r' = r" "res = None"
  | (refused) p l c x where "rt_cores r i = Some c" "r' = r\<lparr>rt_provider := p, rt_log := l\<rparr>"
      "pv_contexts p = pv_contexts (rt_provider r)" "res = Some x" "\<And>e y. x \<noteq> Emitted e y"
      "x = EmitBlocked \<Longrightarrow> em_type em = ''progress''"
  | (emitted) p l c x where "rt_cores r i = Some c" "emit_guard c em d = None"
      "r' = r\<lparr>rt_provider := p, rt_log := l, rt_cores := (rt_cores r)(i \<mapsto> emit_commit c em (emit_event c em now))\<rparr>"
      "pv_contexts p = pv_contexts (rt_provider r)" "res = Some (Emitted (emit_event c em now) x)"
proof (cases "rt_cores r i")
  case (Some c)
  obtain c' r1 x where e: "core_emit P resolve (rt_sinks r i) c r em now d = (c', r1, x)" by (metis prod_cases3)
  with Some assms have r': "r' = r1\<lparr>rt_cores := (rt_cores r1)(i \<mapsto> c')\<rparr>" "res = Some x"
    by (simp_all add: emit_registered_def)
  from e show thesis
  proof (cases rule: core_emit_cases)
    case (refused p l)
    have "(rt_cores r)(i \<mapsto> c) = rt_cores r" using Some by auto
    then have "r' = r\<lparr>rt_provider := p, rt_log := l\<rparr>" using r' refused(1,3) by (cases r) simp
    then show thesis by (rule that(2) [OF Some _ refused(2) r'(2) refused(4,5)])
  next
    case (emitted p l y)
    with r' have "r' = r\<lparr>rt_provider := p, rt_log := l,
        rt_cores := (rt_cores r)(i \<mapsto> emit_commit c em (emit_event c em now))\<rparr>" by simp
    then show thesis
      by (rule that(3) [OF Some emitted(3) _ emitted(2) r'(2) [unfolded emitted(5)]])
  qed
next
  case None
  with assms have "r' = r" "res = None" by (auto simp: emit_registered_def)
  with that(1) None show thesis by blast
qed

section \<open>The operations as sequences of steps\<close>

text \<open>A change of the fields no discipline depends on.\<close>

definition only_rest :: "'h runtime \<Rightarrow> 'h runtime \<Rightarrow> bool" where
  "only_rest r r' \<longleftrightarrow> r' = update_rest (rt_inboxes r') (rt_executions r') (rt_cancel_signalled r')
     (rt_envelopes r') (rt_log r') (rt_replay r') (rt_abilities r') r"

lemma only_rest_update [simp]:
  "only_rest r (r\<lparr>rt_inboxes := b\<rparr>)" "only_rest r (r\<lparr>rt_executions := c\<rparr>)" "only_rest r (r\<lparr>rt_cancel_signalled := e\<rparr>)"
  "only_rest r (r\<lparr>rt_envelopes := f\<rparr>)" "only_rest r (r\<lparr>rt_log := g\<rparr>)" "only_rest r (r\<lparr>rt_replay := h\<rparr>)"
  "only_rest r (r\<lparr>rt_abilities := i\<rparr>)" "only_rest r r"
  by (cases r; simp add: only_rest_def update_rest_def)+

lemma rest_steps: "only_rest r r' \<Longrightarrow> runtime_steps P resolve (r, F) (r', F)"
  unfolding only_rest_def by (metis r_into_rtranclp runtime_step.rest)

text \<open>The same as continuations of a sequence.\<close>

lemma steps_rest: "runtime_steps P resolve x (r, F) \<Longrightarrow> only_rest r r' \<Longrightarrow> runtime_steps P resolve x (r', F)"
  using rest_steps rtranclp_trans by fastforce

lemma steps_execution: "runtime_steps P resolve x (r, F) \<Longrightarrow> runtime_steps P resolve x (update_execution i f r, F)"
  by (erule steps_rest) (simp add: update_execution_def)

lemma steps_step: "runtime_steps P resolve x y \<Longrightarrow> runtime_step P resolve y z \<Longrightarrow> runtime_steps P resolve x z"
  by (rule rtranclp.rtrancl_into_rtrancl)

lemma execution_steps: "runtime_steps P resolve (r, F) (update_execution i f r, F)"
  by (rule rest_steps) (simp add: update_execution_def)

lemma log_steps: "runtime_log f missing r = (r', res) \<Longrightarrow> runtime_steps P resolve (r, F) (r', F)"
  by (rule rest_steps) (auto simp: runtime_log_def split: option.splits prod.splits)

lemma step_emission:
  "emit_registered P resolve i r em now d = (r', res) \<Longrightarrow> \<not> state_IsTerminal (em_state em) \<Longrightarrow>
     runtime_steps P resolve (r, F) (r', F)"
  by (rule r_into_rtranclp) (rule runtime_step.emission)

lemma step_terminal: "rt_cores r i = Some c \<Longrightarrow> runtime_steps P resolve (r, F) (deactivate i (ic_parent c) r, F)"
  by (rule r_into_rtranclp) (rule runtime_step.terminal)

lemma step_claim: "claim_registered i owner r = (r', won) \<Longrightarrow> runtime_steps P resolve (r, F) (r', F)"
  by (rule r_into_rtranclp) (rule runtime_step.claim)

lemma step_fail: "runtime_steps P resolve (r, F) (fail_with i e r, F)"
  by (rule r_into_rtranclp) (rule runtime_step.fail)

lemma emit_steps:
  assumes "emit P resolve i r em now d = (r', res)" and "\<not> state_IsTerminal (em_state em)"
  shows "runtime_steps P resolve (r, F) (r', F)"
proof -
  obtain r1 x where e: "emit_registered P resolve i r em now d = (r1, x)" by fastforce
  with assms have "r' = r1" by (auto simp: emit_def split: option.splits emit_result.splits)
  with step_emission [OF e assms(2)] show ?thesis by simp
qed

lemma plain_state [simp]: "em_state (plain_emission t s p c rn cc ch) = s" "em_type (plain_emission t s p c rn cc ch) = t"
  by (simp_all add: plain_emission_def)

lemma running_not_terminal [simp]: "\<not> state_IsTerminal StateRunning"
  by (simp add: state_IsTerminal_def state_defs)

text \<open>The terminal event of an invocation whose supervisor has settled, with its callback.\<close>

lemma emit_ending_steps:
  assumes "emit P resolve i r em now d = (r', res)" and "rt_supervisors r i = Some s" "settled s"
  shows "runtime_steps P resolve (r, F) (r', F)"
proof -
  obtain r1 x where e: "emit_registered P resolve i r em now d = (r1, x)" by fastforce
  have s1: "runtime_steps P resolve (r, F) (r1, F)"
    by (rule r_into_rtranclp) (rule runtime_step.ending [OF e assms(2,3)])
  show ?thesis
  proof (cases "r' = r1")
    case False
    with assms e obtain ev err where x: "x = Some (Emitted ev err)"
      and r': "r' = onInvocationTerminal P resolve i (ic_parent (the (rt_cores r1 i))) (em_state em) now r1"
      by (auto simp: emit_def split: option.splits emit_result.splits if_splits)
    obtain c where c: "rt_cores r1 i = Some c" using emit_registered_core e x by blast
    let ?r = "deactivate i (ic_parent c) r1"
    have "runtime_steps P resolve (r, F) (?r, F)"
      using s1 step_terminal [OF c] by (rule rtranclp_trans)
    moreover have "runtime_steps P resolve (?r, F) (r', F)"
      unfolding r' c option.sel onInvocationTerminal_def Let_def
      by (simp add: step_emission [OF surjective_pairing])
    ultimately show ?thesis by (rule rtranclp_trans)
  qed (use s1 in simp)
qed

lemma settled_flow:
  assumes "(if cancelled then RunCancelFlow s e else RunCompletionFlow s e) = Some (s', executed, removed)"
  shows "supervisor_op s s' \<and> sv_started s' \<and> sv_phase s' \<noteq> supervisorClosing"
proof -
  have f: "runTerminalFlow s e cancelled = Some (s', executed, removed)"
    using assms by (auto simp: RunCancelFlow_def RunCompletionFlow_def split: if_splits)
  have "sv_started s' \<and> sv_phase s' \<noteq> supervisorClosing"
    using f by (auto simp: runTerminalFlow_def run_cleanup_def publish_def Let_def
        split: if_splits option.splits prod.splits bool.splits)
  with f show ?thesis by (auto intro: supervisor_op.flow)
qed

lemma finishCleanup_steps:
  assumes "finishCleanup P i e cancelled r = Some (r', res)"
  shows "runtime_steps P resolve (r, F) (r', F)
    \<and> (is_ok res \<longrightarrow> (\<exists>s. rt_supervisors r' i = Some s \<and> settled s) \<and> rt_cores r' = rt_cores r)"
proof -
  from assms obtain s where s: "rt_supervisors r i = Some s" by (auto simp: finishCleanup_def split: option.splits)
  obtain r1 res1 where b: "(if sp_persist_for_recovery (sv_spec s) then begin_finalization P i r else (r, Ok ())) = (r1, res1)"
    by fastforce
  have s1: "runtime_steps P resolve (r, F) (r1, F)"
    using b by (auto simp: begin_finalization_def intro: log_steps split: if_splits prod.splits result.splits)
  have same: "rt_supervisors r1 i = Some s \<and> rt_cores r1 = rt_cores r"
    using b s by (auto simp: begin_finalization_def runtime_log_def split: if_splits prod.splits result.splits option.splits)
  show ?thesis
  proof (cases res1)
    case (Ok u)
    with assms s b obtain t x y where t: "(if cancelled then RunCancelFlow s e else RunCompletionFlow s e) = Some (t, x, y)"
      by (auto simp: finishCleanup_def split: option.splits)
    let ?r = "r1\<lparr>rt_supervisors := (rt_supervisors r1)(i \<mapsto> t)\<rparr>"
    note flow = settled_flow [OF t]
    have s2: "runtime_steps P resolve (r, F) (?r, F)"
      using steps_step [OF s1 runtime_step.supervise] same flow by blast
    show ?thesis
    proof (cases "CleanupError t")
      case None
      with assms s b t Ok have "r' = ?r" "res = Ok ()" by (auto simp: finishCleanup_def Let_def)
      with s2 same flow None show ?thesis by (auto simp: settled_def)
    next
      case (Some err)
      with assms s b t Ok have "r' = fail_with i (AxonErr err) ?r" "\<not> is_ok res"
        by (auto simp: finishCleanup_def Let_def)
      with steps_step [OF s2 runtime_step.fail] show ?thesis by (auto simp del: fail_with.simps)
    qed
  next
    case (Fail err)
    with assms s b have "r' = fail_with i err r1" "\<not> is_ok res" by (auto simp: finishCleanup_def)
    with steps_step [OF s1 runtime_step.fail] show ?thesis by blast
  next
    case (Panic err)
    with assms s b s1 show ?thesis by (auto simp: finishCleanup_def)
  qed
qed

lemma finish_invocation_steps:
  assumes "finish_invocation P resolve i e cancelled em now r = Some (r', res)"
  shows "runtime_steps P resolve (r, F) (r', F)"
proof -
  from assms obtain r1 x where c: "finishCleanup P i e cancelled r = Some (r1, x)"
    by (auto simp: finish_invocation_def split: option.splits)
  note s1 = finishCleanup_steps [OF c, of resolve F]
  show ?thesis
  proof (cases x)
    case (Ok u)
    with assms c have em: "emit P resolve i r1 em now False = (r', snd (emit P resolve i r1 em now False))"
      by (auto simp: finish_invocation_def split: prod.splits)
    from s1 Ok obtain s where "rt_supervisors r1 i = Some s" "settled s" by auto
    from rtranclp_trans [OF _ emit_ending_steps [OF em this]] s1 show ?thesis by blast
  qed (use assms c s1 in \<open>auto simp: finish_invocation_def\<close>)
qed

section \<open>Endings stay\<close>

lemma emit_registered_ended:
  assumes "emit_registered P resolve i r em now d = (r', res)" and "ended r j"
  shows "ended r' j"
  using assms(1)
proof (cases rule: emit_registered_cases)
  case (emitted p l c x)
  then have "\<not> core_IsTerminal c" "ic_finalization_err c = None" using emit_guard_None by blast+
  with emitted assms(2) show ?thesis
    by (auto simp: ended_def emit_commit_def core_IsTerminal_def split: option.splits if_splits)
qed (use assms(2) in \<open>auto simp: ended_def\<close>)

lemma ended_cores: "rt_cores r' = rt_cores r \<Longrightarrow> ended r' j = ended r j"
  by (simp add: ended_def)

lemma deactivate_cores [simp]: "rt_cores (deactivate i q r) = rt_cores r" "rt_supervisors (deactivate i q r) = rt_supervisors r"
  "rt_cancel_intents (deactivate i q r) = rt_cancel_intents r" "rt_children (deactivate i q r) = rt_children r"
  by (simp_all add: deactivate_def release_slot_def)

lemma callback_ended: "ended r j \<Longrightarrow> ended (onInvocationTerminal P resolve i q st now r) j"
  using emit_registered_ended [OF surjective_pairing, of "deactivate i q r" j]
    ended_cores [OF deactivate_cores(1), of i q r j]
  by (cases "q = []") (simp_all add: onInvocationTerminal_def)

lemma emit_ended:
  assumes "emit P resolve i r em now d = (r', res)" and "ended r j"
  shows "ended r' j"
proof -
  obtain r1 x where e: "emit_registered P resolve i r em now d = (r1, x)" by fastforce
  note 1 = emit_registered_ended [OF e assms(2)]
  from assms(1) e 1 callback_ended [OF 1] show ?thesis
    by (auto simp: emit_def split: option.splits emit_result.splits if_splits)
qed

text \<open>A terminal event that was emitted ends its invocation.\<close>

lemma emit_ends:
  assumes "emit P resolve i r em now d = (r', res)" and "is_ok (emit_outcome res)"
    and "rt_cores r i \<noteq> None" and "state_IsTerminal (em_state em)" and "em_type em \<noteq> ''progress''"
  shows "ended r' i"
proof -
  obtain r1 x where e: "emit_registered P resolve i r em now d = (r1, x)" by fastforce
  have x: "x = res" using assms(1) e by (auto simp: emit_def split: option.splits emit_result.splits if_splits)
  from e have "ended r1 i"
  proof (cases rule: emit_registered_cases)
    case (refused p l c y)
    with assms(2,5) x show ?thesis by (cases y) auto
  next
    case (emitted p l c y)
    with assms(4) show ?thesis by (simp add: ended_def core_IsTerminal_def)
  qed (use assms(3) in simp)
  with callback_ended [OF this] show ?thesis using assms(1) e
    by (auto simp: emit_def split: option.splits emit_result.splits if_splits)
qed

lemma finish_invocation_ends:
  assumes "finish_invocation P resolve i e cancelled em now r = Some (r', res)" and "is_ok res"
    and "rt_cores r i \<noteq> None" and "state_IsTerminal (em_state em)" and "em_type em \<noteq> ''progress''"
  shows "ended r' i"
proof -
  from assms(1,2) obtain r1 u where c: "finishCleanup P i e cancelled r = Some (r1, Ok u)"
    by (auto simp: finish_invocation_def split: option.splits result.splits)
  have cores: "rt_cores r1 = rt_cores r"
    using finishCleanup_steps [OF c, of undefined "{#}"] by simp
  obtain r2 y where em: "emit P resolve i r1 em now False = (r2, y)" by fastforce
  with assms(1) c have "r' = r2" "res = emit_outcome y" by (auto simp: finish_invocation_def)
  with emit_ends [OF em] assms(2-) cores show ?thesis by simp
qed

section \<open>Operations on one invocation\<close>

lemma steps_emit: "runtime_steps P resolve x (r, F) \<Longrightarrow> emit P resolve i r em now d = (r', res) \<Longrightarrow>
    \<not> state_IsTerminal (em_state em) \<Longrightarrow> runtime_steps P resolve x (r', F)"
  by (rule rtranclp_trans [OF _ emit_steps])

lemma steps_finish: "runtime_steps P resolve x (r, F) \<Longrightarrow>
    finish_invocation P resolve i e cancelled em now r = Some (r', res) \<Longrightarrow> runtime_steps P resolve x (r', F)"
  by (rule rtranclp_trans [OF _ finish_invocation_steps])

lemma steps_claim: "runtime_steps P resolve x (r, F) \<Longrightarrow> claim_registered i owner r = (r', won) \<Longrightarrow>
    runtime_steps P resolve x (r', F)"
  by (rule rtranclp_trans [OF _ step_claim])

lemma steps_fail: "runtime_steps P resolve x (r, F) \<Longrightarrow> runtime_steps P resolve x (fail_with i e r, F)"
  by (rule rtranclp_trans [OF _ step_fail])

lemma runAbility_steps:
  assumes "runAbility P resolve i owner outcome e now r = Some r'"
  shows "runtime_steps P resolve (r, F) (r', F)"
proof -
  obtain result err where x: "executeAbility i outcome = (result, err)" by fastforce
  obtain r1 won where c: "claim_registered i (if err = None then owner else terminalOwnerFailure) r = (r1, won)"
    by fastforce
  note s1 = steps_claim [OF rtranclp.rtrancl_refl c, of P resolve F]
  show ?thesis
  proof (cases "suspended i r \<or> \<not> won")
    case True
    with assms x c s1 show ?thesis
      by (auto simp: runAbility_def Let_def intro: steps_execution split: if_splits)
  next
    case False
    with assms x c obtain em r2 res where f: "finish_invocation P resolve i e False em now r1 = Some (r2, res)"
      "r' = update_execution i (\<lambda>x. x\<lparr>ex_done := True\<rparr>) r2"
      by (auto simp: runAbility_def Let_def split: if_splits)
    from steps_execution [OF steps_finish [OF s1 f(1)]] f(2) show ?thesis by simp
  qed
qed

lemma closeUnstarted_steps:
  assumes "closeUnstartedInvocation P resolve i reason e now r = Some r'"
  shows "runtime_steps P resolve (r, F) (r', F)"
proof -
  let ?r = "update_execution i (\<lambda>x. x\<lparr>ex_cancelled := True\<rparr>) r"
  note s0 = execution_steps [of P resolve r F i "\<lambda>x. x\<lparr>ex_cancelled := True\<rparr>"]
  obtain r1 won where c: "claim_registered i terminalOwnerFailure ?r = (r1, won)" by fastforce
  note s1 = steps_claim [OF s0 c]
  show ?thesis
  proof (cases "suspended i ?r \<or> \<not> won")
    case True
    with assms c s0 s1 show ?thesis
      by (auto simp: closeUnstartedInvocation_def Let_def intro: steps_execution split: if_splits)
  next
    case False
    with assms c obtain em r2 res where f: "finish_invocation P resolve i e False em now r1 = Some (r2, res)"
      "r' = update_execution i (\<lambda>x. x\<lparr>ex_done := True\<rparr>) r2"
      by (auto simp: closeUnstartedInvocation_def Let_def split: if_splits)
    from steps_execution [OF steps_finish [OF s1 f(1)]] f(2) show ?thesis by simp
  qed
qed

lemma steps_close: "runtime_steps P resolve x (r, F) \<Longrightarrow>
    closeUnstartedInvocation P resolve i reason e now r = Some r' \<Longrightarrow> runtime_steps P resolve x (r', F)"
  by (rule rtranclp_trans [OF _ closeUnstarted_steps])

lemma announce_steps:
  assumes "announce_child P resolve i parentID v r = Some (r', res)"
  shows "runtime_steps P resolve (r, F) (r', F)"
proof (cases "parentID = [] \<or> rt_cores r parentID = None")
  case True
  with assms show ?thesis
    by (auto simp: announce_child_def intro: steps_close split: if_splits)
next
  case False
  obtain r1 x where e: "emit P resolve parentID r (plain_emission ''child_spawned'' StateRunning [] [] [] False i)
      (iv_clock v 4) False = (r1, x)" by fastforce
  have s1: "runtime_steps P resolve (r, F) (r1, F)" by (rule emit_steps [OF e]) simp
  from False assms e s1 show ?thesis
    by (auto simp: announce_child_def intro: steps_close split: option.splits result.splits)
qed

lemma emit_all_steps:
  assumes "emit_all P resolve sink c r ems = (c', r', res)"
  shows "runtime_steps P resolve (r, F) (r', F) \<and> ic_parent c' = ic_parent c \<and> (machine_inv c \<longrightarrow> machine_inv c')"
  using assms
proof (induction ems arbitrary: c r)
  case (Cons x ems)
  obtain em now where x: "x = (em, now)" by fastforce
  obtain c1 r1 y where e: "core_emit P resolve sink c r em now False = (c1, r1, y)" by (metis prod_cases3)
  have s1: "runtime_steps P resolve (r, F) (r1, F)"
    by (rule r_into_rtranclp) (rule runtime_step.prepare [OF e])
  note par = core_emit_frame [OF e]
  show ?case
  proof (cases "emit_outcome (Some y)")
    case (Ok u)
    with Cons.prems x e have "emit_all P resolve sink c1 r1 ems = (c', r', res)" by simp
    from Cons.IH [OF this] s1 par show ?thesis by (auto intro: rtranclp_trans)
  qed (use Cons.prems x e s1 par in auto)
qed simp

lemma emit_all_active:
  "emit_all P resolve sink c r ems = (c', r', res) \<Longrightarrow> rt_active r' = rt_active r"
proof (induction ems arbitrary: c r)
  case (Cons x ems)
  obtain em now where x: "x = (em, now)" by fastforce
  obtain c1 r1 y where e: "core_emit P resolve sink c r em now False = (c1, r1, y)" by (metis prod_cases3)
  have "rt_active r1 = rt_active r" using e by (cases rule: core_emit_cases) simp_all
  with Cons x e show ?case by (auto split: result.splits)
qed simp

lemma emit_all_state:
  assumes "emit_all P resolve sink c r (ems @ [(em, now)]) = (c', r', Ok u)" and "em_type em \<noteq> ''progress''"
  shows "ic_state c' = em_state em"
  using assms(1)
proof (induction ems arbitrary: c r)
  case Nil
  obtain c1 r1 y where e: "core_emit P resolve sink c r em now False = (c1, r1, y)" by (metis prod_cases3)
  with Nil have c': "c' = c1" "is_ok (emit_outcome (Some y))" by (auto split: result.splits)
  from e show ?case
  proof (cases rule: core_emit_cases)
    case (refused p l)
    with c' assms(2) show ?thesis by (cases y) auto
  qed (use c' in simp)
next
  case (Cons x ems)
  obtain em1 now1 where x: "x = (em1, now1)" by fastforce
  obtain c1 r1 y where e: "core_emit P resolve sink c r em1 now1 False = (c1, r1, y)" by (metis prod_cases3)
  with Cons.prems x have "emit_all P resolve sink c1 r1 (ems @ [(em, now)]) = (c', r', Ok u)"
    by (auto split: result.splits)
  from Cons.IH [OF this] show ?case .
qed

lemma handshake_running:
  "emit_all P resolve sink c r (handshake_emissions clock) = (c', r', Ok u) \<Longrightarrow> ic_state c' = StateRunning"
  using emit_all_state [of P resolve sink c r
      "[(plain_emission ''accepted'' StateAccepted [] [] [] False [], clock 0),
        (plain_emission ''admitted'' StateAdmitted [] [] [] False [], clock 1),
        (plain_emission ''dispatched'' StateDispatched [] [] [] False [], clock 2)]"
      "plain_emission ''running'' StateRunning [] [] [] False []" "clock 3" c' r' u]
  by (simp add: handshake_emissions_def)

lemma steps_release: "runtime_steps P resolve x (r, add_mset (q, y) F) \<Longrightarrow>
    runtime_steps P resolve x (releaseUnboundReservation r q, F)"
  by (erule steps_step) (rule runtime_step.release)

lemma undo_steps: "runtime_steps P resolve x (r, add_mset (q, y) F) \<Longrightarrow>
    runtime_steps P resolve x (undo_unregistered i q persisted r, F)"
  unfolding undo_unregistered_def Let_def
  by (drule steps_release) (auto intro: rtranclp_trans [OF _ log_steps [OF surjective_pairing]])

lemma invokeRegistered_steps:
  assumes "invokeRegistered P resolve h payload q spec ctx deadline persisted owner v r = Some (r', res)"
    and "\<not> is_panic res"
  shows "runtime_steps P resolve (r, add_mset (q, Some (iv_id v)) F) (r', F)"
proof -
  let ?sink = "if persisted then Some [] else None"
  obtain c r1 x where e: "emit_all P resolve ?sink (newInvocationCore (iv_id v) q ctx deadline) r
      (handshake_emissions (iv_clock v)) = (c, r1, x)" by (metis prod_cases3)
  note s1 = emit_all_steps [OF e, of "add_mset (q, Some (iv_id v)) F", THEN conjunct1]
  show ?thesis
  proof (cases x)
    case (Ok u)
    let ?r2 = "register_invocation (iv_id v) q c ?sink (NewSupervisor (iv_id v) (spec_or_empty spec)) new_inbox
        (new_execution persisted False) r1"
    have "ic_parent c = q" "machine_inv c" "ic_state c = StateRunning"
      using emit_all_steps [OF e] handshake_running [OF e [unfolded Ok]] machine_inv_new [of "iv_id v" q ctx deadline]
      by (simp_all add: newInvocationCore_def)
    note s2 = steps_step [OF s1 runtime_step.register [OF this]]
    from assms(1) e Ok obtain r3 y where "announce_child P resolve (iv_id v) q v ?r2 = Some (r3, y)" "r' = r3"
      by (auto simp: invokeRegistered_def Let_def)
    with rtranclp_trans [OF s2 announce_steps] show ?thesis by blast
  next
    case (Fail err)
    with assms(1) e have "r' = undo_unregistered (iv_id v) q persisted r1"
      by (simp add: invokeRegistered_def Let_def)
    with undo_steps [OF s1] show ?thesis by simp
  next
    case (Panic err)
    with assms e show ?thesis by (auto simp: invokeRegistered_def Let_def)
  qed
qed

lemma bind_context_not_Ok:
  "bind_context P f i admission descriptor implementation r = (r', res) \<Longrightarrow> \<not> is_ok res \<Longrightarrow> r' = r"
  by (auto simp: bind_context_def Bind_def split: prod.splits result.splits if_splits)

lemma initialize_steps:
  "initialize_record P i q ref b deadline r = (r', res) \<Longrightarrow> runtime_steps P resolve (r, F) (r', F)"
  by (auto simp: initialize_record_def intro: log_steps split: if_splits option.splits prod.splits result.splits)

text \<open>A panic of the provider leaves \<open>invokeRegistered\<close> either while the handshake is
  emitted, and then the slot is still in flight, or while the parent announces the child, and
  then the invocation has been registered and holds the slot.\<close>

lemma announce_panic:
  assumes "announce_child P resolve i parentID v r = Some (r', Panic e)"
  shows "rt_active r' = rt_active r"
proof -
  let ?em = "plain_emission ''child_spawned'' StateRunning [] [] [] False i"
  obtain r1 x where em: "emit P resolve parentID r ?em (iv_clock v 4) False = (r1, x)" by fastforce
  obtain r2 y where reg: "emit_registered P resolve parentID r ?em (iv_clock v 4) False = (r2, y)" by fastforce
  have "\<not> state_IsTerminal (em_state ?em)" by (simp add: plain_emission_def state_IsTerminal_def state_defs)
  then have "r1 = r2" using em reg by (auto simp: emit_def split: option.splits emit_result.splits)
  moreover have "rt_active r2 = rt_active r" using reg by (cases rule: emit_registered_cases) auto
  moreover have "r' = r1"
    using assms em by (auto simp: announce_child_def split: if_splits option.splits result.splits)
  ultimately show ?thesis by simp
qed

lemma invokeRegistered_panic:
  assumes "invokeRegistered P resolve h payload q spec ctx deadline persisted owner v r = Some (r', Panic e)"
  shows "iv_id v \<notin> rt_active r' \<Longrightarrow>
      runtime_steps P resolve (r, add_mset (q, Some (iv_id v)) F) (r', add_mset (q, Some (iv_id v)) F)"
    and "iv_id v \<in> rt_active r' \<Longrightarrow> iv_id v \<notin> rt_active r \<Longrightarrow>
      runtime_steps P resolve (r, add_mset (q, Some (iv_id v)) F) (r', F)"
proof -
  let ?sink = "if persisted then Some [] else None"
  obtain c r1 x where e: "emit_all P resolve ?sink (newInvocationCore (iv_id v) q ctx deadline) r
      (handshake_emissions (iv_clock v)) = (c, r1, x)" by (metis prod_cases3)
  note s1 = emit_all_steps [OF e, of "add_mset (q, Some (iv_id v)) F", THEN conjunct1]
  have active: "rt_active r1 = rt_active r" by (rule emit_all_active [OF e])
  consider (early) err where "x = Panic err" "r' = r1"
    | (late) u y where "x = Ok u" "announce_child P resolve (iv_id v) q v (register_invocation (iv_id v) q c ?sink
        (NewSupervisor (iv_id v) (spec_or_empty spec)) new_inbox (new_execution persisted False) r1) = Some (r', Panic y)"
  proof (cases x)
    case (Ok u)
    with assms e obtain r3 y where "announce_child P resolve (iv_id v) q v (register_invocation (iv_id v) q c ?sink
        (NewSupervisor (iv_id v) (spec_or_empty spec)) new_inbox (new_execution persisted False) r1) = Some (r3, y)"
      by (auto simp: invokeRegistered_def Let_def)
    with assms e Ok that(2) show thesis by (cases y) (auto simp: invokeRegistered_def Let_def)
  qed (use assms e that(1) in \<open>auto simp: invokeRegistered_def Let_def\<close>)
  then show "iv_id v \<notin> rt_active r' \<Longrightarrow>
      runtime_steps P resolve (r, add_mset (q, Some (iv_id v)) F) (r', add_mset (q, Some (iv_id v)) F)"
    and "iv_id v \<in> rt_active r' \<Longrightarrow> iv_id v \<notin> rt_active r \<Longrightarrow>
      runtime_steps P resolve (r, add_mset (q, Some (iv_id v)) F) (r', F)"
  proof (atomize (full), cases)
    case early
    with s1 active show "(iv_id v \<notin> rt_active r' \<longrightarrow>
        runtime_steps P resolve (r, add_mset (q, Some (iv_id v)) F) (r', add_mset (q, Some (iv_id v)) F))
      \<and> (iv_id v \<in> rt_active r' \<longrightarrow> iv_id v \<notin> rt_active r \<longrightarrow>
        runtime_steps P resolve (r, add_mset (q, Some (iv_id v)) F) (r', F))" by simp
  next
    case late
    have "ic_parent c = q" "machine_inv c" "ic_state c = StateRunning"
      using emit_all_steps [OF e] handshake_running [OF e [unfolded late(1)]] machine_inv_new [of "iv_id v" q ctx deadline]
      by (simp_all add: newInvocationCore_def)
    note s2 = rtranclp_trans [OF steps_step [OF s1 runtime_step.register [OF this]] announce_steps [OF late(2)]]
    have "iv_id v \<in> rt_active r'"
      using announce_panic [OF late(2)] by (simp add: register_invocation_def register_entries_def Let_def)
    with s2 show "(iv_id v \<notin> rt_active r' \<longrightarrow>
        runtime_steps P resolve (r, add_mset (q, Some (iv_id v)) F) (r', add_mset (q, Some (iv_id v)) F))
      \<and> (iv_id v \<in> rt_active r' \<longrightarrow> iv_id v \<notin> rt_active r \<longrightarrow>
        runtime_steps P resolve (r, add_mset (q, Some (iv_id v)) F) (r', F))" by simp
  qed
qed

lemma release_active [simp]: "rt_active (releaseUnboundReservation r q) = rt_active r"
  by (simp add: releaseUnboundReservation_def release_slot_def)

lemma invoke_reserved_steps:
  assumes "invoke_reserved P resolve q ref b a d m deadline v r = Some (r', res)"
    and "is_panic res \<longrightarrow> iv_id v \<notin> rt_active r'"
  shows "runtime_steps P resolve (r, add_mset (rq_parent q, None) F) (r', F)"
proof -
  obtain r1 x where b: "bind_context P ''receipt_context_bind_failed:'' (iv_id v) a d m r = (r1, x)" by fastforce
  show ?thesis
  proof (cases x)
    case (Ok ctx)
    let ?F = "add_mset (rq_parent q, Some (iv_id v)) F"
    have s1: "runtime_steps P resolve (r, add_mset (rq_parent q, None) F) (r1, ?F)"
      by (rule r_into_rtranclp) (rule runtime_step.bind [OF b [unfolded Ok]])
    obtain r2 y where i: "initialize_record P (iv_id v) q ref b deadline r1 = (r2, y)" by fastforce
    have s2: "runtime_steps P resolve (r, add_mset (rq_parent q, None) F) (r2, ?F)"
      by (rule rtranclp_trans [OF s1 initialize_steps [OF i]])
    show ?thesis
    proof (cases y)
      case y: (Ok u)
      from assms(1) b Ok i y obtain r3 z where inv: "invokeRegistered P resolve (pb_handler b) (rq_payload q)
          (rq_parent q) (rq_supervisor q) (Some ctx) deadline (persisting q) terminalOwnerCompletion v r2 = Some (r3, z)"
        by (auto simp: invoke_reserved_def Let_def split: option.splits)
      show ?thesis
      proof (cases z)
        case (Panic err)
        with assms b Ok i y inv have "r' = releaseUnboundReservation r3 (rq_parent q)" "iv_id v \<notin> rt_active r3"
          by (auto simp: invoke_reserved_def Let_def)
        with rtranclp_trans [OF s2 invokeRegistered_panic(1) [OF inv [unfolded Panic]]]
        show ?thesis by (auto intro: steps_release)
      qed (use assms(1) b Ok i y inv rtranclp_trans [OF s2 invokeRegistered_steps [OF inv]] in
          \<open>auto simp: invoke_reserved_def Let_def intro: steps_rest\<close>)
    qed (use assms(1) b Ok i steps_release [OF s2] in \<open>auto simp: invoke_reserved_def Let_def\<close>)
  next
    case (Fail err)
    with b bind_context_not_Ok have "r1 = r" by fastforce
    with assms(1) b Fail show ?thesis
      by (auto simp: invoke_reserved_def Let_def intro!: r_into_rtranclp runtime_step.release)
  next
    case (Panic err)
    with b bind_context_not_Ok have "r1 = r" by fastforce
    with assms(1) b Panic show ?thesis
      by (auto simp: invoke_reserved_def Let_def intro!: r_into_rtranclp runtime_step.release)
  qed
qed

lemma admit_steps: "admit P envelope sig now r = (r', res) \<Longrightarrow> runtime_steps P resolve (r, F) (r', F)"
  by (rule rest_steps) (auto simp: admit_def split: prod.splits)

lemma refuse_Some: "refuse r x = Some (r', res) \<Longrightarrow> r' = r"
  by (cases x) auto

lemma reserve_not_Ok: "reserveInvocation r p spec reason now = (r', x) \<Longrightarrow> \<not> is_ok x \<Longrightarrow> r' = r"
  by (auto simp: reserveInvocation_def split: if_splits option.splits)

lemma invoke_steps:
  assumes "InvokeDescriptorBoundRequest P resolve q v r = Some (r', res)"
    and "is_panic res \<longrightarrow> iv_id v \<notin> rt_active r'"
  shows "runtime_steps P resolve (r, F) (r', F)"
proof (cases "bindR (request_checks P q) (\<lambda>ref. bindR (find_provider r ref) (\<lambda>b. Ok (ref, b)))")
  case (Ok x)
  obtain ref b where x: "x = (ref, b)" by fastforce
  obtain r1 a where ad: "admit P (rq_envelope q) (rq_signature q) (iv_admission_ms v) r = (r1, a)" by fastforce
  note s1 = admit_steps [OF ad, of resolve F]
  show ?thesis
  proof (cases "\<exists>adm ev. a = Ok adm \<and> admitted_evidence adm b = Ok ev")
    case True
    then obtain adm d m where ev: "a = Ok adm" "admitted_evidence adm b = Ok (d, m)" by auto
    obtain r2 dl where rs: "reserveInvocation r1 (rq_parent q) (rq_supervisor q) ''pending_invocation_limit'' (iv_now v)
        = (r2, dl)" by fastforce
    show ?thesis
    proof (cases dl)
      case dl: (Ok deadline)
      note s2 = steps_step [OF s1 runtime_step.reserve [OF rs [unfolded dl]]]
      from assms(1) Ok x ad ev rs dl
      have "invoke_reserved P resolve q ref b adm d m deadline v r2 = Some (r', res)"
        by (simp add: InvokeDescriptorBoundRequest_def)
      from rtranclp_trans [OF s2 invoke_reserved_steps [OF this assms(2)]] show ?thesis .
    qed (use assms(1) Ok x ad ev rs s1 reserve_not_Ok [OF rs] in
        \<open>auto simp: InvokeDescriptorBoundRequest_def dest: refuse_Some\<close>)
  next
    case False
    with assms(1) Ok x ad s1 show ?thesis
      by (cases a) (auto simp: InvokeDescriptorBoundRequest_def split: result.splits)
  qed
qed (use assms(1) in \<open>auto simp: InvokeDescriptorBoundRequest_def\<close>)

text \<open>The panic after the registration: the call gives a slot back that the registered
  invocation holds.\<close>

lemma section_active:
  "admit P envelope sig now r = (r', a) \<Longrightarrow> rt_active r' = rt_active r"
  "bind_context P f i admission descriptor implementation r = (r', b) \<Longrightarrow> rt_active r' = rt_active r"
  "initialize_record P i q ref pb deadline r = (r', u) \<Longrightarrow> rt_active r' = rt_active r"
  "reserveInvocation r parent spec reason ns = (r', dl) \<Longrightarrow> rt_active r' = rt_active r"
  by (auto simp: admit_def bind_context_def initialize_record_def runtime_log_def reserveInvocation_def
      split: prod.splits if_splits option.splits result.splits)

lemma invoke_reserved_late:
  assumes "invoke_reserved P resolve q ref b a d m deadline v r = Some (r', Panic e)"
    and "iv_id v \<in> rt_active r'" and "iv_id v \<notin> rt_active r"
  obtains r3 where "runtime_steps P resolve (r, add_mset (rq_parent q, None) F) (r3, F)"
    "r' = releaseUnboundReservation r3 (rq_parent q)"
proof -
  obtain r1 x where b: "bind_context P ''receipt_context_bind_failed:'' (iv_id v) a d m r = (r1, x)" by fastforce
  note a1 = section_active(2) [OF b]
  from assms b a1 obtain ctx where x: "x = Ok ctx" by (cases x) (auto simp: invoke_reserved_def Let_def)
  obtain r2 y where i: "initialize_record P (iv_id v) q ref b deadline r1 = (r2, y)" by fastforce
  note a2 = section_active(3) [OF i]
  from assms b x i a1 a2 obtain u where y: "y = Ok u" by (cases y) (auto simp: invoke_reserved_def Let_def)
  from assms(1) b x i y obtain r3 z where inv: "invokeRegistered P resolve (pb_handler b) (rq_payload q)
      (rq_parent q) (rq_supervisor q) (Some ctx) deadline (persisting q) terminalOwnerCompletion v r2 = Some (r3, z)"
    by (auto simp: invoke_reserved_def Let_def split: option.splits)
  with assms(1) b x i y obtain err where z: "z = Panic err" "r' = releaseUnboundReservation r3 (rq_parent q)"
    by (cases z) (auto simp: invoke_reserved_def Let_def)
  let ?F = "add_mset (rq_parent q, Some (iv_id v)) F"
  have "runtime_steps P resolve (r, add_mset (rq_parent q, None) F) (r1, ?F)"
    by (rule r_into_rtranclp) (rule runtime_step.bind [OF b [unfolded x]])
  note s2 = rtranclp_trans [OF this initialize_steps [OF i]]
  have "runtime_steps P resolve (r2, ?F) (r3, F)"
    using invokeRegistered_panic(2) [OF inv [unfolded z(1)]] assms(2,3) a1 a2 z(2) by simp
  with that z(2) rtranclp_trans [OF s2] show thesis by blast
qed

lemma invoke_late:
  assumes "InvokeDescriptorBoundRequest P resolve q v r = Some (r', Panic e)"
    and "iv_id v \<in> rt_active r'" and "iv_id v \<notin> rt_active r"
  obtains r3 where "runtime_steps P resolve (r, F) (r3, F)" "r' = releaseUnboundReservation r3 (rq_parent q)"
proof -
  obtain x where x: "bindR (request_checks P q) (\<lambda>ref. bindR (find_provider r ref) (\<lambda>b. Ok (ref, b))) = x"
    by blast
  from assms x obtain ref b where ref: "x = Ok (ref, b)"
    by (cases x) (auto simp: InvokeDescriptorBoundRequest_def)
  obtain r1 y where ad: "admit P (rq_envelope q) (rq_signature q) (iv_admission_ms v) r = (r1, y)" by fastforce
  note a1 = section_active(1) [OF ad]
  from assms x ref ad a1 obtain adm where y: "y = Ok adm"
    by (cases y) (auto simp: InvokeDescriptorBoundRequest_def)
  from assms x ref ad y a1 obtain d m where ev: "admitted_evidence adm b = Ok (d, m)"
    by (cases "admitted_evidence adm b") (auto simp: InvokeDescriptorBoundRequest_def)
  obtain r2 dl where rs: "reserveInvocation r1 (rq_parent q) (rq_supervisor q) ''pending_invocation_limit'' (iv_now v)
      = (r2, dl)" by fastforce
  note a2 = section_active(4) [OF rs]
  from assms x ref ad y ev rs a1 a2 obtain deadline where dl: "dl = Ok deadline"
    by (cases dl) (auto simp: InvokeDescriptorBoundRequest_def)
  from assms(1) x ref ad y ev rs dl
  have run: "invoke_reserved P resolve q ref b adm d m deadline v r2 = Some (r', Panic e)"
    by (simp add: InvokeDescriptorBoundRequest_def)
  have new: "iv_id v \<notin> rt_active r2" using assms(3) a1 a2 by simp
  obtain r3 where r3: "runtime_steps P resolve (r2, add_mset (rq_parent q, None) F) (r3, F)"
    "r' = releaseUnboundReservation r3 (rq_parent q)"
    by (rule invoke_reserved_late [OF run assms(2) new])
  from rtranclp_trans [OF steps_step [OF admit_steps [OF ad] runtime_step.reserve [OF rs [unfolded dl]]] r3(1)]
  show thesis by (rule that [OF _ r3(2)])
qed

subsection \<open>Cancelling and timing out\<close>

lemma signal_steps: "runtime_steps P resolve x (r, F) \<Longrightarrow> runtime_steps P resolve x (signalTerminalStop i r, F)"
  unfolding signalTerminalStop_def by (intro steps_execution) (erule steps_rest, simp)

text \<open>Completing an intent: without an error only when the invocation has ended.\<close>

lemma complete_steps:
  assumes "runtime_steps P resolve x (r, F)" and "rt_cores r (tk_invocation_id t) \<noteq> None"
    and "err = None \<Longrightarrow> ended r (tk_invocation_id t)" and "\<And>n. rt_cancel_intents r t = Some n \<Longrightarrow> \<not> ci_completed n"
  shows "runtime_steps P resolve x (completeCancelIntent t err r, F)"
  unfolding completeCancelIntent_def
  by (rule steps_step [OF assms(1) runtime_step.intend])
    (use assms(2-) in \<open>auto simp: intent_sound_def split: option.splits\<close>)

lemma claim_frame:
  assumes "claim_registered i owner r = (r', won)"
  shows "rt_cancel_intents r' = rt_cancel_intents r" "rt_supervisors r' = rt_supervisors r"
    "rt_children r' = rt_children r" "rt_cores r' j = None \<longleftrightarrow> rt_cores r j = None" "won \<Longrightarrow> rt_cores r i \<noteq> None"
  using assms by (auto simp: claim_registered_def claimTerminal_def split: option.splits if_splits)

lemma emit_registered_intents:
  "emit_registered P resolve i r em now d = (r', res) \<Longrightarrow> rt_cancel_intents r' = rt_cancel_intents r"
  by (erule emit_registered_cases) simp_all

lemma callback_intents: "rt_cancel_intents (onInvocationTerminal P resolve i q st now r) = rt_cancel_intents r"
  by (simp add: onInvocationTerminal_def Let_def emit_registered_intents [OF surjective_pairing])

lemma emit_intents:
  assumes "emit P resolve i r em now d = (r', res)"
  shows "rt_cancel_intents r' = rt_cancel_intents r"
proof -
  obtain r1 x where e: "emit_registered P resolve i r em now d = (r1, x)" by fastforce
  from assms e emit_registered_intents [OF e] show ?thesis
    by (auto simp: emit_def callback_intents split: option.splits emit_result.splits if_splits)
qed

lemma fail_intents [simp]: "rt_cancel_intents (fail_with i e r) = rt_cancel_intents r"
  by (cases e) (simp_all add: update_core_def)

lemma log_intents: "runtime_log f missing r = (r', res) \<Longrightarrow> rt_cancel_intents r' = rt_cancel_intents r"
  by (auto simp: runtime_log_def split: option.splits prod.splits)

lemma finish_invocation_intents:
  assumes "finish_invocation P resolve i e cancelled em now r = Some (r', res)"
  shows "rt_cancel_intents r' = rt_cancel_intents r"
proof -
  from assms obtain r1 x where c: "finishCleanup P i e cancelled r = Some (r1, x)"
    by (auto simp: finish_invocation_def split: option.splits)
  have "rt_cancel_intents r1 = rt_cancel_intents r"
    using c by (auto simp: finishCleanup_def begin_finalization_def Let_def simp del: fail_with.simps dest!: log_intents
        split: option.splits prod.splits result.splits if_splits)
  with assms c show ?thesis
    by (auto simp: finish_invocation_def split: result.splits prod.splits dest: emit_intents)
qed

text \<open>Steps keep the registered cores.\<close>

lemma step_cores: "runtime_step P resolve x y \<Longrightarrow> rt_cores (fst x) i \<noteq> None \<Longrightarrow> rt_cores (fst y) i \<noteq> None"
proof (induction rule: runtime_step.induct)
  case (bind failure j admission descriptor implementation r r' ctx parentID F)
  then show ?case by (auto simp: bind_context_def split: prod.splits)
next
  case (emission j r em now ctxDone r' res F)
  from this(1,3) show ?case by (elim emit_registered_cases) auto
next
  case (ending j r em now ctxDone r' res s F)
  from this(1,4) show ?case by (elim emit_registered_cases) auto
next
  case (claim j owner r r' won F)
  then show ?case using claim_frame(4) [of j owner r r' won i] by simp
next
  case (fail r F j e)
  then show ?case by (cases e) (auto simp: update_core_def)
next
  case (suspend t r r' x F)
  then show ?case
    by (auto simp: suspend_locked_def Let_def update_execution_def runtime_log_def
        split: if_splits option.splits prod.splits result.splits)
next
  case (abandon r F t)
  then show ?case by (auto simp: abandonRecoveredExecution_def Let_def update_execution_def split: option.splits)
qed (auto simp: reserveInvocation_def reserve_recovered_def releaseUnboundReservation_def release_slot_def
    core_emit_frame register_invocation_def register_recovered_def register_entries_def Let_def update_rest_def
    split: if_splits option.splits)

lemma steps_cores: "runtime_steps P resolve x y \<Longrightarrow> rt_cores (fst x) i \<noteq> None \<Longrightarrow> rt_cores (fst y) i \<noteq> None"
  by (induction rule: rtranclp_induct) (auto dest: step_cores)

text \<open>An ending of invocations makes steps and touches no intent that is there.\<close>

definition ending_steps ::
  "platform \<Rightarrow> authority_resolver \<Rightarrow> flight multiset \<Rightarrow>
   (invocation_token \<Rightarrow> 'h runtime \<Rightarrow> ('h runtime \<times> unit result) option) \<Rightarrow> bool" where
  "ending_steps P resolve F ending \<longleftrightarrow>
     (\<forall>t r r' res. ending t r = Some (r', res) \<longrightarrow> runtime_steps P resolve (r, F) (r', F)
        \<and> (\<forall>u n. rt_cancel_intents r u = Some n \<longrightarrow> rt_cancel_intents r' u = Some n))"

lemma each_child_steps:
  assumes "ending_steps P resolve F ending" and "each_child ending ts r = Some (r', res)"
  shows "runtime_steps P resolve (r, F) (r', F)
    \<and> (\<forall>u n. rt_cancel_intents r u = Some n \<longrightarrow> rt_cancel_intents r' u = Some n)"
  using assms(2)
proof (induction ts arbitrary: r)
  case (Cons t ts)
  then obtain r1 x where e: "ending t r = Some (r1, x)" by (auto split: option.splits)
  have s1: "runtime_steps P resolve (r, F) (r1, F)"
    and keep: "\<forall>u n. rt_cancel_intents r u = Some n \<longrightarrow> rt_cancel_intents r1 u = Some n"
    using assms(1) e unfolding ending_steps_def by blast+
  show ?case
  proof (cases x)
    case (Ok u)
    with Cons.prems e have "each_child ending ts r1 = Some (r', res)" by simp
    from Cons.IH [OF this] s1 keep show ?thesis by (auto intro: rtranclp_trans)
  qed (use Cons.prems e s1 keep in auto)
qed simp

lemma signal_intents [simp]: "rt_cancel_intents (signalTerminalStop i r) = rt_cancel_intents r"
  "rt_cores (signalTerminalStop i r) = rt_cores r" "rt_children (signalTerminalStop i r) = rt_children r"
  by (simp_all add: signalTerminalStop_def update_execution_def)

lemma end_claimed_steps:
  assumes "ending_steps P resolve F ending" and "end_claimed P resolve e ending i em r = Some (r', res)"
  shows "runtime_steps P resolve (r, F) (r', F)
    \<and> (\<forall>u n. rt_cancel_intents r u = Some n \<longrightarrow> rt_cancel_intents r' u = Some n)"
proof -
  from assms(2) obtain r1 x where c: "each_child ending (childTokensLocked r i) (signalTerminalStop i r) = Some (r1, x)"
    by (auto simp: end_claimed_def split: option.splits)
  note ch = each_child_steps [OF assms(1) c]
  note s1 = rtranclp_trans [OF signal_steps [OF rtranclp.rtrancl_refl] ch [THEN conjunct1]]
  show ?thesis
  proof (cases x)
    case (Ok u)
    with assms(2) c have f: "finish_invocation P resolve i (ee_cleanup e i) True em (ee_now e i) r1 = Some (r', res)"
      by (simp add: end_claimed_def)
    from steps_finish [OF s1 f] finish_invocation_intents [OF f] ch show ?thesis by simp
  qed (use assms(2) c ch s1 steps_fail [OF s1] in \<open>auto simp: end_claimed_def simp del: fail_with.simps\<close>)
qed

lemma end_claimed_ends:
  assumes "ending_steps P resolve F ending" and "end_claimed P resolve e ending i em r = Some (r', res)"
    and "is_ok res" and "rt_cores r i \<noteq> None" and "state_IsTerminal (em_state em)" and "em_type em \<noteq> ''progress''"
  shows "ended r' i"
proof -
  from assms(2,3) obtain r1 u where c: "each_child ending (childTokensLocked r i) (signalTerminalStop i r) = Some (r1, Ok u)"
    by (auto simp: end_claimed_def split: option.splits result.splits)
  from each_child_steps [OF assms(1) c] steps_cores [of P resolve "(signalTerminalStop i r, F)" "(r1, F)" i] assms(4)
  have "rt_cores r1 i \<noteq> None" by simp
  moreover have "finish_invocation P resolve i (ee_cleanup e i) True em (ee_now e i) r1 = Some (r', res)"
    using assms(2) c by (simp add: end_claimed_def)
  ultimately show ?thesis using finish_invocation_ends assms(3,5,6) by blast
qed

lemma panicked_steps:
  assumes "closePanickedCancelWinner P resolve e t reason r = Some r'"
  shows "runtime_steps P resolve (r, F) (r', F) \<and> rt_cancel_intents r' = rt_cancel_intents r"
proof (cases "\<not> is_ok (validateControlLocked r t) \<or> rt_cores r (tk_invocation_id t) = None")
  case True
  then have "closePanickedCancelWinner P resolve e t reason r = Some r"
    by (elim disjE) (simp_all add: closePanickedCancelWinner_def Let_def)
  with assms show ?thesis by simp
next
  case False
  then obtain core where core: "rt_cores r (tk_invocation_id t) = Some core" "is_ok (validateControlLocked r t)" by auto
  let ?i = "tk_invocation_id t"
  obtain r1 won where cl: "claim_registered ?i terminalOwnerFailure r = (r1, won)" by fastforce
  note s0 = signal_steps [OF rtranclp.rtrancl_refl, of P resolve r F ?i]
    and s1 = signal_steps [OF step_claim [OF cl], of P resolve F ?i]
  show ?thesis
  proof (cases "ic_terminal_claim core = terminalOwnerNone")
    case True
    with assms core step_claim [OF cl, of P resolve F] s1 cl claim_frame(1) [OF cl] show ?thesis
      by (cases won)
        (auto simp: closePanickedCancelWinner_def Let_def intro: steps_finish dest: finish_invocation_intents)
  next
    case False
    with assms core s0 show ?thesis
      by (auto simp: closePanickedCancelWinner_def Let_def intro: steps_finish dest: finish_invocation_intents
          split: if_splits)
  qed
qed

lemma result_error_None: "result_error x = None \<Longrightarrow> is_ok x \<or> is_panic x"
  by (cases x rule: result_error.cases) auto

lemma complete_with_steps:
  assumes "runtime_steps P resolve x (r, F)" and "rt_cores r (tk_invocation_id t) \<noteq> None"
    and "rt_cancel_intents r t = Some n" "\<not> ci_completed n"
    and "\<not> is_panic res" and "is_ok res \<Longrightarrow> ended r (tk_invocation_id t)"
    and "complete_with t (r, res) = (r', res')"
  shows "runtime_steps P resolve x (r', F) \<and> (\<forall>u m. u \<noteq> t \<and> rt_cancel_intents r u = Some m \<longrightarrow> rt_cancel_intents r' u = Some m)"
proof -
  have r': "r' = completeCancelIntent t (result_error res) r" using assms(7) by (auto simp: complete_with_def)
  have "runtime_steps P resolve x (r', F)"
    unfolding r' using assms(1-6) result_error_None by (intro complete_steps) auto
  then show ?thesis by (simp add: r' completeCancelIntent_def)
qed

lemma wait_terminal_ended: "wait_terminal i r = Some None \<Longrightarrow> ended r i"
  by (auto simp: wait_terminal_def ended_def WaitTerminal_def split: option.splits if_splits)

lemma cancel_steps: "ending_steps P resolve F
    (cancelWithControlOwner fuel P resolve e reason owner :: invocation_token \<Rightarrow> 'h runtime \<Rightarrow> _)"
proof (induction fuel arbitrary: reason owner)
  case (Suc fuel)
  show ?case
    unfolding ending_steps_def
  proof (intro allI impI)
    fix t :: invocation_token and r r' :: "'h runtime" and res
    let ?i = "tk_invocation_id t"
    assume a: "cancelWithControlOwner (Suc fuel) P resolve e reason owner t r = Some (r', res)"
    show "runtime_steps P resolve (r, F) (r', F)
        \<and> (\<forall>u n. rt_cancel_intents r u = Some n \<longrightarrow> rt_cancel_intents r' u = Some n)"
    proof (cases "is_ok (validateControlLocked r t) \<and> rt_cancel_intents r t = None
        \<and> (\<exists>core. rt_cores r ?i = Some core \<and> \<not> core_IsTerminal core)")
      case True
      let ?n = "\<lparr>ci_completed = False, ci_reason = reason, ci_owner = owner, ci_err = None\<rparr>"
      let ?r1 = "r\<lparr>rt_cancel_intents := (rt_cancel_intents r)(t \<mapsto> ?n)\<rparr>"
      obtain r2 won where c: "claim_registered ?i owner ?r1 = (r2, won)" by fastforce
      have s1: "runtime_steps P resolve (r, F) (?r1, F)"
        by (rule r_into_rtranclp) (rule runtime_step.intend, use True in \<open>auto simp: intent_sound_def\<close>)
      note s2 = steps_claim [OF s1 c]
      have i2: "rt_cancel_intents r2 = (rt_cancel_intents r)(t \<mapsto> ?n)" "rt_cores r2 ?i \<noteq> None"
        using claim_frame [OF c] True by auto
      have done_with: "runtime_steps P resolve (r, F) (r', F)
          \<and> (\<forall>u n. rt_cancel_intents r u = Some n \<longrightarrow> rt_cancel_intents r' u = Some n)"
        if "runtime_steps P resolve (r, F) (r3, F)" "rt_cores r3 ?i \<noteq> None"
          "\<forall>u n. rt_cancel_intents r2 u = Some n \<longrightarrow> rt_cancel_intents r3 u = Some n"
          "\<not> is_panic x" "is_ok x \<Longrightarrow> ended r3 ?i" "complete_with t (r3, x) = (r', res)" for r3 x
      proof -
        note keep = that(3)
        have "rt_cancel_intents r3 t = Some ?n" using keep i2(1) by simp
        note w = complete_with_steps [OF that(1,2) this _ that(4,5,6)]
        moreover have "u \<noteq> t \<and> rt_cancel_intents r3 u = Some n" if "rt_cancel_intents r u = Some n" for u n
        proof -
          have "u \<noteq> t" using that True by auto
          with that i2(1) have "rt_cancel_intents r2 u = Some n" by simp
          with \<open>u \<noteq> t\<close> keep show ?thesis by blast
        qed
        ultimately show ?thesis by auto
      qed
      show ?thesis
      proof (cases won)
        case False
        with a True c obtain err where w: "wait_terminal ?i r2 = Some err" "complete_with t (r2, error_result err) = (r', res)"
          by (auto simp: Let_def is_ok_iff)
        have "\<not> is_panic (error_result err)" "is_ok (error_result err) \<Longrightarrow> ended r2 ?i"
          using w(1) wait_terminal_ended by (cases err; auto)+
        with done_with [OF s2 i2(2) _ _ _ w(2)] show ?thesis by simp
      next
        case won: True
        let ?ended = "end_claimed P resolve e
            (cancelWithControlOwner fuel P resolve e ''parent_terminal:CANCELLED'' terminalOwnerParentCancel)
            ?i (terminal_emission ''cancelled'' StateCancelled [] reason) r2"
        from a True c won obtain r3 x where en: "?ended = Some (r3, x)"
          by (auto simp: Let_def is_ok_iff split: option.splits)
        note ec = end_claimed_steps [OF Suc.IH en]
        note s3 = rtranclp_trans [OF s2 ec [THEN conjunct1]]
        have c3: "rt_cores r3 ?i \<noteq> None" using steps_cores [OF ec [THEN conjunct1], of ?i] i2(2) by simp
        show ?thesis
        proof (cases "is_panic x")
          case False
          with a True c won en have "complete_with t (r3, x) = (r', res)"
            by (cases x) (auto simp: Let_def is_ok_iff)
          moreover have "is_ok x \<Longrightarrow> ended r3 ?i"
            by (rule end_claimed_ends [OF Suc.IH en _ i2(2)])
              (simp_all add: terminal_emission_def state_IsTerminal_def state_defs)
          ultimately show ?thesis using done_with [OF s3 c3] ec False by blast
        next
          case True
          then obtain err where x: "x = Panic err" by (cases x) auto
          with a \<open>is_ok _ \<and> _\<close> c won en obtain r4 where
            r4: "closePanickedCancelWinner P resolve e t reason r3 = Some r4" "complete_with t (r4, Fail (AxonErr
                (WithInvocationID (ErrInternal ''cancel_winner_panicked'') ?i))) = (r', res)"
            by (auto simp: Let_def is_ok_iff)
          note p = panicked_steps [OF r4(1), of F]
          have "rt_cores r4 ?i \<noteq> None" using steps_cores [OF p [THEN conjunct1], of ?i] c3 by simp
          with done_with [OF rtranclp_trans [OF s3 p [THEN conjunct1]] this _ _ _ r4(2)] ec p show ?thesis by simp
        qed
      qed
    next
      case False
      with a have "r' = r"
        by (auto simp: Let_def split: result.splits option.splits if_splits)
      then show ?thesis by simp
    qed
  qed
qed (simp add: ending_steps_def)

lemma timeout_steps: "ending_steps P resolve F
    (timeoutWithControl fuel P resolve e reason :: invocation_token \<Rightarrow> 'h runtime \<Rightarrow> _)"
proof (induction fuel arbitrary: reason)
  case (Suc fuel)
  show ?case
    unfolding ending_steps_def
  proof (intro allI impI)
    fix t :: invocation_token and r r' :: "'h runtime" and res
    let ?i = "tk_invocation_id t"
    assume a: "timeoutWithControl (Suc fuel) P resolve e reason t r = Some (r', res)"
    obtain r1 won where c: "claim_registered ?i terminalOwnerDeadline r = (r1, won)" by fastforce
    note s1 = step_claim [OF c, of P resolve F]
    from a c s1 claim_frame(1) [OF c] end_claimed_steps [OF Suc.IH] show "runtime_steps P resolve (r, F) (r', F)
        \<and> (\<forall>u n. rt_cancel_intents r u = Some n \<longrightarrow> rt_cancel_intents r' u = Some n)"
      by (cases won; cases "validateControlLocked r t") (auto simp: Let_def intro: rtranclp_trans)
  qed
qed (simp add: ending_steps_def)

subsection \<open>Messages, suspension and recovery\<close>

lemma send_steps:
  "sendWithControl P resolve t payload mid now rnd ms r = (r', res) \<Longrightarrow> runtime_steps P resolve (r, F) (r', F)"
proof -
  assume a: "sendWithControl P resolve t payload mid now rnd ms r = (r', res)"
  let ?i = "tk_invocation_id t"
  have inbox: "runtime_steps P resolve (r, F) (r\<lparr>rt_inboxes := b\<rparr>, F)" for b
    by (rule rest_steps) simp
  have message: "runtime_steps P resolve (r, F) (r1\<lparr>rt_inboxes := b\<rparr>, F)"
    if "emit P resolve ?i r (plain_emission ''message_received'' StateRunning p c [] False []) ms False = (r1, x)"
    for r1 p c x b
    by (rule steps_rest [OF emit_steps [OF that]]) simp_all
  from a inbox message show ?thesis
    by (auto simp: sendWithControl_def Let_def split: result.splits option.splits if_splits prod.splits delivery.splits)
qed

lemma suspend_loop_steps:
  "suspend_loop P v ts acc r = Some (r', res) \<Longrightarrow> runtime_steps P resolve (r, F) (r', F)"
proof (induction ts arbitrary: acc r)
  case (Cons t ts)
  let ?i = "tk_invocation_id t"
  obtain r1 x where s: "suspend_locked P t r = (r1, x)" by fastforce
  have s1: "runtime_steps P resolve (r, F) (r1, F)"
    by (rule r_into_rtranclp) (rule runtime_step.suspend [OF s])
  note IH = rtranclp_trans [OF s1 Cons.IH]
  show ?case
  proof (cases "su_done v ?i")
    case False
    show ?thesis
    proof (cases x)
      case Suspended
      let ?r2 = "update_execution ?i (\<lambda>x. x\<lparr>ex_cancelled := True\<rparr>) r1"
      note s2 = steps_execution [OF s1, of ?i "\<lambda>x. x\<lparr>ex_cancelled := True\<rparr>"]
      show ?thesis
      proof (cases "drain_suspended ?i v ?r2")
        case (Some r3)
        have "runtime_steps P resolve (r, F) (r3, F)"
          using Some s2 steps_execution [OF s2] by (auto simp: drain_suspended_def split: option.splits if_splits)
        from rtranclp_trans [OF this Cons.IH] Cons.prems False s Suspended Some show ?thesis
          by (auto simp: Let_def)
      qed (use Cons.prems False s Suspended s2 in \<open>auto simp: Let_def split: if_splits\<close>)
    qed (use Cons.prems False s s1 IH in \<open>auto simp: Let_def split: option.splits if_splits\<close>)
  qed (use Cons.prems in \<open>auto simp: Let_def\<close>)
qed simp

lemma restore_steps:
  assumes "restore_events P (AppendSignedReceipt P resolve) (runtime_sink i sink) c (rt_provider r) (rt_log r) es now
      = (c', p', l', res)" and "ic_invocation_id c = i"
  shows "runtime_steps P resolve (r, F) (r\<lparr>rt_provider := p', rt_log := l'\<rparr>, F) \<and> ic_parent c' = ic_parent c
    \<and> (machine_inv c \<longrightarrow> machine_inv c')"
  using assms
proof (induction es arbitrary: c r)
  case (Cons e es)
  obtain c1 p1 l1 x where s: "restoreEvent P (AppendSignedReceipt P resolve) (runtime_sink i sink) c
      (rt_provider r) (rt_log r) e now = (c1, p1, l1, x)" by (metis prod_cases4)
  let ?r1 = "r\<lparr>rt_provider := p1, rt_log := l1\<rparr>"
  have e: "core_emit P resolve sink c r (restore_emission e) now False = (c1, ?r1, x)"
    using s Cons.prems(2) by (simp add: core_emit_def restoreEvent_def)
  have s1: "runtime_steps P resolve (r, F) (?r1, F)"
    by (rule r_into_rtranclp) (rule runtime_step.prepare [OF e])
  have keep: "ic_parent c1 = ic_parent c" "ic_invocation_id c1 = i" "machine_inv c \<Longrightarrow> machine_inv c1"
    using core_emit_frame [OF e] Cons.prems(2) by simp_all
  show ?case
  proof (cases "\<exists>ev. x = Emitted ev None")
    case True
    with Cons.prems(1) s have "restore_events P (AppendSignedReceipt P resolve) (runtime_sink i sink) c1
        (rt_provider ?r1) (rt_log ?r1) es now = (c', p', l', res)" by auto
    from Cons.IH [OF this keep(2)] keep(1,3) rtranclp_trans [OF s1] show ?thesis by simp
  next
    case False
    with Cons.prems(1) s have "c' = c1" "p' = p1" "l' = l1"
      by (auto split: emit_result.splits option.splits)
    with s1 keep show ?thesis by simp
  qed
next
  case Nil
  have "r\<lparr>rt_provider := rt_provider r, rt_log := rt_log r\<rparr> = r" by (cases r) simp
  with Nil show ?case by auto
qed

lemma restore_core_steps:
  assumes "restore_core P resolve s ctx now r = (c, r', res)"
  shows "runtime_steps P resolve (r, F) (r', F)" "ic_parent c = sn_parent s" "machine_inv c"
    "is_ok res \<Longrightarrow> ic_state c = StateRunning"
proof -
  let ?c = "newInvocationCore (sn_invocation_id s) (sn_parent s) (Some ctx) (deadline_of s)"
  obtain p l x where e: "restore_events P (AppendSignedReceipt P resolve)
      (runtime_sink (sn_invocation_id s) (Some (rt_runtime_id r))) ?c (rt_provider r) (rt_log r) (sn_events s) now
      = (c, p, l, x)"
    using assms by (auto simp: restore_core_def Let_def split: prod.splits)
  with assms have r': "r' = r\<lparr>rt_provider := p, rt_log := l\<rparr>" and res: "res = bindR x (\<lambda>_.
      if ic_state c \<noteq> StateRunning
      then Fail (AxonErr (WithInvocationID (ErrInvalidArgument ''recovery_snapshot_not_running'') (sn_invocation_id s)))
      else Ok ())"
    by (auto simp: restore_core_def)
  have "ic_invocation_id ?c = sn_invocation_id s" "machine_inv ?c" "ic_parent ?c = sn_parent s"
    by (simp_all add: machine_inv_new) (simp_all add: newInvocationCore_def)
  with restore_steps [OF e, of F] r' show "runtime_steps P resolve (r, F) (r', F)" "ic_parent c = sn_parent s" "machine_inv c"
    by simp_all
  show "is_ok res \<Longrightarrow> ic_state c = StateRunning"
    by (auto simp: res bindR_Ok_iff is_ok_iff split: if_splits)
qed

lemma recover_reserved_steps:
  assumes "recover_reserved P resolve s envelope b continuation now r = (r', res)"
  shows "(is_ok res \<longrightarrow> runtime_steps P resolve (r, add_mset (sn_parent s, None) F) (r', F))
    \<and> (\<not> is_ok res \<longrightarrow> (\<exists>x. runtime_steps P resolve (r, add_mset (sn_parent s, None) F) (r', add_mset (sn_parent s, x) F)))"
proof -
  let ?F = "add_mset (sn_parent s, None) F"
  obtain r1 a where ad: "admit P envelope (sn_signature s) now r = (r1, a)" by fastforce
  note s1 = admit_steps [OF ad, of resolve ?F]
  show ?thesis
  proof (cases "\<exists>adm ev. a = Ok adm \<and> admitted_evidence adm b = Ok ev")
    case True
    then obtain adm d m where ev: "a = Ok adm" "admitted_evidence adm b = Ok (d, m)" by auto
    obtain r2 x where bd: "bind_context P ''recovery_receipt_bind_failed:'' (sn_invocation_id s) adm d m r1 = (r2, x)"
      by fastforce
    show ?thesis
    proof (cases x)
      case (Ok ctx)
      let ?G = "add_mset (sn_parent s, Some (sn_invocation_id s)) F"
      note s2 = steps_step [OF s1 runtime_step.bind [OF bd [unfolded Ok]]]
      obtain c r3 y where rc: "restore_core P resolve s ctx now r2 = (c, r3, y)" by (metis prod_cases3)
      note s3 = rtranclp_trans [OF s2 restore_core_steps(1) [OF rc]]
      note s4 = steps_step [OF s3 runtime_step.register_again [OF restore_core_steps(2,3) [OF rc]]]
      from assms ad ev bd Ok rc s3 s4 restore_core_steps(4) [OF rc] show ?thesis
        by (cases y) (auto simp: recover_reserved_def Let_def)
    qed (use assms ad ev bd s1 bind_context_not_Ok [OF bd] in \<open>auto simp: recover_reserved_def\<close>)
  next
    case False
    with assms ad s1 show ?thesis
      by (cases a) (auto simp: recover_reserved_def split: result.splits)
  qed
qed

lemma reserve_recovered_not_Ok: "reserve_recovered r p = (r', x) \<Longrightarrow> \<not> is_ok x \<Longrightarrow> r' = r"
  by (auto simp: reserve_recovered_def split: if_splits)

lemma recoverSnapshot_steps:
  assumes "recoverSnapshot P resolve now s r = (r', res)"
  shows "runtime_steps P resolve (r, F) (r', F)"
proof (cases "bindR (incompleteR (NewDescriptorBoundEnvelope (sn_envelope s))) (\<lambda>envelope.
     bindR (incompleteR (ParseAbilityDescriptorRef (en_ability (sn_envelope s)))) (\<lambda>ref.
     bindR (find_continuation r ref) (\<lambda>(b, continuation). Ok (envelope, b, continuation))))")
  case (Ok x)
  obtain envelope b k where x: "x = (envelope, b, k)" by (cases x)
  obtain r1 u where rs: "reserve_recovered r (sn_parent s) = (r1, u)" by fastforce
  show ?thesis
  proof (cases u)
    case u: (Ok v)
    obtain r2 y where rr: "recover_reserved P resolve s envelope b k now r1 = (r2, y)" by fastforce
    note s1 = r_into_rtranclp [where r = "runtime_step P resolve", OF runtime_step.reserve_again [OF rs [unfolded u]], of F]
    note s2 = recover_reserved_steps [OF rr, of F]
    show ?thesis
    proof (cases "is_ok y")
      case True
      with assms Ok x rs u rr have "r' = r2" by (auto simp: recoverSnapshot_def is_ok_iff)
      with True rtranclp_trans [OF s1] s2 show ?thesis by simp
    next
      case False
      with assms Ok x rs u rr have "r' = releaseUnboundReservation r2 (sn_parent s)"
        by (cases y) (auto simp: recoverSnapshot_def)
      with False s2 rtranclp_trans [OF s1] show ?thesis by (auto intro: steps_release)
    qed
  qed (use assms Ok x rs reserve_recovered_not_Ok [OF rs] in \<open>auto simp: recoverSnapshot_def\<close>)
qed (use assms in \<open>auto simp: recoverSnapshot_def\<close>)

lemma recover_loop_steps:
  "recover_loop P resolve now ss acc r = (r', res) \<Longrightarrow> runtime_steps P resolve (r, F) (r', F)"
proof (induction ss arbitrary: acc r)
  case (Cons s ss)
  obtain r1 x where rs: "recoverSnapshot P resolve (now (sn_invocation_id s)) s r = (r1, x)" by fastforce
  note s1 = recoverSnapshot_steps [OF rs, of F]
  from Cons rs s1 show ?case
    by (cases x) (auto intro: rtranclp_trans log_steps [OF surjective_pairing])
qed simp

lemma recover_steps:
  assumes "RecoverPersistedInvocations P resolve now lease r = (r', res)"
  shows "runtime_steps P resolve (r, F) (r', F)"
proof -
  obtain r1 x where c: "runtime_log (\<lambda>io d t. ClaimRecovery io d t (rt_runtime_id r) lease
      (int canonicalPendingCapacity - rt_active_count r)) (Ok []) r = (r1, x)" by fastforce
  note s1 = log_steps [OF c, of P resolve F]
  from assms c s1 show ?thesis
    by (cases x) (auto simp: RecoverPersistedInvocations_def Let_def intro: rtranclp_trans recover_loop_steps split: if_splits)
qed

section \<open>The operations\<close>

text \<open>Every operation of the runtime, as the effect it has when it returns.  One way out of
  \<open>InvokeDescriptorBoundRequest\<close> is left out: a panic after the invocation was registered,
  when its parent announces it; \<open>late_panic_frees_twice\<close> says what that does.\<close>

inductive runtime_op ::
  "platform \<Rightarrow> authority_resolver \<Rightarrow> 'h runtime \<Rightarrow> 'h runtime \<Rightarrow> bool" for P resolve where
  invoke: "\<lbrakk>InvokeDescriptorBoundRequest P resolve q v r = Some (r', res); is_panic res \<longrightarrow> iv_id v \<notin> rt_active r'\<rbrakk>
     \<Longrightarrow> runtime_op P resolve r r'"
| finish: "runAbility P resolve i owner outcome e now r = Some r' \<Longrightarrow> runtime_op P resolve r r'"
| cancel: "Cancel fuel P resolve ee i reason r = Some (r', cancelled) \<Longrightarrow> runtime_op P resolve r r'"
| deadline: "watchDeadline fuel P resolve ee t r = Some r' \<Longrightarrow> runtime_op P resolve r r'"
| send: "SendMessage P resolve i payload mid nanos rnd now r = (r', ack) \<Longrightarrow> runtime_op P resolve r r'"
| close: "control_closeInput t r = (r', closed) \<Longrightarrow> runtime_op P resolve r r'"
| receive: "RecvMessage P resolve i r received now = (r', m) \<Longrightarrow> runtime_op P resolve r r'"
| progress: "EmitProgress P resolve i r payload contentType now ctxDone = (r', x) \<Longrightarrow> runtime_op P resolve r r'"
| checkpoint: "runtime_checkpoint P i bytes r = (r', saved) \<Longrightarrow> runtime_op P resolve r r'"
| suspend: "SuspendForRestart P sv r = Some (r', ids) \<Longrightarrow> runtime_op P resolve r r'"
| recover: "RecoverPersistedInvocations P resolve nows lease r = (r', handles) \<Longrightarrow> runtime_op P resolve r r'"
| renew: "renewRecoveryLease t lease r = (r', on) \<Longrightarrow> runtime_op P resolve r r'"
| read: "\<lbrakk>rt_cores r i = Some c; stream_Next c st ctxDone = Some (c', st', event)\<rbrakk>
     \<Longrightarrow> runtime_op P resolve r (r\<lparr>rt_cores := (rt_cores r)(i \<mapsto> c')\<rparr>)"
| supervise: "\<lbrakk>rt_supervisors r i = Some s; supervisor_op s s'\<rbrakk>
     \<Longrightarrow> runtime_op P resolve r (r\<lparr>rt_supervisors := (rt_supervisors r)(i \<mapsto> s')\<rparr>)"
| provide: "BindProvider r b = (r', ok) \<Longrightarrow> runtime_op P resolve r r'"
| window: "runtime_op P resolve r (SetAdmissionDedupWindowMs r windowMs)"

lemma runtime_op_steps: "runtime_op P resolve r r' \<Longrightarrow> runtime_steps P resolve (r, F) (r', F)"
proof (induction rule: runtime_op.induct)
  case (invoke q v r r' res)
  then show ?case by (rule invoke_steps)
next
  case (finish i owner outcome e now r r')
  then show ?case by (rule runAbility_steps)
next
  case (cancel fuel ee i reason r r' cancelled)
  with cancel_steps [unfolded ending_steps_def] show ?case
    by (auto simp: Cancel_def split: result.splits) blast
next
  case (deadline fuel ee t r r')
  with timeout_steps [unfolded ending_steps_def] show ?case
    by (auto simp: watchDeadline_def split: if_splits) blast+
next
  case (send i payload mid nanos rnd now r r' ack)
  then show ?case by (auto simp: SendMessage_def intro: send_steps split: result.splits)
next
  case (close t r r' closed)
  then show ?case by (auto simp: control_closeInput_def intro: rest_steps split: result.splits)
next
  case (receive i r received now r' m)
  then show ?case
    by (auto simp: RecvMessage_def Let_def intro: rest_steps rtranclp_trans [OF rest_steps emit_steps [OF surjective_pairing]]
        split: prod.splits option.splits)
next
  case (progress i r payload contentType now ctxDone r' x)
  then show ?case by (simp add: EmitProgress_def emit_steps)
next
  case (checkpoint i bytes r r' saved)
  then show ?case
    by (auto simp: runtime_checkpoint_def Let_def intro: log_steps split: option.splits if_splits prod.splits result.splits)
next
  case (suspend sv r r' ids)
  then show ?case by (simp add: SuspendForRestart_def suspend_loop_steps)
next
  case (recover nows lease r r' handles)
  then show ?case by (rule recover_steps)
next
  case (renew t lease r r' on)
  obtain r1 x where c: "runtime_log (\<lambda>io d now. RenewRecoveryLease io d now (tk_invocation_id t) (rt_runtime_id r) lease)
      (Fail (PlainErr ''nil_pointer'')) r = (r1, x)" by fastforce
  note s1 = log_steps [OF c, of P resolve F]
  from renew c s1 steps_step [OF s1 runtime_step.abandon] show ?case
    by (auto simp: renewRecoveryLease_def split: if_splits result.splits option.splits)
next
  case (read r i c st ctxDone c' st' event)
  then show ?case by (intro r_into_rtranclp) (rule runtime_step.read)
next
  case (supervise r i s s')
  then show ?case by (intro r_into_rtranclp) (rule runtime_step.supervise)
next
  case (provide r b r' ok)
  then show ?case by (auto simp: BindProvider_def intro: rest_steps split: if_splits)
next
  case (window r windowMs)
  show ?case by (rule rest_steps) (simp add: SetAdmissionDedupWindowMs_def)
qed

end
