(* ===== verification/RuntimeCapacity.thy ===== *)
theory RuntimeCapacity
  imports RuntimeSteps
begin

text \<open>
  The capacity of the runtime.  The invariant of the atomic steps says that every slot counted
  is either in flight or held by an active invocation; the counters therefore never need the
  guards the code decrements them under.
\<close>

section \<open>What the accounting reads\<close>

definition parent_of :: "'h runtime \<Rightarrow> string \<Rightarrow> string option" where
  "parent_of r i = map_option ic_parent (rt_cores r i)"

text \<open>\<open>same_slots\<close>: the two states account for the same.\<close>

definition same_slots :: "'h runtime \<Rightarrow> 'h runtime \<Rightarrow> bool" where
  "same_slots r r' = (rt_active_count r' = rt_active_count r \<and> rt_active_children r' = rt_active_children r
     \<and> rt_active r' = rt_active r \<and> parent_of r' = parent_of r
     \<and> pv_contexts (rt_provider r') = pv_contexts (rt_provider r))"

lemma same_slots_refl [simp]: "same_slots r r"
  by (simp add: same_slots_def)

lemma same_slots_trans: "same_slots a b \<Longrightarrow> same_slots b c \<Longrightarrow> same_slots a c"
  by (simp add: same_slots_def)

lemma core_emit_slots:
  "core_emit P resolve sink c r em now ctxDone = (c', r', res) \<Longrightarrow> same_slots r r'"
  by (erule core_emit_cases) (simp_all add: same_slots_def parent_of_def fun_eq_iff)

lemma emit_registered_slots:
  "emit_registered P resolve i r em now ctxDone = (r', res) \<Longrightarrow> same_slots r r'"
  by (erule emit_registered_cases) (auto simp: same_slots_def parent_of_def fun_eq_iff)

lemma claim_slots: "claim_registered i owner r = (r', won) \<Longrightarrow> same_slots r r'"
  by (auto simp: claim_registered_def claimTerminal_def same_slots_def parent_of_def fun_eq_iff
      split: option.splits if_splits)

lemma fail_slots: "same_slots r (fail_with i e r)"
  by (cases e) (auto simp: update_core_def failFinalization_def same_slots_def parent_of_def fun_eq_iff
      option.map_comp comp_def intro!: option.map_cong0)

lemma read_slots:
  assumes "rt_cores r i = Some c" and "stream_Next c st d = Some (c', st', event)"
  shows "same_slots r (r\<lparr>rt_cores := (rt_cores r)(i \<mapsto> c')\<rparr>)"
proof -
  have "ic_parent c' = ic_parent c"
    using assms(2) by (auto simp: stream_Next_def acknowledge_def split: if_splits option.splits list.splits)
  with assms(1) show ?thesis by (auto simp: same_slots_def parent_of_def fun_eq_iff)
qed

lemma field_slots [simp]:
  "same_slots r (r\<lparr>rt_supervisors := a\<rparr>)" "same_slots r (r\<lparr>rt_cancel_intents := b\<rparr>)"
  by (simp_all add: same_slots_def parent_of_def fun_eq_iff)

lemma update_rest_slots: "same_slots r (update_rest b x g v l p a r)"
  by (simp add: update_rest_def same_slots_def parent_of_def fun_eq_iff)

lemma execution_slots [simp]: "same_slots r (update_execution i f r)"
  by (simp add: update_execution_def same_slots_def parent_of_def fun_eq_iff)

lemma log_slots: "runtime_log f missing r = (r', res) \<Longrightarrow> same_slots r r'"
  by (auto simp: runtime_log_def same_slots_def parent_of_def fun_eq_iff split: option.splits prod.splits)

section \<open>The invariant\<close>

definition flying :: "flight multiset \<Rightarrow> string \<Rightarrow> nat" where
  "flying F p = size (filter_mset (\<lambda>f. fst f = p) F)"

definition held :: "string set \<Rightarrow> (string \<Rightarrow> string option) \<Rightarrow> string \<Rightarrow> nat" where
  "held active parents p = card {i \<in> active. parents i = Some p}"

text \<open>The identifiers bound for flights belong to nobody else.\<close>

definition fresh_flights :: "(string \<Rightarrow> string option) \<Rightarrow> string set \<Rightarrow> flight multiset \<Rightarrow> bool" where
  "fresh_flights parents bound F \<longleftrightarrow>
     (\<forall>p i. (p, Some i) \<in># F \<longrightarrow> i \<in> bound \<and> parents i = None)
     \<and> (\<forall>i. size (filter_mset (\<lambda>f. snd f = Some i) F) \<le> 1)"

definition accounted ::
  "int \<Rightarrow> (string \<Rightarrow> int) \<Rightarrow> string set \<Rightarrow> (string \<Rightarrow> string option) \<Rightarrow> string set \<Rightarrow> flight multiset \<Rightarrow> bool" where
  "accounted taken children active parents bound F \<longleftrightarrow>
     finite active \<and> (\<forall>i\<in>active. parents i \<noteq> None) \<and> dom parents \<subseteq> bound
     \<and> fresh_flights parents bound F
     \<and> taken = int (size F + card active)
     \<and> (\<forall>p. p \<noteq> [] \<longrightarrow> children p = int (flying F p + held active parents p))
     \<and> taken \<le> int canonicalPendingCapacity"

definition slots_inv :: "'h runtime \<times> flight multiset \<Rightarrow> bool" where
  "slots_inv x = (case x of (r, F) \<Rightarrow>
     accounted (rt_active_count r) (rt_active_children r) (rt_active r) (parent_of r)
       (dom (pv_contexts (rt_provider r))) F)"

lemma slots_inv_same: "same_slots r r' \<Longrightarrow> slots_inv (r, F) \<Longrightarrow> slots_inv (r', F)"
  by (simp add: same_slots_def slots_inv_def)

lemma flying_add [simp]: "flying (add_mset (q, x) F) p = flying F p + (if q = p then 1 else 0)"
  by (simp add: flying_def)

lemma fresh_add_None [simp]: "fresh_flights parents bound (add_mset (p, None) F) = fresh_flights parents bound F"
  by (auto simp: fresh_flights_def)

lemma fresh_remove: "fresh_flights parents bound (add_mset f F) \<Longrightarrow> fresh_flights parents bound F"
  unfolding fresh_flights_def
  by (metis (no_types, lifting) Suc_leD filter_mset_add_mset size_add_mset union_iff add_mset_add_single)

text \<open>The four moves of a slot.\<close>

lemma take_slot:
  assumes "accounted n ch act par bound F" and "n < int canonicalPendingCapacity"
    and "\<And>p. p \<noteq> [] \<Longrightarrow> ch' p = ch p + (if p = q then 1 else 0)"
  shows "accounted (n + 1) ch' act par bound (add_mset (q, None) F)"
  using assms by (simp add: accounted_def)

lemma give_back_flight:
  assumes "accounted n ch act par bound (add_mset (q, x) F)"
    and "\<And>p. p \<noteq> [] \<Longrightarrow> ch' p = ch p - (if p = q then 1 else 0)"
  shows "0 < n \<and> (q \<noteq> [] \<longrightarrow> 0 < ch q) \<and> accounted (n - 1) ch' act par bound F"
  using assms fresh_remove [of par bound "(q, x)" F] by (auto simp: accounted_def)

lemma held_remove:
  assumes "finite act" and "i \<in> act" and "par i = Some q"
  shows "held act par p = held (act - {i}) par p + (if p = q then 1 else 0)"
proof (cases "p = q")
  case True
  have "{j \<in> act. par j = Some p} = insert i {j \<in> act - {i}. par j = Some p}"
    using assms True by auto
  then show ?thesis using True assms(1) by (simp add: held_def)
next
  case False
  then have "{j \<in> act. par j = Some p} = {j \<in> act - {i}. par j = Some p}" using assms by auto
  then show ?thesis using False by (simp add: held_def)
qed

lemma give_back_active:
  assumes "accounted n ch act par bound F" and "i \<in> act" and "par i = Some q"
    and "\<And>p. p \<noteq> [] \<Longrightarrow> ch' p = ch p - (if p = q then 1 else 0)"
  shows "0 < n \<and> (q \<noteq> [] \<longrightarrow> 0 < ch q) \<and> accounted (n - 1) ch' (act - {i}) par bound F"
proof -
  have fin: "finite act" using assms(1) by (simp add: accounted_def)
  have "card act = Suc (card (act - {i}))"
    by (rule card.remove [OF fin assms(2)])
  with held_remove [where par = par, OF fin assms(2,3)] assms(1,4) show ?thesis
    by (auto simp: accounted_def)
qed

lemma filter_none: "filter_mset Q F = {#} \<longleftrightarrow> (\<forall>x\<in>#F. \<not> Q x)"
  by (induction F) auto

lemma fresh_unused:
  assumes "fresh_flights par bound F" and "i \<notin> bound"
  shows "filter_mset (\<lambda>f. snd f = Some i) F = {#}"
  using assms by (auto simp: fresh_flights_def filter_none)

lemma bind_flight:
  assumes "accounted n ch act par bound (add_mset (q, None) F)" and "i \<notin> bound"
  shows "accounted n ch act par (insert i bound) (add_mset (q, Some i) F)"
proof -
  have fr: "fresh_flights par bound F" "dom par \<subseteq> bound" using assms(1) by (simp_all add: accounted_def)
  have "par i = None" using fr(2) assms(2) by auto
  then have "fresh_flights par (insert i bound) (add_mset (q, Some i) F)"
    using fr(1) fresh_unused [OF fr(1) assms(2)] by (auto simp: fresh_flights_def)
  with assms(1) show ?thesis by (auto simp: accounted_def)
qed

lemma land_flight:
  assumes "accounted n ch act par bound (add_mset (q, Some i) F)"
  shows "accounted n ch (insert i act) (par(i \<mapsto> q)) bound F"
proof -
  have fr: "fresh_flights par bound (add_mset (q, Some i) F)" using assms by (simp add: accounted_def)
  then have "size (filter_mset (\<lambda>f. snd f = Some i) (add_mset (q, Some i) F)) \<le> 1"
    unfolding fresh_flights_def by blast
  then have none: "filter_mset (\<lambda>f. snd f = Some i) F = {#}" by simp
  have a: "i \<in> bound" "par i = None" "fresh_flights par bound F" "finite act" "\<forall>i\<in>act. par i \<noteq> None"
    using assms fr fresh_remove [OF fr] by (auto simp: accounted_def fresh_flights_def)
  then have new: "i \<notin> act" by auto
  have "(p, Some i) \<notin># F" for p
    using none by (auto simp: filter_none)
  then have "fresh_flights (par(i \<mapsto> q)) bound F"
    using a(3) by (auto simp: fresh_flights_def)
  moreover have "held (insert i act) (par(i \<mapsto> q)) p = held act par p + (if q = p then 1 else 0)" for p
  proof -
    have "{j \<in> insert i act. (par(i \<mapsto> q)) j = Some p}
        = (if q = p then insert i {j \<in> act. par j = Some p} else {j \<in> act. par j = Some p})"
      using new a(2) by auto
    then show ?thesis using a(4) new by (simp add: held_def)
  qed
  ultimately show ?thesis using assms a new by (auto simp: accounted_def)
qed

section \<open>Every step keeps it\<close>

lemma parent_of_frame: "rt_cores r' = rt_cores r \<Longrightarrow> parent_of r' = parent_of r"
  by (simp add: parent_of_def fun_eq_iff)

lemma slots_take:
  assumes "slots_inv (r, F)" and "rt_active_count r < int canonicalPendingCapacity"
    and "rt_active_count r' = rt_active_count r + 1"
    and "\<And>p. p \<noteq> [] \<Longrightarrow> rt_active_children r' p = rt_active_children r p + (if p = q then 1 else 0)"
    and "rt_active r' = rt_active r" "rt_cores r' = rt_cores r" "rt_provider r' = rt_provider r"
  shows "slots_inv (r', add_mset (q, None) F)"
  using take_slot [OF assms(1) [unfolded slots_inv_def prod.case] assms(2) assms(4)]
    parent_of_frame [OF assms(6)] assms(3,5,7) by (simp add: slots_inv_def)

lemma slots_reserve:
  assumes "reserveInvocation r q spec reason now = (r', Ok d)" and "slots_inv (r, F)"
  shows "slots_inv (r', add_mset (q, None) F)"
  by (rule slots_take [OF assms(2)])
    (use assms(1) in \<open>auto simp: reserveInvocation_def split: if_splits option.splits\<close>)

lemma slots_reserve_recovered:
  assumes "reserve_recovered r q = (r', Ok u)" and "slots_inv (r, F)"
  shows "slots_inv (r', add_mset (q, None) F)"
  by (rule slots_take [OF assms(2)])
    (use assms(1) in \<open>auto simp: reserve_recovered_def split: if_splits\<close>)

text \<open>Under the invariant the decrements are not guarded against anything.\<close>

lemma release_slot_sel:
  assumes "0 < rt_active_count r" and "q \<noteq> [] \<longrightarrow> 0 < rt_active_children r q"
  shows "rt_active_count (release_slot q r) = rt_active_count r - 1"
    "p \<noteq> [] \<Longrightarrow> rt_active_children (release_slot q r) p = rt_active_children r p - (if p = q then 1 else 0)"
    "rt_active (release_slot q r) = rt_active r" "parent_of (release_slot q r) = parent_of r"
    "rt_provider (release_slot q r) = rt_provider r"
  using assms by (auto simp: release_slot_def parent_of_def fun_eq_iff)

lemma slots_release:
  assumes "slots_inv (r, add_mset (q, x) F)"
  shows "slots_inv (releaseUnboundReservation r q, F)"
proof -
  note a = assms [unfolded slots_inv_def prod.case]
  have pos: "0 < rt_active_count r" "q \<noteq> [] \<longrightarrow> 0 < rt_active_children r q"
    using give_back_flight [OF a refl] by simp_all
  note s = release_slot_sel [OF pos]
  show ?thesis
    unfolding slots_inv_def prod.case releaseUnboundReservation_def s(1,3-)
    using give_back_flight [OF a s(2)] by simp
qed

lemma slots_deactivate:
  assumes "slots_inv (r, F)" and "parent_of r i = Some q"
  shows "slots_inv (deactivate i q r, F)"
proof (cases "i \<in> rt_active r")
  case True
  let ?r = "r\<lparr>rt_active := rt_active r - {i}\<rparr>"
  note a = assms(1) [unfolded slots_inv_def prod.case]
  have pos: "0 < rt_active_count ?r" "q \<noteq> [] \<longrightarrow> 0 < rt_active_children ?r q"
    using give_back_active [OF a True assms(2) refl] by simp_all
  note s = release_slot_sel [OF pos]
  have "parent_of ?r = parent_of r" by (simp add: parent_of_def fun_eq_iff)
  then have "slots_inv (release_slot q ?r, F)"
    unfolding slots_inv_def prod.case s(1,3-)
    using give_back_active [OF a True assms(2), of "rt_active_children (release_slot q ?r)"] s(2) by simp
  then show ?thesis using True by (simp add: deactivate_def)
qed (use assms in \<open>simp add: deactivate_def\<close>)

lemma bind_context_sel:
  assumes "bind_context P failure i admission descriptor implementation r = (r', Ok ctx)"
  shows "i \<notin> dom (pv_contexts (rt_provider r))"
    "dom (pv_contexts (rt_provider r')) = insert i (dom (pv_contexts (rt_provider r)))"
    "rt_active_count r' = rt_active_count r" "rt_active_children r' = rt_active_children r"
    "rt_active r' = rt_active r" "parent_of r' = parent_of r"
proof -
  obtain p res where b: "Bind P (rt_provider r) i admission descriptor implementation = (p, res)" by fastforce
  with assms have r': "r' = r\<lparr>rt_provider := p\<rparr>" and "\<exists>y. res = Ok y"
    by (cases res; auto simp: bind_context_def elim: axon_or.elims)+
  with b have p: "i \<notin> dom (pv_contexts (rt_provider r))"
    "dom (pv_contexts p) = insert i (dom (pv_contexts (rt_provider r)))"
    by (auto simp: Bind_def split: result.splits if_splits)
  show "i \<notin> dom (pv_contexts (rt_provider r))"
    "dom (pv_contexts (rt_provider r')) = insert i (dom (pv_contexts (rt_provider r)))"
    "rt_active_count r' = rt_active_count r" "rt_active_children r' = rt_active_children r"
    "rt_active r' = rt_active r" "parent_of r' = parent_of r"
    using p by (simp_all add: r' parent_of_def fun_eq_iff)
qed

lemma slots_bind:
  assumes "bind_context P failure i admission descriptor implementation r = (r', Ok ctx)"
    and "slots_inv (r, add_mset (q, None) F)"
  shows "slots_inv (r', add_mset (q, Some i) F)"
  using bind_flight [OF assms(2) [unfolded slots_inv_def prod.case] bind_context_sel(1) [OF assms(1)]]
  by (simp add: slots_inv_def bind_context_sel(2-) [OF assms(1)])

lemma slots_land:
  assumes "slots_inv (r, add_mset (q, Some i) F)" and "ic_parent c = q"
    and "rt_active_count r' = rt_active_count r" "rt_active_children r' = rt_active_children r"
    "rt_active r' = insert i (rt_active r)" "rt_cores r' = (rt_cores r)(i \<mapsto> c)" "rt_provider r' = rt_provider r"
  shows "slots_inv (r', F)"
proof -
  have "parent_of r' = (parent_of r)(i \<mapsto> q)" using assms(2,6) by (auto simp: parent_of_def fun_eq_iff)
  with land_flight [OF assms(1) [unfolded slots_inv_def prod.case]] assms(3-) show ?thesis
    by (simp add: slots_inv_def)
qed

lemma slots_suspend:
  assumes "suspend_locked P t r = (r', x)" and "slots_inv (r, F)"
  shows "slots_inv (r', F)"
proof (cases "x = Suspended")
  case True
  with assms(1) obtain c r1 where c: "rt_cores r (tk_invocation_id t) = Some c"
    "runtime_log (\<lambda>io d now. MarkRecoveryPhase io d (tk_invocation_id t) ''suspended'') (Fail (PlainErr ''nil_pointer'')) r = (r1, Ok ())"
    "r' = update_execution (tk_invocation_id t) (\<lambda>x. x\<lparr>ex_suspended := True\<rparr>) (deactivate (tk_invocation_id t) (ic_parent c) r1)"
    by (auto simp: suspend_locked_def Let_def split: if_splits option.splits prod.splits result.splits)
  have same: "same_slots r r1" by (rule log_slots [OF c(2)])
  then have "parent_of r1 (tk_invocation_id t) = Some (ic_parent c)"
    using c(1) by (simp add: same_slots_def parent_of_def fun_eq_iff)
  with slots_deactivate slots_inv_same [OF same assms(2)] slots_inv_same [OF execution_slots] show ?thesis
    unfolding c(3) by blast
next
  case False
  with assms(1) have "same_slots r r'"
    by (auto simp: suspend_locked_def Let_def split: if_splits option.splits prod.splits result.splits
        intro: log_slots)
  with assms(2) slots_inv_same show ?thesis by blast
qed

lemma slots_abandon:
  assumes "slots_inv (r, F)"
  shows "slots_inv (abandonRecoveredExecution t r, F)"
proof -
  have "slots_inv (update_execution i f (deactivate i (ic_parent c) r), F)"
    if "rt_cores r i = Some c" for i f c
    using slots_deactivate [OF assms, of i "ic_parent c"] that
      slots_inv_same [OF execution_slots] by (simp add: parent_of_def)
  with assms show ?thesis by (auto simp: abandonRecoveredExecution_def Let_def split: option.split)
qed

lemma slots_inv_kept: "runtime_step P resolve x y \<Longrightarrow> slots_inv x \<Longrightarrow> slots_inv y"
proof (induction rule: runtime_step.induct)
  case (register c parentID r i F sink spec inbox execution)
  then show ?case
    by (intro slots_land [of r parentID i F c]) (auto simp: register_invocation_def register_entries_def Let_def)
next
  case (register_again c s r F)
  then show ?case
    by (intro slots_land [of r "sn_parent s" "sn_invocation_id s" F c])
      (auto simp: register_recovered_def register_entries_def Let_def)
qed (auto intro: slots_reserve slots_reserve_recovered slots_bind slots_release
    slots_inv_same core_emit_slots emit_registered_slots claim_slots fail_slots read_slots field_slots update_rest_slots
    slots_suspend slots_abandon slots_deactivate simp: parent_of_def)

definition slots_initial :: "'h runtime \<times> flight multiset \<Rightarrow> bool" where
  "slots_initial x = (snd x = {#} \<and> (\<exists>resolver providers log runtimeID.
     NewLocalRuntimeWithOptions resolver providers log runtimeID = Ok (fst x)))"

lemma NewLocalRuntimeWithOptions_empty:
  "NewLocalRuntimeWithOptions resolver providers log runtimeID = Ok r \<Longrightarrow>
     rt_active r = {} \<and> rt_active_count r = 0 \<and> rt_active_children r = (\<lambda>_. 0) \<and> rt_cores r = Map.empty"
  by (cases resolver; cases providers) (auto simp: NewLocalRuntimeWithOptions_def)

lemma slots_inv_initially: "slots_initial x \<Longrightarrow> slots_inv x"
  by (cases x) (auto simp: slots_initial_def slots_inv_def accounted_def fresh_flights_def
      flying_def held_def parent_of_def canonicalPendingCapacity_def dest!: NewLocalRuntimeWithOptions_empty)

interpretation slot_sys: transition_system slots_initial "runtime_step P resolve" slots_inv
  by unfold_locales (erule slots_inv_initially, erule (1) slots_inv_kept)

section \<open>Properties\<close>

text \<open>C23: the capacity is respected under every interleaving of the atomic sections: at any moment
  the counted slots are exactly the reservations in flight and the active invocations, at most
  256 in all, and each parent's counter is exactly its children among them.\<close>

theorem capacity_bounded:
  assumes "slots_initial x" and "runtime_steps P resolve x (r, F)"
  shows "rt_active_count r = int (size F + card (rt_active r))
    \<and> rt_active_count r \<le> int canonicalPendingCapacity
    \<and> (\<forall>p. p \<noteq> [] \<longrightarrow> rt_active_children r p = int (flying F p + held (rt_active r) (parent_of r) p))"
  using slot_sys.reachable_inv [OF assms] by (simp add: slots_inv_def accounted_def)

lemma demo_runtime:
  "\<exists>r. NewLocalRuntimeWithOptions (Some res) (Some (policy, provider)) None ''rt'' = Ok r"
  by (simp add: NewLocalRuntimeWithOptions_def)

theorem capacity_bounded_witness:
  "\<exists>r :: bool runtime. rt_active_count r = 1 \<and> int (size {#([], None) :: flight#} + card (rt_active r)) = 1"
proof -
  obtain r :: "bool runtime" where r: "NewLocalRuntimeWithOptions (Some demo_resolver) (Some (demo_policy, demo_provider)) None ''rt'' = Ok r"
    using demo_runtime by blast
  let ?r = "r\<lparr>rt_active_count := rt_active_count r + 1\<rparr>"
  have "slots_initial (r, {#})" using r unfolding slots_initial_def by auto
  moreover have "reserveInvocation r [] None ''pending_invocation_limit'' 0 = (?r, Ok None)"
    using NewLocalRuntimeWithOptions_empty [OF r]
    by (simp add: reserveInvocation_def canonicalPendingCapacity_def requested_deadline_def)
  then have "runtime_steps demo_platform demo_resolve (r, {#}) (?r, {#([], None)#})"
    by (intro r_into_rtranclp) (rule runtime_step.reserve)
  ultimately have "rt_active_count ?r = int (size {#([], None) :: flight#} + card (rt_active ?r))"
    using capacity_bounded by blast
  then show ?thesis
    using NewLocalRuntimeWithOptions_empty [OF r] by (intro exI [of _ ?r]) simp
qed



text \<open>The call left out of C24.  The deferred function of \<open>InvokeDescriptorBoundRequest\<close>
  gives the reservation back until \<open>invokeRegistered\<close> has returned, so a panic that leaves it
  after the registration frees the slot that the registered invocation still holds, and will
  free again when it ends: the count is one short of the active invocations.\<close>

theorem late_panic_frees_twice:
  assumes "slots_initial x" and "runtime_steps P resolve x (r, {#})"
    and "InvokeDescriptorBoundRequest P resolve q v r = Some (r', Panic e)"
    and "iv_id v \<in> rt_active r'" and "iv_id v \<notin> rt_active r"
  shows "rt_active_count r' = int (card (rt_active r')) - 1"
proof -
  obtain r3 where r3: "runtime_steps P resolve (r, {#}) (r3, {#})" "r' = releaseUnboundReservation r3 (rq_parent q)"
    by (rule invoke_late [OF assms(3-5)])
  from slot_sys.reachable_inv [OF assms(1) rtranclp_trans [OF assms(2) r3(1)]]
  have count: "rt_active_count r3 = int (card (rt_active r3))" and fin: "finite (rt_active r3)"
    by (simp_all add: slots_inv_def accounted_def)
  have "rt_active r' = rt_active r3" by (simp add: r3(2))
  moreover from this assms(4) fin have "0 < card (rt_active r3)" by (auto simp: card_gt_0_iff)
  ultimately show ?thesis using count
    by (simp add: r3(2) releaseUnboundReservation_def release_slot_def)
qed

end
