(* ===== verification/SupervisorProperties.thy ===== *)
theory SupervisorProperties
  imports Supervisor
begin

text \<open>
  What a closed cleanup barrier guarantees, that the barrier closes or fails in the end, and
  what a reaped orphan record means.
\<close>

section \<open>Attempts\<close>

lemma fail_if_sel [simp]:
  "at_children (fail_if b stage a) = at_children a"
  "at_failure (fail_if b stage a) = None \<longleftrightarrow> at_failure a = None \<and> \<not> b"
  by (auto simp: fail_if_def fail_stage_def)

lemma fail_stage_failure [simp]: "at_failure (fail_stage stage a) \<noteq> None" "\<exists>y. at_failure (fail_stage stage a) = Some y"
  by (auto simp: fail_stage_def)

text \<open>Exits recorded by the attempt were observed in one of the polls.\<close>

definition backed :: "(nat \<Rightarrow> child_exit) set \<Rightarrow> attempt \<Rightarrow> bool" where
  "backed obs a = (\<forall>k<length (at_children a). at_children a ! k = Exited \<longrightarrow> (\<exists>now\<in>obs. now k = Exited))"

lemma backed_mono: "backed obs a \<Longrightarrow> obs \<subseteq> obs' \<Longrightarrow> backed obs' a"
  by (auto simp: backed_def)

lemma backed_cong: "at_children a = at_children b \<Longrightarrow> backed obs a \<longleftrightarrow> backed obs b"
  by (simp add: backed_def)

lemma childrenExited_backed:
  assumes "childrenExited a now = (a', exited)" and "backed obs a" and "now \<in> obs"
  shows "backed obs a' \<and> length (at_children a') = length (at_children a)
    \<and> (exited \<longrightarrow> (\<forall>k<length (at_children a'). at_children a' ! k = Exited))
    \<and> (at_failure a' = None \<longrightarrow> at_failure a = None)"
  using assms by (auto simp: childrenExited_def Let_def backed_def observe_def list_all_length split: if_splits)

lemma grace_loop_backed:
  "backed obs a \<Longrightarrow> set polls \<subseteq> obs \<Longrightarrow>
   backed obs (grace_loop a polls) \<and> length (at_children (grace_loop a polls)) = length (at_children a)"
proof (induction a polls rule: grace_loop.induct)
  case (2 a now later)
  obtain a' exited where c: "childrenExited a now = (a', exited)" by fastforce
  from childrenExited_backed [OF c 2(2)] 2(3) have
    b: "backed obs a'" "length (at_children a') = length (at_children a)" by auto
  show ?case
  proof (cases exited)
    case True
    with b c show ?thesis by simp
  next
    case False
    with 2(1) [OF c [symmetric]] b c 2(3) show ?thesis by simp
  qed
qed simp

lemma exit_loop_Some:
  assumes "exit_loop n a polls = Some (a', absent)" and "backed obs a" and "po_children ` set polls \<subseteq> obs"
  shows "(absent \<longrightarrow> (\<exists>p\<in>set polls. \<forall>k<n. po_gone p k \<and> \<not> po_error p k)
        \<and> (\<forall>k<length (at_children a). \<exists>now\<in>obs. now k = Exited))
    \<and> (\<not> absent \<longrightarrow> at_failure a' \<noteq> None)"
  using assms
proof (induction polls arbitrary: a)
  case (Cons p later)
  obtain a1 exited where c: "childrenExited a (po_children p) = (a1, exited)" by fastforce
  from childrenExited_backed [OF c Cons.prems(2)] Cons.prems(3) have
    b: "backed obs a1" "length (at_children a1) = length (at_children a)"
      "exited \<longrightarrow> (\<forall>k<length (at_children a1). at_children a1 ! k = Exited)" by auto
  let ?a2 = "fail_if (\<exists>k\<in>set [0..<n]. po_error p k) ''group_observation_failed'' a1"
  let ?absent = "exited \<and> (\<forall>k\<in>set [0..<n]. \<not> po_error p k \<and> po_gone p k)"
  have step: "exit_loop n a (p # later) = (if ?absent then Some (?a2, True)
      else if po_late p then Some (fail_stage ''exit_observation_timeout'' ?a2, False)
      else exit_loop n ?a2 later)"
    by (simp only: exit_loop.simps c case_prod_conv Let_def)
  show ?case
  proof (cases ?absent)
    case True
    have absent using Cons.prems(1) unfolding step if_P [OF True] by simp
    moreover have "\<forall>k<n. po_gone p k \<and> \<not> po_error p k" using True by auto
    moreover have "\<forall>k<length (at_children a). \<exists>now\<in>obs. now k = Exited"
      using True b by (auto simp: backed_def)
    ultimately show ?thesis by auto
  next
    case False
    note rest = Cons.prems(1) [unfolded step if_not_P [OF False]]
    show ?thesis
    proof (cases "po_late p")
      case True
      then show ?thesis using rest by auto
    next
      case False
      then have rec: "exit_loop n ?a2 later = Some (a', absent)" using rest by simp
      have "backed obs ?a2" "length (at_children ?a2) = length (at_children a)"
        using b by (auto simp: backed_def)
      with Cons.IH [OF rec] Cons.prems(3) show ?thesis by auto
    qed
  qed
qed simp

lemma exit_loop_ends: "\<exists>p\<in>set polls. po_late p \<Longrightarrow> exit_loop n a polls \<noteq> None"
proof (induction polls arbitrary: a)
  case (Cons p later)
  then show ?case by (cases "childrenExited a (po_children p)") (auto simp: Let_def)
qed simp

lemma exit_loop_fails: "exit_loop n a polls = Some (a', False) \<Longrightarrow> at_failure a' \<noteq> None"
proof (induction polls arbitrary: a)
  case (Cons p later)
  then show ?case
    by (cases "childrenExited a (po_children p)") (auto simp: Let_def split: if_splits)
qed simp

lemma cleanup_rounds_ok:
  assumes "cleanup_rounds a cbs = (a', executed)"
  shows "set cbs \<subseteq> set executed \<and> (\<forall>c\<in>set executed. set (cb_registers c) \<subseteq> set executed)
    \<and> (at_failure a' = None \<longrightarrow> at_failure a = None \<and> list_all cb_ok executed)"
  using assms
proof (induction a cbs arbitrary: executed rule: cleanup_rounds.induct)
  case (2 a c cs)
  obtain ex where rec: "cleanup_rounds (fail_if (\<not> list_all cb_ok (c # cs)) ''cleanup_callback_failed'' a)
        (concat (map cb_registers (c # cs))) = (a', ex)" and ex: "executed = (c # cs) @ ex"
    using 2(2) by (auto split: prod.splits)
  from 2(1) [OF rec] ex show ?case by fastforce
qed simp

lemma publish_sel [simp]:
  "sv_cleanup (publish a s) = sv_cleanup s"
  "sv_cleanup_err (publish a s) = None \<longleftrightarrow> at_failure a = None"
  "sv_phase (publish a s) = supervisorClosed \<longleftrightarrow> at_failure a = None"
  "sv_phase (publish a s) = supervisorFailed \<longleftrightarrow> at_failure a \<noteq> None"
  by (simp_all add: publish_def)

text \<open>The three ways an attempt can go.\<close>

lemma run_cleanup_polling:
  "exit_loop (length (sv_processes s)) (stop_processes s e cancelled) (ce_polls e) = None \<Longrightarrow>
   run_cleanup s e cancelled = None"
  by (simp add: run_cleanup_def)

lemma run_cleanup_timeout:
  "exit_loop (length (sv_processes s)) (stop_processes s e cancelled) (ce_polls e) = Some (a, False) \<Longrightarrow>
   run_cleanup s e cancelled
     = Some (publish a (s\<lparr>sv_cancel := [], sv_cleanup := pending_cleanup s cancelled\<rparr>), [], False)"
  by (simp add: run_cleanup_def)

lemma run_cleanup_absent:
  "exit_loop (length (sv_processes s)) (stop_processes s e cancelled) (ce_polls e) = Some (a, True) \<Longrightarrow>
   cleanup_rounds a (pending_cleanup s cancelled) = (a1, executed) \<Longrightarrow>
   removing = (at_failure a1 = None \<and> sp_persist_for_recovery (sv_spec s)) \<Longrightarrow>
   run_cleanup s e cancelled
     = Some (publish (fail_if (removing \<and> ce_forget_error e) ''recovery_removal_failed'' a1)
         (s\<lparr>sv_cancel := [], sv_cleanup := []\<rparr>), executed, removing \<and> \<not> ce_forget_error e)"
  by (simp add: run_cleanup_def Let_def)

section \<open>Samples\<close>

definition demo_spec :: supervisor_spec where
  "demo_spec = empty_spec\<lparr>sp_persist_for_recovery := True\<rparr>"

definition demo_supervisor :: supervisor where
  "demo_supervisor = (NewSupervisor ''i'' demo_spec)
     \<lparr>sv_processes := [7], sv_cleanup := [Callback True [Callback True []]]\<rparr>"

definition demo_cleanup_env :: "bool \<Rightarrow> cleanup_env" where
  "demo_cleanup_env gone = \<lparr>ce_term_error = (\<lambda>_. False), ce_grace = [\<lambda>_. Running],
     ce_probe_gone = (\<lambda>_. False), ce_probe_error = (\<lambda>_. False), ce_kill_error = (\<lambda>_. False),
     ce_polls = [\<lparr>po_children = (\<lambda>_. Running), po_gone = (\<lambda>_. False), po_error = (\<lambda>_. False), po_late = False\<rparr>,
       \<lparr>po_children = (\<lambda>_. Exited), po_gone = (\<lambda>_. gone), po_error = (\<lambda>_. False), po_late = True\<rparr>],
     ce_forget_error = False\<rparr>"

lemma demo_cleanup_closes:
  "\<exists>s'. runTerminalFlow demo_supervisor (demo_cleanup_env True) True
      = Some (s', [Callback True [Callback True []], Callback True []], True) \<and> sv_phase s' = supervisorClosed"
  by (simp add: runTerminalFlow_def run_cleanup_def demo_supervisor_def NewSupervisor_def demo_cleanup_env_def
      stop_processes_def childrenExited_def observe_def fail_if_def pending_cleanup_def demo_spec_def empty_spec_def Let_def)

section \<open>Properties\<close>

text \<open>C27: a closed barrier means that nothing is left.  When the cleanup of a supervisor ends in
  the phase closed, one observation found every process group gone, every child was seen to
  exit, every cleanup callback that was registered, by whatever earlier callback, has run
  without a panic, and the state file of a persistent invocation has been removed.\<close>

theorem closed_is_clean:
  assumes "runTerminalFlow s e cancelled = Some (s', executed, removed)" and "\<not> sv_started s"
    and "sv_phase s' = supervisorClosed"
  shows "(\<exists>p\<in>set (ce_polls e). \<forall>k<length (sv_processes s). po_gone p k \<and> \<not> po_error p k)
    \<and> (\<forall>k<length (sv_processes s). \<exists>now\<in>set (ce_grace e) \<union> po_children ` set (ce_polls e). now k = Exited)
    \<and> set (sv_cleanup s) \<subseteq> set executed \<and> (\<forall>c\<in>set executed. set (cb_registers c) \<subseteq> set executed)
    \<and> list_all cb_ok executed \<and> sv_cleanup s' = [] \<and> CleanupError s' = None
    \<and> (sp_persist_for_recovery (sv_spec s) \<longrightarrow> removed)"
proof -
  let ?s = "s\<lparr>sv_started := True, sv_phase := supervisorClosing\<rparr>"
  let ?n = "length (sv_processes s)"
  let ?obs = "set (ce_grace e) \<union> po_children ` set (ce_polls e)"
  have run: "run_cleanup ?s e cancelled = Some (s', executed, removed)"
    using assms(1,2) by (simp add: runTerminalFlow_def)
  let ?a = "stop_processes ?s e cancelled"
  have start: "backed ?obs ?a \<and> length (at_children ?a) = ?n"
  proof -
    let ?a0 = "\<lparr>at_children = replicate ?n Running, at_failure = None\<rparr>"
    have "backed ?obs (fail_if b2 x2 (fail_if b1 x1 ?a0))" for b1 b2 x1 x2
      by (simp add: backed_def)
    from grace_loop_backed [OF this, of "ce_grace e"] show ?thesis
      by (simp add: stop_processes_def Let_def backed_def)
  qed
  obtain a absent where ex: "exit_loop ?n ?a (ce_polls e) = Some (a, absent)"
    using run run_cleanup_polling [of ?s e cancelled] by (cases "exit_loop ?n ?a (ce_polls e)") auto
  have poll: "(absent \<longrightarrow> (\<exists>p\<in>set (ce_polls e). \<forall>k<?n. po_gone p k \<and> \<not> po_error p k)
        \<and> (\<forall>k<?n. \<exists>now\<in>?obs. now k = Exited)) \<and> (\<not> absent \<longrightarrow> at_failure a \<noteq> None)"
    using exit_loop_Some [OF ex, of ?obs] start by simp
  have absent
  proof (rule ccontr)
    assume "\<not> absent"
    with run_cleanup_timeout [of ?s e cancelled a] ex run assms(3) poll show False by auto
  qed
  with ex have ex: "exit_loop (length (sv_processes ?s)) ?a (ce_polls e) = Some (a, True)" by simp
  obtain a1 ran where rounds: "cleanup_rounds a (pending_cleanup ?s cancelled) = (a1, ran)" by fastforce
  note ended = run_cleanup_absent [OF ex rounds refl, unfolded run]
  from ended assms(3) have ok: "at_failure a1 = None" "\<not> (sp_persist_for_recovery (sv_spec s) \<and> ce_forget_error e)"
    by auto
  from cleanup_rounds_ok [OF rounds] ok have "set (pending_cleanup ?s cancelled) \<subseteq> set ran"
    "\<forall>c\<in>set ran. set (cb_registers c) \<subseteq> set ran" "list_all cb_ok ran" by auto
  with ended ok poll \<open>absent\<close> show ?thesis
    by (auto simp: CleanupError_def pending_cleanup_def)
qed

theorem closed_is_clean_witness:
  "\<exists>s'. runTerminalFlow demo_supervisor (demo_cleanup_env True) True
      = Some (s', [Callback True [Callback True []], Callback True []], True) \<and> sv_cleanup s' = []"
proof -
  obtain s' where run: "runTerminalFlow demo_supervisor (demo_cleanup_env True) True
      = Some (s', [Callback True [Callback True []], Callback True []], True)" "sv_phase s' = supervisorClosed"
    using demo_cleanup_closes by blast
  have "\<not> sv_started demo_supervisor" by (simp add: demo_supervisor_def NewSupervisor_def)
  from closed_is_clean [OF run(1) this run(2)] run(1) show ?thesis by blast
qed

text \<open>The cleanup comes to an end, and says how.  As soon as one poll comes after the
  deadline the attempt returns, whatever the processes do; the supervisor is then closed or
  failed, it reports an error exactly when it failed, and a failed attempt leaves the state
  file for the next process to find.\<close>

theorem cleanup_terminates:
  assumes "\<exists>p\<in>set (ce_polls e). po_late p" and "\<not> sv_started s"
  shows "\<exists>s' executed removed. runTerminalFlow s e cancelled = Some (s', executed, removed)
    \<and> (sv_phase s' = supervisorClosed \<or> sv_phase s' = supervisorFailed)
    \<and> (CleanupError s' \<noteq> None \<longleftrightarrow> sv_phase s' = supervisorFailed)
    \<and> (sv_phase s' = supervisorFailed \<longrightarrow> \<not> removed)"
proof -
  let ?s = "s\<lparr>sv_started := True, sv_phase := supervisorClosing\<rparr>"
  obtain a absent where ex: "exit_loop (length (sv_processes s)) (stop_processes ?s e cancelled) (ce_polls e) = Some (a, absent)"
    using exit_loop_ends [OF assms(1)] by fastforce
  have run: "runTerminalFlow s e cancelled = run_cleanup ?s e cancelled"
    using assms(2) by (simp add: runTerminalFlow_def)
  show ?thesis
  proof (cases absent)
    case True
    with ex have ex: "exit_loop (length (sv_processes ?s)) (stop_processes ?s e cancelled) (ce_polls e) = Some (a, True)"
      by simp
    obtain a1 executed where "cleanup_rounds a (pending_cleanup ?s cancelled) = (a1, executed)" by fastforce
    from run_cleanup_absent [OF ex this refl] show ?thesis unfolding run by (simp add: CleanupError_def del: not_None_eq)
  next
    case False
    with ex have ex: "exit_loop (length (sv_processes ?s)) (stop_processes ?s e cancelled) (ce_polls e) = Some (a, False)"
      by simp
    have "at_failure a \<noteq> None" using exit_loop_fails [OF ex] .
    with run_cleanup_timeout [OF ex] show ?thesis unfolding run by (auto simp: CleanupError_def publish_def)
  qed
qed

theorem cleanup_terminates_witness:
  "\<exists>s' executed. runTerminalFlow demo_supervisor (demo_cleanup_env False) True = Some (s', executed, False)
    \<and> sv_phase s' = supervisorFailed"
proof -
  have late: "\<exists>p\<in>set (ce_polls (demo_cleanup_env False)). po_late p" by (simp add: demo_cleanup_env_def)
  have "\<not> sv_started demo_supervisor" by (simp add: demo_supervisor_def NewSupervisor_def)
  from cleanup_terminates [OF late this, of True] obtain s' executed removed where
    run: "runTerminalFlow demo_supervisor (demo_cleanup_env False) True = Some (s', executed, removed)"
      "sv_phase s' = supervisorFailed \<longrightarrow> \<not> removed" by blast
  have "sv_phase s' = supervisorFailed"
    using run(1) by (auto simp: runTerminalFlow_def run_cleanup_def demo_supervisor_def NewSupervisor_def
        demo_cleanup_env_def stop_processes_def childrenExited_def observe_def fail_if_def fail_stage_def Let_def)
  with run show ?thesis by auto
qed

lemma recovery_numbers_valid:
  "recovery_numbers vs = Some ps \<Longrightarrow> list_all validProcessGroup ps"
  by (induction vs arbitrary: ps rule: recovery_numbers.induct)
    (auto simp: validProcessGroup_def split: if_splits)

lemma confirmAbsence_True:
  "confirmAbsence ps polls = Some True \<Longrightarrow>
   \<exists>p\<in>set polls. \<forall>g\<in>set ps. ap_absent p g \<and> \<not> ap_error p g"
  by (induction ps polls rule: confirmAbsence.induct)
    (auto simp: list_ex_iff list_all_iff split: if_splits)

text \<open>A reaped record is finished.  \<open>ReapOrphans\<close> removes a record only if every number in
  it is a valid process group, both signals were delivered to each, and one observation
  found all of them absent without an error.\<close>

theorem reaped_is_absent:
  assumes "reap_record data e = Some True"
  shows "\<exists>numbers pgids. data = Some (Some numbers) \<and> recovery_numbers numbers = Some pgids
    \<and> (\<forall>g\<in>set pgids. validProcessGroup g \<and> oe_term e g \<and> oe_kill e g)
    \<and> (\<exists>p\<in>set (oe_polls e). \<forall>g\<in>set pgids. ap_absent p g \<and> \<not> ap_error p g)"
proof -
  obtain numbers pgids where d: "data = Some (Some numbers)" "recovery_numbers numbers = Some pgids"
    "signalAll (oe_term e) pgids" "signalAll (oe_kill e) pgids" "confirmAbsence pgids (oe_polls e) = Some True"
    using assms by (auto simp: reap_record_def recoveryPgids_def Let_def bind_eq_Some_conv split: option.splits if_splits)
  with recovery_numbers_valid [OF d(2)] confirmAbsence_True [OF d(5)] show ?thesis
    by (auto simp: signalAll_def list_all_iff)
qed

definition demo_orphan_env :: orphan_env where
  "demo_orphan_env = \<lparr>oe_term = (\<lambda>_. True), oe_kill = (\<lambda>_. True),
     oe_polls = [\<lparr>ap_absent = (\<lambda>_. True), ap_error = (\<lambda>_. False), ap_expired = False\<rparr>],
     oe_remove_error = False\<rparr>"

theorem reaped_is_absent_witness:
  "reap_record (Some (Some [JInteger 7])) demo_orphan_env = Some True \<and> recovery_numbers [JInteger 7] = Some [7]"
proof -
  have run: "reap_record (Some (Some [JInteger 7])) demo_orphan_env = Some True"
    by (simp add: reap_record_def recoveryPgids_def maxProcessGroup_def demo_orphan_env_def signalAll_def)
  from reaped_is_absent [OF run] have "\<exists>pgids. recovery_numbers [JInteger 7] = Some pgids" by auto
  then show ?thesis using run by (auto simp: maxProcessGroup_def)
qed

end
