(* ===== verification/RuntimeEnding.thy ===== *)
theory RuntimeEnding
  imports RuntimeCapacity SupervisorProperties
begin

text \<open>
  How invocations end.  The invariant of the atomic steps says, for every registered
  invocation: its core is a lifecycle machine; its supervisor has run its cleanup once or not
  at all; a terminal core has a closed supervisor; and a cancel intent that was completed
  without an error belongs to a terminal core.  The properties are those of the operations:
  what a cancellation that returns without an error has achieved, and what an invocation that
  was started is.
\<close>

section \<open>The invariant\<close>

definition supervisor_ok :: "supervisor \<Rightarrow> bool" where
  "supervisor_ok s \<longleftrightarrow> (\<not> sv_started s \<and> sv_phase s = supervisorActive)
     \<or> (sv_started s \<and> (sv_phase s = supervisorClosed \<or> (sv_phase s = supervisorFailed \<and> CleanupError s \<noteq> None)))"

lemma supervisor_op_ok:
  assumes "supervisor_op s s'" and "supervisor_ok s"
  shows "supervisor_ok s' \<and> (sv_phase s = supervisorClosed \<longrightarrow> sv_phase s' = supervisorClosed)"
  using assms(1)
proof cases
  case (flow e cancelled executed removed)
  show ?thesis
  proof (cases "sv_started s")
    case True
    with flow assms(2) show ?thesis by (auto simp: runTerminalFlow_def split: if_splits)
  next
    case False
    have "sv_started s' \<and> (sv_phase s' = supervisorClosed \<or> (sv_phase s' = supervisorFailed \<and> CleanupError s' \<noteq> None))"
      using flow False by (auto simp: runTerminalFlow_def run_cleanup_def publish_def CleanupError_def Let_def
          split: if_splits option.splits prod.splits bool.splits)
    with False assms(2) show ?thesis by (auto simp: supervisor_ok_def)
  qed
qed (use assms(2) in \<open>auto simp: RegisterCleanup_def OnCancel_def SpawnProcessGroup_def supervisor_ok_def
    CleanupError_def Let_def split: option.splits if_splits sum.splits\<close>)

lemma settled_closed: "supervisor_ok s \<Longrightarrow> settled s \<Longrightarrow> sv_phase s = supervisorClosed"
  by (auto simp: supervisor_ok_def settled_def)

definition closed_supervisor :: "'h runtime \<Rightarrow> string \<Rightarrow> bool" where
  "closed_supervisor r i = (\<exists>s. rt_supervisors r i = Some s \<and> sv_phase s = supervisorClosed)"

definition invocation_ok :: "'h runtime \<Rightarrow> string \<Rightarrow> runtime_core \<Rightarrow> bool" where
  "invocation_ok r i c \<longleftrightarrow> machine_inv c \<and> (core_IsTerminal c \<longrightarrow> closed_supervisor r i)
     \<and> (\<exists>s. rt_supervisors r i = Some s \<and> supervisor_ok s)"

definition terminal_at :: "'h runtime \<Rightarrow> string \<Rightarrow> bool" where
  "terminal_at r i = (\<exists>c. rt_cores r i = Some c \<and> core_IsTerminal c)"

definition ending_inv :: "'h runtime \<Rightarrow> bool" where
  "ending_inv r \<longleftrightarrow> (\<forall>i c. rt_cores r i = Some c \<longrightarrow> invocation_ok r i c)
     \<and> (\<forall>t n. rt_cancel_intents r t = Some n \<longrightarrow> rt_cores r (tk_invocation_id t) \<noteq> None
          \<and> (ci_completed n \<and> ci_err n = None \<longrightarrow> terminal_at r (tk_invocation_id t)))"

lemma ending_at:
  assumes "ending_inv r" and "rt_cores r i = Some c"
  shows "machine_inv c" "core_IsTerminal c \<Longrightarrow> closed_supervisor r i"
    "rt_supervisors r i = Some s \<Longrightarrow> supervisor_ok s"
proof -
  have "invocation_ok r i c" using assms by (simp add: ending_inv_def)
  then show "machine_inv c" "core_IsTerminal c \<Longrightarrow> closed_supervisor r i"
    "rt_supervisors r i = Some s \<Longrightarrow> supervisor_ok s"
    by (auto simp: invocation_ok_def)
qed

lemma machine_ended: "machine_inv c \<Longrightarrow>
    core_IsTerminal c \<or> (0 < ic_terminal_closes c \<and> ic_finalization_err c = None) \<longleftrightarrow> core_IsTerminal c"
  by (auto simp: machine_inv_def)

lemma ended_terminal: "ending_inv r \<Longrightarrow> ended r i \<longleftrightarrow> terminal_at r i"
  using machine_ended by (fastforce simp: ending_inv_def invocation_ok_def ended_def terminal_at_def split: option.splits)

text \<open>A change of one core.\<close>

lemma ending_core:
  assumes "ending_inv r" and "rt_cores r i = Some c" and "machine_inv c'"
    and "core_IsTerminal c \<Longrightarrow> core_IsTerminal c'"
    and "core_IsTerminal c' \<Longrightarrow> core_IsTerminal c \<or> closed_supervisor r i"
    and "rt_cores r' = (rt_cores r)(i \<mapsto> c')" "rt_supervisors r' = rt_supervisors r"
    "rt_cancel_intents r' = rt_cancel_intents r"
  shows "ending_inv r'"
proof -
  have same: "closed_supervisor r' j = closed_supervisor r j" for j
    using assms(7) by (simp add: closed_supervisor_def)
  have "terminal_at r j \<Longrightarrow> terminal_at r' j" for j
    using assms(2,4,6) by (auto simp: terminal_at_def)
  moreover have "rt_cores r j \<noteq> None \<Longrightarrow> rt_cores r' j \<noteq> None" for j
    using assms(6) by simp
  moreover have "invocation_ok r' j d" if "rt_cores r' j = Some d" for j d
    using that assms same by (auto simp: ending_inv_def invocation_ok_def split: if_splits)
  ultimately show ?thesis using assms(1,8) by (auto simp: ending_inv_def)
qed

lemma ending_same:
  assumes "ending_inv r" and "rt_cores r' = rt_cores r" "rt_supervisors r' = rt_supervisors r"
    "rt_cancel_intents r' = rt_cancel_intents r"
  shows "ending_inv r'"
  using assms by (simp add: ending_inv_def invocation_ok_def closed_supervisor_def terminal_at_def)

text \<open>A registration under a new identifier.\<close>

lemma ending_register:
  assumes "ending_inv r" and "rt_cores r i = None" and "machine_inv c" and "ic_state c = StateRunning"
    and "rt_cores r' = (rt_cores r)(i \<mapsto> c)" "rt_supervisors r' = (rt_supervisors r)(i \<mapsto> NewSupervisor i spec)"
    "rt_cancel_intents r' = rt_cancel_intents r"
  shows "ending_inv r'"
proof -
  have "\<not> core_IsTerminal c" using assms(4) by (simp add: core_IsTerminal_def)
  moreover have "supervisor_ok (NewSupervisor i spec)" by (simp add: supervisor_ok_def NewSupervisor_def)
  moreover have "closed_supervisor r j \<Longrightarrow> closed_supervisor r' j" if "j \<noteq> i" for j
    using that assms(6) by (simp add: closed_supervisor_def)
  moreover have "terminal_at r j \<Longrightarrow> terminal_at r' j" for j
    using assms(2,5) by (auto simp: terminal_at_def)
  ultimately show ?thesis using assms
    by (auto simp: ending_inv_def invocation_ok_def)
qed

lemma emission_ending:
  assumes "emit_registered P resolve i r em now d = (r', res)" and "ending_inv r"
    and "\<not> state_IsTerminal (em_state em) \<or> closed_supervisor r i"
  shows "ending_inv r'"
  using assms(1)
proof (cases rule: emit_registered_cases)
  case (emitted p l c x)
  have "machine_inv c" using ending_at(1) [OF assms(2) emitted(1)] .
  then show ?thesis
    using emitted machine_inv_commit emit_guard_None [OF emitted(2)] assms(3)
    by (intro ending_core [OF assms(2) emitted(1), of "emit_commit c em (emit_event c em now)"])
      (auto simp: core_IsTerminal_def)
qed (auto intro: ending_same [OF assms(2)])

lemma claim_ending: "claim_registered i owner r = (r', won) \<Longrightarrow> ending_inv r \<Longrightarrow> ending_inv r'"
proof -
  assume c: "claim_registered i owner r = (r', won)" and inv: "ending_inv r"
  show ?thesis
  proof (cases "rt_cores r i")
    case (Some core)
    obtain core' where "claimTerminal core owner = (core', won)" "r' = r\<lparr>rt_cores := (rt_cores r)(i \<mapsto> core')\<rparr>"
      using c Some by (auto simp: claim_registered_def split: prod.splits)
    moreover have "machine_inv core" using ending_at(1) [OF inv Some] .
    ultimately show ?thesis
      using machine_inv_claim [of core owner]
      by (intro ending_core [OF inv Some, of core'])
        (auto simp: claimTerminal_def core_IsTerminal_def split: if_splits)
  qed (use c inv in \<open>simp add: claim_registered_def\<close>)
qed

lemma failFinalization_terminal [simp]: "core_IsTerminal (failFinalization c e) = core_IsTerminal c"
  by (simp add: failFinalization_def core_IsTerminal_def)

lemma fail_ending:
  assumes "ending_inv r"
  shows "ending_inv (fail_with i e r)"
proof (cases e)
  case (AxonErr err)
  show ?thesis
  proof (cases "rt_cores r i")
    case (Some c)
    have "machine_inv c" using ending_at(1) [OF assms Some] .
    then show ?thesis
      using machine_inv_fail [of c err] Some AxonErr
      by (intro ending_core [OF assms Some, of "failFinalization c err"]) (simp_all add: update_core_def)
  next
    case None
    then have "fail_with i e r = r" using AxonErr by (cases r) (simp add: update_core_def fun_upd_idem)
    with assms show ?thesis by simp
  qed
qed (use assms in simp)

lemma log_frame:
  assumes "runtime_log f missing r = (r', res)"
  shows "rt_cores r' = rt_cores r" "rt_supervisors r' = rt_supervisors r" "rt_cancel_intents r' = rt_cancel_intents r"
    "rt_children r' = rt_children r"
  using assms by (auto simp: runtime_log_def split: option.splits prod.splits)

lemma execution_frame [simp]:
  "rt_cores (update_execution i f r) = rt_cores r" "rt_supervisors (update_execution i f r) = rt_supervisors r"
  "rt_cancel_intents (update_execution i f r) = rt_cancel_intents r" "rt_children (update_execution i f r) = rt_children r"
  by (simp_all add: update_execution_def)

lemma suspend_frame:
  assumes "suspend_locked P t r = (r', x)"
  shows "rt_cores r' = rt_cores r" "rt_supervisors r' = rt_supervisors r" "rt_cancel_intents r' = rt_cancel_intents r"
    "rt_children r' = rt_children r"
  using assms by (auto simp: suspend_locked_def Let_def dest: log_frame
      split: if_splits option.splits prod.splits result.splits)

lemma abandon_frame:
  "rt_cores (abandonRecoveredExecution t r) = rt_cores r" "rt_supervisors (abandonRecoveredExecution t r) = rt_supervisors r"
  "rt_cancel_intents (abandonRecoveredExecution t r) = rt_cancel_intents r"
  "rt_children (abandonRecoveredExecution t r) = rt_children r"
  by (auto simp: abandonRecoveredExecution_def Let_def split: option.splits)

lemma flight_unregistered:
  assumes "slots_inv (r, add_mset (q, Some i) F)"
  shows "rt_cores r i = None"
proof -
  have "fresh_flights (parent_of r) (dom (pv_contexts (rt_provider r))) (add_mset (q, Some i) F)"
    using assms by (simp add: slots_inv_def accounted_def)
  then have "parent_of r i = None" by (simp add: fresh_flights_def)
  then show ?thesis by (simp add: parent_of_def)
qed

definition runtime_inv :: "'h runtime \<times> flight multiset \<Rightarrow> bool" where
  "runtime_inv x = (slots_inv x \<and> ending_inv (fst x))"

lemma ending_inv_kept: "runtime_step P resolve x y \<Longrightarrow> runtime_inv x \<Longrightarrow> ending_inv (fst y)"
proof (induction rule: runtime_step.induct)
  case (register c parentID r i F sink spec inbox execution)
  then show ?case
    using flight_unregistered [where r = r and q = parentID and i = i and F = F]
    by - (rule ending_register [of r i c _ spec],
        auto simp: runtime_inv_def register_invocation_def register_entries_def Let_def)
next
  case (register_again c s r F)
  then show ?case
    using flight_unregistered [where r = r and q = "sn_parent s" and i = "sn_invocation_id s" and F = F]
    by - (rule ending_register [of r "sn_invocation_id s" c _ "sn_spec s"],
        auto simp: runtime_inv_def register_recovered_def register_entries_def Let_def)
next
  case (emission i r em now d r' res F)
  then show ?case using emission_ending by (fastforce simp: runtime_inv_def)
next
  case (ending i r em now d r' res s F)
  then have inv: "ending_inv r" by (simp add: runtime_inv_def)
  show ?case
  proof (cases "rt_cores r i")
    case (Some c)
    with inv ending(2) have "supervisor_ok s" by (blast intro: ending_at)
    with ending(2,3) have "closed_supervisor r i" by (auto simp: closed_supervisor_def settled_closed)
    with emission_ending [OF ending(1) inv] show ?thesis by simp
  next
    case None
    with ending(1) have "r' = r" by (auto simp: emit_registered_def)
    with inv show ?thesis by simp
  qed
next
  case (read r i c st d c' st' event F)
  have "\<exists>e. c' = acknowledge c e"
    using read(2) by (auto simp: stream_Next_def acknowledge_def split: if_splits option.splits list.splits)
  then obtain e where c': "c' = acknowledge c e" by blast
  have "machine_inv c" using read ending_at(1) by (fastforce simp: runtime_inv_def)
  then have "machine_inv c'" unfolding c' by (rule machine_inv_acknowledge)
  moreover have "core_IsTerminal c' = core_IsTerminal c"
    by (auto simp: c' acknowledge_def core_IsTerminal_def split: option.splits)
  ultimately show ?case using read
    by - (rule ending_core [of r i c c'], auto simp: runtime_inv_def)
next
  case (supervise r i s s' F)
  then have inv: "ending_inv r" by (simp add: runtime_inv_def)
  let ?r = "r\<lparr>rt_supervisors := (rt_supervisors r)(i \<mapsto> s')\<rparr>"
  have "invocation_ok ?r j c" if "rt_cores r j = Some c" for j c
  proof -
    have ok: "invocation_ok r j c" using inv that by (simp add: ending_inv_def)
    show ?thesis
    proof (cases "j = i")
      case True
      with ok supervise supervisor_op_ok [of s s'] show ?thesis
        by (auto simp: invocation_ok_def closed_supervisor_def)
    qed (use ok in \<open>simp add: invocation_ok_def closed_supervisor_def\<close>)
  qed
  with inv show ?case by (simp add: ending_inv_def terminal_at_def)
next
  case (intend r t v F)
  then have inv: "ending_inv r" by (simp add: runtime_inv_def)
  with intend ended_terminal [OF inv] show ?case
    by (auto simp: ending_inv_def invocation_ok_def closed_supervisor_def terminal_at_def intent_sound_def
        split: option.splits)
next
  case (prepare sink c r em now d c' r' res F)
  from this(1) show ?case
    by (cases rule: core_emit_cases) (use prepare(2) in \<open>auto simp: runtime_inv_def intro: ending_same\<close>)
next
  case (bind failure j admission descriptor implementation r r' ctx parentID F)
  then show ?case
    by (auto simp: runtime_inv_def bind_context_def intro: ending_same split: prod.splits)
next
  case (claim i owner r r' won F)
  then show ?case using claim_ending by (fastforce simp: runtime_inv_def)
next
  case (fail r F i e)
  then show ?case by (simp add: runtime_inv_def fail_ending)
next
  case (suspend t r r' x F)
  then show ?case using suspend_frame [OF suspend(1)] by (auto simp: runtime_inv_def intro: ending_same)
next
  case (abandon r F t)
  then show ?case by (simp add: runtime_inv_def ending_same [OF _ abandon_frame(1-3)])
qed (auto simp: runtime_inv_def reserveInvocation_def reserve_recovered_def releaseUnboundReservation_def
    release_slot_def update_rest_def intro: ending_same split: if_splits option.splits)

lemma runtime_inv_kept: "runtime_step P resolve x y \<Longrightarrow> runtime_inv x \<Longrightarrow> runtime_inv y"
  using slots_inv_kept ending_inv_kept unfolding runtime_inv_def by blast

lemma NewLocalRuntimeWithOptions_idle:
  "NewLocalRuntimeWithOptions resolver providers log runtimeID = Ok r \<Longrightarrow>
     rt_cores r = Map.empty \<and> rt_cancel_intents r = Map.empty"
  by (cases resolver; cases providers) (auto simp: NewLocalRuntimeWithOptions_def)

lemma runtime_inv_initially: "slots_initial x \<Longrightarrow> runtime_inv x"
  using slots_inv_initially [of x]
  by (auto simp: runtime_inv_def ending_inv_def slots_initial_def dest!: NewLocalRuntimeWithOptions_idle)

interpretation runtime_sys: transition_system slots_initial "runtime_step P resolve" runtime_inv
  by unfold_locales (erule runtime_inv_initially, erule (1) runtime_inv_kept)

end
