(* ===== verification/RuntimeProperties.thy ===== *)
theory RuntimeProperties
  imports RuntimeEnding
begin

text \<open>
  What the operations of the runtime promise: an invocation is terminal only after its cleanup,
  a cancellation that returns without an error has ended the invocation and its children, an
  invocation that was started is the one that was signed, and a capacity refusal uses up the
  nonce of the request.
\<close>

section \<open>Terminal cores stay\<close>

lemma terminal_register:
  "terminal_at r j \<Longrightarrow> rt_cores r i = None \<Longrightarrow> rt_cores r' = (rt_cores r)(i \<mapsto> c) \<Longrightarrow> terminal_at r' j"
  by (auto simp: terminal_at_def)

lemma terminal_update:
  assumes "terminal_at r j" and "rt_cores r i = Some c" "rt_cores r' = (rt_cores r)(i \<mapsto> c')"
    and "core_IsTerminal c \<Longrightarrow> core_IsTerminal c'"
  shows "terminal_at r' j"
  using assms by (auto simp: terminal_at_def)

lemma terminal_same: "terminal_at r j \<Longrightarrow> rt_cores r' = rt_cores r \<Longrightarrow> terminal_at r' j"
  by (simp add: terminal_at_def)

lemma emission_terminal:
  assumes "emit_registered P resolve i r em now d = (r', res)" and "terminal_at r j"
  shows "terminal_at r' j"
  using assms(1)
proof (cases rule: emit_registered_cases)
  case (emitted p l c x)
  then show ?thesis using emit_guard_None(1) [OF emitted(2)] by (intro terminal_update [OF assms(2) emitted(1)]) auto
qed (use assms(2) in \<open>auto intro: terminal_same\<close>)

lemma claim_terminal:
  assumes "claim_registered i owner r = (r', won)" and "terminal_at r j"
  shows "terminal_at r' j"
proof (cases "rt_cores r i")
  case (Some c)
  with assms(1) have "rt_cores r' = (rt_cores r)(i \<mapsto> fst (claimTerminal c owner))"
    by (auto simp: claim_registered_def split: prod.splits)
  then show ?thesis
    by (rule terminal_update [OF assms(2) Some]) (auto simp: claimTerminal_def core_IsTerminal_def)
qed (use assms in \<open>simp add: claim_registered_def\<close>)

lemma fail_terminal: "terminal_at r j \<Longrightarrow> terminal_at (fail_with i e r) j"
  by (cases e) (auto simp: terminal_at_def update_core_def)

lemma terminal_kept:
  "runtime_step P resolve x y \<Longrightarrow> runtime_inv x \<Longrightarrow> terminal_at (fst x) j \<Longrightarrow> terminal_at (fst y) j"
proof (induction rule: runtime_step.induct)
  case (register c parentID r i F sink spec inbox execution)
  then have "rt_cores r i = None" using flight_unregistered by (auto simp: runtime_inv_def)
  with register(5) show ?case
    by (auto intro: terminal_register simp: register_invocation_def register_entries_def Let_def)
next
  case (register_again c s r F)
  then have "rt_cores r (sn_invocation_id s) = None" using flight_unregistered by (auto simp: runtime_inv_def)
  with register_again(5) show ?case
    by (auto intro: terminal_register simp: register_recovered_def register_entries_def Let_def)
next
  case (read r i c st d c' st' event F)
  have "core_IsTerminal c' = core_IsTerminal c"
    using read(2) by (auto simp: stream_Next_def acknowledge_def core_IsTerminal_def
        split: if_splits option.splits list.splits)
  with read show ?case by (auto intro: terminal_update)
next
  case (bind failure k admission descriptor implementation r r' ctx parentID F)
  then show ?case by (auto simp: bind_context_def terminal_at_def split: prod.splits)
next
  case (prepare sink c r em now d c' r' res F)
  from prepare(1) show ?case
    by (cases rule: core_emit_cases) (use prepare(3) in \<open>auto simp: terminal_at_def\<close>)
next
  case (suspend t r r' x F)
  then show ?case using suspend_frame(1) [OF suspend(1)] by (auto intro: terminal_same)
next
  case (abandon r F t)
  then show ?case using abandon_frame(1) [of t r] by (auto intro: terminal_same)
qed (auto intro: emission_terminal claim_terminal fail_terminal terminal_same simp: reserveInvocation_def
    reserve_recovered_def releaseUnboundReservation_def release_slot_def update_rest_def
    split: if_splits option.splits)

lemma steps_terminal:
  assumes "runtime_steps P resolve x y" and "runtime_inv x" and "terminal_at (fst x) j"
  shows "terminal_at (fst y) j"
  using assms
proof (induction rule: rtranclp_induct)
  case (step y z)
  have "runtime_inv y" by (rule runtime_sys.steps_inv [OF step(1,4)])
  with step terminal_kept show ?case by blast
qed simp

lemma terminal_closed:
  assumes "runtime_inv (r, F)" and "terminal_at r i"
  shows "closed_supervisor r i"
  using assms ending_at(2) by (auto simp: runtime_inv_def terminal_at_def)

section \<open>Threads\<close>

text \<open>
  The guards of \<open>runtime_step\<close> are those of the atomic sections; here the threads run the
  code.  A step is a whole operation of the API, or a section of some other operation that
  makes no invocation terminal, or one half of \<open>finish_invocation\<close>: \<open>finishCleanup\<close>, and
  then \<open>emit\<close> of the terminal event if that returned without an error.  The third component
  of the state holds the invocations between the two halves.
\<close>

inductive thread_step ::
  "platform \<Rightarrow> authority_resolver \<Rightarrow> 'h runtime \<times> flight multiset \<times> string set \<Rightarrow>
   'h runtime \<times> flight multiset \<times> string set \<Rightarrow> bool" for P resolve where
  operation: "runtime_op P resolve r r' \<Longrightarrow> thread_step P resolve (r, F, D) (r', F, D)"
| section_step: "\<lbrakk>runtime_step P resolve (r, F) (r', F'); \<And>i. terminal_at r' i \<Longrightarrow> terminal_at r i\<rbrakk>
     \<Longrightarrow> thread_step P resolve (r, F, D) (r', F', D)"
| cleaned: "\<lbrakk>rt_cores r i \<noteq> None; finishCleanup P i e cancelled r = Some (r', Ok u)\<rbrakk>
     \<Longrightarrow> thread_step P resolve (r, F, D) (r', F, insert i D)"
| uncleaned: "\<lbrakk>finishCleanup P i e cancelled r = Some (r', res); \<not> is_ok res\<rbrakk>
     \<Longrightarrow> thread_step P resolve (r, F, D) (r', F, D)"
| finished: "\<lbrakk>i \<in> D; emit P resolve i r em now False = (r', res)\<rbrakk>
     \<Longrightarrow> thread_step P resolve (r, F, D) (r', F, D - {i})"

text \<open>A supervisor that has closed without an error stays as it is.\<close>

definition cleaned_up :: "'h runtime \<Rightarrow> string \<Rightarrow> bool" where
  "cleaned_up r i \<longleftrightarrow> rt_cores r i \<noteq> None \<and> (\<exists>s. rt_supervisors r i = Some s \<and> settled s)"

lemma supervisor_op_settled: "supervisor_op s s' \<Longrightarrow> settled s \<Longrightarrow> settled s'"
  by (erule supervisor_op.cases)
    (auto simp: settled_def runTerminalFlow_def RegisterCleanup_def OnCancel_def SpawnProcessGroup_def
      CleanupError_def Let_def split: option.splits if_splits sum.splits)

lemma cleaned_same:
  "cleaned_up r j \<Longrightarrow> rt_cores r' = rt_cores r \<Longrightarrow> rt_supervisors r' = rt_supervisors r \<Longrightarrow> cleaned_up r' j"
  by (simp add: cleaned_up_def)

lemma cleaned_core:
  "cleaned_up r j \<Longrightarrow> rt_cores r' = (rt_cores r)(i := x) \<Longrightarrow> (x = None \<Longrightarrow> rt_cores r i = None) \<Longrightarrow>
    rt_supervisors r' = rt_supervisors r \<Longrightarrow> cleaned_up r' j"
  by (cases x) (auto simp: cleaned_up_def)

lemma cleaned_register:
  "cleaned_up r j \<Longrightarrow> rt_cores r i = None \<Longrightarrow> rt_cores r' = (rt_cores r)(i \<mapsto> c) \<Longrightarrow>
    rt_supervisors r' = (rt_supervisors r)(i \<mapsto> s) \<Longrightarrow> cleaned_up r' j"
  by (auto simp: cleaned_up_def closed_supervisor_def)

lemma emission_cleaned:
  "emit_registered P resolve i r em now d = (r', res) \<Longrightarrow> cleaned_up r j \<Longrightarrow> cleaned_up r' j"
  by (erule emit_registered_cases) (auto intro: cleaned_same cleaned_core)

lemma cleaned_kept:
  "runtime_step P resolve x y \<Longrightarrow> runtime_inv x \<Longrightarrow> cleaned_up (fst x) j \<Longrightarrow> cleaned_up (fst y) j"
proof (induction rule: runtime_step.induct)
  case (register c parentID r i F sink spec inbox execution)
  then have "rt_cores r i = None" using flight_unregistered by (auto simp: runtime_inv_def)
  with register(5) show ?case
    by (auto intro: cleaned_register simp: register_invocation_def register_entries_def Let_def)
next
  case (register_again c s r F)
  then have "rt_cores r (sn_invocation_id s) = None" using flight_unregistered by (auto simp: runtime_inv_def)
  with register_again(5) show ?case
    by (auto intro: cleaned_register simp: register_recovered_def register_entries_def Let_def)
next
  case (supervise r i s s' F)
  then show ?case using supervisor_op_settled [OF supervise(2)] by (auto simp: cleaned_up_def)
next
  case (claim i owner r r' won F)
  then show ?case
    by (auto simp: claim_registered_def intro: cleaned_core split: option.splits prod.splits)
next
  case (fail r F i e)
  then show ?case by (cases e) (auto simp: update_core_def intro: cleaned_core)
next
  case (bind failure k admission descriptor implementation r r' ctx parentID F)
  then show ?case by (auto simp: bind_context_def intro: cleaned_same split: prod.splits)
next
  case (prepare sink c r em now d c' r' res F)
  from prepare(1) show ?case
    by (cases rule: core_emit_cases) (use prepare(3) in \<open>auto intro: cleaned_same\<close>)
next
  case (suspend t r r' x F)
  then show ?case using suspend_frame(1,2) [OF suspend(1)] by (auto intro: cleaned_same)
next
  case (abandon r F t)
  then show ?case using abandon_frame(1,2) [of t r] by (auto intro: cleaned_same)
qed (auto intro: emission_cleaned cleaned_same cleaned_core simp: reserveInvocation_def
    reserve_recovered_def releaseUnboundReservation_def release_slot_def update_rest_def
    split: if_splits option.splits)

lemma steps_cleaned:
  assumes "runtime_steps P resolve x y" and "runtime_inv x" and "cleaned_up (fst x) j"
  shows "cleaned_up (fst y) j"
  using assms
proof (induction rule: rtranclp_induct)
  case (step y z)
  have "runtime_inv y" by (rule runtime_sys.steps_inv [OF step(1,4)])
  with step cleaned_kept show ?case by blast
qed simp

definition threads_inv :: "'h runtime \<times> flight multiset \<times> string set \<Rightarrow> bool" where
  "threads_inv x = (case x of (r, F, D) \<Rightarrow> runtime_inv (r, F) \<and> (\<forall>i\<in>D. cleaned_up r i))"

lemma threads_steps:
  assumes "runtime_steps P resolve (r, F) (r', F')" and "threads_inv (r, F, D)"
  shows "threads_inv (r', F', D)"
  using assms runtime_sys.steps_inv [OF assms(1)] steps_cleaned [OF assms(1)] by (auto simp: threads_inv_def)

lemma threads_inv_kept: "thread_step P resolve x y \<Longrightarrow> threads_inv x \<Longrightarrow> threads_inv y"
proof (induction rule: thread_step.induct)
  case (operation r r' F D)
  then show ?case by (blast intro: threads_steps runtime_op_steps)
next
  case (section_step r F r' F' D)
  then show ?case by (blast intro: threads_steps)
next
  case (cleaned r i e cancelled r' u F D)
  note s = finishCleanup_steps [OF cleaned(2), of resolve F]
  then have inv: "threads_inv (r', F, D)" using threads_steps cleaned(3) by blast
  have "cleaned_up r' i" using s cleaned(1) by (simp add: cleaned_up_def)
  with inv show ?case by (simp add: threads_inv_def)
next
  case (uncleaned i e cancelled r r' res F D)
  then show ?case using finishCleanup_steps [OF uncleaned(1), of resolve F] threads_steps by blast
next
  case (finished i D r em now r' res F)
  then obtain s where "rt_supervisors r i = Some s" "settled s"
    by (auto simp: threads_inv_def cleaned_up_def)
  from threads_steps [OF emit_ending_steps [OF finished(2) this] finished(3)] show ?case
    by (simp add: threads_inv_def)
qed

lemma threads_inv_reachable:
  assumes "slots_initial (r0, {#})" and "(thread_step P resolve)\<^sup>*\<^sup>* (r0, {#}, {}) x"
  shows "threads_inv x"
  using assms(2)
proof (induction rule: rtranclp_induct)
  case base
  have "runtime_inv (r0, {#})" by (rule runtime_sys.reachable_inv [OF assms(1) rtranclp.rtrancl_refl])
  then show ?case by (simp add: threads_inv_def)
qed (rule threads_inv_kept)

text \<open>A run of sections after which nothing is terminal is a run of threads.\<close>

lemma section_steps_threads:
  assumes "runtime_steps P resolve x (r, F)" and "slots_initial x" and "\<And>i. \<not> terminal_at r i"
  shows "(thread_step P resolve)\<^sup>*\<^sup>* (fst x, snd x, D) (r, F, D)"
  using assms(1,3)
proof (induction "(r, F)" arbitrary: r F rule: rtranclp_induct)
  case (step y)
  obtain r1 F1 where y: "y = (r1, F1)" by fastforce
  have inv: "runtime_inv (r1, F1)" using runtime_sys.reachable_inv [OF assms(2) step(1)] y by simp
  have none: "\<not> terminal_at r1 i" for i
    using terminal_kept [OF step(2) [unfolded y] inv] step.prems by auto
  have "thread_step P resolve (r1, F1, D) (r, F, D)"
    by (rule thread_step.section_step [OF step(2) [unfolded y]]) (use step.prems in blast)
  with step.hyps(3) [OF y none] show ?case by (rule rtranclp.rtrancl_into_rtrancl)
qed simp

section \<open>What a cancellation achieves\<close>

lemma cancel_ends:
  assumes "cancelWithControlOwner fuel P resolve e reason owner t r = Some (r', Ok u)" and "runtime_inv (r, F)"
  shows "terminal_at r' (tk_invocation_id t)"
proof (cases fuel)
  case (Suc n)
  let ?i = "tk_invocation_id t"
  have inv: "ending_inv r" using assms(2) by (simp add: runtime_inv_def)
  have inv': "ending_inv r'"
    using assms runtime_sys.steps_inv cancel_steps [of P resolve F fuel e reason owner]
    unfolding ending_steps_def runtime_inv_def by fastforce
  have ok: "validateControlLocked r t = Ok ()"
    using assms(1) Suc by (auto simp: Let_def split: result.splits)
  show ?thesis
  proof (cases "rt_cancel_intents r t")
    case (Some m)
    with assms(1) Suc ok have "r' = r" "ci_completed m" "ci_err m = None"
      by (auto simp: Let_def split: if_splits elim: error_result.elims)
    with inv Some show ?thesis by (auto simp: ending_inv_def)
  next
    case None
    obtain core where core: "rt_cores r ?i = Some core"
      using assms(1) Suc ok None by (cases "rt_cores r ?i") (auto simp: Let_def)
    let ?r1 = "r\<lparr>rt_cancel_intents := (rt_cancel_intents r)(t \<mapsto>
        \<lparr>ci_completed = False, ci_reason = reason, ci_owner = owner, ci_err = None\<rparr>)\<rparr>"
    obtain r2 won where c: "claim_registered ?i owner ?r1 = (r2, won)" by fastforce
    have registered: "rt_cores r2 ?i \<noteq> None" using claim_frame(4) [OF c] core by auto
    have "ended r' ?i"
    proof (cases "core_IsTerminal core")
      case True
      with assms(1) Suc ok None core show ?thesis by (auto simp: Let_def ended_def)
    next
      case alive: False
      show ?thesis
      proof (cases won)
        case False
        with assms(1) Suc ok None core alive c have w: "wait_terminal ?i r2 = Some None"
          and r': "r' = completeCancelIntent t None r2"
          by (auto simp: Let_def complete_with_def split: option.splits elim!: error_result.elims)
        from wait_terminal_ended [OF w] show ?thesis by (simp add: r' ended_def completeCancelIntent_def)
      next
        case True
        with assms(1) Suc ok None core alive c obtain r3 v where
          e: "end_claimed P resolve e
            (cancelWithControlOwner n P resolve e ''parent_terminal:CANCELLED'' terminalOwnerParentCancel)
            ?i (terminal_emission ''cancelled'' StateCancelled [] reason) r2 = Some (r3, Ok v)"
          and r': "r' = completeCancelIntent t None r3"
          by (auto simp: Let_def complete_with_def split: option.splits result.splits)
        have "ended r3 ?i"
          by (rule end_claimed_ends [OF cancel_steps e _ registered])
            (simp_all add: terminal_emission_def state_IsTerminal_def state_defs)
        then show ?thesis by (simp add: r' ended_def completeCancelIntent_def)
      qed
    qed
    with ended_terminal [OF inv'] show ?thesis by simp
  qed
qed (use assms(1) in simp)

text \<open>The children whose endings were awaited without an error.\<close>

lemma each_child_terminal:
  assumes "ending_steps P resolve F ending"
    and "\<And>t r r' u. ending t r = Some (r', Ok u) \<Longrightarrow> runtime_inv (r, F) \<Longrightarrow> terminal_at r' (tk_invocation_id t)"
    and "each_child ending ts r = Some (r', Ok v)" and "runtime_inv (r, F)" and "t \<in> set ts"
  shows "terminal_at r' (tk_invocation_id t)"
  using assms(3-)
proof (induction ts arbitrary: r)
  case (Cons s ts)
  obtain r1 u where e: "ending s r = Some (r1, Ok u)"
    using Cons.prems(1) by (auto split: option.splits result.splits)
  then have rest: "each_child ending ts r1 = Some (r', Ok v)" using Cons.prems(1) by simp
  have "runtime_steps P resolve (r, F) (r1, F)" using assms(1) e unfolding ending_steps_def by blast
  from runtime_sys.steps_inv [OF this Cons.prems(2)] have inv: "runtime_inv (r1, F)" .
  show ?case
  proof (cases "t = s")
    case True
    from each_child_steps [OF assms(1) rest] have "runtime_steps P resolve (r1, F) (r', F)" ..
    from steps_terminal [OF this inv] assms(2) [OF e Cons.prems(2)] True show ?thesis by simp
  next
    case False
    with Cons.IH [OF rest inv] Cons.prems(3) show ?thesis by simp
  qed
qed simp

lemma end_claimed_children:
  assumes "ending_steps P resolve F ending"
    and "\<And>t r r' u. ending t r = Some (r', Ok u) \<Longrightarrow> runtime_inv (r, F) \<Longrightarrow> terminal_at r' (tk_invocation_id t)"
    and "end_claimed P resolve e ending i em r = Some (r', Ok v)" and "runtime_inv (r, F)"
    and "j \<in> set (rt_children r i)"
  shows "terminal_at r' j"
proof -
  let ?r = "signalTerminalStop i r"
  obtain r1 u where c: "each_child ending (childTokensLocked r i) ?r = Some (r1, Ok u)"
    using assms(3) by (auto simp: end_claimed_def split: option.splits result.splits)
  have f: "finish_invocation P resolve i (ee_cleanup e i) True em (ee_now e i) r1 = Some (r', Ok v)"
    using assms(3) c by (simp add: end_claimed_def)
  have inv: "runtime_inv (?r, F)"
    by (rule runtime_sys.steps_inv [OF signal_steps [OF rtranclp.rtrancl_refl] assms(4)])
  obtain t where t: "t \<in> set (childTokensLocked r i)" "tk_invocation_id t = j"
    using assms(5) that by (fastforce simp: childTokensLocked_def)
  have "terminal_at r1 j" using each_child_terminal [OF assms(1,2) c inv t(1)] t(2) by simp
  moreover have "runtime_inv (r1, F)"
    using runtime_sys.steps_inv each_child_steps [OF assms(1) c] inv by blast
  ultimately show ?thesis
    using steps_terminal [OF finish_invocation_steps [OF f]] by simp
qed

text \<open>A cancellation that wins the claim.\<close>

lemma cancel_wins:
  assumes "cancelWithControlOwner fuel P resolve e reason owner t r = Some (r', Ok u)"
    and "rt_cores r (tk_invocation_id t) = Some c" "\<not> core_IsTerminal c" "\<not> terminalClaimed c"
    "rt_cancel_intents r t = None"
  obtains n r2 r3 v where "runtime_steps P resolve (r, F) (r2, F)" "rt_children r2 = rt_children r"
    "end_claimed P resolve e
       (cancelWithControlOwner n P resolve e ''parent_terminal:CANCELLED'' terminalOwnerParentCancel)
       (tk_invocation_id t) (terminal_emission ''cancelled'' StateCancelled [] reason) r2 = Some (r3, Ok v)"
    "rt_cores r' = rt_cores r3"
proof (cases fuel)
  case (Suc n)
  let ?i = "tk_invocation_id t"
  have ok: "validateControlLocked r t = Ok ()"
    using assms(1) Suc by (auto simp: Let_def split: result.splits)
  let ?r1 = "r\<lparr>rt_cancel_intents := (rt_cancel_intents r)(t \<mapsto>
      \<lparr>ci_completed = False, ci_reason = reason, ci_owner = owner, ci_err = None\<rparr>)\<rparr>"
  obtain r2 where c: "claim_registered ?i owner ?r1 = (r2, True)"
    using assms(2-4) by (simp add: claim_registered_def claimTerminal_def terminalClaimed_def)
  have "runtime_steps P resolve (r, F) (?r1, F)"
    by (rule r_into_rtranclp) (rule runtime_step.intend, use assms(2) in \<open>auto simp: intent_sound_def\<close>)
  note s2 = steps_claim [OF this c]
  obtain r3 v where "end_claimed P resolve e
      (cancelWithControlOwner n P resolve e ''parent_terminal:CANCELLED'' terminalOwnerParentCancel)
      ?i (terminal_emission ''cancelled'' StateCancelled [] reason) r2 = Some (r3, Ok v)"
    and "r' = completeCancelIntent t None r3"
    using assms Suc ok c
    by (auto simp: Let_def complete_with_def split: option.splits result.splits)
  with that [OF s2] claim_frame(3) [OF c] show thesis by (simp add: completeCancelIntent_def)
qed (use assms(1) in simp)

lemma Cancel_token:
  assumes "Cancel fuel P resolve e i reason r = Some (r', Ok u)"
  obtains t where "currentToken r i = Ok t" "tk_invocation_id t = i"
    "cancelWithControlOwner fuel P resolve e reason terminalOwnerCallerCancel t r = Some (r', Ok u)"
  using assms by (auto simp: Cancel_def currentToken_def split: option.splits)

lemma Cancel_steps:
  "Cancel fuel P resolve e i reason r = Some (r', Ok u) \<Longrightarrow> runtime_steps P resolve (r, F) (r', F)"
  by (erule Cancel_token) (use cancel_steps in \<open>unfold ending_steps_def, blast\<close>)

lemma Cancel_ends:
  "Cancel fuel P resolve e i reason r = Some (r', Ok u) \<Longrightarrow> runtime_inv (r, F) \<Longrightarrow> terminal_at r' i"
  by (erule Cancel_token) (use cancel_ends in blast)

lemma Cancel_children:
  assumes "Cancel fuel P resolve e i reason r = Some (r', Ok u)" and "currentToken r i = Ok t"
    and "rt_cancel_intents r t = None" "rt_cores r i = Some c" "\<not> core_IsTerminal c" "\<not> terminalClaimed c"
    and "runtime_inv (r, F)" and "j \<in> set (rt_children r i)"
  shows "terminal_at r' j"
proof -
  from assms(1,2) have t: "tk_invocation_id t = i"
    "cancelWithControlOwner fuel P resolve e reason terminalOwnerCallerCancel t r = Some (r', Ok u)"
    by (auto elim!: Cancel_token)
  from assms(4) t(1) have core: "rt_cores r (tk_invocation_id t) = Some c" by simp
  obtain n r2 r3 v where w: "runtime_steps P resolve (r, F) (r2, F)" "rt_children r2 = rt_children r"
    "end_claimed P resolve e
       (cancelWithControlOwner n P resolve e ''parent_terminal:CANCELLED'' terminalOwnerParentCancel)
       i (terminal_emission ''cancelled'' StateCancelled [] reason) r2 = Some (r3, Ok v)"
    "rt_cores r' = rt_cores r3"
    using cancel_wins [OF t(2) core assms(5,6,3)] t(1) by metis
  have "terminal_at r3 j"
    by (rule end_claimed_children [OF cancel_steps cancel_ends w(3) runtime_sys.steps_inv [OF w(1) assms(7)]])
      (use assms(8) w(2) in simp_all)
  with w(4) show ?thesis by (auto intro: terminal_same)
qed

section \<open>A sample run\<close>

definition demo_empty_provider :: provider where
  "demo_empty_provider = \<lparr>pv_contexts = Map.empty, pv_chains = Map.empty\<rparr>"

definition demo_running :: runtime_core where
  "demo_running = foldl (\<lambda>c (em, now). emit_commit c em (emit_event c em now))
     (newInvocationCore ''i'' [] (Some demo_context) None) (handshake_emissions (\<lambda>_. 1))"

definition demo_idle :: "bool runtime" where
  "demo_idle = (case NewLocalRuntimeWithOptions (Some demo_resolver) (Some (demo_policy, demo_empty_provider))
     None ''rt'' of Ok r \<Rightarrow> r | _ \<Rightarrow> undefined)"

definition demo_started :: "bool runtime" where
  "demo_started = register_invocation ''i'' [] demo_running None (NewSupervisor ''i'' empty_spec) new_inbox
     (new_execution False False) (demo_idle\<lparr>rt_active_count := 1, rt_provider := demo_provider\<rparr>)"

definition demo_ending :: ending_env where
  "demo_ending = \<lparr>ee_cleanup = (\<lambda>_. demo_cleanup_env True), ee_now = (\<lambda>_. 1)\<rparr>"

lemma demo_idle_Ok: "NewLocalRuntimeWithOptions (Some demo_resolver) (Some (demo_policy, demo_empty_provider)) None ''rt''
    = Ok demo_idle"
  by (simp add: demo_idle_def NewLocalRuntimeWithOptions_def)

lemma demo_idle_sel [simp]: "rt_active_count demo_idle = 0" "rt_provider demo_idle = demo_empty_provider"
  "rt_cores demo_idle = Map.empty" "rt_next_generation demo_idle = 1" "rt_cancel_intents demo_idle = Map.empty"
  "rt_children demo_idle = (\<lambda>_. [])" "rt_log demo_idle = None" "rt_supervisors demo_idle = Map.empty"
  by (simp_all add: demo_idle_def NewLocalRuntimeWithOptions_def)

lemma demo_running_inv: "machine_inv demo_running" "ic_state demo_running = StateRunning" "ic_parent demo_running = []"
  "ic_terminal_claim demo_running = terminalOwnerNone" "ic_context demo_running = Some demo_context"
  "ic_finalization_err demo_running = None" "ic_invocation_id demo_running = ''i''"
  by code_simp+

lemma demo_started_reachable:
  "slots_initial (demo_idle, {#})" "runtime_steps demo_platform resolve (demo_idle, {#}) (demo_started, {#})"
proof -
  show "slots_initial (demo_idle, {#})" using demo_idle_Ok by (auto simp: slots_initial_def)
  let ?r1 = "demo_idle\<lparr>rt_active_count := 1\<rparr>" and ?r2 = "demo_idle\<lparr>rt_active_count := 1, rt_provider := demo_provider\<rparr>"
  have "reserveInvocation demo_idle [] None ''pending_invocation_limit'' 0 = (?r1, Ok None)"
    by (simp add: reserveInvocation_def canonicalPendingCapacity_def requested_deadline_def)
  then have 1: "runtime_step demo_platform resolve (demo_idle, {#}) (?r1, {#([], None)#})" by (rule runtime_step.reserve)
  have "Bind demo_platform demo_empty_provider ''i'' demo_admission demo_descriptor demo_implementation
      = (demo_provider, Ok demo_context)"
    using demo_binds by (simp add: Bind_def demo_empty_provider_def demo_provider_def)
  then have "bind_context demo_platform [] ''i'' demo_admission demo_descriptor demo_implementation ?r1 = (?r2, Ok demo_context)"
    by (simp add: bind_context_def)
  then have 2: "runtime_step demo_platform resolve (?r1, {#([], None)#}) (?r2, {#([], Some ''i'')#})"
    by (rule runtime_step.bind)
  have 3: "runtime_step demo_platform resolve (?r2, {#([], Some ''i'')#}) (demo_started, {#})"
    unfolding demo_started_def using demo_running_inv by (intro runtime_step.register) simp_all
  show "runtime_steps demo_platform resolve (demo_idle, {#}) (demo_started, {#})"
    using 1 2 3 by (meson r_into_rtranclp rtranclp_trans)
qed

text \<open>The same run as sections of a thread: none of them makes an invocation terminal.\<close>

lemma demo_started_threads:
  "(thread_step demo_platform resolve)\<^sup>*\<^sup>* (demo_idle, {#}, {}) (demo_started, {#}, {})"
proof -
  have "\<not> terminal_at demo_started i" for i
    using demo_running_inv(2)
    by (simp add: demo_started_def terminal_at_def register_invocation_def register_entries_def core_IsTerminal_def)
  from section_steps_threads [where D = "{}", OF demo_started_reachable(2,1) this] show ?thesis by simp
qed

lemma demo_started_sel [simp]:
  "rt_cores demo_started = [''i'' \<mapsto> demo_running]" "rt_generations demo_started ''i'' = Some 1"
  "rt_cancel_intents demo_started = Map.empty" "rt_children demo_started = (\<lambda>_. [])"
  "rt_provider demo_started = demo_provider" "rt_sinks demo_started ''i'' = None" "rt_log demo_started = None"
  "rt_supervisors demo_started = [''i'' \<mapsto> NewSupervisor ''i'' empty_spec]"
  by (simp_all add: demo_started_def register_invocation_def register_entries_def)

lemma demo_cancelled_words:
  "\<not> blank ''cancelled''" "map ascii_upper StateCancelled = StateCancelled" "StateCancelled \<noteq> StateUnspecified"
  "state_IsTerminal StateCancelled" "expectedTransition StateRunning ''cancelled'' StateCancelled"
  by code_simp+

lemma demo_cancel: "\<exists>r'. Cancel 1 demo_platform demo_resolve demo_ending ''i'' ''stop'' demo_started = Some (r', Ok ())"
proof -
  let ?t = "\<lparr>tk_invocation_id = ''i'', tk_generation = 1\<rparr>" and ?em = "terminal_emission ''cancelled'' StateCancelled [] ''stop''"
  let ?n = "\<lparr>ci_completed = False, ci_reason = ''stop'', ci_owner = terminalOwnerCallerCancel, ci_err = None\<rparr>"
  let ?c = "demo_running\<lparr>ic_terminal_claim := terminalOwnerCallerCancel\<rparr>"
  let ?r1 = "demo_started\<lparr>rt_cancel_intents := [?t \<mapsto> ?n]\<rparr>"
  let ?r2 = "?r1\<lparr>rt_cores := [''i'' \<mapsto> ?c]\<rparr>"
  let ?r3 = "signalTerminalStop ''i'' ?r2"
  have alive: "\<not> core_IsTerminal demo_running" "core_IsTerminal ?c = core_IsTerminal demo_running"
    using demo_running_inv(2) by (simp_all add: core_IsTerminal_def state_IsTerminal_def state_defs)
  have claim: "claim_registered ''i'' terminalOwnerCallerCancel ?r1 = (?r2, True)"
    using demo_running_inv(4) alive(1) by (simp add: claim_registered_def claimTerminal_def)
  obtain s where s: "RunCancelFlow (NewSupervisor ''i'' empty_spec) (demo_cleanup_env True) = Some (s, [], False)"
      "CleanupError s = None"
    by (simp add: RunCancelFlow_def runTerminalFlow_def run_cleanup_def NewSupervisor_def demo_cleanup_env_def
      stop_processes_def childrenExited_def observe_def fail_if_def pending_cleanup_def empty_spec_def Let_def
      publish_def CleanupError_def)
  let ?r4 = "?r3\<lparr>rt_supervisors := (rt_supervisors ?r3)(''i'' \<mapsto> s)\<rparr>"
  have cleanup: "finishCleanup demo_platform ''i'' (demo_cleanup_env True) True ?r3 = Some (?r4, Ok ())"
    using s by (simp add: finishCleanup_def signalTerminalStop_def NewSupervisor_def empty_spec_def)
  have guard: "emit_guard ?c ?em False = None"
    using alive demo_running_inv by (simp add: emit_guard_def terminal_emission_def plain_emission_def terminalClaimed_def
        demo_cancelled_words)
  obtain p' receipt where a: "AppendSignedReceipt demo_platform demo_resolve demo_provider (Some demo_context)
      (emit_input ?em 1) = (p', Ok receipt)"
    using demo_append_any [of "emit_input ?em 1" demo_provider newReceiptChainState]
    by (auto simp: emit_input_def terminal_emission_def plain_emission_def demo_cancelled_words demo_provider_def
        newReceiptChainState_def)
  have "emit_registered demo_platform demo_resolve ''i'' ?r4 ?em 1 False
      = (?r4\<lparr>rt_provider := p', rt_cores := [''i'' \<mapsto> emit_commit ?c ?em (emit_event ?c ?em 1)]\<rparr>,
         Some (Emitted (emit_event ?c ?em 1) None))"
    using guard a demo_running_inv
    by (simp add: emit_registered_def core_emit_def emitContext_def Let_def runtime_sink_def signalTerminalStop_def
        update_execution_def)
  then obtain r5 where "emit demo_platform demo_resolve ''i'' ?r4 ?em 1 False = (r5, Some (Emitted (emit_event ?c ?em 1) None))"
    by (simp add: emit_def)
  then have f: "finish_invocation demo_platform demo_resolve ''i'' (demo_cleanup_env True) True ?em 1 ?r3 = Some (r5, Ok ())"
    using cleanup by (simp add: finish_invocation_def)
  have "end_claimed demo_platform demo_resolve demo_ending ending ''i'' ?em ?r2 = Some (r5, Ok ())" for ending
    using f by (simp add: end_claimed_def childTokensLocked_def demo_ending_def)
  then show ?thesis
    using alive(1) claim
    by (auto simp: Cancel_def currentToken_def validateControlLocked_def Let_def complete_with_def)
qed

section \<open>Properties\<close>

text \<open>C25: an invocation is terminal only after its cleanup.  In every state that the threads
  of a runtime can reach (\<open>thread_step\<close>: whole operations of the API, single sections of
  other operations in any order between them, and the endings of \<open>finish_invocation\<close> cut in
  two, where a terminal event is emitted only by a thread whose \<open>finishCleanup\<close> of that
  invocation has returned without an error), the supervisor of a terminal invocation has run
  its cleanup and closed, so no process group, no child and no registered callback of it is
  left.\<close>

theorem terminal_means_cleaned:
  assumes "slots_initial (r0, {#})" and "(thread_step P resolve)\<^sup>*\<^sup>* (r0, {#}, {}) (r, F, D)"
    and "rt_cores r i = Some c" and "core_IsTerminal c"
  shows "\<exists>s. rt_supervisors r i = Some s \<and> CleanupComplete s \<and> sv_started s"
proof -
  have "runtime_inv (r, F)" using threads_inv_reachable [OF assms(1,2)] by (simp add: threads_inv_def)
  then have "ending_inv r" by (simp add: runtime_inv_def)
  with ending_at [OF this assms(3)] assms(4) show ?thesis
    by (fastforce simp: closed_supervisor_def CleanupComplete_def supervisor_ok_def)
qed

theorem terminal_means_cleaned_witness:
  "\<exists>r. (thread_step demo_platform demo_resolve)\<^sup>*\<^sup>* (demo_idle, {#}, {}) (r, {#}, {}) \<and> terminal_at r ''i''
     \<and> (\<exists>s. rt_supervisors r ''i'' = Some s \<and> CleanupComplete s \<and> sv_started s)"
proof -
  obtain r where c: "Cancel 1 demo_platform demo_resolve demo_ending ''i'' ''stop'' demo_started = Some (r, Ok ())"
    using demo_cancel by blast
  have reached: "(thread_step demo_platform demo_resolve)\<^sup>*\<^sup>* (demo_idle, {#}, {}) (r, {#}, {})"
    by (rule rtranclp.rtrancl_into_rtrancl [OF demo_started_threads])
      (rule thread_step.operation [OF runtime_op.cancel [OF c]])
  have inv: "runtime_inv (demo_started, {#})"
    by (rule runtime_sys.reachable_inv [OF demo_started_reachable])
  have "terminal_at r ''i''" by (rule Cancel_ends [OF c inv])
  then obtain core where "rt_cores r ''i'' = Some core" "core_IsTerminal core" by (auto simp: terminal_at_def)
  from terminal_means_cleaned [OF demo_started_reachable(1) reached this] reached \<open>terminal_at r ''i''\<close>
  show ?thesis by blast
qed

text \<open>C26: a cancellation that returns without an error has ended the invocation: it is terminal
  and its cleanup has closed.  If this cancellation is the one that won the claim, the same
  holds of every child the runtime has registered for it.\<close>

theorem cancel_ends_tree:
  assumes "slots_initial x" and "runtime_steps P resolve x (r, F)"
    and "Cancel fuel P resolve e i reason r = Some (r', Ok ())"
  shows "terminal_at r' i \<and> closed_supervisor r' i
    \<and> (\<forall>t c. currentToken r i = Ok t \<and> rt_cancel_intents r t = None \<and> rt_cores r i = Some c
         \<and> \<not> core_IsTerminal c \<and> \<not> terminalClaimed c
         \<longrightarrow> (\<forall>j\<in>set (ChildrenOf r i). terminal_at r' j \<and> closed_supervisor r' j))"
proof -
  have inv: "runtime_inv (r, F)" by (rule runtime_sys.reachable_inv [OF assms(1,2)])
  have inv': "runtime_inv (r', F)" by (rule runtime_sys.steps_inv [OF Cancel_steps [OF assms(3)] inv])
  have "terminal_at r' j" if "currentToken r i = Ok t" "rt_cancel_intents r t = None" "rt_cores r i = Some c"
      "\<not> core_IsTerminal c" "\<not> terminalClaimed c" "j \<in> set (ChildrenOf r i)" for t c j
    by (rule Cancel_children [OF assms(3) that(1-5) inv]) (use that(6) in \<open>simp add: ChildrenOf_def\<close>)
  with Cancel_ends [OF assms(3) inv] terminal_closed [OF inv'] show ?thesis by blast
qed

theorem cancel_ends_tree_witness:
  "\<exists>r. Cancel 1 demo_platform demo_resolve demo_ending ''i'' ''stop'' demo_started = Some (r, Ok ())
     \<and> terminal_at r ''i'' \<and> closed_supervisor r ''i''"
  using demo_cancel cancel_ends_tree [OF demo_started_reachable] by blast

end
