(* ===== verification/RuntimeInvoke.thy ===== *)
theory RuntimeInvoke
  imports RuntimeProperties ChainProperties
begin

text \<open>
  What starting an invocation promises: \<open>InvokeDescriptorBoundRequest\<close> as a whole.  The frame
  lemmas say which fields each section of the call may touch; from them follow what an
  invocation that was started is, and what a refusal has used up.
\<close>

section \<open>Frames\<close>

text \<open>What only a registration, an admission or a binding of a provider changes.\<close>

definition static :: "'h runtime \<Rightarrow> (string \<rightharpoonup> 'h provider_binding) \<times> replay_store \<times> key_resolver \<times>
    policy_provider \<times> (string \<rightharpoonup> u64) \<times> (string \<rightharpoonup> signed_envelope)" where
  "static r = (rt_abilities r, rt_replay r, rt_resolver r, rt_policy r, rt_generations r, rt_envelopes r)"

lemma core_emit_static: "core_emit P resolve sink c r em now d = (c', r', res) \<Longrightarrow> static r' = static r"
  by (erule core_emit_cases) (simp_all add: static_def)

lemma emit_all_static: "emit_all P resolve sink c r ems = (c', r', res) \<Longrightarrow> static r' = static r \<and> rt_cores r' = rt_cores r"
proof (induction ems arbitrary: c r)
  case (Cons x ems)
  obtain em now where x: "x = (em, now)" by fastforce
  obtain c1 r1 y where e: "core_emit P resolve sink c r em now False = (c1, r1, y)" by (metis prod_cases3)
  show ?case
    using Cons x e core_emit_static [OF e] core_emit_frame(1) [OF e]
    by (cases "emit_outcome (Some y)") auto
qed simp

lemma emit_all_events:
  assumes "emit_all P resolve sink c r ems = (c', r', Ok u)" and "\<forall>(em, now)\<in>set ems. em_type em \<noteq> ''progress''"
  shows "map ie_type (ic_events c') = map ie_type (ic_events c) @ map (em_type \<circ> fst) ems
    \<and> map ie_state (ic_events c') = map ie_state (ic_events c) @ map (em_state \<circ> fst) ems"
  using assms
proof (induction ems arbitrary: c r)
  case (Cons x ems)
  obtain em now where x: "x = (em, now)" by fastforce
  obtain c1 r1 y where e: "core_emit P resolve sink c r em now False = (c1, r1, y)" by (metis prod_cases3)
  with Cons.prems x have rest: "emit_all P resolve sink c1 r1 ems = (c', r', Ok u)"
    and y: "is_ok (emit_outcome (Some y))" by (auto split: result.splits)
  from e have "ic_events c1 = ic_events c @ [emit_event c em now]"
  proof (cases rule: core_emit_cases)
    case (refused p l)
    with y Cons.prems(2) x show ?thesis by (cases y) auto
  qed (simp add: emit_commit_def)
  with Cons.IH [OF rest] Cons.prems(2) x show ?case by (auto simp: emit_event_def)
qed simp

lemma announce_frame:
  assumes "announce_child P resolve i parentID v r = Some (r', Ok u)"
  shows "static r' = static r" and "j \<noteq> parentID \<Longrightarrow> rt_cores r' j = rt_cores r j"
proof -
  let ?em = "plain_emission ''child_spawned'' StateRunning [] [] [] False i"
  have "r' = r \<or> (\<exists>x. emit_registered P resolve parentID r ?em (iv_clock v 4) False = (r', x))"
  proof (cases "parentID = []")
    case False
    obtain r1 x where e: "emit_registered P resolve parentID r ?em (iv_clock v 4) False = (r1, x)" by fastforce
    have "\<not> state_IsTerminal (em_state ?em)" by (simp add: plain_emission_def state_IsTerminal_def state_defs)
    then have "emit P resolve parentID r ?em (iv_clock v 4) False = (r1, x)"
      using e by (auto simp: emit_def split: option.splits emit_result.splits)
    with assms False e show ?thesis
      by (auto simp: announce_child_def split: option.splits result.splits)
  qed (use assms in \<open>simp add: announce_child_def\<close>)
  then show "static r' = static r" and "j \<noteq> parentID \<Longrightarrow> rt_cores r' j = rt_cores r j"
    by (auto simp: static_def elim: emit_registered_cases)
qed

lemma bind_frame: "bind_context P failure i admission descriptor implementation r = (r', res) \<Longrightarrow>
    static r' = static r \<and> rt_cores r' = rt_cores r"
  by (auto simp: bind_context_def static_def split: prod.splits)

lemma bind_named: "bind_context P failure i admission descriptor implementation r = (r', Ok ctx) \<Longrightarrow> i \<noteq> []"
proof
  assume b: "bind_context P failure i admission descriptor implementation r = (r', Ok ctx)" and "i = []"
  have "blank []" by code_simp
  with b \<open>i = []\<close> show False
    by (auto simp: bind_context_def Bind_def bindReceiptContext_def split: prod.splits)
qed

lemma initialize_frame: "initialize_record P i q ref b deadline r = (r', res) \<Longrightarrow>
    static r' = static r \<and> rt_cores r' = rt_cores r"
  by (auto simp: initialize_record_def runtime_log_def static_def
      split: if_splits option.splits prod.splits result.splits)

lemma reserve_frame: "reserveInvocation r parentID spec reason now = (r', res) \<Longrightarrow>
    static r' = static r \<and> rt_cores r' = rt_cores r \<and> rt_provider r' = rt_provider r"
  by (auto simp: reserveInvocation_def static_def split: if_splits option.splits)

lemma admit_Ok:
  assumes "admit P envelope sig now r = (r', Ok adm)"
  obtains s where "r' = r\<lparr>rt_replay := s\<rparr>" "verifyDescriptorBoundAdmission P envelope sig (Some (rt_resolver r))
      (Some (rt_replay r)) (Some (rt_policy r)) now = (Some s, Ok adm)"
proof -
  obtain store where v: "verifyDescriptorBoundAdmission P envelope sig (Some (rt_resolver r))
      (Some (rt_replay r)) (Some (rt_policy r)) now = (store, Ok adm)"
    using assms by (auto simp: admit_def split: prod.splits)
  then obtain s where "store = Some s" by (auto simp: admission_Ok)
  with v assms show thesis by (intro that [of s]) (auto simp: admit_def)
qed

section \<open>A started invocation\<close>

lemma register_static [simp]:
  "rt_replay (register_invocation i parentID c sink s inbox x r) = rt_replay r"
  "rt_generations (register_invocation i parentID c sink s inbox x r) = (rt_generations r)(i \<mapsto> rt_next_generation r)"
  "rt_cores (register_invocation i parentID c sink s inbox x r) = (rt_cores r)(i \<mapsto> c)"
  by (simp_all add: register_invocation_def register_entries_def Let_def)

lemma invokeRegistered_Ok:
  assumes "invokeRegistered P resolve handler payload parentID spec ctx deadline persisted owner v r = Some (r', Ok st)"
  shows "rt_replay r' = rt_replay r \<and> st_handler st = handler \<and> st_payload st = payload
    \<and> currentToken r' (iv_id v) = Ok (st_token st)
    \<and> (iv_id v \<noteq> parentID \<longrightarrow> (\<exists>c. rt_cores r' (iv_id v) = Some c \<and> ic_parent c = parentID
         \<and> ic_state c = StateRunning \<and> map ie_type (ic_events c) = [''accepted'', ''admitted'', ''dispatched'', ''running'']))"
proof -
  let ?sink = "if persisted then Some [] else None" and ?i = "iv_id v"
  obtain c r1 x where e: "emit_all P resolve ?sink (newInvocationCore ?i parentID ctx deadline) r
      (handshake_emissions (iv_clock v)) = (c, r1, x)" by (metis prod_cases3)
  with assms obtain u where x: "x = Ok u" by (cases x) (auto simp: invokeRegistered_def Let_def)
  let ?r2 = "register_invocation ?i parentID c ?sink (NewSupervisor ?i (spec_or_empty spec)) new_inbox
      (new_execution persisted False) r1"
  obtain y where y: "announce_child P resolve ?i parentID v ?r2 = Some (r', y)"
    using assms e x by (auto simp: invokeRegistered_def Let_def)
  with assms e x obtain w where a: "announce_child P resolve ?i parentID v ?r2 = Some (r', Ok w)"
    and st: "st = start_of ?i ?r2 handler payload None owner deadline"
    by (cases y) (auto simp: invokeRegistered_def Let_def)
  have events: "map ie_type (ic_events c) = [''accepted'', ''admitted'', ''dispatched'', ''running'']"
    using emit_all_events [OF e [unfolded x]]
    by (simp add: handshake_emissions_def plain_emission_def newInvocationCore_def)
  have "ic_state c = StateRunning" "ic_parent c = parentID"
    using handshake_running [OF e [unfolded x]] emit_all_steps [OF e] by (simp_all add: newInvocationCore_def)
  with events announce_frame [OF a] emit_all_static [OF e] st show ?thesis
    by (simp add: static_def currentToken_def start_of_def)
qed

lemma invoke_reserved_Ok:
  assumes "invoke_reserved P resolve q ref b adm d m deadline v r = Some (r', Ok (st, se))"
  obtains r1 r2 r3 ctx where
    "bind_context P ''receipt_context_bind_failed:'' (iv_id v) adm d m r = (r1, Ok ctx)"
    "initialize_record P (iv_id v) q ref b deadline r1 = (r2, Ok ())"
    "invokeRegistered P resolve (pb_handler b) (rq_payload q) (rq_parent q) (rq_supervisor q) (Some ctx) deadline
       (persisting q) terminalOwnerCompletion v r2 = Some (r3, Ok st)"
    "se = \<lparr>se_envelope = dbe_envelope (rq_envelope q), se_signature = rq_signature q\<rparr>"
    "r' = r3\<lparr>rt_envelopes := (rt_envelopes r3)(iv_id v \<mapsto> se)\<rparr>"
  using assms by (auto simp: invoke_reserved_def Let_def split: option.splits result.splits prod.splits)

lemma refuse_not_Ok: "refuse r x \<noteq> Some (r', Ok y)"
  by (cases x) auto

lemma incompleteR_Ok [simp]: "incompleteR x = Ok y \<longleftrightarrow> x = Ok y"
  by (cases x) auto

text \<open>The stages of a call that starts an invocation.\<close>

lemma invoke_stages:
  assumes "InvokeDescriptorBoundRequest P resolve q v r = Some (r', Ok (st, se))"
  obtains ref b adm d m deadline r1 r2 where
    "request_checks P q = Ok ref" "find_provider r ref = Ok b"
    "admit P (rq_envelope q) (rq_signature q) (iv_admission_ms v) r = (r1, Ok adm)"
    "admitted_evidence adm b = Ok (d, m)"
    "reserveInvocation r1 (rq_parent q) (rq_supervisor q) ''pending_invocation_limit'' (iv_now v) = (r2, Ok deadline)"
    "invoke_reserved P resolve q ref b adm d m deadline v r2 = Some (r', Ok (st, se))"
  using assms
  by (auto simp: InvokeDescriptorBoundRequest_def bindR_Ok_iff refuse_not_Ok
      split: result.splits prod.splits)

lemma request_checks_Ok: "request_checks P q = Ok ref \<longleftrightarrow> rq_call_mode q = CallModeRPC
    \<and> ParseAbilityDescriptorRef (en_ability (dbe_envelope (rq_envelope q))) = Ok ref
    \<and> en_args_digest (dbe_envelope (rq_envelope q)) = pf_sha256 P (rq_payload q)
    \<and> (\<exists>b. request_CanonicalBytes q = Ok b \<and> b \<noteq> [])"
  by (auto simp: request_checks_def Let_def bindR_Ok_iff split: if_splits)

lemma find_provider_Ok: "find_provider r ref = Ok b \<longleftrightarrow>
    rt_abilities r (ad_ability_ura ref) = Some b \<and> ad_raw (de_ref (pb_descriptor b)) = ad_raw ref"
  by (auto simp: find_provider_def split: option.splits if_splits)

section \<open>A sample call\<close>

definition demo_request :: bound_request where
  "demo_request = NewDescriptorBoundInvocationRequest CallModeRPC (DBEnvelope demo_envelope) demo_caller_signature []"

definition demo_provider_binding :: "bool provider_binding" where
  "demo_provider_binding = \<lparr>pb_descriptor = pb_descriptor demo_binding, pb_implementation = pb_implementation demo_binding,
     pb_handler = Some True, pb_recovery = None\<rparr>"

lemma demo_parsed: "\<exists>r. ParseAbilityDescriptorRef demo_ability = Ok r \<and> ad_raw r = demo_ability"
  "demo_ability \<noteq> []"
  using demo_ability_canonical
  by (auto simp: CanonicalAbilityDescriptorRef_def bindR_Ok_iff) (simp add: demo_ability_def)

definition demo_bound :: "bool runtime" where
  "demo_bound = fst (BindProvider demo_idle demo_provider_binding)"

definition demo_invoke_env :: invoke_env where
  "demo_invoke_env = \<lparr>iv_id = ''i'', iv_admission_ms = 1000, iv_now = 0, iv_clock = (\<lambda>_. 1),
     iv_cleanup = demo_cleanup_env True\<rparr>"

lemma demo_bound_sel: "rt_abilities demo_bound = [ad_ability_ura (de_ref (pb_descriptor demo_binding)) \<mapsto> demo_provider_binding]"
  "rt_replay demo_bound = newNonceReplayStore" "rt_resolver demo_bound = demo_resolver" "rt_policy demo_bound = demo_policy"
  "rt_active_count demo_bound = 0" "rt_provider demo_bound = demo_empty_provider"
proof -
  have eq: "demo_bound = demo_idle\<lparr>rt_abilities := (rt_abilities demo_idle)
      (ad_ability_ura (de_ref (pb_descriptor demo_provider_binding)) \<mapsto> demo_provider_binding)\<rparr>"
    using demo_parsed by (auto simp: demo_bound_def BindProvider_def demo_provider_binding_def demo_binding_def)
  show "rt_abilities demo_bound = [ad_ability_ura (de_ref (pb_descriptor demo_binding)) \<mapsto> demo_provider_binding]"
    "rt_replay demo_bound = newNonceReplayStore" "rt_resolver demo_bound = demo_resolver" "rt_policy demo_bound = demo_policy"
    "rt_active_count demo_bound = 0" "rt_provider demo_bound = demo_empty_provider"
    unfolding eq by (simp_all add: demo_idle_def NewLocalRuntimeWithOptions_def demo_provider_binding_def)
qed

text \<open>One emission of the sample invocation.\<close>

lemma demo_core_emit:
  assumes "emit_guard c em False = None" and "ic_context c = Some demo_context"
    and "em_payload em = []" "\<not> blank (em_type em)" "em_state em \<noteq> StateUnspecified"
    "map ascii_upper (em_state em) = em_state em" "\<not> state_IsTerminal (em_state em)"
    and "pv_contexts (rt_provider r) = pv_contexts demo_provider"
    and "pv_chains (rt_provider r) ''i'' = Some ch" "\<not> ch_terminal ch"
  obtains r' ch' where "core_emit demo_platform demo_resolve None c r em now False
      = (emit_commit c em (emit_event c em now), r', Emitted (emit_event c em now) None)"
    "pv_contexts (rt_provider r') = pv_contexts demo_provider"
    "pv_chains (rt_provider r') ''i'' = Some ch'" "\<not> ch_terminal ch'"
proof -
  obtain p receipt where "AppendSignedReceipt demo_platform demo_resolve (rt_provider r) (Some demo_context) (emit_input em now)
      = (p, Ok receipt)" "pv_contexts p = pv_contexts demo_provider"
      "pv_chains p ''i'' = Some (ch\<lparr>ch_receipts := ch_receipts ch @ [receipt],
        ch_terminal := state_IsTerminal (em_state em), ch_appending := False\<rparr>)"
    using demo_append_any [of "emit_input em now" "rt_provider r" ch] assms by (auto simp: emit_input_def)
  with assms(1,2,7) show thesis
    by (intro that [of "r\<lparr>rt_provider := p, rt_log := rt_log r\<rparr>" "ch\<lparr>ch_receipts := ch_receipts ch @ [receipt],
        ch_terminal := state_IsTerminal (em_state em), ch_appending := False\<rparr>"])
      (simp_all add: core_emit_def emitContext_def Let_def runtime_sink_def)
qed

lemma demo_handshake_words:
  "\<not> blank ''accepted''" "\<not> blank ''admitted''" "\<not> blank ''dispatched''" "\<not> blank ''running''"
  "map ascii_upper StateAccepted = StateAccepted" "map ascii_upper StateAdmitted = StateAdmitted"
  "map ascii_upper StateDispatched = StateDispatched" "map ascii_upper StateRunning = StateRunning"
  "StateAccepted \<noteq> StateUnspecified" "StateAdmitted \<noteq> StateUnspecified" "StateDispatched \<noteq> StateUnspecified"
  "StateRunning \<noteq> StateUnspecified" "\<not> state_IsTerminal StateUnspecified"
  "\<not> state_IsTerminal StateAccepted" "\<not> state_IsTerminal StateAdmitted" "\<not> state_IsTerminal StateDispatched"
  "\<not> state_IsTerminal StateRunning"
  "expectedTransition StateUnspecified ''accepted'' StateAccepted" "expectedTransition StateAccepted ''admitted'' StateAdmitted"
  "expectedTransition StateAdmitted ''dispatched'' StateDispatched" "expectedTransition StateDispatched ''running'' StateRunning"
  by code_simp+

lemma demo_emit_all:
  assumes "ic_context c = Some demo_context" "ic_terminal_claim c = terminalOwnerNone" "ic_finalization_err c = None"
    and "pv_contexts (rt_provider r) = pv_contexts demo_provider"
    and "pv_chains (rt_provider r) ''i'' = Some ch" "\<not> ch_terminal ch" and "\<not> core_IsTerminal c"
    and "em = plain_emission ty st [] [] [] False []" "expectedTransition (ic_state c) ty st"
    "\<not> blank ty" "st \<noteq> StateUnspecified" "map ascii_upper st = st" "\<not> state_IsTerminal st" "ty \<noteq> ''progress''"
  obtains c' r' ch' where "\<And>ems. emit_all demo_platform demo_resolve None c r ((em, now) # ems)
      = emit_all demo_platform demo_resolve None c' r' ems"
    "ic_context c' = Some demo_context" "ic_terminal_claim c' = terminalOwnerNone" "ic_finalization_err c' = None"
    "pv_contexts (rt_provider r') = pv_contexts demo_provider"
    "pv_chains (rt_provider r') ''i'' = Some ch'" "\<not> ch_terminal ch'" "ic_state c' = st"
proof -
  have "emit_guard c em False = None"
    using assms by (simp add: emit_guard_def plain_emission_def terminalClaimed_def)
  from demo_core_emit [OF this assms(1) _ _ _ _ _ assms(4-6), of now] assms(8-) obtain r' ch' where
    e: "core_emit demo_platform demo_resolve None c r em now False
      = (emit_commit c em (emit_event c em now), r', Emitted (emit_event c em now) None)"
    "pv_contexts (rt_provider r') = pv_contexts demo_provider"
    "pv_chains (rt_provider r') ''i'' = Some ch'" "\<not> ch_terminal ch'"
    by (auto simp: plain_emission_def)
  then show thesis
    using assms(1-3,8) by (intro that [of "emit_commit c em (emit_event c em now)" r' ch'])
      (simp_all add: emit_commit_def plain_emission_def)
qed

lemma demo_handshake:
  assumes "rt_provider r = demo_provider"
  shows "\<exists>c r'. emit_all demo_platform demo_resolve None (newInvocationCore ''i'' [] (Some demo_context) None) r
      (handshake_emissions (\<lambda>_. 1)) = (c, r', Ok ())"
proof -
  let ?c = "newInvocationCore ''i'' [] (Some demo_context) None" and ?run = "emit_all demo_platform demo_resolve None"
  note w = demo_handshake_words
  have alive: "\<not> core_IsTerminal c \<longleftrightarrow> \<not> state_IsTerminal (ic_state c)" for c :: runtime_core
    by (simp add: core_IsTerminal_def)
  have np: "''accepted'' \<noteq> ''progress''" "''admitted'' \<noteq> ''progress''" "''dispatched'' \<noteq> ''progress''"
    "''running'' \<noteq> ''progress''" by simp_all
  have 0: "ic_context ?c = Some demo_context" "ic_terminal_claim ?c = terminalOwnerNone" "ic_finalization_err ?c = None"
    "pv_contexts (rt_provider r) = pv_contexts demo_provider" "pv_chains (rt_provider r) ''i'' = Some newReceiptChainState"
    "\<not> ch_terminal newReceiptChainState" "\<not> core_IsTerminal ?c" "expectedTransition (ic_state ?c) ''accepted'' StateAccepted"
    using w by (simp_all add: assms newInvocationCore_def demo_provider_def core_IsTerminal_def)
  obtain c1 r1 ch1 where 1: "\<And>ems. ?run ?c r ((plain_emission ''accepted'' StateAccepted [] [] [] False [], 1) # ems) = ?run c1 r1 ems"
    "ic_context c1 = Some demo_context" "ic_terminal_claim c1 = terminalOwnerNone" "ic_finalization_err c1 = None"
    "pv_contexts (rt_provider r1) = pv_contexts demo_provider"
    "pv_chains (rt_provider r1) ''i'' = Some ch1" "\<not> ch_terminal ch1" "ic_state c1 = StateAccepted"
    by (rule demo_emit_all [OF 0(1-7) refl 0(8) w(1,9,5,14) np(1)]) (rule that)
  have a1: "\<not> core_IsTerminal c1" using 1(8) w by (simp add: alive)
  obtain c2 r2 ch2 where 2: "\<And>ems. ?run c1 r1 ((plain_emission ''admitted'' StateAdmitted [] [] [] False [], 1) # ems) = ?run c2 r2 ems"
    "ic_context c2 = Some demo_context" "ic_terminal_claim c2 = terminalOwnerNone" "ic_finalization_err c2 = None"
    "pv_contexts (rt_provider r2) = pv_contexts demo_provider"
    "pv_chains (rt_provider r2) ''i'' = Some ch2" "\<not> ch_terminal ch2" "ic_state c2 = StateAdmitted"
    by (rule demo_emit_all [OF 1(2-7) a1 refl w(19) [folded 1(8)] w(2,10,6,15) np(2)]) (rule that)
  have a2: "\<not> core_IsTerminal c2" using 2(8) w by (simp add: alive)
  obtain c3 r3 ch3 where 3: "\<And>ems. ?run c2 r2 ((plain_emission ''dispatched'' StateDispatched [] [] [] False [], 1) # ems) = ?run c3 r3 ems"
    "ic_context c3 = Some demo_context" "ic_terminal_claim c3 = terminalOwnerNone" "ic_finalization_err c3 = None"
    "pv_contexts (rt_provider r3) = pv_contexts demo_provider"
    "pv_chains (rt_provider r3) ''i'' = Some ch3" "\<not> ch_terminal ch3" "ic_state c3 = StateDispatched"
    by (rule demo_emit_all [OF 2(2-7) a2 refl w(20) [folded 2(8)] w(3,11,7,16) np(3)]) (rule that)
  have a3: "\<not> core_IsTerminal c3" using 3(8) w by (simp add: alive)
  obtain c4 r4 ch4 where 4: "\<And>ems. ?run c3 r3 ((plain_emission ''running'' StateRunning [] [] [] False [], 1) # ems) = ?run c4 r4 ems"
    "ic_context c4 = Some demo_context" "ic_terminal_claim c4 = terminalOwnerNone" "ic_finalization_err c4 = None"
    "pv_contexts (rt_provider r4) = pv_contexts demo_provider"
    "pv_chains (rt_provider r4) ''i'' = Some ch4" "\<not> ch_terminal ch4" "ic_state c4 = StateRunning"
    by (rule demo_emit_all [OF 3(2-7) a3 refl w(21) [folded 3(8)] w(4,12,8,17) np(4)]) (rule that)
  show ?thesis by (simp add: handshake_emissions_def 1(1) 2(1) 3(1) 4(1) del: emit_all.simps(2))
qed

text \<open>The checks before the reservation.\<close>

lemma demo_request_checks:
  "\<exists>ref. request_checks demo_platform demo_request = Ok ref \<and> find_provider demo_bound ref = Ok demo_provider_binding"
proof -
  obtain ref where ref: "ParseAbilityDescriptorRef demo_ability = Ok ref" "ad_raw ref = demo_ability"
    using demo_parsed by blast
  obtain b where b: "canonicalDescriptorBoundInvocationBytes (DBEnvelope demo_envelope) = Ok b"
    using demo_bytes_ok by (auto simp: is_ok_iff)
  have "is_ok (validateEnvelope demo_envelope)"
    using demo_checks [of newNonceReplayStore] by (simp add: admission_checks_Ok)
  then have "request_CanonicalBytes demo_request = Ok b"
    using b by (simp add: request_CanonicalBytes_def demo_request_def NewDescriptorBoundInvocationRequest_def bindR_Ok_iff
        NewDescriptorBoundInvocationDraft_Ok draft_CanonicalBytes_def is_ok_iff)
  moreover have "b \<noteq> []" by (rule canonical_bytes_nonempty [OF b])
  moreover have "en_args_digest demo_envelope = pf_sha256 demo_platform []" "en_ability demo_envelope = demo_ability"
    by (simp_all add: demo_envelope_def demo_platform_def)
  ultimately have "request_checks demo_platform demo_request = Ok ref"
    using ref by (simp add: request_checks_Ok demo_request_def NewDescriptorBoundInvocationRequest_def)
  moreover have "find_provider demo_bound ref = Ok demo_provider_binding"
    using ref by (simp add: find_provider_Ok demo_bound_sel demo_provider_binding_def) (simp add: demo_binding_def)
  ultimately show ?thesis by blast
qed

lemma demo_admit:
  assumes "rt_resolver r = demo_resolver" "rt_policy r = demo_policy" "rt_replay r = newNonceReplayStore"
  shows "admit demo_platform (rq_envelope demo_request) (rq_signature demo_request) 1000 r
    = (r\<lparr>rt_replay := newNonceReplayStore\<lparr>rs_seen := [demo_key_seen \<mapsto> 1000]\<rparr>\<rparr>, Ok demo_admission)"
proof -
  have "checkAndRecord newNonceReplayStore demo_key_seen 1000 = (newNonceReplayStore\<lparr>rs_seen := [demo_key_seen \<mapsto> 1000]\<rparr>, Ok ())"
    by (auto simp: checkAndRecord_Ok newNonceReplayStore_def prune_def)
  then have "verifyDescriptorBoundAdmission demo_platform (DBEnvelope demo_envelope) demo_caller_signature (Some demo_resolver)
      (Some newNonceReplayStore) (Some demo_policy) 1000 = (Some (newNonceReplayStore\<lparr>rs_seen := [demo_key_seen \<mapsto> 1000]\<rparr>), Ok demo_admission)"
    using demo_subject_entity
    by (simp add: admission_Ok demo_checks demo_key_seen_def demo_admission_def) (simp add: demo_envelope_def)
  with assms show ?thesis
    by (simp add: admit_def demo_request_def NewDescriptorBoundInvocationRequest_def)
qed

lemma demo_evidence: "admitted_evidence demo_admission demo_provider_binding = Ok (demo_descriptor, demo_implementation)"
proof -
  have "resolvedDescriptorEvidence demo_admission demo_provider_binding = resolvedDescriptorEvidence demo_admission demo_binding"
    by (simp add: resolvedDescriptorEvidence_def demo_provider_binding_def)
  moreover have "registeredImplementationEvidence demo_provider_binding = Ok demo_implementation"
  proof -
    have "\<not> blank ''go''" by code_simp
    then show ?thesis
      by (simp add: registeredImplementationEvidence_def demo_provider_binding_def demo_binding_def demo_implementation_def)
  qed
  ultimately show ?thesis using demo_resolved by (simp add: admitted_evidence_def)
qed

lemma demo_invoke:
  "\<exists>r st se. InvokeDescriptorBoundRequest demo_platform demo_resolve demo_request demo_invoke_env demo_bound = Some (r, Ok (st, se))"
proof -
  let ?s = "newNonceReplayStore\<lparr>rs_seen := [demo_key_seen \<mapsto> 1000]\<rparr>"
  let ?r1 = "demo_bound\<lparr>rt_replay := ?s\<rparr>"
  let ?r2 = "?r1\<lparr>rt_active_count := 1\<rparr>"
  let ?r3 = "?r2\<lparr>rt_provider := demo_provider\<rparr>"
  have q: "rq_parent demo_request = []" "rq_supervisor demo_request = None" "rq_payload demo_request = []"
    by (simp_all add: demo_request_def NewDescriptorBoundInvocationRequest_def)
  have env: "iv_id demo_invoke_env = ''i''" "iv_admission_ms demo_invoke_env = 1000" "iv_now demo_invoke_env = 0"
    "iv_clock demo_invoke_env = (\<lambda>_. 1)"
    by (simp_all add: demo_invoke_env_def)
  obtain ref where ref: "request_checks demo_platform demo_request = Ok ref" "find_provider demo_bound ref = Ok demo_provider_binding"
    using demo_request_checks by blast
  have reserve: "reserveInvocation ?r1 [] None ''pending_invocation_limit'' 0 = (?r2, Ok None)"
    by (simp add: reserveInvocation_def canonicalPendingCapacity_def requested_deadline_def demo_bound_sel)
  have "Bind demo_platform demo_empty_provider ''i'' demo_admission demo_descriptor demo_implementation
      = (demo_provider, Ok demo_context)"
    using demo_binds by (simp add: Bind_def demo_empty_provider_def demo_provider_def)
  then have bind: "bind_context demo_platform ''receipt_context_bind_failed:'' ''i'' demo_admission demo_descriptor demo_implementation ?r2
      = (?r3, Ok demo_context)"
    by (simp add: bind_context_def demo_bound_sel)
  have initialize: "initialize_record demo_platform ''i'' demo_request ref demo_provider_binding None ?r3 = (?r3, Ok ())"
    using q by (simp add: initialize_record_def persisting_def)
  obtain c r4 where "emit_all demo_platform demo_resolve None (newInvocationCore ''i'' [] (Some demo_context) None) ?r3
      (handshake_emissions (\<lambda>_. 1)) = (c, r4, Ok ())"
    using demo_handshake [of ?r3] by auto
  then obtain r5 st where "invokeRegistered demo_platform demo_resolve (pb_handler demo_provider_binding) [] [] None
      (Some demo_context) None False terminalOwnerCompletion demo_invoke_env ?r3 = Some (r5, Ok st)"
    using env by (simp add: invokeRegistered_def Let_def announce_child_def)
  then obtain r6 se where "invoke_reserved demo_platform demo_resolve demo_request ref demo_provider_binding demo_admission
      demo_descriptor demo_implementation None demo_invoke_env ?r2 = Some (r6, Ok (st, se))"
    using bind initialize q env by (simp add: invoke_reserved_def Let_def persisting_def)
  then have "InvokeDescriptorBoundRequest demo_platform demo_resolve demo_request demo_invoke_env demo_bound = Some (r6, Ok (st, se))"
    using ref demo_admit [of demo_bound] demo_evidence reserve q env
    by (simp add: InvokeDescriptorBoundRequest_def demo_bound_sel)
  then show ?thesis by blast
qed

lemma demo_bound_reachable: "slots_initial (demo_idle, {#})" "runtime_steps P resolve (demo_idle, {#}) (demo_bound, {#})"
proof -
  show "slots_initial (demo_idle, {#})" using demo_idle_Ok by (auto simp: slots_initial_def)
  show "runtime_steps P resolve (demo_idle, {#}) (demo_bound, {#})"
    by (rule rest_steps) (simp add: demo_bound_def BindProvider_def)
qed

section \<open>Properties\<close>

text \<open>C4: an invocation that was started is the one that was signed.  When a call starts an
  invocation, the request is unary, its payload has the signed digest, the registered provider
  has exactly the descriptor reference the envelope names, and admission has verified the
  caller's signature and recorded the nonce; the handler gets that provider and that payload;
  the identifier is new, its token is current, and its core is running with the four events of
  the handshake.\<close>

theorem invoke_sound:
  assumes "slots_initial x" and "runtime_steps P resolve x (r, F)"
    and "InvokeDescriptorBoundRequest P resolve q v r = Some (r', Ok (st, se))"
  shows "\<exists>ref b adm c. rq_call_mode q = CallModeRPC
    \<and> en_args_digest (dbe_envelope (rq_envelope q)) = pf_sha256 P (st_payload st) \<and> st_payload st = rq_payload q
    \<and> ParseAbilityDescriptorRef (en_ability (dbe_envelope (rq_envelope q))) = Ok ref
    \<and> rt_abilities r (ad_ability_ura ref) = Some b \<and> ad_raw (de_ref (pb_descriptor b)) = ad_raw ref
    \<and> st_handler st = pb_handler b
    \<and> verifyDescriptorBoundAdmission P (rq_envelope q) (rq_signature q) (Some (rt_resolver r))
        (Some (rt_replay r)) (Some (rt_policy r)) (iv_admission_ms v) = (Some (rt_replay r'), Ok adm)
    \<and> rt_cores r (iv_id v) = None \<and> rt_cores r' (iv_id v) = Some c \<and> currentToken r' (iv_id v) = Ok (st_token st)
    \<and> ic_state c = StateRunning \<and> ic_parent c = rq_parent q
    \<and> map ie_type (ic_events c) = [''accepted'', ''admitted'', ''dispatched'', ''running'']
    \<and> AxiomEnvelopeOf r' (iv_id v) = Some se \<and> se_envelope se = dbe_envelope (rq_envelope q)"
proof -
  obtain ref b adm d m deadline r1 r2 where s:
    "request_checks P q = Ok ref" "find_provider r ref = Ok b"
    "admit P (rq_envelope q) (rq_signature q) (iv_admission_ms v) r = (r1, Ok adm)"
    "reserveInvocation r1 (rq_parent q) (rq_supervisor q) ''pending_invocation_limit'' (iv_now v) = (r2, Ok deadline)"
    "invoke_reserved P resolve q ref b adm d m deadline v r2 = Some (r', Ok (st, se))"
    using assms(3) by (rule invoke_stages)
  obtain r3 r4 r5 ctx where t:
    "bind_context P ''receipt_context_bind_failed:'' (iv_id v) adm d m r2 = (r3, Ok ctx)"
    "initialize_record P (iv_id v) q ref b deadline r3 = (r4, Ok ())"
    "invokeRegistered P resolve (pb_handler b) (rq_payload q) (rq_parent q) (rq_supervisor q) (Some ctx) deadline
       (persisting q) terminalOwnerCompletion v r4 = Some (r5, Ok st)"
    "se = \<lparr>se_envelope = dbe_envelope (rq_envelope q), se_signature = rq_signature q\<rparr>"
    "r' = r5\<lparr>rt_envelopes := (rt_envelopes r5)(iv_id v \<mapsto> se)\<rparr>"
    using s(5) by (rule invoke_reserved_Ok)
  obtain store where a: "r1 = r\<lparr>rt_replay := store\<rparr>"
    "verifyDescriptorBoundAdmission P (rq_envelope q) (rq_signature q) (Some (rt_resolver r))
      (Some (rt_replay r)) (Some (rt_policy r)) (iv_admission_ms v) = (Some store, Ok adm)"
    using s(3) by (rule admit_Ok)
  have frame: "rt_replay r4 = store" "rt_cores r2 = rt_cores r" "rt_provider r2 = rt_provider r"
    using initialize_frame [OF t(2)] bind_frame [OF t(1)] reserve_frame [OF s(4)] a(1)
    by (simp_all add: static_def)
  have "slots_inv (r, F)" by (rule slot_sys.reachable_inv [OF assms(1,2)])
  then have bound: "dom (parent_of r) \<subseteq> dom (pv_contexts (rt_provider r))" by (simp add: slots_inv_def accounted_def)
  have "iv_id v \<notin> dom (pv_contexts (rt_provider r))" using bind_context_sel(1) [OF t(1)] frame(3) by simp
  moreover have "rt_cores r (iv_id v) \<noteq> None \<Longrightarrow> iv_id v \<in> dom (parent_of r)" by (auto simp: parent_of_def)
  ultimately have unknown: "rt_cores r (iv_id v) = None" using bound by blast
  have "rq_parent q = [] \<or> rt_cores r (rq_parent q) \<noteq> None"
    using s(4) a(1) by (auto simp: reserveInvocation_def split: if_splits option.splits)
  with unknown bind_named [OF t(1)] have "iv_id v \<noteq> rq_parent q" by auto
  with invokeRegistered_Ok [OF t(3)] obtain c where c: "rt_cores r5 (iv_id v) = Some c" "ic_parent c = rq_parent q"
    "ic_state c = StateRunning" "map ie_type (ic_events c) = [''accepted'', ''admitted'', ''dispatched'', ''running'']"
    "rt_replay r5 = store" "st_handler st = pb_handler b" "st_payload st = rq_payload q"
    "currentToken r5 (iv_id v) = Ok (st_token st)"
    using frame(1) by auto
  have r': "rt_cores r' = rt_cores r5" "rt_replay r' = rt_replay r5" "currentToken r' (iv_id v) = currentToken r5 (iv_id v)"
    "AxiomEnvelopeOf r' (iv_id v) = Some se"
    by (simp_all add: t(5) currentToken_def AxiomEnvelopeOf_def)
  have checks: "rq_call_mode q = CallModeRPC"
    "ParseAbilityDescriptorRef (en_ability (dbe_envelope (rq_envelope q))) = Ok ref"
    "en_args_digest (dbe_envelope (rq_envelope q)) = pf_sha256 P (rq_payload q)"
    using s(1) by (auto simp: request_checks_Ok)
  show ?thesis
    using checks s(2) a(2) c r' unknown t(4) unfolding find_provider_Ok
    by (intro exI [of _ ref] exI [of _ b] exI [of _ adm] exI [of _ c]) simp
qed

theorem invoke_sound_witness:
  "\<exists>r st se c. InvokeDescriptorBoundRequest demo_platform demo_resolve demo_request demo_invoke_env demo_bound = Some (r, Ok (st, se))
     \<and> st_payload st = [] \<and> rt_cores r ''i'' = Some c \<and> ic_state c = StateRunning"
proof -
  obtain r st se where i: "InvokeDescriptorBoundRequest demo_platform demo_resolve demo_request demo_invoke_env demo_bound = Some (r, Ok (st, se))"
    using demo_invoke by blast
  from invoke_sound [OF demo_bound_reachable i] i show ?thesis
    by (auto simp: demo_request_def NewDescriptorBoundInvocationRequest_def demo_invoke_env_def)
qed

text \<open>A refusal for lack of capacity uses up the nonce.  When the pending capacity is reached,
  a request that passes every other check is refused with the advice to retry; the same request
  is refused as a replay at every later instant inside the window, whatever has become of the
  capacity.\<close>

theorem capacity_refusal_burns_nonce:
  assumes "int canonicalPendingCapacity \<le> rt_active_count r"
    and "request_checks P q = Ok ref" "find_provider r ref = Ok b"
    and "admit P (rq_envelope q) (rq_signature q) (iv_admission_ms v) r = (r1, Ok adm)"
    and "admitted_evidence adm b = Ok ev"
    and "rt_replay r2 = rt_replay r1" "rt_resolver r2 = rt_resolver r" "rt_policy r2 = rt_policy r"
    and "0 \<le> sint (iv_admission_ms v)" "sint (iv_admission_ms v) \<le> sint now"
    "sint now - sint (rs_window_ms (rt_replay r)) \<le> sint (iv_admission_ms v)" "0 \<le> sint (rs_window_ms (rt_replay r))"
  shows "InvokeDescriptorBoundRequest P resolve q v r = Some (r1, Fail (AxonErr (WithRetryAfterMs (ErrResourceExhausted
      (if rq_parent q \<noteq> [] then ''pending_child_dispatch_limit'' else ''pending_invocation_limit'')) 100)))
    \<and> \<not> is_ok (snd (admit P (rq_envelope q) (rq_signature q) now r2))"
proof -
  obtain store where a: "r1 = r\<lparr>rt_replay := store\<rparr>"
    "verifyDescriptorBoundAdmission P (rq_envelope q) (rq_signature q) (Some (rt_resolver r))
      (Some (rt_replay r)) (Some (rt_policy r)) (iv_admission_ms v) = (Some store, Ok adm)"
    using assms(4) by (rule admit_Ok)
  have "rt_active_count r1 = rt_active_count r" by (simp add: a(1))
  with assms(1) have "reserveInvocation r1 (rq_parent q) (rq_supervisor q) ''pending_invocation_limit'' (iv_now v)
      = (r1, Fail (AxonErr (WithRetryAfterMs (ErrResourceExhausted
          (if rq_parent q \<noteq> [] then ''pending_child_dispatch_limit'' else ''pending_invocation_limit'')) 100)))"
    by (simp add: reserveInvocation_def)
  with assms(2-5) have refused: "InvokeDescriptorBoundRequest P resolve q v r = Some (r1, Fail (AxonErr (WithRetryAfterMs
      (ErrResourceExhausted (if rq_parent q \<noteq> [] then ''pending_child_dispatch_limit'' else ''pending_invocation_limit'')) 100)))"
    by (cases ev) (simp add: InvokeDescriptorBoundRequest_def)
  let ?k = "replay_key_of (dbe_envelope (rq_envelope q))"
  have rec: "checkAndRecord (rt_replay r) ?k (iv_admission_ms v) = (store, Ok ())"
    using a(2) by (auto simp: admission_Ok)
  have "observed store ?k = Some (iv_admission_ms v)" "window store = window (rt_replay r)"
    using replay.records [OF rec] replay.keeps_window [of "rt_replay r" ?k "iv_admission_ms v"] rec by simp_all
  then have "\<not> is_ok (snd (checkAndRecord store ?k now))"
    using replay.refuses [of store ?k "iv_admission_ms v" now] assms(9-) by (simp add: window_def)
  moreover have "rt_replay r2 = store" using assms(6) a(1) by simp
  ultimately have "\<not> is_ok (snd (verifyDescriptorBoundAdmission P (rq_envelope q) (rq_signature q) (Some (rt_resolver r2))
      (Some (rt_replay r2)) (Some (rt_policy r2)) now))"
    by (simp add: admission_is_ok)
  then have "\<not> is_ok (snd (admit P (rq_envelope q) (rq_signature q) now r2))"
    by (auto simp: admit_def split: prod.splits)
  with refused show ?thesis by simp
qed

theorem capacity_refusal_burns_nonce_witness:
  "\<not> is_ok (snd (admit demo_platform (rq_envelope demo_request) (rq_signature demo_request) 1500
      (demo_bound\<lparr>rt_replay := newNonceReplayStore\<lparr>rs_seen := [demo_key_seen \<mapsto> 1000]\<rparr>\<rparr>)))"
proof -
  let ?r = "demo_bound\<lparr>rt_active_count := 256\<rparr>"
  obtain ref where ref: "request_checks demo_platform demo_request = Ok ref" "find_provider demo_bound ref = Ok demo_provider_binding"
    using demo_request_checks by blast
  have "find_provider ?r ref = Ok demo_provider_binding" using ref(2) by (simp add: find_provider_def)
  moreover have "admit demo_platform (rq_envelope demo_request) (rq_signature demo_request) (iv_admission_ms demo_invoke_env) ?r
    = (?r\<lparr>rt_replay := newNonceReplayStore\<lparr>rs_seen := [demo_key_seen \<mapsto> 1000]\<rparr>\<rparr>, Ok demo_admission)"
    using demo_admit [of ?r] by (simp add: demo_bound_sel demo_invoke_env_def)
  ultimately show ?thesis
    using capacity_refusal_burns_nonce [of ?r demo_platform demo_request ref demo_provider_binding demo_invoke_env
        "?r\<lparr>rt_replay := newNonceReplayStore\<lparr>rs_seen := [demo_key_seen \<mapsto> 1000]\<rparr>\<rparr>" demo_admission
        "(demo_descriptor, demo_implementation)"
        "demo_bound\<lparr>rt_replay := newNonceReplayStore\<lparr>rs_seen := [demo_key_seen \<mapsto> 1000]\<rparr>\<rparr>" 1500] ref(1) demo_evidence
    by (simp add: canonicalPendingCapacity_def demo_bound_sel demo_invoke_env_def newNonceReplayStore_def DefaultDedupWindowMs_def)
qed

section \<open>Recovery and the registry of children\<close>

lemma recover_reserved_children:
  assumes "recover_reserved P resolve s envelope b continuation now r = (r', res)"
  shows "rt_children r' = rt_children r"
proof -
  obtain r1 a where ad: "admit P envelope (sn_signature s) now r = (r1, a)" by fastforce
  then have 1: "rt_children r1 = rt_children r" by (auto simp: admit_def split: prod.splits)
  have 2: "rt_children r2 = rt_children r1" if "bind_context P failure i adm d m r1 = (r2, x)" for failure i adm d m r2 x
    using that by (auto simp: bind_context_def split: prod.splits)
  have 3: "rt_children r3 = rt_children r2" if "restore_core P resolve s ctx now r2 = (c, r3, y)" for ctx r2 c r3 y
    using that by (auto simp: restore_core_def Let_def split: prod.splits)
  from assms ad 1 show ?thesis
    by (auto simp: recover_reserved_def register_recovered_def register_entries_def Let_def
        split: result.splits prod.splits dest!: 2 3)
qed

lemma recoverSnapshot_children:
  assumes "recoverSnapshot P resolve now s r = (r', res)"
  shows "rt_children r' = rt_children r"
proof -
  have "rt_children r1 = rt_children r" if "reserve_recovered r p = (r1, u)" for r1 p u
    using that by (auto simp: reserve_recovered_def split: if_splits)
  then show ?thesis
    using assms by (auto simp: recoverSnapshot_def releaseUnboundReservation_def release_slot_def
        split: result.splits prod.splits dest: recover_reserved_children)
qed

lemma recover_loop_children: "rt_children (fst (recover_loop P resolve now ss acc r)) = rt_children r"
proof (induction ss arbitrary: acc r)
  case (Cons s ss)
  obtain r1 x where s: "recoverSnapshot P resolve (now (sn_invocation_id s)) s r = (r1, x)" by fastforce
  with Cons recoverSnapshot_children [OF s] show ?case
    by (cases x) (simp_all add: log_frame(4) [OF surjective_pairing])
qed simp

text \<open>Recovery does not register children.  Whatever is recovered, the children the runtime
  knows of each invocation are those it knew before; a runtime that was restarted knows none,
  so cancelling a recovered parent does not reach its recovered children.\<close>

theorem recovered_children_forgotten:
  "ChildrenOf (fst (RecoverPersistedInvocations P resolve now lease r)) p = ChildrenOf r p"
proof -
  obtain r1 x where c: "runtime_log (\<lambda>io d t. ClaimRecovery io d t (rt_runtime_id r) lease
      (int canonicalPendingCapacity - rt_active_count r)) (Ok []) r = (r1, x)" by fastforce
  have "rt_children (fst (RecoverPersistedInvocations P resolve now lease r)) = rt_children r"
    using c log_frame(4) [OF c]
    by (cases x) (auto simp: RecoverPersistedInvocations_def Let_def recover_loop_children)
  then show ?thesis by (simp add: ChildrenOf_def)
qed

end
