(* ===== verification/JsonCodec.thy ===== *)
theory JsonCodec
  imports Identity
begin

text \<open>
  The field codecs of the portable bundle format (the helpers at the end of
  \<open>axon/invocation/bundle.go\<close>): hexadecimal fields of fixed width, the canonical
  decimal strings of the 64- and 32-bit counters, and the parser of the public-key
  alias specification.  \<open>encoding/hex\<close> and \<open>path/filepath\<close> are modelled down to their
  error texts; \<open>strconv.Unquote\<close>, which decodes Go escape sequences, is an argument.
\<close>

section \<open>Hexadecimal fields\<close>

definition hex_digit :: "nat \<Rightarrow> char" where
  "hex_digit n = char_of (if n < 10 then 48 + n else 87 + n)"

text \<open>\<open>hex.EncodeToString\<close>.\<close>

definition hex_encode :: "bytes \<Rightarrow> string" where
  "hex_encode bs = concat (map (\<lambda>b. [hex_digit (unat b div 16), hex_digit (unat b mod 16)]) bs)"

text \<open>The verb \<open>%#U\<close> of \<open>fmt\<close> on a byte: the code point and, when it is printable, the
  character itself in UTF-8.\<close>

definition latin1_utf8 :: "nat \<Rightarrow> string" where
  "latin1_utf8 b = (if b < 128 then [char_of b] else [char_of (192 + b div 64), char_of (128 + b mod 64)])"

definition latin1_printable :: "nat \<Rightarrow> bool" where
  "latin1_printable b = (32 \<le> b \<and> b < 127 \<or> 161 \<le> b \<and> b \<noteq> 173)"

definition unicode_verb :: "char \<Rightarrow> string" where
  "unicode_verb c =
     (let b = of_char c :: nat in
      ''U+00'' @ [ascii_upper (hex_digit (b div 16)), ascii_upper (hex_digit (b mod 16))]
      @ (if latin1_printable b then [CHR '' '', CHR 0x27] @ latin1_utf8 b @ [CHR 0x27] else []))"

text \<open>The text of the error of \<open>hex.DecodeString\<close>: the first byte that is not a digit, or
  the odd length when every byte is.\<close>

fun hex_error :: "string \<Rightarrow> string" where
  "hex_error [] = ''encoding/hex: odd length hex string''"
| "hex_error (c # s) =
     (if hex_val c = None then ''encoding/hex: invalid byte: '' @ unicode_verb c else hex_error s)"

text \<open>\<open>copy(out[:], b)\<close> into an array, most significant byte first.\<close>

definition word_of_bytes :: "bytes \<Rightarrow> 'a::len word" where
  "word_of_bytes bs = foldl (\<lambda>h b. push_bit 8 h OR ucast b) 0 bs"

definition hexTo32 :: "string \<Rightarrow> hash32 result" where
  "hexTo32 s =
     (case hex_decode s of
        None \<Rightarrow> invalid_arg (''bad_hex:'' @ hex_error s)
      | Some b \<Rightarrow> if length b \<noteq> 32 then invalid_arg (''expected_32_bytes_got_'' @ dec_nat (length b))
                  else Ok (word_of_bytes b))"

definition hexTo16 :: "string \<Rightarrow> nonce16 result" where
  "hexTo16 s =
     (case hex_decode s of
        None \<Rightarrow> invalid_arg (''bad_hex:'' @ hex_error s)
      | Some b \<Rightarrow> if length b \<noteq> 16 then invalid_arg (''expected_16_bytes_got_'' @ dec_nat (length b))
                  else Ok (word_of_bytes b))"

definition isZero32 :: "hash32 \<Rightarrow> bool" where
  "isZero32 value = list_all (\<lambda>b. b = 0) (be_bytes 32 value)"

section \<open>Decimal counters\<close>

definition is_digit :: "char \<Rightarrow> bool" where
  "is_digit c = (48 \<le> (of_char c :: nat) \<and> (of_char c :: nat) \<le> 57)"

text \<open>The value \<open>strconv.ParseUint\<close> reads from a string of decimal digits.\<close>

definition dec_val :: "string \<Rightarrow> nat" where
  "dec_val s = foldl (\<lambda>n c. 10 * n + (of_char c - 48)) 0 s"

definition parseDecimalU64 :: "string \<Rightarrow> u64 result" where
  "parseDecimalU64 value =
     (if value = [] \<or> length value > 1 \<and> hd value = CHR ''0''
      then invalid_arg (''invalid_u64_decimal:'' @ value)
      else if \<not> list_all is_digit value then invalid_arg (''invalid_u64_decimal:'' @ value)
      else if dec_val value \<ge> 2 ^ 64 then invalid_arg (''u64_out_of_range:'' @ value)
      else Ok (word_of_nat (dec_val value)))"

text \<open>\<open>unquote\<close> stands for \<open>strconv.Unquote\<close>, whose only error reads \<open>invalid syntax\<close>.\<close>

definition parseJSONU64 :: "(string \<Rightarrow> string option) \<Rightarrow> string \<Rightarrow> u64 result" where
  "parseJSONU64 unquote data =
     (let raw = trim_space data in
      if raw = [] \<or> raw = ''null'' then invalid_arg ''invalid_u64_decimal''
      else if \<not> has_prefix raw [CHR 0x22] then invalid_arg ''invalid_u64_decimal_string''
      else (case unquote raw of
              None \<Rightarrow> invalid_arg ''invalid_u64_json_string:invalid syntax''
            | Some value \<Rightarrow> parseDecimalU64 value))"

text \<open>\<open>strconv.Quote\<close> of a string of digits puts it between double quotes.\<close>

definition JSONU64_MarshalJSON :: "u64 \<Rightarrow> string" where
  "JSONU64_MarshalJSON v = CHR 0x22 # dec_nat (unat v) @ [CHR 0x22]"

definition JSONU64_UnmarshalJSON :: "(string \<Rightarrow> string option) \<Rightarrow> string \<Rightarrow> u64 result" where
  "JSONU64_UnmarshalJSON unquote data = bindR (parseJSONU64 unquote data) Ok"

definition JSONU32_MarshalJSON :: "u32 \<Rightarrow> string" where
  "JSONU32_MarshalJSON v = CHR 0x22 # dec_nat (unat v) @ [CHR 0x22]"

definition JSONU32_UnmarshalJSON :: "(string \<Rightarrow> string option) \<Rightarrow> string \<Rightarrow> u32 result" where
  "JSONU32_UnmarshalJSON unquote data =
     bindR (parseJSONU64 unquote data) (\<lambda>value.
       if value > ucast (- 1 :: u32) then invalid_arg (''u32_out_of_range:'' @ dec_nat (unat value))
       else Ok (ucast value))"

section \<open>The public-key alias map\<close>

text \<open>\<open>filepath.Clean\<close> on a system whose separator is the slash: the components are
  processed left to right; \<open>stack\<close> holds the output, last component first.\<close>

fun clean_component :: "bool \<Rightarrow> string list \<Rightarrow> string \<Rightarrow> string list" where
  "clean_component rooted stack part =
     (if part = [] \<or> part = ''.'' then stack
      else if part = ''..''
      then (case stack of
              [] \<Rightarrow> if rooted then [] else [''..'']
            | up # rest \<Rightarrow> if up = ''..'' then ''..'' # stack else rest)
      else part # stack)"

fun join_path :: "string list \<Rightarrow> string" where
  "join_path [] = []"
| "join_path [p] = p"
| "join_path (p # ps) = p @ CHR ''/'' # join_path ps"

definition path_clean :: "string \<Rightarrow> string" where
  "path_clean path =
     (let rooted = has_prefix path ''/'';
          out = (if rooted then ''/'' else [])
            @ join_path (rev (foldl (clean_component rooted) [] (split_on CHR ''/'' path)))
      in if out = [] then ''.'' else out)"

type_synonym pubkey_map = "string \<Rightarrow> string option"

fun pubkey_parts :: "pubkey_map \<Rightarrow> string list \<Rightarrow> pubkey_map result" where
  "pubkey_parts m [] = Ok m"
| "pubkey_parts m (p # ps) =
     (let part = trim_space p in
      if part = [] then pubkey_parts m ps
      else (case cut CHR ''='' part of
              None \<Rightarrow> invalid_arg (''bad_pubkey_spec:'' @ part @ ''; expected alias=path'')
            | Some (a, b) \<Rightarrow> pubkey_parts (m(trim_space a \<mapsto> path_clean (trim_space b))) ps))"

definition ParsePubkeyMap :: "string \<Rightarrow> pubkey_map result" where
  "ParsePubkeyMap spec = pubkey_parts Map.empty (split_on CHR '','' spec)"

section \<open>Lemmas: bytes of a word\<close>

lemma word_of_bytes_snoc: "word_of_bytes (bs @ [b]) = push_bit 8 (word_of_bytes bs) OR ucast b"
  by (simp add: word_of_bytes_def)

lemma bit_word_of_bytes:
  "bit (word_of_bytes bs :: 'a::len word) k \<longleftrightarrow> k < LENGTH('a) \<and> k < 8 * length bs
     \<and> bit (bs ! (length bs - 1 - k div 8)) (k mod 8)"
proof (induction bs arbitrary: k rule: rev_induct)
  case Nil
  show ?case by (simp add: word_of_bytes_def)
next
  case (snoc b bs)
  show ?case
  proof (cases "k < 8")
    case True
    then show ?thesis
      by (auto simp: word_of_bytes_snoc bit_or_iff bit_push_bit_iff bit_ucast_iff nth_append)
  next
    case False
    then obtain j where j: "k = j + 8" by (metis add.commute le_Suc_ex not_less)
    have "\<not> bit b k" using False by (auto dest: bit_imp_le_length)
    then have "bit (word_of_bytes (bs @ [b]) :: 'a word) k
        \<longleftrightarrow> k < LENGTH('a) \<and> bit (word_of_bytes bs :: 'a word) j"
      using j by (auto simp: word_of_bytes_snoc bit_or_iff bit_push_bit_iff bit_ucast_iff)
    moreover have "bs ! (length bs - 1 - j div 8) = (bs @ [b]) ! (length bs - 1 - j div 8)"
      if "j < 8 * length bs"
    proof -
      from that have "bs \<noteq> []" by auto
      then show ?thesis by (simp add: nth_append)
    qed
    moreover have "(j + 8) div 8 = Suc (j div 8)" "(j + 8) mod 8 = j mod 8" by simp_all
    ultimately show ?thesis using snoc.IH [of j] j by (auto simp del: mod_add_self2 div_add_self2)
  qed
qed

lemma word_of_bytes_be_bytes:
  assumes "LENGTH('a) \<le> 8 * n"
  shows "word_of_bytes (be_bytes n w) = (w :: 'a::len word)"
proof (rule bit_word_eqI)
  fix k assume k: "k < LENGTH('a)"
  with assms have "k < 8 * n" by simp
  with k bit_be_bytes [of k n w] show "bit (word_of_bytes (be_bytes n w) :: 'a word) k = bit w k"
    by (simp add: bit_word_of_bytes)
qed

lemma be_bytes_word_of_bytes:
  assumes "LENGTH('a) = 8 * length bs"
  shows "be_bytes (length bs) (word_of_bytes bs :: 'a::len word) = bs"
proof (rule nth_equalityI)
  fix i assume "i < length (be_bytes (length bs) (word_of_bytes bs :: 'a word))"
  then have i: "i < length bs" by simp
  show "be_bytes (length bs) (word_of_bytes bs :: 'a word) ! i = bs ! i"
  proof (rule bit_word_eqI)
    fix k assume "k < LENGTH(8)"
    then have k: "k < 8" by simp
    let ?k = "8 * (length bs - 1 - i) + k"
    have d: "?k div 8 = length bs - 1 - i" "?k mod 8 = k" using k by simp_all
    have r: "?k < 8 * length bs" using i k by simp
    have e: "length bs - 1 - (length bs - 1 - i) = i" using i by simp
    have "bit (be_bytes (length bs) (word_of_bytes bs :: 'a word) ! i) k
        = bit (word_of_bytes bs :: 'a word) ?k"
      using bit_be_bytes [OF r, of "word_of_bytes bs :: 'a word"] by (simp only: d e)
    also have "\<dots> = bit (bs ! i) k"
      using r assms by (simp only: bit_word_of_bytes d e) simp
    finally show "bit (be_bytes (length bs) (word_of_bytes bs :: 'a word) ! i) k = bit (bs ! i) k" .
  qed
qed simp

lemma isZero32_iff [simp]: "isZero32 h = (h = 0)"
proof
  assume z: "isZero32 h"
  have "be_bytes 32 h = be_bytes 32 (0 :: hash32)"
  proof (rule nth_equalityI)
    fix i assume "i < length (be_bytes 32 h)"
    with z show "be_bytes 32 h ! i = be_bytes 32 (0 :: hash32) ! i"
      by (simp add: isZero32_def list_all_length be_bytes_nth)
  qed simp
  then show "h = 0" by (simp add: be_bytes_eq_iff)
qed (simp add: isZero32_def be_bytes_def list_all_iff)

section \<open>Lemmas: hexadecimal round trips\<close>

lemma hex_val_digit: "n < 16 \<Longrightarrow> hex_val (hex_digit n) = Some n"
  by (auto simp: hex_val_def hex_digit_def Let_def)

lemma hex_encode_Nil [simp]: "hex_encode [] = []"
  by (simp add: hex_encode_def)

lemma hex_encode_Cons:
  "hex_encode (b # bs) = hex_digit (unat b div 16) # hex_digit (unat b mod 16) # hex_encode bs"
  by (simp add: hex_encode_def)

lemma length_hex_encode [simp]: "length (hex_encode bs) = 2 * length bs"
  by (induction bs) (simp_all add: hex_encode_Cons)

lemma hex_decode_encode [simp]: "hex_decode (hex_encode bs) = Some bs"
proof (induction bs)
  case (Cons b bs)
  have "unat b < 256" using unsigned_less [of b] by simp
  then have "unat b div 16 < 16" and "unat b mod 16 < 16" by auto
  moreover have "16 * (unat b div 16) + unat b mod 16 = unat b" by simp
  then have "word_of_nat (16 * (unat b div 16) + unat b mod 16) = b" by (simp only: of_nat_unat ucast_id)
  ultimately show ?case using Cons by (simp add: hex_encode_Cons hex_val_digit)
qed simp

lemma hexTo32_encode [simp]: "hexTo32 (hex_encode (be_bytes 32 h)) = Ok h"
  by (simp add: hexTo32_def word_of_bytes_be_bytes)

lemma hexTo16_encode [simp]: "hexTo16 (hex_encode (be_bytes 16 n)) = Ok n"
  by (simp add: hexTo16_def word_of_bytes_be_bytes)

text \<open>The reverse holds up to the case of the digits.\<close>

lemma hex_digit_val: "hex_val c = Some n \<Longrightarrow> n < 16 \<and> hex_digit n = ascii_lower c"
proof -
  assume v: "hex_val c = Some n"
  then have "c \<in> set hex_chars" using hex_val_chars [of c] by simp
  moreover have "\<forall>c \<in> set hex_chars.
      (case hex_val c of Some n \<Rightarrow> n < 16 \<and> hex_digit n = ascii_lower c | None \<Rightarrow> False)"
    by code_simp
  ultimately show ?thesis using v by fastforce
qed

lemma hex_encode_decode: "hex_decode s = Some bs \<Longrightarrow> hex_encode bs = map ascii_lower s"
proof (induction s arbitrary: bs rule: hex_decode.induct)
  case (3 c d s)
  then obtain h l rest where *: "hex_val c = Some h" "hex_val d = Some l" "hex_decode s = Some rest"
      "bs = word_of_nat (16 * h + l) # rest"
    by (auto split: option.splits)
  note hl = hex_digit_val [OF *(1)] hex_digit_val [OF *(2)]
  then have "16 * h + l < 256" by simp
  then have "unat (word_of_nat (16 * h + l) :: u8) = 16 * h + l"
    by (subst unat_of_nat) simp
  moreover have "hex_encode rest = map ascii_lower s" using 3 *(3) by blast
  ultimately show ?case using * hl by (simp add: hex_encode_Cons)
qed auto

lemma hexTo32_canonical: "hexTo32 s = Ok h \<Longrightarrow> hex_encode (be_bytes 32 h) = map ascii_lower s"
proof -
  assume "hexTo32 s = Ok h"
  then obtain b where b: "hex_decode s = Some b" "length b = 32" "h = word_of_bytes b"
    by (auto simp: hexTo32_def split: option.splits if_splits)
  with be_bytes_word_of_bytes [of b, where 'a = 256] hex_encode_decode [OF b(1)] show ?thesis by simp
qed

section \<open>Lemmas: decimal round trips\<close>

lemma dec_val_snoc: "dec_val (s @ [c]) = 10 * dec_val s + (of_char c - 48)"
  by (simp add: dec_val_def)

lemma of_char_digit: "n < 10 \<Longrightarrow> (of_char (char_of (48 + n :: nat)) :: nat) = 48 + n"
  by simp

lemma dec_nat_digits: "list_all is_digit (dec_nat n) \<and> dec_nat n \<noteq> [] \<and> dec_val (dec_nat n) = n"
proof (induction n rule: dec_nat.induct)
  case (1 n)
  show ?case
  proof (cases "n < 10")
    case True
    then show ?thesis
      by (subst (1 2 3) dec_nat.simps) (simp add: is_digit_def dec_val_def)
  next
    case False
    then have "dec_nat n = dec_nat (n div 10) @ [char_of (48 + n mod 10)]"
      by (subst dec_nat.simps) simp
    moreover have "(of_char (char_of (48 + n mod 10) :: char) :: nat) = 48 + n mod 10"
      by (rule of_char_digit) simp
    ultimately show ?thesis
      using 1 [OF False] by (simp add: dec_val_snoc is_digit_def)
  qed
qed

lemma dec_nat_no_leading_zero: "length (dec_nat n) > 1 \<Longrightarrow> hd (dec_nat n) \<noteq> CHR ''0''"
proof (induction n rule: dec_nat.induct)
  case (1 n)
  show ?case
  proof (cases "n < 10")
    case True
    then have "length (dec_nat n) = 1" by (subst dec_nat.simps) simp
    with 1(2) show ?thesis by simp
  next
    case False
    then have d: "dec_nat n = dec_nat (n div 10) @ [char_of (48 + n mod 10)]"
      by (subst dec_nat.simps) simp
    have ne: "dec_nat (n div 10) \<noteq> []" using dec_nat_digits by blast
    show ?thesis
    proof (cases "n div 10 < 10")
      case True
      have one: "dec_nat (n div 10) = [char_of (48 + n div 10)]"
        using True by (subst dec_nat.simps) simp
      have "n div 10 \<noteq> 0" using False by auto
      then have "(of_char (char_of (48 + n div 10) :: char) :: nat) \<noteq> of_char CHR ''0''"
        using of_char_digit [OF True] by simp
      with one d show ?thesis by (metis append_Cons list.sel(1))
    next
      case big: False
      then have "length (dec_nat (n div 10)) > 1"
        by (subst dec_nat.simps) (simp add: dec_nat_digits)
      with 1(1) [OF False] ne d show ?thesis by simp
    qed
  qed
qed

text \<open>A digit string without a leading zero is the one spelling of its value.\<close>

lemma dec_nat_dec_val:
  "list_all is_digit s \<Longrightarrow> s \<noteq> [] \<Longrightarrow> \<not> (length s > 1 \<and> hd s = CHR ''0'') \<Longrightarrow>
    dec_nat (dec_val s) = s \<and> (s \<noteq> ''0'' \<longrightarrow> dec_val s > 0)"
proof (induction s rule: rev_induct)
  case (snoc c s)
  have c: "48 \<le> (of_char c :: nat)" "(of_char c :: nat) \<le> 57"
    using snoc.prems(1) by (simp_all add: is_digit_def)
  then have again: "char_of (48 + (of_char c - 48) :: nat) = c"
    by (metis char_of_char le_add_diff_inverse)
  show ?case
  proof (cases "s = []")
    case True
    have "of_char c - 48 < (10 :: nat)" using c by simp
    then have "dec_nat (of_char c - 48) = [c]" using again by (subst dec_nat.simps) simp
    moreover have "of_char c - 48 = (0 :: nat) \<Longrightarrow> c = CHR ''0''"
    proof -
      assume "of_char c - 48 = (0 :: nat)"
      with again have "char_of (48 :: nat) = c" by simp
      moreover have "char_of (48 :: nat) = CHR ''0''" by code_simp
      ultimately show ?thesis by simp
    qed
    ultimately show ?thesis using True c by (cases "of_char c = (48 :: nat)") (auto simp: dec_val_def)
  next
    case False
    with snoc have ih: "dec_nat (dec_val s) = s" "s \<noteq> ''0'' \<longrightarrow> dec_val s > 0"
      by (auto simp: neq_Nil_conv)
    have "s \<noteq> ''0''" using snoc.prems(3) False by auto
    with ih have pos: "dec_val s > 0" by simp
    let ?n = "10 * dec_val s + (of_char c - 48)"
    have "of_char c - 48 < (10 :: nat)" using c by simp
    then have "?n div 10 = dec_val s" "?n mod 10 = of_char c - 48" "\<not> ?n < 10"
      using pos by (simp_all del: diff_diff_left add_diff_assoc add: div_add1_eq mod_add_eq)
    then have "dec_nat ?n = s @ [c]"
      using again ih(1) by (subst dec_nat.simps) simp
    with pos show ?thesis by (simp add: dec_val_snoc)
  qed
qed simp

lemma parseDecimalU64_iff: "parseDecimalU64 s = Ok v \<longleftrightarrow> s = dec_nat (unat v)"
proof
  assume "parseDecimalU64 s = Ok v"
  then have s: "list_all is_digit s" "s \<noteq> []" "\<not> (length s > 1 \<and> hd s = CHR ''0'')"
    and v: "dec_val s < 2 ^ 64" "v = word_of_nat (dec_val s)"
    by (auto simp: parseDecimalU64_def split: if_splits)
  from v have "unat v = dec_val s" by (simp add: unat_of_nat take_bit_nat_eq_self)
  with dec_nat_dec_val [OF s] show "s = dec_nat (unat v)" by simp
next
  have "unat v < 2 ^ 64" using unsigned_less [of v] by simp
  moreover assume "s = dec_nat (unat v)"
  ultimately show "parseDecimalU64 s = Ok v"
    using dec_nat_digits [of "unat v"] dec_nat_no_leading_zero [of "unat v"]
    by (simp add: parseDecimalU64_def)
qed

lemma dec_nat_solid: "list_all solid (dec_nat n)"
proof -
  have "list_all solid ''0123456789''"
    by (simp add: solid_def ws_seqs_def ws_ascii_def ws_unicode_def)
  moreover have "c \<in> set ''0123456789''" if "is_digit c" for c
  proof -
    from that have "(of_char c :: nat) \<in> set [48..<58]"
      by (simp only: is_digit_def set_upt atLeastLessThan_iff) simp
    then have "char_of (of_char c :: nat) \<in> set (map char_of [48..<58 :: nat] :: string)"
      by (simp only: set_map) (rule imageI)
    moreover have "map char_of [48..<58 :: nat] = ''0123456789''" by code_simp
    ultimately show ?thesis by (simp only: char_of_char)
  qed
  ultimately show ?thesis using dec_nat_digits [of n] unfolding list_all_iff by blast
qed

lemma parseJSONU64_dec:
  assumes "\<And>d. list_all is_digit d \<Longrightarrow> unquote (CHR 0x22 # d @ [CHR 0x22]) = Some d"
  shows "parseJSONU64 unquote (CHR 0x22 # dec_nat (unat v) @ [CHR 0x22]) = Ok v"
proof -
  let ?q = "CHR 0x22 # dec_nat (unat v) @ [CHR 0x22]"
  have "list_all solid ?q"
    using dec_nat_solid [of "unat v"] by (simp add: solid_def ws_seqs_def ws_ascii_def ws_unicode_def)
  then have "trim_space ?q = ?q" by (intro trim_space_trimmed solid_no_lead)
  then show ?thesis
    using assms dec_nat_digits [of "unat v"] parseDecimalU64_iff [of "dec_nat (unat v)" v]
    by (simp add: parseJSONU64_def has_prefix_def)
qed

text \<open>A 32-bit counter in 64 bits: its value, its bound and its return to 32 bits.\<close>

lemma widened_u32:
  fixes w :: u32
  shows "unat (ucast w :: u64) = unat w" and "\<not> (ucast w :: u64) > ucast (- 1 :: u32)"
    and "ucast (ucast w :: u64) = w"
proof -
  show up: "unat (ucast x :: u64) = unat x" for x :: u32
  proof -
    have "unat x < 2 ^ 32" using unsigned_less [of x] by simp
    then show ?thesis by (simp add: unsigned_ucast_eq take_bit_nat_eq_self)
  qed
  have "w \<le> - 1" by simp
  then have "unat w \<le> unat (- 1 :: u32)" by (simp only: word_le_nat_alt)
  then show "\<not> (ucast w :: u64) > ucast (- 1 :: u32)"
    by (simp only: not_less word_le_nat_alt up)
  show "ucast (ucast w :: u64) = w" by (rule bit_word_eqI) (simp add: bit_ucast_iff)
qed

text \<open>The counters of a receipt survive the portable format and have one spelling: the
  decimal reader accepts a string exactly when the writer produces it for the value read
  (so no leading zero, sign, space or overflow is accepted), and reading what the JSON
  writer of a 64-bit or of a 32-bit counter produced returns the counter.  The hypothesis
  states what \<open>strconv.Unquote\<close> does on digits between double quotes.\<close>

theorem counter_roundtrip:
  assumes "\<And>d. list_all is_digit d \<Longrightarrow> unquote (CHR 0x22 # d @ [CHR 0x22]) = Some d"
  shows "(parseDecimalU64 s = Ok v \<longleftrightarrow> s = dec_nat (unat v))
    \<and> JSONU64_UnmarshalJSON unquote (JSONU64_MarshalJSON v) = Ok v
    \<and> JSONU32_UnmarshalJSON unquote (JSONU32_MarshalJSON w) = Ok w"
  using parseJSONU64_dec [OF assms, of v] parseJSONU64_dec [OF assms, of "ucast w"] widened_u32 [of w]
  by (simp add: parseDecimalU64_iff JSONU64_UnmarshalJSON_def JSONU64_MarshalJSON_def
      JSONU32_UnmarshalJSON_def JSONU32_MarshalJSON_def)

theorem counter_roundtrip_witness:
  "parseDecimalU64 ''42'' = Ok 42 \<and> \<not> is_ok (parseDecimalU64 ''042'')
    \<and> JSONU32_UnmarshalJSON (\<lambda>q. Some (butlast (tl q))) (JSONU32_MarshalJSON 7) = Ok 7"
proof -
  let ?u = "\<lambda>q :: string. Some (butlast (tl q))"
  have "''42'' = dec_nat (unat (42 :: u64))" "\<not> is_ok (parseDecimalU64 ''042'')" by code_simp+
  with counter_roundtrip [of ?u "''42''" 42 7] show ?thesis by simp
qed

end
