(* ===== verification/Bundle.thy ===== *)
theory Bundle
  imports ReceiptChain JsonCodec
begin

text \<open>
  The portable receipt bundle (\<open>axon/invocation/bundle.go\<close>): the JSON projections of
  identities, causal contexts, authority evidence, signed invocations and receipts, the
  conversions in both directions, the field checks of the \<open>UnmarshalJSON\<close> methods and
  the parser of an untrusted receipt, \<open>ToUnverifiedReceipt\<close>.

  \<open>encoding/json\<close> itself is an argument: an \<open>UnmarshalJSON\<close> method takes the keys of
  the decoded object (\<open>map[string]json.RawMessage\<close>) and the results its calls of
  \<open>json.Unmarshal\<close> return, and models what the method does with them.
\<close>

section \<open>Identities\<close>

record identity_json =
  ij_ura :: string
  ij_profile :: string

definition IdentityFromAgent :: "agent_identity \<Rightarrow> identity_json" where
  "IdentityFromAgent a = \<lparr>ij_ura = ai_ura a, ij_profile = ai_profile a\<rparr>"

definition IdentityFromSubject :: "subject_identity \<Rightarrow> identity_json" where
  "IdentityFromSubject s = \<lparr>ij_ura = si_ura s, ij_profile = si_profile s\<rparr>"

definition ToAgent :: "identity_json \<Rightarrow> agent_identity result" where
  "ToAgent i = bindR (ParseUraProfile (ij_profile i)) (\<lambda>p. Ok \<lparr>ai_ura = ij_ura i, ai_profile = p\<rparr>)"

definition ToSubject :: "identity_json \<Rightarrow> subject_identity result" where
  "ToSubject i = bindR (ParseUraProfile (ij_profile i)) (\<lambda>p. Ok \<lparr>si_ura = ij_ura i, si_profile = p\<rparr>)"

record entity_ref_json =
  ej_kind :: string
  ej_ura :: string
  ej_profile :: string

definition EntityRefToJSON :: "entity_ref \<Rightarrow> entity_ref_json" where
  "EntityRefToJSON e =
     \<lparr>ej_kind = entity_ref_kind_string (er_kind e), ej_ura = er_ura e, ej_profile = er_profile e\<rparr>"

definition ToEntityRef :: "entity_ref_json \<Rightarrow> entity_ref result" where
  "ToEntityRef e =
     bindR (ParseEntityRefKind (ej_kind e)) (\<lambda>kind.
     bindR (ParseUraProfile (ej_profile e)) (\<lambda>profile.
       Ok \<lparr>er_kind = kind, er_ura = ej_ura e, er_profile = profile\<rparr>))"

section \<open>Causal context\<close>

record receipt_ref_json =
  qj_hash_hex :: string
  qj_ura :: string

record causal_json =
  cj_form :: string
  cj_hash_hex :: string
  cj_ura :: string
  cj_prior :: "receipt_ref_json list"
  cj_root_hex :: string
  cj_proof_ura :: string

definition causal_form_json :: "string \<Rightarrow> causal_json" where
  "causal_form_json f = \<lparr>cj_form = f, cj_hash_hex = [], cj_ura = [], cj_prior = [], cj_root_hex = [],
     cj_proof_ura = []\<rparr>"

text \<open>\<open>hex.EncodeToString(h[:])\<close>.\<close>

definition hex32 :: "hash32 \<Rightarrow> string" where
  "hex32 h = hex_encode (be_bytes 32 h)"

definition receipt_ref_to_json :: "receipt_ref \<Rightarrow> receipt_ref_json" where
  "receipt_ref_to_json r = \<lparr>qj_hash_hex = hex32 (rr_hash r), qj_ura = rr_ura r\<rparr>"

definition CausalFromCtx :: "causal_context \<Rightarrow> causal_json" where
  "CausalFromCtx c =
     (if cc_form c = CausalNone then causal_form_json ''none''
      else if cc_form c = CausalScalar
      then (case cc_scalar c of
              None \<Rightarrow> causal_form_json ''none''
            | Some r \<Rightarrow> (causal_form_json ''scalar'')\<lparr>cj_hash_hex := hex32 (rr_hash r), cj_ura := rr_ura r\<rparr>)
      else if cc_form c = CausalList
      then (causal_form_json ''list'')\<lparr>cj_prior := map receipt_ref_to_json (cc_list c)\<rparr>
      else if cc_form c = CausalMerkle
      then (causal_form_json ''merkle'')\<lparr>cj_root_hex := hex32 (cc_merkle_root c),
             cj_proof_ura := cc_merkle_proof_ura c\<rparr>
      else causal_form_json ''none'')"

fun parse_prior :: "receipt_ref_json list \<Rightarrow> receipt_ref list result" where
  "parse_prior [] = Ok []"
| "parse_prior (p # ps) =
     bindR (hexTo32 (qj_hash_hex p)) (\<lambda>h.
     bindR (parse_prior ps) (\<lambda>refs. Ok (\<lparr>rr_hash = h, rr_ura = qj_ura p\<rparr> # refs)))"

definition ToCtx :: "causal_json \<Rightarrow> causal_context result" where
  "ToCtx c =
     (if cj_form c = ''none'' then Ok CausalNoneCtx
      else if cj_form c = ''scalar''
      then bindR (hexTo32 (cj_hash_hex c)) (\<lambda>h. Ok (CausalScalarCtx \<lparr>rr_hash = h, rr_ura = cj_ura c\<rparr>))
      else if cj_form c = ''list'' then bindR (parse_prior (cj_prior c)) (\<lambda>refs. Ok (CausalListCtx refs))
      else if cj_form c = ''merkle''
      then bindR (hexTo32 (cj_root_hex c)) (\<lambda>root. Ok (CausalMerkleCtx root (cj_proof_ura c)))
      else invalid_arg (''unknown_causal_form:'' @ cj_form c))"

section \<open>Authority bindings\<close>

record authority_json =
  aj_form :: string
  aj_authority_ura :: string
  aj_issuer_ura :: string
  aj_audience :: string
  aj_scopes :: "string list"
  aj_issued_at_ms :: i64
  aj_expires_at_ms :: i64
  aj_signature_hex :: string
  aj_session_id :: string
  aj_audiences :: "string list"

record bootstrap_json =
  bj_principal_ura :: string
  bj_realm :: string
  bj_ability :: string

record authority_or_bootstrap_json =
  oj_authority :: "authority_json option"
  oj_bootstrap :: "bootstrap_json option"

definition empty_authority_json :: authority_json where
  "empty_authority_json = \<lparr>aj_form = [], aj_authority_ura = [], aj_issuer_ura = [], aj_audience = [],
     aj_scopes = [], aj_issued_at_ms = 0, aj_expires_at_ms = 0, aj_signature_hex = [],
     aj_session_id = [], aj_audiences = []\<rparr>"

text \<open>\<open>AuthorityOrBootstrapJSON.MarshalJSON\<close>: what it hands to \<open>json.Marshal\<close>.\<close>

datatype authority_json_value = AuthorityValue authority_json | BootstrapValue bootstrap_json

definition AuthorityOrBootstrapJSON_MarshalJSON ::
  "authority_or_bootstrap_json \<Rightarrow> authority_json_value" where
  "AuthorityOrBootstrapJSON_MarshalJSON a =
     (case oj_bootstrap a of
        Some b \<Rightarrow> BootstrapValue b
      | None \<Rightarrow> (case oj_authority a of
                  Some x \<Rightarrow> AuthorityValue x
                | None \<Rightarrow> AuthorityValue empty_authority_json))"

text \<open>The check of an object's keys against a set of allowed ones.  Go iterates over a map in
  no particular order, so any foreign key may be the one reported: \<open>keys\<close> lists the keys
  in the order of the iteration.\<close>

definition reject_foreign :: "string set \<Rightarrow> string list \<Rightarrow> unit result" where
  "reject_foreign allowed keys =
     (case List.find (\<lambda>k. k \<notin> allowed) keys of
        Some k \<Rightarrow> invalid_arg (''authority contains noncanonical field '' @ k)
      | None \<Rightarrow> Ok ())"

definition authorityJSONAllowedFields :: "string \<Rightarrow> string set option" where
  "authorityJSONAllowedFields form =
     (if form = ''self+identity'' then Some {''form'', ''authority_ura''}
      else if form = ''delegated_by+delegation''
      then Some {''form'', ''authority_ura'', ''issuer_ura'', ''audience'', ''scopes'',
                 ''issued_at_ms'', ''expires_at_ms'', ''signature_hex''}
      else if form = ''session_of+session''
      then Some {''form'', ''authority_ura'', ''issuer_ura'', ''session_id'', ''scopes'',
                 ''audiences'', ''issued_at_ms'', ''expires_at_ms'', ''signature_hex''}
      else None)"

text \<open>\<open>AuthorityJSON.UnmarshalJSON\<close>: \<open>keys\<close> is the decoding of the object, \<open>form\<close> that of
  its member \<open>form\<close>, \<open>decoded\<close> that of the whole into the alias type.\<close>

definition AuthorityJSON_UnmarshalJSON ::
  "string list result \<Rightarrow> string result \<Rightarrow> authority_json result \<Rightarrow> authority_json result" where
  "AuthorityJSON_UnmarshalJSON object form decoded =
     bindR object (\<lambda>keys.
       if ''form'' \<notin> set keys then invalid_arg ''authority.form_missing''
       else bindR form (\<lambda>f.
         case authorityJSONAllowedFields f of
           None \<Rightarrow> invalid_arg (''unknown_authority_form:'' @ f)
         | Some allowed \<Rightarrow> bindR (reject_foreign allowed keys) (\<lambda>_. decoded)))"

definition AuthorityOrBootstrapJSON_UnmarshalJSON ::
  "string list result \<Rightarrow> bootstrap_json result \<Rightarrow> authority_json result \<Rightarrow>
   authority_or_bootstrap_json result" where
  "AuthorityOrBootstrapJSON_UnmarshalJSON object bootstrap authority =
     bindR object (\<lambda>keys.
       if ''form'' \<notin> set keys
       then bindR (reject_foreign {''principal_ura'', ''realm'', ''ability''} keys) (\<lambda>_.
            bindR bootstrap (\<lambda>b. Ok \<lparr>oj_authority = None, oj_bootstrap = Some b\<rparr>))
       else bindR authority (\<lambda>a. Ok \<lparr>oj_authority = Some a, oj_bootstrap = None\<rparr>))"

definition AuthorityFromBinding :: "authority_binding \<Rightarrow> authority_json result" where
  "AuthorityFromBinding a =
     (if ab_relation a = AuthorityRelationSelf \<and> ab_evidence_kind a = AuthorityEvidenceIdentity
      then (if blank (ai_ura (ab_authority a)) then invalid_arg ''authority_self_principal_missing''
            else Ok (empty_authority_json\<lparr>aj_form := ''self+identity'',
                       aj_authority_ura := ai_ura (ab_authority a)\<rparr>))
      else if ab_relation a = AuthorityRelationDelegatedBy
              \<and> ab_evidence_kind a = AuthorityEvidenceDelegation
      then (case ab_delegation a of
              None \<Rightarrow> invalid_arg ''authority_delegation_missing''
            | Some d \<Rightarrow> Ok (empty_authority_json\<lparr>aj_form := ''delegated_by+delegation'',
                aj_authority_ura := ai_ura (ab_authority a), aj_issuer_ura := ai_ura (dg_issuer d),
                aj_audience := dg_audience d, aj_scopes := dg_scopes d,
                aj_issued_at_ms := dg_issued_at_ms d, aj_expires_at_ms := dg_expires_at_ms d,
                aj_signature_hex := hex_encode (dg_signature d)\<rparr>))
      else if ab_relation a = AuthorityRelationSessionOf \<and> ab_evidence_kind a = AuthorityEvidenceSession
      then (case ab_session a of
              None \<Rightarrow> invalid_arg ''authority_session_missing''
            | Some s \<Rightarrow> Ok (empty_authority_json\<lparr>aj_form := ''session_of+session'',
                aj_authority_ura := ai_ura (ab_authority a), aj_issuer_ura := ai_ura (sn_issuer s),
                aj_session_id := sn_session_id s, aj_scopes := sn_scopes s,
                aj_audiences := sn_audiences s, aj_issued_at_ms := sn_issued_at_ms s,
                aj_expires_at_ms := sn_expires_at_ms s, aj_signature_hex := hex_encode (sn_signature s)\<rparr>))
      else invalid_arg ''authority_binding_missing'')"

definition strict_agent :: "string \<Rightarrow> agent_identity" where
  "strict_agent ura = \<lparr>ai_ura = ura, ai_profile = ProfileStrictV2\<rparr>"

text \<open>\<open>hex.DecodeString\<close> of a variable-length field under the given error label.\<close>

definition hex_field :: "string \<Rightarrow> string \<Rightarrow> bytes result" where
  "hex_field label s =
     (case hex_decode s of None \<Rightarrow> invalid_arg (label @ '':'' @ hex_error s) | Some b \<Rightarrow> Ok b)"

definition AuthorityJSON_ToBinding :: "authority_json \<Rightarrow> authority_binding result" where
  "AuthorityJSON_ToBinding a =
     (if aj_form a = ''self+identity''
      then (if blank (aj_authority_ura a) then invalid_arg ''authority_self_principal_missing''
            else Ok (SelfAuthority (aj_authority_ura a)))
      else if aj_form a = ''delegated_by+delegation''
      then bindR (hex_field ''bad_hex:authority.signature_hex'' (aj_signature_hex a)) (\<lambda>sig.
             if blank (aj_authority_ura a) \<or> blank (aj_issuer_ura a) \<or> blank (aj_audience a)
                \<or> aj_scopes a = [] \<or> sig = []
             then invalid_arg ''authority_delegation_incomplete''
             else Ok (DelegatedAuthority (strict_agent (aj_authority_ura a))
               \<lparr>dg_issuer = strict_agent (aj_issuer_ura a), dg_scopes = aj_scopes a,
                dg_audience = aj_audience a, dg_issued_at_ms = aj_issued_at_ms a,
                dg_expires_at_ms = aj_expires_at_ms a, dg_signature = sig\<rparr>))
      else if aj_form a = ''session_of+session''
      then bindR (hex_field ''bad_hex:authority.signature_hex'' (aj_signature_hex a)) (\<lambda>sig.
             if blank (aj_authority_ura a) \<or> blank (aj_issuer_ura a) \<or> blank (aj_session_id a)
                \<or> aj_scopes a = [] \<or> aj_audiences a = [] \<or> sig = []
             then invalid_arg ''authority_session_incomplete''
             else Ok (SessionAuthority (strict_agent (aj_authority_ura a))
               \<lparr>sn_issuer = strict_agent (aj_issuer_ura a), sn_session_id = aj_session_id a,
                sn_scopes = aj_scopes a, sn_audiences = aj_audiences a,
                sn_issued_at_ms = aj_issued_at_ms a, sn_expires_at_ms = aj_expires_at_ms a,
                sn_signature = sig\<rparr>))
      else invalid_arg (''unknown_authority_form:'' @ aj_form a))"

definition AuthorityOrBootstrapJSONFromBinding ::
  "authority_or_bootstrap \<Rightarrow> authority_or_bootstrap_json result" where
  "AuthorityOrBootstrapJSONFromBinding b =
     (if ob_is_bootstrap b
      then (case ob_bootstrap b of
              None \<Rightarrow> invalid_arg ''authority_bootstrap_missing''
            | Some x \<Rightarrow> Ok \<lparr>oj_authority = None,
                oj_bootstrap = Some \<lparr>bj_principal_ura = bb_principal_ura x, bj_realm = bb_realm x,
                                     bj_ability = bb_ability x\<rparr>\<rparr>)
      else (case ob_binding b of
              None \<Rightarrow> invalid_arg ''authority_binding_missing''
            | Some a \<Rightarrow> bindR (AuthorityFromBinding a) (\<lambda>encoded.
                Ok \<lparr>oj_authority = Some encoded, oj_bootstrap = None\<rparr>)))"

definition AuthorityOrBootstrapJSON_ToBinding ::
  "authority_or_bootstrap_json \<Rightarrow> authority_or_bootstrap result" where
  "AuthorityOrBootstrapJSON_ToBinding a =
     (case oj_bootstrap a of
        Some b \<Rightarrow>
          if blank (bj_principal_ura b) \<or> blank (bj_realm b) \<or> blank (bj_ability b)
          then invalid_arg ''authority_bootstrap_incomplete''
          else Ok (AuthorityOrBootstrapFromBootstrap
                 (BootstrapAuthority (bj_principal_ura b) (bj_realm b) (bj_ability b)))
      | None \<Rightarrow>
          (case oj_authority a of
             None \<Rightarrow> invalid_arg ''authority_or_bootstrap_missing''
           | Some x \<Rightarrow> bindR (AuthorityJSON_ToBinding x) (\<lambda>b. Ok (AuthorityOrBootstrapFromBinding b))))"

section \<open>Authority proofs\<close>

record authority_proof_json =
  pj_proof_type :: string
  pj_binding :: "authority_or_bootstrap_json option"
  pj_payload_hex :: string
  pj_hash_hex :: string
  pj_issuer :: "identity_json option"
  pj_signature_hex :: string
  pj_signature_alg :: string
  pj_signature_key_id_hint :: string
  pj_admission_hook :: string

text \<open>An optional field: absent stays absent, present is converted.\<close>

definition optR :: "('a \<Rightarrow> 'b result) \<Rightarrow> 'a option \<Rightarrow> 'b option result" where
  "optR f x = (case x of None \<Rightarrow> Ok None | Some y \<Rightarrow> bindR (f y) (\<lambda>z. Ok (Some z)))"

definition AuthorityProofFromProof :: "authority_proof \<Rightarrow> authority_proof_json result" where
  "AuthorityProofFromProof p =
     bindR (optR AuthorityOrBootstrapJSONFromBinding (ap_binding p)) (\<lambda>binding.
       Ok \<lparr>pj_proof_type = ap_proof_type p, pj_binding = binding,
           pj_payload_hex = hex_encode (ap_proof_payload p), pj_hash_hex = hex32 (ap_proof_hash p),
           pj_issuer = map_option IdentityFromAgent (ap_issuer p),
           pj_signature_hex = (case ap_signature p of None \<Rightarrow> [] | Some s \<Rightarrow> hex_encode (ce_signature s)),
           pj_signature_alg = (case ap_signature p of None \<Rightarrow> [] | Some s \<Rightarrow> ce_algorithm s),
           pj_signature_key_id_hint = (case ap_signature p of None \<Rightarrow> [] | Some s \<Rightarrow> ce_key_id_hint s),
           pj_admission_hook = ap_admission_hook p\<rparr>)"

definition proof_json_signature :: "authority_proof_json \<Rightarrow> callee_signature option result" where
  "proof_json_signature p =
     (if blank (pj_signature_hex p) then Ok None
      else bindR (hex_field ''bad_authority_proof_signature_hex'' (pj_signature_hex p)) (\<lambda>decoded.
             Ok (Some \<lparr>ce_algorithm = pj_signature_alg p, ce_signature = decoded,
                       ce_key_id_hint = pj_signature_key_id_hint p\<rparr>)))"

definition ToProof :: "authority_proof_json \<Rightarrow> authority_proof result" where
  "ToProof p =
     bindR (hexTo32 (pj_hash_hex p)) (\<lambda>proofHash.
     bindR (hex_field ''bad_authority_proof_payload_hex'' (pj_payload_hex p)) (\<lambda>proofPayload.
     bindR (optR AuthorityOrBootstrapJSON_ToBinding (pj_binding p)) (\<lambda>binding.
     bindR (optR ToAgent (pj_issuer p)) (\<lambda>issuer.
     bindR (proof_json_signature p) (\<lambda>sig.
       Ok \<lparr>ap_proof_type = pj_proof_type p, ap_binding = binding, ap_proof_payload = proofPayload,
           ap_proof_hash = proofHash, ap_issuer = issuer, ap_signature = sig,
           ap_admission_hook = pj_admission_hook p\<rparr>)))))"

section \<open>Signed invocations\<close>

record invocation_json =
  nj_invocation_id :: string
  nj_caller :: identity_json
  nj_callee :: identity_json
  nj_subject :: identity_json
  nj_ability :: string
  nj_args_digest_hex :: string
  nj_nonce_hex :: string
  nj_causal_context :: causal_json
  nj_caller_signature_hex :: string
  nj_caller_signature_alg :: string

definition invocationJSONFields :: "string set" where
  "invocationJSONFields =
     {''invocation_id'', ''caller'', ''callee'', ''subject'', ''ability'', ''args_digest_hex'',
      ''invocation_nonce_hex'', ''causal_context'', ''caller_signature_hex'', ''caller_signature_alg''}"

text \<open>\<open>InvocationJSON.UnmarshalJSON\<close> sorts the keys first: \<open>sorted_keys\<close> is the sorted list.\<close>

definition InvocationJSON_UnmarshalJSON ::
  "string list result \<Rightarrow> invocation_json result \<Rightarrow> invocation_json result" where
  "InvocationJSON_UnmarshalJSON object decoded =
     bindR object (\<lambda>sorted_keys.
       case List.find (\<lambda>k. k \<notin> invocationJSONFields) sorted_keys of
         Some k \<Rightarrow> invalid_arg (''unknown_invocation_json_field:'' @ k)
       | None \<Rightarrow> decoded)"

definition NewInvocationJSON ::
  "string \<Rightarrow> invocation_envelope \<Rightarrow> caller_signature \<Rightarrow> invocation_json" where
  "NewInvocationJSON invocationID env sig =
     \<lparr>nj_invocation_id = invocationID, nj_caller = IdentityFromAgent (en_caller env),
      nj_callee = IdentityFromAgent (en_callee env), nj_subject = IdentityFromSubject (en_subject env),
      nj_ability = en_ability env, nj_args_digest_hex = hex32 (en_args_digest env),
      nj_nonce_hex = hex_encode (be_bytes 16 (en_nonce env)),
      nj_causal_context = CausalFromCtx (en_causal env),
      nj_caller_signature_hex = hex_encode (cs_signature sig),
      nj_caller_signature_alg = cs_algorithm sig\<rparr>"

definition NewDescriptorBoundInvocationJSON ::
  "string \<Rightarrow> descriptor_bound_envelope \<Rightarrow> caller_signature \<Rightarrow> invocation_json" where
  "NewDescriptorBoundInvocationJSON invocationID env sig =
     NewInvocationJSON invocationID (dbe_envelope env) sig"

definition ToEnvelope :: "invocation_json \<Rightarrow> (invocation_envelope \<times> caller_signature) result" where
  "ToEnvelope i =
     bindR (ToAgent (nj_caller i)) (\<lambda>caller.
     bindR (ToAgent (nj_callee i)) (\<lambda>callee.
     bindR (ToSubject (nj_subject i)) (\<lambda>subject.
     bindR (hexTo32 (nj_args_digest_hex i)) (\<lambda>args.
     bindR (hexTo16 (nj_nonce_hex i)) (\<lambda>nonce.
     bindR (ToCtx (nj_causal_context i)) (\<lambda>ctx.
     bindR (hex_field ''bad_caller_sig_hex'' (nj_caller_signature_hex i)) (\<lambda>sigBytes.
       Ok (\<lparr>en_caller = caller, en_callee = callee, en_subject = subject, en_ability = nj_ability i,
            en_args_digest = args, en_nonce = nonce, en_causal = ctx\<rparr>,
           \<lparr>cs_algorithm = nj_caller_signature_alg i, cs_signature = sigBytes, cs_key_id_hint = []\<rparr>))))))))"

text \<open>The Go method returns a nil envelope and a nil error when the ability is not a
  descriptor reference; \<open>None\<close> is the nil envelope.\<close>

definition empty_caller_signature :: caller_signature where
  "empty_caller_signature = \<lparr>cs_algorithm = [], cs_signature = [], cs_key_id_hint = []\<rparr>"

definition ToDescriptorBoundEnvelope ::
  "invocation_json \<Rightarrow> (descriptor_bound_envelope option \<times> caller_signature) result" where
  "ToDescriptorBoundEnvelope i =
     (if \<not> is_ok (ParseAbilityDescriptorRef (nj_ability i)) then Ok (None, empty_caller_signature)
      else bindR (ToEnvelope i) (\<lambda>(env, sig).
           bindR (NewDescriptorBoundEnvelope env) (\<lambda>descriptorBound. Ok (Some descriptorBound, sig))))"

end
