(* ===== verification/ReceiptJson.thy ===== *)
theory ReceiptJson
  imports Bundle
begin

text \<open>
  Receipts in the portable bundle (\<open>axon/invocation/bundle.go\<close>): \<open>ReceiptJSON\<close> with its
  field checks, the flattened \<open>InvocationReceiptJSON\<close>, the projection of an accepted
  receipt and the parser of an untrusted one.  The parser builds the proof facts with
  \<open>NewReceiptProofFacts\<close>, which panics on facts it refuses.
\<close>

record receipt_json =
  tj_index :: u64
  tj_invocation_id :: string
  tj_receipt_type :: string
  tj_state :: string
  tj_timestamp :: i64
  tj_prev_hash_hex :: string
  tj_payload_sha256_hex :: string
  tj_reason :: string
  tj_cleanup_complete :: bool
  tj_caller_binding :: identity_json
  tj_callee_binding :: identity_json
  tj_subject_binding :: identity_json
  tj_nonce_hex :: string
  tj_causal_binding :: causal_json
  tj_ability_binding :: string
  tj_authority_binding :: authority_or_bootstrap_json
  tj_usage_tokens_in :: u64
  tj_usage_tokens_out :: u64
  tj_usage_duration_ms :: u64
  tj_usage_external_calls :: u32
  tj_subject_ref :: entity_ref_json
  tj_descriptor_version :: string
  tj_schema_hash_hex :: string
  tj_impl_hash_hex :: string
  tj_runtime_env :: string
  tj_authority_proof :: authority_proof_json
  tj_input_hash_hex :: string
  tj_output_hash_hex :: string
  tj_parent_receipts :: "receipt_ref_json list"
  tj_callee_signature_hex :: string
  tj_callee_signature_alg :: string

text \<open>The optional pointer fields are options; the other additive fields are strings that
  \<open>omitempty\<close> leaves out when empty.\<close>

record receipt_extension =
  xj_self_hash_hex :: "string option"
  xj_payload_hex :: "string option"
  xj_content_type :: string
  xj_child :: string
  xj_key_id_hint :: string
  xj_signer_binding :: "identity_json option"
  xj_host_attestation_hex :: string

datatype invocation_receipt_json =
  InvocationReceiptJSON (irj_receipt: receipt_json) (irj_ext: receipt_extension)

section \<open>Decoding the wire object\<close>

definition receipt_json_required :: "string list" where
  "receipt_json_required =
     [''usage_tokens_in'', ''usage_tokens_out'', ''usage_duration_ms'', ''usage_external_calls'',
      ''subject_ref'', ''descriptor_version'', ''schema_hash_hex'', ''impl_hash_hex'', ''runtime_env'',
      ''authority_proof'', ''input_hash_hex'', ''output_hash_hex'', ''parent_receipts'',
      ''authority_binding'', ''callee_signature_hex'', ''callee_signature_alg'']"

text \<open>A 32-byte field that may not be zero; \<open>name\<close> is its JSON name.\<close>

definition bound_hash :: "string \<Rightarrow> string \<Rightarrow> hash32 result" where
  "bound_hash name hex =
     bindR (hexTo32 hex) (\<lambda>hash. if isZero32 hash then invalid_arg (name @ ''_unbound'') else Ok hash)"

text \<open>\<open>ReceiptJSON.UnmarshalJSON\<close>: \<open>decoded\<close> is the result of decoding into the alias type,
  \<open>object\<close> the decoding into a map, by its keys.\<close>

definition ReceiptJSON_UnmarshalJSON ::
  "receipt_json result \<Rightarrow> string list result \<Rightarrow> receipt_json result" where
  "ReceiptJSON_UnmarshalJSON decoded object =
     bindR decoded (\<lambda>r.
     bindR object (\<lambda>present.
       case List.find (\<lambda>key. key \<notin> set present) receipt_json_required of
         Some key \<Rightarrow> Fail (PlainErr (''receipt_json_missing_required_field:'' @ key))
       | None \<Rightarrow>
           bindR (bound_hash ''schema_hash_hex'' (tj_schema_hash_hex r)) (\<lambda>_.
           bindR (bound_hash ''impl_hash_hex'' (tj_impl_hash_hex r)) (\<lambda>_. Ok r))))"

definition InvocationReceiptJSON_UnmarshalJSON ::
  "receipt_json result \<Rightarrow> receipt_extension result \<Rightarrow> invocation_receipt_json result" where
  "InvocationReceiptJSON_UnmarshalJSON receipt extension =
     bindR receipt (\<lambda>r. bindR extension (\<lambda>e. Ok (InvocationReceiptJSON r e)))"

text \<open>\<open>InvocationReceiptJSON.MarshalJSON\<close> flattens: the members of the extension override the
  members of the receipt of the same name.\<close>

definition InvocationReceiptJSON_MarshalJSON ::
  "(string \<rightharpoonup> 'v) result \<Rightarrow> (string \<rightharpoonup> 'v) result \<Rightarrow> (string \<rightharpoonup> 'v) result" where
  "InvocationReceiptJSON_MarshalJSON object additive =
     bindR object (\<lambda>base. bindR additive (\<lambda>extension. Ok (base ++ extension)))"

section \<open>Parsing an untrusted receipt\<close>

fun parse_parents :: "receipt_ref_json list \<Rightarrow> receipt_ref list result" where
  "parse_parents [] = Ok []"
| "parse_parents (p # ps) =
     bindR (hexTo32 (qj_hash_hex p)) (\<lambda>hash.
       if isZero32 hash \<or> blank (qj_ura p)
       then invalid_arg ''receipt_parent_reference_semantically_invalid''
       else bindR (parse_parents ps) (\<lambda>refs. Ok (\<lparr>rr_hash = hash, rr_ura = qj_ura p\<rparr> # refs)))"

definition parse_hosted :: "receipt_extension \<Rightarrow> hosted_attestation option result" where
  "parse_hosted e =
     (case xj_signer_binding e of
        Some s \<Rightarrow>
          bindR (ToAgent s) (\<lambda>signer.
          bindR (hex_field ''bad_host_attestation_hex'' (xj_host_attestation_hex e)) (\<lambda>attestation.
            Ok (Some \<lparr>ha_signer_binding = signer, ha_host_attestation = attestation\<rparr>)))
      | None \<Rightarrow>
          if \<not> blank (xj_host_attestation_hex e)
          then invalid_arg ''host_attestation_requires_signer_binding'' else Ok None)"

definition parse_payload :: "platform \<Rightarrow> receipt_extension \<Rightarrow> hash32 \<Rightarrow> hash32 \<Rightarrow> bytes result" where
  "parse_payload P e payloadDigest outputHash =
     (case xj_payload_hex e of
        None \<Rightarrow> Ok []
      | Some s \<Rightarrow>
          bindR (hex_field ''bad_payload_hex'' s) (\<lambda>payload.
            if pf_sha256 P payload \<noteq> payloadDigest then invalid_arg ''payload_digest_mismatch''
            else if pf_sha256 P payload \<noteq> outputHash
            then invalid_arg ''receipt_output_hash_semantically_invalid''
            else Ok payload))"

text \<open>The fields of the receipt that the parser decodes before it builds anything, in the
  order of the code.\<close>

record receipt_fields =
  rf_prev_hash :: hash32
  rf_payload_digest :: hash32
  rf_nonce :: nonce16
  rf_caller :: agent_identity
  rf_callee :: agent_identity
  rf_subject :: subject_identity
  rf_causal :: causal_context
  rf_authority :: authority_or_bootstrap
  rf_proof :: authority_proof
  rf_schema_hash :: hash32
  rf_impl_hash :: hash32
  rf_input_hash :: hash32
  rf_output_hash :: hash32
  rf_subject_ref :: entity_ref
  rf_parents :: "receipt_ref list"
  rf_signature :: bytes
  rf_hosted :: "hosted_attestation option"
  rf_payload :: bytes

definition parse_fields :: "platform \<Rightarrow> invocation_receipt_json \<Rightarrow> receipt_fields result" where
  "parse_fields P projection =
     (let r = irj_receipt projection; e = irj_ext projection in
      if blank (tj_invocation_id r) then invalid_arg ''invocation_id_required''
      else
      bindR (hexTo32 (tj_prev_hash_hex r)) (\<lambda>prevHash.
      bindR (hexTo32 (tj_payload_sha256_hex r)) (\<lambda>payloadDigest.
      bindR (hexTo16 (tj_nonce_hex r)) (\<lambda>nonce.
      bindR (ToAgent (tj_caller_binding r)) (\<lambda>caller.
      bindR (ToAgent (tj_callee_binding r)) (\<lambda>callee.
      bindR (ToSubject (tj_subject_binding r)) (\<lambda>subject.
      bindR (ToCtx (tj_causal_binding r)) (\<lambda>causal.
      bindR (AuthorityOrBootstrapJSON_ToBinding (tj_authority_binding r)) (\<lambda>authority.
      bindR (ToProof (tj_authority_proof r)) (\<lambda>proof.
      bindR (bound_hash ''schema_hash_hex'' (tj_schema_hash_hex r)) (\<lambda>schemaHash.
      bindR (bound_hash ''impl_hash_hex'' (tj_impl_hash_hex r)) (\<lambda>implHash.
      bindR (bound_hash ''input_hash_hex'' (tj_input_hash_hex r)) (\<lambda>inputHash.
      bindR (bound_hash ''output_hash_hex'' (tj_output_hash_hex r)) (\<lambda>outputHash.
      if blank (tj_descriptor_version r) then invalid_arg ''descriptor_version_required''
      else if blank (tj_runtime_env r) then invalid_arg ''runtime_env_required''
      else
      bindR (ToEntityRef (tj_subject_ref r)) (\<lambda>subjectRef.
      bindR (parse_parents (tj_parent_receipts r)) (\<lambda>parents.
      bindR (hex_field ''bad_callee_signature_hex'' (tj_callee_signature_hex r)) (\<lambda>signatureBytes.
      bindR (parse_hosted e) (\<lambda>hosted.
      bindR (parse_payload P e payloadDigest outputHash) (\<lambda>payload.
        Ok \<lparr>rf_prev_hash = prevHash, rf_payload_digest = payloadDigest, rf_nonce = nonce,
            rf_caller = caller, rf_callee = callee, rf_subject = subject, rf_causal = causal,
            rf_authority = authority, rf_proof = proof, rf_schema_hash = schemaHash,
            rf_impl_hash = implHash, rf_input_hash = inputHash, rf_output_hash = outputHash,
            rf_subject_ref = subjectRef, rf_parents = parents, rf_signature = signatureBytes,
            rf_hosted = hosted, rf_payload = payload\<rparr>)))))))))))))))))))"

text \<open>The proof facts, built by the constructor that panics.\<close>

definition json_facts :: "platform \<Rightarrow> receipt_json \<Rightarrow> receipt_fields \<Rightarrow> receipt_proof_facts result" where
  "json_facts P r f =
     NewReceiptProofFacts P (Some (rf_subject_ref f)) (tj_descriptor_version r) (rf_schema_hash f)
       (rf_impl_hash f) (tj_runtime_env r) (rf_proof f) (rf_input_hash f) (rf_output_hash f)
       (rf_parents f)"

definition json_signature :: "invocation_receipt_json \<Rightarrow> receipt_fields \<Rightarrow> callee_signature" where
  "json_signature projection f =
     \<lparr>ce_algorithm = tj_callee_signature_alg (irj_receipt projection), ce_signature = rf_signature f,
      ce_key_id_hint = xj_key_id_hint (irj_ext projection)\<rparr>"

text \<open>The checks after the binding is built.\<close>

definition check_json_receipt ::
  "platform \<Rightarrow> invocation_receipt_json \<Rightarrow> receipt_fields \<Rightarrow> unit result" where
  "check_json_receipt P projection f =
     (let r = irj_receipt projection in
      bindR (validateAuthorityBinding (rf_caller f) (rf_subject f) (tj_ability_binding r)
               (rf_authority f)) (\<lambda>_.
      bindR (validateAuthorityProof P (rf_proof f) (rf_authority f) (rf_callee f)) (\<lambda>_.
      bindR (ParseAbilityDescriptorRef (tj_ability_binding r)) (\<lambda>descriptor.
      if ad_version descriptor \<noteq> tj_descriptor_version r
      then invalid_arg ''receipt_descriptor_version_semantically_invalid''
      else bindR (EntityRefForSubject (rf_subject f)) (\<lambda>expectedSubject.
      if rf_subject_ref f \<noteq> expectedSubject
      then invalid_arg ''receipt_subject_ref_semantically_invalid''
      else if \<not> receiptRefsEqual (rf_parents f) (enumerableParentReceipts (rf_causal f))
      then invalid_arg ''receipt_parent_receipts_semantically_invalid''
      else validateCalleeSignatureStructure (json_signature projection f))))))"

definition json_record ::
  "invocation_receipt_json \<Rightarrow> receipt_fields \<Rightarrow> receipt_proof_facts \<Rightarrow> receipt_record" where
  "json_record projection f facts =
     (let r = irj_receipt projection; e = irj_ext projection in
      \<lparr>rc_index = tj_index r, rc_invocation_id = tj_invocation_id r,
       rc_receipt_type = tj_receipt_type r, rc_state = tj_state r, rc_timestamp = tj_timestamp r,
       rc_prev_hash = rf_prev_hash f, rc_self_hash = 0, rc_payload = rf_payload f,
       rc_content_type = xj_content_type e, rc_cleanup_complete = tj_cleanup_complete r,
       rc_reason = tj_reason r, rc_child = xj_child e,
       rc_binding = \<lparr>xb_caller = rf_caller f, xb_callee = rf_callee f, xb_subject = rf_subject f,
         xb_nonce = rf_nonce f, xb_causal = rf_causal f, xb_payload_digest = rf_payload_digest f,
         xb_ability = tj_ability_binding r, xb_authority = rf_authority f, xb_hosted = rf_hosted f,
         xb_proof_facts = facts\<rparr>,
       rc_usage = \<lparr>us_tokens_in = tj_usage_tokens_in r, us_tokens_out = tj_usage_tokens_out r,
         us_duration_ms = tj_usage_duration_ms r, us_external_calls = tj_usage_external_calls r\<rparr>,
       rc_signature = empty_signature\<rparr>)"

definition ToUnverifiedReceipt :: "platform \<Rightarrow> invocation_receipt_json \<Rightarrow> unverified_receipt result" where
  "ToUnverifiedReceipt P projection =
     bindR (parse_fields P projection) (\<lambda>f.
     bindR (json_facts P (irj_receipt projection) f) (\<lambda>facts.
     bindR (check_json_receipt P projection f) (\<lambda>_.
     bindR (newReceiptRecord P (json_record projection f facts)) (\<lambda>rec.
       let signed = rec\<lparr>rc_signature := json_signature projection f\<rparr> in
       case xj_self_hash_hex (irj_ext projection) of
         None \<Rightarrow> Ok (UnverifiedReceipt signed)
       | Some s \<Rightarrow> bindR (hexTo32 s) (\<lambda>selfHash.
           Ok (UnverifiedReceipt (signed\<lparr>rc_self_hash := selfHash\<rparr>)))))))"

text \<open>\<open>decoded\<close> is the result of \<open>json.Unmarshal\<close> into the projection.\<close>

definition ParseInvocationReceiptJSON ::
  "platform \<Rightarrow> invocation_receipt_json result \<Rightarrow> unverified_receipt result" where
  "ParseInvocationReceiptJSON P decoded =
     (case decoded of
        Ok projection \<Rightarrow> ToUnverifiedReceipt P projection
      | Fail e \<Rightarrow> invalid_arg (''bad_receipt_json:'' @ go_error_string (pf_quote P) e)
      | Panic e \<Rightarrow> Panic e)"

section \<open>Projecting an accepted receipt\<close>

definition project_receipt ::
  "receipt_record \<Rightarrow> entity_ref \<Rightarrow> authority_or_bootstrap_json \<Rightarrow> authority_proof_json \<Rightarrow> receipt_json" where
  "project_receipt r subjectRef authority proof =
     (let b = rc_binding r; facts = xb_proof_facts b in
      \<lparr>tj_index = rc_index r, tj_invocation_id = rc_invocation_id r,
       tj_receipt_type = rc_receipt_type r, tj_state = rc_state r, tj_timestamp = rc_timestamp r,
       tj_prev_hash_hex = hex32 (rc_prev_hash r), tj_payload_sha256_hex = hex32 (xb_payload_digest b),
       tj_reason = rc_reason r, tj_cleanup_complete = rc_cleanup_complete r,
       tj_caller_binding = IdentityFromAgent (xb_caller b),
       tj_callee_binding = IdentityFromAgent (xb_callee b),
       tj_subject_binding = IdentityFromSubject (xb_subject b),
       tj_nonce_hex = hex_encode (be_bytes 16 (xb_nonce b)),
       tj_causal_binding = CausalFromCtx (xb_causal b), tj_ability_binding = xb_ability b,
       tj_authority_binding = authority,
       tj_usage_tokens_in = us_tokens_in (rc_usage r), tj_usage_tokens_out = us_tokens_out (rc_usage r),
       tj_usage_duration_ms = us_duration_ms (rc_usage r),
       tj_usage_external_calls = us_external_calls (rc_usage r),
       tj_subject_ref = EntityRefToJSON subjectRef,
       tj_descriptor_version = pf_descriptor_version facts,
       tj_schema_hash_hex = hex32 (pf_schema_hash facts), tj_impl_hash_hex = hex32 (pf_impl_hash facts),
       tj_runtime_env = pf_runtime_env facts, tj_authority_proof = proof,
       tj_input_hash_hex = hex32 (pf_input_hash facts), tj_output_hash_hex = hex32 (pf_output_hash facts),
       tj_parent_receipts = map receipt_ref_to_json (pf_parent_receipts facts),
       tj_callee_signature_hex = hex_encode (ce_signature (rc_signature r)),
       tj_callee_signature_alg = ce_algorithm (rc_signature r)\<rparr>)"

definition project_extension :: "receipt_record \<Rightarrow> receipt_extension" where
  "project_extension r =
     \<lparr>xj_self_hash_hex = Some (hex32 (rc_self_hash r)), xj_payload_hex = Some (hex_encode (rc_payload r)),
      xj_content_type = rc_content_type r, xj_child = rc_child r,
      xj_key_id_hint = ce_key_id_hint (rc_signature r),
      xj_signer_binding = map_option (\<lambda>h. IdentityFromAgent (ha_signer_binding h)) (xb_hosted (rc_binding r)),
      xj_host_attestation_hex = (case xb_hosted (rc_binding r) of
         None \<Rightarrow> [] | Some h \<Rightarrow> hex_encode (ha_host_attestation h))\<rparr>"

definition ProjectSignedInvocationReceipt :: "signed_receipt \<Rightarrow> invocation_receipt_json result" where
  "ProjectSignedInvocationReceipt receipt =
     (let r = sr_record receipt; facts = xb_proof_facts (rc_binding r) in
      case pf_subject_ref facts of
        None \<Rightarrow> invalid_arg ''receipt_subject_ref_missing''
      | Some subjectRef \<Rightarrow>
          bindR (AuthorityOrBootstrapJSONFromBinding (xb_authority (rc_binding r))) (\<lambda>authority.
          bindR (AuthorityProofFromProof (pf_authority_proof facts)) (\<lambda>proof.
            Ok (InvocationReceiptJSON (project_receipt r subjectRef authority proof)
                  (project_extension r)))))"

end
