(* ===== verification/BundleProperties.thy ===== *)
theory BundleProperties
  imports ReceiptJson ChainProperties
begin

text \<open>
  What the portable bundle keeps of a receipt and of a signed invocation, and what its
  parser does with a receipt from an untrusted peer.  The values that survive are the
  \<open>portable\<close> ones: known profiles, the normal forms the constructors build, the strict
  profile on the identities of an authority binding.
\<close>

named_theorems portable_simps "conversions that undo each other on portable values"

section \<open>Portable values\<close>

definition known_profile :: "ura_profile \<Rightarrow> bool" where
  "known_profile p = (p = ProfileStrictV2 \<or> p = ProfileWebSafeV2)"

definition portable_entity :: "entity_ref \<Rightarrow> bool" where
  "portable_entity e = (known_profile (er_profile e)
     \<and> er_kind e \<in> {EntityRefResource, EntityRefAgent, EntityRefAbility, EntityRefSession,
         EntityRefContinuation, EntityRefStateObject, EntityRefDevice})"

definition portable_causal :: "causal_context \<Rightarrow> bool" where
  "portable_causal c =
     (c = CausalNoneCtx \<or> c = CausalListCtx (cc_list c)
      \<or> c = CausalMerkleCtx (cc_merkle_root c) (cc_merkle_proof_ura c)
      \<or> (case cc_scalar c of None \<Rightarrow> False | Some r \<Rightarrow> c = CausalScalarCtx r))"

definition portable_binding :: "authority_binding \<Rightarrow> bool" where
  "portable_binding a =
     (a = SelfAuthority (ai_ura (ab_authority a))
      \<or> (case ab_delegation a of
           None \<Rightarrow> False
         | Some d \<Rightarrow> a = DelegatedAuthority (strict_agent (ai_ura (ab_authority a)))
             (d\<lparr>dg_issuer := strict_agent (ai_ura (dg_issuer d))\<rparr>))
      \<or> (case ab_session a of
           None \<Rightarrow> False
         | Some s \<Rightarrow> a = SessionAuthority (strict_agent (ai_ura (ab_authority a)))
             (s\<lparr>sn_issuer := strict_agent (ai_ura (sn_issuer s))\<rparr>)))"

definition portable_authority :: "authority_or_bootstrap \<Rightarrow> bool" where
  "portable_authority b =
     (case ob_binding b of
        Some a \<Rightarrow> b = AuthorityOrBootstrapFromBinding a \<and> portable_binding a
      | None \<Rightarrow> (case ob_bootstrap b of
                  Some x \<Rightarrow> b = AuthorityOrBootstrapFromBootstrap x | None \<Rightarrow> False))"

definition portable_proof :: "authority_proof \<Rightarrow> bool" where
  "portable_proof p =
     (pred_option portable_authority (ap_binding p)
      \<and> pred_option (\<lambda>i. known_profile (ai_profile i)) (ap_issuer p)
      \<and> pred_option (\<lambda>s. ce_signature s \<noteq> []) (ap_signature p))"

definition portable_envelope :: "invocation_envelope \<Rightarrow> bool" where
  "portable_envelope e =
     (known_profile (ai_profile (en_caller e)) \<and> known_profile (ai_profile (en_callee e))
      \<and> known_profile (si_profile (en_subject e)) \<and> portable_causal (en_causal e))"

text \<open>A portable record; the payload is the one its digests name, as for every record the
  provider seals.\<close>

definition portable_record :: "platform \<Rightarrow> receipt_record \<Rightarrow> bool" where
  "portable_record P r =
     (let b = rc_binding r; facts = xb_proof_facts b in
      \<not> blank (rc_invocation_id r) \<and> known_profile (ai_profile (xb_caller b))
      \<and> known_profile (ai_profile (xb_callee b)) \<and> known_profile (si_profile (xb_subject b))
      \<and> portable_causal (xb_causal b) \<and> portable_authority (xb_authority b)
      \<and> portable_proof (pf_authority_proof facts)
      \<and> pred_option (\<lambda>h. known_profile (ai_profile (ha_signer_binding h))) (xb_hosted b)
      \<and> pf_sha256 P (rc_payload r) = xb_payload_digest b
      \<and> pf_sha256 P (rc_payload r) = pf_output_hash facts)"

lemma case_option_False: "(case x of None \<Rightarrow> False | Some y \<Rightarrow> Q y) \<longleftrightarrow> (\<exists>y. x = Some y \<and> Q y)"
  by (cases x) auto

section \<open>Conversions that undo each other\<close>

lemma ToAgent_back [portable_simps]:
  "known_profile (ai_profile a) \<Longrightarrow> ToAgent (IdentityFromAgent a) = Ok a"
  by (auto simp: known_profile_def ToAgent_def IdentityFromAgent_def ParseUraProfile_def)

lemma ToSubject_back [portable_simps]:
  "known_profile (si_profile s) \<Longrightarrow> ToSubject (IdentityFromSubject s) = Ok s"
  by (auto simp: known_profile_def ToSubject_def IdentityFromSubject_def ParseUraProfile_def)

lemma ToEntityRef_back [portable_simps]: "portable_entity e \<Longrightarrow> ToEntityRef (EntityRefToJSON e) = Ok e"
proof -
  assume e: "portable_entity e"
  then have "er_kind e \<in> {EntityRefResource, EntityRefAgent, EntityRefAbility, EntityRefSession,
      EntityRefContinuation, EntityRefStateObject, EntityRefDevice}"
    by (simp add: portable_entity_def)
  then have "ParseEntityRefKind (entity_ref_kind_string (er_kind e)) = Ok (er_kind e)"
    by (elim insertE) (simp_all add: entity_ref_kind_string_def ParseEntityRefKind_def)
  with e show ?thesis
    by (auto simp: portable_entity_def known_profile_def ToEntityRef_def EntityRefToJSON_def
        ParseUraProfile_def)
qed

lemma hexTo32_hex32 [simp]: "hexTo32 (hex32 h) = Ok h"
  by (simp add: hex32_def)

lemma hex_field_encode [simp]: "hex_field l (hex_encode b) = Ok b"
  by (simp add: hex_field_def)

lemma receipt_ref_json_sel [simp]:
  "qj_hash_hex (receipt_ref_to_json r) = hex32 (rr_hash r)" "qj_ura (receipt_ref_to_json r) = rr_ura r"
  by (simp_all add: receipt_ref_to_json_def)

lemma parse_prior_back [portable_simps]: "parse_prior (map receipt_ref_to_json refs) = Ok refs"
  by (induction refs) auto

lemma parse_parents_back [portable_simps]:
  "check_parents refs = Ok () \<Longrightarrow> parse_parents (map receipt_ref_to_json refs) = Ok refs"
  by (induction refs) (auto simp: check_parents_def split: if_splits)

lemma ToCtx_back [portable_simps]:
  assumes "portable_causal c"
  shows "ToCtx (CausalFromCtx c) = Ok c"
proof -
  from assms consider "c = CausalNoneCtx" | refs where "c = CausalListCtx refs"
    | root u where "c = CausalMerkleCtx root u" | r where "c = CausalScalarCtx r"
    unfolding portable_causal_def case_option_False by blast
  then show ?thesis
    by cases (simp_all add: CausalFromCtx_def ToCtx_def causal_form_json_def CausalNoneCtx_def
        CausalListCtx_def CausalMerkleCtx_def CausalScalarCtx_def parse_prior_back)
qed

lemma strict_agent_sel [simp]: "ai_ura (strict_agent u) = u"
  by (simp add: strict_agent_def)

lemma binding_back:
  assumes "portable_binding a" and "validateCompleteAuthorityBinding a = Ok ()"
  shows "\<exists>j. AuthorityFromBinding a = Ok j \<and> AuthorityJSON_ToBinding j = Ok a"
proof -
  from assms(1) consider u where "a = SelfAuthority u"
    | u d i where "a = DelegatedAuthority (strict_agent u) (d\<lparr>dg_issuer := strict_agent i\<rparr>)"
    | u s i where "a = SessionAuthority (strict_agent u) (s\<lparr>sn_issuer := strict_agent i\<rparr>)"
    unfolding portable_binding_def case_option_False by blast
  then show ?thesis
  proof cases
    case 1
    with assms(2) show ?thesis
      by (auto simp: SelfAuthority_def validateCompleteAuthorityBinding_def AuthorityFromBinding_def
          AuthorityJSON_ToBinding_def empty_authority_json_def split: if_splits)
  next
    case 2
    with assms(2) show ?thesis
      by (auto simp: DelegatedAuthority_def validateCompleteAuthorityBinding_def AuthorityFromBinding_def
          AuthorityJSON_ToBinding_def empty_authority_json_def delegation_complete_def
          nonemptyTrimmedStrings_def split: if_splits)
  next
    case 3
    with assms(2) show ?thesis
      by (auto simp: SessionAuthority_def validateCompleteAuthorityBinding_def AuthorityFromBinding_def
          AuthorityJSON_ToBinding_def empty_authority_json_def session_complete_def
          nonemptyTrimmedStrings_def split: if_splits)
  qed
qed

lemma authority_back:
  assumes "portable_authority b" and "validateCompleteAuthorityOrBootstrap b = Ok ()"
  shows "\<exists>j. AuthorityOrBootstrapJSONFromBinding b = Ok j \<and> AuthorityOrBootstrapJSON_ToBinding j = Ok b"
proof (cases "ob_binding b")
  case None
  with assms obtain x where b: "b = AuthorityOrBootstrapFromBootstrap x"
    by (auto simp: portable_authority_def split: option.splits)
  with assms(2) show ?thesis
    by (cases x) (auto simp: AuthorityOrBootstrapFromBootstrap_def AuthorityOrBootstrapJSONFromBinding_def
        AuthorityOrBootstrapJSON_ToBinding_def validateCompleteAuthorityOrBootstrap_def
        validateCompleteBootstrapBinding_def BootstrapAuthority_def split: if_splits)
next
  case (Some a)
  with assms have b: "b = AuthorityOrBootstrapFromBinding a" and "portable_binding a"
      "validateCompleteAuthorityBinding a = Ok ()"
    by (auto simp: portable_authority_def validateCompleteAuthorityOrBootstrap_def
        AuthorityOrBootstrapFromBinding_def split: option.splits)
  from binding_back [OF this(2,3)] obtain j where "AuthorityFromBinding a = Ok j"
    "AuthorityJSON_ToBinding j = Ok a" by blast
  with b show ?thesis
    by (auto simp: AuthorityOrBootstrapFromBinding_def AuthorityOrBootstrapJSONFromBinding_def
        AuthorityOrBootstrapJSON_ToBinding_def)
qed

lemma hex_encode_trimmed: "trimmed (hex_encode b)"
proof (rule isASCIIHex_trimmed)
  show "isASCIIHex (hex_encode b)"
  proof (induction b)
    case (Cons x b)
    have "unat x < 256" using unsigned_less [of x] by simp
    then have "unat x div 16 < 16" and "unat x mod 16 < 16" by auto
    with Cons show ?case by (simp add: hex_encode_Cons isASCIIHex_def hex_val_digit)
  qed (simp add: isASCIIHex_def)
qed

lemma hex_encode_blank [simp]: "blank (hex_encode b) = (b = [])"
proof -
  have "blank (hex_encode b) = (hex_encode b = [])" by (rule blank_iff(2) [OF hex_encode_trimmed])
  then show ?thesis by (cases b) (simp_all add: hex_encode_Cons)
qed

lemma proof_back:
  assumes "portable_proof p" and "ap_binding p = Some b"
    and "validateCompleteAuthorityOrBootstrap b = Ok ()"
  shows "\<exists>j. AuthorityProofFromProof p = Ok j \<and> ToProof j = Ok p"
proof -
  from assms obtain j where "AuthorityOrBootstrapJSONFromBinding b = Ok j"
      "AuthorityOrBootstrapJSON_ToBinding j = Ok b"
    using authority_back by (auto simp: portable_proof_def)
  with assms show ?thesis
    by (cases p) (auto simp: AuthorityProofFromProof_def ToProof_def optR_def portable_proof_def
        proof_json_signature_def ToAgent_back split: option.splits)
qed

section \<open>Receipts\<close>

text \<open>What the verification of a record says about the parts the parser looks at.\<close>

lemma verified_record:
  assumes "verifyReceiptRecord P r resolver = Ok ()"
  obtains e where "pf_subject_ref (xb_proof_facts (rc_binding r)) = Some e"
    and "EntityRefForSubject (xb_subject (rc_binding r)) = Ok e"
    and "validateReceiptProofFactsSemantics P (xb_proof_facts (rc_binding r)) = Ok ()"
    and "pf_complete (xb_proof_facts (rc_binding r))"
    and "validateReceiptRecordSemantics P r = Ok ()"
    and "validateCalleeSignatureStructure (rc_signature r) = Ok ()"
    and "computeReceiptHash P r = Ok (rc_self_hash r)"
proof -
  from assms have sem: "validateReceiptRecordSemantics P r = Ok ()"
    and sig: "validateCalleeSignatureStructure (rc_signature r) = Ok ()"
    and hash: "computeReceiptHash P r = Ok (rc_self_hash r)"
    by (auto simp: verifyReceiptRecord_def bindR_Ok_iff split: if_splits)
  from hash have facts: "validateReceiptProofFactsSemantics P (xb_proof_facts (rc_binding r)) = Ok ()"
      "pf_complete (xb_proof_facts (rc_binding r))"
    by (auto simp: computeReceiptHash_def bindR_Ok_iff canonicalSerialise_def
        CanonicalReceiptBytesWithHosted_Ok TryCanonicalReceiptProofFacts_Ok receiptBody_def Let_def is_ok_iff)
  from sem obtain e where "pf_subject_ref (xb_proof_facts (rc_binding r)) = Some e"
      "EntityRefForSubject (xb_subject (rc_binding r)) = Ok e"
    by (auto simp: validateReceiptRecordSemantics_def Let_def bindR_Ok_iff split: option.splits if_splits)
  with that sem sig hash facts show thesis by blast
qed

lemma role_kind_known: "role_kind role = Ok k \<Longrightarrow> k \<in> {EntityRefResource, EntityRefAgent,
    EntityRefAbility, EntityRefSession, EntityRefContinuation, EntityRefStateObject, EntityRefDevice}"
  by (auto simp: role_kind_def split: if_splits)

lemma subject_entity_portable:
  assumes "EntityRefForSubject s = Ok e" and "known_profile (si_profile s)"
  shows "portable_entity e"
proof -
  from assms obtain k where k: "entityRefKindForSubjectURA (si_ura s) = Ok k"
    "e = \<lparr>er_kind = k, er_ura = si_ura s, er_profile = si_profile s\<rparr>"
    by (auto simp: EntityRefForSubject_def bindR_Ok_iff)
  then obtain role where "role_kind role = Ok k"
    by (auto simp: entityRefKindForSubjectURA_def Let_def split: if_splits list.splits)
  with role_kind_known k assms(2) show ?thesis by (auto simp: portable_entity_def)
qed

text \<open>The fields of a record, as the parser finds them.\<close>

definition record_fields :: "receipt_record \<Rightarrow> entity_ref \<Rightarrow> receipt_fields" where
  "record_fields r e =
     (let b = rc_binding r; facts = xb_proof_facts b in
      \<lparr>rf_prev_hash = rc_prev_hash r, rf_payload_digest = xb_payload_digest b, rf_nonce = xb_nonce b,
       rf_caller = xb_caller b, rf_callee = xb_callee b, rf_subject = xb_subject b,
       rf_causal = xb_causal b, rf_authority = xb_authority b, rf_proof = pf_authority_proof facts,
       rf_schema_hash = pf_schema_hash facts, rf_impl_hash = pf_impl_hash facts,
       rf_input_hash = pf_input_hash facts, rf_output_hash = pf_output_hash facts,
       rf_subject_ref = e, rf_parents = pf_parent_receipts facts,
       rf_signature = ce_signature (rc_signature r), rf_hosted = xb_hosted b,
       rf_payload = rc_payload r\<rparr>)"

lemma bound_hash_hex32 [simp]: "bound_hash l (hex32 h) = (if h = 0 then invalid_arg (l @ ''_unbound'') else Ok h)"
  by (simp add: bound_hash_def)

lemma parse_hosted_back [portable_simps]:
  "pred_option (\<lambda>h. known_profile (ai_profile (ha_signer_binding h))) (xb_hosted (rc_binding r)) \<Longrightarrow>
    parse_hosted (project_extension r) = Ok (xb_hosted (rc_binding r))"
  by (cases "xb_hosted (rc_binding r)")
     (simp_all add: parse_hosted_def project_extension_def ToAgent_back)

lemma parse_payload_back [portable_simps]:
  "pf_sha256 P (rc_payload r) = d \<Longrightarrow> pf_sha256 P (rc_payload r) = out \<Longrightarrow>
    parse_payload P (project_extension r) d out = Ok (rc_payload r)"
  by (simp add: parse_payload_def project_extension_def)

lemma parse_fields_back:
  assumes "portable_record P r" and "validateReceiptProofFactsSemantics P (xb_proof_facts (rc_binding r)) = Ok ()"
    and "EntityRefForSubject (xb_subject (rc_binding r)) = Ok e"
    and "AuthorityOrBootstrapJSON_ToBinding aj = Ok (xb_authority (rc_binding r))"
    and "ToProof pj = Ok (pf_authority_proof (xb_proof_facts (rc_binding r)))"
  shows "parse_fields P (InvocationReceiptJSON (project_receipt r e aj pj) (project_extension r))
    = Ok (record_fields r e)"
proof -
  have "portable_entity e"
    using assms(1,3) subject_entity_portable by (auto simp: portable_record_def Let_def)
  moreover have "check_parents (pf_parent_receipts (xb_proof_facts (rc_binding r))) = Ok ()"
    and "pf_schema_hash (xb_proof_facts (rc_binding r)) \<noteq> 0" "pf_impl_hash (xb_proof_facts (rc_binding r)) \<noteq> 0"
    and "pf_input_hash (xb_proof_facts (rc_binding r)) \<noteq> 0" "pf_output_hash (xb_proof_facts (rc_binding r)) \<noteq> 0"
    and "\<not> blank (pf_descriptor_version (xb_proof_facts (rc_binding r)))"
    and "\<not> blank (pf_runtime_env (xb_proof_facts (rc_binding r)))"
    using assms(2) by (auto simp: validateReceiptProofFactsSemantics_def bindR_Ok_iff
        split: option.splits if_splits)
  moreover have "parse_payload P (project_extension r) (xb_payload_digest (rc_binding r))
      (pf_output_hash (xb_proof_facts (rc_binding r))) = Ok (rc_payload r)"
    using assms(1) unfolding portable_record_def Let_def by (intro parse_payload_back) blast+
  ultimately show ?thesis
    using assms(1,4,5)
    by (simp add: parse_fields_def Let_def project_receipt_def record_fields_def portable_record_def
        portable_simps)
qed

text \<open>The proof facts and the record are rebuilt from the fields.\<close>

lemma facts_semantics_complete:
  "validateReceiptProofFactsSemantics P (f\<lparr>pf_complete := c\<rparr>) = validateReceiptProofFactsSemantics P f"
  by (simp add: validateReceiptProofFactsSemantics_def split: option.split)

lemma json_facts_back:
  assumes "validateReceiptProofFactsSemantics P (xb_proof_facts (rc_binding r)) = Ok ()"
    and "pf_complete (xb_proof_facts (rc_binding r))"
    and "pf_subject_ref (xb_proof_facts (rc_binding r)) = Some e"
  shows "json_facts P (project_receipt r e aj pj) (record_fields r e) = Ok (xb_proof_facts (rc_binding r))"
proof -
  let ?f = "xb_proof_facts (rc_binding r)"
  have "?f\<lparr>pf_complete := False\<rparr> = \<lparr>pf_subject_ref = Some e, pf_descriptor_version = pf_descriptor_version ?f,
      pf_schema_hash = pf_schema_hash ?f, pf_impl_hash = pf_impl_hash ?f, pf_runtime_env = pf_runtime_env ?f,
      pf_authority_proof = pf_authority_proof ?f, pf_input_hash = pf_input_hash ?f,
      pf_output_hash = pf_output_hash ?f, pf_parent_receipts = pf_parent_receipts ?f, pf_complete = False\<rparr>"
    using assms(3) by (cases ?f) simp
  moreover have "validateReceiptProofFactsSemantics P (?f\<lparr>pf_complete := False\<rparr>) = Ok ()"
    using assms(1) by (simp only: facts_semantics_complete)
  moreover have "?f\<lparr>pf_complete := False, pf_complete := True\<rparr> = ?f"
    using assms(2) by (cases ?f) simp
  ultimately show ?thesis
    by (simp add: json_facts_def project_receipt_def record_fields_def Let_def NewReceiptProofFacts_def
        TryNewReceiptProofFacts_def)
qed

lemma json_record_back:
  "(json_record (InvocationReceiptJSON (project_receipt r e aj pj) (project_extension r)) (record_fields r e)
     (xb_proof_facts (rc_binding r)))
   = r\<lparr>rc_self_hash := 0, rc_signature := empty_signature\<rparr>"
  by (simp add: json_record_def Let_def project_receipt_def project_extension_def record_fields_def)

lemma json_signature_back:
  "json_signature (InvocationReceiptJSON (project_receipt r e aj pj) (project_extension r)) (record_fields r e)
   = rc_signature r"
  by (simp add: json_signature_def project_receipt_def project_extension_def record_fields_def Let_def)

lemma project_receipt_sel:
  "tj_ability_binding (project_receipt r e aj pj) = xb_ability (rc_binding r)"
  "tj_descriptor_version (project_receipt r e aj pj) = pf_descriptor_version (xb_proof_facts (rc_binding r))"
  by (simp_all add: project_receipt_def Let_def)

lemma check_json_back:
  assumes "validateReceiptRecordSemantics P r = Ok ()"
    and "validateCalleeSignatureStructure (rc_signature r) = Ok ()"
    and "pf_subject_ref (xb_proof_facts (rc_binding r)) = Some e"
  shows "check_json_receipt P (InvocationReceiptJSON (project_receipt r e aj pj) (project_extension r))
    (record_fields r e) = Ok ()"
proof -
  let ?b = "rc_binding r" and ?f = "xb_proof_facts (rc_binding r)"
  from assms(1,3) obtain d where
    "validateAuthorityBinding (xb_caller ?b) (xb_subject ?b) (xb_ability ?b) (xb_authority ?b) = Ok ()"
    "validateAuthorityProof P (pf_authority_proof ?f) (xb_authority ?b) (xb_callee ?b) = Ok ()"
    "ParseAbilityDescriptorRef (xb_ability ?b) = Ok d" "pf_descriptor_version ?f = ad_version d"
    "EntityRefForSubject (xb_subject ?b) = Ok e"
    "receiptRefsEqual (pf_parent_receipts ?f) (enumerableParentReceipts (xb_causal ?b))"
    by (auto simp: validateReceiptRecordSemantics_def Let_def bindR_Ok_iff split: if_splits)
  with assms(2) show ?thesis
    unfolding check_json_receipt_def json_signature_back
    by (simp add: project_receipt_sel record_fields_def Let_def)
qed

lemma bundle_back:
  assumes "verifyReceiptRecord P r resolver = Ok ()" and "portable_record P r"
  shows "\<exists>j. ProjectSignedInvocationReceipt (SignedReceipt r) = Ok j
    \<and> ToUnverifiedReceipt P j = Ok (UnverifiedReceipt r)"
proof -
  let ?b = "rc_binding r" and ?f = "xb_proof_facts (rc_binding r)"
  obtain e where e: "pf_subject_ref ?f = Some e" "EntityRefForSubject (xb_subject ?b) = Ok e"
    and facts: "validateReceiptProofFactsSemantics P ?f = Ok ()" "pf_complete ?f"
    and sem: "validateReceiptRecordSemantics P r = Ok ()"
    and sig: "validateCalleeSignatureStructure (rc_signature r) = Ok ()"
    and hash: "computeReceiptHash P r = Ok (rc_self_hash r)"
    by (rule verified_record [OF assms(1)])
  from sem have bound: "ap_binding (pf_authority_proof ?f) = Some (xb_authority ?b)"
    by (auto simp: validateReceiptRecordSemantics_def Let_def bindR_Ok_iff validateAuthorityProof_def
        split: if_splits option.splits)
  with facts(1) have complete: "validateCompleteAuthorityOrBootstrap (xb_authority ?b) = Ok ()"
    by (auto simp: validateReceiptProofFactsSemantics_def validateCompleteAuthorityProof_def bindR_Ok_iff
        split: if_splits option.splits)
  have port: "portable_authority (xb_authority ?b)" "portable_proof (pf_authority_proof ?f)"
    using assms(2) by (simp_all add: portable_record_def Let_def)
  obtain aj where aj: "AuthorityOrBootstrapJSONFromBinding (xb_authority ?b) = Ok aj"
      "AuthorityOrBootstrapJSON_ToBinding aj = Ok (xb_authority ?b)"
    using authority_back [OF port(1) complete] by blast
  obtain pj where pj: "AuthorityProofFromProof (pf_authority_proof ?f) = Ok pj"
      "ToProof pj = Ok (pf_authority_proof ?f)"
    using proof_back [OF port(2) bound complete] by blast
  let ?j = "InvocationReceiptJSON (project_receipt r e aj pj) (project_extension r)"
  have new: "newReceiptRecord P (r\<lparr>rc_self_hash := 0, rc_signature := empty_signature\<rparr>)
      = Ok (r\<lparr>rc_signature := empty_signature\<rparr>)"
    using hash by (cases r) (simp add: newReceiptRecord_def Let_def computeReceiptHash_def bindR_Ok_iff
        canonicalSerialise_def receiptBody_def)
  have "ToUnverifiedReceipt P ?j = Ok (UnverifiedReceipt r)"
    by (simp add: ToUnverifiedReceipt_def parse_fields_back [OF assms(2) facts(1) e(2) aj(2) pj(2)]
        json_facts_back [OF facts e(1)] check_json_back [OF sem sig e(1)] json_record_back new
        json_signature_back) (simp add: project_extension_def)
  moreover have "ProjectSignedInvocationReceipt (SignedReceipt r) = Ok ?j"
    using e(1) aj(1) pj(1) by (simp add: ProjectSignedInvocationReceipt_def Let_def)
  ultimately show ?thesis by blast
qed

text \<open>C17: An accepted receipt survives the portable bundle.  A receipt that passes the complete
  verification and whose values are portable (known profiles, constructor normal forms, the
  strict profile inside its authority binding, the payload its digests name) is projected
  without an error; parsing the projection gives back the very same record, hash and
  signature included, and it verifies again.\<close>

theorem receipt_bundle_roundtrip:
  assumes "verifyReceiptRecord P r resolver = Ok ()" and "portable_record P r"
  shows "\<exists>j. ProjectSignedInvocationReceipt (SignedReceipt r) = Ok j
    \<and> ToUnverifiedReceipt P j = Ok (UnverifiedReceipt r)
    \<and> UnverifiedReceipt_Verify P (UnverifiedReceipt r) resolver = Ok (SignedReceipt r)"
  using bundle_back [OF assms] assms(1) by (auto simp: UnverifiedReceipt_Verify_def)

section \<open>When the parser panics\<close>

named_theorems no_panic "functions that never panic"

lemma panic_bindR: "is_panic (bindR r f) \<longleftrightarrow> is_panic r \<or> (\<exists>x. r = Ok x \<and> is_panic (f x))"
  by (cases r) auto

lemma panic_if: "is_panic (if b then x else y) = (if b then is_panic x else is_panic y)"
  by simp

lemma panic_must: "is_panic (must r) = (\<not> is_ok r)"
  by (cases r) auto

lemmas panic_rules = panic_bindR panic_if

lemma hexTo32_panic [no_panic]: "\<not> is_panic (hexTo32 s)"
  by (auto simp: hexTo32_def split: option.split)

lemma hexTo16_panic [no_panic]: "\<not> is_panic (hexTo16 s)"
  by (auto simp: hexTo16_def split: option.split)

lemma hex_field_panic [no_panic]: "\<not> is_panic (hex_field l s)"
  by (auto simp: hex_field_def split: option.split)

lemma ParseUraProfile_panic [no_panic]: "\<not> is_panic (ParseUraProfile s)"
  by (simp add: ParseUraProfile_def)

lemma ToAgent_panic [no_panic]: "\<not> is_panic (ToAgent i)" "\<not> is_panic (ToSubject i)"
  by (simp_all add: ToAgent_def ToSubject_def panic_rules no_panic)

lemma ToEntityRef_panic [no_panic]: "\<not> is_panic (ToEntityRef e)"
  by (simp add: ToEntityRef_def panic_rules no_panic ParseEntityRefKind_def)

lemma parse_prior_panic [no_panic]: "\<not> is_panic (parse_prior ps)" "\<not> is_panic (parse_parents ps)"
  by (induction ps) (simp_all add: panic_rules no_panic)

lemma ToCtx_panic [no_panic]: "\<not> is_panic (ToCtx c)"
  by (simp add: ToCtx_def panic_rules no_panic)

lemma ToBinding_panic [no_panic]: "\<not> is_panic (AuthorityOrBootstrapJSON_ToBinding a)"
proof -
  have "\<not> is_panic (AuthorityJSON_ToBinding x)" for x
    by (simp add: AuthorityJSON_ToBinding_def panic_rules no_panic)
  then show ?thesis
    by (auto simp: AuthorityOrBootstrapJSON_ToBinding_def panic_rules split: option.split)
qed

lemma ToProof_panic [no_panic]: "\<not> is_panic (ToProof p)"
  by (auto simp: ToProof_def optR_def proof_json_signature_def panic_rules no_panic split: option.split)

lemma bound_hash_panic [no_panic]: "\<not> is_panic (bound_hash l s)"
  by (simp add: bound_hash_def panic_rules no_panic)

lemma parse_hosted_panic [no_panic]: "\<not> is_panic (parse_hosted e)"
  by (auto simp: parse_hosted_def panic_rules no_panic split: option.split)

lemma parse_payload_panic [no_panic]: "\<not> is_panic (parse_payload P e d h)"
  by (auto simp: parse_payload_def panic_rules no_panic split: option.split)

lemma parse_fields_panic [no_panic]: "\<not> is_panic (parse_fields P j)"
  by (simp add: parse_fields_def Let_def panic_rules no_panic)

lemma EntityRefForSubject_panic [no_panic]: "\<not> is_panic (EntityRefForSubject s)"
  by (auto simp: EntityRefForSubject_def entityRefKindForSubjectURA_def role_kind_def Let_def panic_rules
      split: list.split)

lemma validateAuthorityBinding_panic [no_panic]: "\<not> is_panic (validateAuthorityBinding c s a b)"
  by (auto simp: validateAuthorityBinding_def validateBootstrapBindingFields_def
      validateAuthorityBindingFields_def panic_rules split: option.split)

lemma ParseAbilityDescriptorRef_panic [no_panic]: "\<not> is_panic (ParseAbilityDescriptorRef s)"
  by (auto simp: ParseAbilityDescriptorRef_def parse_version_def parse_digest_action_def
      requireAbilityURA_def Let_def panic_rules split: option.split list.split)

lemma validateCalleeSignatureStructure_panic [no_panic]: "\<not> is_panic (validateCalleeSignatureStructure s)"
  by (simp add: validateCalleeSignatureStructure_def)

text \<open>A complete authority binding is one the encoder encodes.\<close>

lemma complete_encodes:
  assumes "validateCompleteAuthorityOrBootstrap b = Ok ()"
  shows "is_ok (CanonicalAuthorityOrBootstrapBytes b)"
  using assms
  by (auto simp: validateCompleteAuthorityOrBootstrap_def validateCompleteAuthorityBinding_def
      CanonicalAuthorityOrBootstrapBytes_def CanonicalAuthorityBytes_def putEvidencePayload_def
      split: if_splits option.splits)

lemma parse_parents_checked: "parse_parents ps = Ok refs \<Longrightarrow> check_parents refs = Ok ()"
  by (induction ps arbitrary: refs) (auto simp: check_parents_def bindR_Ok_iff split: if_splits)

lemma parse_fields_checked:
  assumes "parse_fields P j = Ok f"
  shows "\<not> blank (tj_descriptor_version (irj_receipt j))" and "\<not> blank (tj_runtime_env (irj_receipt j))"
    and "rf_schema_hash f \<noteq> 0" and "rf_impl_hash f \<noteq> 0" and "rf_input_hash f \<noteq> 0" and "rf_output_hash f \<noteq> 0"
    and "check_parents (rf_parents f) = Ok ()"
  using assms
  by (auto simp: parse_fields_def Let_def bindR_Ok_iff bound_hash_def parse_parents_checked split: if_splits)

text \<open>The facts the parser asks for are refused exactly for a blank subject or an incomplete
  authority proof: everything else has been checked by then.\<close>

definition parser_facts :: "receipt_json \<Rightarrow> receipt_fields \<Rightarrow> receipt_proof_facts" where
  "parser_facts r f =
     \<lparr>pf_subject_ref = Some (rf_subject_ref f), pf_descriptor_version = tj_descriptor_version r,
      pf_schema_hash = rf_schema_hash f, pf_impl_hash = rf_impl_hash f, pf_runtime_env = tj_runtime_env r,
      pf_authority_proof = rf_proof f, pf_input_hash = rf_input_hash f, pf_output_hash = rf_output_hash f,
      pf_parent_receipts = rf_parents f, pf_complete = True\<rparr>"

lemma json_facts_iff:
  assumes "parse_fields P j = Ok f"
  shows "json_facts P (irj_receipt j) f = Ok facts \<longleftrightarrow>
    \<not> blank (er_ura (rf_subject_ref f)) \<and> is_ok (validateCompleteAuthorityProof P (rf_proof f))
    \<and> facts = parser_facts (irj_receipt j) f"
  using parse_fields_checked [OF assms]
  by (auto simp: json_facts_def NewReceiptProofFacts_def TryNewReceiptProofFacts_def Let_def must_Ok_iff
      bindR_Ok_iff validateReceiptProofFactsSemantics_def is_ok_iff parser_facts_def)

lemma json_facts_panic:
  "is_panic (json_facts P r f) \<longleftrightarrow> (\<nexists>facts. json_facts P r f = Ok facts)"
  by (simp add: json_facts_def NewReceiptProofFacts_def panic_must is_ok_iff must_Ok_iff)

lemma complete_proof:
  assumes "validateCompleteAuthorityProof P p = Ok ()"
  obtains b h where "ap_binding p = Some b" and "validateCompleteAuthorityOrBootstrap b = Ok ()"
    and "AuthorityProofExpectedHash P p = Ok h"
  using assms by (auto simp: validateCompleteAuthorityProof_def bindR_Ok_iff split: if_splits option.splits)

lemma check_json_no_panic:
  assumes "validateCompleteAuthorityProof P (rf_proof f) = Ok ()"
  shows "\<not> is_panic (check_json_receipt P j f)"
proof -
  obtain h where "AuthorityProofExpectedHash P (rf_proof f) = Ok h"
    using complete_proof [OF assms] by blast
  then have "\<not> is_panic (validateAuthorityProof P (rf_proof f) a c)" for a c
    by (auto simp: validateAuthorityProof_def split: option.split)
  then show ?thesis
    by (auto simp: check_json_receipt_def Let_def panic_rules no_panic)
qed

lemma new_record_no_panic:
  assumes "parse_fields P j = Ok f" and "json_facts P (irj_receipt j) f = Ok facts"
    and "check_json_receipt P j f = Ok ()"
  shows "is_ok (newReceiptRecord P (json_record j f facts))"
proof -
  let ?d = "json_record j f facts"
  have sem: "\<not> blank (er_ura (rf_subject_ref f))" "validateCompleteAuthorityProof P (rf_proof f) = Ok ()"
    "facts = parser_facts (irj_receipt j) f"
    using assms(2) by (auto simp: json_facts_iff [OF assms(1)] is_ok_iff)
  obtain b h where b: "ap_binding (rf_proof f) = Some b" "validateCompleteAuthorityOrBootstrap b = Ok ()"
    by (rule complete_proof [OF sem(2)])
  from assms(3) have gate: "validateAuthorityBinding (rf_caller f) (rf_subject f)
      (tj_ability_binding (irj_receipt j)) (rf_authority f) = Ok ()"
    and "ap_binding (rf_proof f) = Some (rf_authority f)"
    by (auto simp: check_json_receipt_def Let_def bindR_Ok_iff validateAuthorityProof_def
        split: if_splits option.splits)
  with b complete_encodes have enc: "is_ok (CanonicalAuthorityOrBootstrapBytes (rf_authority f))"
    by simp
  with b \<open>ap_binding (rf_proof f) = Some (rf_authority f)\<close>
  have "is_ok (CanonicalAuthorityProofBytes (rf_proof f))"
    by (auto simp: CanonicalAuthorityProofBytes_def is_ok_iff)
  moreover have "is_ok (validateReceiptProofFactsSemantics P facts)"
    using sem parse_fields_checked [OF assms(1)]
    by (simp add: validateReceiptProofFactsSemantics_def parser_facts_def)
  ultimately have "is_ok (TryCanonicalReceiptProofFacts P facts)"
    using sem(3) by (auto simp: is_ok_iff [of "TryCanonicalReceiptProofFacts _ _"]
        TryCanonicalReceiptProofFacts_Ok parser_facts_def)
  with gate enc have "is_ok (canonicalSerialise P ?d)"
    by (auto simp: canonicalSerialise_def is_ok_iff [of "CanonicalReceiptBytesWithHosted _ _ _"]
        CanonicalReceiptBytesWithHosted_Ok json_record_def receiptBody_def Let_def)
  then show ?thesis by (auto simp: is_ok_iff newReceiptRecord_Ok)
qed

text \<open>C30: The parser of receipts from untrusted peers panics, and exactly when.  It builds the
  proof facts with the constructor that panics before any check of the authority proof has
  returned an error, so a document whose fields all decode makes it panic as soon as its
  subject reference is blank or its authority proof is incomplete (a blank proof type or
  admission hook, no issuer, a zero hash, a hash that does not match, an incomplete
  binding), and on no other document.\<close>

theorem receipt_parser_panics:
  "is_panic (ToUnverifiedReceipt P j) \<longleftrightarrow>
    (\<exists>f. parse_fields P j = Ok f
      \<and> (blank (er_ura (rf_subject_ref f)) \<or> \<not> is_ok (validateCompleteAuthorityProof P (rf_proof f))))"
proof (cases "parse_fields P j")
  case (Ok f)
  show ?thesis
  proof (cases "\<exists>facts. json_facts P (irj_receipt j) f = Ok facts")
    case True
    then obtain facts where facts: "json_facts P (irj_receipt j) f = Ok facts" ..
    then have good: "\<not> blank (er_ura (rf_subject_ref f))"
        "validateCompleteAuthorityProof P (rf_proof f) = Ok ()"
      by (auto simp: json_facts_iff [OF Ok] is_ok_iff)
    have "\<not> is_panic (newReceiptRecord P (json_record j f facts))" if "check_json_receipt P j f = Ok ()"
      using new_record_no_panic [OF Ok facts that] by (auto simp: is_ok_iff)
    with check_json_no_panic [OF good(2), of j] Ok facts good show ?thesis
      by (auto simp: ToUnverifiedReceipt_def panic_rules no_panic Let_def split: option.split)
  next
    case False
    then have "is_panic (json_facts P (irj_receipt j) f)" by (simp add: json_facts_panic)
    with Ok False show ?thesis
      by (auto simp: ToUnverifiedReceipt_def panic_rules json_facts_iff [OF Ok])
  qed
next
  case (Fail e)
  then show ?thesis by (simp add: ToUnverifiedReceipt_def)
next
  case (Panic e)
  with parse_fields_panic [of P j] show ?thesis by simp
qed

section \<open>What a parsed receipt is\<close>

lemma ToAgent_known: "ToAgent i = Ok a \<Longrightarrow> known_profile (ai_profile a)"
  by (auto simp: ToAgent_def bindR_Ok_iff ParseUraProfile_def known_profile_def split: if_splits)

lemma ToSubject_known: "ToSubject i = Ok s \<Longrightarrow> known_profile (si_profile s)"
  by (auto simp: ToSubject_def bindR_Ok_iff ParseUraProfile_def known_profile_def split: if_splits)

lemma parse_hosted_known:
  "parse_hosted e = Ok h \<Longrightarrow> pred_option (\<lambda>h. known_profile (ai_profile (ha_signer_binding h))) h"
  by (auto simp: parse_hosted_def bindR_Ok_iff dest: ToAgent_known split: option.splits if_splits)

lemma parse_fields_profiles:
  assumes "parse_fields P j = Ok f"
  shows "known_profile (ai_profile (rf_caller f))" and "known_profile (ai_profile (rf_callee f))"
    and "known_profile (si_profile (rf_subject f))" and "\<not> blank (tj_invocation_id (irj_receipt j))"
    and "pred_option (\<lambda>h. known_profile (ai_profile (ha_signer_binding h))) (rf_hosted f)"
    and "ToCtx (tj_causal_binding (irj_receipt j)) = Ok (rf_causal f)"
    and "AuthorityOrBootstrapJSON_ToBinding (tj_authority_binding (irj_receipt j)) = Ok (rf_authority f)"
  using assms
  by (auto simp: parse_fields_def Let_def bindR_Ok_iff split: if_splits
      dest: ToAgent_known ToSubject_known parse_hosted_known)

lemma ToCtx_portable: "ToCtx c = Ok x \<Longrightarrow> portable_causal x"
  by (auto simp: ToCtx_def bindR_Ok_iff portable_causal_def CausalNoneCtx_def CausalListCtx_def
      CausalMerkleCtx_def CausalScalarCtx_def split: if_splits)

lemma ToBinding_portable:
  assumes "AuthorityOrBootstrapJSON_ToBinding a = Ok b"
  shows "portable_authority b"
proof -
  have "portable_binding y" if "AuthorityJSON_ToBinding x = Ok y" for x y
    using that by (auto simp: AuthorityJSON_ToBinding_def bindR_Ok_iff portable_binding_def SelfAuthority_def
        DelegatedAuthority_def SessionAuthority_def strict_agent_def split: if_splits)
  with assms show ?thesis
    by (auto simp: AuthorityOrBootstrapJSON_ToBinding_def bindR_Ok_iff portable_authority_def
        AuthorityOrBootstrapFromBinding_def AuthorityOrBootstrapFromBootstrap_def split: option.splits if_splits)
qed

text \<open>A parse that succeeds, taken apart.\<close>

lemma ToUnverifiedReceipt_Ok:
  assumes "ToUnverifiedReceipt P j = Ok (UnverifiedReceipt r)"
  obtains f facts b h where "parse_fields P j = Ok f" "json_facts P (irj_receipt j) f = Ok facts"
    "check_json_receipt P j f = Ok ()" "canonicalSerialise P (json_record j f facts) = Ok b"
    "(case xj_self_hash_hex (irj_ext j) of None \<Rightarrow> Ok (pf_sha256 P b) | Some s \<Rightarrow> hexTo32 s) = Ok h"
    "r = (json_record j f facts)\<lparr>rc_self_hash := h, rc_signature := json_signature j f\<rparr>"
proof -
  from assms obtain f facts b where *: "parse_fields P j = Ok f" "json_facts P (irj_receipt j) f = Ok facts"
    "check_json_receipt P j f = Ok ()" "canonicalSerialise P (json_record j f facts) = Ok b"
    by (auto simp: ToUnverifiedReceipt_def bindR_Ok_iff newReceiptRecord_Ok)
  then have rec: "newReceiptRecord P (json_record j f facts)
      = Ok ((json_record j f facts)\<lparr>rc_signature := empty_signature, rc_self_hash := pf_sha256 P b\<rparr>)"
    by (simp add: newReceiptRecord_Ok)
  show thesis
  proof (cases "xj_self_hash_hex (irj_ext j)")
    case None
    with assms * rec have "r = (json_record j f facts)\<lparr>rc_self_hash := pf_sha256 P b,
        rc_signature := json_signature j f\<rparr>"
      by (simp add: ToUnverifiedReceipt_def Let_def)
    with None * show thesis by (intro that [of f facts b]) simp_all
  next
    case (Some s)
    with assms * rec obtain h where "hexTo32 s = Ok h"
      "r = (json_record j f facts)\<lparr>rc_self_hash := h, rc_signature := json_signature j f\<rparr>"
      by (auto simp: ToUnverifiedReceipt_def Let_def bindR_Ok_iff)
    with Some * show thesis by (intro that [of f facts b h]) simp_all
  qed
qed

text \<open>C20: What the parser returns is well formed.  A receipt that comes out of the parser has
  known profiles, a causal context and an authority binding in the normal form of their
  constructors, complete proof facts, passes the whole semantic gate of the verification and
  the structural check of the signature, and encodes: all that is left for \<open>Verify\<close> to
  decide is the signature and the hash.\<close>

theorem parsed_receipt_wellformed:
  assumes "ToUnverifiedReceipt P j = Ok (UnverifiedReceipt r)"
  shows "validateReceiptRecordSemantics P r = Ok () \<and> validateCalleeSignatureStructure (rc_signature r) = Ok ()
    \<and> is_ok (computeReceiptHash P r) \<and> pf_complete (xb_proof_facts (rc_binding r))
    \<and> \<not> blank (rc_invocation_id r) \<and> known_profile (ai_profile (xb_caller (rc_binding r)))
    \<and> known_profile (ai_profile (xb_callee (rc_binding r)))
    \<and> known_profile (si_profile (xb_subject (rc_binding r)))
    \<and> portable_causal (xb_causal (rc_binding r)) \<and> portable_authority (xb_authority (rc_binding r))"
proof -
  obtain f facts b h where f: "parse_fields P j = Ok f" and facts: "json_facts P (irj_receipt j) f = Ok facts"
    and check: "check_json_receipt P j f = Ok ()" and b: "canonicalSerialise P (json_record j f facts) = Ok b"
    and r: "r = (json_record j f facts)\<lparr>rc_self_hash := h, rc_signature := json_signature j f\<rparr>"
    by (rule ToUnverifiedReceipt_Ok [OF assms])
  have pf: "facts = parser_facts (irj_receipt j) f" using facts by (simp add: json_facts_iff [OF f])
  have bind: "rc_binding r = \<lparr>xb_caller = rf_caller f, xb_callee = rf_callee f, xb_subject = rf_subject f,
      xb_nonce = rf_nonce f, xb_causal = rf_causal f, xb_payload_digest = rf_payload_digest f,
      xb_ability = tj_ability_binding (irj_receipt j), xb_authority = rf_authority f, xb_hosted = rf_hosted f,
      xb_proof_facts = parser_facts (irj_receipt j) f\<rparr>"
    by (simp add: r json_record_def Let_def pf)
  obtain d where "ParseAbilityDescriptorRef (tj_ability_binding (irj_receipt j)) = Ok d"
      "ad_version d = tj_descriptor_version (irj_receipt j)"
    using check by (auto simp: check_json_receipt_def Let_def bindR_Ok_iff split: if_splits)
  then have "validateReceiptRecordSemantics P r = Ok ()"
    unfolding validateReceiptRecordSemantics_def Let_def bind
    using check parse_fields_checked [OF f]
    by (auto simp: check_json_receipt_def Let_def bindR_Ok_iff parser_facts_def split: if_splits)
  moreover have "validateCalleeSignatureStructure (rc_signature r) = Ok ()"
    using check by (auto simp: r check_json_receipt_def Let_def bindR_Ok_iff split: if_splits)
  moreover have "is_ok (computeReceiptHash P r)"
    using b by (simp add: r computeReceiptHash_def canonicalSerialise_hash)
  moreover have "portable_causal (rf_causal f)" "portable_authority (rf_authority f)"
    using parse_fields_profiles(6,7) [OF f] by (auto intro: ToCtx_portable ToBinding_portable)
  moreover have "\<not> blank (rc_invocation_id r)"
    using parse_fields_profiles(4) [OF f] by (simp add: r json_record_def Let_def)
  ultimately show ?thesis
    using parse_fields_profiles(1,2,3) [OF f] by (simp add: bind parser_facts_def)
qed

section \<open>What the projection forgets\<close>

lemma AuthorityFromBinding_strict:
  assumes "AuthorityFromBinding a = Ok x" and "AuthorityJSON_ToBinding x = Ok a'"
  shows "ai_profile (ab_authority a') = ProfileStrictV2"
  using assms(2) by (auto simp: AuthorityJSON_ToBinding_def bindR_Ok_iff SelfAuthority_def
      DelegatedAuthority_def SessionAuthority_def strict_agent_def split: if_splits)

text \<open>The bundle has no field for the profile of the authority or of its issuer, and the
  reader fills in the strict profile.  When the authority of an exported receipt has another
  profile, the parsed document carries the hash and the signature of the original over other
  signed content: the receipt does not survive its export.\<close>

theorem authority_profile_lost:
  assumes "ProjectSignedInvocationReceipt (SignedReceipt r) = Ok j"
    and "ToUnverifiedReceipt P j = Ok (UnverifiedReceipt r')"
    and "\<not> ob_is_bootstrap (xb_authority (rc_binding r))"
    and "ob_binding (xb_authority (rc_binding r)) = Some a"
    and "ai_profile (ab_authority a) \<noteq> ProfileStrictV2"
  shows "rc_self_hash r' = rc_self_hash r \<and> rc_signature r' = rc_signature r
    \<and> receiptBody r' \<noteq> receiptBody r"
proof -
  from assms(1) obtain e aj pj where aj: "AuthorityOrBootstrapJSONFromBinding (xb_authority (rc_binding r)) = Ok aj"
    and j: "j = InvocationReceiptJSON (project_receipt r e aj pj) (project_extension r)"
    by (auto simp: ProjectSignedInvocationReceipt_def Let_def bindR_Ok_iff split: option.splits)
  obtain f facts b h where f: "parse_fields P j = Ok f"
    and h: "(case xj_self_hash_hex (irj_ext j) of None \<Rightarrow> Ok (pf_sha256 P b) | Some s \<Rightarrow> hexTo32 s) = Ok h"
    and r': "r' = (json_record j f facts)\<lparr>rc_self_hash := h, rc_signature := json_signature j f\<rparr>"
    by (rule ToUnverifiedReceipt_Ok [OF assms(2)])
  have "rf_signature f = ce_signature (rc_signature r)"
    using f by (auto simp: parse_fields_def j Let_def bindR_Ok_iff project_receipt_def split: if_splits)
  then have sig: "json_signature j f = rc_signature r"
    by (simp add: json_signature_def j project_receipt_def project_extension_def Let_def)
  have hash: "h = rc_self_hash r" using h by (simp add: j project_extension_def)
  from aj assms(3,4) obtain x where x: "AuthorityFromBinding a = Ok x"
      "aj = \<lparr>oj_authority = Some x, oj_bootstrap = None\<rparr>"
    by (auto simp: AuthorityOrBootstrapJSONFromBinding_def bindR_Ok_iff)
  have "AuthorityOrBootstrapJSON_ToBinding aj = Ok (rf_authority f)"
    using parse_fields_profiles(7) [OF f] by (simp add: j project_receipt_def Let_def)
  with x obtain a' where a': "AuthorityJSON_ToBinding x = Ok a'"
      "rf_authority f = AuthorityOrBootstrapFromBinding a'"
    by (auto simp: AuthorityOrBootstrapJSON_ToBinding_def bindR_Ok_iff)
  note a'(2)
  moreover have "ai_profile (ab_authority a') = ProfileStrictV2"
    by (rule AuthorityFromBinding_strict [OF x(1) a'(1)])
  ultimately have "rf_authority f \<noteq> xb_authority (rc_binding r)"
    using assms(4,5) by (metis authority_or_bootstrap.select_convs(2) AuthorityOrBootstrapFromBinding_def
        option.inject)
  then have "rb_authority (receiptBody r') \<noteq> rb_authority (receiptBody r)"
    by (simp add: r' receiptBody_def json_record_def Let_def)
  then have "receiptBody r' \<noteq> receiptBody r" by (rule contrapos_nn) simp
  with sig hash show ?thesis by (simp add: r')
qed

section \<open>Signed invocations\<close>

lemma ToEnvelope_back:
  assumes "portable_envelope env"
  shows "ToEnvelope (NewInvocationJSON i env sig) = Ok (env, sig\<lparr>cs_key_id_hint := []\<rparr>)"
  using assms by (cases env; cases sig)
    (simp add: ToEnvelope_def NewInvocationJSON_def portable_envelope_def portable_simps)

text \<open>A signed invocation survives the portable bundle.  A descriptor-bound envelope with
  portable values comes back unchanged from its JSON form, with the signature's algorithm
  and bytes; the key hint is dropped, which the verification of the caller's signature does
  not notice.\<close>

theorem invocation_bundle_roundtrip:
  assumes "NewDescriptorBoundEnvelope raw = Ok env" and "portable_envelope raw"
  shows "ToDescriptorBoundEnvelope (NewDescriptorBoundInvocationJSON i env sig)
      = Ok (Some env, sig\<lparr>cs_key_id_hint := []\<rparr>)
    \<and> verifyDescriptorBoundInvocationSignature P env (sig\<lparr>cs_key_id_hint := []\<rparr>) keys
      = verifyDescriptorBoundInvocationSignature P env sig keys"
proof -
  from assms(1) have env: "env = DBEnvelope raw" and "is_ok (ParseAbilityDescriptorRef (en_ability raw))"
    by (auto simp: NewDescriptorBoundEnvelope_def CanonicalAbilityDescriptorRef_def bindR_Ok_iff)
  moreover have "nj_ability (NewInvocationJSON i raw sig) = en_ability raw"
    by (simp add: NewInvocationJSON_def)
  ultimately show ?thesis
    using assms by (simp add: ToDescriptorBoundEnvelope_def NewDescriptorBoundInvocationJSON_def
        ToEnvelope_back verifyDescriptorBoundInvocationSignature_def cong: if_cong)
qed

section \<open>Worked instances\<close>

text \<open>A receipt the sample provider seals: it verifies and is portable.\<close>

lemma demo_portable_parts:
  "portable_authority demo_authority" "portable_proof demo_proof" "portable_envelope demo_envelope"
  "known_profile (ai_profile demo_caller)" "known_profile (ai_profile demo_callee)"
  "known_profile (si_profile demo_subject)" "portable_causal CausalNoneCtx"
proof -
  show a: "portable_authority demo_authority" by code_simp
  show "known_profile (ai_profile demo_caller)" "known_profile (ai_profile demo_callee)"
    "known_profile (si_profile demo_subject)" "portable_causal CausalNoneCtx"
    by code_simp+
  then show "portable_proof demo_proof" "portable_envelope demo_envelope"
    using a by (simp_all add: portable_proof_def demo_proof_def portable_envelope_def demo_envelope_def)
qed

lemma demo_context_binding:
  "xb_caller (bc_binding demo_context) = demo_caller" "xb_callee (bc_binding demo_context) = demo_callee"
  "xb_subject (bc_binding demo_context) = demo_subject" "xb_causal (bc_binding demo_context) = CausalNoneCtx"
  "xb_authority (bc_binding demo_context) = demo_authority" "bc_invocation_id demo_context = ''i''"
  by (simp_all add: demo_context_def demo_admission_def admission_record_def demo_envelope_def)

lemma demo_sealed:
  "\<exists>r. verifyReceiptRecord demo_platform r demo_resolver = Ok () \<and> portable_record demo_platform r
     \<and> xb_authority (rc_binding r) = demo_authority"
proof -
  obtain p' r where app: "AppendSignedReceipt demo_platform demo_resolve demo_provider (Some demo_context)
      (demo_input ''COMPLETED'') = (p', Ok r)"
    using demo_append [of "''COMPLETED''" demo_provider newReceiptChainState]
    by (auto simp: demo_provider_def newReceiptChainState_def)
  have "verifyReceiptRecord demo_platform (sr_record r) demo_resolver = Ok ()"
    using demo_ed_sign(2) demo_context_binding(2)
    by (intro appended_verifies [OF bindReceiptContext_wf [OF demo_admission_new demo_resolved demo_binds] app,
        of demo_signing_authority]) (simp_all add: demo_resolve_def demo_resolver_def)
  moreover have "portable_record demo_platform (sr_record r) \<and> xb_authority (rc_binding (sr_record r)) = demo_authority"
    using app
  proof (elim append_Ok)
    fix c chain facts rv
    assume checks: "append_checks demo_platform demo_provider (Some demo_context) (demo_input ''COMPLETED'')
        = Ok (c, chain, facts)"
      and s: "sign_receipt demo_platform demo_resolve c (demo_input ''COMPLETED'') facts rv = Ok r"
    have c: "c = demo_context" and facts: "facts = demo_output_facts"
      using checks demo_output(1) by (auto simp: append_checks_Ok)
    from s [unfolded c] show ?thesis
    proof (elim sign_receipt_Ok)
      fix a hosted b sig
      assume "demo_resolve (xb_callee (bc_binding demo_context)) = Ok (Some a)"
        and h: "validateSigningAuthority demo_platform (xb_callee (bc_binding demo_context)) (Some a) = Ok hosted"
        and r: "r = SignedReceipt ((receipt_draft demo_platform demo_context (demo_input ''COMPLETED'') facts hosted rv)
           \<lparr>rc_signature := sig, rc_self_hash := pf_sha256 demo_platform b\<rparr>)"
      then have "hosted = None" using demo_authority_valid by (simp add: demo_resolve_def)
      then have bind: "rc_binding (sr_record r) = (bc_binding demo_context)\<lparr>
          xb_payload_digest := pf_sha256 demo_platform [], xb_proof_facts := demo_output_facts, xb_hosted := None\<rparr>"
        and other: "rc_payload (sr_record r) = []" "rc_invocation_id (sr_record r) = ''i''"
        by (simp_all add: r facts demo_context_binding)
      have "\<not> blank ''i''" "pf_sha256 demo_platform [] = pf_output_hash demo_output_facts"
        "pf_authority_proof demo_output_facts = demo_proof"
        by code_simp+
      then show ?thesis
        using demo_portable_parts
        by (simp add: portable_record_def Let_def bind other demo_context_binding)
    qed
  qed
  ultimately show ?thesis by blast
qed

theorem receipt_bundle_roundtrip_witness:
  "\<exists>r j. verifyReceiptRecord demo_platform r demo_resolver = Ok ()
    \<and> ProjectSignedInvocationReceipt (SignedReceipt r) = Ok j
    \<and> ToUnverifiedReceipt demo_platform j = Ok (UnverifiedReceipt r)"
  using demo_sealed receipt_bundle_roundtrip [of demo_platform _ demo_resolver] by blast

theorem invocation_bundle_roundtrip_witness:
  "\<exists>env. NewDescriptorBoundEnvelope demo_envelope = Ok env
    \<and> ToDescriptorBoundEnvelope (NewDescriptorBoundInvocationJSON ''i'' env \<lparr>cs_algorithm = ''ed25519'',
        cs_signature = [1], cs_key_id_hint = ''k''\<rparr>)
      = Ok (Some env, \<lparr>cs_algorithm = ''ed25519'', cs_signature = [1], cs_key_id_hint = []\<rparr>)"
proof -
  have "NewDescriptorBoundEnvelope demo_envelope = Ok (DBEnvelope demo_envelope)"
    using demo_ability_canonical demo_subject_entity
    by (simp add: NewDescriptorBoundEnvelope_def demo_envelope_def)
  from invocation_bundle_roundtrip [OF this demo_portable_parts(3)] this show ?thesis by auto
qed

theorem parsed_receipt_wellformed_witness:
  "\<exists>r j. ToUnverifiedReceipt demo_platform j = Ok (UnverifiedReceipt r)
    \<and> validateReceiptRecordSemantics demo_platform r = Ok () \<and> portable_authority (xb_authority (rc_binding r))"
proof -
  obtain r j where "ToUnverifiedReceipt demo_platform j = Ok (UnverifiedReceipt r)"
    using demo_sealed bundle_back by blast
  with parsed_receipt_wellformed [OF this] show ?thesis by blast
qed

text \<open>The sealed receipt with the web-safe profile on its authority has the same projection.\<close>

definition web_safe :: "authority_or_bootstrap \<Rightarrow> authority_or_bootstrap" where
  "web_safe b = b\<lparr>ob_binding := map_option (\<lambda>a. a\<lparr>ab_authority :=
     (ab_authority a)\<lparr>ai_profile := ProfileWebSafeV2\<rparr>\<rparr>) (ob_binding b)\<rparr>"

definition web_safe_receipt :: "receipt_record \<Rightarrow> receipt_record" where
  "web_safe_receipt r = r\<lparr>rc_binding := (rc_binding r)\<lparr>xb_authority := web_safe (xb_authority (rc_binding r)),
     xb_proof_facts := (xb_proof_facts (rc_binding r))\<lparr>pf_authority_proof :=
       (pf_authority_proof (xb_proof_facts (rc_binding r)))\<lparr>ap_binding :=
         map_option web_safe (ap_binding (pf_authority_proof (xb_proof_facts (rc_binding r))))\<rparr>\<rparr>\<rparr>\<rparr>"

lemma web_safe_projection:
  "AuthorityOrBootstrapJSONFromBinding (web_safe b) = AuthorityOrBootstrapJSONFromBinding b"
proof -
  have "AuthorityFromBinding (a\<lparr>ab_authority := (ab_authority a)\<lparr>ai_profile := p\<rparr>\<rparr>) = AuthorityFromBinding a"
    for a p
    by (cases a) (simp add: AuthorityFromBinding_def split: option.split)
  then show ?thesis
    by (cases b) (simp add: AuthorityOrBootstrapJSONFromBinding_def web_safe_def split: option.split)
qed

lemma web_safe_receipt_projection:
  "ProjectSignedInvocationReceipt (SignedReceipt (web_safe_receipt r))
    = ProjectSignedInvocationReceipt (SignedReceipt r)"
proof -
  have "optR AuthorityOrBootstrapJSONFromBinding (map_option web_safe x)
      = optR AuthorityOrBootstrapJSONFromBinding x" for x
    by (cases x) (simp_all add: optR_def web_safe_projection)
  then have "AuthorityProofFromProof (p\<lparr>ap_binding := map_option web_safe (ap_binding p)\<rparr>)
      = AuthorityProofFromProof p" for p
    by (simp add: AuthorityProofFromProof_def)
  moreover have "project_receipt (web_safe_receipt r) = project_receipt r"
    "project_extension (web_safe_receipt r) = project_extension r"
    by (simp_all add: fun_eq_iff project_receipt_def project_extension_def web_safe_receipt_def Let_def)
  ultimately show ?thesis
    by (simp add: ProjectSignedInvocationReceipt_def Let_def web_safe_receipt_def web_safe_projection
        split: option.split)
qed

theorem authority_profile_lost_witness:
  "\<exists>r r' j. ProjectSignedInvocationReceipt (SignedReceipt r') = Ok j
    \<and> ToUnverifiedReceipt demo_platform j = Ok (UnverifiedReceipt r)
    \<and> rc_self_hash r' = rc_self_hash r \<and> receiptBody r \<noteq> receiptBody r'"
proof -
  obtain r where r: "verifyReceiptRecord demo_platform r demo_resolver = Ok ()" "portable_record demo_platform r"
      "xb_authority (rc_binding r) = demo_authority"
    using demo_sealed by blast
  from bundle_back [OF r(1,2)] obtain j where
    j: "ProjectSignedInvocationReceipt (SignedReceipt (web_safe_receipt r)) = Ok j"
      "ToUnverifiedReceipt demo_platform j = Ok (UnverifiedReceipt r)"
    by (auto simp: web_safe_receipt_projection)
  have "\<not> ob_is_bootstrap (xb_authority (rc_binding (web_safe_receipt r)))"
    "ob_binding (xb_authority (rc_binding (web_safe_receipt r)))
      = Some ((SelfAuthority (ai_ura demo_caller))\<lparr>ab_authority :=
          \<lparr>ai_ura = ai_ura demo_caller, ai_profile = ProfileWebSafeV2\<rparr>\<rparr>)"
    by (simp_all add: web_safe_receipt_def r(3) web_safe_def demo_authority_def
        AuthorityOrBootstrapFromBinding_def SelfAuthority_def)
  from authority_profile_lost [OF j this] have "rc_self_hash r = rc_self_hash (web_safe_receipt r)"
      "receiptBody r \<noteq> receiptBody (web_safe_receipt r)"
    by (simp_all add: ProfileStrictV2_def ProfileWebSafeV2_def)
  with j show ?thesis
    by (intro exI [of _ r] exI [of _ "web_safe_receipt r"] exI [of _ j]) simp
qed

text \<open>Blanking one string of an accepted document is enough for a panic.\<close>

fun blank_proof_type :: "invocation_receipt_json \<Rightarrow> invocation_receipt_json" where
  "blank_proof_type (InvocationReceiptJSON r e) =
     InvocationReceiptJSON (r\<lparr>tj_authority_proof := (tj_authority_proof r)\<lparr>pj_proof_type := []\<rparr>\<rparr>) e"

lemma ToProof_type: "ToProof (p\<lparr>pj_proof_type := t\<rparr>) = bindR (ToProof p) (\<lambda>q. Ok (q\<lparr>ap_proof_type := t\<rparr>))"
  by (simp add: ToProof_def bindR_assoc proof_json_signature_def)

lemma parse_fields_blanked:
  assumes "parse_fields P j = Ok f"
  shows "parse_fields P (blank_proof_type j) = Ok (f\<lparr>rf_proof := (rf_proof f)\<lparr>ap_proof_type := []\<rparr>\<rparr>)"
  using assms by (cases j) (auto simp: parse_fields_def Let_def bindR_Ok_iff ToProof_type split: if_splits)

theorem receipt_parser_panics_witness:
  "\<exists>j. is_ok (ToUnverifiedReceipt demo_platform j) \<and> is_panic (ToUnverifiedReceipt demo_platform (blank_proof_type j))"
proof -
  obtain r j where j: "ToUnverifiedReceipt demo_platform j = Ok (UnverifiedReceipt r)"
    using demo_sealed bundle_back by blast
  then obtain f where "parse_fields demo_platform j = Ok f" by (rule ToUnverifiedReceipt_Ok)
  from parse_fields_blanked [OF this] have "is_panic (ToUnverifiedReceipt demo_platform (blank_proof_type j))"
    unfolding receipt_parser_panics by (auto simp: validateCompleteAuthorityProof_def)
  with j show ?thesis by (auto simp: is_ok_iff)
qed

end
