(* ===== verification/ReceiptVerbs.thy ===== *)
theory ReceiptVerbs
  imports ChainProperties
begin

text \<open>
  The three receipt verbs (\<open>axon/invocation/receipt_verbs.go\<close>): integrity (\<open>Verify\<close>),
  direct cause (\<open>Trace\<close>) and authority (\<open>ProveAuthority\<close>), with their idiomatic
  wrappers.  \<open>json.Marshal\<close> of the two claim structs and the wall clock are arguments:
  the encoders \<open>jd\<close> and \<open>js\<close>, the milliseconds \<open>now\<close>.
\<close>

section \<open>Results\<close>

datatype signing_model = SigningSelf | SigningHosted

record verified_receipt =
  vr_self_hash :: hash32
  vr_signer_ura :: string
  vr_signing_model :: signing_model

datatype causal_kind = TraceRoot | TraceParent | TraceFanin

record direct_causal_trace =
  tr_kind :: causal_kind
  tr_parent :: receipt_ref
  tr_count :: nat

datatype authority_kind = ProofSelf | ProofDelegatedBy | ProofSessionOf | ProofBootstrap

record exercised_authority =
  xa_kind :: authority_kind
  xa_principal_ura :: string
  xa_issuer_ura :: string
  xa_authority_ura :: string
  xa_session_id :: string
  xa_scopes :: "string list"
  xa_audiences :: "string list"
  xa_expires_at_ms :: i64
  xa_realm :: string
  xa_ability :: string

definition zero_ref :: receipt_ref where
  "zero_ref = \<lparr>rr_hash = 0, rr_ura = []\<rparr>"

definition no_authority :: "authority_kind \<Rightarrow> exercised_authority" where
  "no_authority k = \<lparr>xa_kind = k, xa_principal_ura = [], xa_issuer_ura = [], xa_authority_ura = [],
     xa_session_id = [], xa_scopes = [], xa_audiences = [], xa_expires_at_ms = 0, xa_realm = [],
     xa_ability = []\<rparr>"

section \<open>The claims an issuer signs\<close>

record delegation_claim =
  dc_issuer_ura :: string
  dc_authority_ura :: string
  dc_delegatee_ura :: string
  dc_audience :: string
  dc_scopes :: "string list"
  dc_issued_at_ms :: i64
  dc_expires_at_ms :: i64

record session_claim =
  sc_issuer_ura :: string
  sc_authority_ura :: string
  sc_session_id :: string
  sc_scopes :: "string list"
  sc_audiences :: "string list"
  sc_issued_at_ms :: i64
  sc_expires_at_ms :: i64

section \<open>Matching\<close>

definition scopeMatches :: "string \<Rightarrow> string \<Rightarrow> bool" where
  "scopeMatches pattern ability =
     (if pattern = ''*'' then True
      else if length pattern \<ge> 2 \<and> pattern ! (length pattern - 1) = CHR ''*''
      then (let prefix = take (length pattern - 1) pattern in
            length ability \<ge> length prefix \<and> take (length prefix) ability = prefix)
      else pattern = ability)"

definition audienceAdmits :: "string \<Rightarrow> string \<Rightarrow> bool" where
  "audienceAdmits audience callee =
     (if audience = ''*'' \<or> audience = callee then True
      else if length audience > 0 \<and> audience ! (length audience - 1) = CHR ''/''
              \<and> length callee \<ge> length audience
      then take (length audience) callee = audience
      else False)"

section \<open>Verify\<close>

definition SignedInvocationReceipt_Verify ::
  "platform \<Rightarrow> signed_receipt \<Rightarrow> key_resolver \<Rightarrow> verified_receipt result" where
  "SignedInvocationReceipt_Verify P r resolver =
     (let rec = sr_record r; b = rc_binding rec in
      bindR (validateReceiptRecordSemantics P rec) (\<lambda>_.
      bindR (VerifyReceiptSignatureWithHosted P (receiptBody rec) (xb_hosted b) (rc_signature rec) resolver) (\<lambda>_.
      bindR (computeReceiptHash P rec) (\<lambda>computed.
        if rc_self_hash rec \<noteq> computed then invalid_arg ''self_hash_mismatch''
        else Ok (case xb_hosted b of
               None \<Rightarrow> \<lparr>vr_self_hash = computed, vr_signer_ura = ai_ura (xb_callee b),
                        vr_signing_model = SigningSelf\<rparr>
             | Some h \<Rightarrow> \<lparr>vr_self_hash = computed, vr_signer_ura = ai_ura (ha_signer_binding h),
                          vr_signing_model = SigningHosted\<rparr>)))))"

section \<open>Trace\<close>

definition receipt_Trace :: "signed_receipt \<Rightarrow> direct_causal_trace" where
  "receipt_Trace r =
     (let c = xb_causal (rc_binding (sr_record r)) in
      if cc_form c = CausalScalar
      then (case cc_scalar c of
              None \<Rightarrow> \<lparr>tr_kind = TraceRoot, tr_parent = zero_ref, tr_count = 0\<rparr>
            | Some p \<Rightarrow> \<lparr>tr_kind = TraceParent, tr_parent = p, tr_count = 0\<rparr>)
      else if cc_form c = CausalList
      then \<lparr>tr_kind = TraceFanin, tr_parent = zero_ref, tr_count = length (cc_list c)\<rparr>
      else if cc_form c = CausalMerkle
      then \<lparr>tr_kind = TraceFanin, tr_parent = zero_ref, tr_count = 0\<rparr>
      else \<lparr>tr_kind = TraceRoot, tr_parent = zero_ref, tr_count = 0\<rparr>)"

record causal_parent =
  cp_is_join :: bool
  cp_ref :: receipt_ref

definition TraceParents :: "signed_receipt \<Rightarrow> causal_parent list" where
  "TraceParents r =
     (let t = receipt_Trace r in
      (case tr_kind t of
         TraceParent \<Rightarrow> [\<lparr>cp_is_join = False, cp_ref = tr_parent t\<rparr>]
       | TraceFanin \<Rightarrow> replicate (tr_count t) \<lparr>cp_is_join = True, cp_ref = zero_ref\<rparr>
       | TraceRoot \<Rightarrow> []))"

section \<open>ProveAuthority\<close>

abbreviation denied :: "string \<Rightarrow> 'a result" where
  "denied reason \<equiv> Fail (AxonErr (ErrPermissionDenied reason))"

text \<open>The signature check shared by the two forms of evidence: \<open>label\<close> is the prefix of its
  error reasons.  \<open>ed25519.Verify\<close> panics on a key of the wrong size, which the code does
  not check here.\<close>

definition check_claim_signature ::
  "platform \<Rightarrow> string \<Rightarrow> bytes \<Rightarrow> bytes \<Rightarrow> bytes \<Rightarrow> unit result" where
  "check_claim_signature P label issuerKey payloadBytes sig =
     (if length sig \<noteq> SignatureSize then denied (label @ ''_signature_wrong_length'')
      else bindR (edVerify P issuerKey payloadBytes sig) (\<lambda>valid.
             if \<not> valid then denied (label @ ''_signature_invalid'') else Ok ()))"

definition delegation_claim_of ::
  "axiom_binding \<Rightarrow> string \<Rightarrow> delegation_evidence \<Rightarrow> delegation_claim" where
  "delegation_claim_of b authorityURA d =
     \<lparr>dc_issuer_ura = ai_ura (dg_issuer d), dc_authority_ura = authorityURA,
      dc_delegatee_ura = ai_ura (xb_caller b), dc_audience = dg_audience d, dc_scopes = dg_scopes d,
      dc_issued_at_ms = dg_issued_at_ms d, dc_expires_at_ms = dg_expires_at_ms d\<rparr>"

definition session_claim_of :: "string \<Rightarrow> session_evidence \<Rightarrow> session_claim" where
  "session_claim_of authorityURA s =
     \<lparr>sc_issuer_ura = ai_ura (sn_issuer s), sc_authority_ura = authorityURA,
      sc_session_id = sn_session_id s, sc_scopes = sn_scopes s, sc_audiences = sn_audiences s,
      sc_issued_at_ms = sn_issued_at_ms s, sc_expires_at_ms = sn_expires_at_ms s\<rparr>"

definition prove_delegation ::
  "platform \<Rightarrow> (delegation_claim \<Rightarrow> bytes) \<Rightarrow> i64 \<Rightarrow> axiom_binding \<Rightarrow> string \<Rightarrow> delegation_evidence option \<Rightarrow>
   key_resolver \<Rightarrow> exercised_authority result" where
  "prove_delegation P jd now b authorityURA evidence resolver =
     (case evidence of
        None \<Rightarrow> invalid_arg ''delegation_evidence_missing''
      | Some d \<Rightarrow>
          if \<not> audienceAdmits (dg_audience d) (ai_ura (xb_callee b))
          then denied (''delegation_audience_mismatch:'' @ dg_audience d @ '' does not admit ''
                 @ ai_ura (xb_callee b))
          else if \<not> list_ex (\<lambda>p. scopeMatches p (xb_ability b)) (dg_scopes d)
          then denied (''delegation_scope_mismatch: scopes do not admit '' @ xb_ability b)
          else if sint now \<ge> sint (dg_expires_at_ms d) then denied ''delegation_expired''
          else bindR (resolver (ai_ura (dg_issuer d))) (\<lambda>issuerKey.
               bindR (check_claim_signature P ''delegation'' issuerKey
                        (jd (delegation_claim_of b authorityURA d)) (dg_signature d)) (\<lambda>_.
                 Ok ((no_authority ProofDelegatedBy)\<lparr>xa_issuer_ura := ai_ura (dg_issuer d),
                       xa_authority_ura := authorityURA, xa_scopes := dg_scopes d,
                       xa_expires_at_ms := dg_expires_at_ms d\<rparr>))))"

definition prove_session ::
  "platform \<Rightarrow> (session_claim \<Rightarrow> bytes) \<Rightarrow> i64 \<Rightarrow> axiom_binding \<Rightarrow> string \<Rightarrow> session_evidence option \<Rightarrow>
   key_resolver \<Rightarrow> exercised_authority result" where
  "prove_session P js now b authorityURA evidence resolver =
     (case evidence of
        None \<Rightarrow> invalid_arg ''session_evidence_missing''
      | Some s \<Rightarrow>
          if ai_ura (sn_issuer s) \<noteq> ai_ura (xb_caller b)
          then denied (''session_authority_issuer_mismatch:'' @ ai_ura (sn_issuer s) @ ''!=''
                 @ ai_ura (xb_caller b))
          else if authorityURA \<noteq> si_ura (xb_subject b)
          then denied (''session_authority_subject_mismatch:'' @ authorityURA @ ''!='' @ si_ura (xb_subject b))
          else if \<not> list_ex (\<lambda>a. audienceAdmits a (ai_ura (xb_callee b))) (sn_audiences s)
          then denied (''session_authority_audience_mismatch: audiences do not admit ''
                 @ ai_ura (xb_callee b))
          else if \<not> list_ex (\<lambda>p. scopeMatches p (xb_ability b)) (sn_scopes s)
          then denied (''session_authority_scope_mismatch: scopes do not admit '' @ xb_ability b)
          else if sint now \<ge> sint (sn_expires_at_ms s) then denied ''session_authority_expired''
          else bindR (resolver (ai_ura (sn_issuer s))) (\<lambda>issuerKey.
               bindR (check_claim_signature P ''session_authority'' issuerKey
                        (js (session_claim_of authorityURA s)) (sn_signature s)) (\<lambda>_.
                 Ok ((no_authority ProofSessionOf)\<lparr>xa_issuer_ura := ai_ura (sn_issuer s),
                       xa_authority_ura := authorityURA, xa_session_id := sn_session_id s,
                       xa_scopes := sn_scopes s, xa_audiences := sn_audiences s,
                       xa_expires_at_ms := sn_expires_at_ms s\<rparr>))))"

definition proveAuthorityBinding ::
  "platform \<Rightarrow> (delegation_claim \<Rightarrow> bytes) \<Rightarrow> (session_claim \<Rightarrow> bytes) \<Rightarrow> i64 \<Rightarrow> axiom_binding \<Rightarrow>
   authority_binding \<Rightarrow> key_resolver \<Rightarrow> exercised_authority result" where
  "proveAuthorityBinding P jd js now b a resolver =
     (let authorityURA = ai_ura (ab_authority a) in
      if ab_relation a = AuthorityRelationSelf \<and> ab_evidence_kind a = AuthorityEvidenceIdentity
      then (if authorityURA \<noteq> ai_ura (xb_caller b)
            then denied (''self_authority_principal_mismatch:'' @ authorityURA @ ''!='' @ ai_ura (xb_caller b))
            else Ok ((no_authority ProofSelf)\<lparr>xa_principal_ura := authorityURA\<rparr>))
      else if ab_relation a = AuthorityRelationDelegatedBy
              \<and> ab_evidence_kind a = AuthorityEvidenceDelegation
      then prove_delegation P jd now b authorityURA (ab_delegation a) resolver
      else if ab_relation a = AuthorityRelationSessionOf \<and> ab_evidence_kind a = AuthorityEvidenceSession
      then prove_session P js now b authorityURA (ab_session a) resolver
      else if ab_relation a = AuthorityRelationCredentialOf
              \<and> ab_evidence_kind a = AuthorityEvidenceAttestation
      then invalid_arg ''authority_reserved_form''
      else invalid_arg ''authority_relation_evidence_mismatch'')"

definition ProveAuthority ::
  "platform \<Rightarrow> (delegation_claim \<Rightarrow> bytes) \<Rightarrow> (session_claim \<Rightarrow> bytes) \<Rightarrow> i64 \<Rightarrow> signed_receipt \<Rightarrow>
   key_resolver \<Rightarrow> exercised_authority result" where
  "ProveAuthority P jd js now r resolver =
     (let b = rc_binding (sr_record r); auth = xb_authority b in
      if ob_is_bootstrap auth
      then (case ob_bootstrap auth of
              None \<Rightarrow> invalid_arg ''authority_binding_missing''
            | Some x \<Rightarrow>
                if bb_principal_ura x \<noteq> ai_ura (xb_caller b)
                then denied (''bootstrap_authority_principal_mismatch:'' @ bb_principal_ura x @ ''!=''
                       @ ai_ura (xb_caller b))
                else if bb_ability x \<noteq> xb_ability b
                then denied (''bootstrap_authority_ability_mismatch:'' @ bb_ability x @ ''!='' @ xb_ability b)
                else if blank (bb_realm x) then invalid_arg ''bootstrap_authority_realm_empty''
                else Ok ((no_authority ProofBootstrap)\<lparr>xa_realm := bb_realm x, xa_ability := bb_ability x\<rparr>))
      else (case ob_binding auth of
              None \<Rightarrow> invalid_arg ''authority_binding_missing''
            | Some a \<Rightarrow> proveAuthorityBinding P jd js now b a resolver))"

section \<open>The idiomatic layer\<close>

text \<open>The options are applied in order, so the last one wins; a call on the nil resolver
  panics.\<close>

definition resolveConfig :: "key_resolver list \<Rightarrow> key_resolver" where
  "resolveConfig opts =
     (if opts = [] then (\<lambda>_. Panic (PlainErr ''invalid memory address or nil pointer dereference''))
      else last opts)"

definition VerifyWith :: "platform \<Rightarrow> signed_receipt \<Rightarrow> key_resolver list \<Rightarrow> verified_receipt result" where
  "VerifyWith P r opts = SignedInvocationReceipt_Verify P r (resolveConfig opts)"

definition ProveAuthorityWith ::
  "platform \<Rightarrow> (delegation_claim \<Rightarrow> bytes) \<Rightarrow> (session_claim \<Rightarrow> bytes) \<Rightarrow> i64 \<Rightarrow> signed_receipt \<Rightarrow>
   key_resolver list \<Rightarrow> exercised_authority result" where
  "ProveAuthorityWith P jd js now r opts = ProveAuthority P jd js now r (resolveConfig opts)"

definition proof_IsSelf :: "exercised_authority \<Rightarrow> bool" where
  "proof_IsSelf p = (xa_kind p = ProofSelf)"

definition proof_IsDelegated :: "exercised_authority \<Rightarrow> bool" where
  "proof_IsDelegated p = (xa_kind p = ProofDelegatedBy)"

definition proof_IsSession :: "exercised_authority \<Rightarrow> bool" where
  "proof_IsSession p = (xa_kind p = ProofSessionOf)"

definition proof_IsBootstrap :: "exercised_authority \<Rightarrow> bool" where
  "proof_IsBootstrap p = (xa_kind p = ProofBootstrap)"

definition proof_Principal :: "exercised_authority \<Rightarrow> string" where
  "proof_Principal p = (if xa_kind p = ProofSelf then xa_principal_ura p else xa_authority_ura p)"

end
