(* ===== verification/VerbProperties.thy ===== *)
theory VerbProperties
  imports ReceiptVerbs
begin

text \<open>
  What the receipt verbs guarantee: \<open>Verify\<close> agrees with the verification of a wire
  receipt, \<open>ProveAuthority\<close> accepts exactly the claims its issuer signed for this caller,
  audience and ability, and a delegation cannot be presented by somebody else.
\<close>

section \<open>Verify\<close>

lemma hosted_signature_structure:
  "VerifyReceiptSignatureWithHosted P body h sig keys = Ok () \<Longrightarrow> validateCalleeSignatureStructure sig = Ok ()"
  by (auto simp: VerifyReceiptSignatureWithHosted_def validateCalleeSignatureStructure_def bindR_Ok_iff
      wrong_length_def split: if_splits option.splits)

definition signer_ura :: "receipt_record \<Rightarrow> string" where
  "signer_ura r = (case xb_hosted (rc_binding r) of
     None \<Rightarrow> ai_ura (xb_callee (rc_binding r)) | Some h \<Rightarrow> ai_ura (ha_signer_binding h))"

definition signing_model_of :: "receipt_record \<Rightarrow> signing_model" where
  "signing_model_of r = (if xb_hosted (rc_binding r) = None then SigningSelf else SigningHosted)"

text \<open>C18: The two verifiers of the package agree.  The verb \<open>Verify\<close> of a receipt that is
  already held succeeds exactly when the complete verification of a wire receipt succeeds on
  the same record and resolver, although the verb has no structural check of the signature
  of its own; what it returns is the receipt's own hash and the URA of the signer: the host
  when the receipt is hosted, the callee otherwise.\<close>

theorem verify_verb_agrees:
  "SignedInvocationReceipt_Verify P r keys = Ok v \<longleftrightarrow>
    verifyReceiptRecord P (sr_record r) keys = Ok ()
    \<and> v = \<lparr>vr_self_hash = rc_self_hash (sr_record r), vr_signer_ura = signer_ura (sr_record r),
           vr_signing_model = signing_model_of (sr_record r)\<rparr>"
proof -
  have "\<lparr>vr_self_hash = h, vr_signer_ura = signer_ura (sr_record r), vr_signing_model = signing_model_of (sr_record r)\<rparr>
    = (case xb_hosted (rc_binding (sr_record r)) of
         None \<Rightarrow> \<lparr>vr_self_hash = h, vr_signer_ura = ai_ura (xb_callee (rc_binding (sr_record r))), vr_signing_model = SigningSelf\<rparr>
       | Some x \<Rightarrow> \<lparr>vr_self_hash = h, vr_signer_ura = ai_ura (ha_signer_binding x), vr_signing_model = SigningHosted\<rparr>)" for h
    by (simp add: signer_ura_def signing_model_of_def split: option.split)
  then show ?thesis
    by (auto simp: SignedInvocationReceipt_Verify_def verifyReceiptRecord_def Let_def bindR_Ok_iff
        dest: hosted_signature_structure)
qed

section \<open>Trace\<close>

lemma trace_counts_parents:
  "length (TraceParents r) = length (enumerableParentReceipts (xb_causal (rc_binding (sr_record r))))"
  by (simp add: TraceParents_def receipt_Trace_def enumerableParentReceipts_def Let_def split: option.split)

section \<open>Scopes and audiences\<close>

lemma last_char: "s \<noteq> [] \<Longrightarrow> s ! (length s - Suc 0) = last s"
  by (simp add: last_conv_nth)

lemma scopeMatches_iff:
  "scopeMatches p a \<longleftrightarrow> p = ''*'' \<or> p = a \<or> (\<exists>q. q \<noteq> [] \<and> p = q @ ''*'' \<and> has_prefix a q)"
proof (cases "p = ''*''")
  case False
  show ?thesis
  proof (cases "length p \<ge> 2 \<and> last p = CHR ''*''")
    case True
    then obtain q where p: "p = q @ ''*''" by (cases p rule: rev_cases) auto
    with True have "q \<noteq> []" by auto
    then have "Suc 0 \<le> length q" by (cases q) auto
    moreover have "length q \<le> length a" if "take (length q) a = q"
      using that by (metis length_take min.cobounded1)
    ultimately show ?thesis
      using p \<open>q \<noteq> []\<close> by (auto simp: scopeMatches_def has_prefix_def nth_append)
  next
    case other: False
    have "\<not> (q \<noteq> [] \<and> p = q @ ''*'')" for q
      using other by (cases q) auto
    moreover have "\<not> (length p \<ge> 2 \<and> p ! (length p - 1) = CHR ''*'')"
      using other by (cases "p = []") (auto simp: last_char)
    ultimately show ?thesis using False by (auto simp: scopeMatches_def)
  qed
qed (simp add: scopeMatches_def)

lemma audienceAdmits_iff:
  "audienceAdmits p c \<longleftrightarrow> p = ''*'' \<or> p = c \<or> (\<exists>q. p = q @ ''/'' \<and> has_prefix c p)"
proof (cases "p \<noteq> [] \<and> last p = CHR ''/''")
  case True
  then obtain q where "p = q @ ''/''" by (cases p rule: rev_cases) auto
  then show ?thesis by (auto simp: audienceAdmits_def has_prefix_def nth_append)
next
  case False
  then show ?thesis
    by (cases "p = []") (auto simp: audienceAdmits_def last_char)
qed

section \<open>ProveAuthority\<close>

lemma check_claim_Ok:
  "check_claim_signature P l k m s = Ok () \<longleftrightarrow>
    length s = SignatureSize \<and> length k = PublicKeySize \<and> pf_verify P k m s"
  by (auto simp: check_claim_signature_def edVerify_def bindR_Ok_iff)

text \<open>C19: A delegation proves authority exactly when it is admissible and authentic: the
  audience is the wildcard, the callee or a slash-terminated prefix of it, one of the scopes
  is the wildcard, the admitted ability or a star-terminated prefix of it, the expiry lies in
  the future, and the issuer's resolved key verifies the signature over the claim that names
  this very caller as the delegatee.  What is proved is the issuer, the authority and the
  scopes of that claim.\<close>

theorem delegation_proof_exact:
  "prove_delegation P jd now b u (Some d) keys = Ok x \<longleftrightarrow>
    (dg_audience d = ''*'' \<or> dg_audience d = ai_ura (xb_callee b)
      \<or> (\<exists>q. dg_audience d = q @ ''/'' \<and> has_prefix (ai_ura (xb_callee b)) (dg_audience d)))
    \<and> (\<exists>p \<in> set (dg_scopes d). p = ''*'' \<or> p = xb_ability b
        \<or> (\<exists>q. q \<noteq> [] \<and> p = q @ ''*'' \<and> has_prefix (xb_ability b) q))
    \<and> sint now < sint (dg_expires_at_ms d)
    \<and> (\<exists>key. keys (ai_ura (dg_issuer d)) = Ok key \<and> length (dg_signature d) = SignatureSize
        \<and> length key = PublicKeySize
        \<and> pf_verify P key (jd \<lparr>dc_issuer_ura = ai_ura (dg_issuer d), dc_authority_ura = u,
             dc_delegatee_ura = ai_ura (xb_caller b), dc_audience = dg_audience d,
             dc_scopes = dg_scopes d, dc_issued_at_ms = dg_issued_at_ms d,
             dc_expires_at_ms = dg_expires_at_ms d\<rparr>) (dg_signature d))
    \<and> x = (no_authority ProofDelegatedBy)\<lparr>xa_issuer_ura := ai_ura (dg_issuer d), xa_authority_ura := u,
           xa_scopes := dg_scopes d, xa_expires_at_ms := dg_expires_at_ms d\<rparr>"
  by (auto simp: prove_delegation_def bindR_Ok_iff check_claim_Ok delegation_claim_of_def
      audienceAdmits_iff scopeMatches_iff list_ex_iff)

lemma prove_delegated:
  assumes "ProveAuthority P jd js now r keys = Ok x" and "xa_kind x = ProofDelegatedBy"
  obtains a d key where "ob_binding (xb_authority (rc_binding (sr_record r))) = Some a"
    "ab_delegation a = Some d" "keys (ai_ura (dg_issuer d)) = Ok key"
    "pf_verify P key (jd (delegation_claim_of (rc_binding (sr_record r)) (ai_ura (ab_authority a)) d))
      (dg_signature d)"
proof -
  from assms obtain a where a: "ob_binding (xb_authority (rc_binding (sr_record r))) = Some a"
    and p: "proveAuthorityBinding P jd js now (rc_binding (sr_record r)) a keys = Ok x"
    by (auto simp: ProveAuthority_def Let_def no_authority_def split: if_splits option.splits)
  from p assms(2) have "prove_delegation P jd now (rc_binding (sr_record r)) (ai_ura (ab_authority a))
      (ab_delegation a) keys = Ok x"
    by (auto simp: proveAuthorityBinding_def Let_def no_authority_def prove_session_def bindR_Ok_iff
        split: if_splits option.splits)
  then obtain d key where "ab_delegation a = Some d" "keys (ai_ura (dg_issuer d)) = Ok key"
    "pf_verify P key (jd (delegation_claim_of (rc_binding (sr_record r)) (ai_ura (ab_authority a)) d))
      (dg_signature d)"
    by (auto simp: prove_delegation_def bindR_Ok_iff check_claim_Ok split: if_splits option.splits)
  with a that show thesis by blast
qed

text \<open>A delegation belongs to one caller.  Two receipts that carry the same authority
  binding and both prove delegated authority under the same resolver, at whatever times and
  for whatever abilities, have the same caller: the delegatee is not a field of the evidence,
  but it is bound by the signature.  The hypothesis is that a signature verifies under a key for one
  claim only.\<close>

theorem delegation_not_transferable:
  assumes "ProveAuthority P jd js now1 r1 keys = Ok x1" and "xa_kind x1 = ProofDelegatedBy"
    and "ProveAuthority P jd js now2 r2 keys = Ok x2" and "xa_kind x2 = ProofDelegatedBy"
    and "xb_authority (rc_binding (sr_record r1)) = xb_authority (rc_binding (sr_record r2))"
    and "\<And>k c c' s. pf_verify P k (jd c) s \<Longrightarrow> pf_verify P k (jd c') s \<Longrightarrow> c = c'"
  shows "ai_ura (xb_caller (rc_binding (sr_record r1))) = ai_ura (xb_caller (rc_binding (sr_record r2)))"
proof -
  obtain a1 d1 k1 where 1: "ob_binding (xb_authority (rc_binding (sr_record r1))) = Some a1"
    "ab_delegation a1 = Some d1" "keys (ai_ura (dg_issuer d1)) = Ok k1"
    "pf_verify P k1 (jd (delegation_claim_of (rc_binding (sr_record r1)) (ai_ura (ab_authority a1)) d1)) (dg_signature d1)"
    by (rule prove_delegated [OF assms(1,2)])
  obtain a2 d2 k2 where 2: "ob_binding (xb_authority (rc_binding (sr_record r2))) = Some a2"
    "ab_delegation a2 = Some d2" "keys (ai_ura (dg_issuer d2)) = Ok k2"
    "pf_verify P k2 (jd (delegation_claim_of (rc_binding (sr_record r2)) (ai_ura (ab_authority a2)) d2)) (dg_signature d2)"
    by (rule prove_delegated [OF assms(3,4)])
  from 1 2 assms(5) have "a1 = a2" "d1 = d2" "k1 = k2" by auto
  with 1(4) 2(4) assms(6) have "delegation_claim_of (rc_binding (sr_record r1)) (ai_ura (ab_authority a1)) d1
      = delegation_claim_of (rc_binding (sr_record r2)) (ai_ura (ab_authority a1)) d1" by blast
  then show ?thesis by (simp add: delegation_claim_of_def)
qed

text \<open>A sample delegation: the caller acts for an authority with the issuer's signature, which
  the sample verification accepts for this one claim.\<close>

definition demo_delegation :: delegation_evidence where
  "demo_delegation = \<lparr>dg_issuer = demo_callee, dg_scopes = [''*''], dg_audience = ''*'',
     dg_issued_at_ms = 0, dg_expires_at_ms = 100, dg_signature = replicate 64 7\<rparr>"

definition demo_delegated :: "u64 \<Rightarrow> signed_receipt" where
  "demo_delegated i = SignedReceipt ((receipt_draft demo_platform
     (demo_context\<lparr>bc_binding := (bc_binding demo_context)\<lparr>xb_authority := AuthorityOrBootstrapFromBinding
        (DelegatedAuthority demo_callee demo_delegation)\<rparr>\<rparr>)
     (demo_input ''COMPLETED'') demo_output_facts None \<lparr>rv_index = i, rv_prev_hash = 0\<rparr>))"

definition demo_claim :: delegation_claim where
  "demo_claim = delegation_claim_of (bc_binding demo_context) (ai_ura demo_callee) demo_delegation"

definition demo_claim_bytes :: "delegation_claim \<Rightarrow> bytes" where
  "demo_claim_bytes c = (if c = demo_claim then [1] else [0])"

definition demo_claim_platform :: platform where
  "demo_claim_platform = demo_platform\<lparr>pf_verify := (\<lambda>k m s. m = [1] \<and> s = replicate 64 7)\<rparr>"

lemma demo_delegated_proves:
  assumes "sint now < sint (100 :: i64)"
  shows "ProveAuthority demo_claim_platform demo_claim_bytes js now (demo_delegated i) demo_resolver
    = Ok ((no_authority ProofDelegatedBy)\<lparr>xa_issuer_ura := ai_ura demo_callee,
        xa_authority_ura := ai_ura demo_callee, xa_scopes := [''*''], xa_expires_at_ms := 100\<rparr>)"
proof -
  have "delegation_claim_of (rc_binding (sr_record (demo_delegated i))) (ai_ura demo_callee) demo_delegation = demo_claim"
    by (simp add: demo_delegated_def demo_claim_def delegation_claim_of_def)
  moreover have "check_claim_signature demo_claim_platform l (replicate 32 1) (demo_claim_bytes demo_claim)
      (dg_signature demo_delegation) = Ok ()" for l
    by (simp add: check_claim_Ok demo_claim_bytes_def demo_claim_platform_def demo_delegation_def
        SignatureSize_def PublicKeySize_def)
  moreover have "dg_scopes demo_delegation = [''*'']" "dg_audience demo_delegation = ''*''"
    "dg_expires_at_ms demo_delegation = 100" "dg_issuer demo_delegation = demo_callee"
    by (simp_all add: demo_delegation_def)
  moreover have "xb_authority (rc_binding (sr_record (demo_delegated i)))
      = AuthorityOrBootstrapFromBinding (DelegatedAuthority demo_callee demo_delegation)"
    by (simp add: demo_delegated_def)
  ultimately show ?thesis
    using assms
    by (simp add: ProveAuthority_def Let_def AuthorityOrBootstrapFromBinding_def proveAuthorityBinding_def
        DelegatedAuthority_def prove_delegation_def audienceAdmits_def scopeMatches_def demo_resolver_def)
qed

theorem delegation_not_transferable_witness:
  "is_ok (ProveAuthority demo_claim_platform demo_claim_bytes (\<lambda>_. []) 5 (demo_delegated 0) demo_resolver)
    \<and> ai_ura (xb_caller (rc_binding (sr_record (demo_delegated 0))))
      = ai_ura (xb_caller (rc_binding (sr_record (demo_delegated 1))))"
proof -
  have one: "c = c'" if "pf_verify demo_claim_platform k (demo_claim_bytes c) s"
      "pf_verify demo_claim_platform k (demo_claim_bytes c') s" for k c c' s
    using that by (simp add: demo_claim_platform_def demo_claim_bytes_def split: if_splits)
  have t: "sint (5 :: i64) < sint (100 :: i64)" "sint (6 :: i64) < sint (100 :: i64)" by simp_all
  have "xb_authority (rc_binding (sr_record (demo_delegated i))) = xb_authority (rc_binding (sr_record (demo_delegated j)))"
    for i j by (simp add: demo_delegated_def)
  then show ?thesis
    using delegation_not_transferable [OF demo_delegated_proves [OF t(1), of "\<lambda>_. []" 0] _
        demo_delegated_proves [OF t(2), of "\<lambda>_. []" 1] _ _ one]
    by (simp add: demo_delegated_proves [OF t(1)] no_authority_def)
qed

end
