(* ===== verification/ClientAuthority.thy ===== *)
theory ClientAuthority
  imports VerbProperties
begin

text \<open>
  The authority objects of the client API (\<open>axon/delegation.go\<close>,
  \<open>axon/session_authority.go\<close>, \<open>axon/authority_canonical.go\<close>): the canonical JSON a
  delegation or a session authority signs, signing and verification, the raw transport
  form, and the scope, audience and expiry tests.

  Of the standard library three functions are arguments: \<open>qs\<close>, the encoder of one JSON
  string in \<open>encoding/json\<close>; \<open>b64\<close>, \<open>unb64\<close>, the coder of \<open>base64.StdEncoding\<close>.
  A nil slice of strings, which encodes as \<open>null\<close>, is \<open>None\<close>.
\<close>

section \<open>JSON objects with known members\<close>

definition json_int :: "i64 \<Rightarrow> string" where
  "json_int n = dec_int (sint n)"

fun json_items :: "(string \<Rightarrow> string) \<Rightarrow> string list \<Rightarrow> string" where
  "json_items qs [] = []"
| "json_items qs [x] = qs x"
| "json_items qs (x # xs) = qs x @ '','' @ json_items qs xs"

definition json_strings :: "(string \<Rightarrow> string) \<Rightarrow> string list option \<Rightarrow> string" where
  "json_strings qs xs = (case xs of None \<Rightarrow> ''null'' | Some ys \<Rightarrow> ''['' @ json_items qs ys @ '']'')"

text \<open>A member name is a plain ASCII word between double quotes.\<close>

definition json_member :: "string \<Rightarrow> string \<Rightarrow> string" where
  "json_member name v = CHR 0x22 # name @ [CHR 0x22, CHR '':''] @ v"

fun json_members :: "string list \<Rightarrow> string" where
  "json_members [] = []"
| "json_members [m] = m"
| "json_members (m # ms) = m @ '','' @ json_members ms"

definition json_object :: "string list \<Rightarrow> string" where
  "json_object ms = ''{'' @ json_members ms @ ''}''"

section \<open>Delegations\<close>

record delegation_proof =
  dp_issuer_ura :: string
  dp_subject_ura :: string
  dp_caller_ura :: string
  dp_audience :: string
  dp_scopes :: "string list option"
  dp_issued_at_ms :: i64
  dp_expires_at_ms :: i64
  dp_signature :: bytes

text \<open>\<open>canonicalAuthorityJSONBytes\<close>: marshalling, decoding into a map and marshalling again
  leaves the members in the order of their names.\<close>

definition delegation_json :: "(string \<Rightarrow> string) \<Rightarrow> delegation_proof \<Rightarrow> bytes" where
  "delegation_json qs p = str_bytes (json_object
     [json_member ''audience'' (qs (dp_audience p)),
      json_member ''caller_ura'' (qs (dp_caller_ura p)),
      json_member ''expires_at_ms'' (json_int (dp_expires_at_ms p)),
      json_member ''issued_at_ms'' (json_int (dp_issued_at_ms p)),
      json_member ''issuer_ura'' (qs (dp_issuer_ura p)),
      json_member ''scopes'' (json_strings qs (dp_scopes p)),
      json_member ''subject_ura'' (qs (dp_subject_ura p))])"

abbreviation plain_error :: "string \<Rightarrow> 'a result" where
  "plain_error m \<equiv> Fail (PlainErr m)"

definition DelegationProof_CanonicalPayload ::
  "(string \<Rightarrow> string) \<Rightarrow> delegation_proof option \<Rightarrow> bytes result" where
  "DelegationProof_CanonicalPayload qs p =
     (case p of None \<Rightarrow> plain_error ''delegation: nil proof'' | Some x \<Rightarrow> Ok (delegation_json qs x))"

definition DelegationProof_Sign ::
  "platform \<Rightarrow> (string \<Rightarrow> string) \<Rightarrow> delegation_proof \<Rightarrow> bytes \<Rightarrow> delegation_proof result" where
  "DelegationProof_Sign P qs p priv =
     (if length priv \<noteq> PrivateKeySize
      then plain_error (''delegation: signing key wrong size, want '' @ dec_nat PrivateKeySize
             @ '' got '' @ dec_nat (length priv))
      else bindR (DelegationProof_CanonicalPayload qs (Some p)) (\<lambda>payload.
           bindR (edSign P priv payload) (\<lambda>sig. Ok (p\<lparr>dp_signature := sig\<rparr>))))"

definition DelegationProof_Verify ::
  "platform \<Rightarrow> (string \<Rightarrow> string) \<Rightarrow> delegation_proof option \<Rightarrow> bytes \<Rightarrow> unit result" where
  "DelegationProof_Verify P qs p pub =
     (case p of
        None \<Rightarrow> plain_error ''delegation: nil proof''
      | Some x \<Rightarrow>
          if dp_signature x = [] then plain_error ''delegation: signature missing''
          else if length pub \<noteq> PublicKeySize
          then plain_error (''delegation: verify key wrong size, want '' @ dec_nat PublicKeySize
                 @ '' got '' @ dec_nat (length pub))
          else bindR (DelegationProof_CanonicalPayload qs p) (\<lambda>payload.
               bindR (edVerify P pub payload (dp_signature x)) (\<lambda>valid.
                 if \<not> valid then plain_error ''delegation: signature does not verify'' else Ok ())))"

text \<open>The raw form: the payload bytes and the base64 signature; \<open>decode\<close> is
  \<open>json.Unmarshal\<close> of the payload into its struct.\<close>

record authority_raw =
  raw_payload :: bytes
  raw_signature :: string

definition DelegationProof_MarshalRaw ::
  "(string \<Rightarrow> string) \<Rightarrow> (bytes \<Rightarrow> string) \<Rightarrow> delegation_proof option \<Rightarrow> authority_raw result" where
  "DelegationProof_MarshalRaw qs b64 p =
     bindR (DelegationProof_CanonicalPayload qs p) (\<lambda>payload.
       case p of
         None \<Rightarrow> plain_error ''delegation: nil proof''
       | Some x \<Rightarrow>
           if dp_signature x = [] then plain_error ''delegation: cannot marshal unsigned proof''
           else Ok \<lparr>raw_payload = payload, raw_signature = b64 (dp_signature x)\<rparr>)"

definition UnmarshalRawDelegationProof ::
  "(bytes \<Rightarrow> string + delegation_proof) \<Rightarrow> (string \<Rightarrow> string + bytes) \<Rightarrow> string + authority_raw \<Rightarrow>
   delegation_proof result" where
  "UnmarshalRawDelegationProof decode unb64 raw =
     (case raw of
        Inl e \<Rightarrow> plain_error (''delegation: parse raw: '' @ e)
      | Inr r \<Rightarrow>
          (case decode (raw_payload r) of
             Inl e \<Rightarrow> plain_error (''delegation: parse payload: '' @ e)
           | Inr payload \<Rightarrow>
               (case unb64 (raw_signature r) of
                  Inl e \<Rightarrow> plain_error (''delegation: decode signature: '' @ e)
                | Inr sig \<Rightarrow> Ok (payload\<lparr>dp_signature := sig\<rparr>))))"

section \<open>Scopes, audiences and expiry\<close>

definition MatchScopePattern :: "string \<Rightarrow> string \<Rightarrow> bool" where
  "MatchScopePattern pattern ability =
     (if pattern = ''*'' then True
      else if length pattern \<ge> 2 \<and> pattern ! (length pattern - 1) = CHR ''*''
      then length ability \<ge> length pattern - 1
           \<and> take (length pattern - 1) ability = take (length pattern - 1) pattern
      else pattern = ability)"

definition StrictPrefixMatch :: "string \<Rightarrow> string \<Rightarrow> bool" where
  "StrictPrefixMatch prefix candidate =
     (if length prefix = 0 \<or> prefix ! (length prefix - 1) \<noteq> CHR ''/'' then False
      else if length candidate < length prefix then False
      else take (length prefix) candidate = prefix)"

definition slice :: "'a list option \<Rightarrow> 'a list" where
  "slice xs = (case xs of None \<Rightarrow> [] | Some ys \<Rightarrow> ys)"

definition DelegationProof_MatchesScope :: "delegation_proof option \<Rightarrow> string \<Rightarrow> bool" where
  "DelegationProof_MatchesScope p ability =
     (case p of None \<Rightarrow> False | Some x \<Rightarrow> list_ex (\<lambda>s. MatchScopePattern s ability) (slice (dp_scopes x)))"

definition DelegationProof_MatchesAudience :: "delegation_proof option \<Rightarrow> string \<Rightarrow> bool" where
  "DelegationProof_MatchesAudience p callee =
     (case p of None \<Rightarrow> False
      | Some x \<Rightarrow> dp_audience x = ''*'' \<or> dp_audience x = callee \<or> StrictPrefixMatch (dp_audience x) callee)"

definition DelegationProof_IsExpired :: "delegation_proof option \<Rightarrow> i64 \<Rightarrow> bool" where
  "DelegationProof_IsExpired p now =
     (case p of None \<Rightarrow> True | Some x \<Rightarrow> sint now \<ge> sint (dp_expires_at_ms x))"

section \<open>Session authorities\<close>

record session_authority =
  za_issuer_ura :: string
  za_subject_ura :: string
  za_session_id :: string
  za_scopes :: "string list option"
  za_audiences :: "string list option"
  za_issued_at_ms :: i64
  za_expires_at_ms :: i64
  za_signature :: bytes

definition session_json :: "(string \<Rightarrow> string) \<Rightarrow> session_authority \<Rightarrow> bytes" where
  "session_json qs a = str_bytes (json_object
     [json_member ''audiences'' (json_strings qs (za_audiences a)),
      json_member ''expires_at_ms'' (json_int (za_expires_at_ms a)),
      json_member ''issued_at_ms'' (json_int (za_issued_at_ms a)),
      json_member ''issuer_ura'' (qs (za_issuer_ura a)),
      json_member ''scopes'' (json_strings qs (za_scopes a)),
      json_member ''session_id'' (qs (za_session_id a)),
      json_member ''subject_ura'' (qs (za_subject_ura a))])"

definition SessionAuthority_CanonicalPayload ::
  "(string \<Rightarrow> string) \<Rightarrow> session_authority option \<Rightarrow> bytes result" where
  "SessionAuthority_CanonicalPayload qs a =
     (case a of None \<Rightarrow> plain_error ''session authority: nil authority'' | Some x \<Rightarrow> Ok (session_json qs x))"

definition SessionAuthority_Sign ::
  "platform \<Rightarrow> (string \<Rightarrow> string) \<Rightarrow> session_authority \<Rightarrow> bytes \<Rightarrow> session_authority result" where
  "SessionAuthority_Sign P qs a priv =
     (if length priv \<noteq> PrivateKeySize
      then plain_error (''session authority: signing key wrong size, want '' @ dec_nat PrivateKeySize
             @ '' got '' @ dec_nat (length priv))
      else bindR (SessionAuthority_CanonicalPayload qs (Some a)) (\<lambda>payload.
           bindR (edSign P priv payload) (\<lambda>sig. Ok (a\<lparr>za_signature := sig\<rparr>))))"

definition SessionAuthority_Verify ::
  "platform \<Rightarrow> (string \<Rightarrow> string) \<Rightarrow> session_authority option \<Rightarrow> bytes \<Rightarrow> unit result" where
  "SessionAuthority_Verify P qs a pub =
     (case a of
        None \<Rightarrow> plain_error ''session authority: nil authority''
      | Some x \<Rightarrow>
          if za_signature x = [] then plain_error ''session authority: signature missing''
          else if length pub \<noteq> PublicKeySize
          then plain_error (''session authority: verify key wrong size, want '' @ dec_nat PublicKeySize
                 @ '' got '' @ dec_nat (length pub))
          else bindR (SessionAuthority_CanonicalPayload qs a) (\<lambda>payload.
               bindR (edVerify P pub payload (za_signature x)) (\<lambda>valid.
                 if \<not> valid then plain_error ''session authority: signature does not verify'' else Ok ())))"

definition SessionAuthority_MarshalRaw ::
  "(string \<Rightarrow> string) \<Rightarrow> (bytes \<Rightarrow> string) \<Rightarrow> session_authority option \<Rightarrow> authority_raw result" where
  "SessionAuthority_MarshalRaw qs b64 a =
     bindR (SessionAuthority_CanonicalPayload qs a) (\<lambda>payload.
       case a of
         None \<Rightarrow> plain_error ''session authority: nil authority''
       | Some x \<Rightarrow>
           if za_signature x = [] then plain_error ''session authority: cannot marshal unsigned authority''
           else Ok \<lparr>raw_payload = payload, raw_signature = b64 (za_signature x)\<rparr>)"

definition UnmarshalRawSessionAuthority ::
  "(bytes \<Rightarrow> string + session_authority) \<Rightarrow> (string \<Rightarrow> string + bytes) \<Rightarrow> string + authority_raw \<Rightarrow>
   session_authority result" where
  "UnmarshalRawSessionAuthority decode unb64 raw =
     (case raw of
        Inl e \<Rightarrow> plain_error (''session authority: parse raw: '' @ e)
      | Inr r \<Rightarrow>
          (case decode (raw_payload r) of
             Inl e \<Rightarrow> plain_error (''session authority: parse payload: '' @ e)
           | Inr payload \<Rightarrow>
               (case unb64 (raw_signature r) of
                  Inl e \<Rightarrow> plain_error (''session authority: decode signature: '' @ e)
                | Inr sig \<Rightarrow> Ok (payload\<lparr>za_signature := sig\<rparr>))))"

definition SessionAuthority_MatchesScope :: "session_authority option \<Rightarrow> string \<Rightarrow> bool" where
  "SessionAuthority_MatchesScope a ability =
     (case a of None \<Rightarrow> False | Some x \<Rightarrow> list_ex (\<lambda>s. MatchScopePattern s ability) (slice (za_scopes x)))"

definition SessionAuthority_MatchesAudience :: "session_authority option \<Rightarrow> string \<Rightarrow> bool" where
  "SessionAuthority_MatchesAudience a callee =
     (case a of None \<Rightarrow> False
      | Some x \<Rightarrow> list_ex (\<lambda>u. u = ''*'' \<or> u = callee \<or> StrictPrefixMatch u callee) (slice (za_audiences x)))"

definition SessionAuthority_IsExpired :: "session_authority option \<Rightarrow> i64 \<Rightarrow> bool" where
  "SessionAuthority_IsExpired a now =
     (case a of None \<Rightarrow> True | Some x \<Rightarrow> sint now \<ge> sint (za_expires_at_ms x))"

section \<open>The claims the receipt verbs verify\<close>

text \<open>\<open>json.Marshal\<close> of the two claim structs of \<open>receipt_verbs.go\<close>, whose members stay in
  the order of their declaration.\<close>

definition delegation_claim_json :: "(string \<Rightarrow> string) \<Rightarrow> delegation_claim \<Rightarrow> bytes" where
  "delegation_claim_json qs c = str_bytes (json_object
     [json_member ''issuer_ura'' (qs (dc_issuer_ura c)),
      json_member ''authority_ura'' (qs (dc_authority_ura c)),
      json_member ''delegatee_ura'' (qs (dc_delegatee_ura c)),
      json_member ''audience'' (qs (dc_audience c)),
      json_member ''scopes'' (json_strings qs (Some (dc_scopes c))),
      json_member ''issued_at_ms'' (json_int (dc_issued_at_ms c)),
      json_member ''expires_at_ms'' (json_int (dc_expires_at_ms c))])"

definition session_claim_json :: "(string \<Rightarrow> string) \<Rightarrow> session_claim \<Rightarrow> bytes" where
  "session_claim_json qs c = str_bytes (json_object
     [json_member ''issuer_ura'' (qs (sc_issuer_ura c)),
      json_member ''authority_ura'' (qs (sc_authority_ura c)),
      json_member ''session_id'' (qs (sc_session_id c)),
      json_member ''scopes'' (json_strings qs (Some (sc_scopes c))),
      json_member ''audiences'' (json_strings qs (Some (sc_audiences c))),
      json_member ''issued_at_ms'' (json_int (sc_issued_at_ms c)),
      json_member ''expires_at_ms'' (json_int (sc_expires_at_ms c))])"

section \<open>The two sides test alike\<close>

lemma MatchScopePattern_eq: "MatchScopePattern p a = scopeMatches p a"
proof -
  have "length (take (length p - 1) p) = length p - 1" by simp
  then show ?thesis by (auto simp: MatchScopePattern_def scopeMatches_def Let_def)
qed

lemma StrictPrefixMatch_eq:
  "(u = ''*'' \<or> u = c \<or> StrictPrefixMatch u c) = audienceAdmits u c"
  by (auto simp: StrictPrefixMatch_def audienceAdmits_def)

text \<open>The client's admissibility tests of a delegation and of a session authority are the
  ones the receipt verb applies.  The scope test, the audience test and the expiry test of
  the client API, computed by different code over its own objects, decide the same relation
  as the checks of \<open>ProveAuthority\<close> on the same scopes, audience, expiry and clock.\<close>

theorem client_tests_agree:
  "DelegationProof_MatchesScope (Some p) ability = list_ex (\<lambda>s. scopeMatches s ability) (slice (dp_scopes p))
    \<and> DelegationProof_MatchesAudience (Some p) callee = audienceAdmits (dp_audience p) callee
    \<and> DelegationProof_IsExpired (Some p) now = (sint now \<ge> sint (dp_expires_at_ms p))
    \<and> SessionAuthority_MatchesScope (Some a) ability = list_ex (\<lambda>s. scopeMatches s ability) (slice (za_scopes a))
    \<and> SessionAuthority_MatchesAudience (Some a) callee
        = list_ex (\<lambda>u. audienceAdmits u callee) (slice (za_audiences a))
    \<and> SessionAuthority_IsExpired (Some a) now = (sint now \<ge> sint (za_expires_at_ms a))"
  by (simp add: DelegationProof_MatchesScope_def DelegationProof_MatchesAudience_def
      DelegationProof_IsExpired_def SessionAuthority_MatchesScope_def
      SessionAuthority_MatchesAudience_def SessionAuthority_IsExpired_def MatchScopePattern_eq
      StrictPrefixMatch_eq)

section \<open>Signing\<close>

lemma sign_verify_delegation:
  assumes "DelegationProof_Sign P qs p priv = Ok q" and "length pub = PublicKeySize"
    and "\<And>m. pf_verify P pub m (pf_sign P priv m) \<and> pf_sign P priv m \<noteq> []"
  shows "DelegationProof_Verify P qs (Some q) pub = Ok ()"
proof -
  from assms(1) have "length priv = PrivateKeySize" and q: "q = p\<lparr>dp_signature := pf_sign P priv (delegation_json qs p)\<rparr>"
    by (auto simp: DelegationProof_Sign_def DelegationProof_CanonicalPayload_def edSign_def bindR_Ok_iff
        split: if_splits)
  have "delegation_json qs q = delegation_json qs p" by (simp add: q delegation_json_def)
  with assms(2,3) show ?thesis
    by (simp add: DelegationProof_Verify_def DelegationProof_CanonicalPayload_def edVerify_def)
       (simp add: q)
qed

text \<open>The members of the two encodings come in different orders, so their first member names
  already differ.\<close>

lemma delegation_encodings_differ: "delegation_json qs p \<noteq> delegation_claim_json qs c"
  by (simp add: delegation_json_def delegation_claim_json_def json_object_def json_member_def)

lemma session_encodings_differ: "session_json qs a \<noteq> session_claim_json qs c"
  by (simp add: session_json_def session_claim_json_def json_object_def json_member_def)

text \<open>C31: A delegation signed by the client API is not one the receipt verb can prove.  The
  comment on the verb's claim struct says that marshalling it again gives the bytes the issuer
  signed, but \<open>DelegationProof.Sign\<close> signs the members in sorted order and under other names.
  When the signature verifies for one message only, evidence that carries it is refused
  whatever its fields, the receipt, the clock and the ability are.\<close>

theorem client_delegation_not_provable:
  assumes "DelegationProof_Verify P qs (Some p) key = Ok ()"
    and "\<And>m m'. pf_verify P key m (dp_signature p) \<Longrightarrow> pf_verify P key m' (dp_signature p) \<Longrightarrow> m = m'"
    and "dg_signature d = dp_signature p" and "keys (ai_ura (dg_issuer d)) = Ok key"
  shows "\<not> is_ok (prove_delegation P (delegation_claim_json qs) now b u (Some d) keys)"
proof
  assume "is_ok (prove_delegation P (delegation_claim_json qs) now b u (Some d) keys)"
  then have "pf_verify P key (delegation_claim_json qs (delegation_claim_of b u d)) (dp_signature p)"
    using assms(3,4) by (auto simp: is_ok_iff prove_delegation_def bindR_Ok_iff check_claim_Ok split: if_splits)
  moreover have "pf_verify P key (delegation_json qs p) (dp_signature p)"
    using assms(1) by (auto simp: DelegationProof_Verify_def DelegationProof_CanonicalPayload_def
        edVerify_def bindR_Ok_iff split: if_splits)
  ultimately have "delegation_json qs p = delegation_claim_json qs (delegation_claim_of b u d)"
    using assms(2) by blast
  then show False using delegation_encodings_differ by blast
qed

definition demo_client_delegation :: delegation_proof where
  "demo_client_delegation = \<lparr>dp_issuer_ura = ai_ura demo_callee, dp_subject_ura = ai_ura demo_callee,
     dp_caller_ura = ai_ura demo_caller, dp_audience = ''*'', dp_scopes = Some [''*''], dp_issued_at_ms = 0,
     dp_expires_at_ms = 100, dp_signature = replicate 64 7\<rparr>"

text \<open>A verification that accepts the sample signature for the client's payload alone.\<close>

definition demo_client_platform :: "(string \<Rightarrow> string) \<Rightarrow> platform" where
  "demo_client_platform qs = demo_platform\<lparr>pf_verify :=
     (\<lambda>k m s. m = delegation_json qs demo_client_delegation \<and> s = replicate 64 7)\<rparr>"

theorem client_delegation_not_provable_witness:
  "DelegationProof_Verify (demo_client_platform (\<lambda>s. s)) (\<lambda>s. s) (Some demo_client_delegation) (replicate 32 1)
      = Ok ()
    \<and> \<not> is_ok (prove_delegation (demo_client_platform (\<lambda>s. s)) (delegation_claim_json (\<lambda>s. s)) 5
        (bc_binding demo_context) (ai_ura demo_callee) (Some demo_delegation) demo_resolver)"
proof -
  have v: "DelegationProof_Verify (demo_client_platform (\<lambda>s. s)) (\<lambda>s. s) (Some demo_client_delegation)
      (replicate 32 1) = Ok ()"
    by (simp add: DelegationProof_Verify_def DelegationProof_CanonicalPayload_def edVerify_def PublicKeySize_def
        demo_client_platform_def) (simp add: demo_client_delegation_def)
  have "m = m'" if "pf_verify (demo_client_platform (\<lambda>s. s)) k m s" "pf_verify (demo_client_platform (\<lambda>s. s)) k m' s"
    for k m m' s
    using that by (simp add: demo_client_platform_def)
  with v client_delegation_not_provable [OF v, of demo_delegation demo_resolver] show ?thesis
    by (simp add: demo_client_delegation_def demo_delegation_def demo_resolver_def)
qed

end
