(* ===== verification/Uras.thy ===== *)
theory Uras
  imports Identity
begin

text \<open>
  The addresses of the client API (\<open>axon/ura.go\<close>, \<open>axon/subject_ura.go\<close>,
  \<open>axon/ability_ref.go\<close>): the grammar of URAs and of ability tails, the constructors,
  the ability an owner publishes and the name it is found under, invocation subjects and
  the client's own parser of ability descriptor references.  \<open>q\<close> is the verb \<open>%q\<close>.
\<close>

abbreviation ura_error :: "string \<Rightarrow> 'a result" where
  "ura_error m \<equiv> Fail (PlainErr m)"

section \<open>Parsed addresses\<close>

text \<open>\<open>URAKind\<close> and \<open>AbilityOwnerKind\<close> are string types.\<close>

type_synonym ura_kind = string

definition URAKindUser :: ura_kind where "URAKindUser = ''user''"
definition URAKindDevice :: ura_kind where "URAKindDevice = ''device''"
definition URAKindService :: ura_kind where "URAKindService = ''service''"
definition URAKindAgent :: ura_kind where "URAKindAgent = ''agent''"
definition URAKindAbility :: ura_kind where "URAKindAbility = ''ability''"
definition URAKindAuthority :: ura_kind where "URAKindAuthority = ''authority''"
definition URAKindResource :: ura_kind where "URAKindResource = ''resource''"

lemmas ura_kinds = URAKindUser_def URAKindDevice_def URAKindService_def URAKindAgent_def
  URAKindAbility_def URAKindAuthority_def URAKindResource_def

datatype ability_owner_kind =
  AbilityOwnerUnset | AbilityOwnerAuthority | AbilityOwnerAgent | AbilityOwnerService
  | AbilityOwnerSystemAgent | AbilityOwnerDevice

record ability_owner =
  ao_kind :: ability_owner_kind
  ao_user_id :: string
  ao_agent_id :: string
  ao_device_id :: string
  ao_service_id :: string

record parsed_ability =
  pa_owner :: ability_owner
  pa_namespace :: string
  pa_local_name :: string

record parsed_ura =
  pu_raw :: string
  pu_realm :: string
  pu_kind :: ura_kind
  pu_user_id :: string
  pu_device_id :: string
  pu_agent_id :: string
  pu_service_id :: string
  pu_ability_id :: string
  pu_ability_owner :: ability_owner
  pu_ability_namespace :: string
  pu_ability_local_name :: string
  pu_owner_id :: string
  pu_path :: string

definition no_owner :: ability_owner where
  "no_owner = \<lparr>ao_kind = AbilityOwnerUnset, ao_user_id = [], ao_agent_id = [], ao_device_id = [],
     ao_service_id = []\<rparr>"

definition bare_ura :: "string \<Rightarrow> string \<Rightarrow> ura_kind \<Rightarrow> parsed_ura" where
  "bare_ura raw realm kind = \<lparr>pu_raw = raw, pu_realm = realm, pu_kind = kind, pu_user_id = [],
     pu_device_id = [], pu_agent_id = [], pu_service_id = [], pu_ability_id = [],
     pu_ability_owner = no_owner, pu_ability_namespace = [], pu_ability_local_name = [],
     pu_owner_id = [], pu_path = []\<rparr>"

text \<open>\<open>strings.Cut\<close> when a missing separator leaves the whole string in front.\<close>

definition cut_or_all :: "char \<Rightarrow> string \<Rightarrow> string \<times> string" where
  "cut_or_all c s = (case cut c s of None \<Rightarrow> (s, []) | Some ab \<Rightarrow> ab)"

section \<open>Ability tails\<close>

definition tail_remainder :: "ability_owner \<Rightarrow> string \<Rightarrow> parsed_ability result" where
  "tail_remainder owner rest =
     (let (namespace, localName) = (case cut CHR ''.'' rest of None \<Rightarrow> ([], rest) | Some ab \<Rightarrow> ab) in
      if localName = [] then ura_error ''ability tail missing local name''
      else Ok \<lparr>pa_owner = owner, pa_namespace = namespace, pa_local_name = localName\<rparr>)"

definition service_tail :: "string \<Rightarrow> parsed_ability result" where
  "service_tail after =
     (let bad = ura_error ''service owner requires <principal-id>.<service-id>.<rest>'' in
      case cut CHR ''.'' after of
        None \<Rightarrow> bad
      | Some (principalID, afterPrincipal) \<Rightarrow>
          (case cut CHR ''.'' afterPrincipal of
             None \<Rightarrow> bad
           | Some (serviceID, r) \<Rightarrow>
               if principalID = [] \<or> serviceID = [] then bad
               else tail_remainder (no_owner\<lparr>ao_kind := AbilityOwnerService, ao_user_id := principalID,
                      ao_service_id := serviceID\<rparr>) r))"

definition system_agent_tail :: "string \<Rightarrow> parsed_ability result" where
  "system_agent_tail after =
     (let bad = ura_error ''system-agent owner requires <device-id>.<agent-id>.<rest>'' in
      case cut CHR ''.'' after of
        None \<Rightarrow> bad
      | Some (deviceID, afterDevice) \<Rightarrow>
          (case cut CHR ''.'' afterDevice of
             None \<Rightarrow> bad
           | Some (agentID, r) \<Rightarrow>
               if deviceID = [] \<or> agentID = [] then bad
               else tail_remainder (no_owner\<lparr>ao_kind := AbilityOwnerSystemAgent, ao_device_id := deviceID,
                      ao_agent_id := agentID\<rparr>) r))"

definition device_tail :: "string \<Rightarrow> parsed_ability result" where
  "device_tail after =
     (let (deviceID, r) = cut_or_all CHR ''.'' after in
      if deviceID = [] then ura_error ''device owner requires a <device-id> segment''
      else tail_remainder (no_owner\<lparr>ao_kind := AbilityOwnerDevice, ao_device_id := deviceID\<rparr>) r)"

definition agent_tail :: "(string \<Rightarrow> string) \<Rightarrow> string \<Rightarrow> parsed_ability result" where
  "agent_tail q tail =
     (let bad = ura_error ''agent ability tail must be <user-id>.<agent-id>.<rest>'' in
      case cut CHR ''.'' tail of
        None \<Rightarrow> bad
      | Some (userID, afterUser) \<Rightarrow>
          (let (agentID, r) = cut_or_all CHR ''.'' afterUser in
           if userID = [] \<or> agentID = [] then bad
           else if userID = ''authority'' \<or> userID = ''device'' \<or> userID = ''system-agent''
                   \<or> userID = ''service''
           then ura_error (''agent owner token '' @ q userID @ '' is reserved'')
           else tail_remainder (no_owner\<lparr>ao_kind := AbilityOwnerAgent, ao_user_id := userID,
                  ao_agent_id := agentID\<rparr>) r))"

definition ParseAbilityTail :: "(string \<Rightarrow> string) \<Rightarrow> string \<Rightarrow> parsed_ability result" where
  "ParseAbilityTail q tail =
     (if tail = [] \<or> CHR ''/'' \<in> set tail
      then ura_error ''ability tail must be a single non-empty path segment''
      else if has_prefix tail ''authority.''
      then tail_remainder (no_owner\<lparr>ao_kind := AbilityOwnerAuthority\<rparr>) (trim_prefix tail ''authority.'')
      else if has_prefix tail ''service.'' then service_tail (trim_prefix tail ''service.'')
      else if has_prefix tail ''system-agent.'' then system_agent_tail (trim_prefix tail ''system-agent.'')
      else if has_prefix tail ''device.'' then device_tail (trim_prefix tail ''device.'')
      else agent_tail q tail)"

section \<open>The parser\<close>

definition one_segment :: "string \<Rightarrow> bool" where
  "one_segment tail = (tail \<noteq> [] \<and> CHR ''/'' \<notin> set tail \<and> CHR ''.'' \<notin> set tail)"

definition service_parts :: "parsed_ura \<Rightarrow> string \<Rightarrow> parsed_ura result" where
  "service_parts out tail =
     (let bad = ura_error ''service URA tail must be <principal-id>.<service-id>'' in
      if tail = [] \<or> CHR ''/'' \<in> set tail then bad
      else (case cut CHR ''.'' tail of
              None \<Rightarrow> bad
            | Some (principalID, serviceID) \<Rightarrow>
                if principalID = [] \<or> serviceID = [] \<or> CHR ''.'' \<in> set serviceID then bad
                else Ok (out\<lparr>pu_user_id := principalID, pu_service_id := serviceID\<rparr>)))"

definition agent_parts :: "(string \<Rightarrow> string) \<Rightarrow> parsed_ura \<Rightarrow> string \<Rightarrow> parsed_ura result" where
  "agent_parts q out tail =
     (let bad = ura_error ''agent URA tail must be <user-id>.<agent-id> or device.<device-id>.<agent-id>'';
          badDevice = ura_error ''device-owned agent URA tail must be device.<device-id>.<agent-id>'' in
      if CHR ''/'' \<in> set tail then bad
      else if has_prefix tail ''device.''
      then (case cut CHR ''.'' (trim_prefix tail ''device.'') of
              None \<Rightarrow> badDevice
            | Some (deviceID, agentID) \<Rightarrow>
                if deviceID = [] \<or> agentID = [] \<or> CHR ''.'' \<in> set agentID then badDevice
                else Ok (out\<lparr>pu_device_id := deviceID, pu_agent_id := agentID\<rparr>))
      else (case cut CHR ''.'' tail of
              None \<Rightarrow> bad
            | Some (userID, agentID) \<Rightarrow>
                if userID = [] \<or> agentID = [] \<or> CHR ''.'' \<in> set agentID then bad
                else if userID = ''authority'' \<or> userID = ''device'' \<or> userID = ''system-agent''
                then ura_error (''agent owner token '' @ q userID @ '' is reserved'')
                else Ok (out\<lparr>pu_user_id := userID, pu_agent_id := agentID\<rparr>)))"

definition ability_parts :: "parsed_ura \<Rightarrow> parsed_ability \<Rightarrow> parsed_ura result" where
  "ability_parts out0 ability =
     (let owner = pa_owner ability;
          abilityID = (if pa_namespace ability \<noteq> []
                       then pa_namespace ability @ ''.'' @ pa_local_name ability else pa_local_name ability);
          out = out0\<lparr>pu_ability_owner := owner, pu_ability_namespace := pa_namespace ability,
                      pu_ability_local_name := pa_local_name ability, pu_ability_id := abilityID\<rparr> in
      case ao_kind owner of
        AbilityOwnerAuthority \<Rightarrow> Ok (out\<lparr>pu_user_id := ''authority'', pu_agent_id := pa_namespace ability\<rparr>)
      | AbilityOwnerDevice \<Rightarrow> Ok (out\<lparr>pu_user_id := ''device'', pu_device_id := ao_device_id owner,
                                       pu_agent_id := ao_device_id owner\<rparr>)
      | AbilityOwnerSystemAgent \<Rightarrow> Ok (out\<lparr>pu_user_id := ''device'', pu_device_id := ao_device_id owner,
                                            pu_agent_id := ao_agent_id owner\<rparr>)
      | AbilityOwnerService \<Rightarrow> Ok (out\<lparr>pu_user_id := ao_user_id owner,
                                        pu_service_id := ao_service_id owner\<rparr>)
      | AbilityOwnerAgent \<Rightarrow> Ok (out\<lparr>pu_user_id := ao_user_id owner, pu_agent_id := ao_agent_id owner\<rparr>)
      | AbilityOwnerUnset \<Rightarrow> ura_error ''ability URA owner kind \"\" is unknown'')"

text \<open>\<open>fmt.Errorf\<close> with \<open>%w\<close> prepends its text to the text of the wrapped error.\<close>

fun wrap_error :: "string \<Rightarrow> 'a result \<Rightarrow> 'a result" where
  "wrap_error m (Ok x) = Ok x"
| "wrap_error m (Fail (PlainErr e)) = ura_error (m @ e)"
| "wrap_error m (Fail (AxonErr e)) = ura_error (m @ error_string (\<lambda>s. s) e)"
| "wrap_error m (Panic e) = Panic e"

text \<open>The switch on the role of an address.\<close>

definition parse_role ::
  "(string \<Rightarrow> string) \<Rightarrow> string \<Rightarrow> string \<Rightarrow> string \<Rightarrow> string \<Rightarrow> parsed_ura result" where
  "parse_role q raw realm role tail =
     (let out = bare_ura raw realm role in
      if role = ''user''
      then (if \<not> one_segment tail then ura_error ''user URA requires one user-id segment''
            else Ok (out\<lparr>pu_user_id := tail\<rparr>))
      else if role = ''device''
      then (if \<not> one_segment tail then ura_error ''device URA requires one device-id segment''
            else Ok (out\<lparr>pu_device_id := tail\<rparr>))
      else if role = ''service'' then service_parts out tail
      else if role = ''agent'' then agent_parts q out tail
      else if role = ''ability''
      then bindR (wrap_error ''ability URA tail invalid: '' (ParseAbilityTail q tail)) (ability_parts out)
      else if role = ''authority''
      then (if tail \<noteq> [] then ura_error ''authority URA must use /authority without a tail''
            else Ok (out\<lparr>pu_kind := URAKindAuthority\<rparr>))
      else if role = ''resource''
      then (let (owner, path) = cut_or_all CHR ''/'' tail in
            if owner = [] then ura_error ''resource URA requires owner segment''
            else Ok (out\<lparr>pu_owner_id := owner, pu_user_id := owner, pu_path := path\<rparr>))
      else ura_error (''unknown URA role '' @ q role))"

definition ParseURAParts :: "(string \<Rightarrow> string) \<Rightarrow> string \<Rightarrow> parsed_ura result" where
  "ParseURAParts q raw =
     (if \<not> has_prefix raw ura_scheme then ura_error (''URA must start with '' @ ura_scheme)
      else (case cut CHR ''/'' (trim_prefix raw ura_scheme) of
              None \<Rightarrow> ura_error ''URA missing realm segment''
            | Some (realm, afterRealm) \<Rightarrow>
                if realm = [] then ura_error ''URA missing realm segment''
                else (let (role, tail) = cut_or_all CHR ''/'' afterRealm in
                      parse_role q raw realm role tail)))"

section \<open>The value object\<close>

datatype ura = Ura (ura_string: string)

definition ParseURA :: "(string \<Rightarrow> string) \<Rightarrow> string \<Rightarrow> ura result" where
  "ParseURA q raw = bindR (ParseURAParts q raw) (\<lambda>_. Ok (Ura raw))"

definition ura_Parts :: "(string \<Rightarrow> string) \<Rightarrow> ura \<Rightarrow> parsed_ura result" where
  "ura_Parts q u =
     (case ParseURAParts q (ura_string u) of
        Ok p \<Rightarrow> Ok p
      | Fail e \<Rightarrow> Panic (PlainErr ''Ura stores only validated canonical addresses'')
      | Panic e \<Rightarrow> Panic e)"

definition ura_Kind :: "(string \<Rightarrow> string) \<Rightarrow> ura \<Rightarrow> ura_kind result" where
  "ura_Kind q u = bindR (ura_Parts q u) (\<lambda>p. Ok (pu_kind p))"

definition ura_AbilityName :: "(string \<Rightarrow> string) \<Rightarrow> ura \<Rightarrow> string result" where
  "ura_AbilityName q u =
     bindR (ura_Parts q u) (\<lambda>p. Ok (if pu_kind p \<noteq> URAKindAbility then [] else pu_ability_id p))"

definition ura_PublicAbilityName :: "string \<Rightarrow> string" where
  "ura_PublicAbilityName registeredName = trim_space registeredName"

definition AbilityNameFromURA :: "(string \<Rightarrow> string) \<Rightarrow> string \<Rightarrow> string result" where
  "AbilityNameFromURA q raw =
     (case ParseURA q raw of Ok u \<Rightarrow> ura_AbilityName q u | Fail e \<Rightarrow> Ok [] | Panic e \<Rightarrow> Panic e)"

definition PublicAbilityNameForOwner :: "(string \<Rightarrow> string) \<Rightarrow> string \<Rightarrow> string \<Rightarrow> string result" where
  "PublicAbilityNameForOwner q ownerURA registeredName =
     (case ParseURA q ownerURA of
        Ok owner \<Rightarrow>
          bindR (ura_Kind q owner) (\<lambda>k.
            Ok (if k = URAKindAgent \<or> k = URAKindService \<or> k = URAKindAuthority
                then ura_PublicAbilityName registeredName else []))
      | Fail e \<Rightarrow> Ok []
      | Panic e \<Rightarrow> Panic e)"

section \<open>Constructors\<close>

definition realm_role :: "string \<Rightarrow> string \<Rightarrow> string" where
  "realm_role realm role = ura_scheme @ realm @ ''/'' @ role"

definition UserURA :: "string \<Rightarrow> string \<Rightarrow> string" where
  "UserURA realm userID = realm_role realm ''user/'' @ userID"

definition DeviceURA :: "string \<Rightarrow> string \<Rightarrow> string" where
  "DeviceURA realm deviceID = realm_role realm ''device/'' @ deviceID"

definition AgentURA :: "string \<Rightarrow> string \<Rightarrow> string \<Rightarrow> string" where
  "AgentURA realm userID agentID = realm_role realm ''agent/'' @ userID @ ''.'' @ agentID"

definition ServiceURA :: "string \<Rightarrow> string \<Rightarrow> string \<Rightarrow> string" where
  "ServiceURA realm principalID serviceID = realm_role realm ''service/'' @ principalID @ ''.'' @ serviceID"

definition DeviceAgentURA :: "string \<Rightarrow> string \<Rightarrow> string \<Rightarrow> string" where
  "DeviceAgentURA realm deviceID agentID =
     realm_role realm ''agent/'' @ ''device.'' @ deviceID @ ''.'' @ agentID"

definition AbilityURA :: "string \<Rightarrow> string \<Rightarrow> string \<Rightarrow> string \<Rightarrow> string" where
  "AbilityURA realm userID agentID abilityID =
     realm_role realm ''ability/'' @ userID @ ''.'' @ agentID @ ''.'' @ abilityID"

definition ServiceAbilityURA :: "string \<Rightarrow> string \<Rightarrow> string \<Rightarrow> string \<Rightarrow> string" where
  "ServiceAbilityURA realm principalID serviceID abilityID =
     realm_role realm ''ability/'' @ ''service.'' @ principalID @ ''.'' @ serviceID @ ''.'' @ abilityID"

definition SystemAgentAbilityURA :: "string \<Rightarrow> string \<Rightarrow> string \<Rightarrow> string \<Rightarrow> string" where
  "SystemAgentAbilityURA realm deviceID agentID abilityName =
     realm_role realm ''ability/'' @ ''system-agent.'' @ deviceID @ ''.'' @ agentID @ ''.'' @ abilityName"

definition DeviceAbilityURA :: "string \<Rightarrow> string \<Rightarrow> string \<Rightarrow> string \<Rightarrow> string" where
  "DeviceAbilityURA realm deviceID namespace localName =
     realm_role realm ''ability/'' @ ''device.'' @ deviceID
     @ (if namespace \<noteq> [] then ''.'' @ namespace else []) @ ''.'' @ localName"

definition AuthorityURA :: "string \<Rightarrow> string" where
  "AuthorityURA realm = realm_role realm ''authority''"

definition AuthorityAbilityURA :: "(string \<Rightarrow> string) \<Rightarrow> string \<Rightarrow> string \<Rightarrow> string" where
  "AuthorityAbilityURA q realm abilityName =
     (if realm = [] \<or> abilityName = [] then []
      else if has_prefix abilityName ''01AUTHORITY.'' then []
      else if \<not> has_prefix abilityName ''authority.'' \<and> CHR ''.'' \<notin> set abilityName then []
      else (let tail = (if has_prefix abilityName ''authority.'' then abilityName
                        else ''authority.'' @ abilityName);
                raw = realm_role realm ''ability/'' @ tail in
            if is_ok (ParseURA q raw) then raw else []))"

definition ResourceDotURA :: "string \<Rightarrow> string \<Rightarrow> string \<Rightarrow> string" where
  "ResourceDotURA realm ownerID path =
     (let clean = trim_prefix path ''/'' in
      if clean = [] then realm_role realm ''resource/'' @ ownerID
      else realm_role realm ''resource/'' @ ownerID @ ''/'' @ clean)"

definition RealmUserPrefix :: "string \<Rightarrow> string" where
  "RealmUserPrefix realm = realm_role realm ''user/''"
definition RealmDevicePrefix :: "string \<Rightarrow> string" where
  "RealmDevicePrefix realm = realm_role realm ''device/''"
definition RealmAgentPrefix :: "string \<Rightarrow> string" where
  "RealmAgentPrefix realm = realm_role realm ''agent/''"
definition UserAgentPrefix :: "string \<Rightarrow> string \<Rightarrow> string" where
  "UserAgentPrefix realm userID = realm_role realm ''agent/'' @ userID @ ''.''"
definition RealmAbilityPrefix :: "string \<Rightarrow> string" where
  "RealmAbilityPrefix realm = realm_role realm ''ability/''"
definition RealmResourcePrefix :: "string \<Rightarrow> string" where
  "RealmResourcePrefix realm = realm_role realm ''resource/''"

section \<open>Owners and their abilities\<close>

definition OwnerAbilityURA :: "(string \<Rightarrow> string) \<Rightarrow> string \<Rightarrow> string \<Rightarrow> string" where
  "OwnerAbilityURA q ownerRaw nameRaw =
     (let ownerURA = trim_space ownerRaw; abilityName = trim_space nameRaw in
      if ownerURA = [] \<or> abilityName = [] then []
      else (case ParseURAParts q ownerURA of
              Ok owner \<Rightarrow>
                if pu_kind owner = URAKindAgent
                then (if pu_device_id owner \<noteq> []
                      then SystemAgentAbilityURA (pu_realm owner) (pu_device_id owner) (pu_agent_id owner) abilityName
                      else if pu_user_id owner = [] \<or> pu_agent_id owner = [] then []
                      else AbilityURA (pu_realm owner) (pu_user_id owner) (pu_agent_id owner) abilityName)
                else if pu_kind owner = URAKindService
                then (if pu_user_id owner = [] \<or> pu_service_id owner = [] then []
                      else ServiceAbilityURA (pu_realm owner) (pu_user_id owner) (pu_service_id owner) abilityName)
                else if pu_kind owner = URAKindAuthority
                then (if CHR ''.'' \<notin> set abilityName then []
                      else if has_prefix abilityName ''01AUTHORITY.'' then []
                      else realm_role (pu_realm owner) ''ability/'' @ ''authority.'' @ abilityName)
                else []
            | _ \<Rightarrow> []))"

definition PublicAbilityNameFromAbilityURA ::
  "(string \<Rightarrow> string) \<Rightarrow> string \<Rightarrow> string \<Rightarrow> string option" where
  "PublicAbilityNameFromAbilityURA q ownerURA abilityURA =
     (case (ParseURAParts q ownerURA, ParseURAParts q abilityURA) of
        (Ok owner, Ok ability) \<Rightarrow>
          let ao = pu_ability_owner ability in
          if pu_kind ability \<noteq> URAKindAbility then None
          else if pu_kind owner = URAKindAgent
          then (if pu_device_id owner \<noteq> [] \<and> pu_realm owner = pu_realm ability
                   \<and> ao_kind ao = AbilityOwnerSystemAgent \<and> pu_device_id owner = ao_device_id ao
                   \<and> pu_agent_id owner = ao_agent_id ao
                then Some (pu_ability_id ability)
                else if pu_realm owner = pu_realm ability \<and> ao_kind ao = AbilityOwnerAgent
                   \<and> pu_user_id owner = ao_user_id ao \<and> pu_agent_id owner = ao_agent_id ao
                then Some (pu_ability_id ability) else None)
          else if pu_kind owner = URAKindAuthority
          then (if pu_realm owner = pu_realm ability \<and> ao_kind ao = AbilityOwnerAuthority
                then Some (pu_ability_id ability) else None)
          else if pu_kind owner = URAKindService
          then (if pu_realm owner = pu_realm ability \<and> ao_kind ao = AbilityOwnerService
                   \<and> pu_user_id owner = ao_user_id ao \<and> pu_service_id owner = ao_service_id ao
                then Some (pu_ability_id ability) else None)
          else None
      | _ \<Rightarrow> None)"

definition ura_PublicAbilityNameForOwner :: "(string \<Rightarrow> string) \<Rightarrow> ura \<Rightarrow> string \<Rightarrow> string" where
  "ura_PublicAbilityNameForOwner q u ownerURA =
     (case PublicAbilityNameFromAbilityURA q ownerURA (ura_string u) of None \<Rightarrow> [] | Some name \<Rightarrow> name)"

definition DisplayID :: "(string \<Rightarrow> string) \<Rightarrow> string \<Rightarrow> string" where
  "DisplayID q raw =
     (case ParseURAParts q raw of
        Ok p \<Rightarrow>
          let ao = pu_ability_owner p in
          if pu_kind p = URAKindDevice then pu_device_id p
          else if pu_kind p = URAKindUser then pu_user_id p
          else if pu_kind p = URAKindService then pu_user_id p @ ''.'' @ pu_service_id p
          else if pu_kind p = URAKindAgent
          then (if pu_device_id p \<noteq> [] then ''device.'' @ pu_device_id p @ ''.'' @ pu_agent_id p
                else pu_user_id p @ ''.'' @ pu_agent_id p)
          else if pu_kind p = URAKindAbility
          then (case ao_kind ao of
                  AbilityOwnerAuthority \<Rightarrow> ''authority.'' @ pu_ability_id p
                | AbilityOwnerDevice \<Rightarrow> ''device.'' @ ao_device_id ao @ ''.'' @ pu_ability_id p
                | AbilityOwnerSystemAgent \<Rightarrow>
                    ''system-agent.'' @ ao_device_id ao @ ''.'' @ ao_agent_id ao @ ''.'' @ pu_ability_id p
                | AbilityOwnerService \<Rightarrow>
                    ''service.'' @ ao_user_id ao @ ''.'' @ ao_service_id ao @ ''.'' @ pu_ability_id p
                | AbilityOwnerAgent \<Rightarrow> ao_user_id ao @ ''.'' @ ao_agent_id ao @ ''.'' @ pu_ability_id p
                | AbilityOwnerUnset \<Rightarrow> pu_user_id p @ ''.'' @ pu_agent_id p @ ''.'' @ pu_ability_id p)
          else if pu_kind p = URAKindAuthority then ''authority''
          else if pu_kind p = URAKindResource
          then (if pu_path p = [] then pu_owner_id p else pu_owner_id p @ ''/'' @ pu_path p)
          else raw
      | _ \<Rightarrow> raw)"

section \<open>The client's ability descriptor references\<close>

record client_descriptor_ref =
  cd_raw :: string
  cd_ability_ura :: string
  cd_version :: string
  cd_descriptor_hash :: string
  cd_action :: string

definition invalidAbilityDescriptorRef :: "string \<Rightarrow> 'a result" where
  "invalidAbilityDescriptorRef reason = ura_error (''invalid ability descriptor ref: '' @ reason)"

definition client_digest_action :: "string \<Rightarrow> string \<Rightarrow> string \<Rightarrow> client_descriptor_ref result" where
  "client_digest_action abilityURA version digestAndAction =
     (case split_once CHR ''!'' digestAndAction of
        None \<Rightarrow> invalidAbilityDescriptorRef ''ability_descriptor_ref_action_missing_or_malformed''
      | Some (digestHex, action) \<Rightarrow>
          if length digestHex \<noteq> 64 \<or> \<not> isASCIIHex digestHex
          then invalidAbilityDescriptorRef ''ability_descriptor_ref_digest_invalid''
          else (case hex_decode digestHex of
                  None \<Rightarrow> invalidAbilityDescriptorRef ''ability_descriptor_ref_digest_invalid''
                | Some decoded \<Rightarrow>
                    if length decoded \<noteq> 32
                    then invalidAbilityDescriptorRef ''ability_descriptor_ref_digest_invalid''
                    else if \<not> isAdmissionAction action
                    then invalidAbilityDescriptorRef ''ability_descriptor_ref_action_invalid''
                    else Ok \<lparr>cd_raw = abilityURA @ CHR ''@'' # version @ CHR ''#''
                                       # map ascii_lower digestHex @ CHR ''!'' # action,
                             cd_ability_ura = abilityURA, cd_version = version,
                             cd_descriptor_hash = map ascii_lower digestHex, cd_action = action\<rparr>))"

definition client_version :: "string \<Rightarrow> string \<Rightarrow> client_descriptor_ref result" where
  "client_version abilityURA versionAndDigest =
     (case split_once CHR ''#'' versionAndDigest of
        None \<Rightarrow> invalidAbilityDescriptorRef ''ability_descriptor_ref_digest_missing_or_malformed''
      | Some (version, digestAndAction) \<Rightarrow>
          if version = [] then invalidAbilityDescriptorRef ''ability_descriptor_ref_missing_version''
          else client_digest_action abilityURA version digestAndAction)"

definition client_ParseAbilityDescriptorRef ::
  "(string \<Rightarrow> string) \<Rightarrow> string \<Rightarrow> client_descriptor_ref result" where
  "client_ParseAbilityDescriptorRef q raw =
     (let normalized = trim_space raw in
      if normalized = [] then invalidAbilityDescriptorRef ''ability_empty''
      else (case split_once CHR ''@'' normalized of
              None \<Rightarrow> invalidAbilityDescriptorRef ''ability_descriptor_ref_malformed''
            | Some (abilityURA, versionAndDigest) \<Rightarrow>
                if abilityURA = [] then invalidAbilityDescriptorRef ''ability_descriptor_ref_missing_ability''
                else (case ParseURAParts q abilityURA of
                        Ok p \<Rightarrow>
                          if pu_kind p \<noteq> URAKindAbility
                          then invalidAbilityDescriptorRef ''ability_descriptor_ref_not_ability_ura''
                          else client_version abilityURA versionAndDigest
                      | Fail e \<Rightarrow> invalidAbilityDescriptorRef ''ability_descriptor_ref_not_ability_ura''
                      | Panic e \<Rightarrow> Panic e)))"

definition requiredAbilityRef :: "(string \<Rightarrow> string) \<Rightarrow> string \<Rightarrow> string result" where
  "requiredAbilityRef q raw =
     (case client_ParseAbilityDescriptorRef q raw of
        Ok ref \<Rightarrow> Ok (cd_raw ref)
      | Fail e \<Rightarrow> ura_error (''ability must be an AbilityDescriptorRef: '' @ go_error_string q e)
      | Panic e \<Rightarrow> Panic e)"

definition abilityURAFromDescriptorRef :: "(string \<Rightarrow> string) \<Rightarrow> string \<Rightarrow> string result" where
  "abilityURAFromDescriptorRef q raw =
     bindR (client_ParseAbilityDescriptorRef q raw) (\<lambda>ref. Ok (cd_ability_ura ref))"

section \<open>Invocation subjects\<close>

datatype subject_ura = SubjectURA (su_raw: string)

definition ParseSubjectURA :: "string \<Rightarrow> subject_ura result" where
  "ParseSubjectURA raw =
     (let normalized = trim_space raw in
      if normalized = [] then ura_error ''subject_ura must be non-empty for invocation''
      else if \<not> has_prefix normalized ura_scheme
      then ura_error (''subject_ura must be a canonical URA: '' @ normalized)
      else (let parts = split_on CHR ''/'' (trim_prefix normalized ura_scheme) in
            if length parts < 3
            then ura_error (''subject_ura must include realm, subject kind, and subject id: '' @ normalized)
            else if list_ex (\<lambda>p. p = []) parts
            then ura_error (''subject_ura must not contain empty path segments: '' @ normalized)
            else Ok (SubjectURA normalized)))"

definition realmFromAbilityURA :: "string \<Rightarrow> string result" where
  "realmFromAbilityURA abilityURA =
     (let rest = trim_prefix abilityURA ura_scheme in
      if rest = abilityURA then ura_error ''ability descriptor ref is missing realm''
      else (case cut CHR ''/'' rest of
              None \<Rightarrow> ura_error ''ability descriptor ref is missing realm''
            | Some (realm, _) \<Rightarrow>
                if realm = [] then ura_error ''ability descriptor ref is missing realm'' else Ok realm))"

text \<open>The characters of a short principal; a byte of a multi-byte rune is none of them.\<close>

definition principal_char :: "char \<Rightarrow> bool" where
  "principal_char c =
     (let b = of_char c :: nat in
      97 \<le> b \<and> b \<le> 122 \<or> 65 \<le> b \<and> b \<le> 90 \<or> 48 \<le> b \<and> b \<le> 57
      \<or> c = CHR ''.'' \<or> c = CHR ''_'' \<or> c = CHR ''-'')"

definition SubjectURAForInvocation ::
  "(string \<Rightarrow> string) \<Rightarrow> string \<Rightarrow> string \<Rightarrow> string \<Rightarrow> subject_ura result" where
  "SubjectURAForInvocation q principalID abilityRef defaultSubjectURA =
     (let normalized = trim_space principalID in
      if normalized = [] then ParseSubjectURA defaultSubjectURA
      else if has_prefix normalized ura_scheme then ParseSubjectURA normalized
      else if has_prefix normalized ''easynet:''
      then ura_error (''principal_id must use URA syntax: '' @ normalized)
      else if \<not> list_all principal_char normalized
      then ura_error (''principal_id contains invalid characters: '' @ normalized)
      else bindR (client_ParseAbilityDescriptorRef q abilityRef) (\<lambda>ref.
           bindR (realmFromAbilityURA (cd_ability_ura ref)) (\<lambda>realm.
             Ok (SubjectURA (realm_role realm ''resource/sdk.principal/'' @ normalized)))))"

end
