(* ===== verification/UraProperties.thy ===== *)
theory UraProperties
  imports Uras
begin

text \<open>
  What the address grammar guarantees: an owner finds the abilities it publishes under
  their names, the client and the runtime read descriptor references alike, an invocation
  subject is canonical; and where the two ability grammars of the package, and the agent
  and ability grammars, disagree.
\<close>

section \<open>Segments and names\<close>

definition seg :: "string \<Rightarrow> bool" where
  "seg s = (s \<noteq> [] \<and> CHR ''/'' \<notin> set s \<and> CHR ''.'' \<notin> set s)"

definition ability_name :: "string \<Rightarrow> bool" where
  "ability_name n = (n \<noteq> [] \<and> CHR ''/'' \<notin> set n
     \<and> (case cut CHR ''.'' n of None \<Rightarrow> True | Some (a, b) \<Rightarrow> a \<noteq> [] \<and> b \<noteq> []))"

lemma has_prefix_segment:
  assumes "c \<notin> set u" and "c \<notin> set w"
  shows "has_prefix (u @ c # r) (w @ [c]) = (u = w)"
proof
  assume "has_prefix (u @ c # r) (w @ [c])"
  then obtain s where "u @ c # r = w @ c # s" by (auto simp: has_prefix_iff)
  then have "cut c (u @ c # r) = cut c (w @ c # s)" by simp
  with assms show "u = w" by (simp add: cut_append)
next
  assume "u = w"
  then show "has_prefix (u @ c # r) (w @ [c])" by (auto simp: has_prefix_iff)
qed

lemma cut_or_all_append [simp]: "c \<notin> set a \<Longrightarrow> cut_or_all c (a @ c # b) = (a, b)"
  by (simp add: cut_or_all_def cut_append)

lemma tail_remainder_name:
  assumes "ability_name n"
  obtains a where "tail_remainder ow n = Ok a" "pa_owner a = ow"
    "(if pa_namespace a \<noteq> [] then pa_namespace a @ ''.'' @ pa_local_name a else pa_local_name a) = n"
proof (cases "cut CHR ''.'' n")
  case None
  with assms that [of "\<lparr>pa_owner = ow, pa_namespace = [], pa_local_name = n\<rparr>"] show thesis
    by (simp add: tail_remainder_def ability_name_def)
next
  case (Some ab)
  then obtain a b where ab: "cut CHR ''.'' n = Some (a, b)" by (cases ab) auto
  with assms that [of "\<lparr>pa_owner = ow, pa_namespace = a, pa_local_name = b\<rparr>"] cut_some [OF ab]
  show thesis by (auto simp: tail_remainder_def ability_name_def)
qed

section \<open>Parsing what the constructors build\<close>

lemma parse_with_role:
  assumes "seg realm \<or> realm \<noteq> [] \<and> CHR ''/'' \<notin> set realm" and "CHR ''/'' \<notin> set role"
  shows "ParseURAParts q (ura_scheme @ realm @ CHR ''/'' # role @ CHR ''/'' # tail)
    = parse_role q (ura_scheme @ realm @ CHR ''/'' # role @ CHR ''/'' # tail) realm role tail"
proof -
  have "realm \<noteq> []" "CHR ''/'' \<notin> set realm" using assms(1) by (auto simp: seg_def)
  with assms(2) show ?thesis by (simp add: ParseURAParts_def cut_append)
qed

lemma role_strings:
  "realm_role realm ''agent/'' @ t = ura_scheme @ realm @ CHR ''/'' # ''agent'' @ CHR ''/'' # t"
  "realm_role realm ''service/'' @ t = ura_scheme @ realm @ CHR ''/'' # ''service'' @ CHR ''/'' # t"
  "realm_role realm ''ability/'' @ t = ura_scheme @ realm @ CHR ''/'' # ''ability'' @ CHR ''/'' # t"
  by (simp_all add: realm_role_def)

lemma parse_ability:
  assumes "realm \<noteq> []" and "CHR ''/'' \<notin> set realm" and "ParseAbilityTail q tail = Ok a"
    and "ao_kind (pa_owner a) \<noteq> AbilityOwnerUnset"
  obtains p where "ParseURAParts q (realm_role realm ''ability/'' @ tail) = Ok p"
    "pu_realm p = realm" "pu_kind p = URAKindAbility" "pu_ability_owner p = pa_owner a"
    "pu_ability_id p = (if pa_namespace a \<noteq> [] then pa_namespace a @ ''.'' @ pa_local_name a else pa_local_name a)"
proof -
  let ?out = "bare_ura (realm_role realm ''ability/'' @ tail) realm ''ability''"
  have "ParseURAParts q (realm_role realm ''ability/'' @ tail) = ability_parts ?out a"
    using parse_with_role [of realm "''ability''" q tail] assms(1-3)
    by (simp add: role_strings parse_role_def)
  with assms(4) that show thesis
    by (cases "ao_kind (pa_owner a)")
       (auto simp: ability_parts_def Let_def bare_ura_def URAKindAbility_def)
qed

lemma agent_tail_parse:
  assumes "seg u" and "seg g" and "ability_name n"
    and "u \<notin> {''authority'', ''device'', ''system-agent'', ''service''}"
  obtains a where "ParseAbilityTail q (u @ ''.'' @ g @ ''.'' @ n) = Ok a"
    "pa_owner a = no_owner\<lparr>ao_kind := AbilityOwnerAgent, ao_user_id := u, ao_agent_id := g\<rparr>"
    "(if pa_namespace a \<noteq> [] then pa_namespace a @ ''.'' @ pa_local_name a else pa_local_name a) = n"
proof -
  let ?ow = "no_owner\<lparr>ao_kind := AbilityOwnerAgent, ao_user_id := u, ao_agent_id := g\<rparr>"
  let ?t = "u @ ''.'' @ g @ ''.'' @ n"
  have dot: "CHR ''.'' \<notin> set u" "CHR ''.'' \<notin> set g" using assms by (simp_all add: seg_def)
  have p: "has_prefix ?t (w @ ''.'') = (u = w)" if "CHR ''.'' \<notin> set w" for w
    using has_prefix_segment [OF dot(1) that, of "g @ ''.'' @ n"] by simp
  have "ParseAbilityTail q ?t = agent_tail q ?t"
    using assms p [of "''authority''"] p [of "''service''"] p [of "''system-agent''"] p [of "''device''"]
    by (auto simp: ParseAbilityTail_def seg_def ability_name_def)
  also have "\<dots> = tail_remainder ?ow n"
    using assms dot by (simp add: agent_tail_def cut_append seg_def)
  finally have eq: "ParseAbilityTail q ?t = tail_remainder ?ow n" .
  obtain a where "tail_remainder ?ow n = Ok a" "pa_owner a = ?ow"
    "(if pa_namespace a \<noteq> [] then pa_namespace a @ ''.'' @ pa_local_name a else pa_local_name a) = n"
    by (rule tail_remainder_name [OF assms(3)])
  with eq that show thesis by simp
qed

lemma service_tail_parse:
  assumes "seg u" and "seg g" and "ability_name n"
  obtains a where "ParseAbilityTail q (''service.'' @ u @ ''.'' @ g @ ''.'' @ n) = Ok a"
    "pa_owner a = no_owner\<lparr>ao_kind := AbilityOwnerService, ao_user_id := u, ao_service_id := g\<rparr>"
    "(if pa_namespace a \<noteq> [] then pa_namespace a @ ''.'' @ pa_local_name a else pa_local_name a) = n"
proof -
  let ?ow = "no_owner\<lparr>ao_kind := AbilityOwnerService, ao_user_id := u, ao_service_id := g\<rparr>"
  let ?t = "''service.'' @ u @ ''.'' @ g @ ''.'' @ n"
  have "\<not> has_prefix ?t ''authority.''" "has_prefix ?t ''service.''"
    "trim_prefix ?t ''service.'' = u @ ''.'' @ g @ ''.'' @ n"
    by (simp_all add: has_prefix_def trim_prefix_def)
  then have eq: "ParseAbilityTail q ?t = tail_remainder ?ow n"
    using assms by (auto simp: ParseAbilityTail_def service_tail_def seg_def ability_name_def cut_append)
  obtain a where "tail_remainder ?ow n = Ok a" "pa_owner a = ?ow"
    "(if pa_namespace a \<noteq> [] then pa_namespace a @ ''.'' @ pa_local_name a else pa_local_name a) = n"
    by (rule tail_remainder_name [OF assms(3)])
  with eq that show thesis by simp
qed

lemma system_agent_tail_parse:
  assumes "seg u" and "seg g" and "ability_name n"
  obtains a where "ParseAbilityTail q (''system-agent.'' @ u @ ''.'' @ g @ ''.'' @ n) = Ok a"
    "pa_owner a = no_owner\<lparr>ao_kind := AbilityOwnerSystemAgent, ao_device_id := u, ao_agent_id := g\<rparr>"
    "(if pa_namespace a \<noteq> [] then pa_namespace a @ ''.'' @ pa_local_name a else pa_local_name a) = n"
proof -
  let ?ow = "no_owner\<lparr>ao_kind := AbilityOwnerSystemAgent, ao_device_id := u, ao_agent_id := g\<rparr>"
  let ?t = "''system-agent.'' @ u @ ''.'' @ g @ ''.'' @ n"
  have "\<not> has_prefix ?t ''authority.''" "\<not> has_prefix ?t ''service.''" "has_prefix ?t ''system-agent.''"
    "trim_prefix ?t ''system-agent.'' = u @ ''.'' @ g @ ''.'' @ n"
    by (simp_all add: has_prefix_def trim_prefix_def)
  then have eq: "ParseAbilityTail q ?t = tail_remainder ?ow n"
    using assms by (auto simp: ParseAbilityTail_def system_agent_tail_def seg_def ability_name_def cut_append)
  obtain a where "tail_remainder ?ow n = Ok a" "pa_owner a = ?ow"
    "(if pa_namespace a \<noteq> [] then pa_namespace a @ ''.'' @ pa_local_name a else pa_local_name a) = n"
    by (rule tail_remainder_name [OF assms(3)])
  with eq that show thesis by simp
qed

lemma authority_tail_parse:
  assumes "ability_name n"
  obtains a where "ParseAbilityTail q (''authority.'' @ n) = Ok a"
    "pa_owner a = no_owner\<lparr>ao_kind := AbilityOwnerAuthority\<rparr>"
    "(if pa_namespace a \<noteq> [] then pa_namespace a @ ''.'' @ pa_local_name a else pa_local_name a) = n"
proof -
  let ?ow = "no_owner\<lparr>ao_kind := AbilityOwnerAuthority\<rparr>"
  have "has_prefix (''authority.'' @ n) ''authority.''" "trim_prefix (''authority.'' @ n) ''authority.'' = n"
    by (simp_all add: has_prefix_def trim_prefix_def)
  then have eq: "ParseAbilityTail q (''authority.'' @ n) = tail_remainder ?ow n"
    using assms by (auto simp: ParseAbilityTail_def ability_name_def)
  obtain a where "tail_remainder ?ow n = Ok a" "pa_owner a = ?ow"
    "(if pa_namespace a \<noteq> [] then pa_namespace a @ ''.'' @ pa_local_name a else pa_local_name a) = n"
    by (rule tail_remainder_name [OF assms(1)])
  with eq that show thesis by simp
qed


section \<open>Owners and the abilities they publish\<close>

lemma cut_or_all_eq: "cut_or_all c s = (a, b) \<Longrightarrow> c \<notin> set a \<and> set a \<subseteq> set s \<and> set b \<subseteq> set s"
  by (cases "cut c s") (auto simp: cut_or_all_def cut_none dest: cut_some)

lemma ParseURAParts_Ok:
  assumes "ParseURAParts q raw = Ok p"
  obtains realm role tail where "realm \<noteq> []" "CHR ''/'' \<notin> set realm" "CHR ''/'' \<notin> set role"
    "parse_role q raw realm role tail = Ok p"
proof -
  from assms obtain realm after where cut: "cut CHR ''/'' (trim_prefix raw ura_scheme) = Some (realm, after)"
    and realm: "realm \<noteq> []" by (auto simp: ParseURAParts_def split: if_splits option.splits)
  obtain role tail where role: "cut_or_all CHR ''/'' after = (role, tail)"
    by (cases "cut_or_all CHR ''/'' after")
  have "parse_role q raw realm role tail = Ok p"
    using assms cut realm role by (simp add: ParseURAParts_def split: if_splits)
  with that [of realm role tail] cut_some [OF cut] realm cut_or_all_eq [OF role] show thesis by auto
qed

lemma agent_parts_Ok:
  assumes "agent_parts q out tail = Ok p" and "pu_device_id out = []"
  obtains (device) d g where "seg d" "seg g" "p = out\<lparr>pu_device_id := d, pu_agent_id := g\<rparr>"
  | (user) u g where "seg u" "seg g" "u \<notin> {''authority'', ''device'', ''system-agent''}"
      "p = out\<lparr>pu_user_id := u, pu_agent_id := g\<rparr>"
proof (cases "has_prefix tail ''device.''")
  case True
  have sub: "set (trim_prefix tail ''device.'') \<subseteq> set tail"
    by (auto simp: trim_prefix_def dest: in_set_dropD)
  from True assms obtain d g where dg: "cut CHR ''.'' (trim_prefix tail ''device.'') = Some (d, g)"
    "d \<noteq> []" "g \<noteq> []" "CHR ''.'' \<notin> set g" "CHR ''/'' \<notin> set tail"
    "p = out\<lparr>pu_device_id := d, pu_agent_id := g\<rparr>"
    by (auto simp: agent_parts_def Let_def split: if_splits option.splits)
  with cut_some [OF dg(1)] sub show thesis by (intro device [of d g]) (auto simp: seg_def)
next
  case False
  with assms obtain u g where ug: "cut CHR ''.'' tail = Some (u, g)" "u \<noteq> []" "g \<noteq> []"
    "CHR ''.'' \<notin> set g" "CHR ''/'' \<notin> set tail" "u \<notin> {''authority'', ''device'', ''system-agent''}"
    "p = out\<lparr>pu_user_id := u, pu_agent_id := g\<rparr>"
    by (auto simp: agent_parts_def Let_def split: if_splits option.splits)
  with cut_some [OF ug(1)] show thesis by (intro user [of u g]) (auto simp: seg_def)
qed

lemma service_parts_Ok:
  assumes "service_parts out tail = Ok p"
  obtains u g where "seg u" "seg g" "p = out\<lparr>pu_user_id := u, pu_service_id := g\<rparr>"
proof -
  from assms obtain u g where ug: "cut CHR ''.'' tail = Some (u, g)" "u \<noteq> []" "g \<noteq> []"
    "CHR ''.'' \<notin> set g" "CHR ''/'' \<notin> set tail" "p = out\<lparr>pu_user_id := u, pu_service_id := g\<rparr>"
    by (auto simp: service_parts_def Let_def split: if_splits option.splits)
  with cut_some [OF ug(1)] show thesis by (intro that [of u g]) (auto simp: seg_def)
qed

lemma ability_parts_kind: "ability_parts out a = Ok p \<Longrightarrow> pu_kind p = pu_kind out"
  by (cases "ao_kind (pa_owner a)") (auto simp: ability_parts_def Let_def)

text \<open>The shape of the addresses that can own abilities.\<close>

lemma owner_parts:
  assumes "ParseURAParts q raw = Ok p" and "pu_kind p \<in> {URAKindAgent, URAKindService, URAKindAuthority}"
  obtains (agent) realm u g where "realm \<noteq> []" "CHR ''/'' \<notin> set realm" "seg u" "seg g"
      "u \<notin> {''authority'', ''device'', ''system-agent''}"
      "p = (bare_ura raw realm URAKindAgent)\<lparr>pu_user_id := u, pu_agent_id := g\<rparr>"
  | (system) realm d g where "realm \<noteq> []" "CHR ''/'' \<notin> set realm" "seg d" "seg g"
      "p = (bare_ura raw realm URAKindAgent)\<lparr>pu_device_id := d, pu_agent_id := g\<rparr>"
  | (service) realm u g where "realm \<noteq> []" "CHR ''/'' \<notin> set realm" "seg u" "seg g"
      "p = (bare_ura raw realm URAKindService)\<lparr>pu_user_id := u, pu_service_id := g\<rparr>"
  | (authority) realm where "realm \<noteq> []" "CHR ''/'' \<notin> set realm"
      "p = bare_ura raw realm URAKindAuthority"
proof -
  obtain realm role tail where r: "realm \<noteq> []" "CHR ''/'' \<notin> set realm"
    and p: "parse_role q raw realm role tail = Ok p"
    by (rule ParseURAParts_Ok [OF assms(1)])
  consider "role = ''user''" | "role = ''device''" | "role = ''service''" | "role = ''agent''"
    | "role = ''ability''" | "role = ''authority''" | "role = ''resource''"
    using p by (auto simp: parse_role_def Let_def split: if_splits)
  then show thesis
  proof cases
    case 3
    then have "service_parts (bare_ura raw realm URAKindService) tail = Ok p"
      using p by (simp add: parse_role_def Let_def URAKindService_def)
    with r service show thesis by (auto elim: service_parts_Ok)
  next
    case 4
    then have "agent_parts q (bare_ura raw realm URAKindAgent) tail = Ok p"
      using p by (simp add: parse_role_def Let_def URAKindAgent_def)
    then show thesis
      by (rule agent_parts_Ok) (use r agent system in \<open>auto simp: bare_ura_def\<close>)
  next
    case 5
    then have "pu_kind p = ''ability''"
      using p by (auto simp: parse_role_def Let_def bindR_Ok_iff bare_ura_def dest!: ability_parts_kind)
    with assms(2) show thesis by (simp add: ura_kinds)
  next
    case 6
    with p r authority show thesis
      by (auto simp: parse_role_def Let_def URAKindAuthority_def bare_ura_def split: if_splits)
  qed (use p assms(2) in \<open>auto simp: parse_role_def Let_def ura_kinds bare_ura_def split: if_splits prod.splits\<close>)
qed

lemma public_name_of_tail:
  assumes "realm \<noteq> []" "CHR ''/'' \<notin> set realm" "ParseAbilityTail q tail = Ok a"
    "ao_kind (pa_owner a) \<noteq> AbilityOwnerUnset"
    "(if pa_namespace a \<noteq> [] then pa_namespace a @ ''.'' @ pa_local_name a else pa_local_name a) = n"
    "ParseURAParts q raw = Ok p" "pu_realm p = realm"
    "pu_kind p = URAKindAgent \<and> pu_device_id p \<noteq> [] \<and> ao_kind (pa_owner a) = AbilityOwnerSystemAgent
       \<and> pu_device_id p = ao_device_id (pa_owner a) \<and> pu_agent_id p = ao_agent_id (pa_owner a)
     \<or> pu_kind p = URAKindAgent \<and> ao_kind (pa_owner a) = AbilityOwnerAgent
       \<and> pu_user_id p = ao_user_id (pa_owner a) \<and> pu_agent_id p = ao_agent_id (pa_owner a)
     \<or> pu_kind p = URAKindAuthority \<and> ao_kind (pa_owner a) = AbilityOwnerAuthority
     \<or> pu_kind p = URAKindService \<and> ao_kind (pa_owner a) = AbilityOwnerService
       \<and> pu_user_id p = ao_user_id (pa_owner a) \<and> pu_service_id p = ao_service_id (pa_owner a)"
  shows "PublicAbilityNameFromAbilityURA q raw (realm_role realm ''ability/'' @ tail) = Some n"
proof -
  obtain m where "ParseURAParts q (realm_role realm ''ability/'' @ tail) = Ok m"
    "pu_realm m = realm" "pu_kind m = URAKindAbility" "pu_ability_owner m = pa_owner a"
    "pu_ability_id m = (if pa_namespace a \<noteq> [] then pa_namespace a @ ''.'' @ pa_local_name a else pa_local_name a)"
    by (rule parse_ability [OF assms(1-4)])
  with assms(5-8) show ?thesis
    by (auto simp: PublicAbilityNameFromAbilityURA_def Let_def ura_kinds)
qed

lemma owner_name_given:
  assumes "ParseURAParts q (trim_space owner) = Ok p" and "ability_name (trim_space name)"
  shows "trim_space name \<noteq> []" "trim_space owner \<noteq> []"
  using assms by (auto simp: ability_name_def ParseURAParts_def ura_scheme_def has_prefix_def)

lemma agent_name_back:
  assumes parts: "ParseURAParts q (trim_space owner) = Ok p" and name: "ability_name (trim_space name)"
    and agent: "realm \<noteq> []" "CHR ''/'' \<notin> set realm" "seg u" "seg g"
      "p = (bare_ura (trim_space owner) realm URAKindAgent)\<lparr>pu_user_id := u, pu_agent_id := g\<rparr>"
    and u: "u \<notin> {''authority'', ''device'', ''system-agent'', ''service''}"
  shows "PublicAbilityNameFromAbilityURA q (trim_space owner) (OwnerAbilityURA q owner name)
    = Some (trim_space name)"
proof -
  let ?n = "trim_space name"
  note ne = owner_name_given [OF parts name]
  have tail: "OwnerAbilityURA q owner name = realm_role realm ''ability/'' @ u @ ''.'' @ g @ ''.'' @ ?n"
    using parts ne agent
    by (simp add: OwnerAbilityURA_def AbilityURA_def bare_ura_def seg_def ura_kinds)
  obtain a where a: "ParseAbilityTail q (u @ ''.'' @ g @ ''.'' @ ?n) = Ok a"
    "pa_owner a = no_owner\<lparr>ao_kind := AbilityOwnerAgent, ao_user_id := u, ao_agent_id := g\<rparr>"
    "(if pa_namespace a \<noteq> [] then pa_namespace a @ ''.'' @ pa_local_name a else pa_local_name a) = ?n"
    by (rule agent_tail_parse [OF agent(3,4) name u])
  show ?thesis
    unfolding tail
    by (rule public_name_of_tail [OF agent(1,2) a(1) _ a(3) parts])
       (use a(2) agent in \<open>simp_all add: bare_ura_def no_owner_def\<close>)
qed

lemma system_name_back:
  assumes parts: "ParseURAParts q (trim_space owner) = Ok p" and name: "ability_name (trim_space name)"
    and system: "realm \<noteq> []" "CHR ''/'' \<notin> set realm" "seg d" "seg g"
      "p = (bare_ura (trim_space owner) realm URAKindAgent)\<lparr>pu_device_id := d, pu_agent_id := g\<rparr>"
  shows "PublicAbilityNameFromAbilityURA q (trim_space owner) (OwnerAbilityURA q owner name)
    = Some (trim_space name)"
proof -
  let ?n = "trim_space name"
  note ne = owner_name_given [OF parts name]
  have tail: "OwnerAbilityURA q owner name
      = realm_role realm ''ability/'' @ ''system-agent.'' @ d @ ''.'' @ g @ ''.'' @ ?n"
    using parts ne system
    by (simp add: OwnerAbilityURA_def SystemAgentAbilityURA_def bare_ura_def seg_def ura_kinds)
  obtain a where a: "ParseAbilityTail q (''system-agent.'' @ d @ ''.'' @ g @ ''.'' @ ?n) = Ok a"
    "pa_owner a = no_owner\<lparr>ao_kind := AbilityOwnerSystemAgent, ao_device_id := d, ao_agent_id := g\<rparr>"
    "(if pa_namespace a \<noteq> [] then pa_namespace a @ ''.'' @ pa_local_name a else pa_local_name a) = ?n"
    by (rule system_agent_tail_parse [OF system(3,4) name])
  show ?thesis
    unfolding tail
    by (rule public_name_of_tail [OF system(1,2) a(1) _ a(3) parts])
       (use a(2) system in \<open>simp_all add: bare_ura_def no_owner_def seg_def\<close>)
qed

lemma service_name_back:
  assumes parts: "ParseURAParts q (trim_space owner) = Ok p" and name: "ability_name (trim_space name)"
    and service: "realm \<noteq> []" "CHR ''/'' \<notin> set realm" "seg u" "seg g"
      "p = (bare_ura (trim_space owner) realm URAKindService)\<lparr>pu_user_id := u, pu_service_id := g\<rparr>"
  shows "PublicAbilityNameFromAbilityURA q (trim_space owner) (OwnerAbilityURA q owner name)
    = Some (trim_space name)"
proof -
  let ?n = "trim_space name"
  note ne = owner_name_given [OF parts name]
  have tail: "OwnerAbilityURA q owner name
      = realm_role realm ''ability/'' @ ''service.'' @ u @ ''.'' @ g @ ''.'' @ ?n"
    using parts ne service
    by (simp add: OwnerAbilityURA_def ServiceAbilityURA_def bare_ura_def seg_def ura_kinds)
  obtain a where a: "ParseAbilityTail q (''service.'' @ u @ ''.'' @ g @ ''.'' @ ?n) = Ok a"
    "pa_owner a = no_owner\<lparr>ao_kind := AbilityOwnerService, ao_user_id := u, ao_service_id := g\<rparr>"
    "(if pa_namespace a \<noteq> [] then pa_namespace a @ ''.'' @ pa_local_name a else pa_local_name a) = ?n"
    by (rule service_tail_parse [OF service(3,4) name])
  show ?thesis
    unfolding tail
    by (rule public_name_of_tail [OF service(1,2) a(1) _ a(3) parts])
       (use a(2) service in \<open>simp_all add: bare_ura_def no_owner_def seg_def\<close>)
qed

lemma authority_name_back:
  assumes parts: "ParseURAParts q (trim_space owner) = Ok p" and name: "ability_name (trim_space name)"
    and authority: "realm \<noteq> []" "CHR ''/'' \<notin> set realm"
      "p = bare_ura (trim_space owner) realm URAKindAuthority"
    and plain: "CHR ''.'' \<in> set (trim_space name)" "\<not> has_prefix (trim_space name) ''01AUTHORITY.''"
  shows "PublicAbilityNameFromAbilityURA q (trim_space owner) (OwnerAbilityURA q owner name)
    = Some (trim_space name)"
proof -
  let ?n = "trim_space name"
  note ne = owner_name_given [OF parts name]
  have tail: "OwnerAbilityURA q owner name = realm_role realm ''ability/'' @ ''authority.'' @ ?n"
    using parts plain ne authority by (simp add: OwnerAbilityURA_def bare_ura_def ura_kinds)
  obtain a where a: "ParseAbilityTail q (''authority.'' @ ?n) = Ok a"
    "pa_owner a = no_owner\<lparr>ao_kind := AbilityOwnerAuthority\<rparr>"
    "(if pa_namespace a \<noteq> [] then pa_namespace a @ ''.'' @ pa_local_name a else pa_local_name a) = ?n"
    by (rule authority_tail_parse [OF name])
  show ?thesis
    unfolding tail
    by (rule public_name_of_tail [OF authority(1,2) a(1) _ a(3) parts])
       (use a(2) authority in \<open>simp_all add: bare_ura_def no_owner_def\<close>)
qed

text \<open>An authority publishes no name of one segment and none under its reserved prefix.\<close>

definition refused_name :: "string \<Rightarrow> bool" where
  "refused_name name = (CHR ''.'' \<notin> set name \<or> has_prefix name ''01AUTHORITY.'')"

lemma authority_refuses:
  assumes "ParseURAParts q (trim_space owner) = Ok p" and "pu_kind p = URAKindAuthority"
    and "refused_name (trim_space name)"
  shows "OwnerAbilityURA q owner name = []"
proof -
  have kinds: "URAKindAuthority \<noteq> URAKindAgent" "URAKindAuthority \<noteq> URAKindService" by code_simp+
  show ?thesis using assms(3) by (auto simp: OwnerAbilityURA_def Let_def refused_name_def assms(1,2) kinds)
qed

text \<open>C21: what an owner publishes is found under its name.  Let the owner address name an
  agent (of a user other than \<open>service\<close>), a service or the authority, and let the name be
  one segment, or a namespace and a local name.  An authority refuses, with an empty
  address, a name of one segment and a name that begins with \<open>01AUTHORITY.\<close>; in every other
  case the address \<open>OwnerAbilityURA\<close> builds parses as an ability of that owner, and
  \<open>PublicAbilityNameFromAbilityURA\<close> gives the name back.\<close>

theorem owner_ability_roundtrip:
  assumes "ParseURAParts q (trim_space owner) = Ok p"
    and "pu_kind p \<in> {URAKindAgent, URAKindService, URAKindAuthority}"
    and "pu_kind p = URAKindAgent \<longrightarrow> pu_user_id p \<noteq> ''service''"
    and "ability_name (trim_space name)"
  shows "if pu_kind p = URAKindAuthority
      \<and> (CHR ''.'' \<notin> set (trim_space name) \<or> has_prefix (trim_space name) ''01AUTHORITY.'')
    then OwnerAbilityURA q owner name = []
    else PublicAbilityNameFromAbilityURA q (trim_space owner) (OwnerAbilityURA q owner name)
      = Some (trim_space name)"
proof (cases "pu_kind p = URAKindAuthority \<and> refused_name (trim_space name)")
  case True
  with authority_refuses [OF assms(1)] show ?thesis by (simp add: refused_name_def)
next
  case False
  from assms(1,2) have "PublicAbilityNameFromAbilityURA q (trim_space owner) (OwnerAbilityURA q owner name)
      = Some (trim_space name)"
  proof (cases rule: owner_parts)
    case (agent realm u g)
    then show ?thesis
      by (intro agent_name_back [OF assms(1,4) agent(1-4,6)]) (use assms(3) in \<open>auto simp: bare_ura_def\<close>)
  next
    case (system realm d g)
    then show ?thesis by (rule system_name_back [OF assms(1,4)])
  next
    case (service realm u g)
    then show ?thesis by (rule service_name_back [OF assms(1,4)])
  next
    case (authority realm)
    then show ?thesis
      by (intro authority_name_back [OF assms(1,4) authority])
        (use False in \<open>auto simp: bare_ura_def refused_name_def\<close>)
  qed
  with False show ?thesis by (auto simp: refused_name_def)
qed

theorem owner_ability_roundtrip_witness:
  "PublicAbilityNameFromAbilityURA (\<lambda>s. s) (trim_space ''easynet:///r/acme/agent/device.d1.bot'')
     (OwnerAbilityURA (\<lambda>s. s) ''easynet:///r/acme/agent/device.d1.bot'' ''files.read'')
   = Some (trim_space ''files.read'')"
proof -
  let ?owner = "''easynet:///r/acme/agent/device.d1.bot''"
  let ?p = "(bare_ura ?owner ''acme'' ''agent'')\<lparr>pu_device_id := ''d1'', pu_agent_id := ''bot''\<rparr>"
  have parts: "ParseURAParts (\<lambda>s. s) (trim_space ?owner) = Ok ?p" by code_simp
  have kind: "pu_kind ?p = URAKindAgent" "pu_user_id ?p \<noteq> ''service''" by code_simp+
  have name: "ability_name (trim_space ''files.read'')" by code_simp
  have other: "URAKindAgent \<noteq> URAKindAuthority" by code_simp
  from owner_ability_roundtrip [OF parts _ _ name] kind other show ?thesis by simp
qed

text \<open>The tokens reserved for agent owners omit \<open>service\<close>: the address of the agent
  \<open>a\<close> of a user named \<open>service\<close> parses, its ability \<open>b.c\<close> gets the very address of the ability
  \<open>c\<close> of the service \<open>a.b\<close>, the service finds that ability under \<open>c\<close>, and the agent that
  published it does not find it.\<close>

theorem service_owner_collision:
  "is_ok (ParseURAParts q (AgentURA ''acme'' ''service'' ''a''))
   \<and> OwnerAbilityURA q (AgentURA ''acme'' ''service'' ''a'') ''b.c''
     = OwnerAbilityURA q (ServiceURA ''acme'' ''a'' ''b'') ''c''
   \<and> PublicAbilityNameFromAbilityURA q (ServiceURA ''acme'' ''a'' ''b'')
       (OwnerAbilityURA q (AgentURA ''acme'' ''service'' ''a'') ''b.c'') = Some ''c''
   \<and> PublicAbilityNameFromAbilityURA q (AgentURA ''acme'' ''service'' ''a'')
       (OwnerAbilityURA q (AgentURA ''acme'' ''service'' ''a'') ''b.c'') = None"
  by (intro conjI; code_simp)


section \<open>Descriptor references of the client and of the runtime\<close>

text \<open>What a successful parse of the client says about its input and its result.\<close>

lemma client_ref_Ok:
  assumes "client_ParseAbilityDescriptorRef q s = Ok c"
  obtains u w v x d a bs where
    "split_once CHR ''@'' (trim_space s) = Some (u, w)" "split_once CHR ''#'' w = Some (v, x)"
    "split_once CHR ''!'' x = Some (d, a)" "u \<noteq> []" "trim_space s \<noteq> []" "v \<noteq> []"
    "length d = 64" "isASCIIHex d" "hex_decode d = Some bs" "isAdmissionAction a"
    "c = \<lparr>cd_raw = u @ CHR ''@'' # v @ CHR ''#'' # map ascii_lower d @ CHR ''!'' # a,
        cd_ability_ura = u, cd_version = v, cd_descriptor_hash = map ascii_lower d, cd_action = a\<rparr>"
proof -
  from assms obtain u w where s1: "split_once CHR ''@'' (trim_space s) = Some (u, w)"
    and ne: "u \<noteq> []" "trim_space s \<noteq> []" and cv: "client_version u w = Ok c"
    by (auto simp: client_ParseAbilityDescriptorRef_def Let_def invalidAbilityDescriptorRef_def
        split: if_splits option.splits result.splits)
  from cv obtain v x where s2: "split_once CHR ''#'' w = Some (v, x)" "v \<noteq> []"
    and cd: "client_digest_action u v x = Ok c"
    by (auto simp: client_version_def invalidAbilityDescriptorRef_def split: if_splits option.splits)
  from cd obtain d a bs where "split_once CHR ''!'' x = Some (d, a)"
    "length d = 64" "isASCIIHex d" "hex_decode d = Some bs" "isAdmissionAction a"
    "c = \<lparr>cd_raw = u @ CHR ''@'' # v @ CHR ''#'' # map ascii_lower d @ CHR ''!'' # a,
        cd_ability_ura = u, cd_version = v, cd_descriptor_hash = map ascii_lower d, cd_action = a\<rparr>"
    by (auto simp: client_digest_action_def invalidAbilityDescriptorRef_def
        split: if_splits option.splits)
  with that s1 s2 ne show thesis by blast
qed

text \<open>The reference the client prints is read with the same address.\<close>

lemma client_ref_ability:
  assumes "client_ParseAbilityDescriptorRef q s = Ok c" and "AbilityURAFromDescriptorRef (cd_raw c) = Ok u"
  shows "u = cd_ability_ura c"
proof -
  obtain u1 w v x d a bs where
    s: "split_once CHR ''@'' (trim_space s) = Some (u1, w)" "split_once CHR ''#'' w = Some (v, x)"
    and ne: "u1 \<noteq> []" "v \<noteq> []" and d: "length d = 64" "isASCIIHex d" and a: "isAdmissionAction a"
    and c: "c = \<lparr>cd_raw = u1 @ CHR ''@'' # v @ CHR ''#'' # map ascii_lower d @ CHR ''!'' # a,
        cd_ability_ura = u1, cd_version = v, cd_descriptor_hash = map ascii_lower d, cd_action = a\<rparr>"
    by (rule client_ref_Ok [OF assms(1)])
  note u1 = split_once_Some [OF s(1)] and v = split_once_Some [OF s(2)]
  have "CHR ''@'' \<notin> set v" using u1(4) v(5) by blast
  note split = ref_text_splits(1,2) [OF u1(1) ne(1) u1(3) v(1) ne(2) this v(3) d a]
  from assms(2) split(2) trim_space_trimmed [OF split(1)] show ?thesis
    by (auto simp: c AbilityURAFromDescriptorRef_def bindR_Ok_iff ParseAbilityDescriptorRef_def Let_def
        parse_version_def parse_digest_action_def split: if_splits option.splits)
qed

text \<open>The client and the runtime read ability descriptor references alike up to their
  grammars of the ability address: what the client's parser accepts, the runtime's parser
  accepts exactly when its own grammar admits the address, and then with the same canonical
  text, address, version and action and with the bytes of the digest the client printed.\<close>

theorem client_refs_agree:
  assumes "client_ParseAbilityDescriptorRef q s = Ok c"
  shows "ParseAbilityDescriptorRef s = bindR (requireAbilityURA (cd_ability_ura c)) (\<lambda>_.
      Ok \<lparr>ad_raw = cd_raw c, ad_ability_ura = cd_ability_ura c, ad_version = cd_version c,
          ad_descriptor_hash = hash_of_bytes (the (hex_decode (cd_descriptor_hash c))),
          ad_admission_action = cd_action c\<rparr>)"
proof -
  obtain u w v x d a bs where s1: "split_once CHR ''@'' (trim_space s) = Some (u, w)"
    and s2: "split_once CHR ''#'' w = Some (v, x)" and s3: "split_once CHR ''!'' x = Some (d, a)"
    and ne: "u \<noteq> []" "trim_space s \<noteq> []" "v \<noteq> []"
    and d: "length d = 64" "isASCIIHex d" "hex_decode d = Some bs" "isAdmissionAction a"
    and c: "c = \<lparr>cd_raw = u @ CHR ''@'' # v @ CHR ''#'' # map ascii_lower d @ CHR ''!'' # a,
        cd_ability_ura = u, cd_version = v, cd_descriptor_hash = map ascii_lower d, cd_action = a\<rparr>"
    by (rule client_ref_Ok [OF assms])
  have "parse_version u w = Ok \<lparr>ad_raw = cd_raw c, ad_ability_ura = u, ad_version = v,
      ad_descriptor_hash = hash_of_bytes bs, ad_admission_action = a\<rparr>"
    using s2 s3 ne d c by (simp add: parse_version_def parse_digest_action_def)
  with s1 ne c hex_decode_lower [OF d(2)] d(3) show ?thesis
    by (simp add: ParseAbilityDescriptorRef_def Let_def)
qed

definition sample_ref :: string where
  "sample_ref = '' easynet:///r/acme/ability/u.a.chat@1.0#'' @ concat (replicate 32 ''AB'') @ ''!invoke''"

theorem client_refs_agree_witness:
  "ParseAbilityDescriptorRef sample_ref
   = Ok \<lparr>ad_raw = ''easynet:///r/acme/ability/u.a.chat@1.0#'' @ concat (replicate 32 ''ab'') @ ''!invoke'',
         ad_ability_ura = ''easynet:///r/acme/ability/u.a.chat'', ad_version = ''1.0'',
         ad_descriptor_hash = hash_of_bytes (replicate 32 171), ad_admission_action = ''invoke''\<rparr>"
proof -
  let ?c = "\<lparr>cd_raw = ''easynet:///r/acme/ability/u.a.chat@1.0#'' @ concat (replicate 32 ''ab'') @ ''!invoke'',
     cd_ability_ura = ''easynet:///r/acme/ability/u.a.chat'', cd_version = ''1.0'',
     cd_descriptor_hash = concat (replicate 32 ''ab''), cd_action = ''invoke''\<rparr>"
  have "client_ParseAbilityDescriptorRef (\<lambda>s. s) sample_ref = Ok ?c" by code_simp
  from client_refs_agree [OF this] have "ParseAbilityDescriptorRef sample_ref
      = bindR (requireAbilityURA ''easynet:///r/acme/ability/u.a.chat'') (\<lambda>_.
        Ok \<lparr>ad_raw = cd_raw ?c, ad_ability_ura = cd_ability_ura ?c, ad_version = cd_version ?c,
          ad_descriptor_hash = hash_of_bytes (the (hex_decode (cd_descriptor_hash ?c))),
          ad_admission_action = cd_action ?c\<rparr>)" by simp
  moreover have "requireAbilityURA ''easynet:///r/acme/ability/u.a.chat'' = Ok ()" by code_simp
  moreover have "hex_decode (concat (replicate 32 ''ab'')) = Some (replicate 32 171)" by code_simp
  ultimately show ?thesis by simp
qed

text \<open>The two grammars of ability addresses disagree: the runtime's \<open>isAbilityTail\<close>
  admits a service tail without a name, an authority tail of one segment and a tail ending in
  an empty name where the client's \<open>ParseAbilityTail\<close> is stricter or looser, so that an
  address one of them builds the other can reject.\<close>

theorem tail_grammars_differ:
  "map (\<lambda>t. (isAbilityTail t, is_ok (ParseAbilityTail q t)))
     [''service.a.b'', ''authority.x'', ''u.a.x.'', ''u.a.n.m'']
   = [(True, False), (False, True), (True, False), (True, True)]"
  by code_simp

section \<open>Invocation subjects\<close>

lemma ParseSubjectURA_Ok:
  assumes "ParseSubjectURA raw = Ok s"
  shows "su_raw s = trim_space raw" and "ParseSubjectURA (su_raw s) = Ok s"
  using assms by (auto simp: ParseSubjectURA_def Let_def split: if_splits)

lemma principal_char_solid:
  assumes "principal_char c"
  shows "solid c" and "c \<noteq> CHR ''/''"
proof -
  have "list_all (list_all (\<lambda>d. \<not> principal_char d)) ws_seqs"
    by (simp add: ws_seqs_def ws_ascii_def ws_unicode_def principal_char_def Let_def)
  with assms show "solid c" by (auto simp: solid_def list_all_iff)
  have "\<not> principal_char CHR ''/''" by code_simp
  with assms show "c \<noteq> CHR ''/''" by auto
qed

lemma trimmed_ends:
  assumes "solid c" and "solid d"
  shows "trimmed (c # m @ [d])"
proof -
  have "\<not> has_prefix (c # r) w \<and> \<not> has_prefix (d # r) (rev w)" if w: "w \<in> set ws_seqs" for w r
  proof -
    from w have ne: "w \<noteq> []" using ws_seqs_nonempty(1) by blast
    then have "hd w \<in> set w" "last w \<in> set w" by simp_all
    moreover have "c \<notin> set w" "d \<notin> set w" using assms w by (simp_all add: solid_def)
    moreover have "hd w = c" if "has_prefix (c # r) w" for r
      using that ne by (cases w) (auto simp: has_prefix_iff)
    moreover have "last w = d" if "has_prefix (d # r) (rev w)" for r
      using that ne by (cases w rule: rev_cases) (auto simp: has_prefix_iff)
    ultimately show ?thesis by metis
  qed
  then show ?thesis by (auto simp: trimmed_def no_lead_def)
qed

lemma realmFromAbilityURA_Ok:
  assumes "realmFromAbilityURA u = Ok realm"
  shows "realm \<noteq> []" and "CHR ''/'' \<notin> set realm"
  using assms by (auto simp: realmFromAbilityURA_def Let_def split: if_splits option.splits dest!: cut_some)

lemma principal_subject_parses:
  assumes "realm \<noteq> []" and "CHR ''/'' \<notin> set realm" and "n \<noteq> []" and "list_all principal_char n"
  shows "ParseSubjectURA (realm_role realm ''resource/sdk.principal/'' @ n)
    = Ok (SubjectURA (realm_role realm ''resource/sdk.principal/'' @ n))"
proof -
  let ?m = "realm @ CHR ''/'' # ''resource'' @ CHR ''/'' # ''sdk.principal'' @ CHR ''/'' # n"
  have raw: "realm_role realm ''resource/sdk.principal/'' @ n = ura_scheme @ ?m"
    by (simp add: realm_role_def)
  obtain m d where n: "n = m @ [d]" using assms(3) by (cases n rule: rev_cases) auto
  with assms(4) have "solid d" by (simp add: principal_char_solid(1))
  moreover have "solid CHR ''e''" by (simp add: solid_def ws_seqs_def ws_ascii_def ws_unicode_def)
  ultimately have "trimmed (CHR ''e'' # (''asynet:///r/'' @ realm @ ''/resource/sdk.principal/'' @ m) @ [d])"
    by (rule trimmed_ends [rotated])
  then have t: "trim_space (ura_scheme @ ?m) = ura_scheme @ ?m"
    by (simp add: n ura_scheme_def trim_space_trimmed)
  have "CHR ''/'' \<notin> set n"
    using assms(4) principal_char_solid(2) by (auto simp: list_all_iff)
  then have parts: "split_on CHR ''/'' ?m = [realm, ''resource'', ''sdk.principal'', n]"
    using split_on_append [OF assms(2), of "''resource'' @ CHR ''/'' # ''sdk.principal'' @ CHR ''/'' # n"]
      split_on_append [of "CHR ''/''" "''resource''" "''sdk.principal'' @ CHR ''/'' # n"]
      split_on_append [of "CHR ''/''" "''sdk.principal''" n]
    by (simp add: split_on_no_sep)
  define k where "k = ?m"
  have "ura_scheme @ k \<noteq> []" "has_prefix (ura_scheme @ k) ura_scheme"
    by (simp_all add: ura_scheme_def has_prefix_def)
  with assms(1,3) t parts show ?thesis
    unfolding raw k_def [symmetric] by (simp add: ParseSubjectURA_def Let_def)
qed

text \<open>Every subject an invocation is built with is canonical: whatever principal,
  ability reference and default the caller gives, the subject \<open>SubjectURAForInvocation\<close>
  returns passes the subject parser unchanged.\<close>

theorem subject_canonical:
  assumes "SubjectURAForInvocation q principalID abilityRef defaultURA = Ok s"
  shows "ParseSubjectURA (su_raw s) = Ok s"
proof -
  let ?n = "trim_space principalID"
  consider raw where "ParseSubjectURA raw = Ok s"
    | realm u where "realmFromAbilityURA u = Ok realm" "?n \<noteq> []" "list_all principal_char ?n"
        "s = SubjectURA (realm_role realm ''resource/sdk.principal/'' @ ?n)"
    using assms by (auto simp: SubjectURAForInvocation_def Let_def bindR_Ok_iff split: if_splits)
  then show ?thesis
  proof cases
    case 1
    then show ?thesis by (rule ParseSubjectURA_Ok(2))
  next
    case 2
    with principal_subject_parses [OF realmFromAbilityURA_Ok [OF 2(1)] 2(2,3)] show ?thesis by simp
  qed
qed

theorem subject_canonical_witness:
  "ParseSubjectURA ''easynet:///r/acme/resource/sdk.principal/alice''
   = Ok (SubjectURA ''easynet:///r/acme/resource/sdk.principal/alice'')"
proof -
  have "SubjectURAForInvocation (\<lambda>s. s) ''alice '' sample_ref []
      = Ok (SubjectURA ''easynet:///r/acme/resource/sdk.principal/alice'')" by code_simp
  from subject_canonical [OF this] show ?thesis by simp
qed

end
