(* ===== verification/Streams.thy ===== *)
theory Streams
  imports ErrorModel
begin

text \<open>
  The credit-controlled loopback streams of the client (\<open>axon/streams.go\<close>): a buffered
  channel of frames, a counting semaphore of credits, cancellation and closing.  A channel
  is its buffer and its capacity; where a \<open>select\<close> can go several ways, the way it goes is
  an argument, and \<open>None\<close> means that this way is not ready.
\<close>

section \<open>Frames and the shared state\<close>

record stream_frame =
  sf_data :: bytes
  sf_meta :: "string \<rightharpoonup> string"
  sf_terminal :: bool

definition NewStreamFrame :: "bytes \<Rightarrow> stream_frame" where
  "NewStreamFrame d = \<lparr>sf_data = d, sf_meta = Map.empty, sf_terminal = False\<rparr>"

definition TerminalFrame :: "string \<Rightarrow> stream_frame" where
  "TerminalFrame reason = \<lparr>sf_data = [], sf_meta = [''reason'' \<mapsto> reason], sf_terminal = True\<rparr>"

definition ErrStreamCancelled :: "'a result" where
  "ErrStreamCancelled = Fail (PlainErr ''stream cancelled'')"

definition ErrStreamTimeout :: "'a result" where
  "ErrStreamTimeout = Fail (PlainErr ''stream push timeout (no credit)'')"

record stream_inner =
  si_frames :: "stream_frame list"
  si_capacity :: nat
  si_credit :: nat
  si_max_credit :: nat
  si_cancelled :: bool
  si_cancel_reason :: string
  si_closed :: bool
  si_terminal_seen :: bool

definition newStreamInner :: "int \<Rightarrow> stream_inner" where
  "newStreamInner initialCredit =
     (let n = nat (if initialCredit < 1 then 1 else initialCredit) in
      \<lparr>si_frames = [], si_capacity = n + 1, si_credit = n, si_max_credit = n, si_cancelled = False,
       si_cancel_reason = [], si_closed = False, si_terminal_seen = False\<rparr>)"

definition DefaultLoopbackInitialCredit :: int where
  "DefaultLoopbackInitialCredit = 64"

definition Loopback :: "int \<Rightarrow> stream_inner" where
  "Loopback initialCredit =
     newStreamInner (if initialCredit \<le> 0 then DefaultLoopbackInitialCredit else initialCredit)"

text \<open>The two channels: a send that is not blocked, and a token put back unless the
  semaphore is full.\<close>

definition room :: "stream_inner \<Rightarrow> bool" where
  "room s = (length (si_frames s) < si_capacity s)"

definition send_frame :: "stream_frame \<Rightarrow> stream_inner \<Rightarrow> stream_inner" where
  "send_frame f s = s\<lparr>si_frames := si_frames s @ [f]\<rparr>"

definition restore_credit :: "stream_inner \<Rightarrow> stream_inner" where
  "restore_credit s = (if si_credit s < si_max_credit s then s\<lparr>si_credit := si_credit s + 1\<rparr> else s)"

section \<open>Producing\<close>

definition push_check :: "stream_inner \<Rightarrow> unit result" where
  "push_check s = (if si_cancelled s
     then Fail (PlainErr (''stream cancelled: '' @ si_cancel_reason s)) else Ok ())"

datatype credit_choice = CreditReady | CreditCancelled | CreditTimer

definition push_credit ::
  "i64 \<Rightarrow> credit_choice \<Rightarrow> stream_inner \<Rightarrow> (stream_inner \<times> unit result) option" where
  "push_credit timeout choice s =
     (case choice of
        CreditReady \<Rightarrow> if si_credit s > 0 then Some (s\<lparr>si_credit := si_credit s - 1\<rparr>, Ok ()) else None
      | CreditCancelled \<Rightarrow> if si_cancelled s then Some (s, ErrStreamCancelled) else None
      | CreditTimer \<Rightarrow> if sint timeout > 0 then Some (s, ErrStreamTimeout) else None)"

datatype send_choice = SendReady | SendCancelled

definition push_send ::
  "stream_frame \<Rightarrow> send_choice \<Rightarrow> stream_inner \<Rightarrow> (stream_inner \<times> unit result) option" where
  "push_send frame choice s =
     (case choice of
        SendReady \<Rightarrow> if room s then Some (send_frame frame s, Ok ()) else None
      | SendCancelled \<Rightarrow>
          if si_cancelled s
          then Some (if \<not> sf_terminal frame then restore_credit s else s, ErrStreamCancelled)
          else None)"

definition push ::
  "stream_frame \<Rightarrow> i64 \<Rightarrow> credit_choice \<Rightarrow> send_choice \<Rightarrow> stream_inner \<Rightarrow>
   (stream_inner \<times> unit result) option" where
  "push frame timeout creditChoice sendChoice s =
     (case push_check s of
        Ok _ \<Rightarrow>
          if sf_terminal frame then push_send frame sendChoice s
          else (case push_credit timeout creditChoice s of
                  Some (s', Ok _) \<Rightarrow> push_send frame sendChoice s'
                | blocked_or_failed \<Rightarrow> blocked_or_failed)
      | failed \<Rightarrow> Some (s, failed))"

section \<open>Consuming\<close>

definition next_check :: "stream_inner \<Rightarrow> bool" where
  "next_check s = (\<not> si_terminal_seen s)"

definition next_receive :: "stream_inner \<Rightarrow> (stream_frame \<times> stream_inner) option" where
  "next_receive s = (case si_frames s of [] \<Rightarrow> None | f # fs \<Rightarrow> Some (f, s\<lparr>si_frames := fs\<rparr>))"

definition next_finish :: "stream_frame \<Rightarrow> stream_inner \<Rightarrow> stream_inner" where
  "next_finish f s = (if sf_terminal f then s\<lparr>si_terminal_seen := True\<rparr> else restore_credit s)"

text \<open>\<open>nextFrame\<close>: \<open>timer\<close> tells whether the timer fired first.\<close>

definition nextFrame ::
  "i64 \<Rightarrow> bool \<Rightarrow> stream_inner \<Rightarrow> (stream_inner \<times> stream_frame option) option" where
  "nextFrame timeout timer s =
     (if \<not> next_check s then Some (s, None)
      else if timer then (if sint timeout > 0 then Some (s, None) else None)
      else (case next_receive s of
              None \<Rightarrow> None
            | Some (f, s') \<Rightarrow> Some (next_finish f s', Some f)))"

section \<open>Cancelling, closing, granting\<close>

definition cancel_mark :: "string \<Rightarrow> stream_inner \<Rightarrow> stream_inner" where
  "cancel_mark reason s = s\<lparr>si_cancelled := True, si_cancel_reason := reason\<rparr>"

definition cancel_wake :: "stream_inner \<Rightarrow> stream_inner" where
  "cancel_wake s = (if room s then send_frame (TerminalFrame (si_cancel_reason s)) s else s)"

definition stream_cancel :: "string \<Rightarrow> stream_inner \<Rightarrow> stream_inner" where
  "stream_cancel reason s = (if si_cancelled s then s else cancel_wake (cancel_mark reason s))"

definition stream_close :: "string \<Rightarrow> stream_inner \<Rightarrow> stream_inner" where
  "stream_close reason s =
     (if si_cancelled s then s
      else if si_closed s then s
      else (let s' = s\<lparr>si_closed := True\<rparr> in
            if room s then send_frame (TerminalFrame reason) s' else stream_cancel reason s'))"

text \<open>\<open>grantCredit\<close> puts up to \<open>n\<close> tokens back, as many as the semaphore takes.\<close>

definition grantCredit :: "int \<Rightarrow> stream_inner \<Rightarrow> stream_inner" where
  "grantCredit n s = s\<lparr>si_credit := si_credit s + min (nat n) (si_max_credit s - si_credit s)\<rparr>"

definition stream_Cancelled :: "stream_inner \<Rightarrow> bool" where
  "stream_Cancelled s = si_cancelled s"

text \<open>\<open>Drain\<close> while nobody produces: the number of frames and the frames given to the
  consumer; \<open>None\<close> when it waits or polls for ever, on an empty channel or after the
  terminal frame has been seen.\<close>

function Drain :: "stream_inner \<Rightarrow> (stream_inner \<times> nat \<times> stream_frame list) option" where
  "Drain s =
     (case nextFrame 0 False s of
        Some (s', Some f) \<Rightarrow>
          if sf_terminal f then Some (s', 0, [])
          else (case Drain s' of
                  None \<Rightarrow> None
                | Some (s'', count, fs) \<Rightarrow> Some (s'', count + 1, f # fs))
      | _ \<Rightarrow> None)"
  by pat_completeness auto

termination
  by (relation "measure (\<lambda>s. length (si_frames s))")
     (auto simp: nextFrame_def next_receive_def next_finish_def restore_credit_def
       split: if_splits list.splits)

declare Drain.simps [simp del]

section \<open>Producers, consumers and cancellers interleaved\<close>

text \<open>Each section between two channel operations is a step.  The counters are the goroutines
  inside an operation: producers that passed the first check, producers that hold a credit,
  producers of a terminal frame, consumers that passed the check, consumers that hold a
  terminal frame and those about to return a credit, and a canceller between closing its
  channel and sending the terminal frame.  \<open>ys_sent\<close>, \<open>ys_delivered\<close> and \<open>ys_granted\<close>
  record what happened.\<close>

record stream_system =
  ys_inner :: stream_inner
  ys_entered :: nat
  ys_holding :: nat
  ys_terminals :: nat
  ys_waiting :: nat
  ys_marking :: nat
  ys_returning :: nat
  ys_closers :: nat
  ys_cancelling :: bool
  ys_sent :: "stream_frame list"
  ys_delivered :: "stream_frame list"
  ys_granted :: bool

definition stream_initial :: "stream_system \<Rightarrow> bool" where
  "stream_initial y = (\<exists>n. y = \<lparr>ys_inner = Loopback n, ys_entered = 0, ys_holding = 0,
     ys_terminals = 0, ys_waiting = 0, ys_marking = 0, ys_returning = 0, ys_closers = 0,
     ys_cancelling = False, ys_sent = [], ys_delivered = [], ys_granted = False\<rparr>)"

definition sent_by :: "stream_frame \<Rightarrow> stream_system \<Rightarrow> stream_system" where
  "sent_by f y = y\<lparr>ys_inner := send_frame f (ys_inner y), ys_sent := ys_sent y @ [f]\<rparr>"

inductive stream_step :: "stream_system \<Rightarrow> stream_system \<Rightarrow> bool" where
  enter: "push_check (ys_inner y) = Ok () \<Longrightarrow> stream_step y (y\<lparr>ys_entered := ys_entered y + 1\<rparr>)"
| enter_terminal: "push_check (ys_inner y) = Ok () \<Longrightarrow>
    stream_step y (y\<lparr>ys_terminals := ys_terminals y + 1\<rparr>)"
| take: "ys_entered y > 0 \<Longrightarrow> push_credit t CreditReady (ys_inner y) = Some (s, Ok ()) \<Longrightarrow>
    stream_step y (y\<lparr>ys_inner := s, ys_entered := ys_entered y - 1, ys_holding := ys_holding y + 1\<rparr>)"
| leave: "ys_entered y > 0 \<Longrightarrow> push_credit t c (ys_inner y) = Some (ys_inner y, Fail e) \<Longrightarrow>
    stream_step y (y\<lparr>ys_entered := ys_entered y - 1\<rparr>)"
| send: "ys_holding y > 0 \<Longrightarrow> \<not> sf_terminal f \<Longrightarrow> room (ys_inner y) \<Longrightarrow>
    stream_step y ((sent_by f y)\<lparr>ys_holding := ys_holding y - 1\<rparr>)"
| send_terminal: "ys_terminals y > 0 \<Longrightarrow> sf_terminal f \<Longrightarrow> room (ys_inner y) \<Longrightarrow>
    stream_step y ((sent_by f y)\<lparr>ys_terminals := ys_terminals y - 1\<rparr>)"
| abandon: "ys_holding y > 0 \<Longrightarrow> si_cancelled (ys_inner y) \<Longrightarrow>
    stream_step y (y\<lparr>ys_inner := restore_credit (ys_inner y), ys_holding := ys_holding y - 1\<rparr>)"
| abandon_terminal: "ys_terminals y > 0 \<Longrightarrow> si_cancelled (ys_inner y) \<Longrightarrow>
    stream_step y (y\<lparr>ys_terminals := ys_terminals y - 1\<rparr>)"
| want: "next_check (ys_inner y) \<Longrightarrow> stream_step y (y\<lparr>ys_waiting := ys_waiting y + 1\<rparr>)"
| give_up: "ys_waiting y > 0 \<Longrightarrow> stream_step y (y\<lparr>ys_waiting := ys_waiting y - 1\<rparr>)"
| receive: "ys_waiting y > 0 \<Longrightarrow> next_receive (ys_inner y) = Some (f, s) \<Longrightarrow>
    stream_step y (if sf_terminal f
      then y\<lparr>ys_inner := s, ys_waiting := ys_waiting y - 1, ys_marking := ys_marking y + 1,
             ys_delivered := ys_delivered y @ [f]\<rparr>
      else y\<lparr>ys_inner := s, ys_waiting := ys_waiting y - 1, ys_returning := ys_returning y + 1,
             ys_delivered := ys_delivered y @ [f]\<rparr>)"
| mark: "ys_marking y > 0 \<Longrightarrow>
    stream_step y (y\<lparr>ys_inner := (ys_inner y)\<lparr>si_terminal_seen := True\<rparr>, ys_marking := ys_marking y - 1\<rparr>)"
| give_back: "ys_returning y > 0 \<Longrightarrow>
    stream_step y (y\<lparr>ys_inner := restore_credit (ys_inner y), ys_returning := ys_returning y - 1\<rparr>)"
| cancel: "\<not> si_cancelled (ys_inner y) \<Longrightarrow>
    stream_step y (y\<lparr>ys_inner := cancel_mark reason (ys_inner y), ys_cancelling := True\<rparr>)"
| wake: "ys_cancelling y \<Longrightarrow>
    stream_step y ((if room (ys_inner y)
      then sent_by (TerminalFrame (si_cancel_reason (ys_inner y))) y else y)\<lparr>ys_cancelling := False\<rparr>)"
| enter_close: "\<not> si_cancelled (ys_inner y) \<Longrightarrow> stream_step y (y\<lparr>ys_closers := ys_closers y + 1\<rparr>)"
| close_sends: "ys_closers y > 0 \<Longrightarrow> \<not> si_closed (ys_inner y) \<Longrightarrow> room (ys_inner y) \<Longrightarrow>
    y' = sent_by (TerminalFrame reason) y \<Longrightarrow>
    stream_step y (y'\<lparr>ys_inner := (ys_inner y')\<lparr>si_closed := True\<rparr>, ys_closers := ys_closers y - 1\<rparr>)"
| close_cancels: "ys_closers y > 0 \<Longrightarrow> \<not> si_closed (ys_inner y) \<Longrightarrow> \<not> room (ys_inner y) \<Longrightarrow>
    stream_step y (if si_cancelled (ys_inner y)
      then y\<lparr>ys_inner := (ys_inner y)\<lparr>si_closed := True\<rparr>, ys_closers := ys_closers y - 1\<rparr>
      else y\<lparr>ys_inner := cancel_mark reason ((ys_inner y)\<lparr>si_closed := True\<rparr>),
             ys_closers := ys_closers y - 1, ys_cancelling := True\<rparr>)"
| close_again: "ys_closers y > 0 \<Longrightarrow> si_closed (ys_inner y) \<Longrightarrow>
    stream_step y (y\<lparr>ys_closers := ys_closers y - 1\<rparr>)"
| grant: "stream_step y (y\<lparr>ys_inner := restore_credit (ys_inner y), ys_granted := True\<rparr>)"

end
