(* ===== verification/StreamProperties.thy ===== *)
theory StreamProperties
  imports Streams
begin

text \<open>
  What the credits buy: with the window the stream was made with, the terminal frame of a
  closed or cancelled stream always reaches the channel, so that a consumer that keeps
  reading ends; widening the window with \<open>GrantCredit\<close> takes the reserved slot away.
\<close>

section \<open>The invariant\<close>

definition data_frames :: "stream_frame list \<Rightarrow> nat" where
  "data_frames fs = length (filter (\<lambda>f. \<not> sf_terminal f) fs)"

definition ended :: "stream_system \<Rightarrow> bool" where
  "ended y = (si_closed (ys_inner y) \<or> si_cancelled (ys_inner y) \<and> \<not> ys_cancelling y)"

definition stream_inv :: "stream_system \<Rightarrow> bool" where
  "stream_inv y =
     (let s = ys_inner y in
      si_capacity s = si_max_credit s + 1 \<and> si_credit s \<le> si_max_credit s
      \<and> length (si_frames s) \<le> si_capacity s \<and> ys_sent y = ys_delivered y @ si_frames s
      \<and> (ys_marking y > 0 \<or> si_terminal_seen s \<longrightarrow> (\<exists>f \<in> set (ys_delivered y). sf_terminal f))
      \<and> (\<not> ys_granted y \<longrightarrow>
           si_credit s + ys_holding y + ys_returning y + data_frames (si_frames s) = si_max_credit s
           \<and> (ended y \<longrightarrow> (\<exists>f \<in> set (ys_sent y). sf_terminal f))))"

lemma data_frames_simps [simp]:
  "data_frames [] = 0"
  "data_frames (fs @ gs) = data_frames fs + data_frames gs"
  "data_frames (f # fs) = (if sf_terminal f then data_frames fs else Suc (data_frames fs))"
  by (simp_all add: data_frames_def)

lemma full_has_terminal:
  assumes "data_frames fs < length fs"
  shows "\<exists>f \<in> set fs. sf_terminal f"
proof (rule ccontr)
  assume "\<not> ?thesis"
  then have "filter (\<lambda>f. \<not> sf_terminal f) fs = fs" by (simp add: filter_id_conv)
  with assms show False by (simp add: data_frames_def)
qed

lemma terminal_is_terminal [simp]: "sf_terminal (TerminalFrame r)"
  by (simp add: TerminalFrame_def)

lemmas stream_defs = stream_inv_def ended_def Let_def sent_by_def send_frame_def restore_credit_def
  cancel_mark_def next_receive_def push_credit_def

lemma blocked_has_terminal:
  assumes "stream_inv y" and "\<not> ys_granted y" and "\<not> room (ys_inner y)"
  shows "\<exists>f \<in> set (ys_sent y). sf_terminal f"
proof -
  have "data_frames (si_frames (ys_inner y)) < length (si_frames (ys_inner y))"
    using assms by (auto simp: stream_inv_def Let_def room_def)
  from full_has_terminal [OF this] show ?thesis using assms(1) by (auto simp: stream_inv_def Let_def)
qed

lemma stream_inv_initially: "stream_initial y \<Longrightarrow> stream_inv y"
  by (auto simp: stream_initial_def stream_inv_def ended_def Loopback_def newStreamInner_def Let_def)

lemma stream_inv_kept: "stream_step x y \<Longrightarrow> stream_inv x \<Longrightarrow> stream_inv y"
proof (induction rule: stream_step.induct)
  case (wake y)
  show ?case
  proof (cases "room (ys_inner y)")
    case True
    with wake show ?thesis by (auto simp: stream_defs room_def)
  next
    case False
    with wake blocked_has_terminal [of y]
    have "\<not> ys_granted y \<longrightarrow> (\<exists>f \<in> set (ys_sent y). sf_terminal f)" by blast
    with False wake(2) show ?thesis by (simp add: stream_inv_def ended_def Let_def)
  qed
next
  case (close_cancels y reason)
  with blocked_has_terminal [of y]
  have "\<not> ys_granted y \<longrightarrow> (\<exists>f \<in> set (ys_sent y). sf_terminal f)" by blast
  with close_cancels(4) show ?case by (simp add: stream_inv_def ended_def Let_def cancel_mark_def)
qed ((auto simp: stream_defs room_def split: if_splits list.splits)[1])+

interpretation stream_sys: transition_system stream_initial stream_step stream_inv
  by unfold_locales (auto intro: stream_inv_initially stream_inv_kept)

section \<open>The consumer ends\<close>

lemma drain_returns:
  assumes "\<not> si_terminal_seen s" and "si_frames s = fs @ t # rest" and "sf_terminal t"
    and "\<forall>f \<in> set fs. \<not> sf_terminal f"
  shows "\<exists>s'. Drain s = Some (s', length fs, fs) \<and> si_frames s' = rest"
  using assms
proof (induction fs arbitrary: s)
  case Nil
  then show ?case
    by (subst Drain.simps) (simp add: nextFrame_def next_check_def next_receive_def next_finish_def)
next
  case (Cons f fs)
  let ?s = "restore_credit (s\<lparr>si_frames := fs @ t # rest\<rparr>)"
  have nf: "nextFrame 0 False s = Some (?s, Some f)"
    using Cons.prems by (simp add: nextFrame_def next_check_def next_receive_def next_finish_def)
  have "\<exists>s'. Drain ?s = Some (s', length fs, fs) \<and> si_frames s' = rest"
    using Cons.prems by (intro Cons.IH) (auto simp: restore_credit_def)
  with nf Cons.prems(4) show ?case by (subst Drain.simps) auto
qed

lemma first_terminal:
  assumes "\<exists>f \<in> set fs. sf_terminal f"
  obtains gs t rest where "fs = gs @ t # rest" "sf_terminal t" "\<forall>f \<in> set gs. \<not> sf_terminal f"
  using split_list_first_prop [of fs sf_terminal] assms by blast

text \<open>C14: the terminal frame always arrives.  However producers, consumers, cancellers and
  closers interleave, as long as nobody widens the window: once the stream is closed or its
  cancellation is published, a terminal frame has been delivered, or a consumer that drains
  the channel from now on returns, after at most a window of data frames, having received
  exactly the frames sent before the terminal one.\<close>

theorem stream_terminal_guaranteed:
  assumes "stream_initial x" and "stream_step\<^sup>*\<^sup>* x y" and "\<not> ys_granted y" and "ended y"
  shows "(\<exists>f \<in> set (ys_delivered y). sf_terminal f)
    \<or> (\<exists>s fs t. Drain (ys_inner y) = Some (s, length fs, fs) \<and> sf_terminal t
        \<and> ys_sent y = ys_delivered y @ fs @ t # si_frames s
        \<and> length fs \<le> si_max_credit (ys_inner y))"
proof (rule disjCI)
  let ?s = "ys_inner y"
  assume no: "\<not> (\<exists>s fs t. Drain ?s = Some (s, length fs, fs) \<and> sf_terminal t
        \<and> ys_sent y = ys_delivered y @ fs @ t # si_frames s \<and> length fs \<le> si_max_credit ?s)"
  have inv: "stream_inv y" by (rule stream_sys.reachable_inv [OF assms(1,2)])
  show "\<exists>f \<in> set (ys_delivered y). sf_terminal f"
  proof (rule ccontr)
    assume none: "\<not> ?thesis"
    with inv assms(3,4) have "\<exists>f \<in> set (si_frames ?s). sf_terminal f" and seen: "\<not> si_terminal_seen ?s"
      and sent: "ys_sent y = ys_delivered y @ si_frames ?s"
      and le: "data_frames (si_frames ?s) \<le> si_max_credit ?s"
      by (auto simp: stream_inv_def Let_def)
    then obtain gs t rest where fs: "si_frames ?s = gs @ t # rest" and t: "sf_terminal t"
      and gs: "\<forall>f \<in> set gs. \<not> sf_terminal f" using first_terminal by metis
    from drain_returns [OF seen fs t gs] obtain s' where s': "Drain ?s = Some (s', length gs, gs)"
      "si_frames s' = rest" by blast
    have "filter (\<lambda>f. \<not> sf_terminal f) gs = gs" using gs by (simp add: filter_id_conv)
    then have "length gs \<le> si_max_credit ?s" using le fs by (simp add: data_frames_def)
    with no s' t sent fs show False by auto
  qed
qed

section \<open>Where the window is widened\<close>

definition window_one :: stream_inner where
  "window_one = Loopback 1"

text \<open>\<open>GrantCredit\<close> takes the reserved slot of the terminal frame away.  With a window of
  one, two frames pushed around a granted credit fill the channel; the terminal frame of a
  cancellation or of a close is then dropped, and a consumer that drains the channel receives
  both frames and waits for ever.\<close>

theorem grant_starves_terminal:
  assumes "\<not> sf_terminal a" and "\<not> sf_terminal b"
  shows "\<exists>s1 s2. push a 0 CreditReady SendReady window_one = Some (s1, Ok ())
    \<and> push b 0 CreditReady SendReady (grantCredit 1 s1) = Some (s2, Ok ())
    \<and> si_frames (stream_cancel reason s2) = [a, b] \<and> Drain (stream_cancel reason s2) = None
    \<and> si_frames (stream_close reason s2) = [a, b] \<and> Drain (stream_close reason s2) = None"
  using assms
  by (simp add: window_one_def Loopback_def newStreamInner_def push_def push_check_def push_credit_def
      push_send_def room_def send_frame_def grantCredit_def stream_cancel_def stream_close_def Let_def
      cancel_mark_def cancel_wake_def nextFrame_def next_check_def next_receive_def next_finish_def
      restore_credit_def Drain.simps)

theorem grant_starves_terminal_witness:
  "Drain (stream_cancel ''stop''
     (fst (the (push (NewStreamFrame [2]) 0 CreditReady SendReady
       (grantCredit 1 (fst (the (push (NewStreamFrame [1]) 0 CreditReady SendReady window_one)))))))) = None"
proof -
  have "\<not> sf_terminal (NewStreamFrame d)" for d by (simp add: NewStreamFrame_def)
  from grant_starves_terminal [OF this this, of "[1]" "[2]" "''stop''"] show ?thesis by auto
qed

section \<open>What the comments promise and the code does not\<close>

lemmas stream_run = push_def push_check_def push_credit_def push_send_def room_def send_frame_def
  stream_cancel_def stream_close_def cancel_mark_def cancel_wake_def nextFrame_def next_check_def
  next_receive_def next_finish_def restore_credit_def Loopback_def newStreamInner_def Let_def

text \<open>A closed stream goes on accepting frames, and they stay in the channel behind the
  terminal frame.\<close>

lemma closed_accepts_pushes:
  assumes "\<not> sf_terminal f"
  shows "\<exists>s. push f 0 CreditReady SendReady (stream_close reason (Loopback 2)) = Some (s, Ok ())
    \<and> si_frames s = [TerminalFrame reason, f]"
  using assms by (simp add: stream_run)

text \<open>After a cancellation the next frame is not the terminal one while data is queued.\<close>

lemma cancelled_delivers_data:
  assumes "\<not> sf_terminal f"
  shows "\<exists>s s'. push f 0 CreditReady SendReady (Loopback 2) = Some (s, Ok ())
    \<and> nextFrame 0 False (stream_cancel reason s) = Some (s', Some f)"
  using assms by (simp add: stream_run)

text \<open>Two readers that both passed the check before the terminal frame was marked receive the
  frame of \<open>Close\<close> and the one a producer pushed: two terminal frames reach the consumer.\<close>

definition demo_stream :: stream_system where
  "demo_stream = \<lparr>ys_inner = Loopback 1, ys_entered = 0, ys_holding = 0, ys_terminals = 0,
     ys_waiting = 0, ys_marking = 0, ys_returning = 0, ys_closers = 0, ys_cancelling = False,
     ys_sent = [], ys_delivered = [], ys_granted = False\<rparr>"

definition demo_two_terminals :: stream_system where
  "demo_two_terminals = demo_stream\<lparr>ys_inner := (Loopback 1)\<lparr>si_closed := True\<rparr>, ys_marking := 2,
     ys_sent := [TerminalFrame ''a'', TerminalFrame ''b''],
     ys_delivered := [TerminalFrame ''a'', TerminalFrame ''b'']\<rparr>"

lemma two_terminals_delivered:
  "stream_initial demo_stream \<and> stream_step\<^sup>*\<^sup>* demo_stream demo_two_terminals
   \<and> \<not> ys_granted demo_two_terminals"
proof (intro conjI)
  let ?a = "TerminalFrame ''a''" and ?b = "TerminalFrame ''b''"
  let ?i = "Loopback 1"
  let ?y1 = "demo_stream\<lparr>ys_terminals := 1\<rparr>"
  let ?y2 = "demo_stream\<lparr>ys_terminals := 1, ys_closers := 1\<rparr>"
  let ?y3 = "demo_stream\<lparr>ys_inner := ?i\<lparr>si_frames := [?a]\<rparr>, ys_closers := 1, ys_sent := [?a]\<rparr>"
  let ?y4 = "demo_stream\<lparr>ys_inner := ?i\<lparr>si_frames := [?a, ?b], si_closed := True\<rparr>, ys_sent := [?a, ?b]\<rparr>"
  let ?y5 = "?y4\<lparr>ys_waiting := 1\<rparr>" and ?y6 = "?y4\<lparr>ys_waiting := 2\<rparr>"
  let ?y7 = "?y4\<lparr>ys_inner := ?i\<lparr>si_frames := [?b], si_closed := True\<rparr>, ys_waiting := 1,
     ys_marking := 1, ys_delivered := [?a]\<rparr>"
  note run = demo_stream_def demo_two_terminals_def sent_by_def stream_run numeral_2_eq_2
  have "stream_step demo_stream ?y1"
    using stream_step.enter_terminal [of demo_stream] by (simp add: run)
  moreover have "stream_step ?y1 ?y2" using stream_step.enter_close [of ?y1] by (simp add: run)
  moreover have "stream_step ?y2 ?y3" using stream_step.send_terminal [of ?y2 ?a] by (simp add: run)
  moreover have "stream_step ?y3 ?y4"
    using stream_step.close_sends [of ?y3 "sent_by ?b ?y3" "''b''"] by (simp add: run)
  moreover have "stream_step ?y4 ?y5" using stream_step.want [of ?y4] by (simp add: run)
  moreover have "stream_step ?y5 ?y6" using stream_step.want [of ?y5] by (simp add: run)
  moreover have "stream_step ?y6 ?y7"
    using stream_step.receive [of ?y6 ?a "?i\<lparr>si_frames := [?b], si_closed := True\<rparr>"] by (simp add: run)
  moreover have "stream_step ?y7 demo_two_terminals"
    using stream_step.receive [of ?y7 ?b "?i\<lparr>si_frames := [], si_closed := True\<rparr>"] by (simp add: run)
  ultimately show "stream_step\<^sup>*\<^sup>* demo_stream demo_two_terminals"
    by (meson converse_rtranclp_into_rtranclp rtranclp.rtrancl_refl)
  show "stream_initial demo_stream" unfolding stream_initial_def demo_stream_def by blast
  show "\<not> ys_granted demo_two_terminals" by (simp add: demo_two_terminals_def demo_stream_def)
qed

theorem stream_terminal_guaranteed_witness:
  "(\<exists>f \<in> set (ys_delivered demo_two_terminals). sf_terminal f)
    \<or> (\<exists>s fs t. Drain (ys_inner demo_two_terminals) = Some (s, length fs, fs) \<and> sf_terminal t
        \<and> ys_sent demo_two_terminals = ys_delivered demo_two_terminals @ fs @ t # si_frames s
        \<and> length fs \<le> si_max_credit (ys_inner demo_two_terminals))"
proof (rule stream_terminal_guaranteed)
  show "stream_initial demo_stream" "stream_step\<^sup>*\<^sup>* demo_stream demo_two_terminals"
    "\<not> ys_granted demo_two_terminals" using two_terminals_delivered by blast+
  show "ended demo_two_terminals" by (simp add: ended_def demo_two_terminals_def)
qed

end
