(* ===== verification/Reconnect.thy ===== *)
theory Reconnect
  imports ErrorModel "HOL-Library.Signed_Division"
begin

text \<open>
  Recovering from lost connections on the client side: the classification of transport
  errors and the reconnection worker (\<open>axon/reconnect.go\<close>, the handle operations of
  \<open>axon/client.go\<close>) and the stream that reopens its source (\<open>axon/stream_resume.go\<close>).
  Durations are signed 64-bit counts of nanoseconds.
\<close>

section \<open>Transport errors\<close>

text \<open>\<open>strings.ToLower\<close> as far as its ASCII letters go: besides A to Z, the dotted capital I
  (bytes C4 B0) and the Kelvin sign (E2 84 AA) have ASCII lower cases; every other rune has a
  lower case outside ASCII and is kept.\<close>

function go_lower :: "string \<Rightarrow> string" where
  "go_lower s =
     (case s of
        [] \<Rightarrow> []
      | c # cs \<Rightarrow>
          if has_prefix s [CHR 0xC4, CHR 0xB0] then CHR ''i'' # go_lower (drop 1 cs)
          else if has_prefix s [CHR 0xE2, CHR 0x84, CHR 0xAA] then CHR ''k'' # go_lower (drop 2 cs)
          else ascii_lower c # go_lower cs)"
  by pat_completeness auto

termination
  by (relation "measure length") auto

declare go_lower.simps [simp del]

fun contains :: "string \<Rightarrow> string \<Rightarrow> bool" where
  "contains [] p = (p = [])"
| "contains (c # cs) p = (has_prefix (c # cs) p \<or> contains cs p)"

definition transport_markers :: "string list" where
  "transport_markers = [''connection refused'', ''connection reset'', ''broken pipe'',
     ''transport is closing'', ''no such host'', ''network is unreachable'', ''deadline exceeded'',
     ''unavailable'', ''eof'', ''axon_node_unreachable'', ''axon_peer_disconnected'']"

definition isTransportError :: "(string \<Rightarrow> string) \<Rightarrow> go_error option \<Rightarrow> bool" where
  "isTransportError q err =
     (case err of
        None \<Rightarrow> False
      | Some e \<Rightarrow> list_ex (contains (go_lower (go_error_string q e))) transport_markers)"

section \<open>The resuming stream\<close>

text \<open>A chunk source answers with a chunk, the end flag and an error; the world \<open>'w\<close> behind
  the sources is threaded through their operations.\<close>

record chunk_answer =
  ca_chunk :: bytes
  ca_done :: bool
  ca_error :: "go_error option"

record ('s, 'w) chunk_env =
  ce_factory :: "'w \<Rightarrow> 's option result \<times> 'w"
  ce_recv :: "'s \<Rightarrow> 'w \<Rightarrow> chunk_answer \<times> 'w"
  ce_close :: "'s \<Rightarrow> 'w \<Rightarrow> go_error option \<times> 'w"

record 's resuming_stream =
  zr_max_attempts :: int
  zr_current :: "'s option"
  zr_attempts :: int
  zr_ended :: bool
  zr_end_error :: "go_error option"

definition NewResumingStream :: "'s option \<Rightarrow> bool \<Rightarrow> int \<Rightarrow> 's resuming_stream result" where
  "NewResumingStream initial factoryNil maxAttempts =
     (if factoryNil then Panic (PlainErr ''axon: ResumingStream requires a non-nil factory'')
      else Ok \<lparr>zr_max_attempts = (if maxAttempts \<le> 0 then 3 else maxAttempts), zr_current = initial,
               zr_attempts = 0, zr_ended = False, zr_end_error = None\<rparr>)"

definition AttemptsUsed :: "'s resuming_stream \<Rightarrow> int" where
  "AttemptsUsed r = zr_attempts r"

definition canRetry :: "'s resuming_stream \<Rightarrow> bool" where
  "canRetry r = (zr_attempts r < zr_max_attempts r)"

text \<open>The error of a close is wrapped; of the error inside, its text stays, which is all that
  \<open>isTransportError\<close> reads.\<close>

definition closeCurrent ::
  "(string \<Rightarrow> string) \<Rightarrow> ('s, 'w) chunk_env \<Rightarrow> 's resuming_stream \<Rightarrow> 'w \<Rightarrow>
   's resuming_stream \<times> 'w \<times> go_error option" where
  "closeCurrent q env r w =
     (case zr_current r of
        None \<Rightarrow> (r, w, None)
      | Some s \<Rightarrow>
          let (err, w') = ce_close env s w in
          (r\<lparr>zr_current := None\<rparr>, w',
           map_option (\<lambda>e. PlainErr (''axon: close during resume: '' @ go_error_string q e)) err))"

definition chunk_result :: "bytes \<Rightarrow> go_error option \<Rightarrow> bytes result" where
  "chunk_result chunk err = (case err of None \<Rightarrow> Ok chunk | Some e \<Rightarrow> Fail e)"

definition count_attempt :: "'s resuming_stream \<Rightarrow> 's resuming_stream" where
  "count_attempt r = r\<lparr>zr_attempts := zr_attempts r + 1\<rparr>"

text \<open>One turn of the loop of \<open>Recv\<close> with an open source, and one whole turn; \<open>None\<close> is
  \<open>continue\<close>.\<close>

definition recv_current ::
  "(string \<Rightarrow> string) \<Rightarrow> ('s, 'w) chunk_env \<Rightarrow> 's \<Rightarrow> 's resuming_stream \<Rightarrow> 'w \<Rightarrow>
   's resuming_stream \<times> 'w \<times> bytes result option" where
  "recv_current q env s r w =
     (let (a, w1) = ce_recv env s w in
      if ca_done a
      then (let (r1, w2, err) = closeCurrent q env (r\<lparr>zr_ended := True\<rparr>) w1 in
            (r1\<lparr>zr_end_error := err\<rparr>, w2, Some (chunk_result [] err)))
      else (case ca_error a of
              None \<Rightarrow> (r, w1, Some (Ok (ca_chunk a)))
            | Some e \<Rightarrow>
                if \<not> isTransportError q (Some e) then (r, w1, Some (Fail e))
                else if \<not> canRetry r then (r, w1, Some (Fail e))
                else (let (r1, w2, _) = closeCurrent q env r w1 in (count_attempt r1, w2, None))))"

definition recv_turn ::
  "(string \<Rightarrow> string) \<Rightarrow> ('s, 'w) chunk_env \<Rightarrow> 's resuming_stream \<Rightarrow> 'w \<Rightarrow>
   's resuming_stream \<times> 'w \<times> bytes result option" where
  "recv_turn q env r w =
     (case zr_current r of
        Some s \<Rightarrow> recv_current q env s r w
      | None \<Rightarrow>
          (case ce_factory env w of
             (Fail e, w1) \<Rightarrow>
               if \<not> isTransportError q (Some e) \<or> \<not> canRetry r then (r, w1, Some (Fail e))
               else (count_attempt r, w1, None)
           | (Panic e, w1) \<Rightarrow> (r, w1, Some (Panic e))
           | (Ok None, w1) \<Rightarrow> (r, w1, Some (Fail (PlainErr ''axon: stream factory returned a nil source'')))
           | (Ok (Some s), w1) \<Rightarrow> recv_current q env s (r\<lparr>zr_current := Some s\<rparr>) w1))"

lemma recv_turn_continue:
  assumes "recv_turn q env r w = (r', w', None)"
  shows "canRetry r" and "zr_attempts r' = zr_attempts r + 1" and "zr_max_attempts r' = zr_max_attempts r"
    and "zr_ended r' = zr_ended r" and "zr_current r' = None"
  using assms
  by (auto simp: recv_turn_def recv_current_def closeCurrent_def count_attempt_def canRetry_def Let_def
      split: option.splits prod.splits result.splits if_splits)

lemma recv_turn_decreases:
  assumes "(r', p) = recv_turn q env r w" and "(w', None) = p"
  shows "nat (zr_max_attempts r' - zr_attempts r') < nat (zr_max_attempts r - zr_attempts r)"
proof -
  have "recv_turn q env r w = (r', w', None)" using assms by simp
  from recv_turn_continue(1-3) [OF this] show ?thesis by (simp add: canRetry_def)
qed

function recv_loop ::
  "(string \<Rightarrow> string) \<Rightarrow> ('s, 'w) chunk_env \<Rightarrow> 's resuming_stream \<Rightarrow> 'w \<Rightarrow>
   's resuming_stream \<times> 'w \<times> bytes result" where
  "recv_loop q env r w =
     (case recv_turn q env r w of
        (r', w', Some x) \<Rightarrow> (r', w', x)
      | (r', w', None) \<Rightarrow> recv_loop q env r' w')"
  by pat_completeness auto

termination
  by (relation "measure (\<lambda>(q, env, r, w). nat (zr_max_attempts r - zr_attempts r))")
     (simp, simp only: in_measure prod.case, blast intro: recv_turn_decreases)

declare recv_loop.simps [simp del]

definition resuming_Recv ::
  "(string \<Rightarrow> string) \<Rightarrow> ('s, 'w) chunk_env \<Rightarrow> 's resuming_stream \<Rightarrow> 'w \<Rightarrow>
   's resuming_stream \<times> 'w \<times> bytes result" where
  "resuming_Recv q env r w =
     (if zr_ended r then (r, w, chunk_result [] (zr_end_error r)) else recv_loop q env r w)"

definition resuming_Close ::
  "(string \<Rightarrow> string) \<Rightarrow> ('s, 'w) chunk_env \<Rightarrow> 's resuming_stream \<Rightarrow> 'w \<Rightarrow>
   's resuming_stream \<times> 'w \<times> go_error option" where
  "resuming_Close q env r w = closeCurrent q env r w"

section \<open>The sidecar transport\<close>

record reconnect_options =
  ro_initial_backoff_ms :: int
  ro_max_backoff_ms :: int
  ro_has_hook :: bool
  ro_health_interval_ms :: int
  ro_max_attempts :: int

definition applyDefaults :: "reconnect_options \<Rightarrow> reconnect_options" where
  "applyDefaults o0 =
     (let o1 = (if ro_initial_backoff_ms o0 \<le> 0 then o0\<lparr>ro_initial_backoff_ms := 1000\<rparr> else o0);
          o2 = (if ro_max_backoff_ms o1 < ro_initial_backoff_ms o1
                then o1\<lparr>ro_max_backoff_ms := (if ro_initial_backoff_ms o1 > 30000
                                              then ro_initial_backoff_ms o1 else 30000)\<rparr>
                else o1) in
      if ro_health_interval_ms o2 = 0 then o2\<lparr>ro_health_interval_ms := 15000\<rparr> else o2)"

record reconnect_state =
  zs_options :: reconnect_options
  zs_disconnected :: bool
  zs_generation :: u64
  zs_last_error :: "go_error option"
  zs_worker :: bool
  zs_started :: bool

record sidecar_transport =
  zt_endpoint :: string
  zt_connect_timeout_ms :: int
  zt_timeout_ms :: int
  zt_auto_reconnect :: bool
  zt_options :: reconnect_options
  zt_bridge :: bool
  zt_handle :: u64
  zt_reconnect :: "reconnect_state option"

definition enableAutoReconnect :: "sidecar_transport \<Rightarrow> sidecar_transport" where
  "enableAutoReconnect s =
     (if \<not> zt_auto_reconnect s then s
      else (let rs = (case zt_reconnect s of
                        Some rs \<Rightarrow> rs
                      | None \<Rightarrow> \<lparr>zs_options = applyDefaults (zt_options s), zs_disconnected = False,
                                 zs_generation = 0, zs_last_error = None, zs_worker = False,
                                 zs_started = False\<rparr>);
                rs' = (if zs_started rs then rs
                       else if ro_health_interval_ms (zs_options rs) \<le> 0 then rs\<lparr>zs_started := True\<rparr>
                       else rs\<lparr>zs_started := True, zs_worker := True\<rparr>) in
            s\<lparr>zt_reconnect := Some rs'\<rparr>))"

definition markDisconnected :: "sidecar_transport \<Rightarrow> sidecar_transport" where
  "markDisconnected s = s\<lparr>zt_reconnect := map_option (\<lambda>rs. rs\<lparr>zs_disconnected := True\<rparr>) (zt_reconnect s)\<rparr>"

definition ReconnectGeneration :: "sidecar_transport \<Rightarrow> u64" where
  "ReconnectGeneration s = (case zt_reconnect s of None \<Rightarrow> 0 | Some rs \<Rightarrow> zs_generation rs)"

definition LastReconnectError :: "sidecar_transport \<Rightarrow> go_error option" where
  "LastReconnectError s = (case zt_reconnect s of None \<Rightarrow> None | Some rs \<Rightarrow> zs_last_error rs)"

definition defaultAxonEndpoint :: "string \<Rightarrow> string" where
  "defaultAxonEndpoint env = (if env \<noteq> [] then env else ''http://127.0.0.1:50051'')"

definition DefaultConnectTimeoutMs :: int where "DefaultConnectTimeoutMs = 5000"
definition DefaultTimeoutMs :: int where "DefaultTimeoutMs = 30000"

text \<open>What the native library answers: opening it, and opening a client on it.\<close>

record native_answers =
  na_open_library :: "go_error option"
  na_open_client :: "u64 \<times> go_error option"

definition ensureClient ::
  "string \<Rightarrow> native_answers \<Rightarrow> sidecar_transport \<Rightarrow> sidecar_transport \<times> go_error option" where
  "ensureClient env native s0 =
     (let s1 = (if zt_endpoint s0 = [] then s0\<lparr>zt_endpoint := defaultAxonEndpoint env\<rparr> else s0);
          s2 = (if zt_connect_timeout_ms s1 \<le> 0
                then s1\<lparr>zt_connect_timeout_ms := DefaultConnectTimeoutMs\<rparr> else s1);
          s3 = (if zt_timeout_ms s2 \<le> 0 then s2\<lparr>zt_timeout_ms := DefaultTimeoutMs\<rparr> else s2);
          s = enableAutoReconnect s3 in
      if zt_bridge s \<and> zt_handle s \<noteq> 0 then (s, None)
      else if \<not> zt_bridge s \<and> na_open_library native \<noteq> None then (s, na_open_library native)
      else (let b = s\<lparr>zt_bridge := True\<rparr>; (handle, err) = na_open_client native in
            if err \<noteq> None then (b\<lparr>zt_bridge := False\<rparr>, err) else (b\<lparr>zt_handle := handle\<rparr>, None)))"

text \<open>\<open>retireReconnectClient\<close> also closes the handle it drops.\<close>

definition retireReconnectClient :: "sidecar_transport \<Rightarrow> sidecar_transport" where
  "retireReconnectClient s = s\<lparr>zt_handle := 0\<rparr>"

definition transport_Close ::
  "go_error option \<Rightarrow> go_error option \<Rightarrow> sidecar_transport \<Rightarrow> sidecar_transport \<times> go_error option" where
  "transport_Close closeClient closeLibrary s =
     (let e1 = (if zt_bridge s \<and> zt_handle s \<noteq> 0 then closeClient else None);
          e2 = (if zt_bridge s \<and> e1 = None then closeLibrary else e1) in
      (s\<lparr>zt_bridge := False, zt_handle := 0,
         zt_reconnect := map_option (\<lambda>rs. rs\<lparr>zs_worker := False\<rparr>) (zt_reconnect s)\<rparr>, e2))"

section \<open>The reconnection loop\<close>

definition wrap64 :: "int \<Rightarrow> int" where
  "wrap64 n = sint (word_of_int n :: i64)"

definition ms_duration :: "int \<Rightarrow> int" where
  "ms_duration ms = wrap64 (ms * 1000000)"

text \<open>A round: whether the context is cancelled at each of its checks, what the native library
  and the hook answer, the random number and whether the sleep is cut short.\<close>

record reconnect_round =
  rr_cancelled_before :: bool
  rr_cancelled_retired :: bool
  rr_native :: native_answers
  rr_cancelled_opened :: bool
  rr_hook :: "go_error option"
  rr_cancelled_hook :: bool
  rr_random :: nat
  rr_cancelled_sleeping :: bool

definition update_reconnect ::
  "(reconnect_state \<Rightarrow> reconnect_state) \<Rightarrow> sidecar_transport \<Rightarrow> sidecar_transport" where
  "update_reconnect f s = s\<lparr>zt_reconnect := map_option f (zt_reconnect s)\<rparr>"

text \<open>\<open>rand.Int63n\<close> gives some number below its argument and panics unless that is positive.\<close>

definition jittered :: "int \<Rightarrow> nat \<Rightarrow> int" where
  "jittered backoff random =
     wrap64 (wrap64 (backoff + int random mod (backoff sdiv 5 + 1)) - backoff sdiv 5)"

definition next_backoff :: "int \<Rightarrow> int \<Rightarrow> int" where
  "next_backoff m backoff = (let doubled = wrap64 (backoff * 2) in if doubled > m then m else doubled)"

text \<open>The loop over the rounds it takes: \<open>None\<close> when they run out, otherwise the transport and
  the sleeps; \<open>m\<close> is the cap of the backoff.\<close>

fun drive_rounds ::
  "string \<Rightarrow> bool \<Rightarrow> int \<Rightarrow> int \<Rightarrow> int \<Rightarrow> int \<Rightarrow> reconnect_round list \<Rightarrow> sidecar_transport \<Rightarrow>
   (sidecar_transport \<times> int list) result option" where
  "drive_rounds env hook m maxAttempts backoff attempts [] s = None"
| "drive_rounds env hook m maxAttempts backoff attempts (r # rs) s =
     (if rr_cancelled_before r then Some (Ok (s, []))
      else (let s1 = retireReconnectClient s in
      if rr_cancelled_retired r then Some (Ok (s1, []))
      else (let (s2, err1) = ensureClient env (rr_native r) s1 in
      if rr_cancelled_opened r then Some (Ok (retireReconnectClient s2, []))
      else (let err = (if err1 = None \<and> hook then rr_hook r else err1) in
      if rr_cancelled_hook r then Some (Ok (retireReconnectClient s2, []))
      else (let s3 = update_reconnect (\<lambda>z. z\<lparr>zs_last_error := err\<rparr>) s2 in
      if err = None
      then Some (Ok (update_reconnect (\<lambda>z. z\<lparr>zs_generation := zs_generation z + 1,
                                              zs_disconnected := False\<rparr>) s3, []))
      else if maxAttempts > 0 \<and> attempts + 1 \<ge> maxAttempts then Some (Ok (s3, []))
      else if backoff sdiv 5 + 1 \<le> 0 then Some (Panic (PlainErr ''invalid argument to Int63n''))
      else (let sleep = jittered backoff (rr_random r) in
      if rr_cancelled_sleeping r then Some (Ok (s3, [sleep]))
      else map_option (\<lambda>x. bindR x (\<lambda>(t, sleeps). Ok (t, sleep # sleeps)))
             (drive_rounds env hook m maxAttempts (next_backoff m backoff) (attempts + 1) rs s3)))))))"

definition driveReconnect ::
  "string \<Rightarrow> reconnect_round list \<Rightarrow> sidecar_transport \<Rightarrow> (sidecar_transport \<times> int list) result option" where
  "driveReconnect env rounds s =
     (case zt_reconnect s of
        None \<Rightarrow> Some (Panic (PlainErr ''invalid memory address or nil pointer dereference''))
      | Some rs \<Rightarrow>
          (let o1 = zs_options rs in
           drive_rounds env (ro_has_hook o1) (ms_duration (ro_max_backoff_ms o1)) (ro_max_attempts o1)
             (ms_duration (ro_initial_backoff_ms o1)) 0 rounds s))"

text \<open>One tick of \<open>reconnectWorker\<close>.\<close>

definition reconnect_tick ::
  "string \<Rightarrow> reconnect_round list \<Rightarrow> sidecar_transport \<Rightarrow> (sidecar_transport \<times> int list) result option" where
  "reconnect_tick env rounds s =
     (if (case zt_reconnect s of None \<Rightarrow> False | Some rs \<Rightarrow> zs_disconnected rs)
      then driveReconnect env rounds s else Some (Ok (s, [])))"

end
