(* ===== verification/ReconnectProperties.thy ===== *)
theory ReconnectProperties
  imports Reconnect
begin

text \<open>
  A resuming stream spends at most its attempts and gives a transport error to its caller
  only when they are spent; the reconnection worker reports exactly what happened and its
  delays stay between zero and the cap.
\<close>

section \<open>The resuming stream\<close>

text \<open>The factory with its calls counted.\<close>

definition counted :: "('s, 'w) chunk_env \<Rightarrow> ('s, 'w \<times> nat) chunk_env" where
  "counted env = \<lparr>ce_factory = \<lambda>(w, n). (case ce_factory env w of (x, w') \<Rightarrow> (x, w', n + 1)),
     ce_recv = \<lambda>s (w, n). (case ce_recv env s w of (x, w') \<Rightarrow> (x, w', n)),
     ce_close = \<lambda>s (w, n). (case ce_close env s w of (x, w') \<Rightarrow> (x, w', n))\<rparr>"

definition retry_ok :: "'s resuming_stream \<Rightarrow> bool" where
  "retry_ok r = (0 \<le> zr_attempts r \<and> zr_attempts r \<le> zr_max_attempts r \<and> 0 < zr_max_attempts r
     \<and> (zr_ended r \<longrightarrow> zr_current r = None))"

lemmas turn_defs = recv_turn_def recv_current_def closeCurrent_def count_attempt_def canRetry_def Let_def

lemma nil_source_is_local:
  "\<not> isTransportError q (Some (PlainErr ''axon: stream factory returned a nil source''))"
  by code_simp

lemma recv_turn_facts:
  assumes "recv_turn q env r w = (r', w', y)" and "retry_ok r" and "\<not> zr_ended r"
  shows "retry_ok r'" and "zr_max_attempts r' = zr_max_attempts r"
    and "y \<noteq> None \<Longrightarrow> zr_attempts r' = zr_attempts r"
    and "y = Some (Fail e) \<Longrightarrow> isTransportError q (Some e) \<Longrightarrow>
      \<not> zr_ended r' \<Longrightarrow> zr_attempts r' = zr_max_attempts r'"
    and "zr_ended r' \<Longrightarrow> y = Some (chunk_result [] (zr_end_error r'))"
  using assms nil_source_is_local [of q]
  by (auto simp: turn_defs retry_ok_def chunk_result_def
      split: option.splits prod.splits result.splits if_splits)

lemma counted_turn:
  assumes "recv_turn q (counted env) r (w, n) = (r', (w', m), y)"
  shows "m = n + (if zr_current r = None then 1 else 0)"
  using assms by (auto simp: turn_defs counted_def split: option.splits prod.splits result.splits if_splits)

lemma recv_loop_continue: "recv_turn q env r w = (r', w', None) \<Longrightarrow> recv_loop q env r w = recv_loop q env r' w'"
  by (subst recv_loop.simps) simp

lemma recv_loop_return: "recv_turn q env r w = (r', w', Some x) \<Longrightarrow> recv_loop q env r w = (r', w', x)"
  by (subst recv_loop.simps) simp

lemma recv_loop_facts:
  assumes "recv_loop q env r w = (r', w', x)" and "retry_ok r" and "\<not> zr_ended r"
  shows "retry_ok r' \<and> zr_attempts r \<le> zr_attempts r' \<and> zr_max_attempts r' = zr_max_attempts r
    \<and> (\<forall>e. x = Fail e \<longrightarrow> isTransportError q (Some e) \<longrightarrow> \<not> zr_ended r' \<longrightarrow>
         zr_attempts r' = zr_max_attempts r')
    \<and> (zr_ended r' \<longrightarrow> x = chunk_result [] (zr_end_error r'))"
  using assms
proof (induction q env r w rule: recv_loop.induct)
  case (1 q env r w)
  obtain r1 w1 y where turn: "recv_turn q env r w = (r1, w1, y)" by (metis prod.exhaust)
  note f = recv_turn_facts [OF turn "1.prems"(2,3)]
  show ?case
  proof (cases y)
    case None
    with turn have "recv_turn q env r w = (r1, w1, None)" by simp
    note c = recv_turn_continue [OF this]
    have "recv_loop q env r1 w1 = (r', w', x)"
      using "1.prems"(1) turn None by (subst (asm) recv_loop.simps) simp
    from "1.IH" [OF turn [symmetric] refl None this] f(1) c "1.prems"(3) show ?thesis by auto
  next
    case (Some v)
    have "r' = r1" "w' = w1" "x = v"
      using "1.prems"(1) turn Some by (subst (asm) recv_loop.simps, simp)+
    with f Some "1.prems" show ?thesis by auto
  qed
qed

lemma recv_turn_final: "recv_turn q env r w = (r', w', Some x) \<Longrightarrow> zr_attempts r' = zr_attempts r"
  by (auto simp: turn_defs split: option.splits prod.splits result.splits if_splits)

lemma counted_loop:
  assumes "recv_loop q (counted env) r (w, n) = (r', (w', m), x)"
  shows "int m = int n + (zr_attempts r' - zr_attempts r) + (if zr_current r = None then 1 else 0)"
  using assms
proof (induction q "counted env" r "(w, n)" arbitrary: w n rule: recv_loop.induct)
  case (1 q r w n)
  obtain r1 w1 k y where turn: "recv_turn q (counted env) r (w, n) = (r1, (w1, k), y)"
    by (metis prod.exhaust)
  note k = counted_turn [OF turn]
  show ?case
  proof (cases y)
    case None
    with turn have "recv_turn q (counted env) r (w, n) = (r1, (w1, k), None)" by simp
    note c = recv_turn_continue [OF this]
    have loop: "recv_loop q (counted env) r1 (w1, k) = (r', (w', m), x)"
      using "1.prems" turn None by (subst (asm) recv_loop.simps) simp
    from "1.hyps" [OF turn [symmetric] refl None loop] k c show ?thesis by (auto split: if_splits)
  next
    case (Some v)
    have "r' = r1" "m = k" using "1.prems" turn Some by (subst (asm) recv_loop.simps, simp)+
    with k turn Some recv_turn_final [of q "counted env" r "(w, n)" r1 "(w1, k)" v] show ?thesis by auto
  qed
qed

text \<open>C15: a resuming stream reopens its source a bounded number of times and hides transport
  errors as long as it can.  A call of \<open>Recv\<close> always returns; it calls the factory once for
  each attempt it spends, and once more when it starts without a source; the attempts never
  exceed the policy; a transport error reaches the caller only when all attempts are spent;
  and when the call ends the stream, every later call gives the same answer without touching
  anything.\<close>

theorem resume_bounded:
  assumes "retry_ok r" and "\<not> zr_ended r" and "resuming_Recv q (counted env) r (w, n) = (r', (w', m), x)"
  shows "int m = int n + (zr_attempts r' - zr_attempts r) + (if zr_current r = None then 1 else 0)
    \<and> zr_attempts r \<le> zr_attempts r' \<and> zr_attempts r' \<le> zr_max_attempts r \<and> retry_ok r'
    \<and> (\<forall>e. x = Fail e \<longrightarrow> isTransportError q (Some e) \<longrightarrow> \<not> zr_ended r' \<longrightarrow>
         zr_attempts r' = zr_max_attempts r)
    \<and> (zr_ended r' \<longrightarrow> (\<forall>v. resuming_Recv q (counted env) r' v = (r', v, x)
         \<and> resuming_Close q (counted env) r' v = (r', v, None)))"
proof -
  have loop: "recv_loop q (counted env) r (w, n) = (r', (w', m), x)"
    using assms by (simp add: resuming_Recv_def)
  from recv_loop_facts [OF loop assms(1,2)] counted_loop [OF loop] show ?thesis
    by (auto simp: retry_ok_def resuming_Recv_def resuming_Close_def closeCurrent_def)
qed

text \<open>Two refused connections, then a source that gives a chunk.\<close>

definition demo_chunks :: "(unit, nat) chunk_env" where
  "demo_chunks = \<lparr>ce_factory = \<lambda>w. (if w < 2 then Fail (PlainErr ''dial: Connection refused'')
       else Ok (Some ()), w + 1),
     ce_recv = \<lambda>_ w. (\<lparr>ca_chunk = [7], ca_done = False, ca_error = None\<rparr>, w), ce_close = \<lambda>_ w. (None, w)\<rparr>"

definition demo_resuming :: "unit resuming_stream" where
  "demo_resuming = \<lparr>zr_max_attempts = 3, zr_current = None, zr_attempts = 0, zr_ended = False,
     zr_end_error = None\<rparr>"

lemma refused_is_transport: "isTransportError q (Some (PlainErr ''dial: Connection refused''))"
  by code_simp

theorem resume_bounded_witness:
  "fst (resuming_Recv id (counted demo_chunks) demo_resuming (0, 0))
     = demo_resuming\<lparr>zr_attempts := 2, zr_current := Some ()\<rparr>
   \<and> snd (fst (snd (resuming_Recv id (counted demo_chunks) demo_resuming (0, 0)))) = 3"
proof -
  let ?r = "\<lambda>k. demo_resuming\<lparr>zr_attempts := k\<rparr>"
  let ?t = "recv_turn id (counted demo_chunks)"
  note run = turn_defs counted_def demo_chunks_def refused_is_transport demo_resuming_def
  have "?t (?r 0) (0, 0) = (?r 1, (1, 1), None)" "?t (?r 1) (1, 1) = (?r 2, (2, 2), None)"
    "?t (?r 2) (2, 2) = ((?r 2)\<lparr>zr_current := Some ()\<rparr>, (3, 3), Some (Ok [7]))"
    by (simp_all add: run)
  then have "recv_loop id (counted demo_chunks) (?r 0) (0, 0) = ((?r 2)\<lparr>zr_current := Some ()\<rparr>, (3, 3), Ok [7])"
    by (simp add: recv_loop_continue recv_loop_return)
  then have loop: "resuming_Recv id (counted demo_chunks) demo_resuming (0, 0)
      = ((?r 2)\<lparr>zr_current := Some ()\<rparr>, (3, 3), Ok [7])"
    by (simp add: resuming_Recv_def demo_resuming_def)
  have ok: "retry_ok demo_resuming" "\<not> zr_ended demo_resuming" by (simp_all add: retry_ok_def demo_resuming_def)
  from resume_bounded [OF ok loop] show ?thesis using loop by (simp add: demo_resuming_def)
qed

section \<open>The reconnection worker\<close>

lemma wrap64_in_range: "- 9223372036854775808 \<le> n \<Longrightarrow> n < 9223372036854775808 \<Longrightarrow> wrap64 n = n"
  by (simp add: wrap64_def sint_sbintrunc' signed_take_bit_int_eq_self)

lemma sdiv_nonneg: "0 \<le> b \<Longrightarrow> b sdiv 5 = (b :: int) div 5"
  by (cases "b = 0") (simp_all add: signed_divide_int_def)

lemma jittered_bounds:
  assumes "0 \<le> b" and "b < 2 ^ 62"
  shows "b - b div 5 \<le> jittered b n" and "jittered b n \<le> b"
proof -
  let ?j = "int n mod (b div 5 + 1)"
  have j: "0 \<le> ?j" "?j \<le> b div 5"
    using assms pos_mod_bound [of "b div 5 + 1" "int n"] by (simp_all add: pos_imp_zdiv_nonneg_iff)
  have b: "b < 4611686018427387904" using assms by simp
  have "wrap64 (b + ?j) = b + ?j" using assms(1) b j by (intro wrap64_in_range) linarith+
  moreover have "wrap64 (b + ?j - b div 5) = b + ?j - b div 5"
    using assms(1) b j by (intro wrap64_in_range) linarith+
  ultimately have "jittered b n = b + ?j - b div 5" using assms by (simp add: jittered_def sdiv_nonneg)
  with j show "b - b div 5 \<le> jittered b n" and "jittered b n \<le> b" by simp_all
qed

definition backoff_after :: "int \<Rightarrow> int \<Rightarrow> nat \<Rightarrow> int" where
  "backoff_after m b i = min m (b * 2 ^ i)"

lemma next_backoff_min: "0 \<le> b \<Longrightarrow> b \<le> m \<Longrightarrow> m < 2 ^ 62 \<Longrightarrow> next_backoff m b = min m (b * 2)"
  using wrap64_in_range [of "b * 2"] by (auto simp: next_backoff_def Let_def)

lemma backoff_after_next:
  assumes "0 \<le> b" and "b \<le> m"
  shows "backoff_after m (min m (b * 2)) i = backoff_after m b (Suc i)"
proof (cases "b * 2 \<le> m")
  case False
  have "(1 :: int) \<le> 2 ^ i" by simp
  then have "m * 1 \<le> m * 2 ^ i" "m * 1 \<le> b * 2 * 2 ^ i"
    using assms False by (intro mult_left_mono mult_mono; simp)+
  then show ?thesis using False by (simp add: backoff_after_def min_def)
qed (simp add: backoff_after_def min_def mult.assoc)

text \<open>Every turn of the loop but the last is a failure followed by a sleep.\<close>

definition delays_ok :: "int \<Rightarrow> int \<Rightarrow> int list \<Rightarrow> bool" where
  "delays_ok m b sleeps = (\<forall>i < length sleeps. backoff_after m b i - backoff_after m b i div 5 \<le> sleeps ! i
     \<and> sleeps ! i \<le> backoff_after m b i)"

lemma delays_ok_Cons:
  assumes "0 \<le> b" and "b \<le> m" and "m < 2 ^ 62" and "delays_ok m (next_backoff m b) sleeps"
  shows "delays_ok m b (jittered b n # sleeps)"
  unfolding delays_ok_def
proof (intro allI impI)
  fix i assume i: "i < length (jittered b n # sleeps)"
  show "backoff_after m b i - backoff_after m b i div 5 \<le> (jittered b n # sleeps) ! i
      \<and> (jittered b n # sleeps) ! i \<le> backoff_after m b i"
  proof (cases i)
    case 0
    with assms jittered_bounds [of b n] show ?thesis by (simp add: backoff_after_def)
  next
    case (Suc k)
    then have "backoff_after m b i = backoff_after m (next_backoff m b) k"
      using assms by (simp add: next_backoff_min backoff_after_next)
    with assms(4) Suc i show ?thesis by (simp add: delays_ok_def)
  qed
qed

lemma drive_delays:
  assumes "0 < b" and "b \<le> m" and "m < 2 ^ 62"
    and "drive_rounds env hook m M b k rounds s = Some x"
  shows "\<exists>t sleeps. x = Ok (t, sleeps) \<and> delays_ok m b sleeps \<and> length sleeps \<le> length rounds
    \<and> (0 < M \<longrightarrow> k < M \<longrightarrow> int (length sleeps) + k < M)"
  using assms
proof (induction rounds arbitrary: b k s x)
  case (Cons r rs)
  have pos: "0 \<le> b sdiv 5" using Cons.prems(1) by (simp add: sdiv_nonneg pos_imp_zdiv_nonneg_iff)
  have nb: "0 < next_backoff m b" "next_backoff m b \<le> m"
    using Cons.prems by (simp_all add: next_backoff_min)
  have one: "delays_ok m b [jittered b n]" "delays_ok m b []" for n
    using delays_ok_Cons [of b m "[]" n] Cons.prems by (simp_all add: delays_ok_def)
  obtain s2 err1 where ens: "ensureClient env (rr_native r) (retireReconnectClient s) = (s2, err1)"
    by (cases "ensureClient env (rr_native r) (retireReconnectClient s)")
  let ?s3 = "update_reconnect (\<lambda>z. z\<lparr>zs_last_error := if err1 = None \<and> hook then rr_hook r else err1\<rparr>) s2"
  consider (stop) t sl where "x = Ok (t, sl)" "sl = [] \<or> (0 < M \<longrightarrow> k + 1 < M) \<and> sl = [jittered b (rr_random r)]"
    | (more) y where "drive_rounds env hook m M (next_backoff m b) (k + 1) rs ?s3 = Some y"
        "x = bindR y (\<lambda>(t, sl). Ok (t, jittered b (rr_random r) # sl))" "0 < M \<longrightarrow> k + 1 < M"
    using Cons.prems(4) pos ens by (auto simp: Let_def split: if_splits)
  then show ?case
  proof cases
    case stop
    with one show ?thesis by auto
  next
    case more
    from Cons.IH [OF nb Cons.prems(3) more(1)] obtain t sl where y: "y = Ok (t, sl)"
      "delays_ok m (next_backoff m b) sl" "length sl \<le> length rs" "0 < M \<longrightarrow> k + 1 < M \<longrightarrow> int (length sl) + (k + 1) < M"
      by blast
    with more delays_ok_Cons [OF _ Cons.prems(2,3) y(2)] Cons.prems(1) show ?thesis by auto
  qed
qed simp

lemma drive_returns:
  assumes "0 < M" and "k < M" and "M \<le> k + int (length rounds)"
  shows "drive_rounds env hook m M b k rounds s \<noteq> None"
  using assms
proof (induction rounds arbitrary: b k s)
  case (Cons r rs)
  have "drive_rounds env hook m M b' (k + 1) rs s' \<noteq> None" if "k + 1 < M" for b' s'
    using that Cons.prems by (intro Cons.IH) auto
  with Cons.prems show ?case by (auto simp: Let_def split: prod.splits)
qed simp

text \<open>A round starts without a client: opening one asks the library for it, and first opens
  the library itself unless an earlier round left it open.  \<open>round_error\<close> is the error of
  the round, that of the library, of the client or of the hook, and \<open>bridge_after\<close> whether
  the library stays open.\<close>

definition open_error :: "bool \<Rightarrow> native_answers \<Rightarrow> go_error option" where
  "open_error bridge native =
     (if \<not> bridge \<and> na_open_library native \<noteq> None then na_open_library native
      else snd (na_open_client native))"

definition round_error :: "bool \<Rightarrow> bool \<Rightarrow> reconnect_round \<Rightarrow> go_error option" where
  "round_error hook bridge r =
     (if open_error bridge (rr_native r) \<noteq> None then open_error bridge (rr_native r)
      else if hook then rr_hook r else None)"

definition bridge_after :: "bool \<Rightarrow> reconnect_round \<Rightarrow> bool" where
  "bridge_after bridge r = (open_error bridge (rr_native r) = None)"

fun round_errors :: "bool \<Rightarrow> bool \<Rightarrow> reconnect_round list \<Rightarrow> go_error option list" where
  "round_errors hook bridge [] = []"
| "round_errors hook bridge (r # rs) =
     round_error hook bridge r # round_errors hook (bridge_after bridge r) rs"

lemma ensure_reconnect:
  assumes "ensureClient env native s = (t, err)" and "zt_reconnect s = Some rs" and "zs_started rs"
  shows "zt_reconnect t = Some rs"
  using assms
  by (auto simp: ensureClient_def enableAutoReconnect_def Let_def split: if_splits prod.splits)

lemma enable_keeps:
  "zt_bridge (enableAutoReconnect s) = zt_bridge s" "zt_handle (enableAutoReconnect s) = zt_handle s"
  by (simp_all add: enableAutoReconnect_def Let_def)

lemma ensure_opens:
  assumes "ensureClient env native (retireReconnectClient s) = (t, err)"
  shows "err = open_error (zt_bridge s) native" and "zt_bridge t = (err = None)"
    and "err = None \<Longrightarrow> zt_handle t = fst (na_open_client native)"
proof -
  define u where "u = (let s0 = retireReconnectClient s;
      s1 = (if zt_endpoint s0 = [] then s0\<lparr>zt_endpoint := defaultAxonEndpoint env\<rparr> else s0);
      s2 = (if zt_connect_timeout_ms s1 \<le> 0
            then s1\<lparr>zt_connect_timeout_ms := DefaultConnectTimeoutMs\<rparr> else s1);
      s3 = (if zt_timeout_ms s2 \<le> 0 then s2\<lparr>zt_timeout_ms := DefaultTimeoutMs\<rparr> else s2)
      in enableAutoReconnect s3)"
  have u: "zt_bridge u = zt_bridge s" "zt_handle u = 0"
    by (simp_all add: u_def Let_def enable_keeps retireReconnectClient_def)
  have run: "ensureClient env native (retireReconnectClient s)
      = (if zt_bridge u \<and> zt_handle u \<noteq> 0 then (u, None)
         else if \<not> zt_bridge u \<and> na_open_library native \<noteq> None then (u, na_open_library native)
         else (let b = u\<lparr>zt_bridge := True\<rparr>; (handle, err) = na_open_client native in
            if err \<noteq> None then (b\<lparr>zt_bridge := False\<rparr>, err) else (b\<lparr>zt_handle := handle\<rparr>, None)))"
    by (simp only: ensureClient_def u_def Let_def)
  obtain h e where native: "na_open_client native = (h, e)" by (cases "na_open_client native")
  from assms run u native have "(if \<not> zt_bridge s \<and> na_open_library native \<noteq> None then (u, na_open_library native)
      else if e \<noteq> None then (u\<lparr>zt_bridge := False\<rparr>, e)
      else (u\<lparr>zt_bridge := True, zt_handle := h\<rparr>, None)) = (t, err)"
    by (auto simp: Let_def split: if_split_asm)
  with u native show "err = open_error (zt_bridge s) native" and "zt_bridge t = (err = None)"
    and "err = None \<Longrightarrow> zt_handle t = fst (na_open_client native)"
    unfolding open_error_def by (auto split: if_split_asm intro: sym)
qed

definition cancelled_round :: "reconnect_round \<Rightarrow> bool" where
  "cancelled_round r = (rr_cancelled_before r \<or> rr_cancelled_retired r \<or> rr_cancelled_opened r
     \<or> rr_cancelled_hook r \<or> rr_cancelled_sleeping r)"

text \<open>After \<open>n\<close> failures and sleeps: \<open>k\<close> attempts had failed before, \<open>M\<close> is the limit.\<close>

definition drive_outcome :: "bool \<Rightarrow> int \<Rightarrow> int \<Rightarrow> sidecar_transport \<Rightarrow> reconnect_state \<Rightarrow>
    reconnect_round list \<Rightarrow> nat \<Rightarrow> sidecar_transport \<Rightarrow> reconnect_state \<Rightarrow> bool" where
  "drive_outcome hook M k s rs rounds n t rs' =
     (zs_options rs' = zs_options rs \<and> zs_started rs'
      \<and> (\<forall>i < n. round_errors hook (zt_bridge s) rounds ! i \<noteq> None)
      \<and> (n < length rounds \<and> round_errors hook (zt_bridge s) rounds ! n = None
           \<and> zs_generation rs' = zs_generation rs + 1 \<and> \<not> zs_disconnected rs' \<and> zs_last_error rs' = None
           \<and> zt_bridge t \<and> zt_handle t = fst (na_open_client (rr_native (rounds ! n)))
         \<or> zs_generation rs' = zs_generation rs \<and> zs_disconnected rs' = zs_disconnected rs
           \<and> ((\<exists>r \<in> set (take (Suc n) rounds). cancelled_round r)
              \<or> n < length rounds \<and> round_errors hook (zt_bridge s) rounds ! n \<noteq> None
                \<and> 0 < M \<and> M \<le> k + int n + 1
                \<and> zs_last_error rs' = round_errors hook (zt_bridge s) rounds ! n)))"

lemma drive_outcome_later:
  assumes "drive_outcome hook M (k + 1) s' (rs\<lparr>zs_last_error := e\<rparr>) rounds n t rs'"
    and "round_error hook (zt_bridge s) r \<noteq> None" and "zt_bridge s' = bridge_after (zt_bridge s) r"
  shows "drive_outcome hook M k s rs (r # rounds) (Suc n) t rs'"
  using assms unfolding drive_outcome_def All_less_Suc2 take_Suc_Cons
  by (simp add: ac_simps) blast

lemma drive_reports:
  assumes "drive_rounds env hook m M b k rounds s = Some (Ok (t, sl))"
    and "zt_reconnect s = Some rs" and "zs_started rs"
  shows "\<exists>rs'. zt_reconnect t = Some rs' \<and> drive_outcome hook M k s rs rounds (length sl) t rs'"
  using assms
proof (induction rounds arbitrary: b k s sl rs)
  case (Cons r rs0)
  obtain s2 err1 where ens: "ensureClient env (rr_native r) (retireReconnectClient s) = (s2, err1)"
    by (cases "ensureClient env (rr_native r) (retireReconnectClient s)")
  have s2: "zt_reconnect s2 = Some rs"
    using ensure_reconnect [OF ens _ Cons.prems(3)] Cons.prems(2) by (simp add: retireReconnectClient_def)
  note opens = ensure_opens [OF ens]
  let ?err = "if err1 = None \<and> hook then rr_hook r else err1"
  let ?s3 = "update_reconnect (\<lambda>z. z\<lparr>zs_last_error := ?err\<rparr>) s2"
  let ?rs3 = "rs\<lparr>zs_last_error := ?err\<rparr>"
  have s3: "zt_reconnect ?s3 = Some ?rs3" using s2 by (simp add: update_reconnect_def)
  have err: "?err = round_error hook (zt_bridge s) r" using opens(1) by (auto simp: round_error_def)
  show ?case
  proof (cases "cancelled_round r \<or> ?err = None \<or> (0 < M \<and> k + 1 \<ge> M)")
    case True
    then show ?thesis
      using Cons.prems ens s2 s3 opens err
      by (auto simp: Let_def drive_outcome_def cancelled_round_def retireReconnectClient_def
          update_reconnect_def bindR_Ok_iff split: if_splits)
  next
    case False
    then obtain sl' where sl: "sl = jittered b (rr_random r) # sl'"
      and rest: "drive_rounds env hook m M (next_backoff m b) (k + 1) rs0 ?s3 = Some (Ok (t, sl'))"
      using Cons.prems(1) ens
      by (auto simp: Let_def cancelled_round_def bindR_Ok_iff split: if_splits)
    have bridge: "zt_bridge ?s3 = bridge_after (zt_bridge s) r"
      using opens(1,2) by (simp add: update_reconnect_def bridge_after_def)
    from Cons.IH [OF rest s3] Cons.prems(3) obtain rs' where rs': "zt_reconnect t = Some rs'"
      "drive_outcome hook M (k + 1) ?s3 ?rs3 rs0 (length sl') t rs'" by auto
    have "drive_outcome hook M k s rs (r # rs0) (Suc (length sl')) t rs'"
      using drive_outcome_later [OF rs'(2) _ bridge] False err by metis
    with rs'(1) sl show ?thesis by auto
  qed
qed simp

lemma applyDefaults_range:
  "0 < ro_initial_backoff_ms (applyDefaults o0)"
  "ro_initial_backoff_ms (applyDefaults o0) \<le> ro_max_backoff_ms (applyDefaults o0)"
  by (auto simp: applyDefaults_def Let_def)

lemma ms_duration_range: "0 \<le> ms \<Longrightarrow> ms < 4611686018427 \<Longrightarrow> ms_duration ms = ms * 1000000"
  by (simp add: ms_duration_def wrap64_in_range)

text \<open>C16: the worker reports what happened and waits as long as it says.  Let n be the
  number of delays when the loop ends: the first n rounds all failed, in opening the
  library, in opening the client or in the hook.  Then either round n opened the client and
  its hook, if there is one, succeeded: the transport holds the handle of that round, the
  flag and the error are cleared and the generation counts one more; or flag and generation
  are unchanged, and the context was cancelled during one of these rounds or round n was
  the last one permitted and failed too, and its error is the one recorded.  The loop never
  panics; the delay after the i-th failure is the initial backoff doubled i times and
  capped, less at most a fifth of it and never more; with a limit there are fewer delays
  than attempts.  The configured cap is assumed below 4611686018427 ms (146 years, $2^{62}$
  ns): the code does not check it, and above it the doubled backoff wraps and
  \<open>rand.Int63n\<close> panics.  The flag is set by nobody else while the loop runs.\<close>

theorem reconnect_reports:
  assumes "zt_reconnect s = Some rs" and "zs_started rs" and "zs_options rs = applyDefaults o0"
    and "ro_max_backoff_ms (zs_options rs) < 4611686018427"
    and "driveReconnect env rounds s = Some x"
  shows "\<exists>t sleeps rs'. x = Ok (t, sleeps) \<and> zt_reconnect t = Some rs'
    \<and> drive_outcome (ro_has_hook (zs_options rs)) (ro_max_attempts (zs_options rs)) 0 s rs rounds
        (length sleeps) t rs'
    \<and> delays_ok (ro_max_backoff_ms (zs_options rs) * 1000000)
        (ro_initial_backoff_ms (zs_options rs) * 1000000) sleeps
    \<and> (0 < ro_max_attempts (zs_options rs) \<longrightarrow> int (length sleeps) < ro_max_attempts (zs_options rs))"
proof -
  let ?o = "zs_options rs"
  let ?b = "ro_initial_backoff_ms ?o * 1000000" and ?m = "ro_max_backoff_ms ?o * 1000000"
  have range: "0 < ro_initial_backoff_ms ?o" "ro_initial_backoff_ms ?o \<le> ro_max_backoff_ms ?o"
    unfolding assms(3) by (rule applyDefaults_range)+
  then have drive: "drive_rounds env (ro_has_hook ?o) ?m (ro_max_attempts ?o) ?b 0 rounds s = Some x"
    using assms by (simp add: driveReconnect_def Let_def ms_duration_range)
  have "0 < ?b" "?b \<le> ?m" "?m < 2 ^ 62" using range assms(4) by simp_all
  from drive_delays [OF this drive] obtain t sleeps where x: "x = Ok (t, sleeps)"
    and d: "delays_ok ?m ?b sleeps" "0 < ro_max_attempts ?o \<longrightarrow> int (length sleeps) < ro_max_attempts ?o"
    by auto
  from drive_reports [OF _ assms(1,2)] drive x obtain rs' where "zt_reconnect t = Some rs'"
    "drive_outcome (ro_has_hook ?o) (ro_max_attempts ?o) 0 s rs rounds (length sleeps) t rs'" by blast
  with x d show ?thesis by blast
qed

text \<open>With a limit the loop ends within as many rounds.\<close>

lemma reconnect_gives_up:
  assumes "zt_reconnect s = Some rs" and "0 < ro_max_attempts (zs_options rs)"
    and "ro_max_attempts (zs_options rs) \<le> int (length rounds)"
  shows "driveReconnect env rounds s \<noteq> None"
  using assms drive_returns [of "ro_max_attempts (zs_options rs)" 0 rounds]
  by (simp add: driveReconnect_def Let_def)

text \<open>The bound on the cap is needed: a wrapped backoff panics.\<close>

lemma wrapped_backoff_panics:
  assumes "\<not> cancelled_round r" and "round_error hook (zt_bridge s) r \<noteq> None" and "b sdiv 5 + 1 \<le> 0"
  shows "drive_rounds env hook m 0 b k (r # rounds) s
    = Some (Panic (PlainErr ''invalid argument to Int63n''))"
proof -
  obtain s2 err1 where ens: "ensureClient env (rr_native r) (retireReconnectClient s) = (s2, err1)"
    by (cases "ensureClient env (rr_native r) (retireReconnectClient s)")
  have "(if err1 = None \<and> hook then rr_hook r else err1) = round_error hook (zt_bridge s) r"
    using ensure_opens(1) [OF ens] by (auto simp: round_error_def)
  with assms show ?thesis by (simp add: Let_def cancelled_round_def ens)
qed

text \<open>A transport whose first round is refused, whose second fails in the hook and whose
  third succeeds.\<close>

definition demo_worker :: reconnect_state where
  "demo_worker = \<lparr>zs_options = applyDefaults \<lparr>ro_initial_backoff_ms = 0, ro_max_backoff_ms = 0,
       ro_has_hook = True, ro_health_interval_ms = 0, ro_max_attempts = 3\<rparr>,
     zs_disconnected = True, zs_generation = 4, zs_last_error = None, zs_worker = True, zs_started = True\<rparr>"

definition demo_transport :: sidecar_transport where
  "demo_transport = \<lparr>zt_endpoint = ''e'', zt_connect_timeout_ms = 1, zt_timeout_ms = 1,
     zt_auto_reconnect = True, zt_options = zs_options demo_worker, zt_bridge = True, zt_handle = 9,
     zt_reconnect = Some demo_worker\<rparr>"

definition demo_round :: "u64 \<times> go_error option \<Rightarrow> go_error option \<Rightarrow> reconnect_round" where
  "demo_round answer hook = \<lparr>rr_cancelled_before = False, rr_cancelled_retired = False,
     rr_native = \<lparr>na_open_library = None, na_open_client = answer\<rparr>, rr_cancelled_opened = False,
     rr_hook = hook, rr_cancelled_hook = False, rr_random = 0, rr_cancelled_sleeping = False\<rparr>"

definition demo_rounds :: "reconnect_round list" where
  "demo_rounds = [demo_round (0, Some (PlainErr ''refused'')) None,
     demo_round (5, None) (Some (PlainErr ''hook'')), demo_round (6, None) None]"

lemma demo_round_errors:
  "round_errors True b demo_rounds = [Some (PlainErr ''refused''), Some (PlainErr ''hook''), None]"
  by (simp add: demo_rounds_def demo_round_def round_error_def open_error_def)

lemma demo_rounds_facts:
  "\<not> Bex (set (take n demo_rounds)) cancelled_round" "\<not> Bex (set demo_rounds) cancelled_round"
  "length demo_rounds = 3"
  "na_open_client (rr_native (demo_rounds ! 2)) = (6, None)"
  by (auto simp: demo_rounds_def demo_round_def cancelled_round_def dest!: in_set_takeD)

theorem reconnect_reports_witness:
  "\<exists>t sleeps rs'. driveReconnect ''x'' demo_rounds demo_transport = Some (Ok (t, sleeps))
    \<and> zt_reconnect t = Some rs' \<and> length sleeps = 2 \<and> delays_ok 30000000000 1000000000 sleeps
    \<and> zs_generation rs' = 5 \<and> zt_handle t = 6"
proof -
  let ?opts = "\<lparr>ro_initial_backoff_ms = 0, ro_max_backoff_ms = 0, ro_has_hook = True,
      ro_health_interval_ms = 0, ro_max_attempts = 3\<rparr>"
  have opt: "ro_has_hook (zs_options demo_worker)" "ro_max_attempts (zs_options demo_worker) = 3"
      "ro_max_backoff_ms (zs_options demo_worker) = 30000"
      "ro_initial_backoff_ms (zs_options demo_worker) = 1000"
    by (simp_all add: demo_worker_def applyDefaults_def Let_def)
  have start: "zt_reconnect demo_transport = Some demo_worker" "zs_started demo_worker"
    "zs_options demo_worker = applyDefaults ?opts"
    by (simp_all add: demo_transport_def demo_worker_def)
  have "driveReconnect ''x'' demo_rounds demo_transport \<noteq> None"
    using reconnect_gives_up [OF start(1)] opt(2) by (simp add: demo_rounds_def)
  then obtain x where run: "driveReconnect ''x'' demo_rounds demo_transport = Some x" by blast
  from reconnect_reports [OF start _ run] opt obtain t sl rs' where t: "x = Ok (t, sl)"
    "zt_reconnect t = Some rs'" "delays_ok 30000000000 1000000000 sl" "int (length sl) < 3"
    and o1: "drive_outcome True 3 0 demo_transport demo_worker demo_rounds (length sl) t rs'" by auto
  from t(4) have "length sl = 0 \<or> length sl = 1 \<or> length sl = 2" by linarith
  with o1 have "length sl = 2 \<and> zs_generation rs' = zs_generation demo_worker + 1 \<and> zt_handle t = 6"
    unfolding drive_outcome_def demo_round_errors
    by (elim disjE) (simp_all add: demo_rounds_facts All_less_Suc2 numeral_2_eq_2 [symmetric])
  with run t show ?thesis by (auto simp: demo_worker_def)
qed

end
