(* ===== verification/BidiSession.thy ===== *)
theory BidiSession
  imports Reconnect
begin

text \<open>
  Bidirectional sessions of the client (\<open>axon/bidi_session.go\<close>): the lifecycle, the ordered
  and bounded frame histories, and the operations cut where a transport call leaves the
  state unlocked.  The answers of the transport are arguments.  A map of JSON values is
  given by what \<open>fmt.Sprint\<close> prints for each key.
\<close>

section \<open>Errors and frames\<close>

record dendrite_error =
  de_message :: string
  de_code :: string
  de_source :: string
  de_response :: string

text \<open>An error is a \<open>DendriteError\<close>, an error that wraps one, or another.\<close>

datatype any_error = Dendrite dendrite_error | WrapsDendrite string | OtherError string

definition dendrite :: "string \<Rightarrow> string \<Rightarrow> any_error" where
  "dendrite code message =
     Dendrite \<lparr>de_message = message, de_code = code, de_source = [], de_response = []\<rparr>"

fun any_error_string :: "any_error \<Rightarrow> string" where
  "any_error_string (Dendrite d) = (if de_message d = [] then de_code d else de_message d)"
| "any_error_string (WrapsDendrite s) = s"
| "any_error_string (OtherError s) = s"

definition DendriteError_Is :: "dendrite_error \<Rightarrow> any_error \<Rightarrow> bool" where
  "DendriteError_Is e target =
     (case target of Dendrite t \<Rightarrow> de_code t \<noteq> [] \<and> de_code t = de_code e | _ \<Rightarrow> False)"

definition bidiValidationError :: "string \<Rightarrow> any_error" where
  "bidiValidationError message = dendrite ''VALIDATION'' message"

definition bidiTransportError :: "string \<Rightarrow> any_error option \<Rightarrow> any_error" where
  "bidiTransportError message err =
     (case err of
        None \<Rightarrow> dendrite ''STREAM'' message
      | Some (OtherError e) \<Rightarrow> dendrite ''STREAM'' (message @ '': '' @ e)
      | Some e \<Rightarrow> e)"

type_synonym printed_map = "string \<rightharpoonup> string"

definition printed :: "printed_map \<Rightarrow> string \<Rightarrow> string" where
  "printed m k = (case m k of None \<Rightarrow> ''<nil>'' | Some v \<Rightarrow> v)"

definition BidiFrameBinary :: string where "BidiFrameBinary = ''binary_chunk''"
definition BidiFrameReceipt :: string where "BidiFrameReceipt = ''receipt''"
definition BidiFrameControl :: string where "BidiFrameControl = ''control''"
definition BidiFrameDone :: string where "BidiFrameDone = ''done''"
definition BidiFrameTimeout :: string where "BidiFrameTimeout = ''timeout''"

lemmas frame_kinds = BidiFrameBinary_def BidiFrameReceipt_def BidiFrameControl_def
  BidiFrameDone_def BidiFrameTimeout_def

record bidi_frame =
  bf_kind :: string
  bf_sequence :: u64
  bf_stream_id :: u32
  bf_data :: bytes
  bf_pts :: u64
  bf_receipt :: printed_map
  bf_terminal :: bool
  bf_control :: printed_map

definition NewBidiBinaryFrame :: "u64 \<Rightarrow> u32 \<Rightarrow> bytes \<Rightarrow> u64 \<Rightarrow> any_error + bidi_frame" where
  "NewBidiBinaryFrame sequence streamID data pts =
     (if sequence = 0 then Inl (bidiValidationError ''bidi frame sequence is required'')
      else Inr \<lparr>bf_kind = BidiFrameBinary, bf_sequence = sequence, bf_stream_id = streamID,
                bf_data = data, bf_pts = pts, bf_receipt = Map.empty, bf_terminal = False,
                bf_control = Map.empty\<rparr>)"

section \<open>The session\<close>

datatype bidi_state = BidiOpening | BidiOpen | BidiCancelRequested | BidiHalfClosedLocal
  | BidiHalfClosedRemote | BidiDraining | BidiTerminal | BidiClosed | BidiCancelled | BidiFailed

datatype bidi_event = bidiEventLocalClose | bidiEventRemoteClose | bidiEventCancel | bidiEventComplete
  | bidiEventCancelled | bidiEventFail | bidiEventTransportFail | bidiEventClose

definition MaxBidiBufferedFrames :: int where "MaxBidiBufferedFrames = 1024"

record bidi_session =
  bs_session_id :: string
  bs_max_buffered :: int
  bs_state :: bidi_state
  bs_last_send :: u64
  bs_last_recv :: u64
  bs_sent :: "bidi_frame list"
  bs_received :: "bidi_frame list"
  bs_terminal :: "bidi_frame option"
  bs_remote_done :: bool

definition NewBidiSession ::
  "bool \<Rightarrow> string \<Rightarrow> string \<Rightarrow> int \<Rightarrow> any_error + bidi_session" where
  "NewBidiSession transportNil sessionID initialState maxBufferedFrames =
     (let sid = trim_space sessionID;
          state = (if initialState = [] then ''Opening'' else initialState);
          maxBuffered = (if maxBufferedFrames = 0 then MaxBidiBufferedFrames else maxBufferedFrames) in
      if transportNil then Inl (bidiValidationError ''bidi transport is required'')
      else if sid = [] then Inl (bidiValidationError ''bidi session_id is required'')
      else if state \<noteq> ''Opening'' \<and> state \<noteq> ''Open''
      then Inl (bidiValidationError ''bidi initial state must be Opening or Open'')
      else if maxBuffered < 0 \<or> maxBuffered > MaxBidiBufferedFrames
      then Inl (bidiValidationError ''bidi max_buffered_frames must be between 0 and 1024'')
      else Inr \<lparr>bs_session_id = sid, bs_max_buffered = maxBuffered,
                bs_state = (if state = ''Opening'' then BidiOpening else BidiOpen),
                bs_last_send = 0, bs_last_recv = 0, bs_sent = [], bs_received = [],
                bs_terminal = None, bs_remote_done = False\<rparr>)"

definition nextBidiState :: "bidi_state \<Rightarrow> bidi_event \<Rightarrow> bidi_state option" where
  "nextBidiState current event =
     (let live = current \<in> {BidiOpening, BidiOpen, BidiCancelRequested, BidiHalfClosedLocal,
                           BidiHalfClosedRemote, BidiDraining} in
      case event of
        bidiEventLocalClose \<Rightarrow>
          (if current = BidiOpen then Some BidiHalfClosedLocal
           else if current = BidiHalfClosedRemote then Some BidiDraining else None)
      | bidiEventRemoteClose \<Rightarrow>
          (if current = BidiOpening \<or> current = BidiOpen then Some BidiHalfClosedRemote
           else if current = BidiHalfClosedLocal then Some BidiDraining else None)
      | bidiEventCancel \<Rightarrow>
          (if current \<in> {BidiOpening, BidiOpen, BidiHalfClosedLocal, BidiHalfClosedRemote, BidiDraining}
           then Some BidiCancelRequested else None)
      | bidiEventComplete \<Rightarrow> if live then Some BidiTerminal else None
      | bidiEventCancelled \<Rightarrow> if live then Some BidiCancelled else None
      | bidiEventFail \<Rightarrow> if live then Some BidiFailed else None
      | bidiEventTransportFail \<Rightarrow> if live then Some BidiFailed else None
      | bidiEventClose \<Rightarrow>
          if current \<in> {BidiTerminal, BidiCancelled, BidiFailed, BidiClosed} then Some BidiClosed else None)"

definition isTerminalBidiState :: "bidi_state \<Rightarrow> bool" where
  "isTerminalBidiState s = (s \<in> {BidiTerminal, BidiClosed, BidiCancelled, BidiFailed})"

definition validateOrderedBidiFrame :: "bidi_frame \<Rightarrow> u64 \<Rightarrow> string \<Rightarrow> any_error option" where
  "validateOrderedBidiFrame frame lastSequence direction =
     (if bf_kind frame = [] then Some (bidiValidationError ''bidi frame kind is required'')
      else if bf_sequence frame = 0 then Some (bidiValidationError ''bidi frame sequence is required'')
      else if bf_sequence frame \<le> lastSequence
      then Some (bidiValidationError (''bidi '' @ direction @ '' frames must be strictly ordered''))
      else None)"

definition appendBoundedBidiFrame :: "bidi_frame list \<Rightarrow> bidi_frame \<Rightarrow> int \<Rightarrow> bidi_frame list" where
  "appendBoundedBidiFrame frames frame limit =
     (if limit \<le> 0 then frames
      else if int (length frames) = limit then tl frames @ [frame]
      else frames @ [frame])"

definition bidi_transition :: "bidi_event \<Rightarrow> bidi_session \<Rightarrow> bidi_session \<times> bool" where
  "bidi_transition event s =
     (case nextBidiState (bs_state s) event of
        None \<Rightarrow> (s, False)
      | Some next \<Rightarrow> (s\<lparr>bs_state := next\<rparr>, True))"

definition bidi_fail :: "bidi_session \<Rightarrow> bidi_session" where
  "bidi_fail s = fst (bidi_transition bidiEventTransportFail s)"

section \<open>Sending\<close>

definition send_check :: "bidi_frame \<Rightarrow> bidi_session \<Rightarrow> bidi_session \<times> any_error option" where
  "send_check frame s =
     (if bs_state s \<noteq> BidiOpen \<and> bs_state s \<noteq> BidiHalfClosedRemote
      then (s, Some (bidiValidationError ''bidi send path is closed''))
      else (case validateOrderedBidiFrame frame (bs_last_send s) ''sent'' of
              Some e \<Rightarrow> (s\<lparr>bs_state := BidiFailed\<rparr>, Some e)
            | None \<Rightarrow> (s, None)))"

definition send_record :: "bidi_frame \<Rightarrow> bidi_session \<Rightarrow> bidi_session" where
  "send_record frame s = s\<lparr>bs_last_send := bf_sequence frame,
     bs_sent := appendBoundedBidiFrame (bs_sent s) frame (bs_max_buffered s)\<rparr>"

text \<open>\<open>requireReady\<close>: no context at all, or one with its error.\<close>

definition requireReady :: "any_error option option \<Rightarrow> any_error option" where
  "requireReady ctx =
     (case ctx of None \<Rightarrow> Some (bidiValidationError ''bidi context is required'') | Some e \<Rightarrow> e)"

definition bidi_Send ::
  "any_error option option \<Rightarrow> bidi_frame \<Rightarrow> any_error option \<Rightarrow> bidi_session \<Rightarrow>
   bidi_session \<times> any_error option" where
  "bidi_Send ctx frame transport s =
     (case requireReady ctx of
        Some e \<Rightarrow> (s, Some e)
      | None \<Rightarrow>
          (case send_check frame s of
             (s1, Some e) \<Rightarrow> (s1, Some e)
           | (s1, None) \<Rightarrow>
               (case transport of
                  Some e \<Rightarrow> (bidi_fail s1, Some (bidiTransportError ''bidi send transport failed'' (Some e)))
                | None \<Rightarrow> (send_record frame s1, None))))"

section \<open>Receiving\<close>

definition recv_check :: "bidi_session \<Rightarrow> any_error option" where
  "recv_check s =
     (if bs_state s = BidiClosed \<or> bs_remote_done s \<or> bs_state s = BidiFailed \<and> bs_terminal s = None
      then Some (bidiValidationError ''bidi receive path is closed'') else None)"

text \<open>The event of a receipt, by the state it prints.\<close>

definition receipt_event :: "string \<Rightarrow> bidi_event option" where
  "receipt_event state =
     (let st = go_lower (trim_space state) in
      if st = ''completed'' \<or> st = ''terminal'' then Some bidiEventComplete
      else if st = ''cancelled'' \<or> st = ''canceled'' then Some bidiEventCancelled
      else if st = ''failed'' then Some bidiEventFail
      else None)"

definition bidi_opened :: "bidi_session \<Rightarrow> bidi_session" where
  "bidi_opened s = (if bs_state s = BidiOpening then s\<lparr>bs_state := BidiOpen\<rparr> else s)"

text \<open>\<open>strings.EqualFold(s, "eof")\<close>: none of its letters folds to one outside ASCII.\<close>

definition is_eof :: "bidi_frame \<Rightarrow> bool" where
  "is_eof frame = (bf_kind frame = BidiFrameControl
     \<and> map ascii_lower (printed (bf_control frame) ''kind'') = ''eof'')"

definition applyFrame :: "bidi_frame \<Rightarrow> bidi_session \<Rightarrow> bidi_session \<times> any_error option" where
  "applyFrame frame s =
     (if is_eof frame
      then (case nextBidiState (bs_state s) bidiEventRemoteClose of
              None \<Rightarrow> (s, Some (bidiValidationError ''unexpected remote bidi close''))
            | Some next \<Rightarrow> (s\<lparr>bs_state := next\<rparr>, None))
      else if bf_kind frame \<noteq> BidiFrameReceipt then (bidi_opened s, None)
      else if bs_terminal s \<noteq> None then (s, Some (bidiValidationError ''duplicate terminal bidi receipt''))
      else (case receipt_event (printed (bf_receipt frame) ''state'') of
              None \<Rightarrow> (bidi_opened s, None)
            | Some event \<Rightarrow>
                (case nextBidiState (bs_state s) event of
                   None \<Rightarrow> (s, Some (bidiValidationError ''unexpected terminal bidi receipt''))
                 | Some next \<Rightarrow> (s\<lparr>bs_state := next, bs_terminal := Some frame\<rparr>, None))))"

definition recv_record :: "bidi_frame \<Rightarrow> bidi_session \<Rightarrow> bidi_session" where
  "recv_record frame s = s\<lparr>bs_last_recv := bf_sequence frame,
     bs_received := appendBoundedBidiFrame (bs_received s) frame (bs_max_buffered s)\<rparr>"

text \<open>The second locked section of \<open>Receive\<close>, for a frame that is not a timeout.\<close>

definition recv_apply :: "bidi_frame \<Rightarrow> bidi_session \<Rightarrow> bidi_session \<times> (any_error + bidi_frame)" where
  "recv_apply frame s =
     (if bf_kind frame = BidiFrameDone
      then (if bs_terminal s = None
            then (s\<lparr>bs_state := BidiFailed\<rparr>,
                  Inl (bidiValidationError ''bidi transport ended before a terminal receipt''))
            else (s\<lparr>bs_remote_done := True\<rparr>, Inr frame))
      else if bs_terminal s \<noteq> None
      then (s, Inl (bidiValidationError ''bidi frame received after terminal receipt''))
      else (case validateOrderedBidiFrame frame (bs_last_recv s) ''received'' of
              Some e \<Rightarrow> (s\<lparr>bs_state := BidiFailed\<rparr>, Inl e)
            | None \<Rightarrow>
                (case applyFrame frame (recv_record frame s) of
                   (s1, Some e) \<Rightarrow> (s1\<lparr>bs_state := BidiFailed\<rparr>, Inl e)
                 | (s1, None) \<Rightarrow> (s1, Inr frame))))"

definition bidi_Receive ::
  "any_error option option \<Rightarrow> any_error + bidi_frame \<Rightarrow> bidi_session \<Rightarrow>
   bidi_session \<times> (any_error + bidi_frame)" where
  "bidi_Receive ctx transport s =
     (case requireReady ctx of
        Some e \<Rightarrow> (s, Inl e)
      | None \<Rightarrow>
          (case recv_check s of
             Some e \<Rightarrow> (s, Inl e)
           | None \<Rightarrow>
               (case transport of
                  Inl e \<Rightarrow> (bidi_fail s, Inl (bidiTransportError ''bidi receive transport failed'' (Some e)))
                | Inr frame \<Rightarrow> if bf_kind frame = BidiFrameTimeout then (s, Inr frame)
                               else recv_apply frame s)))"

section \<open>Lifecycle commands\<close>

record bidi_outcome =
  bo_session_id :: string
  bo_state :: bidi_state
  bo_terminal :: bool
  bo_reason :: string

definition bidi_outcome_of :: "bidi_session \<Rightarrow> string \<Rightarrow> bidi_outcome" where
  "bidi_outcome_of s reason = \<lparr>bo_session_id = bs_session_id s, bo_state = bs_state s,
     bo_terminal = isTerminalBidiState (bs_state s), bo_reason = reason\<rparr>"

definition bidi_CloseSend ::
  "any_error option option \<Rightarrow> any_error option \<Rightarrow> bidi_session \<Rightarrow>
   bidi_session \<times> (any_error + bidi_outcome)" where
  "bidi_CloseSend ctx transport s =
     (case requireReady ctx of
        Some e \<Rightarrow> (s, Inl e)
      | None \<Rightarrow>
          (let (s1, ok) = bidi_transition bidiEventLocalClose s in
           if \<not> ok then (s1, Inl (bidiValidationError ''bidi send path is closed''))
           else (case transport of
                   Some e \<Rightarrow> (bidi_fail s1, Inl (bidiTransportError ''bidi close-send transport failed'' (Some e)))
                 | None \<Rightarrow> (s1, Inr (bidi_outcome_of s1 [])))))"

definition bidi_Cancel ::
  "any_error option option \<Rightarrow> bool \<Rightarrow> string \<Rightarrow> any_error option \<Rightarrow> bidi_session \<Rightarrow>
   bidi_session \<times> (any_error + bidi_outcome)" where
  "bidi_Cancel ctx supported reason transport s =
     (case requireReady ctx of
        Some e \<Rightarrow> (s, Inl e)
      | None \<Rightarrow>
          if \<not> supported
          then (s, Inl (bidiValidationError ''bidi cancellation is unsupported by the transport''))
          else (let (s1, ok) = bidi_transition bidiEventCancel s in
                if \<not> ok then (s1, Inl (bidiValidationError ''bidi session is terminal''))
                else (case transport of
                        Some e \<Rightarrow> (bidi_fail s1, Inl (bidiTransportError ''bidi cancel transport failed'' (Some e)))
                      | None \<Rightarrow> (s1, Inr (bidi_outcome_of s1 reason)))))"

text \<open>\<open>Close\<close>: already closed, refused, or going on to close the transport.\<close>

datatype close_decision = CloseNothing | CloseRefused | CloseTransport

definition close_check :: "bidi_session \<Rightarrow> close_decision" where
  "close_check s =
     (if bs_state s = BidiClosed then CloseNothing
      else if bs_state s \<notin> {BidiTerminal, BidiCancelled, BidiFailed} then CloseRefused
      else CloseTransport)"

definition bidi_Close ::
  "any_error option option \<Rightarrow> any_error option \<Rightarrow> bidi_session \<Rightarrow> bidi_session \<times> any_error option" where
  "bidi_Close ctx transport s =
     (case requireReady ctx of
        Some e \<Rightarrow> (s, Some e)
      | None \<Rightarrow>
          (case close_check s of
             CloseNothing \<Rightarrow> (s, None)
           | CloseRefused \<Rightarrow> (s, Some (bidiValidationError ''bidi session must be terminal before close''))
           | CloseTransport \<Rightarrow>
               (case transport of
                  Some e \<Rightarrow> (bidi_fail s, Some (bidiTransportError ''bidi close transport failed'' (Some e)))
                | None \<Rightarrow>
                    (let (s1, ok) = bidi_transition bidiEventClose s in
                     (s1, if ok then None else Some (bidiValidationError ''invalid bidi transition''))))))"

definition TerminalFrameOf :: "bidi_session \<Rightarrow> any_error + bidi_frame" where
  "TerminalFrameOf s =
     (case bs_terminal s of
        None \<Rightarrow> Inl (bidiValidationError ''bidi terminal frame has not been seen'')
      | Some f \<Rightarrow> Inr f)"

section \<open>Operations interleaved\<close>

text \<open>The sender, receiver and closer mutexes admit one operation each; between its locked
  sections the other two can act.  \<open>yb_sent\<close> and \<open>yb_received\<close> are the whole histories of
  the frames the session accepted.\<close>

record bidi_system =
  yb_session :: bidi_session
  yb_sending :: "bidi_frame option"
  yb_commanding :: bool
  yb_receiving :: bool
  yb_closing :: bool
  yb_sent :: "bidi_frame list"
  yb_received :: "bidi_frame list"

definition bidi_initial :: "bidi_system \<Rightarrow> bool" where
  "bidi_initial y = (\<exists>sid st m s. NewBidiSession False sid st m = Inr s
     \<and> y = \<lparr>yb_session = s, yb_sending = None, yb_commanding = False, yb_receiving = False,
            yb_closing = False, yb_sent = [], yb_received = []\<rparr>)"

definition send_free :: "bidi_system \<Rightarrow> bool" where
  "send_free y = (yb_sending y = None \<and> \<not> yb_commanding y)"

definition accepts :: "bidi_frame \<Rightarrow> bidi_session \<Rightarrow> bool" where
  "accepts f s = (bf_kind f \<noteq> BidiFrameDone \<and> bs_terminal s = None
     \<and> validateOrderedBidiFrame f (bs_last_recv s) ''received'' = None)"

inductive bidi_step :: "bidi_system \<Rightarrow> bidi_system \<Rightarrow> bool" where
  send_refused: "send_free y \<Longrightarrow> send_check f (yb_session y) = (s, Some e) \<Longrightarrow>
    bidi_step y (y\<lparr>yb_session := s\<rparr>)"
| send_begins: "send_free y \<Longrightarrow> send_check f (yb_session y) = (s, None) \<Longrightarrow>
    bidi_step y (y\<lparr>yb_session := s, yb_sending := Some f\<rparr>)"
| send_ends: "yb_sending y = Some f \<Longrightarrow>
    bidi_step y (y\<lparr>yb_session := send_record f (yb_session y), yb_sending := None,
                   yb_sent := yb_sent y @ [f]\<rparr>)"
| send_fails: "yb_sending y = Some f \<Longrightarrow>
    bidi_step y (y\<lparr>yb_session := bidi_fail (yb_session y), yb_sending := None\<rparr>)"
| command_begins: "send_free y \<Longrightarrow> ev \<in> {bidiEventLocalClose, bidiEventCancel} \<Longrightarrow>
    bidi_transition ev (yb_session y) = (s, True) \<Longrightarrow>
    bidi_step y (y\<lparr>yb_session := s, yb_commanding := True\<rparr>)"
| command_ends: "yb_commanding y \<Longrightarrow> bidi_step y (y\<lparr>yb_commanding := False\<rparr>)"
| command_fails: "yb_commanding y \<Longrightarrow>
    bidi_step y (y\<lparr>yb_session := bidi_fail (yb_session y), yb_commanding := False\<rparr>)"
| receive_begins: "\<not> yb_receiving y \<Longrightarrow> recv_check (yb_session y) = None \<Longrightarrow>
    bidi_step y (y\<lparr>yb_receiving := True\<rparr>)"
| receive_idle: "yb_receiving y \<Longrightarrow> bidi_step y (y\<lparr>yb_receiving := False\<rparr>)"
| receive_fails: "yb_receiving y \<Longrightarrow>
    bidi_step y (y\<lparr>yb_session := bidi_fail (yb_session y), yb_receiving := False\<rparr>)"
| receive_ends: "yb_receiving y \<Longrightarrow> bf_kind f \<noteq> BidiFrameTimeout \<Longrightarrow>
    recv_apply f (yb_session y) = (s, r) \<Longrightarrow>
    bidi_step y (y\<lparr>yb_session := s, yb_receiving := False,
                   yb_received := (if accepts f (yb_session y) then yb_received y @ [f] else yb_received y)\<rparr>)"
| close_begins: "\<not> yb_closing y \<Longrightarrow> close_check (yb_session y) = CloseTransport \<Longrightarrow>
    bidi_step y (y\<lparr>yb_closing := True\<rparr>)"
| close_ends: "yb_closing y \<Longrightarrow>
    bidi_step y (y\<lparr>yb_session := fst (bidi_transition bidiEventClose (yb_session y)), yb_closing := False\<rparr>)"
| close_fails: "yb_closing y \<Longrightarrow>
    bidi_step y (y\<lparr>yb_session := bidi_fail (yb_session y), yb_closing := False\<rparr>)"

end
