(* ===== verification/Base64.thy ===== *)
theory Base64
  imports Prelude
begin

text \<open>
  \<open>base64.StdEncoding\<close> of the standard library, which carries every byte string over the
  native boundary: the encoder with its padding, and the decoder that skips line breaks,
  ignores the bits left over in the last digit and reports the offset of a corrupt byte.
\<close>

section \<open>Digits\<close>

definition b64_char :: "nat \<Rightarrow> char" where
  "b64_char n =
     (if n < 26 then char_of (65 + n) else if n < 52 then char_of (71 + n)
      else if n < 62 then char_of (n - 4) else if n = 62 then CHR ''+'' else CHR ''/'')"

definition b64_val :: "char \<Rightarrow> nat option" where
  "b64_val c =
     (let b = of_char c :: nat in
      if 65 \<le> b \<and> b \<le> 90 then Some (b - 65) else if 97 \<le> b \<and> b \<le> 122 then Some (b - 71)
      else if 48 \<le> b \<and> b \<le> 57 then Some (b + 4) else if c = CHR ''+'' then Some 62
      else if c = CHR ''/'' then Some 63 else None)"

lemma b64_val_char [simp]: "n < 64 \<Longrightarrow> b64_val (b64_char n) = Some n"
  by (cases "n = 62"; cases "n = 63") (auto simp: b64_char_def b64_val_def Let_def)

section \<open>Encoding\<close>

definition b64_first :: "u8 \<Rightarrow> nat" where
  "b64_first a = unat a div 4"

definition b64_second :: "u8 \<Rightarrow> u8 \<Rightarrow> nat" where
  "b64_second a b = unat a mod 4 * 16 + unat b div 16"

definition b64_third :: "u8 \<Rightarrow> u8 \<Rightarrow> nat" where
  "b64_third b c = unat b mod 16 * 4 + unat c div 64"

definition b64_fourth :: "u8 \<Rightarrow> nat" where
  "b64_fourth c = unat c mod 64"

text \<open>\<open>EncodeToString\<close>; the missing bytes of the last group count as zero.\<close>

fun b64_encode :: "bytes \<Rightarrow> string" where
  "b64_encode [] = []"
| "b64_encode [a] = [b64_char (b64_first a), b64_char (b64_second a 0), CHR ''='', CHR ''='']"
| "b64_encode [a, b] =
     [b64_char (b64_first a), b64_char (b64_second a b), b64_char (b64_third b 0), CHR ''='']"
| "b64_encode (a # b # c # bs) =
     b64_char (b64_first a) # b64_char (b64_second a b) # b64_char (b64_third b c)
     # b64_char (b64_fourth c) # b64_encode bs"

section \<open>Decoding\<close>

text \<open>The bytes of the digits of a group: one byte less than there are digits.\<close>

fun b64_group :: "nat list \<Rightarrow> bytes" where
  "b64_group [v, w] = [of_nat (v * 4 + w div 16)]"
| "b64_group [v, w, x] = [of_nat (v * 4 + w div 16), of_nat (w mod 16 * 16 + x div 4)]"
| "b64_group [v, w, x, y] =
     [of_nat (v * 4 + w div 16), of_nat (w mod 16 * 16 + x div 4), of_nat (x mod 4 * 64 + y)]"
| "b64_group _ = []"

definition line_break :: "char \<Rightarrow> bool" where
  "line_break c = (c = CHR 0x0A \<or> c = CHR 0x0D)"

text \<open>What follows the last padding character: \<open>pos\<close> is its offset.\<close>

definition b64_tail :: "nat \<Rightarrow> nat list \<Rightarrow> string \<Rightarrow> nat + bytes" where
  "b64_tail pos buf s =
     (let rest = dropWhile line_break s in
      if rest = [] then Inr (b64_group buf) else Inl (pos + (length s - length rest)))"

definition b64_padding :: "nat \<Rightarrow> nat list \<Rightarrow> string \<Rightarrow> nat + bytes" where
  "b64_padding pos buf s =
     (if length buf < 2 then Inl pos
      else if length buf = 2
      then (let rest = dropWhile line_break s; at = pos + 1 + (length s - length rest) in
            case rest of
              [] \<Rightarrow> Inl at
            | c # r \<Rightarrow> if c \<noteq> CHR ''='' then Inl (at - 1) else b64_tail (at + 1) buf r)
      else b64_tail (pos + 1) buf s)"

fun prepend_group :: "bytes \<Rightarrow> nat + bytes \<Rightarrow> nat + bytes" where
  "prepend_group b (Inl n) = Inl n"
| "prepend_group b (Inr r) = Inr (b @ r)"

text \<open>\<open>pos\<close> is the offset of the next character, \<open>buf\<close> the digits of the current group.\<close>

fun b64_scan :: "nat \<Rightarrow> nat list \<Rightarrow> string \<Rightarrow> nat + bytes" where
  "b64_scan pos buf [] = (if buf = [] then Inr [] else Inl (pos - length buf))"
| "b64_scan pos buf (c # s) =
     (case b64_val c of
        Some v \<Rightarrow>
          if length buf = 3 then prepend_group (b64_group (buf @ [v])) (b64_scan (pos + 1) [] s)
          else b64_scan (pos + 1) (buf @ [v]) s
      | None \<Rightarrow>
          if line_break c then b64_scan (pos + 1) buf s
          else if c \<noteq> CHR ''='' then Inl pos
          else b64_padding pos buf s)"

text \<open>\<open>DecodeString\<close>: the bytes, or the offset of the corrupt input.\<close>

definition b64_decode :: "string \<Rightarrow> nat + bytes" where
  "b64_decode s = b64_scan 0 [] s"

section \<open>Round trip\<close>

lemma unat_u8: "unat (a :: u8) < 256"
  using unsigned_less [of a] by simp

lemma b64_digit_bounds [simp]:
  "b64_first a < 64" "b64_second a b < 64" "b64_third b c < 64" "b64_fourth c < 64"
  using unat_u8 [of a] unat_u8 [of b] unat_u8 [of c]
  by (auto simp: b64_first_def b64_second_def b64_third_def b64_fourth_def)

lemma b64_group_digits:
  "b64_group [b64_first a, b64_second a b] = [a]"
  "b64_group [b64_first a, b64_second a b, b64_third b c] = [a, b]"
  "b64_group [b64_first a, b64_second a b, b64_third b c, b64_fourth c] = [a, b, c]"
proof -
  have "unat b div 16 < 16" "unat c div 64 < 4" using unat_u8 [of b] unat_u8 [of c] by auto
  then have "b64_first a * 4 + b64_second a b div 16 = unat a"
    "b64_second a b mod 16 * 16 + b64_third b c div 4 = unat b"
    "b64_third b c mod 4 * 64 + b64_fourth c = unat c"
    by (simp_all add: b64_first_def b64_second_def b64_third_def b64_fourth_def)
  then show "b64_group [b64_first a, b64_second a b] = [a]"
    "b64_group [b64_first a, b64_second a b, b64_third b c] = [a, b]"
    "b64_group [b64_first a, b64_second a b, b64_third b c, b64_fourth c] = [a, b, c]"
    by simp_all
qed

lemma pad_no_digit [simp]: "b64_val (CHR ''='') = None" "\<not> line_break (CHR ''='')"
  by (simp_all add: b64_val_def line_break_def)

lemma b64_scan_encode: "b64_scan pos [] (b64_encode bs) = Inr bs"
  by (induction bs arbitrary: pos rule: b64_encode.induct)
     (simp_all add: b64_padding_def b64_tail_def b64_group_digits del: b64_group.simps)

lemma b64_decode_encode [simp]: "b64_decode (b64_encode bs) = Inr bs"
  by (simp add: b64_decode_def b64_scan_encode)

lemma b64_encode_Nil_iff [simp]: "b64_encode bs = [] \<longleftrightarrow> bs = []"
  by (cases bs rule: b64_encode.cases) simp_all

text \<open>The text is the padded one: four characters for every three bytes begun.\<close>

lemma length_b64_encode: "length (b64_encode bs) = (length bs + 2) div 3 * 4"
  by (induction bs rule: b64_encode.induct) (simp, simp, simp, simp, presburger)

text \<open>Line breaks are skipped wherever they stand among whole groups.\<close>

lemma b64_scan_line_break: "line_break c \<Longrightarrow> b64_scan pos buf (c # s) = b64_scan (pos + 1) buf s"
  by (auto simp: line_break_def b64_val_def)

end
