(* ===== verification/NativeBridge.thy ===== *)
theory NativeBridge
  imports Complex_Main BidiSession Base64 "HOL-Library.Log_Nat"
begin

text \<open>
  The bridge to the native library (\<open>axon/dendrite_bridge_cgo.go\<close>,
  \<open>axon/dendrite_error_json.go\<close>, \<open>axon/dendrite_client_options.go\<close>): the JSON documents it
  sends, the reading of the answers, and the calls built from them.  The library itself is
  foreign code: a call is a function from the symbol, the handle and the document to an
  answer.  A bridge is given by whether its library is loaded; a nil bridge is left out.
\<close>

section \<open>Values and documents\<close>

text \<open>What \<open>encoding/json\<close> makes of a document, and what the code builds to be sent.  A
  decoded number is the value of a \<open>float64\<close>; objects keep the order of their members.\<close>

datatype go_any = AnyNil | AnyBool bool | AnyString string | AnyFloat rat | AnyInt int
  | AnyList "go_any list" | AnyMap "(string \<times> go_any) list"

type_synonym go_object = "(string \<times> go_any) list"

text \<open>The later of two members with one name counts.\<close>

definition obj_get :: "go_object \<Rightarrow> string \<Rightarrow> go_any option" where
  "obj_get m k = map_of (rev m) k"

text \<open>Type assertions of the form \<open>x, _ := v.(T)\<close>.\<close>

fun any_string :: "go_any option \<Rightarrow> string" where
  "any_string (Some (AnyString s)) = s"
| "any_string _ = []"

fun any_bool :: "go_any option \<Rightarrow> bool" where
  "any_bool (Some (AnyBool b)) = b"
| "any_bool _ = False"

fun any_float :: "go_any option \<Rightarrow> rat" where
  "any_float (Some (AnyFloat v)) = v"
| "any_float _ = 0"

definition string_map :: "(string \<times> string) list \<Rightarrow> go_any" where
  "string_map m = AnyMap (map (\<lambda>(k, v). (k, AnyString v)) m)"

definition base64_any :: "bytes \<Rightarrow> go_any" where
  "base64_any b = AnyString (b64_encode b)"

text \<open>An integer of a document as \<open>float64\<close>: 53 bits, ties to even.\<close>

definition float64_of :: "nat \<Rightarrow> rat" where
  "float64_of n =
     (if n < 9007199254740992 then of_nat n
      else (let k = floorlog 2 n - 53; q = n div 2 ^ k; r = n mod 2 ^ k; half = 2 ^ (k - 1) in
            of_nat ((if r > half \<or> r = half \<and> odd q then q + 1 else q) * 2 ^ k)))"

text \<open>The conversion \<open>uint64(v)\<close> truncates; outside the range the language leaves it open.\<close>

definition go_uint64 :: "(rat \<Rightarrow> u64) \<Rightarrow> rat \<Rightarrow> u64" where
  "go_uint64 wild v =
     (if -1 < v \<and> v < 18446744073709551616 then (if v < 0 then 0 else word_of_int \<lfloor>v\<rfloor>) else wild v)"

fun uint64FromAny :: "(rat \<Rightarrow> u64) \<Rightarrow> go_any option \<Rightarrow> u64" where
  "uint64FromAny wild (Some (AnyFloat v)) = (if v < 0 then 0 else go_uint64 wild v)"
| "uint64FromAny wild (Some (AnyInt n)) = (if n < 0 then 0 else word_of_int n)"
| "uint64FromAny wild _ = 0"

definition uint32FromAny :: "(rat \<Rightarrow> u64) \<Rightarrow> go_any option \<Rightarrow> u32" where
  "uint32FromAny wild v = (let x = uint64FromAny wild v in if x > 4294967295 then 4294967295 else ucast x)"

section \<open>Results\<close>

fun bindE :: "'e + 'a \<Rightarrow> ('a \<Rightarrow> 'e + 'b) \<Rightarrow> 'e + 'b" where
  "bindE (Inl e) f = Inl e"
| "bindE (Inr x) f = f x"

lemma bindE_Inr_iff: "bindE r f = Inr y \<longleftrightarrow> (\<exists>x. r = Inr x \<and> f x = Inr y)"
  by (cases r) auto

definition errDendriteBridgeNotOpened :: any_error where
  "errDendriteBridgeNotOpened = dendrite ''BRIDGE'' ''dendrite bridge not opened''"

definition corrupt_input :: "nat \<Rightarrow> string" where
  "corrupt_input n = ''illegal base64 data at input byte '' @ dec_nat n"

definition decode_base64 :: "string \<Rightarrow> string \<Rightarrow> string \<Rightarrow> any_error + bytes" where
  "decode_base64 code what text =
     (case b64_decode text of
        Inl n \<Rightarrow> Inl (dendrite code (what @ '': '' @ corrupt_input n))
      | Inr b \<Rightarrow> Inr b)"

fun decode_chunks :: "string \<Rightarrow> string \<Rightarrow> string list \<Rightarrow> any_error + bytes list" where
  "decode_chunks code what [] = Inr []"
| "decode_chunks code what (c # cs) =
     bindE (decode_base64 code what c) (\<lambda>b. bindE (decode_chunks code what cs) (\<lambda>bs. Inr (b # bs)))"

section \<open>Calling the library\<close>

datatype native_symbol = SymOpen | SymClose | SymUnary | SymStream | SymClientStream | SymBidiStream
  | SymDescriptorBoundInvoke | SymProtocolCatalog | SymInvokeProtocol | SymCoverage
  | SymServerStreamOpen | SymStreamNext | SymStreamClose | SymBidiStreamOpen | SymBidiStreamSend
  | SymDescriptorBoundStreamOpen | SymDescriptorBoundBidiOpen | SymDescriptorBoundBidiSend
  | SymDescriptorBoundBidiRecv | SymDescriptorBoundBidiClose

text \<open>The answer: a null pointer, an empty text, a text that is not JSON with the error of the
  decoder, or a document.\<close>

datatype native_answer = NullPointer | EmptyText | InvalidJson string | Document go_any

text \<open>The environment: the library, the conversions the language leaves open, the text of a
  value in the document, and what \<open>fmt.Sprint\<close> prints for a value that is neither a string
  nor nil.\<close>

record native_env =
  ne_call :: "native_symbol \<Rightarrow> u64 \<Rightarrow> go_any option \<Rightarrow> native_answer"
  ne_wild :: "rat \<Rightarrow> u64"
  ne_text :: "go_any \<Rightarrow> string"
  ne_print :: "go_any \<Rightarrow> string"

record bridge_json =
  bj_handle :: u64
  bj_response :: string
  bj_chunks :: "string list"
  bj_truncated :: bool
  bj_payload :: go_object

text \<open>\<open>encoding/json\<close> matches the names of a struct's members without regard to case.\<close>

definition member_folded :: "go_object \<Rightarrow> string \<Rightarrow> go_any option" where
  "member_folded m k = map_of (rev (map (\<lambda>(n, v). (map ascii_lower n, v)) m)) k"

definition decodeDendriteFailure :: "native_env \<Rightarrow> go_object \<Rightarrow> any_error" where
  "decodeDendriteFailure env document =
     (case member_folded document ''error'' of
        Some (AnyMap fs) \<Rightarrow>
          (let code = any_string (obj_get fs ''code''); message = any_string (obj_get fs ''message'');
               source = any_string (obj_get fs ''source'') in
           if code = [] \<or> message = [] \<or> source = []
           then dendrite ''BRIDGE'' ''bridge error envelope missing code, message, or source''
           else (case obj_get fs ''invocation_response'' of
                   None \<Rightarrow> Dendrite \<lparr>de_message = message, de_code = code, de_source = source, de_response = []\<rparr>
                 | Some AnyNil \<Rightarrow>
                     Dendrite \<lparr>de_message = message, de_code = code, de_source = source, de_response = []\<rparr>
                 | Some (AnyMap e) \<Rightarrow>
                     Dendrite \<lparr>de_message = message, de_code = code, de_source = source,
                               de_response = ne_text env (AnyMap e)\<rparr>
                 | Some _ \<Rightarrow> dendrite ''BRIDGE'' ''bridge invocation_response must be an object''))
      | _ \<Rightarrow> dendrite ''BRIDGE'' (''bridge error envelope missing object field '' @ [CHR 0x27] @ ''error'' @ [CHR 0x27]))"

text \<open>The name \<open>encoding/json\<close> gives to a value it cannot store in a map.\<close>

fun json_kind :: "go_any \<Rightarrow> string" where
  "json_kind (AnyBool b) = ''bool''"
| "json_kind (AnyString s) = ''string''"
| "json_kind (AnyFloat v) = ''number''"
| "json_kind (AnyInt n) = ''number''"
| "json_kind (AnyList l) = ''array''"
| "json_kind _ = ''object''"

definition string_items :: "go_any option \<Rightarrow> string list" where
  "string_items v = (case v of Some (AnyList l) \<Rightarrow>
     concat (map (\<lambda>c. case c of AnyString s \<Rightarrow> [s] | _ \<Rightarrow> []) l) | _ \<Rightarrow> [])"

definition consumeJSON :: "native_env \<Rightarrow> native_answer \<Rightarrow> any_error + bridge_json" where
  "consumeJSON env answer =
     (case answer of
        NullPointer \<Rightarrow> Inl (dendrite ''BRIDGE'' ''dendrite bridge returned null pointer'')
      | EmptyText \<Rightarrow> Inl (dendrite ''BRIDGE'' ''dendrite bridge returned empty payload'')
      | InvalidJson e \<Rightarrow> Inl (dendrite ''JSON'' (''invalid bridge json: '' @ e))
      | Document AnyNil \<Rightarrow> Inl (decodeDendriteFailure env [])
      | Document (AnyMap raw) \<Rightarrow>
          if \<not> any_bool (obj_get raw ''ok'') then Inl (decodeDendriteFailure env raw)
          else Inr \<lparr>bj_handle = go_uint64 (ne_wild env) (any_float (obj_get raw ''handle'')),
                    bj_response = any_string (obj_get raw ''response_base64''),
                    bj_chunks = string_items (obj_get raw ''chunks_base64''),
                    bj_truncated = any_bool (obj_get raw ''truncated''), bj_payload = raw\<rparr>
      | Document v \<Rightarrow> Inl (dendrite ''JSON'' (''invalid bridge json: json: cannot unmarshal '' @ json_kind v
                              @ '' into Go value of type map[string]interface {}'')))"

text \<open>The three locked calls are one: the document is absent in two of them.\<close>

definition callLocked ::
  "native_env \<Rightarrow> bool \<Rightarrow> native_symbol \<Rightarrow> u64 \<Rightarrow> bool \<Rightarrow> go_object option \<Rightarrow> any_error + bridge_json" where
  "callLocked env loaded fn handle requireHandle payload =
     (if \<not> loaded then Inl errDendriteBridgeNotOpened
      else if requireHandle \<and> handle = 0 then Inl (OtherError ''invalid handle: 0'')
      else consumeJSON env (ne_call env fn handle (map_option AnyMap payload)))"

section \<open>Opening and closing a client\<close>

record client_options =
  co_connect_timeout_ms :: int
  co_tls_ca_pem :: "string option"

definition openPayload :: "client_options \<Rightarrow> string \<Rightarrow> go_object" where
  "openPayload o1 endpoint =
     (let timeout = (if co_connect_timeout_ms o1 \<le> 0 then DefaultConnectTimeoutMs
                     else co_connect_timeout_ms o1) in
      [(''endpoint'', AnyString endpoint), (''connect_timeout_ms'', AnyInt timeout)]
      @ (case co_tls_ca_pem o1 of None \<Rightarrow> [] | Some pem \<Rightarrow> [(''tls_ca_pem'', AnyString pem)]))"

definition openClientPayload :: "native_env \<Rightarrow> bool \<Rightarrow> go_object \<Rightarrow> any_error + u64" where
  "openClientPayload env loaded payload =
     bindE (callLocked env loaded SymOpen 0 False (Some payload)) (\<lambda>resp.
       if bj_handle resp = 0 then Inl (dendrite ''BRIDGE'' ''dendrite bridge returned empty handle'')
       else Inr (bj_handle resp))"

definition OpenClientWithOptions :: "native_env \<Rightarrow> bool \<Rightarrow> string \<Rightarrow> client_options \<Rightarrow> any_error + u64" where
  "OpenClientWithOptions env loaded endpoint o1 = openClientPayload env loaded (openPayload o1 endpoint)"

definition CloseClient :: "native_env \<Rightarrow> bool \<Rightarrow> u64 \<Rightarrow> any_error + unit" where
  "CloseClient env loaded handle =
     bindE (callLocked env loaded SymClose handle False None) (\<lambda>_. Inr ())"

section \<open>Raw calls\<close>

definition defaulted :: "int \<Rightarrow> int \<Rightarrow> int" where
  "defaulted d n = (if n \<le> 0 then d else n)"

definition response_bytes :: "string \<Rightarrow> string \<Rightarrow> bridge_json \<Rightarrow> any_error + bytes" where
  "response_bytes missing invalid resp =
     (if bj_response resp = [] then Inl (dendrite ''BRIDGE'' missing)
      else decode_base64 ''JSON'' invalid (bj_response resp))"

definition UnaryCall ::
  "native_env \<Rightarrow> bool \<Rightarrow> u64 \<Rightarrow> string \<Rightarrow> bytes \<Rightarrow> (string \<times> string) list \<Rightarrow> int \<Rightarrow> any_error + bytes" where
  "UnaryCall env loaded handle path request metadata timeoutMs =
     bindE (callLocked env loaded SymUnary handle False (Some
       [(''path'', AnyString path), (''request_base64'', base64_any request),
        (''metadata'', string_map metadata), (''timeout_ms'', AnyInt (defaulted DefaultTimeoutMs timeoutMs))]))
       (response_bytes ''missing unary response payload'' ''invalid unary response base64'')"

definition ServerStreamCall ::
  "native_env \<Rightarrow> bool \<Rightarrow> u64 \<Rightarrow> string \<Rightarrow> bytes \<Rightarrow> (string \<times> string) list \<Rightarrow> int \<Rightarrow> int \<Rightarrow>
   any_error + bytes list \<times> bool" where
  "ServerStreamCall env loaded handle path request metadata timeoutMs maxChunks =
     bindE (callLocked env loaded SymStream handle False (Some
       [(''path'', AnyString path), (''request_base64'', base64_any request),
        (''metadata'', string_map metadata), (''timeout_ms'', AnyInt (defaulted DefaultTimeoutMs timeoutMs)),
        (''max_chunks'', AnyInt (defaulted 4096 maxChunks))]))
       (\<lambda>resp. bindE (decode_chunks ''STREAM'' ''invalid stream chunk base64'' (bj_chunks resp))
          (\<lambda>out. Inr (out, bj_truncated resp)))"

definition chunk_list :: "bytes list \<Rightarrow> go_any" where
  "chunk_list chunks = AnyList (map base64_any chunks)"

definition ClientStreamCall ::
  "native_env \<Rightarrow> bool \<Rightarrow> u64 \<Rightarrow> string \<Rightarrow> bytes list \<Rightarrow> (string \<times> string) list \<Rightarrow> int \<Rightarrow> int \<Rightarrow>
   any_error + bytes" where
  "ClientStreamCall env loaded handle path chunks metadata timeoutMs maxRequestChunks =
     bindE (callLocked env loaded SymClientStream handle False (Some
       [(''path'', AnyString path), (''request_chunks_base64'', chunk_list chunks),
        (''metadata'', string_map metadata), (''timeout_ms'', AnyInt (defaulted DefaultTimeoutMs timeoutMs)),
        (''max_request_chunks'', AnyInt (defaulted 4096 maxRequestChunks))]))
       (response_bytes ''missing client-stream response payload'' ''invalid client-stream response base64'')"

definition BidiStreamCall ::
  "native_env \<Rightarrow> bool \<Rightarrow> u64 \<Rightarrow> string \<Rightarrow> bytes list \<Rightarrow> (string \<times> string) list \<Rightarrow> int \<Rightarrow> int \<Rightarrow> int \<Rightarrow>
   any_error + bytes list \<times> bool" where
  "BidiStreamCall env loaded handle path chunks metadata timeoutMs maxRequestChunks maxResponseChunks =
     bindE (callLocked env loaded SymBidiStream handle False (Some
       [(''path'', AnyString path), (''request_chunks_base64'', chunk_list chunks),
        (''metadata'', string_map metadata), (''timeout_ms'', AnyInt (defaulted DefaultTimeoutMs timeoutMs)),
        (''max_request_chunks'', AnyInt (defaulted 4096 maxRequestChunks)),
        (''max_response_chunks'', AnyInt (defaulted 4096 maxResponseChunks))]))
       (\<lambda>resp. bindE (decode_chunks ''STREAM'' ''invalid bidi-stream chunk base64'' (bj_chunks resp))
          (\<lambda>out. Inr (out, bj_truncated resp)))"

definition DefaultStreamChunkTimeoutMs :: int where "DefaultStreamChunkTimeoutMs = 60000"

section \<open>Pulled streams\<close>

definition optional_positive :: "string \<Rightarrow> int \<Rightarrow> go_object" where
  "optional_positive k n = (if n > 0 then [(k, AnyInt n)] else [])"

definition opened_handle :: "native_env \<Rightarrow> string \<Rightarrow> bridge_json \<Rightarrow> any_error + u64" where
  "opened_handle env missing resp =
     (let sh = any_float (obj_get (bj_payload resp) ''stream_handle'') in
      if sh = 0 then Inl (dendrite ''STREAM'' missing) else Inr (go_uint64 (ne_wild env) sh))"

definition ServerStreamOpen ::
  "native_env \<Rightarrow> bool \<Rightarrow> u64 \<Rightarrow> string \<Rightarrow> bytes \<Rightarrow> (string \<times> string) list \<Rightarrow> int \<Rightarrow> int \<Rightarrow> int \<Rightarrow>
   any_error + u64" where
  "ServerStreamOpen env loaded handle path request metadata timeoutMs chunkTimeoutMs chunkBufferSize =
     bindE (callLocked env loaded SymServerStreamOpen handle True (Some
       ([(''path'', AnyString path), (''request_base64'', base64_any request),
         (''metadata'', string_map metadata), (''timeout_ms'', AnyInt (defaulted DefaultTimeoutMs timeoutMs)),
         (''chunk_buffer_size'', AnyInt (defaulted 64 chunkBufferSize))]
        @ optional_positive ''chunk_timeout_ms'' chunkTimeoutMs)))
       (opened_handle env ''failed to open server stream: missing stream_handle'')"

definition BidiStreamOpen ::
  "native_env \<Rightarrow> bool \<Rightarrow> u64 \<Rightarrow> string \<Rightarrow> bytes option \<Rightarrow> bytes list \<Rightarrow> (string \<times> string) list \<Rightarrow>
   int \<Rightarrow> int \<Rightarrow> int \<Rightarrow> int \<Rightarrow> any_error + u64" where
  "BidiStreamOpen env loaded handle path request chunks metadata timeoutMs chunkTimeoutMs
     chunkBufferSize requestBufferSize =
     bindE (callLocked env loaded SymBidiStreamOpen handle True (Some
       ([(''path'', AnyString path), (''metadata'', string_map metadata),
         (''timeout_ms'', AnyInt (defaulted DefaultTimeoutMs timeoutMs)),
         (''chunk_buffer_size'', AnyInt (defaulted 64 chunkBufferSize)),
         (''request_buffer_size'', AnyInt (defaulted 64 requestBufferSize))]
        @ optional_positive ''chunk_timeout_ms'' chunkTimeoutMs
        @ (case request of None \<Rightarrow> [] | Some b \<Rightarrow> [(''request_base64'', base64_any b)])
        @ (if chunks = [] then [] else [(''request_chunks_base64'', chunk_list chunks)]))))
       (opened_handle env ''failed to open bidi stream: missing stream_handle'')"

datatype stream_next = NextChunk bytes | NextDone | NextTimeout

definition StreamNext :: "native_env \<Rightarrow> bool \<Rightarrow> u64 \<Rightarrow> int \<Rightarrow> any_error + stream_next" where
  "StreamNext env loaded streamHandle timeoutMs =
     bindE (callLocked env loaded SymStreamNext streamHandle False (Some
       [(''timeout_ms'', AnyInt (defaulted DefaultStreamChunkTimeoutMs timeoutMs))]))
       (\<lambda>resp. let m = bj_payload resp in
          if any_bool (obj_get m ''done'') then Inr NextDone
          else if any_bool (obj_get m ''timeout'') then Inr NextTimeout
          else bindE (decode_base64 ''STREAM'' ''invalid stream chunk base64''
                        (any_string (obj_get m ''chunk_base64''))) (\<lambda>b. Inr (NextChunk b)))"

definition StreamClose :: "native_env \<Rightarrow> bool \<Rightarrow> u64 \<Rightarrow> any_error + unit" where
  "StreamClose env loaded streamHandle =
     bindE (callLocked env loaded SymStreamClose streamHandle False None) (\<lambda>_. Inr ())"

definition BidiStreamSend :: "native_env \<Rightarrow> bool \<Rightarrow> u64 \<Rightarrow> bytes \<Rightarrow> any_error + bool" where
  "BidiStreamSend env loaded streamHandle chunk =
     bindE (callLocked env loaded SymBidiStreamSend streamHandle False (Some
       [(''chunk_base64'', base64_any chunk)]))
       (\<lambda>resp. Inr (any_bool (obj_get (bj_payload resp) ''sent'')))"

definition BidiStreamFinishSend :: "native_env \<Rightarrow> bool \<Rightarrow> u64 \<Rightarrow> any_error + bool" where
  "BidiStreamFinishSend env loaded streamHandle =
     bindE (callLocked env loaded SymBidiStreamSend streamHandle False (Some [(''done'', AnyBool True)]))
       (\<lambda>resp. Inr (any_bool (obj_get (bj_payload resp) ''request_stream_closed'')))"

section \<open>Catalogue calls and the typed projections of an answer\<close>

definition ProtocolCoverage :: "native_env \<Rightarrow> bool \<Rightarrow> any_error + go_object" where
  "ProtocolCoverage env loaded =
     bindE (callLocked env loaded SymCoverage 0 False None) (\<lambda>resp. Inr (bj_payload resp))"

definition ProtocolCatalog :: "native_env \<Rightarrow> bool \<Rightarrow> any_error + go_object" where
  "ProtocolCatalog env loaded =
     bindE (callLocked env loaded SymProtocolCatalog 0 False None) (\<lambda>resp. Inr (bj_payload resp))"

record protocol_request =
  pq_service :: string
  pq_rpc :: string
  pq_path :: string
  pq_request_base64 :: string
  pq_chunks_base64 :: "string list option"
  pq_metadata :: "(string \<times> string) list"
  pq_timeout_ms :: int
  pq_max_chunks :: int
  pq_max_request_chunks :: int
  pq_max_response_chunks :: int

definition InvokeProtocol :: "native_env \<Rightarrow> bool \<Rightarrow> u64 \<Rightarrow> protocol_request \<Rightarrow> any_error + go_object" where
  "InvokeProtocol env loaded handle req =
     bindE (callLocked env loaded SymInvokeProtocol handle True (Some
       [(''service'', AnyString (pq_service req)), (''rpc'', AnyString (pq_rpc req)),
        (''path'', AnyString (pq_path req)), (''request_base64'', AnyString (pq_request_base64 req)),
        (''request_chunks_base64'', (case pq_chunks_base64 req of None \<Rightarrow> AnyNil
           | Some cs \<Rightarrow> AnyList (map AnyString cs))),
        (''metadata'', string_map (pq_metadata req)), (''timeout_ms'', AnyInt (pq_timeout_ms req)),
        (''max_chunks'', AnyInt (pq_max_chunks req)),
        (''max_request_chunks'', AnyInt (pq_max_request_chunks req)),
        (''max_response_chunks'', AnyInt (pq_max_response_chunks req))]))
       (\<lambda>resp. Inr (bj_payload resp))"

definition without_keys :: "string list \<Rightarrow> go_object \<Rightarrow> go_object" where
  "without_keys ks m = filter (\<lambda>(k, v). k \<notin> set ks) m"

definition stripHoistedKeys :: "go_object \<Rightarrow> go_object" where
  "stripHoistedKeys m = without_keys [''ok'', ''stream_handle'', ''request_id''] m"

definition descriptorBoundStreamHandle :: "go_object \<Rightarrow> any_error + u64" where
  "descriptorBoundStreamHandle payload =
     (case obj_get payload ''stream_handle'' of
        Some (AnyFloat v) \<Rightarrow>
          if v < 1 \<or> v > 9007199254740991 \<or> v \<noteq> of_int \<lfloor>v\<rfloor>
          then Inl (dendrite ''BRIDGE'' ''invalid descriptor-bound stream handle'')
          else Inr (word_of_int \<lfloor>v\<rfloor>)
      | _ \<Rightarrow> Inl (dendrite ''BRIDGE'' ''invalid descriptor-bound stream handle''))"

end
