(* ===== verification/SignedRequests.thy ===== *)
theory SignedRequests
  imports NativeBridge Uras JsonCodec
begin

text \<open>
  The requests a client builds for the native library (\<open>axon/signed_invoke_request.go\<close>,
  \<open>axon/signed_invoke_stream_request.go\<close>, the opening of a bidirectional session of
  \<open>axon/dendrite_bridge_signed_invoke_bidi_cgo.go\<close>, \<open>axon/validation.go\<close>), with their
  validation and the documents they become, and the calls of the bridge that send them.
  An error is its text; \<open>q\<close> is the verb \<open>%q\<close>.
\<close>

section \<open>Validation of the fields\<close>

definition requireNonBlank :: "string \<Rightarrow> string \<Rightarrow> string option" where
  "requireNonBlank fld value = (if trim_space value = [] then Some (fld @ '' must be non-empty'') else None)"

text \<open>The first of several checks that fails.\<close>

fun first_error :: "string option list \<Rightarrow> string option" where
  "first_error [] = None"
| "first_error (Some e # cs) = Some e"
| "first_error (None # cs) = first_error cs"

lemma first_error_None: "first_error cs = None \<longleftrightarrow> (\<forall>c \<in> set cs. c = None)"
  by (induction cs rule: first_error.induct) auto

definition validateReceiptHashHex :: "(string \<Rightarrow> string) \<Rightarrow> string \<Rightarrow> string \<Rightarrow> string option" where
  "validateReceiptHashHex q fld value =
     (if trim_space value = [] then Some (fld @ '' must be non-empty'')
      else (case hex_decode value of
              None \<Rightarrow> Some (fld @ '' must be hex (got '' @ q value @ ''): '' @ hex_error value)
            | Some decoded \<Rightarrow>
                if length decoded \<noteq> 32
                then Some (fld @ '' must decode to 32 bytes, got '' @ dec_nat (length decoded))
                else if value \<noteq> map ascii_lower value then Some (fld @ '' must be lowercase hex'')
                else None))"

definition validateNonceBase64Length :: "string \<Rightarrow> string \<Rightarrow> string option" where
  "validateNonceBase64Length fld value =
     (case b64_decode value of
        Inl n \<Rightarrow> Some (fld @ '' is not valid base64: '' @ corrupt_input n)
      | Inr decoded \<Rightarrow>
          if length decoded \<noteq> 16
          then Some (fld @ '' must decode to exactly 16 bytes, got '' @ dec_nat (length decoded))
          else if list_all (\<lambda>b. b = 0) decoded then Some (fld @ '' must not be all-zero'')
          else None)"

section \<open>Causal contexts\<close>

record signed_causal_ref =
  sr_hash_hex :: string
  sr_ura :: string

record signed_causal_context =
  sx_form :: string
  sx_scalar :: "signed_causal_ref option"
  sx_list :: "signed_causal_ref list"
  sx_merkle_root :: string
  sx_merkle_proof :: string

text \<open>The zero value, and the four constructors: the fields are not exported.\<close>

definition signed_zero :: signed_causal_context where
  "signed_zero = \<lparr>sx_form = [], sx_scalar = None, sx_list = [], sx_merkle_root = [], sx_merkle_proof = []\<rparr>"

definition SignedCausalNone :: signed_causal_context where
  "SignedCausalNone = signed_zero\<lparr>sx_form := ''none''\<rparr>"

definition SignedCausalScalar :: "signed_causal_ref \<Rightarrow> signed_causal_context" where
  "SignedCausalScalar ref = signed_zero\<lparr>sx_form := ''scalar'', sx_scalar := Some ref\<rparr>"

definition SignedCausalList :: "signed_causal_ref list \<Rightarrow> signed_causal_context" where
  "SignedCausalList refs = signed_zero\<lparr>sx_form := ''list'', sx_list := refs\<rparr>"

definition SignedCausalMerkle :: "string \<Rightarrow> string \<Rightarrow> signed_causal_context" where
  "SignedCausalMerkle rootHex proofURA =
     signed_zero\<lparr>sx_form := ''merkle'', sx_merkle_root := rootHex, sx_merkle_proof := proofURA\<rparr>"

definition signed_IsNone :: "signed_causal_context \<Rightarrow> bool" where
  "signed_IsNone c = (sx_form c = [] \<or> sx_form c = ''none'')"

fun check_priors :: "(string \<Rightarrow> string) \<Rightarrow> nat \<Rightarrow> signed_causal_ref list \<Rightarrow> string option" where
  "check_priors q i [] = None"
| "check_priors q i (r # rs) =
     (let prior = ''causal_context.list.prior['' @ dec_nat i @ '']'' in
      case validateReceiptHashHex q (prior @ ''.receipt_hash_hex'') (sr_hash_hex r) of
        Some e \<Rightarrow> Some e
      | None \<Rightarrow> if trim_space (sr_ura r) = [] then Some (prior @ ''.receipt_ura must be non-empty'')
                else check_priors q (i + 1) rs)"

definition signed_causal_validate :: "(string \<Rightarrow> string) \<Rightarrow> signed_causal_context \<Rightarrow> string option" where
  "signed_causal_validate q c =
     (if sx_form c = [] \<or> sx_form c = ''none'' then None
      else if sx_form c = ''scalar''
      then (case sx_scalar c of
              None \<Rightarrow> Some ''causal_context.scalar payload missing''
            | Some r \<Rightarrow> first_error
                [validateReceiptHashHex q ''causal_context.scalar.receipt_hash_hex'' (sr_hash_hex r),
                 requireNonBlank ''causal_context.scalar.receipt_ura'' (sr_ura r)])
      else if sx_form c = ''list''
      then (if sx_list c = [] then Some ''causal_context.list.prior must contain at least one entry''
            else check_priors q 0 (sx_list c))
      else if sx_form c = ''merkle''
      then first_error
             [validateReceiptHashHex q ''causal_context.merkle.root_hex'' (sx_merkle_root c),
              requireNonBlank ''causal_context.merkle.proof_ura'' (sx_merkle_proof c)]
      else Some (''causal_context.form must be one of {none,scalar,list,merkle}, got '' @ q (sx_form c)))"

definition signed_ref_json :: "signed_causal_ref \<Rightarrow> go_object" where
  "signed_ref_json r =
     [(''receipt_hash_hex'', AnyString (sr_hash_hex r)), (''receipt_ura'', AnyString (sr_ura r))]"

text \<open>\<open>jsonMap\<close>, which runs only after \<open>validate\<close>: a missing scalar cannot occur.\<close>

definition signed_causal_json :: "signed_causal_context \<Rightarrow> go_object option" where
  "signed_causal_json c =
     (if sx_form c = [] \<or> sx_form c = ''none'' then None
      else if sx_form c = ''scalar''
      then map_option (\<lambda>r. (''form'', AnyString ''scalar'') # signed_ref_json r) (sx_scalar c)
      else if sx_form c = ''list''
      then Some [(''form'', AnyString ''list''),
                 (''prior'', AnyList (map (\<lambda>r. AnyMap (signed_ref_json r)) (sx_list c)))]
      else if sx_form c = ''merkle''
      then Some [(''form'', AnyString ''merkle''), (''root_hex'', AnyString (sx_merkle_root c)),
                 (''proof_ura'', AnyString (sx_merkle_proof c))]
      else None)"

section \<open>Requests\<close>

record signed_agent_identity =
  sa_ura :: string
  sa_profile :: string

definition uraProfileStrictV2 :: string where "uraProfileStrictV2 = ''axon-strict-v2''"

definition StrictSignedIdentity :: "string \<Rightarrow> signed_agent_identity" where
  "StrictSignedIdentity u = \<lparr>sa_ura = trim_space u, sa_profile = uraProfileStrictV2\<rparr>"

record signed_invoke_request =
  sq_callee :: signed_agent_identity
  sq_subject :: signed_agent_identity
  sq_ability :: string
  sq_payload_json :: "go_any option"
  sq_payload_base64 :: string
  sq_content_type :: string
  sq_nonce_base64 :: string
  sq_causal :: signed_causal_context
  sq_timeout_ms :: int
  sq_metadata :: "(string \<times> string) list"

definition hasB64 :: "('a) signed_invoke_request_scheme \<Rightarrow> bool" where
  "hasB64 r = (trim_space (sq_payload_base64 r) \<noteq> [])"

text \<open>The error of a parser as a text; the parser of ability references does not panic.\<close>

definition error_of :: "(string \<Rightarrow> string) \<Rightarrow> 'a result \<Rightarrow> string option" where
  "error_of q r =
     (case r of Ok _ \<Rightarrow> None | Fail e \<Rightarrow> Some (go_error_string q e) | Panic e \<Rightarrow> Some (go_error_string q e))"

text \<open>The checks both signed shapes share, up to the payload and after it.\<close>

definition identity_errors ::
  "(string \<Rightarrow> string) \<Rightarrow> ('a) signed_invoke_request_scheme \<Rightarrow> string option list" where
  "identity_errors q r =
     [requireNonBlank ''callee.ura'' (sa_ura (sq_callee r)),
      requireNonBlank ''callee.profile'' (sa_profile (sq_callee r)),
      requireNonBlank ''subject.ura'' (sa_ura (sq_subject r)),
      requireNonBlank ''subject.profile'' (sa_profile (sq_subject r)),
      error_of q (requiredAbilityRef q (sq_ability r))]"

definition freshness_errors ::
  "(string \<Rightarrow> string) \<Rightarrow> ('a) signed_invoke_request_scheme \<Rightarrow> string option list" where
  "freshness_errors q r =
     [if sq_nonce_base64 r = [] then None else validateNonceBase64Length ''nonce_base64'' (sq_nonce_base64 r),
      signed_causal_validate q (sq_causal r)]"

definition payload_error :: "('a) signed_invoke_request_scheme \<Rightarrow> string option" where
  "payload_error r =
     (if sq_payload_json r \<noteq> None \<and> hasB64 r
      then Some ''exactly one of PayloadJSON or PayloadBase64 must be set, not both''
      else if sq_payload_json r = None \<and> \<not> hasB64 r
      then Some ''exactly one of PayloadJSON or PayloadBase64 must be set'' else None)"

definition signed_validate :: "(string \<Rightarrow> string) \<Rightarrow> signed_invoke_request \<Rightarrow> string option" where
  "signed_validate q r = first_error (identity_errors q r @ [payload_error r] @ freshness_errors q r)"

definition identity_any :: "signed_agent_identity \<Rightarrow> go_any" where
  "identity_any i = AnyMap [(''ura'', AnyString (trim_space (sa_ura i))),
     (''profile'', AnyString (trim_space (sa_profile i)))]"

definition optional_text :: "string \<Rightarrow> string \<Rightarrow> go_object" where
  "optional_text k v = (if v = [] then [] else [(k, AnyString v)])"

definition tuple_members :: "('a) signed_invoke_request_scheme \<Rightarrow> string \<Rightarrow> go_object" where
  "tuple_members r ability =
     [(''callee'', identity_any (sq_callee r)), (''subject'', identity_any (sq_subject r)),
      (''ability'', AnyString ability)]"

definition shared_members :: "('a) signed_invoke_request_scheme \<Rightarrow> go_object" where
  "shared_members r =
     optional_text ''nonce_base64'' (sq_nonce_base64 r)
     @ (case signed_causal_json (sq_causal r) of None \<Rightarrow> [] | Some c \<Rightarrow> [(''causal_context'', AnyMap c)])
     @ optional_positive ''timeout_ms'' (sq_timeout_ms r)
     @ (if sq_metadata r = [] then [] else [(''metadata'', string_map (sq_metadata r))])"

definition signed_helperPayload ::
  "(string \<Rightarrow> string) \<Rightarrow> signed_invoke_request \<Rightarrow> string + go_object" where
  "signed_helperPayload q r =
     (case signed_validate q r of
        Some e \<Rightarrow> Inl e
      | None \<Rightarrow>
          (case requiredAbilityRef q (sq_ability r) of
             Ok ability \<Rightarrow>
               Inr (tuple_members r ability
                    @ (case sq_payload_json r of
                         Some v \<Rightarrow> [(''payload_json'', v)]
                       | None \<Rightarrow> [(''payload_base64'', AnyString (trim_space (sq_payload_base64 r)))])
                    @ optional_text ''content_type'' (trim_space (sq_content_type r))
                    @ shared_members r)
           | Fail e \<Rightarrow> Inl (go_error_string q e)
           | Panic e \<Rightarrow> Inl (go_error_string q e)))"

record signed_stream_request =
  st_request :: signed_invoke_request
  st_chunk_timeout_ms :: int
  st_chunk_buffer_size :: int

definition stream_helperPayload ::
  "(string \<Rightarrow> string) \<Rightarrow> signed_stream_request \<Rightarrow> string + go_object" where
  "stream_helperPayload q r =
     bindE (signed_helperPayload q (st_request r)) (\<lambda>payload.
       Inr (payload @ optional_positive ''chunk_timeout_ms'' (st_chunk_timeout_ms r)
            @ optional_positive ''chunk_buffer_size'' (st_chunk_buffer_size r)))"

section \<open>Opening a bidirectional session\<close>

record stream_descriptor =
  sd_stream_id :: u32
  sd_content_type :: string
  sd_codec_params :: string
  sd_ordering :: string

record signed_bidi_request = signed_invoke_request +
  sb_args_content_type :: string
  sb_chunk_timeout_ms :: int
  sb_chunk_buffer_size :: int
  sb_request_buffer_size :: int
  sb_streams :: "stream_descriptor list"

fun check_orderings :: "(string \<Rightarrow> string) \<Rightarrow> nat \<Rightarrow> stream_descriptor list \<Rightarrow> string option" where
  "check_orderings q i [] = None"
| "check_orderings q i (sd # sds) =
     (if sd_ordering sd \<noteq> [] \<and> sd_ordering sd \<noteq> ''STRICT''
      then Some (''streams['' @ dec_nat i @ ''].ordering = '' @ q (sd_ordering sd) @ '', only ''
                 @ q ''STRICT'' @ '' (or empty) supported in v1'')
      else check_orderings q (i + 1) sds)"

definition descriptor_any :: "stream_descriptor \<Rightarrow> go_any" where
  "descriptor_any sd = AnyMap [(''stream_id'', AnyInt (uint (sd_stream_id sd))),
     (''content_type'', AnyString (sd_content_type sd)), (''codec_params'', AnyString (sd_codec_params sd)),
     (''ordering'', AnyString (sd_ordering sd))]"

definition bidi_errors :: "(string \<Rightarrow> string) \<Rightarrow> signed_bidi_request \<Rightarrow> string option" where
  "bidi_errors q r = first_error (identity_errors q r
     @ [if sq_payload_json r \<noteq> None \<and> hasB64 r
        then Some ''exactly one of PayloadJSON or PayloadBase64 may be set, not both'' else None]
     @ freshness_errors q r @ [check_orderings q 0 (sb_streams r)])"

definition bidi_helperPayload ::
  "(string \<Rightarrow> string) \<Rightarrow> signed_bidi_request \<Rightarrow> string + go_object" where
  "bidi_helperPayload q r =
     (case bidi_errors q r of
        Some e \<Rightarrow> Inl e
      | None \<Rightarrow>
          (case requiredAbilityRef q (sq_ability r) of
             Ok ability \<Rightarrow>
               Inr (tuple_members r ability
                    @ (case sq_payload_json r of
                         Some v \<Rightarrow> [(''initial_args_json'', v)]
                       | None \<Rightarrow> optional_text ''initial_args_base64'' (trim_space (sq_payload_base64 r)))
                    @ shared_members r
                    @ optional_text ''args_content_type'' (trim_space (sb_args_content_type r))
                    @ optional_positive ''chunk_timeout_ms'' (sb_chunk_timeout_ms r)
                    @ optional_positive ''chunk_buffer_size'' (sb_chunk_buffer_size r)
                    @ optional_positive ''request_buffer_size'' (sb_request_buffer_size r)
                    @ (if sb_streams r = [] then []
                       else [(''streams'', AnyList (map descriptor_any (sb_streams r)))]))
           | Fail e \<Rightarrow> Inl (go_error_string q e)
           | Panic e \<Rightarrow> Inl (go_error_string q e)))"

section \<open>Signing configuration\<close>

record signing_config =
  sg_seed :: bytes
  sg_caller_ura :: string
  sg_caller_profile :: string

definition seed_error :: "bytes \<Rightarrow> string option" where
  "seed_error seed = (if length seed \<noteq> 32
     then Some (''signing seed must be exactly 32 bytes, got '' @ dec_nat (length seed)) else None)"

definition NewSigningConfig :: "bytes \<Rightarrow> string \<Rightarrow> string + signing_config" where
  "NewSigningConfig seed callerURA =
     (case first_error [seed_error seed, requireNonBlank ''signing caller_ura'' callerURA] of
        Some e \<Rightarrow> Inl e
      | None \<Rightarrow> Inr \<lparr>sg_seed = seed, sg_caller_ura = trim_space callerURA,
                     sg_caller_profile = uraProfileStrictV2\<rparr>)"

definition signing_validate :: "(string \<Rightarrow> string) \<Rightarrow> signing_config \<Rightarrow> string option" where
  "signing_validate q s = first_error
     [seed_error (sg_seed s), requireNonBlank ''signing caller_ura'' (sg_caller_ura s),
      if trim_space (sg_caller_profile s) \<noteq> uraProfileStrictV2
      then Some (''signing caller_profile must be '' @ q uraProfileStrictV2 @ '', got '' @ q (sg_caller_profile s))
      else None]"

definition signingBlock :: "signing_config \<Rightarrow> go_any" where
  "signingBlock s = AnyMap [(''algorithm'', AnyString ''ed25519''), (''seed_base64'', base64_any (sg_seed s)),
     (''caller_ura'', AnyString (trim_space (sg_caller_ura s))),
     (''caller_profile'', AnyString (trim_space (sg_caller_profile s)))]"

section \<open>The calls\<close>

text \<open>An error of the request becomes a bridge error with its text.\<close>

definition with_payload :: "string + go_object \<Rightarrow> (go_object \<Rightarrow> any_error + 'a) \<Rightarrow> any_error + 'a" where
  "with_payload p f = (case p of Inl e \<Rightarrow> Inl (dendrite ''BRIDGE'' e) | Inr payload \<Rightarrow> f payload)"

definition OpenSignedClientWithOptions ::
  "(string \<Rightarrow> string) \<Rightarrow> native_env \<Rightarrow> bool \<Rightarrow> string \<Rightarrow> signing_config \<Rightarrow> client_options \<Rightarrow> any_error + u64" where
  "OpenSignedClientWithOptions q env loaded endpoint signing o1 =
     (case signing_validate q signing of
        Some e \<Rightarrow> Inl (dendrite ''BRIDGE'' e)
      | None \<Rightarrow>
          if trim_space endpoint = [] then Inl (dendrite ''BRIDGE'' ''endpoint must be non-empty'')
          else openClientPayload env loaded (openPayload o1 endpoint @ [(''signing'', signingBlock signing)]))"

definition InvokeAbilitySigned ::
  "(string \<Rightarrow> string) \<Rightarrow> native_env \<Rightarrow> bool \<Rightarrow> u64 \<Rightarrow> signed_invoke_request \<Rightarrow> any_error + go_object" where
  "InvokeAbilitySigned q env loaded handle req =
     with_payload (signed_helperPayload q req) (\<lambda>payload.
       bindE (callLocked env loaded SymDescriptorBoundInvoke handle False (Some payload))
         (\<lambda>resp. Inr (without_keys [''ok''] (bj_payload resp))))"

definition InvokeAbilityStreamSigned ::
  "(string \<Rightarrow> string) \<Rightarrow> native_env \<Rightarrow> bool \<Rightarrow> u64 \<Rightarrow> signed_stream_request \<Rightarrow> any_error + u64 \<times> go_object" where
  "InvokeAbilityStreamSigned q env loaded handle req =
     with_payload (stream_helperPayload q req) (\<lambda>payload.
       bindE (callLocked env loaded SymDescriptorBoundStreamOpen handle False (Some payload)) (\<lambda>resp.
         let streamHandle = uint64FromAny (ne_wild env) (obj_get (bj_payload resp) ''stream_handle'') in
         if streamHandle = 0
         then Inl (dendrite ''BRIDGE'' ''bridge signed stream open response missing or zero stream_handle'')
         else Inr (streamHandle, stripHoistedKeys (bj_payload resp))))"

record bidi_open_result =
  bor_stream_handle :: u64
  bor_request_id :: string
  bor_payload :: go_object

definition InvokeAbilityBidiSigned ::
  "(string \<Rightarrow> string) \<Rightarrow> native_env \<Rightarrow> bool \<Rightarrow> u64 \<Rightarrow> signed_bidi_request \<Rightarrow> any_error + bidi_open_result" where
  "InvokeAbilityBidiSigned q env loaded handle req =
     with_payload (bidi_helperPayload q req) (\<lambda>payload.
       bindE (callLocked env loaded SymDescriptorBoundBidiOpen handle False (Some payload)) (\<lambda>resp.
         let streamHandle = uint64FromAny (ne_wild env) (obj_get (bj_payload resp) ''stream_handle'') in
         if streamHandle = 0
         then Inl (dendrite ''BRIDGE'' ''bridge open-bidi response missing or zero stream_handle'')
         else Inr \<lparr>bor_stream_handle = streamHandle,
                   bor_request_id = any_string (obj_get (bj_payload resp) ''request_id''),
                   bor_payload = stripHoistedKeys (bj_payload resp)\<rparr>))"

definition InvokeAbilityRawWithSubject ::
  "(string \<Rightarrow> string) \<Rightarrow> native_env \<Rightarrow> bool \<Rightarrow> u64 \<Rightarrow> string \<Rightarrow> string \<Rightarrow> go_any \<Rightarrow> string \<Rightarrow>
   (string \<times> string) list \<Rightarrow> int \<Rightarrow> any_error + go_object" where
  "InvokeAbilityRawWithSubject q env loaded handle tenantID resourceURA payloadJSON subjectID metadata timeoutMs =
     (case ParseSubjectURA subjectID of
        Fail e \<Rightarrow> Inl (OtherError (go_error_string q e))
      | Panic e \<Rightarrow> Inl (OtherError (go_error_string q e))
      | Ok subject \<Rightarrow>
          bindE (callLocked env loaded SymDescriptorBoundInvoke handle False (Some
            [(''tenant_id'', AnyString tenantID), (''resource_ura'', AnyString resourceURA),
             (''subject'', AnyMap [(''ura'', AnyString (su_raw subject)),
                                  (''profile'', AnyString uraProfileStrictV2)]),
             (''payload_json'', payloadJSON), (''metadata'', string_map metadata),
             (''timeout_ms'', AnyInt (defaulted DefaultTimeoutMs timeoutMs)),
             (''subject_id'', AnyString (su_raw subject))]))
            (\<lambda>resp. Inr (without_keys [''ok''] (bj_payload resp))))"

end
