(* ===== verification/WireRequests.thy ===== *)
theory WireRequests
  imports Admission Bundle SignedRequests
begin

text \<open>
  A complete caller-signed request on its way out of the process: its projection into wire facts
  (\<open>axon/invocation/descriptor_bound_wire.go\<close>), its document for the native library
  (\<open>axon/invocation/descriptor_bound_native.go\<close>) with the options of the carrier
  (\<open>axon/descriptor_bound_native.go\<close>), and the calls of the bridge that send it
  (\<open>axon/descriptor_bound_native_cgo.go\<close>).  Defensive copies are identities on HOL values.
\<close>

section \<open>What both projections check\<close>

text \<open>The payload is the one the signed digest names, and the envelope encodes.\<close>

definition projection_checks :: "platform \<Rightarrow> bound_request \<Rightarrow> bytes result" where
  "projection_checks P r =
     (let envelope = dbe_envelope (rq_envelope r) in
      bindR (validateEnvelope envelope) (\<lambda>_.
      bindR (validateSignatureStructure (rq_signature r)) (\<lambda>_.
        if pf_sha256 P (rq_payload r) \<noteq> en_args_digest envelope then invalid_arg ''payload_digest_mismatch''
        else request_CanonicalBytes r)))"

section \<open>The wire projection\<close>

definition WireContentEncodingIdentity :: string where "WireContentEncodingIdentity = ''identity''"

record wire_options =
  wo_content_type :: string
  wo_timeout_seconds :: u32
  wo_metadata :: "(string \<rightharpoonup> string) option"

record wire_envelope =
  we_request_id :: string
  we_caller :: agent_identity
  we_callee :: agent_identity
  we_subject :: subject_identity
  we_nonce :: nonce16
  we_causal :: causal_context
  we_signature :: caller_signature

record wire_projection =
  wp_call_mode :: call_mode
  wp_envelope :: wire_envelope
  wp_descriptor_ref :: string
  wp_route_name :: string
  wp_payload :: bytes
  wp_canonical :: bytes
  wp_content_type :: string
  wp_content_encoding :: string
  wp_timeout_seconds :: u32
  wp_metadata :: "(string \<rightharpoonup> string) option"

text \<open>\<open>random\<close> is what the generator of random numbers gives, \<open>None\<close> when it fails.\<close>

definition newDescriptorBoundRequestID :: "bytes option \<Rightarrow> string result" where
  "newDescriptorBoundRequestID random =
     (case random of
        None \<Rightarrow> Fail (AxonErr (ErrInternal ''request_id_generation_failed''))
      | Some b \<Rightarrow> Ok (''req-'' @ hex_encode b))"

text \<open>The route: the name under which the callee publishes the ability.\<close>

definition wire_route :: "platform \<Rightarrow> invocation_envelope \<Rightarrow> string result" where
  "wire_route P envelope =
     bindR (AbilityURAFromDescriptorRef (en_ability envelope)) (\<lambda>abilityURA.
       case PublicAbilityNameFromAbilityURA (pf_quote P) (ai_ura (en_callee envelope)) abilityURA of
         None \<Rightarrow> invalid_arg ''descriptor_ref_callee_owner_mismatch''
       | Some routeName \<Rightarrow>
           if trim_space routeName = [] then invalid_arg ''descriptor_ref_callee_owner_mismatch''
           else Ok routeName)"

definition wire_Build ::
  "platform \<Rightarrow> bytes option \<Rightarrow> bound_request \<Rightarrow> wire_options \<Rightarrow> wire_projection result" where
  "wire_Build P random r o1 =
     (let envelope = dbe_envelope (rq_envelope r) in
      bindR (validateCallMode (rq_call_mode r)) (\<lambda>_.
      bindR (projection_checks P r) (\<lambda>canonicalBytes.
      bindR (wire_route P envelope) (\<lambda>routeName.
        if trim_space (wo_content_type o1) = [] then invalid_arg ''content_type_missing''
        else if sint (wo_timeout_seconds o1) \<le> 0 then invalid_arg ''timeout_seconds_invalid''
        else bindR (newDescriptorBoundRequestID random) (\<lambda>requestID.
          Ok \<lparr>wp_call_mode = rq_call_mode r,
              wp_envelope = \<lparr>we_request_id = requestID, we_caller = en_caller envelope,
                we_callee = en_callee envelope, we_subject = en_subject envelope,
                we_nonce = en_nonce envelope, we_causal = en_causal envelope,
                we_signature = rq_signature r\<rparr>,
              wp_descriptor_ref = en_ability envelope, wp_route_name = routeName,
              wp_payload = rq_payload r, wp_canonical = canonicalBytes,
              wp_content_type = trim_space (wo_content_type o1),
              wp_content_encoding = WireContentEncodingIdentity,
              wp_timeout_seconds = wo_timeout_seconds o1, wp_metadata = wo_metadata o1\<rparr>)))))"

section \<open>The native document\<close>

text \<open>The structs of \<open>bundle.go\<close> as members; the optional fields of a causal context are left
  out when they are empty.\<close>

definition identity_json_any :: "identity_json \<Rightarrow> go_any" where
  "identity_json_any i = AnyMap [(''ura'', AnyString (ij_ura i)), (''profile'', AnyString (ij_profile i))]"

definition receipt_ref_any :: "receipt_ref_json \<Rightarrow> go_any" where
  "receipt_ref_any r =
     AnyMap [(''receipt_hash_hex'', AnyString (qj_hash_hex r)), (''receipt_ura'', AnyString (qj_ura r))]"

definition causal_object :: "causal_json \<Rightarrow> go_object" where
  "causal_object c =
     (''form'', AnyString (cj_form c)) # optional_text ''receipt_hash_hex'' (cj_hash_hex c)
     @ optional_text ''receipt_ura'' (cj_ura c)
     @ (if cj_prior c = [] then [] else [(''prior'', AnyList (map receipt_ref_any (cj_prior c)))])
     @ optional_text ''root_hex'' (cj_root_hex c) @ optional_text ''proof_ura'' (cj_proof_ura c)"

definition nonce_any :: "nonce16 \<Rightarrow> go_any" where
  "nonce_any n = base64_any (be_bytes 16 n)"

definition native_mode :: "call_mode \<Rightarrow> string result" where
  "native_mode m =
     (if m = CallModeRPC then Ok ''unary'' else if m = CallModeStream then Ok ''server_stream''
      else if m = CallModeBidi then Ok ''bidi'' else invalid_arg ''native_call_mode_unsupported'')"

definition envelope_any :: "invocation_envelope \<Rightarrow> go_any" where
  "envelope_any e = AnyMap
     [(''caller'', identity_json_any (IdentityFromAgent (en_caller e))),
      (''callee'', identity_json_any (IdentityFromAgent (en_callee e))),
      (''subject'', identity_json_any (IdentityFromSubject (en_subject e))),
      (''ability'', AnyString (en_ability e)), (''nonce_base64'', nonce_any (en_nonce e)),
      (''causal_context'', AnyMap (causal_object (CausalFromCtx (en_causal e))))]"

definition signature_any :: "caller_signature \<Rightarrow> go_any" where
  "signature_any s = AnyMap
     [(''algorithm'', AnyString (cs_algorithm s)), (''signature_base64'', base64_any (cs_signature s)),
      (''key_id_hint'', AnyString (cs_key_id_hint s))]"

definition DescriptorBoundNativePayload :: "platform \<Rightarrow> bound_request \<Rightarrow> go_object result" where
  "DescriptorBoundNativePayload P r =
     bindR (native_mode (rq_call_mode r)) (\<lambda>mode.
       if rq_parent r \<noteq> [] \<or> rq_supervisor r \<noteq> None
       then invalid_arg ''local_parent_or_supervisor_not_transportable''
       else bindR (projection_checks P r) (\<lambda>_.
         Ok [(''version'', AnyString ''axon.descriptor-bound-invocation.v1''), (''mode'', AnyString mode),
             (''envelope'', envelope_any (dbe_envelope (rq_envelope r))),
             (''signature'', signature_any (rq_signature r)),
             (''payload_base64'', base64_any (rq_payload r))]))"

definition DescriptorBoundAbility :: "bound_request \<Rightarrow> string" where
  "DescriptorBoundAbility r = en_ability (dbe_envelope (rq_envelope r))"

section \<open>The options of the carrier\<close>

text \<open>The transport knows a request by the interface it implements: what its document is and which
  ability it is for.  A document may be nil.\<close>

record native_request =
  nq_payload :: "go_object option result"
  nq_ability :: string

definition as_native :: "platform \<Rightarrow> bound_request \<Rightarrow> native_request" where
  "as_native P r = \<lparr>nq_payload = bindR (DescriptorBoundNativePayload P r) (\<lambda>d. Ok (Some d)),
     nq_ability = DescriptorBoundAbility r\<rparr>"

record native_options =
  no_request_id :: string
  no_content_type :: string
  no_timeout_ms :: int
  no_metadata :: "(string \<times> string) list"

definition bridge_error :: "string \<Rightarrow> any_error" where
  "bridge_error message = dendrite ''BRIDGE'' message"

text \<open>A failed check, and the error of the request's own projection.\<close>

definition check_that :: "any_error option \<Rightarrow> any_error + unit" where
  "check_that e = (case e of None \<Rightarrow> Inr () | Some err \<Rightarrow> Inl err)"

definition request_document :: "(string \<Rightarrow> string) \<Rightarrow> native_request \<Rightarrow> any_error + go_object" where
  "request_document q req =
     (case nq_payload req of
        Ok None \<Rightarrow> Inl (bridge_error ''descriptor-bound payload is required'')
      | Ok (Some payload) \<Rightarrow> Inr payload
      | Fail e \<Rightarrow> Inl (OtherError (go_error_string q e))
      | Panic e \<Rightarrow> Inl (OtherError (go_error_string q e)))"

definition payloadForMode ::
  "(string \<Rightarrow> string) \<Rightarrow> native_request option \<Rightarrow> native_options \<Rightarrow> string \<Rightarrow> any_error + go_object" where
  "payloadForMode q request o1 mode =
     (case request of
        None \<Rightarrow> Inl (bridge_error ''descriptor-bound request is required'')
      | Some req \<Rightarrow>
          bindE (check_that (map_option OtherError (requireNonBlank ''request_id'' (no_request_id o1)))) (\<lambda>_.
          bindE (check_that (map_option OtherError (requireNonBlank ''content_type'' (no_content_type o1)))) (\<lambda>_.
            if no_timeout_ms o1 < 0 then Inl (bridge_error ''timeout_ms must not be negative'')
            else bindE (request_document q req) (\<lambda>payload.
              if obj_get payload ''mode'' \<noteq> Some (AnyString mode)
              then Inl (bridge_error ''descriptor-bound request mode does not match transport'')
              else Inr (payload @
                [(''request_id'', AnyString (no_request_id o1)),
                 (''content_type'', AnyString (no_content_type o1)),
                 (''timeout_ms'', AnyInt (if no_timeout_ms o1 = 0 then DefaultTimeoutMs else no_timeout_ms o1)),
                 (''metadata'', string_map (no_metadata o1)), (''stream'', AnyNil)])))))"

definition native_payload ::
  "(string \<Rightarrow> string) \<Rightarrow> native_request option \<Rightarrow> native_options \<Rightarrow> any_error + go_object" where
  "native_payload q request o1 = payloadForMode q request o1 ''unary''"

record native_stream_options = native_options +
  ns_chunk_timeout_ms :: int
  ns_chunk_buffer_size :: int

fun check_descriptors :: "stream_descriptor list \<Rightarrow> any_error option" where
  "check_descriptors [] = None"
| "check_descriptors (sd # sds) =
     (case requireNonBlank ''stream content_type'' (sd_content_type sd) of
        Some e \<Rightarrow> Some (OtherError e)
      | None \<Rightarrow>
          if sd_ordering sd \<noteq> [] \<and> sd_ordering sd \<noteq> ''STRICT''
          then Some (bridge_error ''stream ordering must be STRICT or empty'') else check_descriptors sds)"

definition streaming_payload ::
  "(string \<Rightarrow> string) \<Rightarrow> native_request option \<Rightarrow> native_stream_options \<Rightarrow> string \<Rightarrow> go_any \<Rightarrow>
   stream_descriptor list \<Rightarrow> any_error + go_object" where
  "streaming_payload q request o1 mode requestCapacity descriptors =
     (if ns_chunk_timeout_ms o1 < 0 \<or> ns_chunk_buffer_size o1 < 0
      then Inl (bridge_error ''stream timeout and buffer must not be negative'')
      else bindE (check_that (check_descriptors descriptors)) (\<lambda>_.
           bindE (payloadForMode q request (native_options.truncate o1) mode) (\<lambda>payload.
             Inr (payload @ [(''stream'', AnyMap
               [(''chunk_timeout_ms'', AnyInt (if ns_chunk_timeout_ms o1 = 0 then DefaultStreamChunkTimeoutMs
                                                else ns_chunk_timeout_ms o1)),
                (''chunk_buffer_size'', AnyInt (if ns_chunk_buffer_size o1 = 0 then 64
                                                 else ns_chunk_buffer_size o1)),
                (''request_buffer_size'', requestCapacity),
                (''streams'', AnyList (map descriptor_any descriptors))])]))))"

definition native_stream_payload ::
  "(string \<Rightarrow> string) \<Rightarrow> native_request option \<Rightarrow> native_stream_options \<Rightarrow> any_error + go_object" where
  "native_stream_payload q request o1 = streaming_payload q request o1 ''server_stream'' AnyNil []"

record native_bidi_options = native_stream_options +
  nb_request_buffer_size :: int
  nb_streams :: "stream_descriptor list"

definition native_bidi_payload ::
  "(string \<Rightarrow> string) \<Rightarrow> native_request option \<Rightarrow> native_bidi_options \<Rightarrow> any_error + go_object" where
  "native_bidi_payload q request o1 =
     (if nb_request_buffer_size o1 < 0 then Inl (bridge_error ''request buffer must not be negative'')
      else streaming_payload q request (native_stream_options.truncate o1) ''bidi''
             (AnyInt (if nb_request_buffer_size o1 = 0 then 64 else nb_request_buffer_size o1)) (nb_streams o1))"

section \<open>The calls\<close>

definition bridge_InvokeDescriptorBound ::
  "(string \<Rightarrow> string) \<Rightarrow> native_env \<Rightarrow> bool \<Rightarrow> u64 \<Rightarrow> native_request option \<Rightarrow> native_options \<Rightarrow>
   any_error + go_object" where
  "bridge_InvokeDescriptorBound q env loaded handle request o1 =
     bindE (native_payload q request o1) (\<lambda>payload.
     bindE (callLocked env loaded SymDescriptorBoundInvoke handle False (Some payload)) (\<lambda>resp.
       Inr (bj_payload resp)))"

definition StreamDescriptorBound ::
  "(string \<Rightarrow> string) \<Rightarrow> native_env \<Rightarrow> bool \<Rightarrow> u64 \<Rightarrow> native_request option \<Rightarrow> native_stream_options \<Rightarrow>
   any_error + u64 \<times> go_object" where
  "StreamDescriptorBound q env loaded handle request o1 =
     bindE (native_stream_payload q request o1) (\<lambda>payload.
     bindE (callLocked env loaded SymDescriptorBoundStreamOpen handle True (Some payload)) (\<lambda>resp.
     bindE (descriptorBoundStreamHandle (bj_payload resp)) (\<lambda>streamHandle.
       Inr (streamHandle, stripHoistedKeys (bj_payload resp)))))"

definition BidiDescriptorBound ::
  "(string \<Rightarrow> string) \<Rightarrow> native_env \<Rightarrow> bool \<Rightarrow> u64 \<Rightarrow> native_request option \<Rightarrow> native_bidi_options \<Rightarrow>
   any_error + bidi_open_result" where
  "BidiDescriptorBound q env loaded handle request o1 =
     bindE (native_bidi_payload q request o1) (\<lambda>payload.
     bindE (callLocked env loaded SymDescriptorBoundBidiOpen handle True (Some payload)) (\<lambda>resp.
     bindE (descriptorBoundStreamHandle (bj_payload resp)) (\<lambda>streamHandle.
       Inr \<lparr>bor_stream_handle = streamHandle,
            bor_request_id = any_string (obj_get (bj_payload resp) ''request_id''),
            bor_payload = stripHoistedKeys (bj_payload resp)\<rparr>)))"

end
