(* ===== verification/ClientCalls.thy ===== *)
theory ClientCalls
  imports WireRequests Reconnect
begin

text \<open>
  The client (\<open>Client\<close> and the calls of \<open>SidecarTransport\<close> in \<open>axon/client.go\<close>) and the forwarding
  of complete requests (\<open>axon/descriptor_bound_forwarding.go\<close>).  A transport is the interface of
  its operations over a world \<open>'w\<close>; the sidecar transport is one of them.  Its operations are cut
  where they give up the mutex, since another goroutine may close the transport there.
\<close>

section \<open>Contexts and deadlines\<close>

text \<open>What a context answers at the points where a call asks it: its error before the call, at the
  dispatch and after a failure, and the milliseconds left to its deadline at the dispatch, if it
  has one (\<open>Some None\<close>: none left).\<close>

record call_context =
  cx_before :: "any_error option"
  cx_dispatch :: "any_error option"
  cx_after :: "any_error option"
  cx_deadline :: "nat option option"

definition invocationTimeout :: "call_context \<Rightarrow> int \<Rightarrow> any_error + int" where
  "invocationTimeout ctx timeoutMs =
     (case cx_dispatch ctx of
        Some e \<Rightarrow> Inl e
      | None \<Rightarrow>
          (let t = defaulted DefaultTimeoutMs timeoutMs in
           case cx_deadline ctx of
             None \<Rightarrow> Inr t
           | Some None \<Rightarrow> Inl (OtherError ''context deadline exceeded'')
           | Some (Some ms) \<Rightarrow>
               (let deadlineMs = (if int ms < 1 then 1 else int ms) in
                Inr (if deadlineMs < t then deadlineMs else t))))"

section \<open>Opening the sidecar\<close>

text \<open>What the bridge answers to \<open>ensureClient\<close>; the text of an error is kept.\<close>

definition open_answer ::
  "(string \<Rightarrow> string) \<Rightarrow> native_env \<Rightarrow> signing_config option \<Rightarrow> string option \<Rightarrow> string \<Rightarrow> int \<Rightarrow>
   u64 \<times> go_error option" where
  "open_answer q native signing tls endpoint timeoutMs =
     (let options = \<lparr>co_connect_timeout_ms = timeoutMs, co_tls_ca_pem = tls\<rparr> in
      case (case signing of
              Some sg \<Rightarrow> OpenSignedClientWithOptions q native True endpoint sg options
            | None \<Rightarrow> OpenClientWithOptions native True endpoint options) of
        Inl e \<Rightarrow> (0, Some (PlainErr (any_error_string e)))
      | Inr h \<Rightarrow> (h, None))"

text \<open>The environment of a sidecar: the variable \<open>AXON_ENDPOINT\<close>, what loading the library answers,
  the library, and the configuration that never changes.\<close>

record sidecar_env =
  ve_endpoint :: string
  ve_library :: "go_error option"
  ve_native :: native_env
  ve_signing :: "signing_config option"
  ve_tls :: "string option"

definition sidecar_open ::
  "(string \<Rightarrow> string) \<Rightarrow> sidecar_env \<Rightarrow> sidecar_transport \<Rightarrow> sidecar_transport \<times> go_error option" where
  "sidecar_open q v s =
     ensureClient (ve_endpoint v)
       \<lparr>na_open_library = ve_library v,
        na_open_client = open_answer q (ve_native v) (ve_signing v) (ve_tls v)
          (if zt_endpoint s = [] then defaultAxonEndpoint (ve_endpoint v) else zt_endpoint s)
          (defaulted DefaultConnectTimeoutMs (zt_connect_timeout_ms s))\<rparr> s"

section \<open>A signed call of the sidecar\<close>

type_synonym call_answer = "(any_error + go_object) result"

definition failed :: "any_error \<Rightarrow> call_answer" where "failed e = Ok (Inl e)"

text \<open>The beginning of \<open>callInternal\<close>, up to where it has released the mutex.\<close>

definition call_prepare ::
  "(string \<Rightarrow> string) \<Rightarrow> sidecar_env \<Rightarrow> call_context \<Rightarrow> sidecar_transport \<Rightarrow> sidecar_transport \<times> any_error option" where
  "call_prepare q v ctx s =
     (if ve_signing v = None
      then (s, Some (OtherError ''SidecarTransport requires signing for descriptor-bound invocation''))
      else (case sidecar_open q v s of
              (s1, Some e) \<Rightarrow> (s1, Some (OtherError (go_error_string q e)))
            | (s1, None) \<Rightarrow> (s1, cx_before ctx)))"

definition strict_identity :: "string \<Rightarrow> signed_agent_identity" where
  "strict_identity u = \<lparr>sa_ura = u, sa_profile = uraProfileStrictV2\<rparr>"

text \<open>The request the client makes of an ability reference: its callee is the ability.\<close>

definition client_request ::
  "(string \<Rightarrow> string) \<Rightarrow> signing_config \<Rightarrow> string \<Rightarrow> go_object option \<Rightarrow> string \<Rightarrow> int \<Rightarrow> signed_invoke_request result" where
  "client_request q signing resourceURA payload principalID timeoutMs =
     bindR (client_ParseAbilityDescriptorRef q resourceURA) (\<lambda>ability.
     bindR (SubjectURAForInvocation q principalID (cd_raw ability) (sg_caller_ura signing)) (\<lambda>subject.
       Ok \<lparr>sq_callee = strict_identity (cd_ability_ura ability), sq_subject = strict_identity (su_raw subject),
           sq_ability = cd_raw ability,
           sq_payload_json = Some (case payload of None \<Rightarrow> AnyNil | Some m \<Rightarrow> AnyMap m),
           sq_payload_base64 = [], sq_content_type = ''application/json'', sq_nonce_base64 = [],
           sq_causal = signed_zero, sq_timeout_ms = timeoutMs, sq_metadata = []\<rparr>))"

text \<open>The rest, on the transport as the mutex is taken again: a bridge that is gone is dereferenced
  as a nil pointer.\<close>

definition call_dispatch ::
  "(string \<Rightarrow> string) \<Rightarrow> sidecar_env \<Rightarrow> signing_config \<Rightarrow> call_context \<Rightarrow> string \<Rightarrow> go_object option \<Rightarrow> string \<Rightarrow>
   sidecar_transport \<Rightarrow> sidecar_transport \<times> call_answer" where
  "call_dispatch q v signing ctx resourceURA payload principalID s =
     (case invocationTimeout ctx (zt_timeout_ms s) of
        Inl e \<Rightarrow> (s, failed e)
      | Inr timeoutMs \<Rightarrow>
          (case client_request q signing resourceURA payload principalID timeoutMs of
             Fail e \<Rightarrow> (s, failed (OtherError (go_error_string q e)))
           | Panic e \<Rightarrow> (s, Panic e)
           | Ok req \<Rightarrow>
               if \<not> zt_bridge s
               then (s, Panic (PlainErr ''invalid memory address or nil pointer dereference''))
               else (case InvokeAbilitySigned q (ve_native v) True (zt_handle s) req of
                       Inr result \<Rightarrow> (s, Ok (Inr result))
                     | Inl e \<Rightarrow>
                         (if isTransportError q (Some (PlainErr (any_error_string e))) then markDisconnected s else s,
                          failed (case cx_after ctx of Some c \<Rightarrow> c | None \<Rightarrow> e)))))"

definition callInternal ::
  "(string \<Rightarrow> string) \<Rightarrow> sidecar_env \<Rightarrow> call_context \<Rightarrow> string \<Rightarrow> go_object option \<Rightarrow> string \<Rightarrow>
   sidecar_transport \<Rightarrow> sidecar_transport \<times> call_answer" where
  "callInternal q v ctx resourceURA payload principalID s =
     (case (ve_signing v, call_prepare q v ctx s) of
        (Some signing, s1, None) \<Rightarrow> call_dispatch q v signing ctx resourceURA payload principalID s1
      | (_, s1, Some e) \<Rightarrow> (s1, failed e)
      | (None, s1, None) \<Rightarrow> (s1, failed (OtherError [])))"

text \<open>The verb \<open>%T\<close> on a decoded value.\<close>

fun go_type_name :: "go_any \<Rightarrow> string" where
  "go_type_name AnyNil = ''<nil>''"
| "go_type_name (AnyBool b) = ''bool''"
| "go_type_name (AnyString s) = ''string''"
| "go_type_name (AnyFloat v) = ''float64''"
| "go_type_name (AnyInt n) = ''int''"
| "go_type_name (AnyList l) = ''[]interface {}''"
| "go_type_name (AnyMap m) = ''map[string]interface {}''"

definition extractResultPayload :: "go_object \<Rightarrow> any_error + go_object" where
  "extractResultPayload raw =
     (case obj_get raw ''result_json'' of
        None \<Rightarrow> Inl (OtherError ''invoke response missing result_json'')
      | Some (AnyMap m) \<Rightarrow> Inr m
      | Some v \<Rightarrow> Inl (OtherError
          (''invoke response result_json must be an object for Call; use CallAny or CallRaw for '' @ go_type_name v)))"

definition then_extract :: "call_answer \<Rightarrow> call_answer" where
  "then_extract a = bindR a (\<lambda>r. Ok (bindE r extractResultPayload))"

definition sidecar_Call ::
  "(string \<Rightarrow> string) \<Rightarrow> sidecar_env \<Rightarrow> call_context \<Rightarrow> string \<Rightarrow> go_object option \<Rightarrow> string \<Rightarrow>
   sidecar_transport \<Rightarrow> sidecar_transport \<times> call_answer" where
  "sidecar_Call q v ctx resourceURA payload principalID s =
     (let (s1, raw) = callInternal q v ctx resourceURA payload principalID s in (s1, then_extract raw))"

section \<open>Forwarding by the sidecar\<close>

definition forward_prepare ::
  "(string \<Rightarrow> string) \<Rightarrow> sidecar_env \<Rightarrow> call_context \<Rightarrow> native_request option \<Rightarrow> native_options \<Rightarrow>
   sidecar_transport \<Rightarrow> sidecar_transport \<times> any_error option" where
  "forward_prepare q v ctx request o1 s =
     (if ve_signing v \<noteq> None
      then (s, Some (OtherError ''complete-request forwarding requires a transport-only SidecarTransport''))
      else if request = None then (s, Some (OtherError ''descriptor-bound request is required''))
      else if no_timeout_ms o1 < 0 then (s, Some (OtherError ''timeout_ms must not be negative''))
      else if cx_before ctx \<noteq> None then (s, cx_before ctx)
      else (case sidecar_open q v s of
              (s1, Some e) \<Rightarrow> (s1, Some (OtherError (go_error_string q e)))
            | (s1, None) \<Rightarrow> (s1, None)))"

text \<open>The dispatch holds the mutex.\<close>

definition forward_dispatch ::
  "(string \<Rightarrow> string) \<Rightarrow> sidecar_env \<Rightarrow> call_context \<Rightarrow> native_request option \<Rightarrow> native_options \<Rightarrow>
   sidecar_transport \<Rightarrow> any_error + go_object" where
  "forward_dispatch q v ctx request o1 s =
     (if \<not> zt_bridge s \<or> zt_handle s = 0 then Inl (OtherError ''transport closed before request dispatch'')
      else bindE (invocationTimeout ctx (if no_timeout_ms o1 = 0 then zt_timeout_ms s else no_timeout_ms o1))
             (\<lambda>timeout. bridge_InvokeDescriptorBound q (ve_native v) True (zt_handle s) request
                          (o1\<lparr>no_timeout_ms := timeout\<rparr>)))"

definition sidecar_InvokeDescriptorBound ::
  "(string \<Rightarrow> string) \<Rightarrow> sidecar_env \<Rightarrow> call_context \<Rightarrow> native_request option \<Rightarrow> native_options \<Rightarrow>
   sidecar_transport \<Rightarrow> sidecar_transport \<times> (any_error + go_object)" where
  "sidecar_InvokeDescriptorBound q v ctx request o1 s =
     (case forward_prepare q v ctx request o1 s of
        (s1, Some e) \<Rightarrow> (s1, Inl e)
      | (s1, None) \<Rightarrow> (s1, forward_dispatch q v ctx request o1 s1))"

section \<open>The client\<close>

text \<open>A transport over a world: \<open>Call\<close>, and the optional \<open>CallRaw\<close> and \<open>InvokeDescriptorBound\<close>.\<close>

record 'w client_transport =
  tr_call :: "string \<Rightarrow> go_object option \<Rightarrow> string \<Rightarrow> 'w \<Rightarrow> 'w \<times> call_answer"
  tr_call_raw :: "(string \<Rightarrow> go_object option \<Rightarrow> string \<Rightarrow> 'w \<Rightarrow> 'w \<times> call_answer) option"
  tr_forward :: "(native_request \<Rightarrow> native_options \<Rightarrow> 'w \<Rightarrow> 'w \<times> (any_error + go_object)) option"

definition sidecar_as_transport ::
  "(string \<Rightarrow> string) \<Rightarrow> sidecar_env \<Rightarrow> call_context \<Rightarrow> sidecar_transport client_transport" where
  "sidecar_as_transport q v ctx =
     \<lparr>tr_call = sidecar_Call q v ctx, tr_call_raw = Some (callInternal q v ctx),
      tr_forward = Some (\<lambda>request. sidecar_InvokeDescriptorBound q v ctx (Some request))\<rparr>"

record 'w axon_client =
  cl_transport :: "'w client_transport option"
  cl_resource_ura :: string
  cl_principal_id :: string

definition NewClient :: "'w client_transport option \<Rightarrow> 'w axon_client" where
  "NewClient transport = \<lparr>cl_transport = transport, cl_resource_ura = [], cl_principal_id = []\<rparr>"

definition client_Ability :: "string \<Rightarrow> 'w axon_client \<Rightarrow> 'w axon_client" where
  "client_Ability resourceURA c = c\<lparr>cl_resource_ura := trim_space resourceURA\<rparr>"

definition client_Principal :: "string \<Rightarrow> 'w axon_client \<Rightarrow> 'w axon_client" where
  "client_Principal principalID c = c\<lparr>cl_principal_id := principalID\<rparr>"

text \<open>The checks after the transport is known, and the call they guard.\<close>

definition client_checked ::
  "(string \<Rightarrow> string) \<Rightarrow> 'w axon_client \<Rightarrow> (string \<Rightarrow> go_object option \<Rightarrow> string \<Rightarrow> 'w \<Rightarrow> 'w \<times> call_answer) \<Rightarrow>
   go_object option \<Rightarrow> 'w \<Rightarrow> 'w \<times> call_answer" where
  "client_checked q c op payload w =
     (case requiredAbilityRef q (cl_resource_ura c) of
        Fail e \<Rightarrow> (w, failed (OtherError (go_error_string q e)))
      | Panic e \<Rightarrow> (w, Panic e)
      | Ok _ \<Rightarrow>
          if cl_principal_id c \<noteq> [] \<and> trim_space (cl_principal_id c) = []
          then (w, failed (OtherError ''principal(...) cannot be blank''))
          else op (cl_resource_ura c) payload (cl_principal_id c) w)"

definition client_Call ::
  "(string \<Rightarrow> string) \<Rightarrow> 'w axon_client \<Rightarrow> go_object option \<Rightarrow> 'w \<Rightarrow> 'w \<times> call_answer" where
  "client_Call q c payload w =
     (if cl_resource_ura c = [] then (w, failed (OtherError ''ability(...) is required before call(...)''))
      else (case cl_transport c of
              None \<Rightarrow> (w, failed (OtherError ''client requires an explicit signed transport''))
            | Some t \<Rightarrow> client_checked q c (tr_call t) payload w))"

definition client_CallRaw ::
  "(string \<Rightarrow> string) \<Rightarrow> 'w axon_client \<Rightarrow> go_object option \<Rightarrow> 'w \<Rightarrow> 'w \<times> call_answer" where
  "client_CallRaw q c payload w =
     (if cl_resource_ura c = [] then (w, failed (OtherError ''ability(...) is required before callRaw(...)''))
      else (case cl_transport c of
              None \<Rightarrow> (w, failed (OtherError ''client requires an explicit signed transport''))
            | Some t \<Rightarrow>
                (case tr_call_raw t of
                   None \<Rightarrow> (w, failed (OtherError ''configured transport does not support callRaw(...)''))
                 | Some op \<Rightarrow> client_checked q c op payload w)))"

definition client_CallAny ::
  "(string \<Rightarrow> string) \<Rightarrow> 'w axon_client \<Rightarrow> go_object option \<Rightarrow> 'w \<Rightarrow> 'w \<times> (any_error + go_any) result" where
  "client_CallAny q c payload w =
     (let (w1, raw) = client_CallRaw q c payload w in
      (w1, bindR raw (\<lambda>r. Ok (bindE r (\<lambda>m. case obj_get m ''result_json'' of
         None \<Rightarrow> Inl (OtherError ''invoke response missing result_json'') | Some v \<Rightarrow> Inr v)))))"

definition client_InvokeDescriptorBound ::
  "'w axon_client \<Rightarrow> call_context \<Rightarrow> native_request option \<Rightarrow> native_options \<Rightarrow> 'w \<Rightarrow> 'w \<times> (any_error + go_object)" where
  "client_InvokeDescriptorBound c ctx request o1 w =
     (case Option.bind (cl_transport c) tr_forward of
        None \<Rightarrow> (w, Inl (OtherError ''configured transport does not support complete-request forwarding''))
      | Some op \<Rightarrow>
          (case request of
             None \<Rightarrow> (w, Inl (OtherError ''descriptor-bound request is required''))
           | Some req \<Rightarrow>
               if cl_principal_id c \<noteq> []
               then (w, Inl (OtherError ''principal(...) cannot override the signed request subject''))
               else if cl_resource_ura c \<noteq> [] \<and> cl_resource_ura c \<noteq> nq_ability req
               then (w, Inl (OtherError ''bound client ability does not match the signed request''))
               else (case cx_before ctx of Some e \<Rightarrow> (w, Inl e) | None \<Rightarrow> op req o1 w)))"

end
