(* ===== verification/BidiStream.thy ===== *)
theory BidiStream
  imports SignedRequests
begin

text \<open>
  The native bidirectional stream (\<open>BidiStream\<close> of
  \<open>axon/dendrite_bridge_signed_invoke_bidi_cgo.go\<close>) and its adapter to a session
  (\<open>bidiStreamTransport\<close> of \<open>axon/bidi_session.go\<close>): the decoding of frames, the two flags
  of the stream and its operations, and their interleavings with the native calls in flight.
\<close>

section \<open>Frames\<close>

definition print_member :: "native_env \<Rightarrow> go_any \<Rightarrow> string" where
  "print_member env v =
     (case v of AnyNil \<Rightarrow> ''<nil>'' | AnyString s \<Rightarrow> s | _ \<Rightarrow> ne_print env v)"

definition print_object :: "native_env \<Rightarrow> go_object \<Rightarrow> printed_map" where
  "print_object env m k = map_option (print_member env) (obj_get m k)"

definition plain_frame :: "string \<Rightarrow> u64 \<Rightarrow> bidi_frame" where
  "plain_frame kind seq = \<lparr>bf_kind = kind, bf_sequence = seq, bf_stream_id = 0, bf_data = [], bf_pts = 0,
     bf_receipt = Map.empty, bf_terminal = False, bf_control = Map.empty\<rparr>"

definition decode_binary :: "native_env \<Rightarrow> go_object \<Rightarrow> any_error + bidi_frame" where
  "decode_binary env m =
     bindE (case obj_get m ''chunk_base64'' of
              Some (AnyString b64) \<Rightarrow>
                if b64 = [] then Inr [] else decode_base64 ''BRIDGE'' ''invalid chunk_base64 from bridge'' b64
            | _ \<Rightarrow> Inr [])
       (\<lambda>data. Inr ((plain_frame BidiFrameBinary (uint64FromAny (ne_wild env) (obj_get m ''sequence'')))
          \<lparr>bf_stream_id := uint32FromAny (ne_wild env) (obj_get m ''stream_id''), bf_data := data,
           bf_pts := uint64FromAny (ne_wild env) (obj_get m ''pts'')\<rparr>))"

text \<open>A receipt: \<open>terminal\<close> says which of the two members holds it, and the other must be null.\<close>

definition decode_receipt :: "native_env \<Rightarrow> go_object \<Rightarrow> any_error + bidi_frame" where
  "decode_receipt env m =
     (let invalid = Inl (dendrite ''BRIDGE'' ''invalid canonical bidi receipt projection'');
          admission = obj_get m ''admission_receipt''; final = obj_get m ''terminal_receipt'' in
      case obj_get m ''terminal'' of
        Some (AnyBool terminal) \<Rightarrow>
          if admission = None \<or> final = None \<or> obj_get m ''receipt'' \<noteq> None then invalid
          else (case (if terminal then (final, admission) else (admission, final)) of
                  (Some (AnyMap receipt), Some AnyNil) \<Rightarrow>
                    Inr ((plain_frame BidiFrameReceipt (uint64FromAny (ne_wild env) (obj_get m ''sequence'')))
                          \<lparr>bf_receipt := print_object env receipt, bf_terminal := terminal\<rparr>)
                | _ \<Rightarrow> invalid)
      | _ \<Rightarrow> invalid)"

definition decodeBidiFrame :: "(string \<Rightarrow> string) \<Rightarrow> native_env \<Rightarrow> go_object \<Rightarrow> any_error + bidi_frame" where
  "decodeBidiFrame q env m =
     (let kind = any_string (obj_get m ''kind'') in
      if kind = BidiFrameBinary then decode_binary env m
      else if kind = BidiFrameReceipt then decode_receipt env m
      else if kind = BidiFrameControl
      then Inr ((plain_frame BidiFrameControl (uint64FromAny (ne_wild env) (obj_get m ''sequence'')))
             \<lparr>bf_control := (case obj_get m ''control'' of Some (AnyMap c) \<Rightarrow> print_object env c | _ \<Rightarrow> Map.empty)\<rparr>)
      else if kind = BidiFrameDone then Inr (plain_frame BidiFrameDone 0)
      else if kind = BidiFrameTimeout then Inr (plain_frame BidiFrameTimeout 0)
      else Inl (dendrite ''BRIDGE'' (''unknown bidi frame kind from bridge: '' @ q kind)))"

section \<open>The stream\<close>

text \<open>\<open>zb_up_calls\<close> is not a field of the code: the calls the stream has made into the library on
  its up direction, each with its symbol and its document.\<close>

type_synonym up_call = "native_symbol \<times> go_object option"

record bidi_stream =
  zb_handle :: u64
  zb_eof_sent :: bool
  zb_released :: bool
  zb_up_calls :: "up_call list"

definition calling :: "native_symbol \<Rightarrow> go_object option \<Rightarrow> bidi_stream \<Rightarrow> bidi_stream" where
  "calling fn payload s = s\<lparr>zb_up_calls := zb_up_calls s @ [(fn, payload)]\<rparr>"

definition up_closed :: any_error where
  "up_closed = OtherError ''signed bidi up direction is closed''"

definition ensureUpOpen :: "bidi_stream \<Rightarrow> any_error option" where
  "ensureUpOpen s = (if zb_released s \<or> zb_eof_sent s then Some up_closed else None)"

definition callSend ::
  "native_env \<Rightarrow> bool \<Rightarrow> go_object \<Rightarrow> bidi_stream \<Rightarrow> bidi_stream \<times> (any_error + unit)" where
  "callSend env loaded payload s =
     (if zb_released s \<or> zb_eof_sent s \<and> obj_get payload ''kind'' \<noteq> Some (AnyString ''eof'')
      then (s, Inl up_closed)
      else (calling SymDescriptorBoundBidiSend (Some payload) s,
            bindE (callLocked env loaded SymDescriptorBoundBidiSend (zb_handle s) False (Some payload))
              (\<lambda>_. Inr ())))"

definition send_checked ::
  "native_env \<Rightarrow> bool \<Rightarrow> go_object \<Rightarrow> bidi_stream \<Rightarrow> bidi_stream \<times> (any_error + unit)" where
  "send_checked env loaded payload s =
     (case ensureUpOpen s of Some e \<Rightarrow> (s, Inl e) | None \<Rightarrow> callSend env loaded payload s)"

definition chunk_payload :: "u32 \<Rightarrow> bytes \<Rightarrow> u64 \<Rightarrow> go_object" where
  "chunk_payload streamID data pts =
     [(''kind'', AnyString ''binary_chunk''), (''stream_id'', AnyInt (uint streamID)),
      (''chunk_base64'', base64_any data), (''pts'', AnyInt (uint pts))]"

definition resize_payload :: "u32 \<Rightarrow> u32 \<Rightarrow> go_object" where
  "resize_payload cols rows =
     [(''kind'', AnyString ''pty_resize''), (''cols'', AnyInt (uint cols)), (''rows'', AnyInt (uint rows))]"

definition signal_payload :: "int \<Rightarrow> go_object" where
  "signal_payload signal = [(''kind'', AnyString ''pty_signal''), (''signal'', AnyInt signal)]"

definition timestamp_payload :: "u32 \<Rightarrow> u64 \<Rightarrow> go_object" where
  "timestamp_payload streamID pts =
     [(''kind'', AnyString ''media_timestamp''), (''stream_id'', AnyInt (uint streamID)),
      (''pts'', AnyInt (uint pts))]"

definition eof_payload :: go_object where
  "eof_payload = [(''kind'', AnyString ''eof'')]"

definition stream_Send ::
  "native_env \<Rightarrow> bool \<Rightarrow> u32 \<Rightarrow> bytes \<Rightarrow> u64 \<Rightarrow> bidi_stream \<Rightarrow> bidi_stream \<times> (any_error + unit)" where
  "stream_Send env loaded streamID data pts s = send_checked env loaded (chunk_payload streamID data pts) s"

definition SendPtyResize ::
  "native_env \<Rightarrow> bool \<Rightarrow> u32 \<Rightarrow> u32 \<Rightarrow> bidi_stream \<Rightarrow> bidi_stream \<times> (any_error + unit)" where
  "SendPtyResize env loaded cols rows s = send_checked env loaded (resize_payload cols rows) s"

definition SendPtySignal ::
  "native_env \<Rightarrow> bool \<Rightarrow> int \<Rightarrow> bidi_stream \<Rightarrow> bidi_stream \<times> (any_error + unit)" where
  "SendPtySignal env loaded signal s = send_checked env loaded (signal_payload signal) s"

definition SendMediaTimestamp ::
  "native_env \<Rightarrow> bool \<Rightarrow> u32 \<Rightarrow> u64 \<Rightarrow> bidi_stream \<Rightarrow> bidi_stream \<times> (any_error + unit)" where
  "SendMediaTimestamp env loaded streamID pts s = send_checked env loaded (timestamp_payload streamID pts) s"

text \<open>\<open>CompareAndSwap(false, true)\<close> of the flag: whether this caller has set it.\<close>

definition mark_eof :: "bidi_stream \<Rightarrow> bidi_stream \<times> bool" where
  "mark_eof s = (s\<lparr>zb_eof_sent := True\<rparr>, \<not> zb_eof_sent s)"

definition SendEOF :: "native_env \<Rightarrow> bool \<Rightarrow> bidi_stream \<Rightarrow> bidi_stream \<times> (any_error + unit)" where
  "SendEOF env loaded s =
     (case mark_eof s of (s1, won) \<Rightarrow> if \<not> won then (s1, Inr ()) else callSend env loaded eof_payload s1)"

definition recv_answer ::
  "(string \<Rightarrow> string) \<Rightarrow> native_env \<Rightarrow> bool \<Rightarrow> int \<Rightarrow> u64 \<Rightarrow> any_error + bidi_frame" where
  "recv_answer q env loaded timeoutMs handle =
     bindE (callLocked env loaded SymDescriptorBoundBidiRecv handle False
              (Some (optional_positive ''timeout_ms'' timeoutMs)))
       (\<lambda>resp. decodeBidiFrame q env (bj_payload resp))"

definition native_terminal :: "any_error + bidi_frame \<Rightarrow> bool" where
  "native_terminal a = (case a of Inr f \<Rightarrow> bf_kind f = BidiFrameReceipt \<and> bf_terminal f | Inl _ \<Rightarrow> False)"

text \<open>The two stores behind a terminal receipt.\<close>

definition store_released :: "bidi_stream \<Rightarrow> bidi_stream" where
  "store_released s = s\<lparr>zb_released := True\<rparr>"

definition store_eof :: "bidi_stream \<Rightarrow> bidi_stream" where
  "store_eof s = s\<lparr>zb_eof_sent := True\<rparr>"

definition stream_Recv ::
  "(string \<Rightarrow> string) \<Rightarrow> native_env \<Rightarrow> bool \<Rightarrow> int \<Rightarrow> bidi_stream \<Rightarrow>
   bidi_stream \<times> (any_error + bidi_frame)" where
  "stream_Recv q env loaded timeoutMs s =
     (if zb_released s then (s, Inr (plain_frame BidiFrameDone 0))
      else (let a = recv_answer q env loaded timeoutMs (zb_handle s) in
            (if native_terminal a then store_eof (store_released s) else s, a)))"

definition half_close :: "native_env \<Rightarrow> bool \<Rightarrow> bidi_stream \<Rightarrow> bidi_stream \<times> (any_error + unit)" where
  "half_close env loaded s =
     (if zb_released s then (s, Inr ())
      else (case mark_eof s of (s1, won) \<Rightarrow>
              if \<not> won then (s1, Inr ())
              else (calling SymDescriptorBoundBidiClose None s1,
                    bindE (callLocked env loaded SymDescriptorBoundBidiClose (zb_handle s) False None)
                      (\<lambda>_. Inr ()))))"

definition Dispose :: "native_env \<Rightarrow> bool \<Rightarrow> bidi_stream \<Rightarrow> bidi_stream \<times> (any_error + unit)" where
  "Dispose env loaded s =
     (if zb_released s then (s, Inr ())
      else (calling SymStreamClose None (store_eof (store_released s)), StreamClose env loaded (zb_handle s)))"

section \<open>The transport of a session\<close>

text \<open>The error of the context, if any, comes first.\<close>

definition bst_Send ::
  "native_env \<Rightarrow> bool \<Rightarrow> any_error option \<Rightarrow> bidi_frame \<Rightarrow> bidi_stream \<Rightarrow> bidi_stream \<times> any_error option" where
  "bst_Send env loaded ctx frame s =
     (case ctx of Some e \<Rightarrow> (s, Some e) | None \<Rightarrow>
       if bf_kind frame \<noteq> BidiFrameBinary
       then (s, Some (bidiValidationError ''provider-backed bidi stream accepts binary content frames''))
       else (case stream_Send env loaded (bf_stream_id frame) (bf_data frame) (bf_pts frame) s of
               (s1, Inl e) \<Rightarrow> (s1, Some e) | (s1, Inr _) \<Rightarrow> (s1, None)))"

text \<open>The timeout of a receive: \<open>deadline\<close> is the time left in milliseconds before rounding,
  \<open>None\<close> without a deadline and \<open>Some None\<close> when none is left.\<close>

definition receive_timeout :: "int \<Rightarrow> nat option option \<Rightarrow> int option" where
  "receive_timeout timeoutMs deadline =
     (case deadline of
        None \<Rightarrow> Some timeoutMs
      | Some None \<Rightarrow> None
      | Some (Some ms) \<Rightarrow>
          (let deadlineMs = (if int ms < 1 then 1 else int ms) in
           Some (if timeoutMs \<le> 0 \<or> deadlineMs < timeoutMs then deadlineMs else timeoutMs)))"

definition bst_Receive ::
  "(string \<Rightarrow> string) \<Rightarrow> native_env \<Rightarrow> bool \<Rightarrow> any_error option \<Rightarrow> int \<Rightarrow> nat option option \<Rightarrow>
   bidi_stream \<Rightarrow> bidi_stream \<times> (any_error + bidi_frame)" where
  "bst_Receive q env loaded ctx timeoutMs deadline s =
     (case ctx of Some e \<Rightarrow> (s, Inl e) | None \<Rightarrow>
       (case receive_timeout timeoutMs deadline of
          None \<Rightarrow> (s, Inl (OtherError ''context deadline exceeded''))
        | Some t \<Rightarrow> stream_Recv q env loaded t s))"

definition bst_CloseSend ::
  "native_env \<Rightarrow> bool \<Rightarrow> any_error option \<Rightarrow> bidi_stream \<Rightarrow> bidi_stream \<times> (any_error + unit)" where
  "bst_CloseSend env loaded ctx s = (case ctx of Some e \<Rightarrow> (s, Inl e) | None \<Rightarrow> SendEOF env loaded s)"

definition bst_Close ::
  "native_env \<Rightarrow> bool \<Rightarrow> any_error option \<Rightarrow> bidi_stream \<Rightarrow> bidi_stream \<times> (any_error + unit)" where
  "bst_Close env loaded ctx s = (case ctx of Some e \<Rightarrow> (s, Inl e) | None \<Rightarrow> half_close env loaded s)"

section \<open>Operations interleaved\<close>

text \<open>What is one step and what is not: \<open>callSend\<close>, \<open>Close\<close> and \<open>Dispose\<close> hold one mutex from
  their checks to the return of the library, and none looks at the flags again once it has called,
  so each is one step; the senders check the stream before, without the mutex, so any number of
  them may have passed \<open>ensureUpOpen\<close> when the direction ends; \<open>SendEOF\<close> marks the stream without
  the mutex and then waits for it; a receiver holds the other mutex over four steps: its check, the
  answer of the library, and its two stores.  A run counts the callers of \<open>SendEOF\<close> and of the
  senders between their two steps, each sender with its document, and knows where the receiver is.\<close>

datatype receiver = Outside | InLibrary | GotTerminal | StoredReleased

record stream_run =
  sy_stream :: bidi_stream
  sy_senders :: "go_object list"
  sy_eof_waiting :: nat
  sy_receiver :: receiver

definition data_payload :: "go_object \<Rightarrow> bool" where
  "data_payload p \<longleftrightarrow> (\<exists>streamID data pts. p = chunk_payload streamID data pts)
     \<or> (\<exists>cols rows. p = resize_payload cols rows) \<or> (\<exists>signal. p = signal_payload signal)
     \<or> (\<exists>streamID pts. p = timestamp_payload streamID pts)"

inductive stream_step :: "stream_run \<Rightarrow> stream_run \<Rightarrow> bool" where
  send_check: "data_payload p \<Longrightarrow> ensureUpOpen (sy_stream y) = None \<Longrightarrow>
    stream_step y (y\<lparr>sy_senders := p # sy_senders y\<rparr>)"
| send_call: "sy_senders y = ps @ p # qs \<Longrightarrow> callSend env loaded p (sy_stream y) = (s1, res) \<Longrightarrow>
    stream_step y (y\<lparr>sy_stream := s1, sy_senders := ps @ qs\<rparr>)"
| eof_mark: "mark_eof (sy_stream y) = (s1, won) \<Longrightarrow>
    stream_step y (y\<lparr>sy_stream := s1, sy_eof_waiting := sy_eof_waiting y + (if won then 1 else 0)\<rparr>)"
| eof_call: "sy_eof_waiting y > 0 \<Longrightarrow> callSend env loaded eof_payload (sy_stream y) = (s1, res) \<Longrightarrow>
    stream_step y (y\<lparr>sy_stream := s1, sy_eof_waiting := sy_eof_waiting y - 1\<rparr>)"
| close: "half_close env loaded (sy_stream y) = (s1, res) \<Longrightarrow> stream_step y (y\<lparr>sy_stream := s1\<rparr>)"
| dispose: "Dispose env loaded (sy_stream y) = (s1, res) \<Longrightarrow> stream_step y (y\<lparr>sy_stream := s1\<rparr>)"
| receive: "sy_receiver y = Outside \<Longrightarrow> \<not> zb_released (sy_stream y) \<Longrightarrow>
    stream_step y (y\<lparr>sy_receiver := InLibrary\<rparr>)"
| receive_answer: "sy_receiver y = InLibrary \<Longrightarrow> a = recv_answer q env loaded timeoutMs (zb_handle (sy_stream y)) \<Longrightarrow>
    stream_step y (y\<lparr>sy_receiver := (if native_terminal a then GotTerminal else Outside)\<rparr>)"
| receive_released: "sy_receiver y = GotTerminal \<Longrightarrow>
    stream_step y (y\<lparr>sy_stream := store_released (sy_stream y), sy_receiver := StoredReleased\<rparr>)"
| receive_eof: "sy_receiver y = StoredReleased \<Longrightarrow>
    stream_step y (y\<lparr>sy_stream := store_eof (sy_stream y), sy_receiver := Outside\<rparr>)"

text \<open>A stream as \<open>InvokeAbilityBidiSigned\<close> returns it.\<close>

definition new_stream :: "u64 \<Rightarrow> bidi_stream" where
  "new_stream handle = \<lparr>zb_handle = handle, zb_eof_sent = False, zb_released = False, zb_up_calls = []\<rparr>"

definition fresh_run :: "stream_run \<Rightarrow> bool" where
  "fresh_run y = (\<exists>handle. y = \<lparr>sy_stream = new_stream handle, sy_senders = [], sy_eof_waiting = 0, sy_receiver = Outside\<rparr>)"

end
