(* ===== verification/BidiProperties.thy ===== *)
theory BidiProperties
  imports BidiSession
begin

text \<open>
  What a bidirectional session guarantees under every interleaving of senders, receivers,
  cancellation and closing, and where its lifecycle does not keep what its comments say.
\<close>

section \<open>The bounded histories\<close>

definition last_frames :: "nat \<Rightarrow> 'a list \<Rightarrow> 'a list" where
  "last_frames n h = drop (length h - n) h"

lemma appendBounded_last:
  assumes "0 < m"
  shows "appendBoundedBidiFrame (last_frames (nat m) h) f m = last_frames (nat m) (h @ [f])"
proof (cases "nat m \<le> length h")
  case True
  then have "last_frames (nat m) h \<noteq> []" "length (last_frames (nat m) h) = nat m"
    using assms by (auto simp: last_frames_def)
  moreover have "Suc (length h) - nat m = Suc (length h - nat m)" using True by simp
  ultimately show ?thesis
    using assms True by (simp add: appendBoundedBidiFrame_def last_frames_def tl_drop drop_Suc)
qed (use assms in \<open>auto simp: appendBoundedBidiFrame_def last_frames_def\<close>)

definition ordered :: "bidi_frame list \<Rightarrow> bool" where
  "ordered = sorted_wrt (\<lambda>f g. bf_sequence f < bf_sequence g)"

definition last_sequence :: "bidi_frame list \<Rightarrow> u64" where
  "last_sequence h = (if h = [] then 0 else bf_sequence (last h))"

lemma ordered_snoc:
  assumes "ordered h" and "last_sequence h < bf_sequence f"
  shows "ordered (h @ [f])" and "last_sequence (h @ [f]) = bf_sequence f"
proof -
  have "bf_sequence g < bf_sequence f" if "g \<in> set h" for g
  proof -
    from that obtain us where h: "h = us @ [last h]" by (metis append_butlast_last_id empty_iff list.set(1))
    with assms(1) that have "g = last h \<or> bf_sequence g < bf_sequence (last h)"
      unfolding ordered_def by (metis Un_iff insertE list.set(1,2) set_append singletonI sorted_wrt_append empty_iff)
    with assms(2) that show ?thesis by (auto simp: last_sequence_def split: if_splits)
  qed
  with assms(1) show "ordered (h @ [f])" by (simp add: ordered_def sorted_wrt_append)
qed (simp add: last_sequence_def)

section \<open>The invariant\<close>

definition ending :: "bidi_state \<Rightarrow> bool" where
  "ending st = (st \<in> {BidiTerminal, BidiCancelled, BidiFailed, BidiClosed})"

definition histories_ok :: "bidi_system \<Rightarrow> bool" where
  "histories_ok y =
     (let s = yb_session y; n = nat (bs_max_buffered s) in
      0 < bs_max_buffered s \<and> bs_max_buffered s \<le> MaxBidiBufferedFrames
      \<and> bs_sent s = last_frames n (yb_sent y) \<and> bs_received s = last_frames n (yb_received y)
      \<and> ordered (yb_sent y) \<and> ordered (yb_received y)
      \<and> bs_last_send s = last_sequence (yb_sent y) \<and> bs_last_recv s = last_sequence (yb_received y)
      \<and> (\<forall>f. yb_sending y = Some f \<longrightarrow> bs_last_send s < bf_sequence f))"

definition outcome_ok :: "bidi_system \<Rightarrow> bool" where
  "outcome_ok y =
     (let s = yb_session y in
      (\<forall>f. bs_terminal s = Some f \<longrightarrow> ending (bs_state s) \<and> yb_received y \<noteq> [] \<and> last (yb_received y) = f)
      \<and> (bs_state s \<in> {BidiTerminal, BidiCancelled} \<longrightarrow> bs_terminal s \<noteq> None)
      \<and> (bs_remote_done s \<longrightarrow> bs_terminal s \<noteq> None) \<and> (yb_closing y \<longrightarrow> ending (bs_state s)))"

definition bidi_inv :: "bidi_system \<Rightarrow> bool" where
  "bidi_inv y = (histories_ok y \<and> outcome_ok y)"

lemma bidi_inv_initially: "bidi_initial y \<Longrightarrow> bidi_inv y"
  by (auto simp: bidi_initial_def NewBidiSession_def bidi_inv_def histories_ok_def outcome_ok_def Let_def
      last_frames_def ordered_def last_sequence_def MaxBidiBufferedFrames_def split: if_splits)

text \<open>What the sections of the operations do to the state.\<close>

lemma bidi_fail_facts:
  "bs_state (bidi_fail s) = (if ending (bs_state s) then bs_state s else BidiFailed)"
  "bidi_fail s = s\<lparr>bs_state := bs_state (bidi_fail s)\<rparr>"
  by (cases "bs_state s"; simp add: bidi_fail_def bidi_transition_def nextBidiState_def ending_def Let_def)+

lemma send_check_facts:
  assumes "send_check f s = (t, r)"
  shows "t = s \<or> t = s\<lparr>bs_state := BidiFailed\<rparr> \<and> \<not> ending (bs_state s) \<and> r \<noteq> None"
    and "r = None \<Longrightarrow> t = s \<and> bs_last_send s < bf_sequence f"
  using assms
  by (auto simp: send_check_def validateOrderedBidiFrame_def ending_def split: if_splits option.splits)

lemma command_facts:
  assumes "bidi_transition ev s = (t, True)" and "ev \<in> {bidiEventLocalClose, bidiEventCancel}"
  shows "\<exists>st. t = s\<lparr>bs_state := st\<rparr> \<and> \<not> ending st \<and> \<not> ending (bs_state s)"
  using assms
  by (cases "bs_state s") (auto simp: bidi_transition_def nextBidiState_def ending_def)

lemma close_facts:
  "ending (bs_state s) \<Longrightarrow> fst (bidi_transition bidiEventClose s) = s\<lparr>bs_state := BidiClosed\<rparr>"
  by (cases "bs_state s") (auto simp: bidi_transition_def nextBidiState_def ending_def)

lemma remote_close_facts: "nextBidiState st bidiEventRemoteClose = Some st' \<Longrightarrow> \<not> ending st' \<and> \<not> ending st"
  by (cases st) (auto simp: nextBidiState_def ending_def)

lemma receipt_event_facts:
  assumes "receipt_event x = Some ev" and "nextBidiState st ev = Some st'"
  shows "ending st'"
proof -
  have "ev \<in> {bidiEventComplete, bidiEventCancelled, bidiEventFail}"
    using assms(1) by (auto simp: receipt_event_def Let_def split: if_splits)
  with assms(2) show ?thesis by (auto simp: nextBidiState_def ending_def split: if_splits)
qed

lemma opened_facts:
  "\<exists>st. bidi_opened s = s\<lparr>bs_state := st\<rparr> \<and> (st = bs_state s \<or> \<not> ending st \<and> \<not> ending (bs_state s))"
  by (cases "bs_state s = BidiOpening")
     (auto simp: bidi_opened_def ending_def intro: exI [of _ BidiOpen] exI [of _ "bs_state s"])

lemma applyFrame_facts:
  assumes "applyFrame f s = (t, r)" and "bs_terminal s = None"
  shows "\<exists>st. t = s\<lparr>bs_state := st\<rparr> \<and> (st = bs_state s \<or> \<not> ending st \<and> \<not> ending (bs_state s))
      \<or> t = s\<lparr>bs_state := st, bs_terminal := Some f\<rparr> \<and> ending st \<and> r = None"
proof -
  have same: "\<exists>st. s = s\<lparr>bs_state := st\<rparr> \<and> (st = bs_state s \<or> \<not> ending st \<and> \<not> ending (bs_state s))"
    by (rule exI [of _ "bs_state s"]) simp
  let ?ev = "receipt_event (printed (bf_receipt f) ''state'')"
  show ?thesis
  proof (cases "is_eof f")
    case True
    with assms(1) same remote_close_facts show ?thesis
      by (cases "nextBidiState (bs_state s) bidiEventRemoteClose") (auto simp: applyFrame_def)
  next
    case False
    show ?thesis
    proof (cases "bf_kind f = BidiFrameReceipt \<and> ?ev \<noteq> None")
      case True
      then obtain ev where ev: "?ev = Some ev" "bf_kind f = BidiFrameReceipt" by auto
      show ?thesis
      proof (cases "nextBidiState (bs_state s) ev")
        case None
        then have "t = s" using False assms ev by (simp add: applyFrame_def)
        with same show ?thesis by blast
      next
        case (Some st)
        then have "t = s\<lparr>bs_state := st, bs_terminal := Some f\<rparr> \<and> r = None"
          using False assms ev by (simp add: applyFrame_def)
        with receipt_event_facts [OF ev(1) Some] show ?thesis by blast
      qed
    next
      case kind: False
      then have "t = bidi_opened s" using False assms by (auto simp: applyFrame_def split: if_splits)
      with opened_facts [of s] show ?thesis by blast
    qed
  qed
qed

lemma no_terminal_update: "bs_terminal s = None \<Longrightarrow> s\<lparr>bs_state := st\<rparr> = s\<lparr>bs_state := st, bs_terminal := None\<rparr>"
  by (cases s) simp

lemma recv_rejected:
  assumes "recv_apply f s = (t, r)" and "\<not> accepts f s"
  shows "bs_terminal s \<noteq> None \<and> t = s \<or> bs_terminal s \<noteq> None \<and> t = s\<lparr>bs_remote_done := True\<rparr>
    \<or> bs_terminal s = None \<and> t = s\<lparr>bs_state := BidiFailed\<rparr>"
  using assms by (auto simp: recv_apply_def accepts_def split: if_splits option.splits)

lemma recv_accepted:
  assumes "recv_apply f s = (t, r)" and "accepts f s"
  obtains st u where "bs_last_recv s < bf_sequence f" "bs_terminal s = None"
    "t = (recv_record f s)\<lparr>bs_state := st, bs_terminal := u\<rparr>"
    "u = None \<and> (st = bs_state s \<or> st = BidiFailed \<or> \<not> ending st \<and> \<not> ending (bs_state s)) \<or> u = Some f \<and> ending st"
proof -
  obtain v e where ap: "applyFrame f (recv_record f s) = (v, e)"
    by (cases "applyFrame f (recv_record f s)")
  have none: "bs_terminal (recv_record f s) = None" and s: "bs_terminal s = None"
    using assms(2) by (simp_all add: accepts_def recv_record_def)
  have "bs_state (recv_record f s) = bs_state s" by (simp add: recv_record_def)
  with applyFrame_facts [OF ap none] obtain st where
    v: "v = (recv_record f s)\<lparr>bs_state := st\<rparr> \<and> (st = bs_state s \<or> \<not> ending st \<and> \<not> ending (bs_state s))
      \<or> v = (recv_record f s)\<lparr>bs_state := st, bs_terminal := Some f\<rparr> \<and> ending st \<and> e = None"
    by auto
  have t: "t = (if e = None then v else v\<lparr>bs_state := BidiFailed\<rparr>)"
    using assms ap by (auto simp: recv_apply_def accepts_def split: option.splits if_splits)
  have lt: "bs_last_recv s < bf_sequence f"
    using assms(2) by (auto simp: accepts_def validateOrderedBidiFrame_def split: if_splits)
  from v show thesis
  proof
    assume v: "v = (recv_record f s)\<lparr>bs_state := st\<rparr> \<and> (st = bs_state s \<or> \<not> ending st \<and> \<not> ending (bs_state s))"
    let ?st = "if e = None then st else BidiFailed"
    have "t = (recv_record f s)\<lparr>bs_state := ?st\<rparr>" using t v by simp
    also have "\<dots> = (recv_record f s)\<lparr>bs_state := ?st, bs_terminal := None\<rparr>"
      by (rule no_terminal_update [OF none])
    finally show thesis using v by (intro that [where st = ?st and u = None, OF lt s]) auto
  next
    assume "v = (recv_record f s)\<lparr>bs_state := st, bs_terminal := Some f\<rparr> \<and> ending st \<and> e = None"
    with t show thesis by (intro that [where st = st and u = "Some f", OF lt s]) auto
  qed
qed

text \<open>A step that only moves the state keeps the histories.\<close>

lemma histories_state [simp]:
  "histories_ok (y\<lparr>yb_session := (yb_session y)\<lparr>bs_state := st\<rparr>\<rparr>) = histories_ok y"
  "histories_ok (y\<lparr>yb_session := bidi_fail (yb_session y)\<rparr>) = histories_ok y"
  by (simp add: histories_ok_def Let_def, subst bidi_fail_facts(2), simp add: histories_ok_def Let_def)

lemma histories_sent:
  assumes "histories_ok y" and "yb_sending y = Some f"
  shows "histories_ok (y\<lparr>yb_session := send_record f (yb_session y), yb_sending := None,
    yb_sent := yb_sent y @ [f]\<rparr>)"
  using assms ordered_snoc [of "yb_sent y" f]
  by (auto simp: histories_ok_def Let_def send_record_def appendBounded_last)

lemma histories_received:
  assumes "histories_ok y" and "bs_last_recv (yb_session y) < bf_sequence f"
  shows "histories_ok (y\<lparr>yb_session := (recv_record f (yb_session y))\<lparr>bs_state := st, bs_terminal := t\<rparr>,
    yb_received := yb_received y @ [f]\<rparr>)"
  using assms ordered_snoc [of "yb_received y" f]
  by (auto simp: histories_ok_def Let_def recv_record_def appendBounded_last)

lemma outcome_fail:
  "outcome_ok y \<Longrightarrow> outcome_ok (y\<lparr>yb_session := bidi_fail (yb_session y)\<rparr>)"
  by (subst bidi_fail_facts(2)) (auto simp: outcome_ok_def Let_def bidi_fail_facts(1) ending_def)

lemma failed_keeps:
  "bs_terminal (bidi_fail s) = bs_terminal s"
  "ending (bs_state s) \<Longrightarrow> bs_state (bidi_fail s) = bs_state s"
  by (simp_all add: bidi_fail_def bidi_transition_def bidi_fail_facts(1) split: option.split)
     (cases "bs_state s"; simp add: nextBidiState_def ending_def)

lemmas inv_defs = bidi_inv_def histories_ok_def outcome_ok_def Let_def

lemma failed_inv: "bidi_inv y \<Longrightarrow> bidi_inv (y\<lparr>yb_session := bidi_fail (yb_session y)\<rparr>)"
  by (simp add: bidi_inv_def outcome_fail)

lemma idle_inv:
  "bidi_inv y \<Longrightarrow> bidi_inv (y\<lparr>yb_sending := None\<rparr>)" "bidi_inv y \<Longrightarrow> bidi_inv (y\<lparr>yb_commanding := b\<rparr>)"
  "bidi_inv y \<Longrightarrow> bidi_inv (y\<lparr>yb_receiving := b\<rparr>)" "bidi_inv y \<Longrightarrow> bidi_inv (y\<lparr>yb_closing := False\<rparr>)"
  by (auto simp: inv_defs)

lemma received_idle:
  "bidi_inv (y\<lparr>yb_session := s, yb_received := h\<rparr>)
   \<Longrightarrow> bidi_inv (y\<lparr>yb_session := s, yb_receiving := False, yb_received := h\<rparr>)"
  by (auto simp: inv_defs)

lemma received_inv:
  assumes "bidi_inv y" and "recv_apply f (yb_session y) = (s, r)"
  shows "bidi_inv (y\<lparr>yb_session := s,
    yb_received := (if accepts f (yb_session y) then yb_received y @ [f] else yb_received y)\<rparr>)"
proof (cases "accepts f (yb_session y)")
  case False
  from recv_rejected [OF assms(2) False] assms(1) False show ?thesis
    by (elim disjE conjE) (auto simp: inv_defs ending_def)
next
  case True
  obtain st t where lt: "bs_last_recv (yb_session y) < bf_sequence f" and none: "bs_terminal (yb_session y) = None"
    and s: "s = (recv_record f (yb_session y))\<lparr>bs_state := st, bs_terminal := t\<rparr>"
    and t: "t = None \<and> (st = bs_state (yb_session y) \<or> st = BidiFailed
      \<or> \<not> ending st \<and> \<not> ending (bs_state (yb_session y))) \<or> t = Some f \<and> ending st"
    by (rule recv_accepted [OF assms(2) True])
  have "histories_ok (y\<lparr>yb_session := s, yb_received := yb_received y @ [f]\<rparr>)"
    unfolding s using assms(1) lt by (intro histories_received) (simp_all add: bidi_inv_def)
  moreover have "outcome_ok (y\<lparr>yb_session := s, yb_received := yb_received y @ [f]\<rparr>)"
    using assms(1) t none unfolding s by (auto simp: bidi_inv_def outcome_ok_def Let_def recv_record_def ending_def)
  ultimately show ?thesis using True by (simp add: bidi_inv_def)
qed

lemma bidi_inv_kept: "bidi_step x y \<Longrightarrow> bidi_inv x \<Longrightarrow> bidi_inv y"
proof (induction rule: bidi_step.induct)
  case (send_refused y f s e)
  with send_check_facts(1) [OF send_refused(2)] show ?case by (auto simp: inv_defs ending_def)
next
  case (send_begins y f s)
  with send_check_facts(2) [OF send_begins(2)] show ?case by (auto simp: inv_defs)
next
  case (send_ends y f)
  then have "outcome_ok (y\<lparr>yb_session := send_record f (yb_session y), yb_sending := None,
      yb_sent := yb_sent y @ [f]\<rparr>)" by (simp add: bidi_inv_def outcome_ok_def Let_def send_record_def)
  with send_ends histories_sent show ?case by (simp add: bidi_inv_def)
next
  case (send_fails y f)
  with idle_inv(1) [OF failed_inv] show ?case by simp
next
  case (command_begins y ev s)
  with command_facts [OF command_begins(3,2)] show ?case by (auto simp: inv_defs ending_def send_free_def)
next
  case (command_fails y)
  with idle_inv(2) [OF failed_inv] show ?case by simp
next
  case (receive_fails y)
  with idle_inv(3) [OF failed_inv] show ?case by simp
next
  case (receive_ends y f s r)
  from received_idle [OF received_inv [OF receive_ends(4,3)]] show ?case .
next
  case (close_begins y)
  then show ?case by (auto simp: inv_defs close_check_def ending_def split: if_splits)
next
  case (close_ends y)
  then have "ending (bs_state (yb_session y))" by (simp add: inv_defs)
  from close_facts [OF this] close_ends show ?case by (auto simp: inv_defs ending_def)
next
  case (close_fails y)
  with idle_inv(4) [OF failed_inv] show ?case by simp
qed (auto intro: idle_inv)

interpretation bidi_sys: transition_system bidi_initial bidi_step bidi_inv
  by unfold_locales (auto intro: bidi_inv_initially bidi_inv_kept)


text \<open>A step from a state that holds its terminal receipt.\<close>

lemma outcome_kept:
  "bidi_step u v \<Longrightarrow> bidi_inv u \<Longrightarrow> \<forall>f. bs_terminal (yb_session u) = Some f \<longrightarrow>
     bs_terminal (yb_session v) = Some f \<and> yb_received v = yb_received u
     \<and> (bs_state (yb_session v) = bs_state (yb_session u) \<or> bs_state (yb_session v) = BidiClosed)"
proof (induction rule: bidi_step.induct)
  case (send_refused y f s e)
  with send_check_facts(1) [OF send_refused(2)] show ?case by (auto simp: inv_defs)
next
  case (send_begins y f s)
  with send_check_facts(2) [OF send_begins(2)] show ?case by auto
next
  case (command_begins y ev s)
  with command_facts [OF command_begins(3,2)] show ?case by (auto simp: inv_defs)
next
  case (receive_ends y f s r)
  show ?case
  proof (cases "accepts f (yb_session y)")
    case False
    with recv_rejected [OF receive_ends(3)] show ?thesis by auto
  qed (simp add: accepts_def)
next
  case (close_ends y)
  then have "ending (bs_state (yb_session y))" by (simp add: inv_defs)
  with close_facts show ?case by simp
qed (auto simp: send_record_def failed_keeps inv_defs)

section \<open>What every interleaving keeps\<close>

text \<open>C12: in every state a session reaches, under any interleaving of a sender, a receiver, a
  closer and their transport failures, the frames it accepted in each direction have strictly
  increasing sequence numbers, its buffers are the last of them and never more than the bound
  of the session (at most 1024), the state is \<open>Terminal\<close> or \<open>Cancelled\<close> only with the
  receipt that ended the stream, and that receipt is the last frame received.\<close>

theorem bidi_lifecycle:
  assumes "bidi_initial x" and "bidi_step\<^sup>*\<^sup>* x y"
  defines "s \<equiv> yb_session y"
  shows "sorted_wrt (\<lambda>f g. bf_sequence f < bf_sequence g) (yb_sent y)
    \<and> sorted_wrt (\<lambda>f g. bf_sequence f < bf_sequence g) (yb_received y)
    \<and> (\<exists>us. yb_sent y = us @ bs_sent s) \<and> (\<exists>us. yb_received y = us @ bs_received s)
    \<and> int (length (bs_sent s)) = min (int (length (yb_sent y))) (bs_max_buffered s)
    \<and> int (length (bs_received s)) = min (int (length (yb_received y))) (bs_max_buffered s)
    \<and> bs_max_buffered s \<le> 1024
    \<and> (bs_state s \<in> {BidiTerminal, BidiCancelled} \<longrightarrow> bs_terminal s \<noteq> None)
    \<and> (\<forall>f. bs_terminal s = Some f \<longrightarrow>
         bs_state s \<in> {BidiTerminal, BidiCancelled, BidiFailed, BidiClosed} \<and> (\<exists>us. yb_received y = us @ [f]))"
proof -
  have inv: "bidi_inv y" by (rule bidi_sys.reachable_inv [OF assms(1,2)])
  have suffix: "\<exists>us. h = us @ last_frames n h" for h :: "bidi_frame list" and n
    unfolding last_frames_def by (metis append_take_drop_id)
  have last: "\<exists>us. h = us @ [f]" if "h \<noteq> []" "last h = f" for h and f :: bidi_frame
    using that by (metis append_butlast_last_id)
  from inv suffix [of "yb_sent y"] suffix [of "yb_received y"] last show ?thesis
    by (auto simp: inv_defs s_def ordered_def MaxBidiBufferedFrames_def last_frames_def ending_def min_def)
qed

text \<open>C13: once a session holds its terminal receipt nothing that is still in flight changes the
  outcome: the receipt and the history of received frames stay, and the state stays or becomes
  \<open>Closed\<close>.\<close>

theorem bidi_outcome_final:
  assumes "bidi_initial x" and "bidi_step\<^sup>*\<^sup>* x y" and "bidi_step\<^sup>*\<^sup>* y z"
    and "bs_terminal (yb_session y) = Some f"
  shows "bs_terminal (yb_session z) = Some f \<and> yb_received z = yb_received y
    \<and> bs_state (yb_session z) \<in> {bs_state (yb_session y), BidiClosed}"
proof -
  let ?R = "\<lambda>x y. \<forall>f. bs_terminal (yb_session x) = Some f \<longrightarrow> bs_terminal (yb_session y) = Some f
    \<and> yb_received y = yb_received x
    \<and> (bs_state (yb_session y) = bs_state (yb_session x) \<or> bs_state (yb_session y) = BidiClosed)"
  have inv: "bidi_inv y" by (rule bidi_sys.reachable_inv [OF assms(1,2)])
  have "?R y z"
  proof (rule bidi_sys.steps_mono [OF assms(3) inv, where R = ?R])
    show "?R u v" if "bidi_inv u" "bidi_step u v" for u v
      using that(2,1) by (rule outcome_kept)
  qed auto
  with assms(4) show ?thesis by auto
qed

section \<open>Where the lifecycle departs from its comments\<close>

text \<open>A receipt whose printed state is the runtime's \<open>TIMED_OUT\<close>, a terminal state there, is not
  recognised as terminal: it opens the session or leaves its state, and the end of the transport
  that follows fails the session.\<close>

definition timed_out_receipt :: "u64 \<Rightarrow> bidi_frame" where
  "timed_out_receipt n = \<lparr>bf_kind = BidiFrameReceipt, bf_sequence = n, bf_stream_id = 0, bf_data = [],
     bf_pts = 0, bf_receipt = [''state'' \<mapsto> ''TIMED_OUT''], bf_terminal = True, bf_control = Map.empty\<rparr>"

text \<open>A receipt whose state is \<open>TIMED_OUT\<close>, a terminal state of the runtime, does not end a
  bidirectional session: the receipt is delivered as an ordinary frame although it is marked
  terminal, no terminal frame is kept, and the end of the transport after it is reported as
  "ended before a terminal receipt" and fails the session.\<close>

lemma timed_out_frame_ignored:
  assumes "bs_terminal s = None" and "bs_state s = BidiOpen" and "bs_last_recv s < n"
    and "bf_kind f = BidiFrameDone" and "\<not> bs_remote_done s"
  shows "\<exists>s1. bidi_Receive (Some None) (Inr (timed_out_receipt n)) s = (s1, Inr (timed_out_receipt n))
    \<and> bs_terminal s1 = None \<and> bs_state s1 = BidiOpen \<and> \<not> bs_remote_done s1
    \<and> bidi_Receive (Some None) (Inr f) s1
        = (s1\<lparr>bs_state := BidiFailed\<rparr>,
           Inl (bidiValidationError ''bidi transport ended before a terminal receipt''))"
proof -
  let ?r = "timed_out_receipt n"
  have "n \<noteq> 0" using assms(3) by auto
  then have valid: "validateOrderedBidiFrame ?r (bs_last_recv s) ''received'' = None"
    using assms(3) by (simp add: validateOrderedBidiFrame_def timed_out_receipt_def frame_kinds not_le)
  have "receipt_event ''TIMED_OUT'' = None" by code_simp
  then have "applyFrame ?r (recv_record ?r s) = (recv_record ?r s, None)"
    using assms(1,2)
    by (simp add: applyFrame_def is_eof_def bidi_opened_def printed_def recv_record_def
        timed_out_receipt_def frame_kinds)
  with valid assms(1) have "recv_apply ?r s = (recv_record ?r s, Inr ?r)"
    by (simp add: recv_apply_def timed_out_receipt_def frame_kinds)
  moreover have "bf_kind ?r \<noteq> BidiFrameTimeout" by (simp add: timed_out_receipt_def frame_kinds)
  ultimately have r: "bidi_Receive (Some None) (Inr ?r) s = (if recv_check s = None then recv_record ?r s else s,
      case recv_check s of None \<Rightarrow> Inr ?r | Some e \<Rightarrow> Inl e)"
    by (simp add: bidi_Receive_def requireReady_def split: option.split)
  have open_s: "recv_check s = None" using assms(5,1,2) by (simp add: recv_check_def)
  with r have first: "bidi_Receive (Some None) (Inr ?r) s = (recv_record ?r s, Inr ?r)" by simp
  have kept: "bs_terminal (recv_record ?r s) = None" "bs_state (recv_record ?r s) = BidiOpen"
    "\<not> bs_remote_done (recv_record ?r s)" using assms(1,2,5) by (simp_all add: recv_record_def)
  then have "bidi_Receive (Some None) (Inr f) (recv_record ?r s)
    = ((recv_record ?r s)\<lparr>bs_state := BidiFailed\<rparr>,
       Inl (bidiValidationError ''bidi transport ended before a terminal receipt''))"
    using assms(4,5) by (simp add: bidi_Receive_def requireReady_def recv_check_def recv_apply_def frame_kinds)
  with first kept show ?thesis by blast
qed

definition demo_done :: bidi_frame where
  "demo_done = \<lparr>bf_kind = BidiFrameDone, bf_sequence = 0, bf_stream_id = 0, bf_data = [], bf_pts = 0,
     bf_receipt = Map.empty, bf_terminal = False, bf_control = Map.empty\<rparr>"

definition demo_session :: bidi_session where
  "demo_session = \<lparr>bs_session_id = ''s'', bs_max_buffered = 1, bs_state = BidiOpen, bs_last_send = 0,
     bs_last_recv = 0, bs_sent = [], bs_received = [], bs_terminal = None, bs_remote_done = False\<rparr>"

text \<open>After a cancellation was requested, a remote side that closes its direction before it sends
  the cancellation receipt fails the session, and the receipt is refused.\<close>

lemma cancel_then_eof_fails:
  assumes "bs_state s = BidiOpen" and "is_eof f" and "accepts f s" and "bf_kind g \<noteq> BidiFrameTimeout"
    and "\<not> bs_remote_done s"
  shows "\<exists>s1 o1 s2. bidi_Cancel (Some None) True reason None s = (s1, Inr o1)
    \<and> bidi_Receive (Some None) (Inr f) s1 = (s2, Inl (bidiValidationError ''unexpected remote bidi close''))
    \<and> bs_state s2 = BidiFailed
    \<and> bidi_Receive (Some None) (Inr g) s2 = (s2, Inl (bidiValidationError ''bidi receive path is closed''))"
  using assms
  by (auto simp: bidi_Cancel_def requireReady_def bidi_transition_def nextBidiState_def bidi_Receive_def
      recv_check_def recv_apply_def accepts_def applyFrame_def recv_record_def Let_def is_eof_def frame_kinds)

section \<open>Runs\<close>

definition demo_bidi :: bidi_system where
  "demo_bidi = \<lparr>yb_session = demo_session, yb_sending = None, yb_commanding = False,
     yb_receiving = False, yb_closing = False, yb_sent = [], yb_received = []\<rparr>"

definition demo_frame :: "u64 \<Rightarrow> bidi_frame" where
  "demo_frame n = demo_done\<lparr>bf_kind := BidiFrameBinary, bf_sequence := n\<rparr>"

definition demo_receipt :: bidi_frame where
  "demo_receipt = (timed_out_receipt 1)\<lparr>bf_receipt := [''state'' \<mapsto> ''Cancelled'']\<rparr>"

text \<open>Two frames sent through a buffer of one, then the receipt.\<close>

definition demo_ended :: bidi_system where
  "demo_ended = demo_bidi\<lparr>yb_session := demo_session\<lparr>bs_state := BidiCancelled, bs_last_send := 2,
     bs_last_recv := 1, bs_sent := [demo_frame 2], bs_received := [demo_receipt],
     bs_terminal := Some demo_receipt\<rparr>, yb_sent := [demo_frame 1, demo_frame 2],
     yb_received := [demo_receipt]\<rparr>"

definition demo_closed :: bidi_system where
  "demo_closed = demo_ended\<lparr>yb_session := (yb_session demo_ended)\<lparr>bs_state := BidiClosed\<rparr>\<rparr>"

lemmas bidi_run = demo_bidi_def demo_session_def demo_frame_def demo_done_def demo_receipt_def
  timed_out_receipt_def demo_ended_def demo_closed_def send_free_def send_check_def send_record_def
  validateOrderedBidiFrame_def appendBoundedBidiFrame_def recv_check_def recv_apply_def recv_record_def
  accepts_def applyFrame_def is_eof_def printed_def bidi_opened_def bidi_transition_def nextBidiState_def
  close_check_def frame_kinds

lemma cancelled_receipt: "receipt_event ''Cancelled'' = Some bidiEventCancelled"
  by code_simp

lemma demo_bidi_initial: "bidi_initial demo_bidi"
proof -
  have "trim_space ''s'' = ''s''" by code_simp
  then have "NewBidiSession False ''s'' ''Open'' 1 = Inr demo_session"
    by (simp add: NewBidiSession_def demo_session_def MaxBidiBufferedFrames_def)
  then show ?thesis unfolding bidi_initial_def demo_bidi_def by blast
qed

lemma demo_ended_reached: "bidi_step\<^sup>*\<^sup>* demo_bidi demo_ended"
proof -
  let ?f = "demo_frame 1" and ?g = "demo_frame 2"
  let ?y1 = "demo_bidi\<lparr>yb_sending := Some ?f\<rparr>"
  let ?s2 = "demo_session\<lparr>bs_last_send := 1, bs_sent := [?f]\<rparr>"
  let ?y2 = "demo_bidi\<lparr>yb_session := ?s2, yb_sent := [?f]\<rparr>"
  let ?y3 = "demo_bidi\<lparr>yb_session := ?s2, yb_sending := Some ?g, yb_sent := [?f]\<rparr>"
  let ?y4 = "demo_bidi\<lparr>yb_session := demo_session\<lparr>bs_last_send := 2, bs_sent := [?g]\<rparr>, yb_sent := [?f, ?g]\<rparr>"
  let ?y5 = "demo_bidi\<lparr>yb_session := demo_session\<lparr>bs_last_send := 2, bs_sent := [?g]\<rparr>, yb_receiving := True,
     yb_sent := [?f, ?g]\<rparr>"
  have "\<not> (2::u64) \<le> 1" by (simp add: word_le_nat_alt)
  note run = bidi_run cancelled_receipt this
  have "bidi_step demo_bidi ?y1" using bidi_step.send_begins [of demo_bidi ?f demo_session] by (simp add: run)
  moreover have "bidi_step ?y1 ?y2" using bidi_step.send_ends [of ?y1 ?f] by (simp add: run)
  moreover have "bidi_step ?y2 ?y3" using bidi_step.send_begins [of ?y2 ?g ?s2] by (simp add: run)
  moreover have "bidi_step ?y3 ?y4" using bidi_step.send_ends [of ?y3 ?g] by (simp add: run)
  moreover have "bidi_step ?y4 ?y5" using bidi_step.receive_begins [of ?y4] by (simp add: run)
  moreover have "bidi_step ?y5 demo_ended"
    using bidi_step.receive_ends [of ?y5 demo_receipt "yb_session demo_ended" "Inr demo_receipt"]
    by (simp add: run)
  ultimately show ?thesis by (meson converse_rtranclp_into_rtranclp rtranclp.rtrancl_refl)
qed

lemma demo_closed_reached: "bidi_step\<^sup>*\<^sup>* demo_ended demo_closed"
proof -
  let ?y = "demo_ended\<lparr>yb_closing := True\<rparr>"
  have "bidi_step demo_ended ?y" using bidi_step.close_begins [of demo_ended] by (simp add: bidi_run)
  moreover have "bidi_step ?y demo_closed" using bidi_step.close_ends [of ?y] by (simp add: bidi_run)
  ultimately show ?thesis by (meson converse_rtranclp_into_rtranclp rtranclp.rtrancl_refl)
qed

theorem bidi_lifecycle_witness:
  "(\<exists>us. yb_sent demo_ended = us @ bs_sent (yb_session demo_ended))
   \<and> length (bs_sent (yb_session demo_ended)) = 1 \<and> length (yb_sent demo_ended) = 2"
  using bidi_lifecycle [OF demo_bidi_initial demo_ended_reached] by (simp add: bidi_run)

theorem bidi_outcome_final_witness:
  "bs_terminal (yb_session demo_closed) = Some demo_receipt
   \<and> bs_state (yb_session demo_closed) \<in> {BidiCancelled, BidiClosed}"
proof -
  have "bs_terminal (yb_session demo_ended) = Some demo_receipt"
    and c: "bs_state (yb_session demo_ended) = BidiCancelled" by (simp_all add: demo_ended_def)
  from bidi_outcome_final [OF demo_bidi_initial demo_ended_reached demo_closed_reached this(1)]
  show ?thesis unfolding c by blast
qed

text \<open>A session that failed and was closed while a receive was in flight does not stay closed: the
  frame that arrives moves it from \<open>Closed\<close> back to \<open>Failed\<close>.\<close>

lemma closed_reopened:
  assumes "bs_state (yb_session y) = BidiFailed" and "bs_terminal (yb_session y) = None"
    and "yb_receiving y" and "\<not> yb_closing y"
  shows "\<exists>u v. bidi_step\<^sup>*\<^sup>* y u \<and> bs_state (yb_session u) = BidiClosed
    \<and> bidi_step u v \<and> bs_state (yb_session v) = BidiFailed"
proof -
  let ?y1 = "y\<lparr>yb_closing := True\<rparr>"
  let ?y2 = "?y1\<lparr>yb_session := fst (bidi_transition bidiEventClose (yb_session ?y1)), yb_closing := False\<rparr>"
  let ?y3 = "?y2\<lparr>yb_session := fst (recv_apply demo_done (yb_session ?y2)), yb_receiving := False,
     yb_received := (if accepts demo_done (yb_session ?y2) then yb_received ?y2 @ [demo_done] else yb_received ?y2)\<rparr>"
  have close: "bs_state (yb_session ?y2) = BidiClosed" "bs_terminal (yb_session ?y2) = None"
    using assms(1,2) by (simp_all add: bidi_transition_def nextBidiState_def)
  have "bidi_step y ?y1" by (rule bidi_step.close_begins) (use assms in \<open>simp_all add: close_check_def\<close>)
  moreover have "bidi_step ?y1 ?y2" by (rule bidi_step.close_ends) simp
  moreover have "bidi_step ?y2 ?y3"
    by (rule bidi_step.receive_ends [where r = "snd (recv_apply demo_done (yb_session ?y2))"])
       (use assms(3) in \<open>simp_all add: demo_done_def frame_kinds\<close>)
  moreover have "bs_state (yb_session ?y3) = BidiFailed"
    using close(2) by (simp add: recv_apply_def demo_done_def)
  ultimately show ?thesis using close(1) by (meson rtranclp.rtrancl_refl rtranclp.rtrancl_into_rtrancl)
qed

end
