(* ===== verification/NativeProperties.thy ===== *)
theory NativeProperties
  imports BidiStream BidiProperties
begin

text \<open>
  What the bridge and its streams guarantee: bytes survive the trip through the library, the
  handles of streams are exact where they are checked and confused where they are not, the
  native calls of a stream come in an order the protocol allows, and what a terminal receipt in a
  state the session does not know would do to it.
\<close>

section \<open>Bytes through the library\<close>

lemma decode_base64_encode [simp]: "decode_base64 code what (b64_encode b) = Inr b"
  by (simp add: decode_base64_def)

lemma decode_chunks_encode [simp]: "decode_chunks code what (map b64_encode bs) = Inr bs"
  by (induction bs) simp_all

text \<open>Members of documents.\<close>

lemma obj_get_Nil [simp]: "obj_get [] k = None"
  by (simp add: obj_get_def)

lemma obj_get_append: "obj_get (m @ m') k = (case obj_get m' k of None \<Rightarrow> obj_get m k | Some v \<Rightarrow> Some v)"
  by (simp add: obj_get_def map_add_def split: option.split)

lemma obj_get_Cons: "obj_get ((n, v) # m) k =
    (case obj_get m k of None \<Rightarrow> if n = k then Some v else None | Some w \<Rightarrow> Some w)"
  by (simp add: obj_get_def map_add_def split: option.split)

lemmas obj_simps = obj_get_Cons obj_get_append

lemma any_string_base64 [simp]: "any_string (Some (base64_any b)) = b64_encode b"
  by (simp add: base64_any_def)

text \<open>A library that serves a unary method: it answers the bytes of the request with \<open>serve\<close>.\<close>

definition serves_unary :: "native_env \<Rightarrow> (bytes \<Rightarrow> bytes) \<Rightarrow> bool" where
  "serves_unary env serve = (\<forall>h m b. obj_get m ''request_base64'' = Some (base64_any b) \<longrightarrow>
     ne_call env SymUnary h (Some (AnyMap m))
       = Document (AnyMap [(''ok'', AnyBool True), (''response_base64'', base64_any (serve b))]))"

lemma consume_ok:
  "any_bool (obj_get m ''ok'') \<Longrightarrow> \<exists>h. consumeJSON env (Document (AnyMap m)) =
     Inr \<lparr>bj_handle = h, bj_response = any_string (obj_get m ''response_base64''),
          bj_chunks = string_items (obj_get m ''chunks_base64''),
          bj_truncated = any_bool (obj_get m ''truncated''), bj_payload = m\<rparr>"
  by (simp add: consumeJSON_def)

text \<open>A unary call gives the caller the bytes the service answered, for every request, path
  and timeout; but a service that answers no bytes, as every method with an empty message does,
  is reported as an error.\<close>

theorem unary_call_exact:
  assumes "serves_unary env serve"
  shows "UnaryCall env True handle path request metadata timeoutMs =
    (if serve request = [] then Inl (dendrite ''BRIDGE'' ''missing unary response payload'')
     else Inr (serve request))"
proof -
  let ?m = "[(''path'', AnyString path), (''request_base64'', base64_any request),
    (''metadata'', string_map metadata), (''timeout_ms'', AnyInt (defaulted DefaultTimeoutMs timeoutMs))]"
  have "obj_get ?m ''request_base64'' = Some (base64_any request)" by (simp add: obj_simps)
  with assms have call: "ne_call env SymUnary handle (Some (AnyMap ?m))
      = Document (AnyMap [(''ok'', AnyBool True), (''response_base64'', base64_any (serve request))])"
    unfolding serves_unary_def by blast
  show ?thesis
    unfolding UnaryCall_def callLocked_def
    by (simp add: call consumeJSON_def obj_simps response_bytes_def)
qed

definition demo_native :: native_env where
  "demo_native = \<lparr>ne_call = (\<lambda>fn h d. case d of Some (AnyMap m) \<Rightarrow> Document (AnyMap [(''ok'', AnyBool True),
       (''response_base64'', AnyString (any_string (obj_get m ''request_base64'')))]) | _ \<Rightarrow> NullPointer),
     ne_wild = (\<lambda>v. 0), ne_text = (\<lambda>v. []), ne_print = (\<lambda>v. [])\<rparr>"

theorem unary_call_exact_witness:
  "UnaryCall demo_native True 1 ''/echo'' [1, 2, 3] [] 0 = Inr [1, 2, 3]
   \<and> UnaryCall demo_native True 1 ''/echo'' [] [] 0
       = Inl (dendrite ''BRIDGE'' ''missing unary response payload'')"
proof -
  have "serves_unary demo_native id"
    by (simp add: serves_unary_def demo_native_def base64_any_def)
  from unary_call_exact [OF this] show ?thesis by simp
qed

text \<open>Server streams likewise, and there empty chunks pass.\<close>

lemma server_stream_exact:
  assumes "\<And>m. obj_get m ''request_base64'' = Some (base64_any request) \<Longrightarrow>
      ne_call env SymStream handle (Some (AnyMap m)) = Document (AnyMap
        [(''ok'', AnyBool True), (''chunks_base64'', chunk_list out), (''truncated'', AnyBool truncated)])"
  shows "ServerStreamCall env True handle path request metadata timeoutMs maxChunks = Inr (out, truncated)"
proof -
  have items: "string_items (Some (chunk_list out)) = map b64_encode out"
    by (induction out) (simp_all add: string_items_def chunk_list_def base64_any_def)
  show ?thesis
    unfolding ServerStreamCall_def callLocked_def
    by (simp add: assms obj_simps consumeJSON_def items)
qed

section \<open>Handles\<close>

lemma float64_of_large:
  assumes "9007199254740992 \<le> n"
  shows "9007199254740992 \<le> float64_of n"
proof -
  define k where "k = floorlog 2 n - 53"
  have n: "0 < n" using assms by simp
  have "n < 2 ^ floorlog 2 n" using floorlog_bounds [of n 2] n by simp
  with assms have "(2::nat) ^ 53 < 2 ^ floorlog 2 n" by simp
  then have "53 < floorlog 2 n" by (rule power_less_imp_less_exp [rotated]) simp
  then have k: "k \<ge> 1" "floorlog 2 n - 1 = 52 + k" by (simp_all add: k_def)
  have "2 ^ (52 + k) \<le> n" using floorlog_bounds [of n 2] n k(2) by simp
  then have "2 ^ 52 \<le> n div 2 ^ k"
    by (metis div_le_mono nonzero_mult_div_cancel_right power_add power_not_zero zero_neq_numeral)
  moreover have "(2::nat) \<le> 2 ^ k" using k(1) self_le_power [of 2 k] by simp
  ultimately have "2 ^ 52 * 2 \<le> n div 2 ^ k * 2 ^ k" by (rule mult_le_mono)
  then have "9007199254740992 \<le> n div 2 ^ k * 2 ^ k" "9007199254740992 \<le> (n div 2 ^ k + 1) * 2 ^ k"
    by simp_all
  then have "(9007199254740992 :: rat) \<le> of_nat (n div 2 ^ k * 2 ^ k)"
    "(9007199254740992 :: rat) \<le> of_nat ((n div 2 ^ k + 1) * 2 ^ k)"
    by (metis of_nat_le_iff of_nat_numeral)+
  with assms show ?thesis by (simp add: float64_of_def k_def [symmetric] Let_def distrib_right)
qed

text \<open>A stream handle the library answers as the integer n is accepted by the
  descriptor-bound calls exactly when it is positive and below 2 to the 53, where a
  \<open>float64\<close> holds it exactly, and the accepted handle is n.\<close>

theorem stream_handle_exact:
  "descriptorBoundStreamHandle [(''ok'', AnyBool True), (''stream_handle'', AnyFloat (float64_of n))] =
     (if 1 \<le> n \<and> n < 9007199254740992 then Inr (word_of_nat n)
      else Inl (dendrite ''BRIDGE'' ''invalid descriptor-bound stream handle''))"
proof (cases "n < 9007199254740992")
  case True
  then have f: "float64_of n = of_nat n" by (simp add: float64_of_def)
  from True have "n \<le> 9007199254740991" by simp
  then have "(of_nat n :: rat) \<le> of_nat 9007199254740991" by (simp only: of_nat_le_iff)
  then have le: "\<not> of_nat n > (9007199254740991 :: rat)" by simp
  have "(of_nat n < (1 :: rat)) = (\<not> 1 \<le> n)" by (metis not_le of_nat_1 of_nat_le_iff)
  with le True show ?thesis
    by (simp add: descriptorBoundStreamHandle_def obj_simps f del: of_nat_less_1_iff)
next
  case False
  then have "9007199254740992 \<le> float64_of n" using float64_of_large by simp
  then have "float64_of n > 9007199254740991" by linarith
  with False show ?thesis by (simp add: descriptorBoundStreamHandle_def obj_simps del: not_less)
qed

text \<open>The other calls convert without the check: two handles become one.\<close>

lemma handles_confused:
  "uint64FromAny wild (Some (AnyFloat (float64_of 9007199254740993)))
     = uint64FromAny wild (Some (AnyFloat (float64_of 9007199254740992)))"
proof -
  have "floorlog 2 n = 54" if "9007199254740992 \<le> n" "n < 18014398509481984" for n
  proof (rule antisym)
    show "floorlog 2 n \<le> 54" using that by (intro floorlog_leI) simp_all
    show "54 \<le> floorlog 2 n" using that by (intro floorlog_geI) simp_all
  qed
  then have "float64_of 9007199254740993 = 9007199254740992" "float64_of 9007199254740992 = 9007199254740992"
    by (simp_all add: float64_of_def)
  then show ?thesis by simp
qed

section \<open>The order of the native calls of a stream\<close>

definition data_call :: "up_call \<Rightarrow> bool" where
  "data_call c \<longleftrightarrow> (\<exists>p. data_payload p \<and> c = (SymDescriptorBoundBidiSend, Some p))"

abbreviation eof_call :: up_call where
  "eof_call \<equiv> (SymDescriptorBoundBidiSend, Some eof_payload)"

abbreviation close_call :: up_call where
  "close_call \<equiv> (SymDescriptorBoundBidiClose, None)"

abbreviation dispose_call :: up_call where
  "dispose_call \<equiv> (SymStreamClose, None)"

lemma payload_kinds [simp]:
  "data_payload p \<Longrightarrow> obj_get p ''kind'' \<noteq> Some (AnyString ''eof'')"
  "obj_get eof_payload ''kind'' = Some (AnyString ''eof'')"
  by (auto simp: data_payload_def chunk_payload_def resize_payload_def signal_payload_def
      timestamp_payload_def eof_payload_def obj_simps)

text \<open>Data first, at most one end of the direction, at most one disposal.\<close>

definition up_shape :: "up_call list \<Rightarrow> up_call list \<Rightarrow> up_call list \<Rightarrow> stream_run \<Rightarrow> bool" where
  "up_shape ds a b y = (let s = sy_stream y in
     zb_up_calls s = ds @ a @ b \<and> list_all data_call ds \<and> a \<in> {[], [eof_call], [close_call]}
     \<and> b \<in> {[], [dispose_call]} \<and> (\<not> zb_eof_sent s \<longrightarrow> a = [] \<and> b = []) \<and> (b \<noteq> [] \<longrightarrow> zb_released s)
     \<and> (0 < sy_eof_waiting y \<longrightarrow> zb_eof_sent s \<and> a = []) \<and> sy_eof_waiting y \<le> 1
     \<and> list_all data_payload (sy_senders y))"

definition calls_inv :: "stream_run \<Rightarrow> bool" where
  "calls_inv y = (\<exists>ds a b. up_shape ds a b y)"

lemma calls_inv_fresh: "fresh_run y \<Longrightarrow> calls_inv y"
  by (auto simp: fresh_run_def new_stream_def calls_inv_def up_shape_def)

lemma send_call_inv:
  assumes "calls_inv y" and "sy_senders y = ps @ p # qs" and "callSend env loaded p (sy_stream y) = (s1, res)"
  shows "calls_inv (y\<lparr>sy_stream := s1, sy_senders := ps @ qs\<rparr>)"
proof -
  obtain ds a b where y: "up_shape ds a b y" using assms(1) by (auto simp: calls_inv_def)
  with assms(2) have p: "data_payload p" by (simp add: up_shape_def Let_def)
  show ?thesis
  proof (cases "zb_released (sy_stream y) \<or> zb_eof_sent (sy_stream y)")
    case True
    with assms(3) p have "s1 = sy_stream y" by (auto simp: callSend_def split: if_splits)
    with y assms(2) have "up_shape ds a b (y\<lparr>sy_stream := s1, sy_senders := ps @ qs\<rparr>)"
      by (simp add: up_shape_def Let_def)
    then show ?thesis by (auto simp: calls_inv_def)
  next
    case False
    with assms(3) have "s1 = calling SymDescriptorBoundBidiSend (Some p) (sy_stream y)"
      by (auto simp: callSend_def)
    with y assms(2) False p
    have "up_shape (ds @ [(SymDescriptorBoundBidiSend, Some p)]) [] [] (y\<lparr>sy_stream := s1, sy_senders := ps @ qs\<rparr>)"
      by (auto simp: up_shape_def Let_def calling_def data_call_def)
    then show ?thesis by (auto simp: calls_inv_def)
  qed
qed

lemma eof_call_inv:
  assumes "calls_inv y" and "sy_eof_waiting y > 0" and "callSend env loaded eof_payload (sy_stream y) = (s1, res)"
  shows "calls_inv (y\<lparr>sy_stream := s1, sy_eof_waiting := sy_eof_waiting y - 1\<rparr>)"
proof -
  obtain ds a b where y: "up_shape ds a b y" using assms(1) by (auto simp: calls_inv_def)
  then have one: "sy_eof_waiting y = 1" "a = []" "zb_eof_sent (sy_stream y)"
    using assms(2) by (auto simp: up_shape_def Let_def)
  have "s1 = (if zb_released (sy_stream y) then sy_stream y
      else calling SymDescriptorBoundBidiSend (Some eof_payload) (sy_stream y))"
    using assms(3) by (auto simp: callSend_def split: if_splits)
  then have "up_shape ds (if zb_released (sy_stream y) then a else [eof_call]) b
      (y\<lparr>sy_stream := s1, sy_eof_waiting := sy_eof_waiting y - 1\<rparr>)"
    using y one by (auto simp: up_shape_def Let_def calling_def)
  then show ?thesis unfolding calls_inv_def by blast
qed

lemma close_inv:
  assumes "calls_inv y" and "half_close env loaded (sy_stream y) = (s1, res)"
  shows "calls_inv (y\<lparr>sy_stream := s1\<rparr>)"
proof -
  obtain ds a b where y: "up_shape ds a b y" using assms(1) by (auto simp: calls_inv_def)
  let ?calls = "\<not> zb_released (sy_stream y) \<and> \<not> zb_eof_sent (sy_stream y)"
  have "up_shape ds (if ?calls then [close_call] else a) b (y\<lparr>sy_stream := s1\<rparr>)"
    using y assms(2) by (auto simp: up_shape_def Let_def half_close_def mark_eof_def calling_def split: if_splits)
  then show ?thesis unfolding calls_inv_def by blast
qed

lemma dispose_inv:
  assumes "calls_inv y" and "Dispose env loaded (sy_stream y) = (s1, res)"
  shows "calls_inv (y\<lparr>sy_stream := s1\<rparr>)"
proof -
  obtain ds a b where y: "up_shape ds a b y" using assms(1) by (auto simp: calls_inv_def)
  have "up_shape ds a (if zb_released (sy_stream y) then b else [dispose_call]) (y\<lparr>sy_stream := s1\<rparr>)"
    using y assms(2)
    by (auto simp: up_shape_def Let_def Dispose_def store_eof_def store_released_def calling_def split: if_splits)
  then show ?thesis unfolding calls_inv_def by blast
qed

text \<open>The other steps keep the calls as they are.\<close>

lemma calls_inv_flags:
  assumes "calls_inv y"
  shows "data_payload p \<Longrightarrow> calls_inv (y\<lparr>sy_senders := p # sy_senders y\<rparr>)" "calls_inv (y\<lparr>sy_receiver := r\<rparr>)"
    "calls_inv (y\<lparr>sy_stream := store_released (sy_stream y), sy_receiver := r\<rparr>)"
    "calls_inv (y\<lparr>sy_stream := store_eof (sy_stream y), sy_receiver := r\<rparr>)"
    "mark_eof (sy_stream y) = (s1, won) \<Longrightarrow>
       calls_inv (y\<lparr>sy_stream := s1, sy_eof_waiting := sy_eof_waiting y + (if won then 1 else 0)\<rparr>)"
proof -
  obtain ds a b where y: "up_shape ds a b y" using assms by (auto simp: calls_inv_def)
  note shape = up_shape_def Let_def
  from y show "calls_inv (y\<lparr>sy_senders := p # sy_senders y\<rparr>)" if "data_payload p"
    using that unfolding calls_inv_def by (intro exI [of _ ds] exI [of _ a] exI [of _ b]) (simp add: shape)
  from y show "calls_inv (y\<lparr>sy_receiver := r\<rparr>)"
    unfolding calls_inv_def by (intro exI [of _ ds] exI [of _ a] exI [of _ b]) (simp add: shape)
  from y show "calls_inv (y\<lparr>sy_stream := store_released (sy_stream y), sy_receiver := r\<rparr>)"
    unfolding calls_inv_def by (intro exI [of _ ds] exI [of _ a] exI [of _ b]) (simp add: shape store_released_def)
  from y show "calls_inv (y\<lparr>sy_stream := store_eof (sy_stream y), sy_receiver := r\<rparr>)"
    unfolding calls_inv_def by (intro exI [of _ ds] exI [of _ a] exI [of _ b]) (auto simp: shape store_eof_def)
  show "calls_inv (y\<lparr>sy_stream := s1, sy_eof_waiting := sy_eof_waiting y + (if won then 1 else 0)\<rparr>)"
    if mark: "mark_eof (sy_stream y) = (s1, won)"
  proof (cases "zb_eof_sent (sy_stream y)")
    case True
    then have "sy_stream y\<lparr>zb_eof_sent := True\<rparr> = sy_stream y" by (cases "sy_stream y") simp
    with mark True have "s1 = sy_stream y" "\<not> won" by (simp_all add: mark_eof_def)
    with assms show ?thesis by simp
  next
    case False
    with y have "up_shape ds [] [] y" "sy_eof_waiting y = 0" by (simp_all add: shape)
    with False mark have "up_shape ds [] [] (y\<lparr>sy_stream := s1, sy_eof_waiting := sy_eof_waiting y + (if won then 1 else 0)\<rparr>)"
      by (auto simp: shape mark_eof_def)
    then show ?thesis unfolding calls_inv_def by blast
  qed
qed

lemma calls_inv_kept: "stream_step x y \<Longrightarrow> calls_inv x \<Longrightarrow> calls_inv y"
proof (induction rule: stream_step.induct)
  case (send_call y ps p qs env loaded s1 res)
  from send_call(3,1,2) show ?case by (rule send_call_inv)
next
  case (eof_call y env loaded s1 res)
  from eof_call(3,1,2) show ?case by (rule eof_call_inv)
next
  case (close env loaded y s1 res)
  from close(2,1) show ?case by (rule close_inv)
next
  case (dispose env loaded y s1 res)
  from dispose(2,1) show ?case by (rule dispose_inv)
next
  case (send_check p y)
  from send_check(3,1) show ?case by (rule calls_inv_flags(1))
next
  case (eof_mark y s1 won)
  from eof_mark(2,1) show ?case by (rule calls_inv_flags(5))
next
  case (receive y)
  from receive(3) show ?case by (rule calls_inv_flags(2))
next
  case (receive_answer y a q env loaded timeoutMs)
  from receive_answer(3) show ?case by (rule calls_inv_flags(2))
next
  case (receive_released y)
  from receive_released(2) show ?case by (rule calls_inv_flags(3))
next
  case (receive_eof y)
  from receive_eof(2) show ?case by (rule calls_inv_flags(4))
qed

interpretation native_stream: transition_system fresh_run stream_step calls_inv
  by unfold_locales (auto intro: calls_inv_fresh calls_inv_kept)

text \<open>C33: whatever the interleaving of senders, of \<open>SendEOF\<close>, \<open>Close\<close>, \<open>Dispose\<close> and of a
  receiver on a new stream, and whatever the library answers, the calls the stream makes into the
  library on its up direction are some data frames, then at most one end of the direction (a control
  frame or a close, never both), then at most one disposal: no data follows the end of the direction,
  and nothing follows the disposal.  This rests on the checks \<open>callSend\<close> makes under the mutex; a
  sender's own check before it may be out of date.\<close>

theorem up_calls_ordered:
  assumes "fresh_run x" and "stream_step\<^sup>*\<^sup>* x y"
  shows "\<exists>ds a b. zb_up_calls (sy_stream y) = ds @ a @ b \<and> list_all data_call ds
    \<and> a \<in> {[], [eof_call], [close_call]} \<and> b \<in> {[], [dispose_call]}"
  using native_stream.reachable_inv [OF assms] unfolding calls_inv_def up_shape_def Let_def by blast

text \<open>An operation that runs alone is a run of its steps.\<close>

lemma same_receiver: "sy_receiver y = r \<Longrightarrow> y\<lparr>sy_stream := s, sy_receiver := r\<rparr> = y\<lparr>sy_stream := s\<rparr>"
  by (cases y) simp

lemma operations_are_runs:
  "data_payload p \<Longrightarrow> send_checked env loaded p (sy_stream y) = (s1, res) \<Longrightarrow> stream_step\<^sup>*\<^sup>* y (y\<lparr>sy_stream := s1\<rparr>)"
  "SendEOF env loaded (sy_stream y) = (s1, res1) \<Longrightarrow> stream_step\<^sup>*\<^sup>* y (y\<lparr>sy_stream := s1\<rparr>)"
  "sy_receiver y = Outside \<Longrightarrow> stream_Recv q env loaded t (sy_stream y) = (s1, res2) \<Longrightarrow>
     stream_step\<^sup>*\<^sup>* y (y\<lparr>sy_stream := s1\<rparr>)"
proof -
  show "stream_step\<^sup>*\<^sup>* y (y\<lparr>sy_stream := s1\<rparr>)"
    if p: "data_payload p" and sent: "send_checked env loaded p (sy_stream y) = (s1, res)"
  proof (cases "ensureUpOpen (sy_stream y)")
    case None
    have "stream_step y (y\<lparr>sy_senders := p # sy_senders y\<rparr>)" using p None by (rule stream_step.send_check)
    moreover have "stream_step (y\<lparr>sy_senders := p # sy_senders y\<rparr>)
        (y\<lparr>sy_senders := p # sy_senders y, sy_stream := s1, sy_senders := [] @ sy_senders y\<rparr>)"
      by (rule stream_step.send_call [of _ "[]" p]) (use sent None in \<open>simp_all add: send_checked_def\<close>)
    ultimately show ?thesis by (simp add: rtranclp.rtrancl_into_rtrancl)
  next
    case (Some e)
    with sent have "s1 = sy_stream y" by (simp add: send_checked_def)
    then show ?thesis by simp
  qed
  show "stream_step\<^sup>*\<^sup>* y (y\<lparr>sy_stream := s1\<rparr>)" if eof: "SendEOF env loaded (sy_stream y) = (s1, res1)"
  proof -
    obtain s2 won where mark: "mark_eof (sy_stream y) = (s2, won)" by fastforce
    let ?y2 = "y\<lparr>sy_stream := s2, sy_eof_waiting := sy_eof_waiting y + (if won then 1 else 0)\<rparr>"
    have step: "stream_step y ?y2" using mark by (rule stream_step.eof_mark)
    show ?thesis
    proof (cases won)
      case True
      have "stream_step ?y2 (?y2\<lparr>sy_stream := s1, sy_eof_waiting := sy_eof_waiting ?y2 - 1\<rparr>)"
        by (rule stream_step.eof_call) (use eof mark True in \<open>simp_all add: SendEOF_def\<close>)
      with step True show ?thesis by (simp add: rtranclp.rtrancl_into_rtrancl)
    next
      case False
      with eof mark have "s1 = s2" by (simp add: SendEOF_def)
      with step False show ?thesis by (simp add: r_into_rtranclp)
    qed
  qed
  show "stream_step\<^sup>*\<^sup>* y (y\<lparr>sy_stream := s1\<rparr>)"
    if out: "sy_receiver y = Outside" and recv: "stream_Recv q env loaded t (sy_stream y) = (s1, res2)"
  proof (cases "zb_released (sy_stream y)")
    case False
    let ?a = "recv_answer q env loaded t (zb_handle (sy_stream y))" and ?y1 = "y\<lparr>sy_receiver := InLibrary\<rparr>"
    have enter: "stream_step y ?y1" using out False by (rule stream_step.receive)
    have answer: "stream_step ?y1 (?y1\<lparr>sy_receiver := (if native_terminal ?a then GotTerminal else Outside)\<rparr>)"
      by (rule stream_step.receive_answer [where timeoutMs = t and q = q and env = env and loaded = loaded]) simp_all
    show ?thesis
    proof (cases "native_terminal ?a")
      case True
      let ?y2 = "?y1\<lparr>sy_receiver := GotTerminal\<rparr>"
      let ?y3 = "?y2\<lparr>sy_stream := store_released (sy_stream ?y2), sy_receiver := StoredReleased\<rparr>"
      have "stream_step ?y2 ?y3" by (rule stream_step.receive_released) simp
      moreover have "stream_step ?y3 (?y3\<lparr>sy_stream := store_eof (sy_stream ?y3), sy_receiver := Outside\<rparr>)"
        by (rule stream_step.receive_eof) simp
      ultimately have "stream_step\<^sup>*\<^sup>* y (?y3\<lparr>sy_stream := store_eof (sy_stream ?y3), sy_receiver := Outside\<rparr>)"
        using enter answer True by (simp add: rtranclp.rtrancl_into_rtrancl)
      with True False out recv show ?thesis by (simp add: stream_Recv_def Let_def same_receiver)
    next
      case False
      with enter answer have "stream_step\<^sup>*\<^sup>* y (?y1\<lparr>sy_receiver := Outside\<rparr>)"
        by (simp add: rtranclp.rtrancl_into_rtrancl)
      moreover have "y\<lparr>sy_receiver := Outside\<rparr> = y" using out by (cases y) simp
      moreover from False \<open>\<not> zb_released _\<close> recv have "s1 = sy_stream y" by (simp add: stream_Recv_def Let_def)
      ultimately show ?thesis by simp
    qed
  next
    case True
    with recv have "s1 = sy_stream y" by (simp add: stream_Recv_def)
    then show ?thesis by simp
  qed
qed

text \<open>A run with a late sender: it has passed its own check when the direction ends, and is refused
  under the mutex.\<close>

definition demo_chunk :: go_object where
  "demo_chunk = chunk_payload 1 [65] 0"

lemma demo_chunk_data: "data_payload demo_chunk"
  by (auto simp: data_payload_def demo_chunk_def)

definition demo_run :: "bool \<Rightarrow> bool \<Rightarrow> up_call list \<Rightarrow> go_object list \<Rightarrow> nat \<Rightarrow> receiver \<Rightarrow> stream_run" where
  "demo_run eof released calls senders waiting rcv =
     \<lparr>sy_stream = \<lparr>zb_handle = 7, zb_eof_sent = eof, zb_released = released, zb_up_calls = calls\<rparr>,
      sy_senders = senders, sy_eof_waiting = waiting, sy_receiver = rcv\<rparr>"

lemma demo_run_sel [simp]:
  "sy_stream (demo_run eof released calls senders waiting rcv) =
     \<lparr>zb_handle = 7, zb_eof_sent = eof, zb_released = released, zb_up_calls = calls\<rparr>"
  "sy_senders (demo_run eof released calls senders waiting rcv) = senders"
  "sy_eof_waiting (demo_run eof released calls senders waiting rcv) = waiting"
  "sy_receiver (demo_run eof released calls senders waiting rcv) = rcv"
  by (simp_all add: demo_run_def)

lemma demo_run_upd [simp]:
  "demo_run eof released calls senders waiting rcv
     \<lparr>sy_stream := \<lparr>zb_handle = 7, zb_eof_sent = e, zb_released = r, zb_up_calls = cs\<rparr>\<rparr> = demo_run e r cs senders waiting rcv"
  "demo_run eof released calls senders waiting rcv\<lparr>sy_senders := ss\<rparr> = demo_run eof released calls ss waiting rcv"
  "demo_run eof released calls senders waiting rcv\<lparr>sy_eof_waiting := w\<rparr> = demo_run eof released calls senders w rcv"
  "demo_run eof released calls senders waiting rcv\<lparr>sy_receiver := rc\<rparr> = demo_run eof released calls senders waiting rc"
  by (simp_all add: demo_run_def)

lemma demo_run_fresh: "fresh_run (demo_run False False [] [] 0 Outside)"
  by (simp add: fresh_run_def demo_run_def new_stream_def)

lemma demo_steps:
  "\<not> e \<Longrightarrow> \<not> r \<Longrightarrow> stream_step (demo_run e r cs ss w rc) (demo_run e r cs (demo_chunk # ss) w rc)"
  "\<not> e \<Longrightarrow> \<not> r \<Longrightarrow> stream_step (demo_run e r cs (demo_chunk # ss) w rc)
     (demo_run e r (cs @ [(SymDescriptorBoundBidiSend, Some demo_chunk)]) ss w rc)"
  "e \<or> r \<Longrightarrow> stream_step (demo_run e r cs (demo_chunk # ss) w rc) (demo_run e r cs ss w rc)"
  "\<not> e \<Longrightarrow> stream_step (demo_run e r cs ss w rc) (demo_run True r cs ss (w + 1) rc)"
  "\<not> r \<Longrightarrow> stream_step (demo_run e r cs ss (w + 1) rc) (demo_run e r (cs @ [eof_call]) ss w rc)"
  "\<not> r \<Longrightarrow> stream_step (demo_run e r cs ss w rc) (demo_run True True (cs @ [dispose_call]) ss w rc)"
proof -
  note up = callSend_def calling_def demo_chunk_data
  let ?y = "demo_run e r cs ss w rc" and ?s = "demo_run e r cs (demo_chunk # ss) w rc"
  show "stream_step ?y ?s" if "\<not> e" "\<not> r"
    using stream_step.send_check [OF demo_chunk_data, of ?y] that by (simp add: ensureUpOpen_def)
  show "stream_step ?s (demo_run e r (cs @ [(SymDescriptorBoundBidiSend, Some demo_chunk)]) ss w rc)" if "\<not> e" "\<not> r"
    using stream_step.send_call [of ?s "[]" demo_chunk ss demo_native True] that by (simp add: up)
  show "stream_step ?s ?y" if "e \<or> r"
    using stream_step.send_call [of ?s "[]" demo_chunk ss demo_native True] that by (auto simp: up)
  show "stream_step ?y (demo_run True r cs ss (w + 1) rc)" if "\<not> e"
    using stream_step.eof_mark [of ?y] that by (simp add: mark_eof_def)
  show "stream_step (demo_run e r cs ss (w + 1) rc) (demo_run e r (cs @ [eof_call]) ss w rc)" if "\<not> r"
    using stream_step.eof_call [of "demo_run e r cs ss (w + 1) rc" demo_native True] that by (simp add: up)
  show "stream_step ?y (demo_run True True (cs @ [dispose_call]) ss w rc)" if "\<not> r"
    using stream_step.dispose [of demo_native True ?y] that
    by (simp add: Dispose_def calling_def store_eof_def store_released_def)
qed

lemma demo_stream_run:
  "stream_step\<^sup>*\<^sup>* (demo_run False False [] [] 0 Outside)
     (demo_run True True [(SymDescriptorBoundBidiSend, Some demo_chunk), eof_call, dispose_call] [] 0 Outside)"
proof -
  let ?d = "(SymDescriptorBoundBidiSend, Some demo_chunk)"
  have "stream_step (demo_run False False [] [] 0 Outside) (demo_run False False [] [demo_chunk] 0 Outside)"
    "stream_step (demo_run False False [] [demo_chunk] 0 Outside) (demo_run False False [] [demo_chunk, demo_chunk] 0 Outside)"
    "stream_step (demo_run False False [] [demo_chunk, demo_chunk] 0 Outside) (demo_run False False [?d] [demo_chunk] 0 Outside)"
    "stream_step (demo_run False False [?d] [demo_chunk] 0 Outside) (demo_run True False [?d] [demo_chunk] 1 Outside)"
    "stream_step (demo_run True False [?d] [demo_chunk] 1 Outside) (demo_run True False [?d] [] 1 Outside)"
    "stream_step (demo_run True False [?d] [] 1 Outside) (demo_run True False [?d, eof_call] [] 0 Outside)"
    "stream_step (demo_run True False [?d, eof_call] [] 0 Outside) (demo_run True True [?d, eof_call, dispose_call] [] 0 Outside)"
    using demo_steps [of False False "[]" "[]" 0] demo_steps(1,2) [of False False "[]" "[demo_chunk]" 0]
      demo_steps(3,4) [of True False "[?d]" "[]" 1] demo_steps(4) [of False False "[?d]" "[demo_chunk]" 0]
      demo_steps(5) [of False True "[?d]" "[]" 0] demo_steps(6) [of False True "[?d, eof_call]" "[]" 0]
    by simp_all
  then show ?thesis by (meson rtranclp.rtrancl_into_rtrancl rtranclp.rtrancl_refl)
qed

theorem up_calls_ordered_witness:
  "\<exists>y. stream_step\<^sup>*\<^sup>* (demo_run False False [] [] 0 Outside) y
    \<and> zb_up_calls (sy_stream y) = [(SymDescriptorBoundBidiSend, Some demo_chunk), eof_call, dispose_call]
    \<and> (\<exists>ds a b. zb_up_calls (sy_stream y) = ds @ a @ b \<and> list_all data_call ds
         \<and> a \<in> {[], [eof_call], [close_call]} \<and> b \<in> {[], [dispose_call]})"
  by (rule exI, rule conjI, rule demo_stream_run, rule conjI, simp, rule up_calls_ordered [OF demo_run_fresh demo_stream_run])

text \<open>The receiver is not ordered with them: between the answer of the terminal receipt, with which
  the library has released the stream, and the store of the flag, \<open>Dispose\<close> releases it once more.\<close>

lemma disposed_after_terminal:
  assumes "native_terminal (recv_answer q env loaded t 7)"
  shows "stream_step\<^sup>*\<^sup>* (demo_run False False [] [] 0 Outside) (demo_run True True [dispose_call] [] 0 GotTerminal)"
proof -
  have "stream_step (demo_run False False [] [] 0 Outside) (demo_run False False [] [] 0 InLibrary)"
    using stream_step.receive [of "demo_run False False [] [] 0 Outside"] by simp
  moreover have "stream_step (demo_run False False [] [] 0 InLibrary) (demo_run False False [] [] 0 GotTerminal)"
    using stream_step.receive_answer [of "demo_run False False [] [] 0 InLibrary" "recv_answer q env loaded t 7" q env loaded t] assms
    by simp
  moreover have "stream_step (demo_run False False [] [] 0 GotTerminal) (demo_run True True [dispose_call] [] 0 GotTerminal)"
    using demo_steps(6) [of False False "[]" "[]" 0 GotTerminal] by simp
  ultimately show ?thesis by (meson rtranclp.rtrancl_into_rtrancl rtranclp.rtrancl_refl)
qed

section \<open>A terminal receipt of a state the session does not know\<close>

definition timed_out_document :: "nat \<Rightarrow> go_object" where
  "timed_out_document n = [(''ok'', AnyBool True), (''kind'', AnyString ''receipt''),
     (''sequence'', AnyFloat (float64_of n)), (''terminal'', AnyBool True), (''admission_receipt'', AnyNil),
     (''terminal_receipt'', AnyMap [(''state'', AnyString ''TIMED_OUT'')])]"

lemma decode_timed_out:
  assumes "n < 9007199254740992"
  shows "decodeBidiFrame q env (timed_out_document n) = Inr (timed_out_receipt (word_of_nat n))"
proof -
  have "n < 18446744073709551616" using assms by simp
  then have "(of_nat n :: rat) < of_nat 18446744073709551616" by (simp only: of_nat_less_iff)
  then have "of_nat n < (18446744073709551616 :: rat)" by simp
  then have "go_uint64 wild (of_nat n) = word_of_nat n" for wild
    by (simp add: go_uint64_def)
  moreover have "print_object env [(''state'', AnyString ''TIMED_OUT'')] = [''state'' \<mapsto> ''TIMED_OUT'']"
    by (auto simp: print_object_def print_member_def obj_simps fun_eq_iff)
  ultimately show ?thesis
    using assms
    by (simp add: decodeBidiFrame_def decode_receipt_def timed_out_document_def obj_simps frame_kinds
        plain_frame_def timed_out_receipt_def float64_of_def)
qed

text \<open>The documentation of the stream names three states of its terminal receipt, completed, failed
  and cancelled, and those are the ones the session knows; the runtime of this repository has a
  fourth, \<open>TIMED_OUT\<close>.  Were the library to end a stream with that one, the stream would take it
  as terminal and release itself, but the session would deliver it as an ordinary frame and fail at
  its next receive with "ended before a terminal receipt".\<close>

lemma timed_out_receipt_ignored:
  assumes "\<And>d. ne_call env SymDescriptorBoundBidiRecv (zb_handle z) d = Document (AnyMap (timed_out_document n))"
    and "\<not> zb_released z" and "n < 9007199254740992"
    and "bs_terminal s = None" and "bs_state s = BidiOpen" and "bs_last_recv s < word_of_nat n"
    and "\<not> bs_remote_done s"
  shows "\<exists>z1 s1 f. bst_Receive q env True None t None z = (z1, Inr f) \<and> bf_terminal f \<and> zb_released z1
    \<and> bidi_Receive (Some None) (Inr f) s = (s1, Inr f) \<and> bs_terminal s1 = None \<and> bs_state s1 = BidiOpen
    \<and> (\<exists>g. bst_Receive q env True None t None z1 = (z1, Inr g)
         \<and> bidi_Receive (Some None) (Inr g) s1 = (s1\<lparr>bs_state := BidiFailed\<rparr>,
             Inl (bidiValidationError ''bidi transport ended before a terminal receipt'')))"
proof -
  let ?f = "timed_out_receipt (word_of_nat n)" and ?g = "plain_frame BidiFrameDone 0"
  let ?z = "z\<lparr>zb_released := True, zb_eof_sent := True\<rparr>"
  have "recv_answer q env True u (zb_handle z) = Inr ?f" for u
    unfolding recv_answer_def callLocked_def
    by (simp add: assms(1) consumeJSON_def decode_timed_out [OF assms(3)])
       (simp add: timed_out_document_def obj_simps)
  moreover have "native_terminal (Inr ?f)" by (simp add: native_terminal_def timed_out_receipt_def)
  ultimately have first: "bst_Receive q env True None t None z = (?z, Inr ?f)"
    using assms(2) by (simp add: bst_Receive_def receive_timeout_def stream_Recv_def store_eof_def store_released_def)
  have second: "bst_Receive q env True None t None ?z = (?z, Inr ?g)"
    by (simp add: bst_Receive_def receive_timeout_def stream_Recv_def)
  have "bf_kind ?g = BidiFrameDone" by (simp add: plain_frame_def)
  from timed_out_frame_ignored [OF assms(4-6) this assms(7)] obtain s1 where
    "bidi_Receive (Some None) (Inr ?f) s = (s1, Inr ?f)" "bs_terminal s1 = None" "bs_state s1 = BidiOpen"
    "bidi_Receive (Some None) (Inr ?g) s1 = (s1\<lparr>bs_state := BidiFailed\<rparr>,
       Inl (bidiValidationError ''bidi transport ended before a terminal receipt''))" by blast
  moreover have "bf_terminal ?f" by (simp add: timed_out_receipt_def)
  moreover have "zb_released ?z" by simp
  ultimately show ?thesis using first second by blast
qed

end
