(* ===== verification/WireProperties.thy ===== *)
theory WireProperties
  imports ClientCalls NativeProperties BundleProperties UraProperties
begin

text \<open>
  What leaves the process is what the caller signed: the wire projection and the native document
  hold every signed fact and can be read back, a forwarded call reaches the library with the
  request unchanged and within its deadline; and where the client's own calls differ from that.
\<close>

section \<open>The wire projection\<close>

lemma projection_checks_Ok:
  "projection_checks P r = Ok b \<longleftrightarrow> validateEnvelope (dbe_envelope (rq_envelope r)) = Ok ()
     \<and> validateSignatureStructure (rq_signature r) = Ok ()
     \<and> pf_sha256 P (rq_payload r) = en_args_digest (dbe_envelope (rq_envelope r))
     \<and> canonicalDescriptorBoundInvocationBytes (rq_envelope r) = Ok b"
  by (auto simp: projection_checks_def Let_def bindR_Ok_iff request_CanonicalBytes_def
      NewDescriptorBoundInvocationDraft_def draft_CanonicalBytes_def)

lemma wire_route_Ok:
  "wire_route P e = Ok n \<longleftrightarrow> trim_space n \<noteq> [] \<and> (\<exists>u. AbilityURAFromDescriptorRef (en_ability e) = Ok u
     \<and> PublicAbilityNameFromAbilityURA (pf_quote P) (ai_ura (en_callee e)) u = Some n)"
  by (auto simp: wire_route_def bindR_Ok_iff split: option.splits if_splits)

text \<open>The envelope a receiver of the projection puts together from its parts.\<close>

definition wire_signed_envelope :: "platform \<Rightarrow> wire_projection \<Rightarrow> descriptor_bound_envelope" where
  "wire_signed_envelope P p =
     (let e = wp_envelope p in
      DBEnvelope \<lparr>en_caller = we_caller e, en_callee = we_callee e, en_subject = we_subject e,
        en_ability = wp_descriptor_ref p, en_args_digest = pf_sha256 P (wp_payload p),
        en_nonce = we_nonce e, en_causal = we_causal e\<rparr>)"

text \<open>C34: a wire projection carries all the caller signed.  Put together again from the parts of
  the projection, with the digest of its payload, the envelope is the signed one, its canonical
  bytes are those of the projection, and the signature goes with them; the route is the name
  under which the callee publishes the ability of the signed reference.\<close>

theorem wire_projection_sound:
  assumes "wire_Build P random r o1 = Ok p"
  shows "wire_signed_envelope P p = rq_envelope r
    \<and> canonicalDescriptorBoundInvocationBytes (wire_signed_envelope P p) = Ok (wp_canonical p)
    \<and> we_signature (wp_envelope p) = rq_signature r \<and> wp_payload p = rq_payload r
    \<and> wp_call_mode p = rq_call_mode r \<and> we_nonce (wp_envelope p) \<noteq> 0
    \<and> (\<exists>u. AbilityURAFromDescriptorRef (wp_descriptor_ref p) = Ok u
         \<and> PublicAbilityNameFromAbilityURA (pf_quote P) (ai_ura (we_callee (wp_envelope p))) u
             = Some (wp_route_name p))"
proof -
  obtain e where e: "rq_envelope r = DBEnvelope e" by (cases "rq_envelope r")
  with assms have checks: "projection_checks P r = Ok (wp_canonical p)" and route: "wire_route P e = Ok (wp_route_name p)"
    and parts: "wp_call_mode p = rq_call_mode r" "wp_payload p = rq_payload r" "wp_descriptor_ref p = en_ability e"
      "we_caller (wp_envelope p) = en_caller e" "we_callee (wp_envelope p) = en_callee e"
      "we_subject (wp_envelope p) = en_subject e" "we_nonce (wp_envelope p) = en_nonce e"
      "we_causal (wp_envelope p) = en_causal e" "we_signature (wp_envelope p) = rq_signature r"
    by (auto simp: wire_Build_def Let_def bindR_Ok_iff split: if_splits)
  from checks e have "pf_sha256 P (rq_payload r) = en_args_digest e" and valid: "validateEnvelope e = Ok ()"
    and bytes: "canonicalDescriptorBoundInvocationBytes (DBEnvelope e) = Ok (wp_canonical p)"
    by (auto simp: projection_checks_Ok)
  with parts have "wire_signed_envelope P p = DBEnvelope e"
    by (cases e) (simp add: wire_signed_envelope_def Let_def)
  moreover have "en_nonce e \<noteq> 0" using valid by (simp add: validateEnvelope_Ok)
  ultimately show ?thesis using e bytes parts route by (auto simp: wire_route_Ok)
qed

definition demo_owned :: invocation_envelope where
  "demo_owned = demo_envelope\<lparr>en_callee := \<lparr>ai_ura = ''easynet:///r/x/agent/u.b'', ai_profile = ''axon-strict-v2''\<rparr>\<rparr>"

definition demo_bound :: "invocation_envelope \<Rightarrow> bound_request" where
  "demo_bound e = NewDescriptorBoundInvocationRequest CallModeRPC (DBEnvelope e)
     \<lparr>cs_algorithm = ''ed25519'', cs_signature = replicate 64 5, cs_key_id_hint = ''k''\<rparr> []"

lemma demo_bound_fields [simp]:
  "rq_envelope (demo_bound e) = DBEnvelope e" "rq_call_mode (demo_bound e) = CallModeRPC"
  "rq_payload (demo_bound e) = []" "rq_parent (demo_bound e) = []" "rq_supervisor (demo_bound e) = None"
  by (simp_all add: demo_bound_def NewDescriptorBoundInvocationRequest_def)

lemma demo_owned_checks: "\<exists>b. projection_checks demo_platform (demo_bound demo_owned) = Ok b"
proof -
  have "validateSignatureStructure (rq_signature (demo_bound e)) = Ok ()" for e
    by (simp add: demo_bound_def NewDescriptorBoundInvocationRequest_def validateSignatureStructure_def
        SignatureSize_def)
  moreover have "validateEnvelope demo_owned = Ok ()"
    by (simp add: validateEnvelope_Ok demo_owned_def demo_envelope_def demo_ability_def demo_identities)
  ultimately show ?thesis
    using demo_subject_entity demo_ability_canonical
    by (simp add: projection_checks_Ok canonicalDescriptorBoundInvocationBytes_def)
       (simp add: demo_owned_def demo_envelope_def demo_platform_def)
qed

lemma demo_route: "wire_route demo_platform demo_owned = Ok ''c''"
proof -
  have "AbilityURAFromDescriptorRef demo_ability = Ok ''easynet:///r/x/ability/u.b.c''"
    "PublicAbilityNameFromAbilityURA (\<lambda>s. s) ''easynet:///r/x/agent/u.b'' ''easynet:///r/x/ability/u.b.c'' = Some ''c''"
    "trim_space ''c'' \<noteq> []" by code_simp+
  then show ?thesis by (simp add: wire_route_Ok) (simp add: demo_owned_def demo_envelope_def demo_platform_def)
qed

definition demo_wire_options :: wire_options where
  "demo_wire_options = \<lparr>wo_content_type = ''application/json'', wo_timeout_seconds = 30, wo_metadata = None\<rparr>"

theorem wire_projection_sound_witness:
  "\<exists>p. wire_Build demo_platform (Some (replicate 16 1)) (demo_bound demo_owned) demo_wire_options = Ok p
    \<and> wire_signed_envelope demo_platform p = DBEnvelope demo_owned \<and> wp_route_name p = ''c''"
proof -
  have content: "trim_space ''application/json'' \<noteq> []" by code_simp
  obtain b where "projection_checks demo_platform (demo_bound demo_owned) = Ok b"
    using demo_owned_checks by blast
  then have "\<exists>p. wire_Build demo_platform (Some (replicate 16 1)) (demo_bound demo_owned) demo_wire_options = Ok p
      \<and> wp_route_name p = ''c''"
    using demo_route content by (simp add: wire_Build_def demo_wire_options_def newDescriptorBoundRequestID_def
        validateCallMode_def demo_bound_fields)
  then show ?thesis using wire_projection_sound demo_bound_fields by fastforce
qed

section \<open>The native document\<close>

text \<open>A reader of the document that uses the parsers of \<open>bundle.go\<close>.\<close>

definition object_of :: "go_any option \<Rightarrow> go_object" where
  "object_of v = (case v of Some (AnyMap m) \<Rightarrow> m | _ \<Rightarrow> [])"

definition text_of :: "go_object \<Rightarrow> string \<Rightarrow> string" where
  "text_of m k = any_string (obj_get m k)"

definition identity_of :: "go_object \<Rightarrow> identity_json" where
  "identity_of m = \<lparr>ij_ura = text_of m ''ura'', ij_profile = text_of m ''profile''\<rparr>"

definition prior_of :: "go_any option \<Rightarrow> receipt_ref_json list" where
  "prior_of v = (case v of
     Some (AnyList l) \<Rightarrow> map (\<lambda>x. \<lparr>qj_hash_hex = text_of (object_of (Some x)) ''receipt_hash_hex'',
                                 qj_ura = text_of (object_of (Some x)) ''receipt_ura''\<rparr>) l
   | _ \<Rightarrow> [])"

definition causal_of :: "go_object \<Rightarrow> causal_json" where
  "causal_of m = \<lparr>cj_form = text_of m ''form'', cj_hash_hex = text_of m ''receipt_hash_hex'',
     cj_ura = text_of m ''receipt_ura'', cj_prior = prior_of (obj_get m ''prior''),
     cj_root_hex = text_of m ''root_hex'', cj_proof_ura = text_of m ''proof_ura''\<rparr>"

definition bytes_of :: "go_object \<Rightarrow> string \<Rightarrow> bytes result" where
  "bytes_of m k = (case b64_decode (text_of m k) of Inl n \<Rightarrow> invalid_arg ''base64'' | Inr b \<Rightarrow> Ok b)"

definition mode_of :: "string \<Rightarrow> call_mode" where
  "mode_of s = (if s = ''unary'' then CallModeRPC else if s = ''server_stream'' then CallModeStream else CallModeBidi)"

definition read_native :: "platform \<Rightarrow> go_object \<Rightarrow> bound_request result" where
  "read_native P doc =
     (let e = object_of (obj_get doc ''envelope''); s = object_of (obj_get doc ''signature'') in
      bindR (ToAgent (identity_of (object_of (obj_get e ''caller'')))) (\<lambda>caller.
      bindR (ToAgent (identity_of (object_of (obj_get e ''callee'')))) (\<lambda>callee.
      bindR (ToSubject (identity_of (object_of (obj_get e ''subject'')))) (\<lambda>subject.
      bindR (bytes_of e ''nonce_base64'') (\<lambda>nonce.
      bindR (ToCtx (causal_of (object_of (obj_get e ''causal_context'')))) (\<lambda>causal.
      bindR (bytes_of s ''signature_base64'') (\<lambda>sig.
      bindR (bytes_of doc ''payload_base64'') (\<lambda>payload.
        Ok (NewDescriptorBoundInvocationRequest (mode_of (text_of doc ''mode''))
              (DBEnvelope \<lparr>en_caller = caller, en_callee = callee, en_subject = subject,
                 en_ability = text_of e ''ability'', en_args_digest = pf_sha256 P payload,
                 en_nonce = word_of_bytes nonce, en_causal = causal\<rparr>)
              \<lparr>cs_algorithm = text_of s ''algorithm'', cs_signature = sig,
               cs_key_id_hint = text_of s ''key_id_hint''\<rparr> payload)))))))))"

lemma text_of_Cons [simp]: "text_of ((n, AnyString v) # m) k = (if obj_get m k = None \<and> n = k then v else
    text_of m k)"
  by (auto simp: text_of_def obj_simps split: option.splits)

lemma obj_get_optional: "obj_get (optional_text n v) k = (if n = k \<and> v \<noteq> [] then Some (AnyString v) else None)"
  by (simp add: optional_text_def obj_simps)

lemma identity_back: "identity_of (object_of (Some (identity_json_any i))) = i"
  by (cases i) (simp add: identity_of_def object_of_def identity_json_any_def text_of_def obj_simps)

lemma prior_back: "prior_of (Some (AnyList (map receipt_ref_any rs))) = rs"
  by (induction rs) (auto simp: prior_of_def object_of_def receipt_ref_any_def text_of_def obj_simps)

lemma causal_back: "causal_of (causal_object c) = c"
  by (cases c) (simp add: causal_of_def causal_object_def text_of_def obj_simps obj_get_optional prior_back,
      simp add: prior_of_def)

lemma bytes_back: "obj_get m k = Some (base64_any b) \<Longrightarrow> bytes_of m k = Ok b"
  by (simp add: bytes_of_def text_of_def)

lemma mode_back: "native_mode m = Ok s \<Longrightarrow> mode_of s = m"
  by (auto simp: native_mode_def mode_of_def split: if_splits)

lemma object_of_Map [simp]: "object_of (Some (AnyMap m)) = m"
  by (simp add: object_of_def)

lemma text_of_get: "obj_get m k = Some (AnyString s) \<Longrightarrow> text_of m k = s"
  by (simp add: text_of_def)

lemma DescriptorBoundNativePayload_Ok:
  "DescriptorBoundNativePayload P r = Ok doc \<longleftrightarrow> rq_parent r = [] \<and> rq_supervisor r = None
     \<and> is_ok (projection_checks P r)
     \<and> (\<exists>mode. native_mode (rq_call_mode r) = Ok mode
         \<and> doc = [(''version'', AnyString ''axon.descriptor-bound-invocation.v1''), (''mode'', AnyString mode),
             (''envelope'', envelope_any (dbe_envelope (rq_envelope r))),
             (''signature'', signature_any (rq_signature r)), (''payload_base64'', base64_any (rq_payload r))])"
  by (auto simp: DescriptorBoundNativePayload_def bindR_Ok_iff is_ok_iff)

text \<open>The reader looks at four members only: what the carrier adds does not matter.\<close>

lemma read_native_cong:
  assumes "\<And>k. k \<in> {''mode'', ''envelope'', ''signature'', ''payload_base64''} \<Longrightarrow> obj_get doc' k = obj_get doc k"
  shows "read_native P doc' = read_native P doc"
proof -
  have "text_of doc' ''mode'' = text_of doc ''mode''" "bytes_of doc' ''payload_base64'' = bytes_of doc ''payload_base64''"
    "obj_get doc' ''envelope'' = obj_get doc ''envelope''" "obj_get doc' ''signature'' = obj_get doc ''signature''"
    using assms by (simp_all add: text_of_def bytes_of_def)
  then show ?thesis by (simp add: read_native_def)
qed

lemma read_envelope:
  assumes "portable_envelope e" and "obj_get doc ''envelope'' = Some (envelope_any e)"
    and "obj_get doc ''signature'' = Some (signature_any s)" and "obj_get doc ''payload_base64'' = Some (base64_any p)"
    and "text_of doc ''mode'' = m" and "pf_sha256 P p = en_args_digest e"
  shows "read_native P doc = Ok (NewDescriptorBoundInvocationRequest (mode_of m) (DBEnvelope e) s p)"
proof -
  define em where "em = object_of (Some (envelope_any e))"
  define sm where "sm = object_of (Some (signature_any s))"
  have get: "obj_get em ''caller'' = Some (identity_json_any (IdentityFromAgent (en_caller e)))"
    "obj_get em ''callee'' = Some (identity_json_any (IdentityFromAgent (en_callee e)))"
    "obj_get em ''subject'' = Some (identity_json_any (IdentityFromSubject (en_subject e)))"
    "obj_get em ''causal_context'' = Some (AnyMap (causal_object (CausalFromCtx (en_causal e))))"
    "bytes_of em ''nonce_base64'' = Ok (be_bytes 16 (en_nonce e))" "text_of em ''ability'' = en_ability e"
    by (simp_all add: em_def envelope_any_def nonce_any_def obj_simps bytes_back text_of_get)
  have sig: "bytes_of sm ''signature_base64'' = Ok (cs_signature s)" "text_of sm ''algorithm'' = cs_algorithm s"
    "text_of sm ''key_id_hint'' = cs_key_id_hint s"
    by (simp_all add: sm_def signature_any_def obj_simps bytes_back text_of_get)
  have members: "object_of (obj_get doc ''envelope'') = em" "object_of (obj_get doc ''signature'') = sm"
    "bytes_of doc ''payload_base64'' = Ok p"
    using assms(2-4) by (simp_all add: em_def sm_def bytes_back)
  have "\<lparr>en_caller = en_caller e, en_callee = en_callee e, en_subject = en_subject e, en_ability = en_ability e,
      en_args_digest = pf_sha256 P p, en_nonce = en_nonce e, en_causal = en_causal e\<rparr> = e"
    using assms(6) by (cases e) simp
  then show ?thesis
    using assms(1,5) members get sig
    by (cases s) (simp add: read_native_def portable_envelope_def identity_back causal_back portable_simps
        word_of_bytes_be_bytes)
qed

lemma native_document_back:
  assumes "DescriptorBoundNativePayload P r = Ok doc" and "portable_envelope (dbe_envelope (rq_envelope r))"
  shows "read_native P doc = Ok r"
proof -
  obtain e where e: "rq_envelope r = DBEnvelope e" by (cases "rq_envelope r")
  from assms(1) obtain mode where r: "rq_parent r = []" "rq_supervisor r = None"
    and checks: "is_ok (projection_checks P r)" and mode: "native_mode (rq_call_mode r) = Ok mode"
    and doc: "doc = [(''version'', AnyString ''axon.descriptor-bound-invocation.v1''), (''mode'', AnyString mode),
        (''envelope'', envelope_any e), (''signature'', signature_any (rq_signature r)),
        (''payload_base64'', base64_any (rq_payload r))]"
    unfolding DescriptorBoundNativePayload_Ok by (auto simp: e)
  have "read_native P doc
      = Ok (NewDescriptorBoundInvocationRequest (mode_of mode) (DBEnvelope e) (rq_signature r) (rq_payload r))"
    using assms(2) checks
    by (intro read_envelope) (auto simp: doc obj_simps text_of_get e is_ok_iff projection_checks_Ok)
  also have "\<dots> = Ok r"
    using r e mode_back [OF mode] by (cases r) (simp add: NewDescriptorBoundInvocationRequest_def)
  finally show ?thesis .
qed

text \<open>The parsers return nothing but known profiles and causal contexts in the form of their
  constructors, whatever the document.\<close>

lemma read_native_portable:
  assumes "read_native P doc = Ok r"
  shows "portable_envelope (dbe_envelope (rq_envelope r))"
  using assms
  by (auto simp: read_native_def Let_def bindR_Ok_iff portable_envelope_def NewDescriptorBoundInvocationRequest_def
      dest: ToAgent_known ToSubject_known ToCtx_portable)

text \<open>C35: the document a complete request becomes for the native library is read back, with the
  parsers of the bundle format, as the request it came from (envelope, signature with its key
  hint, payload and call mode) exactly when the two profiles of its agents and that of its
  subject are among the two the bundle knows and its causal context holds the members of its form
  and no other.  The constructor of the envelope, the validation before the document is written
  and the signature check ask neither: such a request is written all the same, and then its
  document is not read back as it.\<close>

theorem native_document_roundtrip:
  assumes "DescriptorBoundNativePayload P r = Ok doc"
  shows "read_native P doc = Ok r \<longleftrightarrow> portable_envelope (dbe_envelope (rq_envelope r))"
  using native_document_back [OF assms] read_native_portable by blast

lemma demo_document: "\<exists>doc. DescriptorBoundNativePayload demo_platform (demo_bound demo_owned) = Ok doc"
  using demo_owned_checks
  by (simp add: DescriptorBoundNativePayload_Ok is_ok_iff native_mode_def)

lemma demo_owned_portable: "portable_envelope demo_owned"
  using demo_portable_parts(3) by (simp add: portable_envelope_def demo_owned_def known_profile_def
      ProfileStrictV2_def)

text \<open>The same request by a caller of a profile nobody knows.\<close>

definition demo_unknown :: invocation_envelope where
  "demo_unknown = demo_owned\<lparr>en_caller := (en_caller demo_owned)\<lparr>ai_profile := ''axon-v9''\<rparr>\<rparr>"

lemma demo_unknown_document: "\<exists>doc. DescriptorBoundNativePayload demo_platform (demo_bound demo_unknown) = Ok doc"
proof -
  obtain b where "projection_checks demo_platform (demo_bound demo_owned) = Ok b" using demo_owned_checks by blast
  then have "\<exists>b. projection_checks demo_platform (demo_bound demo_unknown) = Ok b"
    by (auto simp: projection_checks_Ok canonicalDescriptorBoundInvocationBytes_def validateEnvelope_Ok demo_unknown_def
        demo_bound_def NewDescriptorBoundInvocationRequest_def bindR_Ok_iff)
  then show ?thesis by (simp add: DescriptorBoundNativePayload_Ok is_ok_iff native_mode_def)
qed

theorem native_document_roundtrip_witness:
  "(\<exists>doc. DescriptorBoundNativePayload demo_platform (demo_bound demo_owned) = Ok doc
      \<and> read_native demo_platform doc = Ok (demo_bound demo_owned))
   \<and> (\<exists>doc. DescriptorBoundNativePayload demo_platform (demo_bound demo_unknown) = Ok doc
      \<and> read_native demo_platform doc \<noteq> Ok (demo_bound demo_unknown))"
proof -
  have "\<not> portable_envelope demo_unknown"
    by (simp add: portable_envelope_def demo_unknown_def known_profile_def ProfileStrictV2_def ProfileWebSafeV2_def)
  then show ?thesis
    using demo_document demo_unknown_document demo_owned_portable
      native_document_roundtrip [of demo_platform "demo_bound demo_owned"]
      native_document_roundtrip [of demo_platform "demo_bound demo_unknown"] by auto
qed

section \<open>Forwarding\<close>

lemma payloadForMode_Inr:
  assumes "payloadForMode q (Some (as_native P r)) o1 mode = Inr doc"
  obtains d where "DescriptorBoundNativePayload P r = Ok d" "obj_get d ''mode'' = Some (AnyString mode)"
    "doc = d @ [(''request_id'', AnyString (no_request_id o1)),
      (''content_type'', AnyString (no_content_type o1)),
      (''timeout_ms'', AnyInt (if no_timeout_ms o1 = 0 then DefaultTimeoutMs else no_timeout_ms o1)),
      (''metadata'', string_map (no_metadata o1)), (''stream'', AnyNil)]"
  using assms unfolding payloadForMode_def
  by (auto simp: bindE_Inr_iff request_document_def as_native_def split: if_splits result.splits option.splits)
     (auto simp: bindR_Ok_iff)

lemma consumeJSON_Inr: "consumeJSON env a = Inr resp \<Longrightarrow> a = Document (AnyMap (bj_payload resp))"
  by (auto simp: consumeJSON_def split: native_answer.splits go_any.splits if_splits)

lemma callLocked_Inr:
  "callLocked env loaded fn h req (Some m) = Inr resp \<Longrightarrow>
   loaded \<and> ne_call env fn h (Some (AnyMap m)) = Document (AnyMap (bj_payload resp))"
  by (auto simp: callLocked_def dest: consumeJSON_Inr split: if_splits)

lemma invocationTimeout_bounds:
  assumes "invocationTimeout ctx n = Inr t"
  shows "1 \<le> t" and "n \<ge> 1 \<Longrightarrow> t \<le> n" and "cx_deadline ctx = Some (Some ms) \<Longrightarrow> t \<le> max 1 (int ms)"
  using assms by (auto simp: invocationTimeout_def Let_def defaulted_def DefaultTimeoutMs_def
      split: option.splits if_splits)

text \<open>The carrier leaves the signed members as they are.\<close>

lemma carried_document:
  assumes "payloadForMode q (Some (as_native P r)) o1 mode = Inr doc"
  shows "read_native P doc = Ok r \<longleftrightarrow> portable_envelope (dbe_envelope (rq_envelope r))" and "native_mode (rq_call_mode r) = Ok mode"
proof -
  obtain d where d: "DescriptorBoundNativePayload P r = Ok d" "obj_get d ''mode'' = Some (AnyString mode)"
    and doc: "doc = d @ [(''request_id'', AnyString (no_request_id o1)),
      (''content_type'', AnyString (no_content_type o1)),
      (''timeout_ms'', AnyInt (if no_timeout_ms o1 = 0 then DefaultTimeoutMs else no_timeout_ms o1)),
      (''metadata'', string_map (no_metadata o1)), (''stream'', AnyNil)]"
    using assms by (rule payloadForMode_Inr)
  have "read_native P doc = read_native P d"
    by (rule read_native_cong) (auto simp: doc obj_simps)
  then show "read_native P doc = Ok r \<longleftrightarrow> portable_envelope (dbe_envelope (rq_envelope r))"
    using native_document_back [OF d(1)] read_native_portable [of P doc r] by auto
  show "native_mode (rq_call_mode r) = Ok mode" using d by (auto simp: DescriptorBoundNativePayload_Ok obj_simps)
qed

text \<open>C36: when the client forwards a complete request through a sidecar and succeeds, the library
  was called, on the open handle, with the document of that request: it reads back as exactly the
  signed request, or the request has a profile or a causal context that no document can carry (an
  unknown profile, or members beside those of the form), which is not checked before the call.
  The request is unary, its subject was not overridden and its ability is the one the client is
  bound to, if any; and the timeout the library was given is positive, not above the caller's
  and, but for its lower limit of one millisecond, not beyond the deadline of the context.\<close>

theorem forwarded_request_exact:
  assumes "client_InvokeDescriptorBound c ctx (Some (as_native P r)) o1 s = (s1, Inr out)"
    and "cl_transport c = Some (sidecar_as_transport q v ctx1)"
  shows "\<exists>doc t. ne_call (ve_native v) SymDescriptorBoundInvoke (zt_handle s1) (Some (AnyMap doc)) = Document (AnyMap out)
    \<and> zt_handle s1 \<noteq> 0 \<and> rq_call_mode r = CallModeRPC
    \<and> (read_native P doc = Ok r \<longleftrightarrow> portable_envelope (dbe_envelope (rq_envelope r)))
    \<and> cl_principal_id c = [] \<and> cl_resource_ura c \<in> {[], DescriptorBoundAbility r}
    \<and> obj_get doc ''timeout_ms'' = Some (AnyInt t) \<and> 1 \<le> t \<and> (no_timeout_ms o1 > 0 \<longrightarrow> t \<le> no_timeout_ms o1)
    \<and> (\<forall>ms. cx_deadline ctx1 = Some (Some ms) \<longrightarrow> t \<le> max 1 (int ms))"
proof -
  from assms(1,2) have "sidecar_InvokeDescriptorBound q v ctx1 (Some (as_native P r)) o1 s = (s1, Inr out)"
    and client: "cl_principal_id c = []" "cl_resource_ura c \<in> {[], DescriptorBoundAbility r}"
    by (auto simp: client_InvokeDescriptorBound_def sidecar_as_transport_def as_native_def
        split: if_splits option.splits)
  then have dispatch: "forward_dispatch q v ctx1 (Some (as_native P r)) o1 s1 = Inr out"
    and nonneg: "no_timeout_ms o1 \<ge> 0"
    by (auto simp: sidecar_InvokeDescriptorBound_def forward_prepare_def split: prod.splits option.splits if_splits)
  then obtain t doc resp where open1: "zt_handle s1 \<noteq> 0"
    and t: "invocationTimeout ctx1 (if no_timeout_ms o1 = 0 then zt_timeout_ms s1 else no_timeout_ms o1) = Inr t"
    and doc: "payloadForMode q (Some (as_native P r)) (o1\<lparr>no_timeout_ms := t\<rparr>) ''unary'' = Inr doc"
    and call: "callLocked (ve_native v) True SymDescriptorBoundInvoke (zt_handle s1) False (Some doc) = Inr resp"
    and out: "out = bj_payload resp"
    by (auto simp: forward_dispatch_def bridge_InvokeDescriptorBound_def native_payload_def bindE_Inr_iff
        split: if_splits)
  note bounds = invocationTimeout_bounds [OF t]
  from bounds(1) doc have "obj_get doc ''timeout_ms'' = Some (AnyInt t)"
    by (elim payloadForMode_Inr) (simp add: obj_simps)
  moreover have "rq_call_mode r = CallModeRPC"
    using carried_document(2) [OF doc] by (auto simp: native_mode_def split: if_splits)
  moreover have "no_timeout_ms o1 > 0 \<longrightarrow> t \<le> no_timeout_ms o1"
  proof
    assume "no_timeout_ms o1 > 0"
    with t invocationTimeout_bounds(2) [of ctx1 "no_timeout_ms o1" t] show "t \<le> no_timeout_ms o1" by simp
  qed
  ultimately show ?thesis
    using client open1 bounds(1,3) carried_document(1) [OF doc] callLocked_Inr [OF call] out
    by (intro exI [of _ doc] exI [of _ t]) simp
qed

section \<open>The client's own calls\<close>

text \<open>Closing a transport while a call is between its two locked sections: \<open>Call\<close> dereferences
  the bridge that is gone and panics, whatever it is called with once its arguments are valid,
  where forwarding a complete request reports the transport as closed.\<close>

theorem closed_call_panics:
  assumes "call_prepare q v ctx s = (s1, None)" and "ve_signing v = Some signing"
    and "invocationTimeout ctx (zt_timeout_ms s1) = Inr t"
    and "client_request q signing resourceURA payload principalID t = Ok req"
    and "transport_Close closeClient closeLibrary s1 = (s2, e)"
  shows "call_dispatch q v signing ctx resourceURA payload principalID s2
      = (s2, Panic (PlainErr ''invalid memory address or nil pointer dereference''))
    \<and> forward_dispatch q v ctx request o1 s2 = Inl (OtherError ''transport closed before request dispatch'')"
proof -
  from assms(5) have "zt_timeout_ms s2 = zt_timeout_ms s1" "\<not> zt_bridge s2"
    by (auto simp: transport_Close_def Let_def)
  with assms(3,4) show ?thesis by (simp add: call_dispatch_def forward_dispatch_def)
qed

lemma ability_not_owner: "PublicAbilityNameFromAbilityURA q u u = None"
  by (auto simp: PublicAbilityNameFromAbilityURA_def Let_def ura_kinds split: result.split)

text \<open>A call of the client names the ability itself as its callee.  No request with that
  callee and that ability has a wire projection: the projection admits only the agent, service
  or authority that owns the ability.\<close>

theorem client_callee_not_owner:
  assumes "client_request q signing resourceURA payload principalID t = Ok req"
    and "ai_ura (en_callee (dbe_envelope (rq_envelope r))) = sa_ura (sq_callee req)"
    and "en_ability (dbe_envelope (rq_envelope r)) = sq_ability req"
  shows "\<not> is_ok (wire_Build P random r o1)"
proof
  assume "is_ok (wire_Build P random r o1)"
  then obtain n where "wire_route P (dbe_envelope (rq_envelope r)) = Ok n"
    by (auto simp: is_ok_iff wire_Build_def Let_def bindR_Ok_iff)
  then obtain u where u: "AbilityURAFromDescriptorRef (sq_ability req) = Ok u"
    and name: "PublicAbilityNameFromAbilityURA (pf_quote P) (sa_ura (sq_callee req)) u = Some n"
    using assms(2,3) by (auto simp: wire_route_Ok)
  from assms(1) obtain ref where ref: "client_ParseAbilityDescriptorRef q resourceURA = Ok ref"
    and req: "sq_ability req = cd_raw ref" "sa_ura (sq_callee req) = cd_ability_ura ref"
    by (auto simp: client_request_def bindR_Ok_iff strict_identity_def)
  from u req client_ref_ability [OF ref] have "u = cd_ability_ura ref" by simp
  with name ability_not_owner [of "pf_quote P" u] req show False by simp
qed

section \<open>Causal contexts of the client\<close>

lemma hash_hex_accepted:
  assumes "validateReceiptHashHex q fld s = None"
  shows "\<exists>h. s = hex32 h" and "s \<noteq> []"
proof -
  from assms obtain d where d: "hex_decode s = Some d" "length d = 32" and low: "s = map ascii_lower s"
    and ne: "trim_space s \<noteq> []"
    by (auto simp: validateReceiptHashHex_def split: option.splits if_splits)
  then have "hexTo32 s = Ok (word_of_bytes d)" by (simp add: hexTo32_def)
  from hexTo32_canonical [OF this] low show "\<exists>h. s = hex32 h" by (metis hex32_def)
  from ne show "s \<noteq> []" by (auto simp: trim_space_trimmed)
qed

lemma requireNonBlank_None: "requireNonBlank fld s = None \<Longrightarrow> s \<noteq> []"
  by (auto simp: requireNonBlank_def trim_space_trimmed split: if_splits)

lemma priors_accepted:
  "check_priors q i rs = None \<Longrightarrow> \<exists>refs. map (\<lambda>r. AnyMap (signed_ref_json r)) rs
     = map receipt_ref_any (map receipt_ref_to_json refs) \<and> length refs = length rs"
proof (induction rs arbitrary: i)
  case (Cons r rs)
  from Cons.prems have hash: "validateReceiptHashHex q (''causal_context.list.prior['' @ dec_nat i @ '']'' @ ''.receipt_hash_hex'')
      (sr_hash_hex r) = None" and rest: "check_priors q (i + 1) rs = None"
    by (auto simp: Let_def split: option.splits if_splits)
  from Cons.IH [OF rest] obtain refs where refs: "map (\<lambda>r. AnyMap (signed_ref_json r)) rs
      = map receipt_ref_any (map receipt_ref_to_json refs)" "length refs = length rs" by blast
  obtain h where "sr_hash_hex r = hex32 h" using hash_hex_accepted(1) [OF hash] by blast
  with refs show ?case
    by (intro exI [of _ "\<lparr>rr_hash = h, rr_ura = sr_ura r\<rparr> # refs"])
       (simp add: signed_ref_json_def receipt_ref_any_def)
qed simp

text \<open>The document of an accepted context is one the runtime writes, form by form.\<close>

definition runtime_document :: "go_object \<Rightarrow> bool" where
  "runtime_document m \<longleftrightarrow> (\<exists>ctx. m = causal_object (CausalFromCtx ctx) \<and> portable_causal ctx)"

lemma scalar_document:
  assumes "signed_causal_validate q c = None" and "signed_causal_json c = Some m"
    and "sx_form c = ''scalar''" "sx_scalar c = Some r"
  shows "runtime_document m"
proof -
  from assms(1,3,4) have hash: "validateReceiptHashHex q ''causal_context.scalar.receipt_hash_hex'' (sr_hash_hex r) = None"
    and ura: "requireNonBlank ''causal_context.scalar.receipt_ura'' (sr_ura r) = None"
    by (auto simp: signed_causal_validate_def first_error_None)
  obtain h where h: "sr_hash_hex r = hex32 h" using hash_hex_accepted(1) [OF hash] by blast
  let ?ctx = "CausalScalarCtx \<lparr>rr_hash = h, rr_ura = sr_ura r\<rparr>"
  have "m = causal_object (CausalFromCtx ?ctx)"
    using assms(2-4) h hash_hex_accepted(2) [OF hash] requireNonBlank_None [OF ura]
    by (simp add: signed_causal_json_def signed_ref_json_def causal_object_def CausalFromCtx_def
        CausalScalarCtx_def causal_form_json_def optional_text_def)
  then show ?thesis by (auto simp: runtime_document_def portable_causal_def CausalScalarCtx_def intro!: exI [of _ ?ctx])
qed

lemma list_document:
  assumes "signed_causal_validate q c = None" and "signed_causal_json c = Some m" and "sx_form c = ''list''"
  shows "runtime_document m"
proof -
  from assms(1,3) have "sx_list c \<noteq> []" and "check_priors q 0 (sx_list c) = None"
    by (auto simp: signed_causal_validate_def split: if_splits)
  with priors_accepted [OF this(2)] obtain refs where refs: "map (\<lambda>r. AnyMap (signed_ref_json r)) (sx_list c)
      = map receipt_ref_any (map receipt_ref_to_json refs)" "refs \<noteq> []" by force
  have "m = causal_object (CausalFromCtx (CausalListCtx refs))"
    using assms(2,3) refs
    by (simp add: signed_causal_json_def causal_object_def CausalFromCtx_def
        CausalListCtx_def causal_form_json_def optional_text_def)
  then show ?thesis
    by (auto simp: runtime_document_def portable_causal_def CausalListCtx_def intro!: exI [of _ "CausalListCtx refs"])
qed

lemma merkle_document:
  assumes "signed_causal_validate q c = None" and "signed_causal_json c = Some m" and "sx_form c = ''merkle''"
  shows "runtime_document m"
proof -
  from assms(1,3) have hash: "validateReceiptHashHex q ''causal_context.merkle.root_hex'' (sx_merkle_root c) = None"
    and ura: "requireNonBlank ''causal_context.merkle.proof_ura'' (sx_merkle_proof c) = None"
    by (auto simp: signed_causal_validate_def first_error_None)
  obtain h where h: "sx_merkle_root c = hex32 h" using hash_hex_accepted(1) [OF hash] by blast
  let ?ctx = "CausalMerkleCtx h (sx_merkle_proof c)"
  have "m = causal_object (CausalFromCtx ?ctx)"
    using assms(2,3) h hash_hex_accepted(2) [OF hash] requireNonBlank_None [OF ura]
    by (simp add: signed_causal_json_def causal_object_def CausalFromCtx_def
        CausalMerkleCtx_def causal_form_json_def optional_text_def)
  then show ?thesis by (auto simp: runtime_document_def portable_causal_def CausalMerkleCtx_def intro!: exI [of _ ?ctx])
qed

text \<open>C39: a causal context that the client's validation accepts becomes, in the document of a
  request, exactly what the runtime's own encoder would write for some context, and nothing for
  the genesis form; the runtime's parser reads that context back.  Both sides of the SDK write
  causal references alike.\<close>

theorem signed_causal_exact:
  assumes "signed_causal_validate q c = None"
  shows "case signed_causal_json c of
      None \<Rightarrow> signed_IsNone c
    | Some m \<Rightarrow> \<exists>ctx. m = causal_object (CausalFromCtx ctx) \<and> portable_causal ctx \<and> ToCtx (causal_of m) = Ok ctx"
proof (cases "signed_causal_json c")
  case None
  with assms show ?thesis
    by (auto simp: signed_causal_json_def signed_causal_validate_def signed_IsNone_def split: if_splits option.splits)
next
  case (Some m)
  then consider r where "sx_form c = ''scalar''" "sx_scalar c = Some r"
    | "sx_form c = ''list''" | "sx_form c = ''merkle''"
    by (auto simp: signed_causal_json_def split: if_splits)
  then have "runtime_document m"
    by cases (blast intro: scalar_document [OF assms Some] list_document [OF assms Some] merkle_document [OF assms Some])+
  with Some show ?thesis by (auto simp: runtime_document_def causal_back ToCtx_back)
qed

definition demo_causal :: signed_causal_context where
  "demo_causal = SignedCausalScalar \<lparr>sr_hash_hex = replicate 64 CHR ''a'', sr_ura = ''easynet:///r/x/receipt/1''\<rparr>"

theorem signed_causal_exact_witness:
  "signed_causal_json demo_causal \<noteq> None
   \<and> (case signed_causal_json demo_causal of None \<Rightarrow> signed_IsNone demo_causal
      | Some m \<Rightarrow> \<exists>ctx. m = causal_object (CausalFromCtx ctx) \<and> portable_causal ctx \<and> ToCtx (causal_of m) = Ok ctx)"
proof -
  have "signed_causal_validate (\<lambda>s. s) demo_causal = None" by code_simp
  from signed_causal_exact [OF this] show ?thesis
    by (simp add: demo_causal_def signed_causal_json_def SignedCausalScalar_def signed_zero_def)
qed

text \<open>The hash of a reference may be all zero: the client accepts what the runtime's receipt facts
  refuse with a panic.\<close>

lemma zero_hash_accepted:
  "signed_causal_validate q (SignedCausalScalar \<lparr>sr_hash_hex = replicate 64 CHR ''0'', sr_ura = ''r''\<rparr>) = None"
  by code_simp

section \<open>Worked instances\<close>

definition demo_sidecar :: sidecar_transport where
  "demo_sidecar = \<lparr>zt_endpoint = ''e'', zt_connect_timeout_ms = 5, zt_timeout_ms = 1000, zt_auto_reconnect = False,
     zt_options = \<lparr>ro_initial_backoff_ms = 0, ro_max_backoff_ms = 0, ro_has_hook = False,
       ro_health_interval_ms = 0, ro_max_attempts = 0\<rparr>, zt_bridge = True, zt_handle = 5, zt_reconnect = None\<rparr>"

definition demo_sidecar_env :: "signing_config option \<Rightarrow> sidecar_env" where
  "demo_sidecar_env signing = \<lparr>ve_endpoint = [], ve_library = None,
     ve_native = demo_native\<lparr>ne_call := (\<lambda>fn h d. Document (AnyMap [(''ok'', AnyBool True)]))\<rparr>,
     ve_signing = signing, ve_tls = None\<rparr>"

definition demo_context :: "nat \<Rightarrow> call_context" where
  "demo_context ms = \<lparr>cx_before = None, cx_dispatch = None, cx_after = None, cx_deadline = Some (Some ms)\<rparr>"

lemma demo_sidecar_open: "sidecar_open q (demo_sidecar_env signing) demo_sidecar = (demo_sidecar, None)"
  by (simp add: sidecar_open_def ensureClient_def enableAutoReconnect_def demo_sidecar_def Let_def)

definition demo_signing :: signing_config where
  "demo_signing = \<lparr>sg_seed = replicate 32 1, sg_caller_ura = ''easynet:///r/acme/agent/u.a'',
     sg_caller_profile = uraProfileStrictV2\<rparr>"

lemma demo_client_request: "\<exists>req. client_request (\<lambda>s. s) demo_signing sample_ref None [] t = Ok req
    \<and> sa_ura (sq_callee req) = ''easynet:///r/acme/ability/u.a.chat''
    \<and> sq_ability req = ''easynet:///r/acme/ability/u.a.chat@1.0#'' @ concat (replicate 32 ''ab'') @ ''!invoke''"
proof -
  have "client_ParseAbilityDescriptorRef (\<lambda>s. s) sample_ref
      = Ok \<lparr>cd_raw = ''easynet:///r/acme/ability/u.a.chat@1.0#'' @ concat (replicate 32 ''ab'') @ ''!invoke'',
          cd_ability_ura = ''easynet:///r/acme/ability/u.a.chat'', cd_version = ''1.0'',
          cd_descriptor_hash = concat (replicate 32 ''ab''), cd_action = ''invoke''\<rparr>" by code_simp
  moreover have "ParseSubjectURA ''easynet:///r/acme/agent/u.a'' = Ok (SubjectURA ''easynet:///r/acme/agent/u.a'')"
    "trim_space [] = []" by code_simp+
  ultimately show ?thesis
    by (simp add: client_request_def SubjectURAForInvocation_def demo_signing_def strict_identity_def)
qed

lemma demo_timeout: "invocationTimeout (demo_context 20) (zt_timeout_ms demo_sidecar) = Inr 20"
  by (simp add: invocationTimeout_def demo_context_def demo_sidecar_def defaulted_def DefaultTimeoutMs_def)

lemma demo_sel:
  "cx_before (demo_context ms) = None" "ve_signing (demo_sidecar_env signing) = signing"
  "ne_call (ve_native (demo_sidecar_env signing)) fn h d = Document (AnyMap [(''ok'', AnyBool True)])"
  "zt_bridge demo_sidecar" "zt_handle demo_sidecar = 5"
  by (simp_all add: demo_context_def demo_sidecar_env_def demo_sidecar_def)

theorem forwarded_request_exact_witness:
  "\<exists>out doc. client_InvokeDescriptorBound
      (NewClient (Some (sidecar_as_transport (\<lambda>s. s) (demo_sidecar_env None) (demo_context 20)))) (demo_context 20)
      (Some (as_native demo_platform (demo_bound demo_owned)))
      \<lparr>no_request_id = ''r'', no_content_type = ''t'', no_timeout_ms = 0, no_metadata = []\<rparr> demo_sidecar
      = (demo_sidecar, Inr out)
    \<and> read_native demo_platform doc = Ok (demo_bound demo_owned)
    \<and> (\<exists>t. obj_get doc ''timeout_ms'' = Some (AnyInt t) \<and> 1 \<le> t \<and> t \<le> 20)"
proof -
  let ?c = "NewClient (Some (sidecar_as_transport (\<lambda>s. s) (demo_sidecar_env None) (demo_context 20)))"
  let ?o = "\<lparr>no_request_id = ''r'', no_content_type = ''t'', no_timeout_ms = 0, no_metadata = []\<rparr>"
  obtain d where d: "DescriptorBoundNativePayload demo_platform (demo_bound demo_owned) = Ok d"
    using demo_document by blast
  then have "obj_get d ''mode'' = Some (AnyString ''unary'')"
    by (auto simp: DescriptorBoundNativePayload_Ok obj_simps native_mode_def)
  moreover have "trim_space ''r'' \<noteq> []" "trim_space ''t'' \<noteq> []" by code_simp+
  ultimately have "\<exists>doc. native_payload (\<lambda>s. s) (Some (as_native demo_platform (demo_bound demo_owned)))
      (?o\<lparr>no_timeout_ms := 20\<rparr>) = Inr doc"
    using d by (simp add: native_payload_def payloadForMode_def requireNonBlank_def check_that_def
        request_document_def as_native_def)
  moreover have "forward_prepare (\<lambda>s. s) (demo_sidecar_env None) (demo_context 20) (Some r) ?o demo_sidecar
      = (demo_sidecar, None)" for r
    using demo_sidecar_open [of "\<lambda>s. s" None] by (simp add: forward_prepare_def demo_sel)
  ultimately have "\<exists>out. client_InvokeDescriptorBound ?c (demo_context 20)
      (Some (as_native demo_platform (demo_bound demo_owned))) ?o demo_sidecar = (demo_sidecar, Inr out)"
    using demo_timeout
    by (auto simp: client_InvokeDescriptorBound_def NewClient_def sidecar_as_transport_def demo_sel
        sidecar_InvokeDescriptorBound_def forward_dispatch_def bridge_InvokeDescriptorBound_def
        callLocked_def consumeJSON_def obj_simps)
  then obtain out where "client_InvokeDescriptorBound ?c (demo_context 20)
      (Some (as_native demo_platform (demo_bound demo_owned))) ?o demo_sidecar = (demo_sidecar, Inr out)" by blast
  note run = this
  have "portable_envelope (dbe_envelope (rq_envelope (demo_bound demo_owned)))" using demo_owned_portable by simp
  moreover have "cl_transport ?c = Some (sidecar_as_transport (\<lambda>s. s) (demo_sidecar_env None) (demo_context 20))"
    by (simp add: NewClient_def)
  moreover have "cx_deadline (demo_context 20) = Some (Some 20)" by (simp add: demo_context_def)
  ultimately show ?thesis using forwarded_request_exact [OF run] run by fastforce
qed

theorem closed_call_panics_witness:
  "\<exists>s2 e. transport_Close None None demo_sidecar = (s2, e)
    \<and> call_dispatch (\<lambda>s. s) (demo_sidecar_env (Some demo_signing)) demo_signing (demo_context 20) sample_ref None [] s2
        = (s2, Panic (PlainErr ''invalid memory address or nil pointer dereference''))"
proof -
  obtain s2 e where "transport_Close None None demo_sidecar = (s2, e)" by fastforce
  moreover have "call_prepare (\<lambda>s. s) (demo_sidecar_env (Some demo_signing)) (demo_context 20) demo_sidecar
      = (demo_sidecar, None)"
    by (simp add: call_prepare_def demo_sidecar_open) (simp add: demo_sidecar_env_def demo_context_def)
  moreover have "ve_signing (demo_sidecar_env (Some demo_signing)) = Some demo_signing"
    by (simp add: demo_sidecar_env_def)
  moreover obtain req where "client_request (\<lambda>s. s) demo_signing sample_ref None [] 20 = Ok req"
    using demo_client_request by blast
  ultimately show ?thesis using closed_call_panics demo_timeout by blast
qed

theorem client_callee_not_owner_witness:
  "\<exists>req. client_request (\<lambda>s. s) demo_signing sample_ref None [] 20 = Ok req
    \<and> \<not> is_ok (wire_Build demo_platform (Some []) (demo_bound (demo_envelope\<lparr>
         en_callee := \<lparr>ai_ura = sa_ura (sq_callee req), ai_profile = ProfileStrictV2\<rparr>,
         en_ability := sq_ability req\<rparr>)) demo_wire_options)"
proof -
  obtain req where "client_request (\<lambda>s. s) demo_signing sample_ref None [] 20 = Ok req"
    using demo_client_request by blast
  with client_callee_not_owner [OF this, of "demo_bound (demo_envelope\<lparr>
         en_callee := \<lparr>ai_ura = sa_ura (sq_callee req), ai_profile = ProfileStrictV2\<rparr>,
         en_ability := sq_ability req\<rparr>)"] show ?thesis by auto
qed

end
