(* ===== verification/Ledger.thy ===== *)
theory Ledger
  imports Uras SignedBytes
begin

text \<open>
  The ledger projection of invocations (\<open>axon/invocation/ledger_projection.go\<close>): records, receipt
  anchors, causal links and trace graphs, their validation and parsing.  What \<open>encoding/json\<close>
  makes of a text is an argument; a raw JSON value is its text, and \<open>unmarshal\<close> gives the error of
  decoding a text into an object, if any.
\<close>

section \<open>Records\<close>

record receipt_anchor =
  ra_receipt_ura :: string
  ra_receipt_hash :: string
  ra_receipt_type :: string
  ra_state :: string
  ra_timestamp :: i64

record chain_summary =
  cs_anchors :: "receipt_anchor list"
  cs_verified :: bool
  cs_head_receipt_hash :: "string option"
  cs_verification_detail :: string

record causal_link =
  ck_source_invocation_ura :: "string option"
  ck_source_receipt_ura :: string
  ck_source_receipt_hash :: string
  ck_relation :: string

record trace_edge =
  te_from_invocation_ura :: "string option"
  te_from_receipt_ura :: string
  te_from_receipt_hash :: string
  te_to_invocation_ura :: string
  te_relation :: string

record ledger_record =
  ld_invocation_ura :: string
  ld_request_id :: string
  ld_trace_id :: string
  ld_span_id :: string
  ld_caller_ura :: string
  ld_callee_ura :: string
  ld_subject_ura :: string
  ld_ability_ura :: string
  ld_ability_name :: string
  ld_state :: string
  ld_started :: i64
  ld_completed :: "i64 option"
  ld_elapsed :: "u64 option"
  ld_args :: string
  ld_result :: string
  ld_error :: string
  ld_diagnostics :: "string list"
  ld_causal_links :: "causal_link list"
  ld_receipt_chain :: chain_summary
  ld_visibility :: string
  ld_authority_form :: string
  ld_usage :: invocation_usage

text \<open>The usage under the names of the shared JSON contract, the rest of the record as it is.\<close>

record ledger_usage_json =
  uj_tokens_in :: u64
  uj_tokens_out :: u64
  uj_duration_ms :: u64
  uj_external_calls :: u32

definition ledger_UnmarshalJSON :: "ledger_record \<Rightarrow> ledger_usage_json \<Rightarrow> ledger_record" where
  "ledger_UnmarshalJSON plain u = plain\<lparr>ld_usage :=
     \<lparr>us_tokens_in = uj_tokens_in u, us_tokens_out = uj_tokens_out u, us_duration_ms = uj_duration_ms u,
      us_external_calls = uj_external_calls u\<rparr>\<rparr>"

definition ledger_MarshalJSON :: "ledger_record \<Rightarrow> ledger_record \<times> ledger_usage_json" where
  "ledger_MarshalJSON r = (r,
     \<lparr>uj_tokens_in = us_tokens_in (ld_usage r), uj_tokens_out = us_tokens_out (ld_usage r),
      uj_duration_ms = us_duration_ms (ld_usage r), uj_external_calls = us_external_calls (ld_usage r)\<rparr>)"

record trace_graph =
  tg_trace_id :: string
  tg_records :: "ledger_record list option"
  tg_edges :: "trace_edge list option"

section \<open>Validation\<close>

definition requiredLedgerText :: "string \<Rightarrow> string \<Rightarrow> unit result" where
  "requiredLedgerText fld value = (if trim_space value = [] then invalid_arg (fld @ ''_required'') else Ok ())"

definition validateLedgerURA :: "(string \<Rightarrow> string) \<Rightarrow> string \<Rightarrow> string \<Rightarrow> unit result" where
  "validateLedgerURA q fld value =
     bindR (requiredLedgerText fld value) (\<lambda>_.
       case ParseURA q value of
         Ok _ \<Rightarrow> Ok ()
       | Fail e \<Rightarrow> invalid_arg (fld @ ''_invalid:'' @ go_error_string q e)
       | Panic e \<Rightarrow> Panic e)"

definition validateLedgerHash :: "string \<Rightarrow> string \<Rightarrow> unit result" where
  "validateLedgerHash fld value =
     (case hex_decode value of
        None \<Rightarrow> invalid_arg (fld @ ''_must_be_32_byte_hex'')
      | Some decoded \<Rightarrow> if length decoded \<noteq> 32 then invalid_arg (fld @ ''_must_be_32_byte_hex'') else Ok ())"

text \<open>\<open>bytes.TrimSpace\<close> is \<open>strings.TrimSpace\<close> on the bytes.\<close>

definition validateJSONObject :: "(string \<Rightarrow> string option) \<Rightarrow> string \<Rightarrow> string \<Rightarrow> bool \<Rightarrow> unit result" where
  "validateJSONObject unmarshal fld raw required =
     (let trimmed = trim_space raw in
      if trimmed = [] \<or> trimmed = ''null''
      then (if required then invalid_arg (fld @ ''_required'') else Ok ())
      else if hd trimmed \<noteq> CHR 0x7B then invalid_arg (fld @ ''_must_be_object'')
      else (case unmarshal trimmed of None \<Rightarrow> Ok () | Some err \<Rightarrow> invalid_arg (fld @ ''_invalid:'' @ err)))"

text \<open>Checks one after the other, and over a list with the index of the element.\<close>

fun each_check :: "unit result list \<Rightarrow> unit result" where
  "each_check [] = Ok ()"
| "each_check (c # cs) = bindR c (\<lambda>_. each_check cs)"

fun each_indexed :: "(nat \<Rightarrow> 'a \<Rightarrow> unit result) \<Rightarrow> nat \<Rightarrow> 'a list \<Rightarrow> unit result" where
  "each_indexed f i [] = Ok ()"
| "each_indexed f i (x # xs) = bindR (f i x) (\<lambda>_. each_indexed f (i + 1) xs)"

definition optional_check :: "('a \<Rightarrow> unit result) \<Rightarrow> 'a option \<Rightarrow> unit result" where
  "optional_check f x = (case x of None \<Rightarrow> Ok () | Some y \<Rightarrow> f y)"

definition indexed :: "string \<Rightarrow> nat \<Rightarrow> string" where
  "indexed name i = name @ ''['' @ dec_nat i @ '']''"

definition anchor_validate :: "(string \<Rightarrow> string) \<Rightarrow> nat \<Rightarrow> receipt_anchor \<Rightarrow> unit result" where
  "anchor_validate q i a =
     (let prefix = indexed ''receipt_chain.anchors'' i in
      each_check [validateLedgerURA q (prefix @ ''.receipt_ura'') (ra_receipt_ura a),
        validateLedgerHash (prefix @ ''.receipt_hash'') (ra_receipt_hash a),
        requiredLedgerText (prefix @ ''.receipt_type'') (ra_receipt_type a),
        requiredLedgerText (prefix @ ''.state'') (ra_state a)])"

definition summary_validate :: "(string \<Rightarrow> string) \<Rightarrow> chain_summary \<Rightarrow> unit result" where
  "summary_validate q s =
     each_check [each_indexed (anchor_validate q) 0 (cs_anchors s),
       optional_check (validateLedgerHash ''head_receipt_hash'') (cs_head_receipt_hash s)]"

definition link_validate :: "(string \<Rightarrow> string) \<Rightarrow> nat \<Rightarrow> causal_link \<Rightarrow> unit result" where
  "link_validate q i l =
     (let prefix = indexed ''causal_links'' i in
      each_check [
        optional_check (validateLedgerURA q (prefix @ ''.source_invocation_ura'')) (ck_source_invocation_ura l),
        validateLedgerURA q (prefix @ ''.source_receipt_ura'') (ck_source_receipt_ura l),
        validateLedgerHash (prefix @ ''.source_receipt_hash'') (ck_source_receipt_hash l),
        requiredLedgerText (prefix @ ''.relation'') (ck_relation l)])"

definition edge_validate :: "(string \<Rightarrow> string) \<Rightarrow> nat \<Rightarrow> trace_edge \<Rightarrow> unit result" where
  "edge_validate q i e =
     (let prefix = indexed ''edges'' i in
      each_check [
        optional_check (validateLedgerURA q (prefix @ ''.from_invocation_ura'')) (te_from_invocation_ura e),
        validateLedgerURA q (prefix @ ''.from_receipt_ura'') (te_from_receipt_ura e),
        validateLedgerURA q (prefix @ ''.to_invocation_ura'') (te_to_invocation_ura e),
        validateLedgerHash (prefix @ ''.from_receipt_hash'') (te_from_receipt_hash e),
        requiredLedgerText (prefix @ ''.relation'') (te_relation e)])"

definition ledger_Validate ::
  "(string \<Rightarrow> string) \<Rightarrow> (string \<Rightarrow> string option) \<Rightarrow> ledger_record \<Rightarrow> unit result" where
  "ledger_Validate q unmarshal r =
     each_check
       [validateLedgerURA q ''invocation_ura'' (ld_invocation_ura r),
        requiredLedgerText ''request_id'' (ld_request_id r),
        validateLedgerURA q ''caller_ura'' (ld_caller_ura r),
        validateLedgerURA q ''callee_ura'' (ld_callee_ura r),
        validateLedgerURA q ''subject_ura'' (ld_subject_ura r),
        validateLedgerURA q ''ability_ura'' (ld_ability_ura r),
        requiredLedgerText ''ability_name'' (ld_ability_name r),
        requiredLedgerText ''state'' (ld_state r),
        validateJSONObject unmarshal ''args'' (ld_args r) True,
        validateJSONObject unmarshal ''result'' (ld_result r) False,
        validateJSONObject unmarshal ''error'' (ld_error r) False,
        each_indexed (\<lambda>i d. validateJSONObject unmarshal (indexed ''diagnostics'' i) d True) 0 (ld_diagnostics r),
        validateJSONObject unmarshal ''visibility'' (ld_visibility r) False,
        each_indexed (link_validate q) 0 (ld_causal_links r),
        summary_validate q (ld_receipt_chain r)]"

definition record_in_graph ::
  "(string \<Rightarrow> string) \<Rightarrow> (string \<Rightarrow> string option) \<Rightarrow> string \<Rightarrow> nat \<Rightarrow> ledger_record \<Rightarrow> unit result" where
  "record_in_graph q unmarshal traceID i r =
     (case ledger_Validate q unmarshal r of
        Fail e \<Rightarrow> invalid_arg (indexed ''records'' i @ '':'' @ go_error_string q e)
      | Panic e \<Rightarrow> Panic e
      | Ok _ \<Rightarrow>
          if ld_trace_id r \<noteq> [] \<and> ld_trace_id r \<noteq> traceID
          then invalid_arg (indexed ''records'' i @ ''.trace_id_mismatch'') else Ok ())"

definition graph_Validate ::
  "(string \<Rightarrow> string) \<Rightarrow> (string \<Rightarrow> string option) \<Rightarrow> trace_graph \<Rightarrow> unit result" where
  "graph_Validate q unmarshal g =
     bindR (requiredLedgerText ''trace_id'' (tg_trace_id g)) (\<lambda>_.
       case tg_records g of
         None \<Rightarrow> invalid_arg ''records_must_be_array''
       | Some records \<Rightarrow>
           (case tg_edges g of
              None \<Rightarrow> invalid_arg ''edges_must_be_array''
            | Some edges \<Rightarrow>
                bindR (each_indexed (record_in_graph q unmarshal (tg_trace_id g)) 0 records) (\<lambda>_.
                  each_indexed (edge_validate q) 0 edges)))"

section \<open>Parsing\<close>

definition ParseInvocationLedgerRecordJSON ::
  "(string \<Rightarrow> string) \<Rightarrow> (string \<Rightarrow> string option) \<Rightarrow> string + ledger_record \<Rightarrow> ledger_record result" where
  "ParseInvocationLedgerRecordJSON q unmarshal decoded =
     (case decoded of
        Inl err \<Rightarrow> invalid_arg (''bad_invocation_ledger_json:'' @ err)
      | Inr r \<Rightarrow> bindR (ledger_Validate q unmarshal r) (\<lambda>_. Ok r))"

definition ParseInvocationTraceGraphJSON ::
  "(string \<Rightarrow> string) \<Rightarrow> (string \<Rightarrow> string option) \<Rightarrow> string + trace_graph \<Rightarrow> trace_graph result" where
  "ParseInvocationTraceGraphJSON q unmarshal decoded =
     (case decoded of
        Inl err \<Rightarrow> invalid_arg (''bad_invocation_trace_graph_json:'' @ err)
      | Inr g \<Rightarrow> bindR (graph_Validate q unmarshal g) (\<lambda>_. Ok g))"

end
