(* ===== verification/LedgerProperties.thy ===== *)
theory LedgerProperties
  imports Ledger UraProperties Admission
begin

text \<open>
  What the ledger projection accepts, stated over its fields, and a class of invocations that the
  runtime admits and the ledger refuses.
\<close>

section \<open>What is accepted\<close>

text \<open>A text names an address, a hash, or holds an object.\<close>

definition names_ura :: "(string \<Rightarrow> string) \<Rightarrow> string \<Rightarrow> bool" where
  "names_ura q s = is_ok (ParseURAParts q s)"

definition hash_text :: "string \<Rightarrow> bool" where
  "hash_text s = (isASCIIHex s \<and> length s = 64)"

definition absent_json :: "string \<Rightarrow> bool" where
  "absent_json raw = (trim_space raw \<in> {[], ''null''})"

definition object_json :: "(string \<Rightarrow> string option) \<Rightarrow> string \<Rightarrow> bool" where
  "object_json unmarshal raw = (\<exists>s. trim_space raw = CHR 0x7B # s \<and> unmarshal (CHR 0x7B # s) = None)"

lemma each_check_Ok [simp]: "each_check cs = Ok () \<longleftrightarrow> (\<forall>c \<in> set cs. c = Ok ())"
  by (induction cs) (auto simp: bindR_Ok_iff)

declare each_check.simps [simp del]

lemma each_indexed_Ok: "each_indexed f i xs = Ok () \<longleftrightarrow> (\<forall>j < length xs. f (i + j) (xs ! j) = Ok ())"
proof (induction xs arbitrary: i)
  case (Cons x xs)
  have "(\<forall>j < length (x # xs). f (i + j) ((x # xs) ! j) = Ok ())
      \<longleftrightarrow> f i x = Ok () \<and> (\<forall>j < length xs. f (i + 1 + j) (xs ! j) = Ok ())"
    by (auto simp: less_Suc_eq_0_disj)
  with Cons.IH [of "i + 1"] show ?case by (simp add: bindR_Ok_iff)
qed simp

lemma each_indexed_same:
  "(\<And>i x. (f i x = Ok ()) = p x) \<Longrightarrow> each_indexed f i xs = Ok () \<longleftrightarrow> (\<forall>x \<in> set xs. p x)"
  by (simp add: each_indexed_Ok all_set_conv_all_nth)

lemma requiredLedgerText_Ok [simp]: "requiredLedgerText fld s = Ok () \<longleftrightarrow> trim_space s \<noteq> []"
  by (simp add: requiredLedgerText_def)

text \<open>Trimming keeps every character that occurs in no white space.\<close>

lemma strip_lead_keeps: "c \<in> set s \<Longrightarrow> (\<And>w. w \<in> set ws \<Longrightarrow> c \<notin> set w) \<Longrightarrow> c \<in> set (strip_lead ws s)"
proof (induction ws s rule: strip_lead.induct)
  case (1 ws s)
  show ?case
  proof (cases "s = [] \<or> lead_ws ws s = 0")
    case True
    with 1 show ?thesis by (subst strip_lead.simps) auto
  next
    case False
    then obtain w where w: "w \<in> set ws" "has_prefix s w" "lead_ws ws s = length w"
      by (auto simp: lead_ws_def split: option.splits) (metis find_Some_iff nth_mem)
    then obtain r where "s = w @ r" by (auto simp: has_prefix_iff)
    with 1 False w show ?thesis by (subst strip_lead.simps) auto
  qed
qed

lemma scheme_not_blank:
  assumes "has_prefix s ura_scheme"
  shows "trim_space s \<noteq> []"
proof -
  have solid: "c \<notin> set w" if "w \<in> set ws_seqs \<or> w \<in> set (map rev ws_seqs)" "c = CHR ''e''" for c w
    using that by (auto simp: ws_seqs_def ws_ascii_def ws_unicode_def)
  have "CHR ''e'' \<in> set s" using assms by (auto simp: has_prefix_iff ura_scheme_def)
  then have "CHR ''e'' \<in> set (strip_lead ws_seqs s)" by (rule strip_lead_keeps) (use solid in blast)
  then have "CHR ''e'' \<in> set (rev (strip_lead ws_seqs s))" by simp
  then have "CHR ''e'' \<in> set (strip_lead (map rev ws_seqs) (rev (strip_lead ws_seqs s)))"
    by (rule strip_lead_keeps) (use solid in blast)
  then show ?thesis by (auto simp: trim_space_def)
qed

lemma validateLedgerURA_Ok [simp]: "validateLedgerURA q fld s = Ok () \<longleftrightarrow> names_ura q s"
proof -
  have "names_ura q s \<Longrightarrow> trim_space s \<noteq> []"
    by (rule scheme_not_blank) (auto simp: names_ura_def is_ok_iff ParseURAParts_def split: if_splits)
  then show ?thesis
    by (auto simp: validateLedgerURA_def bindR_Ok_iff ParseURA_def names_ura_def is_ok_iff split: result.splits)
qed

lemma hex_decode_digits: "(\<exists>b. hex_decode s = Some b) \<longleftrightarrow> isASCIIHex s \<and> even (length s)"
  by (induction s rule: hex_decode.induct) (auto simp: isASCIIHex_def split: option.splits)

lemma validateLedgerHash_Ok [simp]: "validateLedgerHash fld s = Ok () \<longleftrightarrow> hash_text s"
  using hex_decode_digits [of s]
  by (auto simp: validateLedgerHash_def hash_text_def dest: hex_decode_length split: option.splits if_splits)

lemma validateJSONObject_Ok [simp]:
  "validateJSONObject unmarshal fld raw required = Ok () \<longleftrightarrow>
     object_json unmarshal raw \<or> \<not> required \<and> absent_json raw"
  by (cases "trim_space raw")
     (auto simp: validateJSONObject_def Let_def object_json_def absent_json_def split: option.splits if_splits)

lemma optional_check_Ok [simp]: "optional_check f x = Ok () \<longleftrightarrow> (\<forall>y \<in> set_option x. f y = Ok ())"
  by (cases x) (simp_all add: optional_check_def)

definition anchor_ok :: "(string \<Rightarrow> string) \<Rightarrow> receipt_anchor \<Rightarrow> bool" where
  "anchor_ok q a = (names_ura q (ra_receipt_ura a) \<and> hash_text (ra_receipt_hash a)
     \<and> trim_space (ra_receipt_type a) \<noteq> [] \<and> trim_space (ra_state a) \<noteq> [])"

definition link_ok :: "(string \<Rightarrow> string) \<Rightarrow> causal_link \<Rightarrow> bool" where
  "link_ok q l = ((\<forall>u \<in> set_option (ck_source_invocation_ura l). names_ura q u)
     \<and> names_ura q (ck_source_receipt_ura l) \<and> hash_text (ck_source_receipt_hash l)
     \<and> trim_space (ck_relation l) \<noteq> [])"

definition edge_ok :: "(string \<Rightarrow> string) \<Rightarrow> trace_edge \<Rightarrow> bool" where
  "edge_ok q e = ((\<forall>u \<in> set_option (te_from_invocation_ura e). names_ura q u)
     \<and> names_ura q (te_from_receipt_ura e) \<and> names_ura q (te_to_invocation_ura e)
     \<and> hash_text (te_from_receipt_hash e) \<and> trim_space (te_relation e) \<noteq> [])"

definition ledger_ok :: "(string \<Rightarrow> string) \<Rightarrow> (string \<Rightarrow> string option) \<Rightarrow> ledger_record \<Rightarrow> bool" where
  "ledger_ok q unmarshal r =
     ((\<forall>u \<in> {ld_invocation_ura r, ld_caller_ura r, ld_callee_ura r, ld_subject_ura r, ld_ability_ura r}. names_ura q u)
      \<and> (\<forall>s \<in> {ld_request_id r, ld_ability_name r, ld_state r}. trim_space s \<noteq> [])
      \<and> (\<forall>d \<in> insert (ld_args r) (set (ld_diagnostics r)). object_json unmarshal d)
      \<and> (\<forall>d \<in> {ld_result r, ld_error r, ld_visibility r}. object_json unmarshal d \<or> absent_json d)
      \<and> (\<forall>l \<in> set (ld_causal_links r). link_ok q l)
      \<and> (\<forall>a \<in> set (cs_anchors (ld_receipt_chain r)). anchor_ok q a)
      \<and> (\<forall>h \<in> set_option (cs_head_receipt_hash (ld_receipt_chain r)). hash_text h))"

lemma ledger_Validate_Ok: "ledger_Validate q unmarshal r = Ok () \<longleftrightarrow> ledger_ok q unmarshal r"
proof -
  have link: "(link_validate q i l = Ok ()) = link_ok q l" for i l
    by (auto simp: link_validate_def link_ok_def Let_def)
  have anchor: "(anchor_validate q i a = Ok ()) = anchor_ok q a" for i a
    by (auto simp: anchor_validate_def anchor_ok_def Let_def)
  have diagnostic: "(validateJSONObject unmarshal (indexed ''diagnostics'' i) d True = Ok ())
      = object_json unmarshal d" for i d by simp
  show ?thesis
    by (auto simp: ledger_Validate_def ledger_ok_def summary_validate_def each_indexed_same [OF link]
        each_indexed_same [OF anchor] each_indexed_same [OF diagnostic])
qed

text \<open>C38: a trace graph is parsed exactly when its JSON decodes to one with a trace identifier and
  with both arrays, all of whose records are well formed and carry no other trace identifier
  than the graph's, and all of whose edges are well formed: every address parses, every hash is
  64 hexadecimal digits, every required text is not blank and every payload is an object.\<close>

theorem trace_graph_exact:
  "ParseInvocationTraceGraphJSON q unmarshal decoded = Ok g \<longleftrightarrow>
     decoded = Inr g \<and> trim_space (tg_trace_id g) \<noteq> []
     \<and> (\<exists>records edges. tg_records g = Some records \<and> tg_edges g = Some edges
          \<and> (\<forall>r \<in> set records. ledger_ok q unmarshal r \<and> ld_trace_id r \<in> {[], tg_trace_id g})
          \<and> (\<forall>e \<in> set edges. edge_ok q e))"
proof -
  have edge: "(edge_validate q i e = Ok ()) = edge_ok q e" for i e
    by (auto simp: edge_validate_def edge_ok_def Let_def)
  have records: "(record_in_graph q unmarshal t i r = Ok ()) = (ledger_ok q unmarshal r \<and> ld_trace_id r \<in> {[], t})"
    for t i r
    by (auto simp: record_in_graph_def ledger_Validate_Ok [symmetric] split: result.splits if_splits)
  show ?thesis
    by (auto simp: ParseInvocationTraceGraphJSON_def graph_Validate_def bindR_Ok_iff each_indexed_same [OF edge]
        each_indexed_same [OF records] split: sum.splits option.splits)
qed

section \<open>What is refused\<close>

lemma unknown_role_refused:
  assumes "CHR ''/'' \<notin> set realm" and "CHR ''/'' \<notin> set role"
    and "\<And>x. role @ x \<notin> {''user'', ''device'', ''service'', ''agent'', ''ability'', ''authority'', ''resource''}"
  shows "\<not> names_ura q (ura_scheme @ realm @ CHR ''/'' # role @ rest)"
proof -
  obtain x y where "cut_or_all CHR ''/'' (role @ rest) = (role @ x, y)"
  proof (cases "cut CHR ''/'' rest")
    case None
    with assms(2) have "cut CHR ''/'' (role @ rest) = None" by (simp add: cut_none)
    with that [of rest "[]"] show thesis by (simp add: cut_or_all_def)
  next
    case (Some ab)
    then obtain a b where "rest = a @ CHR ''/'' # b" "CHR ''/'' \<notin> set a" by (cases ab) (auto dest: cut_some)
    with assms(2) that [of a b] cut_append [of "CHR ''/''" "role @ a" b] show thesis by (simp add: cut_or_all_def)
  qed
  with assms show ?thesis
    by (simp add: names_ura_def is_ok_iff ParseURAParts_def cut_append parse_role_def Let_def)
qed

lemma split_on_two:
  assumes "split_on c s = a # b # ps"
  obtains r where "s = a @ c # b @ r" "c \<notin> set a" "c \<notin> set b"
proof -
  have "c \<notin> set a" "c \<notin> set b" using assms split_on_parts_no_sep [of _ c s] by auto
  moreover from assms have "c \<in> set s" using split_on_no_sep [of c s] by force
  then obtain x y where s: "s = x @ c # y" "c \<notin> set x" by (meson split_list_first)
  then have y: "x = a" "split_on c y = b # ps" using assms by (auto simp: split_on_append)
  moreover have "\<exists>r. y = b @ r"
  proof (cases "c \<in> set y")
    case True
    then obtain x' y' where "y = x' @ c # y'" "c \<notin> set x'" by (meson split_list_first)
    with y show ?thesis by (auto simp: split_on_append)
  qed (use y in \<open>auto simp: split_on_no_sep\<close>)
  ultimately show thesis using that s by blast
qed

lemma scheme_trimmed_front: "\<exists>v. ura_scheme @ r = trim_space (ura_scheme @ r) @ v"
proof -
  let ?s = "ura_scheme @ r"
  have "no_lead ws_seqs ?s"
    by (simp add: no_lead_def ws_seqs_def ws_ascii_def ws_unicode_def has_prefix_def ura_scheme_def)
  then have "trim_space ?s = rev (strip_lead (map rev ws_seqs) (rev ?s))"
    by (simp add: trim_space_def no_lead_strip)
  with strip_lead_suffix [of "rev ?s" "map rev ws_seqs"] show ?thesis by (metis rev_append rev_rev_ident)
qed

text \<open>The runtime admits invocations whose subject is a session, a continuation or a state
  object; no ledger record of such an invocation is accepted, since the client's grammar of
  addresses does not know these roles.\<close>

theorem ledger_refuses_subjects:
  assumes "EntityRefForSubject subject = Ok ref"
    and "er_kind ref \<in> {EntityRefSession, EntityRefContinuation, EntityRefStateObject}"
    and "ld_subject_ura r = si_ura subject"
  shows "\<not> is_ok (ParseInvocationLedgerRecordJSON q unmarshal (Inr r))"
proof -
  let ?u = "si_ura subject"
  from assms(1) have "entityRefKindForSubjectURA ?u = Ok (er_kind ref)"
    by (auto simp: EntityRefForSubject_def bindR_Ok_iff)
  then obtain realm role ps where prefix: "has_prefix (trim_space ?u) ura_scheme"
    and parts: "split_on CHR ''/'' (trim_prefix (trim_space ?u) ura_scheme) = realm # role # ps"
    and kind: "role_kind role = Ok (er_kind ref)"
    by (auto simp: entityRefKindForSubjectURA_def Let_def split: if_splits list.splits)
  have "\<not> names_ura q ?u"
  proof
    assume ok: "names_ura q ?u"
    then obtain r where "?u = ura_scheme @ r"
      by (auto simp: names_ura_def is_ok_iff ParseURAParts_def has_prefix_iff split: if_splits)
    then obtain v where v: "?u = trim_space ?u @ v" using scheme_trimmed_front [of r] by auto
    from prefix obtain m where m: "trim_space ?u = ura_scheme @ m" by (auto simp: has_prefix_iff)
    with parts have "split_on CHR ''/'' m = realm # role # ps" by simp
    then obtain w where w: "m = realm @ CHR ''/'' # role @ w" "CHR ''/'' \<notin> set realm" "CHR ''/'' \<notin> set role"
      by (rule split_on_two)
    from kind assms(2) have "role \<in> {''session'', ''sessions'', ''continuation'', ''continuations'',
        ''state_object'', ''state-object'', ''state_objects'', ''state-objects'', ''state'', ''states''}"
      by (auto simp: role_kind_def split: if_splits)
    then have "role @ x \<notin> {''user'', ''device'', ''service'', ''agent'', ''ability'', ''authority'', ''resource''}" for x
      by auto
    from unknown_role_refused [OF w(2,3) this, of q "w @ v"] m w(1) v ok show False by simp
  qed
  then show ?thesis
    using assms(3) by (auto simp: ParseInvocationLedgerRecordJSON_def is_ok_iff bindR_Ok_iff ledger_Validate_Ok
        ledger_ok_def)
qed

definition demo_ledger :: "string \<Rightarrow> ledger_record" where
  "demo_ledger subject = \<lparr>ld_invocation_ura = ''easynet:///r/x/resource/i/1'', ld_request_id = ''1'',
     ld_trace_id = ''t'', ld_span_id = [], ld_caller_ura = ''easynet:///r/x/agent/u.c'',
     ld_callee_ura = ''easynet:///r/x/agent/u.b'', ld_subject_ura = subject,
     ld_ability_ura = ''easynet:///r/x/ability/u.b.c'', ld_ability_name = ''c'', ld_state = ''Completed'',
     ld_started = 1, ld_completed = Some 2, ld_elapsed = Some 1, ld_args = [CHR 0x7B, CHR 0x7D], ld_result = ''null'',
     ld_error = [], ld_diagnostics = [], ld_causal_links = [],
     ld_receipt_chain = \<lparr>cs_anchors = [\<lparr>ra_receipt_ura = ''easynet:///r/x/resource/i/1/receipt/0'',
         ra_receipt_hash = replicate 64 CHR ''a'', ra_receipt_type = ''admitted'', ra_state = ''Admitted'',
         ra_timestamp = 1\<rparr>], cs_verified = True, cs_head_receipt_hash = Some (replicate 64 CHR ''a''),
       cs_verification_detail = []\<rparr>,
     ld_visibility = [], ld_authority_form = [], ld_usage = empty_usage\<rparr>"

definition demo_graph :: trace_graph where
  "demo_graph = \<lparr>tg_trace_id = ''t'', tg_records = Some [demo_ledger ''easynet:///r/x/resource/u/s''],
     tg_edges = Some [\<lparr>te_from_invocation_ura = None, te_from_receipt_ura = ''easynet:///r/x/resource/i/1/receipt/0'',
       te_from_receipt_hash = replicate 64 CHR ''a'', te_to_invocation_ura = ''easynet:///r/x/resource/i/1'',
       te_relation = ''caused''\<rparr>]\<rparr>"

theorem trace_graph_exact_witness:
  "ParseInvocationTraceGraphJSON (\<lambda>s. s) (\<lambda>s. None) (Inr demo_graph) = Ok demo_graph
   \<and> ledger_ok (\<lambda>s. s) (\<lambda>s. None) (demo_ledger ''easynet:///r/x/resource/u/s'')"
proof -
  have ok: "ParseInvocationTraceGraphJSON (\<lambda>s. s) (\<lambda>s. None) (Inr demo_graph) = Ok demo_graph" by code_simp
  with trace_graph_exact [of "\<lambda>s. s" "\<lambda>s. None" "Inr demo_graph" demo_graph] show ?thesis
    by (auto simp: demo_graph_def)
qed

theorem ledger_refuses_subjects_witness:
  "is_ok (EntityRefForSubject \<lparr>si_ura = ''easynet:///r/x/session/s'', si_profile = ProfileStrictV2\<rparr>)
   \<and> is_ok (ParseInvocationLedgerRecordJSON (\<lambda>s. s) (\<lambda>s. None) (Inr (demo_ledger ''easynet:///r/x/resource/u/s'')))
   \<and> \<not> is_ok (ParseInvocationLedgerRecordJSON (\<lambda>s. s) (\<lambda>s. None) (Inr (demo_ledger ''easynet:///r/x/session/s'')))"
proof -
  let ?s = "\<lparr>si_ura = ''easynet:///r/x/session/s'', si_profile = ProfileStrictV2\<rparr>"
  have kind: "EntityRefForSubject ?s
      = Ok \<lparr>er_kind = EntityRefSession, er_ura = ''easynet:///r/x/session/s'', er_profile = ProfileStrictV2\<rparr>"
    by code_simp
  have "is_ok (ParseInvocationLedgerRecordJSON (\<lambda>s. s) (\<lambda>s. None) (Inr (demo_ledger ''easynet:///r/x/resource/u/s'')))"
    by code_simp
  with kind ledger_refuses_subjects [OF kind, of "demo_ledger ''easynet:///r/x/session/s''"] show ?thesis
    by (simp add: demo_ledger_def is_ok_iff)
qed

end
