(* ===== verification/Semantic.thy ===== *)
theory Semantic
  imports BidiStream
begin

text \<open>
  The semantic views of a client (\<open>axon/semantic.go\<close>): the catalogue of a runtime, and the builders
  of raw protocol calls and of ability calls over it.  A builder is a value; its methods return
  the changed builder.  Options are functions on what they change, \<open>None\<close> for a nil option.
\<close>

section \<open>The catalogue\<close>

record catalog_entry =
  en_service :: string
  en_rpc :: string
  en_path :: string
  en_shape :: string
  en_proto :: string

record semantic_bridge =
  sm_loaded :: bool
  sm_handle :: u64
  sm_by_service_rpc :: "string \<rightharpoonup> catalog_entry"
  sm_by_path :: "string \<rightharpoonup> catalog_entry"

text \<open>\<open>fmt.Sprint(row[k])\<close>: a member that is not there prints as nil does.\<close>

definition print_field :: "native_env \<Rightarrow> go_object \<Rightarrow> string \<Rightarrow> string" where
  "print_field env row k = (case obj_get row k of None \<Rightarrow> ''<nil>'' | Some v \<Rightarrow> print_member env v)"

definition row_entry :: "native_env \<Rightarrow> go_object \<Rightarrow> catalog_entry" where
  "row_entry env row =
     \<lparr>en_service = print_field env row ''service'', en_rpc = print_field env row ''rpc'',
      en_path = print_field env row ''path'', en_shape = print_field env row ''shape'',
      en_proto = print_field env row ''proto''\<rparr>"

definition service_rpc_key :: "string \<Rightarrow> string \<Rightarrow> string" where
  "service_rpc_key service rpc = service @ ''.'' @ rpc"

definition index_row ::
  "native_env \<Rightarrow> (string \<rightharpoonup> catalog_entry) \<times> (string \<rightharpoonup> catalog_entry) \<Rightarrow> go_any \<Rightarrow>
   (string \<rightharpoonup> catalog_entry) \<times> (string \<rightharpoonup> catalog_entry)" where
  "index_row env maps rowAny =
     (case rowAny of
        AnyMap row \<Rightarrow>
          (let entry = row_entry env row; (byServiceRPC, byPath) = maps in
           (if en_service entry \<noteq> [] \<and> en_rpc entry \<noteq> []
            then byServiceRPC(service_rpc_key (en_service entry) (en_rpc entry) \<mapsto> entry) else byServiceRPC,
            if en_path entry \<noteq> [] then byPath(en_path entry \<mapsto> entry) else byPath))
      | _ \<Rightarrow> maps)"

text \<open>\<open>bridge\<close> is \<open>None\<close> when it is nil, and otherwise whether its library is loaded.\<close>

definition NewSemanticBridge :: "native_env \<Rightarrow> bool option \<Rightarrow> u64 \<Rightarrow> any_error + semantic_bridge" where
  "NewSemanticBridge env bridge handle =
     (case bridge of
        None \<Rightarrow> Inl (OtherError ''bridge is nil'')
      | Some loaded \<Rightarrow>
          if handle = 0 then Inl (OtherError ''handle must be > 0'')
          else bindE (ProtocolCatalog env loaded) (\<lambda>catalogPayload.
            case obj_get catalogPayload ''rpcs'' of
              Some (AnyList rows) \<Rightarrow>
                (let (byServiceRPC, byPath) = foldl (index_row env) (Map.empty, Map.empty) rows in
                 Inr \<lparr>sm_loaded = loaded, sm_handle = handle, sm_by_service_rpc = byServiceRPC,
                      sm_by_path = byPath\<rparr>)
            | _ \<Rightarrow> Inl (OtherError ''protocol catalog missing rpcs list'')))"

section \<open>Protocol calls\<close>

definition DefaultMaxChunks :: int where "DefaultMaxChunks = 4096"

record protocol_call =
  pc_semantic :: semantic_bridge
  pc_req :: protocol_request
  pc_entry :: "catalog_entry option"

text \<open>The request both entries start from.\<close>

definition fresh_request :: "string \<Rightarrow> string \<Rightarrow> string \<Rightarrow> protocol_request" where
  "fresh_request service rpc path =
     \<lparr>pq_service = service, pq_rpc = rpc, pq_path = path, pq_request_base64 = [], pq_chunks_base64 = None,
      pq_metadata = [], pq_timeout_ms = DefaultTimeoutMs, pq_max_chunks = DefaultMaxChunks,
      pq_max_request_chunks = DefaultMaxChunks, pq_max_response_chunks = DefaultMaxChunks\<rparr>"

definition semantic_Path :: "string \<Rightarrow> semantic_bridge \<Rightarrow> protocol_call" where
  "semantic_Path path s =
     (case sm_by_path s path of
        None \<Rightarrow> \<lparr>pc_semantic = s, pc_req = fresh_request [] [] path, pc_entry = None\<rparr>
      | Some entry \<Rightarrow>
          \<lparr>pc_semantic = s, pc_req = fresh_request (en_service entry) (en_rpc entry) path, pc_entry = Some entry\<rparr>)"

definition semantic_RPC :: "string \<Rightarrow> string \<Rightarrow> semantic_bridge \<Rightarrow> protocol_call" where
  "semantic_RPC service rpc s =
     (case sm_by_service_rpc s (service_rpc_key service rpc) of
        None \<Rightarrow> \<lparr>pc_semantic = s, pc_req = fresh_request service rpc [], pc_entry = None\<rparr>
      | Some entry \<Rightarrow>
          \<lparr>pc_semantic = s, pc_req = fresh_request service rpc (en_path entry), pc_entry = Some entry\<rparr>)"

definition RequestBytes :: "bytes \<Rightarrow> protocol_call \<Rightarrow> protocol_call" where
  "RequestBytes request b =
     b\<lparr>pc_req := (pc_req b)\<lparr>pq_request_base64 := b64_encode request, pq_chunks_base64 := None\<rparr>\<rparr>"

definition RequestChunks :: "bytes list \<Rightarrow> protocol_call \<Rightarrow> protocol_call" where
  "RequestChunks chunks b =
     b\<lparr>pc_req := (pc_req b)\<lparr>pq_chunks_base64 := Some (map b64_encode chunks), pq_request_base64 := []\<rparr>\<rparr>"

type_synonym protocol_option = "protocol_request \<Rightarrow> protocol_request"

definition WithMetadata :: "(string \<times> string) list \<Rightarrow> protocol_option" where
  "WithMetadata m req = req\<lparr>pq_metadata := m\<rparr>"
definition WithProtocolTimeoutMs :: "int \<Rightarrow> protocol_option" where
  "WithProtocolTimeoutMs n req = req\<lparr>pq_timeout_ms := n\<rparr>"
definition WithMaxChunks :: "int \<Rightarrow> protocol_option" where
  "WithMaxChunks n req = req\<lparr>pq_max_chunks := n\<rparr>"
definition WithMaxRequestChunks :: "int \<Rightarrow> protocol_option" where
  "WithMaxRequestChunks n req = req\<lparr>pq_max_request_chunks := n\<rparr>"
definition WithMaxResponseChunks :: "int \<Rightarrow> protocol_option" where
  "WithMaxResponseChunks n req = req\<lparr>pq_max_response_chunks := n\<rparr>"

definition apply_options :: "('a \<Rightarrow> 'a) option list \<Rightarrow> 'a \<Rightarrow> 'a" where
  "apply_options opts x = foldl (\<lambda>y opt. case opt of None \<Rightarrow> y | Some f \<Rightarrow> f y) x opts"

definition protocol_Apply :: "protocol_option option list \<Rightarrow> protocol_call \<Rightarrow> protocol_call" where
  "protocol_Apply opts b = b\<lparr>pc_req := apply_options opts (pc_req b)\<rparr>"

text \<open>\<open>Invoke\<close> also leaves the defaults in the builder.\<close>

definition with_defaults :: "protocol_request \<Rightarrow> protocol_request" where
  "with_defaults req = req\<lparr>pq_timeout_ms := defaulted DefaultTimeoutMs (pq_timeout_ms req),
     pq_max_chunks := defaulted DefaultMaxChunks (pq_max_chunks req),
     pq_max_request_chunks := defaulted DefaultMaxChunks (pq_max_request_chunks req),
     pq_max_response_chunks := defaulted DefaultMaxChunks (pq_max_response_chunks req)\<rparr>"

definition protocol_Invoke :: "native_env \<Rightarrow> protocol_call \<Rightarrow> any_error + go_object" where
  "protocol_Invoke env b =
     InvokeProtocol env (sm_loaded (pc_semantic b)) (sm_handle (pc_semantic b)) (with_defaults (pc_req b))"

definition expectShape :: "string \<Rightarrow> protocol_call \<Rightarrow> any_error option" where
  "expectShape expected b =
     (case pc_entry b of
        None \<Rightarrow> None
      | Some entry \<Rightarrow>
          if en_shape entry = [] then None
          else if en_shape entry \<noteq> expected
          then Some (OtherError (''rpc shape mismatch, expected='' @ expected @ '' actual='' @ en_shape entry
                 @ '' rpc='' @ service_rpc_key (en_service entry) (en_rpc entry)))
          else None)"

definition plain_base64 :: "string \<Rightarrow> any_error + bytes" where
  "plain_base64 text = (case b64_decode text of Inl n \<Rightarrow> Inl (OtherError (corrupt_input n)) | Inr b \<Rightarrow> Inr b)"

fun decode_items :: "native_env \<Rightarrow> go_any list \<Rightarrow> any_error + bytes list" where
  "decode_items env [] = Inr []"
| "decode_items env (x # xs) =
     bindE (plain_base64 (print_member env x)) (\<lambda>b. bindE (decode_items env xs) (\<lambda>bs. Inr (b # bs)))"

definition decodeChunkList :: "native_env \<Rightarrow> go_any option \<Rightarrow> any_error + bytes list" where
  "decodeChunkList env raw = (case raw of Some (AnyList items) \<Rightarrow> decode_items env items | _ \<Rightarrow> Inr [])"

text \<open>A call of one shape with the reading of its answer: one answer, or chunks.\<close>

definition shaped :: "native_env \<Rightarrow> string \<Rightarrow> (go_object \<Rightarrow> any_error + 'a) \<Rightarrow> protocol_call \<Rightarrow> any_error + 'a" where
  "shaped env shape read b =
     (case expectShape shape b of Some e \<Rightarrow> Inl e | None \<Rightarrow> bindE (protocol_Invoke env b) read)"

definition single_response :: "native_env \<Rightarrow> string \<Rightarrow> go_object \<Rightarrow> any_error + bytes" where
  "single_response env what resp =
     (let raw = any_string (obj_get resp ''response_base64'') in
      if raw = []
      then Inl (OtherError (''missing '' @ what @ '' response_base64: '' @ ne_print env (AnyMap resp)))
      else plain_base64 raw)"

definition chunked_response :: "native_env \<Rightarrow> go_object \<Rightarrow> any_error + bytes list \<times> bool" where
  "chunked_response env resp =
     bindE (decodeChunkList env (obj_get resp ''chunks_base64''))
       (\<lambda>chunks. Inr (chunks, any_bool (obj_get resp ''truncated'')))"

definition InvokeUnary :: "native_env \<Rightarrow> protocol_call \<Rightarrow> any_error + bytes" where
  "InvokeUnary env b = shaped env ''unary'' (single_response env ''unary'') b"

definition InvokeServerStream :: "native_env \<Rightarrow> protocol_call \<Rightarrow> any_error + bytes list \<times> bool" where
  "InvokeServerStream env b = shaped env ''server_stream'' (chunked_response env) b"

definition InvokeClientStream :: "native_env \<Rightarrow> protocol_call \<Rightarrow> any_error + bytes" where
  "InvokeClientStream env b = shaped env ''client_stream'' (single_response env ''client-stream'') b"

definition InvokeBidiStream :: "native_env \<Rightarrow> protocol_call \<Rightarrow> any_error + bytes list \<times> bool" where
  "InvokeBidiStream env b = shaped env ''bidi_stream'' (chunked_response env) b"

section \<open>Ability calls\<close>

record ability_call =
  ac_semantic :: semantic_bridge
  ac_tenant_id :: string
  ac_resource_ura :: string
  ac_subject_ura :: string
  ac_payload_json :: "go_any option"
  ac_metadata :: "(string \<times> string) list"
  ac_timeout_ms :: int

definition semantic_Ability :: "string \<Rightarrow> string \<Rightarrow> semantic_bridge \<Rightarrow> ability_call" where
  "semantic_Ability tenantID resourceURA s =
     \<lparr>ac_semantic = s, ac_tenant_id = tenantID, ac_resource_ura = resourceURA, ac_subject_ura = [],
      ac_payload_json = Some (AnyMap []), ac_metadata = [], ac_timeout_ms = DefaultTimeoutMs\<rparr>"

definition ability_Payload :: "go_any option \<Rightarrow> ability_call \<Rightarrow> ability_call" where
  "ability_Payload v b = b\<lparr>ac_payload_json := v\<rparr>"
definition ability_Metadata :: "(string \<times> string) list \<Rightarrow> ability_call \<Rightarrow> ability_call" where
  "ability_Metadata m b = b\<lparr>ac_metadata := m\<rparr>"
definition ability_TimeoutMs :: "int \<Rightarrow> ability_call \<Rightarrow> ability_call" where
  "ability_TimeoutMs n b = b\<lparr>ac_timeout_ms := n\<rparr>"
definition ability_Subject :: "string \<Rightarrow> ability_call \<Rightarrow> ability_call" where
  "ability_Subject u b = b\<lparr>ac_subject_ura := u\<rparr>"

type_synonym ability_option = "ability_call \<Rightarrow> ability_call"

definition WithAbilityMetadata :: "(string \<times> string) list \<Rightarrow> ability_option" where
  "WithAbilityMetadata m b = b\<lparr>ac_metadata := m\<rparr>"
definition WithAbilityTimeoutMs :: "int \<Rightarrow> ability_option" where
  "WithAbilityTimeoutMs n b = b\<lparr>ac_timeout_ms := n\<rparr>"
definition WithAbilitySubject :: "string \<Rightarrow> ability_option" where
  "WithAbilitySubject u b = b\<lparr>ac_subject_ura := u\<rparr>"

definition ability_Apply :: "ability_option option list \<Rightarrow> ability_call \<Rightarrow> ability_call" where
  "ability_Apply opts b = apply_options opts b"

definition ability_Invoke ::
  "(string \<Rightarrow> string) \<Rightarrow> native_env \<Rightarrow> ability_call \<Rightarrow> any_error + go_object" where
  "ability_Invoke q env b =
     (if trim_space (ac_tenant_id b) = [] then Inl (OtherError ''tenantID is required'')
      else if trim_space (ac_resource_ura b) = [] then Inl (OtherError ''resourceURA is required'')
      else (case requiredAbilityRef q (ac_resource_ura b) of
        Fail e \<Rightarrow> Inl (OtherError (go_error_string q e))
      | Panic e \<Rightarrow> Inl (OtherError (go_error_string q e))
      | Ok abilityRef \<Rightarrow>
          (case ParseSubjectURA (ac_subject_ura b) of
             Fail e \<Rightarrow> Inl (OtherError (''subject is required before ability invoke: '' @ go_error_string q e))
           | Panic e \<Rightarrow> Inl (OtherError (go_error_string q e))
           | Ok subject \<Rightarrow>
               InvokeAbilityRawWithSubject q env (sm_loaded (ac_semantic b)) (sm_handle (ac_semantic b))
                 (ac_tenant_id b) abilityRef
                 (case ac_payload_json b of None \<Rightarrow> AnyMap [] | Some v \<Rightarrow> v) (su_raw subject) (ac_metadata b)
                 (defaulted DefaultTimeoutMs (ac_timeout_ms b)))))"

end
