(* ===== verification/SemanticProperties.thy ===== *)
theory SemanticProperties
  imports Semantic NativeProperties
begin

text \<open>
  What a call through the catalogue does: the row that counts is the last with its service and
  name, the call goes to the path of that row with the bytes of the request, and the caller gets
  the bytes of the service; and what a row without a shape does to its calls.
\<close>

section \<open>Looking a call up\<close>

definition row_key :: "native_env \<Rightarrow> go_any \<Rightarrow> string option" where
  "row_key env x = (case x of
     AnyMap row \<Rightarrow>
       (let e = row_entry env row in
        if en_service e \<noteq> [] \<and> en_rpc e \<noteq> [] then Some (service_rpc_key (en_service e) (en_rpc e)) else None)
   | _ \<Rightarrow> None)"

lemma index_row_other:
  "row_key env x \<noteq> Some k \<Longrightarrow> fst (index_row env maps x) k = fst maps k"
  by (cases maps) (auto simp: index_row_def row_key_def Let_def split: go_any.splits if_splits)

lemma index_rows_other:
  "\<forall>x \<in> set xs. row_key env x \<noteq> Some k \<Longrightarrow> fst (foldl (index_row env) maps xs) k = fst maps k"
  by (induction xs arbitrary: maps) (auto simp: index_row_other)

lemma index_row_this:
  "row_key env (AnyMap row) = Some k \<Longrightarrow> fst (index_row env maps (AnyMap row)) k = Some (row_entry env row)"
  by (cases maps) (auto simp: index_row_def row_key_def Let_def split: if_splits)

text \<open>The catalogue a library answers, and the service behind it: \<open>serve\<close> gives the answer of a
  path to the bytes of a request.\<close>

definition answers_catalog :: "native_env \<Rightarrow> go_any list \<Rightarrow> bool" where
  "answers_catalog env rows =
     (ne_call env SymProtocolCatalog 0 None = Document (AnyMap [(''ok'', AnyBool True), (''rpcs'', AnyList rows)]))"

definition serves_protocol :: "native_env \<Rightarrow> (string \<Rightarrow> bytes \<Rightarrow> bytes) \<Rightarrow> bool" where
  "serves_protocol env serve = (\<forall>h m p b. obj_get m ''path'' = Some (AnyString p) \<longrightarrow>
     obj_get m ''request_base64'' = Some (base64_any b) \<longrightarrow>
     ne_call env SymInvokeProtocol h (Some (AnyMap m))
       = Document (AnyMap [(''ok'', AnyBool True), (''response_base64'', base64_any (serve p b))]))"

lemma bridge_of_catalog:
  assumes "answers_catalog env rows" and "handle \<noteq> 0"
  shows "\<exists>s. NewSemanticBridge env (Some True) handle = Inr s \<and> sm_loaded s \<and> sm_handle s = handle
    \<and> sm_by_service_rpc s = fst (foldl (index_row env) (Map.empty, Map.empty) rows)"
proof -
  have "\<exists>resp. callLocked env True SymProtocolCatalog 0 False None = Inr resp
      \<and> bj_payload resp = [(''ok'', AnyBool True), (''rpcs'', AnyList rows)]"
    using assms(1) by (simp add: callLocked_def answers_catalog_def consumeJSON_def obj_simps)
  then show ?thesis
    using assms(2) by (auto simp: NewSemanticBridge_def ProtocolCatalog_def obj_simps split: prod.splits)
qed

lemma lookup_row:
  assumes "answers_catalog env (before @ AnyMap row # later)" and "handle \<noteq> 0"
    and "row_key env (AnyMap row) = Some (service_rpc_key service rpc)"
    and "\<forall>x \<in> set later. row_key env x \<noteq> Some (service_rpc_key service rpc)"
  obtains s where "NewSemanticBridge env (Some True) handle = Inr s" "sm_loaded s" "sm_handle s = handle"
    "semantic_RPC service rpc s = \<lparr>pc_semantic = s,
       pc_req = fresh_request service rpc (en_path (row_entry env row)), pc_entry = Some (row_entry env row)\<rparr>"
proof -
  obtain s where s: "NewSemanticBridge env (Some True) handle = Inr s" "sm_loaded s" "sm_handle s = handle"
    and maps: "sm_by_service_rpc s = fst (foldl (index_row env) (Map.empty, Map.empty) (before @ AnyMap row # later))"
    using bridge_of_catalog [OF assms(1,2)] by blast
  have "sm_by_service_rpc s (service_rpc_key service rpc) = Some (row_entry env row)"
    by (simp add: maps index_rows_other [OF assms(4)] index_row_this [OF assms(3)])
  with that s show thesis by (simp add: semantic_RPC_def)
qed

lemma protocol_answer:
  assumes "serves_protocol env serve" and "pq_request_base64 req = b64_encode b"
  shows "InvokeProtocol env True handle req = (if handle = 0 then Inl (OtherError ''invalid handle: 0'')
    else Inr [(''ok'', AnyBool True), (''response_base64'', base64_any (serve (pq_path req) b))])"
proof -
  let ?m = "[(''service'', AnyString (pq_service req)), (''rpc'', AnyString (pq_rpc req)),
        (''path'', AnyString (pq_path req)), (''request_base64'', AnyString (pq_request_base64 req)),
        (''request_chunks_base64'', (case pq_chunks_base64 req of None \<Rightarrow> AnyNil
           | Some cs \<Rightarrow> AnyList (map AnyString cs))),
        (''metadata'', string_map (pq_metadata req)), (''timeout_ms'', AnyInt (pq_timeout_ms req)),
        (''max_chunks'', AnyInt (pq_max_chunks req)),
        (''max_request_chunks'', AnyInt (pq_max_request_chunks req)),
        (''max_response_chunks'', AnyInt (pq_max_response_chunks req))]"
  have "obj_get ?m ''path'' = Some (AnyString (pq_path req))"
    "obj_get ?m ''request_base64'' = Some (base64_any b)"
    using assms(2) by (simp_all add: obj_simps base64_any_def)
  with assms(1) have "ne_call env SymInvokeProtocol handle (Some (AnyMap ?m))
      = Document (AnyMap [(''ok'', AnyBool True), (''response_base64'', base64_any (serve (pq_path req) b))])"
    unfolding serves_protocol_def by blast
  then show ?thesis by (simp add: InvokeProtocol_def callLocked_def consumeJSON_def obj_simps)
qed

lemma expect_shape_entry:
  "pc_entry b = Some entry \<Longrightarrow> (expectShape shape b = None) = (en_shape entry \<in> {[], shape})"
  by (simp add: expectShape_def)

lemma shaped_refused: "expectShape shape b \<noteq> None \<Longrightarrow> \<exists>e. shaped env shape rd b = Inl e"
  by (auto simp: shaped_def)

lemma shaped_passes: "expectShape shape b = None \<Longrightarrow> shaped env shape rd b = bindE (protocol_Invoke env b) rd"
  by (simp add: shaped_def)

lemma single_answer:
  "d \<noteq> [] \<Longrightarrow> single_response env what [(''ok'', AnyBool True), (''response_base64'', base64_any d)] = Inr d"
  "\<exists>e. single_response env what [(''ok'', AnyBool True), (''response_base64'', base64_any [])] = Inl e"
  by (auto simp: single_response_def obj_simps plain_base64_def)

text \<open>C37: a unary call found in the catalogue.  The last row whose service and name, joined by a dot as the
  index of the code joins them, are those of the call counts (with dots in the names two pairs can
  share a row);
  the library is called with the path of that row and the bytes of the request, and the caller
  gets the bytes of the service.  It is refused when the row gives another shape, and an empty
  answer is taken for a missing one.\<close>

theorem semantic_unary_exact:
  assumes "answers_catalog env (before @ AnyMap row # later)" and "handle \<noteq> 0"
    and "row_key env (AnyMap row) = Some (service_rpc_key service rpc)"
    and "\<forall>x \<in> set later. row_key env x \<noteq> Some (service_rpc_key service rpc)"
    and "obj_get row ''path'' = Some (AnyString path)" and "obj_get row ''shape'' = Some (AnyString shape)"
    and "serves_protocol env serve"
  shows "\<exists>s. NewSemanticBridge env (Some True) handle = Inr s
    \<and> (if shape \<in> {[], ''unary''} \<and> serve path request \<noteq> []
       then InvokeUnary env (RequestBytes request (semantic_RPC service rpc s)) = Inr (serve path request)
       else \<exists>e. InvokeUnary env (RequestBytes request (semantic_RPC service rpc s)) = Inl e)"
proof -
  obtain s where s: "NewSemanticBridge env (Some True) handle = Inr s" "sm_loaded s" "sm_handle s = handle"
    and call: "semantic_RPC service rpc s = \<lparr>pc_semantic = s,
       pc_req = fresh_request service rpc (en_path (row_entry env row)), pc_entry = Some (row_entry env row)\<rparr>"
    by (rule lookup_row [OF assms(1-4)])
  let ?b = "RequestBytes request (semantic_RPC service rpc s)"
  have entry: "en_path (row_entry env row) = path" "en_shape (row_entry env row) = shape"
    using assms(5,6) by (simp_all add: row_entry_def print_field_def print_member_def)
  have "pq_request_base64 (with_defaults (pc_req ?b)) = b64_encode request" "pq_path (with_defaults (pc_req ?b)) = path"
    by (simp_all add: RequestBytes_def with_defaults_def call fresh_request_def entry)
  with protocol_answer [OF assms(7) this(1), of handle] assms(2) s have
    "protocol_Invoke env ?b = Inr [(''ok'', AnyBool True), (''response_base64'', base64_any (serve path request))]"
    by (simp add: protocol_Invoke_def) (simp add: RequestBytes_def call)
  moreover have "(expectShape ''unary'' ?b = None) = (shape \<in> {[], ''unary''})"
    using expect_shape_entry [of ?b "row_entry env row" "''unary''"] by (simp only: entry) (simp add: RequestBytes_def call)
  ultimately have "if shape \<in> {[], ''unary''} \<and> serve path request \<noteq> []
       then InvokeUnary env ?b = Inr (serve path request) else \<exists>e. InvokeUnary env ?b = Inl e"
    using shaped_refused [of "''unary''" ?b env "single_response env ''unary''"]
      single_answer(1) [of "serve path request" env "''unary''"] single_answer(2) [of env "''unary''"]
    by (cases "serve path request = []") (auto simp: InvokeUnary_def shaped_passes)
  with s(1) show ?thesis by blast
qed

text \<open>A row of the catalogue that does not give its shape.  The code means to let every shape
  through; but the missing member is printed as the text of nil, which is not empty, and every
  call of every shape through this row is refused before it reaches the library.\<close>

theorem missing_shape_refused:
  assumes "answers_catalog env (before @ AnyMap row # later)" and "handle \<noteq> 0"
    and "row_key env (AnyMap row) = Some (service_rpc_key service rpc)"
    and "\<forall>x \<in> set later. row_key env x \<noteq> Some (service_rpc_key service rpc)"
    and "obj_get row ''shape'' = None"
  shows "\<exists>s. NewSemanticBridge env (Some True) handle = Inr s
    \<and> (\<forall>opts. let b = protocol_Apply opts (semantic_RPC service rpc s) in
        expectShape ''unary'' b \<noteq> None \<and> (\<exists>e. InvokeUnary env b = Inl e)
        \<and> (\<exists>e. InvokeServerStream env b = Inl e) \<and> (\<exists>e. InvokeClientStream env b = Inl e)
        \<and> (\<exists>e. InvokeBidiStream env b = Inl e))"
proof -
  obtain s where s: "NewSemanticBridge env (Some True) handle = Inr s"
    and call: "semantic_RPC service rpc s = \<lparr>pc_semantic = s,
       pc_req = fresh_request service rpc (en_path (row_entry env row)), pc_entry = Some (row_entry env row)\<rparr>"
    by (rule lookup_row [OF assms(1-4)])
  have "en_shape (row_entry env row) = ''<nil>''"
    using assms(5) by (simp add: row_entry_def print_field_def)
  then have refused: "expectShape shape (protocol_Apply opts (semantic_RPC service rpc s)) \<noteq> None"
    if "shape \<in> {''unary'', ''server_stream'', ''client_stream'', ''bidi_stream''}" for shape opts
    using that expect_shape_entry [of "protocol_Apply opts (semantic_RPC service rpc s)" "row_entry env row" shape]
    by (auto simp: protocol_Apply_def call)
  show ?thesis
    unfolding InvokeUnary_def InvokeServerStream_def InvokeClientStream_def InvokeBidiStream_def Let_def
    by (rule exI [of _ s]) (intro conjI allI s refused shaped_refused; simp)
qed

definition demo_catalog :: "go_object \<Rightarrow> native_env" where
  "demo_catalog row = \<lparr>ne_call = (\<lambda>fn h d.
       if fn = SymProtocolCatalog \<and> d = None
       then Document (AnyMap [(''ok'', AnyBool True), (''rpcs'', AnyList [AnyMap row])])
       else (case d of Some (AnyMap m) \<Rightarrow> Document (AnyMap [(''ok'', AnyBool True),
               (''response_base64'', AnyString (any_string (obj_get m ''request_base64'')))]) | _ \<Rightarrow> NullPointer)),
     ne_wild = (\<lambda>v. 0), ne_text = (\<lambda>v. []), ne_print = (\<lambda>v. [])\<rparr>"

definition demo_row :: go_object where
  "demo_row = [(''service'', AnyString ''axon.Echo''), (''rpc'', AnyString ''Say''), (''path'', AnyString ''/axon.Echo/Say'')]"

lemma demo_catalog_answers: "answers_catalog (demo_catalog row) ([] @ AnyMap row # [])"
  by (simp add: answers_catalog_def demo_catalog_def)

lemma demo_row_key: "row_key (demo_catalog r) (AnyMap (demo_row @ extra)) = Some (service_rpc_key ''axon.Echo'' ''Say'')"
  if "extra \<in> {[], [(''shape'', AnyString shape)]}"
  using that by (auto simp: row_key_def row_entry_def print_field_def print_member_def demo_row_def obj_simps)

theorem semantic_unary_exact_witness:
  "\<exists>s. NewSemanticBridge (demo_catalog (demo_row @ [(''shape'', AnyString ''unary'')])) (Some True) 3 = Inr s
    \<and> InvokeUnary (demo_catalog (demo_row @ [(''shape'', AnyString ''unary'')]))
        (RequestBytes [1, 2] (semantic_RPC ''axon.Echo'' ''Say'' s)) = Inr [1, 2]"
proof -
  let ?row = "demo_row @ [(''shape'', AnyString ''unary'')]"
  have "serves_protocol (demo_catalog ?row) (\<lambda>p b. b)"
    by (auto simp: serves_protocol_def demo_catalog_def base64_any_def)
  moreover have "obj_get ?row ''path'' = Some (AnyString ''/axon.Echo/Say'')"
    "obj_get ?row ''shape'' = Some (AnyString ''unary'')" by (simp_all add: demo_row_def obj_simps)
  moreover have "row_key (demo_catalog ?row) (AnyMap ?row) = Some (service_rpc_key ''axon.Echo'' ''Say'')"
    by (rule demo_row_key) simp
  ultimately show ?thesis
    using semantic_unary_exact [OF demo_catalog_answers [of ?row], of 3 "''axon.Echo''" "''Say''"
        "''/axon.Echo/Say''" "''unary''" "\<lambda>p b. b" "[1, 2]"] by auto
qed

theorem missing_shape_refused_witness:
  "\<exists>s e. NewSemanticBridge (demo_catalog demo_row) (Some True) 3 = Inr s
    \<and> InvokeUnary (demo_catalog demo_row) (protocol_Apply [] (semantic_RPC ''axon.Echo'' ''Say'' s)) = Inl e"
proof -
  have "row_key (demo_catalog demo_row) (AnyMap demo_row) = Some (service_rpc_key ''axon.Echo'' ''Say'')"
    using demo_row_key [of "[]"] by simp
  moreover have "obj_get demo_row ''shape'' = None" by (simp add: demo_row_def obj_simps)
  ultimately show ?thesis
    using missing_shape_refused [OF demo_catalog_answers [of demo_row], of 3 "''axon.Echo''" "''Say''"]
    by (auto simp: Let_def)
qed

end
