(* ===== verification/LibrarySearch.thy ===== *)
theory LibrarySearch
  imports NativeBridge Reconnect JsonCodec
begin

text \<open>
  How the client finds and loads the native library (\<open>axon/dendrite_bridge_cgo.go\<close>): the
  candidate files, their order, the loading with the lookup of every symbol, and closing.  What
  the environment, the file system and the dynamic loader answer are arguments; the paths are
  those of Unix.
\<close>

section \<open>Paths\<close>

text \<open>\<open>filepath.Join\<close> drops the empty elements in front; \<open>filepath.Dir\<close> cleans what is before
  the last separator.\<close>

definition path_Join :: "string list \<Rightarrow> string" where
  "path_Join elems =
     (case dropWhile (\<lambda>e. e = []) elems of [] \<Rightarrow> [] | es \<Rightarrow> path_clean (join_path es))"

definition path_Dir :: "string \<Rightarrow> string" where
  "path_Dir path = path_clean (rev (dropWhile (\<lambda>c. c \<noteq> CHR ''/'') (rev path)))"

section \<open>The environment\<close>

record search_env =
  sn_getenv :: "string \<Rightarrow> string"
  sn_getwd :: "string option"
  sn_exists :: "string \<Rightarrow> bool"
  sn_read :: "string \<Rightarrow> string option"
  sn_goos :: string

text \<open>\<open>dedupeStrings\<close>: the first occurrences, without the empty texts.\<close>

fun dedupe_from :: "string set \<Rightarrow> string list \<Rightarrow> string list" where
  "dedupe_from seen [] = []"
| "dedupe_from seen (v # vs) =
     (if v = [] \<or> v \<in> seen then dedupe_from seen vs else v # dedupe_from (insert v seen) vs)"

definition dedupeStrings :: "string list \<Rightarrow> string list" where
  "dedupeStrings values = dedupe_from {} values"

section \<open>The candidates\<close>

fun root_above :: "search_env \<Rightarrow> nat \<Rightarrow> string \<Rightarrow> string option" where
  "root_above env 0 cursor = None"
| "root_above env (Suc n) cursor =
     (if sn_exists env (path_Join [cursor, ''core'', ''runtime-rs'']) then Some cursor
      else if path_Dir cursor = cursor then None
      else root_above env n (path_Dir cursor))"

definition projectRoot :: "search_env \<Rightarrow> string option" where
  "projectRoot env = (case sn_getwd env of None \<Rightarrow> None | Some cursor \<Rightarrow> root_above env 12 (path_clean cursor))"

definition sdkVersionCandidates :: "search_env \<Rightarrow> string list" where
  "sdkVersionCandidates env =
     (let raw = trim_space (sn_getenv env ''SDK_VERSION'') in
      dedupeStrings ((if raw \<noteq> [] then [raw] else [])
        @ (case projectRoot env of
             None \<Rightarrow> []
           | Some base \<Rightarrow>
               (case sn_read env (path_Join [base, ''VERSION'']) of
                  None \<Rightarrow> []
                | Some content \<Rightarrow>
                    (let parsed = trim_space content in
                     if parsed \<noteq> [] then [hd (split_on (char_of (10 :: nat)) parsed)] else [])))))"

definition lib_so :: string where "lib_so = ''libaxon_dendrite_bridge.so''"
definition lib_dylib :: string where "lib_dylib = ''libaxon_dendrite_bridge.dylib''"
definition lib_dll :: string where "lib_dll = ''axon_dendrite_bridge.dll''"

definition libraryFileNames :: "search_env \<Rightarrow> string list" where
  "libraryFileNames env =
     (let hint = trim_space (go_lower (sn_getenv env ''AXON_DENDRITE_BRIDGE_PLATFORM'')) in
      if hint = ''ios'' then [lib_dylib, lib_so, lib_dll]
      else if hint \<in> {''android'', ''linux'', ''linux-gnu''} then [lib_so, lib_dylib, lib_dll]
      else if hint \<in> {''macos'', ''darwin'', ''mac''} then [lib_dylib, lib_so, lib_dll]
      else if hint \<in> {''windows'', ''win'', ''win32'', ''win64''} then [lib_dll, lib_dylib, lib_so]
      else
        (let os = go_lower (sn_goos env);
             primary = (if has_prefix os ''darwin'' then lib_dylib
                        else if has_prefix os ''windows'' then lib_dll else lib_so) in
         dedupeStrings [primary, lib_dylib, lib_so, lib_dll]))"

definition addLibraryCandidates :: "string list \<Rightarrow> string list \<Rightarrow> string list \<Rightarrow> string list" where
  "addLibraryCandidates results names dirs =
     results @ concat (map (\<lambda>dir. map (\<lambda>name. path_Join [dir, name]) names) dirs)"

definition useLocalSource :: "search_env \<Rightarrow> bool" where
  "useLocalSource env =
     (trim_space (go_lower (sn_getenv env ''AXON_DENDRITE_BRIDGE_SOURCE''))
        \<in> {''1'', ''true'', ''yes'', ''on'', ''local'', ''source''})"

definition homeLibraryCandidates :: "string \<Rightarrow> string list \<Rightarrow> string list \<Rightarrow> string list" where
  "homeLibraryCandidates home names versions =
     (if trim_space home = [] then []
      else
        (let homeRoot = path_clean home;
             dirs = [homeRoot, path_Join [homeRoot, ''native'']]
               @ map (\<lambda>version. path_Join [homeRoot, ''dist'', ''sdk-packs'', version, ''native'']) versions in
         dedupeStrings (addLibraryCandidates [] names dirs)))"

definition target_dir :: "string \<Rightarrow> string list \<Rightarrow> string" where
  "target_dir base parts = path_Join ([base, ''core'', ''runtime-rs'', ''dendrite-bridge'', ''target''] @ parts)"

definition sourceLibraryCandidates :: "search_env \<Rightarrow> string list \<Rightarrow> string list \<Rightarrow> string list" where
  "sourceLibraryCandidates env names versions =
     (if \<not> useLocalSource env then []
      else (case projectRoot env of
        None \<Rightarrow> []
      | Some base \<Rightarrow>
          (let packs = foldl (\<lambda>candidates version. addLibraryCandidates candidates names
                 [path_Join [base, ''dist'', ''sdk-packs'', version, ''native'']]) [] versions;
               target = trim_space (sn_getenv env ''SDK_TARGET'');
               built = addLibraryCandidates packs names
                 [target_dir base [''release''], target_dir base [''debug'']] in
           dedupeStrings (if target \<noteq> []
             then addLibraryCandidates built names
               [target_dir base [target, ''release''], target_dir base [target, ''debug'']]
             else built))))"

definition packageLibraryCandidates :: "search_env \<Rightarrow> string list \<Rightarrow> string list \<Rightarrow> string list" where
  "packageLibraryCandidates env names versions =
     (let here = path_clean (case sn_getwd env of None \<Rightarrow> ''.'' | Some d \<Rightarrow> d);
          dirs = [here, path_Join [here, ''native'']]
            @ map (\<lambda>version. path_Join [here, ''dist'', ''sdk-packs'', version, ''native'']) versions in
      dedupeStrings (addLibraryCandidates [] names dirs))"

definition library_not_found :: any_error where
  "library_not_found = dendrite ''BRIDGE'' (''dendrite bridge library not found; set AXON_DENDRITE_BRIDGE_LIB''
     @ '' or AXON_DENDRITE_BRIDGE_HOME; run with AXON_DENDRITE_BRIDGE_DEBUG=1 for candidate details'')"

definition ResolveDendriteLibraryPath :: "search_env \<Rightarrow> string \<Rightarrow> any_error + string" where
  "ResolveDendriteLibraryPath env explicitPath =
     (if explicitPath \<noteq> [] then Inr explicitPath
      else if sn_getenv env ''AXON_DENDRITE_BRIDGE_LIB'' \<noteq> [] then Inr (sn_getenv env ''AXON_DENDRITE_BRIDGE_LIB'')
      else
        (let names = libraryFileNames env; versions = sdkVersionCandidates env in
         case List.find (sn_exists env)
                (homeLibraryCandidates (sn_getenv env ''AXON_DENDRITE_BRIDGE_HOME'') names versions) of
           Some c \<Rightarrow> Inr c
         | None \<Rightarrow>
             (case List.find (sn_exists env) (sourceLibraryCandidates env names versions) of
                Some c \<Rightarrow> Inr c
              | None \<Rightarrow>
                  (case List.find (sn_exists env) (packageLibraryCandidates env names versions) of
                     Some c \<Rightarrow> Inr c
                   | None \<Rightarrow> Inl library_not_found))))"

section \<open>Loading\<close>

text \<open>The dynamic loader: whether it opens a file and whether the file exports a symbol, and the
  text of its last error.  The calls to it are recorded.\<close>

record loader =
  lo_open :: "string \<Rightarrow> bool"
  lo_sym :: "string \<Rightarrow> string \<Rightarrow> bool"
  lo_close :: int
  lo_error :: string

datatype loader_call = Dlopen string | Dlsym string | Dlclose

definition required_symbols :: "string list" where
  "required_symbols =
     [''axon_dendrite_client_open_json'', ''axon_dendrite_client_close_json'', ''axon_dendrite_unary_call_json'',
      ''axon_dendrite_server_stream_call_json'', ''axon_dendrite_client_stream_call_json'',
      ''axon_dendrite_bidi_stream_call_json'', ''axon_dendrite_descriptor_bound_invoke_json'',
      ''axon_dendrite_protocol_catalog_json'', ''axon_dendrite_invoke_protocol_json'',
      ''axon_dendrite_protocol_coverage_json'', ''axon_dendrite_string_free'',
      ''axon_dendrite_server_stream_open_json'', ''axon_dendrite_stream_next_json'',
      ''axon_dendrite_stream_close_json'', ''axon_dendrite_bidi_stream_open_json'',
      ''axon_dendrite_bidi_stream_send_json'', ''axon_dendrite_descriptor_bound_stream_open_json'',
      ''axon_dendrite_descriptor_bound_bidi_open_json'', ''axon_dendrite_descriptor_bound_bidi_send_json'',
      ''axon_dendrite_descriptor_bound_bidi_recv_json'', ''axon_dendrite_descriptor_bound_bidi_close_json'']"

definition symbol_missing :: "loader \<Rightarrow> string \<Rightarrow> any_error" where
  "symbol_missing ld name =
     dendrite ''SYMBOL_NOT_FOUND''
       (if name = ''axon_dendrite_descriptor_bound_invoke_json''
        then ''dendrite native library does not export `axon_dendrite_descriptor_bound_invoke_json`; this symbol ''
          @ ''is required by the canonical runtime contract. Rebuild core/runtime-rs/dendrite-bridge against the current ''
          @ ''source tree and republish the sdk-pack.''
        else ''dlsym failed for '' @ name @ '': '' @ lo_error ld)"

text \<open>The lookups in their order; the first missing symbol closes the library.\<close>

fun lookup_symbols :: "loader \<Rightarrow> string \<Rightarrow> string list \<Rightarrow> loader_call list \<times> any_error option" where
  "lookup_symbols ld lib [] = ([], None)"
| "lookup_symbols ld lib (name # names) =
     (if lo_sym ld lib name
      then (case lookup_symbols ld lib names of (calls, e) \<Rightarrow> (Dlsym name # calls, e))
      else ([Dlsym name, Dlclose], Some (symbol_missing ld name)))"

record dendrite_bridge =
  db_lib_path :: string
  db_loaded :: bool

definition OpenDendriteBridge ::
  "search_env \<Rightarrow> loader \<Rightarrow> string \<Rightarrow> loader_call list \<times> (any_error + dendrite_bridge)" where
  "OpenDendriteBridge env ld libPath =
     (case ResolveDendriteLibraryPath env libPath of
        Inl e \<Rightarrow> ([], Inl e)
      | Inr resolved \<Rightarrow>
          if \<not> lo_open ld resolved
          then ([Dlopen resolved], Inl (dendrite ''BRIDGE'' (''dlopen failed for '' @ resolved @ '': '' @ lo_error ld)))
          else (case lookup_symbols ld resolved required_symbols of
            (calls, Some e) \<Rightarrow> (Dlopen resolved # calls, Inl e)
          | (calls, None) \<Rightarrow> (Dlopen resolved # calls, Inr \<lparr>db_lib_path = resolved, db_loaded = True\<rparr>)))"

text \<open>\<open>None\<close> is a nil bridge.\<close>

definition CloseLibrary ::
  "loader \<Rightarrow> dendrite_bridge option \<Rightarrow> loader_call list \<times> dendrite_bridge option \<times> any_error option" where
  "CloseLibrary ld b =
     (case b of
        None \<Rightarrow> ([], None, None)
      | Some bridge \<Rightarrow>
          if \<not> db_loaded bridge then ([], Some bridge, None)
          else ([Dlclose], Some (bridge\<lparr>db_loaded := False\<rparr>),
                if lo_close ld \<noteq> 0 then Some (dendrite ''BRIDGE'' (''dlclose failed: '' @ lo_error ld)) else None))"

end
