(* ===== verification/RuntimeServer.thy ===== *)
theory RuntimeServer
  imports LibrarySearch
begin

text \<open>
  Connecting to a runtime or starting one (\<open>axon/runtime_server.go\<close>): the reading of an
  endpoint, the wait for a port, and the handle with the process behind it.  What the operating
  system answers is an argument; what is asked of it is recorded in order.
\<close>

section \<open>Endpoints\<close>

definition DefaultAxonPort :: int where "DefaultAxonPort = 50051"

definition has_char :: "char \<Rightarrow> string \<Rightarrow> bool" where
  "has_char c s = (c \<in> set s)"

text \<open>\<open>net.JoinHostPort\<close> and \<open>net.SplitHostPort\<close>, \<open>None\<close> for its errors.\<close>

definition JoinHostPort :: "string \<Rightarrow> string \<Rightarrow> string" where
  "JoinHostPort host port = (if has_char CHR '':'' host then ''['' @ host @ '']:'' @ port else host @ '':'' @ port)"

text \<open>The parts around the last separator.\<close>

definition cut_last :: "char \<Rightarrow> string \<Rightarrow> (string \<times> string) option" where
  "cut_last c s = map_option (\<lambda>(a, b). (rev b, rev a)) (cut c (rev s))"

definition SplitHostPort :: "string \<Rightarrow> (string \<times> string) option" where
  "SplitHostPort hostport =
     (case cut_last CHR '':'' hostport of
        None \<Rightarrow> None
      | Some (front, port) \<Rightarrow>
          if has_prefix hostport ''[''
          then (case cut CHR '']'' hostport of
                  None \<Rightarrow> None
                | Some (before, behind) \<Rightarrow>
                    if front \<noteq> before @ '']'' then None
                    else if has_char CHR ''['' (tl hostport) \<or> has_char CHR '']'' behind then None
                    else Some (tl before, port))
          else if has_char CHR '':'' front then None
          else if has_char CHR ''['' hostport \<or> has_char CHR '']'' hostport then None
          else Some (front, port))"

text \<open>\<open>fmt.Sscanf\<close> with the one verb \<open>%d\<close>: white space but no line break, a sign, digits; what
  follows is not read.  The number has to fit an \<open>int\<close> of 64 bits.\<close>

definition signed_digits :: "string \<Rightarrow> bool \<times> string" where
  "signed_digits s =
     (if has_prefix s ''-'' then (True, takeWhile is_digit (tl s))
      else if has_prefix s ''+'' then (False, takeWhile is_digit (tl s))
      else (False, takeWhile is_digit s))"

definition scan_int :: "string \<Rightarrow> int option" where
  "scan_int text =
     (case signed_digits (strip_lead (filter (\<lambda>w. w \<noteq> [char_of (10 :: nat)]) ws_seqs) text) of
        (negative, ds) \<Rightarrow>
          if ds = [] then None
          else (let n = (if negative then - int (dec_val ds) else int (dec_val ds)) in
                if - 9223372036854775808 \<le> n \<and> n < 9223372036854775808 then Some n else None))"

definition endpoint_authority :: "string \<Rightarrow> string" where
  "endpoint_authority endpoint =
     (let raw = trim_space endpoint in
      hd (split_on CHR ''/''
        (if has_prefix raw ''axon://'' then trim_prefix raw ''axon://''
         else trim_prefix (trim_prefix raw ''https://'') ''http://'')))"

definition parseRuntimeEndpoint :: "string \<Rightarrow> string \<times> int" where
  "parseRuntimeEndpoint endpoint =
     (let authority = endpoint_authority endpoint in
      if authority = [] \<or> authority = ''localhost'' then (''127.0.0.1'', DefaultAxonPort)
      else (case SplitHostPort authority of
              None \<Rightarrow> (authority, DefaultAxonPort)
            | Some (host, portText) \<Rightarrow>
                (case scan_int portText of
                   None \<Rightarrow> (authority, DefaultAxonPort)
                 | Some port \<Rightarrow> ((if host = ''localhost'' then ''127.0.0.1'' else host), port))))"

section \<open>What the operating system is asked\<close>

text \<open>A dial is recorded with its address and whether it succeeded.\<close>

datatype server_event = DialTo string bool | MkdirAll string | OpenLog string | CloseLog
  | StartProcess string "string list" | KillProcess | SignalTerm | ReapProcess

text \<open>\<open>sv_polls\<close> are the turns of the wait: the time at its start and whether the dial succeeds;
  \<open>sv_show\<close> is the text of a duration.\<close>

record server_env =
  sv_search :: search_env
  sv_look_path :: "string \<Rightarrow> string option"
  sv_home :: "string option"
  sv_temp :: string
  sv_free_port :: "any_error + int"
  sv_mkdir :: "string \<Rightarrow> string option"
  sv_open_log :: "string \<Rightarrow> string option"
  sv_start :: "string option"
  sv_environ :: "string list"
  sv_wait_from :: int
  sv_polls :: "(int \<times> bool) list"
  sv_show :: "int \<Rightarrow> string"

abbreviation sv_getenv :: "server_env \<Rightarrow> string \<Rightarrow> string" where
  "sv_getenv env \<equiv> sn_getenv (sv_search env)"

text \<open>\<open>None\<close> when the list of polls is too short for the deadline.\<close>

fun wait_polls :: "int \<Rightarrow> string \<Rightarrow> (int \<times> bool) list \<Rightarrow> (server_event list \<times> bool) option" where
  "wait_polls deadline address [] = None"
| "wait_polls deadline address ((now, reached) # polls) =
     (if \<not> now < deadline then Some ([], False)
      else if reached then Some ([DialTo address reached], True)
      else map_option (\<lambda>(events, ready). (DialTo address reached # events, ready)) (wait_polls deadline address polls))"

definition waitForRuntimePort :: "server_env \<Rightarrow> string \<Rightarrow> int \<Rightarrow> int \<Rightarrow> (server_event list \<times> bool) option" where
  "waitForRuntimePort env host port timeout =
     wait_polls (sv_wait_from env + timeout) (JoinHostPort host (dec_int port)) (sv_polls env)"

definition runtimeLogDir :: "server_env \<Rightarrow> string" where
  "runtimeLogDir env =
     path_Join [(case sv_home env of None \<Rightarrow> sv_temp env
                 | Some home \<Rightarrow> if trim_space home = [] then sv_temp env else home), ''.axon'', ''logs'']"

definition runtimeBinary :: "server_env \<Rightarrow> any_error + string" where
  "runtimeBinary env =
     (let named = trim_space (sv_getenv env ''AXON_RUNTIME_BIN'') in
      if named \<noteq> [] \<and> sn_exists (sv_search env) named then Inr named
      else (case sv_look_path env ''axon-runtime'' of
              Some binary \<Rightarrow> Inr binary
            | None \<Rightarrow> Inl (dendrite ''BRIDGE'' ''axon-runtime not found; set AXON_RUNTIME_BIN or add it to PATH'')))"

section \<open>Starting and stopping\<close>

record server_handle =
  sh_endpoint :: string
  sh_process :: bool
  sh_log_file :: string

record start_options =
  st_endpoint :: string
  st_log_file :: string
  st_insecure :: "bool option"
  st_timeout :: int

definition second :: int where "second = 1000000000"

definition start_timeout :: "start_options \<Rightarrow> int" where
  "start_timeout options1 = (if st_timeout options1 \<le> 0 then 10 * second else st_timeout options1)"

text \<open>Connecting to the runtime of an endpoint.\<close>

definition connect_server ::
  "server_env \<Rightarrow> string \<Rightarrow> int \<Rightarrow> (server_event list \<times> (any_error + server_handle)) option" where
  "connect_server env endpoint timeout =
     (case parseRuntimeEndpoint endpoint of (host, port) \<Rightarrow>
        map_option (\<lambda>(events, ready).
          (events, if ready then Inr \<lparr>sh_endpoint = endpoint, sh_process = False, sh_log_file = []\<rparr>
                   else Inl (dendrite ''BRIDGE'' (''cannot reach runtime at '' @ endpoint))))
          (waitForRuntimePort env host port timeout))"

text \<open>Starting the binary on a port, with its log.\<close>

definition spawn_server ::
  "server_env \<Rightarrow> start_options \<Rightarrow> string \<Rightarrow> string \<Rightarrow> int \<Rightarrow> int
    \<Rightarrow> (server_event list \<times> (any_error + server_handle)) option" where
  "spawn_server env options1 binary logFile port timeout =
     (let host = ''127.0.0.1''; bindAddress = JoinHostPort host (dec_int port);
          enforceMTLS = (if st_insecure options1 = Some False then ''true'' else ''false'');
          started = [MkdirAll (path_Dir logFile), OpenLog logFile,
            StartProcess binary (sv_environ env @ [''AXON_BIND='' @ bindAddress, ''AXON_ENFORCE_MTLS='' @ enforceMTLS]),
            CloseLog] in
      case sv_mkdir env (path_Dir logFile) of
        Some err \<Rightarrow> Some ([MkdirAll (path_Dir logFile)], Inl (dendrite ''IO'' (''create runtime log directory: '' @ err)))
      | None \<Rightarrow>
          (case sv_open_log env logFile of
             Some err \<Rightarrow> Some ([MkdirAll (path_Dir logFile), OpenLog logFile],
               Inl (dendrite ''IO'' (''open runtime log '' @ logFile @ '': '' @ err)))
           | None \<Rightarrow>
               (case sv_start env of
                  Some err \<Rightarrow> Some (started, Inl (dendrite ''BRIDGE'' (''start axon-runtime: '' @ err)))
                | None \<Rightarrow>
                    map_option (\<lambda>(events, ready).
                      if ready
                      then (started @ events,
                        Inr \<lparr>sh_endpoint = ''http://'' @ bindAddress, sh_process = True, sh_log_file = logFile\<rparr>)
                      else (started @ events @ [KillProcess],
                        Inl (dendrite ''BRIDGE'' (''axon-runtime not ready within '' @ sv_show env timeout @ '' on ''
                          @ bindAddress @ '' (see '' @ logFile @ '')''))))
                      (waitForRuntimePort env host port timeout))))"

definition StartServerWithOptions ::
  "server_env \<Rightarrow> start_options \<Rightarrow> (server_event list \<times> (any_error + server_handle)) option" where
  "StartServerWithOptions env options1 =
     (let timeout = start_timeout options1;
          given = trim_space (st_endpoint options1);
          endpoint = (if given = [] then trim_space (sv_getenv env ''AXON_ENDPOINT'') else given) in
      if endpoint \<noteq> [] then connect_server env endpoint timeout
      else (case sv_free_port env of
        Inl e \<Rightarrow> Some ([], Inl e)
      | Inr port \<Rightarrow>
          (case runtimeBinary env of
             Inl e \<Rightarrow> Some ([], Inl e)
           | Inr binary \<Rightarrow>
               (let wanted = trim_space (st_log_file options1) in
                spawn_server env options1 binary
                  (if wanted = [] then path_Join [runtimeLogDir env, ''axon-runtime.log''] else wanted) port timeout))))"

definition StartServer ::
  "server_env \<Rightarrow> string \<Rightarrow> string \<Rightarrow> bool option \<Rightarrow> (server_event list \<times> (any_error + server_handle)) option" where
  "StartServer env endpoint logFile insecure =
     StartServerWithOptions env
       \<lparr>st_endpoint = endpoint, st_log_file = logFile, st_insecure = insecure, st_timeout = 0\<rparr>"

text \<open>\<open>exits\<close>: whether the process ends within the five seconds after the signal.  \<open>None\<close> is a nil
  handle.\<close>

definition Stop :: "bool \<Rightarrow> server_handle option \<Rightarrow> server_event list \<times> server_handle option" where
  "Stop exits h =
     (case h of
        None \<Rightarrow> ([], None)
      | Some handle \<Rightarrow>
          if \<not> sh_process handle then ([], Some handle)
          else ([SignalTerm] @ (if exits then [ReapProcess] else [KillProcess, ReapProcess]),
                Some (handle\<lparr>sh_process := False\<rparr>)))"

end
