(* ===== verification/LoadingProperties.thy ===== *)
theory LoadingProperties
  imports LibrarySearch "HOL-Library.Multiset" "HOL-Library.Sublist"
begin

text \<open>
  The file that is loaded is the first that exists in one list of candidates, the names are the
  three of every platform in some order, and a library that is not kept is closed once.
\<close>

section \<open>Names and candidates\<close>

lemma find_dedupe_from:
  "\<lbrakk>\<forall>v \<in> seen. \<not> P v; \<not> P []\<rbrakk> \<Longrightarrow> List.find P (dedupe_from seen vs) = List.find P vs"
  by (induction vs arbitrary: seen) auto

lemma find_dedupe: "\<not> P [] \<Longrightarrow> List.find P (dedupeStrings vs) = List.find P vs"
  by (simp add: dedupeStrings_def find_dedupe_from)

lemma find_append: "List.find P (xs @ ys) = (case List.find P xs of None \<Rightarrow> List.find P ys | Some x \<Rightarrow> Some x)"
  by (induction xs) auto

lemma foldl_candidates:
  "foldl (\<lambda>cs v. addLibraryCandidates cs names [f v]) start vs = addLibraryCandidates start names (map f vs)"
  by (induction vs arbitrary: start) (simp_all add: addLibraryCandidates_def)

lemma dedupe_from_distinct:
  "distinct (dedupe_from seen vs)" "set (dedupe_from seen vs) = set vs - seen - {[]}"
  by (induction vs arbitrary: seen) auto

lemma dedupeStrings_set: "distinct (dedupeStrings vs)" "set (dedupeStrings vs) = set vs - {[]}"
  by (simp_all add: dedupeStrings_def dedupe_from_distinct)

lemma library_names_given: "lib_so \<noteq> []" "lib_dylib \<noteq> []" "lib_dll \<noteq> []"
    "lib_so \<noteq> lib_dylib" "lib_so \<noteq> lib_dll" "lib_dylib \<noteq> lib_dll"
  by (simp_all add: lib_so_def lib_dylib_def lib_dll_def)

text \<open>Whatever the hint and the system, the names tried are the three of the platforms, each once.\<close>

theorem library_names_complete: "mset (libraryFileNames env) = {#lib_so, lib_dylib, lib_dll#}"
proof -
  have "distinct (libraryFileNames env) \<and> set (libraryFileNames env) = {lib_so, lib_dylib, lib_dll}"
    using library_names_given by (auto simp: libraryFileNames_def Let_def dedupeStrings_set)
  moreover have "mset [lib_so, lib_dylib, lib_dll] = {#lib_so, lib_dylib, lib_dll#}" by simp
  moreover have "distinct [lib_so, lib_dylib, lib_dll]" using library_names_given by auto
  ultimately show ?thesis
    by (metis list.simps(15) empty_set set_eq_iff_mset_eq_distinct)
qed

text \<open>The directories in the order the code tries them.\<close>

definition pack_dirs :: "string \<Rightarrow> string list \<Rightarrow> string list" where
  "pack_dirs base versions = map (\<lambda>version. path_Join [base, ''dist'', ''sdk-packs'', version, ''native'']) versions"

definition search_dirs :: "search_env \<Rightarrow> string list" where
  "search_dirs env =
     (let versions = sdkVersionCandidates env; home = sn_getenv env ''AXON_DENDRITE_BRIDGE_HOME'';
          target = trim_space (sn_getenv env ''SDK_TARGET'');
          around = (\<lambda>d. [d, path_Join [d, ''native'']] @ pack_dirs d versions) in
      (if trim_space home = [] then [] else around (path_clean home))
      @ (if useLocalSource env
         then (case projectRoot env of
                 None \<Rightarrow> []
               | Some base \<Rightarrow> pack_dirs base versions
                   @ [target_dir base [''release''], target_dir base [''debug'']]
                   @ (if target = [] then []
                      else [target_dir base [target, ''release''], target_dir base [target, ''debug'']]))
         else [])
      @ around (path_clean (case sn_getwd env of None \<Rightarrow> ''.'' | Some d \<Rightarrow> d)))"

definition candidates :: "search_env \<Rightarrow> string list" where
  "candidates env = concat (map (\<lambda>d. map (\<lambda>n. path_Join [d, n]) (libraryFileNames env)) (search_dirs env))"

lemma candidates_add: "addLibraryCandidates [] names dirs = concat (map (\<lambda>d. map (\<lambda>n. path_Join [d, n]) names) dirs)"
  by (simp add: addLibraryCandidates_def)

lemma add_candidates_append:
  "addLibraryCandidates (addLibraryCandidates start names ds) names es = addLibraryCandidates start names (ds @ es)"
  by (simp add: addLibraryCandidates_def)

text \<open>The file that is resolved: the one named explicitly, the one of the environment variable, or
  the first candidate that exists; without any of them the search fails.\<close>

theorem library_path_exact:
  assumes "\<not> sn_exists env []"
  shows "ResolveDendriteLibraryPath env explicit =
    (if explicit \<noteq> [] then Inr explicit
     else if sn_getenv env ''AXON_DENDRITE_BRIDGE_LIB'' \<noteq> [] then Inr (sn_getenv env ''AXON_DENDRITE_BRIDGE_LIB'')
     else (case List.find (sn_exists env) (candidates env) of
             None \<Rightarrow> Inl library_not_found
           | Some c \<Rightarrow> Inr c))"
proof -
  let ?find = "List.find (sn_exists env)" and ?names = "libraryFileNames env" and ?v = "sdkVersionCandidates env"
  let ?around = "\<lambda>d. [d, path_Join [d, ''native'']] @ pack_dirs d ?v"
  have home: "?find (homeLibraryCandidates home ?names ?v)
      = ?find (addLibraryCandidates [] ?names (if trim_space home = [] then [] else ?around (path_clean home)))" for home
    by (simp add: homeLibraryCandidates_def Let_def find_dedupe assms pack_dirs_def addLibraryCandidates_def)
  have package: "?find (packageLibraryCandidates env ?names ?v)
      = ?find (addLibraryCandidates [] ?names (?around (path_clean (case sn_getwd env of None \<Rightarrow> ''.'' | Some d \<Rightarrow> d))))"
    by (simp add: packageLibraryCandidates_def Let_def find_dedupe assms pack_dirs_def)
  let ?target = "trim_space (sn_getenv env ''SDK_TARGET'')"
  have source: "?find (sourceLibraryCandidates env ?names ?v)
      = ?find (addLibraryCandidates [] ?names (if useLocalSource env
         then (case projectRoot env of
                 None \<Rightarrow> []
               | Some base \<Rightarrow> pack_dirs base ?v
                   @ [target_dir base [''release''], target_dir base [''debug'']]
                   @ (if ?target = [] then []
                      else [target_dir base [?target, ''release''], target_dir base [?target, ''debug'']]))
         else []))"
    by (simp add: sourceLibraryCandidates_def Let_def find_dedupe assms foldl_candidates add_candidates_append
        pack_dirs_def split: option.split) (simp add: addLibraryCandidates_def)
  show ?thesis
    by (simp add: ResolveDendriteLibraryPath_def Let_def home source package candidates_def search_dirs_def
        candidates_add find_append split: option.split)
qed

section \<open>Loading\<close>

lemma lookup_symbols_None:
  "snd (lookup_symbols ld lib names) = None \<longleftrightarrow> (\<forall>s \<in> set names. lo_sym ld lib s)"
  by (induction names) (auto split: prod.splits)

lemma lookup_symbols_calls:
  "lookup_symbols ld lib names = (calls, e) \<Longrightarrow>
     (\<exists>looked. calls = map Dlsym looked @ (if e = None then [] else [Dlclose]) \<and> prefix looked names)"
proof (induction names arbitrary: calls)
  case (Cons s names)
  show ?case
  proof (cases "lo_sym ld lib s")
    case True
    with Cons.prems obtain rest1 where r: "lookup_symbols ld lib names = (rest1, e)" "calls = Dlsym s # rest1"
      by (auto split: prod.splits)
    from Cons.IH [OF r(1)] obtain looked where
      "rest1 = map Dlsym looked @ (if e = None then [] else [Dlclose])" "prefix looked names" by blast
    with r(2) show ?thesis by (intro exI [of _ "s # looked"]) simp
  next
    case False
    with Cons.prems show ?thesis by (intro exI [of _ "[s]"]) auto
  qed
qed simp

text \<open>A bridge is returned exactly when the file is found, opens and exports every symbol; a library
  that was opened for a bridge that is not returned is closed once, after the last lookup, and
  the library of a bridge that is returned stays open.\<close>

theorem loading_balanced:
  assumes "OpenDendriteBridge env ld libPath = (calls, res)"
  shows "((\<exists>b. res = Inr b \<and> db_loaded b) \<longleftrightarrow> (\<exists>lib. ResolveDendriteLibraryPath env libPath = Inr lib \<and> lo_open ld lib
      \<and> (\<forall>s \<in> set required_symbols. lo_sym ld lib s)))
    \<and> (\<exists>opened looked. calls = opened @ map Dlsym looked
        @ (if (\<exists>lib. opened = [Dlopen lib] \<and> lo_open ld lib) \<and> isl res then [Dlclose] else [])
      \<and> (opened = [] \<or> (\<exists>lib. opened = [Dlopen lib])))"
proof (cases "ResolveDendriteLibraryPath env libPath")
  case (Inl e)
  with assms show ?thesis by (auto simp: OpenDendriteBridge_def)
next
  case (Inr lib)
  obtain looks failed where look: "lookup_symbols ld lib required_symbols = (looks, failed)"
    by (cases "lookup_symbols ld lib required_symbols")
  obtain looked where calls: "looks = map Dlsym looked @ (if failed = None then [] else [Dlclose])"
    using lookup_symbols_calls [OF look] by blast
  have every: "(failed = None) = (\<forall>s \<in> set required_symbols. lo_sym ld lib s)"
    using lookup_symbols_None [of ld lib required_symbols] look by simp
  note opened = assms [unfolded OpenDendriteBridge_def Inr sum.case look prod.case]
  have "(\<exists>b. res = Inr b \<and> db_loaded b) \<longleftrightarrow> lo_open ld lib \<and> failed = None"
    using opened by (auto split: if_splits option.splits)
  moreover have "\<exists>opened looked. calls = opened @ map Dlsym looked
        @ (if (\<exists>lib. opened = [Dlopen lib] \<and> lo_open ld lib) \<and> isl res then [Dlclose] else [])
      \<and> (opened = [] \<or> (\<exists>lib. opened = [Dlopen lib]))"
    by (rule exI [of _ "[Dlopen lib]"], rule exI [of _ "if lo_open ld lib then looked else []"])
       (use opened calls in \<open>auto split: if_splits option.splits\<close>)
  ultimately show ?thesis using Inr every by auto
qed

text \<open>Closing twice closes the library once.\<close>

lemma close_library_once:
  assumes "CloseLibrary ld b = (calls, b', e)" and "CloseLibrary ld b' = (calls2, b'', e2)"
  shows "calls2 = []" and "b'' = b'" and "e2 = None"
  using assms by (auto simp: CloseLibrary_def split: option.splits if_splits)

end
