(* ===== verification/ServerProperties.thy ===== *)
theory ServerProperties
  imports RuntimeServer LoadingProperties UraProperties
begin

text \<open>
  An endpoint that is written is read back, and a start leaves no process behind when it fails.
\<close>

section \<open>Endpoints\<close>

lemma digit_facts:
  assumes "is_digit c"
  shows "c \<notin> set '':[]/+-''" "solid c"
proof -
  show "c \<notin> set '':[]/+-''" using assms by (auto simp: is_digit_def)
  have "c \<in> set (dec_nat (of_char c - 48))"
    using assms by (subst dec_nat.simps) (auto simp: is_digit_def)
  then show "solid c" using dec_nat_solid by (auto simp: list_all_iff)
qed

lemma dec_nat_facts:
  "dec_nat n \<noteq> []" "c \<in> set (dec_nat n) \<Longrightarrow> is_digit c" "dec_val (dec_nat n) = n"
  using dec_nat_digits [of n] by (auto simp: list_all_iff)

lemma scan_dec:
  assumes "n < 2 ^ 63"
  shows "scan_int (dec_nat n) = Some (int n)"
proof -
  let ?d = "dec_nat n" and ?ws = "filter (\<lambda>w. w \<noteq> [char_of (10 :: nat)]) ws_seqs"
  have "trimmed ?d" by (simp add: solid_no_lead dec_nat_solid)
  then have "no_lead ?ws ?d" by (auto simp: trimmed_def no_lead_def)
  then have strip: "strip_lead ?ws ?d = ?d" by (rule no_lead_strip)
  have digits: "\<forall>c \<in> set ?d. is_digit c" using dec_nat_facts(2) by blast
  then have "takeWhile is_digit ?d = ?d" by simp
  moreover have "\<not> has_prefix ?d ''-''" "\<not> has_prefix ?d ''+''"
    using digits dec_nat_facts(1) [of n] digit_facts(1) by (cases ?d; auto simp: has_prefix_def)+
  ultimately have "signed_digits ?d = (False, ?d)" by (simp add: signed_digits_def)
  moreover have "int n < 9223372036854775808" using assms by simp
  ultimately show ?thesis
    by (simp add: scan_int_def strip dec_nat_facts)
qed

lemma split_host_port_join:
  assumes "set host \<inter> set ''[]'' = {}" and "set port \<inter> set '':[]'' = {}"
  shows "SplitHostPort (JoinHostPort host port) = Some (host, port)"
proof -
  have behind: "cut_last CHR '':'' (front @ CHR '':'' # port) = Some (front, port)" for front
    using assms(2) by (simp add: cut_last_def cut_append)
  show ?thesis
  proof (cases "has_char CHR '':'' host")
    case True
    then have join: "JoinHostPort host port = (CHR ''['' # host @ '']'') @ CHR '':'' # port"
      by (simp add: JoinHostPort_def)
    have "cut CHR '']'' ((CHR ''['' # host) @ CHR '']'' # CHR '':'' # port) = Some (CHR ''['' # host, CHR '':'' # port)"
      by (rule cut_append) (use assms(1) in auto)
    then have "cut CHR '']'' (JoinHostPort host port) = Some (CHR ''['' # host, CHR '':'' # port)"
      by (simp add: join)
    moreover have "cut_last CHR '':'' (JoinHostPort host port) = Some (CHR ''['' # host @ '']'', port)"
      unfolding join by (rule behind)
    moreover have "has_prefix (JoinHostPort host port) ''[''" by (simp add: join has_prefix_def)
    ultimately show ?thesis
      using assms by (simp add: SplitHostPort_def) (auto simp: join has_char_def)
  next
    case False
    then have join: "JoinHostPort host port = host @ CHR '':'' # port" by (simp add: JoinHostPort_def)
    have "\<not> has_prefix (JoinHostPort host port) ''[''"
      unfolding join using assms(1) by (cases host) (auto simp: has_prefix_def)
    moreover have "cut_last CHR '':'' (JoinHostPort host port) = Some (host, port)"
      unfolding join by (rule behind)
    ultimately show ?thesis
      using False assms by (auto simp: SplitHostPort_def join has_char_def)
  qed
qed

text \<open>C32: an endpoint written for a host without brackets or slashes and a port below 2 to the 63,
  as \<open>http://\<close> with the host and the port joined the way \<open>net\<close> joins them, is read back as that
  host and that port, IPv6 addresses included; only the name of the local host becomes its address.\<close>

theorem endpoint_roundtrip:
  assumes "set host \<inter> set ''[]/'' = {}" and "port < 2 ^ 63"
  shows "parseRuntimeEndpoint (''http://'' @ JoinHostPort host (dec_nat port))
    = ((if host = ''localhost'' then ''127.0.0.1'' else host), int port)"
proof -
  let ?a = "JoinHostPort host (dec_nat port)"
  have digits: "set (dec_nat port) \<inter> set '':[]/'' = {}"
    using dec_nat_facts(2) digit_facts(1) by auto
  have last_a: "?a = butlast ?a @ [last (dec_nat port)]" "?a \<noteq> []" "last ?a = last (dec_nat port)"
    using dec_nat_facts(1) [of port] by (auto simp: JoinHostPort_def butlast_append)
  have "solid (last (dec_nat port))"
    using dec_nat_facts(1,2) digit_facts(2) last_in_set by blast
  moreover have "solid CHR ''h''" by (simp add: solid_def ws_seqs_def ws_ascii_def ws_unicode_def)
  ultimately have "trimmed (CHR ''h'' # (''ttp://'' @ butlast ?a) @ [last (dec_nat port)])"
    by (intro trimmed_ends)
  also have "CHR ''h'' # (''ttp://'' @ butlast ?a) @ [last (dec_nat port)] = ''http://'' @ ?a"
    using last_a(1) by simp
  finally have "trimmed (''http://'' @ ?a)" .
  then have "trim_space (''http://'' @ ?a) = ''http://'' @ ?a" by (rule trim_space_trimmed)
  moreover have "CHR ''/'' \<notin> set ?a" using assms(1) digits by (auto simp: JoinHostPort_def)
  ultimately have "endpoint_authority (''http://'' @ ?a) = ?a"
    by (simp add: endpoint_authority_def has_prefix_def trim_prefix_def split_on_no_sep)
  moreover have "CHR '':'' \<in> set ?a" by (auto simp: JoinHostPort_def)
  then have "?a \<noteq> ''localhost''" by auto
  moreover have "SplitHostPort ?a = Some (host, dec_nat port)"
    by (rule split_host_port_join) (use assms(1) digits in auto)
  ultimately show ?thesis
    using last_a(2) by (simp add: parseRuntimeEndpoint_def scan_dec [OF assms(2)])
qed

theorem endpoint_roundtrip_witness:
  "parseRuntimeEndpoint (''http://'' @ JoinHostPort ''::1'' (dec_nat 50051)) = (''::1'', 50051)
   \<and> parseRuntimeEndpoint (''http://'' @ JoinHostPort ''localhost'' (dec_nat 80)) = (''127.0.0.1'', 80)"
  using endpoint_roundtrip [of "''::1''" 50051] endpoint_roundtrip [of "''localhost''" 80] by simp

text \<open>An IPv6 address without a port keeps its brackets, and gets a second pair when it is dialled;
  the number behind the colon is not compared with the range of ports, and what follows it is
  not read.\<close>

lemma endpoint_limits:
  "parseRuntimeEndpoint ''http://[::1]'' = (''[::1]'', DefaultAxonPort)"
  "JoinHostPort ''[::1]'' port = ''[[::1]]:'' @ port"
  "parseRuntimeEndpoint ''a:8x'' = (''a'', 8)"
proof -
  have bracket: "endpoint_authority ''http://[::1]'' = ''[::1]''" "SplitHostPort ''[::1]'' = None"
    by code_simp+
  have number: "endpoint_authority ''a:8x'' = ''a:8x''" "SplitHostPort ''a:8x'' = Some (''a'', ''8x'')"
    "scan_int ''8x'' = Some 8"
    by code_simp+
  show "parseRuntimeEndpoint ''http://[::1]'' = (''[::1]'', DefaultAxonPort)"
    by (simp only: parseRuntimeEndpoint_def bracket Let_def option.case) simp
  show "parseRuntimeEndpoint ''a:8x'' = (''a'', 8)"
    by (simp only: parseRuntimeEndpoint_def number Let_def option.case prod.case) simp
qed (simp add: JoinHostPort_def has_char_def)

section \<open>Starting\<close>

lemma wait_polls_returns:
  "\<exists>p \<in> set polls. \<not> fst p < deadline \<Longrightarrow> wait_polls deadline address polls \<noteq> None"
proof (induction polls)
  case (Cons p polls)
  then show ?case by (cases p) auto
qed simp

text \<open>The dials of a start that found its port: all went to one address, before the deadline, the
  last one succeeded and those before it failed.\<close>

definition dials :: "server_event \<Rightarrow> bool" where
  "dials ev = (case ev of DialTo a b \<Rightarrow> True | _ \<Rightarrow> False)"

lemma dials_simps [simp]:
  "dials (DialTo a b)" "\<not> dials (StartProcess p e)" "\<not> dials (MkdirAll d)" "\<not> dials (OpenLog l)"
  "\<not> dials CloseLog" "\<not> dials KillProcess"
  by (simp_all add: dials_def)

definition answered :: "int \<Rightarrow> (int \<times> bool) list \<Rightarrow> string \<Rightarrow> server_event list \<Rightarrow> bool" where
  "answered deadline polls address events \<longleftrightarrow>
     (\<exists>n < length polls. filter dials events = replicate n (DialTo address False) @ [DialTo address True]
        \<and> map snd (take n polls) = replicate n False \<and> snd (polls ! n) \<and> fst (polls ! n) < deadline)"

lemma wait_polls_dials: "wait_polls deadline address polls = Some (events, ready) \<Longrightarrow>
    filter dials events = events \<and> (\<forall>ev \<in> set events. \<exists>b. ev = DialTo address b)
      \<and> (ready \<longrightarrow> answered deadline polls address events)"
proof (induction polls arbitrary: events)
  case (Cons p polls)
  obtain now reached where p: "p = (now, reached)" by (cases p)
  show ?case
  proof (cases "now < deadline \<and> \<not> reached")
    case True
    with Cons.prems p obtain ev1 where ev: "events = DialTo address False # ev1"
      and rest: "wait_polls deadline address polls = Some (ev1, ready)" by auto
    have "answered deadline (p # polls) address events" if ready
    proof -
      from Cons.IH [OF rest] that obtain n where n: "n < length polls"
        "filter dials ev1 = replicate n (DialTo address False) @ [DialTo address True]"
        "map snd (take n polls) = replicate n False" "snd (polls ! n)" "fst (polls ! n) < deadline"
        unfolding answered_def by blast
      then show ?thesis unfolding answered_def ev using True p by (intro exI [of _ "Suc n"]) simp
    qed
    with Cons.IH [OF rest] ev show ?thesis by auto
  next
    case False
    with Cons.prems p show ?thesis
      by (auto simp: answered_def split: if_splits intro!: exI [of _ "0 :: nat"])
  qed
qed simp

definition starts :: "server_event \<Rightarrow> bool" where
  "starts ev = (case ev of StartProcess b e \<Rightarrow> True | _ \<Rightarrow> False)"

lemma starts_simps [simp]:
  "starts (StartProcess b e)" "\<not> starts (DialTo a r)" "\<not> starts (MkdirAll d)" "\<not> starts (OpenLog l)"
  "\<not> starts CloseLog" "\<not> starts KillProcess"
  by (simp_all add: starts_def)

definition running :: "server_env \<Rightarrow> server_event list \<Rightarrow> bool" where
  "running env events \<longleftrightarrow> sv_start env = None
     \<and> (\<exists>ev \<in> set events. starts ev) \<and> KillProcess \<notin> set events"

text \<open>The endpoint a start was given, by option or environment, and the address behind it.\<close>

definition given_endpoint :: "server_env \<Rightarrow> start_options \<Rightarrow> string" where
  "given_endpoint env options1 = (if trim_space (st_endpoint options1) = []
     then trim_space (sv_getenv env ''AXON_ENDPOINT'') else trim_space (st_endpoint options1))"

definition endpoint_address :: "string \<Rightarrow> string" where
  "endpoint_address endpoint = (case parseRuntimeEndpoint endpoint of (host, port) \<Rightarrow> JoinHostPort host (dec_int port))"

text \<open>A process was started, and told to listen on the address.\<close>

definition bound_to :: "string \<Rightarrow> server_event list \<Rightarrow> bool" where
  "bound_to address events \<longleftrightarrow> (\<exists>binary vars mtls. StartProcess binary (vars @ [''AXON_BIND='' @ address, mtls]) \<in> set events)"

lemma waited:
  assumes "waitForRuntimePort env host port timeout = Some (d, ready)"
  shows "filter dials d = d"
    and "ready \<Longrightarrow> answered (sv_wait_from env + timeout) (sv_polls env) (JoinHostPort host (dec_int port)) d"
    and "KillProcess \<notin> set d" and "OpenLog l \<notin> set d" and "ReapProcess \<notin> set d" and "\<exists>ev \<in> set d. starts ev \<Longrightarrow> False"
  using wait_polls_dials [OF assms [unfolded waitForRuntimePort_def]] by auto

lemma answered_behind:
  assumes "answered deadline polls address d" and "filter dials started = []"
  shows "answered deadline polls address (started @ d)"
  using assms by (simp add: answered_def)

lemma connect_server_owned:
  assumes "connect_server env endpoint timeout = Some (events, res)"
  shows "case res of Inr h \<Rightarrow> \<not> sh_process h \<and> sh_endpoint h = endpoint
      \<and> answered (sv_wait_from env + timeout) (sv_polls env) (endpoint_address endpoint) events | Inl _ \<Rightarrow> True"
    and "\<not> running env events" and "OpenLog l \<notin> set events"
proof -
  obtain host port where at: "parseRuntimeEndpoint endpoint = (host, port)" by fastforce
  with assms obtain ready where wait: "waitForRuntimePort env host port timeout = Some (events, ready)"
    and res: "res = (if ready then Inr \<lparr>sh_endpoint = endpoint, sh_process = False, sh_log_file = []\<rparr>
                   else Inl (dendrite ''BRIDGE'' (''cannot reach runtime at '' @ endpoint)))"
    by (auto simp: connect_server_def)
  note facts = waited [OF wait]
  show "case res of Inr h \<Rightarrow> \<not> sh_process h \<and> sh_endpoint h = endpoint
      \<and> answered (sv_wait_from env + timeout) (sv_polls env) (endpoint_address endpoint) events | Inl _ \<Rightarrow> True"
    using facts(2) by (simp add: res at endpoint_address_def)
  show "\<not> running env events" using facts(6) by (auto simp: running_def)
  show "OpenLog l \<notin> set events" by (rule facts(4))
qed

lemma spawn_server_owned:
  assumes "spawn_server env options1 binary logFile port timeout = Some (events, res)"
  shows "case res of
      Inr h \<Rightarrow> sh_process h \<and> running env events \<and> (\<exists>address. sh_endpoint h = ''http://'' @ address
        \<and> bound_to address events \<and> answered (sv_wait_from env + timeout) (sv_polls env) address events)
      | Inl _ \<Rightarrow> \<not> running env events" (is ?res)
    and "OpenLog l \<in> set events \<and> sv_open_log env l = None \<longrightarrow> CloseLog \<in> set events" (is ?log)
proof -
  note started = assms [unfolded spawn_server_def Let_def]
  have "?res \<and> ?log"
  proof (cases "sv_mkdir env (path_Dir logFile) = None \<and> sv_open_log env logFile = None \<and> sv_start env = None")
    case True
    obtain d ready where wait: "waitForRuntimePort env ''127.0.0.1'' port timeout = Some (d, ready)"
      using started True by (auto split: option.splits)
    note facts = waited [OF wait]
    show ?thesis
    proof (cases ready)
      case True
      note up = facts(2) [OF True]
      from started True wait \<open>_ \<and> _ \<and> _\<close> have res: "res = Inr \<lparr>sh_endpoint = ''http://'' @ JoinHostPort ''127.0.0.1'' (dec_int port),
          sh_process = True, sh_log_file = logFile\<rparr>"
        and events: "\<exists>mtls. events = [MkdirAll (path_Dir logFile), OpenLog logFile, StartProcess binary
          (sv_environ env @ [''AXON_BIND='' @ JoinHostPort ''127.0.0.1'' (dec_int port), mtls]), CloseLog] @ d"
        by auto
      from events obtain started1 mtls where ev: "events = started1 @ d" and st: "filter dials started1 = []"
        "StartProcess binary (sv_environ env @ [''AXON_BIND='' @ JoinHostPort ''127.0.0.1'' (dec_int port), mtls]) \<in> set started1"
        "KillProcess \<notin> set started1" "CloseLog \<in> set started1" by fastforce
      have "bound_to (JoinHostPort ''127.0.0.1'' (dec_int port)) events"
        using st(2) by (auto simp: bound_to_def ev)
      moreover have "running env events"
        using st(2,3) facts(3) \<open>_ \<and> _ \<and> _\<close> by (auto simp: running_def ev intro: starts_simps(1))
      ultimately show ?thesis using answered_behind [OF up st(1)] st(4) by (simp add: res ev)
    next
      case False
      with started wait \<open>_ \<and> _ \<and> _\<close> show ?thesis by (auto simp: running_def)
    qed
  next
    case False
    with started show ?thesis by (auto simp: running_def split: option.splits)
  qed
  then show ?res ?log by blast+
qed

text \<open>C40: whoever starts a server gets a handle only after a dial of its port has succeeded, before
  the timeout and after none or some that failed, all to one address: that of the endpoint that was
  given by option or environment, and then the handle is without a process; or the loopback address
  the started process was told to listen on, and then that process runs and the handle has it and
  names that address.  Whoever gets an error is left without a running process; and the log that was
  opened is closed either way.\<close>

theorem started_server_owned:
  assumes "StartServerWithOptions env options1 = Some (events, res)"
  shows "(case res of
      Inr h \<Rightarrow> sh_process h = running env events \<and> (sh_process h \<longleftrightarrow> given_endpoint env options1 = [])
        \<and> (\<exists>address. answered (sv_wait_from env + start_timeout options1) (sv_polls env) address events
             \<and> (if sh_process h then sh_endpoint h = ''http://'' @ address \<and> bound_to address events
                else sh_endpoint h = given_endpoint env options1 \<and> address = endpoint_address (sh_endpoint h)))
    | Inl _ \<Rightarrow> \<not> running env events)
    \<and> (\<forall>logFile. OpenLog logFile \<in> set events \<and> sv_open_log env logFile = None \<longrightarrow> CloseLog \<in> set events)"
proof -
  let ?given = "given_endpoint env options1"
  consider (connect) "connect_server env ?given (start_timeout options1) = Some (events, res)" "?given \<noteq> []"
    | (spawn) binary logFile port where "?given = []"
        "spawn_server env options1 binary logFile port (start_timeout options1) = Some (events, res)"
    | (refused) e where "events = []" "res = Inl e"
    using assms by (auto simp: StartServerWithOptions_def given_endpoint_def Let_def split: if_splits sum.splits)
  then show ?thesis
  proof cases
    case connect
    from connect_server_owned [OF connect(1)] connect(2) show ?thesis by (cases res) auto
  next
    case spawn
    from spawn_server_owned [OF spawn(2)] spawn(1) show ?thesis by (cases res) auto
  next
    case refused
    then show ?thesis by (simp add: running_def)
  qed
qed

definition demo_server_env :: "(int \<times> bool) list \<Rightarrow> server_env" where
  "demo_server_env polls = \<lparr>sv_search = \<lparr>sn_getenv = (\<lambda>_. []), sn_getwd = None, sn_exists = (\<lambda>_. False),
       sn_read = (\<lambda>_. None), sn_goos = ''linux''\<rparr>,
     sv_look_path = (\<lambda>n. Some (''/bin/'' @ n)), sv_home = Some ''/home/a'', sv_temp = ''/tmp'', sv_free_port = Inr 8080,
     sv_mkdir = (\<lambda>_. None), sv_open_log = (\<lambda>_. None), sv_start = None, sv_environ = [], sv_wait_from = 0,
     sv_polls = polls, sv_show = (\<lambda>_. ''10s'')\<rparr>"

lemma demo_server_sel [simp]:
  "sn_getenv (sv_search (demo_server_env polls)) k = []" "sv_free_port (demo_server_env polls) = Inr 8080"
  "sv_mkdir (demo_server_env polls) d = None" "sv_open_log (demo_server_env polls) d = None"
  "sv_start (demo_server_env polls) = None" "sv_polls (demo_server_env polls) = polls"
  "sv_wait_from (demo_server_env polls) = 0" "runtimeBinary (demo_server_env polls) = Inr ''/bin/axon-runtime''"
  by (simp_all add: demo_server_env_def runtimeBinary_def trim_space_trimmed)

definition demo_server_options :: start_options where
  "demo_server_options = \<lparr>st_endpoint = [], st_log_file = [], st_insecure = None, st_timeout = 0\<rparr>"

lemma demo_server_options_sel [simp]: "st_endpoint demo_server_options = []" "st_log_file demo_server_options = []" "start_timeout demo_server_options = 10 * second"
  by (simp_all add: demo_server_options_def start_timeout_def)

theorem started_server_owned_witness:
  "(\<exists>events h. StartServerWithOptions (demo_server_env [(1, False), (2, True)]) demo_server_options = Some (events, Inr h)
      \<and> sh_process h \<and> running (demo_server_env [(1, False), (2, True)]) events
      \<and> (\<exists>address. answered (10 * second) [(1, False), (2, True)] address events \<and> bound_to address events))
   \<and> (\<exists>events e. StartServerWithOptions (demo_server_env [(1, False), (10 * second, True)]) demo_server_options = Some (events, Inl e)
      \<and> \<not> running (demo_server_env [(1, False), (10 * second, True)]) events)"
proof -
  let ?up = "demo_server_env [(1, False), (2, True)]" and ?late = "demo_server_env [(1, False), (10 * second, True)]"
  have start: "StartServerWithOptions (demo_server_env polls) demo_server_options = spawn_server (demo_server_env polls) demo_server_options
      ''/bin/axon-runtime'' (path_Join [runtimeLogDir (demo_server_env polls), ''axon-runtime.log'']) 8080 (10 * second)" for polls
    by (simp add: StartServerWithOptions_def trim_space_trimmed)
  have "\<exists>events h. StartServerWithOptions ?up demo_server_options = Some (events, Inr h) \<and> sh_process h"
    by (simp add: start spawn_server_def Let_def waitForRuntimePort_def second_def)
  moreover have "\<exists>events e. StartServerWithOptions ?late demo_server_options = Some (events, Inl e)"
    by (simp add: start spawn_server_def Let_def waitForRuntimePort_def second_def)
  ultimately show ?thesis
    using started_server_owned [of ?up demo_server_options] started_server_owned [of ?late demo_server_options] by fastforce
qed

text \<open>The process of a runtime that does not come up is killed and not waited for.\<close>

lemma unready_not_reaped:
  assumes "StartServerWithOptions env options1 = Some (events, res)"
  shows "ReapProcess \<notin> set events"
proof -
  have dials: "ReapProcess \<notin> set d" if "waitForRuntimePort env host port timeout = Some (d, ready)"
    for host port timeout d ready
    by (rule waited(5) [OF that])
  show ?thesis
    using assms
    by (auto simp: StartServerWithOptions_def connect_server_def spawn_server_def Let_def dest: dials
        split: if_splits sum.splits prod.splits option.splits)
qed

text \<open>Stopping twice ends the process once.\<close>

lemma stop_once:
  assumes "Stop exits h = (events, h')"
  shows "Stop again h' = ([], h')"
  using assms by (auto simp: Stop_def split: option.splits if_splits)

end
