(* ===== verification/InvokeRequests.thy ===== *)
theory InvokeRequests
  imports ClientAuthority
begin

text \<open>
  The request of the transports to a daemon (\<open>axon/invoke_request.go\<close>): the identity tuple, the
  content and the authorities that travel beside it, and what comes back.  A nil pointer is
  \<open>None\<close>.
\<close>

section \<open>The tuple\<close>

record agent_ref =
  ag_ura :: string

record subject_ref =
  sf_ura :: string

record presigned_signature =
  ps_signature :: bytes
  ps_signer_public_key :: bytes

datatype causal_context_kind = CausalContextNull | CausalContextScalar | CausalContextVector | CausalContextDAG

record causal_receipt_ref =
  cq_hash_hex :: string
  cq_ura :: string

record request_causal =
  rz_kind :: causal_context_kind
  rz_null_reason :: string
  rz_scalar :: causal_receipt_ref
  rz_vector :: "causal_receipt_ref list"
  rz_dag_root_hex :: string
  rz_dag_proof_ura :: string

definition zero_causal :: request_causal where
  "zero_causal = \<lparr>rz_kind = CausalContextNull, rz_null_reason = [], rz_scalar = \<lparr>cq_hash_hex = [], cq_ura = []\<rparr>,
     rz_vector = [], rz_dag_root_hex = [], rz_dag_proof_ura = []\<rparr>"

definition CausalNullWithReason :: "string \<Rightarrow> request_causal" where
  "CausalNullWithReason reason = zero_causal\<lparr>rz_kind := CausalContextNull, rz_null_reason := reason\<rparr>"

definition CausalScalarRef :: "causal_receipt_ref \<Rightarrow> request_causal" where
  "CausalScalarRef ref = zero_causal\<lparr>rz_kind := CausalContextScalar, rz_scalar := ref\<rparr>"

definition CausalVectorRefs :: "causal_receipt_ref list \<Rightarrow> request_causal" where
  "CausalVectorRefs refs = zero_causal\<lparr>rz_kind := CausalContextVector, rz_vector := refs\<rparr>"

definition CausalDAGRoot :: "string \<Rightarrow> string \<Rightarrow> request_causal" where
  "CausalDAGRoot rootHex proofURA =
     zero_causal\<lparr>rz_kind := CausalContextDAG, rz_dag_root_hex := rootHex, rz_dag_proof_ura := proofURA\<rparr>"

record request_envelope =
  qe_request_id :: string
  qe_caller :: agent_ref
  qe_callee :: agent_ref
  qe_subject :: subject_ref
  qe_causal :: request_causal
  qe_nonce :: bytes
  qe_presigned :: "presigned_signature option"

section \<open>The request and its response\<close>

type_synonym content_encryption = string

definition ContentEncryptionUnspecified :: content_encryption where "ContentEncryptionUnspecified = []"
definition ContentEncryptionAES256GCM :: content_encryption where "ContentEncryptionAES256GCM = ''aes-256-gcm''"
definition ContentEncryptionChaCha20Poly1305 :: content_encryption where
  "ContentEncryptionChaCha20Poly1305 = ''chacha20-poly1305''"

record content_envelope =
  ct_content_type :: string
  ct_encoding :: string
  ct_schema_ura :: string
  ct_encryption :: content_encryption
  ct_key_id :: string

record invoke_request =
  iv_envelope :: request_envelope
  iv_ability :: string
  iv_ability_ura :: string
  iv_arguments_json :: bytes
  iv_content :: "content_envelope option"
  iv_delegation :: "delegation_proof option"
  iv_session :: "session_authority option"
  iv_timeout_ms :: int
  iv_idempotency_key :: string

record invoke_error =
  ie_code :: string
  ie_message :: string
  ie_stage :: string
  ie_security_class :: string
  ie_retryable :: bool
  ie_context :: "string \<rightharpoonup> string"

definition InvokeError_Error :: "invoke_error option \<Rightarrow> string" where
  "InvokeError_Error e = (case e of None \<Rightarrow> ''<nil InvokeError>'' | Some err \<Rightarrow> ie_code err @ '': '' @ ie_message err)"

record invoke_response =
  ir_invocation_id :: string
  ir_state :: string
  ir_result_json :: bytes
  ir_result_content_type :: string
  ir_error :: "invoke_error option"

end
