(* ===== verification/Handles.thy ===== *)
theory Handles
  imports RuntimeControl
begin

text \<open>
  The public reference to one invocation (\<open>InvocationHandle\<close> of \<open>axon/invocation/handle.go\<close>): a
  core, and the control that reaches the runtime with the token the invocation was registered
  under.  Its operations are those of the core and of the runtime.
\<close>

section \<open>Waiting\<close>

text \<open>\<open>None\<close> is a wait that has not returned; \<open>ctx\<close> is the error of the context, if it is done.\<close>

definition handle_Wait :: "'c core \<Rightarrow> go_error option \<Rightarrow> invocation_state option" where
  "handle_Wait c ctx = WaitTerminal c (ctx \<noteq> None)"

definition handle_WaitResult :: "'c core \<Rightarrow> go_error option \<Rightarrow> (invocation_state \<times> go_error option) option" where
  "handle_WaitResult c ctx =
     map_option (\<lambda>state. (state,
       case ic_finalization_err c of Some err \<Rightarrow> Some (AxonErr err) | None \<Rightarrow> ctx)) (WaitTerminal c (ctx \<noteq> None))"

section \<open>Acting\<close>

definition handle_Cancel ::
  "nat \<Rightarrow> platform \<Rightarrow> authority_resolver \<Rightarrow> ending_env \<Rightarrow> string \<Rightarrow> invocation_token \<Rightarrow> 'h runtime \<Rightarrow>
   ('h runtime \<times> unit result) option" where
  "handle_Cancel fuel P resolve e reason t r =
     cancelWithControlOwner fuel P resolve e reason terminalOwnerCallerCancel t r"

definition handle_Send ::
  "platform \<Rightarrow> authority_resolver \<Rightarrow> invocation_token \<Rightarrow> bytes \<Rightarrow> string \<Rightarrow> int \<Rightarrow> bytes \<Rightarrow> i64 \<Rightarrow> 'h runtime \<Rightarrow>
   'h runtime \<times> string result" where
  "handle_Send P resolve t payload messageID now rnd ms r =
     (case sendWithControl P resolve t payload messageID now rnd ms r of
        (r1, res) \<Rightarrow> (r1, bindR res (\<lambda>ack. Ok (ma_id ack))))"

definition handle_CloseInput :: "invocation_token \<Rightarrow> 'h runtime \<Rightarrow> 'h runtime \<times> unit result" where
  "handle_CloseInput t r = control_closeInput t r"

section \<open>What a handle promises\<close>

text \<open>A handle whose token is not the current one of its invocation is refused by every operation,
  and leaves the runtime as it is.\<close>

theorem stale_handle_refused:
  assumes "rt_generations r (tk_invocation_id t) \<noteq> Some (tk_generation t)"
  shows "\<exists>err. handle_Cancel (Suc fuel) P resolve e reason t r = Some (r, Fail err)
    \<and> handle_Send P resolve t payload messageID now rnd ms r = (r, Fail err)
    \<and> handle_CloseInput t r = (r, Fail err)"
proof -
  obtain err where "validateControlLocked r t = Fail err"
    using assms by (auto simp: validateControlLocked_def split: option.splits)
  then show ?thesis
    by (simp add: handle_Cancel_def handle_Send_def sendWithControl_def handle_CloseInput_def
        control_closeInput_def Let_def)
qed

text \<open>A wait that returns without an error has seen the terminal state.\<close>

theorem wait_result_terminal:
  assumes "machine_inv c" and "handle_WaitResult c None = Some (state, None)"
  shows "state_IsTerminal state \<and> state = ic_state c"
  using assms
  by (auto simp: handle_WaitResult_def WaitTerminal_def machine_inv_def core_IsTerminal_def
      split: option.splits if_splits)

end
