(* ===== verification/Spec2Isabelle.thy ===== *)
theory Spec2Isabelle
  imports SignedBytes Admission Inbox ChainProperties LifecycleProperties
    LeaseProperties Durability RuntimeInvoke BundleProperties ClientAuthority UraProperties StreamProperties
    ReconnectProperties WireProperties LedgerProperties SemanticProperties
    ServerProperties InvokeRequests Handles
begin

text \<open>
  A verification development for the Axon SDK for Go: the invocation runtime
  (\<open>axon/invocation\<close>) and the client side around it (\<open>axon\<close>).

  The program.  A caller signs an invocation envelope; the runtime admits it
  (\<open>admission.go\<close>), binds it to a receipt context (\<open>receipt_provider.go\<close>), runs the
  registered ability, and records every lifecycle event twice: as an event of the
  invocation's core (\<open>handle.go\<close>) and as a receipt in a hash chain signed by the callee
  (\<open>audit.go\<close>, \<open>receipt_provider.go\<close>).  Messages reach a running invocation through a
  bounded inbox (\<open>messaging.go\<close>, \<open>inbox_input.go\<close>).  A signed receipt is projected to a
  portable document (\<open>bundle.go\<close>) that others read back and check with the receipt verbs
  (\<open>receipt_verbs.go\<close>).  A client names abilities by addresses (\<open>ura.go\<close>), issues the
  authorities a caller presents (\<open>delegation.go\<close>, \<open>session_authority.go\<close>), and talks to a
  runtime over streams and sessions (\<open>streams.go\<close>, \<open>stream_resume.go\<close>, \<open>bidi_session.go\<close>)
  on a connection that is reopened when it is lost (\<open>reconnect.go\<close>).

  The theories, in the order of their imports.

  \<^item> \<open>Prelude\<close>: Go strings and bytes, 64-bit words, big-endian numbers, and the locale
    \<open>transition_system\<close>: an initial predicate, a step relation and an invariant that
    both respect give the invariant on every reachable state.
  \<^item> \<open>ErrorModel\<close> (\<open>error.go\<close>): the SDK's errors and the type \<open>result\<close>, whose values are
    a result, a returned error or a panic.
  \<^item> \<open>Identity\<close>, \<open>Envelope\<close>, \<open>Authority\<close>, \<open>ReceiptBytes\<close> (\<open>axiom.go\<close>): the values that
    are signed, their validators and their encoders.  \<open>WireFormat\<close> has the locale
    \<open>wire_format\<close> of an encoder that can be followed by anything and still be read
    unambiguously; every encoder of the code is an interpretation of it, so that the
    composed encoders are injective by composition.  The code also encodes values no
    constructor builds, and then leaves members out: \<open>norm_causal\<close>, \<open>norm_envelope\<close> and
    \<open>norm_receipt\<close> are what is left, and two values have the same bytes exactly when these
    agree.  \<open>Samples\<close> holds concrete values for the
    witnesses, \<open>SignedBytes\<close> the theorems on signed bytes.
  \<^item> \<open>Admission\<close> (\<open>admission.go\<close>, \<open>descriptor_bound_builder.go\<close>,
    \<open>descriptor_bound_request.go\<close>, the policy values of \<open>receipt_provider.go\<close>): the
    builder, the replay store and the verification of a request.  The locale
    \<open>nonce_guard\<close> is the contract admission needs from a replay store.
  \<^item> \<open>Inbox\<close>: delivery split where others can act, and the interleavings of producers,
    receivers and closing as a step relation.
  \<^item> \<open>ReceiptChain\<close>, \<open>ReceiptProvider\<close>, \<open>ChainProperties\<close>: records, the chain walk, the
    reservations of concurrent appenders, binding, signing and appending.  The locale
    \<open>receipt_log\<close> is what the invocation core needs of a provider; the default provider is
    its interpretation.
  \<^item> \<open>Lifecycle\<close>, \<open>LifecycleProperties\<close> (\<open>handle.go\<close>): the invocation core, its guards,
    the emission of an event together with its receipt and its persisted copy, and the
    resumable event stream.

  \<^item> \<open>Persistence\<close>, \<open>LeaseProperties\<close> (\<open>persistence.go\<close>): the event file, the index and the
    recovery records of a directory, with every I/O error as an argument; the operations
    refine a map of records (\<open>change\<close>, \<open>perform_record\<close>).
  \<^item> \<open>Durability\<close>: the core writing to the log and recovery reading it back.  The locale
    \<open>event_store\<close> is the contract between the two; the code's sink is its interpretation.

  \<^item> \<open>Supervisor\<close>, \<open>SupervisorProperties\<close> (\<open>supervisor.go\<close>, \<open>supervisor_cleanup.go\<close>,
    \<open>supervisor_recovery.go\<close>, \<open>supervisor_unix.go\<close>): the process guard of an invocation, its
    cleanup attempt and the reaping of orphans; the answers of the operating system are
    arguments, a polling loop runs over the list of its polls.
  \<^item> \<open>Runtime\<close>, \<open>RuntimeControl\<close>, \<open>RuntimeRecovery\<close> (\<open>local_runtime.go\<close>): the registry and its
    locked sections; invoking, finishing, cancelling and timing out as compositions of
    them; suspension, recovery and lease renewal.  \<open>None\<close> is an operation that still waits.
    The recursion over the children of an invocation has fuel.
  \<^item> \<open>RuntimeSteps\<close>: the interleavings of the atomic sections as a step relation, with the
    reservations in flight as a ghost; every operation is a sequence of its steps.
    \<open>RuntimeCapacity\<close> and \<open>RuntimeEnding\<close> hold the invariants of the relation, the accounting
    of slots and the end of invocations; \<open>RuntimeProperties\<close> and \<open>RuntimeInvoke\<close> what a
    cancellation, an invocation and a recovery promise.  \<open>Handles\<close> (\<open>handle.go\<close>): the
    public reference to an invocation, refused by every operation once its token is stale.

  \<^item> \<open>JsonCodec\<close>, \<open>Bundle\<close>, \<open>ReceiptJson\<close> (\<open>bundle.go\<close>): the portable values, their
    conversions in both directions, the counters, and the projection and parsing of a
    receipt; a JSON document is the value \<open>encoding/json\<close> decodes.  \<open>BundleProperties\<close>: a
    receipt survives the trip, what a parsed receipt satisfies, and where parsing panics.
  \<^item> \<open>ReceiptVerbs\<close>, \<open>VerbProperties\<close> (\<open>receipt_verbs.go\<close>): verifying, tracing and proving
    the authority of a receipt; verification agrees with the chain walk, a proof of a
    delegation holds exactly for the receipts the claim names.
  \<^item> \<open>ClientAuthority\<close> (\<open>delegation.go\<close>, \<open>session_authority.go\<close>, \<open>authority_canonical.go\<close>):
    the authorities a client issues, and their relation to what the verbs accept.
  \<^item> \<open>Uras\<close>, \<open>UraProperties\<close> (\<open>ura.go\<close>, \<open>subject_ura.go\<close>, \<open>ability_ref.go\<close>): the grammar of
    addresses; abilities found again from their addresses, and where two grammars of the
    module differ.
  \<^item> \<open>Streams\<close>, \<open>StreamProperties\<close> (\<open>streams.go\<close>): the credit-controlled stream, its
    interleavings as a step relation, and when a consumer is sure of a terminal frame.
  \<^item> \<open>Reconnect\<close>, \<open>ReconnectProperties\<close> (\<open>stream_resume.go\<close>, \<open>reconnect.go\<close>, the handle of
    \<open>client.go\<close>): the stream that reopens its source ends after a bounded number of
    attempts (its loop has a measure, no fuel); the reconnection loop runs over the list of
    its rounds and is \<open>None\<close> when the list is too short; how each round failed, by opening or
    by its hook, is part of its result.
  \<^item> \<open>BidiSession\<close>, \<open>BidiProperties\<close> (\<open>bidi_session.go\<close>): the session lifecycle, and its
    invariant under the interleavings of a sender, a receiver and a closer.
  \<^item> \<open>Base64\<close>, \<open>NativeBridge\<close>, \<open>SignedRequests\<close>, \<open>BidiStream\<close> (\<open>dendrite_bridge_cgo.go\<close> and the
    files around it, \<open>signed_invoke_request.go\<close>): the documents sent to the native library
    and the reading of its answers, the requests of a client, and the native stream under a
    session, with the interleavings of its operations and the calls they make as a ghost.
    \<open>NativeProperties\<close>: bytes survive the trip, handles are exact, calls are ordered, and what a
    terminal receipt of an unknown state would do to a session.
  \<^item> \<open>WireRequests\<close>, \<open>ClientCalls\<close> (\<open>descriptor_bound_wire.go\<close>, both \<open>descriptor_bound_native.go\<close>,
    \<open>descriptor_bound_forwarding.go\<close>, \<open>client.go\<close>): the wire projection of a signed request, its
    native document, and the calls of a client through its transport, cut where another
    goroutine can close the handle.  \<open>WireProperties\<close>: what a projection guarantees, which
    requests a document carries and that the library gets them as the caller signed them, and the
    rules of a causal context.
  \<^item> \<open>Ledger\<close>, \<open>LedgerProperties\<close> (\<open>ledger_projection.go\<close>): the projected records of a ledger
    and their graph; the documents that are accepted, described without the order of checks.
  \<^item> \<open>Semantic\<close>, \<open>SemanticProperties\<close> (\<open>semantic.go\<close>): the catalogue of a runtime with the
    builders over it, and what a call found in the catalogue does.
  \<^item> \<open>LibrarySearch\<close>, \<open>LoadingProperties\<close> (\<open>dendrite_bridge_cgo.go\<close>): the candidate files of the
    native library in their order, loading with the lookup of every symbol, and closing; the
    file found is the first that exists, and a library that is not kept is closed once.
  \<^item> \<open>RuntimeServer\<close>, \<open>ServerProperties\<close> (\<open>runtime_server.go\<close>): reading an endpoint, waiting for
    a port, starting and stopping a runtime, with what is asked of the operating system in
    order and how each dial ended; endpoints are read back, a handle is only given out once its port
    has answered, and a failed start leaves no running process.
    \<open>InvokeRequests\<close> (\<open>invoke_request.go\<close>): the plain request and response values.

  Parameters.  SHA-256, Ed25519, the upper bound for quoting and the like are the fields of
  the record \<open>platform\<close>; no theorem assumes them to be injective or unforgeable.  Where a
  statement depends on collisions (\<open>last_hash_commits\<close>), the collision is one of its
  outcomes.  Encoders write lengths in 32 bits; the predicates \<open>sized_...\<close> say that the values
  are small enough for that.

  Time is an argument of each operation.  Locks are modelled by the granularity of the
  steps: what the code does under one lock is one step.

  The native library is foreign code: a call into it is a function from the symbol, the handle
  and the document to an answer, the field \<open>ne_call\<close> of the record \<open>native_env\<close>; a document is
  the value \<open>encoding/json\<close> makes of it, with numbers as the values of \<open>float64\<close>.

  Limits of the model.  A panic inside \<open>AppendSignedReceipt\<close> leaves the mutex of the core locked
  in the code, so that whoever needs it next (the panic handler of the runtime among them) waits for
  ever; the model goes on.  The channel that \<open>emitContext\<close> closes after its unlock is closed with
  the event.  \<open>Cancel\<close> and the waits of the runtime are those of a context that is not cancelled.
  An operation of the log is one step against all others on the directory, as it is when they share
  one \<open>PersistentLog\<close>, which holds the lock; texts are written and read back as they are, which
  holds for valid UTF-8.  The reconnection loop runs with nobody marking the transport as
  disconnected meanwhile.  Durations of a supervisor are unbounded integers.  An error that the code
  wraps keeps its text and loses its cause.  The names of a catalogue are matched as the index
  joins them, service, dot, name.

  Step relations.  \<open>thread_step\<close> (\<open>RuntimeProperties\<close>) has the operations of the runtime, the
  cleanup of an invocation with its two outcomes, and the emission of its terminal state, each as the
  modelled code computes it; outside a whole operation, an invocation ends only in an emission whose
  thread has seen \<open>finishCleanup\<close> return without an error.  \<open>durable_step\<close> has the emissions of one core and any operation on its log, those
  of other owners included, while the record names the runtime of the core.  \<open>stream_step\<close> has the
  sections of the native stream, each the operation of the model itself.

  Not modelled: accessors that return a field or a copy of it, the C declarations of the native
  library and the stubs of a build without it, the attributes of a started process and the
  calls of Windows, and the example programs.
\<close>

end
